(* ===== verification/CL_Prelude.thy ===== *)
theory CL_Prelude
  imports Complex_Main "HOL-Library.AList"
begin

text \<open>
  Prelude of the CivicLoop development.  It holds what every component shares:
  \<^item> the result type \<open>'e + 'a\<close> of fallible code (\<open>Inl\<close> is a raised exception) and its sequencing
    operator \<open>try_bind\<close>, the model of ``the statement after it runs only when this one did not
    raise'';
  \<^item> the table operations the Django models are read and written through
    (\<open>tfind\<close> for \<open>filter(pk=..).first()\<close> and \<open>get\<close>, \<open>tput\<close> for \<open>save\<close> of an existing row,
    \<open>tdel\<close> for \<open>filter(..).delete()\<close>), with the frame lemmas that carry the component proofs;
  \<^item> the named collections \<open>civic_splits\<close> and \<open>table_simps\<close>.
  A table is the list of its rows in insertion order; a primary key is a function of the row.
\<close>

named_theorems table_simps \<open>rewrite rules for table reads after table writes\<close>
named_theorems result_simps \<open>rewrite rules for the result type\<close>

section \<open>Results\<close>

definition try_bind :: "'e + 'a \<Rightarrow> ('a \<Rightarrow> 'e + 'b) \<Rightarrow> 'e + 'b" where
  "try_bind m f = (case m of Inl e \<Rightarrow> Inl e | Inr x \<Rightarrow> f x)"

definition of_option :: "'e \<Rightarrow> 'a option \<Rightarrow> 'e + 'a" where
  "of_option e x = (case x of None \<Rightarrow> Inl e | Some a \<Rightarrow> Inr a)"

lemma try_bind_Inl [simp, result_simps]: "try_bind (Inl e) f = Inl e"
  by (simp add: try_bind_def)

lemma try_bind_Inr [simp, result_simps]: "try_bind (Inr x) f = f x"
  by (simp add: try_bind_def)

lemma try_bind_eq_Inr [result_simps]:
  "try_bind m f = Inr y \<longleftrightarrow> (\<exists>x. m = Inr x \<and> f x = Inr y)"
  by (cases m) auto

lemma try_bind_eq_Inl [result_simps]:
  "try_bind m f = Inl e \<longleftrightarrow> m = Inl e \<or> (\<exists>x. m = Inr x \<and> f x = Inl e)"
  by (cases m) auto

lemma of_option_simps [simp, result_simps]:
  "of_option e None = Inl e" "of_option e (Some a) = Inr a"
  by (simp_all add: of_option_def)

lemma of_option_eq_Inr [result_simps]: "of_option e x = Inr a \<longleftrightarrow> x = Some a"
  by (cases x) auto

lemma if_Inl_eq_Inr [result_simps]:
  "(if P then Inl e else m) = Inr y \<longleftrightarrow> \<not> P \<and> m = Inr y"
  by simp

section \<open>Tables\<close>

definition tfind :: "('r \<Rightarrow> 'k) \<Rightarrow> 'k \<Rightarrow> 'r list \<Rightarrow> 'r option" where
  "tfind key k t = find (\<lambda>r. key r = k) t"

definition tput :: "('r \<Rightarrow> 'k) \<Rightarrow> 'r \<Rightarrow> 'r list \<Rightarrow> 'r list" where
  "tput key r t = map (\<lambda>x. if key x = key r then r else x) t"

definition tdel :: "('r \<Rightarrow> bool) \<Rightarrow> 'r list \<Rightarrow> 'r list" where
  "tdel P t = filter (\<lambda>r. \<not> P r) t"

definition keys_ok :: "('r \<Rightarrow> 'k) \<Rightarrow> 'r list \<Rightarrow> bool" where
  "keys_ok key t \<longleftrightarrow> distinct (map key t)"

lemma tfind_Nil [simp]: "tfind key k [] = None"
  by (simp add: tfind_def)

lemma tfind_Cons [simp]:
  "tfind key k (r # t) = (if key r = k then Some r else tfind key k t)"
  by (simp add: tfind_def)

lemma tfind_key: "tfind key k t = Some r \<Longrightarrow> key r = k"
  by (induction t) (auto split: if_splits)

lemma tfind_in: "tfind key k t = Some r \<Longrightarrow> r \<in> set t"
  by (induction t) (auto split: if_splits)

lemma tfind_None: "tfind key k t = None \<longleftrightarrow> k \<notin> key ` set t"
  by (induction t) (auto split: if_splits)

lemma tfind_append [table_simps]:
  "tfind key k (t @ u) = (case tfind key k t of None \<Rightarrow> tfind key k u | Some r \<Rightarrow> Some r)"
  by (induction t) auto

lemma tfind_snoc_fresh:
  "tfind key (key r) t = None \<Longrightarrow>
     tfind key k (t @ [r]) = (if k = key r then Some r else tfind key k t)"
  by (simp add: tfind_append split: option.splits)

lemma tput_Nil [simp]: "tput key r [] = []"
  by (simp add: tput_def)

lemma tput_Cons [simp]:
  "tput key r (x # t) = (if key x = key r then r else x) # tput key r t"
  by (simp add: tput_def)

lemma tput_append [table_simps]: "tput key r (t @ u) = tput key r t @ tput key r u"
  by (simp add: tput_def)

lemma length_tput [simp]: "length (tput key r t) = length t"
  by (simp add: tput_def)

lemma tfind_tput [table_simps]:
  "tfind key k (tput key r t) =
     (if k = key r then (case tfind key k t of None \<Rightarrow> None | Some _ \<Rightarrow> Some r)
      else tfind key k t)"
  by (induction t) auto

lemma map_key_tput [table_simps]: "map key (tput key r t) = map key t"
  by (induction t) auto

lemma image_pk_tput: "key ` set (tput key r t) = key ` set t"
  using map_key_tput [of key r t] by (metis image_set)

lemma keys_ok_tput [simp]: "keys_ok key (tput key r t) = keys_ok key t"
  by (simp add: keys_ok_def map_key_tput)

lemma keys_ok_append_new:
  "keys_ok key t \<Longrightarrow> tfind key (key r) t = None \<Longrightarrow> keys_ok key (t @ [r])"
  by (auto simp: keys_ok_def tfind_None)

lemma keys_ok_tdel [simp, intro]: "keys_ok key t \<Longrightarrow> keys_ok key (tdel P t)"
  by (simp add: keys_ok_def tdel_def distinct_map_filter)

lemma keys_ok_Nil [simp]: "keys_ok key []"
  by (simp add: keys_ok_def)

lemma set_tdel [simp]: "set (tdel P t) = {r \<in> set t. \<not> P r}"
  by (auto simp: tdel_def)

lemma in_tput: "x \<in> set (tput key r t) \<Longrightarrow> x = r \<or> (x \<in> set t \<and> key x \<noteq> key r)"
  by (auto simp: tput_def split: if_splits)

lemma tput_absent: "key r \<notin> key ` set t \<Longrightarrow> tput key r t = t"
  by (induction t) auto

lemma tput_id: "keys_ok key t \<Longrightarrow> r \<in> set t \<Longrightarrow> tput key r t = t"
  by (induction t) (auto simp: keys_ok_def tput_absent)

lemma in_tput_self: "key r \<in> key ` set t \<Longrightarrow> r \<in> set (tput key r t)"
  by (induction t) auto

lemma in_tput_other: "x \<in> set t \<Longrightarrow> key x \<noteq> key r \<Longrightarrow> x \<in> set (tput key r t)"
  by (induction t) auto

lemma tfind_unique:
  "keys_ok key t \<Longrightarrow> r \<in> set t \<Longrightarrow> tfind key (key r) t = Some r"
  by (induction t) (auto simp: keys_ok_def)

lemma keys_ok_inj:
  "keys_ok key t \<Longrightarrow> r \<in> set t \<Longrightarrow> s \<in> set t \<Longrightarrow> key r = key s \<Longrightarrow> r = s"
  by (metis option.inject tfind_unique)

lemma tput_tput: "key r = key q \<Longrightarrow> tput key r (tput key q t) = tput key r t"
  by (induction t) auto

text \<open>A write by primary key, seen through a second unique column that it keeps.\<close>

lemma map_tput_second:
  assumes "keys_ok key t" and "old \<in> set t" and "key r = key old" and "g r = g old"
  shows "map g (tput key r t) = map g t"
proof -
  have "g (if key x = key r then r else x) = g x" if "x \<in> set t" for x
    using assms keys_ok_inj [OF assms(1) that assms(2)] by auto
  then show ?thesis by (simp add: tput_def)
qed

lemma keys_ok_tput_second:
  assumes "keys_ok key t" and "old \<in> set t" and "key r = key old" and "key2 r = key2 old"
  shows "keys_ok key2 (tput key r t) = keys_ok key2 t"
  using map_tput_second [of key t old r key2] assms by (simp add: keys_ok_def)

lemma tfind_tput_second:
  assumes "keys_ok key t" and "keys_ok key2 t" and "old \<in> set t" and "key r = key old" and "key2 r = key2 old"
  shows "tfind key2 k (tput key r t) = (if k = key2 old then Some r else tfind key2 k t)"
proof (cases "k = key2 old")
  case True
  have "r \<in> set (tput key r t)" using assms by (intro in_tput_self) auto
  moreover have "keys_ok key2 (tput key r t)" using assms by (simp add: keys_ok_tput_second)
  ultimately show ?thesis using True assms tfind_unique by metis
next
  case False
  have "tfind key2 k (tput key r t) = tfind key2 k t"
    using assms(1,3-5) False
  proof (induction t)
    case (Cons x t)
    show ?case
    proof (cases "key x = key r")
      case True
      with Cons.prems have "x = old" by (metis keys_ok_inj list.set_intros(1))
      moreover have "tput key r t = t"
        using Cons.prems True by (intro tput_absent) (auto simp: keys_ok_def)
      ultimately show ?thesis using Cons.prems True by simp
    next
      case False
      with Cons.prems have "old \<in> set t" and "keys_ok key t" by (auto simp: keys_ok_def)
      with Cons False show ?thesis by simp
    qed
  qed simp
  with False show ?thesis by simp
qed

lemma tfind_tdel:
  "\<not> (\<exists>r \<in> set t. key r = k \<and> P r) \<Longrightarrow> tfind key k (tdel P t) = tfind key k t"
  by (induction t) (auto simp: tdel_def)

lemma tfind_tdel_all:
  "(\<And>r. r \<in> set t \<Longrightarrow> key r = k \<Longrightarrow> P r) \<Longrightarrow> tfind key k (tdel P t) = None"
  by (auto simp: tfind_None)

text \<open>
  The sum of a column over a table: how one row's write moves it.  The budget counters are such
  sums, so that every ledger proof is an instance of \<open>tsum_tput\<close>.
\<close>

definition tsum :: "('r \<Rightarrow> int) \<Rightarrow> 'r list \<Rightarrow> int" where
  "tsum f t = sum_list (map f t)"

lemma tsum_simps [simp]:
  "tsum f [] = 0" "tsum f (r # t) = f r + tsum f t" "tsum f (t @ u) = tsum f t + tsum f u"
  by (simp_all add: tsum_def)

lemma tsum_tput_absent: "key r \<notin> key ` set t \<Longrightarrow> tsum f (tput key r t) = tsum f t"
  by (simp add: tput_absent)

lemma tsum_tput:
  assumes "keys_ok key t" and "tfind key (key r) t = Some old"
  shows "tsum f (tput key r t) = tsum f t - f old + f r"
  using assms
proof (induction t)
  case (Cons x t)
  show ?case
  proof (cases "key x = key r")
    case True
    with Cons.prems have "key r \<notin> key ` set t" and "x = old"
      by (auto simp: keys_ok_def)
    with True show ?thesis by (simp add: tsum_tput_absent)
  next
    case False
    with Cons show ?thesis by (auto simp: keys_ok_def)
  qed
qed simp

lemma tsum_nonneg: "(\<And>r. r \<in> set t \<Longrightarrow> 0 \<le> f r) \<Longrightarrow> 0 \<le> tsum f t"
  by (induction t) (auto intro: add_nonneg_nonneg)

lemma tsum_member_le:
  "(\<And>r. r \<in> set t \<Longrightarrow> 0 \<le> f r) \<Longrightarrow> r \<in> set t \<Longrightarrow> f r \<le> tsum f t"
proof (induction t)
  case (Cons x t)
  then have "0 \<le> tsum f t" by (auto intro: tsum_nonneg)
  with Cons show ?case by fastforce
qed simp

lemma tsum_cong: "(\<And>r. r \<in> set t \<Longrightarrow> f r = g r) \<Longrightarrow> tsum f t = tsum g t"
  by (induction t) auto


section \<open>State machines\<close>

text \<open>
  A component whose operations are the steps of a relation, with the invariant its operations keep.
  Each component interprets it on its own step relation; the properties of reachable states read the
  invariant there.
\<close>

locale state_machine =
  fixes init :: "'s \<Rightarrow> bool"
    and step :: "'s \<Rightarrow> 's \<Rightarrow> bool"
    and inv :: "'s \<Rightarrow> bool"
  assumes init_inv: "init s \<Longrightarrow> inv s"
    and step_inv: "inv s \<Longrightarrow> step s s' \<Longrightarrow> inv s'"
begin

lemma run_inv: "step\<^sup>*\<^sup>* s s' \<Longrightarrow> inv s \<Longrightarrow> inv s'"
  by (induction rule: rtranclp_induct) (auto intro: step_inv)

lemma reachable_inv: "init s0 \<Longrightarrow> step\<^sup>*\<^sup>* s0 s \<Longrightarrow> inv s"
  using run_inv init_inv by blast

lemma run_step_inv: "inv s \<Longrightarrow> step s s' \<Longrightarrow> step\<^sup>*\<^sup>* s' s'' \<Longrightarrow> inv s''"
  using run_inv step_inv by blast

end

end
