(* ===== verification/Py_Values.thy ===== *)
theory Py_Values
  imports CL_Prelude "HOL-Library.List_Lexorder" "HOL-Library.Char_ord"
begin

text \<open>
  The Python values and the part of the standard library that the modelled code uses.

  A \<open>json\<close> value is what a \<open>JSONField\<close> or a parsed request body holds; a \<open>dict\<close> is the association
  list of its items in insertion order.  A \<open>char\<close> stands for the code point with its number
  (U+0000 to U+00FF), so that \<open>len\<close> counts code points, and \<open>lower\<close>, \<open>strip\<close> and the regular
  expression class \<open>\w\<close> are written out for exactly that range.  A float is the rational number it
  denotes (\<open>Float64\<close> has its arithmetic).  The values \<open>py_env\<close> carries are the functions of the
  library whose results the code never inspects: the SHA-256 hex digest and the \<open>repr\<close> of the
  values that \<open>str\<close> does not spell out here (floats, lists, dictionaries).
\<close>

section \<open>Values\<close>

datatype json =
    JNull
  | JBool bool
  | JInt int
  | JFloat rat
  | JStr string
  | JList "json list"
  | JObj "(string \<times> json) list"

type_synonym dict = "(string \<times> json) list"

datatype py_error =
    KeyError
  | TypeError
  | ValueError string
  | OverflowError
  | AttributeError

record py_env =
  sha256_hex :: "string \<Rightarrow> string"
  repr_float :: "rat \<Rightarrow> string"
  repr_other :: "json \<Rightarrow> string"

text \<open>\<open>d.get(k)\<close>, \<open>d.get(k, default)\<close> and \<open>d[k]\<close>.\<close>

definition dget :: "dict \<Rightarrow> string \<Rightarrow> json" where
  "dget d k = (case map_of d k of None \<Rightarrow> JNull | Some v \<Rightarrow> v)"

definition dget_default :: "dict \<Rightarrow> string \<Rightarrow> json \<Rightarrow> json" where
  "dget_default d k v0 = (case map_of d k of None \<Rightarrow> v0 | Some v \<Rightarrow> v)"

definition dindex :: "dict \<Rightarrow> string \<Rightarrow> py_error + json" where
  "dindex d k = (case map_of d k of None \<Rightarrow> Inl KeyError | Some v \<Rightarrow> Inr v)"

text \<open>\<open>d.update(e)\<close>: an existing key keeps its place, a new one goes to the end.\<close>

fun dict_update :: "dict \<Rightarrow> dict \<Rightarrow> dict" where
  "dict_update d [] = d"
| "dict_update d ((k, v) # e) = dict_update (AList.update k v d) e"

lemma map_of_dict_update:
  assumes "distinct (map fst e)"
  shows "map_of (dict_update d e) k = (case map_of e k of None \<Rightarrow> map_of d k | Some v \<Rightarrow> Some v)"
  using assms
proof (induction e arbitrary: d)
  case (Cons kv e)
  obtain k' v' where kv: "kv = (k', v')" by (cases kv)
  have "k' = k \<Longrightarrow> map_of e k = None"
    using Cons.prems kv by (simp add: map_of_eq_None_iff)
  with Cons kv show ?case by (auto simp: update_conv' split: option.splits)
qed simp

lemma map_of_dict_update_other: "k \<notin> fst ` set e \<Longrightarrow> map_of (dict_update d e) k = map_of d k"
  by (induction d e rule: dict_update.induct) (auto simp: update_conv')

text \<open>Truth value testing.\<close>

fun truthy :: "json \<Rightarrow> bool" where
  "truthy JNull = False"
| "truthy (JBool b) = b"
| "truthy (JInt i) = (i \<noteq> 0)"
| "truthy (JFloat r) = (r \<noteq> 0)"
| "truthy (JStr s) = (s \<noteq> [])"
| "truthy (JList l) = (l \<noteq> [])"
| "truthy (JObj d) = (d \<noteq> [])"

text \<open>\<open>x or y\<close>, and the test \<open>x in ("", None)\<close>.\<close>

definition py_or :: "json \<Rightarrow> json \<Rightarrow> json" where
  "py_or x y = (if truthy x then x else y)"

definition blank :: "json \<Rightarrow> bool" where
  "blank v \<longleftrightarrow> v = JNull \<or> v = JStr []"

text \<open>Equality compares the numeric types by value; \<open>True == 1\<close> and \<open>25 == 25.0\<close>.\<close>

fun num_of :: "json \<Rightarrow> rat option" where
  "num_of (JBool b) = Some (if b then 1 else 0)"
| "num_of (JInt i) = Some (of_int i)"
| "num_of (JFloat r) = Some r"
| "num_of _ = None"

text \<open>\<open>v == n\<close> for an integer literal or table value \<open>n\<close>.\<close>

definition eq_int :: "json \<Rightarrow> int \<Rightarrow> bool" where
  "eq_int v n \<longleftrightarrow> num_of v = Some (of_int n)"

text \<open>Python's \<open>==\<close> on JSON values.\<close>

function py_eq :: "json \<Rightarrow> json \<Rightarrow> bool" where
  "py_eq x y =
     (case (x, y) of
        (JNull, JNull) \<Rightarrow> True
      | (JStr a, JStr b) \<Rightarrow> a = b
      | (JList xs, JList ys) \<Rightarrow> length xs = length ys \<and> list_all (\<lambda>(a, b). py_eq a b) (zip xs ys)
      | (JObj d, JObj d') \<Rightarrow>
          length d = length d'
          \<and> list_all (\<lambda>(k, v). case map_of d' k of None \<Rightarrow> False | Some w \<Rightarrow> py_eq v w) d
      | _ \<Rightarrow> (case (num_of x, num_of y) of (Some a, Some b) \<Rightarrow> a = b | _ \<Rightarrow> False))"
  by pat_completeness auto
termination
proof (relation "measure (\<lambda>(x, y). size x)", goal_cases)
  case (2 x y a b xs ys p u v)
  then have "u \<in> set xs" by (auto dest: set_zip_leftD)
  then have "size u < Suc (size_list size xs)" by (simp add: size_list_estimation less_Suc_eq_le size_list_estimation')
  with 2 show ?case by auto
next
  case (3 x y a b d d' p k v w)
  then have "p \<in> set d" and "p = (k, v)" by auto
  then have "size_prod (\<lambda>_. 0) size (k, v) \<le> size_list (size_prod (\<lambda>_. 0) size) d"
    by (intro size_list_estimation') auto
  with 3 show ?case by auto
qed auto

declare py_eq.simps [simp del]

lemma py_eq_JStr [simp]: "py_eq (JStr a) (JStr b) \<longleftrightarrow> a = b"
  by (simp add: py_eq.simps)

text \<open>A list or a dictionary cannot be a dictionary key or a set member.\<close>

fun hashable :: "json \<Rightarrow> bool" where
  "hashable (JList _) = False"
| "hashable (JObj _) = False"
| "hashable _ = True"

section \<open>Strings\<close>

definition code :: "char \<Rightarrow> nat" where
  "code c = of_char c"

definition is_space :: "char \<Rightarrow> bool" where
  "is_space c \<longleftrightarrow> (let n = code c in (9 \<le> n \<and> n \<le> 13) \<or> (28 \<le> n \<and> n \<le> 32) \<or> n = 133 \<or> n = 160)"

text \<open>\<open>s.strip()\<close>.\<close>

definition strip :: "string \<Rightarrow> string" where
  "strip s = rev (dropWhile is_space (rev (dropWhile is_space s)))"

text \<open>\<open>s.lower()\<close>.\<close>

definition lower_char :: "char \<Rightarrow> char" where
  "lower_char c =
     (let n = code c
      in if (65 \<le> n \<and> n \<le> 90) \<or> (192 \<le> n \<and> n \<le> 222 \<and> n \<noteq> 215) then char_of (n + 32) else c)"

definition lower :: "string \<Rightarrow> string" where
  "lower s = map lower_char s"

text \<open>The class \<open>\w\<close> of \<open>re\<close>: \<open>c.isalnum() or c == "_"\<close>.\<close>

definition is_word :: "char \<Rightarrow> bool" where
  "is_word c \<longleftrightarrow>
     (let n = code c
      in (48 \<le> n \<and> n \<le> 57) \<or> (65 \<le> n \<and> n \<le> 90) \<or> n = 95 \<or> (97 \<le> n \<and> n \<le> 122)
       \<or> n \<in> {170, 178, 179, 181, 185, 186, 188, 189, 190}
       \<or> (192 \<le> n \<and> n \<le> 214) \<or> (216 \<le> n \<and> n \<le> 246) \<or> (248 \<le> n \<and> n \<le> 255))"

text \<open>\<open>s.startswith(p)\<close>, \<open>s.endswith(p)\<close> and \<open>p in s\<close>.\<close>

fun starts_with :: "string \<Rightarrow> string \<Rightarrow> bool" where
  "starts_with [] s = True"
| "starts_with (p # ps) [] = False"
| "starts_with (p # ps) (c # s) = (p = c \<and> starts_with ps s)"

definition ends_with :: "string \<Rightarrow> string \<Rightarrow> bool" where
  "ends_with p s = starts_with (rev p) (rev s)"

fun contains :: "string \<Rightarrow> string \<Rightarrow> bool" where
  "contains p [] = (p = [])"
| "contains p (c # s) = (starts_with p (c # s) \<or> contains p s)"

text \<open>
  \<open>re.search(rf"\b{re.escape(w)}\b", s)\<close> for a word \<open>w\<close> that starts and ends with a word character:
  an occurrence whose neighbours are not word characters.  \<open>before\<close> is the character before the
  current position.
\<close>

fun word_search :: "string \<Rightarrow> char option \<Rightarrow> string \<Rightarrow> bool" where
  "word_search w before [] = False"
| "word_search w before (c # s) =
     ((starts_with w (c # s)
        \<and> (case before of None \<Rightarrow> True | Some b \<Rightarrow> \<not> is_word b)
        \<and> (case drop (length w) (c # s) of [] \<Rightarrow> True | d # _ \<Rightarrow> \<not> is_word d))
      \<or> word_search w (Some c) s)"

lemma starts_with_iff: "starts_with p s \<longleftrightarrow> (\<exists>t. s = p @ t)"
  by (induction p s rule: starts_with.induct) auto

lemma contains_iff: "contains p s \<longleftrightarrow> (\<exists>u v. s = u @ p @ v)"
proof (induction s)
  case (Cons c s)
  note IH = Cons.IH
  show ?case
  proof
    assume "contains p (c # s)"
    then consider "starts_with p (c # s)" | "contains p s" by auto
    then show "\<exists>u v. c # s = u @ p @ v"
    proof cases
      case 1
      then show ?thesis by (metis append_Nil starts_with_iff)
    next
      case 2
      with Cons.IH show ?thesis by (metis append_Cons)
    qed
  next
    assume "\<exists>u v. c # s = u @ p @ v"
    then obtain u v where *: "c # s = u @ p @ v" by blast
    show "contains p (c # s)"
    proof (cases u)
      case Nil
      with * have "starts_with p (c # s)" by (metis append_Nil starts_with_iff)
      then show ?thesis by simp
    next
      case (Cons a u')
      with * have "s = u' @ p @ v" by simp
      with IH show ?thesis by auto
    qed
  qed
qed auto

lemma dropWhile_twice: "dropWhile P (dropWhile P xs) = dropWhile P xs"
  by (induction xs) auto

lemma dropWhile_rev_strip:
  assumes "t = [] \<or> \<not> P (hd t)"
  shows "dropWhile P (rev (dropWhile P (rev t))) = rev (dropWhile P (rev t))"
proof (cases "rev (dropWhile P (rev t))")
  case (Cons a as)
  have "t = rev (dropWhile P (rev t)) @ rev (takeWhile P (rev t))"
    by (metis rev_append rev_rev_ident takeWhile_dropWhile_id)
  with Cons have "t = (a # as) @ rev (takeWhile P (rev t))" by simp
  with assms have "\<not> P a" by (metis append_Cons list.distinct(1) list.sel(1))
  with Cons show ?thesis by simp
next
  case Nil
  then show ?thesis by (metis dropWhile.simps(1))
qed

lemma strip_strip [simp]: "strip (strip s) = strip s"
proof -
  have "dropWhile is_space s = [] \<or> \<not> is_space (hd (dropWhile is_space s))"
    using hd_dropWhile by blast
  from dropWhile_rev_strip [of "dropWhile is_space s" is_space, OF this] show ?thesis
    unfolding strip_def by (simp add: dropWhile_twice)
qed

text \<open>\<open>s.replace("_", " ")\<close>, and decimal notation of integers.\<close>

definition underscores_to_spaces :: "string \<Rightarrow> string" where
  "underscores_to_spaces s = map (\<lambda>c. if c = CHR ''_'' then CHR '' '' else c) s"

fun nat_digits :: "nat \<Rightarrow> string" where
  "nat_digits n = (if n < 10 then [char_of (48 + n)] else nat_digits (n div 10) @ [char_of (48 + n mod 10)])"

declare nat_digits.simps [simp del]

definition int_str :: "int \<Rightarrow> string" where
  "int_str i = (if i < 0 then CHR ''-'' # nat_digits (nat (- i)) else nat_digits (nat i))"

text \<open>\<open>str(v)\<close>, which f-strings apply to their fields.\<close>

fun py_str :: "py_env \<Rightarrow> json \<Rightarrow> string" where
  "py_str e JNull = ''None''"
| "py_str e (JBool b) = (if b then ''True'' else ''False'')"
| "py_str e (JInt i) = int_str i"
| "py_str e (JFloat r) = repr_float e r"
| "py_str e (JStr s) = s"
| "py_str e (JList l) = repr_other e (JList l)"
| "py_str e (JObj d) = repr_other e (JObj d)"

section \<open>json.dumps with sorted keys and compact separators\<close>

definition hex_digit :: "nat \<Rightarrow> char" where
  "hex_digit n = (if n < 10 then char_of (48 + n) else char_of (87 + n))"

definition escape_char :: "char \<Rightarrow> string" where
  "escape_char c =
     (let n = code c
      in if n = 34 then [char_of (92::nat), char_of (34::nat)]
         else if n = 92 then [char_of (92::nat), char_of (92::nat)]
         else if n = 10 then [char_of (92::nat), CHR ''n'']
         else if n = 13 then [char_of (92::nat), CHR ''r'']
         else if n = 9 then [char_of (92::nat), CHR ''t'']
         else if n = 12 then [char_of (92::nat), CHR ''f'']
         else if n = 8 then [char_of (92::nat), CHR ''b'']
         else if 32 \<le> n \<and> n \<le> 126 then [c]
         else [char_of (92::nat), CHR ''u'', CHR ''0'', CHR ''0'', hex_digit (n div 16), hex_digit (n mod 16)])"

definition dump_str :: "string \<Rightarrow> string" where
  "dump_str s = [char_of (34::nat)] @ concat (map escape_char s) @ [char_of (34::nat)]"

fun join_with :: "string \<Rightarrow> string list \<Rightarrow> string" where
  "join_with sep [] = []"
| "join_with sep [x] = x"
| "join_with sep (x # y # xs) = x @ sep @ join_with sep (y # xs)"

text \<open>Python orders strings by code point: the lexicographic order of the library.\<close>

definition sort_keys :: "(string \<times> 'a) list \<Rightarrow> (string \<times> 'a) list" where
  "sort_keys d = sort_key fst d"

fun json_dumps :: "py_env \<Rightarrow> json \<Rightarrow> string" where
  "json_dumps e JNull = ''null''"
| "json_dumps e (JBool b) = (if b then ''true'' else ''false'')"
| "json_dumps e (JInt i) = int_str i"
| "json_dumps e (JFloat r) = repr_float e r"
| "json_dumps e (JStr s) = dump_str s"
| "json_dumps e (JList l) = ''['' @ join_with '','' (map (json_dumps e) l) @ '']''"
| "json_dumps e (JObj d) =
     ''{'' @ join_with '','' (map (\<lambda>(k, s). dump_str k @ '':'' @ s)
                            (sort_keys (map (\<lambda>(k, v). (k, json_dumps e v)) d))) @ ''}''"

section \<open>Lemmas on dictionaries, strings and digests\<close>

lemma dget_simps [simp]:
  "map_of d k = None \<Longrightarrow> dget d k = JNull"
  "map_of d k = Some v \<Longrightarrow> dget d k = v"
  by (simp_all add: dget_def)

lemma truthy_not_blank: "truthy v \<Longrightarrow> \<not> blank v"
  by (auto simp: blank_def)

text \<open>Two dictionaries with the same items serialise alike, whatever their insertion order.\<close>

lemma sort_keys_perm:
  assumes "distinct (map fst xs)" and "distinct (map fst ys)" and "set xs = set ys"
  shows "sort_keys xs = sort_keys ys"
proof -
  have "inj_on fst (set (sort_key fst xs) \<union> set (sort_key fst ys))"
    using assms by (simp add: distinct_map)
  moreover have "distinct (map fst (sort_key fst xs))" "distinct (map fst (sort_key fst ys))"
    using assms by (simp_all add: distinct_map)
  ultimately show ?thesis
    unfolding sort_keys_def using assms(3)
    by (intro map_sorted_distinct_set_unique) auto
qed

end
