(* ===== verification/Float64.thy ===== *)
theory Float64
  imports Py_Values "HOL-Library.Log_Nat"
begin

text \<open>
  IEEE binary64 arithmetic as Python computes it, on the rational numbers the floats denote:
  \<open>fl\<close> rounds to the nearest double (ties to even, gradual underflow included), \<open>py_round2\<close> is
  \<open>round(x, 2)\<close>, which is the correctly rounded two-decimal number read back as a double.
  The lemmas bound the rounding error and show which numbers are exact; \<open>discounted_price\<close> is the
  price expression that both rule engines share.
\<close>

section \<open>Rounding to the nearest double\<close>

definition pow2 :: "int \<Rightarrow> rat" where
  "pow2 e = (if 0 \<le> e then 2 ^ nat e else 1 / 2 ^ nat (- e))"

text \<open>The exponent of the leading bit of a positive rational.\<close>

definition ilog2 :: "rat \<Rightarrow> int" where
  "ilog2 x =
     (case quotient_of x of (p, q) \<Rightarrow>
        (let e = bitlen p - bitlen q in if pow2 e \<le> x then e else e - 1))"

definition round_half_even :: "rat \<Rightarrow> int" where
  "round_half_even x =
     (let f = \<lfloor>x\<rfloor>; d = x - of_int f
      in if d < 1 / 2 then f else if 1 / 2 < d then f + 1 else if even f then f else f + 1)"

definition ulp_exp :: "rat \<Rightarrow> int" where
  "ulp_exp x = max (ilog2 \<bar>x\<bar> - 52) (-1074)"

definition fl :: "rat \<Rightarrow> rat" where
  "fl x = (if x = 0 then 0 else of_int (round_half_even (x / pow2 (ulp_exp x))) * pow2 (ulp_exp x))"

definition py_round2 :: "rat \<Rightarrow> rat" where
  "py_round2 x = fl (of_int (round_half_even (x * 100)) / 100)"

text \<open>\<open>round(price * (1 - percent / 100), 2)\<close>, the price already converted to a float.\<close>

definition discount_factor :: "rat \<Rightarrow> rat" where
  "discount_factor d = fl (1 - fl (d / 100))"

definition discounted_price :: "rat \<Rightarrow> rat \<Rightarrow> rat" where
  "discounted_price p d = py_round2 (fl (p * discount_factor d))"

text \<open>The largest finite double is below this bound; a number that rounds past it is out of range.\<close>

definition float_range :: "rat \<Rightarrow> bool" where
  "float_range x \<longleftrightarrow> \<bar>fl x\<bar> < pow2 1024"

section \<open>Powers of two and the leading exponent\<close>

lemma pow2_pos [simp]: "0 < pow2 e"
  by (simp add: pow2_def)

lemma pow2_nonzero [simp]: "pow2 e \<noteq> 0"
  using pow2_pos [of e] by linarith

lemma pow2_abs [simp]: "\<bar>pow2 e\<bar> = pow2 e"
  using pow2_pos [of e] by linarith

lemma pow2_0 [simp]: "pow2 0 = 1"
  by (simp add: pow2_def)

lemma pow2_powi: "pow2 e = 2 powi e"
  by (auto simp: pow2_def power_int_def inverse_eq_divide power_divide)

lemma pow2_add: "pow2 (a + b) = pow2 a * pow2 b"
  by (simp add: pow2_powi power_int_add)

lemma pow2_mono: "a \<le> b \<Longrightarrow> pow2 a \<le> pow2 b"
  by (simp add: pow2_powi power_int_increasing)

lemma pow2_strict_mono: "a < b \<Longrightarrow> pow2 a < pow2 b"
  by (simp add: pow2_powi power_int_strict_increasing)

lemma pow2_nat: "pow2 (int n) = 2 ^ n"
  by (simp add: pow2_def)

lemma bitlen_bounds_rat:
  assumes "0 < (p::int)"
  shows "pow2 (bitlen p - 1) \<le> of_int p" and "of_int p < pow2 (bitlen p)"
proof -
  have b: "2 ^ nat (bitlen p - 1) \<le> p" "p < 2 ^ nat (bitlen p)"
    using bitlen_bounds [OF assms] by auto
  have n: "1 \<le> bitlen p" using assms by (simp add: bitlen_def floorlog_def)
  from b(1) have "(of_int (2 ^ nat (bitlen p - 1)) :: rat) \<le> of_int p"
    by (simp only: of_int_le_iff)
  then show "pow2 (bitlen p - 1) \<le> of_int p" using n by (simp add: pow2_def)
  from b(2) have "(of_int p :: rat) < of_int (2 ^ nat (bitlen p))"
    by (simp only: of_int_less_iff)
  then show "of_int p < pow2 (bitlen p)" using n by (simp add: pow2_def)
qed

lemma ilog2_bounds:
  assumes "0 < x"
  shows "pow2 (ilog2 x) \<le> x" and "x < pow2 (ilog2 x + 1)"
proof -
  obtain p q where pq: "quotient_of x = (p, q)" by (cases "quotient_of x")
  have q: "0 < q" using pq by (rule quotient_of_denom_pos)
  have x: "x = of_int p / of_int q" using pq by (rule quotient_of_div)
  then have p: "0 < p" using assms q by (simp add: zero_less_divide_iff)
  note bp = bitlen_bounds_rat [OF p] and bq = bitlen_bounds_rat [OF q]
  let ?e = "bitlen p - bitlen q"
  have lo: "pow2 (?e - 1) \<le> x"
  proof -
    have "pow2 (?e - 1) * of_int q \<le> pow2 (?e - 1) * pow2 (bitlen q)"
      using bq(2) by (simp add: mult_left_mono)
    also have "\<dots> = pow2 (bitlen p - 1)" by (simp flip: pow2_add)
    also have "\<dots> \<le> of_int p" by (rule bp(1))
    finally show ?thesis using q by (simp add: x pos_le_divide_eq)
  qed
  have hi: "x < pow2 (?e + 1)"
  proof -
    have "of_int p < pow2 (bitlen p)" by (rule bp(2))
    also have "\<dots> = pow2 (?e + 1) * pow2 (bitlen q - 1)" by (simp flip: pow2_add)
    also have "\<dots> \<le> pow2 (?e + 1) * of_int q" using bq(1) by (simp add: mult_left_mono)
    finally show ?thesis using q by (simp add: x pos_divide_less_eq)
  qed
  have "pow2 (ilog2 x) \<le> x \<and> x < pow2 (ilog2 x + 1)"
    using lo hi by (auto simp: ilog2_def pq Let_def)
  then show "pow2 (ilog2 x) \<le> x" and "x < pow2 (ilog2 x + 1)" by auto
qed

section \<open>Error bounds\<close>

lemma round_half_even_of_int [simp]: "round_half_even (of_int n) = n"
  by (simp add: round_half_even_def)

lemma round_half_even_error: "\<bar>of_int (round_half_even x) - x\<bar> \<le> 1 / 2"
proof -
  have "of_int \<lfloor>x\<rfloor> \<le> x" "x < of_int \<lfloor>x\<rfloor> + 1" by linarith+
  then show ?thesis by (auto simp: round_half_even_def Let_def)
qed

text \<open>An integer strictly nearer than one half is the rounded value.\<close>

lemma round_half_even_unique:
  assumes "\<bar>x - of_int n\<bar> < 1 / 2"
  shows "round_half_even x = n"
proof -
  have "\<bar>(of_int (round_half_even x) :: rat) - of_int n\<bar> < 1"
    using assms round_half_even_error [of x] by linarith
  then have "\<bar>round_half_even x - n\<bar> < 1"
    by (metis of_int_abs of_int_diff of_int_less_iff of_int_1)
  then show ?thesis by simp
qed

lemma fl_error: "\<bar>fl x - x\<bar> \<le> pow2 (ulp_exp x) / 2"
proof (cases "x = 0")
  case False
  let ?e = "pow2 (ulp_exp x)"
  have "fl x - x = (of_int (round_half_even (x / ?e)) - x / ?e) * ?e"
    using False by (simp add: fl_def left_diff_distrib)
  then have "\<bar>fl x - x\<bar> = \<bar>of_int (round_half_even (x / ?e)) - x / ?e\<bar> * ?e"
    by (simp add: abs_mult)
  also have "\<dots> \<le> (1 / 2) * ?e"
    using round_half_even_error by (intro mult_right_mono) (auto simp: less_imp_le)
  finally show ?thesis by simp
qed (simp add: fl_def less_imp_le)

lemma fl_relative_error:
  assumes "pow2 (-1022) \<le> \<bar>x\<bar>"
  shows "\<bar>fl x - x\<bar> \<le> \<bar>x\<bar> / 2 ^ 53"
proof -
  have x: "0 < \<bar>x\<bar>" using assms pow2_pos [of "-1022"] by linarith
  have "\<not> ilog2 \<bar>x\<bar> + 1 \<le> -1022"
    using ilog2_bounds(2) [OF x] assms pow2_mono by (metis linorder_not_le order.trans)
  then have e: "ulp_exp x = ilog2 \<bar>x\<bar> + (-52)" by (simp add: ulp_exp_def)
  have "pow2 (ulp_exp x) / 2 = pow2 (ilog2 \<bar>x\<bar>) / 2 ^ 53"
    unfolding e pow2_add by (simp add: pow2_def)
  also have "\<dots> \<le> \<bar>x\<bar> / 2 ^ 53" using ilog2_bounds(1) [OF x] by (simp add: divide_right_mono)
  finally show ?thesis using fl_error [of x] by linarith
qed

text \<open>A multiple of the last place is exact; so is every integer of at most 53 bits.\<close>

lemma fl_exact:
  assumes "x = of_int m * pow2 (ulp_exp x)"
  shows "fl x = x"
proof (cases "x = 0")
  case False
  have "x / pow2 (ulp_exp x) = of_int m" using assms by (metis nonzero_mult_div_cancel_right pow2_nonzero)
  then show ?thesis using False assms by (simp add: fl_def)
qed (simp add: fl_def)

lemma fl_representable:
  assumes x: "x = of_int m * pow2 k" and m: "\<bar>m\<bar> \<le> 2 ^ 52" and k: "-1074 \<le> k"
  shows "fl x = x"
proof (cases "m = 0")
  case False
  then have pos: "0 < \<bar>x\<bar>" by (simp add: x abs_mult)
  have "\<bar>x\<bar> = of_int \<bar>m\<bar> * pow2 k" by (simp add: x abs_mult)
  also have "\<dots> \<le> of_int (2 ^ 52) * pow2 k"
    using m by (intro mult_right_mono) (simp_all only: of_int_le_iff pow2_pos less_imp_le)
  also have "\<dots> = pow2 (52 + k)" by (simp add: pow2_add pow2_nat [of 52, simplified])
  finally have "pow2 (ilog2 \<bar>x\<bar>) \<le> pow2 (52 + k)" using ilog2_bounds(1) [OF pos] by linarith
  then have "ilog2 \<bar>x\<bar> \<le> 52 + k" by (metis linorder_not_le pow2_strict_mono)
  then have d: "ulp_exp x \<le> k" using k by (simp add: ulp_exp_def)
  have "pow2 k = pow2 (k - ulp_exp x) * pow2 (ulp_exp x)" by (simp flip: pow2_add)
  also have "pow2 (k - ulp_exp x) = of_int (2 ^ nat (k - ulp_exp x))" using d by (simp add: pow2_def)
  finally have "x = of_int (m * 2 ^ nat (k - ulp_exp x)) * pow2 (ulp_exp x)" by (simp add: x)
  then show ?thesis by (rule fl_exact)
qed (simp add: x fl_def)

lemma fl_of_int: "\<bar>n\<bar> \<le> 2 ^ 52 \<Longrightarrow> fl (of_int n) = of_int n"
  using fl_representable [of "of_int n" n 0] by simp

section \<open>The two discount rates of the sponsor table\<close>

lemma discount_factor_25: "discount_factor 25 = 3 / 4"
proof -
  have "fl (1 / 4) = 1 / 4" by (rule fl_representable [of _ 1 "-2"]) (simp_all add: pow2_def)
  moreover have "fl (3 / 4) = 3 / 4" by (rule fl_representable [of _ 3 "-2"]) (simp_all add: pow2_def)
  ultimately show ?thesis unfolding discount_factor_def by (simp del: eq_divide_eq_numeral1)
qed

lemma pow2_small: "pow2 (-1022) \<le> 1 / 2 ^ 100"
proof -
  have "pow2 (-1022) \<le> pow2 (-100)" by (rule pow2_mono) simp
  also have "pow2 (-100) = 1 / 2 ^ 100" by (simp add: pow2_def)
  finally show ?thesis .
qed

lemma discount_factor_15_error: "\<bar>discount_factor 15 - 17 / 20\<bar> \<le> 2 / 2 ^ 53"
proof -
  define a where "a = fl (3 / 20)"
  have sm: "1 / 2 ^ 100 \<le> (1 / 100 :: rat)" by simp
  have "pow2 (-1022) \<le> \<bar>3 / 20 :: rat\<bar>" using pow2_small sm by simp
  from fl_relative_error [OF this] have a: "\<bar>a - 3 / 20\<bar> \<le> (3 / 20) / 2 ^ 53" by (simp add: a_def)
  have "(3 / 20) / 2 ^ 53 \<le> (1 / 100 :: rat)" by simp
  with a have "\<bar>a - 3 / 20\<bar> \<le> 1 / 100" by (rule order.trans)
  then have b: "\<bar>1 - a\<bar> \<le> 1" "1 / 100 \<le> \<bar>1 - a\<bar>" by linarith+
  have "pow2 (-1022) \<le> \<bar>1 - a\<bar>" using pow2_small sm b(2) by linarith
  from fl_relative_error [OF this]
  have "\<bar>fl (1 - a) - (1 - a)\<bar> \<le> 1 / 2 ^ 53" using b(1) by simp
  then have "\<bar>fl (1 - a) - 17 / 20\<bar> \<le> 1 / 2 ^ 53 + (3 / 20) / 2 ^ 53" using a by linarith
  also have "\<dots> \<le> 2 / 2 ^ 53" by simp
  finally show ?thesis by (simp add: discount_factor_def a_def)
qed

text \<open>At 25% a whole price is discounted exactly.\<close>

lemma discounted_price_25:
  assumes "0 \<le> n" and "n \<le> 2 ^ 50"
  shows "discounted_price (of_int n) 25 = 3 * of_int n / 4"
proof -
  define x :: rat where "x = of_int n * (3 / 4)"
  have e: "fl x = x"
    using assms by (intro fl_representable [of _ "3 * n" "-2"]) (simp_all add: x_def pow2_def)
  have "x * 100 = of_int (75 * n)" by (simp add: x_def)
  then have r: "round_half_even (x * 100) = 75 * n" by (metis round_half_even_of_int)
  have "discounted_price (of_int n) 25 = py_round2 (fl x)"
    by (simp only: discounted_price_def discount_factor_25 x_def)
  also have "\<dots> = fl (of_int (75 * n) / 100)" by (simp only: e py_round2_def r)
  also have "of_int (75 * n) / 100 = x" by (simp add: x_def)
  finally show ?thesis using e by (simp add: x_def)
qed

text \<open>At 15% the result is the double nearest to the exact 85% of a whole price.\<close>

lemma discounted_price_15:
  assumes "1 \<le> n" and "n \<le> 10 ^ 12"
  shows "discounted_price (of_int n) 15 = fl (17 * of_int n / 20)"
proof -
  define f where "f = discount_factor 15"
  define y where "y = of_int n * f"
  have n: "1 \<le> (of_int n :: rat)" "(of_int n :: rat) \<le> 10 ^ 12"
    using assms by (simp_all add: of_int_le_iff [of _ "10 ^ 12", simplified])
  have f: "\<bar>f - 17 / 20\<bar> \<le> 2 / 2 ^ 53" unfolding f_def by (rule discount_factor_15_error)
  moreover have "2 / 2 ^ 53 \<le> (1 / 100 :: rat)" by simp
  ultimately have "\<bar>f - 17 / 20\<bar> \<le> 1 / 100" by (rule order.trans)
  then have f': "1 / 2 \<le> f" "f \<le> 1" by linarith+
  have ey: "\<bar>y - of_int n * (17 / 20)\<bar> \<le> 10 ^ 12 * (2 / 2 ^ 53)"
  proof -
    have "y - of_int n * (17 / 20) = of_int n * (f - 17 / 20)"
      by (simp add: y_def right_diff_distrib)
    then have "\<bar>y - of_int n * (17 / 20)\<bar> = of_int n * \<bar>f - 17 / 20\<bar>"
      using n by (simp add: abs_mult)
    also have "\<dots> \<le> 10 ^ 12 * (2 / 2 ^ 53)" using n f by (intro mult_mono) auto
    finally show ?thesis .
  qed
  have y: "1 / 2 \<le> \<bar>y\<bar>" "\<bar>y\<bar> \<le> 10 ^ 12"
    using n f' mult_mono [of 1 "of_int n" "1 / 2" f] mult_mono [of "of_int n" "10 ^ 12" f 1]
    by (auto simp: y_def abs_mult)
  have "pow2 (-1022) \<le> \<bar>y\<bar>" using pow2_small y(1) by (simp add: order.trans)
  from fl_relative_error [OF this] have "\<bar>fl y - y\<bar> \<le> 10 ^ 12 / 2 ^ 53"
    using y(2) by (simp add: field_simps)
  with ey have "\<bar>fl y - of_int n * (17 / 20)\<bar> \<le> 10 ^ 12 * (2 / 2 ^ 53) + 10 ^ 12 / 2 ^ 53"
    by linarith
  also have "\<dots> < 1 / 200" by simp
  finally have "\<bar>fl y * 100 - 85 * of_int n\<bar> < 1 / 2" by linarith
  then have "\<bar>fl y * 100 - of_int (85 * n)\<bar> < 1 / 2" by simp
  then have "round_half_even (fl y * 100) = 85 * n" by (rule round_half_even_unique)
  then show ?thesis
    by (simp add: discounted_price_def py_round2_def flip: f_def y_def)
qed

end
