(* ===== verification/Launch_Engine.thy ===== *)
theory Launch_Engine
  imports Float64
begin

text \<open>
  The deterministic package engine (\<open>backend/launchloop/engine.py\<close>).  \<open>prepare_package\<close> is the whole
  function: the readiness status, the questions, the drafts, the audience, the sponsor check, the
  lanes and the evidence, as the JSON document that is stored in \<open>Workflow.package\<close> and hashed.
  The expressions are evaluated in the order of the source, so a missing key or a value that
  cannot be multiplied raises where it raises there.
\<close>

definition jfield :: "json \<Rightarrow> string \<Rightarrow> json" where
  "jfield v k = (case v of JObj d \<Rightarrow> dget d k | _ \<Rightarrow> JNull)"

section \<open>Tables\<close>

definition REQUIRED_FIELDS :: "string list" where
  "REQUIRED_FIELDS =
     [''title'', ''city'', ''date'', ''start_time'', ''end_time'', ''timezone'', ''venue_name'',
      ''venue_address'', ''access_instructions'', ''general_ticket_price'', ''signup_url'']"

text \<open>\<open>AUDIENCES.get((region, country))\<close>: a tuple with an unhashable component raises.\<close>

definition new_york_audience :: json where
  "new_york_audience =
     JObj [(''id'', JStr ''new_york_active_members''), (''name'', JStr ''New York Active Members''),
           (''member_count'', JInt 418), (''language'', JStr ''English'')]"

definition audiences_get :: "json \<Rightarrow> json \<Rightarrow> py_error + json option" where
  "audiences_get region country =
     (if \<not> hashable region \<or> \<not> hashable country then Inl TypeError
      else if region = JStr ''NY'' \<and> country = JStr ''US'' then Inr (Some new_york_audience)
      else Inr None)"

definition sponsor_discounts_get :: "string \<Rightarrow> int option" where
  "sponsor_discounts_get tier =
     (if tier = ''platinum'' then Some 25
      else if tier = ''gold'' then Some 25
      else if tier = ''silver'' then Some 15
      else if tier = ''bronze'' then Some 15
      else None)"

section \<open>Drafts\<close>

definition draft_body :: "py_env \<Rightarrow> json \<Rightarrow> json \<Rightarrow> json \<Rightarrow> json \<Rightarrow> json \<Rightarrow> json \<Rightarrow> json \<Rightarrow> string \<Rightarrow> json \<Rightarrow> string" where
  "draft_body e title date start_time end_time timezone venue address access_sentence signup_url =
     py_str e title @ '' is scheduled for '' @ py_str e date @ '' from '' @ py_str e start_time
     @ '' to '' @ py_str e end_time @ '' '' @ py_str e timezone @ '' at '' @ py_str e venue
     @ ''. Address: '' @ py_str e address @ ''. Access: '' @ access_sentence
     @ '' Register: '' @ py_str e signup_url"

definition access_sentence :: "py_env \<Rightarrow> json \<Rightarrow> string" where
  "access_sentence e access =
     (let s = py_str e access
      in if ends_with ''.'' s \<or> ends_with ''!'' s \<or> ends_with ''?'' s then s else s @ ''.'')"

definition draft :: "py_env \<Rightarrow> dict \<Rightarrow> string \<Rightarrow> py_error + json" where
  "draft e event kind =
     (let venue = py_or (dget event ''venue_name'') (JStr ''[Venue TBD]'');
          address = py_or (dget event ''venue_address'') (JStr ''[Venue Address TBD]'');
          access = py_or (dget event ''access_instructions'') (JStr ''[Access Instructions TBD]'')
      in try_bind (dindex event ''title'') (\<lambda>title.
         try_bind (dindex event ''date'') (\<lambda>date.
         try_bind (dindex event ''start_time'') (\<lambda>start_time.
         try_bind (dindex event ''end_time'') (\<lambda>end_time.
         try_bind (dindex event ''timezone'') (\<lambda>timezone.
         try_bind (dindex event ''signup_url'') (\<lambda>signup_url.
           Inr (JObj [(''subject'', JStr (kind @ '': '' @ py_str e title)),
                      (''body'', JStr (draft_body e title date start_time end_time timezone venue
                                         address (access_sentence e access) signup_url))]))))))))"

section \<open>The package\<close>

definition missing_fields :: "dict \<Rightarrow> string list" where
  "missing_fields event = filter (\<lambda>f. blank (dget event f)) REQUIRED_FIELDS"

definition question_prompt :: "string \<Rightarrow> string" where
  "question_prompt f =
     (if f = ''venue_name'' then ''What is the confirmed venue name?''
      else if f = ''venue_address'' then ''What is the complete venue address?''
      else if f = ''access_instructions''
        then ''What arrival or accessibility instructions should guests receive?''
      else ''What is the confirmed '' @ underscores_to_spaces f @ ''?'')"

definition question :: "string \<Rightarrow> json" where
  "question f = JObj [(''field'', JStr f), (''prompt'', JStr (question_prompt f))]"

definition sponsor_tier :: "py_env \<Rightarrow> dict \<Rightarrow> string" where
  "sponsor_tier e event = lower (py_str e (dget_default event ''sponsor_tier'' (JStr [])))"

definition sponsor_passed :: "int option \<Rightarrow> json \<Rightarrow> bool" where
  "sponsor_passed expected actual \<longleftrightarrow> (case expected of None \<Rightarrow> False | Some n \<Rightarrow> eq_int actual n)"

definition package_status :: "string list \<Rightarrow> json option \<Rightarrow> bool \<Rightarrow> string" where
  "package_status missing audience passed =
     (if missing \<noteq> [] then ''needs_input''
      else if audience = None \<or> \<not> passed then ''blocked''
      else ''ready_for_review'')"

text \<open>A number times a float: \<open>str\<close>, \<open>None\<close>, \<open>list\<close> and \<open>dict\<close> raise \<open>TypeError\<close>.\<close>

fun as_float :: "json \<Rightarrow> py_error + rat" where
  "as_float (JInt i) = (if float_range (of_int i) then Inr (fl (of_int i)) else Inl OverflowError)"
| "as_float (JBool b) = Inr (if b then 1 else 0)"
| "as_float (JFloat r) = Inr r"
| "as_float _ = Inl TypeError"

definition sponsor_ticket_price :: "dict \<Rightarrow> int option \<Rightarrow> py_error + json" where
  "sponsor_ticket_price event expected =
     (case expected of
        None \<Rightarrow> Inr JNull
      | Some d \<Rightarrow>
          try_bind (dindex event ''general_ticket_price'') (\<lambda>price.
          try_bind (as_float price) (\<lambda>p. Inr (JFloat (discounted_price p (of_int d))))))"

definition opt_int :: "int option \<Rightarrow> json" where
  "opt_int x = (case x of None \<Rightarrow> JNull | Some n \<Rightarrow> JInt n)"

definition lane :: "string \<Rightarrow> string \<Rightarrow> string \<Rightarrow> json" where
  "lane label status summary =
     JObj [(''label'', JStr label), (''status'', JStr status), (''summary'', JStr summary)]"

definition lanes :: "string list \<Rightarrow> json option \<Rightarrow> bool \<Rightarrow> string \<Rightarrow> json" where
  "lanes missing audience passed status =
     (let lane_status = (if status = ''blocked'' then ''blocked''
                         else if status = ''ready_for_review'' then ''complete'' else ''needs_input'')
      in JObj
        [(''event_readiness'',
           lane ''Event Readiness'' (if missing = [] then ''complete'' else ''needs_input'')
             (if missing = [] then ''All required event facts are grounded.''
              else int_str (int (length missing)) @ '' event facts need an operator response.'')),
         (''campaign_composer'',
           lane ''Campaign Composer'' lane_status ''Prepared invitation, reminder, and social drafts.''),
         (''audience_policy'',
           lane ''Audience and Policy''
             (if audience \<noteq> None \<and> passed then ''complete'' else ''blocked'')
             (if audience \<noteq> None \<and> passed
              then ''Matched the approved New York audience and validated sponsor pricing.''
              else ''Audience or sponsor policy needs human review.''))])"

definition social_body :: "py_env \<Rightarrow> json \<Rightarrow> json \<Rightarrow> json \<Rightarrow> json \<Rightarrow> json \<Rightarrow> string" where
  "social_body e title city date venue signup_url =
     ''Join us for '' @ py_str e title @ '' in '' @ py_str e city @ '' on '' @ py_str e date
     @ ''. Venue: '' @ py_str e venue @ ''. Register: '' @ py_str e signup_url"

definition social :: "py_env \<Rightarrow> dict \<Rightarrow> py_error + json" where
  "social e event =
     try_bind (dindex event ''title'') (\<lambda>title.
     try_bind (dindex event ''city'') (\<lambda>city.
     try_bind (dindex event ''date'') (\<lambda>date.
     try_bind (dindex event ''signup_url'') (\<lambda>signup_url.
       Inr (JObj [(''body'', JStr (social_body e title city date
                     (py_or (dget event ''venue_name'') (JStr ''[Venue TBD]'')) signup_url))])))))"

definition no_audience :: json where
  "no_audience =
     JObj [(''id'', JNull), (''name'', JStr ''Clarification required''), (''member_count'', JInt 0),
           (''language'', JStr ''Unknown'')]"

definition evidence :: json where
  "evidence =
     JList [JStr ''Read one immutable event revision.'',
            JStr ''Matched only an approved geography-specific audience.'',
            JStr ''Recomputed sponsor discount math deterministically.'',
            JStr ''Prepared review-only drafts; no external action was taken.'']"

definition prepare_package :: "py_env \<Rightarrow> dict \<Rightarrow> py_error + json" where
  "prepare_package e event =
     (let missing = missing_fields event in
      try_bind (audiences_get (dget event ''region'') (dget event ''country'')) (\<lambda>audience.
      let tier = sponsor_tier e event;
          expected = sponsor_discounts_get tier;
          actual = dget event ''sponsor_discount_percent'';
          passed = sponsor_passed expected actual;
          status = package_status missing audience passed in
      try_bind (draft e event ''Invitation'') (\<lambda>invitation.
      try_bind (draft e event ''Reminder'') (\<lambda>reminder.
      try_bind (social e event) (\<lambda>social_asset.
      try_bind (sponsor_ticket_price event expected) (\<lambda>price.
        Inr (JObj
          [(''status'', JStr status),
           (''missing_fields'', JList (map JStr missing)),
           (''questions'', JList (map question missing)),
           (''assets'', JObj [(''invitation'', invitation), (''reminder'', reminder),
                             (''social'', social_asset)]),
           (''audience'', (case audience of None \<Rightarrow> no_audience | Some a \<Rightarrow> a)),
           (''sponsor'', JObj
              [(''passed'', JBool passed), (''tier'', JStr tier),
               (''expected_discount_percent'', opt_int expected),
               (''actual_discount_percent'', actual),
               (''general_ticket_price'', dget event ''general_ticket_price''),
               (''sponsor_ticket_price'', price)]),
           (''lanes'', lanes missing audience passed status),
           (''evidence'', evidence)])))))))"

section \<open>Properties of the engine\<close>

lemma dindex_eq_Inr: "dindex d k = Inr v \<longleftrightarrow> map_of d k = Some v"
  by (auto simp: dindex_def split: option.splits)

lemma dindex_eq_Inl: "dindex d k = Inl x \<longleftrightarrow> map_of d k = None \<and> x = KeyError"
  by (auto simp: dindex_def split: option.splits)

lemmas engine_results = result_simps dindex_eq_Inr dindex_eq_Inl

lemma sponsor_discounts_get_range: "sponsor_discounts_get t = Some d \<Longrightarrow> d = 15 \<or> d = 25"
  by (auto simp: sponsor_discounts_get_def split: if_splits)

text \<open>The keys that the drafts and the social post read with \<open>event[...]\<close>.\<close>

definition TEXT_KEYS :: "string list" where
  "TEXT_KEYS = [''title'', ''date'', ''start_time'', ''end_time'', ''timezone'', ''signup_url'']"

definition has_keys :: "dict \<Rightarrow> string list \<Rightarrow> bool" where
  "has_keys d ks \<longleftrightarrow> list_all (\<lambda>k. map_of d k \<noteq> None) ks"

lemma draft_returns: "(\<exists>v. draft e event kind = Inr v) \<longleftrightarrow> has_keys event TEXT_KEYS"
  by (auto simp: draft_def Let_def engine_results has_keys_def TEXT_KEYS_def)

lemma social_returns:
  "(\<exists>v. social e event = Inr v) \<longleftrightarrow> has_keys event [''title'', ''city'', ''date'', ''signup_url'']"
  by (auto simp: social_def engine_results has_keys_def)

lemma draft_error: "draft e event kind = Inl x \<Longrightarrow> x = KeyError"
  by (auto simp: draft_def Let_def engine_results)

lemma social_error: "social e event = Inl x \<Longrightarrow> x = KeyError"
  by (auto simp: social_def engine_results)

definition price_ok :: "dict \<Rightarrow> bool" where
  "price_ok event \<longleftrightarrow>
     (case map_of event ''general_ticket_price'' of None \<Rightarrow> False
      | Some v \<Rightarrow> (case as_float v of Inl _ \<Rightarrow> False | Inr _ \<Rightarrow> True))"

lemma sponsor_ticket_price_returns:
  "(\<exists>v. sponsor_ticket_price event expected = Inr v) \<longleftrightarrow> expected = None \<or> price_ok event"
  by (auto simp: sponsor_ticket_price_def engine_results price_ok_def split: option.splits sum.splits)

lemma prepare_package_elim:
  assumes "prepare_package e event = Inr p"
  obtains audience price where
    "audiences_get (dget event ''region'') (dget event ''country'') = Inr audience"
    and "sponsor_ticket_price event (sponsor_discounts_get (sponsor_tier e event)) = Inr price"
    and "jfield p ''status'' = JStr (package_status (missing_fields event) audience
           (sponsor_passed (sponsor_discounts_get (sponsor_tier e event))
              (dget event ''sponsor_discount_percent'')))"
    and "jfield p ''missing_fields'' = JList (map JStr (missing_fields event))"
    and "jfield p ''questions'' = JList (map question (missing_fields event))"
    and "jfield p ''audience'' = (case audience of None \<Rightarrow> no_audience | Some a \<Rightarrow> a)"
    and "jfield (jfield p ''sponsor'') ''sponsor_ticket_price'' = price"
    and "jfield (jfield p ''sponsor'') ''passed'' =
           JBool (sponsor_passed (sponsor_discounts_get (sponsor_tier e event))
              (dget event ''sponsor_discount_percent''))"
  using assms
  by (auto simp: prepare_package_def Let_def result_simps jfield_def dget_def
      intro!: that)

lemma audiences_get_Some:
  "audiences_get r c = Inr audience \<Longrightarrow>
     audience \<noteq> None \<longleftrightarrow> r = JStr ''NY'' \<and> c = JStr ''US''"
  by (auto simp: audiences_get_def split: if_splits)

lemma missing_fields_Nil:
  "missing_fields event = [] \<longleftrightarrow> list_all (\<lambda>f. \<not> blank (dget event f)) REQUIRED_FIELDS"
  by (simp add: missing_fields_def filter_empty_conv list_all_iff)

lemma package_status_ready:
  "package_status m a s = ''ready_for_review'' \<longleftrightarrow> m = [] \<and> a \<noteq> None \<and> s"
  by (simp add: package_status_def)

lemma package_status_needs_input: "package_status m a s = ''needs_input'' \<longleftrightarrow> m \<noteq> []"
  by (simp add: package_status_def)

lemma as_float_int:
  assumes "0 \<le> n" and "n \<le> 10 ^ 12"
  shows "as_float (JInt n) = Inr (of_int n)"
proof -
  have fl: "fl (of_int n) = of_int n" using assms by (intro fl_of_int) simp
  have "(of_int n :: rat) \<le> of_int (10 ^ 12)" using assms(2) by (simp only: of_int_le_iff)
  also have "\<dots> < pow2 40" by (simp add: pow2_def)
  also have "\<dots> \<le> pow2 1024" by (rule pow2_mono) simp
  finally show ?thesis using fl assms(1) by (simp add: float_range_def)
qed

lemma prepare_package_ready:
  assumes "prepare_package e event = Inr p"
  shows "jfield p ''status'' = JStr ''ready_for_review'' \<longleftrightarrow>
    (\<forall>f \<in> set REQUIRED_FIELDS. \<not> blank (dget event f))
    \<and> dget event ''region'' = JStr ''NY'' \<and> dget event ''country'' = JStr ''US''
    \<and> (\<exists>d. sponsor_discounts_get (sponsor_tier e event) = Some d
           \<and> eq_int (dget event ''sponsor_discount_percent'') d)"
proof -
  obtain audience where a: "audiences_get (dget event ''region'') (dget event ''country'') = Inr audience"
    and s: "jfield p ''status'' = JStr (package_status (missing_fields event) audience
           (sponsor_passed (sponsor_discounts_get (sponsor_tier e event))
              (dget event ''sponsor_discount_percent'')))"
    using assms by (rule prepare_package_elim)
  show ?thesis
    using audiences_get_Some [OF a]
    by (auto simp: s package_status_ready missing_fields_Nil list_all_iff sponsor_passed_def
        split: option.splits)
qed

text \<open>
  A package that the engine returns has status \<open>ready_for_review\<close> exactly when every required
  event fact is filled in, the event's region and country have an approved audience, and the
  sponsor tier is known with the table's discount.
\<close>

theorem prepare_package_ready_iff:
  assumes "prepare_package e event = Inr p"
  shows "jfield p ''status'' = JStr ''ready_for_review'' \<longleftrightarrow>
    (\<forall>f \<in> set REQUIRED_FIELDS. \<not> blank (dget event f))
    \<and> dget event ''region'' = JStr ''NY'' \<and> dget event ''country'' = JStr ''US''
    \<and> (\<exists>d. sponsor_discounts_get (sponsor_tier e event) = Some d
           \<and> eq_int (dget event ''sponsor_discount_percent'') d)"
  using assms by (rule prepare_package_ready)

lemma prepare_package_returns:
  "(\<exists>p. prepare_package e event = Inr p) \<longleftrightarrow>
     hashable (dget event ''region'') \<and> hashable (dget event ''country'')
     \<and> has_keys event TEXT_KEYS \<and> map_of event ''city'' \<noteq> None
     \<and> (sponsor_discounts_get (sponsor_tier e event) = None \<or> price_ok event)"
proof -
  have soc: "has_keys event TEXT_KEYS \<Longrightarrow> map_of event ''city'' \<noteq> None \<longleftrightarrow> (\<exists>v. social e event = Inr v)"
    unfolding social_returns by (auto simp: has_keys_def TEXT_KEYS_def)
  have aud: "(\<exists>a. audiences_get (dget event ''region'') (dget event ''country'') = Inr a) \<longleftrightarrow>
      hashable (dget event ''region'') \<and> hashable (dget event ''country'')"
    by (auto simp: audiences_get_def)
  have "(\<exists>p. prepare_package e event = Inr p) \<longleftrightarrow>
      (\<exists>a. audiences_get (dget event ''region'') (dget event ''country'') = Inr a)
      \<and> (\<exists>v. draft e event ''Invitation'' = Inr v) \<and> (\<exists>v. draft e event ''Reminder'' = Inr v)
      \<and> (\<exists>v. social e event = Inr v)
      \<and> (\<exists>v. sponsor_ticket_price event (sponsor_discounts_get (sponsor_tier e event)) = Inr v)"
    by (auto simp: prepare_package_def Let_def result_simps)
  then show ?thesis
    unfolding aud draft_returns sponsor_ticket_price_returns using soc by blast
qed

text \<open>
  The engine returns a package, rather than raising, exactly when the region and the country
  are hashable, every key that the drafts index is present, and either the sponsor tier has no
  discount or the ticket price is a number in the range of a double.
\<close>

theorem prepare_package_returns_iff:
  "(\<exists>p. prepare_package e event = Inr p) \<longleftrightarrow>
     hashable (dget event ''region'') \<and> hashable (dget event ''country'')
     \<and> has_keys event TEXT_KEYS \<and> map_of event ''city'' \<noteq> None
     \<and> (sponsor_discounts_get (sponsor_tier e event) = None \<or> price_ok event)"
  by (rule prepare_package_returns)

text \<open>
  An event whose ticket price is missing or blank, with a known sponsor tier, makes the engine
  raise: the missing price is never reported as a question of a \<open>needs_input\<close> package.
\<close>

theorem blank_price_raises:
  assumes "blank (dget event ''general_ticket_price'')"
    and "sponsor_discounts_get (sponsor_tier e event) \<noteq> None"
  shows "\<exists>x. prepare_package e event = Inl x"
proof -
  have "\<not> price_ok event"
    using assms(1) by (auto simp: price_ok_def blank_def dget_def split: option.splits)
  with assms(2) have "\<not> (\<exists>p. prepare_package e event = Inr p)"
    by (simp add: prepare_package_returns)
  then show ?thesis by (metis sum.exhaust)
qed

text \<open>
  C29: For a whole ticket price from 1 to a million million and a known tier, the sponsor price of the
  package is exactly three quarters of the price at 25 percent, and the double nearest to the exact
  85 percent at 15 percent: binary rounding never costs a cent.
\<close>

theorem sponsor_price_correct:
  assumes "prepare_package e event = Inr p"
    and "map_of event ''general_ticket_price'' = Some (JInt n)" and "1 \<le> n" and "n \<le> 10 ^ 12"
    and "sponsor_discounts_get (sponsor_tier e event) = Some d"
  shows "jfield (jfield p ''sponsor'') ''sponsor_ticket_price'' =
    JFloat (if d = 25 then 3 * of_int n / 4 else fl (17 * of_int n / 20))"
proof -
  obtain price where
    "sponsor_ticket_price event (sponsor_discounts_get (sponsor_tier e event)) = Inr price"
    and p: "jfield (jfield p ''sponsor'') ''sponsor_ticket_price'' = price"
    using assms(1) by (rule prepare_package_elim)
  then have "price = JFloat (discounted_price (of_int n) (of_int d))"
    using assms(2-5) as_float_int [of n]
    by (simp add: sponsor_ticket_price_def dindex_def)
  moreover have "d = 15 \<or> d = 25" using assms(5) by (rule sponsor_discounts_get_range)
  ultimately show ?thesis
    using assms(3,4) p discounted_price_25 [of n] discounted_price_15 [of n] by auto
qed

text \<open>
  A returned package asks one question per blank required field, in the order of
  \<open>REQUIRED_FIELDS\<close> and without repetition, and its status is \<open>needs_input\<close> exactly when it asks one.
\<close>

theorem questions_complete:
  assumes "prepare_package e event = Inr p"
  shows "\<exists>fs. jfield p ''questions'' = JList (map question fs)
    \<and> fs = filter (\<lambda>f. blank (dget event f)) REQUIRED_FIELDS \<and> distinct fs
    \<and> (jfield p ''status'' = JStr ''needs_input'' \<longleftrightarrow> fs \<noteq> [])"
proof -
  obtain audience where
    q: "jfield p ''questions'' = JList (map question (missing_fields event))"
    and s: "jfield p ''status'' = JStr (package_status (missing_fields event) audience
           (sponsor_passed (sponsor_discounts_get (sponsor_tier e event))
              (dget event ''sponsor_discount_percent'')))"
    using assms by (rule prepare_package_elim)
  have "distinct REQUIRED_FIELDS" by (simp add: REQUIRED_FIELDS_def)
  then have "distinct (missing_fields event)" by (simp add: missing_fields_def)
  with q s show ?thesis
    by (intro exI [of _ "missing_fields event"]) (simp add: package_status_needs_input missing_fields_def)
qed

section \<open>The seeded event, and witnesses\<close>

definition NEW_YORK_EVENT :: dict where
  "NEW_YORK_EVENT =
     [(''synthetic'', JBool True),
      (''title'', JStr ''New York International Youth Day Networking Breakfast''),
      (''city'', JStr ''New York''), (''region'', JStr ''NY''), (''country'', JStr ''US''),
      (''date'', JStr ''2026-08-12''), (''start_time'', JStr ''09:00''), (''end_time'', JStr ''12:00''),
      (''timezone'', JStr ''America/New_York''), (''venue_name'', JStr []), (''venue_address'', JStr []),
      (''access_instructions'', JStr []),
      (''description'', JStr ''A breakfast networking program for young nonprofit professionals.''),
      (''general_ticket_price'', JInt 40),
      (''signup_url'', JStr ''https://example.test/eventbrite/ny-youth-day''),
      (''sponsor_tier'', JStr ''gold''), (''sponsor_discount_percent'', JInt 25)]"

definition sample_env :: py_env where
  "sample_env = \<lparr>sha256_hex = (\<lambda>s. CHR ''h'' # s), repr_float = (\<lambda>_. ''0.0''), repr_other = (\<lambda>_. ''...'')\<rparr>"

definition resolved_event :: dict where
  "resolved_event = dict_update NEW_YORK_EVENT
     [(''venue_name'', JStr ''Hall''), (''venue_address'', JStr ''1 Main St''),
      (''access_instructions'', JStr ''Ramp.'')]"

lemma lower_gold: "lower ''gold'' = ''gold''"
  by (simp add: lower_def lower_char_def code_def Let_def)

lemma seeded_tier:
  "sponsor_tier e NEW_YORK_EVENT = ''gold''" "sponsor_tier e resolved_event = ''gold''"
  by (simp_all add: sponsor_tier_def resolved_event_def NEW_YORK_EVENT_def dget_default_def lower_gold)

lemma seeded_discount: "sponsor_discounts_get ''gold'' = Some 25"
  by (simp add: sponsor_discounts_get_def)

lemmas seeded_simps = seeded_tier seeded_discount NEW_YORK_EVENT_def resolved_event_def dget_def
  has_keys_def TEXT_KEYS_def price_ok_def as_float_int [of 40, simplified]

lemma seeded_returns:
  "\<exists>p. prepare_package e NEW_YORK_EVENT = Inr p" "\<exists>p. prepare_package e resolved_event = Inr p"
  by (simp_all only: prepare_package_returns seeded_tier) (simp_all add: seeded_simps)

theorem sponsor_price_correct_witness:
  "\<exists>p. prepare_package sample_env NEW_YORK_EVENT = Inr p
     \<and> jfield (jfield p ''sponsor'') ''sponsor_ticket_price'' = JFloat 30"
proof -
  obtain p where p: "prepare_package sample_env NEW_YORK_EVENT = Inr p" using seeded_returns(1) by blast
  have "map_of NEW_YORK_EVENT ''general_ticket_price'' = Some (JInt 40)" by (simp add: NEW_YORK_EVENT_def)
  from sponsor_price_correct [OF p this, of 25] p show ?thesis
    by (auto simp: seeded_tier seeded_discount)
qed

end
