(* ===== verification/Owner_Events.thy ===== *)
theory Owner_Events
  imports Launch_Engine
begin

text \<open>
  Public event facts (\<open>backend/launchloop/owner_events.py\<close>): the validation of submitted facts, the
  source kind of a revision and the package prepared for an owner's event.

  The time zone database and \<open>urllib.parse.urlsplit\<close> are the parameters \<open>facts_lib\<close>: which zone
  names exist, the UTC offset in minutes of a local time (with its \<open>fold\<close>), the local time of a UTC
  time, and the parts of a URL.  Dates and times are checked exactly: a date must be the canonical
  \<open>YYYY-MM-DD\<close> of the calendar and a time the canonical \<open>HH:MM\<close>, which is what the comparison with
  \<open>isoformat\<close> and \<open>strftime\<close> leaves of the texts that \<open>fromisoformat\<close> accepts.  \<open>reject_text\<close> is the
  text of the \<open>ValueError\<close> for a rejected value of a field: the library's own message where the
  library call raises, \<open>invalid_event_facts\<close> where the code's comparison does.
\<close>

record url_parts =
  url_scheme :: string
  url_hostname :: string
  url_username :: string
  url_password :: string

record facts_lib =
  zone_known :: "string \<Rightarrow> bool"
  utcoffset :: "string \<Rightarrow> int \<Rightarrow> bool \<Rightarrow> int"
  local_of_utc :: "string \<Rightarrow> int \<Rightarrow> int"
  urlsplit :: "string \<Rightarrow> url_parts option"
  reject_text :: "string \<Rightarrow> string \<Rightarrow> string"

definition FACT_FIELDS :: "string list" where
  "FACT_FIELDS =
     [''title'', ''date'', ''start_time'', ''end_time'', ''timezone'', ''city'', ''region'', ''country'',
      ''venue_name'', ''venue_address'', ''access_instructions'', ''signup_url'']"

definition SCHEMA_ID :: string where
  "SCHEMA_ID = ''owner_event_draft_v1''"

section \<open>Dates and times\<close>

definition digit :: "char \<Rightarrow> nat option" where
  "digit c = (let n = code c in if 48 \<le> n \<and> n \<le> 57 then Some (n - 48) else None)"

fun digits_value :: "nat \<Rightarrow> string \<Rightarrow> nat option" where
  "digits_value acc [] = Some acc"
| "digits_value acc (c # s) = (case digit c of None \<Rightarrow> None | Some d \<Rightarrow> digits_value (10 * acc + d) s)"

definition leap :: "int \<Rightarrow> bool" where
  "leap y \<longleftrightarrow> (4 dvd y \<and> \<not> 100 dvd y) \<or> 400 dvd y"

definition days_in_month :: "int \<Rightarrow> nat \<Rightarrow> nat" where
  "days_in_month y m = (if m = 2 then (if leap y then 29 else 28) else if m \<in> {4, 6, 9, 11} then 30 else 31)"

text \<open>The canonical text of a date, as year, month and day.\<close>

fun parse_date :: "string \<Rightarrow> (int \<times> nat \<times> nat) option" where
  "parse_date [a, b, c, d, s1, e, f, s2, g, h] =
     (if s1 = CHR ''-'' \<and> s2 = CHR ''-'' then
        (case (digits_value 0 [a, b, c, d], digits_value 0 [e, f], digits_value 0 [g, h]) of
           (Some y, Some m, Some dd) \<Rightarrow>
             if 1 \<le> y \<and> 1 \<le> m \<and> m \<le> 12 \<and> 1 \<le> dd \<and> dd \<le> days_in_month (int y) m
             then Some (int y, m, dd) else None
         | _ \<Rightarrow> None)
      else None)"
| "parse_date _ = None"

fun parse_time :: "string \<Rightarrow> (nat \<times> nat) option" where
  "parse_time [a, b, s, c, d] =
     (if s = CHR '':'' then
        (case (digits_value 0 [a, b], digits_value 0 [c, d]) of
           (Some h, Some m) \<Rightarrow> if h \<le> 23 \<and> m \<le> 59 then Some (h, m) else None
         | _ \<Rightarrow> None)
      else None)"
| "parse_time _ = None"

text \<open>Days of the proleptic Gregorian calendar before a date, and the local minute count.\<close>

definition days_before_year :: "int \<Rightarrow> int" where
  "days_before_year y = (let p = y - 1 in p * 365 + p div 4 - p div 100 + p div 400)"

fun days_before_month :: "int \<Rightarrow> nat \<Rightarrow> nat" where
  "days_before_month y 0 = 0"
| "days_before_month y (Suc m) = (if m = 0 then 0 else days_before_month y m + days_in_month y m)"

definition local_minutes :: "int \<times> nat \<times> nat \<Rightarrow> nat \<times> nat \<Rightarrow> int" where
  "local_minutes dt tm =
     (case (dt, tm) of ((y, m, d), (h, mi)) \<Rightarrow>
        (days_before_year y + int (days_before_month y m) + int d) * 1440 + int h * 60 + int mi)"

section \<open>Validation\<close>

definition invalid_event_facts :: py_error where
  "invalid_event_facts = ValueError ''invalid_event_facts''"

definition max_length :: "string \<Rightarrow> nat" where
  "max_length key =
     (if key = ''access_instructions'' then 2000 else if key = ''title'' then 240
      else if key = ''timezone'' then 64 else 500)"

fun strip_facts :: "dict \<Rightarrow> py_error + (string \<times> string) list" where
  "strip_facts [] = Inr []"
| "strip_facts ((key, raw) # rest) =
     (case raw of
        JStr s \<Rightarrow>
          if length s > max_length key then Inl invalid_event_facts
          else try_bind (strip_facts rest) (\<lambda>facts. Inr ((key, strip s) # facts))
      | _ \<Rightarrow> Inl invalid_event_facts)"

definition fact :: "(string \<times> string) list \<Rightarrow> string \<Rightarrow> string" where
  "fact facts key = (case map_of facts key of None \<Rightarrow> [] | Some s \<Rightarrow> s)"

definition url_ok :: "facts_lib \<Rightarrow> string \<Rightarrow> bool" where
  "url_ok lib s =
     (case urlsplit lib s of None \<Rightarrow> False
      | Some u \<Rightarrow> url_scheme u \<in> {''https'', ''http''} \<and> url_hostname u \<noteq> []
               \<and> url_username u = [] \<and> url_password u = [])"

definition utc_point :: "facts_lib \<Rightarrow> string \<Rightarrow> int \<Rightarrow> int option" where
  "utc_point lib zone loc =
     (if utcoffset lib zone loc False \<noteq> utcoffset lib zone loc True then None
      else let utc = loc - utcoffset lib zone loc False
           in if local_of_utc lib zone utc \<noteq> loc then None else Some utc)"

definition schedule_ok :: "facts_lib \<Rightarrow> (string \<times> string) list \<Rightarrow> bool" where
  "schedule_ok lib facts =
     (if fact facts ''date'' \<noteq> [] \<and> fact facts ''timezone'' \<noteq> []
         \<and> fact facts ''start_time'' \<noteq> [] \<and> fact facts ''end_time'' \<noteq> []
      then (case (parse_date (fact facts ''date''), parse_time (fact facts ''start_time''),
                  parse_time (fact facts ''end_time'')) of
              (Some d, Some s, Some t) \<Rightarrow>
                (case (utc_point lib (fact facts ''timezone'') (local_minutes d s),
                       utc_point lib (fact facts ''timezone'') (local_minutes d t)) of
                   (Some a, Some b) \<Rightarrow> \<not> b \<le> a
                 | _ \<Rightarrow> False)
            | _ \<Rightarrow> False)
      else True)"

definition rejected :: "facts_lib \<Rightarrow> (string \<times> string) list \<Rightarrow> string \<Rightarrow> py_error option" where
  "rejected lib facts key = Some (ValueError (reject_text lib key (fact facts key)))"

definition facts_error :: "facts_lib \<Rightarrow> (string \<times> string) list \<Rightarrow> py_error option" where
  "facts_error lib facts =
     (if fact facts ''date'' \<noteq> [] \<and> parse_date (fact facts ''date'') = None then rejected lib facts ''date''
      else if fact facts ''timezone'' \<noteq> [] \<and> \<not> zone_known lib (fact facts ''timezone'')
        then rejected lib facts ''timezone''
      else if fact facts ''start_time'' \<noteq> [] \<and> parse_time (fact facts ''start_time'') = None
        then rejected lib facts ''start_time''
      else if fact facts ''end_time'' \<noteq> [] \<and> parse_time (fact facts ''end_time'') = None
        then rejected lib facts ''end_time''
      else if fact facts ''signup_url'' \<noteq> [] \<and> \<not> url_ok lib (fact facts ''signup_url'')
        then rejected lib facts ''signup_url''
      else if \<not> schedule_ok lib facts then Some invalid_event_facts
      else None)"

definition validate_facts :: "facts_lib \<Rightarrow> json \<Rightarrow> py_error + (string \<times> string) list" where
  "validate_facts lib value =
     (case value of
        JObj d \<Rightarrow>
          if \<not> list_all (\<lambda>k. k \<in> set FACT_FIELDS) (map fst d) then Inl invalid_event_facts
          else try_bind (strip_facts d) (\<lambda>facts.
            case facts_error lib facts of None \<Rightarrow> Inr facts | Some x \<Rightarrow> Inl x)
      | _ \<Rightarrow> Inl invalid_event_facts)"

section \<open>Source kind and the owner package\<close>

datatype source_kind = Synthetic | Eventbrite | Manual | Unsupported

definition source_kind_of :: "dict \<Rightarrow> 'a option \<Rightarrow> source_kind" where
  "source_kind_of snapshot source_snapshot_id =
     (if dget snapshot ''synthetic'' = JBool True then Synthetic
      else if source_snapshot_id \<noteq> None then Eventbrite
      else if dget snapshot ''owner_event'' = JBool True then Manual else Unsupported)"

text \<open>The loop of \<open>prepare_owner_package\<close>: each field is validated alone and blanked when invalid.\<close>

fun owner_facts :: "facts_lib \<Rightarrow> dict \<Rightarrow> string list \<Rightarrow> (string \<times> string) list \<times> string list" where
  "owner_facts lib snapshot [] = ([], [])"
| "owner_facts lib snapshot (key # keys) =
     (let (facts, invalid) = owner_facts lib snapshot keys
      in case validate_facts lib (JObj [(key, dget_default snapshot key (JStr []))]) of
           Inr [(k, s)] \<Rightarrow> ((k, s) # facts, invalid)
         | _ \<Rightarrow> ((key, []) # facts, key # invalid))"

definition facts_dict :: "(string \<times> string) list \<Rightarrow> dict" where
  "facts_dict facts = map (\<lambda>(k, s). (k, JStr s)) facts"

definition owner_missing :: "facts_lib \<Rightarrow> dict \<Rightarrow> string list" where
  "owner_missing lib snapshot =
     (let (facts, invalid) = owner_facts lib snapshot FACT_FIELDS;
          invalid' = (case validate_facts lib (JObj (facts_dict facts)) of
                        Inl _ \<Rightarrow> invalid @ [''start_time'', ''end_time''] | Inr _ \<Rightarrow> invalid)
      in filter (\<lambda>key. fact facts key = [] \<or> key \<in> set invalid') FACT_FIELDS)"

definition owner_question :: "string \<Rightarrow> json" where
  "owner_question key =
     JObj [(''field'', JStr key), (''prompt'', JStr (''Confirm '' @ underscores_to_spaces key @ ''.''))]"

definition owner_audience :: json where
  "owner_audience =
     JObj [(''id'', JNull), (''name'', JStr ''Choose in provider review''), (''member_count'', JInt 0),
           (''language'', JStr ''Unspecified'')]"

definition owner_sponsor :: json where
  "owner_sponsor =
     JObj [(''passed'', JBool False), (''tier'', JStr []), (''expected_discount_percent'', JNull),
           (''actual_discount_percent'', JNull), (''general_ticket_price'', JNull),
           (''sponsor_ticket_price'', JNull)]"

definition owner_lanes :: "string list \<Rightarrow> json" where
  "owner_lanes missing =
     (let st = (if missing \<noteq> [] then ''needs_input'' else ''complete'')
      in JObj
        [(''event_readiness'', lane ''Event Readiness'' st
            (if missing \<noteq> [] then ''Confirm public event facts.'' else ''Public event facts confirmed.'')),
         (''campaign_composer'', lane ''Content preparation'' st ''Event copy is for review only.''),
         (''audience_policy'', lane ''Provider review'' ''needs_input''
            ''Choose exact audience and suppression in provider request review.'')])"

definition owner_evidence :: json where
  "owner_evidence =
     JList [JStr ''Prepared only public event facts from the current revision.'',
            JStr ''No audience segmentation or sponsor policy was applied.'',
            JStr ''Provider operations require a separate exact owner request approval.'']"

definition prepare_owner_package :: "py_env \<Rightarrow> facts_lib \<Rightarrow> dict \<Rightarrow> py_error + json" where
  "prepare_owner_package e lib snapshot =
     (let facts = fst (owner_facts lib snapshot FACT_FIELDS);
          missing = owner_missing lib snapshot;
          status = (if missing \<noteq> [] then ''needs_input'' else ''ready_for_review'') in
      try_bind (draft e (facts_dict facts) ''Invitation'') (\<lambda>invitation.
      try_bind (draft e (facts_dict facts) ''Reminder'') (\<lambda>reminder.
        Inr (JObj
          [(''schema_id'', JStr SCHEMA_ID), (''status'', JStr status),
           (''missing_fields'', JList (map JStr missing)),
           (''questions'', JList (map owner_question missing)),
           (''assets'', JObj
              [(''invitation'', invitation), (''reminder'', reminder),
               (''social'', JObj [(''body'', JStr (fact facts ''title'' @ '' on '' @ fact facts ''date''
                  @ ''. '' @ fact facts ''signup_url''))])]),
           (''audience'', owner_audience), (''sponsor'', owner_sponsor),
           (''lanes'', owner_lanes missing), (''evidence'', owner_evidence)]))))"

section \<open>Properties\<close>

lemma strip_facts_keys: "strip_facts d = Inr facts \<Longrightarrow> map fst facts = map fst d"
proof (induction d arbitrary: facts)
  case (Cons kv d)
  then show ?case by (cases kv) (auto simp: result_simps split: json.splits if_splits)
qed simp

lemma strip_facts_values:
  "strip_facts d = Inr facts \<Longrightarrow> (k, s) \<in> set facts \<Longrightarrow>
     \<exists>raw. (k, JStr raw) \<in> set d \<and> s = strip raw \<and> length raw \<le> max_length k"
proof (induction d arbitrary: facts)
  case (Cons kv d)
  then show ?case by (cases kv) (fastforce simp: result_simps split: json.splits if_splits)
qed simp

lemma length_strip: "length (strip s) \<le> length s"
  unfolding strip_def by (metis length_dropWhile_le length_rev order.trans)

lemma strip_facts_idem:
  "strip_facts d = Inr facts \<Longrightarrow> strip_facts (facts_dict facts) = Inr facts"
proof (induction d arbitrary: facts)
  case (Cons kv d)
  obtain key raw where kv: "kv = (key, raw)" by (cases kv)
  with Cons.prems obtain s rest where raw: "raw = JStr s" and l: "length s \<le> max_length key"
    and r: "strip_facts d = Inr rest" and f: "facts = (key, strip s) # rest"
    by (auto simp: result_simps split: json.splits if_splits)
  have "\<not> length (strip s) > max_length key" using l length_strip [of s] by linarith
  with Cons.IH [OF r] show ?case by (simp add: f facts_dict_def)
qed (simp add: facts_dict_def)

lemma fst_owner_facts: "map fst (fst (owner_facts lib snapshot keys)) = keys"
proof (induction keys)
  case (Cons key keys)
  obtain facts invalid where o: "owner_facts lib snapshot keys = (facts, invalid)"
    by (cases "owner_facts lib snapshot keys")
  have "validate_facts lib (JObj [(key, v)]) = Inr [(k, s)] \<Longrightarrow> k = key" for k s v
    by (auto simp: validate_facts_def result_simps split: json.splits if_splits option.splits)
  with Cons show ?case by (auto simp: o split: sum.splits list.splits)
qed simp

text \<open>
  Validated facts pass validation again unchanged: what the code stores as the facts of a revision
  is a fixed point of its own validator.
\<close>

theorem validate_facts_idempotent:
  assumes "validate_facts lib value = Inr facts"
  shows "validate_facts lib (JObj (facts_dict facts)) = Inr facts"
proof -
  obtain d where d: "value = JObj d" and k: "list_all (\<lambda>k. k \<in> set FACT_FIELDS) (map fst d)"
    and s: "strip_facts d = Inr facts" and ok: "facts_error lib facts = None"
    using assms by (auto simp: validate_facts_def result_simps split: json.splits if_splits option.splits)
  have "map fst (facts_dict facts) = map fst d"
    using strip_facts_keys [OF s] by (simp add: facts_dict_def comp_def case_prod_beta)
  then show ?thesis using k strip_facts_idem [OF s] ok by (simp add: validate_facts_def)
qed


text \<open>
  A schedule is accepted only when both times exist exactly once in the zone and the event ends
  after it starts: accepted facts with a date, a zone and both times have two UTC instants in order.
\<close>

theorem accepted_schedule_ordered:
  assumes "validate_facts lib value = Inr facts"
    and "fact facts ''date'' \<noteq> []" and "fact facts ''timezone'' \<noteq> []"
    and "fact facts ''start_time'' \<noteq> []" and "fact facts ''end_time'' \<noteq> []"
  shows "\<exists>d s t a b.
    parse_date (fact facts ''date'') = Some d \<and> parse_time (fact facts ''start_time'') = Some s
    \<and> parse_time (fact facts ''end_time'') = Some t
    \<and> local_of_utc lib (fact facts ''timezone'') a = local_minutes d s
    \<and> local_of_utc lib (fact facts ''timezone'') b = local_minutes d t
    \<and> utcoffset lib (fact facts ''timezone'') (local_minutes d s) False =
        utcoffset lib (fact facts ''timezone'') (local_minutes d s) True
    \<and> a < b"
proof -
  have "schedule_ok lib facts"
    using assms(1)
    by (auto simp: validate_facts_def facts_error_def rejected_def result_simps
        split: json.splits if_splits option.splits)
  with assms(2-5) obtain d s t a b where
    "parse_date (fact facts ''date'') = Some d" "parse_time (fact facts ''start_time'') = Some s"
    "parse_time (fact facts ''end_time'') = Some t"
    "utc_point lib (fact facts ''timezone'') (local_minutes d s) = Some a"
    "utc_point lib (fact facts ''timezone'') (local_minutes d t) = Some b" "a < b"
    by (auto simp: schedule_ok_def split: option.splits)
  then show ?thesis
    by (intro exI [of _ d] exI [of _ s] exI [of _ t] exI [of _ a] exI [of _ b])
       (auto simp: utc_point_def Let_def split: if_splits)
qed

section \<open>Witnesses\<close>

definition utc_lib :: facts_lib where
  "utc_lib = \<lparr>zone_known = (\<lambda>z. z = ''UTC''), utcoffset = (\<lambda>_ _ _. 0), local_of_utc = (\<lambda>_ u. u),
              urlsplit = (\<lambda>_. None),
              reject_text = (\<lambda>_ _. ''invalid_event_facts'')\<rparr>"

definition sample_facts :: json where
  "sample_facts =
     JObj [(''date'', JStr ''2026-08-12''), (''timezone'', JStr ''UTC''), (''start_time'', JStr ''09:00''),
           (''end_time'', JStr ''12:00'')]"

definition sample_fact_list :: "(string \<times> string) list" where
  "sample_fact_list =
     [(''date'', ''2026-08-12''), (''timezone'', ''UTC''), (''start_time'', ''09:00''), (''end_time'', ''12:00'')]"

lemma sample_facts_valid: "validate_facts utc_lib sample_facts = Inr sample_fact_list"
proof -
  have s: "strip ''2026-08-12'' = ''2026-08-12''" "strip ''UTC'' = ''UTC''"
    "strip ''09:00'' = ''09:00''" "strip ''12:00'' = ''12:00''"
    by code_simp+
  have d: "parse_date ''2026-08-12'' = Some (2026, 8, 12)" by code_simp
  have t: "parse_time ''09:00'' = Some (9, 0)" "parse_time ''12:00'' = Some (12, 0)" by code_simp+
  have k: "list_all (\<lambda>k. k \<in> set FACT_FIELDS) [''date'', ''timezone'', ''start_time'', ''end_time'']"
    by (simp add: FACT_FIELDS_def)
  have "schedule_ok utc_lib sample_fact_list"
    unfolding schedule_ok_def sample_fact_list_def
    by (simp add: fact_def d t del: parse_date.simps parse_time.simps)
       (simp add: utc_point_def utc_lib_def local_minutes_def)
  then have "facts_error utc_lib sample_fact_list = None"
    by (simp add: facts_error_def) (simp add: sample_fact_list_def fact_def d t utc_lib_def
        del: parse_date.simps parse_time.simps)
  then show ?thesis
    using k s by (simp add: validate_facts_def sample_facts_def sample_fact_list_def max_length_def)
qed

end
