(* ===== verification/Eventbrite_Draft.thy ===== *)
theory Eventbrite_Draft
  imports Owner_Events
begin

text \<open>
  The draft-only Eventbrite client, \<open>backend/integrations/eventbrite_drafts.py\<close>: the payload contract,
  the request digest and the adapter's \<open>create\<close>, \<open>update\<close> and \<open>reconcile\<close>.

  The provider is a parameter: a function from the requests already sent and the next request to
  what comes back (a response, an HTTP error, a timeout or a transport error).  The adapter functions thread the log of sent
  requests, so that the theorems can speak of what was sent.  \<open>zone\<close> says which names
  \<open>zoneinfo.ZoneInfo\<close> accepts.
\<close>

section \<open>Texts\<close>

text \<open>\<open>json.dumps(.., ensure_ascii=False)\<close>: only the control characters, the quote and the backslash are escaped.\<close>

definition escape_plain :: "char \<Rightarrow> string" where
  "escape_plain c = (if 127 \<le> code c then [c] else escape_char c)"

definition plain_str :: "string \<Rightarrow> string" where
  "plain_str s = [char_of (34::nat)] @ concat (map escape_plain s) @ [char_of (34::nat)]"

fun dumps_sorted :: "py_env \<Rightarrow> json \<Rightarrow> string" where
  "dumps_sorted e (JStr s) = plain_str s"
| "dumps_sorted e (JList l) = ''['' @ join_with '','' (map (dumps_sorted e) l) @ '']''"
| "dumps_sorted e (JObj d) =
     ''{'' @ join_with '','' (map (\<lambda>(k, s). plain_str k @ '':'' @ s)
                            (sort_keys (map (\<lambda>(k, v). (k, dumps_sorted e v)) d))) @ ''}''"
| "dumps_sorted e v = json_dumps e v"

fun dumps_plain :: "py_env \<Rightarrow> json \<Rightarrow> string" where
  "dumps_plain e (JStr s) = plain_str s"
| "dumps_plain e (JList l) = ''['' @ join_with '', '' (map (dumps_plain e) l) @ '']''"
| "dumps_plain e (JObj d) =
     ''{'' @ join_with '', '' (map (\<lambda>(k, v). plain_str k @ '': '' @ dumps_plain e v) d) @ ''}''"
| "dumps_plain e v = json_dumps e v"

definition utf8_length :: "string \<Rightarrow> nat" where
  "utf8_length s = sum_list (map (\<lambda>c. if code c < 128 then 1 else 2) s)"

section \<open>The payload contract\<close>

datatype draft_error = DraftError string

definition invalid_request :: draft_error where
  "invalid_request = DraftError ''invalid_request''"

definition MAX_REQUEST_BYTES :: nat where
  "MAX_REQUEST_BYTES = 32 * 1024"

record draft_receipt =
  outcome :: string
  r_provider_id :: "string option"
  r_provider_status :: "string option"
  r_request_digest :: string
  r_readback_digest :: "string option"
  r_error_category :: "string option"

definition draft_digest :: "py_env \<Rightarrow> json \<Rightarrow> string" where
  "draft_digest e v = sha256_hex e (dumps_sorted e v)"

definition ascii_digit :: "char \<Rightarrow> bool" where
  "ascii_digit c \<longleftrightarrow> 48 \<le> code c \<and> code c \<le> 57"

text \<open>The pattern \<open>[1-9][0-9]{0,39}\<close>.\<close>

definition id_text :: "string \<Rightarrow> bool" where
  "id_text s \<longleftrightarrow> (case s of [] \<Rightarrow> False
     | c # t \<Rightarrow> ascii_digit c \<and> c \<noteq> CHR ''0'' \<and> length t \<le> 39 \<and> list_all ascii_digit t)"

definition draft_identifier :: "json \<Rightarrow> draft_error + string" where
  "draft_identifier v = (case v of JStr s \<Rightarrow> if id_text s then Inr s else Inl invalid_request | _ \<Rightarrow> Inl invalid_request)"

definition FIELDS :: "string list" where
  "FIELDS = [''name'', ''summary'', ''start'', ''end'', ''online_event'', ''venue_id'', ''listed'', ''shareable'']"

definition keys :: "dict \<Rightarrow> string set" where
  "keys d = set (map fst d)"

definition has :: "dict \<Rightarrow> string \<Rightarrow> bool" where
  "has d k \<longleftrightarrow> map_of d k \<noteq> None"

definition name_ok :: "json \<Rightarrow> bool" where
  "name_ok v = (case v of
     JObj d \<Rightarrow> keys d = {''html''} \<and> (case dget d ''html'' of JStr s \<Rightarrow> strip s \<noteq> [] \<and> length s \<le> 200 | _ \<Rightarrow> False)
   | _ \<Rightarrow> False)"

definition summary_ok :: "json \<Rightarrow> bool" where
  "summary_ok v = (case v of JStr s \<Rightarrow> length s \<le> 140 | _ \<Rightarrow> False)"

text \<open>\<open>YYYY-MM-DDTHH:MM:SSZ\<close> as seconds, when \<open>strptime\<close> accepts it.\<close>

definition parse_utc :: "string \<Rightarrow> int option" where
  "parse_utc s =
     (if length s \<noteq> 20 \<or> s ! 10 \<noteq> CHR ''T'' \<or> s ! 16 \<noteq> CHR '':'' \<or> s ! 19 \<noteq> CHR ''Z'' then None
      else case (parse_date (take 10 s), parse_time (take 5 (drop 11 s)), digits_value 0 (take 2 (drop 17 s))) of
        (Some d, Some t, Some sc) \<Rightarrow> if sc \<le> 59 then Some (60 * local_minutes d t + int sc) else None
      | _ \<Rightarrow> None)"

definition moment :: "(string \<Rightarrow> bool) \<Rightarrow> json \<Rightarrow> int option" where
  "moment zone v = (case v of
     JObj d \<Rightarrow>
       if keys d \<noteq> {''utc'', ''timezone''} then None
       else (case (dget d ''utc'', dget d ''timezone'') of
         (JStr u, JStr z) \<Rightarrow> if zone z then parse_utc u else None
       | _ \<Rightarrow> None)
   | _ \<Rightarrow> None)"

definition dates_ok :: "(string \<Rightarrow> bool) \<Rightarrow> dict \<Rightarrow> bool" where
  "dates_ok zone event \<longleftrightarrow>
     (has event ''start'' \<longrightarrow> moment zone (dget event ''start'') \<noteq> None)
     \<and> (has event ''end'' \<longrightarrow> moment zone (dget event ''end'') \<noteq> None)
     \<and> has event ''start'' = has event ''end''
     \<and> (has event ''start'' \<longrightarrow>
          (case (moment zone (dget event ''start''), moment zone (dget event ''end'')) of
             (Some a, Some b) \<Rightarrow> \<not> a \<ge> b | _ \<Rightarrow> False))"

definition currency_ok :: "json \<Rightarrow> bool" where
  "currency_ok v = (case v of JStr s \<Rightarrow> length s = 3 \<and> list_all (\<lambda>c. 65 \<le> code c \<and> code c \<le> 90) s | _ \<Rightarrow> False)"

definition venue_ok :: "dict \<Rightarrow> bool" where
  "venue_ok event \<longleftrightarrow> (has event ''venue_id'' \<longrightarrow>
     (\<exists>s \<in> set_option (case dget event ''venue_id'' of JStr s \<Rightarrow> Some s | _ \<Rightarrow> None). id_text s)
     \<and> dget event ''online_event'' \<noteq> JBool True)"

definition event_ok :: "(string \<Rightarrow> bool) \<Rightarrow> bool \<Rightarrow> dict \<Rightarrow> bool" where
  "event_ok zone create event \<longleftrightarrow>
     event \<noteq> [] \<and> keys event \<subseteq> set FIELDS \<union> (if create then {''currency''} else {})
     \<and> (create \<longrightarrow> {''name'', ''start'', ''end'', ''currency''} \<subseteq> keys event)
     \<and> (has event ''name'' \<longrightarrow> name_ok (dget event ''name''))
     \<and> (has event ''summary'' \<longrightarrow> summary_ok (dget event ''summary''))
     \<and> dates_ok zone event
     \<and> (has event ''currency'' \<longrightarrow> currency_ok (dget event ''currency''))
     \<and> (has event ''online_event'' \<longrightarrow> dget event ''online_event'' \<in> {JBool True, JBool False})
     \<and> (has event ''listed'' \<longrightarrow> dget event ''listed'' = JBool False)
     \<and> (has event ''shareable'' \<longrightarrow> dget event ''shareable'' = JBool False)
     \<and> venue_ok event"

definition setdefault :: "string \<Rightarrow> json \<Rightarrow> dict \<Rightarrow> dict" where
  "setdefault k v d = (if has d k then d else d @ [(k, v)])"

definition validate_payload :: "py_env \<Rightarrow> (string \<Rightarrow> bool) \<Rightarrow> bool \<Rightarrow> json \<Rightarrow> draft_error + json" where
  "validate_payload e zone create payload =
     (case payload of
        JObj [(k, JObj event)] \<Rightarrow>
          if k \<noteq> ''event'' \<or> \<not> event_ok zone create event
             \<or> utf8_length (dumps_plain e payload) > MAX_REQUEST_BYTES
          then Inl invalid_request
          else Inr (JObj [(''event'', JObj (if create
                 then setdefault ''shareable'' (JBool False) (setdefault ''listed'' (JBool False) event)
                 else event))])
      | _ \<Rightarrow> Inl invalid_request)"

definition compute_request_digest ::
  "py_env \<Rightarrow> (string \<Rightarrow> bool) \<Rightarrow> string \<Rightarrow> string \<Rightarrow> string option \<Rightarrow> json \<Rightarrow> draft_error + string" where
  "compute_request_digest e zone action organization_id event_id payload =
     (if action \<notin> {''create'', ''update''} then Inl invalid_request
      else if \<not> id_text organization_id then Inl invalid_request
      else if action = ''update'' \<and> \<not> (\<exists>i \<in> set_option event_id. id_text i) then Inl invalid_request
      else if action \<noteq> ''update'' \<and> event_id \<noteq> None then Inl invalid_request
      else try_bind (validate_payload e zone (action = ''create'') payload) (\<lambda>v.
        Inr (draft_digest e (JObj
          [(''action'', JStr action), (''organization_id'', JStr organization_id),
           (''event_id'', case event_id of None \<Rightarrow> JNull | Some i \<Rightarrow> JStr i), (''payload'', v)]))))"

definition READBACK_FIELDS :: "string list" where
  "READBACK_FIELDS = [''changed'', ''currency'', ''end'', ''id'', ''listed'', ''name'', ''online_event'',
     ''organization_id'', ''published'', ''shareable'', ''start'', ''status'', ''summary'', ''venue_id'']"

definition readback_digest :: "py_env \<Rightarrow> dict \<Rightarrow> string" where
  "readback_digest e event = draft_digest e (JObj (map (\<lambda>k. (k, dget event k)) READBACK_FIELDS))"

section \<open>Requests\<close>

datatype path = EventPath string | OrganizationEvents string

datatype request = Get path | Post path json

text \<open>
  What a request can come back with: a response with its status and, when its body is at most 64 KiB
  and is a JSON object, that object; an \<open>HTTPError\<close> with its code; a timeout; another transport error.
\<close>

datatype http = Response nat "dict option" | HttpError nat | TimedOut | NetworkError

type_synonym provider = "request list \<Rightarrow> request \<Rightarrow> http"
type_synonym 'a exchange = "request list \<Rightarrow> request list \<times> (draft_error + 'a)"

fun allowed :: "request \<Rightarrow> bool" where
  "allowed (Get (EventPath i)) \<longleftrightarrow> id_text i"
| "allowed (Post (EventPath i) _) \<longleftrightarrow> id_text i"
| "allowed (Post (OrganizationEvents i) _) \<longleftrightarrow> id_text i"
| "allowed (Get (OrganizationEvents _)) \<longleftrightarrow> False"

definition http_category :: "nat \<Rightarrow> string" where
  "http_category c =
     (if 300 \<le> c \<and> c < 400 then ''redirect''
      else case map_of [(400, ''provider_validation''), (401, ''authentication''), (403, ''forbidden''),
                        (404, ''not_found''), (429, ''rate_limited'')] c of
        None \<Rightarrow> ''provider_error'' | Some t \<Rightarrow> t)"

fun http_result :: "http \<Rightarrow> string + dict" where
  "http_result (Response st body) =
     (if st \<noteq> 200 then Inl ''invalid_response'' else case body of None \<Rightarrow> Inl ''invalid_response'' | Some d \<Rightarrow> Inr d)"
| "http_result (HttpError c) = Inl (http_category c)"
| "http_result TimedOut = Inl ''timeout''"
| "http_result NetworkError = Inl ''network''"

definition send :: "provider \<Rightarrow> request \<Rightarrow> dict exchange" where
  "send pr r sent =
     (if \<not> allowed r then (sent, Inl invalid_request)
      else (sent @ [r], case http_result (pr sent r) of Inl c \<Rightarrow> Inl (DraftError c) | Inr d \<Rightarrow> Inr d))"

record lease =
  lease_provider :: string
  lease_purpose :: string
  lease_workflow :: "string option"
  token :: "string option"

definition token_ok :: "lease \<Rightarrow> bool" where
  "token_ok l \<longleftrightarrow> lease_provider l = ''eventbrite'' \<and> lease_purpose l = ''eventbrite_draft_write''
     \<and> lease_workflow l \<noteq> None
     \<and> (case token l of None \<Rightarrow> False | Some t \<Rightarrow> t \<noteq> [] \<and> list_all (\<lambda>c. 33 \<le> code c \<and> code c \<le> 126) t)"

definition with_token :: "lease \<Rightarrow> 'a exchange \<Rightarrow> 'a exchange" where
  "with_token l f sent = (if token_ok l then f sent else (sent, Inl (DraftError ''invalid_credential'')))"

definition draft_state :: "dict \<Rightarrow> string \<Rightarrow> string option \<Rightarrow> draft_error + string" where
  "draft_state event organization_id event_id =
     try_bind (draft_identifier (dget event ''id'')) (\<lambda>i.
       if (\<exists>j \<in> set_option event_id. i \<noteq> j) \<or> dget event ''organization_id'' \<noteq> JStr organization_id
       then Inl (DraftError ''identity_mismatch'')
       else if dget event ''status'' \<noteq> JStr ''draft'' \<or> dget event ''published'' \<noteq> JNull
               \<or> dget event ''is_series'' = JBool True \<or> dget event ''is_series_parent'' = JBool True
               \<or> dget event ''series_id'' \<noteq> JNull
       then Inl (DraftError ''unsafe_provider_state'')
       else Inr i)"

text \<open>
  A field of the payload against the readback: of two objects only the expected keys are compared.
  The fields of a valid payload are texts and booleans, and \<open>False == 0\<close>.
\<close>

definition scalar_eq :: "json \<Rightarrow> json \<Rightarrow> bool" where
  "scalar_eq expected actual =
     (case expected of JBool b \<Rightarrow> num_of actual = Some (if b then 1 else 0) | _ \<Rightarrow> actual = expected)"

definition field_matches :: "json \<Rightarrow> json \<Rightarrow> bool" where
  "field_matches expected actual =
     (case (expected, actual) of
        (JObj x, JObj a) \<Rightarrow> list_all (\<lambda>(k, v). scalar_eq v (dget a k)) x
      | _ \<Rightarrow> scalar_eq expected actual)"

definition event_of :: "json \<Rightarrow> dict" where
  "event_of payload = (case payload of JObj d \<Rightarrow> (case dget d ''event'' of JObj ev \<Rightarrow> ev | _ \<Rightarrow> []) | _ \<Rightarrow> [])"

definition receipt_confirmed :: "string \<Rightarrow> string \<Rightarrow> string \<Rightarrow> draft_receipt" where
  "receipt_confirmed i dg rb = \<lparr>outcome = ''CONFIRMED'', r_provider_id = Some i, r_provider_status = Some ''draft'',
     r_request_digest = dg, r_readback_digest = Some rb, r_error_category = None\<rparr>"

definition receipt_unknown :: "string option \<Rightarrow> string \<Rightarrow> string \<Rightarrow> draft_receipt" where
  "receipt_unknown i dg c = \<lparr>outcome = ''UNKNOWN'', r_provider_id = i, r_provider_status = None,
     r_request_digest = dg, r_readback_digest = None, r_error_category = Some c\<rparr>"

definition readback_ok :: "string \<Rightarrow> string \<Rightarrow> json \<Rightarrow> dict \<Rightarrow> draft_error + unit" where
  "readback_ok organization_id event_id payload event =
     try_bind (draft_state event organization_id (Some event_id)) (\<lambda>_.
       if list_all (\<lambda>(k, v). field_matches v (dget event k)) (event_of payload) then Inr ()
       else Inl (DraftError ''readback_mismatch''))"

definition confirm :: "py_env \<Rightarrow> provider \<Rightarrow> string \<Rightarrow> string \<Rightarrow> json \<Rightarrow> string \<Rightarrow> draft_receipt exchange" where
  "confirm e pr organization_id event_id payload dg sent =
     (case send pr (Get (EventPath event_id)) sent of
        (sent', Inl (DraftError c)) \<Rightarrow> (sent', Inr (receipt_unknown (Some event_id) dg c))
      | (sent', Inr event) \<Rightarrow>
          (case readback_ok organization_id event_id payload event of
             Inl (DraftError c) \<Rightarrow> (sent', Inr (receipt_unknown (Some event_id) dg c))
           | Inr _ \<Rightarrow> (sent', Inr (receipt_confirmed event_id dg (readback_digest e event)))))"

definition DEFINITE :: "string list" where
  "DEFINITE = [''provider_validation'', ''authentication'', ''forbidden'', ''not_found'', ''rate_limited'', ''redirect'']"

text \<open>The write itself: what a raised category means, and the confirmation after an accepted write.\<close>

definition settle_write :: "string option \<Rightarrow> string \<Rightarrow> draft_error \<Rightarrow> draft_error + draft_receipt" where
  "settle_write known dg x =
     (case x of DraftError c \<Rightarrow> if c \<in> set DEFINITE then Inl x else Inr (receipt_unknown known dg c))"

text \<open>The inner \<open>execute\<close> of \<open>create\<close>.\<close>

definition create_execute :: "py_env \<Rightarrow> provider \<Rightarrow> string \<Rightarrow> json \<Rightarrow> string \<Rightarrow> draft_receipt exchange" where
  "create_execute e pr organization_id v dg sent =
     (case send pr (Post (OrganizationEvents organization_id) v) sent of
        (sent', Inl x) \<Rightarrow> (sent', settle_write None dg x)
      | (sent', Inr event) \<Rightarrow>
          (case draft_identifier (dget event ''id'') of
             Inl x \<Rightarrow> (sent', settle_write None dg x)
           | Inr i \<Rightarrow>
               (case draft_state event organization_id (Some i) of
                  Inl x \<Rightarrow> (sent', settle_write (Some i) dg x)
                | Inr _ \<Rightarrow> confirm e pr organization_id i v dg sent')))"

definition create :: "py_env \<Rightarrow> (string \<Rightarrow> bool) \<Rightarrow> provider \<Rightarrow> lease \<Rightarrow> string \<Rightarrow> json \<Rightarrow> draft_receipt exchange" where
  "create e zone pr l organization_id payload sent =
     (case try_bind (validate_payload e zone True payload) (\<lambda>v.
             try_bind (compute_request_digest e zone ''create'' organization_id None v) (\<lambda>dg. Inr (v, dg))) of
        Inl x \<Rightarrow> (sent, Inl x)
      | Inr (v, dg) \<Rightarrow> with_token l (create_execute e pr organization_id v dg) sent)"

definition hex64 :: "string \<Rightarrow> bool" where
  "hex64 s \<longleftrightarrow> length s = 64 \<and> list_all (\<lambda>c. ascii_digit c \<or> (97 \<le> code c \<and> code c \<le> 102)) s"

text \<open>The inner \<open>execute\<close> of \<open>update\<close>: the event is read first, and written only when it is the reviewed revision.\<close>

definition update_execute :: "py_env \<Rightarrow> provider \<Rightarrow> string \<Rightarrow> string \<Rightarrow> json \<Rightarrow> string \<Rightarrow> string \<Rightarrow> draft_receipt exchange" where
  "update_execute e pr organization_id event_id v dg expected sent =
     (case send pr (Get (EventPath event_id)) sent of
        (sent1, Inl x) \<Rightarrow> (sent1, Inl x)
      | (sent1, Inr before) \<Rightarrow>
          (case draft_state before organization_id (Some event_id) of
             Inl x \<Rightarrow> (sent1, Inl x)
           | Inr _ \<Rightarrow>
             if readback_digest e before \<noteq> expected then (sent1, Inl (DraftError ''stale_revision''))
             else
               (case send pr (Post (EventPath event_id) v) sent1 of
                  (sent2, Inl x) \<Rightarrow> (sent2, settle_write (Some event_id) dg x)
                | (sent2, Inr event) \<Rightarrow>
                    (case draft_state event organization_id (Some event_id) of
                       Inl x \<Rightarrow> (sent2, settle_write (Some event_id) dg x)
                     | Inr _ \<Rightarrow> confirm e pr organization_id event_id v dg sent2))))"

definition update :: "py_env \<Rightarrow> (string \<Rightarrow> bool) \<Rightarrow> provider \<Rightarrow> lease \<Rightarrow> string \<Rightarrow> string \<Rightarrow> json \<Rightarrow> string
    \<Rightarrow> draft_receipt exchange" where
  "update e zone pr l organization_id event_id payload expected sent =
     (case try_bind (validate_payload e zone False payload) (\<lambda>v.
             try_bind (compute_request_digest e zone ''update'' organization_id (Some event_id) v) (\<lambda>dg.
               if hex64 expected then Inr (v, dg) else Inl invalid_request)) of
        Inl x \<Rightarrow> (sent, Inl x)
      | Inr (v, dg) \<Rightarrow> with_token l (update_execute e pr organization_id event_id v dg expected) sent)"

definition reconcile :: "py_env \<Rightarrow> (string \<Rightarrow> bool) \<Rightarrow> provider \<Rightarrow> lease \<Rightarrow> string \<Rightarrow> string option \<Rightarrow> json \<Rightarrow> string
    \<Rightarrow> string \<Rightarrow> draft_receipt exchange" where
  "reconcile e zone pr l organization_id event_id payload dg action sent =
     (case try_bind (validate_payload e zone (action = ''create'') payload) (\<lambda>v.
             try_bind (compute_request_digest e zone action organization_id
                         (if action = ''update'' then event_id else None) v) (\<lambda>expected. Inr (v, expected))) of
        Inl x \<Rightarrow> (sent, Inl x)
      | Inr (v, expected) \<Rightarrow>
          if expected \<noteq> dg then (sent, Inl invalid_request)
          else
            (case event_id of
               None \<Rightarrow> (sent, Inr (receipt_unknown None expected ''human_reconciliation_required''))
             | Some i \<Rightarrow>
                 if \<not> id_text i then (sent, Inl invalid_request)
                 else with_token l (confirm e pr organization_id i v expected) sent))"


section \<open>What a payload guarantees\<close>

lemma has_setdefault: "map_of (setdefault k v d) j = (if j = k \<and> \<not> has d k then Some v else map_of d j)"
  by (auto simp: setdefault_def has_def map_add_def split: option.splits)

text \<open>
  A payload that is accepted for a creation is unlisted and not shareable, whatever the caller
  sent, has a name and a currency, and its start is a valid moment before its end.
\<close>

theorem created_draft_is_private:
  assumes "validate_payload e zone True payload = Inr v"
  shows "\<exists>event a b. v = JObj [(''event'', JObj event)] \<and> dget event ''listed'' = JBool False
    \<and> dget event ''shareable'' = JBool False \<and> name_ok (dget event ''name'') \<and> currency_ok (dget event ''currency'')
    \<and> moment zone (dget event ''start'') = Some a \<and> moment zone (dget event ''end'') = Some b \<and> a < b"
proof -
  obtain ev where ev: "event_ok zone True ev" and v: "v = JObj [(''event'', JObj (setdefault ''shareable'' (JBool False)
      (setdefault ''listed'' (JBool False) ev)))]"
    using assms by (auto simp: validate_payload_def split: json.splits list.splits prod.splits if_splits)
  let ?E = "setdefault ''shareable'' (JBool False) (setdefault ''listed'' (JBool False) ev)"
  have same: "map_of ?E k = map_of ev k" if "k \<noteq> ''listed''" "k \<noteq> ''shareable''" for k
    using that by (simp add: has_setdefault)
  have "has ev ''name''" "has ev ''start''" "has ev ''end''" "has ev ''currency''"
    using ev by (auto simp: event_ok_def has_def keys_def map_of_eq_None_iff)
  moreover from this obtain a b where "moment zone (dget ev ''start'') = Some a" "moment zone (dget ev ''end'') = Some b" "a < b"
    using ev by (auto simp: event_ok_def dates_ok_def split: option.splits)
  moreover have "dget ?E ''listed'' = JBool False" "dget ?E ''shareable'' = JBool False"
    using ev by (auto simp: dget_def has_setdefault event_ok_def has_def split: option.splits)
  moreover have "dget ?E k = dget ev k" if "k \<noteq> ''listed''" "k \<noteq> ''shareable''" for k
    by (simp only: dget_def same [OF that])
  ultimately show ?thesis using ev v by (auto simp: event_ok_def)
qed

section \<open>What is sent and what a receipt means\<close>

fun is_post :: "request \<Rightarrow> bool" where
  "is_post (Post _ _) = True"
| "is_post (Get _) = False"

lemma send_cases:
  assumes "send pr r sent = (sent', res)"
  shows "sent' = sent \<and> (\<exists>x. res = Inl x) \<or> sent' = sent @ [r] \<and> allowed r \<and>
    ((\<exists>c. http_result (pr sent r) = Inl c \<and> res = Inl (DraftError c)) \<or> (\<exists>d. http_result (pr sent r) = Inr d \<and> res = Inr d))"
  using assms by (auto simp: send_def split: if_splits sum.splits)

lemma settle_write_not_confirmed: "settle_write k dg x = Inr rc \<Longrightarrow> outcome rc = ''UNKNOWN''"
  by (auto simp: settle_write_def receipt_unknown_def split: draft_error.splits if_splits)

text \<open>A confirmed receipt: the last request read the event back, and it is a draft that matches.\<close>

definition read_back :: "py_env \<Rightarrow> provider \<Rightarrow> string \<Rightarrow> json \<Rightarrow> request list \<Rightarrow> draft_receipt \<Rightarrow> bool" where
  "read_back e pr organization_id payload sent rc \<longleftrightarrow>
     (\<exists>before i event. sent = before @ [Get (EventPath i)] \<and> http_result (pr before (Get (EventPath i))) = Inr event
        \<and> r_provider_id rc = Some i \<and> dget event ''id'' = JStr i \<and> dget event ''organization_id'' = JStr organization_id
        \<and> dget event ''status'' = JStr ''draft'' \<and> dget event ''published'' = JNull
        \<and> (\<forall>(k, v) \<in> set (event_of payload). field_matches v (dget event k))
        \<and> r_readback_digest rc = Some (readback_digest e event))"

lemma readback_ok_Inr:
  assumes "readback_ok org i payload event = Inr u"
  shows "dget event ''id'' = JStr i \<and> dget event ''organization_id'' = JStr org
        \<and> dget event ''status'' = JStr ''draft'' \<and> dget event ''published'' = JNull
        \<and> (\<forall>(k, v) \<in> set (event_of payload). field_matches v (dget event k))"
  using assms
  by (auto simp: readback_ok_def draft_state_def draft_identifier_def result_simps list_all_iff
      split: if_splits json.splits)

lemma confirm_result:
  assumes "confirm e pr org i payload dg sent = (sent', res)"
  shows "(sent' = sent \<or> sent' = sent @ [Get (EventPath i)]) \<and> (\<exists>rc. res = Inr rc \<and> r_request_digest rc = dg
     \<and> (outcome rc = ''CONFIRMED'' \<longrightarrow> read_back e pr org payload sent' rc))"
proof -
  obtain s1 r1 where s: "send pr (Get (EventPath i)) sent = (s1, r1)" by (cases "send pr (Get (EventPath i)) sent")
  show ?thesis
  proof (cases r1)
    case (Inl x)
    with s assms send_cases [OF s] show ?thesis
      by (cases x) (auto simp: confirm_def receipt_unknown_def)
  next
    case (Inr event)
    show ?thesis
    proof (cases "readback_ok org i payload event")
      case x: (Inl x)
      with s assms Inr send_cases [OF s] show ?thesis by (cases x) (auto simp: confirm_def receipt_unknown_def)
    next
      case u: (Inr u)
      with s assms Inr have "sent' = s1" "res = Inr (receipt_confirmed i dg (readback_digest e event))"
        by (auto simp: confirm_def)
      moreover have "s1 = sent @ [Get (EventPath i)]" "http_result (pr sent (Get (EventPath i))) = Inr event"
        using send_cases [OF s] Inr by auto
      ultimately show ?thesis using readback_ok_Inr [OF u]
        by (auto simp: read_back_def receipt_confirmed_def)
    qed
  qed
qed


text \<open>What one exchange adds to the log, and what its result says.\<close>

definition exchange_ok ::
  "py_env \<Rightarrow> provider \<Rightarrow> string \<Rightarrow> json \<Rightarrow> (request \<Rightarrow> bool) \<Rightarrow> request list \<Rightarrow> request list \<times> (draft_error + draft_receipt) \<Rightarrow> bool" where
  "exchange_ok e pr org v writes sent res \<longleftrightarrow>
     (\<exists>news. fst res = sent @ news \<and> length (filter is_post news) \<le> 1 \<and> (\<forall>r \<in> set news. allowed r \<and> (is_post r \<longrightarrow> writes r)))
     \<and> (\<forall>rc. snd res = Inr rc \<and> outcome rc = ''CONFIRMED'' \<longrightarrow> read_back e pr org v (fst res) rc)"

lemma exchange_ok_settled:
  "fst res = sent @ news \<Longrightarrow> length (filter is_post news) \<le> 1 \<Longrightarrow>
   (\<And>r. r \<in> set news \<Longrightarrow> allowed r \<and> (is_post r \<longrightarrow> writes r)) \<Longrightarrow>
   (\<And>rc. snd res = Inr rc \<Longrightarrow> outcome rc = ''UNKNOWN'') \<Longrightarrow> exchange_ok e pr org v writes sent res"
  by (auto simp: exchange_ok_def)

lemma confirm_allowed:
  assumes "confirm e pr org i v dg sent = (sent', res)" and "sent' \<noteq> sent"
  shows "allowed (Get (EventPath i))"
  using assms by (auto simp: confirm_def send_def invalid_request_def split: if_splits)

lemma exchange_ok_confirm:
  assumes log: "sent1 = sent @ news" "length (filter is_post news) \<le> 1"
      "\<And>r. r \<in> set news \<Longrightarrow> allowed r \<and> (is_post r \<longrightarrow> writes r)"
  shows "exchange_ok e pr org v writes sent (confirm e pr org i v dg sent1)"
proof -
  obtain s2 res where c: "confirm e pr org i v dg sent1 = (s2, res)" by (cases "confirm e pr org i v dg sent1")
  note r = confirm_result [OF c]
  have "\<exists>more. s2 = sent1 @ more \<and> filter is_post more = [] \<and> (\<forall>q \<in> set more. allowed q \<and> \<not> is_post q)"
    using r confirm_allowed [OF c] by (cases "s2 = sent1") auto
  then obtain more where more: "s2 = sent1 @ more" "filter is_post more = []" "\<forall>q \<in> set more. allowed q \<and> \<not> is_post q" by blast
  then have "fst (s2, res) = sent @ (news @ more)" "length (filter is_post (news @ more)) \<le> 1"
    "\<forall>q \<in> set (news @ more). allowed q \<and> (is_post q \<longrightarrow> writes q)" using log by auto
  with r c show ?thesis unfolding exchange_ok_def by (auto simp del: filter_append)
qed

lemma create_execute_ok:
  "exchange_ok e pr org v (\<lambda>r. r = Post (OrganizationEvents org) v) sent (create_execute e pr org v dg sent)"
proof -
  let ?W = "\<lambda>r. r = Post (OrganizationEvents org) v"
  obtain s1 r1 where s: "send pr (Post (OrganizationEvents org) v) sent = (s1, r1)"
    by (cases "send pr (Post (OrganizationEvents org) v) sent")
  obtain news where news: "s1 = sent @ news" "length (filter is_post news) \<le> 1"
      "\<And>r. r \<in> set news \<Longrightarrow> allowed r \<and> (is_post r \<longrightarrow> ?W r)"
    using send_cases [OF s] by (auto intro: that [of "[]"] that [of "[Post (OrganizationEvents org) v]"])
  have fin: "exchange_ok e pr org v ?W sent (s1, settle_write k dg x)" for k x
    by (rule exchange_ok_settled [OF _ news(2,3)]) (auto simp: news(1) dest: settle_write_not_confirmed)
  note conf = exchange_ok_confirm [OF news]
  show ?thesis
    unfolding create_execute_def s
    by (auto split: sum.splits intro!: fin conf)
qed

lemma update_execute_ok:
  "exchange_ok e pr org v (\<lambda>r. r = Post (EventPath i) v) sent (update_execute e pr org i v dg expected sent)"
proof -
  let ?W = "\<lambda>r. r = Post (EventPath i) v"
  obtain s1 r1 where s: "send pr (Get (EventPath i)) sent = (s1, r1)" by (cases "send pr (Get (EventPath i)) sent")
  obtain n1 where n1: "s1 = sent @ n1" "filter is_post n1 = []" "\<And>r. r \<in> set n1 \<Longrightarrow> allowed r \<and> \<not> is_post r"
    using send_cases [OF s] by (auto intro: that [of "[]"] that [of "[Get (EventPath i)]"])
  obtain s2 r2 where t: "send pr (Post (EventPath i) v) s1 = (s2, r2)" by (cases "send pr (Post (EventPath i) v) s1")
  have "\<exists>n2. s2 = sent @ n2 \<and> length (filter is_post n2) \<le> 1 \<and> (\<forall>r \<in> set n2. allowed r \<and> (is_post r \<longrightarrow> ?W r))"
  proof (cases "s2 = s1")
    case True
    then show ?thesis using n1 by (intro exI [of _ n1]) auto
  next
    case False
    then show ?thesis using send_cases [OF t] n1 by (intro exI [of _ "n1 @ [Post (EventPath i) v]"]) auto
  qed
  then obtain n2 where n2: "s2 = sent @ n2" "length (filter is_post n2) \<le> 1"
      "\<And>r. r \<in> set n2 \<Longrightarrow> allowed r \<and> (is_post r \<longrightarrow> ?W r)" by blast
  have first: "exchange_ok e pr org v ?W sent (s1, Inl x)" for x
    by (rule exchange_ok_settled [of _ _ n1]) (auto simp: n1)
  have fin: "exchange_ok e pr org v ?W sent (s2, settle_write k dg x)" for k x
    by (rule exchange_ok_settled [OF _ n2(2,3)]) (auto simp: n2(1) dest: settle_write_not_confirmed)
  note conf = exchange_ok_confirm [OF n2]
  show ?thesis
    unfolding update_execute_def s
    by (auto simp: t split: sum.splits intro!: first fin conf)
qed


text \<open>
  C7: A call of \<open>create\<close> sends at most one write, which is the POST of a validated payload to the
  organization's events, and every request it sends has a checked path; a \<open>CONFIRMED\<close> receipt means
  that the last request read the event back from the provider as an unpublished draft of that
  organization whose fields agree with the validated payload, with the digest of that readback.
\<close>

theorem create_writes_once:
  assumes "create e zone pr l org payload sent = (sent', res)"
  shows "(\<exists>news. sent' = sent @ news \<and> length (filter is_post news) \<le> 1
      \<and> (\<forall>r \<in> set news. allowed r \<and> (is_post r \<longrightarrow>
           (\<exists>v. validate_payload e zone True payload = Inr v \<and> r = Post (OrganizationEvents org) v))))
    \<and> (\<forall>rc. res = Inr rc \<and> outcome rc = ''CONFIRMED'' \<longrightarrow>
         (\<exists>v. validate_payload e zone True payload = Inr v \<and> read_back e pr org v sent' rc))"
proof (cases "\<exists>v dg. validate_payload e zone True payload = Inr v \<and>
    compute_request_digest e zone ''create'' org None v = Inr dg \<and> token_ok l")
  case True
  then obtain v dg where v: "validate_payload e zone True payload = Inr v"
    "compute_request_digest e zone ''create'' org None v = Inr dg" "token_ok l" by blast
  then have "create_execute e pr org v dg sent = (sent', res)"
    using assms by (simp add: create_def with_token_def)
  with create_execute_ok [of e pr org v sent dg] v(1) show ?thesis by (auto simp: exchange_ok_def)
next
  case False
  then have "sent' = sent \<and> (\<exists>x. res = Inl x)"
    using assms by (auto simp: create_def with_token_def try_bind_def split: sum.splits if_splits)
  then show ?thesis by auto
qed

text \<open>
  C27: A call of \<open>update\<close> writes only over the reviewed revision: it sends at most one POST, to that
  event, and only after a readback of the event whose digest is the reviewed one.
\<close>

theorem update_writes_reviewed_revision:
  assumes "update e zone pr l org i payload expected [] = (sent', res)" and "r \<in> set sent'" and "is_post r"
  shows "length (filter is_post sent') = 1 \<and> (\<exists>v. r = Post (EventPath i) v \<and> validate_payload e zone False payload = Inr v)
    \<and> (\<exists>before. http_result (pr [] (Get (EventPath i))) = Inr before \<and> readback_digest e before = expected)"
proof (cases "\<exists>v dg. validate_payload e zone False payload = Inr v \<and>
    compute_request_digest e zone ''update'' org (Some i) v = Inr dg \<and> hex64 expected \<and> token_ok l")
  case True
  then obtain v dg where v: "validate_payload e zone False payload = Inr v"
    "compute_request_digest e zone ''update'' org (Some i) v = Inr dg" "hex64 expected" "token_ok l" by blast
  then have u: "update_execute e pr org i v dg expected [] = (sent', res)"
    using assms(1) by (simp add: update_def with_token_def)
  have ok: "length (filter is_post sent') \<le> 1" "r = Post (EventPath i) v"
    using update_execute_ok [of e pr org v i "[]" dg expected] u assms(2,3) by (auto simp: exchange_ok_def)
  have "r \<in> set (filter is_post sent')" using assms(2,3) by simp
  then have "length (filter is_post sent') = 1" using ok(1) by (cases "filter is_post sent'") auto
  moreover have "\<exists>before. http_result (pr [] (Get (EventPath i))) = Inr before \<and> readback_digest e before = expected"
  proof (rule ccontr)
    assume no: "\<not> ?thesis"
    obtain s1 r1 where s: "send pr (Get (EventPath i)) [] = (s1, r1)" by (cases "send pr (Get (EventPath i)) []")
    have "sent' = s1"
    proof (cases r1)
      case (Inr d)
      then have "http_result (pr [] (Get (EventPath i))) = Inr d" using send_cases [OF s] by auto
      with no have "readback_digest e d \<noteq> expected" by blast
      with u s Inr show ?thesis by (auto simp: update_execute_def split: sum.splits)
    qed (use u s in \<open>auto simp: update_execute_def\<close>)
    then show False using send_cases [OF s] assms(2,3) by auto
  qed
  ultimately show ?thesis using ok(2) v(1) by blast
next
  case False
  then have "sent' = []"
    using assms(1) by (auto simp: update_def with_token_def try_bind_def split: sum.splits if_splits)
  then show ?thesis using assms(2) by simp
qed


section \<open>Concrete exchanges\<close>

definition fixed_env :: py_env where
  "fixed_env = \<lparr>sha256_hex = (\<lambda>_. replicate 64 (CHR ''a'')), repr_float = (\<lambda>_. ''0.0''), repr_other = (\<lambda>_. ''...'')\<rparr>"

definition any_zone :: "string \<Rightarrow> bool" where
  "any_zone z \<longleftrightarrow> z = ''UTC''"

definition utc_at :: "string \<Rightarrow> json" where
  "utc_at u = JObj [(''utc'', JStr u), (''timezone'', JStr ''UTC'')]"

definition new_event :: dict where
  "new_event = [(''name'', JObj [(''html'', JStr ''Breakfast'')]), (''start'', utc_at ''2026-08-12T09:00:00Z''),
     (''end'', utc_at ''2026-08-12T12:00:00Z''), (''currency'', JStr ''USD'')]"

definition private_event :: dict where
  "private_event = new_event @ [(''listed'', JBool False), (''shareable'', JBool False)]"

definition changed_event :: dict where
  "changed_event = [(''summary'', JStr ''Tea'')]"

definition reply :: dict where
  "reply = private_event @ [(''summary'', JStr ''Tea''), (''id'', JStr ''7''), (''organization_id'', JStr ''1''), (''status'', JStr ''draft'')]"

definition steady :: provider where
  "steady sent r = Response 200 (Some reply)"

definition write_lease :: lease where
  "write_lease = \<lparr>lease_provider = ''eventbrite'', lease_purpose = ''eventbrite_draft_write'', lease_workflow = Some ''w'',
     token = Some ''t''\<rparr>"

lemma length_plain_str: "length (plain_str s) \<le> 6 * length s + 2"
proof -
  have "length (escape_plain c) \<le> 6" for c by (simp add: escape_plain_def escape_char_def Let_def)
  then have "length (concat (map escape_plain s)) \<le> 6 * length s"
    by (induction s) (auto intro: order_trans [OF add_mono])
  then show ?thesis by (simp add: plain_str_def)
qed

lemma utf8_length_le: "utf8_length s \<le> 2 * length s"
  by (induction s) (auto simp: utf8_length_def)

lemma length_join_plain: "length (join_with '', '' xs) \<le> sum_list (map (\<lambda>x. length x + 2) xs)"
  by (induction "'', ''" xs rule: join_with.induct) auto

lemma length_dumps_plain_obj:
  "length (dumps_plain e (JObj d)) \<le>
     2 + sum_list (map (\<lambda>(k, v). 6 * length k + length (dumps_plain e v) + 6) d)"
proof -
  have "length (join_with '', '' (map (\<lambda>(k, v). plain_str k @ '': '' @ dumps_plain e v) d))
      \<le> sum_list (map (\<lambda>x. length x + 2) (map (\<lambda>(k, v). plain_str k @ '': '' @ dumps_plain e v) d))"
    by (rule length_join_plain)
  also have "\<dots> \<le> sum_list (map (\<lambda>(k, v). 6 * length k + length (dumps_plain e v) + 6) d)"
  proof -
    have "length (plain_str k) + x + 4 \<le> 6 * length k + x + 6" for k x using length_plain_str [of k] by simp
    then show ?thesis by (auto simp: comp_def case_prod_unfold intro!: sum_list_mono)
  qed
  finally show ?thesis by simp
qed

lemma length_dumps_text: "length (dumps_plain e (JStr t)) \<le> 6 * length t + 2"
  using length_plain_str by simp

lemma small_utc_at: "length (dumps_plain e (utc_at u)) \<le> 6 * length u + 200"
  unfolding utc_at_def using length_dumps_plain_obj [of e "[(''utc'', JStr u), (''timezone'', JStr ''UTC'')]"]
    length_dumps_text [of e u] length_dumps_text [of e "''UTC''"] by simp

lemma small_event: "length (dumps_plain e (JObj private_event)) \<le> 3000" "length (dumps_plain e (JObj new_event)) \<le> 3000"
  "length (dumps_plain e (JObj changed_event)) \<le> 3000"
proof -
  have n: "length (dumps_plain e (JObj [(''html'', JStr ''Breakfast'')])) \<le> 200"
    using length_dumps_plain_obj [of e "[(''html'', JStr ''Breakfast'')]"] length_dumps_text [of e "''Breakfast''"] by simp
  note parts = n length_dumps_text [of e "''USD''"] small_utc_at [of e "''2026-08-12T09:00:00Z''"] small_utc_at [of e "''2026-08-12T12:00:00Z''"]
  show "length (dumps_plain e (JObj private_event)) \<le> 3000"
    using length_dumps_plain_obj [of e private_event] parts by (simp add: private_event_def new_event_def del: dumps_plain.simps(1,3))
  show "length (dumps_plain e (JObj new_event)) \<le> 3000"
    using length_dumps_plain_obj [of e new_event] parts by (simp add: new_event_def del: dumps_plain.simps(1,3))
  show "length (dumps_plain e (JObj changed_event)) \<le> 3000"
    using length_dumps_plain_obj [of e changed_event] length_dumps_text [of e "''Tea''"]
    by (simp add: changed_event_def del: dumps_plain.simps(1,3))
qed

lemma small_payload:
  assumes "length (dumps_plain e (JObj ev)) \<le> 3000"
  shows "\<not> utf8_length (dumps_plain e (JObj [(''event'', JObj ev)])) > MAX_REQUEST_BYTES"
  using length_dumps_plain_obj [of e "[(''event'', JObj ev)]"] assms utf8_length_le [of "dumps_plain e (JObj [(''event'', JObj ev)])"]
  by (simp add: MAX_REQUEST_BYTES_def del: dumps_plain.simps)

lemma sample_moments:
  "moment any_zone (utc_at ''2026-08-12T09:00:00Z'') = Some (60 * local_minutes (2026, 8, 12) (9, 0))"
  "moment any_zone (utc_at ''2026-08-12T12:00:00Z'') = Some (60 * local_minutes (2026, 8, 12) (12, 0))"
proof -
  have p: "parse_date ''2026-08-12'' = Some (2026, 8, 12)" "parse_time ''09:00'' = Some (9, 0)"
    "parse_time ''12:00'' = Some (12, 0)" "digits_value 0 ''00'' = Some 0" by code_simp+
  show "moment any_zone (utc_at ''2026-08-12T09:00:00Z'') = Some (60 * local_minutes (2026, 8, 12) (9, 0))"
    "moment any_zone (utc_at ''2026-08-12T12:00:00Z'') = Some (60 * local_minutes (2026, 8, 12) (12, 0))"
    by (simp_all add: moment_def utc_at_def keys_def any_zone_def dget_def parse_utc_def p numeral_eq_Suc
        del: parse_date.simps parse_time.simps digits_value.simps)
qed

definition as_payload :: "dict \<Rightarrow> json" where
  "as_payload ev = JObj [(''event'', JObj ev)]"

lemma new_event_ok: "event_ok any_zone True new_event" "event_ok any_zone True private_event"
  and changed_event_ok: "event_ok any_zone False changed_event"
proof -
  have lt: "local_minutes (2026, 8, 12) (9, 0) < local_minutes (2026, 8, 12) (12, 0)" by (simp add: local_minutes_def)
  have strip: "strip ''Breakfast'' \<noteq> []" by code_simp
  note defs = event_ok_def keys_def has_def dget_def dates_ok_def name_ok_def currency_ok_def venue_ok_def
    private_event_def new_event_def FIELDS_def code_def list_all_iff
  show "event_ok any_zone True new_event" "event_ok any_zone True private_event"
    using lt strip by (simp_all add: defs sample_moments)
  show "event_ok any_zone False changed_event"
    by (simp add: defs changed_event_def summary_ok_def)
qed

lemma valid_payloads:
  "validate_payload fixed_env any_zone True (as_payload new_event) = Inr (as_payload private_event)"
  "validate_payload fixed_env any_zone True (as_payload private_event) = Inr (as_payload private_event)"
  "validate_payload fixed_env any_zone False (as_payload changed_event) = Inr (as_payload changed_event)"
proof -
  note small = small_event [THEN small_payload, of fixed_env]
  have d: "setdefault ''shareable'' (JBool False) (setdefault ''listed'' (JBool False) new_event) = private_event"
    "setdefault ''shareable'' (JBool False) (setdefault ''listed'' (JBool False) private_event) = private_event"
    by (simp_all add: setdefault_def has_def private_event_def new_event_def)
  show "validate_payload fixed_env any_zone True (as_payload new_event) = Inr (as_payload private_event)"
    "validate_payload fixed_env any_zone True (as_payload private_event) = Inr (as_payload private_event)"
    "validate_payload fixed_env any_zone False (as_payload changed_event) = Inr (as_payload changed_event)"
    using small by (simp_all add: validate_payload_def as_payload_def new_event_ok changed_event_ok d del: dumps_plain.simps)
qed

text \<open>The provider's answer to each request, as the adapter reads it.\<close>

lemma steady_digest: "draft_digest fixed_env v = replicate 64 (CHR ''a'')"
  by (simp add: draft_digest_def fixed_env_def)

lemma steady_reads:
  "draft_state reply ''1'' (Some ''7'') = Inr ''7''" "draft_identifier (dget reply ''id'') = Inr ''7''"
  "readback_ok ''1'' ''7'' (as_payload private_event) reply = Inr ()"
  "readback_ok ''1'' ''7'' (as_payload changed_event) reply = Inr ()"
  "token_ok write_lease" "id_text ''7''" "id_text ''1''" "hex64 (replicate 64 (CHR ''a''))"
  by code_simp+

definition steady_receipt :: draft_receipt where
  "steady_receipt = receipt_confirmed ''7'' (replicate 64 (CHR ''a'')) (replicate 64 (CHR ''a''))"

lemma steady_create:
  "create fixed_env any_zone steady write_lease ''1'' (as_payload new_event) [] =
     ([Post (OrganizationEvents ''1'') (as_payload private_event), Get (EventPath ''7'')], Inr steady_receipt)"
  by (simp add: create_def valid_payloads try_bind_def compute_request_digest_def steady_reads with_token_def
      create_execute_def send_def steady_def confirm_def steady_digest readback_digest_def steady_receipt_def)

lemma steady_update:
  "update fixed_env any_zone steady write_lease ''1'' ''7'' (as_payload changed_event) (replicate 64 (CHR ''a'')) [] =
     ([Get (EventPath ''7''), Post (EventPath ''7'') (as_payload changed_event), Get (EventPath ''7'')], Inr steady_receipt)"
  by (simp add: update_def valid_payloads try_bind_def compute_request_digest_def steady_reads with_token_def
      update_execute_def send_def steady_def confirm_def steady_digest readback_digest_def steady_receipt_def)

theorem create_writes_once_witness:
  "create fixed_env any_zone steady write_lease ''1'' (as_payload new_event) [] =
     ([Post (OrganizationEvents ''1'') (as_payload private_event), Get (EventPath ''7'')], Inr steady_receipt)
   \<and> (\<exists>v. validate_payload fixed_env any_zone True (as_payload new_event) = Inr v \<and>
        read_back fixed_env steady ''1'' v
          [Post (OrganizationEvents ''1'') (as_payload private_event), Get (EventPath ''7'')] steady_receipt)"
  using create_writes_once [OF steady_create] steady_create
  by (auto simp: steady_receipt_def receipt_confirmed_def)

theorem update_writes_reviewed_revision_witness:
  "update fixed_env any_zone steady write_lease ''1'' ''7'' (as_payload changed_event) (replicate 64 (CHR ''a'')) [] =
     ([Get (EventPath ''7''), Post (EventPath ''7'') (as_payload changed_event), Get (EventPath ''7'')], Inr steady_receipt)
   \<and> (\<exists>before. http_result (steady [] (Get (EventPath ''7''))) = Inr before \<and> readback_digest fixed_env before = replicate 64 (CHR ''a''))"
  using update_writes_reviewed_revision [OF steady_update, of "Post (EventPath ''7'') (as_payload changed_event)"] steady_update
  by simp

end
