(* ===== verification/Tool_Schemas.thy ===== *)
theory Tool_Schemas
  imports Py_Values "HOL-Library.Multiset"
begin

text \<open>
  The tool contracts of the broker, \<open>backend/agents/tool_schemas.py\<close>: \<open>bounded_json\<close>, the walk that
  bounds a value before it is encoded, and \<open>validate\<close>, the exact check of arguments against a
  schema.  A schema is the datatype below, with the three regular expressions of the file as
  matchers.  Every rejection is the one exception \<open>InvalidToolArguments\<close>.
\<close>

section \<open>Schemas\<close>

datatype tool_error = InvalidToolArguments

datatype pattern = P_actor | P_idempotency | P_field

datatype schema =
    S_obj "(string \<times> schema) list"
  | S_arr nat nat schema
  | S_str nat nat "pattern option" bool
  | S_int int

definition MAX_PAYLOAD_BYTES :: nat where
  "MAX_PAYLOAD_BYTES = 65536"

definition MAX_DEPTH :: nat where
  "MAX_DEPTH = 8"

definition is_lower :: "char \<Rightarrow> bool" where
  "is_lower c \<longleftrightarrow> 97 \<le> code c \<and> code c \<le> 122"

definition is_upper :: "char \<Rightarrow> bool" where
  "is_upper c \<longleftrightarrow> 65 \<le> code c \<and> code c \<le> 90"

definition is_digit :: "char \<Rightarrow> bool" where
  "is_digit c \<longleftrightarrow> 48 \<le> code c \<and> code c \<le> 57"

definition is_alnum :: "char \<Rightarrow> bool" where
  "is_alnum c \<longleftrightarrow> is_lower c \<or> is_upper c \<or> is_digit c"

text \<open>\<open>re.fullmatch\<close> of the three patterns.\<close>

fun fullmatch :: "pattern \<Rightarrow> string \<Rightarrow> bool" where
  "fullmatch P_actor s \<longleftrightarrow> s \<noteq> [] \<and> list_all (\<lambda>c. is_alnum c \<or> c \<in> set ''_-'') s"
| "fullmatch P_idempotency s \<longleftrightarrow>
     (case s of [] \<Rightarrow> False
      | c # t \<Rightarrow> is_alnum c \<and> 15 \<le> length t \<and> length t \<le> 127 \<and> list_all (\<lambda>c. is_alnum c \<or> c \<in> set ''._:-'') t)"
| "fullmatch P_field s \<longleftrightarrow> s \<noteq> [] \<and> list_all (\<lambda>c. is_lower c \<or> c = CHR ''_'') s"

text \<open>\<open>str(UUID(value)) == value\<close>: the canonical text of a UUID.\<close>

definition is_hex :: "char \<Rightarrow> bool" where
  "is_hex c \<longleftrightarrow> is_digit c \<or> (97 \<le> code c \<and> code c \<le> 102)"

definition canonical_uuid :: "string \<Rightarrow> bool" where
  "canonical_uuid s \<longleftrightarrow> length s = 36 \<and>
     list_all (\<lambda>i. if i \<in> {8, 13, 18, 23} then s ! i = CHR ''-'' else is_hex (s ! i)) [0..<36]"

definition string_schema :: "nat \<Rightarrow> schema" where
  "string_schema m = S_str 1 m None False"

definition UUID_SCHEMA :: schema where
  "UUID_SCHEMA = S_str 1 36 None True"

definition COMMON :: "(string \<times> schema) list" where
  "COMMON =
     [(''workflow_id'', UUID_SCHEMA), (''revision_id'', S_int 1),
      (''actor_id'', S_str 1 50 (Some P_actor) False), (''correlation_id'', UUID_SCHEMA),
      (''request_id'', UUID_SCHEMA), (''idempotency_key'', S_str 1 128 (Some P_idempotency) False)]"

definition EMAIL :: schema where
  "EMAIL = S_obj [(''subject'', string_schema 240), (''body'', string_schema 12000)]"

definition PROPOSAL :: schema where
  "PROPOSAL = S_obj [(''event_copy'', string_schema 12000), (''invitation'', EMAIL), (''reminder'', EMAIL),
     (''social'', S_obj [(''body'', string_schema 4000)])]"

definition EXTRAS :: "(string \<times> (string \<times> schema) list) list" where
  "EXTRAS =
     [(''get_event_revision'', []), (''get_policy_context'', []),
      (''request_clarification'', [(''questions'', S_arr 1 12
          (S_obj [(''field'', S_str 1 64 (Some P_field) False), (''question'', string_schema 500)]))]),
      (''propose_campaign_drafts'', [(''proposal'', PROPOSAL)]),
      (''validate_proposal'', [(''proposal_id'', UUID_SCHEMA)]),
      (''request_eventbrite_draft'', [(''proposal_id'', UUID_SCHEMA)]),
      (''request_iterable_drafts'', [(''proposal_id'', UUID_SCHEMA)]),
      (''get_operation_status'', [(''operation_id'', UUID_SCHEMA)])]"

definition TOOL_SCHEMAS :: "(string \<times> schema) list" where
  "TOOL_SCHEMAS = map (\<lambda>(name, extra). (name, S_obj (COMMON @ extra))) EXTRAS"

section \<open>bounded_json\<close>

definition over :: "nat \<Rightarrow> nat \<Rightarrow> bool" where
  "over depth nodes \<longleftrightarrow> depth > MAX_DEPTH \<or> nodes + 1 > 2048"

text \<open>The recursive walk; the argument and the result are the count of the nodes seen.\<close>

fun walk :: "json \<Rightarrow> nat \<Rightarrow> nat \<Rightarrow> nat option"
  and walk_list :: "json list \<Rightarrow> nat \<Rightarrow> nat \<Rightarrow> nat option"
  and walk_dict :: "(string \<times> json) list \<Rightarrow> nat \<Rightarrow> nat \<Rightarrow> nat option" where
  "walk (JObj d) depth nodes =
     (if over depth nodes \<or> length d > 100 \<or> list_ex (\<lambda>k. length k > 128) (map fst d) then None
      else walk_dict d (depth + 1) (nodes + 1))"
| "walk (JList xs) depth nodes =
     (if over depth nodes \<or> length xs > 100 then None else walk_list xs (depth + 1) (nodes + 1))"
| "walk (JStr s) depth nodes =
     (if over depth nodes \<or> length s > MAX_PAYLOAD_BYTES then None else Some (nodes + 1))"
| "walk (JInt i) depth nodes = (if over depth nodes then None else Some (nodes + 1))"
| "walk (JBool b) depth nodes = (if over depth nodes then None else Some (nodes + 1))"
| "walk (JFloat x) depth nodes = (if over depth nodes then None else Some (nodes + 1))"
| "walk JNull depth nodes = (if over depth nodes then None else Some (nodes + 1))"
| "walk_list [] depth nodes = Some nodes"
| "walk_list (x # xs) depth nodes = Option.bind (walk x depth nodes) (walk_list xs depth)"
| "walk_dict [] depth nodes = Some nodes"
| "walk_dict (kv # d) depth nodes = Option.bind (walk (snd kv) depth nodes) (walk_dict d depth)"

text \<open>\<open>json.dumps\<close> raises \<open>ValueError\<close> for an integer of more than 4300 digits.\<close>

fun printable :: "json \<Rightarrow> bool" where
  "printable (JInt i) \<longleftrightarrow> length (nat_digits (nat \<bar>i\<bar>)) \<le> 4300"
| "printable (JList xs) \<longleftrightarrow> list_all printable xs"
| "printable (JObj d) \<longleftrightarrow> list_all (\<lambda>kv. printable (snd kv)) d"
| "printable _ \<longleftrightarrow> True"

definition bounded_json :: "py_env \<Rightarrow> json \<Rightarrow> tool_error + string" where
  "bounded_json e value =
     (case walk value 0 0 of
        None \<Rightarrow> Inl InvalidToolArguments
      | Some _ \<Rightarrow>
          if \<not> printable value then Inl InvalidToolArguments
          else let encoded = json_dumps e value
               in if length encoded > MAX_PAYLOAD_BYTES then Inl InvalidToolArguments else Inr encoded)"

definition digest :: "py_env \<Rightarrow> json \<Rightarrow> tool_error + string" where
  "digest e value = try_bind (bounded_json e value) (\<lambda>t. Inr (sha256_hex e t))"

section \<open>validate\<close>

fun validate :: "json \<Rightarrow> schema \<Rightarrow> bool"
  and validate_props :: "dict \<Rightarrow> (string \<times> schema) list \<Rightarrow> bool" where
  "validate value (S_obj props) =
     (case value of
        JObj d \<Rightarrow> set (map fst d) = set (map fst props) \<and> validate_props d props
      | _ \<Rightarrow> False)"
| "validate value (S_arr lo hi item) =
     (case value of
        JList xs \<Rightarrow> lo \<le> length xs \<and> length xs \<le> hi \<and> list_all (\<lambda>x. validate x item) xs
      | _ \<Rightarrow> False)"
| "validate value (S_str lo hi pat uuid) =
     (case value of
        JStr s \<Rightarrow> lo \<le> length s \<and> length s \<le> hi
          \<and> (case pat of None \<Rightarrow> True | Some p \<Rightarrow> fullmatch p s) \<and> (uuid \<longrightarrow> canonical_uuid s)
      | _ \<Rightarrow> False)"
| "validate value (S_int lo) =
     (case value of JInt i \<Rightarrow> lo \<le> i \<and> i \<le> 2 ^ 63 - 1 | _ \<Rightarrow> False)"
| "validate_props d [] = True"
| "validate_props d (kc # props) = (validate (dget d (fst kc)) (snd kc) \<and> validate_props d props)"

definition validate_tool_arguments :: "py_env \<Rightarrow> json \<Rightarrow> json \<Rightarrow> tool_error + string" where
  "validate_tool_arguments e tool_name arguments =
     try_bind (bounded_json e arguments) (\<lambda>encoded.
       case tool_name of
         JStr name \<Rightarrow>
           (case map_of TOOL_SCHEMAS name of
              None \<Rightarrow> Inl InvalidToolArguments
            | Some s \<Rightarrow> if validate arguments s then Inr encoded else Inl InvalidToolArguments)
       | _ \<Rightarrow> Inl InvalidToolArguments)"

section \<open>The bounds\<close>

fun json_nodes :: "json \<Rightarrow> nat" where
  "json_nodes (JList xs) = 1 + sum_list (map json_nodes xs)"
| "json_nodes (JObj d) = 1 + sum_list (map (\<lambda>kv. json_nodes (snd kv)) d)"
| "json_nodes _ = 1"

fun json_depth :: "json \<Rightarrow> nat" where
  "json_depth (JList xs) = foldr max (map (\<lambda>x. Suc (json_depth x)) xs) 0"
| "json_depth (JObj d) = foldr max (map (\<lambda>kv. Suc (json_depth (snd kv))) d) 0"
| "json_depth _ = 0"

lemma foldr_max_le: "(\<And>y. y \<in> set ys \<Longrightarrow> f y \<le> b) \<Longrightarrow> foldr max (map f ys) 0 \<le> (b :: nat)"
  by (induction ys) auto

lemma walk_bounds:
  "walk v d n = Some m \<Longrightarrow> m = n + json_nodes v \<and> d + json_depth v \<le> MAX_DEPTH \<and> m \<le> 2048"
  "walk_list xs d n = Some m \<Longrightarrow> n \<le> 2048 \<Longrightarrow> m = n + sum_list (map json_nodes xs) \<and> m \<le> 2048
     \<and> (\<forall>x \<in> set xs. d + json_depth x \<le> MAX_DEPTH)"
  "walk_dict kvs d n = Some m \<Longrightarrow> n \<le> 2048 \<Longrightarrow> m = n + sum_list (map (\<lambda>kv. json_nodes (snd kv)) kvs) \<and> m \<le> 2048
     \<and> (\<forall>x \<in> snd ` set kvs. d + json_depth x \<le> MAX_DEPTH)"
proof (induction v d n and xs d n and kvs d n arbitrary: m and m and m rule: walk_walk_list_walk_dict.induct)
  case (1 d depth nodes)
  then have w: "walk_dict d (depth + 1) (nodes + 1) = Some m" and n: "nodes + 1 \<le> 2048" and dd: "depth \<le> MAX_DEPTH"
    by (auto simp: over_def split: if_splits)
  have ih: "m = nodes + 1 + sum_list (map (\<lambda>kv. json_nodes (snd kv)) d)" "m \<le> 2048"
    "\<forall>x \<in> snd ` set d. depth + 1 + json_depth x \<le> MAX_DEPTH"
    using 1 w n by (auto split: if_splits)
  have "foldr max (map (\<lambda>kv. Suc (json_depth (snd kv))) d) 0 \<le> MAX_DEPTH - depth"
    by (rule foldr_max_le) (use ih(3) in force)
  with ih dd show ?case by simp
next
  case (2 xs depth nodes)
  then have w: "walk_list xs (depth + 1) (nodes + 1) = Some m" and n: "nodes + 1 \<le> 2048" and dd: "depth \<le> MAX_DEPTH"
    by (auto simp: over_def split: if_splits)
  have ih: "m = nodes + 1 + sum_list (map json_nodes xs)" "m \<le> 2048"
    "\<forall>x \<in> set xs. depth + 1 + json_depth x \<le> MAX_DEPTH"
    using 2 w n by (auto split: if_splits)
  have "foldr max (map (\<lambda>x. Suc (json_depth x)) xs) 0 \<le> MAX_DEPTH - depth"
    by (rule foldr_max_le) (use ih(3) in force)
  with ih dd show ?case by simp
next
  case (9 x xs depth nodes)
  then obtain k where k: "walk x depth nodes = Some k" "walk_list xs depth k = Some m"
    by (auto simp: bind_eq_Some_conv)
  with 9 show ?case by fastforce
next
  case (11 kv d depth nodes)
  then obtain k where k: "walk (snd kv) depth nodes = Some k" "walk_dict d depth k = Some m"
    by (auto simp: bind_eq_Some_conv)
  with 11 show ?case by fastforce
qed (auto simp: over_def split: if_splits)


text \<open>
  A value that \<open>bounded_json\<close> encodes has at most 2048 nodes, nesting depth at most 8, and an
  encoding of at most 65536 bytes, which is the canonical encoding of the value.
\<close>

theorem bounded_json_bounds:
  assumes "bounded_json e v = Inr t"
  shows "json_nodes v \<le> 2048 \<and> json_depth v \<le> 8 \<and> length t \<le> 65536 \<and> t = json_dumps e v"
proof -
  obtain m where m: "walk v 0 0 = Some m" and t: "t = json_dumps e v" "length t \<le> MAX_PAYLOAD_BYTES"
    using assms by (auto simp: bounded_json_def Let_def split: option.splits if_splits)
  from walk_bounds(1) [OF m] t show ?thesis by (simp add: MAX_DEPTH_def MAX_PAYLOAD_BYTES_def)
qed

text \<open>
  C30: The broker accepts arguments only in their exact shape: an accepted call names a known tool, its
  arguments are an object with exactly the common keys and that tool's keys, the workflow, correlation
  and request ids are canonical UUIDs, the revision id is a positive 63-bit integer, and what is
  returned is the canonical encoding of the arguments.
\<close>

theorem accepted_arguments_exact:
  assumes "validate_tool_arguments e tool args = Inr t"
  shows "\<exists>name extra d w c q i. tool = JStr name \<and> (name, extra) \<in> set EXTRAS \<and> args = JObj d
    \<and> set (map fst d) = set (map fst COMMON) \<union> set (map fst extra)
    \<and> dget d ''workflow_id'' = JStr w \<and> canonical_uuid w
    \<and> dget d ''correlation_id'' = JStr c \<and> canonical_uuid c
    \<and> dget d ''request_id'' = JStr q \<and> canonical_uuid q
    \<and> dget d ''revision_id'' = JInt i \<and> 1 \<le> i \<and> i < 2 ^ 63 \<and> t = json_dumps e args"
proof -
  from assms obtain name s where tool: "tool = JStr name" "map_of TOOL_SCHEMAS name = Some s"
    and v: "validate args s" and t: "bounded_json e args = Inr t"
    by (cases tool) (auto simp: validate_tool_arguments_def try_bind_eq_Inr split: option.splits if_splits)
  then have "(name, s) \<in> set TOOL_SCHEMAS" by (auto dest: map_of_SomeD)
  then obtain extra where ex: "(name, extra) \<in> set EXTRAS" and s: "s = S_obj (COMMON @ extra)"
    by (auto simp: TOOL_SCHEMAS_def)
  from v s obtain d where d: "args = JObj d" "set (map fst d) = set (map fst COMMON) \<union> set (map fst extra)"
    and p: "validate_props d (COMMON @ extra)"
    by (auto split: json.splits)
  have app: "validate_props d (ps @ qs) \<longleftrightarrow> validate_props d ps \<and> validate_props d qs" for ps qs
    by (induction ps) auto
  from p have "validate_props d COMMON" by (simp add: app)
  then have "validate (dget d ''workflow_id'') UUID_SCHEMA" "validate (dget d ''correlation_id'') UUID_SCHEMA"
    "validate (dget d ''request_id'') UUID_SCHEMA" "validate (dget d ''revision_id'') (S_int 1)"
    by (simp_all add: COMMON_def)
  moreover have "t = json_dumps e args" using t by (auto simp: bounded_json_def Let_def split: option.splits if_splits)
  ultimately show ?thesis using tool ex d
    by (auto simp: UUID_SCHEMA_def split: json.splits)
qed

definition sample_arguments :: json where
  "sample_arguments = JObj
     [(''workflow_id'', JStr ''0f8fad5b-d9cb-469f-a165-70867728950e''), (''revision_id'', JInt 1),
      (''actor_id'', JStr ''maya''), (''correlation_id'', JStr ''0f8fad5b-d9cb-469f-a165-70867728950e''),
      (''request_id'', JStr ''0f8fad5b-d9cb-469f-a165-70867728950e''),
      (''idempotency_key'', JStr ''abcdefgh12345678'')]"

definition schema_env :: py_env where
  "schema_env = \<lparr>sha256_hex = (\<lambda>s. CHR ''h'' # s), repr_float = (\<lambda>_. ''0.0''), repr_other = (\<lambda>_. ''...'')\<rparr>"

lemma length_escape_char: "length (escape_char c) \<le> 6"
  by (simp add: escape_char_def Let_def)

lemma length_dump_str: "length (dump_str s) \<le> 6 * length s + 2"
proof -
  have "length (concat (map escape_char s)) \<le> 6 * length s"
  proof (induction s)
    case (Cons c s)
    then show ?case using length_escape_char [of c] by simp
  qed simp
  then show ?thesis by (simp add: dump_str_def)
qed

lemma length_join: "length (join_with '','' xs) \<le> sum_list (map (\<lambda>x. length x + 1) xs)"
  by (induction "'',''" xs rule: join_with.induct) auto

lemma sum_list_sort_keys: "sum_list (map f (sort_keys d)) = sum_list (map f d)" for f :: "_ \<Rightarrow> nat"
proof -
  have "mset (map f (sort_keys d)) = mset (map f d)" by (simp add: sort_keys_def)
  then show ?thesis by (metis sum_mset_sum_list)
qed

text \<open>A flat object of texts and numbers encodes to at most six bytes per character and the punctuation.\<close>

lemma length_dumps_obj:
  "length (json_dumps e (JObj d)) \<le>
     2 + sum_list (map (\<lambda>(k, v). 6 * length k + length (json_dumps e v) + 4) d)"
proof -
  let ?items = "map (\<lambda>(k, v). (k, json_dumps e v)) d"
  have "length (join_with '','' (map (\<lambda>(k, s). dump_str k @ '':'' @ s) (sort_keys ?items)))
      \<le> sum_list (map (\<lambda>x. length x + 1) (map (\<lambda>(k, s). dump_str k @ '':'' @ s) (sort_keys ?items)))"
    by (rule length_join)
  also have "\<dots> = sum_list (map (\<lambda>(k, s). length (dump_str k) + length s + 2) (sort_keys ?items))"
    by (simp add: comp_def case_prod_unfold)
  also have "\<dots> = sum_list (map (\<lambda>(k, s). length (dump_str k) + length s + 2) ?items)"
    by (rule sum_list_sort_keys)
  also have "\<dots> \<le> sum_list (map (\<lambda>(k, v). 6 * length k + length (json_dumps e v) + 4) d)"
  proof -
    have "length (dump_str k) + x + 2 \<le> 6 * length k + x + 4" for k x using length_dump_str [of k] by simp
    then show ?thesis by (auto simp: comp_def case_prod_unfold intro!: sum_list_mono)
  qed
  finally show ?thesis by simp
qed

lemma sample_bounded: "bounded_json schema_env sample_arguments = Inr (json_dumps schema_env sample_arguments)"
proof -
  have u: "length (dump_str u) \<le> 300" if "length u \<le> 36" for u using length_dump_str [of u] that by simp
  have i: "length (int_str 1) = 1" by (simp add: int_str_def nat_digits.simps)
  have "length (json_dumps schema_env sample_arguments) \<le> 6000"
    unfolding sample_arguments_def
    by (rule order_trans [OF length_dumps_obj])
       (use u [of "''0f8fad5b-d9cb-469f-a165-70867728950e''"] u [of "''maya''"] u [of "''abcdefgh12345678''"] i in simp)
  moreover have "printable sample_arguments" by (simp add: sample_arguments_def nat_digits.simps)
  moreover have "walk sample_arguments 0 0 = Some 7"
    by (simp add: sample_arguments_def over_def MAX_DEPTH_def MAX_PAYLOAD_BYTES_def)
  ultimately show ?thesis by (simp add: bounded_json_def MAX_PAYLOAD_BYTES_def)
qed

lemma sample_accepted:
  "validate_tool_arguments schema_env (JStr ''get_policy_context'') sample_arguments = Inr (json_dumps schema_env sample_arguments)"
proof -
  have u: "canonical_uuid ''0f8fad5b-d9cb-469f-a165-70867728950e''" by code_simp
  have f: "fullmatch P_actor ''maya''" "fullmatch P_idempotency ''abcdefgh12345678''" by code_simp+
  have "map_of TOOL_SCHEMAS ''get_policy_context'' = Some (S_obj COMMON)" by (simp add: TOOL_SCHEMAS_def EXTRAS_def)
  moreover have "validate sample_arguments (S_obj COMMON)"
    by (simp add: sample_arguments_def COMMON_def UUID_SCHEMA_def u f dget_def del: fullmatch.simps, blast?)
  ultimately show ?thesis by (simp add: validate_tool_arguments_def sample_bounded)
qed

theorem accepted_arguments_exact_witness:
  "\<exists>d w. sample_arguments = JObj d \<and> dget d ''workflow_id'' = JStr w \<and> canonical_uuid w"
  using accepted_arguments_exact [OF sample_accepted] by blast

end
