(* ===== verification/Request_Log.thy ===== *)
theory Request_Log
  imports CL_Prelude
begin

text \<open>
  The contract the provider clients share: a client sends requests one at a time through one function
  that refuses what is not permitted and logs what was sent.  \<open>wrote\<close> says what an exchange added to
  the log: permitted requests only, at most \<open>n\<close> writes, and every write one of \<open>W\<close>.  The locale
  \<open>request_log\<close> is interpreted on the \<open>_request\<close> method of each client.
\<close>

definition wrote :: "('r \<Rightarrow> bool) \<Rightarrow> ('r \<Rightarrow> bool) \<Rightarrow> nat \<Rightarrow> ('r \<Rightarrow> bool) \<Rightarrow> 'r list \<Rightarrow> 'r list \<Rightarrow> bool" where
  "wrote permitted is_write n W sent sent' \<longleftrightarrow>
     (\<exists>news. sent' = sent @ news \<and> length (filter is_write news) \<le> n
        \<and> (\<forall>r \<in> set news. permitted r \<and> (is_write r \<longrightarrow> W r)))"

lemma wrote_same [simp]: "wrote permitted is_write n W s s"
  by (simp add: wrote_def)

lemma wroteE:
  assumes "wrote permitted is_write n W sent sent'"
  obtains news where "sent' = sent @ news" and "length (filter is_write news) \<le> n"
    and "\<And>r. r \<in> set news \<Longrightarrow> permitted r" and "\<And>r. r \<in> set news \<Longrightarrow> is_write r \<Longrightarrow> W r"
  using assms by (auto simp: wrote_def)

lemma wrote_trans:
  assumes "wrote permitted is_write n W a b" and "wrote permitted is_write m W b c" and "n + m \<le> k"
  shows "wrote permitted is_write k W a c"
proof -
  obtain x where x: "b = a @ x" "length (filter is_write x) \<le> n" "\<forall>r \<in> set x. permitted r \<and> (is_write r \<longrightarrow> W r)"
    using assms(1) by (auto simp: wrote_def)
  obtain y where y: "c = b @ y" "length (filter is_write y) \<le> m" "\<forall>r \<in> set y. permitted r \<and> (is_write r \<longrightarrow> W r)"
    using assms(2) by (auto simp: wrote_def)
  show ?thesis
    unfolding wrote_def by (rule exI [of _ "x @ y"]) (use x y assms(3) in auto)
qed

text \<open>Sequencing of exchanges: \<open>ex_bind\<close> is the next statement, \<open>ex_lift\<close> a statement that sends nothing, \<open>ex_catch\<close> a handler.\<close>

definition ex_bind :: "('r list \<Rightarrow> 'r list \<times> ('e + 'a)) \<Rightarrow> ('a \<Rightarrow> 'r list \<Rightarrow> 'r list \<times> ('e + 'b)) \<Rightarrow> 'r list \<Rightarrow> 'r list \<times> ('e + 'b)" where
  "ex_bind m f sent = (case m sent of (s, Inl x) \<Rightarrow> (s, Inl x) | (s, Inr v) \<Rightarrow> f v s)"

definition ex_lift :: "'e + 'a \<Rightarrow> 'r list \<Rightarrow> 'r list \<times> ('e + 'a)" where
  "ex_lift r sent = (sent, r)"

definition ex_catch :: "('r list \<Rightarrow> 'r list \<times> ('e + 'a)) \<Rightarrow> ('e \<Rightarrow> 'e + 'a) \<Rightarrow> 'r list \<Rightarrow> 'r list \<times> ('e + 'a)" where
  "ex_catch m h sent = (case m sent of (s, Inl x) \<Rightarrow> (s, h x) | (s, Inr v) \<Rightarrow> (s, Inr v))"

lemma ex_bind_log: "fst (ex_bind m f s) = (case m s of (s', Inl x) \<Rightarrow> s' | (s', Inr v) \<Rightarrow> fst (f v s'))"
  by (auto simp: ex_bind_def split: prod.splits sum.splits)

lemma ex_catch_log [simp]: "fst (ex_catch m h s) = fst (m s)"
  by (auto simp: ex_catch_def split: prod.splits sum.splits)

lemma ex_lift_log [simp]: "fst (ex_lift r s) = s"
  by (simp add: ex_lift_def)

lemma ex_bind_Inr: "ex_bind m f s = (s2, Inr y) \<longleftrightarrow> (\<exists>s1 x. m s = (s1, Inr x) \<and> f x s1 = (s2, Inr y))"
  by (auto simp: ex_bind_def split: prod.splits sum.splits)

lemma ex_lift_Inr: "ex_lift r s = (s2, Inr y) \<longleftrightarrow> s2 = s \<and> r = Inr y"
  by (auto simp: ex_lift_def)

lemma ex_catch_Inr:
  "ex_catch m h s = (s2, Inr y) \<longleftrightarrow> m s = (s2, Inr y) \<or> (\<exists>x. m s = (s2, Inl x) \<and> h x = Inr y)"
  by (auto simp: ex_catch_def split: prod.splits sum.splits)

lemma wrote_bind:
  assumes "wrote pm w n W s (fst (m s))"
    and "\<And>s1 v. m s = (s1, Inr v) \<Longrightarrow> wrote pm w k W s1 (fst (f v s1))" and "n + k \<le> j"
  shows "wrote pm w j W s (fst (ex_bind m f s))"
proof -
  obtain s1 r where m: "m s = (s1, r)" by (cases "m s")
  show ?thesis
  proof (cases r)
    case (Inl x)
    have "wrote pm w 0 W s1 s1" by (simp add: wrote_def)
    then have "wrote pm w j W s s1" using assms(1,3) m by (auto intro: wrote_trans [of _ _ n])
    with m Inl show ?thesis by (simp add: ex_bind_log)
  next
    case (Inr v)
    with m assms show ?thesis by (auto simp: ex_bind_log intro: wrote_trans [of _ _ n])
  qed
qed

locale request_log =
  fixes permitted :: "'r \<Rightarrow> bool"
    and is_write :: "'r \<Rightarrow> bool"
    and transmit :: "'p \<Rightarrow> 'r \<Rightarrow> 'r list \<Rightarrow> 'r list \<times> ('e + 'a)"
  assumes transmit_log: "transmit p r sent = (sent', res) \<Longrightarrow>
      sent' = sent \<and> (\<exists>x. res = Inl x) \<or> sent' = sent @ [r] \<and> permitted r"
begin

lemma wrote_transmit:
  assumes "transmit p r s = (s', x)" and "is_write r \<Longrightarrow> W r"
  shows "wrote permitted is_write (if is_write r then 1 else 0) W s s'"
  using transmit_log [OF assms(1)] assms(2) unfolding wrote_def
  by (elim disjE) (auto intro: exI [of _ "[]"] exI [of _ "[r]"])

lemma wrote_read: "transmit p r s = (s', x) \<Longrightarrow> \<not> is_write r \<Longrightarrow> wrote permitted is_write 0 W s s'"
  using wrote_transmit [of p r s s' x W] by simp

lemma wrote_write: "transmit p r s = (s', x) \<Longrightarrow> W r \<Longrightarrow> wrote permitted is_write 1 W s s'"
  using wrote_transmit [of p r s s' x W] wrote_trans [OF _ wrote_same, of permitted is_write 0 W s s' 0 1]
  by (cases "is_write r") auto

lemma wrote_answered: "transmit p r s = (s', Inr x) \<Longrightarrow> s' = s @ [r]"
  using transmit_log by blast

end

end
