(* ===== verification/Iterable_Drafts.thy ===== *)
theory Iterable_Drafts
  imports Eventbrite_Draft Tool_Schemas Request_Log
begin

text \<open>
  The Iterable clients: \<open>backend/integrations/iterable_drafts.py\<close> (unscheduled email campaigns) and
  \<open>backend/integrations/iterable_templates.py\<close> (create-only email templates), their payload contracts,
  digests and the adapters' \<open>create\<close> and \<open>reconcile\<close>.  As for Eventbrite the provider is a function
  from the requests sent so far and the next one to what comes back.
\<close>

section \<open>Identifiers, regions, digests\<close>

datatype it_error = IterableDraftError string

definition it_invalid :: it_error where
  "it_invalid = IterableDraftError ''invalid_request''"

text \<open>\<open>_identifier\<close>: a positive integer of 63 bits (a \<open>bool\<close> is not one).\<close>

definition it_identifier :: "json \<Rightarrow> it_error + int" where
  "it_identifier v = (case v of JInt i \<Rightarrow> if 0 < i \<and> i \<le> 2 ^ 63 - 1 then Inr i else Inl it_invalid | _ \<Rightarrow> Inl it_invalid)"

definition REGIONS :: "string list" where
  "REGIONS = [''us'', ''eu'']"

definition it_region :: "json \<Rightarrow> it_error + string" where
  "it_region v = (case v of JStr s \<Rightarrow> if s \<in> set REGIONS then Inr s else Inl it_invalid | _ \<Rightarrow> Inl it_invalid)"

definition is_identifier :: "json \<Rightarrow> bool" where
  "is_identifier v \<longleftrightarrow> (\<exists>i \<in> set_option (case v of JInt i \<Rightarrow> Some i | _ \<Rightarrow> None). 0 < i \<and> i \<le> 2 ^ 63 - 1)"

lemma it_identifier_Inr: "it_identifier v = Inr i \<longleftrightarrow> v = JInt i \<and> is_identifier v"
  by (auto simp: it_identifier_def is_identifier_def split: json.splits)

section \<open>The campaign payload\<close>

definition IT_MAX_REQUEST_BYTES :: nat where
  "IT_MAX_REQUEST_BYTES = 16 * 1024"

definition CAMPAIGN_FIELDS :: "string list" where
  "CAMPAIGN_FIELDS = [''name'', ''templateId'', ''listIds'', ''suppressionListIds'', ''scheduleSend'']"

definition id_list_ok :: "bool \<Rightarrow> json \<Rightarrow> bool" where
  "id_list_ok nonempty v = (case v of
     JList ids \<Rightarrow> length ids \<le> 100 \<and> (nonempty \<longrightarrow> ids \<noteq> []) \<and> list_all is_identifier ids \<and> distinct ids
   | _ \<Rightarrow> False)"

definition campaign_ok :: "dict \<Rightarrow> bool" where
  "campaign_ok d \<longleftrightarrow> keys d = set CAMPAIGN_FIELDS
     \<and> (case dget d ''name'' of JStr s \<Rightarrow> strip s \<noteq> [] \<and> length s \<le> 200 | _ \<Rightarrow> False)
     \<and> dget d ''scheduleSend'' = JBool False
     \<and> is_identifier (dget d ''templateId'')
     \<and> id_list_ok True (dget d ''listIds'') \<and> id_list_ok False (dget d ''suppressionListIds'')"

definition validate_campaign :: "py_env \<Rightarrow> json \<Rightarrow> it_error + dict" where
  "validate_campaign e payload = (case payload of
     JObj d \<Rightarrow> if campaign_ok d \<and> utf8_length (dumps_plain e payload) \<le> IT_MAX_REQUEST_BYTES then Inr d else Inl it_invalid
   | _ \<Rightarrow> Inl it_invalid)"

definition campaign_digest :: "py_env \<Rightarrow> json \<Rightarrow> json \<Rightarrow> json \<Rightarrow> it_error + string" where
  "campaign_digest e region payload expected =
     (case expected of
        JStr h \<Rightarrow>
          if \<not> hex64 h then Inl it_invalid
          else try_bind (it_region region) (\<lambda>r. try_bind (validate_campaign e payload) (\<lambda>d.
            Inr (draft_digest e (JObj [(''region'', JStr r), (''payload'', JObj d), (''expected_template_digest'', JStr h)]))))
      | _ \<Rightarrow> Inl it_invalid)"

definition CONTENT_FIELDS :: "string list" where
  "CONTENT_FIELDS = [''bccEmails'', ''cacheDataFeed'', ''campaignDataFields'', ''ccEmails'', ''dataFeedId'', ''dataFeedIds'',
     ''fromEmail'', ''fromName'', ''googleAnalyticsCampaignName'', ''html'', ''linkParams'', ''mergeDataFeedContext'',
     ''messageTypeId'', ''plainText'', ''preheaderText'', ''replyToEmail'', ''subject'']"

definition template_content_digest :: "py_env \<Rightarrow> dict \<Rightarrow> string" where
  "template_content_digest e t = draft_digest e (JObj (map (\<lambda>k. (k, dget t k)) CONTENT_FIELDS))"

definition CAMPAIGN_READBACK :: "string list" where
  "CAMPAIGN_READBACK = [''id'', ''name'', ''campaignState'', ''messageMedium'', ''type'', ''startAt'', ''endedAt'', ''templateId'',
     ''listIds'', ''suppressionListIds'', ''updatedAt'', ''workflowId'', ''recurringCampaignId'']"

definition campaign_readback_digest :: "py_env \<Rightarrow> dict \<Rightarrow> string \<Rightarrow> string" where
  "campaign_readback_digest e campaign tdg =
     draft_digest e (JObj [(''campaign'', JObj (map (\<lambda>k. (k, dget campaign k)) CAMPAIGN_READBACK)), (''template_digest'', JStr tdg)])"

section \<open>The template payload\<close>

definition LEGACY_FIELDS :: "string list" where
  "LEGACY_FIELDS = [''clientTemplateId'', ''name'', ''fromEmail'', ''fromName'', ''replyToEmail'', ''subject'', ''html'',
     ''plainText'', ''messageTypeId'']"

definition payload_version :: "json \<Rightarrow> it_error + nat" where
  "payload_version v = (case v of
     JObj d \<Rightarrow>
       if keys d = set LEGACY_FIELDS then Inr 1
       else if keys d = set LEGACY_FIELDS \<union> {''cacheDataFeed''} \<and> dget d ''cacheDataFeed'' = JBool False then Inr 2
       else Inl it_invalid
   | _ \<Rightarrow> Inl it_invalid)"

text \<open>\<open>html.escape(body, quote=True).replace("\n", "<br>\n")\<close>, character by character.\<close>

definition html_char :: "char \<Rightarrow> string" where
  "html_char c =
     (if c = CHR ''&'' then ''&amp;'' else if c = CHR ''<'' then ''&lt;'' else if c = CHR ''>'' then ''&gt;''
      else if code c = 34 then ''&quot;'' else if code c = 39 then ''&#x27;''
      else if code c = 10 then ''<br>'' @ [c] else [c])"

definition plain_html :: "string \<Rightarrow> string" where
  "plain_html body = ''<p>'' @ concat (map html_char body) @ ''</p>''"

definition quote_mark :: string where
  "quote_mark = [char_of (34::nat)]"

definition MARKETING_FOOTER :: string where
  "MARKETING_FOOTER = [char_of (10::nat)] @ ''<p><a href='' @ quote_mark @ ''{{unsubscribeUrl}}'' @ quote_mark @
     ''>Unsubscribe</a><br>{{physicalAddress}}</p>''"

definition local_char :: "char \<Rightarrow> bool" where
  "local_char c \<longleftrightarrow> is_alnum c \<or> c \<in> set ''.!#$%&*+/=?^_`{|}~-'' \<or> code c = 39"

definition domain_char :: "char \<Rightarrow> bool" where
  "domain_char c \<longleftrightarrow> is_alnum c \<or> c \<in> set ''.-''"

text \<open>
  The pattern of an address: the local part has no at sign, and the top level domain is what follows
  the last dot.
\<close>

definition email_ok :: "string \<Rightarrow> bool" where
  "email_ok s =
     (let l = takeWhile (\<lambda>c. c \<noteq> CHR ''@'') s; rest = drop (length l) s
      in case rest of [] \<Rightarrow> False
         | _ # dn \<Rightarrow>
             let tld = rev (takeWhile (\<lambda>c. c \<noteq> CHR ''.'') (rev dn)); host = take (length dn - length tld - 1) dn
             in l \<noteq> [] \<and> list_all local_char l \<and> length tld < length dn \<and> host \<noteq> [] \<and> list_all domain_char host
                \<and> 2 \<le> length tld \<and> length tld \<le> 63 \<and> list_all (\<lambda>c. is_lower c \<or> is_upper c) tld)"

fun text_of :: "json \<Rightarrow> string" where
  "text_of (JStr s) = s"
| "text_of _ = []"

definition field :: "dict \<Rightarrow> string \<Rightarrow> string" where
  "field d k = text_of (dget d k)"

definition text_item_ok :: "string \<times> json \<Rightarrow> bool" where
  "text_item_ok kv = (case kv of (k, v) \<Rightarrow> k \<in> {''messageTypeId'', ''cacheDataFeed''} \<or>
     (case v of JStr s \<Rightarrow> strip s \<noteq> [] \<and> length s \<le> (if k = ''html'' then 30000 else 12000) | _ \<Rightarrow> False))"

definition client_id_ok :: "string \<Rightarrow> bool" where
  "client_id_ok s \<longleftrightarrow> take 10 s = ''civicloop-'' \<and> canonical_uuid (drop 10 s)"

definition MARKS :: "string list" where
  "MARKS = [''{{'', ''}}'', ''[['', '']]'']"

text \<open>\<open>json.dumps\<close> with its default separators; every character outside ASCII is escaped.\<close>

fun dumps_default :: "py_env \<Rightarrow> json \<Rightarrow> string" where
  "dumps_default e (JStr s) = dump_str s"
| "dumps_default e (JList l) = ''['' @ join_with '', '' (map (dumps_default e) l) @ '']''"
| "dumps_default e (JObj d) =
     ''{'' @ join_with '', '' (map (\<lambda>(k, v). dump_str k @ '': '' @ dumps_default e v) d) @ ''}''"
| "dumps_default e v = json_dumps e v"

definition template_ok :: "py_env \<Rightarrow> nat \<Rightarrow> dict \<Rightarrow> bool" where
  "template_ok e version d \<longleftrightarrow>
     (case dget d ''messageTypeId'' of JInt i \<Rightarrow> 0 < i \<and> i \<le> 2 ^ 31 - 1 | _ \<Rightarrow> False)
     \<and> list_all text_item_ok d
     \<and> client_id_ok (field d ''clientTemplateId'')
     \<and> list_all (\<lambda>k. length (field d k) \<le> 254 \<and> email_ok (field d k)) [''fromEmail'', ''replyToEmail'']
     \<and> list_all (\<lambda>k. length (field d k) \<le> 240 \<and> list_all (\<lambda>c. 32 \<le> code c) (field d k)) [''fromName'', ''subject'', ''name'']
     \<and> list_all (\<lambda>m. \<not> contains m (field d ''plainText'') \<and> \<not> contains m (field d ''subject'')) MARKS
     \<and> field d ''html'' = plain_html (field d ''plainText'') @ (if version = 2 then MARKETING_FOOTER else [])
     \<and> length (dumps_default e (JObj d)) \<le> 65536"

definition validate_template_payload :: "py_env \<Rightarrow> json \<Rightarrow> it_error + dict" where
  "validate_template_payload e payload =
     try_bind (payload_version payload) (\<lambda>version.
       case payload of JObj d \<Rightarrow> if template_ok e version d then Inr d else Inl it_invalid | _ \<Rightarrow> Inl it_invalid)"

text \<open>
  \<open>author_payload\<close>: the payload of an accepted intent.  The content of a proposal is indexed, so that
  a proposal of another shape raises \<open>KeyError\<close>, \<open>TypeError\<close> or (a body that is not a text)
  \<open>AttributeError\<close>.
\<close>

datatype author_error = AuthorDraft it_error | AuthorPy py_error

definition SENDER_FIELDS :: "string list" where
  "SENDER_FIELDS = [''fromEmail'', ''fromName'', ''replyToEmail'', ''messageTypeId'']"

definition subscript :: "json \<Rightarrow> string \<Rightarrow> author_error + json" where
  "subscript v k = (case v of
     JObj d \<Rightarrow> (case map_of d k of None \<Rightarrow> Inl (AuthorPy KeyError) | Some x \<Rightarrow> Inr x)
   | _ \<Rightarrow> Inl (AuthorPy TypeError))"

definition draft_kind :: "string \<Rightarrow> string option" where
  "draft_kind k = map_of [(''create_iterable_email_draft'', ''invitation''), (''create_iterable_reminder_draft'', ''reminder'')] k"

definition authored :: "string \<Rightarrow> string \<Rightarrow> dict \<Rightarrow> json \<Rightarrow> string \<Rightarrow> nat \<Rightarrow> dict" where
  "authored intent_pk kind sender subject body version =
     [(''clientTemplateId'', JStr (''civicloop-'' @ intent_pk)), (''name'', JStr (''CivicLoop '' @ kind @ '' '' @ intent_pk))]
     @ sender @
     [(''subject'', subject), (''plainText'', JStr body),
      (''html'', JStr (plain_html body @ (if version = 2 then MARKETING_FOOTER else [])))]
     @ (if version = 2 then [(''cacheDataFeed'', JBool False)] else [])"

definition author_payload :: "py_env \<Rightarrow> string \<Rightarrow> string \<Rightarrow> json \<Rightarrow> json \<Rightarrow> nat \<Rightarrow> author_error + dict" where
  "author_payload e intent_pk operation_kind content sender version =
     (if version \<notin> {1, 2} then Inl (AuthorDraft it_invalid)
      else case sender of
        JObj sd \<Rightarrow>
          if keys sd \<noteq> set SENDER_FIELDS then Inl (AuthorDraft it_invalid)
          else (case draft_kind operation_kind of
            None \<Rightarrow> Inl (AuthorDraft it_invalid)
          | Some kind \<Rightarrow>
              try_bind (subscript content kind) (\<lambda>c.
              try_bind (subscript c ''subject'') (\<lambda>subject.
              try_bind (subscript c ''body'') (\<lambda>body.
                case body of
                  JStr b \<Rightarrow> (case validate_template_payload e (JObj (authored intent_pk kind sd subject b version)) of
                              Inl x \<Rightarrow> Inl (AuthorDraft x) | Inr d \<Rightarrow> Inr d)
                | _ \<Rightarrow> Inl (AuthorPy AttributeError)))))
      | _ \<Rightarrow> Inl (AuthorDraft it_invalid))"

definition template_digest :: "py_env \<Rightarrow> json \<Rightarrow> json \<Rightarrow> it_error + string" where
  "template_digest e region payload =
     try_bind (it_region region) (\<lambda>r. try_bind (validate_template_payload e payload) (\<lambda>d.
       Inr (draft_digest e (JObj [(''region'', JStr r), (''payload'', JObj d)]))))"


section \<open>Requests\<close>

datatype it_request =
    CreateCampaign dict
  | GetCampaign int
  | GetTemplate int
  | LookupTemplate string
  | UpsertTemplate dict

type_synonym it_provider = "it_request list \<Rightarrow> it_request \<Rightarrow> http"
type_synonym 'a it_exchange = "it_request list \<Rightarrow> it_request list \<times> (it_error + 'a)"

definition path_id :: "int \<Rightarrow> bool" where
  "path_id i \<longleftrightarrow> 0 < i \<and> i < 10 ^ 19"

definition path_client :: "string \<Rightarrow> bool" where
  "path_client s \<longleftrightarrow> take 10 s = ''civicloop-'' \<and> length (drop 10 s) = 36 \<and> list_all (\<lambda>c. is_hex c \<or> c = CHR ''-'') (drop 10 s)"

text \<open>What the \<open>_request\<close> of each adapter lets through: its paths, and for a write its validated payload.\<close>

fun campaign_request_ok :: "py_env \<Rightarrow> it_request \<Rightarrow> bool" where
  "campaign_request_ok e (CreateCampaign d) \<longleftrightarrow> validate_campaign e (JObj d) = Inr d"
| "campaign_request_ok e (GetCampaign i) \<longleftrightarrow> path_id i"
| "campaign_request_ok e (GetTemplate i) \<longleftrightarrow> path_id i"
| "campaign_request_ok e _ \<longleftrightarrow> False"

fun template_request_ok :: "py_env \<Rightarrow> it_request \<Rightarrow> bool" where
  "template_request_ok e (UpsertTemplate d) \<longleftrightarrow>
     validate_template_payload e (JObj d) = Inr d \<and> payload_version (JObj d) = Inr 2"
| "template_request_ok e (LookupTemplate c) \<longleftrightarrow> path_client c"
| "template_request_ok e (GetTemplate i) \<longleftrightarrow> path_id i"
| "template_request_ok e _ \<longleftrightarrow> False"

fun it_write :: "it_request \<Rightarrow> bool" where
  "it_write (CreateCampaign _) = True"
| "it_write (UpsertTemplate _) = True"
| "it_write _ = False"

definition it_send :: "(it_request \<Rightarrow> bool) \<Rightarrow> it_provider \<times> string \<Rightarrow> it_request \<Rightarrow> dict it_exchange" where
  "it_send ok p r sent =
     (if snd p \<notin> set REGIONS \<or> \<not> ok r then (sent, Inl it_invalid)
      else (sent @ [r], case http_result (fst p sent r) of Inl c \<Rightarrow> Inl (IterableDraftError c) | Inr d \<Rightarrow> Inr d))"

definition it_token_ok :: "lease \<Rightarrow> bool" where
  "it_token_ok l \<longleftrightarrow> lease_provider l = ''iterable'' \<and> lease_purpose l = ''iterable_draft_write''
     \<and> lease_workflow l \<noteq> None
     \<and> (case token l of None \<Rightarrow> False | Some t \<Rightarrow> t \<noteq> [] \<and> list_all (\<lambda>c. 33 \<le> code c \<and> code c \<le> 126) t)"

definition with_it_token :: "lease \<Rightarrow> 'a it_exchange \<Rightarrow> 'a it_exchange" where
  "with_it_token l f sent = (if it_token_ok l then f sent else (sent, Inl (IterableDraftError ''invalid_credential'')))"

definition it_unknown :: "string option \<Rightarrow> string option \<Rightarrow> string \<Rightarrow> it_error \<Rightarrow> draft_receipt" where
  "it_unknown i st dg x = (case x of IterableDraftError c \<Rightarrow>
     \<lparr>outcome = ''UNKNOWN'', r_provider_id = i, r_provider_status = st, r_request_digest = dg,
      r_readback_digest = None, r_error_category = Some c\<rparr>)"

definition it_confirmed :: "string \<Rightarrow> string \<Rightarrow> string \<Rightarrow> string \<Rightarrow> draft_receipt" where
  "it_confirmed i st dg rb = \<lparr>outcome = ''CONFIRMED'', r_provider_id = Some i, r_provider_status = Some st,
     r_request_digest = dg, r_readback_digest = Some rb, r_error_category = None\<rparr>"

section \<open>The campaign adapter\<close>

definition campaign_send :: "py_env \<Rightarrow> it_provider \<times> string \<Rightarrow> it_request \<Rightarrow> dict it_exchange" where
  "campaign_send e = it_send (campaign_request_ok e)"

definition id_matches :: "dict \<Rightarrow> string \<Rightarrow> int \<Rightarrow> bool" where
  "id_matches d k i \<longleftrightarrow> dget d k = JInt i"

text \<open>\<open>_template\<close>: the content digest of a template that the provider returns under its id.\<close>

definition template_at :: "py_env \<Rightarrow> it_provider \<times> string \<Rightarrow> int \<Rightarrow> string it_exchange" where
  "template_at e p i = ex_bind (campaign_send e p (GetTemplate i)) (\<lambda>t.
     ex_lift (if id_matches t ''templateId'' i then Inr (template_content_digest e t)
              else Inl (IterableDraftError ''identity_mismatch'')))"

definition campaign_state :: "dict \<Rightarrow> string option" where
  "campaign_state c = (case dget c ''campaignState'' of JStr s \<Rightarrow> Some s | _ \<Rightarrow> None)"

definition UNSENT :: "string list" where
  "UNSENT = [''Draft'', ''Ready'']"

definition unscheduled :: "dict \<Rightarrow> bool" where
  "unscheduled c \<longleftrightarrow> (\<exists>s \<in> set_option (campaign_state c). s \<in> set UNSENT)
     \<and> dget c ''type'' = JStr ''Blast'' \<and> dget c ''messageMedium'' = JStr ''Email''
     \<and> dget c ''startAt'' = JNull \<and> dget c ''endedAt'' = JNull
     \<and> dget c ''workflowId'' = JNull \<and> dget c ''recurringCampaignId'' = JNull"

fun ints_of :: "json \<Rightarrow> int list option" where
  "ints_of (JList xs) = those (map (\<lambda>v. case v of JInt i \<Rightarrow> Some i | _ \<Rightarrow> None) xs)"
| "ints_of _ = None"

definition same_ids :: "json \<Rightarrow> json \<Rightarrow> bool" where
  "same_ids actual expected =
     (case (ints_of actual, ints_of expected) of (Some a, Some x) \<Rightarrow> sort a = sort x | _ \<Rightarrow> False)"

definition campaign_check :: "dict \<Rightarrow> int \<Rightarrow> dict \<Rightarrow> it_error + int" where
  "campaign_check c i payload =
     (if \<not> id_matches c ''id'' i then Inl (IterableDraftError ''identity_mismatch'')
      else if \<not> unscheduled c then Inl (IterableDraftError ''unsafe_provider_state'')
      else if dget c ''name'' \<noteq> dget payload ''name'' then Inl (IterableDraftError ''readback_mismatch'')
      else if \<not> same_ids (dget c ''listIds'') (dget payload ''listIds'')
              \<or> \<not> same_ids (dget c ''suppressionListIds'') (dget payload ''suppressionListIds'')
      then Inl (IterableDraftError ''readback_mismatch'')
      else if \<not> has c ''templateId'' then Inl (IterableDraftError ''unverifiable_template'')
      else it_identifier (dget c ''templateId''))"

definition KNOWN_STATES :: "string list" where
  "KNOWN_STATES = [''Draft'', ''Ready'', ''Scheduled'', ''Running'', ''Finished'', ''Starting'', ''Aborted'', ''Recurring'', ''Archived'']"

definition known_state :: "dict \<Rightarrow> string option" where
  "known_state c = (case campaign_state c of Some s \<Rightarrow> if s \<in> set KNOWN_STATES then Some s else None | None \<Rightarrow> None)"

definition copied_template :: "py_env \<Rightarrow> it_provider \<times> string \<Rightarrow> int \<Rightarrow> string \<Rightarrow> unit it_exchange" where
  "copied_template e p i tdg = ex_bind (template_at e p i) (\<lambda>d.
     ex_lift (if d \<noteq> tdg then Inl (IterableDraftError ''readback_mismatch'') else Inr ()))"

definition campaign_confirm :: "py_env \<Rightarrow> it_provider \<times> string \<Rightarrow> int \<Rightarrow> dict \<Rightarrow> string \<Rightarrow> string \<Rightarrow> draft_receipt it_exchange" where
  "campaign_confirm e p i payload dg tdg =
     ex_catch
       (ex_bind (campaign_send e p (GetCampaign i)) (\<lambda>c.
          ex_catch
            (ex_bind (ex_lift (campaign_check c i payload)) (\<lambda>copied.
             ex_bind (copied_template e p copied tdg) (\<lambda>_.
               ex_lift (Inr (it_confirmed (int_str i) (case campaign_state c of Some s \<Rightarrow> s | None \<Rightarrow> []) dg
                               (campaign_readback_digest e c tdg))))))
            (\<lambda>x. Inr (it_unknown (Some (int_str i)) (known_state c) dg x))))
       (\<lambda>x. Inr (it_unknown (Some (int_str i)) None dg x))"

definition it_settle :: "string \<Rightarrow> it_error \<Rightarrow> it_error + draft_receipt" where
  "it_settle dg x = (case x of IterableDraftError c \<Rightarrow>
     if c \<in> set DEFINITE then Inl x else Inr (it_unknown None None dg x))"

text \<open>The inner \<open>execute\<close> of \<open>create\<close>: the reviewed template first, then the one write, then the readback.\<close>

definition campaign_write :: "py_env \<Rightarrow> it_provider \<times> string \<Rightarrow> dict \<Rightarrow> int it_exchange" where
  "campaign_write e p d = ex_bind (campaign_send e p (CreateCampaign d)) (\<lambda>r. ex_lift (it_identifier (dget r ''campaignId'')))"

definition campaign_execute :: "py_env \<Rightarrow> it_provider \<times> string \<Rightarrow> dict \<Rightarrow> string \<Rightarrow> string \<Rightarrow> draft_receipt it_exchange" where
  "campaign_execute e p d dg expected =
     ex_bind (template_at e p (case dget d ''templateId'' of JInt i \<Rightarrow> i | _ \<Rightarrow> 0)) (\<lambda>tdg.
     ex_bind (ex_lift (if tdg \<noteq> expected then Inl (IterableDraftError ''stale_template'') else Inr ())) (\<lambda>_ sent.
       case campaign_write e p d sent of
         (sent', Inl x) \<Rightarrow> (sent', it_settle dg x)
       | (sent', Inr i) \<Rightarrow> campaign_confirm e p i d dg tdg sent'))"

definition campaign_create :: "py_env \<Rightarrow> it_provider \<Rightarrow> lease \<Rightarrow> json \<Rightarrow> json \<Rightarrow> string \<Rightarrow> draft_receipt it_exchange" where
  "campaign_create e pr l payload expected region =
     ex_bind (ex_lift (validate_campaign e payload)) (\<lambda>d.
     ex_bind (ex_lift (campaign_digest e (JStr region) (JObj d) expected)) (\<lambda>dg.
       with_it_token l (campaign_execute e (pr, region) d dg (text_of expected))))"

text \<open>The pattern \<open>[1-9][0-9]{0,18}\<close> and \<open>int\<close> of such a text.\<close>

definition campaign_id_of :: "string \<Rightarrow> it_error + int" where
  "campaign_id_of s =
     (if id_text s \<and> length s \<le> 19
      then (case digits_value 0 s of Some n \<Rightarrow> it_identifier (JInt (int n)) | None \<Rightarrow> Inl it_invalid)
      else Inl it_invalid)"

definition campaign_reconcile ::
  "py_env \<Rightarrow> it_provider \<Rightarrow> lease \<Rightarrow> string option \<Rightarrow> json \<Rightarrow> string \<Rightarrow> json \<Rightarrow> string \<Rightarrow> draft_receipt it_exchange" where
  "campaign_reconcile e pr l campaign_id payload request_digest expected region =
     ex_bind (ex_lift (validate_campaign e payload)) (\<lambda>d.
     ex_bind (ex_lift (campaign_digest e (JStr region) (JObj d) expected)) (\<lambda>dg.
       if dg \<noteq> request_digest then ex_lift (Inl it_invalid)
       else case campaign_id of
         None \<Rightarrow> ex_lift (Inr (it_unknown None None dg (IterableDraftError ''human_reconciliation_required'')))
       | Some s \<Rightarrow> ex_bind (ex_lift (campaign_id_of s)) (\<lambda>i.
           with_it_token l (campaign_confirm e (pr, region) i d dg (text_of expected)))))"

section \<open>The template adapter\<close>

definition template_send :: "py_env \<Rightarrow> it_provider \<times> string \<Rightarrow> it_request \<Rightarrow> dict it_exchange" where
  "template_send e = it_send (template_request_ok e)"

text \<open>
  \<open>_lookup\<close>: at most 100 entries, each an object with a valid template id (an entry of another shape
  is an \<open>invalid_response\<close>, one with a bad id an \<open>invalid_request\<close>).
\<close>

fun entries_of :: "json list \<Rightarrow> it_error + dict list" where
  "entries_of [] = Inr []"
| "entries_of (v # vs) = (case v of
     JObj d \<Rightarrow> try_bind (it_identifier (dget d ''templateId'')) (\<lambda>_. try_bind (entries_of vs) (\<lambda>ds. Inr (d # ds)))
   | _ \<Rightarrow> Inl (IterableDraftError ''invalid_response''))"

definition lookup_result :: "dict \<Rightarrow> it_error + dict list" where
  "lookup_result r = (case dget r ''templates'' of
     JList vs \<Rightarrow> if length vs > 100 then Inl (IterableDraftError ''invalid_response'') else entries_of vs
   | _ \<Rightarrow> Inl (IterableDraftError ''invalid_response''))"

definition template_lookup :: "py_env \<Rightarrow> it_provider \<times> string \<Rightarrow> string \<Rightarrow> (dict list) it_exchange" where
  "template_lookup e p client = ex_bind (template_send e p (LookupTemplate client)) (\<lambda>r. ex_lift (lookup_result r))"

text \<open>The one entry that carries our client id and belongs to no campaign.\<close>

definition owned_entry :: "string option \<Rightarrow> dict list \<Rightarrow> it_error + int" where
  "owned_entry known entries =
     (case entries of
        [d] \<Rightarrow>
          if dget d ''campaignId'' \<noteq> JNull then Inl (IterableDraftError ''identity_mismatch'')
          else try_bind (it_identifier (dget d ''templateId'')) (\<lambda>i.
            if (\<exists>k \<in> set_option known. k \<noteq> [] \<and> int_str i \<noteq> k) then Inl (IterableDraftError ''identity_mismatch'') else Inr i)
      | _ \<Rightarrow> Inl (IterableDraftError ''identity_mismatch''))"

definition value_eq :: "json \<Rightarrow> json \<Rightarrow> bool" where
  "value_eq expected actual =
     (case num_of expected of Some q \<Rightarrow> num_of actual = Some q | None \<Rightarrow> actual = expected)"

definition EMPTY_FIELDS :: "string list" where
  "EMPTY_FIELDS = [''bccEmails'', ''ccEmails'', ''dataFeedIds'', ''dataFeedId'', ''linkParams'', ''googleAnalyticsCampaignName'',
     ''campaignDataFields'', ''preheaderText'']"

definition template_check :: "dict \<Rightarrow> int \<Rightarrow> dict \<Rightarrow> it_error + unit" where
  "template_check t i payload =
     (if \<not> id_matches t ''templateId'' i then Inl (IterableDraftError ''identity_mismatch'')
      else if \<not> list_all (\<lambda>(k, v). value_eq v (dget t k)) payload
              \<or> \<not> list_all (\<lambda>k. dget t k \<in> {JNull, JList [], JStr []}) EMPTY_FIELDS
              \<or> \<not> list_all (\<lambda>k. dget t k \<in> {JNull, JBool False}) [''cacheDataFeed'', ''mergeDataFeedContext'']
      then Inl (IterableDraftError ''readback_mismatch'') else Inr ())"

definition template_readback :: "py_env \<Rightarrow> it_provider \<times> string \<Rightarrow> int \<Rightarrow> dict \<Rightarrow> string \<Rightarrow> draft_receipt it_exchange" where
  "template_readback e p i payload dg =
     ex_bind (template_send e p (GetTemplate i)) (\<lambda>t.
       ex_lift (try_bind (template_check t i payload) (\<lambda>_.
         Inr (it_confirmed (int_str i) ''template'' dg (template_content_digest e t)))))"

definition template_confirm ::
  "py_env \<Rightarrow> it_provider \<times> string \<Rightarrow> dict \<Rightarrow> string \<Rightarrow> string option \<Rightarrow> draft_receipt it_exchange" where
  "template_confirm e p payload dg known =
     ex_catch
       (ex_bind (template_lookup e p (field payload ''clientTemplateId'')) (\<lambda>entries.
        ex_bind (ex_lift (owned_entry known entries)) (\<lambda>i.
          ex_catch (template_readback e p i payload dg) (\<lambda>x. Inr (it_unknown (Some (int_str i)) None dg x)))))
       (\<lambda>x. Inr (it_unknown known None dg x))"

definition template_execute :: "py_env \<Rightarrow> it_provider \<times> string \<Rightarrow> dict \<Rightarrow> string \<Rightarrow> draft_receipt it_exchange" where
  "template_execute e p d dg =
     ex_bind (template_lookup e p (field d ''clientTemplateId'')) (\<lambda>entries.
     ex_bind (ex_lift (if entries \<noteq> [] then Inl (IterableDraftError ''unowned_collision'') else Inr ())) (\<lambda>_ sent.
       case template_send e p (UpsertTemplate d) sent of
         (sent', Inl x) \<Rightarrow> (sent', Inr (it_unknown None None dg x))
       | (sent', Inr _) \<Rightarrow> template_confirm e p d dg None sent'))"

definition template_create :: "py_env \<Rightarrow> it_provider \<Rightarrow> lease \<Rightarrow> json \<Rightarrow> string \<Rightarrow> draft_receipt it_exchange" where
  "template_create e pr l payload region =
     ex_bind (ex_lift (validate_template_payload e payload)) (\<lambda>d.
     ex_bind (ex_lift (payload_version (JObj d))) (\<lambda>v.
       if v \<noteq> 2 then ex_lift (Inl it_invalid)
       else ex_bind (ex_lift (template_digest e (JStr region) (JObj d))) (\<lambda>dg.
         with_it_token l (template_execute e (pr, region) d dg))))"

definition template_reconcile ::
  "py_env \<Rightarrow> it_provider \<Rightarrow> lease \<Rightarrow> json \<Rightarrow> string \<Rightarrow> string option \<Rightarrow> string \<Rightarrow> draft_receipt it_exchange" where
  "template_reconcile e pr l payload request_digest known region =
     ex_bind (ex_lift (validate_template_payload e payload)) (\<lambda>d.
     ex_bind (ex_lift (template_digest e (JStr region) (JObj d))) (\<lambda>dg.
       if dg \<noteq> request_digest then ex_lift (Inl it_invalid)
       else with_it_token l (template_confirm e (pr, region) d dg known)))"


section \<open>What the adapters send\<close>

lemma it_send_log:
  "it_send ok p r sent = (sent', res) \<Longrightarrow> sent' = sent \<and> (\<exists>x. res = Inl x) \<or> sent' = sent @ [r] \<and> ok r"
  by (auto simp: it_send_def split: if_splits)

lemma it_send_Inr:
  "it_send ok p r sent = (sent', Inr d) \<longleftrightarrow>
     snd p \<in> set REGIONS \<and> ok r \<and> sent' = sent @ [r] \<and> http_result (fst p sent r) = Inr d"
  by (auto simp: it_send_def split: sum.splits)

interpretation campaign_log: request_log "campaign_request_ok e" it_write "campaign_send e" for e
  by unfold_locales (unfold campaign_send_def, rule it_send_log)

interpretation template_log: request_log "template_request_ok e" it_write "template_send e" for e
  by unfold_locales (unfold template_send_def, rule it_send_log)

lemma campaign_reads: "\<not> it_write r \<Longrightarrow> wrote (campaign_request_ok e) it_write 0 W s (fst (campaign_send e p r s))"
  by (rule campaign_log.wrote_read [of e p r s _ "snd (campaign_send e p r s)"]) auto

lemma template_reads: "\<not> it_write r \<Longrightarrow> wrote (template_request_ok e) it_write 0 W s (fst (template_send e p r s))"
  by (rule template_log.wrote_read [of e p r s _ "snd (template_send e p r s)"]) auto

lemma wrote_lift: "wrote pm w n W s (fst (ex_lift r s))"
  by (simp add: wrote_def)

lemmas wrote_zero = wrote_bind [where n = 0 and k = 0 and j = 0]

lemma template_at_reads: "wrote (campaign_request_ok e) it_write 0 W s (fst (template_at e p i s))"
  unfolding template_at_def by (intro wrote_zero campaign_reads wrote_lift) auto

lemma copied_template_reads: "wrote (campaign_request_ok e) it_write 0 W s (fst (copied_template e p i tdg s))"
  unfolding copied_template_def by (intro wrote_zero template_at_reads wrote_lift) auto

lemma campaign_confirm_reads:
  "wrote (campaign_request_ok e) it_write 0 W s (fst (campaign_confirm e p i d dg tdg s))"
  unfolding campaign_confirm_def ex_catch_log
  by (rule wrote_zero, rule campaign_reads, simp, unfold ex_catch_log)
     (intro wrote_zero wrote_lift copied_template_reads order_refl, simp_all)

lemma campaign_write_wrote:
  "W (CreateCampaign d) \<Longrightarrow> wrote (campaign_request_ok e) it_write 1 W s (fst (campaign_write e p d s))"
  unfolding campaign_write_def
  by (rule wrote_bind [where n = 1 and k = 0], rule campaign_log.wrote_write [of e p "CreateCampaign d" s _ "snd (campaign_send e p (CreateCampaign d) s)"])
     (auto intro: wrote_lift)

lemma campaign_execute_wrote:
  assumes "W (CreateCampaign d)"
  shows "wrote (campaign_request_ok e) it_write 1 W s (fst (campaign_execute e p d dg expected s))"
proof -
  have "wrote (campaign_request_ok e) it_write 1 W t (fst (case campaign_write e p d t of
         (sent', Inl x) \<Rightarrow> (sent', it_settle dg x) | (sent', Inr i) \<Rightarrow> campaign_confirm e p i d dg tdg sent'))" for t tdg
  proof -
    obtain t1 r where w: "campaign_write e p d t = (t1, r)" by (cases "campaign_write e p d t")
    have one: "wrote (campaign_request_ok e) it_write 1 W t t1"
      using campaign_write_wrote [of W d e t p] assms w by simp
    show ?thesis
    proof (cases r)
      case (Inr i)
      have "wrote (campaign_request_ok e) it_write 1 W t (fst (campaign_confirm e p i d dg tdg t1))"
        by (rule wrote_trans [OF one campaign_confirm_reads]) simp
      with w Inr show ?thesis by simp
    qed (use w one in simp)
  qed
  then show ?thesis
    unfolding campaign_execute_def
    by (intro wrote_bind [where n = 0 and k = 1] template_at_reads wrote_lift) simp_all
qed


text \<open>
  A confirmed campaign: the last two requests read the campaign and the template it copied, and what
  they returned is an unscheduled email campaign with the reviewed name, lists and template content.
\<close>

definition campaign_read_back ::
  "py_env \<Rightarrow> it_provider \<Rightarrow> dict \<Rightarrow> string \<Rightarrow> it_request list \<Rightarrow> draft_receipt \<Rightarrow> bool" where
  "campaign_read_back e pr d tdg sent rc \<longleftrightarrow>
     (\<exists>before i k c t. sent = before @ [GetCampaign i, GetTemplate k]
        \<and> http_result (pr before (GetCampaign i)) = Inr c \<and> http_result (pr (before @ [GetCampaign i]) (GetTemplate k)) = Inr t
        \<and> r_provider_id rc = Some (int_str i) \<and> dget c ''id'' = JInt i \<and> unscheduled c \<and> dget c ''name'' = dget d ''name''
        \<and> same_ids (dget c ''listIds'') (dget d ''listIds'')
        \<and> same_ids (dget c ''suppressionListIds'') (dget d ''suppressionListIds'')
        \<and> dget c ''templateId'' = JInt k \<and> dget t ''templateId'' = JInt k \<and> template_content_digest e t = tdg)"

lemma it_unknown_outcome [simp]: "outcome (it_unknown i st dg x) = ''UNKNOWN''"
  by (cases x) (simp add: it_unknown_def)

lemma it_settle_outcome: "it_settle dg x = Inr rc \<Longrightarrow> outcome rc = ''UNKNOWN''"
  by (cases x) (auto simp: it_settle_def split: if_splits)

lemma campaign_check_Inr:
  assumes "campaign_check c i d = Inr k"
  shows "dget c ''id'' = JInt i \<and> unscheduled c \<and> dget c ''name'' = dget d ''name''
    \<and> same_ids (dget c ''listIds'') (dget d ''listIds'') \<and> same_ids (dget c ''suppressionListIds'') (dget d ''suppressionListIds'')
    \<and> dget c ''templateId'' = JInt k"
  using assms by (auto simp: campaign_check_def id_matches_def it_identifier_Inr split: if_splits)

lemma template_at_Inr:
  assumes "template_at e p i s = (s', Inr h)"
  shows "\<exists>t. s' = s @ [GetTemplate i] \<and> http_result (fst p s (GetTemplate i)) = Inr t
    \<and> dget t ''templateId'' = JInt i \<and> template_content_digest e t = h"
  using assms
  by (auto simp: template_at_def ex_bind_Inr ex_lift_Inr campaign_send_def it_send_Inr id_matches_def split: if_splits)

lemma campaign_confirm_confirmed:
  assumes "campaign_confirm e (pr, region) i d dg tdg s = (s', Inr rc)" and "outcome rc = ''CONFIRMED''"
  shows "campaign_read_back e pr d tdg s' rc"
proof -
  obtain s1 c where c: "campaign_send e (pr, region) (GetCampaign i) s = (s1, Inr c)" and
    rest: "ex_bind (ex_lift (campaign_check c i d)) (\<lambda>copied.
             ex_bind (copied_template e (pr, region) copied tdg) (\<lambda>_.
               ex_lift (Inr (it_confirmed (int_str i) (case campaign_state c of Some s \<Rightarrow> s | None \<Rightarrow> []) dg
                               (campaign_readback_digest e c tdg))))) s1 = (s', Inr rc)"
    using assms by (auto simp: campaign_confirm_def ex_catch_Inr ex_bind_Inr [of "campaign_send e (pr, region) (GetCampaign i)"])
  then obtain k where k: "campaign_check c i d = Inr k" and t: "copied_template e (pr, region) k tdg s1 = (s', Inr ())"
    and rc: "r_provider_id rc = Some (int_str i)"
    by (auto simp: ex_bind_Inr ex_lift_Inr it_confirmed_def)
  from t have t: "template_at e (pr, region) k s1 = (s', Inr tdg)"
    by (auto simp: copied_template_def ex_bind_Inr ex_lift_Inr split: if_splits)
  from c have "s1 = s @ [GetCampaign i]" "http_result (pr s (GetCampaign i)) = Inr c"
    by (auto simp: campaign_send_def it_send_Inr)
  moreover obtain q where "s' = s1 @ [GetTemplate k]" "http_result (pr s1 (GetTemplate k)) = Inr q"
    "dget q ''templateId'' = JInt k" "template_content_digest e q = tdg" using template_at_Inr [OF t] by auto
  ultimately show ?thesis using campaign_check_Inr [OF k] rc
    unfolding campaign_read_back_def
    by - (rule exI [of _ s], rule exI [of _ i], rule exI [of _ k], rule exI [of _ c], rule exI [of _ q], simp)
qed

lemma campaign_execute_confirmed:
  assumes "campaign_execute e (pr, region) d dg expected s = (s', Inr rc)" and "outcome rc = ''CONFIRMED''"
  shows "campaign_read_back e pr d expected s' rc"
  using assms
  by (auto simp: campaign_execute_def ex_bind_Inr ex_lift_Inr split: if_splits prod.splits sum.splits
      dest: it_settle_outcome campaign_confirm_confirmed)

lemma campaign_create_cases:
  assumes "campaign_create e pr l payload expected region s = (s', res)"
  shows "s' = s \<and> (\<exists>x. res = Inl x) \<or>
    (\<exists>d dg. validate_campaign e payload = Inr d \<and> campaign_execute e (pr, region) d dg (text_of expected) s = (s', res))"
  using assms
  by (auto simp: campaign_create_def ex_bind_def ex_lift_def with_it_token_def split: sum.splits if_splits)

lemma validate_campaign_Inr: "validate_campaign e payload = Inr d \<Longrightarrow> payload = JObj d \<and> campaign_ok d"
  by (auto simp: validate_campaign_def split: json.splits if_splits)

text \<open>
  C12: Creating a campaign never schedules one.  A call of \<open>create\<close> sends only permitted requests and at
  most one write, the creation of the validated payload with \<open>scheduleSend\<close> false; a \<open>CONFIRMED\<close>
  receipt means that the campaign was read back as an unscheduled draft or ready blast email with the
  reviewed name and exactly the reviewed lists, and that the template it copied has the reviewed content.
\<close>

theorem campaign_never_scheduled:
  assumes "campaign_create e pr l payload expected region sent = (sent', res)"
  shows "wrote (campaign_request_ok e) it_write 1
      (\<lambda>r. \<exists>d. validate_campaign e payload = Inr d \<and> dget d ''scheduleSend'' = JBool False \<and> r = CreateCampaign d) sent sent'
    \<and> (\<forall>rc. res = Inr rc \<and> outcome rc = ''CONFIRMED'' \<longrightarrow>
         (\<exists>d. validate_campaign e payload = Inr d \<and> campaign_read_back e pr d (text_of expected) sent' rc))"
  using campaign_create_cases [OF assms]
proof (elim disjE exE conjE)
  fix d dg
  assume v: "validate_campaign e payload = Inr d"
    and x: "campaign_execute e (pr, region) d dg (text_of expected) sent = (sent', res)"
  have "dget d ''scheduleSend'' = JBool False" using validate_campaign_Inr [OF v] by (simp add: campaign_ok_def)
  then have "wrote (campaign_request_ok e) it_write 1
      (\<lambda>r. \<exists>d. validate_campaign e payload = Inr d \<and> dget d ''scheduleSend'' = JBool False \<and> r = CreateCampaign d) sent sent'"
    using campaign_execute_wrote [of _ d e sent "(pr, region)" dg "text_of expected"] x v by simp
  with v x show ?thesis by (auto intro: campaign_execute_confirmed)
qed auto

section \<open>Templates\<close>

lemma template_lookup_reads: "wrote (template_request_ok e) it_write 0 W s (fst (template_lookup e p c s))"
  unfolding template_lookup_def by (intro wrote_zero template_reads wrote_lift) auto

lemma template_readback_reads: "wrote (template_request_ok e) it_write 0 W s (fst (template_readback e p i d dg s))"
  unfolding template_readback_def by (intro wrote_zero template_reads wrote_lift) auto

lemma template_confirm_reads: "wrote (template_request_ok e) it_write 0 W s (fst (template_confirm e p d dg known s))"
  unfolding template_confirm_def ex_catch_log
  by (intro wrote_zero template_lookup_reads wrote_lift) (simp_all add: template_readback_reads)

lemma wrote_none: "wrote pm w 0 W s s' \<Longrightarrow> \<exists>news. s' = s @ news \<and> filter w news = []"
  by (auto simp: wrote_def)

lemma template_lookup_Inr:
  assumes "template_lookup e p c s = (s', Inr ds)"
  shows "\<exists>r. s' = s @ [LookupTemplate c] \<and> http_result (fst p s (LookupTemplate c)) = Inr r \<and> lookup_result r = Inr ds"
  using assms by (auto simp: template_lookup_def ex_bind_Inr ex_lift_Inr template_send_def it_send_Inr)

lemma template_execute_writes:
  assumes "template_execute e (pr, region) d dg s = (s', res)"
  shows "(\<exists>news. s' = s @ news \<and> filter it_write news = []) \<or>
    (\<exists>r news. s' = s @ [LookupTemplate (field d ''clientTemplateId'')] @ UpsertTemplate d # news \<and> filter it_write news = []
       \<and> http_result (pr s (LookupTemplate (field d ''clientTemplateId''))) = Inr r \<and> lookup_result r = Inr [])"
proof -
  obtain s1 r1 where l: "template_lookup e (pr, region) (field d ''clientTemplateId'') s = (s1, r1)"
    by (cases "template_lookup e (pr, region) (field d ''clientTemplateId'') s")
  show ?thesis
  proof (cases "r1 = Inr []")
    case False
    then have "s' = s1" using assms l by (auto simp: template_execute_def ex_bind_def ex_lift_def split: sum.splits)
    with wrote_none [OF template_lookup_reads [of e _ s "(pr, region)" "field d ''clientTemplateId''"]] l
    show ?thesis by auto
  next
    case True
    then obtain q where q: "s1 = s @ [LookupTemplate (field d ''clientTemplateId'')]"
      "http_result (pr s (LookupTemplate (field d ''clientTemplateId''))) = Inr q" "lookup_result q = Inr []"
      using template_lookup_Inr l by fastforce
    obtain s2 r2 where u: "template_send e (pr, region) (UpsertTemplate d) s1 = (s2, r2)"
      by (cases "template_send e (pr, region) (UpsertTemplate d) s1")
    have log: "s2 = s1 \<and> (\<exists>x. r2 = Inl x) \<or> s2 = s1 @ [UpsertTemplate d]" using template_log.transmit_log [OF u] by auto
    have s': "s' = (case r2 of Inl x \<Rightarrow> s2 | Inr _ \<Rightarrow> fst (template_confirm e (pr, region) d dg None s2))"
      using assms l True u by (auto simp: template_execute_def ex_bind_def ex_lift_def split: sum.splits)
    obtain more where "s' = s2 @ more" "filter it_write more = []"
      using s' wrote_none [OF template_confirm_reads [of e _ s2 "(pr, region)" d dg None]]
      by (cases r2) auto
    with log q show ?thesis by (auto split: sum.splits simp: s')
  qed
qed


lemma template_confirm_returns: "\<exists>rc. snd (template_confirm e p d dg known s) = Inr rc"
  by (auto simp: template_confirm_def ex_catch_def [of "ex_bind _ _"] split: prod.splits sum.splits)

lemma template_execute_returns:
  assumes "template_execute e p d dg s = (s', res)" and "template_lookup e p (field d ''clientTemplateId'') s = (s1, Inr [])"
  shows "\<exists>rc. res = Inr rc"
proof -
  obtain s2 r2 where "template_send e p (UpsertTemplate d) s1 = (s2, r2)" by (cases "template_send e p (UpsertTemplate d) s1")
  then show ?thesis using assms template_confirm_returns [of e p d dg None s2]
    by (auto simp: template_execute_def ex_bind_def ex_lift_def split: sum.splits)
qed

lemma template_create_cases:
  assumes "template_create e pr l payload region s = (s', res)"
  shows "s' = s \<and> (\<exists>x. res = Inl x) \<or>
    (\<exists>d dg. validate_template_payload e payload = Inr d \<and> payload_version (JObj d) = Inr 2
       \<and> template_execute e (pr, region) d dg s = (s', res))"
  using assms
  by (auto simp: template_create_def ex_bind_def ex_lift_def with_it_token_def split: sum.splits if_splits)

text \<open>
  The template client only ever creates.  If a call of \<open>create\<close> sends a write at all, it is the one
  upsert of the validated payload with the marketing footer, sent right after a lookup of our client id
  that returned no template (an upsert over an existing one would overwrite it), and once it has been
  sent the call returns a receipt: no exception can lead a caller to send it again.
\<close>

theorem template_only_created:
  assumes "template_create e pr l payload region [] = (sent', res)" and "r \<in> set sent'" and "it_write r"
  shows "filter it_write sent' = [r] \<and> (\<exists>rc. res = Inr rc)
    \<and> (\<exists>d c q. validate_template_payload e payload = Inr d \<and> payload_version (JObj d) = Inr 2 \<and> r = UpsertTemplate d
         \<and> c = LookupTemplate (field d ''clientTemplateId'') \<and> take 2 sent' = [c, r]
         \<and> http_result (pr [] c) = Inr q \<and> lookup_result q = Inr [])"
proof -
  obtain d dg where d: "validate_template_payload e payload = Inr d" "payload_version (JObj d) = Inr 2"
    and x: "template_execute e (pr, region) d dg [] = (sent', res)"
    using template_create_cases [OF assms(1)] assms(2) by auto
  let ?c = "LookupTemplate (field d ''clientTemplateId'')"
  have nw: "\<not> (\<exists>news. sent' = news \<and> filter it_write news = [])"
    using assms(2,3) by (auto simp: filter_empty_conv)
  then obtain q news where s': "sent' = [?c] @ UpsertTemplate d # news" "filter it_write news = []"
    and q: "http_result (pr [] ?c) = Inr q" "lookup_result q = Inr []"
    using template_execute_writes [OF x] by auto
  have "r = UpsertTemplate d" using assms(2,3) s' by (auto simp: filter_empty_conv)
  moreover have "\<exists>rc. res = Inr rc"
  proof (rule template_execute_returns [OF x])
    have "snd (pr, region) \<in> set REGIONS \<and> template_request_ok e ?c"
    proof (rule ccontr)
      assume "\<not> ?thesis"
      then have "fst (template_execute e (pr, region) d dg []) = []"
        by (auto simp: template_execute_def ex_bind_def template_lookup_def template_send_def it_send_def)
      with x s' show False by simp
    qed
    then show "template_lookup e (pr, region) (field d ''clientTemplateId'') [] = ([?c], Inr [])"
      using q by (simp add: template_lookup_def ex_bind_Inr ex_lift_Inr template_send_def it_send_Inr)
  qed
  ultimately show ?thesis using d s' q by auto
qed

section \<open>Rendering\<close>

lemma html_char_Nil [simp]: "html_char c \<noteq> []"
  by (simp add: html_char_def)

lemma code_inj: "code c = code d \<longleftrightarrow> c = d"
  by (simp add: code_def)

text \<open>No rendering of a character starts with the rendering of another one.\<close>

lemma html_char_prefix:
  assumes "html_char c @ u = html_char d @ v"
  shows "c = d \<and> u = v"
proof -
  have q: "code c = 34 \<and> code d = 34 \<Longrightarrow> c = d" "code c = 39 \<and> code d = 39 \<Longrightarrow> c = d" "code c = 10 \<and> code d = 10 \<Longrightarrow> c = d"
    by (simp_all flip: code_inj)
  show ?thesis using assms q
    by (auto simp: html_char_def split: if_splits)
qed

lemma html_chars_inj: "concat (map html_char a) = concat (map html_char b) \<longleftrightarrow> a = b"
proof (induction a arbitrary: b)
  case Nil
  then show ?case by (cases b) auto
next
  case (Cons c a)
  then show ?case by (cases b) (auto dest: html_char_prefix)
qed

lemma char_of_code: "code c = n \<Longrightarrow> c = char_of n"
  by (auto simp: code_def)

lemma html_char_breaks: "html_char c = u @ CHR ''<'' # v \<Longrightarrow> u = [] \<and> v = ''br>'' @ [char_of (10::nat)]"
  by (auto simp: html_char_def Cons_eq_append_conv split: if_splits intro: char_of_code)

text \<open>
  The rendering of a reviewed text is faithful and inert: different texts have different HTML, and
  the only markup inside the paragraph is the line break that replaces a newline.
\<close>

theorem plain_html_faithful:
  "(plain_html a = plain_html b \<longleftrightarrow> a = b)
   \<and> (\<forall>u v. concat (map html_char a) = u @ CHR ''<'' # v \<longrightarrow> take 4 v = ''br>'' @ [char_of (10::nat)])"
proof
  show "plain_html a = plain_html b \<longleftrightarrow> a = b" by (simp add: plain_html_def html_chars_inj)
  show "\<forall>u v. concat (map html_char a) = u @ CHR ''<'' # v \<longrightarrow> take 4 v = ''br>'' @ [char_of (10::nat)]"
  proof (induction a)
    case (Cons c a)
    show ?case
    proof (intro allI impI)
      fix u v assume "concat (map html_char (c # a)) = u @ CHR ''<'' # v"
      then have "html_char c @ concat (map html_char a) = u @ CHR ''<'' # v" by simp
      then obtain w where "html_char c = u @ w \<and> w @ concat (map html_char a) = CHR ''<'' # v
          \<or> html_char c @ w = u \<and> concat (map html_char a) = w @ CHR ''<'' # v"
        by (auto simp: append_eq_append_conv2)
      then show "take 4 v = ''br>'' @ [char_of (10::nat)]"
      proof
        assume h: "html_char c = u @ w \<and> w @ concat (map html_char a) = CHR ''<'' # v"
        show ?thesis
        proof (cases w)
          case Nil
          with h Cons.IH show ?thesis by (metis append_Nil)
        next
          case (Cons x w')
          with h have "html_char c = u @ CHR ''<'' # w'" "v = w' @ concat (map html_char a)" by auto
          with html_char_breaks show ?thesis by fastforce
        qed
      next
        assume "html_char c @ w = u \<and> concat (map html_char a) = w @ CHR ''<'' # v"
        with Cons.IH show ?thesis by blast
      qed
    qed
  qed simp
qed


section \<open>Concrete exchanges\<close>

definition it_lease :: lease where
  "it_lease = \<lparr>lease_provider = ''iterable'', lease_purpose = ''iterable_draft_write'', lease_workflow = Some ''w'',
     token = Some ''t''\<rparr>"

definition a_digest :: string where
  "a_digest = replicate 64 (CHR ''a'')"

definition sample_campaign :: dict where
  "sample_campaign = [(''name'', JStr ''Breakfast''), (''templateId'', JInt 5), (''listIds'', JList [JInt 1]),
     (''suppressionListIds'', JList []), (''scheduleSend'', JBool False)]"

definition stored_campaign :: dict where
  "stored_campaign = [(''id'', JInt 9), (''name'', JStr ''Breakfast''), (''campaignState'', JStr ''Draft''), (''type'', JStr ''Blast''),
     (''messageMedium'', JStr ''Email''), (''listIds'', JList [JInt 1]), (''suppressionListIds'', JList []), (''templateId'', JInt 6)]"

fun campaign_provider :: it_provider where
  "campaign_provider sent (GetCampaign _) = Response 200 (Some stored_campaign)"
| "campaign_provider sent (CreateCampaign _) = Response 200 (Some [(''campaignId'', JInt 9)])"
| "campaign_provider sent (GetTemplate i) = Response 200 (Some [(''templateId'', JInt i)])"
| "campaign_provider sent _ = HttpError 404"

definition campaign_log_of :: "it_request list" where
  "campaign_log_of = [GetTemplate 5, CreateCampaign sample_campaign, GetCampaign 9, GetTemplate 6]"

definition campaign_receipt :: draft_receipt where
  "campaign_receipt = it_confirmed ''9'' ''Draft'' a_digest a_digest"

lemma sample_campaign_valid: "validate_campaign fixed_env (JObj sample_campaign) = Inr sample_campaign"
proof -
  have "campaign_ok sample_campaign" "utf8_length (dumps_plain fixed_env (JObj sample_campaign)) \<le> 300" by code_simp+
  then show ?thesis by (simp add: validate_campaign_def IT_MAX_REQUEST_BYTES_def)
qed

lemma it_lease_ok: "it_token_ok it_lease" by code_simp

lemma hex_a_digest: "hex64 a_digest" by code_simp

lemma a_digests: "draft_digest fixed_env v = a_digest"
  by (simp add: draft_digest_def fixed_env_def a_digest_def)

lemma sample_campaign_reads:
  "campaign_check stored_campaign 9 sample_campaign = Inr 6" "campaign_state stored_campaign = Some ''Draft''" "int_str 9 = ''9''"
  "dget sample_campaign ''templateId'' = JInt 5"
  by code_simp+

lemma dget_single: "dget [(k, v)] k = v"
  by (simp add: dget_def)

lemma sample_campaign_create:
  "campaign_create fixed_env campaign_provider it_lease (JObj sample_campaign) (JStr a_digest) ''us'' [] =
     (campaign_log_of, Inr campaign_receipt)"
  by (simp add: campaign_create_def ex_bind_def ex_lift_def ex_catch_def sample_campaign_valid campaign_digest_def hex_a_digest
      it_region_def REGIONS_def a_digests with_it_token_def it_lease_ok campaign_execute_def template_at_def campaign_send_def
      it_send_def path_id_def id_matches_def template_content_digest_def campaign_write_def campaign_confirm_def
      copied_template_def sample_campaign_reads campaign_readback_digest_def campaign_log_of_def campaign_receipt_def
      dget_single it_identifier_def)

theorem campaign_never_scheduled_witness:
  "campaign_create fixed_env campaign_provider it_lease (JObj sample_campaign) (JStr a_digest) ''us'' [] =
     (campaign_log_of, Inr campaign_receipt)
   \<and> (\<exists>d. validate_campaign fixed_env (JObj sample_campaign) = Inr d
        \<and> campaign_read_back fixed_env campaign_provider d a_digest campaign_log_of campaign_receipt)"
proof -
  have "outcome campaign_receipt = ''CONFIRMED''" by (simp add: campaign_receipt_def it_confirmed_def)
  with campaign_never_scheduled [OF sample_campaign_create] sample_campaign_create show ?thesis by simp
qed

definition sample_template :: dict where
  "sample_template = authored ''00000000-0000-4000-8000-000000000001'' ''invitation''
     [(''fromEmail'', JStr ''a@b.co''), (''fromName'', JStr ''A''), (''replyToEmail'', JStr ''a@b.co''), (''messageTypeId'', JInt 3)]
     (JStr ''Hi'') ''Come'' 2"

fun template_provider :: it_provider where
  "template_provider sent (LookupTemplate c) =
     Response 200 (Some [(''templates'', JList (if sent = [] then [] else [JObj [(''templateId'', JInt 6)]]))])"
| "template_provider sent (UpsertTemplate _) = Response 200 (Some [])"
| "template_provider sent (GetTemplate i) = Response 200 (Some ((''templateId'', JInt i) # sample_template))"
| "template_provider sent _ = HttpError 404"

definition template_client :: it_request where
  "template_client = LookupTemplate ''civicloop-00000000-0000-4000-8000-000000000001''"

definition template_log_of :: "it_request list" where
  "template_log_of = [template_client, UpsertTemplate sample_template, template_client, GetTemplate 6]"

definition template_receipt :: draft_receipt where
  "template_receipt = it_confirmed ''6'' ''template'' a_digest a_digest"

lemma sample_template_version: "payload_version (JObj sample_template) = Inr 2" by code_simp

lemma sample_template_valid: "validate_template_payload fixed_env (JObj sample_template) = Inr sample_template"
proof -
  have "(case dget sample_template ''messageTypeId'' of JInt i \<Rightarrow> 0 < i \<and> i \<le> 2 ^ 31 - 1 | _ \<Rightarrow> False)" by code_simp
  moreover have "list_all text_item_ok sample_template"
    by (simp add: sample_template_def authored_def text_item_ok_def plain_html_def html_char_def code_def MARKETING_FOOTER_def
        quote_mark_def strip_def is_space_def)
  moreover have "client_id_ok (field sample_template ''clientTemplateId'')" by code_simp
  moreover have "list_all (\<lambda>k. length (field sample_template k) \<le> 254 \<and> email_ok (field sample_template k)) [''fromEmail'', ''replyToEmail'']"
    by code_simp
  moreover have "list_all (\<lambda>k. length (field sample_template k) \<le> 240 \<and> list_all (\<lambda>c. 32 \<le> code c) (field sample_template k))
      [''fromName'', ''subject'', ''name'']" by code_simp
  moreover have "list_all (\<lambda>m. \<not> contains m (field sample_template ''plainText'') \<and> \<not> contains m (field sample_template ''subject'')) MARKS"
    by code_simp
  moreover have "field sample_template ''html'' = plain_html (field sample_template ''plainText'') @ MARKETING_FOOTER" by code_simp
  moreover have "length (dumps_default fixed_env (JObj sample_template)) \<le> 600" by code_simp
  ultimately have "template_ok fixed_env 2 sample_template" unfolding template_ok_def by simp
  then show ?thesis by (simp add: validate_template_payload_def sample_template_version)
qed

lemma sample_template_reads:
  "field sample_template ''clientTemplateId'' = ''civicloop-00000000-0000-4000-8000-000000000001''"
  "path_client ''civicloop-00000000-0000-4000-8000-000000000001''" "int_str 6 = ''6''"
  "template_check ((''templateId'', JInt 6) # sample_template) 6 sample_template = Inr ()"
  by code_simp+

lemma sample_template_create:
  "template_create fixed_env template_provider it_lease (JObj sample_template) ''us'' [] = (template_log_of, Inr template_receipt)"
  by (simp add: template_create_def ex_bind_def ex_lift_def ex_catch_def sample_template_valid sample_template_version
      template_digest_def it_region_def REGIONS_def a_digests with_it_token_def it_lease_ok template_execute_def
      template_lookup_def template_send_def it_send_def sample_template_reads path_id_def template_content_digest_def
      template_confirm_def template_readback_def owned_entry_def lookup_result_def dget_def it_identifier_def
      template_log_of_def template_client_def template_receipt_def)

end
