(* ===== verification/Workflow.thy ===== *)
theory Workflow
  imports Owner_Events
begin

text \<open>
  The LaunchLoop workflow: its tables (\<open>backend/launchloop/models.py\<close>) and the operations that change
  them (\<open>backend/launchloop/services.py\<close>, and the owner's event editor of \<open>backend/launchloop/pilot.py\<close>).

  Every operation is the whole \<open>@transaction.atomic\<close> function: it takes the database and returns
  either the exception it raises, in which case nothing is committed, or the new database.  Row
  creation checks the unique and primary keys (\<open>IntegrityError\<close>), deletion the \<open>PROTECT\<close> references
  (\<open>ProtectedError\<close>); the rows of other applications that hold such references are the three lists
  of \<open>ext_refs\<close>.  UUIDs and the clock are arguments.  \<open>tp\<close> is the trace parent header that the tracing
  runtime injects (empty when tracing is off).
\<close>

section \<open>Tables\<close>

type_synonym uuid = string

datatype role = OPERATOR | APPROVER

datatype wf_status = DRAFT | NEEDS_INPUT | READY_FOR_REVIEW | IN_REVIEW | APPROVED | COMPLETED

datatype ap_status = AP_PENDING | AP_APPROVED | AP_REJECTED

record user =
  user_pk :: nat
  username :: string
  first_name :: string
  last_name :: string
  password :: string

record actor =
  slug :: string
  display_name :: string
  actor_role :: role
  actor_user :: "nat option"

record event_row =
  event_pk :: nat
  event_slug :: string
  event_title :: string

record revision =
  rev_pk :: nat
  rev_event :: nat
  rev_version :: nat
  snapshot :: dict
  rev_author :: string
  source_snapshot :: "uuid option"

record workflow =
  wf_pk :: uuid
  wf_event :: nat
  wf_revision :: nat
  status :: wf_status
  package :: "json option"
  wf_hash :: string
  traceparent :: string

record transition_row =
  tr_workflow :: uuid
  tr_actor :: string
  from_status :: "wf_status option"
  to_status :: wf_status
  tr_action :: string
  tr_details :: dict

record approval =
  ap_pk :: uuid
  ap_workflow :: uuid
  submitter :: string
  approver :: "string option"
  ap_hash :: string
  ap_status :: ap_status
  reason :: string
  decided_at :: "int option"

record execution =
  ex_pk :: uuid
  ex_approval :: uuid
  idempotency_key :: string
  receipt :: json

record audit =
  au_actor :: "string option"
  au_action :: string
  target_type :: string
  target_id :: string
  au_details :: dict

record ext_refs =
  ext_workflows :: "uuid list"
  ext_revisions :: "nat list"
  ext_events :: "nat list"

record db =
  users :: "user list"
  actors :: "actor list"
  events :: "event_row list"
  revisions :: "revision list"
  workflows :: "workflow list"
  transitions :: "transition_row list"
  approvals :: "approval list"
  executions :: "execution list"
  audits :: "audit list"
  next_user :: nat
  next_event :: nat
  next_revision :: nat
  refs :: ext_refs

datatype ll_error =
    DemoError string nat
  | PyError py_error
  | DoesNotExist
  | IntegrityError
  | ProtectedError

text \<open>What the deployment fixes: the digest and formatting functions, the fact library, the password hasher and the demo password.\<close>

record config =
  env :: py_env
  lib :: facts_lib
  make_password :: "string \<Rightarrow> string"
  demo_password :: string

section \<open>Helpers of the services\<close>

definition revision_of :: "db \<Rightarrow> workflow \<Rightarrow> ll_error + revision" where
  "revision_of s w = of_option DoesNotExist (tfind rev_pk (wf_revision w) (revisions s))"

definition kind_of :: "revision \<Rightarrow> source_kind" where
  "kind_of r = source_kind_of (snapshot r) (source_snapshot r)"

definition package_hash :: "config \<Rightarrow> json \<Rightarrow> string" where
  "package_hash c p = sha256_hex (env c) (json_dumps (env c) p)"

definition add_audit :: "string option \<Rightarrow> string \<Rightarrow> string \<Rightarrow> string \<Rightarrow> dict \<Rightarrow> db \<Rightarrow> db" where
  "add_audit a action ttype tid details s =
     s\<lparr>audits := audits s @ [\<lparr>au_actor = a, au_action = action, target_type = ttype,
                              target_id = tid, au_details = details\<rparr>]\<rparr>"

definition save_workflow :: "workflow \<Rightarrow> db \<Rightarrow> db" where
  "save_workflow w s = s\<lparr>workflows := tput wf_pk w (workflows s)\<rparr>"

definition add_transition :: "uuid \<Rightarrow> string \<Rightarrow> wf_status option \<Rightarrow> wf_status \<Rightarrow> string \<Rightarrow> dict \<Rightarrow> db \<Rightarrow> db" where
  "add_transition wid a from to action details s =
     s\<lparr>transitions := transitions s @ [\<lparr>tr_workflow = wid, tr_actor = a, from_status = from,
                                        to_status = to, tr_action = action, tr_details = details\<rparr>]\<rparr>"

definition transition :: "workflow \<Rightarrow> actor \<Rightarrow> wf_status \<Rightarrow> string \<Rightarrow> dict \<Rightarrow> db \<Rightarrow> db" where
  "transition w a to action details s =
     add_audit (Some (slug a)) action ''workflow'' (wf_pk w) details
       (add_transition (wf_pk w) (slug a) (Some (status w)) to action details
         (save_workflow (w\<lparr>status := to\<rparr>) s))"

text \<open>The span that opens an operation stores the trace parent of a workflow that has none.\<close>

definition workflow_operation :: "string \<Rightarrow> workflow \<Rightarrow> workflow" where
  "workflow_operation tp w = (if traceparent w = [] \<and> tp \<noteq> [] then w\<lparr>traceparent := tp\<rparr> else w)"

section \<open>reset_demo\<close>

definition DEMO_USERS :: "(string \<times> string \<times> string) list" where
  "DEMO_USERS = [(''maya.operator'', ''Maya'', ''Chen''), (''jordan.approver'', ''Jordan'', ''Brooks'')]"

definition get_or_create_user :: "config \<Rightarrow> string \<times> string \<times> string \<Rightarrow> db \<Rightarrow> db" where
  "get_or_create_user c d s =
     (case d of (uname, first, last_n) \<Rightarrow>
        (case tfind username uname (users s) of
           Some _ \<Rightarrow> s
         | None \<Rightarrow>
             s\<lparr>users := users s @ [\<lparr>user_pk = next_user s, username = uname, first_name = first,
                                     last_name = last_n, password = make_password c (demo_password c)\<rparr>],
               next_user := Suc (next_user s)\<rparr>))"

definition seed_demo_users :: "config \<Rightarrow> db \<Rightarrow> db" where
  "seed_demo_users c s = fold (get_or_create_user c) DEMO_USERS s"

text \<open>\<open>DemoActor.objects.update_or_create(slug=.., defaults=..)\<close>; \<open>user\<close> is a one-to-one field.\<close>

definition upsert_actor :: "actor \<Rightarrow> db \<Rightarrow> ll_error + db" where
  "upsert_actor a s =
     (if list_ex (\<lambda>b. slug b \<noteq> slug a \<and> actor_user b = actor_user a \<and> actor_user a \<noteq> None) (actors s)
      then Inl IntegrityError
      else case tfind slug (slug a) (actors s) of
             None \<Rightarrow> Inr (s\<lparr>actors := actors s @ [a]\<rparr>)
           | Some _ \<Rightarrow> Inr (s\<lparr>actors := tput slug a (actors s)\<rparr>))"

definition user_id_of :: "string \<Rightarrow> db \<Rightarrow> nat option" where
  "user_id_of uname s = map_option user_pk (tfind username uname (users s))"

definition demo_event_ids :: "db \<Rightarrow> nat list" where
  "demo_event_ids s =
     map rev_event (filter (\<lambda>r. rev_author r \<in> {''maya'', ''jordan''} \<and> source_snapshot r = None) (revisions s))"

definition demo_workflow :: "db \<Rightarrow> workflow \<Rightarrow> bool" where
  "demo_workflow s w \<longleftrightarrow> wf_event w \<in> set (demo_event_ids s)"

definition delete_demo :: "db \<Rightarrow> ll_error + db" where
  "delete_demo s =
     (let ids = set (demo_event_ids s);
          gone_wf = map wf_pk (filter (demo_workflow s) (workflows s));
          gone_ap = map ap_pk (filter (\<lambda>a. ap_workflow a \<in> set gone_wf) (approvals s));
          gone_rev = map rev_pk (filter (\<lambda>r. rev_event r \<in> ids) (revisions s));
          left_wf = tdel (demo_workflow s) (workflows s)
      in if list_ex (\<lambda>w. w \<in> set (ext_workflows (refs s))) gone_wf then Inl ProtectedError
         else if list_ex (\<lambda>r. r \<in> set (ext_revisions (refs s)) \<or> r \<in> set (map wf_revision left_wf)) gone_rev
           then Inl ProtectedError
         else if list_ex (\<lambda>e. event_pk e \<in> ids \<and> event_pk e \<in> set (ext_events (refs s))) (events s)
           then Inl ProtectedError
         else Inr (s\<lparr>approvals := tdel (\<lambda>a. ap_workflow a \<in> set gone_wf) (approvals s),
                     executions := tdel (\<lambda>x. ex_approval x \<in> set gone_ap) (executions s),
                     transitions := tdel (\<lambda>t. tr_workflow t \<in> set gone_wf) (transitions s),
                     workflows := left_wf,
                     revisions := tdel (\<lambda>r. rev_event r \<in> ids) (revisions s),
                     events := tdel (\<lambda>e. event_pk e \<in> ids) (events s)\<rparr>))"

text \<open>\<open>Event\<close>, first \<open>EventRevision\<close> and \<open>Workflow\<close> of a new event.\<close>

definition create_event_workflow ::
  "uuid \<Rightarrow> string \<Rightarrow> string \<Rightarrow> dict \<Rightarrow> string \<Rightarrow> db \<Rightarrow> ll_error + db" where
  "create_event_workflow wid eslug title facts author s =
     (if tfind event_slug eslug (events s) \<noteq> None \<or> tfind event_pk (next_event s) (events s) \<noteq> None
         \<or> tfind rev_pk (next_revision s) (revisions s) \<noteq> None
         \<or> tfind wf_pk wid (workflows s) \<noteq> None \<or> tfind wf_event (next_event s) (workflows s) \<noteq> None
      then Inl IntegrityError
      else Inr (s\<lparr>events := events s @ [\<lparr>event_pk = next_event s, event_slug = eslug, event_title = title\<rparr>],
                  next_event := Suc (next_event s),
                  revisions := revisions s @ [\<lparr>rev_pk = next_revision s, rev_event = next_event s,
                     rev_version = 1, snapshot = facts, rev_author = author, source_snapshot = None\<rparr>],
                  next_revision := Suc (next_revision s),
                  workflows := workflows s @ [\<lparr>wf_pk = wid, wf_event = next_event s,
                     wf_revision = next_revision s, status = DRAFT, package = None, wf_hash = [],
                     traceparent = []\<rparr>]\<rparr>))"

definition revision_detail :: "nat \<Rightarrow> dict" where
  "revision_detail v = [(''revision'', JInt (int v))]"

definition reset_demo :: "config \<Rightarrow> uuid \<Rightarrow> db \<Rightarrow> ll_error + db" where
  "reset_demo c wid s0 =
     try_bind (delete_demo s0) (\<lambda>s1.
     let s2 = seed_demo_users c s1 in
     try_bind (upsert_actor \<lparr>slug = ''maya'', display_name = ''Maya Chen'', actor_role = OPERATOR,
                 actor_user = user_id_of ''maya.operator'' s2\<rparr> s2) (\<lambda>s3.
     try_bind (upsert_actor \<lparr>slug = ''jordan'', display_name = ''Jordan Brooks'', actor_role = APPROVER,
                 actor_user = user_id_of ''jordan.approver'' s2\<rparr> s3) (\<lambda>s4.
     try_bind (create_event_workflow wid ''ny-youth-day''
                 ''New York International Youth Day Networking Breakfast'' NEW_YORK_EVENT ''maya'' s4) (\<lambda>s5.
       Inr (add_audit (Some ''maya'') ''demo_reset'' ''workflow'' wid (revision_detail 1)
             (add_transition wid ''maya'' None DRAFT ''demo_reset'' (revision_detail 1) s5))))))"

section \<open>run_workflow\<close>

definition get_workflow :: "uuid \<Rightarrow> db \<Rightarrow> ll_error + workflow" where
  "get_workflow wid s = of_option DoesNotExist (tfind wf_pk wid (workflows s))"

definition lift_py :: "py_error + 'a \<Rightarrow> ll_error + 'a" where
  "lift_py m = (case m of Inl x \<Rightarrow> Inl (PyError x) | Inr v \<Rightarrow> Inr v)"

definition build_package :: "config \<Rightarrow> revision \<Rightarrow> ll_error + json" where
  "build_package c r =
     lift_py (if kind_of r = Synthetic then prepare_package (env c) (snapshot r)
              else prepare_owner_package (env c) (lib c) (snapshot r))"

definition run_commit :: "config \<Rightarrow> string \<Rightarrow> actor \<Rightarrow> workflow \<Rightarrow> revision \<Rightarrow> json \<Rightarrow> db \<Rightarrow> db" where
  "run_commit c tp a w r p s =
     (let w2 = (workflow_operation tp w)\<lparr>package := Some p, wf_hash := package_hash c p\<rparr>;
          destination = (if jfield p ''status'' = JStr ''ready_for_review'' then READY_FOR_REVIEW
                         else NEEDS_INPUT)
      in transition w2 a destination ''launchloop_ran''
           [(''revision'', JInt (int (rev_version r))), (''missing_fields'', jfield p ''missing_fields'')]
           (save_workflow w2 s))"

definition run_workflow :: "config \<Rightarrow> string \<Rightarrow> uuid \<Rightarrow> actor \<Rightarrow> db \<Rightarrow> ll_error + db" where
  "run_workflow c tp wid a s =
     try_bind (get_workflow wid s) (\<lambda>w.
     if actor_role a \<noteq> OPERATOR then Inl (DemoError ''operator_required'' 403)
     else if status w \<noteq> DRAFT then Inl (DemoError ''invalid_workflow_state'' 409)
     else try_bind (revision_of s w) (\<lambda>r.
          try_bind (build_package c r) (\<lambda>p. Inr (run_commit c tp a w r p s))))"

section \<open>answer_questions\<close>

definition REQUIRED_ANSWERS :: "string list" where
  "REQUIRED_ANSWERS = [''venue_name'', ''venue_address'', ''access_instructions'']"

definition answer_text :: "py_env \<Rightarrow> dict \<Rightarrow> string \<Rightarrow> string" where
  "answer_text e answers field = strip (py_str e (dget_default answers field (JStr [])))"

definition answered_fields :: "py_env \<Rightarrow> dict \<Rightarrow> dict" where
  "answered_fields e answers =
     map (\<lambda>f. (f, JStr (answer_text e answers f)))
       (filter (\<lambda>f. answer_text e answers f \<noteq> []) REQUIRED_ANSWERS)"

definition missing_answers :: "py_env \<Rightarrow> dict \<Rightarrow> string list" where
  "missing_answers e snap = filter (\<lambda>f. answer_text e snap f = []) REQUIRED_ANSWERS"

text \<open>\<open>EventRevision.objects.create\<close>: the pair of event and version is unique.\<close>

definition create_revision :: "revision \<Rightarrow> db \<Rightarrow> ll_error + db" where
  "create_revision r s =
     (if tfind rev_pk (rev_pk r) (revisions s) \<noteq> None
         \<or> list_ex (\<lambda>q. rev_event q = rev_event r \<and> rev_version q = rev_version r) (revisions s)
      then Inl IntegrityError
      else Inr (s\<lparr>revisions := revisions s @ [r], next_revision := Suc (next_revision s)\<rparr>))"

definition delete_approvals_of :: "uuid \<Rightarrow> db \<Rightarrow> db" where
  "delete_approvals_of wid s =
     (let gone = map ap_pk (filter (\<lambda>a. ap_workflow a = wid) (approvals s))
      in s\<lparr>approvals := tdel (\<lambda>a. ap_workflow a = wid) (approvals s),
           executions := tdel (\<lambda>x. ex_approval x \<in> set gone) (executions s)\<rparr>)"

definition answer_revision :: "config \<Rightarrow> actor \<Rightarrow> dict \<Rightarrow> workflow \<Rightarrow> revision \<Rightarrow> db \<Rightarrow> revision" where
  "answer_revision c a answers w r s =
     \<lparr>rev_pk = next_revision s, rev_event = wf_event w, rev_version = rev_version r + 1,
      snapshot = dict_update (snapshot r) (answered_fields (env c) answers), rev_author = slug a,
      source_snapshot = None\<rparr>"

text \<open>The writes after the new revision exists: the workflow row, the approval requests, the transition.\<close>

definition answer_commit :: "config \<Rightarrow> string \<Rightarrow> actor \<Rightarrow> dict \<Rightarrow> workflow \<Rightarrow> revision \<Rightarrow> db \<Rightarrow> db" where
  "answer_commit c tp a answers w r' s1 =
     (let missing = missing_answers (env c) (snapshot r');
          w2 = (workflow_operation tp w)\<lparr>wf_revision := rev_pk r', package := None, wf_hash := []\<rparr>;
          s2 = delete_approvals_of (wf_pk w) (save_workflow w2 s1)
      in transition w2 a (if missing \<noteq> [] then NEEDS_INPUT else DRAFT)
           (if missing \<noteq> [] then ''event_facts_saved'' else ''event_facts_resolved'')
           [(''revision'', JInt (int (rev_version r'))),
            (''fields'', JList (map (\<lambda>kv. JStr (fst kv)) (answered_fields (env c) answers))),
            (''missing_fields'', JList (map JStr missing))] s2)"

definition answer_questions :: "config \<Rightarrow> string \<Rightarrow> uuid \<Rightarrow> actor \<Rightarrow> dict \<Rightarrow> db \<Rightarrow> ll_error + db" where
  "answer_questions c tp wid a answers s =
     try_bind (get_workflow wid s) (\<lambda>w.
     try_bind (revision_of s w) (\<lambda>r.
     if kind_of r \<noteq> Synthetic then Inl (DemoError ''synthetic_only'' 403)
     else if actor_role a \<noteq> OPERATOR then Inl (DemoError ''operator_required'' 403)
     else if status w \<noteq> NEEDS_INPUT then Inl (DemoError ''invalid_workflow_state'' 409)
     else if answered_fields (env c) answers = [] then Inl (DemoError ''answers_incomplete'' 400)
     else try_bind (create_revision (answer_revision c a answers w r s) s) (\<lambda>s1.
       Inr (answer_commit c tp a answers w (answer_revision c a answers w r s) s1))))"

section \<open>submit_workflow\<close>

definition create_approval :: "approval \<Rightarrow> db \<Rightarrow> ll_error + db" where
  "create_approval ap s =
     (if tfind ap_pk (ap_pk ap) (approvals s) \<noteq> None \<or> tfind ap_workflow (ap_workflow ap) (approvals s) \<noteq> None
      then Inl IntegrityError
      else Inr (s\<lparr>approvals := approvals s @ [ap]\<rparr>))"

definition new_request :: "uuid \<Rightarrow> actor \<Rightarrow> workflow \<Rightarrow> approval" where
  "new_request apid a w =
     \<lparr>ap_pk = apid, ap_workflow = wf_pk w, submitter = slug a, approver = None, ap_hash = wf_hash w,
      ap_status = AP_PENDING, reason = [], decided_at = None\<rparr>"

definition submit_workflow :: "string \<Rightarrow> uuid \<Rightarrow> uuid \<Rightarrow> actor \<Rightarrow> db \<Rightarrow> ll_error + db" where
  "submit_workflow tp apid wid a s =
     try_bind (get_workflow wid s) (\<lambda>w.
     if actor_role a \<noteq> OPERATOR then Inl (DemoError ''operator_required'' 403)
     else try_bind (revision_of s w) (\<lambda>r.
     if kind_of r \<noteq> Synthetic then Inl (DemoError ''synthetic_only'' 403)
     else if status w \<noteq> READY_FOR_REVIEW \<or> wf_hash w = [] then Inl (DemoError ''invalid_workflow_state'' 409)
     else try_bind (create_approval (new_request apid a w) (save_workflow (workflow_operation tp w) s)) (\<lambda>s1.
         Inr (transition (workflow_operation tp w) a IN_REVIEW ''package_submitted''
               [(''package_hash'', JStr (wf_hash w))] s1))))"

section \<open>decide_approval\<close>

datatype decision = Approve | Reject | OtherDecision

text \<open>\<open>int((package or {}).get("audience", {}).get("member_count", 0))\<close>.\<close>

fun as_int :: "json \<Rightarrow> py_error + int" where
  "as_int (JInt i) = Inr i"
| "as_int (JBool b) = Inr (if b then 1 else 0)"
| "as_int (JFloat r) = Inr (if 0 \<le> r then \<lfloor>r\<rfloor> else \<lceil>r\<rceil>)"
| "as_int (JStr s) = (case digits_value 0 (strip s) of
      Some n \<Rightarrow> if strip s = [] then Inl (ValueError ''invalid literal for int()'') else Inr (int n)
    | None \<Rightarrow> Inl (ValueError ''invalid literal for int()''))"
| "as_int _ = Inl TypeError"

definition get_of :: "json \<Rightarrow> string \<Rightarrow> json \<Rightarrow> py_error + json" where
  "get_of v k v0 = (case v of JObj d \<Rightarrow> Inr (dget_default d k v0) | _ \<Rightarrow> Inl AttributeError)"

definition audience_count :: "json option \<Rightarrow> py_error + int" where
  "audience_count pkg =
     (let p = (case pkg of None \<Rightarrow> JObj [] | Some v \<Rightarrow> py_or v (JObj []))
      in try_bind (get_of p ''audience'' (JObj [])) (\<lambda>aud.
         try_bind (get_of aud ''member_count'' (JInt 0)) as_int))"

definition sandbox_receipt :: "int \<Rightarrow> json" where
  "sandbox_receipt n =
     JObj [(''connector'', JStr ''sandbox_iterable''),
           (''campaign'', JStr ''New York Youth Day invitation and reminder''),
           (''audience_count'', JInt n), (''mode'', JStr ''simulation''), (''external_actions'', JInt 0),
           (''message'', JStr ''Sandbox delivery recorded. No email or social post was sent.'')]"

definition create_execution :: "execution \<Rightarrow> db \<Rightarrow> ll_error + db" where
  "create_execution x s =
     (if tfind ex_pk (ex_pk x) (executions s) \<noteq> None \<or> tfind ex_approval (ex_approval x) (executions s) \<noteq> None
         \<or> tfind idempotency_key (idempotency_key x) (executions s) \<noteq> None
      then Inl IntegrityError
      else Inr (s\<lparr>executions := executions s @ [x]\<rparr>))"

definition save_approval :: "approval \<Rightarrow> db \<Rightarrow> db" where
  "save_approval ap s = s\<lparr>approvals := tput ap_pk ap (approvals s)\<rparr>"

definition decided_request :: "int \<Rightarrow> actor \<Rightarrow> string \<Rightarrow> ap_status \<Rightarrow> approval \<Rightarrow> approval" where
  "decided_request now a why st ap =
     ap\<lparr>approver := Some (slug a), reason := why, decided_at := Some now, ap_status := st\<rparr>"

definition reject_commit :: "string \<Rightarrow> int \<Rightarrow> actor \<Rightarrow> string \<Rightarrow> approval \<Rightarrow> workflow \<Rightarrow> db \<Rightarrow> db" where
  "reject_commit tp now a why ap w s =
     (let w2 = (workflow_operation tp w)\<lparr>package := None, wf_hash := []\<rparr>
      in transition w2 a NEEDS_INPUT ''package_rejected'' [(''reason'', JStr why)]
           (save_workflow w2 (save_approval (decided_request now a why AP_REJECTED ap) s)))"

definition approve_commit ::
  "string \<Rightarrow> int \<Rightarrow> uuid \<Rightarrow> actor \<Rightarrow> string \<Rightarrow> approval \<Rightarrow> workflow \<Rightarrow> db \<Rightarrow> ll_error + db" where
  "approve_commit tp now exid a why ap w s =
     (let w1 = workflow_operation tp w;
          s1 = transition w1 a APPROVED ''package_approved'' [(''package_hash'', JStr (ap_hash ap))]
                 (save_approval (decided_request now a why AP_APPROVED ap) s);
          w2 = w1\<lparr>status := APPROVED\<rparr>
      in try_bind (lift_py (audience_count (package w2))) (\<lambda>n.
         try_bind (create_execution \<lparr>ex_pk = exid, ex_approval = ap_pk ap,
                     idempotency_key = ''launchloop:'' @ ap_hash ap, receipt = sandbox_receipt n\<rparr> s1) (\<lambda>s2.
           Inr (transition w2 a COMPLETED ''sandbox_receipt_recorded''
                 [(''connector'', JStr ''sandbox_iterable''), (''audience_count'', JInt n)] s2))))"

definition decide_approval ::
  "string \<Rightarrow> int \<Rightarrow> uuid \<Rightarrow> uuid \<Rightarrow> actor \<Rightarrow> decision \<Rightarrow> string \<Rightarrow> string \<Rightarrow> db \<Rightarrow> ll_error + db" where
  "decide_approval tp now exid apid a dec submitted_hash why s =
     (case tfind ap_pk apid (approvals s) of
        None \<Rightarrow> Inl (DemoError ''approval_not_found'' 404)
      | Some ap \<Rightarrow>
        try_bind (get_workflow (ap_workflow ap) s) (\<lambda>w.
        try_bind (revision_of s w) (\<lambda>r.
        if kind_of r \<noteq> Synthetic then Inl (DemoError ''synthetic_only'' 403)
        else if slug a = submitter ap then Inl (DemoError ''self_approval_forbidden'' 403)
        else if actor_role a \<noteq> APPROVER then Inl (DemoError ''approver_required'' 403)
        else if ap_status ap \<noteq> AP_PENDING then Inl (DemoError ''approval_already_decided'' 409)
        else if submitted_hash \<noteq> ap_hash ap then Inl (DemoError ''package_hash_mismatch'' 409)
        else if dec = OtherDecision then Inl (DemoError ''invalid_decision'' 400)
        else if dec = Reject then Inr (reject_commit tp now a why ap w s)
        else approve_commit tp now exid a why ap w s)))"

section \<open>The owner's event editor\<close>

definition facts_revision :: "actor \<Rightarrow> (string \<times> string) list \<Rightarrow> workflow \<Rightarrow> revision \<Rightarrow> db \<Rightarrow> revision" where
  "facts_revision a changes w r s =
     \<lparr>rev_pk = next_revision s, rev_event = wf_event w, rev_version = rev_version r + 1,
      snapshot = dict_update (snapshot r) (facts_dict changes), rev_author = slug a,
      source_snapshot = source_snapshot r\<rparr>"

definition facts_commit :: "config \<Rightarrow> actor \<Rightarrow> workflow \<Rightarrow> revision \<Rightarrow> json \<Rightarrow> db \<Rightarrow> db" where
  "facts_commit c a w r' title s1 =
     (let w2 = w\<lparr>wf_revision := rev_pk r', status := DRAFT, package := None, wf_hash := []\<rparr>
      in add_transition (wf_pk w) (slug a) (Some (status w)) DRAFT ''owner_event_facts_saved''
           (revision_detail (rev_version r'))
           (save_workflow w2 (s1\<lparr>events := map (\<lambda>ev. if event_pk ev = wf_event w
               then ev\<lparr>event_title := py_str (env c) title\<rparr> else ev) (events s1)\<rparr>)))"

text \<open>\<open>busy\<close>: an agent run of the workflow is queued or running.\<close>

definition update_event_facts :: "config \<Rightarrow> bool \<Rightarrow> uuid \<Rightarrow> json \<Rightarrow> actor \<Rightarrow> db \<Rightarrow> ll_error + db" where
  "update_event_facts c busy wid body a s =
     try_bind (get_workflow wid s) (\<lambda>w.
     try_bind (revision_of s w) (\<lambda>r.
     if kind_of r \<noteq> Manual \<and> kind_of r \<noteq> Eventbrite then Inl (PyError (ValueError ''owner_event_required''))
     else if rev_author r \<noteq> slug a \<or> actor_role a \<noteq> OPERATOR then Inl (PyError (ValueError ''event_owner_required''))
     else if busy then Inl (PyError (ValueError ''review_in_progress''))
     else if status w \<notin> {DRAFT, NEEDS_INPUT, READY_FOR_REVIEW} then Inl (PyError (ValueError ''review_in_progress''))
     else try_bind (lift_py (validate_facts (lib c) body)) (\<lambda>changes.
       if changes = [] then Inl (PyError invalid_event_facts)
       else try_bind (create_revision (facts_revision a changes w r s) s) (\<lambda>s1.
            try_bind (lift_py (dindex (snapshot (facts_revision a changes w r s)) ''title'')) (\<lambda>title.
              Inr (facts_commit c a w (facts_revision a changes w r s) title s1))))))"

definition start_manual_event :: "config \<Rightarrow> string \<Rightarrow> uuid \<Rightarrow> json \<Rightarrow> actor \<Rightarrow> db \<Rightarrow> ll_error + db" where
  "start_manual_event c hex20 wid body a s =
     try_bind (lift_py (validate_facts (lib c) body)) (\<lambda>facts0.
     let facts = dict_update (map (\<lambda>k. (k, JStr [])) FACT_FIELDS) (facts_dict facts0) in
     if \<not> list_all (\<lambda>k. truthy (dget facts k)) [''title'', ''date'', ''timezone'']
     then Inl (PyError (ValueError ''invalid_event_brief''))
     else
       let facts' = facts @ [(''owner_event'', JBool True)] in
       try_bind (create_event_workflow wid (''manual-'' @ hex20) (py_str (env c) (dget facts ''title'')) facts' (slug a) s) (\<lambda>s1.
         Inr (add_transition wid (slug a) None DRAFT ''manual_event_started'' (revision_detail 1) s1)))"

end
