(* ===== verification/Draft_Models.thy ===== *)
theory Draft_Models
  imports Iterable_Drafts Workflow
begin

text \<open>
  The tables of the draft operations.  \<open>backend/integrations/models.py\<close>: \<open>DraftExecution\<close> and
  \<open>TemplateExecution\<close>, two tables with the same columns, the same check constraints and the same guarded
  \<open>save\<close>; \<open>backend/agents/models.py\<close>: the broker's intent, its proposal and capability, the agent run with
  its binding and control; \<open>backend/identity/models.py\<close>: the owner's profile and session.

  The contract of a guarded \<open>save\<close> is the locale \<open>guarded_save\<close>, interpreted on both tables.
\<close>

section \<open>Execution records\<close>

datatype dx_status = DX_PENDING | DX_APPROVED | DX_EXECUTING | DX_SUCCEEDED | DX_FAILED | DX_UNKNOWN

record draft_execution =
  dx_pk :: uuid
  dx_intent :: uuid
  dx_run :: uuid
  dx_submitter :: nat
  dx_approver :: "nat option"
  dx_action :: string
  dx_organization :: string
  dx_event :: string
  dx_expected :: string
  dx_configuration :: json
  dx_payload :: json
  dx_request :: string
  dx_review :: string
  dx_status :: dx_status
  dx_receipt :: "draft_receipt option"
  dx_provider :: string
  dx_error :: string
  dx_approved_at :: "int option"
  dx_session :: "uuid option"
  dx_claimed_at :: "int option"
  dx_completed_at :: "int option"

type_synonym template_execution = draft_execution

text \<open>The check constraints \<open>.._action\<close>, \<open>.._approval_required\<close> and \<open>.._execution_lifecycle\<close>.\<close>

definition approval_required :: "draft_execution \<Rightarrow> bool" where
  "approval_required x \<longleftrightarrow>
     (if dx_status x = DX_PENDING
      then dx_approver x = None \<and> dx_session x = None \<and> dx_approved_at x = None \<and> dx_claimed_at x = None
      else dx_approver x \<noteq> None \<and> dx_approved_at x \<noteq> None \<and> dx_session x \<noteq> None)"

definition execution_lifecycle :: "draft_execution \<Rightarrow> bool" where
  "execution_lifecycle x =
     (case dx_status x of
        DX_PENDING \<Rightarrow> dx_claimed_at x = None \<and> dx_completed_at x = None \<and> dx_receipt x = None \<and> dx_provider x = [] \<and> dx_error x = []
      | DX_APPROVED \<Rightarrow> dx_claimed_at x = None \<and> dx_completed_at x = None \<and> dx_receipt x = None \<and> dx_provider x = [] \<and> dx_error x = []
      | DX_EXECUTING \<Rightarrow> dx_claimed_at x \<noteq> None \<and> dx_completed_at x = None \<and> dx_receipt x = None \<and> dx_error x = []
      | DX_UNKNOWN \<Rightarrow> dx_claimed_at x \<noteq> None \<and> dx_completed_at x \<noteq> None
      | DX_FAILED \<Rightarrow> dx_claimed_at x \<noteq> None \<and> dx_completed_at x \<noteq> None
      | DX_SUCCEEDED \<Rightarrow> dx_claimed_at x \<noteq> None \<and> dx_completed_at x \<noteq> None \<and> dx_receipt x \<noteq> None \<and> dx_provider x \<noteq> [])"

definition constraints_ok :: "draft_execution \<Rightarrow> bool" where
  "constraints_ok x \<longleftrightarrow> dx_action x \<in> {''create'', ''update''} \<and> approval_required x \<and> execution_lifecycle x"

text \<open>The columns that \<open>save\<close> compares with the stored row.\<close>

definition review_fields :: "draft_execution \<Rightarrow> uuid \<times> uuid \<times> nat \<times> string \<times> string \<times> string \<times> string \<times> json \<times> json \<times> string \<times> string" where
  "review_fields x = (dx_intent x, dx_run x, dx_submitter x, dx_action x, dx_organization x, dx_event x, dx_expected x,
     dx_payload x, dx_configuration x, dx_request x, dx_review x)"

definition approval_fields :: "draft_execution \<Rightarrow> nat option \<times> int option \<times> uuid option" where
  "approval_fields x = (dx_approver x, dx_approved_at x, dx_session x)"

fun next_statuses :: "dx_status \<Rightarrow> dx_status set" where
  "next_statuses DX_PENDING = {DX_PENDING, DX_APPROVED}"
| "next_statuses DX_APPROVED = {DX_APPROVED, DX_EXECUTING}"
| "next_statuses DX_EXECUTING = {DX_EXECUTING, DX_UNKNOWN, DX_FAILED, DX_SUCCEEDED}"
| "next_statuses DX_UNKNOWN = {DX_UNKNOWN, DX_SUCCEEDED}"
| "next_statuses DX_FAILED = {DX_FAILED}"
| "next_statuses DX_SUCCEEDED = {DX_SUCCEEDED}"

definition may_become :: "draft_execution \<Rightarrow> draft_execution \<Rightarrow> bool" where
  "may_become old x \<longleftrightarrow> review_fields x = review_fields old
     \<and> (dx_approver old \<noteq> None \<longrightarrow> approval_fields x = approval_fields old)
     \<and> dx_status x \<in> next_statuses (dx_status old)
     \<and> (dx_claimed_at old \<noteq> None \<longrightarrow> dx_claimed_at x = dx_claimed_at old)
     \<and> (dx_completed_at old \<noteq> None \<longrightarrow> dx_completed_at x \<noteq> None)"

text \<open>What the two tables raise: the guard's \<open>ValidationError\<close>, or the database's \<open>IntegrityError\<close>.\<close>

datatype table_error = ValidationError | RowIntegrity

text \<open>
  \<open>save\<close> of a row: the guard against the stored row with that key, then the write, which the database
  refuses when a check constraint fails or another row has the same intent (a one-to-one column).
\<close>

definition save_execution :: "draft_execution \<Rightarrow> draft_execution list \<Rightarrow> table_error + draft_execution list" where
  "save_execution x t =
     (case tfind dx_pk (dx_pk x) t of
        Some old \<Rightarrow>
          if \<not> may_become old x then Inl ValidationError
          else if \<not> constraints_ok x then Inl RowIntegrity
          else Inr (tput dx_pk x t)
      | None \<Rightarrow>
          if \<not> constraints_ok x \<or> dx_intent x \<in> set (map dx_intent t) then Inl RowIntegrity
          else Inr (t @ [x]))"

text \<open>\<open>TemplateExecution\<close> repeats the constraints and the guarded \<open>save\<close> of \<open>DraftExecution\<close> word for word.\<close>

abbreviation template_constraints_ok :: "template_execution \<Rightarrow> bool" where
  "template_constraints_ok \<equiv> constraints_ok"

abbreviation save_template :: "template_execution \<Rightarrow> template_execution list \<Rightarrow> table_error + template_execution list" where
  "save_template \<equiv> save_execution"

section \<open>The contract of a guarded table\<close>

text \<open>How far a row may have come since: the reflexive and transitive closure of the permitted changes.\<close>

fun status_le :: "dx_status \<Rightarrow> dx_status \<Rightarrow> bool" where
  "status_le DX_PENDING _ = True"
| "status_le DX_APPROVED t = (t \<noteq> DX_PENDING)"
| "status_le DX_EXECUTING t = (t \<notin> {DX_PENDING, DX_APPROVED})"
| "status_le DX_UNKNOWN t = (t \<in> {DX_UNKNOWN, DX_SUCCEEDED})"
| "status_le s t = (t = s)"

definition later :: "draft_execution \<Rightarrow> draft_execution \<Rightarrow> bool" where
  "later old x \<longleftrightarrow> review_fields x = review_fields old
     \<and> (dx_approver old \<noteq> None \<longrightarrow> approval_fields x = approval_fields old)
     \<and> status_le (dx_status old) (dx_status x)
     \<and> (dx_claimed_at old \<noteq> None \<longrightarrow> dx_claimed_at x = dx_claimed_at old)
     \<and> (dx_completed_at old \<noteq> None \<longrightarrow> dx_completed_at x \<noteq> None)"

lemma status_le_refl: "status_le s s"
  by (cases s) auto

lemma status_le_trans: "status_le a b \<Longrightarrow> status_le b c \<Longrightarrow> status_le a c"
  by (cases a; cases b; cases c) auto

lemma status_le_next: "t \<in> next_statuses s \<Longrightarrow> status_le s t"
  by (cases s) auto

lemma later_refl: "later x x"
  by (simp add: later_def status_le_refl)

lemma later_trans: "later x y \<Longrightarrow> later y z \<Longrightarrow> later x z"
  by (auto simp: later_def approval_fields_def intro: status_le_trans)

lemma later_may: "may_become old x \<Longrightarrow> later old x"
  by (auto simp: may_become_def later_def intro: status_le_next)

locale guarded_save =
  fixes pk :: "'r \<Rightarrow> 'k"
    and well :: "'r \<Rightarrow> bool"
    and since :: "'r \<Rightarrow> 'r \<Rightarrow> bool"
    and store :: "'r \<Rightarrow> 'r list \<Rightarrow> 'e + 'r list"
  assumes store_new: "tfind pk (pk r) t = None \<Longrightarrow> store r t = Inr t' \<Longrightarrow> well r \<and> t' = t @ [r]"
    and store_old: "tfind pk (pk r) t = Some old \<Longrightarrow> store r t = Inr t' \<Longrightarrow> well r \<and> since old r \<and> t' = tput pk r t"
    and since_refl: "since r r"
    and since_trans: "since x y \<Longrightarrow> since y z \<Longrightarrow> since x z"
begin

lemma store_cases:
  assumes "store r t = Inr t'"
  obtains "tfind pk (pk r) t = None" and "well r" and "t' = t @ [r]"
  | old where "tfind pk (pk r) t = Some old" and "well r" and "since old r" and "t' = tput pk r t"
  using assms store_new store_old by (cases "tfind pk (pk r) t") blast+

lemma store_well:
  assumes "store r t = Inr t'" and "\<forall>x \<in> set t. well x"
  shows "\<forall>x \<in> set t'. well x"
  using assms(1) by (rule store_cases) (use assms(2) in \<open>auto dest: in_tput\<close>)

lemma store_keys:
  assumes "store r t = Inr t'" and "keys_ok pk t"
  shows "keys_ok pk t'"
  using assms(1) by (rule store_cases) (use assms(2) in \<open>auto intro: keys_ok_append_new\<close>)

lemma stored:
  assumes "store r t = Inr t'"
  shows "tfind pk (pk r) t' = Some r"
  using assms by (rule store_cases) (simp_all add: tfind_tput tfind_append)

lemma store_other:
  assumes "store r t = Inr t'" and "k \<noteq> pk r"
  shows "tfind pk k t' = tfind pk k t"
  using assms(1) by (rule store_cases) (use assms(2) in \<open>simp_all add: tfind_tput tfind_append split: option.split\<close>)

lemma store_since:
  assumes "store r t = Inr t'" and "tfind pk k t = Some old"
  shows "\<exists>x. tfind pk k t' = Some x \<and> since old x"
proof (cases "k = pk r")
  case True
  from assms(1) show ?thesis
    by (rule store_cases) (use assms True in \<open>auto simp: tfind_tput\<close>)
next
  case False
  then show ?thesis using store_other [OF assms(1)] assms(2) since_refl by simp
qed

lemma history_since:
  assumes "(\<lambda>t t'. \<exists>r. store r t = Inr t')\<^sup>*\<^sup>* t t'" and "tfind pk k t = Some old"
  shows "\<exists>x. tfind pk k t' = Some x \<and> since old x"
  using assms
proof (induction rule: rtranclp_induct)
  case base
  then show ?case using since_refl by blast
next
  case (step y z)
  then obtain x r where x: "tfind pk k y = Some x" "since old x" and r: "store r y = Inr z" by blast
  from store_since [OF r x(1)] x(2) show ?case by (blast intro: since_trans)
qed

end

interpretation execution_table: guarded_save dx_pk constraints_ok later save_execution
proof
  show "later x x" for x by (rule later_refl)
  show "later x y \<Longrightarrow> later y z \<Longrightarrow> later x z" for x y z by (rule later_trans)
qed (auto simp: save_execution_def later_may split: if_splits)

section \<open>The broker's intent, the run and the owner's session\<close>

record submission =
  sub_pk :: uuid
  sub_capability :: uuid
  sub_kind :: string
  sub_content :: json
  sub_digest :: string

record capability =
  cap_pk :: uuid
  cap_revision_digest :: string
  cap_workflow :: uuid
  cap_revision :: nat
  cap_actor :: string
  cap_tools :: "string list"
  cap_audience :: string
  cap_correlation :: "uuid option"
  cap_token :: string
  cap_issued :: int
  cap_expires :: int
  cap_revoked :: "int option"

record invocation =
  iv_capability :: uuid
  iv_request :: string
  iv_idempotency :: string
  iv_arguments :: string
  iv_tool :: string
  iv_result :: json

record draft_operation =
  in_pk :: uuid
  in_workflow :: uuid
  in_revision :: nat
  in_actor :: string
  in_proposal :: uuid
  in_provider :: string
  in_kind :: string
  in_action_digest :: string
  in_idempotency :: string
  in_status :: string
  in_approval :: "uuid option"
  in_receipt :: "json option"

datatype run_status = RUN_QUEUED | RUN_RUNNING | RUN_SUCCEEDED | RUN_FAILED | RUN_CANCELLED

datatype privacy_mode = SYNTHETIC_FULL | PILOT_MINIMIZED | PRIVACY_DISABLED

datatype failure_category = F_BUDGET | F_CANCELLED | F_DEPENDENCY | F_INVALID | F_PROVIDER | F_TIMEOUT

text \<open>
  The blank failure category is \<open>None\<close>; the profile and the policy are primary keys of the budget's
  tables.  The timestamps that the database fills in itself are not modelled.
\<close>

record agent_run =
  run_pk :: uuid
  run_workflow :: uuid
  run_revision :: nat
  run_hash :: string
  hermes_lane :: bool
  run_policy :: nat
  run_profile :: nat
  fixture_id :: "string option"
  fixture_revision :: "nat option"
  fixture_digest :: "string option"
  run_privacy :: privacy_mode
  run_status :: run_status
  run_attempt :: nat
  started_at :: "int option"
  finished_at :: "int option"
  run_failure :: "failure_category option"
  trace_id :: string
  span_count :: nat
  run_input :: int
  run_output :: int
  run_cost :: int

record run_binding =
  bd_run :: uuid
  bd_actor :: string
  bd_session :: "uuid option"
  bd_correlation :: uuid
  bd_revision_digest :: string

record run_control =
  ct_run :: uuid
  ct_cancel :: "int option"
  ct_capability :: "uuid option"
  ct_lease :: "int option"
  ct_disabled :: bool
  ct_traceparent :: string

record admin_profile =
  pf_pk :: uuid
  pf_user :: nat
  pf_status :: string

record admin_session =
  se_pk :: uuid
  se_profile :: uuid
  se_mfa :: "int option"
  se_absolute_expires :: "int option"
  se_expires :: "int option"
  se_revoked :: "int option"
  se_restricted :: bool

record connection =
  cn_provider :: string
  cn_state :: string
  cn_secret_active :: "bool option"
  cn_configuration :: dict

record draft_db =
  base :: db
  active_users :: "nat list"
  submissions :: "submission list"
  capabilities :: "capability list"
  invocations :: "invocation list"
  intents :: "draft_operation list"
  agent_runs :: "agent_run list"
  bindings :: "run_binding list"
  controls :: "run_control list"
  profiles :: "admin_profile list"
  sessions :: "admin_session list"
  connections :: "connection list"
  drafts :: "draft_execution list"
  templates :: "template_execution list"
  eventbrite_enabled :: bool
  iterable_enabled :: bool

end
