(* ===== verification/Draft_Ops.thy ===== *)
theory Draft_Ops
  imports Draft_Models
begin

text \<open>
  \<open>backend/integrations/draft_operations.py\<close>: submission, owner approval, dispatch and reconciliation of
  provider drafts.  A request user is its primary key (\<open>None\<close> is an anonymous one); whether it is active
  is read from the user table.  \<open>execute_draft\<close> and \<open>_execute_iterable\<close> are three steps, because other
  requests can run between them: the committed claim, the dispatch to the provider, and what is stored
  when it returns or raises.
\<close>

section \<open>Errors and lookups\<close>

datatype op_error =
    PermissionDenied
  | OpMissing
  | OpNoTemplate
  | OpTool tool_error
  | OpDraft draft_error
  | OpIterable it_error
  | OpPy py_error
  | OpTable table_error
  | InvalidReceipt

fun lift_tool :: "tool_error + 'a \<Rightarrow> op_error + 'a" where
  "lift_tool (Inl x) = Inl (OpTool x)" | "lift_tool (Inr v) = Inr v"

fun lift_draft :: "draft_error + 'a \<Rightarrow> op_error + 'a" where
  "lift_draft (Inl x) = Inl (OpDraft x)" | "lift_draft (Inr v) = Inr v"

fun lift_iterable :: "it_error + 'a \<Rightarrow> op_error + 'a" where
  "lift_iterable (Inl x) = Inl (OpIterable x)" | "lift_iterable (Inr v) = Inr v"

fun lift_author :: "author_error + 'a \<Rightarrow> op_error + 'a" where
  "lift_author (Inl (AuthorDraft x)) = Inl (OpIterable x)"
| "lift_author (Inl (AuthorPy p)) = Inl (OpPy p)"
| "lift_author (Inr v) = Inr v"

fun lift_table :: "table_error + 'a \<Rightarrow> op_error + 'a" where
  "lift_table (Inl x) = Inl (OpTable x)" | "lift_table (Inr v) = Inr v"

definition demand :: "bool \<Rightarrow> op_error + unit" where
  "demand b = (if b then Inr () else Inl PermissionDenied)"

definition actor_of :: "draft_db \<Rightarrow> nat option \<Rightarrow> role \<Rightarrow> op_error + actor" where
  "actor_of s user r =
     (case user of
        None \<Rightarrow> Inl PermissionDenied
      | Some u \<Rightarrow>
          if u \<notin> set (active_users s) then Inl PermissionDenied
          else of_option PermissionDenied (find (\<lambda>a. actor_user a = Some u \<and> actor_role a = r) (actors (base s))))"

definition session_live :: "draft_db \<Rightarrow> int \<Rightarrow> nat \<Rightarrow> admin_session \<Rightarrow> bool" where
  "session_live s now u se \<longleftrightarrow>
     (case tfind pf_pk (se_profile se) (profiles s) of
        None \<Rightarrow> False
      | Some p \<Rightarrow> pf_user p = u \<and> pf_status p = ''active'' \<and> pf_user p \<in> set (active_users s))
     \<and> \<not> se_restricted se \<and> se_revoked se = None
     \<and> (case se_expires se of None \<Rightarrow> False | Some t \<Rightarrow> t > now)
     \<and> (case se_absolute_expires se of None \<Rightarrow> False | Some t \<Rightarrow> t > now)
     \<and> se_mfa se \<noteq> None"

definition session_of :: "draft_db \<Rightarrow> int \<Rightarrow> nat option \<Rightarrow> uuid \<Rightarrow> op_error + admin_session" where
  "session_of s now user sid =
     (case user of
        None \<Rightarrow> Inl PermissionDenied
      | Some u \<Rightarrow>
          if u \<notin> set (active_users s) then Inl PermissionDenied
          else of_option PermissionDenied (find (\<lambda>se. se_pk se = sid \<and> session_live s now u se) (sessions s)))"

definition reference_of :: "draft_db \<Rightarrow> string \<Rightarrow> op_error + connection" where
  "reference_of s provider =
     try_bind (of_option OpMissing (tfind cn_provider provider (connections s))) (\<lambda>c.
     try_bind (demand (cn_state c = ''healthy'' \<and> cn_secret_active c = Some True)) (\<lambda>_. Inr c))"

definition workflow_of :: "draft_db \<Rightarrow> draft_operation \<Rightarrow> op_error + workflow" where
  "workflow_of s i = of_option OpMissing (tfind wf_pk (in_workflow i) (workflows (base s)))"

definition intent_of :: "draft_db \<Rightarrow> uuid \<Rightarrow> op_error + draft_operation" where
  "intent_of s pk = of_option OpMissing (tfind in_pk pk (intents s))"

definition run_of :: "draft_db \<Rightarrow> uuid \<Rightarrow> op_error + agent_run" where
  "run_of s pk = of_option OpMissing (tfind run_pk pk (agent_runs s))"

section \<open>The accepted intent\<close>

definition action_value :: "workflow \<Rightarrow> string \<Rightarrow> draft_operation \<Rightarrow> submission \<Rightarrow> json" where
  "action_value w rd i sub = JObj
     [(''workflow_id'', JStr (wf_pk w)), (''revision_id'', JInt (int (in_revision i))), (''revision_digest'', JStr rd),
      (''provider'', JStr (in_provider i)), (''operation_kind'', JStr (in_kind i)), (''proposal_digest'', JStr (sub_digest sub))]"

definition idempotency_value :: "workflow \<Rightarrow> draft_operation \<Rightarrow> string \<Rightarrow> json" where
  "idempotency_value w i action = JList
     [JStr (wf_pk w), JInt (int (in_revision i)), JStr (in_actor i), JStr (in_kind i), JStr action]"

definition PROVIDER_KINDS :: "(string \<times> string) list" where
  "PROVIDER_KINDS = [(''eventbrite'', ''create_eventbrite_draft''), (''iterable'', ''create_iterable_email_draft''),
     (''iterable'', ''create_iterable_reminder_draft'')]"

text \<open>The conjuncts of the long test, in its order: the run, its binding, its control, the capability and the intent.\<close>

definition run_current :: "workflow \<Rightarrow> agent_run \<Rightarrow> bool" where
  "run_current w run \<longleftrightarrow> run_status run = RUN_SUCCEEDED \<and> hermes_lane run \<and> run_workflow run = wf_pk w
     \<and> run_revision run = wf_revision w \<and> run_hash run = wf_hash w"

definition binding_current :: "draft_operation \<Rightarrow> string \<Rightarrow> run_binding \<Rightarrow> bool" where
  "binding_current i rd b \<longleftrightarrow> bd_actor b = in_actor i \<and> bd_revision_digest b = rd"

definition capability_current :: "workflow \<Rightarrow> draft_operation \<Rightarrow> string \<Rightarrow> run_binding \<Rightarrow> run_control \<Rightarrow> capability \<Rightarrow> bool" where
  "capability_current w i rd b ct cap \<longleftrightarrow> ct_capability ct = Some (cap_pk cap) \<and> cap_workflow cap = wf_pk w
     \<and> cap_revision cap = wf_revision w \<and> cap_actor cap = in_actor i \<and> cap_audience cap = ''civicloop-hermes''
     \<and> cap_correlation cap = Some (bd_correlation b)
     \<and> (if in_provider i = ''eventbrite'' then ''request_eventbrite_draft'' else ''request_iterable_drafts'') \<in> set (cap_tools cap)
     \<and> cap_revision_digest cap = rd"

definition intent_pending :: "draft_operation \<Rightarrow> string \<Rightarrow> string \<Rightarrow> bool" where
  "intent_pending i action idem \<longleftrightarrow> (in_provider i, in_kind i) \<in> set PROVIDER_KINDS \<and> in_status i = ''pending''
     \<and> in_approval i = None \<and> in_receipt i = None \<and> in_action_digest i = action \<and> in_idempotency i = idem"

definition proposal_schema_ok :: "draft_operation \<Rightarrow> submission \<Rightarrow> bool" where
  "proposal_schema_ok i sub \<longleftrightarrow> (in_provider i = ''iterable'' \<longrightarrow> validate (sub_content sub) PROPOSAL)"

definition validate_intent :: "py_env \<Rightarrow> draft_db \<Rightarrow> draft_operation \<Rightarrow> agent_run \<Rightarrow> op_error + string" where
  "validate_intent e s i run =
     try_bind (of_option OpMissing (tfind sub_pk (in_proposal i) (submissions s))) (\<lambda>sub.
     try_bind (of_option OpMissing (tfind cap_pk (sub_capability sub) (capabilities s))) (\<lambda>cap.
     try_bind (workflow_of s i) (\<lambda>w.
     try_bind (of_option OpMissing (tfind rev_pk (wf_revision w) (revisions (base s)))) (\<lambda>r.
     try_bind (lift_tool (digest e (JObj (snapshot r)))) (\<lambda>rd.
     try_bind (lift_tool (digest e (action_value w rd i sub))) (\<lambda>action.
     try_bind (lift_tool (digest e (idempotency_value w i action))) (\<lambda>idem.
     try_bind (demand (run_current w run)) (\<lambda>_.
     try_bind (of_option OpMissing (tfind bd_run (run_pk run) (bindings s))) (\<lambda>b.
     try_bind (demand (binding_current i rd b)) (\<lambda>_.
     try_bind (of_option OpMissing (tfind ct_run (run_pk run) (controls s))) (\<lambda>ct.
     try_bind (demand (capability_current w i rd b ct cap \<and> in_revision i = wf_revision w \<and> sub_kind sub = ''proposal'')) (\<lambda>_.
     try_bind (lift_tool (digest e (sub_content sub))) (\<lambda>cd.
     try_bind (demand (sub_digest sub = cd \<and> intent_pending i action idem \<and> proposal_schema_ok i sub)) (\<lambda>_.
       Inr rd))))))))))))))"

section \<open>Reviews\<close>

definition review :: "py_env \<Rightarrow> (string \<Rightarrow> bool) \<Rightarrow> draft_db \<Rightarrow> draft_operation \<Rightarrow> agent_run \<Rightarrow> string \<Rightarrow> string \<Rightarrow> string
    \<Rightarrow> json \<Rightarrow> string \<Rightarrow> op_error + string \<times> string" where
  "review e zone s i run action org event payload expected =
     try_bind (validate_intent e s i run) (\<lambda>rd.
     try_bind (lift_draft (compute_request_digest e zone action org (if event = [] then None else Some event) payload)) (\<lambda>request.
     try_bind (lift_tool (digest e (JObj
        [(''intent'', JStr (in_pk i)), (''run'', JStr (run_pk run)), (''revision'', JInt (int (in_revision i))),
         (''revision_digest'', JStr rd), (''action_digest'', JStr (in_action_digest i)),
         (''idempotency_key'', JStr (in_idempotency i)), (''request_digest'', JStr request),
         (''expected_readback_digest'', JStr expected)]))) (\<lambda>rv. Inr (request, rv))))"

datatype dx_kind = DraftKind | TemplateKind

definition iterable_digest :: "py_env \<Rightarrow> dx_kind \<Rightarrow> draft_operation \<Rightarrow> draft_execution \<Rightarrow> string \<Rightarrow> string \<Rightarrow> op_error + string \<times> string" where
  "iterable_digest e k i x rd request =
     try_bind (lift_tool (digest e (JObj
        [(''intent'', JStr (dx_intent x)), (''run'', JStr (dx_run x)), (''revision'', JInt (int (in_revision i))),
         (''revision_digest'', JStr rd), (''action_digest'', JStr (in_action_digest i)),
         (''idempotency_key'', JStr (in_idempotency i)),
         (''step'', JStr (case k of TemplateKind \<Rightarrow> ''template'' | DraftKind \<Rightarrow> ''campaign'')),
         (''request_digest'', JStr request)]))) (\<lambda>rv. Inr (request, rv))"

text \<open>What both steps of \<open>_iterable_review\<close> check first: the intent, an object as configuration, and a create-only operation.\<close>

definition iterable_common :: "py_env \<Rightarrow> draft_db \<Rightarrow> draft_operation \<Rightarrow> agent_run \<Rightarrow> draft_execution \<Rightarrow> op_error + string \<times> dict" where
  "iterable_common e s i run x =
     try_bind (validate_intent e s i run) (\<lambda>rd.
       case dx_configuration x of
         JObj cfg \<Rightarrow> try_bind (demand (dx_action x = ''create'' \<and> dx_organization x = [] \<and> dx_event x = [] \<and> dx_expected x = [])) (\<lambda>_.
           Inr (rd, cfg))
       | _ \<Rightarrow> Inl PermissionDenied)"

fun pick_fields :: "json \<Rightarrow> string list \<Rightarrow> author_error + dict" where
  "pick_fields v [] = Inr []"
| "pick_fields v (k # ks) = try_bind (subscript v k) (\<lambda>x. try_bind (pick_fields v ks) (\<lambda>d. Inr ((k, x) # d)))"

text \<open>Equality of two objects ignores the order of their keys.\<close>

definition same_object :: "json \<Rightarrow> dict \<Rightarrow> bool" where
  "same_object v d = (case v of JObj p \<Rightarrow> keys p = keys d \<and> list_all (\<lambda>k. value_eq (dget d k) (dget p k)) (map fst d) | _ \<Rightarrow> False)"

definition template_review :: "py_env \<Rightarrow> draft_db \<Rightarrow> draft_operation \<Rightarrow> agent_run \<Rightarrow> draft_execution \<Rightarrow> op_error + string \<times> string" where
  "template_review e s i run x =
     try_bind (iterable_common e s i run x) (\<lambda>(rd, cfg).
     try_bind (demand (keys cfg = {''region''})) (\<lambda>_.
     try_bind (lift_author (pick_fields (dx_payload x) SENDER_FIELDS)) (\<lambda>sender.
     try_bind (lift_iterable (payload_version (dx_payload x))) (\<lambda>version.
     try_bind (of_option OpMissing (tfind sub_pk (in_proposal i) (submissions s))) (\<lambda>sub.
     try_bind (lift_author (author_payload e (in_pk i) (in_kind i) (sub_content sub) (JObj sender) version)) (\<lambda>expected.
     try_bind (demand (same_object (dx_payload x) expected)) (\<lambda>_.
     try_bind (lift_iterable (template_digest e (dget cfg ''region'') (dx_payload x))) (\<lambda>request.
       iterable_digest e TemplateKind i x rd request))))))))"

section \<open>validate_execution\<close>

text \<open>The categories that \<open>validate_execution\<close> turns into a denial.\<close>

fun denied :: "op_error \<Rightarrow> op_error" where
  "denied (OpDraft _) = PermissionDenied"
| "denied (OpIterable _) = PermissionDenied"
| "denied (OpPy KeyError) = PermissionDenied"
| "denied (OpPy TypeError) = PermissionDenied"
| "denied x = x"

fun deny :: "op_error + 'a \<Rightarrow> op_error + 'a" where
  "deny (Inl x) = Inl (denied x)" | "deny (Inr v) = Inr v"

text \<open>The recorded approval of an operation that is reconciled: the session as it was when it approved.\<close>

definition proof_ok :: "draft_db \<Rightarrow> nat \<Rightarrow> int option \<Rightarrow> admin_session \<Rightarrow> op_error + unit" where
  "proof_ok s u approved_at se =
     (case tfind pf_pk (se_profile se) (profiles s) of
        None \<Rightarrow> Inl OpMissing
      | Some p \<Rightarrow>
          if u \<notin> set (active_users s) \<or> pf_status p \<noteq> ''active'' \<or> pf_user p \<noteq> u \<or> se_restricted se then Inl PermissionDenied
          else (case (se_mfa se, approved_at) of
            (None, _) \<Rightarrow> Inl PermissionDenied
          | (Some _, None) \<Rightarrow> Inl (OpPy TypeError)
          | (Some m, Some t) \<Rightarrow> demand (m \<le> t
               \<and> (case se_expires se of None \<Rightarrow> False | Some x \<Rightarrow> t < x)
               \<and> (case se_absolute_expires se of None \<Rightarrow> False | Some x \<Rightarrow> t < x)
               \<and> (case se_revoked se of None \<Rightarrow> True | Some x \<Rightarrow> x > t))))"

definition approval_ok :: "draft_db \<Rightarrow> int \<Rightarrow> bool \<Rightarrow> draft_execution \<Rightarrow> op_error + unit" where
  "approval_ok s now live x =
     (case dx_approver x of
        None \<Rightarrow> Inr ()
      | Some u \<Rightarrow>
          (case dx_session x of
             None \<Rightarrow> Inl PermissionDenied
           | Some sid \<Rightarrow>
               if live then try_bind (session_of s now (Some u) sid) (\<lambda>_. Inr ())
               else (case tfind se_pk sid (sessions s) of None \<Rightarrow> Inl OpMissing | Some se \<Rightarrow> proof_ok s u (dx_approved_at x) se)))"

definition validated :: "draft_db \<Rightarrow> int \<Rightarrow> bool \<Rightarrow> draft_operation \<Rightarrow> draft_execution \<Rightarrow> op_error + string \<times> string \<Rightarrow> op_error + unit" where
  "validated s now live i x reviewed =
     try_bind (deny reviewed) (\<lambda>(request, rv).
     try_bind (demand (request = dx_request x \<and> rv = dx_review x)) (\<lambda>_.
     try_bind (actor_of s (Some (dx_submitter x)) OPERATOR) (\<lambda>a.
     try_bind (demand (slug a = in_actor i)) (\<lambda>_.
       approval_ok s now live x))))"

definition footer_required :: "bool \<Rightarrow> draft_execution \<Rightarrow> op_error + unit" where
  "footer_required live x =
     (if live then try_bind (lift_iterable (payload_version (dx_payload x))) (\<lambda>v. demand (v = 2)) else Inr ())"

definition eventbrite_review :: "py_env \<Rightarrow> (string \<Rightarrow> bool) \<Rightarrow> draft_db \<Rightarrow> draft_operation \<Rightarrow> agent_run \<Rightarrow> draft_execution
    \<Rightarrow> op_error + string \<times> string" where
  "eventbrite_review e zone s i run x =
     (if truthy (dx_configuration x) then Inl PermissionDenied
      else review e zone s i run (dx_action x) (dx_organization x) (dx_event x) (dx_payload x) (dx_expected x))"

definition validate_template :: "py_env \<Rightarrow> (string \<Rightarrow> bool) \<Rightarrow> draft_db \<Rightarrow> int \<Rightarrow> bool \<Rightarrow> template_execution \<Rightarrow> op_error + unit" where
  "validate_template e zone s now live x =
     try_bind (intent_of s (dx_intent x)) (\<lambda>i.
     try_bind (run_of s (dx_run x)) (\<lambda>run.
       validated s now live i x
         (if in_provider i = ''iterable''
          then try_bind (template_review e s i run x) (\<lambda>rv. try_bind (footer_required live x) (\<lambda>_. Inr rv))
          else eventbrite_review e zone s i run x)))"

definition json_of :: "string option \<Rightarrow> json" where
  "json_of v = (case v of None \<Rightarrow> JNull | Some s \<Rightarrow> JStr s)"

text \<open>The campaign of a confirmed template: its region, content digest and id must be the template's.\<close>

definition template_confirmed :: "template_execution \<Rightarrow> dict \<Rightarrow> bool" where
  "template_confirmed t cfg \<longleftrightarrow> dx_status t = DX_SUCCEEDED
     \<and> (case dx_receipt t of None \<Rightarrow> False
        | Some rc \<Rightarrow> outcome rc = ''CONFIRMED'' \<and> json_of (r_readback_digest rc) = dget cfg ''expected_template_digest'')
     \<and> (case dx_configuration t of JObj tc \<Rightarrow> dget tc ''region'' = dget cfg ''region'' | _ \<Rightarrow> False)"

definition campaign_template_id :: "json \<Rightarrow> op_error + json" where
  "campaign_template_id payload = (case payload of JObj d \<Rightarrow> Inr (dget d ''templateId'') | _ \<Rightarrow> Inl (OpPy AttributeError))"

definition campaign_review :: "py_env \<Rightarrow> (string \<Rightarrow> bool) \<Rightarrow> draft_db \<Rightarrow> int \<Rightarrow> draft_operation \<Rightarrow> agent_run \<Rightarrow> draft_execution
    \<Rightarrow> op_error + string \<times> string" where
  "campaign_review e zone s now i run x =
     try_bind (iterable_common e s i run x) (\<lambda>(rd, cfg).
     try_bind (demand (keys cfg = {''region'', ''expected_template_digest''})) (\<lambda>_.
     try_bind (of_option OpNoTemplate (tfind dx_intent (in_pk i) (templates s))) (\<lambda>t.
     try_bind (validate_template e zone s now False t) (\<lambda>_.
     try_bind (demand (template_confirmed t cfg)) (\<lambda>_.
     try_bind (campaign_template_id (dx_payload x)) (\<lambda>tid.
     try_bind (demand (case tid of JInt n \<Rightarrow> int_str n = dx_provider t | _ \<Rightarrow> False)) (\<lambda>_.
     try_bind (lift_iterable (campaign_digest e (dget cfg ''region'') (dx_payload x) (dget cfg ''expected_template_digest''))) (\<lambda>request.
       iterable_digest e DraftKind i x rd request))))))))"

definition validate_draft :: "py_env \<Rightarrow> (string \<Rightarrow> bool) \<Rightarrow> draft_db \<Rightarrow> int \<Rightarrow> bool \<Rightarrow> draft_execution \<Rightarrow> op_error + unit" where
  "validate_draft e zone s now live x =
     try_bind (intent_of s (dx_intent x)) (\<lambda>i.
     try_bind (run_of s (dx_run x)) (\<lambda>run.
       validated s now live i x
         (if in_provider i = ''iterable'' then campaign_review e zone s now i run x else eventbrite_review e zone s i run x)))"

definition validate_execution :: "py_env \<Rightarrow> (string \<Rightarrow> bool) \<Rightarrow> draft_db \<Rightarrow> int \<Rightarrow> bool \<Rightarrow> dx_kind \<Rightarrow> draft_execution \<Rightarrow> op_error + unit" where
  "validate_execution e zone s now live k x =
     (case k of DraftKind \<Rightarrow> validate_draft e zone s now live x | TemplateKind \<Rightarrow> validate_template e zone s now live x)"


section \<open>Submission\<close>

definition table_of :: "dx_kind \<Rightarrow> draft_db \<Rightarrow> draft_execution list" where
  "table_of k s = (case k of DraftKind \<Rightarrow> drafts s | TemplateKind \<Rightarrow> templates s)"

definition with_table :: "dx_kind \<Rightarrow> draft_execution list \<Rightarrow> draft_db \<Rightarrow> draft_db" where
  "with_table k t s = (case k of DraftKind \<Rightarrow> s\<lparr>drafts := t\<rparr> | TemplateKind \<Rightarrow> s\<lparr>templates := t\<rparr>)"

definition save_row :: "dx_kind \<Rightarrow> draft_execution \<Rightarrow> draft_db \<Rightarrow> op_error + draft_db" where
  "save_row k x s = try_bind (lift_table (save_execution x (table_of k s))) (\<lambda>t. Inr (with_table k t s))"

definition find_row :: "dx_kind \<Rightarrow> uuid \<Rightarrow> draft_db \<Rightarrow> op_error + draft_execution" where
  "find_row k pk s = of_option OpMissing (tfind dx_pk pk (table_of k s))"

definition new_row :: "uuid \<Rightarrow> uuid \<Rightarrow> uuid \<Rightarrow> nat \<Rightarrow> string \<Rightarrow> string \<Rightarrow> string \<Rightarrow> string \<Rightarrow> json \<Rightarrow> json \<Rightarrow> draft_execution" where
  "new_row pk i run u action org event expected cfg payload =
     \<lparr>dx_pk = pk, dx_intent = i, dx_run = run, dx_submitter = u, dx_approver = None, dx_action = action,
      dx_organization = org, dx_event = event, dx_expected = expected, dx_configuration = cfg, dx_payload = payload,
      dx_request = [], dx_review = [], dx_status = DX_PENDING, dx_receipt = None, dx_provider = [], dx_error = [],
      dx_approved_at = None, dx_session = None, dx_claimed_at = None, dx_completed_at = None\<rparr>"

text \<open>An intent that has an execution already: the same review by the same user returns it, any other is denied.\<close>

definition submit_row :: "dx_kind \<Rightarrow> nat \<Rightarrow> draft_execution \<Rightarrow> draft_db \<Rightarrow> op_error + draft_execution \<times> draft_db" where
  "submit_row k u x s =
     (case tfind dx_intent (dx_intent x) (table_of k s) of
        Some old \<Rightarrow> if dx_review old \<noteq> dx_review x \<or> dx_submitter old \<noteq> u then Inl PermissionDenied else Inr (old, s)
      | None \<Rightarrow> try_bind (save_row k x s) (\<lambda>s'. Inr (x, s')))"

text \<open>\<open>_iterable_review\<close>, whose missing template is a denial while a new operation is prepared.\<close>

definition iterable_review :: "py_env \<Rightarrow> (string \<Rightarrow> bool) \<Rightarrow> draft_db \<Rightarrow> int \<Rightarrow> dx_kind \<Rightarrow> draft_operation \<Rightarrow> agent_run \<Rightarrow> draft_execution
    \<Rightarrow> op_error + string \<times> string" where
  "iterable_review e zone s now k i run x =
     (case k of TemplateKind \<Rightarrow> template_review e s i run x | DraftKind \<Rightarrow> campaign_review e zone s now i run x)"

fun deny_new :: "op_error + 'a \<Rightarrow> op_error + 'a" where
  "deny_new (Inl OpNoTemplate) = Inl PermissionDenied" | "deny_new r = deny r"

definition new_iterable_operation ::
  "py_env \<Rightarrow> (string \<Rightarrow> bool) \<Rightarrow> int \<Rightarrow> uuid \<Rightarrow> dx_kind \<Rightarrow> nat option \<Rightarrow> uuid \<Rightarrow> uuid \<Rightarrow> json \<Rightarrow> json \<Rightarrow> draft_db
     \<Rightarrow> op_error + draft_execution \<times> draft_db" where
  "new_iterable_operation e zone now pk k user intent_id run_id payload cfg s =
     try_bind (actor_of s user OPERATOR) (\<lambda>a.
     try_bind (intent_of s intent_id) (\<lambda>i.
     try_bind (workflow_of s i) (\<lambda>_.
     try_bind (demand (in_provider i = ''iterable'' \<and> slug a = in_actor i)) (\<lambda>_.
     try_bind (run_of s run_id) (\<lambda>run.
       let u = the user; x = new_row pk intent_id run_id u ''create'' [] [] [] cfg payload
       in try_bind (deny_new (iterable_review e zone s now k i run x)) (\<lambda>(request, rv).
            submit_row k u (x\<lparr>dx_request := request, dx_review := rv\<rparr>) s))))))"

definition submit_template :: "py_env \<Rightarrow> (string \<Rightarrow> bool) \<Rightarrow> int \<Rightarrow> uuid \<Rightarrow> nat option \<Rightarrow> uuid \<Rightarrow> uuid \<Rightarrow> json \<Rightarrow> json \<Rightarrow> draft_db
    \<Rightarrow> op_error + draft_execution \<times> draft_db" where
  "submit_template e zone now pk user intent_id run_id sender region s =
     try_bind (intent_of s intent_id) (\<lambda>i.
     try_bind (of_option OpMissing (tfind sub_pk (in_proposal i) (submissions s))) (\<lambda>sub.
     try_bind (deny (lift_author (author_payload e (in_pk i) (in_kind i) (sub_content sub) sender 2))) (\<lambda>payload.
       new_iterable_operation e zone now pk TemplateKind user intent_id run_id (JObj payload) (JObj [(''region'', region)]) s)))"

definition submit_iterable_campaign ::
  "py_env \<Rightarrow> (string \<Rightarrow> bool) \<Rightarrow> int \<Rightarrow> uuid \<Rightarrow> nat option \<Rightarrow> uuid \<Rightarrow> uuid \<Rightarrow> string \<Rightarrow> string \<Rightarrow> string \<Rightarrow> string \<Rightarrow> json \<Rightarrow> json
     \<Rightarrow> draft_db \<Rightarrow> op_error + draft_execution \<times> draft_db" where
  "submit_iterable_campaign e zone now pk user intent_id run_id action org event expected payload cfg s =
     try_bind (demand (action = ''create'' \<and> org = [] \<and> event = [] \<and> expected = [])) (\<lambda>_.
       new_iterable_operation e zone now pk DraftKind user intent_id run_id payload cfg s)"

definition submit_eventbrite ::
  "py_env \<Rightarrow> (string \<Rightarrow> bool) \<Rightarrow> uuid \<Rightarrow> nat option \<Rightarrow> uuid \<Rightarrow> uuid \<Rightarrow> string \<Rightarrow> string \<Rightarrow> string \<Rightarrow> string \<Rightarrow> json \<Rightarrow> json
     \<Rightarrow> draft_db \<Rightarrow> op_error + draft_execution \<times> draft_db" where
  "submit_eventbrite e zone pk user intent_id run_id action org event expected payload cfg s =
     try_bind (demand (\<not> truthy cfg)) (\<lambda>_.
     try_bind (actor_of s user OPERATOR) (\<lambda>a.
     try_bind (intent_of s intent_id) (\<lambda>i.
     try_bind (workflow_of s i) (\<lambda>_.
     try_bind (run_of s run_id) (\<lambda>run.
     try_bind (demand (slug a = in_actor i)) (\<lambda>_.
     try_bind (demand (action = ''update'' \<longrightarrow> hex64 expected)) (\<lambda>_.
     try_bind (demand (action = ''create'' \<longrightarrow> expected = [])) (\<lambda>_.
     try_bind (lift_draft (validate_payload e zone (action = ''create'') payload)) (\<lambda>v.
     try_bind (review e zone s i run action org event v expected) (\<lambda>(request, rv).
       submit_row DraftKind (the user)
         ((new_row pk intent_id run_id (the user) action org event expected (JObj []) v)\<lparr>dx_request := request, dx_review := rv\<rparr>) s))))))))))"

definition submit_draft ::
  "py_env \<Rightarrow> (string \<Rightarrow> bool) \<Rightarrow> int \<Rightarrow> uuid \<Rightarrow> nat option \<Rightarrow> uuid \<Rightarrow> uuid \<Rightarrow> string \<Rightarrow> string \<Rightarrow> string \<Rightarrow> string \<Rightarrow> json \<Rightarrow> json
     \<Rightarrow> draft_db \<Rightarrow> op_error + draft_execution \<times> draft_db" where
  "submit_draft e zone now pk user intent_id run_id action org event expected payload cfg s =
     try_bind (intent_of s intent_id) (\<lambda>i.
       if in_provider i = ''iterable''
       then submit_iterable_campaign e zone now pk user intent_id run_id action org event expected payload cfg s
       else submit_eventbrite e zone pk user intent_id run_id action org event expected payload cfg s)"

section \<open>Approval\<close>

definition approve_operation :: "py_env \<Rightarrow> (string \<Rightarrow> bool) \<Rightarrow> int \<Rightarrow> dx_kind \<Rightarrow> nat option \<Rightarrow> uuid \<Rightarrow> uuid \<Rightarrow> string \<Rightarrow> nat \<Rightarrow> draft_db
    \<Rightarrow> op_error + draft_execution \<times> draft_db" where
  "approve_operation e zone now k user sid pk rv revision s =
     try_bind (session_of s now user sid) (\<lambda>se.
     try_bind (find_row k pk s) (\<lambda>x.
     try_bind (intent_of s (dx_intent x)) (\<lambda>i.
     try_bind (workflow_of s i) (\<lambda>_.
     try_bind (validate_execution e zone s now True k x) (\<lambda>_.
     try_bind (demand (dx_status x = DX_PENDING \<and> rv = dx_review x \<and> revision = in_revision i)) (\<lambda>_.
       let y = x\<lparr>dx_approver := user, dx_session := Some (se_pk se), dx_approved_at := Some now, dx_status := DX_APPROVED\<rparr>
       in try_bind (save_row k y s) (\<lambda>s'. Inr (y, s'))))))))"

definition approve_draft :: "py_env \<Rightarrow> (string \<Rightarrow> bool) \<Rightarrow> int \<Rightarrow> nat option \<Rightarrow> uuid \<Rightarrow> uuid \<Rightarrow> string \<Rightarrow> nat \<Rightarrow> draft_db
    \<Rightarrow> op_error + draft_execution \<times> draft_db" where
  "approve_draft e zone now = approve_operation e zone now DraftKind"

definition approve_template :: "py_env \<Rightarrow> (string \<Rightarrow> bool) \<Rightarrow> int \<Rightarrow> nat option \<Rightarrow> uuid \<Rightarrow> uuid \<Rightarrow> string \<Rightarrow> nat \<Rightarrow> draft_db
    \<Rightarrow> op_error + draft_execution \<times> draft_db" where
  "approve_template e zone now = approve_operation e zone now TemplateKind"

section \<open>What a dispatch stores\<close>

definition receipt_id :: "draft_receipt \<Rightarrow> string" where
  "receipt_id rc = (case r_provider_id rc of None \<Rightarrow> [] | Some i \<Rightarrow> i)"

definition with_receipt :: "int \<Rightarrow> draft_receipt \<Rightarrow> draft_execution \<Rightarrow> draft_execution" where
  "with_receipt now rc x = x\<lparr>dx_receipt := Some rc, dx_provider := (if receipt_id rc = [] then dx_provider x else receipt_id rc),
     dx_status := (if outcome rc = ''CONFIRMED'' then DX_SUCCEEDED else DX_UNKNOWN),
     dx_error := (case r_error_category rc of None \<Rightarrow> [] | Some c \<Rightarrow> c), dx_completed_at := Some now\<rparr>"

definition receipt_ok :: "draft_receipt \<Rightarrow> draft_execution \<Rightarrow> bool" where
  "receipt_ok rc x \<longleftrightarrow> r_request_digest rc = dx_request x \<and> outcome rc \<in> {''CONFIRMED'', ''UNKNOWN''}
     \<and> (dx_provider x \<noteq> [] \<and> receipt_id rc \<noteq> [] \<longrightarrow> receipt_id rc = dx_provider x)
     \<and> (outcome rc = ''CONFIRMED'' \<longrightarrow> receipt_id rc \<noteq> [] \<and> (\<exists>h \<in> set_option (r_readback_digest rc). h \<noteq> []))"

definition store_receipt :: "int \<Rightarrow> draft_execution \<Rightarrow> draft_receipt \<Rightarrow> draft_db \<Rightarrow> op_error + draft_db" where
  "store_receipt now x rc s =
     (if receipt_ok rc x \<and> (dx_action x = ''update'' \<and> receipt_id rc \<noteq> [] \<longrightarrow> receipt_id rc = dx_event x)
         \<and> (outcome rc = ''CONFIRMED'' \<longrightarrow> r_provider_status rc = Some ''draft'')
      then save_row DraftKind (with_receipt now rc x) s else Inl InvalidReceipt)"

definition iterable_store_receipt :: "int \<Rightarrow> dx_kind \<Rightarrow> draft_execution \<Rightarrow> draft_receipt \<Rightarrow> draft_db \<Rightarrow> op_error + draft_db" where
  "iterable_store_receipt now k x rc s =
     (if receipt_ok rc x
         \<and> (outcome rc = ''CONFIRMED'' \<longrightarrow>
              (\<exists>st \<in> set_option (r_provider_status rc). st \<in> set (case k of TemplateKind \<Rightarrow> [''template''] | DraftKind \<Rightarrow> [''Draft'', ''Ready''])))
      then save_row k (with_receipt now rc x) s else Inl InvalidReceipt)"

text \<open>
  \<open>filter(pk=..).update(..)\<close>: the columns are written in the database, past the guard of \<open>save\<close>;
  \<open>None\<close> is the \<open>IntegrityError\<close> of a check constraint.
\<close>

definition mark :: "dx_status \<Rightarrow> string \<Rightarrow> int \<Rightarrow> draft_execution \<Rightarrow> draft_execution" where
  "mark st category now x = x\<lparr>dx_status := st, dx_error := category, dx_completed_at := Some now\<rparr>"

definition update_row :: "dx_kind \<Rightarrow> uuid \<Rightarrow> (draft_execution \<Rightarrow> draft_execution) \<Rightarrow> draft_db \<Rightarrow> draft_db option" where
  "update_row k pk f s =
     (case tfind dx_pk pk (table_of k s) of
        None \<Rightarrow> Some s
      | Some x \<Rightarrow> if constraints_ok (f x) then Some (with_table k (tput dx_pk (f x) (table_of k s)) s) else None)"

section \<open>Dispatch to Eventbrite\<close>

datatype outcome = Got draft_receipt | Refused string | Broke

text \<open>The committed claim of \<open>execute_draft\<close>; \<open>atomic\<close> says whether the caller is inside a transaction.\<close>

definition claim_draft :: "py_env \<Rightarrow> (string \<Rightarrow> bool) \<Rightarrow> int \<Rightarrow> bool \<Rightarrow> nat option \<Rightarrow> uuid \<Rightarrow> uuid \<Rightarrow> draft_db
    \<Rightarrow> op_error + draft_execution \<times> draft_db" where
  "claim_draft e zone now atomic user sid pk s =
     try_bind (demand (eventbrite_enabled s)) (\<lambda>_.
     try_bind (session_of s now user sid) (\<lambda>_.
     try_bind (reference_of s ''eventbrite'') (\<lambda>_.
     try_bind (demand (\<not> atomic)) (\<lambda>_.
     try_bind (find_row DraftKind pk s) (\<lambda>x.
     try_bind (intent_of s (dx_intent x)) (\<lambda>i.
     try_bind (workflow_of s i) (\<lambda>_.
     try_bind (validate_execution e zone s now True DraftKind x) (\<lambda>_.
     try_bind (demand (user = dx_approver x)) (\<lambda>_.
     try_bind (demand (dx_status x = DX_APPROVED \<and> dx_approver x \<noteq> None)) (\<lambda>_.
       let y = x\<lparr>dx_status := DX_EXECUTING, dx_claimed_at := Some now,
                 dx_provider := (if dx_action x = ''update'' then dx_event x else dx_provider x)\<rparr>
       in try_bind (save_row DraftKind y s) (\<lambda>s'. Inr (y, s'))))))))))))"

text \<open>
  The dispatch, after the claim: the lease, the two checks again, and the adapter.  \<open>l\<close> is the lease that
  the secret store grants, or \<open>None\<close> when it raises.
\<close>

definition dispatch_draft :: "py_env \<Rightarrow> (string \<Rightarrow> bool) \<Rightarrow> int \<Rightarrow> provider \<Rightarrow> lease option \<Rightarrow> draft_execution \<Rightarrow> draft_db
    \<Rightarrow> request list \<Rightarrow> request list \<times> outcome" where
  "dispatch_draft e zone now pr l x s sent =
     (case (l, try_bind (demand (eventbrite_enabled s)) (\<lambda>_. validate_execution e zone s now True DraftKind x)) of
        (Some cred, Inr _) \<Rightarrow>
          (case (if dx_action x = ''create'' then create e zone pr cred (dx_organization x) (dx_payload x) sent
                 else update e zone pr cred (dx_organization x) (dx_event x) (dx_payload x) (dx_expected x) sent) of
             (sent', Inl (DraftError c)) \<Rightarrow> (sent', Refused c)
           | (sent', Inr rc) \<Rightarrow> (sent', Got rc))
      | _ \<Rightarrow> (sent, Broke))"

definition DEFINITE_FAILURES :: "string list" where
  "DEFINITE_FAILURES = [''provider_validation'', ''authentication'', ''forbidden'', ''not_found'', ''rate_limited'', ''redirect'',
     ''invalid_request'', ''invalid_credential'', ''stale_revision'', ''unsafe_provider_state'', ''identity_mismatch'']"

definition finish_draft :: "int \<Rightarrow> draft_execution \<Rightarrow> outcome \<Rightarrow> draft_db \<Rightarrow> draft_db option" where
  "finish_draft now x r s =
     (let unconfirmed = update_row DraftKind (dx_pk x) (mark DX_UNKNOWN ''dispatch_unconfirmed'' now) s
      in case r of
           Got rc \<Rightarrow> (case store_receipt now x rc s of Inr s' \<Rightarrow> Some s' | Inl _ \<Rightarrow> unconfirmed)
         | Refused c \<Rightarrow>
             if c \<in> set DEFINITE_FAILURES then update_row DraftKind (dx_pk x) (mark DX_FAILED c now) s else unconfirmed
         | Broke \<Rightarrow> unconfirmed)"

definition execute_eventbrite :: "py_env \<Rightarrow> (string \<Rightarrow> bool) \<Rightarrow> int \<Rightarrow> bool \<Rightarrow> provider \<Rightarrow> lease option \<Rightarrow> nat option \<Rightarrow> uuid \<Rightarrow> uuid \<Rightarrow> draft_db
    \<Rightarrow> request list \<Rightarrow> request list \<times> (op_error + draft_db option)" where
  "execute_eventbrite e zone now atomic pr l user sid pk s sent =
     (case claim_draft e zone now atomic user sid pk s of
        Inl x \<Rightarrow> (sent, Inl x)
      | Inr (x, s') \<Rightarrow>
          (case dispatch_draft e zone now pr l x s' sent of (sent', r) \<Rightarrow> (sent', Inr (finish_draft now x r s'))))"

text \<open>\<open>reconcile_draft\<close> for Eventbrite: the checks, then the adapter's readback, then the receipt; an exception stores nothing.\<close>

definition reconcile_begin :: "py_env \<Rightarrow> (string \<Rightarrow> bool) \<Rightarrow> int \<Rightarrow> bool \<Rightarrow> nat option \<Rightarrow> uuid \<Rightarrow> uuid \<Rightarrow> draft_db \<Rightarrow> op_error + draft_execution" where
  "reconcile_begin e zone now atomic user sid pk s =
     try_bind (demand (\<not> atomic)) (\<lambda>_.
     try_bind (demand (eventbrite_enabled s)) (\<lambda>_.
     try_bind (session_of s now user sid) (\<lambda>_.
     try_bind (find_row DraftKind pk s) (\<lambda>x.
     try_bind (validate_execution e zone s now False DraftKind x) (\<lambda>_.
     try_bind (demand (user = dx_approver x)) (\<lambda>_.
     try_bind (demand (dx_status x \<in> {DX_UNKNOWN, DX_EXECUTING} \<and> dx_provider x \<noteq> [])) (\<lambda>_.
     try_bind (reference_of s ''eventbrite'') (\<lambda>_. Inr x))))))))"

definition reconcile_eventbrite :: "py_env \<Rightarrow> (string \<Rightarrow> bool) \<Rightarrow> int \<Rightarrow> bool \<Rightarrow> provider \<Rightarrow> lease \<Rightarrow> nat option \<Rightarrow> uuid \<Rightarrow> uuid \<Rightarrow> draft_db
    \<Rightarrow> request list \<Rightarrow> request list \<times> (op_error + draft_db)" where
  "reconcile_eventbrite e zone now atomic pr l user sid pk s sent =
     (case reconcile_begin e zone now atomic user sid pk s of
        Inl x \<Rightarrow> (sent, Inl x)
      | Inr x \<Rightarrow>
          (case reconcile e zone pr l (dx_organization x) (Some (dx_provider x)) (dx_payload x) (dx_request x) (dx_action x) sent of
             (sent', Inl d) \<Rightarrow> (sent', Inl (OpDraft d))
           | (sent', Inr rc) \<Rightarrow> (sent', store_receipt now x rc s)))"

section \<open>Dispatch to Iterable\<close>

definition claim_iterable :: "py_env \<Rightarrow> (string \<Rightarrow> bool) \<Rightarrow> int \<Rightarrow> bool \<Rightarrow> dx_kind \<Rightarrow> bool \<Rightarrow> nat option \<Rightarrow> uuid \<Rightarrow> uuid \<Rightarrow> draft_db
    \<Rightarrow> op_error + draft_execution \<times> draft_db" where
  "claim_iterable e zone now atomic k again user sid pk s =
     try_bind (demand (iterable_enabled s)) (\<lambda>_.
     try_bind (session_of s now user sid) (\<lambda>_.
     try_bind (demand (\<not> atomic)) (\<lambda>_.
     try_bind (find_row k pk s) (\<lambda>x.
     try_bind (intent_of s (dx_intent x)) (\<lambda>i.
     try_bind (workflow_of s i) (\<lambda>_.
     try_bind (validate_execution e zone s now (\<not> again) k x) (\<lambda>_.
     try_bind (demand (dx_approver x = user)) (\<lambda>_.
       if again
       then try_bind (demand (dx_status x \<in> {DX_UNKNOWN, DX_EXECUTING} \<and> dx_claimed_at x \<noteq> None)) (\<lambda>_.
            try_bind (demand (k = DraftKind \<longrightarrow> dx_provider x \<noteq> [])) (\<lambda>_. Inr (x, s)))
       else try_bind (demand (dx_status x = DX_APPROVED \<and> dx_approver x \<noteq> None)) (\<lambda>_.
              let y = x\<lparr>dx_status := DX_EXECUTING, dx_claimed_at := Some now\<rparr>
              in try_bind (save_row k y s) (\<lambda>s'. Inr (y, s')))))))))))"

definition configured :: "draft_execution \<Rightarrow> string \<Rightarrow> json" where
  "configured x key = (case dx_configuration x of JObj cfg \<Rightarrow> dget cfg key | _ \<Rightarrow> JNull)"

definition call_adapter :: "py_env \<Rightarrow> it_provider \<Rightarrow> lease \<Rightarrow> dx_kind \<Rightarrow> bool \<Rightarrow> draft_execution \<Rightarrow> draft_receipt it_exchange" where
  "call_adapter e pr cred k again x =
     (let region = text_of (configured x ''region''); expected = configured x ''expected_template_digest''
      in case k of
           TemplateKind \<Rightarrow>
             if again then template_reconcile e pr cred (dx_payload x) (dx_request x) (if dx_provider x = [] then None else Some (dx_provider x)) region
             else template_create e pr cred (dx_payload x) region
         | DraftKind \<Rightarrow>
             if again then campaign_reconcile e pr cred (Some (dx_provider x)) (dx_payload x) (dx_request x) expected region
             else campaign_create e pr cred (dx_payload x) expected region)"

definition dispatch_iterable :: "py_env \<Rightarrow> (string \<Rightarrow> bool) \<Rightarrow> int \<Rightarrow> it_provider \<Rightarrow> lease option \<Rightarrow> dx_kind \<Rightarrow> bool \<Rightarrow> nat option \<Rightarrow> uuid
    \<Rightarrow> draft_execution \<Rightarrow> draft_db \<Rightarrow> it_request list \<Rightarrow> it_request list \<times> outcome" where
  "dispatch_iterable e zone now pr l k again user sid x s sent =
     (case (l, try_bind (reference_of s ''iterable'') (\<lambda>c.
               try_bind (demand (dget (cn_configuration c) ''region'' = configured x ''region'')) (\<lambda>_.
               try_bind (demand (iterable_enabled s)) (\<lambda>_.
               try_bind (session_of s now user sid) (\<lambda>_.
                 validate_execution e zone s now (\<not> again) k x))))) of
        (Some cred, Inr _) \<Rightarrow>
          (case call_adapter e pr cred k again x sent of
             (sent', Inl (IterableDraftError c)) \<Rightarrow> (sent', Refused c)
           | (sent', Inr rc) \<Rightarrow> (sent', Got rc))
      | _ \<Rightarrow> (sent, Broke))"

definition finish_iterable :: "int \<Rightarrow> dx_kind \<Rightarrow> draft_execution \<Rightarrow> outcome \<Rightarrow> draft_db \<Rightarrow> draft_db option" where
  "finish_iterable now k x r s =
     (let unconfirmed = update_row k (dx_pk x) (mark DX_UNKNOWN ''dispatch_unconfirmed'' now) s
      in case r of
           Got rc \<Rightarrow> (case iterable_store_receipt now k x rc s of Inr s' \<Rightarrow> Some s' | Inl _ \<Rightarrow> unconfirmed)
         | _ \<Rightarrow> unconfirmed)"

definition execute_iterable :: "py_env \<Rightarrow> (string \<Rightarrow> bool) \<Rightarrow> int \<Rightarrow> bool \<Rightarrow> it_provider \<Rightarrow> lease option \<Rightarrow> dx_kind \<Rightarrow> bool \<Rightarrow> nat option \<Rightarrow> uuid
    \<Rightarrow> uuid \<Rightarrow> draft_db \<Rightarrow> it_request list \<Rightarrow> it_request list \<times> (op_error + draft_db option)" where
  "execute_iterable e zone now atomic pr l k again user sid pk s sent =
     (case claim_iterable e zone now atomic k again user sid pk s of
        Inl x \<Rightarrow> (sent, Inl x)
      | Inr (x, s') \<Rightarrow>
          (case dispatch_iterable e zone now pr l k again user sid x s' sent of
             (sent', r) \<Rightarrow> (sent', Inr (finish_iterable now k x r s'))))"


section \<open>The two entry points\<close>

text \<open>Both services send the operations of an Iterable intent to the Iterable lane; the logs of the two providers are separate.\<close>

definition provider_of :: "uuid \<Rightarrow> draft_db \<Rightarrow> op_error + string" where
  "provider_of pk s = try_bind (find_row DraftKind pk s) (\<lambda>x. try_bind (intent_of s (dx_intent x)) (\<lambda>i. Inr (in_provider i)))"

definition execute_draft ::
  "py_env \<Rightarrow> (string \<Rightarrow> bool) \<Rightarrow> int \<Rightarrow> bool \<Rightarrow> provider \<Rightarrow> it_provider \<Rightarrow> lease option \<Rightarrow> nat option \<Rightarrow> uuid \<Rightarrow> uuid \<Rightarrow> draft_db
     \<Rightarrow> request list \<times> it_request list \<Rightarrow> (request list \<times> it_request list) \<times> (op_error + draft_db option)" where
  "execute_draft e zone now atomic pr ipr l user sid pk s logs =
     (case provider_of pk s of
        Inl x \<Rightarrow> (logs, Inl x)
      | Inr p \<Rightarrow>
          if p = ''iterable''
          then (case execute_iterable e zone now atomic ipr l DraftKind False user sid pk s (snd logs) of (n, r) \<Rightarrow> ((fst logs, n), r))
          else (case execute_eventbrite e zone now atomic pr l user sid pk s (fst logs) of (n, r) \<Rightarrow> ((n, snd logs), r)))"

definition reconcile_draft ::
  "py_env \<Rightarrow> (string \<Rightarrow> bool) \<Rightarrow> int \<Rightarrow> bool \<Rightarrow> provider \<Rightarrow> it_provider \<Rightarrow> lease \<Rightarrow> nat option \<Rightarrow> uuid \<Rightarrow> uuid \<Rightarrow> draft_db
     \<Rightarrow> request list \<times> it_request list \<Rightarrow> (request list \<times> it_request list) \<times> (op_error + draft_db option)" where
  "reconcile_draft e zone now atomic pr ipr l user sid pk s logs =
     (if atomic then (logs, Inl PermissionDenied)
      else case provider_of pk s of
        Inl x \<Rightarrow> (logs, Inl x)
      | Inr p \<Rightarrow>
          if p = ''iterable''
          then (case execute_iterable e zone now atomic ipr (Some l) DraftKind True user sid pk s (snd logs) of (n, r) \<Rightarrow> ((fst logs, n), r))
          else (case reconcile_eventbrite e zone now atomic pr l user sid pk s (fst logs) of
                  (n, Inl x) \<Rightarrow> ((n, snd logs), Inl x) | (n, Inr s') \<Rightarrow> ((n, snd logs), Inr (Some s'))))"

definition execute_template ::
  "py_env \<Rightarrow> (string \<Rightarrow> bool) \<Rightarrow> int \<Rightarrow> bool \<Rightarrow> it_provider \<Rightarrow> lease option \<Rightarrow> nat option \<Rightarrow> uuid \<Rightarrow> uuid \<Rightarrow> draft_db \<Rightarrow> it_request list
     \<Rightarrow> it_request list \<times> (op_error + draft_db option)" where
  "execute_template e zone now atomic pr l = execute_iterable e zone now atomic pr l TemplateKind False"

definition reconcile_template ::
  "py_env \<Rightarrow> (string \<Rightarrow> bool) \<Rightarrow> int \<Rightarrow> bool \<Rightarrow> it_provider \<Rightarrow> lease option \<Rightarrow> nat option \<Rightarrow> uuid \<Rightarrow> uuid \<Rightarrow> draft_db \<Rightarrow> it_request list
     \<Rightarrow> it_request list \<times> (op_error + draft_db option)" where
  "reconcile_template e zone now atomic pr l = execute_iterable e zone now atomic pr l TemplateKind True"

end
