(* ===== verification/Capability_Token.thy ===== *)
theory Capability_Token
  imports Py_Values
begin

text \<open>
  The bearer token of a capability, \<open>backend/agents/capabilities.py\<close>: how
  \<open>issue_workflow_capability\<close> builds it and how \<open>verify_token\<close> takes it apart.  The base64 functions
  of the Python library are written out, the decoder as the lenient one it is: it skips what is not in
  the alphabet and stops at the first complete padding.  A byte string is a \<open>char list\<close>.  The signature
  belongs to Django: \<open>unsign\<close> says of a byte string whether it is UTF-8 text that \<open>signer().unsign\<close>
  accepts.
\<close>

section \<open>base64\<close>

definition PAD :: char where
  "PAD = CHR ''=''"

text \<open>The URL-safe alphabet, with \<open>-\<close> and \<open>_\<close> for 62 and 63.\<close>

definition b64_char :: "nat \<Rightarrow> char" where
  "b64_char n = char_of (if n < 26 then 65 + n else if n < 52 then 71 + n else if n < 62 then n - 4 else if n = 62 then 45 else 95)"

text \<open>\<open>urlsafe_b64decode\<close> first maps \<open>-\<close> and \<open>_\<close> to \<open>+\<close> and \<open>/\<close>, so that both spellings decode.\<close>

definition b64_value :: "char \<Rightarrow> nat option" where
  "b64_value c = (let n = code c in
     if 65 \<le> n \<and> n \<le> 90 then Some (n - 65)
     else if 97 \<le> n \<and> n \<le> 122 then Some (n - 71)
     else if 48 \<le> n \<and> n \<le> 57 then Some (n + 4)
     else if n = 45 \<or> n = 43 then Some 62
     else if n = 95 \<or> n = 47 then Some 63
     else None)"

definition byte :: "nat \<Rightarrow> char" where
  "byte n = char_of n"

fun b64encode :: "string \<Rightarrow> string" where
  "b64encode [] = []"
| "b64encode [a] = [b64_char (code a div 4), b64_char (code a mod 4 * 16), PAD, PAD]"
| "b64encode [a, b] =
     [b64_char (code a div 4), b64_char (code a mod 4 * 16 + code b div 16), b64_char (code b mod 16 * 4), PAD]"
| "b64encode (a # b # c # s) =
     [b64_char (code a div 4), b64_char (code a mod 4 * 16 + code b div 16),
      b64_char (code b mod 16 * 4 + code c div 64), b64_char (code c mod 64)] @ b64encode s"

text \<open>
  The loop of \<open>binascii.a2b_base64\<close>: the position in the group of four, the bits left over, the pads seen
  since the last data character, and the bytes so far.  \<open>None\<close> is \<open>binascii.Error\<close>.
\<close>

fun a2b :: "string \<Rightarrow> nat \<Rightarrow> nat \<Rightarrow> nat \<Rightarrow> string \<Rightarrow> string option" where
  "a2b [] quad left pads out = (if quad = 0 then Some out else None)"
| "a2b (c # cs) quad left pads out =
     (if c = PAD then
        (if 2 \<le> quad \<and> 4 \<le> quad + (pads + 1) then Some out
         else a2b cs quad left (if 2 \<le> quad then pads + 1 else pads) out)
      else case b64_value c of
        None \<Rightarrow> a2b cs quad left pads out
      | Some v \<Rightarrow>
          if quad = 0 then a2b cs 1 v 0 out
          else if quad = 1 then a2b cs 2 (v mod 16) 0 (out @ [byte (left * 4 + v div 16)])
          else if quad = 2 then a2b cs 3 (v mod 4) 0 (out @ [byte (left * 16 + v div 4)])
          else a2b cs 0 0 0 (out @ [byte (left * 64 + v)]))"

definition urlsafe_b64decode :: "string \<Rightarrow> string option" where
  "urlsafe_b64decode s = (if list_ex (\<lambda>c. 128 \<le> code c) s then None else a2b s 0 0 0 [])"

definition rstrip_pad :: "string \<Rightarrow> string" where
  "rstrip_pad s = rev (dropWhile (\<lambda>c. c = PAD) (rev s))"

section \<open>The token\<close>

definition PREFIX :: string where
  "PREFIX = ''cap_''"

definition new_token :: "string \<Rightarrow> string" where
  "new_token signed = PREFIX @ rstrip_pad (b64encode signed)"

text \<open>\<open>"=" * (-len(encoded) % 4)\<close>, Python's non-negative remainder.\<close>

definition padding :: "string \<Rightarrow> string" where
  "padding encoded = replicate (nat (- int (length encoded) mod 4)) PAD"

definition verify_token :: "(string \<Rightarrow> bool) \<Rightarrow> string \<Rightarrow> bool" where
  "verify_token unsign token \<longleftrightarrow> starts_with PREFIX token
     \<and> (let encoded = drop 4 token in
        case urlsafe_b64decode (encoded @ padding encoded) of None \<Rightarrow> False | Some signed \<Rightarrow> unsign signed)"

section \<open>Round trip\<close>

lemma code_less: "code c < 256"
  by (simp add: code_def)

lemma byte_code [simp]: "byte (code c) = c"
  by (simp add: byte_def code_def)

lemma b64_char_code:
  "n < 64 \<Longrightarrow> code (b64_char n) = (if n < 26 then 65 + n else if n < 52 then 71 + n else if n < 62 then n - 4 else if n = 62 then 45 else 95)"
  by (simp add: b64_char_def code_def)

lemma b64_value_char [simp]: "n < 64 \<Longrightarrow> b64_value (b64_char n) = Some n"
  by (auto simp: b64_value_def b64_char_code Let_def)

lemma b64_char_not_pad [simp]: "n < 64 \<Longrightarrow> b64_char n \<noteq> PAD"
  using b64_char_code [of n] by (auto simp: PAD_def code_def split: if_splits)

lemma b64_char_ascii: "n < 64 \<Longrightarrow> code (b64_char n) < 128"
  by (auto simp: b64_char_code)

lemma sextets [simp]:
  "code a div 4 < 64" "code a mod 4 * 16 + code b div 16 < 64" "code b mod 16 * 4 + code c div 64 < 64" "code c mod 64 < 64"
  "code a mod 4 * 16 < 64" "code b mod 16 * 4 < 64"
  using code_less [of a] code_less [of b] code_less [of c] by auto

lemma high_bits:
  "code b div 16 div 16 = 0" "code b div 16 mod 16 = code b div 16" "code c div 64 div 4 = 0" "code c div 64 mod 4 = code c div 64"
  using code_less [of b] code_less [of c] by auto

lemma a2b_b64encode: "a2b (b64encode s) 0 0 0 out = Some (out @ s)"
  by (induction s arbitrary: out rule: b64encode.induct) (simp_all add: high_bits)

lemma pad_ascii: "code PAD < 128"
  by (simp add: PAD_def code_def)

lemma b64encode_ascii: "list_ex (\<lambda>c. 128 \<le> code c) (b64encode s) = False"
  by (induction s rule: b64encode.induct) (simp_all add: b64_char_ascii not_le pad_ascii)

lemma length_b64encode: "length (b64encode s) = 4 * ((length s + 2) div 3)"
  by (induction s rule: b64encode.induct) (simp_all, presburger)

text \<open>The encoding without its padding, which the token carries, and the padding that completes it.\<close>

fun b64_body :: "string \<Rightarrow> string" where
  "b64_body [] = []"
| "b64_body [a] = [b64_char (code a div 4), b64_char (code a mod 4 * 16)]"
| "b64_body [a, b] = [b64_char (code a div 4), b64_char (code a mod 4 * 16 + code b div 16), b64_char (code b mod 16 * 4)]"
| "b64_body (a # b # c # s) =
     [b64_char (code a div 4), b64_char (code a mod 4 * 16 + code b div 16),
      b64_char (code b mod 16 * 4 + code c div 64), b64_char (code c mod 64)] @ b64_body s"

lemma padding_shift: "padding (a # b # c # d # s) = padding s"
proof -
  have "- int (length (a # b # c # d # s)) = - int (length s) - 4" by simp
  then have "- int (length (a # b # c # d # s)) mod 4 = - int (length s) mod 4" by (metis minus_mod_self2)
  then show ?thesis by (simp only: padding_def)
qed

lemma b64encode_body: "b64encode s = b64_body s @ padding (b64_body s)"
  by (induction s rule: b64encode.induct) (simp_all add: padding_shift, simp_all add: padding_def numeral_2_eq_2)

lemma b64_body_last: "b64_body s = [] \<or> last (b64_body s) \<noteq> PAD"
  by (induction s rule: b64_body.induct) auto

lemma rstrip_pad_append: "s = [] \<or> last s \<noteq> PAD \<Longrightarrow> rstrip_pad (s @ replicate n PAD) = s"
proof -
  assume s: "s = [] \<or> last s \<noteq> PAD"
  have "dropWhile (\<lambda>c. c = PAD) (replicate n PAD @ t) = dropWhile (\<lambda>c. c = PAD) t" for t
    by (induction n) auto
  with s show ?thesis by (cases s rule: rev_cases) (auto simp: rstrip_pad_def)
qed

lemma rstrip_b64encode: "rstrip_pad (b64encode s) = b64_body s"
  using rstrip_pad_append [OF b64_body_last] by (simp add: b64encode_body padding_def)

lemma verify_new_token:
  assumes "unsign signed"
  shows "verify_token unsign (new_token signed)"
proof -
  let ?e = "b64_body signed"
  have "drop 4 (new_token signed) = ?e" and "starts_with PREFIX (new_token signed)"
    by (simp_all add: new_token_def PREFIX_def rstrip_b64encode)
  moreover have "urlsafe_b64decode (?e @ padding ?e) = Some signed"
    by (simp add: urlsafe_b64decode_def a2b_b64encode b64encode_ascii flip: b64encode_body)
  ultimately show ?thesis using assms by (simp add: verify_token_def)
qed

text \<open>
  A token that the server issues is one it accepts.  For every signed text that Django's signer
  accepts, taking the padding off its URL-safe base64 encoding and adding it back before the lenient
  decoding loses nothing, so \<open>verify_token\<close> accepts the token; and with at most 117 signed bytes the
  token stays within the 160 characters that the broker allows.
\<close>

theorem issued_token_verifies:
  assumes "unsign signed"
  shows "verify_token unsign (new_token signed) \<and> (length signed \<le> 117 \<longrightarrow> length (new_token signed) \<le> 160)"
proof -
  have "length (b64_body signed) \<le> 4 * ((length signed + 2) div 3)"
    using length_b64encode [of signed] by (simp add: b64encode_body)
  moreover have "(length signed + 2) div 3 \<le> 39" if "length signed \<le> 117" using that by linarith
  ultimately have "length signed \<le> 117 \<longrightarrow> length (new_token signed) \<le> 160"
    by (fastforce simp: new_token_def PREFIX_def rstrip_b64encode)
  with verify_new_token [of unsign signed] assms show ?thesis by blast
qed

end
