(* ===== verification/Identity_Crypto.thy ===== *)
theory Identity_Crypto
  imports Capability_Token
begin

text \<open>
  \<open>backend/identity/crypto.py\<close>: the key ring and the envelope of a TOTP seed.  AES-256-GCM belongs to the
  cryptography package and is the record \<open>aead\<close>: encryption of a text under a key, a nonce and associated
  data, and decryption, which fails on a wrong tag.  The ring file is what \<open>json.loads\<close> reads before the
  duplicate check of \<open>object_pairs_hook\<close>, \<open>None\<close> when it cannot be read or parsed; its size in bytes comes
  with it.  A byte string is a \<open>char list\<close>.  Every failure is the one exception \<open>IdentityCryptoError\<close>.
\<close>

record aead =
  aes_encrypt :: "string \<Rightarrow> string \<Rightarrow> string \<Rightarrow> string \<Rightarrow> string"
  aes_decrypt :: "string \<Rightarrow> string \<Rightarrow> string \<Rightarrow> string \<Rightarrow> string option"

record key_ring =
  active_key_id :: string
  ring_keys :: "(string \<times> string) list"

definition ENVELOPE_FIELDS :: "string list" where
  "ENVELOPE_FIELDS = [''version'', ''algorithm'', ''key_id'', ''nonce'', ''ciphertext'']"

definition KEY_RING_FIELDS :: "string list" where
  "KEY_RING_FIELDS = [''active_key_id'', ''keys'']"

definition MAX_KEY_RING_BYTES :: nat where
  "MAX_KEY_RING_BYTES = 64 * 1024"

definition MAX_KEYS :: nat where
  "MAX_KEYS = 16"

definition MAX_TOTP_SEED_BYTES :: nat where
  "MAX_TOTP_SEED_BYTES = 128"

definition key_id_char :: "char \<Rightarrow> bool" where
  "key_id_char c \<longleftrightarrow> (let n = code c in 48 \<le> n \<and> n \<le> 57 \<or> 65 \<le> n \<and> n \<le> 90 \<or> 97 \<le> n \<and> n \<le> 122 \<or> c \<in> set ''._-'')"

definition key_id_ok :: "string \<Rightarrow> bool" where
  "key_id_ok s \<longleftrightarrow> 1 \<le> length s \<and> length s \<le> 64 \<and> list_all key_id_char s"

fun no_duplicates :: "json \<Rightarrow> bool" where
  "no_duplicates (JObj d) \<longleftrightarrow> distinct (map fst d) \<and> list_all (\<lambda>kv. no_duplicates (snd kv)) d"
| "no_duplicates (JList xs) \<longleftrightarrow> list_all no_duplicates xs"
| "no_duplicates _ \<longleftrightarrow> True"

definition decode_base64url :: "string \<Rightarrow> string option" where
  "decode_base64url v =
     (if v = [] \<or> PAD \<in> set v \<or> list_ex (\<lambda>c. b64_value c = None) v then None else a2b (v @ padding v) 0 0 0 [])"

definition encode_base64url :: "string \<Rightarrow> string" where
  "encode_base64url v = rstrip_pad (b64encode v)"

fun ring_entry :: "string \<times> json \<Rightarrow> (string \<times> string) option" where
  "ring_entry (kid, JStr v) =
     (if key_id_ok kid then (case decode_base64url v of Some k \<Rightarrow> if length k = 32 then Some (kid, k) else None | None \<Rightarrow> None) else None)"
| "ring_entry _ = None"

fun ring_entries :: "dict \<Rightarrow> (string \<times> string) list option" where
  "ring_entries [] = Some []"
| "ring_entries (kv # d) =
     (case ring_entry kv of None \<Rightarrow> None | Some k \<Rightarrow> (case ring_entries d of None \<Rightarrow> None | Some ks \<Rightarrow> Some (k # ks)))"

definition load_identity_key_ring :: "nat \<Rightarrow> json option \<Rightarrow> key_ring option" where
  "load_identity_key_ring bytes parsed =
     (case parsed of
        Some (JObj d) \<Rightarrow>
          if bytes > MAX_KEY_RING_BYTES \<or> \<not> no_duplicates (JObj d) \<or> set (map fst d) \<noteq> set KEY_RING_FIELDS then None
          else (case (dget d ''active_key_id'', dget d ''keys'') of
             (JStr a, JObj ks) \<Rightarrow>
               if \<not> key_id_ok a \<or> \<not> (1 \<le> length ks \<and> length ks \<le> MAX_KEYS) \<or> a \<notin> set (map fst ks) then None
               else map_option (\<lambda>keys. \<lparr>active_key_id = a, ring_keys = keys\<rparr>) (ring_entries ks)
           | _ \<Rightarrow> None)
      | _ \<Rightarrow> None)"

definition totp_aad :: "string \<Rightarrow> string \<Rightarrow> string" where
  "totp_aad owner_id device_id = ''civicloop.identity.totp-seed.v1'' @ [char_of (0 :: nat)] @ owner_id @ [char_of (0 :: nat)] @ device_id"

definition encrypt_totp_seed :: "aead \<Rightarrow> key_ring option \<Rightarrow> string \<Rightarrow> string \<Rightarrow> string \<Rightarrow> string \<Rightarrow> json option" where
  "encrypt_totp_seed ae ring nonce seed owner_id device_id =
     (if \<not> (1 \<le> length seed \<and> length seed \<le> MAX_TOTP_SEED_BYTES) then None
      else case ring of
        None \<Rightarrow> None
      | Some r \<Rightarrow>
          (case map_of (ring_keys r) (active_key_id r) of
             None \<Rightarrow> None
           | Some k \<Rightarrow> Some (JObj
               [(''version'', JInt 1), (''algorithm'', JStr ''AES-256-GCM''), (''key_id'', JStr (active_key_id r)),
                (''nonce'', JStr (encode_base64url nonce)),
                (''ciphertext'', JStr (encode_base64url (aes_encrypt ae k nonce seed (totp_aad owner_id device_id))))])))"

text \<open>\<open>value == 1\<close> also holds for \<open>True\<close> and \<open>1.0\<close>.\<close>

definition equals_one :: "json \<Rightarrow> bool" where
  "equals_one v \<longleftrightarrow> v = JInt 1 \<or> v = JBool True \<or> v = JFloat 1"

definition decrypt_totp_seed :: "aead \<Rightarrow> key_ring option \<Rightarrow> json \<Rightarrow> string \<Rightarrow> string \<Rightarrow> string option" where
  "decrypt_totp_seed ae ring envelope owner_id device_id =
     (case envelope of
        JObj d \<Rightarrow>
          if set (map fst d) \<noteq> set ENVELOPE_FIELDS \<or> \<not> equals_one (dget d ''version'') \<or> dget d ''algorithm'' \<noteq> JStr ''AES-256-GCM'' then None
          else (case (dget d ''key_id'', dget d ''nonce'', dget d ''ciphertext'') of
             (JStr kid, JStr en, JStr ec) \<Rightarrow>
               (case ring of
                  None \<Rightarrow> None
                | Some r \<Rightarrow>
                    (case (map_of (ring_keys r) kid, decode_base64url en, decode_base64url ec) of
                       (Some k, Some nonce, Some ciphertext) \<Rightarrow>
                         if length nonce \<noteq> 12 \<or> length ciphertext < 17 then None
                         else aes_decrypt ae k nonce ciphertext (totp_aad owner_id device_id)
                     | _ \<Rightarrow> None))
           | _ \<Rightarrow> None)
      | _ \<Rightarrow> None)"

section \<open>Round trip\<close>

lemma b64_body_chars: "c \<in> set (b64_body s) \<Longrightarrow> b64_value c \<noteq> None \<and> c \<noteq> PAD"
  by (induction s rule: b64_body.induct) auto

lemma b64_body_Nil: "b64_body s = [] \<longleftrightarrow> s = []"
  by (cases s rule: b64_body.cases) auto

lemma decode_encode_base64url: "v \<noteq> [] \<Longrightarrow> decode_base64url (encode_base64url v) = Some v"
  using b64_body_chars [of _ v] a2b_b64encode [of v "[]"]
  by (auto simp: decode_base64url_def encode_base64url_def rstrip_b64encode b64_body_Nil list_ex_iff simp flip: b64encode_body)

lemma ring_entries_map_of:
  assumes "ring_entries d = Some ks"
  shows "map fst ks = map fst d" and "k \<in> set ks \<Longrightarrow> length (snd k) = 32 \<and> key_id_ok (fst k)"
proof -
  have entry: "ring_entry kv = Some k \<Longrightarrow> fst k = fst kv \<and> length (snd k) = 32 \<and> key_id_ok (fst k)" for kv k
    by (cases kv rule: ring_entry.cases) (auto split: option.splits if_splits)
  have "map fst ks = map fst d \<and> (\<forall>k \<in> set ks. length (snd k) = 32 \<and> key_id_ok (fst k))"
    using assms
  proof (induction d arbitrary: ks)
    case (Cons kv d)
    then obtain k ks' where "ring_entry kv = Some k" "ring_entries d = Some ks'" "ks = k # ks'" by (auto split: option.splits)
    with Cons.IH entry [of kv k] show ?case by auto
  qed simp
  then show "map fst ks = map fst d" and "k \<in> set ks \<Longrightarrow> length (snd k) = 32 \<and> key_id_ok (fst k)" by auto
qed

text \<open>A ring that was loaded has between one and sixteen keys of 32 bytes, and its active key is one of them.\<close>

lemma loaded_ring:
  assumes "load_identity_key_ring bytes parsed = Some r"
  shows "active_key_id r \<in> set (map fst (ring_keys r)) \<and> 1 \<le> length (ring_keys r) \<and> length (ring_keys r) \<le> 16
    \<and> (\<forall>k \<in> set (ring_keys r). length (snd k) = 32 \<and> key_id_ok (fst k))"
proof -
  obtain ks keys a where "ring_entries ks = Some keys" "a \<in> set (map fst ks)" "1 \<le> length ks" "length ks \<le> MAX_KEYS"
    "r = \<lparr>active_key_id = a, ring_keys = keys\<rparr>"
    using assms by (auto simp: load_identity_key_ring_def split: option.splits json.splits if_splits)
  with ring_entries_map_of [OF this(1)] show ?thesis by (metis MAX_KEYS_def length_map key_ring.select_convs)
qed

text \<open>
  A sealed TOTP seed opens again, for its owner and device, as long as the key stays in the ring.  If
  decryption inverts encryption and a ciphertext is at least 16 bytes longer than its text, then for every
  loaded key ring and every seed of 1 to 128 bytes the envelope is produced, and any later ring that still
  has the key under its id, whichever key is active by then, opens it to the same seed.
\<close>

theorem seed_roundtrip:
  assumes "\<And>k n m a. aes_decrypt ae k n (aes_encrypt ae k n m a) a = Some m"
    and "\<And>k n m a. length (aes_encrypt ae k n m a) \<ge> length m + 16"
    and "load_identity_key_ring bytes parsed = Some r" and "length nonce = 12" and "1 \<le> length seed" and "length seed \<le> 128"
    and "map_of (ring_keys r2) (active_key_id r) = map_of (ring_keys r) (active_key_id r)"
  shows "\<exists>envelope. encrypt_totp_seed ae (Some r) nonce seed owner device = Some envelope
    \<and> decrypt_totp_seed ae (Some r2) envelope owner device = Some seed"
proof -
  obtain k where k: "map_of (ring_keys r) (active_key_id r) = Some k"
    using loaded_ring [OF assms(3)] by (auto simp: weak_map_of_SomeI dest: weak_map_of_SomeI)
  let ?c = "aes_encrypt ae k nonce seed (totp_aad owner device)"
  have len: "17 \<le> length ?c" using assms(2) [of seed k nonce "totp_aad owner device"] assms(5) by linarith
  then have ne: "?c \<noteq> []" "nonce \<noteq> []" using assms(4) by auto
  define env where "env = [(''version'', JInt 1), (''algorithm'', JStr ''AES-256-GCM''), (''key_id'', JStr (active_key_id r)),
    (''nonce'', JStr (encode_base64url nonce)), (''ciphertext'', JStr (encode_base64url ?c))]"
  have "encrypt_totp_seed ae (Some r) nonce seed owner device = Some (JObj env)"
    using k assms(5,6) by (simp add: encrypt_totp_seed_def env_def MAX_TOTP_SEED_BYTES_def)
  moreover have "set (map fst env) = set ENVELOPE_FIELDS" "equals_one (dget env ''version'')" "dget env ''algorithm'' = JStr ''AES-256-GCM''"
    "dget env ''key_id'' = JStr (active_key_id r)" "dget env ''nonce'' = JStr (encode_base64url nonce)"
    "dget env ''ciphertext'' = JStr (encode_base64url ?c)"
    by (simp_all add: env_def ENVELOPE_FIELDS_def equals_one_def dget_def)
  then have "decrypt_totp_seed ae (Some r2) (JObj env) owner device = Some seed"
    using k assms(4,7) len by (simp add: decrypt_totp_seed_def decode_encode_base64url ne assms(1))
  ultimately show ?thesis by blast
qed

definition plain_aead :: aead where
  "plain_aead = \<lparr>aes_encrypt = (\<lambda>k n m a. replicate 16 CHR ''t'' @ m), aes_decrypt = (\<lambda>k n c a. Some (drop 16 c))\<rparr>"

definition sample_ring :: key_ring where
  "sample_ring = \<lparr>active_key_id = ''k'', ring_keys = [(''k'', replicate 32 CHR ''a'')]\<rparr>"

lemma sample_ring_loads:
  "load_identity_key_ring 100 (Some (JObj [(''active_key_id'', JStr ''k''), (''keys'', JObj [(''k'', JStr (encode_base64url (replicate 32 CHR ''a'')))])]))
     = Some sample_ring"
proof -
  have "replicate 32 CHR ''a'' \<noteq> []" by simp
  note d = decode_encode_base64url [OF this]
  have "key_id_ok ''k''" by code_simp
  with d show ?thesis by (simp add: load_identity_key_ring_def MAX_KEY_RING_BYTES_def KEY_RING_FIELDS_def MAX_KEYS_def dget_def sample_ring_def)
qed

end
