(* ===== verification/Identity.thy ===== *)
theory Identity
  imports Draft_Ops Identity_Crypto "HOL-Library.Product_Lexorder"
begin

text \<open>
  Owner identity: \<open>backend/identity/models.py\<close>, \<open>rate_limits.py\<close>, \<open>request_context.py\<close> and the services
  \<open>security.py\<close>, \<open>sessions.py\<close>, \<open>credentials.py\<close>, \<open>authentication.py\<close> and \<open>security_actions.py\<close>.

  The state is one record: the tables, Django's session store, the rate limit cache, and the request that
  is being served (its session data as loaded from the store, its peer and the owner session the
  middleware found).  A service is a program on that state that returns a value or raises;
  \<open>p_atomic\<close> is \<open>transaction.atomic\<close>: it undoes the tables and the session store, not the cache and not the
  request in memory.  One request reads the clock once; times are in microseconds.

  What is not in the repository is the record \<open>id_env\<close>: password hashing, its policy and the cleaning of a user row, the TOTP check of
  django-otp (the accepted time step and drift for a token that is not older than \<open>min_t\<close>), AES-GCM and the
  key ring file, the HMAC of the rate limit keys, \<open>ip_address\<close>, whether the cache answers, and the settings.
  Generated keys, ids, secrets and random draws are arguments.  Of Django's sessions the documented effect
  of \<open>save\<close>, \<open>flush\<close>, \<open>cycle_key\<close>, \<open>login\<close> and \<open>logout\<close> is written out.
\<close>

section \<open>State\<close>

record i_user =
  u_pk :: nat
  u_name :: string
  u_email :: string
  u_password :: string
  u_active :: bool

record owner_session = admin_session +
  os_key :: string
  os_authenticated :: "int option"
  os_activity :: "int option"
  os_fresh :: "int option"
  os_label :: string
  os_agent :: string
  os_ip :: "string option"
  os_created :: int

record totp_device =
  dv_pk :: uuid
  dv_profile :: uuid
  dv_name :: string
  dv_envelope :: json
  dv_confirmed :: bool
  dv_drift :: int
  dv_last_t :: int
  dv_created :: int
  dv_confirmed_at :: "int option"
  dv_last_used :: "int option"
  dv_replaced :: "int option"
  dv_disabled :: "int option"
  dv_failures :: nat
  dv_failed_at :: "int option"

record recovery_code =
  rc_profile :: uuid
  rc_batch :: uuid
  rc_public :: string
  rc_secret :: string
  rc_consumed :: "int option"
  rc_invalidated :: "int option"

record security_event =
  ev_pk :: uuid
  ev_profile :: "uuid option"
  ev_user :: "nat option"
  ev_action :: string
  ev_outcome :: string
  ev_target_type :: string
  ev_target_id :: string
  ev_details :: dict
  ev_ip :: "string option"
  ev_session :: "uuid option"
  ev_created :: int

text \<open>The value under \<open>PREAUTH_SESSION_KEY\<close>, which only \<open>verify_owner_password\<close> writes: the stage is always \<open>password_verified\<close>.\<close>

record preauth =
  pa_owner :: uuid
  pa_issued :: int
  pa_expires :: int

record web_session =
  ws_key :: string
  ws_user :: "nat option"
  ws_preauth :: "preauth option"
  ws_admin :: "uuid option"

record id_request =
  rq_key :: "string option"
  rq_user :: "nat option"
  rq_preauth :: "preauth option"
  rq_admin :: "uuid option"
  rq_agent :: string
  rq_peer :: "string option"
  rq_forwarded :: "string option"
  rq_meta :: "uuid option"

record limit_entry =
  lm_key :: string
  lm_count :: nat
  lm_expires :: int

record idw =
  i_users :: "i_user list"
  i_profiles :: "admin_profile list"
  i_devices :: "totp_device list"
  i_codes :: "recovery_code list"
  i_sessions :: "owner_session list"
  i_events :: "security_event list"
  i_web :: "web_session list"
  i_limits :: "limit_entry list"
  i_rq :: id_request

record id_env =
  make_password :: "string \<Rightarrow> string"
  check_password :: "string \<Rightarrow> string \<Rightarrow> bool"
  password_ok :: "i_user \<Rightarrow> string \<Rightarrow> bool"
  password_messages :: "i_user \<Rightarrow> string \<Rightarrow> string"
  normalize_username :: "string \<Rightarrow> string"
  normalize_email :: "string \<Rightarrow> string"
  user_clean :: "i_user \<Rightarrow> bool"
  totp_verify :: "string \<Rightarrow> int \<Rightarrow> int \<Rightarrow> nat \<Rightarrow> int \<Rightarrow> (int \<times> int) option"
  cipher :: aead
  ring :: "key_ring option"
  hmac_hex :: "string \<Rightarrow> string"
  ip_compressed :: "string \<Rightarrow> string option"
  cache_up :: bool
  identity_enabled :: bool
  trusted_proxies :: "string list"
  py :: py_env

datatype id_error =
    VerificationFailed
  | IdentityInvalid
  | IdentityCrypto
  | IdentityUnavailable
  | IdentityRateLimited int
  | FreshnessRequired
  | CredentialMismatch
  | IdentityValidation string
  | IdMissing
  | IdIntegrity
  | NotReturned

section \<open>Programs\<close>

type_synonym 'a prog = "idw \<Rightarrow> idw \<times> (id_error + 'a)"

definition p_ret :: "'a \<Rightarrow> 'a prog" where
  "p_ret v w = (w, Inr v)"

definition p_raise :: "id_error \<Rightarrow> 'a prog" where
  "p_raise x w = (w, Inl x)"

definition p_bind :: "'a prog \<Rightarrow> ('a \<Rightarrow> 'b prog) \<Rightarrow> 'b prog" where
  "p_bind m f w = (case m w of (w', Inl x) \<Rightarrow> (w', Inl x) | (w', Inr v) \<Rightarrow> f v w')"

definition p_mod :: "(idw \<Rightarrow> idw) \<Rightarrow> unit prog" where
  "p_mod f w = (f w, Inr ())"

definition p_get :: "(idw \<Rightarrow> 'a) \<Rightarrow> 'a prog" where
  "p_get f w = (w, Inr (f w))"

definition p_option :: "id_error \<Rightarrow> 'a option \<Rightarrow> 'a prog" where
  "p_option x v = (case v of None \<Rightarrow> p_raise x | Some a \<Rightarrow> p_ret a)"

definition p_guard :: "id_error \<Rightarrow> bool \<Rightarrow> unit prog" where
  "p_guard x b = (if b then p_ret () else p_raise x)"

definition p_atomic :: "'a prog \<Rightarrow> 'a prog" where
  "p_atomic m w = (case m w of
     (w', Inr v) \<Rightarrow> (w', Inr v)
   | (w', Inl x) \<Rightarrow> (w\<lparr>i_limits := i_limits w', i_rq := i_rq w'\<rparr>, Inl x))"

text \<open>\<open>except IdentityError\<close>: every error but those of the database (and a loop that has not returned).\<close>

definition is_identity_error :: "id_error \<Rightarrow> bool" where
  "is_identity_error x \<longleftrightarrow> x \<noteq> IdMissing \<and> x \<noteq> IdIntegrity \<and> x \<noteq> NotReturned"

definition p_except :: "'a prog \<Rightarrow> (id_error \<Rightarrow> 'a prog) \<Rightarrow> 'a prog" where
  "p_except m h w = (case m w of (w', Inl x) \<Rightarrow> if is_identity_error x then h x w' else (w', Inl x) | r \<Rightarrow> r)"

definition seconds :: "int \<Rightarrow> int" where
  "seconds n = n * 1000000"

definition ADMIN_PREAUTH_SECONDS :: int where "ADMIN_PREAUTH_SECONDS = 5 * 60"
definition ADMIN_IDLE_SECONDS :: int where "ADMIN_IDLE_SECONDS = 30 * 60"
definition ADMIN_ABSOLUTE_SECONDS :: int where "ADMIN_ABSOLUTE_SECONDS = 12 * 60 * 60"
definition ADMIN_FRESH_SECONDS :: int where "ADMIN_FRESH_SECONDS = 10 * 60"
definition ADMIN_ACTIVITY_UPDATE_SECONDS :: int where "ADMIN_ACTIVITY_UPDATE_SECONDS = 60"

section \<open>The peer of a request\<close>

definition normalized_ip :: "id_env \<Rightarrow> string option \<Rightarrow> string option" where
  "normalized_ip e v = (case v of
     None \<Rightarrow> None
   | Some t \<Rightarrow> if t = [] \<or> t \<noteq> strip t \<or> CHR '','' \<in> set t then None else ip_compressed e t)"

definition source_ip :: "id_env \<Rightarrow> id_request \<Rightarrow> string option" where
  "source_ip e r = (case normalized_ip e (rq_peer r) of
     None \<Rightarrow> None
   | Some p \<Rightarrow> if p \<notin> set (trusted_proxies e) then Some p else normalized_ip e (rq_forwarded r))"

section \<open>Rate limits\<close>

definition PASSWORD_LIMIT :: nat where "PASSWORD_LIMIT = 5"
definition PASSWORD_WINDOW_SECONDS :: int where "PASSWORD_WINDOW_SECONDS = 5 * 60"
definition RECOVERY_LIMIT :: nat where "RECOVERY_LIMIT = 5"
definition RECOVERY_WINDOW_SECONDS :: int where "RECOVERY_WINDOW_SECONDS = 15 * 60"

definition NUL :: string where
  "NUL = [char_of (0 :: nat)]"

definition scope_key :: "id_env \<Rightarrow> string \<Rightarrow> string list \<Rightarrow> string" where
  "scope_key e kind values = ''civicloop:identity:rate:'' @ kind @ '':'' @ hmac_hex e (''civicloop.identity.rate.v1'' @ NUL @ join_with NUL values)"

text \<open>\<open>cache.add\<close> with a timeout, else \<open>cache.incr\<close>, which keeps the timeout of the entry.\<close>

definition live_entry :: "int \<Rightarrow> string \<Rightarrow> limit_entry \<Rightarrow> bool" where
  "live_entry now k l \<longleftrightarrow> lm_key l = k \<and> now < lm_expires l"

definition count_attempt :: "int \<Rightarrow> string \<Rightarrow> int \<Rightarrow> limit_entry list \<Rightarrow> nat \<times> limit_entry list" where
  "count_attempt now k window ls = (case find (live_entry now k) ls of
     None \<Rightarrow> (1, \<lparr>lm_key = k, lm_count = 1, lm_expires = now + seconds window\<rparr> # filter (\<lambda>l. lm_key l \<noteq> k) ls)
   | Some l \<Rightarrow> (lm_count l + 1, l\<lparr>lm_count := lm_count l + 1\<rparr> # filter (\<lambda>l. lm_key l \<noteq> k) ls))"

definition check_limit :: "id_env \<Rightarrow> int \<Rightarrow> string \<Rightarrow> nat \<Rightarrow> int \<Rightarrow> string prog" where
  "check_limit e now k maximum window w =
     (if \<not> cache_up e then (w, Inl IdentityUnavailable)
      else let (n, ls) = count_attempt now k window (i_limits w) in
        (w\<lparr>i_limits := ls\<rparr>, if n > maximum then Inl (IdentityRateLimited window) else Inr k))"

definition casefold :: "string \<Rightarrow> string" where
  "casefold s = concat (map (\<lambda>c. if code c = 223 then ''ss'' else [lower_char c]) s)"

definition check_password_limit :: "id_env \<Rightarrow> int \<Rightarrow> string \<Rightarrow> string option \<Rightarrow> string prog" where
  "check_password_limit e now owner ip =
     check_limit e now (scope_key e ''password'' [strip (casefold owner), case ip of None \<Rightarrow> ''unknown'' | Some t \<Rightarrow> if t = [] then ''unknown'' else t])
       PASSWORD_LIMIT PASSWORD_WINDOW_SECONDS"

definition check_recovery_limit :: "id_env \<Rightarrow> int \<Rightarrow> uuid \<Rightarrow> string option \<Rightarrow> string prog" where
  "check_recovery_limit e now owner ip =
     check_limit e now (scope_key e ''recovery'' [owner, case ip of None \<Rightarrow> ''unknown'' | Some t \<Rightarrow> if t = [] then ''unknown'' else t])
       RECOVERY_LIMIT RECOVERY_WINDOW_SECONDS"

definition record_limit_success :: "id_env \<Rightarrow> string \<Rightarrow> unit prog" where
  "record_limit_success e k w =
     (if \<not> cache_up e then (w, Inl IdentityUnavailable) else (w\<lparr>i_limits := filter (\<lambda>l. lm_key l \<noteq> k) (i_limits w)\<rparr>, Inr ()))"

section \<open>Security events\<close>

definition SENSITIVE_DETAIL_KEYS :: "string list" where
  "SENSITIVE_DETAIL_KEYS = [''authorization'', ''ciphertext'', ''cookie'', ''encrypted_seed'', ''key_id'', ''manual_secret'', ''otp'',
     ''password'', ''recovery_code'', ''recovery_codes'', ''secret'', ''seed'', ''session_key'', ''token'', ''totp'', ''totp_token'', ''user_agent'']"

definition MAX_DETAIL_DEPTH :: nat where "MAX_DETAIL_DEPTH = 3"
definition MAX_DETAIL_ITEMS :: nat where "MAX_DETAIL_ITEMS = 50"
definition MAX_DETAIL_STRING_LENGTH :: nat where "MAX_DETAIL_STRING_LENGTH = 256"
definition MAX_SERIALIZED_DETAIL_BYTES :: nat where "MAX_SERIALIZED_DETAIL_BYTES = 4096"

definition action_ok :: "string \<Rightarrow> bool" where
  "action_ok s \<longleftrightarrow> 1 \<le> length s \<and> length s \<le> 100 \<and> list_all (\<lambda>c. (let n = code c in 48 \<le> n \<and> n \<le> 57 \<or> 97 \<le> n \<and> n \<le> 122) \<or> c \<in> set ''_.-'') s"

definition detail_key_ok :: "string \<Rightarrow> bool" where
  "detail_key_ok s \<longleftrightarrow> 1 \<le> length s \<and> length s \<le> 64 \<and> list_all key_id_char s"

definition normalized_key :: "string \<Rightarrow> string" where
  "normalized_key k = map (\<lambda>c. if c = CHR ''-'' \<or> c = CHR ''.'' then CHR ''_'' else c) (casefold k)"

definition too_deep :: "nat \<Rightarrow> nat \<Rightarrow> bool" where
  "too_deep depth items \<longleftrightarrow> items + 1 > MAX_DETAIL_ITEMS \<or> depth > MAX_DETAIL_DEPTH"

text \<open>\<open>_sanitize_detail\<close>: the argument and the result are the count of the items seen; the value is returned as it is.\<close>

fun sanitize :: "json \<Rightarrow> nat \<Rightarrow> nat \<Rightarrow> nat option"
  and sanitize_list :: "json list \<Rightarrow> nat \<Rightarrow> nat \<Rightarrow> nat option"
  and sanitize_dict :: "(string \<times> json) list \<Rightarrow> nat \<Rightarrow> nat \<Rightarrow> nat option" where
  "sanitize (JStr s) depth items = (if too_deep depth items \<or> length s > MAX_DETAIL_STRING_LENGTH then None else Some (items + 1))"
| "sanitize (JList xs) depth items = (if too_deep depth items then None else sanitize_list xs (depth + 1) (items + 1))"
| "sanitize (JObj d) depth items = (if too_deep depth items then None else sanitize_dict d (depth + 1) (items + 1))"
| "sanitize (JFloat x) depth items = None"
| "sanitize (JInt i) depth items = (if too_deep depth items then None else Some (items + 1))"
| "sanitize (JBool b) depth items = (if too_deep depth items then None else Some (items + 1))"
| "sanitize JNull depth items = (if too_deep depth items then None else Some (items + 1))"
| "sanitize_list [] depth items = Some items"
| "sanitize_list (x # xs) depth items = Option.bind (sanitize x depth items) (sanitize_list xs depth)"
| "sanitize_dict [] depth items = Some items"
| "sanitize_dict (kv # d) depth items =
     (if \<not> detail_key_ok (fst kv) \<or> normalized_key (fst kv) \<in> set SENSITIVE_DETAIL_KEYS then None
      else Option.bind (sanitize (snd kv) depth items) (sanitize_dict d depth))"

text \<open>The order of the keys, which the encoding here sorts, does not change its length.\<close>

definition safe_details :: "id_env \<Rightarrow> dict \<Rightarrow> dict option" where
  "safe_details e d = (if sanitize (JObj d) 0 0 = None \<or> length (json_dumps (py e) (JObj d)) > MAX_SERIALIZED_DETAIL_BYTES then None else Some d)"

definition OUTCOMES :: "string list" where
  "OUTCOMES = [''success'', ''failure'', ''denied'', ''unavailable'']"

definition record_security_event ::
  "id_env \<Rightarrow> int \<Rightarrow> uuid \<Rightarrow> string \<Rightarrow> string \<Rightarrow> admin_profile option \<Rightarrow> string option \<Rightarrow> uuid option \<Rightarrow> string \<Rightarrow> string \<Rightarrow> dict \<Rightarrow> unit prog" where
  "record_security_event e now eid action result owner ip sid ttype tid details w =
     (if \<not> action_ok action \<or> result \<notin> set OUTCOMES \<or> length ttype > 64 \<or> length tid > 100 then (w, Inl IdentityInvalid)
      else case safe_details e details of
        None \<Rightarrow> (w, Inl IdentityInvalid)
      | Some ds \<Rightarrow> (w\<lparr>i_events := i_events w @ [\<lparr>ev_pk = eid, ev_profile = map_option pf_pk owner, ev_user = map_option pf_user owner,
          ev_action = action, ev_outcome = result, ev_target_type = ttype, ev_target_id = tid, ev_details = ds, ev_ip = ip,
          ev_session = sid, ev_created = now\<rparr>]\<rparr>, Inr ()))"

text \<open>\<open>list_security_events\<close>: newest first; the cursor is the last row of the page before, signed by Django.\<close>

definition newest_first :: "security_event list \<Rightarrow> security_event list" where
  "newest_first es = rev (sort_key (\<lambda>x. (ev_created x, ev_pk x)) es)"

definition before_cursor :: "(int \<times> uuid) option \<Rightarrow> security_event \<Rightarrow> bool" where
  "before_cursor cur x = (case cur of None \<Rightarrow> True | Some (t, i) \<Rightarrow> ev_created x < t \<or> ev_created x = t \<and> ev_pk x < i)"

definition list_security_events ::
  "uuid \<Rightarrow> (int \<times> uuid) option \<Rightarrow> nat \<Rightarrow> idw \<Rightarrow> id_error + security_event list \<times> (int \<times> uuid) option" where
  "list_security_events owner cur limit w =
     (if \<not> (1 \<le> limit \<and> limit \<le> 100) then Inl IdentityInvalid
      else let rows = take (limit + 1) (newest_first (filter (\<lambda>x. ev_profile x = Some owner \<and> before_cursor cur x) (i_events w)));
               page = take limit rows
           in Inr (page, if length rows > limit then Some (ev_created (last page), ev_pk (last page)) else None))"

end
