(* ===== verification/Identity_Auth.thy ===== *)
theory Identity_Auth
  imports Identity
begin

text \<open>
  Owner sessions, credentials, authentication and the owner's security actions:
  \<open>identity/services/sessions.py\<close>, \<open>credentials.py\<close>, \<open>authentication.py\<close>, \<open>security_actions.py\<close> and the
  middleware.  \<open>draws\<close> holds what a request generates: a session key, ids, a seed with its nonce, the
  candidates for public recovery ids and the recovery secrets.
\<close>

record draws =
  d_key :: string
  d_session :: uuid
  d_event :: uuid
  d_device :: uuid
  d_seed :: string
  d_nonce :: string
  d_batch :: uuid
  d_publics :: "string list"
  d_secrets :: "string list"
  d_user :: nat
  d_profile :: uuid

section \<open>Django's session\<close>

definition rq_upd :: "(id_request \<Rightarrow> id_request) \<Rightarrow> idw \<Rightarrow> idw" where
  "rq_upd f w = w\<lparr>i_rq := f (i_rq w)\<rparr>"

definition drop_web :: "string list \<Rightarrow> idw \<Rightarrow> idw" where
  "drop_web ks w = w\<lparr>i_web := filter (\<lambda>r. ws_key r \<notin> set ks) (i_web w)\<rparr>"

definition row_of :: "string \<Rightarrow> id_request \<Rightarrow> web_session" where
  "row_of k r = \<lparr>ws_key = k, ws_user = rq_user r, ws_preauth = rq_preauth r, ws_admin = rq_admin r\<rparr>"

definition session_save :: "string \<Rightarrow> idw \<Rightarrow> idw" where
  "session_save k w =
     (let key = (case rq_key (i_rq w) of None \<Rightarrow> k | Some x \<Rightarrow> x)
      in (rq_upd (\<lambda>r. r\<lparr>rq_key := Some key\<rparr>) w)\<lparr>i_web := row_of key (i_rq w) # filter (\<lambda>r. ws_key r \<noteq> key) (i_web w)\<rparr>)"

definition current_keys :: "idw \<Rightarrow> string list" where
  "current_keys w = (case rq_key (i_rq w) of None \<Rightarrow> [] | Some k \<Rightarrow> [k])"

definition session_flush :: "idw \<Rightarrow> idw" where
  "session_flush w = rq_upd (\<lambda>r. r\<lparr>rq_key := None, rq_user := None, rq_preauth := None, rq_admin := None\<rparr>) (drop_web (current_keys w) w)"

definition cycle_key :: "string \<Rightarrow> idw \<Rightarrow> idw" where
  "cycle_key k w = session_save k (rq_upd (\<lambda>r. r\<lparr>rq_key := None\<rparr>) (drop_web (current_keys w) w))"

definition django_login :: "string \<Rightarrow> nat \<Rightarrow> idw \<Rightarrow> idw" where
  "django_login k u w =
     rq_upd (\<lambda>r. r\<lparr>rq_user := Some u\<rparr>)
       (if rq_user (i_rq w) \<noteq> None \<and> rq_user (i_rq w) \<noteq> Some u then session_flush w else cycle_key k w)"

section \<open>Owner sessions\<close>

definition administrator_session_is_fresh :: "int \<Rightarrow> owner_session \<Rightarrow> bool" where
  "administrator_session_is_fresh now se = (case os_fresh se of None \<Rightarrow> False | Some t \<Rightarrow> t \<le> now \<and> now < t + seconds ADMIN_FRESH_SECONDS)"

definition browser_metadata :: "id_request \<Rightarrow> string \<times> string" where
  "browser_metadata r = (let agent = take 512 (rq_agent r); label = strip (take 160 agent) in (if label = [] then ''Unknown browser'' else label, agent))"

definition insert_session :: "owner_session \<Rightarrow> unit prog" where
  "insert_session se w = (if se_pk se \<in> set (map se_pk (i_sessions w)) \<or> os_key se \<in> set (map os_key (i_sessions w)) then (w, Inl IdIntegrity)
     else (w\<lparr>i_sessions := i_sessions w @ [se]\<rparr>, Inr ()))"

text \<open>\<open>update\<close> of a query set, and \<open>save(update_fields=..)\<close> of one row: the named columns of the rows that match.\<close>

definition update_sessions :: "(owner_session \<Rightarrow> bool) \<Rightarrow> (owner_session \<Rightarrow> owner_session) \<Rightarrow> idw \<Rightarrow> idw" where
  "update_sessions P f w = w\<lparr>i_sessions := map (\<lambda>se. if P se then f se else se) (i_sessions w)\<rparr>"

definition new_session :: "id_env \<Rightarrow> int \<Rightarrow> draws \<Rightarrow> admin_profile \<Rightarrow> int option \<Rightarrow> bool \<Rightarrow> id_request \<Rightarrow> owner_session" where
  "new_session e now dr p mfa restricted r =
     (let start = (case mfa of None \<Rightarrow> now | Some t \<Rightarrow> t);
          absolute = start + seconds ADMIN_ABSOLUTE_SECONDS
      in \<lparr>se_pk = d_session dr, se_profile = pf_pk p, se_mfa = mfa, se_absolute_expires = Some absolute,
          se_expires = Some (min (start + seconds ADMIN_IDLE_SECONDS) absolute), se_revoked = None, se_restricted = restricted,
          os_key = (case rq_key r of None \<Rightarrow> [] | Some k \<Rightarrow> k), os_authenticated = Some start, os_activity = Some start, os_fresh = None,
          os_label = fst (browser_metadata r), os_agent = snd (browser_metadata r), os_ip = source_ip e r, os_created = now\<rparr>)"

definition establish_administrator_session :: "id_env \<Rightarrow> int \<Rightarrow> draws \<Rightarrow> admin_profile \<Rightarrow> int option \<Rightarrow> bool \<Rightarrow> owner_session prog" where
  "establish_administrator_session e now dr p mfa restricted = p_atomic (
     p_bind (p_mod (\<lambda>w. if rq_key (i_rq w) = None then session_save (d_key dr) w else w)) (\<lambda>_.
     p_bind (p_get (\<lambda>w. new_session e now dr p mfa restricted (i_rq w))) (\<lambda>se.
     p_bind (insert_session se) (\<lambda>_.
     p_bind (p_mod (\<lambda>w. session_save (d_key dr) (rq_upd (\<lambda>r. r\<lparr>rq_admin := Some (se_pk se)\<rparr>) w))) (\<lambda>_.
       p_ret se)))))"

definition set_session_key :: "string \<Rightarrow> uuid \<Rightarrow> unit prog" where
  "set_session_key k pk w =
     (if k \<in> set (map os_key (filter (\<lambda>x. se_pk x \<noteq> pk) (i_sessions w))) then (w, Inl IdIntegrity)
      else (update_sessions (\<lambda>x. se_pk x = pk) (\<lambda>x. x\<lparr>os_key := k\<rparr>) w, Inr ()))"

definition get_session :: "uuid \<Rightarrow> owner_session prog" where
  "get_session pk w = (case tfind se_pk pk (i_sessions w) of None \<Rightarrow> (w, Inl IdMissing) | Some se \<Rightarrow> (w, Inr se))"

definition rotate_administrator_session :: "draws \<Rightarrow> uuid \<Rightarrow> unit prog" where
  "rotate_administrator_session dr pk = p_atomic (
     p_bind (get_session pk) (\<lambda>se.
     p_bind (p_mod (\<lambda>w. session_save (d_key dr) (rq_upd (\<lambda>r. r\<lparr>rq_admin := Some (se_pk se)\<rparr>) (cycle_key (d_key dr) w)))) (\<lambda>_.
       set_session_key (d_key dr) (se_pk se))))"

definition revoke_where :: "(owner_session \<Rightarrow> bool) \<Rightarrow> int \<Rightarrow> idw \<Rightarrow> idw" where
  "revoke_where P now = update_sessions (\<lambda>se. P se \<and> se_revoked se = None) (\<lambda>se. se\<lparr>se_revoked := Some now\<rparr>)"

definition invalidate_request_session :: "owner_session option \<Rightarrow> int \<Rightarrow> idw \<Rightarrow> idw" where
  "invalidate_request_session m now w =
     session_flush (case m of None \<Rightarrow> w | Some se \<Rightarrow> revoke_where (\<lambda>x. se_pk x = se_pk se) now w)"

definition session_invalid :: "int \<Rightarrow> id_request \<Rightarrow> admin_profile \<Rightarrow> owner_session \<Rightarrow> bool" where
  "session_invalid now r p se \<longleftrightarrow> rq_key r \<noteq> Some (os_key se) \<or> se_revoked se \<noteq> None
     \<or> (case se_expires se of None \<Rightarrow> True | Some t \<Rightarrow> t \<le> now)
     \<or> (case se_absolute_expires se of None \<Rightarrow> True | Some t \<Rightarrow> t \<le> now)
     \<or> pf_status p = ''disabled''"

definition touch_session :: "id_env \<Rightarrow> int \<Rightarrow> id_request \<Rightarrow> owner_session \<Rightarrow> owner_session" where
  "touch_session e now r se =
     (if case os_activity se of None \<Rightarrow> True | Some t \<Rightarrow> now - t \<ge> seconds ADMIN_ACTIVITY_UPDATE_SECONDS
      then se\<lparr>os_activity := Some now,
              se_expires := map_option (\<lambda>a. min (now + seconds ADMIN_IDLE_SECONDS) a) (se_absolute_expires se), os_ip := source_ip e r\<rparr>
      else se)"

definition enforce_administrator_session :: "id_env \<Rightarrow> int \<Rightarrow> idw \<Rightarrow> idw \<times> owner_session option" where
  "enforce_administrator_session e now w =
     (if \<not> identity_enabled e then (w, None)
      else case rq_user (i_rq w) of
        None \<Rightarrow> (w, None)
      | Some u \<Rightarrow>
          (case tfind pf_user u (i_profiles w) of
             None \<Rightarrow> (w, None)
           | Some p \<Rightarrow>
               let m = (case rq_admin (i_rq w) of None \<Rightarrow> None
                  | Some a \<Rightarrow> find (\<lambda>se. se_pk se = a \<and> se_profile se = pf_pk p) (i_sessions w))
               in case m of
                    None \<Rightarrow> (invalidate_request_session None now w, None)
                  | Some se \<Rightarrow>
                      if session_invalid now (i_rq w) p se then (invalidate_request_session (Some se) now w, None)
                      else let w' = update_sessions (\<lambda>x. se_pk x = se_pk se) (touch_session e now (i_rq w)) w in (w', tfind se_pk (se_pk se) (i_sessions w'))))"

text \<open>The middleware: the session data of the cookie's key, then \<open>process_request\<close>.  Only an active user is authenticated.\<close>

definition load_request :: "string option \<Rightarrow> string \<Rightarrow> string option \<Rightarrow> string option \<Rightarrow> idw \<Rightarrow> id_request" where
  "load_request cookie agent peer forwarded w =
     (case (case cookie of None \<Rightarrow> None | Some k \<Rightarrow> tfind ws_key k (i_web w)) of
        None \<Rightarrow> \<lparr>rq_key = None, rq_user = None, rq_preauth = None, rq_admin = None, rq_agent = agent, rq_peer = peer, rq_forwarded = forwarded, rq_meta = None\<rparr>
      | Some ws \<Rightarrow> \<lparr>rq_key = Some (ws_key ws),
          rq_user = (case ws_user ws of None \<Rightarrow> None | Some u \<Rightarrow> (case tfind u_pk u (i_users w) of Some x \<Rightarrow> if u_active x then Some u else None | None \<Rightarrow> None)),
          rq_preauth = ws_preauth ws, rq_admin = ws_admin ws, rq_agent = agent, rq_peer = peer, rq_forwarded = forwarded, rq_meta = None\<rparr>)"

definition process_request :: "id_env \<Rightarrow> int \<Rightarrow> string option \<Rightarrow> string \<Rightarrow> string option \<Rightarrow> string option \<Rightarrow> idw \<Rightarrow> idw" where
  "process_request e now cookie agent peer forwarded w =
     (case enforce_administrator_session e now (w\<lparr>i_rq := load_request cookie agent peer forwarded w\<rparr>) of
        (w', m) \<Rightarrow> rq_upd (\<lambda>r. r\<lparr>rq_meta := map_option se_pk m\<rparr>) w')"

definition RECOVERY_ROUTE_ALLOWLIST :: "string list" where
  "RECOVERY_ROUTE_ALLOWLIST = [''admin-auth-logout'', ''admin-security-status'', ''admin-totp-confirmation'', ''admin-totp-enrollment'']"

text \<open>\<open>process_view\<close> lets the view run.\<close>

definition view_allowed :: "id_env \<Rightarrow> string \<Rightarrow> idw \<Rightarrow> bool" where
  "view_allowed e view w = (case rq_meta (i_rq w) of None \<Rightarrow> True
     | Some pk \<Rightarrow> (case tfind se_pk pk (i_sessions w) of None \<Rightarrow> True
         | Some se \<Rightarrow> \<not> (identity_enabled e \<and> se_restricted se \<and> view \<notin> set RECOVERY_ROUTE_ALLOWLIST)))"

definition revoke_session :: "id_env \<Rightarrow> int \<Rightarrow> draws \<Rightarrow> admin_profile \<Rightarrow> uuid \<Rightarrow> uuid option \<Rightarrow> owner_session prog" where
  "revoke_session e now dr p public_id actor = p_atomic (
     p_bind (p_get (\<lambda>w. find (\<lambda>se. se_pk se = public_id \<and> se_profile se = pf_pk p) (i_sessions w))) (\<lambda>found.
     p_bind (p_option IdMissing found) (\<lambda>se.
     p_bind (p_mod (\<lambda>w. drop_web [os_key se] (revoke_where (\<lambda>x. se_pk x = se_pk se) now w))) (\<lambda>_.
     p_bind (record_security_event e now (d_event dr) ''owner_session_revoked'' ''success'' (Some p) None actor ''administrator_session'' (se_pk se) []) (\<lambda>_.
       p_ret se)))))"

section \<open>Credentials\<close>

definition get_device :: "uuid \<Rightarrow> totp_device prog" where
  "get_device pk w = (case tfind dv_pk pk (i_devices w) of None \<Rightarrow> (w, Inl IdMissing) | Some d \<Rightarrow> (w, Inr d))"

definition update_devices :: "(totp_device \<Rightarrow> bool) \<Rightarrow> (totp_device \<Rightarrow> totp_device) \<Rightarrow> idw \<Rightarrow> idw" where
  "update_devices P f w = w\<lparr>i_devices := map (\<lambda>d. if P d then f d else d) (i_devices w)\<rparr>"

definition new_device :: "int \<Rightarrow> draws \<Rightarrow> admin_profile \<Rightarrow> string \<Rightarrow> json \<Rightarrow> totp_device" where
  "new_device now dr p name envelope =
     \<lparr>dv_pk = d_device dr, dv_profile = pf_pk p, dv_name = name, dv_envelope = envelope, dv_confirmed = False, dv_drift = 0, dv_last_t = -1,
      dv_created = now, dv_confirmed_at = None, dv_last_used = None, dv_replaced = None, dv_disabled = None, dv_failures = 0, dv_failed_at = None\<rparr>"

definition begin_totp_enrollment :: "id_env \<Rightarrow> int \<Rightarrow> draws \<Rightarrow> admin_profile \<Rightarrow> string \<Rightarrow> totp_device prog" where
  "begin_totp_enrollment e now dr p label = p_atomic (
     let name = strip label in
     p_bind (p_guard IdentityInvalid (1 \<le> length name \<and> length name \<le> 64)) (\<lambda>_.
     p_bind (p_mod (update_devices (\<lambda>d. dv_profile d = pf_pk p \<and> \<not> dv_confirmed d \<and> dv_disabled d = None) (\<lambda>d. d\<lparr>dv_disabled := Some now\<rparr>))) (\<lambda>_.
     p_bind (p_option IdentityCrypto (encrypt_totp_seed (cipher e) (ring e) (d_nonce dr) (d_seed dr) (pf_pk p) (d_device dr))) (\<lambda>envelope.
     p_bind (p_get (\<lambda>w. d_device dr \<notin> set (map dv_pk (i_devices w)))) (\<lambda>free.
     p_bind (p_guard IdIntegrity free) (\<lambda>_.
     p_bind (p_mod (\<lambda>w. w\<lparr>i_devices := i_devices w @ [new_device now dr p name envelope]\<rparr>)) (\<lambda>_.
       p_ret (new_device now dr p name envelope))))))))"

definition throttle_allows :: "int \<Rightarrow> totp_device \<Rightarrow> bool" where
  "throttle_allows now d =
     (case dv_failed_at d of None \<Rightarrow> True | Some t \<Rightarrow> dv_failures d = 0 \<or> now \<ge> t + seconds (2 ^ (dv_failures d - 1)))"

definition six_digits :: "string \<Rightarrow> bool" where
  "six_digits s \<longleftrightarrow> length s = 6 \<and> list_all (\<lambda>c. 48 \<le> code c \<and> code c \<le> 57) s"

definition digits_value :: "string \<Rightarrow> nat" where
  "digits_value s = foldl (\<lambda>n c. n * 10 + (code c - 48)) 0 s"

definition usable_device :: "int \<Rightarrow> bool \<Rightarrow> totp_device \<Rightarrow> bool" where
  "usable_device now allow d \<longleftrightarrow> dv_disabled d = None \<and> dv_replaced d = None \<and> (dv_confirmed d \<or> allow) \<and> throttle_allows now d"

definition failed_device :: "int \<Rightarrow> nat \<Rightarrow> totp_device \<Rightarrow> totp_device" where
  "failed_device now n d = d\<lparr>dv_failures := n + 1, dv_failed_at := Some now\<rparr>"

definition used_device :: "int \<Rightarrow> int \<times> int \<Rightarrow> totp_device \<Rightarrow> totp_device" where
  "used_device now td d = d\<lparr>dv_last_t := fst td, dv_drift := snd td, dv_last_used := Some now, dv_failures := 0, dv_failed_at := None\<rparr>"

definition verify_totp_transaction :: "id_env \<Rightarrow> int \<Rightarrow> uuid \<Rightarrow> string \<Rightarrow> bool \<Rightarrow> totp_device option prog" where
  "verify_totp_transaction e now pk otp allow = p_atomic (
     p_bind (get_device pk) (\<lambda>d.
       if \<not> usable_device now allow d then p_ret None
       else p_bind (if six_digits otp
              then p_bind (p_option IdentityCrypto (decrypt_totp_seed (cipher e) (ring e) (dv_envelope d) (dv_profile d) (dv_pk d))) (\<lambda>seed.
                     p_ret (totp_verify e seed (dv_drift d) now (digits_value otp) (dv_last_t d + 1)))
              else p_ret None) (\<lambda>verified.
         case verified of
           None \<Rightarrow> p_bind (p_mod (update_devices (\<lambda>x. dv_pk x = dv_pk d) (failed_device now (dv_failures d)))) (\<lambda>_. p_ret None)
         | Some td \<Rightarrow> p_bind (p_mod (update_devices (\<lambda>x. dv_pk x = dv_pk d) (used_device now td))) (\<lambda>_. p_ret (Some (used_device now td d))))))"

definition verify_totp :: "id_env \<Rightarrow> int \<Rightarrow> uuid \<Rightarrow> string \<Rightarrow> bool \<Rightarrow> totp_device prog" where
  "verify_totp e now pk otp allow = p_bind (verify_totp_transaction e now pk otp allow) (p_option VerificationFailed)"

text \<open>The loop that draws a public id until it is available; \<open>None\<close> when the draws run out.\<close>

fun new_public_recovery_id :: "string list \<Rightarrow> string list \<Rightarrow> (string \<times> string list) option" where
  "new_public_recovery_id taken [] = None"
| "new_public_recovery_id taken (c # cs) = (if c \<notin> set taken then Some (c, cs) else new_public_recovery_id taken cs)"

fun new_codes :: "id_env \<Rightarrow> uuid \<Rightarrow> uuid \<Rightarrow> string list \<Rightarrow> string list \<Rightarrow> string list \<Rightarrow> (recovery_code list \<times> string list) option" where
  "new_codes e owner batch taken draws [] = Some ([], [])"
| "new_codes e owner batch taken draws (secret # secrets) =
     (case new_public_recovery_id taken draws of
        None \<Rightarrow> None
      | Some (public, draws') \<Rightarrow>
          let plain = public @ ''-'' @ secret in
          (case new_codes e owner batch (public # taken) draws' secrets of
             None \<Rightarrow> None
           | Some (rows, plains) \<Rightarrow>
               Some (\<lparr>rc_profile = owner, rc_batch = batch, rc_public = public, rc_secret = make_password e plain, rc_consumed = None, rc_invalidated = None\<rparr> # rows,
                     plain # plains)))"

definition update_codes :: "(recovery_code \<Rightarrow> bool) \<Rightarrow> (recovery_code \<Rightarrow> recovery_code) \<Rightarrow> idw \<Rightarrow> idw" where
  "update_codes P f w = w\<lparr>i_codes := map (\<lambda>c. if P c then f c else c) (i_codes w)\<rparr>"

definition usable_code :: "uuid \<Rightarrow> recovery_code \<Rightarrow> bool" where
  "usable_code owner c \<longleftrightarrow> rc_profile c = owner \<and> rc_consumed c = None \<and> rc_invalidated c = None"

text \<open>Ten codes with a secret each; \<open>NotReturned\<close> when the draws do not suffice: the loop is still running.\<close>

definition generate_recovery_batch :: "id_env \<Rightarrow> int \<Rightarrow> draws \<Rightarrow> uuid \<Rightarrow> string list prog" where
  "generate_recovery_batch e now dr owner = p_atomic (
     p_bind (p_mod (update_codes (usable_code owner) (\<lambda>c. c\<lparr>rc_invalidated := Some now\<rparr>))) (\<lambda>_.
     p_bind (p_get (\<lambda>w. if length (d_secrets dr) < 10 then None
         else new_codes e owner (d_batch dr) (map rc_public (i_codes w)) (d_publics dr) (take 10 (d_secrets dr)))) (\<lambda>found.
     p_bind (p_option NotReturned found) (\<lambda>(rows, plains).
     p_bind (p_mod (\<lambda>w. w\<lparr>i_codes := i_codes w @ rows\<rparr>)) (\<lambda>_. p_ret plains)))))"

definition upper_char :: "char \<Rightarrow> string" where
  "upper_char c = (let n = code c in
     if n = 223 then ''SS'' else if 97 \<le> n \<and> n \<le> 122 \<or> 224 \<le> n \<and> n \<le> 254 \<and> n \<noteq> 247 then [char_of (n - 32)] else [c])"

definition upper :: "string \<Rightarrow> string" where
  "upper s = concat (map upper_char s)"

definition recovery_char :: "char \<Rightarrow> bool" where
  "recovery_char c \<longleftrightarrow> 65 \<le> code c \<and> code c \<le> 90 \<or> 50 \<le> code c \<and> code c \<le> 55"

definition recovery_pattern :: "string \<Rightarrow> bool" where
  "recovery_pattern s \<longleftrightarrow> length s = 35 \<and> list_all recovery_char (take 8 s) \<and> s ! 8 = CHR ''-'' \<and> list_all recovery_char (drop 9 s)"

definition consume_recovery_code :: "id_env \<Rightarrow> int \<Rightarrow> uuid \<Rightarrow> string \<Rightarrow> recovery_code prog" where
  "consume_recovery_code e now owner presented = p_atomic (
     let normalized = upper (strip presented) in
     p_bind (p_guard VerificationFailed (recovery_pattern normalized)) (\<lambda>_.
     p_bind (p_get (\<lambda>w. find (\<lambda>c. usable_code owner c \<and> rc_public c = take 8 normalized) (i_codes w))) (\<lambda>found.
     p_bind (p_option VerificationFailed found) (\<lambda>c.
     p_bind (p_guard VerificationFailed (check_password e normalized (rc_secret c))) (\<lambda>_.
     p_bind (p_mod (update_codes (\<lambda>x. rc_public x = rc_public c) (\<lambda>x. x\<lparr>rc_consumed := Some now\<rparr>))) (\<lambda>_.
       p_ret (c\<lparr>rc_consumed := Some now\<rparr>)))))))"

text \<open>\<open>save\<close> of the status, under the constraint \<open>identity_one_enabled_owner\<close>.\<close>

definition set_status :: "uuid \<Rightarrow> string \<Rightarrow> unit prog" where
  "set_status pk st w =
     (if st \<noteq> ''disabled'' \<and> list_ex (\<lambda>p. pf_pk p \<noteq> pk \<and> pf_status p \<noteq> ''disabled'') (i_profiles w) then (w, Inl IdIntegrity)
      else (w\<lparr>i_profiles := map (\<lambda>p. if pf_pk p = pk then p\<lparr>pf_status := st\<rparr> else p) (i_profiles w)\<rparr>, Inr ()))"

definition enabled_owner :: "idw \<Rightarrow> bool" where
  "enabled_owner w \<longleftrightarrow> list_ex (\<lambda>p. pf_status p \<noteq> ''disabled'') (i_profiles w)"

definition bootstrap_owner :: "id_env \<Rightarrow> int \<Rightarrow> draws \<Rightarrow> string \<Rightarrow> string \<Rightarrow> string \<Rightarrow> admin_profile prog" where
  "bootstrap_owner e now dr name email pw = p_atomic (
     p_bind (p_get enabled_owner) (\<lambda>taken.
     p_bind (p_guard IdentityInvalid (\<not> taken)) (\<lambda>_.
     let u = \<lparr>u_pk = d_user dr, u_name = normalize_username e (strip name), u_email = normalize_email e (strip email), u_password = [], u_active = True\<rparr> in
     p_bind (p_get (\<lambda>w. u_name u \<notin> set (map u_name (i_users w)))) (\<lambda>free.
     p_bind (p_guard IdentityInvalid (free \<and> user_clean e u \<and> password_ok e u pw)) (\<lambda>_.
     p_bind (p_get (\<lambda>w. d_user dr \<notin> set (map u_pk (i_users w)) \<and> d_profile dr \<notin> set (map pf_pk (i_profiles w))
        \<and> d_user dr \<notin> set (map pf_user (i_profiles w)))) (\<lambda>fresh_ids.
     p_bind (p_guard IdentityInvalid fresh_ids) (\<lambda>_.
     let p = \<lparr>pf_pk = d_profile dr, pf_user = d_user dr, pf_status = ''enrollment_required''\<rparr> in
     p_bind (p_mod (\<lambda>w. w\<lparr>i_users := i_users w @ [u\<lparr>u_password := make_password e pw\<rparr>],
         i_profiles := i_profiles w @ [p]\<rparr>)) (\<lambda>_.
     p_bind (record_security_event e now (d_event dr) ''owner_bootstrapped'' ''success'' (Some p) None None ''administrator_profile'' (pf_pk p)
         [(''method'', JStr ''interactive_management_command'')]) (\<lambda>_.
       p_ret p)))))))))"

definition live_keys :: "(owner_session \<Rightarrow> bool) \<Rightarrow> idw \<Rightarrow> string list" where
  "live_keys P w = map os_key (filter (\<lambda>se. P se \<and> se_revoked se = None) (i_sessions w))"

definition revoke_and_drop :: "(owner_session \<Rightarrow> bool) \<Rightarrow> int \<Rightarrow> nat prog" where
  "revoke_and_drop P now w = (drop_web (live_keys P w) (revoke_where P now w), Inr (length (live_keys P w)))"

definition reset_owner_mfa :: "id_env \<Rightarrow> int \<Rightarrow> draws \<Rightarrow> admin_profile \<Rightarrow> string \<Rightarrow> unit prog" where
  "reset_owner_mfa e now dr p confirmed_username = p_atomic (
     p_bind (p_get (\<lambda>w. map_option u_name (tfind u_pk (pf_user p) (i_users w)) = Some confirmed_username)) (\<lambda>same.
     p_bind (p_guard IdentityInvalid same) (\<lambda>_.
     p_bind (revoke_and_drop (\<lambda>se. se_profile se = pf_pk p) now) (\<lambda>revoked.
     p_bind (p_get (\<lambda>w. length (filter (\<lambda>d. dv_profile d = pf_pk p \<and> dv_disabled d = None) (i_devices w)))) (\<lambda>disabled.
     p_bind (p_mod (update_devices (\<lambda>d. dv_profile d = pf_pk p \<and> dv_disabled d = None) (\<lambda>d. d\<lparr>dv_disabled := Some now, dv_confirmed := False\<rparr>))) (\<lambda>_.
     p_bind (p_get (\<lambda>w. length (filter (\<lambda>c. rc_profile c = pf_pk p \<and> rc_invalidated c = None) (i_codes w)))) (\<lambda>invalidated.
     p_bind (p_mod (update_codes (\<lambda>c. rc_profile c = pf_pk p \<and> rc_invalidated c = None) (\<lambda>c. c\<lparr>rc_invalidated := Some now\<rparr>))) (\<lambda>_.
     p_bind (set_status (pf_pk p) ''enrollment_required'') (\<lambda>_.
       record_security_event e now (d_event dr) ''owner_mfa_reset'' ''success'' (Some p) None None ''administrator_profile'' (pf_pk p)
         [(''method'', JStr ''interactive_management_command''), (''revoked_session_count'', JInt (int revoked)),
          (''disabled_device_count'', JInt (int disabled)), (''invalidated_code_count'', JInt (int invalidated))])))))))))"

section \<open>Authentication\<close>

definition get_profile :: "uuid \<Rightarrow> admin_profile prog" where
  "get_profile pk w = (case tfind pf_pk pk (i_profiles w) of None \<Rightarrow> (w, Inl IdMissing) | Some p \<Rightarrow> (w, Inr p))"

text \<open>\<open>authenticate\<close> and \<open>_eligible_profile\<close>.\<close>

definition eligible_profile :: "id_env \<Rightarrow> string \<Rightarrow> string \<Rightarrow> idw \<Rightarrow> admin_profile option" where
  "eligible_profile e name pw w =
     (case find (\<lambda>u. u_name u = name \<and> check_password e pw (u_password u) \<and> u_active u) (i_users w) of
        None \<Rightarrow> None
      | Some u \<Rightarrow> (case tfind pf_user (u_pk u) (i_profiles w) of
          None \<Rightarrow> None
        | Some p \<Rightarrow> if pf_status p = ''disabled'' then None else Some p))"

definition set_preauth :: "preauth option \<Rightarrow> idw \<Rightarrow> idw" where
  "set_preauth v w = rq_upd (\<lambda>r. r\<lparr>rq_preauth := v\<rparr>) w"

definition verify_owner_password :: "id_env \<Rightarrow> int \<Rightarrow> draws \<Rightarrow> string \<Rightarrow> string \<Rightarrow> (admin_profile \<times> string) option prog" where
  "verify_owner_password e now dr name pw =
     p_bind (p_get (\<lambda>w. source_ip e (i_rq w))) (\<lambda>ip.
     p_bind (check_password_limit e now (strip name) ip) (\<lambda>scope.
     p_bind (p_get (eligible_profile e (strip name) pw)) (\<lambda>found.
       case found of
         None \<Rightarrow> p_bind (record_security_event e now (d_event dr) ''owner_password_verified'' ''failure'' None ip None [] [] []) (\<lambda>_. p_ret None)
       | Some p \<Rightarrow>
           p_bind (record_limit_success e scope) (\<lambda>_.
           p_bind (p_mod (\<lambda>w. session_save (d_key dr) (set_preauth (Some \<lparr>pa_owner = pf_pk p, pa_issued = now,
               pa_expires = now + seconds ADMIN_PREAUTH_SECONDS\<rparr>) (session_flush w)))) (\<lambda>_.
           p_bind (record_security_event e now (d_event dr) ''owner_password_verified'' ''success'' (Some p) ip None [] [] []) (\<lambda>_.
             p_ret (Some (p, if pf_status p = ''active'' then ''verify_totp'' else ''enroll_totp''))))))))"

definition preauth_valid :: "int \<Rightarrow> preauth \<Rightarrow> bool" where
  "preauth_valid now v \<longleftrightarrow> pa_issued v \<le> now \<and> now < pa_expires v \<and> pa_expires v - pa_issued v \<le> seconds ADMIN_PREAUTH_SECONDS"

definition valid_preauthentication :: "int \<Rightarrow> preauth option prog" where
  "valid_preauthentication now w =
     (case rq_preauth (i_rq w) of
        None \<Rightarrow> (w, Inr None)
      | Some v \<Rightarrow> if preauth_valid now v then (w, Inr (Some v)) else (set_preauth None w, Inr None))"

definition preauthenticated_profile :: "int \<Rightarrow> admin_profile option prog" where
  "preauthenticated_profile now =
     p_bind (valid_preauthentication now) (\<lambda>v. case v of
        None \<Rightarrow> p_ret None
      | Some a \<Rightarrow> p_bind (p_get (\<lambda>w. find (\<lambda>p. pf_pk p = pa_owner a \<and> pf_status p \<noteq> ''disabled'') (i_profiles w))) (\<lambda>found.
          case found of None \<Rightarrow> p_bind (p_mod (set_preauth None)) (\<lambda>_. p_ret None) | Some p \<Rightarrow> p_ret (Some p)))"

definition login_owner :: "draws \<Rightarrow> admin_profile \<Rightarrow> idw \<Rightarrow> idw" where
  "login_owner dr p w = set_preauth None (django_login (d_key dr) (pf_user p) w)"

definition establish_totp_session :: "id_env \<Rightarrow> int \<Rightarrow> draws \<Rightarrow> admin_profile \<Rightarrow> owner_session prog" where
  "establish_totp_session e now dr p = p_atomic (
     p_bind (p_mod (login_owner dr p)) (\<lambda>_.
     p_bind (establish_administrator_session e now dr p (Some now) False) (\<lambda>se.
     p_bind (p_get (\<lambda>w. source_ip e (i_rq w))) (\<lambda>ip.
     p_bind (record_security_event e now (d_event dr) ''owner_totp_verified'' ''success'' (Some p) ip (Some (se_pk se)) [] [] []) (\<lambda>_.
       p_ret se)))))"

text \<open>The newest confirmed device, by \<open>confirmed_at\<close> and then \<open>created_at\<close>.\<close>

definition device_rank :: "totp_device \<Rightarrow> int \<times> int" where
  "device_rank d = (case dv_confirmed_at d of None \<Rightarrow> 0 | Some t \<Rightarrow> t, dv_created d)"

definition confirmed_device :: "uuid \<Rightarrow> idw \<Rightarrow> totp_device option" where
  "confirmed_device owner w =
     (case rev (sort_key device_rank (filter (\<lambda>d. dv_profile d = owner \<and> dv_confirmed d \<and> dv_disabled d = None \<and> dv_replaced d = None) (i_devices w))) of
        [] \<Rightarrow> None | d # _ \<Rightarrow> Some d)"

definition failure_event :: "id_env \<Rightarrow> int \<Rightarrow> draws \<Rightarrow> string \<Rightarrow> admin_profile \<Rightarrow> uuid option \<Rightarrow> string \<Rightarrow> string \<Rightarrow> unit prog" where
  "failure_event e now dr action p sid ttype tid =
     p_bind (p_get (\<lambda>w. source_ip e (i_rq w))) (\<lambda>ip. record_security_event e now (d_event dr) action ''failure'' (Some p) ip sid ttype tid [])"

definition complete_totp_authentication :: "id_env \<Rightarrow> int \<Rightarrow> draws \<Rightarrow> admin_profile \<Rightarrow> string \<Rightarrow> owner_session prog" where
  "complete_totp_authentication e now dr p otp =
     p_bind (p_guard VerificationFailed (pf_status p = ''active'')) (\<lambda>_.
     p_bind (p_get (confirmed_device (pf_pk p))) (\<lambda>found.
       case found of
         None \<Rightarrow> p_bind (failure_event e now dr ''owner_totp_verified'' p None [] []) (\<lambda>_. p_raise VerificationFailed)
       | Some d \<Rightarrow>
           p_bind (p_except (verify_totp e now (dv_pk d) otp False)
             (\<lambda>x. p_bind (failure_event e now dr ''owner_totp_verified'' p None [] []) (\<lambda>_. p_raise x))) (\<lambda>_.
             establish_totp_session e now dr p)))"

definition complete_recovery_transaction :: "id_env \<Rightarrow> int \<Rightarrow> draws \<Rightarrow> admin_profile \<Rightarrow> string \<Rightarrow> owner_session option prog" where
  "complete_recovery_transaction e now dr p presented = p_atomic (
     p_bind (p_guard VerificationFailed (pf_status p = ''active'')) (\<lambda>_.
     p_bind (p_get (\<lambda>w. source_ip e (i_rq w))) (\<lambda>ip.
     p_bind (check_recovery_limit e now (pf_pk p) ip) (\<lambda>scope.
     p_bind (p_except (p_bind (consume_recovery_code e now (pf_pk p) presented) (\<lambda>_. p_ret True))
       (\<lambda>_. p_bind (record_security_event e now (d_event dr) ''owner_recovery_verified'' ''failure'' (Some p) ip None [] [] []) (\<lambda>_. p_ret False))) (\<lambda>ok.
     if \<not> ok then p_ret None
     else
       p_bind (record_limit_success e scope) (\<lambda>_.
       p_bind (revoke_and_drop (\<lambda>se. se_profile se = pf_pk p) now) (\<lambda>revoked.
       p_bind (set_status (pf_pk p) ''recovery_required'') (\<lambda>_.
       p_bind (p_mod (login_owner dr p)) (\<lambda>_.
       p_bind (establish_administrator_session e now dr p None True) (\<lambda>se.
       p_bind (record_security_event e now (d_event dr) ''owner_recovery_verified'' ''success'' (Some p) ip (Some (se_pk se)) [] []
           [(''revoked_session_count'', JInt (int revoked))]) (\<lambda>_.
         p_ret (Some se))))))))))))"

definition complete_recovery_authentication :: "id_env \<Rightarrow> int \<Rightarrow> draws \<Rightarrow> admin_profile \<Rightarrow> string \<Rightarrow> owner_session prog" where
  "complete_recovery_authentication e now dr p presented = p_bind (complete_recovery_transaction e now dr p presented) (p_option VerificationFailed)"

definition request_session :: "owner_session option prog" where
  "request_session w = (w, Inr (case rq_meta (i_rq w) of None \<Rightarrow> None | Some pk \<Rightarrow> tfind se_pk pk (i_sessions w)))"

definition logout_administrator :: "id_env \<Rightarrow> int \<Rightarrow> draws \<Rightarrow> bool prog" where
  "logout_administrator e now dr = p_atomic (
     p_bind (p_get (\<lambda>w. (rq_meta (i_rq w), rq_preauth (i_rq w), source_ip e (i_rq w)))) (\<lambda>(meta, pre, ip).
       case meta of
         None \<Rightarrow> if pre \<noteq> None then p_bind (p_mod session_flush) (\<lambda>_. p_ret True) else p_ret False
       | Some pk \<Rightarrow>
           p_bind (get_session pk) (\<lambda>se.
           p_bind (p_mod (revoke_where (\<lambda>x. se_pk x = se_pk se) now)) (\<lambda>_.
           p_bind (get_profile (se_profile se)) (\<lambda>p.
           p_bind (record_security_event e now (d_event dr) ''owner_logout'' ''success'' (Some p) ip (Some (se_pk se)) [] [] []) (\<lambda>_.
           p_bind (p_mod session_flush) (\<lambda>_. p_ret True)))))))"

definition enrollment_profile :: "int \<Rightarrow> admin_profile option prog" where
  "enrollment_profile now =
     p_bind request_session (\<lambda>m.
     p_bind (p_get (\<lambda>w. case m of None \<Rightarrow> None | Some se \<Rightarrow>
        (case tfind pf_pk (se_profile se) (i_profiles w) of None \<Rightarrow> None
         | Some p \<Rightarrow> if se_restricted se \<and> pf_status p = ''recovery_required'' then Some p else None))) (\<lambda>restricted.
       case restricted of
         Some p \<Rightarrow> p_ret (Some p)
       | None \<Rightarrow> p_bind (preauthenticated_profile now) (\<lambda>found.
           p_ret (case found of None \<Rightarrow> None | Some p \<Rightarrow> if pf_status p = ''enrollment_required'' then Some p else None))))"

definition start_totp_enrollment :: "id_env \<Rightarrow> int \<Rightarrow> draws \<Rightarrow> admin_profile \<Rightarrow> string \<Rightarrow> totp_device prog" where
  "start_totp_enrollment e now dr p label = p_atomic (
     p_bind (begin_totp_enrollment e now dr p label) (\<lambda>d.
     p_bind (p_get (\<lambda>w. (source_ip e (i_rq w), rq_meta (i_rq w)))) (\<lambda>(ip, meta).
     p_bind (record_security_event e now (d_event dr) ''owner_totp_enrollment_started'' ''success'' (Some p) ip meta ''totp_device'' (dv_pk d) []) (\<lambda>_.
       p_ret d))))"

definition confirm_device :: "int \<Rightarrow> totp_device \<Rightarrow> idw \<Rightarrow> idw" where
  "confirm_device now d w = update_devices (\<lambda>x. dv_pk x = dv_pk d) (\<lambda>x. x\<lparr>dv_confirmed := True, dv_confirmed_at := Some now\<rparr>) w"

definition complete_initial_enrollment :: "id_env \<Rightarrow> int \<Rightarrow> draws \<Rightarrow> uuid \<Rightarrow> uuid \<Rightarrow> (owner_session \<times> string list) prog" where
  "complete_initial_enrollment e now dr owner device = p_atomic (
     p_bind (get_profile owner) (\<lambda>p.
     p_bind (get_device device) (\<lambda>d.
     p_bind (p_guard VerificationFailed (pf_status p = ''enrollment_required'' \<and> dv_profile d = pf_pk p \<and> \<not> dv_confirmed d \<and> dv_disabled d = None)) (\<lambda>_.
     p_bind (p_mod (confirm_device now d)) (\<lambda>_.
     p_bind (generate_recovery_batch e now dr (pf_pk p)) (\<lambda>plains.
     p_bind (set_status (pf_pk p) ''active'') (\<lambda>_.
     p_bind (p_mod (login_owner dr p)) (\<lambda>_.
     p_bind (establish_administrator_session e now dr p (Some now) False) (\<lambda>se.
     p_bind (p_get (\<lambda>w. source_ip e (i_rq w))) (\<lambda>ip.
     p_bind (record_security_event e now (d_event dr) ''owner_totp_enrollment_confirmed'' ''success'' (Some p) ip (Some (se_pk se)) ''totp_device'' (dv_pk d) []) (\<lambda>_.
       p_ret (se, plains))))))))))))"

definition complete_recovery_enrollment :: "id_env \<Rightarrow> int \<Rightarrow> draws \<Rightarrow> uuid \<Rightarrow> uuid \<Rightarrow> uuid \<Rightarrow> (owner_session \<times> string list) prog" where
  "complete_recovery_enrollment e now dr owner device meta = p_atomic (
     p_bind (get_profile owner) (\<lambda>p.
     p_bind (get_device device) (\<lambda>d.
     p_bind (get_session meta) (\<lambda>se.
     p_bind (p_guard VerificationFailed (pf_status p = ''recovery_required'' \<and> se_restricted se \<and> se_revoked se = None
        \<and> dv_profile d = pf_pk p \<and> \<not> dv_confirmed d \<and> dv_disabled d = None)) (\<lambda>_.
     p_bind (p_mod (update_devices (\<lambda>x. dv_profile x = pf_pk p \<and> dv_confirmed x \<and> dv_disabled x = None \<and> dv_pk x \<noteq> dv_pk d)
        (\<lambda>x. x\<lparr>dv_confirmed := False, dv_disabled := Some now, dv_replaced := Some now\<rparr>))) (\<lambda>_.
     p_bind (p_mod (confirm_device now d)) (\<lambda>_.
     p_bind (generate_recovery_batch e now dr (pf_pk p)) (\<lambda>plains.
     p_bind (revoke_and_drop (\<lambda>x. se_profile x = pf_pk p \<and> se_pk x \<noteq> se_pk se) now) (\<lambda>revoked.
     p_bind (set_status (pf_pk p) ''active'') (\<lambda>_.
     p_bind (p_mod (update_sessions (\<lambda>x. se_pk x = se_pk se) (\<lambda>x. x\<lparr>se_restricted := False, se_mfa := Some now\<rparr>))) (\<lambda>_.
     p_bind (rotate_administrator_session dr (se_pk se)) (\<lambda>_.
     p_bind (get_session (se_pk se)) (\<lambda>se'.
     p_bind (p_get (\<lambda>w. source_ip e (i_rq w))) (\<lambda>ip.
     p_bind (record_security_event e now (d_event dr) ''owner_totp_enrollment_confirmed'' ''success'' (Some p) ip (Some (se_pk se)) ''totp_device'' (dv_pk d)
         [(''revoked_session_count'', JInt (int revoked)), (''recovery_completed'', JBool True)]) (\<lambda>_.
       p_ret (se', plains))))))))))))))))"

definition confirm_totp_enrollment :: "id_env \<Rightarrow> int \<Rightarrow> draws \<Rightarrow> admin_profile \<Rightarrow> uuid \<Rightarrow> string \<Rightarrow> (owner_session \<times> string list) prog" where
  "confirm_totp_enrollment e now dr p device otp =
     p_bind (p_get (\<lambda>w. find (\<lambda>d. dv_pk d = device \<and> dv_profile d = pf_pk p \<and> \<not> dv_confirmed d \<and> dv_disabled d = None \<and> dv_replaced d = None) (i_devices w))) (\<lambda>found.
     p_bind request_session (\<lambda>meta.
     p_bind (p_option VerificationFailed found) (\<lambda>d.
     p_bind (p_except (p_bind (verify_totp e now (dv_pk d) otp True) (\<lambda>_. p_ret ()))
       (\<lambda>x. p_bind (failure_event e now dr ''owner_totp_enrollment_confirmed'' p (map_option se_pk meta) ''totp_device'' (dv_pk d)) (\<lambda>_. p_raise x))) (\<lambda>_.
       if pf_status p = ''enrollment_required'' then complete_initial_enrollment e now dr (pf_pk p) (dv_pk d)
       else case meta of
         Some se \<Rightarrow> if pf_status p = ''recovery_required'' \<and> se_restricted se
           then complete_recovery_enrollment e now dr (pf_pk p) (dv_pk d) (se_pk se) else p_raise VerificationFailed
       | None \<Rightarrow> p_raise VerificationFailed))))"

definition fresh_reauthenticate :: "id_env \<Rightarrow> int \<Rightarrow> draws \<Rightarrow> owner_session \<Rightarrow> string \<Rightarrow> string \<Rightarrow> unit prog" where
  "fresh_reauthenticate e now dr se pw otp =
     p_bind (get_profile (se_profile se)) (\<lambda>p.
     p_bind (p_get (\<lambda>w. tfind u_pk (pf_user p) (i_users w))) (\<lambda>u0.
     p_bind (p_option IdMissing u0) (\<lambda>u.
     p_bind (p_get (\<lambda>w. source_ip e (i_rq w))) (\<lambda>ip.
     p_bind (check_password_limit e now (u_name u) ip) (\<lambda>scope.
     p_bind (p_get (confirmed_device (pf_pk p))) (\<lambda>found.
       case (check_password e pw (u_password u), found) of
         (True, Some d) \<Rightarrow>
           p_bind (p_except (verify_totp e now (dv_pk d) otp False)
             (\<lambda>x. p_bind (failure_event e now dr ''owner_fresh_verification'' p (Some (se_pk se)) [] []) (\<lambda>_. p_raise x))) (\<lambda>_.
           p_bind (record_limit_success e scope) (\<lambda>_.
             p_atomic (
               p_bind (rotate_administrator_session dr (se_pk se)) (\<lambda>_.
               p_bind (p_mod (update_sessions (\<lambda>x. se_pk x = se_pk se) (\<lambda>x. x\<lparr>os_fresh := Some now\<rparr>))) (\<lambda>_.
                 record_security_event e now (d_event dr) ''owner_fresh_verification'' ''success'' (Some p) ip (Some (se_pk se)) [] [] [])))))
       | _ \<Rightarrow> p_bind (failure_event e now dr ''owner_fresh_verification'' p (Some (se_pk se)) [] []) (\<lambda>_. p_raise VerificationFailed)))))))"

section \<open>Security actions\<close>

definition require_fresh_administrator :: "int \<Rightarrow> owner_session \<Rightarrow> unit prog" where
  "require_fresh_administrator now se = p_guard FreshnessRequired (\<not> se_restricted se \<and> administrator_session_is_fresh now se)"

definition revoke_others :: "uuid \<Rightarrow> uuid \<Rightarrow> int \<Rightarrow> nat prog" where
  "revoke_others owner current now = revoke_and_drop (\<lambda>x. se_profile x = owner \<and> se_pk x \<noteq> current) now"

definition clear_fresh :: "uuid \<Rightarrow> idw \<Rightarrow> idw" where
  "clear_fresh pk = update_sessions (\<lambda>x. se_pk x = pk) (\<lambda>x. x\<lparr>os_fresh := None\<rparr>)"

definition change_password :: "id_env \<Rightarrow> int \<Rightarrow> draws \<Rightarrow> uuid \<Rightarrow> string \<Rightarrow> string \<Rightarrow> nat prog" where
  "change_password e now dr meta current_password new_password = p_atomic (
     p_bind (get_session meta) (\<lambda>se.
     p_bind (get_profile (se_profile se)) (\<lambda>p.
     p_bind (require_fresh_administrator now se) (\<lambda>_.
     p_bind (p_get (\<lambda>w. tfind u_pk (pf_user p) (i_users w))) (\<lambda>u0.
     p_bind (p_option IdMissing u0) (\<lambda>u.
     p_bind (p_guard CredentialMismatch (check_password e current_password (u_password u))) (\<lambda>_.
     p_bind (p_guard (IdentityValidation (password_messages e u new_password)) (password_ok e u new_password)) (\<lambda>_.
     p_bind (p_mod (\<lambda>w. w\<lparr>i_users := map (\<lambda>x. if u_pk x = u_pk u then x\<lparr>u_password := make_password e new_password\<rparr> else x) (i_users w)\<rparr>)) (\<lambda>_.
     p_bind (revoke_others (pf_pk p) (se_pk se) now) (\<lambda>revoked.
     p_bind (p_mod (cycle_key (d_key dr))) (\<lambda>_.
     p_bind (set_session_key (d_key dr) (se_pk se)) (\<lambda>_.
     p_bind (p_mod (clear_fresh (se_pk se))) (\<lambda>_.
     p_bind (p_get (\<lambda>w. source_ip e (i_rq w))) (\<lambda>ip.
     p_bind (record_security_event e now (d_event dr) ''owner_password_changed'' ''success'' (Some p) ip (Some (se_pk se)) [] []
         [(''revoked_session_count'', JInt (int revoked))]) (\<lambda>_.
       p_ret revoked)))))))))))))))"

definition regenerate_recovery_codes :: "id_env \<Rightarrow> int \<Rightarrow> draws \<Rightarrow> uuid \<Rightarrow> (string list \<times> nat) prog" where
  "regenerate_recovery_codes e now dr meta = p_atomic (
     p_bind (get_session meta) (\<lambda>se.
     p_bind (get_profile (se_profile se)) (\<lambda>p.
     p_bind (require_fresh_administrator now se) (\<lambda>_.
     p_bind (generate_recovery_batch e now dr (pf_pk p)) (\<lambda>plains.
     p_bind (revoke_others (pf_pk p) (se_pk se) now) (\<lambda>revoked.
     p_bind (rotate_administrator_session dr (se_pk se)) (\<lambda>_.
     p_bind (p_mod (clear_fresh (se_pk se))) (\<lambda>_.
     p_bind (p_get (\<lambda>w. source_ip e (i_rq w))) (\<lambda>ip.
     p_bind (record_security_event e now (d_event dr) ''owner_recovery_codes_regenerated'' ''success'' (Some p) ip (Some (se_pk se)) [] []
         [(''revoked_session_count'', JInt (int revoked))]) (\<lambda>_.
       p_ret (plains, revoked)))))))))))"

definition revoke_owned_session :: "id_env \<Rightarrow> int \<Rightarrow> draws \<Rightarrow> uuid \<Rightarrow> uuid \<Rightarrow> bool prog" where
  "revoke_owned_session e now dr meta target = p_atomic (
     p_bind (get_session meta) (\<lambda>se.
     p_bind (get_profile (se_profile se)) (\<lambda>p.
     p_bind (revoke_session e now dr p target (Some (se_pk se))) (\<lambda>revoked.
       if se_pk revoked = se_pk se then p_bind (p_mod session_flush) (\<lambda>_. p_ret True) else p_ret False))))"

definition revoke_other_sessions :: "id_env \<Rightarrow> int \<Rightarrow> draws \<Rightarrow> uuid \<Rightarrow> nat prog" where
  "revoke_other_sessions e now dr meta = p_atomic (
     p_bind (get_session meta) (\<lambda>se.
     p_bind (get_profile (se_profile se)) (\<lambda>p.
     p_bind (require_fresh_administrator now se) (\<lambda>_.
     p_bind (revoke_others (pf_pk p) (se_pk se) now) (\<lambda>revoked.
     p_bind (p_mod (clear_fresh (se_pk se))) (\<lambda>_.
     p_bind (p_get (\<lambda>w. source_ip e (i_rq w))) (\<lambda>ip.
     p_bind (record_security_event e now (d_event dr) ''owner_other_sessions_revoked'' ''success'' (Some p) ip (Some (se_pk se)) [] []
         [(''revoked_session_count'', JInt (int revoked))]) (\<lambda>_.
       p_ret revoked))))))))"

end
