(* ===== verification/Secret_Crypto.thy ===== *)
theory Secret_Crypto
  imports Identity_Crypto
begin

text \<open>
  \<open>backend/integrations/crypto.py\<close>: the key ring of the provider credentials and the envelope of one
  credential.  The ring's syntax (its fields, its key ids, unpadded base64url, keys of 32 bytes) is that of
  \<open>backend/identity/crypto.py\<close>, modelled in \<open>Identity_Crypto\<close>; the file's permissions are checked here as well.
  \<open>ring_file\<close> is what the file system says of the configured path, \<open>None\<close> when the setting is no path.
  AES-256-GCM is the record \<open>aead\<close> of \<open>Identity_Crypto\<close>; a byte string is a \<open>char list\<close>.
\<close>

record ring_file =
  rf_readable :: bool
  rf_windows :: bool
  rf_environment :: string
  rf_mode :: nat
  rf_bytes :: nat
  rf_parsed :: "json option"

record envelope =
  en_version :: nat
  en_algorithm :: string
  en_key_id :: string
  en_nonce :: string
  en_ciphertext :: string

definition ALGORITHM :: string where "ALGORITHM = ''AES-256-GCM''"
definition ENVELOPE_VERSION :: nat where "ENVELOPE_VERSION = 1"
definition MAX_SECRET_BYTES :: nat where "MAX_SECRET_BYTES = 16 * 1024"

text \<open>\<open>st_mode & 0o077\<close> is the mode modulo 64.\<close>

definition key_file_has_owner_only_permissions :: "ring_file \<Rightarrow> bool" where
  "key_file_has_owner_only_permissions f \<longleftrightarrow>
     (if rf_windows f then rf_environment f \<in> {''development'', ''test''} else rf_mode f mod 64 = 0)"

definition load_integration_key_ring :: "ring_file \<Rightarrow> key_ring option" where
  "load_integration_key_ring f =
     (if \<not> rf_readable f \<or> \<not> key_file_has_owner_only_permissions f \<or> rf_bytes f > MAX_KEY_RING_BYTES then None
      else case rf_parsed f of
        Some (JObj d) \<Rightarrow>
          if \<not> no_duplicates (JObj d) \<or> set (map fst d) \<noteq> set KEY_RING_FIELDS then None
          else (case (dget d ''active_key_id'', dget d ''keys'') of
             (JStr a, JObj ks) \<Rightarrow>
               if \<not> key_id_ok a \<or> \<not> (1 \<le> length ks \<and> length ks \<le> MAX_KEYS) \<or> a \<notin> set (map fst ks) then None
               else map_option (\<lambda>keys. \<lparr>active_key_id = a, ring_keys = keys\<rparr>) (ring_entries ks)
           | _ \<Rightarrow> None)
      | _ \<Rightarrow> None)"

definition configured_key_ring :: "ring_file option \<Rightarrow> key_ring option" where
  "configured_key_ring file = Option.bind file load_integration_key_ring"

abbreviation nul :: char where
  "nul \<equiv> char_of (0 :: nat)"

definition ascii :: "string \<Rightarrow> bool" where
  "ascii s \<longleftrightarrow> list_all (\<lambda>c. code c < 128) s"

definition secret_aad :: "string \<Rightarrow> string \<Rightarrow> string \<Rightarrow> string \<Rightarrow> string option" where
  "secret_aad secret_id provider scope key_id =
     (let t = ''civicloop.integrations.secret.v1'' @ nul # secret_id @ nul # provider @ nul # scope @ nul # ALGORITHM @ nul # key_id
      in if provider = [] \<or> scope = [] \<or> nul \<in> set provider \<or> nul \<in> set scope \<or> \<not> ascii t then None else Some t)"

definition encrypt_secret :: "aead \<Rightarrow> ring_file option \<Rightarrow> string \<Rightarrow> string \<Rightarrow> string \<Rightarrow> string \<Rightarrow> string \<Rightarrow> envelope option" where
  "encrypt_secret ae file nonce plaintext secret_id provider scope =
     (if \<not> (1 \<le> length plaintext \<and> length plaintext \<le> MAX_SECRET_BYTES) then None
      else case configured_key_ring file of
        None \<Rightarrow> None
      | Some r \<Rightarrow>
          (case (map_of (ring_keys r) (active_key_id r), secret_aad secret_id provider scope (active_key_id r)) of
             (Some k, Some aad) \<Rightarrow> Some
               \<lparr>en_version = ENVELOPE_VERSION, en_algorithm = ALGORITHM, en_key_id = active_key_id r, en_nonce = nonce,
                en_ciphertext = aes_encrypt ae k nonce plaintext aad\<rparr>
           | _ \<Rightarrow> None))"

definition decrypt_secret :: "aead \<Rightarrow> ring_file option \<Rightarrow> envelope \<Rightarrow> string \<Rightarrow> string \<Rightarrow> string \<Rightarrow> string option" where
  "decrypt_secret ae file en secret_id provider scope =
     (if en_version en \<noteq> ENVELOPE_VERSION \<or> en_algorithm en \<noteq> ALGORITHM \<or> \<not> key_id_ok (en_key_id en)
         \<or> length (en_nonce en) \<noteq> 12 \<or> length (en_ciphertext en) < 17 then None
      else case configured_key_ring file of
        None \<Rightarrow> None
      | Some r \<Rightarrow>
          (case (map_of (ring_keys r) (en_key_id en), secret_aad secret_id provider scope (en_key_id en)) of
             (Some k, Some aad) \<Rightarrow> aes_decrypt ae k (en_nonce en) (en_ciphertext en) aad
           | _ \<Rightarrow> None))"

section \<open>The ring\<close>

lemma loaded_integration_ring:
  assumes "load_integration_key_ring f = Some r"
  shows "active_key_id r \<in> set (map fst (ring_keys r))" and "length (ring_keys r) \<le> 16" and "key_id_ok (active_key_id r)"
    and "\<forall>k \<in> set (ring_keys r). length (snd k) = 32" and "key_file_has_owner_only_permissions f"
proof -
  obtain ks keys a where k: "ring_entries ks = Some keys" "a \<in> set (map fst ks)" "length ks \<le> MAX_KEYS" "key_id_ok a"
    "r = \<lparr>active_key_id = a, ring_keys = keys\<rparr>" and p: "key_file_has_owner_only_permissions f"
    using assms by (auto simp: load_integration_key_ring_def split: option.splits json.splits if_splits)
  note m = ring_entries_map_of [OF k(1)]
  show "active_key_id r \<in> set (map fst (ring_keys r))" using k(2,5) m(1) by (metis key_ring.select_convs)
  show "length (ring_keys r) \<le> 16" using k(3,5) m(1) by (metis MAX_KEYS_def key_ring.select_convs(2) length_map)
  show "key_id_ok (active_key_id r)" "\<forall>k \<in> set (ring_keys r). length (snd k) = 32" "key_file_has_owner_only_permissions f"
    using k(4,5) m(2) p by simp_all
qed

section \<open>Round trip and binding\<close>

text \<open>What AES-256-GCM promises: decryption inverts encryption, the tag adds 16 bytes.\<close>

definition aead_inverts :: "aead \<Rightarrow> bool" where
  "aead_inverts ae \<longleftrightarrow> (\<forall>k n m a. aes_decrypt ae k n (aes_encrypt ae k n m a) a = Some m \<and> length (aes_encrypt ae k n m a) \<ge> length m + 16)"

text \<open>And: a ciphertext does not open under other associated data.\<close>

definition aead_binds :: "aead \<Rightarrow> bool" where
  "aead_binds ae \<longleftrightarrow> (\<forall>k n m a a'. a' \<noteq> a \<longrightarrow> aes_decrypt ae k n (aes_encrypt ae k n m a) a' = None)"

lemma encrypted_secretE:
  assumes "encrypt_secret ae file nonce plaintext sid provider scope = Some en"
  obtains f r k aad where "file = Some f" and "load_integration_key_ring f = Some r" and "map_of (ring_keys r) (active_key_id r) = Some k"
    and "secret_aad sid provider scope (active_key_id r) = Some aad" and "1 \<le> length plaintext" and "length plaintext \<le> MAX_SECRET_BYTES"
    and "en = \<lparr>en_version = ENVELOPE_VERSION, en_algorithm = ALGORITHM, en_key_id = active_key_id r, en_nonce = nonce,
                en_ciphertext = aes_encrypt ae k nonce plaintext aad\<rparr>"
  using assms by (auto simp: encrypt_secret_def configured_key_ring_def split: if_splits option.splits bind_splits)

lemma split_at_nul: "nul \<notin> set a \<Longrightarrow> nul \<notin> set b \<Longrightarrow> a @ nul # x = b @ nul # y \<Longrightarrow> a = b \<and> x = y"
proof (induction a arbitrary: b)
  case Nil
  then show ?case by (cases b) auto
next
  case (Cons c a)
  then show ?case by (cases b) auto
qed

lemma secret_aad_inj:
  assumes "secret_aad s p c k = Some t" and "secret_aad s' p' c' k' = Some t" and "nul \<notin> set s" and "nul \<notin> set s'"
  shows "s' = s \<and> p' = p \<and> c' = c \<and> k' = k"
proof -
  have n: "nul \<notin> set p" "nul \<notin> set p'" "nul \<notin> set c" "nul \<notin> set c'"
    and e: "s @ nul # p @ nul # c @ nul # ALGORITHM @ nul # k = s' @ nul # p' @ nul # c' @ nul # ALGORITHM @ nul # k'"
    using assms(1,2) by (auto simp: secret_aad_def Let_def split: if_splits)
  from split_at_nul [OF assms(3,4) e] have s: "s = s'" and e: "p @ nul # c @ nul # ALGORITHM @ nul # k = p' @ nul # c' @ nul # ALGORITHM @ nul # k'" by auto
  from split_at_nul [OF n(1,2) e] have p: "p = p'" and e: "c @ nul # ALGORITHM @ nul # k = c' @ nul # ALGORITHM @ nul # k'" by auto
  from split_at_nul [OF n(3,4) e] s p show ?thesis by auto
qed

text \<open>An envelope opens as long as its key stays in the ring, whichever key is active by then.\<close>

lemma open_sealed:
  assumes "aead_inverts ae" and "encrypt_secret ae (Some f) nonce plaintext sid provider scope = Some en" and "length nonce = 12"
    and "load_integration_key_ring f = Some r" and "load_integration_key_ring f2 = Some r2"
    and "map_of (ring_keys r2) (active_key_id r) = map_of (ring_keys r) (active_key_id r)"
  shows "decrypt_secret ae (Some f2) en sid provider scope = Some plaintext"
proof -
  obtain k aad where k: "map_of (ring_keys r) (active_key_id r) = Some k" "secret_aad sid provider scope (active_key_id r) = Some aad"
    "1 \<le> length plaintext"
    "en = \<lparr>en_version = ENVELOPE_VERSION, en_algorithm = ALGORITHM, en_key_id = active_key_id r, en_nonce = nonce,
            en_ciphertext = aes_encrypt ae k nonce plaintext aad\<rparr>"
    using assms(2) by (rule encrypted_secretE) (use assms(4) in auto)
  have "length plaintext + 16 \<le> length (aes_encrypt ae k nonce plaintext aad)" using assms(1) by (simp add: aead_inverts_def)
  then have "17 \<le> length (aes_encrypt ae k nonce plaintext aad)" using k(3) by linarith
  with assms k loaded_integration_ring(3) [OF assms(4)] show ?thesis
    by (simp add: decrypt_secret_def configured_key_ring_def aead_inverts_def)
qed

lemma moved_envelope_shut:
  assumes "aead_binds ae" and "encrypt_secret ae (Some f) nonce plaintext sid provider scope = Some en"
    and "load_integration_key_ring f = Some r" and "load_integration_key_ring f2 = Some r2"
    and "map_of (ring_keys r2) (active_key_id r) = map_of (ring_keys r) (active_key_id r)"
    and "nul \<notin> set sid" and "nul \<notin> set sid'" and "(sid', provider', scope') \<noteq> (sid, provider, scope)"
  shows "decrypt_secret ae (Some f2) en sid' provider' scope' = None"
proof -
  obtain k aad where k: "map_of (ring_keys r) (active_key_id r) = Some k" "secret_aad sid provider scope (active_key_id r) = Some aad"
    "en = \<lparr>en_version = ENVELOPE_VERSION, en_algorithm = ALGORITHM, en_key_id = active_key_id r, en_nonce = nonce,
            en_ciphertext = aes_encrypt ae k nonce plaintext aad\<rparr>"
    using assms(2) by (rule encrypted_secretE) (use assms(3) in auto)
  have "aad' \<noteq> aad" if "secret_aad sid' provider' scope' (active_key_id r) = Some aad'" for aad'
    using secret_aad_inj [OF k(2) _ assms(6,7)] that assms(8) by auto
  with assms(1,4,5) k show ?thesis
    by (auto simp: decrypt_secret_def configured_key_ring_def aead_binds_def split: option.splits)
qed

end
