(* ===== verification/Vault.thy ===== *)
theory Vault
  imports Identity_Auth Secret_Crypto
begin

text \<open>
  The provider credentials: \<open>EncryptedSecret\<close>, \<open>IntegrationConnection\<close> and \<open>IntegrationHealthCheck\<close> of
  \<open>backend/integrations/models.py\<close>, and \<open>PostgresSecretStore\<close> of \<open>secret_store.py\<close> (its leases are in
  \<open>Vault_Lease\<close>).  The state \<open>vault\<close> holds these tables beside the tables of the identity application and
  those of the draft operations; \<open>app_view\<close> is the database as the draft operations read it, with the
  owner's sessions and the connections taken from where they are kept.

  Every operation runs in one transaction: it returns the new state, or raises and leaves the old one.
  A \<open>dict[str, str]\<close> is a list of pairs with distinct keys.
\<close>

section \<open>Tables\<close>

type_synonym strdict = "(string \<times> string) list"

datatype secret_status = SECRET_ACTIVE | SECRET_DISABLED

datatype connection_state = NOT_CONFIGURED | CONFIGURED | HEALTHY | DEGRADED | CONN_DISABLED

record encrypted_secret =
  sc_pk :: uuid
  sc_provider :: string
  sc_scope :: string
  sc_envelope :: envelope
  sc_status :: secret_status
  sc_version :: nat
  sc_created :: int
  sc_replaced :: "int option"
  sc_disabled :: "int option"
  sc_created_by :: "nat option"
  sc_replaced_by :: "nat option"

record integration_connection =
  ic_pk :: uuid
  ic_provider :: string
  ic_state :: connection_state
  ic_capabilities :: "string list"
  ic_configuration :: strdict
  ic_secret :: "uuid option"
  ic_version :: nat
  ic_created :: int
  ic_updated :: int
  ic_success :: "int option"
  ic_failure :: string

record health_check =
  hc_pk :: uuid
  hc_connection :: uuid
  hc_outcome :: string
  hc_category :: string
  hc_duration :: int
  hc_correlation :: uuid
  hc_tested :: int

record secret_reference =
  sr_id :: uuid
  sr_provider :: string
  sr_scope :: string
  sr_version :: nat

record secret_metadata =
  sm_reference :: secret_reference
  sm_status :: secret_status
  sm_created :: int
  sm_replaced :: "int option"
  sm_disabled :: "int option"

record vault =
  v_idw :: idw
  v_app :: draft_db
  v_secrets :: "encrypted_secret list"
  v_connections :: "integration_connection list"
  v_checks :: "health_check list"

datatype vault_error =
    IntegrationCrypto
  | SecretUnavailable
  | ServiceError string
  | ConnectionInvalid
  | VaultIntegrity
  | VaultMissing
  | VaultIdentity id_error
  | Uncaught

text \<open>What a transaction generates, and what is outside it: the network, and the file of the key ring.\<close>

record vault_draws =
  vd_secret :: uuid
  vd_nonce :: string
  vd_connection :: uuid
  vd_event :: uuid
  vd_check :: uuid
  vd_correlation :: uuid

datatype probe_reply =
    PR_Response int nat "json option"
  | PR_HTTPError int "(nat \<times> json option) option"
  | PR_Timeout
  | PR_Network
  | PR_Other

record vault_env =
  ident :: id_env
  zones :: "string \<Rightarrow> bool"
  ring_path :: "ring_file option"
  network :: "string \<Rightarrow> string \<times> string \<Rightarrow> probe_reply"
  integrations_enabled :: bool

section \<open>What a provider may have\<close>

definition PROVIDERS :: "string list" where
  "PROVIDERS = [''eventbrite'', ''groq'', ''iterable'', ''openai'']"

definition HEALTH_CATEGORIES :: "string list" where
  "HEALTH_CATEGORIES = [''authentication'', ''authorization'', ''rate_limit'', ''timeout'', ''network'', ''invalid_response'', ''provider_unavailable'']"

definition CONFIGURATION_BY_PROVIDER :: "(string \<times> (string \<times> string list) list) list" where
  "CONFIGURATION_BY_PROVIDER = [(''eventbrite'', []), (''iterable'', [(''region'', [''us'', ''eu''])]),
     (''openai'', [(''model'', [''openai/gpt-oss-20b''])]), (''groq'', [(''model'', [''openai/gpt-oss-20b''])])]"

definition CAPABILITIES_BY_PROVIDER :: "(string \<times> string list) list" where
  "CAPABILITIES_BY_PROVIDER = [(''eventbrite'', [''connection_test'', ''metadata_read'']),
     (''iterable'', [''connection_test'', ''draft_create'', ''metadata_read'']),
     (''openai'', [''connection_test'', ''evaluation_judge'', ''inference'']),
     (''groq'', [''connection_test'', ''evaluation_judge'', ''inference''])]"

definition configuration_ok :: "id_env \<Rightarrow> string \<Rightarrow> strdict \<Rightarrow> bool" where
  "configuration_ok e provider c =
     (case map_of CONFIGURATION_BY_PROVIDER provider of
        None \<Rightarrow> False
      | Some rules \<Rightarrow>
          (c = [] \<or> set (map fst c) = set (map fst rules)
             \<and> list_all (\<lambda>(k, vs). case map_of c k of None \<Rightarrow> False | Some x \<Rightarrow> x \<in> set vs) rules)
          \<and> length (json_dumps (py e) (JObj (map (\<lambda>(k, x). (k, JStr x)) c))) \<le> 256)"

definition lifecycle_ok :: "integration_connection \<Rightarrow> bool" where
  "lifecycle_ok c =
     (case ic_state c of
        NOT_CONFIGURED \<Rightarrow> ic_secret c = None \<and> ic_capabilities c = []
      | _ \<Rightarrow> ic_secret c \<noteq> None \<and> Some (ic_capabilities c) = map_of CAPABILITIES_BY_PROVIDER (ic_provider c))"

text \<open>\<open>IntegrationConnection.clean\<close>: it raises \<open>ValidationError\<close> when this is false.\<close>

definition connection_clean :: "id_env \<Rightarrow> encrypted_secret list \<Rightarrow> integration_connection \<Rightarrow> bool" where
  "connection_clean e secrets c \<longleftrightarrow>
     configuration_ok e (ic_provider c) (ic_configuration c) \<and> lifecycle_ok c
     \<and> (case ic_secret c of
          None \<Rightarrow> True
        | Some i \<Rightarrow> (case tfind sc_pk i secrets of None \<Rightarrow> False | Some x \<Rightarrow> sc_provider x = ic_provider c))"

text \<open>\<open>save\<close>: the cleaning, then the write, which the check constraints or a unique column may refuse.\<close>

definition save_connection :: "id_env \<Rightarrow> integration_connection \<Rightarrow> vault \<Rightarrow> vault_error + vault" where
  "save_connection e c v =
     (if \<not> connection_clean e (v_secrets v) c then Inl ConnectionInvalid
      else if ic_provider c \<notin> set PROVIDERS \<or> ic_version c < 1 then Inl VaultIntegrity
      else case tfind ic_pk (ic_pk c) (v_connections v) of
        Some old \<Rightarrow> Inr (v\<lparr>v_connections := tput ic_pk c (v_connections v)\<rparr>)
      | None \<Rightarrow> if ic_provider c \<in> set (map ic_provider (v_connections v)) then Inl VaultIntegrity
                else Inr (v\<lparr>v_connections := v_connections v @ [c]\<rparr>))"

definition check_ok :: "health_check \<Rightarrow> bool" where
  "check_ok h \<longleftrightarrow> 0 \<le> hc_duration h \<and> hc_duration h \<le> 30000
     \<and> (hc_outcome h = ''healthy'' \<and> hc_category h = [] \<or> hc_outcome h = ''degraded'' \<and> hc_category h \<in> set HEALTH_CATEGORIES)"

definition create_check :: "health_check \<Rightarrow> vault \<Rightarrow> vault_error + vault" where
  "create_check h v =
     (if \<not> check_ok h \<or> hc_pk h \<in> set (map hc_pk (v_checks v)) then Inl VaultIntegrity
      else Inr (v\<lparr>v_checks := v_checks v @ [h]\<rparr>))"

section \<open>What the draft operations read\<close>

fun state_text :: "connection_state \<Rightarrow> string" where
  "state_text NOT_CONFIGURED = ''not_configured''"
| "state_text CONFIGURED = ''configured''"
| "state_text HEALTHY = ''healthy''"
| "state_text DEGRADED = ''degraded''"
| "state_text CONN_DISABLED = ''disabled''"

definition secret_of :: "vault \<Rightarrow> integration_connection \<Rightarrow> encrypted_secret option" where
  "secret_of v c = Option.bind (ic_secret c) (\<lambda>i. tfind sc_pk i (v_secrets v))"

definition connection_row :: "vault \<Rightarrow> integration_connection \<Rightarrow> connection" where
  "connection_row v c = \<lparr>cn_provider = ic_provider c, cn_state = state_text (ic_state c),
     cn_secret_active = map_option (\<lambda>x. sc_status x = SECRET_ACTIVE) (secret_of v c),
     cn_configuration = map (\<lambda>(k, x). (k, JStr x)) (ic_configuration c)\<rparr>"

definition app_view :: "vault \<Rightarrow> draft_db" where
  "app_view v = (v_app v)\<lparr>sessions := map admin_session.truncate (i_sessions (v_idw v)), profiles := i_profiles (v_idw v),
     active_users := map u_pk (filter u_active (i_users (v_idw v))), connections := map (connection_row v) (v_connections v)\<rparr>"

section \<open>The store\<close>

text \<open>\<open>PURPOSE_PATTERN\<close>.\<close>

definition purpose_ok :: "string \<Rightarrow> bool" where
  "purpose_ok s = (case s of [] \<Rightarrow> False
     | c # t \<Rightarrow> 97 \<le> code c \<and> code c \<le> 122 \<and> length t \<le> 63
         \<and> list_all (\<lambda>c. (let n = code c in 97 \<le> n \<and> n \<le> 122 \<or> 48 \<le> n \<and> n \<le> 57 \<or> c = CHR ''_'')) t)"

definition reference_to :: "encrypted_secret \<Rightarrow> secret_reference" where
  "reference_to x = \<lparr>sr_id = sc_pk x, sr_provider = sc_provider x, sr_scope = sc_scope x, sr_version = sc_version x\<rparr>"

definition new_secret :: "int \<Rightarrow> uuid \<Rightarrow> string \<Rightarrow> string \<Rightarrow> envelope \<Rightarrow> encrypted_secret" where
  "new_secret now pk provider scope en =
     \<lparr>sc_pk = pk, sc_provider = provider, sc_scope = scope, sc_envelope = en, sc_status = SECRET_ACTIVE, sc_version = 1,
      sc_created = now, sc_replaced = None, sc_disabled = None, sc_created_by = None, sc_replaced_by = None\<rparr>"

definition put :: "vault_env \<Rightarrow> int \<Rightarrow> vault_draws \<Rightarrow> string \<Rightarrow> string \<Rightarrow> string \<Rightarrow> vault \<Rightarrow> vault_error + secret_reference \<times> vault" where
  "put e now dr provider scope value v =
     (if provider \<notin> set PROVIDERS \<or> \<not> purpose_ok scope then Inl SecretUnavailable
      else case encrypt_secret (cipher (ident e)) (ring_path e) (vd_nonce dr) value (vd_secret dr) provider scope of
        None \<Rightarrow> Inl IntegrationCrypto
      | Some en \<Rightarrow>
          let x = new_secret now (vd_secret dr) provider scope en
          in if vd_secret dr \<in> set (map sc_pk (v_secrets v)) then Inl VaultIntegrity
             else Inr (reference_to x, v\<lparr>v_secrets := v_secrets v @ [x]\<rparr>))"

definition secret_for_reference :: "secret_reference \<Rightarrow> bool \<Rightarrow> vault \<Rightarrow> vault_error + encrypted_secret" where
  "secret_for_reference r current v =
     (case tfind sc_pk (sr_id r) (v_secrets v) of
        None \<Rightarrow> Inl SecretUnavailable
      | Some x \<Rightarrow> if sc_provider x \<noteq> sr_provider r \<or> sc_scope x \<noteq> sr_scope r \<or> current \<and> sc_version x \<noteq> sr_version r
                  then Inl SecretUnavailable else Inr x)"

definition store_secret :: "encrypted_secret \<Rightarrow> vault \<Rightarrow> vault" where
  "store_secret x v = v\<lparr>v_secrets := tput sc_pk x (v_secrets v)\<rparr>"

definition replace_secret :: "vault_env \<Rightarrow> int \<Rightarrow> vault_draws \<Rightarrow> secret_reference \<Rightarrow> string \<Rightarrow> vault \<Rightarrow> vault_error + secret_reference \<times> vault" where
  "replace_secret e now dr r value v =
     try_bind (secret_for_reference r True v) (\<lambda>x.
       if sc_status x \<noteq> SECRET_ACTIVE then Inl SecretUnavailable
       else case encrypt_secret (cipher (ident e)) (ring_path e) (vd_nonce dr) value (sc_pk x) (sc_provider x) (sc_scope x) of
         None \<Rightarrow> Inl IntegrationCrypto
       | Some en \<Rightarrow>
           let y = x\<lparr>sc_envelope := en, sc_version := sc_version x + 1, sc_replaced := Some now\<rparr>
           in Inr (reference_to y, store_secret y v))"

definition disable_secret :: "int \<Rightarrow> secret_reference \<Rightarrow> vault \<Rightarrow> vault_error + vault" where
  "disable_secret now r v =
     try_bind (secret_for_reference r True v) (\<lambda>x.
       if sc_status x = SECRET_DISABLED then Inr v
       else Inr (store_secret (x\<lparr>sc_status := SECRET_DISABLED, sc_version := sc_version x + 1, sc_disabled := Some now\<rparr>) v))"

definition metadata :: "secret_reference \<Rightarrow> vault \<Rightarrow> vault_error + secret_metadata" where
  "metadata r v =
     try_bind (secret_for_reference r False v) (\<lambda>x.
       Inr \<lparr>sm_reference = reference_to x, sm_status = sc_status x, sm_created = sc_created x, sm_replaced = sc_replaced x,
            sm_disabled = sc_disabled x\<rparr>)"

end
