(* ===== verification/Vault_Lease.thy ===== *)
theory Vault_Lease
  imports Vault
begin

text \<open>
  Leases of a credential: \<open>lease\<close>, \<open>_validate_lease_request\<close>, \<open>_open_lease\<close> and \<open>_LeaseContext\<close> of
  \<open>backend/integrations/secret_store.py\<close> and \<open>SecretLease\<close> of \<open>types.py\<close>.  A lease context keeps one lease
  object, which the caller of \<open>with\<close> holds as well: \<open>lc_object\<close> is that object, \<open>lc_held\<close> whether the context
  still refers to it.  Times are in microseconds; a step reads the clock once.
\<close>

section \<open>The request\<close>

definition MAX_LEASE_SECONDS :: int where "MAX_LEASE_SECONDS = 5 * 60"
definition CONNECTION_TEST_PURPOSE :: string where "CONNECTION_TEST_PURPOSE = ''connection_test''"
definition EVENTBRITE_READ_PURPOSE :: string where "EVENTBRITE_READ_PURPOSE = ''eventbrite_metadata_read''"
definition EVALUATION_JUDGE_PURPOSE :: string where "EVALUATION_JUDGE_PURPOSE = ''evaluation_judge''"
definition EVENTBRITE_WRITE_PURPOSE :: string where "EVENTBRITE_WRITE_PURPOSE = ''eventbrite_draft_write''"
definition ITERABLE_WRITE_PURPOSE :: string where "ITERABLE_WRITE_PURPOSE = ''iterable_draft_write''"

lemmas purposes = CONNECTION_TEST_PURPOSE_def EVENTBRITE_READ_PURPOSE_def EVALUATION_JUDGE_PURPOSE_def
  EVENTBRITE_WRITE_PURPOSE_def ITERABLE_WRITE_PURPOSE_def

record lease_request =
  lq_reference :: secret_reference
  lq_caller :: uuid
  lq_workflow :: "uuid option"
  lq_purpose :: string
  lq_ttl :: int
  lq_execution :: "uuid option"
  lq_kind :: "string option"

text \<open>The healthy connection of the provider whose secret is the referenced one, at that version and active.\<close>

definition healthy_connection :: "vault \<Rightarrow> string \<Rightarrow> secret_reference \<Rightarrow> integration_connection option" where
  "healthy_connection v provider r =
     find (\<lambda>c. ic_provider c = provider \<and> ic_state c = HEALTHY \<and> ic_secret c = Some (sr_id r)
             \<and> (case secret_of v c of None \<Rightarrow> False | Some x \<Rightarrow> sc_version x = sr_version r \<and> sc_status x = SECRET_ACTIVE))
       (v_connections v)"

text \<open>
  The user of a full owner session that is live: the conditions of \<open>session_live\<close>, which the draft
  operations use for the same query.
\<close>

definition writer_of :: "vault \<Rightarrow> int \<Rightarrow> uuid \<Rightarrow> nat option" where
  "writer_of v now sid =
     (case tfind se_pk sid (sessions (app_view v)) of
        None \<Rightarrow> None
      | Some se \<Rightarrow> (case tfind pf_pk (se_profile se) (profiles (app_view v)) of
          None \<Rightarrow> None
        | Some p \<Rightarrow> if session_live (app_view v) now (pf_user p) se then Some (pf_user p) else None))"

text \<open>The execution of a write: of this workflow and provider, approved by this user, claimed, and not finished.\<close>

definition claimed_execution :: "vault \<Rightarrow> dx_kind \<Rightarrow> string \<Rightarrow> uuid \<Rightarrow> uuid \<Rightarrow> nat \<Rightarrow> draft_execution option" where
  "claimed_execution v k provider pk wk u =
     (case tfind dx_pk pk (table_of k (app_view v)) of
        None \<Rightarrow> None
      | Some x \<Rightarrow> (case tfind in_pk (dx_intent x) (intents (app_view v)) of
          None \<Rightarrow> None
        | Some i \<Rightarrow>
            if in_workflow i = wk \<and> in_provider i = provider \<and> dx_status x \<in> {DX_EXECUTING, DX_UNKNOWN}
               \<and> dx_approver x = Some u \<and> dx_approved_at x \<noteq> None \<and> dx_claimed_at x \<noteq> None
            then Some x else None))"

definition still_valid :: "vault_env \<Rightarrow> vault \<Rightarrow> int \<Rightarrow> dx_kind \<Rightarrow> draft_execution \<Rightarrow> bool" where
  "still_valid e v now k x = (validate_execution (py (ident e)) (zones e) (app_view v) now False k x = Inr ())"

definition eventbrite_write_ok :: "vault_env \<Rightarrow> vault \<Rightarrow> int \<Rightarrow> lease_request \<Rightarrow> bool" where
  "eventbrite_write_ok e v now q =
     (case (lq_workflow q, lq_execution q) of
        (Some wk, Some pk) \<Rightarrow>
          sr_provider (lq_reference q) = ''eventbrite'' \<and> lq_kind q = Some ''draft''
          \<and> healthy_connection v ''eventbrite'' (lq_reference q) \<noteq> None
          \<and> (case writer_of v now (lq_caller q) of
               None \<Rightarrow> False
             | Some u \<Rightarrow> (case claimed_execution v DraftKind ''eventbrite'' pk wk u of
                 None \<Rightarrow> False
               | Some x \<Rightarrow> still_valid e v now DraftKind x))
      | _ \<Rightarrow> False)"

text \<open>The Iterable lane asks for the session that approved, and for the region of the connection.\<close>

definition execution_kind :: "string option \<Rightarrow> dx_kind option" where
  "execution_kind k = (if k = Some ''draft'' then Some DraftKind else if k = Some ''template'' then Some TemplateKind else None)"

definition region_agrees :: "draft_execution \<Rightarrow> integration_connection \<Rightarrow> bool" where
  "region_agrees x c =
     (case dx_configuration x of
        JObj d \<Rightarrow> dget d ''region'' = (case map_of (ic_configuration c) ''region'' of None \<Rightarrow> JNull | Some r \<Rightarrow> JStr r)
      | _ \<Rightarrow> False)"

definition iterable_write_ok :: "vault_env \<Rightarrow> vault \<Rightarrow> int \<Rightarrow> lease_request \<Rightarrow> bool" where
  "iterable_write_ok e v now q =
     (case (lq_workflow q, lq_execution q, execution_kind (lq_kind q)) of
        (Some wk, Some pk, Some k) \<Rightarrow>
          sr_provider (lq_reference q) = ''iterable'' \<and> iterable_enabled (v_app v)
          \<and> (case (healthy_connection v ''iterable'' (lq_reference q), writer_of v now (lq_caller q)) of
               (Some c, Some u) \<Rightarrow> (case claimed_execution v k ''iterable'' pk wk u of
                 None \<Rightarrow> False
               | Some x \<Rightarrow> dx_session x \<noteq> None \<and> still_valid e v now k x \<and> region_agrees x c)
             | _ \<Rightarrow> False)
      | _ \<Rightarrow> False)"

definition valid_purpose :: "lease_request \<Rightarrow> bool" where
  "valid_purpose q \<longleftrightarrow>
     lq_purpose q = CONNECTION_TEST_PURPOSE \<and> lq_workflow q = None
     \<or> lq_purpose q = EVENTBRITE_READ_PURPOSE \<and> sr_provider (lq_reference q) = ''eventbrite'' \<and> lq_workflow q = None
     \<or> lq_purpose q = EVALUATION_JUDGE_PURPOSE \<and> sr_provider (lq_reference q) = ''openai'' \<and> lq_workflow q \<noteq> None
     \<or> lq_purpose q = EVENTBRITE_WRITE_PURPOSE \<and> sr_provider (lq_reference q) = ''eventbrite'' \<and> lq_workflow q \<noteq> None
     \<or> lq_purpose q = ITERABLE_WRITE_PURPOSE \<and> sr_provider (lq_reference q) = ''iterable'' \<and> lq_workflow q \<noteq> None"

text \<open>The session of any lease: open, and its profile active.\<close>

definition session_open :: "vault \<Rightarrow> int \<Rightarrow> uuid \<Rightarrow> bool" where
  "session_open v now sid =
     (case tfind se_pk sid (i_sessions (v_idw v)) of
        None \<Rightarrow> False
      | Some se \<Rightarrow>
          (case tfind pf_pk (se_profile se) (i_profiles (v_idw v)) of None \<Rightarrow> False | Some p \<Rightarrow> pf_status p = ''active'')
          \<and> se_revoked se = None
          \<and> (case se_expires se of None \<Rightarrow> False | Some t \<Rightarrow> t > now)
          \<and> (case se_absolute_expires se of None \<Rightarrow> False | Some t \<Rightarrow> t > now))"

definition lease_request_ok :: "vault_env \<Rightarrow> int \<Rightarrow> lease_request \<Rightarrow> vault \<Rightarrow> bool" where
  "lease_request_ok e now q v \<longleftrightarrow>
     (lq_purpose q = EVENTBRITE_WRITE_PURPOSE \<longrightarrow> eventbrite_write_ok e v now q)
     \<and> (lq_purpose q = ITERABLE_WRITE_PURPOSE \<longrightarrow> iterable_write_ok e v now q)
     \<and> valid_purpose q \<and> 0 < lq_ttl q \<and> lq_ttl q \<le> seconds MAX_LEASE_SECONDS \<and> session_open v now (lq_caller q)"

section \<open>The lease object\<close>

record secret_lease =
  sl_reference :: secret_reference
  sl_caller :: uuid
  sl_workflow :: "uuid option"
  sl_purpose :: string
  sl_expires :: int
  sl_plaintext :: "string option"
  sl_used :: bool

definition lease_close :: "secret_lease \<Rightarrow> secret_lease" where
  "lease_close l = l\<lparr>sl_plaintext := None\<rparr>"

text \<open>
  \<open>use\<close>: what the operation sees, \<open>None\<close> when \<open>SecretUnavailable\<close> is raised; the buffer is destroyed
  however the operation ends.
\<close>

definition lease_use :: "int \<Rightarrow> secret_lease \<Rightarrow> secret_lease \<times> string option" where
  "lease_use now l =
     (if sl_used l \<or> sl_plaintext l = None \<or> now \<ge> sl_expires l then (lease_close l, None)
      else (l\<lparr>sl_used := True, sl_plaintext := None\<rparr>, sl_plaintext l))"

section \<open>Opening\<close>

definition envelope_plaintext :: "vault_env \<Rightarrow> encrypted_secret \<Rightarrow> string option" where
  "envelope_plaintext e x = decrypt_secret (cipher (ident e)) (ring_path e) (sc_envelope x) (sc_pk x) (sc_provider x) (sc_scope x)"

definition open_lease :: "vault_env \<Rightarrow> int \<Rightarrow> lease_request \<Rightarrow> int \<Rightarrow> vault \<Rightarrow> vault_error + secret_lease" where
  "open_lease e now q expires v =
     (if lq_purpose q \<in> {EVENTBRITE_WRITE_PURPOSE, ITERABLE_WRITE_PURPOSE} \<and> \<not> lease_request_ok e now (q\<lparr>lq_ttl := seconds 1\<rparr>) v
      then Inl SecretUnavailable
      else if now \<ge> expires then Inl SecretUnavailable
      else try_bind (secret_for_reference (lq_reference q) True v) (\<lambda>x.
        if sc_status x \<noteq> SECRET_ACTIVE then Inl SecretUnavailable
        else case envelope_plaintext e x of
          None \<Rightarrow> Inl SecretUnavailable
        | Some p \<Rightarrow> Inr \<lparr>sl_reference = reference_to x, sl_caller = lq_caller q, sl_workflow = lq_workflow q, sl_purpose = lq_purpose q,
                        sl_expires = expires, sl_plaintext = Some p, sl_used = False\<rparr>))"

record lease_context =
  lc_request :: lease_request
  lc_expires :: int
  lc_object :: "secret_lease option"
  lc_held :: bool
  lc_entered :: bool
  lc_closed :: bool

definition lease :: "vault_env \<Rightarrow> int \<Rightarrow> lease_request \<Rightarrow> vault \<Rightarrow> vault_error + lease_context" where
  "lease e now q v =
     (if lease_request_ok e now q v
      then Inr \<lparr>lc_request = q, lc_expires = now + lq_ttl q, lc_object = None, lc_held = False, lc_entered = False, lc_closed = False\<rparr>
      else Inl SecretUnavailable)"

definition invalidate :: "lease_context \<Rightarrow> lease_context" where
  "invalidate c = c\<lparr>lc_object := (if lc_held c then map_option lease_close (lc_object c) else lc_object c), lc_held := False, lc_closed := True\<rparr>"

definition ctx_enter :: "vault_env \<Rightarrow> int \<Rightarrow> vault \<Rightarrow> lease_context \<Rightarrow> lease_context \<times> (vault_error + secret_lease)" where
  "ctx_enter e now v c =
     (if lc_entered c \<or> lc_closed c then (invalidate c, Inl SecretUnavailable)
      else case open_lease e now (lc_request c) (lc_expires c) v of
        Inl x \<Rightarrow> (c, Inl x)
      | Inr l \<Rightarrow> (c\<lparr>lc_object := Some l, lc_held := True, lc_entered := True\<rparr>, Inr l))"

definition ctx_use :: "int \<Rightarrow> lease_context \<Rightarrow> lease_context \<times> string option" where
  "ctx_use now c =
     (case lc_object c of
        None \<Rightarrow> (c, None)
      | Some l \<Rightarrow> (case lease_use now l of (l', r) \<Rightarrow> (c\<lparr>lc_object := Some l'\<rparr>, r)))"

definition ctx_exit :: "lease_context \<Rightarrow> lease_context" where
  "ctx_exit c = invalidate c"

end
