(* ===== verification/Vault_Probe.thy ===== *)
theory Vault_Probe
  imports Vault_Lease
begin

text \<open>
  The probes of a connection: \<open>backend/integrations/providers.py\<close> and \<open>transport.py\<close>.  The network is the
  function \<open>network\<close> of the environment: for a URL and one header, a response with its body (its length in
  bytes and what \<open>json.loads\<close> makes of it), an HTTP error with its body (\<open>None\<close> when reading it raises), a
  timeout, another \<open>OSError\<close>, or an exception of another class.  A request is refused before it is sent when
  the credential is not text; the header of \<open>http.client\<close> is Latin-1, so a credential with a character
  beyond that raises \<open>UnicodeError\<close> like one that is not UTF-8.
\<close>

section \<open>The transport\<close>

datatype response_shape = EVENTBRITE_IDENTITY | ITERABLE_LISTS | MODEL_LIST

datatype probe_error = SafeProbeError string | ProbeValue | ProbeCredential | ProbeRaised

record probe_policy =
  header_name :: string
  header_prefix :: string
  response_shape :: response_shape

definition PROBE_POLICIES :: "(string \<times> probe_policy) list" where
  "PROBE_POLICIES =
     [(''https://www.eventbriteapi.com/v3/users/me/'', \<lparr>header_name = ''Authorization'', header_prefix = ''Bearer '', response_shape = EVENTBRITE_IDENTITY\<rparr>),
      (''https://api.iterable.com/api/lists'', \<lparr>header_name = ''Api-Key'', header_prefix = [], response_shape = ITERABLE_LISTS\<rparr>),
      (''https://api.eu.iterable.com/api/lists'', \<lparr>header_name = ''Api-Key'', header_prefix = [], response_shape = ITERABLE_LISTS\<rparr>),
      (''https://api.openai.com/v1/models'', \<lparr>header_name = ''Authorization'', header_prefix = ''Bearer '', response_shape = MODEL_LIST\<rparr>),
      (''https://api.groq.com/openai/v1/models'', \<lparr>header_name = ''Authorization'', header_prefix = ''Bearer '', response_shape = MODEL_LIST\<rparr>)]"

definition MAX_RESPONSE_BYTES :: nat where "MAX_RESPONSE_BYTES = 64 * 1024"

text \<open>UTF-8 of characters up to \<open>U+00FF\<close>.\<close>

fun latin1 :: "string \<Rightarrow> string option" where
  "latin1 [] = Some []"
| "latin1 (c # cs) =
     (if code c < 128 then map_option ((#) c) (latin1 cs)
      else case cs of
        [] \<Rightarrow> None
      | d # ds \<Rightarrow>
          if (code c = 194 \<or> code c = 195) \<and> 128 \<le> code d \<and> code d \<le> 191
          then map_option ((#) (char_of (64 * (code c - 192) + (code d - 128)))) (latin1 ds)
          else None)"

definition CR :: char where "CR = char_of (13 :: nat)"
definition LF :: char where "LF = char_of (10 :: nat)"

text \<open>\<open>bool(identity)\<close> of a string or an integer; \<open>True\<close> is an integer.\<close>

fun identity_ok :: "json \<Rightarrow> bool" where
  "identity_ok (JStr s) \<longleftrightarrow> s \<noteq> []"
| "identity_ok (JInt i) \<longleftrightarrow> i \<noteq> 0"
| "identity_ok (JBool b) \<longleftrightarrow> b"
| "identity_ok _ \<longleftrightarrow> False"

fun is_list :: "json \<Rightarrow> bool" where
  "is_list (JList _) \<longleftrightarrow> True"
| "is_list _ \<longleftrightarrow> False"

definition shape_of :: "response_shape \<Rightarrow> json option \<Rightarrow> response_shape option" where
  "shape_of expected body =
     (case body of
        Some (JObj d) \<Rightarrow>
          if (case expected of
                EVENTBRITE_IDENTITY \<Rightarrow> identity_ok (dget d ''id'')
              | ITERABLE_LISTS \<Rightarrow> is_list (dget d ''lists'')
              | MODEL_LIST \<Rightarrow> dget d ''object'' = JStr ''list'' \<and> is_list (dget d ''data''))
          then Some expected else None
      | _ \<Rightarrow> None)"

definition parse_response :: "int \<Rightarrow> nat \<Rightarrow> json option \<Rightarrow> response_shape \<Rightarrow> probe_error + int \<times> response_shape option" where
  "parse_response st bytes body expected =
     (if bytes > MAX_RESPONSE_BYTES then Inl (SafeProbeError ''invalid_response'')
      else Inr (st, if st = 200 then shape_of expected body else None))"

definition transport_call :: "vault_env \<Rightarrow> string \<Rightarrow> probe_policy \<Rightarrow> string \<Rightarrow> probe_error + int \<times> response_shape option" where
  "transport_call e url p credential =
     (case latin1 credential of
        None \<Rightarrow> Inl ProbeValue
      | Some t \<Rightarrow>
          if t = [] \<or> CR \<in> set t \<or> LF \<in> set t then Inl ProbeValue
          else (case network e url (header_name p, header_prefix p @ t) of
            PR_Response st bytes body \<Rightarrow> parse_response st bytes body (response_shape p)
          | PR_HTTPError st None \<Rightarrow> Inl ProbeRaised
          | PR_HTTPError st (Some (bytes, body)) \<Rightarrow> parse_response st bytes body (response_shape p)
          | PR_Timeout \<Rightarrow> Inl (SafeProbeError ''timeout'')
          | PR_Network \<Rightarrow> Inl (SafeProbeError ''network'')
          | PR_Other \<Rightarrow> Inl ProbeRaised))"

text \<open>\<open>BoundedHTTPSProbeTransport.get\<close>: the lease is used for this one call.\<close>

definition transport_get :: "vault_env \<Rightarrow> int \<Rightarrow> string \<Rightarrow> secret_lease \<Rightarrow> secret_lease \<times> (probe_error + int \<times> response_shape option)" where
  "transport_get e now url l =
     (case map_of PROBE_POLICIES url of
        None \<Rightarrow> (l, Inl (SafeProbeError ''network''))
      | Some p \<Rightarrow> (case lease_use now l of
          (l', None) \<Rightarrow> (l', Inl ProbeCredential)
        | (l', Some t) \<Rightarrow> (l', transport_call e url p t)))"

section \<open>The probes\<close>

record probe_result =
  pr_ok :: bool
  pr_category :: string

definition degraded :: "string \<Rightarrow> probe_result" where
  "degraded c = \<lparr>pr_ok = False, pr_category = c\<rparr>"

definition status_category :: "int \<Rightarrow> string option" where
  "status_category st =
     (if st = 401 then Some ''authentication''
      else if st = 403 then Some ''authorization''
      else if st = 429 then Some ''rate_limit''
      else if 500 \<le> st \<and> st \<le> 599 then Some ''provider_unavailable''
      else if 400 \<le> st \<and> st \<le> 499 then Some ''invalid_response''
      else None)"

definition probe_shape :: "string \<Rightarrow> response_shape" where
  "probe_shape provider =
     (if provider = ''eventbrite'' then EVENTBRITE_IDENTITY else if provider = ''iterable'' then ITERABLE_LISTS else MODEL_LIST)"

text \<open>\<open>_url\<close> of the four probes, \<open>None\<close> when it raises \<open>ValueError\<close>.\<close>

definition probe_url :: "string \<Rightarrow> strdict \<Rightarrow> string option" where
  "probe_url provider c =
     (if provider = ''eventbrite'' then (if c = [] then Some ''https://www.eventbriteapi.com/v3/users/me/'' else None)
      else if provider = ''iterable'' then
        (if set (map fst c) \<noteq> {''region''} then None
         else if map_of c ''region'' = Some ''us'' then Some ''https://api.iterable.com/api/lists''
         else if map_of c ''region'' = Some ''eu'' then Some ''https://api.eu.iterable.com/api/lists''
         else None)
      else if c \<noteq> [(''model'', ''openai/gpt-oss-20b'')] then None
      else if provider = ''openai'' then Some ''https://api.openai.com/v1/models''
      else Some ''https://api.groq.com/openai/v1/models'')"

text \<open>
  \<open>ProviderProbe.probe\<close>: a lease that cannot be used (\<open>SecretUnavailable\<close>) and an exception of another
  class are not caught here.
\<close>

definition probe_outcome :: "string \<Rightarrow> probe_error + int \<times> response_shape option \<Rightarrow> vault_error + probe_result" where
  "probe_outcome provider r =
     (case r of
        Inl (SafeProbeError c) \<Rightarrow> Inr (degraded c)
      | Inl ProbeValue \<Rightarrow> Inr (degraded ''invalid_response'')
      | Inl ProbeCredential \<Rightarrow> Inl SecretUnavailable
      | Inl ProbeRaised \<Rightarrow> Inl Uncaught
      | Inr (st, shape) \<Rightarrow>
          (case status_category st of
             Some c \<Rightarrow> Inr (degraded c)
           | None \<Rightarrow> if st \<noteq> 200 \<or> shape \<noteq> Some (probe_shape provider) then Inr (degraded ''invalid_response'')
                     else Inr \<lparr>pr_ok = True, pr_category = []\<rparr>))"

definition probe :: "vault_env \<Rightarrow> int \<Rightarrow> string \<Rightarrow> strdict \<Rightarrow> secret_lease \<Rightarrow> secret_lease \<times> (vault_error + probe_result)" where
  "probe e now provider c l =
     (case probe_url provider c of
        None \<Rightarrow> (l, Inr (degraded ''invalid_response''))
      | Some url \<Rightarrow> (case transport_get e now url l of (l', r) \<Rightarrow> (l', probe_outcome provider r)))"

section \<open>What a probe tells\<close>

lemma status_category_safe: "status_category st = Some c \<Longrightarrow> c \<in> set HEALTH_CATEGORIES"
  by (auto simp: status_category_def HEALTH_CATEGORIES_def split: if_splits)

lemma transport_call_category:
  "transport_call e url p t = Inl (SafeProbeError c) \<Longrightarrow> c \<in> set HEALTH_CATEGORIES"
  by (auto simp: transport_call_def parse_response_def HEALTH_CATEGORIES_def split: option.splits if_splits probe_reply.splits)

lemma transport_get_category:
  "transport_get e now url l = (l', Inl (SafeProbeError c)) \<Longrightarrow> c \<in> set HEALTH_CATEGORIES"
  by (auto simp: transport_get_def dest: transport_call_category split: option.splits prod.splits)
     (simp add: HEALTH_CATEGORIES_def)

text \<open>A finished probe is either good, with no category, or bad, with one of the seven that the table admits.\<close>

lemma probe_result_safe:
  assumes "probe e now provider c l = (l', Inr r)"
  shows "pr_ok r \<and> pr_category r = [] \<or> \<not> pr_ok r \<and> pr_category r \<in> set HEALTH_CATEGORIES"
  using assms
  by (auto simp: probe_def probe_outcome_def degraded_def HEALTH_CATEGORIES_def dest: status_category_safe transport_get_category
      split: option.splits prod.splits sum.splits probe_error.splits if_splits)

text \<open>A good probe has sent the credential, once, to the provider's own address, and got the expected answer.\<close>

lemma probe_okE:
  assumes "probe e now provider c l = (l', Inr r)" and "pr_ok r"
  obtains url p t h where "probe_url provider c = Some url" and "map_of PROBE_POLICIES url = Some p" and "sl_plaintext l = Some t"
    and "\<not> sl_used l" and "now < sl_expires l" and "latin1 t = Some h" and "sl_plaintext l' = None"
    and "transport_call e url p t = Inr (200, Some (probe_shape provider))"
proof -
  obtain url l2 x where u: "probe_url provider c = Some url" "transport_get e now url l = (l2, x)" "l2 = l'" "probe_outcome provider x = Inr r"
    using assms by (auto simp: probe_def degraded_def split: option.splits prod.splits)
  have x: "x = Inr (200, Some (probe_shape provider))"
    using u(4) assms(2) by (auto simp: probe_outcome_def degraded_def split: sum.splits probe_error.splits option.splits if_splits)
  obtain p t where p: "map_of PROBE_POLICIES url = Some p" "lease_use now l = (l', Some t)" "transport_call e url p t = Inr (200, Some (probe_shape provider))"
    using u(2,3) x by (auto simp: transport_get_def split: option.splits prod.splits)
  moreover have "sl_plaintext l = Some t" "\<not> sl_used l" "now < sl_expires l" "sl_plaintext l' = None"
    using p(2) by (auto simp: lease_use_def split: if_splits)
  moreover obtain h where "latin1 t = Some h" using p(3) by (auto simp: transport_call_def split: option.splits)
  ultimately show thesis using u(1) that by blast
qed

end
