(* ===== verification/Vault_Services.thy ===== *)
theory Vault_Services
  imports Vault_Probe
begin

text \<open>
  \<open>backend/integrations/services.py\<close>: what the owner does to a connection.  \<open>actor\<close> is the owner session of
  the request.  A service is one transaction, except \<open>test_connection\<close>: it reads the connection, then probes
  the provider under a lease, then stores the verdict in a transaction of its own, and other requests may
  run in between; it is the three steps \<open>begin_test\<close>, \<open>probe_test\<close> and \<open>finish_test\<close>.
\<close>

definition DEFAULT_CONFIGURATION :: "(string \<times> strdict) list" where
  "DEFAULT_CONFIGURATION = [(''eventbrite'', []), (''iterable'', [(''region'', ''us'')]),
     (''openai'', [(''model'', ''openai/gpt-oss-20b'')]), (''groq'', [(''model'', ''openai/gpt-oss-20b'')])]"

definition SCOPE_BY_PROVIDER :: "(string \<times> string) list" where
  "SCOPE_BY_PROVIDER = [(''eventbrite'', ''private_token''), (''iterable'', ''api_key''), (''openai'', ''project_key''), (''groq'', ''api_key'')]"

definition validate_provider :: "string \<Rightarrow> vault_error + unit" where
  "validate_provider provider = (if provider \<in> set PROVIDERS then Inr () else Inl (ServiceError ''provider_not_found''))"

definition expect_version :: "integration_connection \<Rightarrow> int \<Rightarrow> vault_error + unit" where
  "expect_version c expected =
     (if expected < 1 then Inl (ServiceError ''invalid_request'')
      else if int (ic_version c) \<noteq> expected then Inl (ServiceError ''version_conflict'')
      else Inr ())"

definition find_connection :: "string \<Rightarrow> vault \<Rightarrow> integration_connection option" where
  "find_connection provider v = tfind ic_provider provider (v_connections v)"

definition new_connection :: "int \<Rightarrow> uuid \<Rightarrow> string \<Rightarrow> integration_connection" where
  "new_connection now pk provider =
     \<lparr>ic_pk = pk, ic_provider = provider, ic_state = NOT_CONFIGURED, ic_capabilities = [],
      ic_configuration = (case map_of DEFAULT_CONFIGURATION provider of None \<Rightarrow> [] | Some c \<Rightarrow> c),
      ic_secret = None, ic_version = 1, ic_created = now, ic_updated = now, ic_success = None, ic_failure = []\<rparr>"

definition locked_or_new :: "vault_env \<Rightarrow> int \<Rightarrow> vault_draws \<Rightarrow> string \<Rightarrow> vault \<Rightarrow> vault_error + integration_connection \<times> vault" where
  "locked_or_new e now dr provider v =
     (case find_connection provider v of
        Some c \<Rightarrow> Inr (c, v)
      | None \<Rightarrow> let c = new_connection now (vd_connection dr) provider
                in if vd_connection dr \<in> set (map ic_pk (v_connections v)) then Inl VaultIntegrity
                   else try_bind (save_connection (ident e) c v) (\<lambda>v'. Inr (c, v')))"

definition audit :: "vault_env \<Rightarrow> int \<Rightarrow> vault_draws \<Rightarrow> string \<Rightarrow> string \<Rightarrow> owner_session \<Rightarrow> string \<Rightarrow> nat \<Rightarrow> string \<Rightarrow> uuid \<Rightarrow> vault
    \<Rightarrow> vault_error + vault" where
  "audit e now dr action result actor provider version category correlation v =
     try_bind (of_option VaultMissing (tfind pf_pk (se_profile actor) (i_profiles (v_idw v)))) (\<lambda>p.
       case record_security_event (ident e) now (vd_event dr) action result (Some p) (source_ip (ident e) (i_rq (v_idw v))) (Some (se_pk actor))
              ''integration_connection'' provider
              [(''version'', JInt (int version)), (''failure_category'', if category = [] then JNull else JStr category),
               (''correlation_id'', JStr correlation)] (v_idw v) of
         (w, Inl x) \<Rightarrow> Inl (VaultIdentity x)
       | (w, Inr _) \<Rightarrow> Inr (v\<lparr>v_idw := w\<rparr>))"

definition actor_user_of :: "owner_session \<Rightarrow> vault \<Rightarrow> nat option" where
  "actor_user_of actor v = map_option pf_user (tfind pf_pk (se_profile actor) (i_profiles (v_idw v)))"

text \<open>\<open>EncryptedSecret.objects.filter(pk=..).update(..)\<close>.\<close>

definition update_secret :: "uuid \<Rightarrow> (encrypted_secret \<Rightarrow> encrypted_secret) \<Rightarrow> vault \<Rightarrow> vault" where
  "update_secret pk f v = (case tfind sc_pk pk (v_secrets v) of None \<Rightarrow> v | Some x \<Rightarrow> store_secret (f x) v)"

text \<open>The credential under the connection: a new secret when there is none or it was disabled, else a new version of the same.\<close>

definition new_credential :: "vault_env \<Rightarrow> int \<Rightarrow> vault_draws \<Rightarrow> string \<Rightarrow> string \<Rightarrow> owner_session \<Rightarrow> integration_connection \<Rightarrow> vault
    \<Rightarrow> vault_error + uuid \<times> vault" where
  "new_credential e now dr provider credential actor c v =
     (case (ic_secret c, ic_state c = CONN_DISABLED) of
        (Some i, False) \<Rightarrow>
          try_bind (of_option VaultMissing (tfind sc_pk i (v_secrets v))) (\<lambda>x.
          try_bind (replace_secret e now dr (reference_to x) credential v) (\<lambda>(r, v').
            Inr (i, update_secret (sr_id r) (\<lambda>x. x\<lparr>sc_replaced_by := actor_user_of actor v\<rparr>) v')))
      | _ \<Rightarrow>
          try_bind (of_option VaultMissing (map_of SCOPE_BY_PROVIDER provider)) (\<lambda>scope.
          try_bind (put e now dr provider scope credential v) (\<lambda>(r, v').
            Inr (sr_id r, update_secret (sr_id r) (\<lambda>x. x\<lparr>sc_created_by := actor_user_of actor v\<rparr>) v'))))"

definition replace_credential :: "vault_env \<Rightarrow> int \<Rightarrow> vault_draws \<Rightarrow> string \<Rightarrow> string \<Rightarrow> int \<Rightarrow> owner_session \<Rightarrow> vault
    \<Rightarrow> vault_error + integration_connection \<times> vault" where
  "replace_credential e now dr provider credential expected actor v =
     try_bind (validate_provider provider) (\<lambda>_.
       if credential = [] \<or> length credential > 16384 then Inl (ServiceError ''invalid_request'')
       else
         try_bind (locked_or_new e now dr provider v) (\<lambda>(c, v1).
         try_bind (expect_version c expected) (\<lambda>_.
         try_bind (new_credential e now dr provider credential actor c v1) (\<lambda>(i, v2).
           let c' = c\<lparr>ic_secret := Some i, ic_state := CONFIGURED,
                      ic_capabilities := (case map_of CAPABILITIES_BY_PROVIDER provider of None \<Rightarrow> [] | Some l \<Rightarrow> l),
                      ic_version := ic_version c + 1, ic_updated := now\<rparr>
           in try_bind (save_connection (ident e) c' v2) (\<lambda>v3.
              try_bind (audit e now dr ''integration.credential_replaced'' ''success'' actor provider (ic_version c') [] (vd_correlation dr) v3) (\<lambda>v4.
                Inr (c', v4)))))))"

definition valid_configuration :: "string \<Rightarrow> strdict \<Rightarrow> bool" where
  "valid_configuration provider c =
     (if provider = ''eventbrite'' then c = []
      else if provider = ''iterable'' then
        set (map fst c) = {''region''} \<and> (case map_of c ''region'' of None \<Rightarrow> False | Some r \<Rightarrow> r \<in> {''us'', ''eu''})
      else c = [(''model'', ''openai/gpt-oss-20b'')])"

definition update_configuration :: "vault_env \<Rightarrow> int \<Rightarrow> vault_draws \<Rightarrow> string \<Rightarrow> strdict \<Rightarrow> int \<Rightarrow> owner_session \<Rightarrow> vault
    \<Rightarrow> vault_error + integration_connection \<times> vault" where
  "update_configuration e now dr provider configuration expected actor v =
     try_bind (validate_provider provider) (\<lambda>_.
     try_bind (locked_or_new e now dr provider v) (\<lambda>(c, v1).
     try_bind (expect_version c expected) (\<lambda>_.
       if Some configuration \<noteq> map_of DEFAULT_CONFIGURATION provider \<and> \<not> valid_configuration provider configuration
       then Inl (ServiceError ''invalid_request'')
       else
         let c' = c\<lparr>ic_configuration := configuration, ic_version := ic_version c + 1, ic_updated := now\<rparr>
         in try_bind (save_connection (ident e) c' v1) (\<lambda>v2.
            try_bind (audit e now dr ''integration.configuration_changed'' ''success'' actor provider (ic_version c') [] (vd_correlation dr) v2) (\<lambda>v3.
              Inr (c', v3))))))"

definition disable_connection :: "vault_env \<Rightarrow> int \<Rightarrow> vault_draws \<Rightarrow> string \<Rightarrow> int \<Rightarrow> owner_session \<Rightarrow> vault
    \<Rightarrow> vault_error + integration_connection \<times> vault" where
  "disable_connection e now dr provider expected actor v =
     try_bind (validate_provider provider) (\<lambda>_.
     try_bind (of_option (ServiceError ''provider_not_found'') (find_connection provider v)) (\<lambda>c.
     try_bind (expect_version c expected) (\<lambda>_.
     try_bind (case ic_secret c of
                 None \<Rightarrow> Inr v
               | Some i \<Rightarrow> try_bind (of_option VaultMissing (tfind sc_pk i (v_secrets v))) (\<lambda>x. disable_secret now (reference_to x) v)) (\<lambda>v1.
       let c' = c\<lparr>ic_state := CONN_DISABLED, ic_version := ic_version c + 1, ic_updated := now\<rparr>
       in try_bind (save_connection (ident e) c' v1) (\<lambda>v2.
          try_bind (audit e now dr ''integration.connection_disabled'' ''success'' actor provider (ic_version c') [] (vd_correlation dr) v2) (\<lambda>v3.
            Inr (c', v3)))))))"

section \<open>Testing a connection\<close>

text \<open>What the first read leaves in memory: the connection, and the reference to its secret.\<close>

record test_run =
  tr_connection :: integration_connection
  tr_reference :: secret_reference
  tr_expected :: int

definition begin_test :: "string \<Rightarrow> int \<Rightarrow> vault \<Rightarrow> vault_error + test_run" where
  "begin_test provider expected v =
     try_bind (validate_provider provider) (\<lambda>_.
     try_bind (of_option (ServiceError ''provider_not_found'') (find_connection provider v)) (\<lambda>c.
     try_bind (expect_version c expected) (\<lambda>_.
       if ic_state c = CONN_DISABLED then Inl (ServiceError ''integration_unavailable'')
       else case ic_secret c of
         None \<Rightarrow> Inl (ServiceError ''integration_unavailable'')
       | Some i \<Rightarrow> try_bind (of_option SecretUnavailable (tfind sc_pk i (v_secrets v))) (\<lambda>x.
           Inr \<lparr>tr_connection = c, tr_reference = reference_to x, tr_expected = expected\<rparr>))))"

definition test_request :: "test_run \<Rightarrow> uuid \<Rightarrow> lease_request" where
  "test_request t caller = \<lparr>lq_reference = tr_reference t, lq_caller = caller, lq_workflow = None, lq_purpose = CONNECTION_TEST_PURPOSE,
     lq_ttl = seconds 15, lq_execution = None, lq_kind = None\<rparr>"

text \<open>The lease is asked for, entered and used at the three instants of \<open>times\<close>, on the states they find.\<close>

definition probe_test :: "vault_env \<Rightarrow> int \<Rightarrow> int \<Rightarrow> int \<Rightarrow> uuid \<Rightarrow> test_run \<Rightarrow> vault \<Rightarrow> vault \<Rightarrow> vault_error + probe_result" where
  "probe_test e t_lease t_enter t_use caller t v v' =
     try_bind (lease e t_lease (test_request t caller) v) (\<lambda>c.
       case ctx_enter e t_enter v' c of
         (c', Inl x) \<Rightarrow> Inl x
       | (c', Inr l) \<Rightarrow> snd (probe e t_use (ic_provider (tr_connection t)) (ic_configuration (tr_connection t)) l))"

definition finish_test :: "vault_env \<Rightarrow> int \<Rightarrow> vault_draws \<Rightarrow> int \<Rightarrow> owner_session \<Rightarrow> test_run \<Rightarrow> probe_result \<Rightarrow> vault
    \<Rightarrow> vault_error + health_check \<times> vault" where
  "finish_test e now dr elapsed_ms actor t r v =
     try_bind (of_option VaultMissing (tfind ic_pk (ic_pk (tr_connection t)) (v_connections v))) (\<lambda>c.
     try_bind (expect_version c (tr_expected t)) (\<lambda>_.
       let category = (if pr_ok r then [] else if pr_category r = [] then ''network'' else pr_category r);
           h = \<lparr>hc_pk = vd_check dr, hc_connection = ic_pk c, hc_outcome = (if pr_ok r then ''healthy'' else ''degraded''), hc_category = category,
                hc_duration = min elapsed_ms 30000, hc_correlation = vd_correlation dr, hc_tested = now\<rparr>;
           c' = c\<lparr>ic_state := (if pr_ok r then HEALTHY else DEGRADED), ic_failure := category,
                  ic_success := (if pr_ok r then Some now else ic_success c), ic_updated := now\<rparr>
       in try_bind (create_check h v) (\<lambda>v1.
          try_bind (save_connection (ident e) c' v1) (\<lambda>v2.
          try_bind (audit e now dr ''integration.connection_tested'' (if pr_ok r then ''success'' else ''failure'') actor (ic_provider c) (ic_version c')
                      category (vd_correlation dr) v2) (\<lambda>v3.
            Inr (h, v3))))))"

text \<open>\<open>test_connection\<close> when no other request runs during the probe.\<close>

definition test_connection :: "vault_env \<Rightarrow> int \<Rightarrow> vault_draws \<Rightarrow> int \<Rightarrow> string \<Rightarrow> int \<Rightarrow> owner_session \<Rightarrow> vault
    \<Rightarrow> vault_error + health_check \<times> vault" where
  "test_connection e now dr elapsed_ms provider expected actor v =
     try_bind (begin_test provider expected v) (\<lambda>t.
     try_bind (probe_test e now now now (se_pk actor) t v v) (\<lambda>r.
       finish_test e now dr elapsed_ms actor t r v))"

section \<open>Reading\<close>

definition list_connections :: "vault \<Rightarrow> integration_connection list" where
  "list_connections v = sort_key ic_provider (v_connections v)"

text \<open>\<open>integration_audit\<close>: newest first, of one connection; the cursor is the last row of the page before, signed by Django.\<close>

definition integration_audit :: "string \<Rightarrow> uuid \<Rightarrow> (int \<times> uuid) option \<Rightarrow> int \<Rightarrow> vault
    \<Rightarrow> vault_error + security_event list \<times> (int \<times> uuid) option" where
  "integration_audit provider owner cur limit v =
     try_bind (validate_provider provider) (\<lambda>_.
       if \<not> (1 \<le> limit \<and> limit \<le> 100) then Inl (ServiceError ''invalid_pagination'')
       else let rows = take (nat limit + 1) (newest_first (filter (\<lambda>x. ev_profile x = Some owner \<and> ev_target_type x = ''integration_connection''
                    \<and> ev_target_id x = provider \<and> before_cursor cur x) (i_events (v_idw v))));
                page = take (nat limit) rows
            in Inr (page, if length rows > nat limit \<and> page \<noteq> [] then Some (ev_created (last page), ev_pk (last page)) else None))"

end
