(* ===== verification/Identity_Views.thy ===== *)
theory Identity_Views
  imports Identity_Auth
begin

text \<open>
  The HTTP surface of the identity application: \<open>identity/views.py\<close>, \<open>urls.py\<close>, the middleware around it and
  the management commands.  A view is a program that returns a response; an error it leaves uncaught is
  Django's 500.  \<open>http_body\<close> is a request body as its length in bytes and what \<open>json.loads\<close> makes of it.
  Instants stay numbers of microseconds where the code prints them with \<open>isoformat\<close>.
\<close>

section \<open>Responses\<close>

record http_body =
  hb_bytes :: nat
  hb_json :: "json option"

record response =
  rs_status :: int
  rs_code :: string
  rs_retry :: "int option"
  rs_body :: dict

definition MAX_REQUEST_BYTES :: nat where "MAX_REQUEST_BYTES = 8192"

definition ok_response :: "dict \<Rightarrow> response" where
  "ok_response body = \<lparr>rs_status = 200, rs_code = [], rs_retry = None, rs_body = body\<rparr>"

definition problem :: "string \<Rightarrow> int \<Rightarrow> string \<Rightarrow> string \<Rightarrow> string \<Rightarrow> response" where
  "problem path st cod title message =
     \<lparr>rs_status = st, rs_code = cod, rs_retry = None,
      rs_body = [(''type'', JStr (''https://civicloop.karthikkannan.ca/problems/'' @ cod)), (''title'', JStr title), (''status'', JInt st),
        (''detail'', JStr message), (''instance'', JStr path), (''code'', JStr cod), (''message'', JStr message)]\<rparr>"

definition not_found :: response where
  "not_found = \<lparr>rs_status = 404, rs_code = [], rs_retry = None, rs_body = []\<rparr>"

definition json_body :: "http_body \<Rightarrow> dict option" where
  "json_body b = (if hb_bytes b > MAX_REQUEST_BYTES then None else case hb_json b of Some (JObj d) \<Rightarrow> Some d | _ \<Rightarrow> None)"

text \<open>\<open>body.get(k) if body is not None else None\<close> when it is a string.\<close>

definition text_field :: "http_body \<Rightarrow> string \<Rightarrow> string option" where
  "text_field b k = (case json_body b of None \<Rightarrow> None | Some d \<Rightarrow> (case dget d k of JStr s \<Rightarrow> Some s | _ \<Rightarrow> None))"

text \<open>\<open>_require_feature\<close> in front of a view, and \<open>try .. except\<close> around a service.\<close>

definition require_feature :: "id_env \<Rightarrow> response prog \<Rightarrow> response prog" where
  "require_feature e m = (if identity_enabled e then m else p_ret not_found)"

definition p_catch :: "'a prog \<Rightarrow> (id_error \<Rightarrow> 'a prog) \<Rightarrow> 'a prog" where
  "p_catch m h w = (case m w of (w', Inl x) \<Rightarrow> h x w' | r \<Rightarrow> r)"

definition invalid_request :: "string \<Rightarrow> string \<Rightarrow> response" where
  "invalid_request path message = problem path 400 ''invalid_request'' ''Invalid request'' message"

definition preauthentication_problem :: "string \<Rightarrow> response" where
  "preauthentication_problem path =
     problem path 401 ''preauthentication_required'' ''Password verification required'' ''Complete administrator password verification to continue.''"

definition verification_problem :: "string \<Rightarrow> response" where
  "verification_problem path = problem path 401 ''verification_failed'' ''Verification failed'' ''The supplied verification credential is invalid.''"

definition authentication_problem :: "string \<Rightarrow> response" where
  "authentication_problem path = problem path 401 ''authentication_required'' ''Authentication required'' ''Administrator authentication is required.''"

definition freshness_problem :: "string \<Rightarrow> response" where
  "freshness_problem path = problem path 403 ''fresh_verification_required'' ''Fresh verification required''
     ''Complete fresh password and authenticator verification to continue.''"

definition unavailable_problem :: "string \<Rightarrow> response" where
  "unavailable_problem path = problem path 503 ''identity_unavailable'' ''Authentication unavailable'' ''Administrator authentication is temporarily unavailable.''"

definition rate_limited_problem :: "string \<Rightarrow> int \<Rightarrow> response" where
  "rate_limited_problem path retry = (problem path 429 ''rate_limited'' ''Too many attempts'' ''Too many authentication attempts. Try again later.'')\<lparr>rs_retry := Some retry\<rparr>"

section \<open>The authenticator link\<close>

definition base32_char :: "nat \<Rightarrow> char" where
  "base32_char n = (if n < 26 then char_of (65 + n) else char_of (24 + n))"

text \<open>\<open>_base32\<close>: five bytes give eight characters; of a shorter last group the padding is cut off.\<close>

definition base32_group :: "nat list \<Rightarrow> string" where
  "base32_group bs = (let n = foldl (\<lambda>a b. a * 256 + int b) 0 (bs @ replicate (5 - length bs) 0)
     in map (\<lambda>i. base32_char (nat (n div 32 ^ (7 - i) mod 32))) [0 ..< (length bs * 8 + 4) div 5])"

fun base32 :: "nat list \<Rightarrow> string" where
  "base32 (a # b # c # d # x # xs) = base32_group [a, b, c, d, x] @ base32 xs"
| "base32 [] = []"
| "base32 bs = base32_group bs"

definition manual_secret :: "string \<Rightarrow> string" where
  "manual_secret seed = base32 (map code seed)"

definition utf8_bytes :: "char \<Rightarrow> nat list" where
  "utf8_bytes c = (let n = code c in if n < 128 then [n] else [192 + n div 64, 128 + n mod 64])"

definition upper_hex :: "nat \<Rightarrow> char" where
  "upper_hex n = (if n < 10 then char_of (48 + n) else char_of (55 + n))"

text \<open>\<open>quote(s, safe="")\<close>.\<close>

definition unreserved :: "nat \<Rightarrow> bool" where
  "unreserved n \<longleftrightarrow> 48 \<le> n \<and> n \<le> 57 \<or> 65 \<le> n \<and> n \<le> 90 \<or> 97 \<le> n \<and> n \<le> 122 \<or> n = 95 \<or> n = 46 \<or> n = 45 \<or> n = 126"

definition quote_all :: "string \<Rightarrow> string" where
  "quote_all s = concat (map (\<lambda>n. if unreserved n then [char_of n] else [CHR ''%'', upper_hex (n div 16), upper_hex (n mod 16)]) (concat (map utf8_bytes s)))"

definition otpauth_uri :: "string \<Rightarrow> string \<Rightarrow> string" where
  "otpauth_uri name seed = ''otpauth://totp/'' @ quote_all (''CivicLoop:'' @ name) @ ''?secret='' @ manual_secret seed
     @ ''&issuer=CivicLoop&algorithm=SHA1&digits=6&period=30''"

section \<open>The views\<close>

definition security_status :: "id_env \<Rightarrow> int \<Rightarrow> response prog" where
  "security_status e now = require_feature e (
     p_bind request_session (\<lambda>meta. case meta of
       Some se \<Rightarrow> p_ret (ok_response [(''stage'', JStr (if se_restricted se then ''recovery_restricted'' else ''authenticated''))])
     | None \<Rightarrow> p_bind (valid_preauthentication now) (\<lambda>pre.
         p_ret (ok_response [(''stage'', JStr (if pre = None then ''anonymous'' else ''password_verified''))]))))"

definition password_challenge :: "id_env \<Rightarrow> int \<Rightarrow> draws \<Rightarrow> string \<Rightarrow> http_body \<Rightarrow> response prog" where
  "password_challenge e now dr path b = require_feature e (
     case (text_field b ''username'', text_field b ''password'') of
       (Some name, Some pw) \<Rightarrow>
         if \<not> (1 \<le> length (strip name) \<and> length (strip name) \<le> 150) \<or> \<not> (1 \<le> length pw \<and> length pw \<le> 4096)
         then p_ret (invalid_request path ''The authentication request is invalid.'')
         else p_catch (p_bind (verify_owner_password e now dr name pw) (\<lambda>challenge. case challenge of
                None \<Rightarrow> p_ret (problem path 401 ''invalid_credentials'' ''Authentication failed'' ''The supplied credentials are invalid.'')
              | Some (p, next_action) \<Rightarrow> p_bind (p_get (\<lambda>w. rq_preauth (i_rq w))) (\<lambda>pre.
                  p_ret (ok_response [(''stage'', JStr ''password_verified''), (''expires_at'', JInt (case pre of None \<Rightarrow> 0 | Some v \<Rightarrow> pa_expires v)),
                    (''next_action'', JStr next_action)]))))
              (\<lambda>x. case x of IdentityRateLimited t \<Rightarrow> p_ret (rate_limited_problem path t) | IdentityUnavailable \<Rightarrow> p_ret (unavailable_problem path) | _ \<Rightarrow> p_raise x)
     | _ \<Rightarrow> p_ret (invalid_request path ''The authentication request is invalid.''))"

definition totp_challenge :: "id_env \<Rightarrow> int \<Rightarrow> draws \<Rightarrow> string \<Rightarrow> http_body \<Rightarrow> response prog" where
  "totp_challenge e now dr path b = require_feature e (
     p_bind (preauthenticated_profile now) (\<lambda>found. case found of
       None \<Rightarrow> p_ret (preauthentication_problem path)
     | Some p \<Rightarrow> (case text_field b ''token'' of
         None \<Rightarrow> p_ret (verification_problem path)
       | Some otp \<Rightarrow> if length otp > 32 then p_ret (verification_problem path)
           else p_catch (p_bind (complete_totp_authentication e now dr p otp) (\<lambda>_. p_ret (ok_response [(''stage'', JStr ''authenticated'')])))
              (\<lambda>x. if x = IdentityCrypto then p_ret (unavailable_problem path)
                   else if is_identity_error x then p_ret (verification_problem path) else p_raise x))))"

definition recovery_challenge :: "id_env \<Rightarrow> int \<Rightarrow> draws \<Rightarrow> string \<Rightarrow> http_body \<Rightarrow> response prog" where
  "recovery_challenge e now dr path b = require_feature e (
     p_bind (preauthenticated_profile now) (\<lambda>found. case found of
       None \<Rightarrow> p_ret (preauthentication_problem path)
     | Some p \<Rightarrow> (case text_field b ''recovery_code'' of
         None \<Rightarrow> p_ret (verification_problem path)
       | Some presented \<Rightarrow> if length presented > 64 then p_ret (verification_problem path)
           else p_catch (p_bind (complete_recovery_authentication e now dr p presented) (\<lambda>_.
                p_ret (ok_response [(''stage'', JStr ''recovery_restricted''), (''next_action'', JStr ''replace_totp'')])))
              (\<lambda>x. case x of IdentityRateLimited t \<Rightarrow> p_ret (rate_limited_problem path t) | IdentityUnavailable \<Rightarrow> p_ret (unavailable_problem path)
                 | _ \<Rightarrow> if is_identity_error x then p_ret (verification_problem path) else p_raise x))))"

definition logout :: "id_env \<Rightarrow> int \<Rightarrow> draws \<Rightarrow> string \<Rightarrow> response prog" where
  "logout e now dr path = require_feature e (
     p_bind (logout_administrator e now dr) (\<lambda>gone.
       p_ret (if gone then ok_response [(''stage'', JStr ''anonymous'')] else preauthentication_problem path)))"

definition totp_enrollment :: "id_env \<Rightarrow> int \<Rightarrow> draws \<Rightarrow> string \<Rightarrow> http_body \<Rightarrow> response prog" where
  "totp_enrollment e now dr path b = require_feature e (
     p_bind (enrollment_profile now) (\<lambda>found. case found of
       None \<Rightarrow> p_ret (authentication_problem path)
     | Some p \<Rightarrow> (case text_field b ''label'' of
         None \<Rightarrow> p_ret (invalid_request path ''The enrollment request is invalid.'')
       | Some label \<Rightarrow>
           p_catch (p_bind (start_totp_enrollment e now dr p label) (\<lambda>d.
             p_bind (p_get (\<lambda>w. case tfind u_pk (pf_user p) (i_users w) of None \<Rightarrow> [] | Some u \<Rightarrow> u_name u)) (\<lambda>name.
               p_ret (ok_response [(''device_id'', JStr (dv_pk d)), (''otpauth_uri'', JStr (otpauth_uri name (d_seed dr))),
                 (''manual_secret'', JStr (manual_secret (d_seed dr)))]))))
             (\<lambda>x. if is_identity_error x then p_ret (invalid_request path ''The enrollment request is invalid.'') else p_raise x))))"

definition totp_confirmation :: "id_env \<Rightarrow> int \<Rightarrow> draws \<Rightarrow> (string \<Rightarrow> uuid option) \<Rightarrow> string \<Rightarrow> http_body \<Rightarrow> response prog" where
  "totp_confirmation e now dr parse_uuid path b = require_feature e (
     p_bind (enrollment_profile now) (\<lambda>found. case found of
       None \<Rightarrow> p_ret (authentication_problem path)
     | Some p \<Rightarrow> (case (Option.bind (text_field b ''device_id'') parse_uuid, text_field b ''token'') of
         (Some device, Some otp) \<Rightarrow>
           if length otp > 32 then p_ret (verification_problem path)
           else p_catch (p_bind (confirm_totp_enrollment e now dr p device otp) (\<lambda>(se, plains).
                p_ret (ok_response [(''stage'', JStr ''authenticated''), (''recovery_codes'', JList (map JStr plains))])))
              (\<lambda>x. if x = IdentityCrypto then p_ret (unavailable_problem path)
                   else if is_identity_error x then p_ret (verification_problem path) else p_raise x)
       | _ \<Rightarrow> p_ret (verification_problem path))))"

definition full_administrator :: "owner_session option prog" where
  "full_administrator = p_bind request_session (\<lambda>meta. p_ret (case meta of None \<Rightarrow> None | Some se \<Rightarrow> if se_restricted se then None else Some se))"

definition reauthentication :: "id_env \<Rightarrow> int \<Rightarrow> draws \<Rightarrow> string \<Rightarrow> http_body \<Rightarrow> response prog" where
  "reauthentication e now dr path b = require_feature e (
     p_bind full_administrator (\<lambda>meta. case meta of
       None \<Rightarrow> p_ret (authentication_problem path)
     | Some se \<Rightarrow> (case (text_field b ''password'', text_field b ''token'') of
         (Some pw, Some otp) \<Rightarrow>
           if length pw > 4096 \<or> length otp > 32 then p_ret (verification_problem path)
           else p_catch (p_bind (fresh_reauthenticate e now dr se pw otp) (\<lambda>_. p_ret (ok_response [(''fresh'', JBool True)])))
              (\<lambda>x. case x of IdentityRateLimited t \<Rightarrow> p_ret (rate_limited_problem path t) | IdentityUnavailable \<Rightarrow> p_ret (unavailable_problem path)
                 | _ \<Rightarrow> if is_identity_error x then p_ret (verification_problem path) else p_raise x)
       | _ \<Rightarrow> p_ret (verification_problem path))))"

definition password_change :: "id_env \<Rightarrow> int \<Rightarrow> draws \<Rightarrow> string \<Rightarrow> http_body \<Rightarrow> response prog" where
  "password_change e now dr path b = require_feature e (
     p_bind full_administrator (\<lambda>meta. case meta of
       None \<Rightarrow> p_ret (authentication_problem path)
     | Some se \<Rightarrow> (case (text_field b ''current_password'', text_field b ''new_password'') of
         (Some old, Some new) \<Rightarrow>
           p_catch (p_bind (change_password e now dr (se_pk se) old new) (\<lambda>n.
               p_ret (ok_response [(''changed'', JBool True), (''revoked_session_count'', JInt (int n))])))
             (\<lambda>x. case x of
                FreshnessRequired \<Rightarrow> p_ret (freshness_problem path)
              | CredentialMismatch \<Rightarrow> p_ret (problem path 401 ''current_password_invalid'' ''Password verification failed'' ''The current password is invalid.'')
              | IdentityValidation message \<Rightarrow> p_ret (problem path 400 ''password_validation_failed'' ''Password validation failed'' message)
              | _ \<Rightarrow> p_raise x)
       | _ \<Rightarrow> p_ret (invalid_request path ''The password-change request is invalid.''))))"

definition recovery_code_regeneration :: "id_env \<Rightarrow> int \<Rightarrow> draws \<Rightarrow> string \<Rightarrow> response prog" where
  "recovery_code_regeneration e now dr path = require_feature e (
     p_bind full_administrator (\<lambda>meta. case meta of
       None \<Rightarrow> p_ret (authentication_problem path)
     | Some se \<Rightarrow>
         p_catch (p_bind (regenerate_recovery_codes e now dr (se_pk se)) (\<lambda>(plains, n).
             p_ret (ok_response [(''recovery_codes'', JList (map JStr plains)), (''revoked_session_count'', JInt (int n))])))
           (\<lambda>x. if x = FreshnessRequired then p_ret (freshness_problem path) else p_raise x)))"

text \<open>\<open>sessions_for\<close>: newest first.\<close>

definition sessions_for :: "uuid \<Rightarrow> idw \<Rightarrow> owner_session list" where
  "sessions_for owner w = rev (sort_key (\<lambda>se. (os_created se, se_pk se)) (filter (\<lambda>se. se_profile se = owner) (i_sessions w)))"

definition instant :: "int option \<Rightarrow> json" where
  "instant t = (case t of None \<Rightarrow> JNull | Some n \<Rightarrow> JInt n)"

definition opt_text :: "string option \<Rightarrow> json" where
  "opt_text t = (case t of None \<Rightarrow> JNull | Some s \<Rightarrow> JStr s)"

definition session_row :: "uuid \<Rightarrow> owner_session \<Rightarrow> json" where
  "session_row current se = JObj
     [(''id'', JStr (se_pk se)), (''device_label'', JStr (os_label se)), (''source_ip'', opt_text (os_ip se)), (''created_at'', JInt (os_created se)),
      (''authenticated_at'', instant (os_authenticated se)), (''last_activity_at'', instant (os_activity se)), (''mfa_verified_at'', instant (se_mfa se)),
      (''absolute_expires_at'', instant (se_absolute_expires se)), (''expires_at'', instant (se_expires se)), (''revoked_at'', instant (se_revoked se)),
      (''is_current'', JBool (se_pk se = current))]"

definition session_list :: "id_env \<Rightarrow> string \<Rightarrow> response prog" where
  "session_list e path = require_feature e (
     p_bind full_administrator (\<lambda>meta. case meta of
       None \<Rightarrow> p_ret (authentication_problem path)
     | Some se \<Rightarrow> p_bind (p_get (sessions_for (se_profile se))) (\<lambda>rows. p_ret (ok_response [(''sessions'', JList (map (session_row (se_pk se)) rows))]))))"

definition session_revocation :: "id_env \<Rightarrow> int \<Rightarrow> draws \<Rightarrow> string \<Rightarrow> uuid \<Rightarrow> response prog" where
  "session_revocation e now dr path target = require_feature e (
     p_bind full_administrator (\<lambda>meta. case meta of
       None \<Rightarrow> p_ret (authentication_problem path)
     | Some se \<Rightarrow>
         p_catch (p_bind (revoke_owned_session e now dr (se_pk se) target) (\<lambda>out. p_ret (ok_response [(''revoked'', JBool True), (''logged_out'', JBool out)])))
           (\<lambda>x. if x = IdMissing then p_ret (problem path 404 ''session_not_found'' ''Session not found'' ''The administrator session was not found.'')
                else p_raise x)))"

definition other_session_revocation :: "id_env \<Rightarrow> int \<Rightarrow> draws \<Rightarrow> string \<Rightarrow> response prog" where
  "other_session_revocation e now dr path = require_feature e (
     p_bind full_administrator (\<lambda>meta. case meta of
       None \<Rightarrow> p_ret (authentication_problem path)
     | Some se \<Rightarrow>
         p_catch (p_bind (revoke_other_sessions e now dr (se_pk se)) (\<lambda>n. p_ret (ok_response [(''revoked_count'', JInt (int n))])))
           (\<lambda>x. if x = FreshnessRequired then p_ret (freshness_problem path) else p_raise x)))"

definition event_row :: "security_event \<Rightarrow> json" where
  "event_row x = JObj
     [(''id'', JStr (ev_pk x)), (''action'', JStr (ev_action x)), (''outcome'', JStr (ev_outcome x)), (''target_type'', JStr (ev_target_type x)),
      (''target_id'', JStr (ev_target_id x)), (''details'', JObj (ev_details x)), (''source_ip'', opt_text (ev_ip x)),
      (''session_id'', opt_text (ev_session x)), (''created_at'', JInt (ev_created x))]"

text \<open>\<open>limit\<close> is what \<open>int\<close> makes of the query parameter; \<open>cur\<close> the cursor, \<open>None\<close> when its signature or form is bad.\<close>

definition security_event_list ::
  "id_env \<Rightarrow> ((int \<times> uuid) \<Rightarrow> string) \<Rightarrow> string \<Rightarrow> int option \<Rightarrow> (int \<times> uuid) option option \<Rightarrow> response prog" where
  "security_event_list e encode_cursor path limit cur = require_feature e (
     p_bind full_administrator (\<lambda>meta. case meta of
       None \<Rightarrow> p_ret (authentication_problem path)
     | Some se \<Rightarrow> p_bind (p_get (\<lambda>w. case (limit, cur) of
           (Some n, Some c) \<Rightarrow> (if n < 0 then None else case list_security_events (se_profile se) c (nat n) w of Inl _ \<Rightarrow> None | Inr page \<Rightarrow> Some page)
         | _ \<Rightarrow> None)) (\<lambda>found. case found of
           None \<Rightarrow> p_ret (problem path 400 ''invalid_pagination'' ''Invalid pagination'' ''The event pagination parameters are invalid.'')
         | Some (page, next_cursor) \<Rightarrow> p_ret (ok_response [(''events'', JList (map event_row page)),
             (''next_cursor'', opt_text (map_option encode_cursor next_cursor))]))))"

section \<open>A request, from the middleware to the response\<close>

datatype id_view =
    SecurityStatus
  | PasswordChallenge
  | TotpChallenge
  | RecoveryChallenge
  | Logout
  | TotpEnrollment
  | TotpConfirmation
  | Reauthentication
  | PasswordChange
  | RecoveryCodeRegeneration
  | SessionList
  | SessionRevocation uuid
  | OtherSessionRevocation
  | SecurityEventList "int option" "(int \<times> uuid) option option"

fun view_name :: "id_view \<Rightarrow> string" where
  "view_name SecurityStatus = ''admin-security-status''"
| "view_name PasswordChallenge = ''admin-auth-password''"
| "view_name TotpChallenge = ''admin-auth-totp''"
| "view_name RecoveryChallenge = ''admin-auth-recovery''"
| "view_name Logout = ''admin-auth-logout''"
| "view_name TotpEnrollment = ''admin-totp-enrollment''"
| "view_name TotpConfirmation = ''admin-totp-confirmation''"
| "view_name Reauthentication = ''admin-reauthentication''"
| "view_name PasswordChange = ''admin-password-change''"
| "view_name RecoveryCodeRegeneration = ''admin-recovery-code-regeneration''"
| "view_name SessionList = ''admin-session-list''"
| "view_name (SessionRevocation target) = ''admin-session-revocation''"
| "view_name OtherSessionRevocation = ''admin-session-revoke-others''"
| "view_name (SecurityEventList limit cur) = ''admin-security-event-list''"

fun view_method :: "id_view \<Rightarrow> string" where
  "view_method SecurityStatus = ''GET''"
| "view_method SessionList = ''GET''"
| "view_method (SecurityEventList limit cur) = ''GET''"
| "view_method PasswordChange = ''PUT''"
| "view_method _ = ''POST''"

text \<open>What the request brings, and the two functions of the library that the views call on it.\<close>

record http_request =
  hr_method :: string
  hr_path :: string
  hr_cookie :: "string option"
  hr_agent :: string
  hr_peer :: "string option"
  hr_forwarded :: "string option"
  hr_body :: http_body
  hr_uuid :: "string \<Rightarrow> uuid option"
  hr_cursor :: "(int \<times> uuid) \<Rightarrow> string"

fun run_view :: "id_env \<Rightarrow> int \<Rightarrow> draws \<Rightarrow> http_request \<Rightarrow> id_view \<Rightarrow> response prog" where
  "run_view e now dr h SecurityStatus = security_status e now"
| "run_view e now dr h PasswordChallenge = password_challenge e now dr (hr_path h) (hr_body h)"
| "run_view e now dr h TotpChallenge = totp_challenge e now dr (hr_path h) (hr_body h)"
| "run_view e now dr h RecoveryChallenge = recovery_challenge e now dr (hr_path h) (hr_body h)"
| "run_view e now dr h Logout = logout e now dr (hr_path h)"
| "run_view e now dr h TotpEnrollment = totp_enrollment e now dr (hr_path h) (hr_body h)"
| "run_view e now dr h TotpConfirmation = totp_confirmation e now dr (hr_uuid h) (hr_path h) (hr_body h)"
| "run_view e now dr h Reauthentication = reauthentication e now dr (hr_path h) (hr_body h)"
| "run_view e now dr h PasswordChange = password_change e now dr (hr_path h) (hr_body h)"
| "run_view e now dr h RecoveryCodeRegeneration = recovery_code_regeneration e now dr (hr_path h)"
| "run_view e now dr h SessionList = session_list e (hr_path h)"
| "run_view e now dr h (SessionRevocation target) = session_revocation e now dr (hr_path h) target"
| "run_view e now dr h OtherSessionRevocation = other_session_revocation e now dr (hr_path h)"
| "run_view e now dr h (SecurityEventList limit cur) = security_event_list e (hr_cursor h) (hr_path h) limit cur"

definition restricted_response :: "string \<Rightarrow> response" where
  "restricted_response path =
     (problem path 403 ''recovery_restricted'' ''Recovery required'' ''Complete administrator account recovery to continue.'')
       \<lparr>rs_body := (''type'', JStr ''https://civicloop.karthikkannan.ca/problems/recovery-restricted'')
          # tl (rs_body (problem path 403 ''recovery_restricted'' ''Recovery required'' ''Complete administrator account recovery to continue.''))\<rparr>"

definition wrong_method :: response where
  "wrong_method = \<lparr>rs_status = 405, rs_code = [], rs_retry = None, rs_body = []\<rparr>"

text \<open>Django's session middleware saves a changed session that is not empty, unless the response is a 500.\<close>

definition session_changed :: "id_request \<Rightarrow> id_request \<Rightarrow> bool" where
  "session_changed r0 r \<longleftrightarrow> rq_key r \<noteq> rq_key r0 \<or> rq_user r \<noteq> rq_user r0 \<or> rq_preauth r \<noteq> rq_preauth r0 \<or> rq_admin r \<noteq> rq_admin r0"

definition session_empty :: "id_request \<Rightarrow> bool" where
  "session_empty r \<longleftrightarrow> rq_user r = None \<and> rq_preauth r = None \<and> rq_admin r = None"

definition finish_request :: "draws \<Rightarrow> id_request \<Rightarrow> idw \<Rightarrow> idw" where
  "finish_request dr r0 w = (if session_changed r0 (i_rq w) \<and> \<not> session_empty (i_rq w) then session_save (d_key dr) w else w)"

definition handle_request :: "id_env \<Rightarrow> int \<Rightarrow> draws \<Rightarrow> http_request \<Rightarrow> id_view \<Rightarrow> idw \<Rightarrow> idw \<times> (id_error + response)" where
  "handle_request e now dr h v w =
     (let r0 = load_request (hr_cookie h) (hr_agent h) (hr_peer h) (hr_forwarded h) w;
          w1 = process_request e now (hr_cookie h) (hr_agent h) (hr_peer h) (hr_forwarded h) w
      in if \<not> view_allowed e (view_name v) w1 then (finish_request dr r0 w1, Inr (restricted_response (hr_path h)))
         else if hr_method h \<noteq> view_method v then (finish_request dr r0 w1, Inr wrong_method)
         else case run_view e now dr h v w1 of
                (w2, Inl x) \<Rightarrow> (w2, Inl x)
              | (w2, Inr r) \<Rightarrow> (finish_request dr r0 w2, Inr r))"

section \<open>Management commands\<close>

definition bootstrap_command :: "id_env \<Rightarrow> int \<Rightarrow> draws \<Rightarrow> string \<Rightarrow> string \<Rightarrow> string \<Rightarrow> string \<Rightarrow> admin_profile prog" where
  "bootstrap_command e now dr name email pw confirmation =
     p_bind (p_get enabled_owner) (\<lambda>taken.
     p_bind (p_guard IdentityInvalid (\<not> taken)) (\<lambda>_.
     p_bind (p_guard IdentityInvalid (pw = confirmation)) (\<lambda>_.
       bootstrap_owner e now dr (strip name) (strip email) pw)))"

definition reset_command :: "id_env \<Rightarrow> int \<Rightarrow> draws \<Rightarrow> string \<Rightarrow> unit prog" where
  "reset_command e now dr typed =
     p_bind (p_get (\<lambda>w. filter (\<lambda>p. pf_status p \<noteq> ''disabled'') (i_profiles w))) (\<lambda>owners. case owners of
       [p] \<Rightarrow> reset_owner_mfa e now dr p (strip typed)
     | _ \<Rightarrow> p_raise IdentityInvalid)"

text \<open>\<open>purge_administrator_sessions\<close>; \<open>outdated\<close> tells the rows of Django's store whose \<open>expire_date\<close> has passed.\<close>

definition session_expired :: "int \<Rightarrow> owner_session \<Rightarrow> bool" where
  "session_expired now se \<longleftrightarrow> (case se_expires se of None \<Rightarrow> True | Some t \<Rightarrow> t \<le> now) \<or> (case se_absolute_expires se of None \<Rightarrow> True | Some t \<Rightarrow> t \<le> now)"

definition purge_command :: "int \<Rightarrow> (string \<Rightarrow> bool) \<Rightarrow> nat prog" where
  "purge_command now outdated = p_atomic (
     p_bind (p_mod (\<lambda>w. w\<lparr>i_web := filter (\<lambda>r. \<not> outdated (ws_key r)) (i_web w)\<rparr>)) (\<lambda>_.
     p_bind (revoke_and_drop (session_expired now) now) (\<lambda>expired_count.
     p_bind (p_get (\<lambda>w. map ws_key (i_web w))) (\<lambda>live.
     p_bind (p_get (\<lambda>w. length (live_keys (\<lambda>se. os_key se \<notin> set live) w))) (\<lambda>orphaned_count.
     p_bind (p_mod (revoke_where (\<lambda>se. os_key se \<notin> set live) now)) (\<lambda>_.
       p_ret (expired_count + orphaned_count)))))))"

end
