(* ===== verification/Identity_Inv.thy ===== *)
theory Identity_Inv
  imports Identity_Views
begin

text \<open>
  The identity application as a machine: every request is served by the middleware and then by one service,
  the management commands run in between.  \<open>on_return\<close> and \<open>on_raise\<close> are the two halves of a weakest
  precondition; their rewrite rules take a service apart, so that each obligation is one about tables.
\<close>

section \<open>Weakest preconditions\<close>

named_theorems wp_simps \<open>what a program returns and raises\<close>
named_theorems frame_simps \<open>tables an update leaves alone\<close>

definition on_return :: "'a prog \<Rightarrow> ('a \<Rightarrow> idw \<Rightarrow> bool) \<Rightarrow> idw \<Rightarrow> bool" where
  "on_return m Q w \<longleftrightarrow> (\<forall>w' v. m w = (w', Inr v) \<longrightarrow> Q v w')"

definition on_raise :: "'a prog \<Rightarrow> (id_error \<Rightarrow> idw \<Rightarrow> bool) \<Rightarrow> idw \<Rightarrow> bool" where
  "on_raise m Q w \<longleftrightarrow> (\<forall>w' x. m w = (w', Inl x) \<longrightarrow> Q x w')"

lemma on_return_basic [wp_simps]:
  "on_return (p_ret v) Q w \<longleftrightarrow> Q v w" "on_return (p_raise x) Q w \<longleftrightarrow> True" "on_return (p_mod f) Qu w \<longleftrightarrow> Qu () (f w)"
  "on_return (p_get g) Q w \<longleftrightarrow> Q (g w) w" "on_return (p_option x a) Q w \<longleftrightarrow> (\<forall>v. a = Some v \<longrightarrow> Q v w)"
  "on_return (p_guard x b) Qu w \<longleftrightarrow> (b \<longrightarrow> Qu () w)"
  by (auto simp: on_return_def p_ret_def p_raise_def p_mod_def p_get_def p_option_def p_guard_def split: option.splits)

lemma on_return_bind [wp_simps]: "on_return (p_bind m f) Q w \<longleftrightarrow> on_return m (\<lambda>v. on_return (f v) Q) w"
  by (auto simp: on_return_def p_bind_def split: prod.splits sum.splits)

lemma on_return_atomic [wp_simps]: "on_return (p_atomic m) Q w \<longleftrightarrow> on_return m Q w"
  by (auto simp: on_return_def p_atomic_def split: prod.splits sum.splits)

lemma on_return_except [wp_simps]:
  "on_return (p_except m h) Q w \<longleftrightarrow> on_return m Q w \<and> on_raise m (\<lambda>x w'. is_identity_error x \<longrightarrow> on_return (h x) Q w') w"
  by (auto simp: on_return_def on_raise_def p_except_def split: prod.splits sum.splits if_splits)

lemma on_return_if [wp_simps]: "on_return (if b then m else n) Q w \<longleftrightarrow> (if b then on_return m Q w else on_return n Q w)"
  by simp

lemma on_return_get [wp_simps]:
  "on_return (get_session pk) Q1 w \<longleftrightarrow> (\<forall>se. tfind se_pk pk (i_sessions w) = Some se \<longrightarrow> Q1 se w)"
  "on_return (get_device pk) Q2 w \<longleftrightarrow> (\<forall>d. tfind dv_pk pk (i_devices w) = Some d \<longrightarrow> Q2 d w)"
  "on_return (get_profile pk) Q3 w \<longleftrightarrow> (\<forall>p. tfind pf_pk pk (i_profiles w) = Some p \<longrightarrow> Q3 p w)"
  by (auto simp: on_return_def get_session_def get_device_def get_profile_def split: option.splits)

lemma on_return_writes [wp_simps]:
  "on_return (set_status pk st) Qu w \<longleftrightarrow>
     (\<not> (st \<noteq> ''disabled'' \<and> list_ex (\<lambda>p. pf_pk p \<noteq> pk \<and> pf_status p \<noteq> ''disabled'') (i_profiles w))
      \<longrightarrow> Qu () (w\<lparr>i_profiles := map (\<lambda>p. if pf_pk p = pk then p\<lparr>pf_status := st\<rparr> else p) (i_profiles w)\<rparr>))"
  "on_return (insert_session se) Qu w \<longleftrightarrow>
     (se_pk se \<notin> set (map se_pk (i_sessions w)) \<longrightarrow> os_key se \<notin> set (map os_key (i_sessions w)) \<longrightarrow> Qu () (w\<lparr>i_sessions := i_sessions w @ [se]\<rparr>))"
  "on_return (set_session_key k pk) Qu w \<longleftrightarrow>
     (k \<notin> set (map os_key (filter (\<lambda>x. se_pk x \<noteq> pk) (i_sessions w))) \<longrightarrow> Qu () (update_sessions (\<lambda>x. se_pk x = pk) (\<lambda>x. x\<lparr>os_key := k\<rparr>) w))"
  "on_return (revoke_and_drop P now) Qn w \<longleftrightarrow> Qn (length (live_keys P w)) (drop_web (live_keys P w) (revoke_where P now w))"
  "on_return request_session Qs w \<longleftrightarrow> Qs (case rq_meta (i_rq w) of None \<Rightarrow> None | Some pk \<Rightarrow> tfind se_pk pk (i_sessions w)) w"
  by (auto simp: on_return_def set_status_def insert_session_def set_session_key_def revoke_and_drop_def request_session_def)

text \<open>An event row, the cache and the request do not matter to the tables below.\<close>

lemma on_return_event [wp_simps]:
  "on_return (record_security_event e now eid a r p ip sid ty ti ds) Qu w \<longleftrightarrow>
     (\<forall>es. snd (record_security_event e now eid a r p ip sid ty ti ds w) = Inr () \<longrightarrow>
        es = i_events (fst (record_security_event e now eid a r p ip sid ty ti ds w)) \<longrightarrow> Qu () (w\<lparr>i_events := es\<rparr>))"
  by (auto simp: on_return_def record_security_event_def split: option.splits if_splits)

lemma on_return_limits:
  "(\<And>ls. Qk k (w\<lparr>i_limits := ls\<rparr>)) \<Longrightarrow> on_return (check_limit e now k n win) Qk w"
  "(\<And>ls. Qu () (w\<lparr>i_limits := ls\<rparr>)) \<Longrightarrow> on_return (record_limit_success e k) Qu w"
  by (auto simp: on_return_def check_limit_def record_limit_success_def split: prod.splits if_splits)

section \<open>Frames\<close>

lemma frame_web [frame_simps]:
  "i_sessions (rq_upd f w) = i_sessions w" "i_profiles (rq_upd f w) = i_profiles w" "i_devices (rq_upd f w) = i_devices w" "i_codes (rq_upd f w) = i_codes w"
  "i_sessions (drop_web ks w) = i_sessions w" "i_profiles (drop_web ks w) = i_profiles w" "i_devices (drop_web ks w) = i_devices w" "i_codes (drop_web ks w) = i_codes w"
  "i_sessions (session_save k w) = i_sessions w" "i_profiles (session_save k w) = i_profiles w" "i_devices (session_save k w) = i_devices w" "i_codes (session_save k w) = i_codes w"
  by (simp_all add: rq_upd_def drop_web_def session_save_def Let_def)

lemma frame_session [frame_simps]:
  "i_sessions (session_flush w) = i_sessions w" "i_profiles (session_flush w) = i_profiles w" "i_devices (session_flush w) = i_devices w" "i_codes (session_flush w) = i_codes w"
  "i_sessions (cycle_key k w) = i_sessions w" "i_profiles (cycle_key k w) = i_profiles w" "i_devices (cycle_key k w) = i_devices w" "i_codes (cycle_key k w) = i_codes w"
  "i_sessions (set_preauth v w) = i_sessions w" "i_profiles (set_preauth v w) = i_profiles w" "i_devices (set_preauth v w) = i_devices w" "i_codes (set_preauth v w) = i_codes w"
  by (simp_all add: session_flush_def cycle_key_def set_preauth_def frame_web)

lemma frame_login [frame_simps]:
  "i_sessions (login_owner dr p w) = i_sessions w" "i_profiles (login_owner dr p w) = i_profiles w" "i_devices (login_owner dr p w) = i_devices w" "i_codes (login_owner dr p w) = i_codes w"
  by (simp_all add: login_owner_def django_login_def frame_web frame_session)

lemma frame_update [frame_simps]:
  "i_profiles (update_sessions P f w) = i_profiles w" "i_devices (update_sessions P f w) = i_devices w" "i_codes (update_sessions P f w) = i_codes w"
  "i_sessions (update_devices P' f' w) = i_sessions w" "i_profiles (update_devices P' f' w) = i_profiles w" "i_codes (update_devices P' f' w) = i_codes w"
  "i_sessions (update_codes P'' f'' w) = i_sessions w" "i_profiles (update_codes P'' f'' w) = i_profiles w" "i_devices (update_codes P'' f'' w) = i_devices w"
  by (simp_all add: update_sessions_def update_devices_def update_codes_def)

section \<open>The invariant\<close>

definition upd :: "('r \<Rightarrow> bool) \<Rightarrow> ('r \<Rightarrow> 'r) \<Rightarrow> 'r list \<Rightarrow> 'r list" where
  "upd P f xs = map (\<lambda>x. if P x then f x else x) xs"

definition timed :: "owner_session \<Rightarrow> bool" where
  "timed se \<longleftrightarrow> (\<exists>a x. os_authenticated se = Some a \<and> se_absolute_expires se = Some (a + seconds ADMIN_ABSOLUTE_SECONDS)
     \<and> se_expires se = Some x \<and> x \<le> a + seconds ADMIN_ABSOLUTE_SECONDS)"

definition second_factor :: "owner_session \<Rightarrow> bool" where
  "second_factor se \<longleftrightarrow> se_restricted se \<or> se_mfa se \<noteq> None"

definition one_owner :: "admin_profile list \<Rightarrow> bool" where
  "one_owner ps \<longleftrightarrow> (\<forall>p \<in> set ps. \<forall>q \<in> set ps. pf_status p \<noteq> ''disabled'' \<longrightarrow> pf_status q \<noteq> ''disabled'' \<longrightarrow> p = q)"

definition open_only_if_active :: "admin_profile list \<Rightarrow> owner_session list \<Rightarrow> bool" where
  "open_only_if_active ps ss \<longleftrightarrow> (\<forall>se \<in> set ss. se_revoked se = None \<longrightarrow> \<not> se_restricted se \<longrightarrow>
     (\<forall>p \<in> set ps. pf_pk p = se_profile se \<longrightarrow> pf_status p = ''active''))"

definition session_tables :: "admin_profile list \<Rightarrow> owner_session list \<Rightarrow> bool" where
  "session_tables ps ss \<longleftrightarrow> keys_ok pf_pk ps \<and> keys_ok pf_user ps \<and> one_owner ps
     \<and> keys_ok se_pk ss \<and> keys_ok os_key ss \<and> set (map se_profile ss) \<subseteq> set (map pf_pk ps) \<and> (\<forall>se \<in> set ss. timed se \<and> second_factor se) \<and> open_only_if_active ps ss"

definition id_inv :: "idw \<Rightarrow> bool" where
  "id_inv w \<longleftrightarrow> session_tables (i_profiles w) (i_sessions w) \<and> keys_ok dv_pk (i_devices w) \<and> keys_ok rc_public (i_codes w)"

text \<open>The updates, seen through their table.\<close>

lemma update_upd [frame_simps]:
  "i_sessions (update_sessions P f w) = upd P f (i_sessions w)" "i_devices (update_devices P' f' w) = upd P' f' (i_devices w)"
  "i_codes (update_codes P'' f'' w) = upd P'' f'' (i_codes w)"
  "i_sessions (revoke_where R now w) = upd (\<lambda>se. R se \<and> se_revoked se = None) (\<lambda>se. se\<lparr>se_revoked := Some now\<rparr>) (i_sessions w)"
  "i_profiles (revoke_where R now w) = i_profiles w" "i_devices (revoke_where R now w) = i_devices w" "i_codes (revoke_where R now w) = i_codes w"
  "i_sessions (clear_fresh pk w) = upd (\<lambda>x. se_pk x = pk) (\<lambda>x. x\<lparr>os_fresh := None\<rparr>) (i_sessions w)"
  "i_profiles (clear_fresh pk w) = i_profiles w" "i_devices (clear_fresh pk w) = i_devices w" "i_codes (clear_fresh pk w) = i_codes w"
  "i_devices (confirm_device now d w) = upd (\<lambda>x. dv_pk x = dv_pk d) (\<lambda>x. x\<lparr>dv_confirmed := True, dv_confirmed_at := Some now\<rparr>) (i_devices w)"
  "i_sessions (confirm_device now d w) = i_sessions w" "i_profiles (confirm_device now d w) = i_profiles w" "i_codes (confirm_device now d w) = i_codes w"
  by (simp_all add: update_sessions_def update_devices_def update_codes_def revoke_where_def clear_fresh_def confirm_device_def upd_def)

lemma keys_ok_upd: "(\<And>x. key (f x) = key x) \<Longrightarrow> keys_ok key (upd P f xs) = keys_ok key xs"
  by (simp add: keys_ok_def upd_def comp_def if_distrib cong: if_cong)

lemma in_upd: "y \<in> set (upd P f xs) \<longleftrightarrow> (\<exists>x \<in> set xs. y = (if P x then f x else x))"
  by (auto simp: upd_def)

text \<open>An update that keeps who and when, and opens no session.\<close>

definition harmless :: "owner_session \<Rightarrow> owner_session \<Rightarrow> bool" where
  "harmless x y \<longleftrightarrow> se_pk y = se_pk x \<and> se_profile y = se_profile x \<and> (timed x \<longrightarrow> timed y) \<and> (second_factor x \<longrightarrow> second_factor y)
     \<and> (se_revoked y = None \<longrightarrow> \<not> se_restricted y \<longrightarrow> se_revoked x = None \<and> \<not> se_restricted x)"

lemma harmless_refl [simp]: "harmless x x"
  by (simp add: harmless_def)

lemma session_tables_rows:
  assumes "session_tables ps ss" and "keys_ok se_pk ss'" and "keys_ok os_key ss'" and "\<And>y. y \<in> set ss' \<Longrightarrow> \<exists>x \<in> set ss. harmless x y"
  shows "session_tables ps ss'"
proof -
  have "timed y \<and> second_factor y" if "y \<in> set ss'" for y
    using assms(1) assms(4) [OF that] unfolding session_tables_def harmless_def by blast
  moreover have "pf_status p = ''active''" if y: "y \<in> set ss'" "se_revoked y = None" "\<not> se_restricted y" "p \<in> set ps" "pf_pk p = se_profile y" for y p
  proof -
    obtain x where "x \<in> set ss" "harmless x y" using assms(4) [OF y(1)] by blast
    with y assms(1) show ?thesis unfolding session_tables_def open_only_if_active_def harmless_def by metis
  qed
  moreover have "set (map se_profile ss') \<subseteq> set (map pf_pk ps)"
  proof
    fix o' assume "o' \<in> set (map se_profile ss')"
    then obtain y where "y \<in> set ss'" "o' = se_profile y" by auto
    with assms(4) [of y] obtain x where "x \<in> set ss" "se_profile x = o'" unfolding harmless_def by metis
    with assms(1) show "o' \<in> set (map pf_pk ps)" by (auto simp: session_tables_def)
  qed
  ultimately show ?thesis using assms(1-3) unfolding session_tables_def open_only_if_active_def by blast
qed

lemma session_tables_upd:
  assumes "session_tables ps ss" and "\<And>x. x \<in> set ss \<Longrightarrow> P x \<Longrightarrow> harmless x (f x)" and "\<And>x. se_pk (f x) = se_pk x" and "\<And>x. os_key (f x) = os_key x"
  shows "session_tables ps (upd P f ss)"
proof (rule session_tables_rows [OF assms(1)])
  show "keys_ok se_pk (upd P f ss)" "keys_ok os_key (upd P f ss)"
    using assms(1) by (simp_all add: session_tables_def keys_ok_upd [of se_pk f, OF assms(3)] keys_ok_upd [of os_key f, OF assms(4)])
  show "\<exists>x \<in> set ss. harmless x y" if "y \<in> set (upd P f ss)" for y
  proof -
    from that obtain x where "x \<in> set ss" "y = (if P x then f x else x)" by (auto simp: in_upd)
    with assms(2) [of x] show ?thesis by (cases "P x") (auto intro!: bexI [of _ x])
  qed
qed

lemma harmless_columns [simp]:
  "harmless x (x\<lparr>os_fresh := v\<rparr>)" "harmless x (x\<lparr>os_key := k\<rparr>)" "harmless x (x\<lparr>se_revoked := Some now\<rparr>)"
  by (simp_all add: harmless_def timed_def second_factor_def)

lemma harmless_touch: "timed x \<Longrightarrow> harmless x (touch_session e now r x)"
  by (auto simp: harmless_def touch_session_def timed_def second_factor_def)

lemma keys_ok_set_key:
  assumes "keys_ok se_pk ss" and "keys_ok os_key ss" and "k \<notin> set (map os_key (filter (\<lambda>x. se_pk x \<noteq> pk) ss))"
  shows "keys_ok os_key (upd (\<lambda>x. se_pk x = pk) (\<lambda>x. x\<lparr>os_key := k\<rparr>) ss)"
  using assms by (induction ss) (auto simp: keys_ok_def upd_def split: if_splits, metis image_eqI)

lemma session_tables_set_key:
  assumes "session_tables ps ss" and "k \<notin> set (map os_key (filter (\<lambda>x. se_pk x \<noteq> pk) ss))"
  shows "session_tables ps (upd (\<lambda>x. se_pk x = pk) (\<lambda>x. x\<lparr>os_key := k\<rparr>) ss)"
proof (rule session_tables_rows [OF assms(1)])
  show "keys_ok se_pk (upd (\<lambda>x. se_pk x = pk) (\<lambda>x. x\<lparr>os_key := k\<rparr>) ss)"
    using assms(1) by (simp add: session_tables_def keys_ok_upd)
  show "keys_ok os_key (upd (\<lambda>x. se_pk x = pk) (\<lambda>x. x\<lparr>os_key := k\<rparr>) ss)"
    using assms by (intro keys_ok_set_key) (auto simp: session_tables_def)
  show "\<exists>x \<in> set ss. harmless x y" if "y \<in> set (upd (\<lambda>x. se_pk x = pk) (\<lambda>x. x\<lparr>os_key := k\<rparr>) ss)" for y
  proof -
    from that obtain x where "x \<in> set ss" "y = (if se_pk x = pk then x\<lparr>os_key := k\<rparr> else x)" by (auto simp: in_upd)
    then show ?thesis by (cases "se_pk x = pk") (auto intro!: bexI [of _ x])
  qed
qed

lemma session_tables_insert:
  assumes "session_tables ps ss" and "se_pk se \<notin> set (map se_pk ss)" and "os_key se \<notin> set (map os_key ss)" and "timed se" and "second_factor se"
    and "se_profile se \<in> set (map pf_pk ps)"
    and "se_revoked se = None \<Longrightarrow> \<not> se_restricted se \<Longrightarrow> \<forall>p \<in> set ps. pf_pk p = se_profile se \<longrightarrow> pf_status p = ''active''"
  shows "session_tables ps (ss @ [se])"
  using assms unfolding session_tables_def open_only_if_active_def by (auto simp: tfind_None intro!: keys_ok_append_new)

text \<open>A status may change when it becomes active, or when no open session of that owner is left.\<close>

lemma status_key [simp]: "pf_pk (if b then x\<lparr>pf_status := st\<rparr> else x) = pf_pk x" "pf_user (if b then x\<lparr>pf_status := st\<rparr> else x) = pf_user x"
  by simp_all

lemma status_keys:
  "pf_pk ` set (map (\<lambda>p. if pf_pk p = pk then p\<lparr>pf_status := st\<rparr> else p) ps) = pf_pk ` set ps"
  by (induction ps) auto

lemma session_tables_status:
  assumes "session_tables ps ss" and "\<not> (st \<noteq> ''disabled'' \<and> list_ex (\<lambda>p. pf_pk p \<noteq> pk \<and> pf_status p \<noteq> ''disabled'') ps)"
    and "st = ''active'' \<or> (\<forall>se \<in> set ss. se_profile se = pk \<longrightarrow> se_revoked se = None \<longrightarrow> se_restricted se)"
  shows "session_tables (map (\<lambda>p. if pf_pk p = pk then p\<lparr>pf_status := st\<rparr> else p) ps) ss"
proof -
  let ?ps = "map (\<lambda>p. if pf_pk p = pk then p\<lparr>pf_status := st\<rparr> else p) ps"
  have e: "?ps = upd (\<lambda>p. pf_pk p = pk) (\<lambda>p. p\<lparr>pf_status := st\<rparr>) ps" by (simp add: upd_def)
  have keys: "keys_ok pf_pk ?ps" "keys_ok pf_user ?ps" using assms(1) by (simp_all add: e keys_ok_upd session_tables_def)
  have "one_owner ?ps"
    unfolding one_owner_def
  proof (intro ballI impI)
    fix p q assume p: "p \<in> set ?ps" "q \<in> set ?ps" "pf_status p \<noteq> ''disabled''" "pf_status q \<noteq> ''disabled''"
    then obtain x y where xy: "x \<in> set ps" "p = (if pf_pk x = pk then x\<lparr>pf_status := st\<rparr> else x)"
      "y \<in> set ps" "q = (if pf_pk y = pk then y\<lparr>pf_status := st\<rparr> else y)" by auto
    show "p = q"
    proof (cases "st = ''disabled''")
      case True
      with xy p have "p = x" "q = y" by (auto split: if_splits)
      with xy p assms(1) show ?thesis by (auto simp: session_tables_def one_owner_def)
    next
      case False
      with assms(2) have "\<forall>z \<in> set ps. pf_pk z \<noteq> pk \<longrightarrow> pf_status z = ''disabled''" by (auto simp: list_ex_iff)
      with xy p have "pf_pk x = pk" "pf_pk y = pk" by (auto split: if_splits)
      with xy assms(1) show ?thesis by (auto simp: session_tables_def dest: keys_ok_inj)
    qed
  qed
  moreover have "open_only_if_active ?ps ss"
    using assms(1,3) unfolding open_only_if_active_def session_tables_def by auto
  moreover have "pf_pk ` set ?ps = pf_pk ` set ps" by (rule status_keys)
  ultimately show ?thesis using assms(1) keys unfolding session_tables_def by (metis list.set_map)
qed

section \<open>The services keep the invariant\<close>

lemma on_return_mono: "on_return m Q w \<Longrightarrow> (\<And>v w'. Q v w' \<Longrightarrow> Q' v w') \<Longrightarrow> on_return m Q' w"
  by (auto simp: on_return_def)

lemma id_inv_frame [simp]:
  "id_inv (w\<lparr>i_limits := l\<rparr>) = id_inv w" "id_inv (w\<lparr>i_rq := r\<rparr>) = id_inv w" "id_inv (w\<lparr>i_events := es\<rparr>) = id_inv w"
  "id_inv (w\<lparr>i_web := ws\<rparr>) = id_inv w" "id_inv (w\<lparr>i_users := us\<rparr>) = id_inv w" "id_inv (rq_upd f w) = id_inv w" "id_inv (drop_web ks w) = id_inv w" "id_inv (session_save k w) = id_inv w"
  "id_inv (session_flush w) = id_inv w" "id_inv (cycle_key k w) = id_inv w" "id_inv (set_preauth v w) = id_inv w" "id_inv (login_owner dr p w) = id_inv w"
  by (simp_all add: id_inv_def frame_simps)

lemma atomic_inv: "id_inv w \<Longrightarrow> on_return m (\<lambda>_. id_inv) w \<Longrightarrow> id_inv (fst (p_atomic m w))"
  by (auto simp: p_atomic_def on_return_def split: prod.splits sum.splits)

lemma event_inv [simp]: "id_inv (fst (record_security_event e now eid a r p ip sid ty ti ds w)) = id_inv w"
  by (auto simp: record_security_event_def split: option.splits)

lemma failure_event_inv [simp]: "id_inv (fst (failure_event e now dr a p sid ty ti w)) = id_inv w"
  by (simp add: failure_event_def p_bind_def p_get_def)

lemma id_inv_devices: "id_inv w \<Longrightarrow> (\<And>x. dv_pk (f x) = dv_pk x) \<Longrightarrow> id_inv (update_devices P f w)"
  by (simp add: id_inv_def frame_simps keys_ok_upd)

lemma id_inv_codes: "id_inv w \<Longrightarrow> (\<And>x. rc_public (f x) = rc_public x) \<Longrightarrow> id_inv (update_codes P f w)"
  by (simp add: id_inv_def frame_simps keys_ok_upd)

lemma id_inv_sessions:
  "id_inv w \<Longrightarrow> (\<And>x. x \<in> set (i_sessions w) \<Longrightarrow> P x \<Longrightarrow> harmless x (f x)) \<Longrightarrow> (\<And>x. se_pk (f x) = se_pk x) \<Longrightarrow> (\<And>x. os_key (f x) = os_key x)
     \<Longrightarrow> id_inv (update_sessions P f w)"
  by (simp add: id_inv_def frame_simps session_tables_upd)

lemma id_inv_revoke: "id_inv w \<Longrightarrow> id_inv (revoke_where P now w)"
  by (auto simp: revoke_where_def intro!: id_inv_sessions)

lemma id_inv_clear_fresh: "id_inv w \<Longrightarrow> id_inv (clear_fresh pk w)"
  by (auto simp: clear_fresh_def intro!: id_inv_sessions)

lemma id_inv_confirm: "id_inv w \<Longrightarrow> id_inv (confirm_device now d w)"
  by (simp add: confirm_device_def id_inv_devices)

lemma new_session_ok: "timed (new_session e now dr p mfa r rq)" "mfa \<noteq> None \<or> r \<Longrightarrow> second_factor (new_session e now dr p mfa r rq)"
  "se_profile (new_session e now dr p mfa r rq) = pf_pk p" "se_restricted (new_session e now dr p mfa r rq) = r"
  by (auto simp: new_session_def timed_def second_factor_def Let_def)

lemma establish_return:
  assumes "id_inv w" and "mfa \<noteq> None \<or> restricted" and "pf_pk p \<in> set (map pf_pk (i_profiles w))" and "restricted \<or> (\<forall>q \<in> set (i_profiles w). pf_pk q = pf_pk p \<longrightarrow> pf_status q = ''active'')"
  shows "on_return (establish_administrator_session e now dr p mfa restricted) (\<lambda>_. id_inv) w"
proof -
  define w1 where "w1 = (if rq_key (i_rq w) = None then session_save (d_key dr) w else w)"
  have w1: "i_profiles w1 = i_profiles w" "i_sessions w1 = i_sessions w" "id_inv w1" using assms(1) by (auto simp: w1_def frame_simps)
  let ?se = "new_session e now dr p mfa restricted (i_rq w1)"
  have "id_inv (w1\<lparr>i_sessions := i_sessions w1 @ [?se]\<rparr>)"
    if "se_pk ?se \<notin> set (map se_pk (i_sessions w1))" "os_key ?se \<notin> set (map os_key (i_sessions w1))"
  proof -
    have "session_tables (i_profiles w1) (i_sessions w1 @ [?se])"
      using w1 that assms(2-4) by (intro session_tables_insert) (auto simp: id_inv_def new_session_ok)
    with w1(3) show ?thesis by (simp add: id_inv_def)
  qed
  then show ?thesis by (simp add: establish_administrator_session_def wp_simps flip: w1_def)
qed

lemma rotate_return: "id_inv w \<Longrightarrow> on_return (rotate_administrator_session dr pk) (\<lambda>_. id_inv) w"
  by (auto simp: rotate_administrator_session_def wp_simps frame_simps id_inv_def intro!: session_tables_set_key)

lemma new_codes_rows:
  assumes "new_codes e owner batch taken draws secrets = Some (rows, plains)"
  shows "distinct (map rc_public rows) \<and> set (map rc_public rows) \<inter> set taken = {} \<and> length rows = length secrets
    \<and> (\<forall>c \<in> set rows. usable_code owner c)"
  using assms
proof (induction secrets arbitrary: taken draws rows plains)
  case (Cons s secrets)
  then obtain public draws' rows' plains' where p: "new_public_recovery_id taken draws = Some (public, draws')"
    and r: "new_codes e owner batch (public # taken) draws' secrets = Some (rows', plains')"
    and rows: "rows = \<lparr>rc_profile = owner, rc_batch = batch, rc_public = public, rc_secret = make_password e (public @ ''-'' @ s), rc_consumed = None, rc_invalidated = None\<rparr> # rows'"
    by (auto simp: Let_def split: option.splits prod.splits)
  have "public \<notin> set taken" using p by (induction taken draws rule: new_public_recovery_id.induct) (auto split: if_splits)
  with Cons.IH [OF r] show ?case by (auto simp: rows usable_code_def)
qed simp

lemma batch_return: "id_inv w \<Longrightarrow> on_return (generate_recovery_batch e now dr owner) (\<lambda>_. id_inv) w"
proof -
  assume inv: "id_inv w"
  let ?w1 = "update_codes (usable_code owner) (\<lambda>c. c\<lparr>rc_invalidated := Some now\<rparr>) w"
  have w1: "id_inv ?w1" by (rule id_inv_codes [OF inv]) simp
  have "id_inv (?w1\<lparr>i_codes := i_codes ?w1 @ rows\<rparr>)" if n: "new_codes e owner b (map rc_public (i_codes ?w1)) ds ss = Some (rows, plains)" for b ds ss rows plains
    using new_codes_rows [OF n] w1 by (auto simp: id_inv_def keys_ok_def)
  then show ?thesis by (auto simp: generate_recovery_batch_def wp_simps split: if_splits prod.splits)
qed

lemma consume_return: "id_inv w \<Longrightarrow> on_return (consume_recovery_code e now owner code') (\<lambda>_. id_inv) w"
  by (auto simp: consume_recovery_code_def wp_simps Let_def intro!: id_inv_codes)

lemma begin_return: "id_inv w \<Longrightarrow> on_return (begin_totp_enrollment e now dr p label) (\<lambda>_. id_inv) w"
  by (auto simp: begin_totp_enrollment_def wp_simps Let_def frame_simps id_inv_def keys_ok_upd tfind_None new_device_def intro!: keys_ok_append_new)

subsection \<open>One service at a time\<close>

lemma verify_totp_frame:
  "i_profiles (fst (verify_totp e now pk otp allow w)) = i_profiles w" "i_sessions (fst (verify_totp e now pk otp allow w)) = i_sessions w"
  "i_codes (fst (verify_totp e now pk otp allow w)) = i_codes w" "i_rq (fst (verify_totp e now pk otp allow w)) = i_rq w"
  "id_inv w \<Longrightarrow> id_inv (fst (verify_totp e now pk otp allow w))"
  by (auto simp: verify_totp_def verify_totp_transaction_def p_bind_def p_atomic_def p_ret_def p_raise_def p_option_def p_mod_def get_device_def
      frame_simps failed_device_def used_device_def update_devices_def split: option.splits sum.splits prod.splits if_splits
      intro!: id_inv_devices [unfolded update_devices_def])

lemma establish_totp_inv:
  assumes "id_inv w" and "pf_pk p \<in> set (map pf_pk (i_profiles w))" and "\<forall>q \<in> set (i_profiles w). pf_pk q = pf_pk p \<longrightarrow> pf_status q = ''active''"
  shows "id_inv (fst (establish_totp_session e now dr p w))"
  unfolding establish_totp_session_def
proof (rule atomic_inv [OF assms(1)])
  have "on_return (establish_administrator_session e now dr p (Some now) False) (\<lambda>_. id_inv) (login_owner dr p w)"
    using assms by (intro establish_return) (auto simp: frame_simps)
  then show "on_return (p_bind (p_mod (login_owner dr p)) (\<lambda>_. p_bind (establish_administrator_session e now dr p (Some now) False)
      (\<lambda>se. p_bind (p_get (\<lambda>w. source_ip e (i_rq w))) (\<lambda>ip.
        p_bind (record_security_event e now (d_event dr) ''owner_totp_verified'' ''success'' (Some p) ip (Some (se_pk se)) [] [] []) (\<lambda>_. p_ret se))))) (\<lambda>_. id_inv) w"
    by (auto simp: wp_simps elim!: on_return_mono)
qed

lemma fst_bind: "fst (p_bind m f w) = (case snd (m w) of Inl x \<Rightarrow> fst (m w) | Inr v \<Rightarrow> fst (f v (fst (m w))))"
  by (auto simp: p_bind_def split: prod.splits sum.splits)

lemma fst_except: "fst (p_except m h w) = (case snd (m w) of Inl x \<Rightarrow> if is_identity_error x then fst (h x (fst (m w))) else fst (m w) | Inr v \<Rightarrow> fst (m w))"
  by (auto simp: p_except_def split: prod.splits sum.splits)

lemma fst_basic [simp]:
  "fst (p_ret v w) = w" "fst (p_raise x w) = w" "fst (p_get g w) = w" "snd (p_get g w) = Inr (g w)" "snd (p_ret v w) = Inr v" "snd (p_raise x w) = Inl x"
  "fst (p_guard x b w) = w" "snd (p_guard x b w) = (if b then Inr () else Inl x)" "fst (p_option x a w) = w"
  "snd (p_option x a w) = (case a of None \<Rightarrow> Inl x | Some v \<Rightarrow> Inr v)" "fst (p_mod f w) = f w" "snd (p_mod f w) = Inr ()"
  by (auto simp: p_ret_def p_raise_def p_get_def p_guard_def p_option_def p_mod_def split: option.splits)

text \<open>What a program keeps, whether it returns or raises.\<close>

definition maintains :: "(idw \<Rightarrow> bool) \<Rightarrow> 'a prog \<Rightarrow> bool" where
  "maintains I m \<longleftrightarrow> (\<forall>w. I w \<longrightarrow> I (fst (m w)))"

named_theorems maintain \<open>rules for what a program keeps\<close>

lemma maintains_basic [maintain, intro, simp]:
  "maintains I (p_ret v)" "maintains I (p_raise x)" "maintains I (p_get g)" "maintains I (p_guard x b)" "maintains I (p_option x a)"
  by (simp_all add: maintains_def)

lemma maintains_bind [maintain]: "maintains I m \<Longrightarrow> (\<And>v. maintains I (f v)) \<Longrightarrow> maintains I (p_bind m f)"
  by (auto simp: maintains_def fst_bind split: sum.splits)

lemma maintains_except [maintain]: "maintains I m \<Longrightarrow> (\<And>x. maintains I (h x)) \<Longrightarrow> maintains I (p_except m h)"
  by (auto simp: maintains_def fst_except split: sum.splits)

lemma maintains_return: "maintains I m \<Longrightarrow> I w \<Longrightarrow> on_return m (\<lambda>_. I) w"
  by (metis fst_conv maintains_def on_return_def)

lemma return_bind:
  "maintains I m \<Longrightarrow> I w \<Longrightarrow> (\<And>v w'. I w' \<Longrightarrow> on_return (f v) Q w') \<Longrightarrow> on_return (p_bind m f) Q w"
  unfolding on_return_bind by (rule on_return_mono [OF maintains_return])

definition leads :: "(idw \<Rightarrow> bool) \<Rightarrow> (idw \<Rightarrow> bool) \<Rightarrow> 'a prog \<Rightarrow> bool" where
  "leads I J m \<longleftrightarrow> (\<forall>w. I w \<longrightarrow> J (fst (m w)))"

named_theorems lead \<open>rules for where a program ends\<close>

lemma leads_maintains: "maintains I m \<Longrightarrow> (\<And>w. I w \<Longrightarrow> J w) \<Longrightarrow> leads I J m"
  by (simp add: leads_def maintains_def)

lemma leads_bind [lead]: "maintains I m \<Longrightarrow> (\<And>w. I w \<Longrightarrow> J w) \<Longrightarrow> (\<And>v. leads I J (f v)) \<Longrightarrow> leads I J (p_bind m f)"
  by (auto simp: leads_def maintains_def fst_bind split: sum.splits)

lemma leads_guard [lead]: "(\<And>w. I w \<Longrightarrow> J w) \<Longrightarrow> (b \<Longrightarrow> leads I J (f ())) \<Longrightarrow> leads I J (p_bind (p_guard x b) f)"
  by (auto simp: leads_def fst_bind)

lemma leads_cases [lead]:
  "(v = None \<Longrightarrow> leads I J m) \<Longrightarrow> (\<And>d. v = Some d \<Longrightarrow> leads I J (n d)) \<Longrightarrow> leads I J (case v of None \<Rightarrow> m | Some d \<Rightarrow> n d)"
  "(b \<Longrightarrow> leads I J m1) \<Longrightarrow> (\<not> b \<Longrightarrow> leads I J m2) \<Longrightarrow> leads I J (if b then m1 else m2)"
  by (auto split: option.splits)

lemma leads_atomic: "(\<And>w. I w \<Longrightarrow> id_inv w) \<Longrightarrow> (\<And>w. I w \<Longrightarrow> on_return m (\<lambda>_. id_inv) w) \<Longrightarrow> leads I id_inv (p_atomic m)"
  by (simp add: leads_def atomic_inv)

text \<open>The owner a service was given is the one of the table: no request runs in between.\<close>

definition current_owner :: "admin_profile \<Rightarrow> idw \<Rightarrow> bool" where
  "current_owner p w \<longleftrightarrow> tfind pf_pk (pf_pk p) (i_profiles w) = Some p"

definition serving :: "admin_profile \<Rightarrow> idw \<Rightarrow> bool" where
  "serving p w \<longleftrightarrow> id_inv w \<and> current_owner p w"

lemma serving_active:
  "serving p w \<Longrightarrow> pf_status p = ''active'' \<Longrightarrow> \<forall>q \<in> set (i_profiles w). pf_pk q = pf_pk p \<longrightarrow> pf_status q = ''active''"
  by (auto simp: serving_def current_owner_def id_inv_def session_tables_def dest!: tfind_in dest: keys_ok_inj)

lemma serving_row: "serving p w \<Longrightarrow> pf_pk p \<in> set (map pf_pk (i_profiles w))"
  by (auto simp: serving_def current_owner_def dest!: tfind_in)

lemma serving_inv: "serving p w \<Longrightarrow> id_inv w"
  by (simp add: serving_def)

lemma event_frame: "i_profiles (fst (record_security_event e now eid a r p ip sid ty ti ds w)) = i_profiles w"
  by (auto simp: record_security_event_def split: option.splits)

lemma serving_event [maintain]: "maintains (serving p) (record_security_event e now eid a r q ip sid ty ti ds)"
  by (simp add: maintains_def serving_def current_owner_def event_frame)

lemma serving_failure_event [maintain]: "maintains (serving p) (failure_event e now dr a q sid ty ti)"
  unfolding failure_event_def by (intro maintain)

lemma serving_verify [maintain]: "maintains (serving p) (verify_totp e now pk otp allow)"
  by (simp add: maintains_def serving_def current_owner_def verify_totp_frame)

lemma serving_limits [maintain]:
  "maintains (serving p) (check_limit e now k n win)" "maintains (serving p) (record_limit_success e k)"
  "maintains (serving p) (check_password_limit e now nm ip)" "maintains (serving p) (check_recovery_limit e now ow ip)"
  by (auto simp: maintains_def serving_def current_owner_def check_limit_def record_limit_success_def check_password_limit_def check_recovery_limit_def
      split: prod.splits)

lemma serving_ends [lead]: "maintains (serving p) m \<Longrightarrow> leads (serving p) id_inv m"
  by (rule leads_maintains) (simp_all add: serving_inv)

lemma totp_inv: "leads (serving p) id_inv (complete_totp_authentication e now dr p otp)"
proof -
  have e: "leads (serving p) id_inv (establish_totp_session e now dr p)" if "pf_status p = ''active''"
    using that by (simp add: leads_def establish_totp_inv serving_inv serving_active serving_row del: set_map)
  show ?thesis
    unfolding complete_totp_authentication_def
    by (intro leads_guard leads_bind leads_cases e; (intro maintain | rule serving_inv | (rule serving_ends, intro maintain))?)
qed

text \<open>After every session of the owner is revoked, its status may change.\<close>

lemma revoked_status:
  assumes "id_inv w" and "\<not> (st \<noteq> ''disabled'' \<and> list_ex (\<lambda>p. pf_pk p \<noteq> pk \<and> pf_status p \<noteq> ''disabled'') (i_profiles w))"
    and "st = ''active'' \<or> (\<forall>se \<in> set (i_sessions w). se_profile se = pk \<longrightarrow> se_revoked se \<noteq> None)"
  shows "id_inv (w\<lparr>i_profiles := map (\<lambda>p. if pf_pk p = pk then p\<lparr>pf_status := st\<rparr> else p) (i_profiles w)\<rparr>)"
proof -
  have "session_tables (map (\<lambda>p. if pf_pk p = pk then p\<lparr>pf_status := st\<rparr> else p) (i_profiles w)) (i_sessions w)"
    using assms by (intro session_tables_status) (auto simp: id_inv_def)
  with assms(1) show ?thesis by (simp add: id_inv_def)
qed

lemma recovery_tail:
  assumes "serving p w"
  shows "on_return (p_bind (record_limit_success e scope) (\<lambda>_. p_bind (revoke_and_drop (\<lambda>se. se_profile se = pf_pk p) now) (\<lambda>revoked.
       p_bind (set_status (pf_pk p) ''recovery_required'') (\<lambda>_. p_bind (p_mod (login_owner dr p)) (\<lambda>_.
       p_bind (establish_administrator_session e now dr p None True) (\<lambda>se.
       p_bind (record_security_event e now (d_event dr) ''owner_recovery_verified'' ''success'' (Some p) ip (Some (se_pk se)) [] []
           [(''revoked_session_count'', JInt (int revoked))]) (\<lambda>_. p_ret (Some se)))))))) (\<lambda>_. id_inv) w"
proof (rule return_bind [of "serving p", OF _ assms])
  fix w1 assume s: "serving p w1"
  define w2 where "w2 = drop_web (live_keys (\<lambda>se. se_profile se = pf_pk p) w1) (revoke_where (\<lambda>se. se_profile se = pf_pk p) now w1)"
  have inv: "id_inv w2" using s by (simp add: w2_def id_inv_revoke serving_inv)
  have rev: "\<forall>se \<in> set (i_sessions w2). se_profile se = pf_pk p \<longrightarrow> se_revoked se \<noteq> None"
    by (auto simp: w2_def frame_simps upd_def)
  define w3 where "w3 = login_owner dr p (w2\<lparr>i_profiles := map (\<lambda>q. if pf_pk q = pf_pk p then q\<lparr>pf_status := ''recovery_required''\<rparr> else q) (i_profiles w2)\<rparr>)"
  have "id_inv w3" if "\<not> list_ex (\<lambda>q. pf_pk q \<noteq> pf_pk p \<and> pf_status q \<noteq> ''disabled'') (i_profiles w2)"
    using that rev by (simp add: w3_def revoked_status [OF inv])
  moreover have "pf_pk p \<in> set (map pf_pk (i_profiles w3))"
    using serving_row [OF s] by (simp add: w3_def w2_def frame_simps image_image)
  ultimately have "on_return (establish_administrator_session e now dr p None True) (\<lambda>_. id_inv) w3"
    if "\<not> list_ex (\<lambda>q. pf_pk q \<noteq> pf_pk p \<and> pf_status q \<noteq> ''disabled'') (i_profiles w2)" using that by (intro establish_return) auto
  then show "on_return (p_bind (revoke_and_drop (\<lambda>se. se_profile se = pf_pk p) now) (\<lambda>revoked.
       p_bind (set_status (pf_pk p) ''recovery_required'') (\<lambda>_. p_bind (p_mod (login_owner dr p)) (\<lambda>_.
       p_bind (establish_administrator_session e now dr p None True) (\<lambda>se.
       p_bind (record_security_event e now (d_event dr) ''owner_recovery_verified'' ''success'' (Some p) ip (Some (se_pk se)) [] []
           [(''revoked_session_count'', JInt (int revoked))]) (\<lambda>_. p_ret (Some se))))))) (\<lambda>_. id_inv) w1"
    by (auto simp: wp_simps w3_def simp flip: w2_def elim!: on_return_mono)
qed (intro maintain)

text \<open>A transaction keeps what its return keeps, provided the cache and the request do not matter.\<close>

lemma serving_frame [simp]:
  "serving p (w\<lparr>i_limits := l\<rparr>) = serving p w" "serving p (w\<lparr>i_rq := r\<rparr>) = serving p w" "serving p (w\<lparr>i_limits := l, i_rq := r\<rparr>) = serving p w"
  by (simp_all add: serving_def current_owner_def)

lemma serving_atomic: "(\<And>w. serving p w \<Longrightarrow> on_return m (\<lambda>_. serving p) w) \<Longrightarrow> maintains (serving p) (p_atomic m)"
  by (auto simp: maintains_def p_atomic_def on_return_def split: prod.splits sum.splits)

lemma serving_consume [maintain]: "maintains (serving p) (consume_recovery_code e now owner presented)"
  unfolding consume_recovery_code_def
  by (rule serving_atomic) (auto simp: wp_simps Let_def serving_def current_owner_def frame_simps intro!: id_inv_codes)

lemma recovery_inv: "leads (serving p) id_inv (complete_recovery_authentication e now dr p presented)"
proof -
  have "leads (serving p) id_inv (complete_recovery_transaction e now dr p presented)"
    unfolding complete_recovery_transaction_def
  proof (rule leads_atomic, goal_cases)
    case (2 w)
    then show ?case
      by (intro return_bind [of "serving p", OF _ 2] return_bind [of "serving p"]; (intro maintain | assumption)?)
        (auto simp: wp_simps(1) serving_inv recovery_tail)
  qed (rule serving_inv)
  then show ?thesis by (auto simp: complete_recovery_authentication_def leads_def fst_bind split: sum.splits)
qed

end
