(* ===== verification/Identity_Run.thy ===== *)
theory Identity_Run
  imports Identity_Inv
begin

text \<open>
  Runs of the identity application: a request goes through the middleware and one view, a management
  command runs in between.  Every service keeps \<open>id_inv\<close>, so every reachable state has it.
\<close>

section \<open>The remaining services\<close>

lemma inv_atomic: "(\<And>w. id_inv w \<Longrightarrow> on_return m (\<lambda>_. id_inv) w) \<Longrightarrow> maintains id_inv (p_atomic m)"
  by (simp add: maintains_def atomic_inv)

lemma inv_event [maintain]: "maintains id_inv (record_security_event e now eid a r q ip sid ty ti ds)" "maintains id_inv (failure_event e now dr a p sid' ty' ti')"
  by (simp_all add: maintains_def)

lemma inv_limits [maintain]:
  "maintains id_inv (check_limit e now k n win)" "maintains id_inv (record_limit_success e k)"
  "maintains id_inv (check_password_limit e now nm ip)" "maintains id_inv (check_recovery_limit e now ow ip)"
  by (auto simp: maintains_def check_limit_def record_limit_success_def check_password_limit_def check_recovery_limit_def split: prod.splits)

lemma inv_mod [maintain]: "(\<And>w. id_inv w \<Longrightarrow> id_inv (f w)) \<Longrightarrow> maintains id_inv (p_mod f)"
  by (simp add: maintains_def)

lemma inv_verify [maintain]: "maintains id_inv (verify_totp e now pk otp allow)"
  by (simp add: maintains_def verify_totp_frame)

lemma inv_reads [maintain]: "maintains I request_session" "maintains I (get_profile pk)" "maintains I (get_session pk)" "maintains I (get_device pk)"
  by (auto simp: maintains_def request_session_def get_profile_def get_session_def get_device_def split: option.splits)

lemma maintains_cases [maintain]:
  "maintains I m \<Longrightarrow> (\<And>d. maintains I (n d)) \<Longrightarrow> maintains I (case v of None \<Rightarrow> m | Some d \<Rightarrow> n d)"
  "maintains I m1 \<Longrightarrow> maintains I m2 \<Longrightarrow> maintains I (if b then m1 else m2)"
  "(\<And>a c. maintains I (g a c)) \<Longrightarrow> maintains I (case pr of (a, c) \<Rightarrow> g a c)"
  by (auto split: option.splits prod.splits)

lemma logout_inv [maintain]: "maintains id_inv (logout_administrator e now dr)"
  unfolding logout_administrator_def by (rule inv_atomic) (auto simp: wp_simps id_inv_revoke split: option.splits)

lemma start_inv [maintain]: "maintains id_inv (start_totp_enrollment e now dr p label)"
  unfolding start_totp_enrollment_def
  by (rule inv_atomic) (auto simp: wp_simps elim!: on_return_mono intro!: on_return_mono [OF begin_return])

lemma password_inv [maintain]: "maintains id_inv (verify_owner_password e now dr name pw)"
  unfolding verify_owner_password_def by (intro maintain) simp_all

lemma rotate_inv [maintain]: "maintains id_inv (rotate_administrator_session dr pk)"
  using rotate_return [of _ dr pk] unfolding rotate_administrator_session_def on_return_atomic by (rule inv_atomic)

lemma fresh_inv [maintain]: "maintains id_inv (fresh_reauthenticate e now dr se pw otp)"
proof -
  have "on_return (p_bind (rotate_administrator_session dr (se_pk se)) (\<lambda>_.
         p_bind (p_mod (update_sessions (\<lambda>x. se_pk x = se_pk se) (\<lambda>x. x\<lparr>os_fresh := Some now\<rparr>))) (\<lambda>_.
           record_security_event e now (d_event dr) ''owner_fresh_verification'' ''success'' (Some p) ip (Some (se_pk se)) [] [] []))) (\<lambda>_. id_inv) w"
    if "id_inv w" for p ip w
    by (rule return_bind [of id_inv, OF rotate_inv that]) (auto simp: wp_simps intro!: id_inv_sessions)
  then show ?thesis
    unfolding fresh_reauthenticate_def
    by (intro maintain; (split prod.split bool.split option.split)+)
      (auto intro!: maintain inv_atomic)
qed

lemma id_inv_set_key:
  "id_inv w \<Longrightarrow> k \<notin> set (map os_key (filter (\<lambda>x. se_pk x \<noteq> pk) (i_sessions w))) \<Longrightarrow> id_inv (update_sessions (\<lambda>x. se_pk x = pk) (\<lambda>x. x\<lparr>os_key := k\<rparr>) w)"
  by (auto simp: id_inv_def frame_simps intro!: session_tables_set_key)

lemma inv_set_key [maintain]: "maintains id_inv (set_session_key k pk)"
  by (auto simp: maintains_def set_session_key_def id_inv_set_key)

lemma inv_revoke_and_drop [maintain]: "maintains id_inv (revoke_and_drop P now)" "maintains id_inv (revoke_others owner pk now)"
  by (simp_all add: maintains_def revoke_and_drop_def revoke_others_def id_inv_revoke)

lemma inv_batch [maintain]: "maintains id_inv (generate_recovery_batch e now dr owner)"
  using batch_return [of _ e now dr owner] unfolding generate_recovery_batch_def on_return_atomic by (rule inv_atomic)

lemma inv_fresh_guard [maintain]: "maintains I (require_fresh_administrator now se)"
  by (simp add: require_fresh_administrator_def)

text \<open>A transaction of steps that each keep the invariant keeps it.\<close>

lemma maintains_atomic [maintain]: "maintains id_inv m \<Longrightarrow> maintains id_inv (p_atomic m)"
  by (simp add: inv_atomic maintains_return)

lemma change_password_inv [maintain]: "maintains id_inv (change_password e now dr meta old new)"
  unfolding change_password_def by (intro maintain; simp add: id_inv_clear_fresh)

lemma regenerate_inv [maintain]: "maintains id_inv (regenerate_recovery_codes e now dr meta)"
  unfolding regenerate_recovery_codes_def by (intro maintain; simp add: id_inv_clear_fresh)

lemma revoke_session_inv [maintain]: "maintains id_inv (revoke_session e now dr p target actor)"
  unfolding revoke_session_def by (intro maintain; simp add: id_inv_revoke)

lemma revoke_owned_inv [maintain]: "maintains id_inv (revoke_owned_session e now dr meta target)"
  unfolding revoke_owned_session_def by (intro maintain; simp)

lemma revoke_other_inv [maintain]: "maintains id_inv (revoke_other_sessions e now dr meta)"
  unfolding revoke_other_sessions_def by (intro maintain; simp add: id_inv_clear_fresh)

lemma purge_inv [maintain]: "maintains id_inv (purge_command now outdated)"
  unfolding purge_command_def by (intro maintain; simp add: id_inv_revoke)

section \<open>Bootstrapping and reset\<close>

lemma session_tables_bootstrap:
  assumes "session_tables ps ss" and "\<not> list_ex (\<lambda>p. pf_status p \<noteq> ''disabled'') ps" and "pf_pk p \<notin> set (map pf_pk ps)" and "pf_user p \<notin> set (map pf_user ps)"
  shows "session_tables (ps @ [p]) ss"
proof -
  have "pf_pk p \<notin> set (map se_profile ss)" using assms(1,3) by (auto simp: session_tables_def)
  moreover have "\<forall>q \<in> set ps. pf_status q = ''disabled''" using assms(2) by (auto simp: list_ex_iff)
  ultimately show ?thesis
    using assms unfolding session_tables_def open_only_if_active_def one_owner_def by (auto simp: tfind_None intro!: keys_ok_append_new)
qed

lemma bootstrap_inv [maintain]: "maintains id_inv (bootstrap_owner e now dr name email pw)"
  unfolding bootstrap_owner_def
proof (rule inv_atomic, goal_cases)
  case (1 w)
  have "id_inv (w\<lparr>i_users := us, i_profiles := i_profiles w @ [p]\<rparr>)"
    if "\<not> enabled_owner w" "pf_pk p \<notin> set (map pf_pk (i_profiles w))" "pf_user p \<notin> set (map pf_user (i_profiles w))" for us p
    using 1 that session_tables_bootstrap [of "i_profiles w" "i_sessions w" p] by (simp add: id_inv_def enabled_owner_def)
  with 1 show ?case by (simp add: wp_simps Let_def)
qed

lemma reset_inv [maintain]: "maintains id_inv (reset_owner_mfa e now dr p typed)"
  unfolding reset_owner_mfa_def
proof (rule inv_atomic, goal_cases)
  case (1 w)
  define w1 where "w1 = drop_web (live_keys (\<lambda>se. se_profile se = pf_pk p) w) (revoke_where (\<lambda>se. se_profile se = pf_pk p) now w)"
  define w2 where "w2 = update_codes (\<lambda>c. rc_profile c = pf_pk p \<and> rc_invalidated c = None) (\<lambda>c. c\<lparr>rc_invalidated := Some now\<rparr>)
    (update_devices (\<lambda>d. dv_profile d = pf_pk p \<and> dv_disabled d = None) (\<lambda>d. d\<lparr>dv_disabled := Some now, dv_confirmed := False\<rparr>) w1)"
  have w1: "id_inv w1" using 1 by (simp add: w1_def id_inv_revoke)
  then have w2: "id_inv w2" by (simp add: w2_def id_inv_codes id_inv_devices)
  have "\<forall>se \<in> set (i_sessions w2). se_profile se = pf_pk p \<longrightarrow> se_revoked se \<noteq> None"
    by (auto simp: w2_def w1_def frame_simps upd_def)
  then have "id_inv (w2\<lparr>i_profiles := map (\<lambda>q. if pf_pk q = pf_pk p then q\<lparr>pf_status := ''enrollment_required''\<rparr> else q) (i_profiles w2)\<rparr>)"
    if "\<not> list_ex (\<lambda>q. pf_pk q \<noteq> pf_pk p \<and> pf_status q \<noteq> ''disabled'') (i_profiles w2)"
    using that by (intro revoked_status [OF w2]) auto
  then show ?case
    by (simp add: wp_simps flip: w1_def w2_def)
qed

section \<open>Enrollment\<close>

text \<open>The owner has a row, and the sessions \<open>S\<close> are the owner's; \<open>activated\<close>: and the status is \<open>active\<close>.\<close>

definition enrolled :: "admin_profile \<Rightarrow> uuid set \<Rightarrow> idw \<Rightarrow> bool" where
  "enrolled p S w \<longleftrightarrow> id_inv w \<and> pf_pk p \<in> set (map pf_pk (i_profiles w)) \<and> (\<forall>x \<in> set (i_sessions w). se_pk x \<in> S \<longrightarrow> se_profile x = pf_pk p)"

definition activated :: "admin_profile \<Rightarrow> uuid set \<Rightarrow> idw \<Rightarrow> bool" where
  "activated p S w \<longleftrightarrow> enrolled p S w \<and> (\<forall>q \<in> set (i_profiles w). pf_pk q = pf_pk p \<longrightarrow> pf_status q = ''active'')"

lemma bind_return: "on_return m R w \<Longrightarrow> (\<And>v w'. R v w' \<Longrightarrow> on_return (f v) Q w') \<Longrightarrow> on_return (p_bind m f) Q w"
  unfolding on_return_bind by (rule on_return_mono)

lemma enrolled_inv: "enrolled p S w \<Longrightarrow> id_inv w" "activated p S w \<Longrightarrow> id_inv w"
  by (simp_all add: enrolled_def activated_def)

lemma enrolled_frame [simp]: "enrolled p S (w\<lparr>i_limits := l, i_rq := r\<rparr>) = enrolled p S w"
  by (simp add: enrolled_def)

lemma enrolled_atomic: "(\<And>w. enrolled p S w \<Longrightarrow> on_return m (\<lambda>_. enrolled p S) w) \<Longrightarrow> maintains (enrolled p S) (p_atomic m)"
  by (auto simp: maintains_def p_atomic_def on_return_def split: prod.splits sum.splits)

lemma enrolled_batch [maintain]: "maintains (enrolled p S) (generate_recovery_batch e now dr owner)"
  unfolding generate_recovery_batch_def
proof (rule enrolled_atomic, goal_cases)
  case (1 w)
  show ?case
    using batch_return [of w e now dr owner] 1 unfolding generate_recovery_batch_def on_return_atomic
    by (auto simp: enrolled_def wp_simps frame_simps split: prod.splits)
qed

lemma enrolled_devices [maintain]: "(\<And>d. dv_pk (f d) = dv_pk d) \<Longrightarrow> maintains (enrolled p S) (p_mod (update_devices P f))"
  by (simp add: maintains_def enrolled_def id_inv_devices frame_simps)

lemma enrolled_confirm [maintain]: "maintains (enrolled p S) (p_mod (confirm_device now d))"
  by (simp add: maintains_def enrolled_def id_inv_confirm frame_simps)

lemma enrolled_revoke [maintain]: "maintains (enrolled p S) (revoke_and_drop P now)"
  by (auto simp: maintains_def enrolled_def revoke_and_drop_def id_inv_revoke frame_simps in_upd split: if_splits)

lemma activate_return: "enrolled p S w \<Longrightarrow> on_return (set_status (pf_pk p) ''active'') (\<lambda>_. activated p S) w"
  using revoked_status [of w "''active''" "pf_pk p"]
  by (auto simp: on_return_writes activated_def enrolled_def image_image)

lemma login_activated: "activated p S w \<Longrightarrow> activated p S (login_owner dr p w)"
  by (simp add: activated_def enrolled_def frame_simps)

lemma establish_activated: "activated p S w \<Longrightarrow> on_return (establish_administrator_session e now dr p (Some now) False) (\<lambda>_. id_inv) w"
  by (rule establish_return) (auto simp: activated_def enrolled_def)

lemma activation_tail:
  assumes "enrolled p S w" and "\<And>se. maintains id_inv (f se)"
  shows "on_return (p_bind (set_status (pf_pk p) ''active'') (\<lambda>_. p_bind (p_mod (login_owner dr p)) (\<lambda>_.
    p_bind (establish_administrator_session e now dr p (Some now) False) f))) (\<lambda>_. id_inv) w"
proof (rule bind_return [OF activate_return [OF assms(1)]])
  fix w1 assume "activated p S w1"
  from establish_activated [OF login_activated [OF this]]
  have "on_return (p_bind (establish_administrator_session e now dr p (Some now) False) f) (\<lambda>_. id_inv) (login_owner dr p w1)"
    by (rule bind_return) (rule maintains_return [OF assms(2)])
  then show "on_return (p_bind (p_mod (login_owner dr p)) (\<lambda>_. p_bind (establish_administrator_session e now dr p (Some now) False) f)) (\<lambda>_. id_inv) w1"
    by (simp add: on_return_bind on_return_basic)
qed

lemma initial_inv [maintain]: "maintains id_inv (complete_initial_enrollment e now dr owner device)"
  unfolding complete_initial_enrollment_def
proof (rule inv_atomic, goal_cases)
  case (1 w)
  have "on_return (get_profile owner) (\<lambda>p. enrolled p {}) w"
    using 1 by (auto simp: on_return_get enrolled_def dest!: tfind_in)
  then show ?case
  proof (rule bind_return, goal_cases)
    case (1 p w)
    then show ?case
      by - ((rule activation_tail | rule return_bind [of "enrolled p {}"] | assumption | (intro maintain)[1])+)
  qed
qed

text \<open>The request's own session is opened once the owner is active.\<close>

lemma open_session:
  assumes "activated p {pk} w"
  shows "id_inv (update_sessions (\<lambda>x. se_pk x = pk) (\<lambda>x. x\<lparr>se_restricted := False, se_mfa := Some now\<rparr>) w)"
proof -
  let ?f = "\<lambda>x :: owner_session. x\<lparr>se_restricted := False, se_mfa := Some now\<rparr>"
  let ?ss = "upd (\<lambda>x. se_pk x = pk) ?f (i_sessions w)"
  have inv: "id_inv w" using assms by (rule enrolled_inv)
  have keys: "keys_ok se_pk ?ss" "keys_ok os_key ?ss" using inv by (simp_all add: keys_ok_upd id_inv_def session_tables_def)
  have "timed y \<and> second_factor y" if "y \<in> set ?ss" for y
    using that inv by (auto simp: in_upd id_inv_def session_tables_def timed_def second_factor_def split: if_splits)
  moreover have "set (map se_profile ?ss) \<subseteq> set (map pf_pk (i_profiles w))"
    using inv by (auto simp: upd_def id_inv_def session_tables_def)
  moreover have "open_only_if_active (i_profiles w) ?ss"
    using inv assms by (auto simp: open_only_if_active_def in_upd id_inv_def session_tables_def activated_def enrolled_def split: if_splits)
  ultimately show ?thesis using inv keys by (simp add: id_inv_def session_tables_def frame_simps)
qed

lemma opening_tail:
  assumes "enrolled p {pk} w" and "maintains id_inv m"
  shows "on_return (p_bind (set_status (pf_pk p) ''active'') (\<lambda>_.
    p_bind (p_mod (update_sessions (\<lambda>x. se_pk x = pk) (\<lambda>x. x\<lparr>se_restricted := False, se_mfa := Some now\<rparr>))) (\<lambda>_. m))) (\<lambda>_. id_inv) w"
proof (rule bind_return [OF activate_return [OF assms(1)]])
  fix w1 assume "activated p {pk} w1"
  from maintains_return [OF assms(2) open_session [OF this]]
  show "on_return (p_bind (p_mod (update_sessions (\<lambda>x. se_pk x = pk) (\<lambda>x. x\<lparr>se_restricted := False, se_mfa := Some now\<rparr>))) (\<lambda>_. m)) (\<lambda>_. id_inv) w1"
    by (simp add: on_return_bind on_return_basic)
qed

definition own_session :: "uuid \<Rightarrow> uuid \<Rightarrow> idw \<Rightarrow> bool" where
  "own_session owner pk w \<longleftrightarrow> (\<forall>x \<in> set (i_sessions w). se_pk x = pk \<longrightarrow> se_profile x = owner)"

lemma recovery_enrollment_inv:
  "leads (\<lambda>w. id_inv w \<and> own_session owner meta w) id_inv (complete_recovery_enrollment e now dr owner device meta)"
  unfolding complete_recovery_enrollment_def
proof (rule leads_atomic, goal_cases)
  case (2 w)
  have "on_return (get_profile owner) (\<lambda>p. enrolled p {meta}) w"
    using 2 by (auto simp: on_return_get enrolled_def own_session_def dest: tfind_in tfind_key)
  then show ?case
  proof (rule bind_return, goal_cases)
    case (1 p w)
    then have "on_return (get_device device) (\<lambda>_. enrolled p {meta}) w" by (auto simp: on_return_get)
    then show ?case
    proof (rule bind_return, goal_cases)
      case (1 d w)
      then have "on_return (get_session meta) (\<lambda>se w'. se_pk se = meta \<and> enrolled p {meta} w') w" by (auto simp: on_return_get dest: tfind_key)
      then show ?case
      proof (rule bind_return, goal_cases)
        case (1 se w)
        then have "enrolled p {se_pk se} w" by simp
        then show ?case
          by - ((rule opening_tail | rule return_bind [of "enrolled p {se_pk se}"] | assumption | (intro maintain; simp?)[1])+)
      qed
    qed
  qed
qed simp

section \<open>From the request to the service\<close>

text \<open>The owner that \<open>enrollment_profile\<close> returns: when recovering, it is the owner of the request's restricted session.\<close>

definition enrolling :: "admin_profile \<Rightarrow> idw \<Rightarrow> bool" where
  "enrolling p w \<longleftrightarrow> id_inv w \<and> (pf_status p = ''recovery_required'' \<longrightarrow>
     (\<forall>pk. rq_meta (i_rq w) = Some pk \<longrightarrow> own_session (pf_pk p) pk w))"

lemma enrolling_inv: "enrolling p w \<Longrightarrow> id_inv w"
  by (simp add: enrolling_def)

definition meeting :: "admin_profile \<Rightarrow> owner_session option \<Rightarrow> idw \<Rightarrow> bool" where
  "meeting p v w \<longleftrightarrow> id_inv w \<and> (pf_status p = ''recovery_required'' \<longrightarrow> (\<forall>se. v = Some se \<longrightarrow> own_session (pf_pk p) (se_pk se) w))"

lemma meeting_inv: "meeting p v w \<Longrightarrow> id_inv w"
  by (simp add: meeting_def)

lemma meeting_frame [maintain]:
  "maintains (meeting p v) (failure_event e now dr a q sid ty ti)" "maintains (meeting p v) (verify_totp e now pk otp allow)"
proof -
  have f: "i_sessions (fst (failure_event e now dr a q sid ty ti w)) = i_sessions w" for w
    by (auto simp: failure_event_def record_security_event_def fst_bind split: option.splits)
  show "maintains (meeting p v) (failure_event e now dr a q sid ty ti)"
    unfolding maintains_def meeting_def own_session_def f failure_event_inv by blast
  show "maintains (meeting p v) (verify_totp e now pk otp allow)"
    unfolding maintains_def meeting_def own_session_def verify_totp_frame(2) using verify_totp_frame(5) by blast
qed

lemma request_session_meeting: "(\<And>v. leads (meeting p v) id_inv (f v)) \<Longrightarrow> leads (enrolling p) id_inv (p_bind request_session f)"
proof -
  assume f: "\<And>v. leads (meeting p v) id_inv (f v)"
  have "meeting p (case rq_meta (i_rq w) of None \<Rightarrow> None | Some pk \<Rightarrow> tfind se_pk pk (i_sessions w)) w" if "enrolling p w" for w
  proof (cases "rq_meta (i_rq w)")
    case (Some pk)
    then show ?thesis using that tfind_key [of se_pk pk "i_sessions w"] unfolding enrolling_def meeting_def by simp
  qed (use that in \<open>simp add: enrolling_def meeting_def\<close>)
  with f show ?thesis by (simp add: leads_def fst_bind request_session_def)
qed

lemma confirm_inv: "leads (enrolling p) id_inv (confirm_totp_enrollment e now dr p device otp)"
proof -
  have r: "leads (meeting p (Some se)) id_inv (complete_recovery_enrollment e now dr (pf_pk p) d (se_pk se))" if "pf_status p = ''recovery_required''" for d se
    using recovery_enrollment_inv [of "pf_pk p" "se_pk se" e now dr d] that by (simp add: leads_def meeting_def)
  have i: "leads (meeting p v) id_inv (complete_initial_enrollment e now dr owner d)" for v owner d
    using initial_inv [of e now dr owner d] by (simp add: leads_def maintains_def meeting_inv)
  have rest: "leads (meeting p v) id_inv (p_bind (p_option VerificationFailed found) (\<lambda>d.
     p_bind (p_except (p_bind (verify_totp e now (dv_pk d) otp True) (\<lambda>_. p_ret ()))
       (\<lambda>x. p_bind (failure_event e now dr ''owner_totp_enrollment_confirmed'' p (map_option se_pk v) ''totp_device'' (dv_pk d)) (\<lambda>_. p_raise x))) (\<lambda>_.
       if pf_status p = ''enrollment_required'' then complete_initial_enrollment e now dr (pf_pk p) (dv_pk d)
       else case v of
         Some se \<Rightarrow> if pf_status p = ''recovery_required'' \<and> se_restricted se
           then complete_recovery_enrollment e now dr (pf_pk p) (dv_pk d) (se_pk se) else p_raise VerificationFailed
       | None \<Rightarrow> p_raise VerificationFailed)))" for v found
    by (intro leads_bind leads_cases i; (intro maintain | erule meeting_inv)?) (auto simp: r [unfolded leads_def, rule_format] leads_def meeting_inv)
  then show ?thesis
    unfolding confirm_totp_enrollment_def by (intro leads_bind request_session_meeting rest) (auto simp: enrolling_inv)
qed

text \<open>A request ends in the invariant when its gate establishes what the service needs.\<close>

lemma leads_return:
  assumes "maintains id_inv m" and "\<And>w. id_inv w \<Longrightarrow> on_return m Q w" and "\<And>v. leads (Q v) id_inv (f v)"
  shows "maintains id_inv (p_bind m f)"
  using assms by (auto simp: maintains_def leads_def on_return_def fst_bind split: sum.splits) (metis prod.collapse)

lemma leads_catch [lead]: "leads I id_inv m \<Longrightarrow> (\<And>x. maintains id_inv (h x)) \<Longrightarrow> leads I id_inv (p_catch m h)"
  by (simp add: leads_def maintains_def p_catch_def split: prod.splits sum.splits) (metis fst_conv)

lemma maintains_catch [maintain]: "maintains I m \<Longrightarrow> (\<And>x. maintains I (h x)) \<Longrightarrow> maintains I (p_catch m h)"
  by (simp add: maintains_def p_catch_def split: prod.splits sum.splits) (metis fst_conv)

lemma leads_then_return: "leads I J m \<Longrightarrow> (\<And>v. maintains J (f v)) \<Longrightarrow> leads I J (p_bind m f)"
  by (auto simp: leads_def maintains_def fst_bind split: sum.splits)

lemma leads_ret: "(\<And>w. I w \<Longrightarrow> J w) \<Longrightarrow> leads I J (p_ret v)"
  by (simp add: leads_def)

lemma inv_preauth [maintain]: "maintains id_inv (valid_preauthentication now)" "maintains id_inv (preauthenticated_profile now)" "maintains id_inv (enrollment_profile now)"
proof -
  show v: "maintains id_inv (valid_preauthentication now)"
    by (auto simp: maintains_def valid_preauthentication_def split: option.splits)
  show p: "maintains id_inv (preauthenticated_profile now)"
    unfolding preauthenticated_profile_def by (intro maintain v; simp)
  show "maintains id_inv (enrollment_profile now)"
    unfolding enrollment_profile_def by (intro maintain p)
qed

lemma preauthenticated_return:
  "id_inv w \<Longrightarrow> on_return (preauthenticated_profile now) (\<lambda>found w'. id_inv w' \<and> (\<forall>p. found = Some p \<longrightarrow> serving p w')) w"
proof -
  assume inv: "id_inv w"
  have "serving p w" if "find (\<lambda>p. pf_pk p = k \<and> P p) (i_profiles w) = Some p" for k P p
  proof -
    have "p \<in> set (i_profiles w)" "pf_pk p = k" using that by (auto simp: find_Some_iff)
    with inv show ?thesis by (auto simp: serving_def current_owner_def id_inv_def session_tables_def intro: tfind_unique)
  qed
  with inv show ?thesis
    by (auto simp: on_return_def preauthenticated_profile_def valid_preauthentication_def p_bind_def p_get_def p_ret_def p_mod_def
      split: option.splits if_splits)
qed

lemma enrollment_return:
  "id_inv w \<Longrightarrow> on_return (enrollment_profile now) (\<lambda>found w'. id_inv w' \<and> (\<forall>p. found = Some p \<longrightarrow> enrolling p w')) w"
proof -
  assume inv: "id_inv w"
  define meta where "meta = (case rq_meta (i_rq w) of None \<Rightarrow> None | Some pk \<Rightarrow> tfind se_pk pk (i_sessions w))"
  define own where "own = (case meta of None \<Rightarrow> None | Some se \<Rightarrow> (case tfind pf_pk (se_profile se) (i_profiles w) of None \<Rightarrow> None
    | Some p \<Rightarrow> if se_restricted se \<and> pf_status p = ''recovery_required'' then Some p else None))"
  have o: "enrolling p w" if p: "own = Some p" for p
  proof -
    obtain se pk where se: "rq_meta (i_rq w) = Some pk" "tfind se_pk pk (i_sessions w) = Some se" "tfind pf_pk (se_profile se) (i_profiles w) = Some p"
      using p by (auto simp: own_def meta_def split: option.splits if_splits)
    have "x = se" if "x \<in> set (i_sessions w)" "se_pk x = pk" for x
      using that se(2) inv by (auto simp: id_inv_def session_tables_def dest: tfind_unique)
    with se inv tfind_key [OF se(3)] show ?thesis by (auto simp: enrolling_def own_session_def)
  qed
  have e: "on_return (preauthenticated_profile now) (\<lambda>found w'. id_inv w' \<and> (\<forall>p. found = Some p \<longrightarrow> pf_status p = ''enrollment_required'' \<longrightarrow> enrolling p w')) w"
    by (rule on_return_mono [OF maintains_return [OF inv_preauth(2) inv]]) (simp add: enrolling_def)
  have r: "enrollment_profile now w = (case own of Some p \<Rightarrow> p_ret (Some p) | None \<Rightarrow> p_bind (preauthenticated_profile now) (\<lambda>found.
      p_ret (case found of None \<Rightarrow> None | Some p \<Rightarrow> if pf_status p = ''enrollment_required'' then Some p else None))) w"
    by (simp add: enrollment_profile_def p_bind_def request_session_def p_get_def own_def meta_def)
  show ?thesis
  proof (cases own)
    case None
    with e show ?thesis unfolding on_return_def r by (fastforce simp: p_bind_def p_ret_def split: prod.splits sum.splits if_splits option.splits)
  next
    case (Some p)
    with o inv show ?thesis unfolding on_return_def r by (simp add: p_ret_def)
  qed
qed

subsection \<open>The views\<close>

lemma inv_feature [maintain]: "maintains I m \<Longrightarrow> maintains I (require_feature e m)"
  by (simp add: require_feature_def)

lemma inv_full [maintain]: "maintains I full_administrator"
  unfolding full_administrator_def by (intro maintain)

lemma maintains_error [maintain]:
  "(\<And>t. maintains I (a t)) \<Longrightarrow> maintains I b \<Longrightarrow> maintains I c \<Longrightarrow>
     maintains I (case x of IdentityRateLimited t \<Rightarrow> a t | IdentityUnavailable \<Rightarrow> b | _ \<Rightarrow> c)"
  "maintains I a1 \<Longrightarrow> maintains I a2 \<Longrightarrow> (\<And>t. maintains I (a3 t)) \<Longrightarrow> maintains I c \<Longrightarrow>
     maintains I (case x of FreshnessRequired \<Rightarrow> a1 | CredentialMismatch \<Rightarrow> a2 | IdentityValidation t \<Rightarrow> a3 t | _ \<Rightarrow> c)"
  by (auto split: id_error.splits)

lemma maintains_pair [maintain]:
  "(\<And>a b. maintains I (f a b)) \<Longrightarrow> maintains I g \<Longrightarrow> maintains I (case (u, v) of (Some a, Some b) \<Rightarrow> f a b | _ \<Rightarrow> g)"
  by (auto split: option.splits)

lemma simple_views [maintain]:
  "maintains id_inv (security_status e now)" "maintains id_inv (password_challenge e now dr path b)" "maintains id_inv (logout e now dr path)"
  "maintains id_inv (reauthentication e now dr path b)" "maintains id_inv (password_change e now dr path b)"
  "maintains id_inv (recovery_code_regeneration e now dr path)" "maintains id_inv (session_list e path)"
  "maintains id_inv (session_revocation e now dr path target)" "maintains id_inv (other_session_revocation e now dr path)"
  "maintains id_inv (security_event_list e enc path limit cur)"
  unfolding security_status_def password_challenge_def logout_def reauthentication_def password_change_def recovery_code_regeneration_def
    session_list_def session_revocation_def other_session_revocation_def security_event_list_def
  by (intro maintain)+

lemma gate_view:
  assumes "maintains id_inv gate" and "\<And>w. id_inv w \<Longrightarrow> on_return gate (\<lambda>found w'. id_inv w' \<and> (\<forall>p. found = Some p \<longrightarrow> R p w')) w"
    and "maintains id_inv none" and "\<And>p. leads (R p) id_inv (some p)"
  shows "maintains id_inv (require_feature e (p_bind gate (\<lambda>found. case found of None \<Rightarrow> none | Some p \<Rightarrow> some p)))"
proof -
  have "leads (\<lambda>w'. id_inv w' \<and> (\<forall>p. found = Some p \<longrightarrow> R p w')) id_inv (case found of None \<Rightarrow> none | Some p \<Rightarrow> some p)" for found
    using assms(3) assms(4) [of "the found"] by (cases found) (auto simp: leads_def maintains_def)
  then show ?thesis by (intro inv_feature leads_return [OF assms(1,2)])
qed

lemma totp_view [maintain]: "maintains id_inv (totp_challenge e now dr path b)"
  unfolding totp_challenge_def
  by (rule gate_view [OF inv_preauth(2) preauthenticated_return]; (intro maintain)?)
    (auto intro!: leads_cases leads_ret leads_catch leads_then_return totp_inv maintain simp: serving_inv)

lemma recovery_view [maintain]: "maintains id_inv (recovery_challenge e now dr path b)"
  unfolding recovery_challenge_def
  by (rule gate_view [OF inv_preauth(2) preauthenticated_return]; (intro maintain)?)
    (auto intro!: leads_cases leads_ret leads_catch leads_then_return recovery_inv maintain simp: serving_inv)

lemma enrollment_view [maintain]: "maintains id_inv (totp_enrollment e now dr path b)"
  unfolding totp_enrollment_def by (intro maintain)

lemma confirmation_view [maintain]: "maintains id_inv (totp_confirmation e now dr parse path b)"
  unfolding totp_confirmation_def
  by (rule gate_view [OF inv_preauth(3) enrollment_return]; (intro maintain)?)
    (auto intro!: leads_cases leads_ret leads_catch leads_then_return confirm_inv maintain simp: enrolling_inv split: option.splits)

lemma run_view_inv: "maintains id_inv (run_view e now dr h v)"
  by (cases v) (auto intro!: maintain)

subsection \<open>The middleware\<close>

lemma enforce_inv: "id_inv w \<Longrightarrow> id_inv (fst (enforce_administrator_session e now w))"
  by (auto simp: enforce_administrator_session_def invalidate_request_session_def id_inv_revoke Let_def session_tables_def id_inv_def [of w]
      intro!: id_inv_sessions harmless_touch split: option.splits) (simp_all add: touch_session_def)

lemma process_request_inv: "id_inv w \<Longrightarrow> id_inv (process_request e now cookie agent peer fwd w)"
  using enforce_inv [of "w\<lparr>i_rq := load_request cookie agent peer fwd w\<rparr>" e now]
  by (auto simp: process_request_def split: prod.splits)

lemma finish_request_inv [simp]: "id_inv (finish_request dr r0 w) = id_inv w"
  by (simp add: finish_request_def)

lemma handle_request_inv: "id_inv w \<Longrightarrow> id_inv (fst (handle_request e now dr h v w))"
  using run_view_inv [of e now dr h v, unfolded maintains_def]
  by (auto simp: handle_request_def Let_def process_request_inv split: prod.splits sum.splits) (metis fst_conv process_request_inv)+

section \<open>Runs\<close>

inductive id_step :: "id_env \<Rightarrow> idw \<Rightarrow> idw \<Rightarrow> bool" for e where
  request: "id_step e w (fst (handle_request e now dr h v w))"
| bootstrap: "id_step e w (fst (bootstrap_command e now dr name email pw confirmation w))"
| reset: "id_step e w (fst (reset_command e now dr typed w))"
| purge: "id_step e w (fst (purge_command now outdated w))"

definition id_init :: "idw \<Rightarrow> bool" where
  "id_init w \<longleftrightarrow> i_profiles w = [] \<and> i_sessions w = [] \<and> i_devices w = [] \<and> i_codes w = []"

lemma command_inv: "maintains id_inv (bootstrap_command e now dr name email pw confirmation)" "maintains id_inv (reset_command e now dr typed)"
proof -
  show "maintains id_inv (bootstrap_command e now dr name email pw confirmation)" unfolding bootstrap_command_def by (intro maintain)
  have "maintains id_inv (case owners of [p] \<Rightarrow> reset_owner_mfa e now dr p (strip typed) | _ \<Rightarrow> p_raise IdentityInvalid)" for owners
    by (auto intro!: maintain split: list.splits)
  then show "maintains id_inv (reset_command e now dr typed)" unfolding reset_command_def by (intro maintain)
qed

interpretation identity: state_machine id_init "id_step e" id_inv for e
proof
  show "id_inv w" if "id_init w" for w
    using that by (simp add: id_init_def id_inv_def session_tables_def one_owner_def open_only_if_active_def)
  show "id_inv w'" if "id_inv w" "id_step e w w'" for w w'
    using that(2,1) by cases (auto simp: handle_request_inv command_inv [unfolded maintains_def] purge_inv [unfolded maintains_def])
qed

end
