(* ===== verification/Identity_Hist.thy ===== *)
theory Identity_Hist
  imports Identity_Run
begin

text \<open>
  What the identity application never takes back.  \<open>advances e\<close> relates a state to a later one: a revoked session
  stays revoked, a used recovery code stays used, the last time step of a device only moves forward, and the
  security log only gets longer, by entries whose details passed the filter.  The locale \<open>history\<close> lifts
  such a preorder from the writes to the programs.
\<close>

definition totp_forward :: "id_env \<Rightarrow> bool" where
  "totp_forward e \<longleftrightarrow> (\<forall>seed drift now otp min_t td. totp_verify e seed drift now otp min_t = Some td \<longrightarrow> min_t \<le> fst td)"

definition first_kept :: "('r \<Rightarrow> 'k) \<Rightarrow> ('r \<Rightarrow> 'r \<Rightarrow> bool) \<Rightarrow> 'r list \<Rightarrow> 'r list \<Rightarrow> bool" where
  "first_kept key good t t' \<longleftrightarrow> (\<forall>k r. tfind key k t = Some r \<longrightarrow> (\<exists>r'. tfind key k t' = Some r' \<and> good r r'))"

definition session_kept :: "owner_session \<Rightarrow> owner_session \<Rightarrow> bool" where
  "session_kept x y \<longleftrightarrow> se_revoked x \<noteq> None \<longrightarrow> se_revoked y \<noteq> None"

definition code_kept :: "recovery_code \<Rightarrow> recovery_code \<Rightarrow> bool" where
  "code_kept x y \<longleftrightarrow> rc_consumed x \<noteq> None \<longrightarrow> rc_consumed y \<noteq> None"

definition device_kept :: "id_env \<Rightarrow> totp_device \<Rightarrow> totp_device \<Rightarrow> bool" where
  "device_kept e x y \<longleftrightarrow> totp_forward e \<longrightarrow> dv_last_t x \<le> dv_last_t y"

definition log_entry_ok :: "id_env \<Rightarrow> security_event \<Rightarrow> bool" where
  "log_entry_ok e x \<longleftrightarrow> safe_details e (ev_details x) = Some (ev_details x) \<and> action_ok (ev_action x) \<and> ev_outcome x \<in> set OUTCOMES"

definition advances :: "id_env \<Rightarrow> idw \<Rightarrow> idw \<Rightarrow> bool" where
  "advances e w w' \<longleftrightarrow> first_kept se_pk session_kept (i_sessions w) (i_sessions w') \<and> first_kept dv_pk (device_kept e) (i_devices w) (i_devices w')
     \<and> first_kept rc_public code_kept (i_codes w) (i_codes w')
     \<and> (\<exists>new. i_events w' = i_events w @ new \<and> list_all (log_entry_ok e) new)"

lemma kept_good [simp]:
  "session_kept x x" "code_kept c c" "device_kept e d d"
  by (simp_all add: session_kept_def code_kept_def device_kept_def)

lemma first_kept_refl [simp, intro]: "(\<And>r. good r r) \<Longrightarrow> first_kept key good t t"
  by (simp add: first_kept_def)

lemma first_kept_trans:
  "first_kept key good t u \<Longrightarrow> first_kept key good u v \<Longrightarrow> (\<And>x y z. good x y \<Longrightarrow> good y z \<Longrightarrow> good x z) \<Longrightarrow> first_kept key good t v"
  unfolding first_kept_def by meson

lemma first_kept_append [intro]: "(\<And>r. good r r) \<Longrightarrow> first_kept key good t (t @ u)"
  by (simp add: first_kept_def tfind_append)

lemma tfind_upd: "(\<And>r. key (f r) = key r) \<Longrightarrow> tfind key k (upd P f t) = map_option (\<lambda>r. if P r then f r else r) (tfind key k t)"
  by (induction t) (auto simp: upd_def)

lemma first_kept_upd:
  "(\<And>r. key (f r) = key r) \<Longrightarrow> (\<And>k r. tfind key k t = Some r \<Longrightarrow> P r \<Longrightarrow> good r (f r)) \<Longrightarrow> (\<And>r. good r r) \<Longrightarrow> first_kept key good t (upd P f t)"
  by (auto simp: first_kept_def tfind_upd)

section \<open>Programs that respect a history\<close>

definition obeys :: "(idw \<Rightarrow> idw \<Rightarrow> bool) \<Rightarrow> 'a prog \<Rightarrow> bool" where
  "obeys R m \<longleftrightarrow> (\<forall>w. R w (fst (m w)))"

named_theorems keep \<open>programs that only move forward\<close>

locale history =
  fixes R :: "idw \<Rightarrow> idw \<Rightarrow> bool"
  assumes self: "R w w"
    and step: "R u v \<Longrightarrow> R v w \<Longrightarrow> R u w"
    and memory: "R w (w\<lparr>i_limits := l, i_rq := r\<rparr>)"
begin

lemma obeys_basic: "obeys R (p_ret v)" "obeys R (p_raise x)" "obeys R (p_get g)" "obeys R (p_guard x b)" "obeys R (p_option x a)"
  by (simp_all add: obeys_def self)

lemma obeys_mod: "(\<And>w. R w (f w)) \<Longrightarrow> obeys R (p_mod f)"
  by (simp add: obeys_def)

lemma obeys_bind: "obeys R m \<Longrightarrow> (\<And>v. obeys R (f v)) \<Longrightarrow> obeys R (p_bind m f)"
  by (auto simp: obeys_def fst_bind split: sum.splits intro: step)

lemma obeys_except: "obeys R m \<Longrightarrow> (\<And>x. obeys R (h x)) \<Longrightarrow> obeys R (p_except m h)"
  by (auto simp: obeys_def fst_except split: sum.splits intro: step)

lemma obeys_atomic: "obeys R m \<Longrightarrow> obeys R (p_atomic m)"
  unfolding obeys_def p_atomic_def by (auto split: prod.splits sum.splits intro: memory) (metis fst_conv)

lemma obeys_catch: "obeys R m \<Longrightarrow> (\<And>x. obeys R (h x)) \<Longrightarrow> obeys R (p_catch m h)"
  unfolding obeys_def p_catch_def by (auto split: prod.splits sum.splits) (metis fst_conv step)+

lemma obeys_feature: "obeys R m \<Longrightarrow> obeys R (require_feature e m)"
  by (simp add: require_feature_def obeys_basic)

lemma obeys_cases:
  "obeys R m \<Longrightarrow> (\<And>d. obeys R (n d)) \<Longrightarrow> obeys R (case v of None \<Rightarrow> m | Some d \<Rightarrow> n d)"
  "obeys R m1 \<Longrightarrow> obeys R m2 \<Longrightarrow> obeys R (if b then m1 else m2)"
  "(\<And>a c. obeys R (g a c)) \<Longrightarrow> obeys R (case pr of (a, c) \<Rightarrow> g a c)"
  by (auto split: option.splits prod.splits)

lemma obeys_pair:
  "(\<And>a b. obeys R (f a b)) \<Longrightarrow> obeys R g \<Longrightarrow> obeys R (case (u, v) of (Some a, Some b) \<Rightarrow> f a b | _ \<Rightarrow> g)"
  by (auto split: option.splits)

lemma obeys_error:
  "(\<And>t. obeys R (a t)) \<Longrightarrow> obeys R b \<Longrightarrow> obeys R c \<Longrightarrow> obeys R (case x of IdentityRateLimited t \<Rightarrow> a t | IdentityUnavailable \<Rightarrow> b | _ \<Rightarrow> c)"
  "obeys R a1 \<Longrightarrow> obeys R a2 \<Longrightarrow> (\<And>t. obeys R (a3 t)) \<Longrightarrow> obeys R c \<Longrightarrow>
     obeys R (case x of FreshnessRequired \<Rightarrow> a1 | CredentialMismatch \<Rightarrow> a2 | IdentityValidation t \<Rightarrow> a3 t | _ \<Rightarrow> c)"
  by (auto split: id_error.splits)

lemma obeys_reads:
  "obeys R request_session" "obeys R (get_profile pk)" "obeys R (get_session pk)" "obeys R (get_device pk)" "obeys R full_administrator"
  using self
  by (auto simp: obeys_def request_session_def get_profile_def get_session_def get_device_def full_administrator_def fst_bind split: option.splits)

lemma run_ordered:
  assumes "\<And>w w'. stepr w w' \<Longrightarrow> R w w'" and "stepr\<^sup>*\<^sup>* w w'"
  shows "R w w'"
  using assms(2) by (induction rule: rtranclp_induct) (auto intro: self step assms(1))

end

lemma advances_trans: "advances e u v \<Longrightarrow> advances e v w \<Longrightarrow> advances e u w"
proof -
  assume a: "advances e u v" "advances e v w"
  have "first_kept se_pk session_kept (i_sessions u) (i_sessions w)"
    using a by (auto simp: advances_def session_kept_def elim!: first_kept_trans)
  moreover have "first_kept dv_pk (device_kept e) (i_devices u) (i_devices w)"
    using a by (auto simp: advances_def device_kept_def elim!: first_kept_trans)
  moreover have "first_kept rc_public code_kept (i_codes u) (i_codes w)"
    using a by (auto simp: advances_def code_kept_def elim!: first_kept_trans)
  ultimately show ?thesis using a unfolding advances_def by (metis append.assoc list_all_append)
qed

interpretation hist: history "advances e" for e
proof
  show "advances e w w" "advances e w (w\<lparr>i_limits := l, i_rq := r\<rparr>)" for w l r by (auto simp: advances_def)
qed (rule advances_trans)

lemmas keep_rules [keep] = hist.obeys_basic hist.obeys_mod hist.obeys_bind hist.obeys_except hist.obeys_atomic hist.obeys_catch hist.obeys_feature
  hist.obeys_cases hist.obeys_pair hist.obeys_error hist.obeys_reads

section \<open>The writes\<close>

lemma advances_self [simp]: "advances e w w"
  by (rule hist.self)

lemma advances_frame [simp]:
  "advances e u (rq_upd f w) = advances e u w" "advances e u (drop_web ks w) = advances e u w" "advances e u (session_save k w) = advances e u w"
  "advances e u (session_flush w) = advances e u w" "advances e u (cycle_key k w) = advances e u w" "advances e u (set_preauth v w) = advances e u w"
  "advances e u (login_owner dr p w) = advances e u w" "advances e u (w\<lparr>i_users := us\<rparr>) = advances e u w" "advances e u (w\<lparr>i_web := ws\<rparr>) = advances e u w"
  "advances e u (w\<lparr>i_profiles := ps\<rparr>) = advances e u w" "advances e u (w\<lparr>i_limits := ls\<rparr>) = advances e u w"
  by (simp_all add: advances_def rq_upd_def drop_web_def session_save_def session_flush_def cycle_key_def set_preauth_def login_owner_def django_login_def Let_def)

lemma advances_sessions:
  "(\<And>x. se_pk (f x) = se_pk x) \<Longrightarrow> (\<And>x. session_kept x (f x)) \<Longrightarrow> advances e w (update_sessions P f w)"
  by (auto simp: advances_def frame_simps update_sessions_def upd_def [symmetric] intro!: first_kept_upd)

lemma advances_devices:
  "(\<And>x. dv_pk (f x) = dv_pk x) \<Longrightarrow> (\<And>k x. tfind dv_pk k (i_devices w) = Some x \<Longrightarrow> P x \<Longrightarrow> device_kept e x (f x)) \<Longrightarrow> advances e w (update_devices P f w)"
  by (auto simp: advances_def update_devices_def upd_def [symmetric] intro!: first_kept_upd)

lemma advances_codes:
  "(\<And>x. rc_public (f x) = rc_public x) \<Longrightarrow> (\<And>x. code_kept x (f x)) \<Longrightarrow> advances e w (update_codes P f w)"
  by (auto simp: advances_def update_codes_def upd_def [symmetric] intro!: first_kept_upd)

lemma advances_append:
  "advances e w (w\<lparr>i_sessions := i_sessions w @ ss\<rparr>)" "advances e w (w\<lparr>i_devices := i_devices w @ ds\<rparr>)" "advances e w (w\<lparr>i_codes := i_codes w @ cs\<rparr>)"
  by (auto simp: advances_def)

lemma advances_revoke [simp]: "advances e w (revoke_where P now w)"
  unfolding revoke_where_def by (rule advances_sessions) (simp_all add: session_kept_def)

lemma advances_clear [simp]: "advances e w (clear_fresh pk w)"
  unfolding clear_fresh_def by (rule advances_sessions) (simp_all add: session_kept_def)

lemma advances_confirm [simp]: "advances e w (confirm_device now d w)"
  unfolding confirm_device_def by (rule advances_devices) (simp_all add: device_kept_def)

lemma keep_event [keep]: "obeys (advances e) (record_security_event e now eid a r p ip sid ty ti ds)"
  by (auto simp: obeys_def record_security_event_def advances_def log_entry_ok_def safe_details_def split: option.splits if_splits)

lemma keep_failure_event [keep]: "obeys (advances e) (failure_event e now dr a p sid ty ti)"
  unfolding failure_event_def by (intro keep)

lemma keep_limits [keep]:
  "obeys (advances e) (check_limit e' now k n win)" "obeys (advances e) (record_limit_success e' k)"
  "obeys (advances e) (check_password_limit e' now nm ip)" "obeys (advances e) (check_recovery_limit e' now ow ip)"
  by (auto simp: obeys_def check_limit_def record_limit_success_def check_password_limit_def check_recovery_limit_def split: prod.splits)

lemma keep_writes [keep]:
  "obeys (advances e) (set_status pk st)" "obeys (advances e) (insert_session se)" "obeys (advances e) (set_session_key k pk)"
  "obeys (advances e) (revoke_and_drop P now)" "obeys (advances e) (revoke_others owner pk now)" "obeys (advances e) (valid_preauthentication now)"
  "obeys (advances e) (require_fresh_administrator now' se')"
proof -
  have "advances e w (update_sessions (\<lambda>x. se_pk x = pk) (\<lambda>x. x\<lparr>os_key := k\<rparr>) w)" for w
    by (rule advances_sessions) (simp_all add: session_kept_def)
  then show "obeys (advances e) (set_session_key k pk)" by (simp add: obeys_def set_session_key_def)
  show "obeys (advances e) (revoke_and_drop P now)" "obeys (advances e) (revoke_others owner pk now)"
    by (simp_all add: obeys_def revoke_and_drop_def revoke_others_def)
qed (auto simp: obeys_def set_status_def insert_session_def valid_preauthentication_def require_fresh_administrator_def advances_append split: option.splits)

section \<open>The services\<close>

lemma keep_establish [keep]: "obeys (advances e) (establish_administrator_session e' now dr p mfa r)"
  unfolding establish_administrator_session_def by (intro keep) simp_all

lemma keep_rotate [keep]: "obeys (advances e) (rotate_administrator_session dr pk)"
  unfolding rotate_administrator_session_def
  by (intro keep) simp

lemma keep_verify [keep]: "obeys (advances e) (verify_totp e now pk otp allow)"
proof -
  have "advances e w (update_devices (\<lambda>x. dv_pk x = pk) (used_device now td) w)"
    if d: "tfind dv_pk pk (i_devices w) = Some d" and t: "totp_verify e seed dr now t (dv_last_t d + 1) = Some td" for w d seed dr t td
  proof (rule advances_devices)
    fix k x assume "tfind dv_pk k (i_devices w) = Some x" "dv_pk x = pk"
    with d tfind_key have "x = d" by fastforce
    moreover have "dv_last_t d + 1 \<le> fst td" if "totp_forward e" using that t unfolding totp_forward_def by blast
    ultimately show "device_kept e x (used_device now td x)" by (auto simp: device_kept_def used_device_def)
  qed (simp add: used_device_def)
  moreover have "advances e w (update_devices P (failed_device now n) w)" for P n w
    by (rule advances_devices) (simp_all add: failed_device_def device_kept_def)
  ultimately have "advances e w (fst (verify_totp_transaction e now pk otp allow w))" for w
    using tfind_key [of dv_pk pk "i_devices w"]
    by (auto simp: verify_totp_transaction_def p_atomic_def p_bind_def get_device_def p_ret_def p_option_def p_raise_def p_mod_def hist.memory
        split: option.splits prod.splits sum.splits if_splits)
  then have "obeys (advances e) (verify_totp_transaction e now pk otp allow)" by (simp add: obeys_def)
  then show ?thesis unfolding verify_totp_def by (intro keep)
qed

lemma keep_batch [keep]: "obeys (advances e) (generate_recovery_batch e' now dr owner)"
  unfolding generate_recovery_batch_def by (intro keep) (auto intro!: advances_codes advances_append simp: code_kept_def)

lemma keep_consume [keep]: "obeys (advances e) (consume_recovery_code e' now owner presented)"
  unfolding consume_recovery_code_def Let_def by (intro keep) (auto intro!: advances_codes simp: code_kept_def)

lemma keep_begin [keep]: "obeys (advances e) (begin_totp_enrollment e' now dr p label)"
  unfolding begin_totp_enrollment_def Let_def by (intro keep) (auto intro!: advances_devices advances_append simp: device_kept_def)

lemma keep_enrollment [keep]:
  "obeys (advances e) (start_totp_enrollment e now dr p label)" "obeys (advances e) (complete_initial_enrollment e now dr owner device)"
  "obeys (advances e) (complete_recovery_enrollment e now dr owner device meta)"
  unfolding start_totp_enrollment_def complete_initial_enrollment_def complete_recovery_enrollment_def
  by (intro keep; auto intro!: advances_devices advances_sessions simp: device_kept_def session_kept_def)+

lemma keep_confirm [keep]: "obeys (advances e) (confirm_totp_enrollment e now dr p device otp)"
  unfolding confirm_totp_enrollment_def by (intro keep)

lemma keep_authentication [keep]:
  "obeys (advances e) (verify_owner_password e now dr name pw)" "obeys (advances e) (preauthenticated_profile now)"
  "obeys (advances e) (complete_totp_authentication e now dr p otp)" "obeys (advances e) (complete_recovery_authentication e now dr p presented)"
  "obeys (advances e) (logout_administrator e now dr)"
  unfolding verify_owner_password_def preauthenticated_profile_def complete_totp_authentication_def establish_totp_session_def
    complete_recovery_authentication_def complete_recovery_transaction_def logout_administrator_def
  by (intro keep; simp)+

lemma keep_enrollment_profile [keep]: "obeys (advances e) (enrollment_profile now)"
  unfolding enrollment_profile_def by (intro keep)

lemma keep_fresh [keep]: "obeys (advances e) (fresh_reauthenticate e now dr se pw otp)"
  unfolding fresh_reauthenticate_def
  by (intro keep; (split prod.split bool.split option.split)+) (auto intro!: keep advances_sessions simp: session_kept_def)

lemma keep_actions [keep]:
  "obeys (advances e) (change_password e now dr meta old new)" "obeys (advances e) (regenerate_recovery_codes e now dr meta)"
  "obeys (advances e) (revoke_owned_session e now dr meta target)" "obeys (advances e) (revoke_other_sessions e now dr meta)"
  unfolding change_password_def regenerate_recovery_codes_def revoke_owned_session_def revoke_other_sessions_def revoke_session_def
  by (intro keep; simp)+

lemma keep_commands [keep]:
  "obeys (advances e) (bootstrap_owner e now dr name email pw)" "obeys (advances e) (reset_owner_mfa e now dr p typed)" "obeys (advances e) (purge_command now outdated)"
  unfolding bootstrap_owner_def reset_owner_mfa_def purge_command_def Let_def
  by (intro keep; auto intro!: advances_devices advances_codes simp: device_kept_def code_kept_def)+

lemma keep_views: "obeys (advances e) (run_view e now dr h v)"
  by (cases v; simp only: run_view.simps; unfold security_status_def password_challenge_def totp_challenge_def recovery_challenge_def logout_def
      totp_enrollment_def totp_confirmation_def reauthentication_def password_change_def recovery_code_regeneration_def
      session_list_def session_revocation_def other_session_revocation_def security_event_list_def; intro keep)

lemma process_request_advances: "advances e w (process_request e now cookie agent peer fwd w)"
proof -
  have t: "advances e w (update_sessions P (touch_session e now r) w)" for P r w
    by (rule advances_sessions) (auto simp: touch_session_def session_kept_def)
  have "advances e w (fst (enforce_administrator_session e now w))" for w
    by (auto simp: enforce_administrator_session_def invalidate_request_session_def Let_def t split: option.splits)
  from this [of "w\<lparr>i_rq := load_request cookie agent peer fwd w\<rparr>"] show ?thesis
    by (auto simp: process_request_def advances_def rq_upd_def split: prod.splits)
qed

lemma handle_request_advances: "advances e w (fst (handle_request e now dr h v w))"
proof -
  let ?w1 = "process_request e now (hr_cookie h) (hr_agent h) (hr_peer h) (hr_forwarded h) w"
  have "advances e u (finish_request dr r0 w) = advances e u w" for u r0 w by (simp add: finish_request_def)
  moreover have "advances e w (fst (run_view e now dr h v ?w1))"
    using keep_views process_request_advances unfolding obeys_def by (metis advances_trans)
  ultimately show ?thesis using process_request_advances by (auto simp: handle_request_def Let_def split: prod.splits sum.splits)
qed

lemma step_advances: "id_step e w w' \<Longrightarrow> advances e w w'"
proof (induction rule: id_step.induct)
  case (bootstrap w now dr name email pw confirmation)
  have "obeys (advances e) (bootstrap_command e now dr name email pw confirmation)" unfolding bootstrap_command_def by (intro keep)
  then show ?case by (simp add: obeys_def)
next
  case (reset w now dr typed)
  have "obeys (advances e) (case owners of [p] \<Rightarrow> reset_owner_mfa e now dr p (strip typed) | _ \<Rightarrow> p_raise IdentityInvalid)" for owners
    by (auto intro!: keep split: list.splits)
  then have "obeys (advances e) (reset_command e now dr typed)" unfolding reset_command_def by (intro keep)
  then show ?case by (simp add: obeys_def)
next
  case (purge w now outdated)
  then show ?case using keep_commands(3) by (simp add: obeys_def)
qed (rule handle_request_advances)

lemma run_advances: "(id_step e)\<^sup>*\<^sup>* w w' \<Longrightarrow> advances e w w'"
  by (rule hist.run_ordered [OF step_advances])

end
