(* ===== verification/Identity_Props.thy ===== *)
theory Identity_Props
  imports Identity_Hist
begin

text \<open>
  What the identity application guarantees: which sessions the middleware accepts, that revoked sessions, used
  recovery codes and used time steps stay so, what the security log may hold, and the limits on guessing.
\<close>

section \<open>Accepted sessions\<close>

lemma touch_fields [simp]:
  "se_pk (touch_session e now r se) = se_pk se" "se_profile (touch_session e now r se) = se_profile se" "se_revoked (touch_session e now r se) = se_revoked se"
  "se_restricted (touch_session e now r se) = se_restricted se" "se_mfa (touch_session e now r se) = se_mfa se" "os_key (touch_session e now r se) = os_key se"
  "se_absolute_expires (touch_session e now r se) = se_absolute_expires se" "os_authenticated (touch_session e now r se) = os_authenticated se"
  by (simp_all add: touch_session_def)

lemma touch_expires:
  "se_expires se = Some x \<Longrightarrow> now < x \<Longrightarrow> se_absolute_expires se = Some a \<Longrightarrow> now < a \<Longrightarrow> \<exists>y. se_expires (touch_session e now r se) = Some y \<and> now < y"
  by (auto simp: touch_session_def seconds_def ADMIN_IDLE_SECONDS_def)

text \<open>The one branch in which the middleware sets \<open>administrator_session\<close>.\<close>

lemma process_request_accepts:
  assumes inv: "id_inv w" and meta: "rq_meta (i_rq (process_request e now cookie agent peer fwd w)) = Some pk"
  obtains u p se where "identity_enabled e" "rq_user (load_request cookie agent peer fwd w) = Some u" "tfind pf_user u (i_profiles w) = Some p"
    "tfind se_pk pk (i_sessions w) = Some se" "se_profile se = pf_pk p" "\<not> session_invalid now (load_request cookie agent peer fwd w) p se"
    "process_request e now cookie agent peer fwd w = rq_upd (\<lambda>r. r\<lparr>rq_meta := Some pk\<rparr>)
       (update_sessions (\<lambda>x. se_pk x = pk) (touch_session e now (load_request cookie agent peer fwd w)) (w\<lparr>i_rq := load_request cookie agent peer fwd w\<rparr>))"
    "tfind se_pk pk (i_sessions (process_request e now cookie agent peer fwd w)) = Some (touch_session e now (load_request cookie agent peer fwd w) se)"
proof -
  define r where "r = load_request cookie agent peer fwd w"
  let ?w = "w\<lparr>i_rq := r\<rparr>"
  obtain w' m where enf: "enforce_administrator_session e now ?w = (w', m)" by (cases "enforce_administrator_session e now ?w")
  from meta have m: "map_option se_pk m = Some pk" by (simp add: process_request_def enf [unfolded r_def] rq_upd_def)
  from enf m obtain u p a se where 1: "identity_enabled e" "rq_user r = Some u" "tfind pf_user u (i_profiles w) = Some p" "rq_admin r = Some a"
    and f: "find (\<lambda>se. se_pk se = a \<and> se_profile se = pf_pk p) (i_sessions w) = Some se" and 2: "\<not> session_invalid now r p se"
    and w': "w' = update_sessions (\<lambda>x. se_pk x = se_pk se) (touch_session e now r) ?w" "m = tfind se_pk (se_pk se) (i_sessions w')"
    by (auto simp: enforce_administrator_session_def Let_def split: option.splits if_splits)
  have se: "se \<in> set (i_sessions w)" "se_profile se = pf_pk p" using f by (auto simp: find_Some_iff)
  then have row: "tfind se_pk (se_pk se) (i_sessions w) = Some se" using inv by (auto simp: id_inv_def session_tables_def intro: tfind_unique)
  have t: "tfind se_pk (se_pk se) (i_sessions w') = Some (touch_session e now r se)"
    by (simp add: w'(1) update_upd tfind_upd row)
  with m w'(2) have pk: "pk = se_pk se" by simp
  have p: "process_request e now cookie agent peer fwd w = rq_upd (\<lambda>r. r\<lparr>rq_meta := Some pk\<rparr>) w'"
    using m by (auto simp: process_request_def enf [unfolded r_def])
  show ?thesis
    by (rule that [folded r_def, OF 1(1-3) row [folded pk] se(2) 2]) (simp_all add: p w'(1) pk frame_simps tfind_upd row)
qed

lemma load_request_key: "rq_key (load_request cookie agent peer fwd w) = Some k \<Longrightarrow> cookie = Some k"
  by (auto simp: load_request_def split: option.splits dest: tfind_key)

lemma load_request_user:
  assumes "rq_user (load_request cookie agent peer fwd w) = Some u"
  shows "u \<in> set (map u_pk (filter u_active (i_users w)))"
proof -
  obtain x where "tfind u_pk u (i_users w) = Some x" "u_active x"
    using assms by (auto simp: load_request_def split: option.splits if_splits)
  then show ?thesis using tfind_in tfind_key by fastforce
qed

lemma valid_session:
  assumes "\<not> session_invalid now r p se" and "timed se"
  obtains x a where "rq_key r = Some (os_key se)" "se_revoked se = None" "pf_status p \<noteq> ''disabled''" "se_expires se = Some x" "now < x"
    "os_authenticated se = Some a" "se_absolute_expires se = Some (a + seconds ADMIN_ABSOLUTE_SECONDS)" "now < a + seconds ADMIN_ABSOLUTE_SECONDS"
  using assms by (auto simp: session_invalid_def timed_def split: option.splits)



section \<open>What is never taken back\<close>

lemma kept_row: "first_kept key good t t' \<Longrightarrow> tfind key k t = Some r \<Longrightarrow> \<exists>r'. tfind key k t' = Some r' \<and> good r r'"
  by (simp add: first_kept_def)

text \<open>
  C19: once a session of a reachable state is revoked, the middleware never accepts it again, whatever requests and
  commands run in between and whatever cookie is presented.
\<close>

theorem revoked_session_dead:
  assumes "id_init w0" and "(id_step e)\<^sup>*\<^sup>* w0 w" and "tfind se_pk pk (i_sessions w) = Some se" and "se_revoked se \<noteq> None"
    and "(id_step e)\<^sup>*\<^sup>* w w'"
  shows "rq_meta (i_rq (process_request e now cookie agent peer fwd w')) \<noteq> Some pk"
proof
  assume m: "rq_meta (i_rq (process_request e now cookie agent peer fwd w')) = Some pk"
  have "id_inv w'" using assms(1,2,5) identity.reachable_inv by (meson rtranclp_trans)
  then obtain p se' where "tfind se_pk pk (i_sessions w') = Some se'" "\<not> session_invalid now (load_request cookie agent peer fwd w') p se'"
    using process_request_accepts [OF _ m] by metis
  moreover obtain se'' where "tfind se_pk pk (i_sessions w') = Some se''" "se_revoked se'' \<noteq> None"
  proof -
    have "first_kept se_pk session_kept (i_sessions w) (i_sessions w')" using run_advances [OF assms(5)] by (simp add: advances_def)
    from kept_row [OF this assms(3)] show thesis using assms(4) that by (auto simp: session_kept_def)
  qed
  ultimately show False by (simp add: session_invalid_def)
qed

text \<open>
  C20: a recovery code works once: after it was accepted, no later attempt with the same public part succeeds, for any
  owner and any presented text.
\<close>

theorem recovery_code_single_use:
  assumes "id_init w0" and "(id_step e)\<^sup>*\<^sup>* w0 w" and "consume_recovery_code e now owner presented w = (w1, Inr c)"
    and "(id_step e)\<^sup>*\<^sup>* w1 w2" and "take 8 (upper (strip presented')) = take 8 (upper (strip presented))"
  shows "snd (consume_recovery_code e now' owner' presented' w2) = Inl VerificationFailed"
proof -
  have inv: "id_inv w" using assms(1,2) by (rule identity.reachable_inv)
  let ?k = "take 8 (upper (strip presented))"
  have 1: "id_inv w1" using inv assms(3) consume_return [of w e now owner presented] by (simp add: on_return_def)
  obtain c0 where c0: "find (\<lambda>c. usable_code owner c \<and> rc_public c = ?k) (i_codes w) = Some c0"
    and w1: "i_codes w1 = upd (\<lambda>x. rc_public x = rc_public c0) (\<lambda>x. x\<lparr>rc_consumed := Some now\<rparr>) (i_codes w)"
    using assms(3) by (auto simp: consume_recovery_code_def p_atomic_def p_bind_def p_guard_def p_get_def p_option_def p_mod_def p_ret_def p_raise_def Let_def
        update_codes_def upd_def split: option.splits if_splits prod.splits sum.splits)
  have "rc_public c0 = ?k" "c0 \<in> set (i_codes w)" using c0 by (auto simp: find_Some_iff)
  moreover have "tfind rc_public (rc_public c0) (i_codes w) = Some c0"
    using inv calculation(2) by (auto simp: id_inv_def intro: tfind_unique)
  ultimately have "tfind rc_public ?k (i_codes w1) = Some (c0\<lparr>rc_consumed := Some now\<rparr>)" by (simp add: w1 tfind_upd)
  then obtain c2 where c2: "tfind rc_public ?k (i_codes w2) = Some c2" "rc_consumed c2 \<noteq> None"
    using run_advances [OF assms(4)] kept_row [of rc_public code_kept] unfolding advances_def code_kept_def by fastforce
  have "id_inv w2" using identity.run_inv [OF assms(4) 1] .
  then have "c' = c2" if "c' \<in> set (i_codes w2)" "rc_public c' = ?k" for c'
    using that c2(1) by (auto simp: id_inv_def dest: tfind_unique)
  with c2(2) have "find (\<lambda>c. usable_code owner' c \<and> rc_public c = ?k) (i_codes w2) = None"
    by (auto simp: find_None_iff usable_code_def)
  then show ?thesis
    by (simp add: consume_recovery_code_def p_atomic_def p_bind_def p_guard_def p_get_def p_option_def p_ret_def p_raise_def Let_def assms(5))
qed

lemma verify_totp_accepts:
  assumes "verify_totp e now pk otp allow w = (w', Inr d')"
  obtains d t where "tfind dv_pk pk (i_devices w) = Some d" "tfind dv_pk pk (i_devices w') = Some d'"
    "totp_verify e t (dv_drift d) now (digits_value otp) (dv_last_t d + 1) = Some (dv_last_t d', dv_drift d')"
proof -
  obtain d t td where d: "tfind dv_pk pk (i_devices w) = Some d" "totp_verify e t (dv_drift d) now (digits_value otp) (dv_last_t d + 1) = Some td"
    and w': "w' = update_devices (\<lambda>x. dv_pk x = dv_pk d) (used_device now td) w" "d' = used_device now td d"
    using assms by (auto simp: verify_totp_def verify_totp_transaction_def p_atomic_def p_bind_def get_device_def p_ret_def p_option_def p_raise_def p_mod_def
        split: option.splits prod.splits sum.splits if_splits)
  have u: "dv_pk (used_device now td x) = dv_pk x" for x by (simp add: used_device_def)
  have "tfind dv_pk pk (i_devices w') = Some d'"
    using d(1) tfind_key [OF d(1)] by (simp add: w' update_upd tfind_upd [of dv_pk "used_device now td", OF u])
  then show ?thesis using d that [of d t] by (simp add: w' used_device_def)
qed

text \<open>
  C21: with a generator that respects \<open>min_t\<close>, a time step of a device is accepted at most once: every later acceptance is
  of a later step, so that an observed token cannot be replayed.
\<close>

theorem totp_step_single_use:
  assumes "totp_forward e" and "verify_totp e now pk otp allow w = (w1, Inr d1)" and "(id_step e)\<^sup>*\<^sup>* w1 w2"
    and "verify_totp e now' pk otp' allow' w2 = (w3, Inr d2)"
  shows "dv_last_t d1 < dv_last_t d2"
proof -
  have 1: "tfind dv_pk pk (i_devices w1) = Some d1" using assms(2) by (rule verify_totp_accepts)
  obtain d t where d: "tfind dv_pk pk (i_devices w2) = Some d" "totp_verify e t (dv_drift d) now' (digits_value otp') (dv_last_t d + 1) = Some (dv_last_t d2, dv_drift d2)"
    using assms(4) by (rule verify_totp_accepts)
  have "dv_last_t d1 \<le> dv_last_t d"
    using run_advances [OF assms(3)] kept_row [of dv_pk "device_kept e" _ _ pk d1] 1 d(1) assms(1) unfolding advances_def device_kept_def by fastforce
  moreover have "dv_last_t d + 1 \<le> dv_last_t d2" using assms(1) d(2) unfolding totp_forward_def by fastforce
  ultimately show ?thesis by simp
qed

section \<open>The security log\<close>

text \<open>No sensitive key at any depth.\<close>

fun clean :: "json \<Rightarrow> bool" where
  "clean (JObj d) = list_all (\<lambda>kv. normalized_key (fst kv) \<notin> set SENSITIVE_DETAIL_KEYS \<and> clean (snd kv)) d"
| "clean (JList xs) = list_all clean xs"
| "clean _ = True"

lemma sanitize_clean:
  "sanitize v depth items = Some n \<Longrightarrow> clean v"
  "sanitize_list xs depth items = Some n \<Longrightarrow> list_all clean xs"
  "sanitize_dict d depth items = Some n \<Longrightarrow> list_all (\<lambda>kv. normalized_key (fst kv) \<notin> set SENSITIVE_DETAIL_KEYS \<and> clean (snd kv)) d"
  by (induction v depth items and xs depth items and d depth items arbitrary: n and n and n rule: sanitize_sanitize_list_sanitize_dict.induct)
    (simp_all split: if_splits Option.bind_splits)

text \<open>
  the security log is append-only, and no entry that a run adds holds a sensitive key at any depth of its details or
  more than 4096 bytes of them.
\<close>

theorem security_log_safe:
  assumes "(id_step e)\<^sup>*\<^sup>* w w'"
  shows "\<exists>new. i_events w' = i_events w @ new \<and> (\<forall>x \<in> set new. ev_outcome x \<in> set OUTCOMES
    \<and> length (json_dumps (py e) (JObj (ev_details x))) \<le> MAX_SERIALIZED_DETAIL_BYTES
    \<and> clean (JObj (ev_details x)))"
proof -
  obtain new where new: "i_events w' = i_events w @ new" "list_all (log_entry_ok e) new"
    using run_advances [OF assms] by (auto simp: advances_def)
  have "ev_outcome x \<in> set OUTCOMES \<and> length (json_dumps (py e) (JObj (ev_details x))) \<le> MAX_SERIALIZED_DETAIL_BYTES
    \<and> clean (JObj (ev_details x))" if "x \<in> set new" for x
  proof -
    have "log_entry_ok e x" using new(2) that by (simp add: list_all_iff)
    then obtain n where "sanitize (JObj (ev_details x)) 0 0 = Some n" and r: "ev_outcome x \<in> set OUTCOMES"
      "length (json_dumps (py e) (JObj (ev_details x))) \<le> MAX_SERIALIZED_DETAIL_BYTES"
      by (auto simp: log_entry_ok_def safe_details_def split: if_splits)
    from sanitize_clean(1) [OF this(1)] r show ?thesis by blast
  qed
  with new(1) show ?thesis by blast
qed

section \<open>Effects of the security actions\<close>

lemma web_rows:
  "set (i_web (drop_web ks w)) = {r \<in> set (i_web w). ws_key r \<notin> set ks}"
  "r \<in> set (i_web (cycle_key k w)) \<Longrightarrow> ws_key r = k \<or> r \<in> set (i_web w)"
  by (auto simp: drop_web_def cycle_key_def session_save_def rq_upd_def row_of_def Let_def)

lemma users_frame [simp]:
  "i_users (drop_web ks w) = i_users w" "i_users (revoke_where P now w) = i_users w" "i_users (cycle_key k w) = i_users w"
  "i_users (update_sessions P' f w) = i_users w" "i_users (clear_fresh pk w) = i_users w"
  "i_web (update_sessions P' f w) = i_web w" "i_web (clear_fresh pk w) = i_web w" "i_web (revoke_where P now w) = i_web w"
  by (simp_all add: drop_web_def revoke_where_def update_sessions_def cycle_key_def session_save_def rq_upd_def clear_fresh_def Let_def)

lemma request_frame [simp]:
  "i_rq (update_sessions P' f w) = i_rq w" "i_rq (clear_fresh pk w) = i_rq w"
  by (simp_all add: update_sessions_def clear_fresh_def)

definition isolated :: "draws \<Rightarrow> owner_session \<Rightarrow> idw \<Rightarrow> idw \<Rightarrow> bool" where
  "isolated dr se w w' \<longleftrightarrow>
     (\<forall>x \<in> set (i_sessions w'). se_profile x = se_profile se \<and> se_revoked x = None \<longrightarrow> se_pk x = se_pk se \<and> os_key x = d_key dr \<and> os_fresh x = None)
   \<and> (\<forall>r \<in> set (i_web w'). ws_key r = d_key dr
       \<or> \<not> (\<exists>x \<in> set (i_sessions w). se_profile x = se_profile se \<and> se_revoked x = None \<and> se_pk x \<noteq> se_pk se \<and> os_key x = ws_key r))"

lemma isolated_events [simp]: "isolated dr se w (w'\<lparr>i_events := es\<rparr>) = isolated dr se w w'"
  by (simp add: isolated_def)

lemma isolation:
  assumes "w1 = w\<lparr>i_users := us\<rparr>" and "owner = se_profile se"
    and "w2 = cycle_key (d_key dr) (drop_web (live_keys (\<lambda>x. se_profile x = owner \<and> se_pk x \<noteq> se_pk se) w1) (revoke_where (\<lambda>x. se_profile x = owner \<and> se_pk x \<noteq> se_pk se) now w1))"
    and "w3 = clear_fresh (se_pk se) (update_sessions (\<lambda>x. se_pk x = se_pk se) (\<lambda>x. x\<lparr>os_key := d_key dr\<rparr>) w2)"
  shows "isolated dr se w w3"
proof -
  have "se_pk x = se_pk se \<and> os_key x = d_key dr \<and> os_fresh x = None" if "x \<in> set (i_sessions w3)" "se_profile x = se_profile se" "se_revoked x = None" for x
  proof -
    let ?C = "\<lambda>y. (se_profile y = owner \<and> se_pk y \<noteq> se_pk se) \<and> se_revoked y = None"
    have "i_sessions w3 = map (\<lambda>y. let y1 = (if ?C y then y\<lparr>se_revoked := Some now\<rparr> else y);
        y2 = (if se_pk y1 = se_pk se then y1\<lparr>os_key := d_key dr\<rparr> else y1) in if se_pk y2 = se_pk se then y2\<lparr>os_fresh := None\<rparr> else y2) (i_sessions w)"
      by (simp add: assms frame_simps upd_def Let_def)
    with that(1) obtain y where "y \<in> set (i_sessions w)" and x: "x = (let y1 = (if ?C y then y\<lparr>se_revoked := Some now\<rparr> else y);
        y2 = (if se_pk y1 = se_pk se then y1\<lparr>os_key := d_key dr\<rparr> else y1) in if se_pk y2 = se_pk se then y2\<lparr>os_fresh := None\<rparr> else y2)" by auto
    show ?thesis
      using that(2,3) unfolding x by (auto simp: assms(2) Let_def split: if_splits)
  qed
  moreover have "ws_key r = d_key dr \<or> \<not> (\<exists>x \<in> set (i_sessions w). se_profile x = se_profile se \<and> se_revoked x = None \<and> se_pk x \<noteq> se_pk se \<and> os_key x = ws_key r)"
    if "r \<in> set (i_web w3)" for r
  proof -
    let ?P = "\<lambda>x. se_profile x = owner \<and> se_pk x \<noteq> se_pk se"
    have key: "ws_key r = d_key dr \<or> ws_key r \<notin> set (live_keys ?P w1)"
      using that unfolding assms(3,4) users_frame by (auto simp: web_rows(1) dest!: web_rows(2))
    have "os_key x \<in> set (live_keys ?P w1)" if "x \<in> set (i_sessions w)" "?P x" "se_revoked x = None" for x
      using that by (simp add: live_keys_def assms(1))
    then have "ws_key r = d_key dr" if "x \<in> set (i_sessions w)" "se_profile x = se_profile se \<and> se_revoked x = None \<and> se_pk x \<noteq> se_pk se \<and> os_key x = ws_key r" for x
      using that key assms(2) by fastforce
    then show ?thesis by blast
  qed
  ultimately show ?thesis by (simp add: isolated_def)
qed

text \<open>
  a password change succeeds only with a fresh, unrestricted session, the current password and an acceptable new one;
  it stores the new hash and leaves the owner a single open session, under a new key and no longer fresh, while the
  browser sessions of all the others are gone.
\<close>

theorem password_change_isolates:
  assumes "change_password e now dr meta old new w = (w', Inr n)"
  shows "\<exists>se p u. tfind se_pk meta (i_sessions w) = Some se \<and> \<not> se_restricted se \<and> administrator_session_is_fresh now se
    \<and> tfind pf_pk (se_profile se) (i_profiles w) = Some p \<and> tfind u_pk (pf_user p) (i_users w) = Some u
    \<and> check_password e old (u_password u) \<and> password_ok e u new
    \<and> tfind u_pk (u_pk u) (i_users w') = Some (u\<lparr>u_password := make_password e new\<rparr>) \<and> isolated dr se w w'"
proof -
  have "on_return (change_password e now dr meta old new) (\<lambda>n w'. \<exists>se p u. tfind se_pk meta (i_sessions w) = Some se \<and> \<not> se_restricted se \<and> administrator_session_is_fresh now se
    \<and> tfind pf_pk (se_profile se) (i_profiles w) = Some p \<and> tfind u_pk (pf_user p) (i_users w) = Some u
    \<and> check_password e old (u_password u) \<and> password_ok e u new
    \<and> tfind u_pk (u_pk u) (i_users w') = Some (u\<lparr>u_password := make_password e new\<rparr>) \<and> isolated dr se w w') w"
    unfolding change_password_def on_return_atomic
    apply (simp add: wp_simps revoke_others_def require_fresh_administrator_def)
    apply (intro allI impI)
    subgoal for se p u
      using tfind_key [of pf_pk "se_profile se" "i_profiles w" p]
      by (intro exI [of _ se] exI [of _ p] exI [of _ u] conjI)
        (auto simp: tfind_key [of u_pk] tfind_upd [of u_pk] upd_def [symmetric] intro!: isolation [OF refl _ refl refl])
    done
  with assms show ?thesis by (auto simp: on_return_def)
qed

lemma find_row: "find P xs = Some x \<Longrightarrow> x \<in> set xs \<and> P x"
  by (auto simp: find_Some_iff)

lemma establish_effect:
  "on_return (establish_administrator_session e now dr p mfa r) (\<lambda>se w'. i_sessions w' = i_sessions w @ [se] \<and> i_profiles w' = i_profiles w
     \<and> se_profile se = pf_pk p \<and> se_restricted se = r \<and> se_mfa se = mfa \<and> se_revoked se = None) w"
  by (simp add: establish_administrator_session_def wp_simps frame_simps new_session_def Let_def)

definition locked_down :: "admin_profile \<Rightarrow> owner_session \<Rightarrow> idw \<Rightarrow> bool" where
  "locked_down p se w' \<longleftrightarrow> se \<in> set (i_sessions w') \<and> se_profile se = pf_pk p \<and> se_restricted se \<and> se_mfa se = None
     \<and> (\<forall>x \<in> set (i_sessions w'). se_profile x = pf_pk p \<and> se_revoked x = None \<longrightarrow> x = se)
     \<and> (\<forall>q \<in> set (i_profiles w'). pf_pk q = pf_pk p \<longrightarrow> pf_status q = ''recovery_required'')"

lemma locked_down_events [simp]: "locked_down p se (w\<lparr>i_events := es\<rparr>) = locked_down p se w"
  by (simp add: locked_down_def)

lemma lock_tail:
  "on_return (p_bind (record_limit_success e scope) (\<lambda>_. p_bind (revoke_and_drop (\<lambda>se. se_profile se = pf_pk p) now) (\<lambda>revoked.
       p_bind (set_status (pf_pk p) ''recovery_required'') (\<lambda>_. p_bind (p_mod (login_owner dr p)) (\<lambda>_.
       p_bind (establish_administrator_session e now dr p None True) (\<lambda>se. p_bind (ev revoked se) (\<lambda>_. p_ret (Some se))))))))
     (\<lambda>r w'. \<forall>se. r = Some se \<longrightarrow> locked_down p se w') w"
  if ev: "\<And>n se w. on_return (ev n se) (\<lambda>_ w'. \<exists>es. w' = w\<lparr>i_events := es\<rparr>) w" for ev :: "nat \<Rightarrow> owner_session \<Rightarrow> unit prog"
proof -
  have tail: "on_return (p_bind (establish_administrator_session e now dr p None True) (\<lambda>se. p_bind (ev n se) (\<lambda>_. p_ret (Some se))))
      (\<lambda>r w'. \<forall>se. r = Some se \<longrightarrow> locked_down p se w') w1"
    if s: "\<forall>x \<in> set (i_sessions w1). se_profile x = pf_pk p \<longrightarrow> se_revoked x \<noteq> None"
      and q: "\<forall>q \<in> set (i_profiles w1). pf_pk q = pf_pk p \<longrightarrow> pf_status q = ''recovery_required''" for n w1
  proof (rule bind_return [OF establish_effect])
    fix se :: owner_session and w2 :: idw assume a: "i_sessions w2 = i_sessions w1 @ [se] \<and> i_profiles w2 = i_profiles w1
     \<and> se_profile se = pf_pk p \<and> se_restricted se = True \<and> se_mfa se = None \<and> se_revoked se = None"
    then have "locked_down p se w2" using s q by (auto simp: locked_down_def)
    then show "on_return (p_bind (ev n se) (\<lambda>_. p_ret (Some se))) (\<lambda>r w'. \<forall>se. r = Some se \<longrightarrow> locked_down p se w') w2"
      by (intro bind_return [OF ev]) (auto simp: on_return_basic)
  qed
  have "on_return (p_bind (revoke_and_drop (\<lambda>se. se_profile se = pf_pk p) now) (\<lambda>revoked.
       p_bind (set_status (pf_pk p) ''recovery_required'') (\<lambda>_. p_bind (p_mod (login_owner dr p)) (\<lambda>_.
       p_bind (establish_administrator_session e now dr p None True) (\<lambda>se. p_bind (ev revoked se) (\<lambda>_. p_ret (Some se)))))))
     (\<lambda>r w'. \<forall>se. r = Some se \<longrightarrow> locked_down p se w') w1" for w1
    unfolding on_return_bind [of "revoke_and_drop P n" for P n] on_return_bind [of "set_status k s" for k s] on_return_bind [of "p_mod f" for f]
      on_return_writes on_return_basic
    by (intro impI tail) (auto simp: frame_simps upd_def)
  then show ?thesis unfolding on_return_bind [of "record_limit_success e scope"] by (simp add: on_return_def)
qed

text \<open>
  a recovery login succeeds only with an unused code of the owner whose hash matches, and locks the owner down: every
  earlier session is revoked, the new one is restricted and without a second factor, and recovery is required.
\<close>

theorem recovery_locks_down:
  assumes "complete_recovery_authentication e now dr p presented w = (w', Inr se)"
  shows "locked_down p se w' \<and> pf_status p = ''active''
    \<and> (\<exists>c \<in> set (i_codes w). usable_code (pf_pk p) c \<and> rc_public c = take 8 (upper (strip presented)) \<and> check_password e (upper (strip presented)) (rc_secret c))"
proof -
  let ?C = "\<exists>c \<in> set (i_codes w). usable_code (pf_pk p) c \<and> rc_public c = take 8 (upper (strip presented)) \<and> check_password e (upper (strip presented)) (rc_secret c)"
  have ev: "on_return (record_security_event e now (d_event dr) a r q ip sid ty ti ds) (\<lambda>_ w'. \<exists>es. w' = w\<lparr>i_events := es\<rparr>) w" for a r q ip sid ty ti ds w
    by (auto simp: on_return_event)
  have lim: "on_return (check_recovery_limit e now (pf_pk p) ip) (\<lambda>_ w2. i_codes w2 = i_codes w) w1" if "i_codes w1 = i_codes w" for ip w1
    using that unfolding check_recovery_limit_def by (auto simp: on_return_def check_limit_def split: prod.splits if_splits)
  have con: "on_return (p_except (p_bind (consume_recovery_code e now (pf_pk p) presented) (\<lambda>_. p_ret True)) (\<lambda>_. p_bind (m1 :: unit prog) (\<lambda>_. p_ret False))) (\<lambda>ok w2. ok \<longrightarrow> ?C) w1"
    if "i_codes w1 = i_codes w" for m1 w1
    using that by (auto simp: consume_recovery_code_def wp_simps Let_def on_raise_def on_return_def [of m1] dest!: find_row)
  have "on_return (complete_recovery_transaction e now dr p presented)
      (\<lambda>r w'. \<forall>se. r = Some se \<longrightarrow> locked_down p se w' \<and> pf_status p = ''active'' \<and> ?C) w"
    unfolding complete_recovery_transaction_def on_return_atomic
  proof (rule bind_return [of _ "\<lambda>_ w1. pf_status p = ''active'' \<and> i_codes w1 = i_codes w"], goal_cases)
    case (2 _ w1)
    then have act: "pf_status p = ''active''" by simp
    show ?case
    proof (rule bind_return [of _ "\<lambda>_ w1. i_codes w1 = i_codes w"], goal_cases)
      case (2 ip w2)
      show ?case
        by (rule bind_return [OF lim [OF 2]], rule bind_return [OF con], assumption)
          (use act in \<open>auto simp: on_return_basic intro!: on_return_mono [OF lock_tail [OF ev]]\<close>)
    qed (use 2 in \<open>simp add: on_return_basic\<close>)
  qed (simp add: on_return_basic)
  with assms show ?thesis
    by (auto simp: complete_recovery_authentication_def p_bind_def p_option_def p_raise_def p_ret_def on_return_def split: prod.splits sum.splits option.splits)
qed

text \<open>
  C34: an owner in recovery who has lost the restricted session is locked out: after a correct password, which announces
  \<open>enroll_totp\<close>, the authenticator, the recovery, the enrollment and the confirmation views all answer 401.
\<close>

theorem recovery_locks_out:
  assumes "identity_enabled e" and "rq_meta (i_rq w) = None" and "preauthenticated_profile now w = (w, Inr (Some p))"
    and "pf_status p = ''recovery_required''" and "v \<in> {TotpChallenge, RecoveryChallenge, TotpEnrollment, TotpConfirmation}"
  shows "\<exists>r. run_view e now dr h v w = (w, Inr r) \<and> rs_status r = 401"
proof -
  have t: "complete_totp_authentication e now dr p otp w = (w, Inl VerificationFailed)" for otp
    using assms(4) by (simp add: complete_totp_authentication_def p_bind_def p_guard_def p_raise_def)
  have r: "complete_recovery_authentication e now dr p c w = (w, Inl VerificationFailed)" for c
    using assms(4) by (simp add: complete_recovery_authentication_def complete_recovery_transaction_def p_atomic_def p_bind_def p_guard_def p_raise_def)
  have n: "enrollment_profile now w = (w, Inr None)"
    using assms(2-4) by (simp add: enrollment_profile_def p_bind_def request_session_def p_get_def p_ret_def)
  have "is_identity_error VerificationFailed" by (simp add: is_identity_error_def)
  with assms(1,3,5) t r n show ?thesis
    by (auto simp: totp_challenge_def recovery_challenge_def totp_enrollment_def totp_confirmation_def require_feature_def p_bind_def p_catch_def p_ret_def
        verification_problem_def authentication_problem_def problem_def split: option.splits)
qed

end
