(* ===== verification/Vault_Inv.thy ===== *)
theory Vault_Inv
  imports Vault_Services Identity_Props
begin

text \<open>
  The tables of the provider connections as a state machine: the owner's services as steps, an arbitrary
  step for everything that happens elsewhere (sign-ins, draft operations), and the tests that have begun.
  The invariant ties every connection to its secret: a secret belongs to one connection, it is disabled
  exactly when its connection is, a healthy connection has a healthy check, and a test whose version is
  still the connection's has the connection's secret and configuration in hand.
\<close>

section \<open>Steps\<close>

type_synonym vault_machine = "vault \<times> test_run list"

inductive vault_step :: "vault_env \<Rightarrow> vault_machine \<Rightarrow> vault_machine \<Rightarrow> bool" for e :: vault_env where
  vs_replace: "replace_credential e now dr provider credential expected actor v = Inr (c, v') \<Longrightarrow> vault_step e (v, ts) (v', ts)"
| vs_update: "update_configuration e now dr provider configuration expected actor v = Inr (c, v') \<Longrightarrow> vault_step e (v, ts) (v', ts)"
| vs_disable: "disable_connection e now dr provider expected actor v = Inr (c, v') \<Longrightarrow> vault_step e (v, ts) (v', ts)"
| vs_begin: "begin_test provider expected v = Inr t \<Longrightarrow> vault_step e (v, ts) (v, t # ts)"
| vs_finish: "t \<in> set ts \<Longrightarrow> finish_test e now dr elapsed_ms actor t r v = Inr (h, v') \<Longrightarrow> vault_step e (v, ts) (v', ts)"
| vs_other: "vault_step e (v, ts) (v\<lparr>v_idw := w, v_app := s\<rparr>, ts)"

inductive_cases vault_stepE: "vault_step e (v, ts) s'"

definition vault_init :: "vault_machine \<Rightarrow> bool" where
  "vault_init s \<longleftrightarrow> v_secrets (fst s) = [] \<and> v_connections (fst s) = [] \<and> v_checks (fst s) = [] \<and> snd s = []"

section \<open>Invariant\<close>

definition in_step :: "encrypted_secret list \<Rightarrow> integration_connection \<Rightarrow> bool" where
  "in_step secrets c \<longleftrightarrow> (\<forall>i. ic_secret c = Some i \<longrightarrow>
     (\<exists>x. tfind sc_pk i secrets = Some x \<and> sc_provider x = ic_provider c \<and> (ic_state c = CONN_DISABLED \<longleftrightarrow> sc_status x = SECRET_DISABLED)))"

definition has_healthy_check :: "health_check list \<Rightarrow> integration_connection \<Rightarrow> bool" where
  "has_healthy_check checks c \<longleftrightarrow> (\<exists>h \<in> set checks. hc_connection h = ic_pk c \<and> hc_outcome h = ''healthy'')"

definition connection_good :: "id_env \<Rightarrow> vault \<Rightarrow> integration_connection \<Rightarrow> bool" where
  "connection_good e v c \<longleftrightarrow> connection_clean e (v_secrets v) c \<and> in_step (v_secrets v) c \<and> 1 \<le> ic_version c
     \<and> (ic_state c = HEALTHY \<longrightarrow> has_healthy_check (v_checks v) c)"

definition test_good :: "vault \<Rightarrow> test_run \<Rightarrow> bool" where
  "test_good v t \<longleftrightarrow> tr_expected t = int (ic_version (tr_connection t)) \<and>
     (\<exists>c. tfind ic_pk (ic_pk (tr_connection t)) (v_connections v) = Some c \<and> ic_version (tr_connection t) \<le> ic_version c
       \<and> (ic_version c = ic_version (tr_connection t) \<longrightarrow>
            ic_secret c = Some (sr_id (tr_reference t)) \<and> ic_configuration c = ic_configuration (tr_connection t)
            \<and> ic_provider c = ic_provider (tr_connection t) \<and> ic_state c \<noteq> CONN_DISABLED
            \<and> (\<exists>x. tfind sc_pk (sr_id (tr_reference t)) (v_secrets v) = Some x \<and> reference_to x = tr_reference t)))"

definition vault_tables :: "vault \<Rightarrow> bool" where
  "vault_tables v \<longleftrightarrow> keys_ok sc_pk (v_secrets v) \<and> keys_ok ic_pk (v_connections v) \<and> keys_ok ic_provider (v_connections v)
     \<and> keys_ok hc_pk (v_checks v)"

definition vault_inv :: "vault_env \<Rightarrow> vault_machine \<Rightarrow> bool" where
  "vault_inv e s \<longleftrightarrow> vault_tables (fst s) \<and> (\<forall>c \<in> set (v_connections (fst s)). connection_good (ident e) (fst s) c)
     \<and> (\<forall>h \<in> set (v_checks (fst s)). check_ok h) \<and> (\<forall>t \<in> set (snd s). test_good (fst s) t)"

lemma vault_init_inv: "vault_init s \<Longrightarrow> vault_inv e s"
  by (simp add: vault_init_def vault_inv_def vault_tables_def keys_ok_def)

section \<open>What is kept\<close>

text \<open>A secret only moves forward: at the same version it is the same envelope, and it is never enabled again.\<close>

definition secret_since :: "encrypted_secret \<Rightarrow> encrypted_secret \<Rightarrow> bool" where
  "secret_since x y \<longleftrightarrow> sc_provider y = sc_provider x \<and> sc_scope y = sc_scope x \<and> sc_version x \<le> sc_version y
     \<and> (sc_version y = sc_version x \<longrightarrow> sc_envelope y = sc_envelope x \<and> sc_status y = sc_status x)
     \<and> (sc_status x = SECRET_DISABLED \<longrightarrow> sc_status y = SECRET_DISABLED)"

definition connection_since :: "integration_connection \<Rightarrow> integration_connection \<Rightarrow> bool" where
  "connection_since c d \<longleftrightarrow> ic_provider d = ic_provider c \<and> ic_version c \<le> ic_version d
     \<and> (ic_version d = ic_version c \<longrightarrow> ic_secret d = ic_secret c \<and> ic_configuration d = ic_configuration c)"

text \<open>While a connection stays at its version, the row of its secret does not change.\<close>

definition secrets_steady :: "vault \<Rightarrow> vault \<Rightarrow> bool" where
  "secrets_steady v v' \<longleftrightarrow> (\<forall>k c d i. tfind ic_pk k (v_connections v) = Some c \<longrightarrow> tfind ic_pk k (v_connections v') = Some d \<longrightarrow>
     ic_version d = ic_version c \<longrightarrow> ic_secret c = Some i \<longrightarrow> tfind sc_pk i (v_secrets v') = tfind sc_pk i (v_secrets v))"

definition vault_since :: "vault_machine \<Rightarrow> vault_machine \<Rightarrow> bool" where
  "vault_since s s' \<longleftrightarrow> first_kept sc_pk secret_since (v_secrets (fst s)) (v_secrets (fst s'))
     \<and> first_kept ic_pk connection_since (v_connections (fst s)) (v_connections (fst s'))
     \<and> secrets_steady (fst s) (fst s')
     \<and> set (v_checks (fst s)) \<subseteq> set (v_checks (fst s')) \<and> set (snd s) \<subseteq> set (snd s')"

lemma since_refl [simp]: "secret_since x x" "connection_since c c" "vault_since s s"
  by (auto simp: secret_since_def connection_since_def vault_since_def first_kept_def secrets_steady_def)

lemma secret_since_trans: "secret_since x y \<Longrightarrow> secret_since y z \<Longrightarrow> secret_since x z"
  by (auto simp: secret_since_def)

lemma connection_since_trans: "connection_since x y \<Longrightarrow> connection_since y z \<Longrightarrow> connection_since x z"
  by (auto simp: connection_since_def)

lemma secrets_steady_trans:
  assumes "secrets_steady u v" and "secrets_steady v w" and "first_kept ic_pk connection_since (v_connections u) (v_connections v)"
    and "first_kept ic_pk connection_since (v_connections v) (v_connections w)"
  shows "secrets_steady u w"
  unfolding secrets_steady_def
proof (intro allI impI)
  fix k c d i
  assume a: "tfind ic_pk k (v_connections u) = Some c" "tfind ic_pk k (v_connections w) = Some d" "ic_version d = ic_version c" "ic_secret c = Some i"
  obtain b where b: "tfind ic_pk k (v_connections v) = Some b" "connection_since c b" using assms(3) a(1) by (auto simp: first_kept_def)
  have "connection_since b d" using assms(4) a(2) b(1) unfolding first_kept_def by fastforce
  with a b(2) have "ic_version b = ic_version c" "ic_version d = ic_version b" "ic_secret b = Some i" by (auto simp: connection_since_def)
  then have "tfind sc_pk i (v_secrets v) = tfind sc_pk i (v_secrets u)" "tfind sc_pk i (v_secrets w) = tfind sc_pk i (v_secrets v)"
    using assms(1,2) a b(1) unfolding secrets_steady_def by blast+
  then show "tfind sc_pk i (v_secrets w) = tfind sc_pk i (v_secrets u)" by simp
qed

lemma vault_rows_trans:
  "first_kept sc_pk secret_since s t \<Longrightarrow> first_kept sc_pk secret_since t u \<Longrightarrow> first_kept sc_pk secret_since s u"
  "first_kept ic_pk connection_since c d \<Longrightarrow> first_kept ic_pk connection_since d b \<Longrightarrow> first_kept ic_pk connection_since c b"
  by (erule (1) first_kept_trans, erule (1) secret_since_trans) (erule (1) first_kept_trans, erule (1) connection_since_trans)

lemma vault_since_trans: "vault_since s t \<Longrightarrow> vault_since t u \<Longrightarrow> vault_since s u"
  unfolding vault_since_def
  using vault_rows_trans secrets_steady_trans by (meson order_trans)

section \<open>What a change of one connection is\<close>

text \<open>
  \<open>edited e v c c' v'\<close>: the row \<open>c\<close> becomes \<open>c'\<close>, one version later; of the secrets only the one of \<open>c'\<close> may
  differ, and that one is new or was the connection's.
\<close>

definition edited :: "id_env \<Rightarrow> vault \<Rightarrow> integration_connection \<Rightarrow> integration_connection \<Rightarrow> vault \<Rightarrow> bool" where
  "edited e v c c' v' \<longleftrightarrow> c \<in> set (v_connections v) \<and> ic_pk c' = ic_pk c \<and> ic_provider c' = ic_provider c \<and> ic_version c' = ic_version c + 1
     \<and> v_connections v' = tput ic_pk c' (v_connections v) \<and> v_checks v' = v_checks v
     \<and> connection_clean e (v_secrets v') c' \<and> in_step (v_secrets v') c' \<and> (ic_state c' = HEALTHY \<longrightarrow> ic_state c = HEALTHY)
     \<and> keys_ok sc_pk (v_secrets v') \<and> first_kept sc_pk secret_since (v_secrets v) (v_secrets v')
     \<and> (\<forall>j. ic_secret c' \<noteq> Some j \<longrightarrow> tfind sc_pk j (v_secrets v') = tfind sc_pk j (v_secrets v))
     \<and> (\<forall>i x. ic_secret c' = Some i \<longrightarrow> tfind sc_pk i (v_secrets v) = Some x \<longrightarrow> ic_secret c = Some i)"

lemma save_existing:
  assumes "save_connection e c' v = Inr v'" and "c \<in> set (v_connections v)" and "ic_pk c' = ic_pk c"
  shows "connection_clean e (v_secrets v) c' \<and> v' = v\<lparr>v_connections := tput ic_pk c' (v_connections v)\<rparr>"
  using assms by (auto simp: save_connection_def tfind_None split: if_splits option.splits)

lemma audit_effect: "audit e now dr a r actor p n cat cid v = Inr v' \<Longrightarrow> \<exists>w. v' = v\<lparr>v_idw := w\<rparr>"
  by (auto simp: audit_def try_bind_def of_option_def split: option.splits prod.splits sum.splits)

lemma other_secret_kept:
  assumes "edited e v c c' v'" and "vault_tables v" and "\<forall>c \<in> set (v_connections v). in_step (v_secrets v) c"
    and "d \<in> set (v_connections v)" and "ic_pk d \<noteq> ic_pk c" and "ic_secret d = Some j"
  shows "tfind sc_pk j (v_secrets v') = tfind sc_pk j (v_secrets v)"
proof (cases "ic_secret c' = Some j")
  case True
  obtain x where x: "tfind sc_pk j (v_secrets v) = Some x" "sc_provider x = ic_provider d"
    using assms(3,4,6) by (auto simp: in_step_def)
  with True assms(1) have "ic_secret c = Some j" and c: "c \<in> set (v_connections v)" by (auto simp: edited_def)
  with x assms(3) have "ic_provider c = ic_provider d" by (fastforce simp: in_step_def)
  with c assms(2,4,5) show ?thesis by (auto simp: vault_tables_def keys_ok_def distinct_map dest: inj_onD)
next
  case False
  with assms(1) show ?thesis by (simp add: edited_def)
qed

lemma clean_cong:
  "(\<And>j. ic_secret d = Some j \<Longrightarrow> tfind sc_pk j s' = tfind sc_pk j s) \<Longrightarrow> connection_clean e s' d = connection_clean e s d \<and> in_step s' d = in_step s d"
  by (auto simp: connection_clean_def in_step_def split: option.splits)

lemma keys_provider_tput:
  assumes "keys_ok ic_pk t" and "keys_ok ic_provider t" and "c \<in> set t" and "ic_pk c' = ic_pk c" and "ic_provider c' = ic_provider c"
  shows "map ic_provider (tput ic_pk c' t) = map ic_provider t"
  using assms by (auto simp: tput_def keys_ok_def distinct_map dest: inj_onD)

lemma edited_inv:
  assumes "edited (ident e) v c c' v'" and "vault_inv e (v, ts)"
  shows "vault_inv e (v', ts)"
proof -
  have tables: "vault_tables v" and good: "\<forall>c \<in> set (v_connections v). connection_good (ident e) v c" using assms(2) by (auto simp: vault_inv_def)
  have step: "\<forall>c \<in> set (v_connections v). in_step (v_secrets v) c" using good by (simp add: connection_good_def)
  have ed: "c \<in> set (v_connections v)" "ic_pk c' = ic_pk c" "ic_provider c' = ic_provider c" "ic_version c' = ic_version c + 1"
    "v_connections v' = tput ic_pk c' (v_connections v)" "v_checks v' = v_checks v" "keys_ok sc_pk (v_secrets v')"
    using assms(1) by (auto simp: edited_def)
  have kept: "tfind sc_pk j (v_secrets v') = tfind sc_pk j (v_secrets v)"
    if "d \<in> set (v_connections v)" "ic_pk d \<noteq> ic_pk c" "ic_secret d = Some j" for d j
    using assms(1) tables step that by (rule other_secret_kept)
  have "vault_tables v'"
    using tables ed keys_provider_tput [OF _ _ ed(1-3)] by (auto simp: vault_tables_def keys_ok_def map_key_tput)
  moreover have "connection_good (ident e) v' d" if d: "d \<in> set (v_connections v')" for d
  proof (cases "d = c'")
    case True
    with assms(1) good ed show ?thesis by (auto simp: edited_def connection_good_def has_healthy_check_def)
  next
    case False
    with d ed have m: "d \<in> set (v_connections v)" "ic_pk d \<noteq> ic_pk c" by (auto dest: in_tput)
    with clean_cong [of d "v_secrets v'" "v_secrets v"] kept good ed show ?thesis by (simp add: connection_good_def)
  qed
  moreover have "test_good v' t" if "t \<in> set ts" for t
  proof -
    have old: "test_good v t" using assms(2) that by (simp add: vault_inv_def)
    obtain d where d: "tfind ic_pk (ic_pk (tr_connection t)) (v_connections v) = Some d" using old by (auto simp: test_good_def)
    show ?thesis
    proof (cases "ic_pk d = ic_pk c")
      case True
      have "keys_ok ic_pk (v_connections v)" using tables by (simp add: vault_tables_def)
      with True d ed(1) have "d = c" by (auto dest!: tfind_in simp: keys_ok_def distinct_map dest: inj_onD)
      with old d ed tfind_key [OF d] show ?thesis by (auto simp: test_good_def tfind_tput)
    next
      case False
      have "ic_pk (tr_connection t) = ic_pk d" using tfind_key [OF d] by simp
      with False d ed have f: "tfind ic_pk (ic_pk (tr_connection t)) (v_connections v') = Some d" by (simp add: tfind_tput)
      have "tfind sc_pk j (v_secrets v') = tfind sc_pk j (v_secrets v)" if "ic_secret d = Some j" for j
        using kept False that tfind_in [OF d] by blast
      with old d f show ?thesis by (auto simp: test_good_def)
    qed
  qed
  moreover have "\<forall>h \<in> set (v_checks v'). check_ok h" using assms(2) ed by (simp add: vault_inv_def)
  ultimately show ?thesis by (simp add: vault_inv_def)
qed

section \<open>The services\<close>

lemma locked_or_new_cases:
  assumes "locked_or_new e now dr provider v = Inr (c, v1)"
  obtains "v1 = v" and "find_connection provider v = Some c"
  | "find_connection provider v = None" and "c = new_connection now (vd_connection dr) provider"
    and "vd_connection dr \<notin> set (map ic_pk (v_connections v))" and "connection_clean (ident e) (v_secrets v) c"
    and "v1 = v\<lparr>v_connections := v_connections v @ [c]\<rparr>"
proof (cases "find_connection provider v")
  case None
  with assms have a: "c = new_connection now (vd_connection dr) provider" "vd_connection dr \<notin> set (map ic_pk (v_connections v))"
    "save_connection (ident e) c v = Inr v1"
    by (auto simp: locked_or_new_def Let_def result_simps split: if_splits)
  have "tfind ic_pk (ic_pk c) (v_connections v) = None" using a(1,2) by (simp add: new_connection_def tfind_None)
  with a(3) have "connection_clean (ident e) (v_secrets v) c" "v1 = v\<lparr>v_connections := v_connections v @ [c]\<rparr>"
    by (auto simp: save_connection_def split: if_splits)
  with None a that(2) show thesis by blast
next
  case (Some d)
  with assms that(1) show thesis by (simp add: locked_or_new_def)
qed

lemma locked_inv:
  assumes "locked_or_new e now dr provider v = Inr (c, v1)" and "vault_inv e (v, ts)"
  shows "vault_inv e (v1, ts) \<and> c \<in> set (v_connections v1) \<and> ic_provider c = provider"
  using assms(1)
proof (cases rule: locked_or_new_cases)
  case 1
  with assms(2) show ?thesis by (auto simp: find_connection_def dest: tfind_in tfind_key)
next
  case 2
  let ?v = "v\<lparr>v_connections := v_connections v @ [c]\<rparr>"
  have c: "ic_pk c = vd_connection dr" "ic_provider c = provider" "ic_secret c = None" "ic_version c = 1" "ic_state c = NOT_CONFIGURED"
    using 2(2) by (simp_all add: new_connection_def)
  have "vault_tables ?v" using assms(2) 2(1,3) c by (auto simp: vault_inv_def vault_tables_def keys_ok_def find_connection_def tfind_None)
  moreover have "connection_good (ident e) ?v d" if "d \<in> set (v_connections ?v)" for d
    using that assms(2) 2(4) c by (auto simp: vault_inv_def connection_good_def in_step_def)
  moreover have "test_good ?v t" if "t \<in> set ts" for t
    using that assms(2) by (auto simp: vault_inv_def test_good_def tfind_append)
  ultimately show ?thesis using assms(2) 2(5) c by (auto simp: vault_inv_def)
qed

text \<open>A secret as it is once the credential has been sealed into it.\<close>

definition sealed :: "vault_env \<Rightarrow> vault_draws \<Rightarrow> string \<Rightarrow> encrypted_secret \<Rightarrow> bool" where
  "sealed e dr credential x \<longleftrightarrow> sc_status x = SECRET_ACTIVE
     \<and> encrypt_secret (cipher (ident e)) (ring_path e) (vd_nonce dr) credential (sc_pk x) (sc_provider x) (sc_scope x) = Some (sc_envelope x)"

lemma put_effect:
  assumes "put e now dr provider scope value v = Inr (r, v')"
  obtains x where "sc_pk x = vd_secret dr" and "r = reference_to x" and "vd_secret dr \<notin> sc_pk ` set (v_secrets v)" and "sc_provider x = provider"
    and "sealed e dr value x" and "sc_version x = 1" and "v' = v\<lparr>v_secrets := v_secrets v @ [x]\<rparr>"
proof -
  obtain en where en: "encrypt_secret (cipher (ident e)) (ring_path e) (vd_nonce dr) value (vd_secret dr) provider scope = Some en"
    "r = reference_to (new_secret now (vd_secret dr) provider scope en)" "vd_secret dr \<notin> sc_pk ` set (v_secrets v)"
    "v' = v\<lparr>v_secrets := v_secrets v @ [new_secret now (vd_secret dr) provider scope en]\<rparr>"
    using assms by (auto simp: put_def Let_def split: option.splits if_splits)
  then show thesis by (intro that [of "new_secret now (vd_secret dr) provider scope en"]) (simp_all add: new_secret_def sealed_def)
qed

lemma replace_effect:
  assumes "replace_secret e now dr r value v = Inr (r', v')"
  obtains x en where "tfind sc_pk (sr_id r) (v_secrets v) = Some x" and "sc_status x = SECRET_ACTIVE"
    and "encrypt_secret (cipher (ident e)) (ring_path e) (vd_nonce dr) value (sc_pk x) (sc_provider x) (sc_scope x) = Some en"
    and "sr_id r' = sr_id r" and "v' = store_secret (x\<lparr>sc_envelope := en, sc_version := sc_version x + 1, sc_replaced := Some now\<rparr>) v"
proof -
  obtain x en where x: "tfind sc_pk (sr_id r) (v_secrets v) = Some x" "sc_status x = SECRET_ACTIVE"
    "encrypt_secret (cipher (ident e)) (ring_path e) (vd_nonce dr) value (sc_pk x) (sc_provider x) (sc_scope x) = Some en"
    "r' = reference_to (x\<lparr>sc_envelope := en, sc_version := sc_version x + 1, sc_replaced := Some now\<rparr>)"
    "v' = store_secret (x\<lparr>sc_envelope := en, sc_version := sc_version x + 1, sc_replaced := Some now\<rparr>) v"
    using assms by (auto simp: replace_secret_def secret_for_reference_def Let_def result_simps split: option.splits if_splits)
  with tfind_key [OF x(1)] show thesis by (intro that [of x en]) (simp_all add: reference_to_def)
qed

lemma new_credential_cases:
  assumes "new_credential e now dr provider credential actor c v = Inr (i, v')"
  obtains x where "ic_secret c = None \<or> ic_state c = CONN_DISABLED" and "v' = v\<lparr>v_secrets := v_secrets v @ [x]\<rparr>" and "sc_pk x = i"
    and "i \<notin> sc_pk ` set (v_secrets v)" and "sc_provider x = provider" and "sealed e dr credential x" and "sc_version x = 1"
  | x y where "ic_secret c = Some i" and "ic_state c \<noteq> CONN_DISABLED" and "tfind sc_pk i (v_secrets v) = Some x"
    and "v' = v\<lparr>v_secrets := tput sc_pk y (v_secrets v)\<rparr>" and "sc_pk y = i" and "sc_provider y = sc_provider x" and "sc_scope y = sc_scope x"
    and "sc_version y = sc_version x + 1" and "sc_status x = SECRET_ACTIVE" and "sealed e dr credential y"
proof (cases "ic_secret c \<noteq> None \<and> ic_state c \<noteq> CONN_DISABLED")
  case True
  then obtain j x0 r v1 where r: "ic_secret c = Some j" "ic_state c \<noteq> CONN_DISABLED" "tfind sc_pk j (v_secrets v) = Some x0" "i = j"
    "replace_secret e now dr (reference_to x0) credential v = Inr (r, v1)"
    "v' = update_secret (sr_id r) (\<lambda>x. x\<lparr>sc_replaced_by := actor_user_of actor v\<rparr>) v1"
    using assms by (auto simp: new_credential_def result_simps)
  obtain x en where x: "ic_secret c = Some i" "ic_state c \<noteq> CONN_DISABLED" "tfind sc_pk i (v_secrets v) = Some x" "sc_pk x = i" "sc_status x = SECRET_ACTIVE"
    "encrypt_secret (cipher (ident e)) (ring_path e) (vd_nonce dr) credential (sc_pk x) (sc_provider x) (sc_scope x) = Some en"
    "v' = update_secret i (\<lambda>x. x\<lparr>sc_replaced_by := actor_user_of actor v\<rparr>)
           (store_secret (x\<lparr>sc_envelope := en, sc_version := sc_version x + 1, sc_replaced := Some now\<rparr>) v)"
    using r(5)
  proof (rule replace_effect)
    fix x en
    assume a: "tfind sc_pk (sr_id (reference_to x0)) (v_secrets v) = Some x" "sc_status x = SECRET_ACTIVE"
      "encrypt_secret (cipher (ident e)) (ring_path e) (vd_nonce dr) credential (sc_pk x) (sc_provider x) (sc_scope x) = Some en"
      "sr_id r = sr_id (reference_to x0)"
      "v1 = store_secret (x\<lparr>sc_envelope := en, sc_version := sc_version x + 1, sc_replaced := Some now\<rparr>) v"
    have k: "sr_id (reference_to x0) = i" using tfind_key [OF r(3)] r(4) by (simp add: reference_to_def)
    show thesis using r a [unfolded k] tfind_key [OF a(1) [unfolded k]] by (intro that [of x en]) simp_all
  qed
  let ?y = "x\<lparr>sc_envelope := en, sc_version := sc_version x + 1, sc_replaced := Some now, sc_replaced_by := actor_user_of actor v\<rparr>"
  have "tput sc_pk ?y (tput sc_pk (x\<lparr>sc_envelope := en, sc_version := sc_version x + 1, sc_replaced := Some now\<rparr>) t) = tput sc_pk ?y t" for t
    by (induction t) auto
  then have "v' = v\<lparr>v_secrets := tput sc_pk ?y (v_secrets v)\<rparr>"
    using x(3,4,7) by (simp add: update_secret_def store_secret_def tfind_tput)
  then show thesis using x by (intro that(2) [of x ?y]) (simp_all add: sealed_def)
next
  case False
  then have none: "ic_secret c = None \<or> ic_state c = CONN_DISABLED" by simp
  then obtain scope r v1 where r: "put e now dr provider scope credential v = Inr (r, v1)" "i = sr_id r"
    "v' = update_secret (sr_id r) (\<lambda>x. x\<lparr>sc_created_by := actor_user_of actor v\<rparr>) v1"
    using assms by (auto simp: new_credential_def result_simps split: option.splits)
  obtain x where x: "sc_pk x = vd_secret dr" "i = vd_secret dr" "vd_secret dr \<notin> sc_pk ` set (v_secrets v)" "sc_provider x = provider" "sealed e dr credential x"
    "sc_version x = 1" "v' = update_secret i (\<lambda>x. x\<lparr>sc_created_by := actor_user_of actor v\<rparr>) (v\<lparr>v_secrets := v_secrets v @ [x]\<rparr>)"
    using r(1) by (rule put_effect) (use r(2,3) in \<open>simp add: reference_to_def\<close>)
  let ?y = "x\<lparr>sc_created_by := actor_user_of actor v\<rparr>"
  have "tfind sc_pk i (v_secrets v) = None" using x(2,3) by (simp add: tfind_None)
  with x(1-3,7) have "v' = v\<lparr>v_secrets := v_secrets v @ [?y]\<rparr>"
    by (simp add: update_secret_def store_secret_def tfind_append table_simps tput_absent)
  then show thesis using none x by (intro that(1) [of ?y]) (auto simp: sealed_def)
qed

lemma edited_since:
  assumes "edited (ident e) v c c' v'" and "vault_inv e (v, ts)"
  shows "vault_since (v, ts) (v', ts)"
proof -
  have tables: "vault_tables v" and step: "\<forall>c \<in> set (v_connections v). in_step (v_secrets v) c"
    using assms(2) by (auto simp: vault_inv_def connection_good_def)
  have c: "tfind ic_pk (ic_pk c) (v_connections v) = Some c" using assms(1) tables by (auto simp: edited_def vault_tables_def intro: tfind_unique)
  then have kept: "first_kept ic_pk connection_since (v_connections v) (v_connections v')"
    using assms(1) by (auto simp: first_kept_def edited_def tfind_tput connection_since_def)
  have "secrets_steady v v'"
    unfolding secrets_steady_def
  proof (intro allI impI)
    fix k d d' i
    assume a: "tfind ic_pk k (v_connections v) = Some d" "tfind ic_pk k (v_connections v') = Some d'" "ic_version d' = ic_version d" "ic_secret d = Some i"
    have "ic_pk d \<noteq> ic_pk c"
    proof
      assume "ic_pk d = ic_pk c"
      then have k: "k = ic_pk c" using tfind_key [OF a(1)] by simp
      then have "d = c" using a(1) c by simp
      moreover have "d' = c'" using a(2) k c assms(1) by (simp add: edited_def tfind_tput)
      ultimately show False using a(3) assms(1) by (simp add: edited_def)
    qed
    with tfind_in [OF a(1)] a(4) show "tfind sc_pk i (v_secrets v') = tfind sc_pk i (v_secrets v)"
      using other_secret_kept [OF assms(1) tables step] by blast
  qed
  with assms(1) kept show ?thesis by (simp add: vault_since_def edited_def)
qed

lemma locked_since:
  assumes "locked_or_new e now dr provider v = Inr (c, v1)"
  shows "vault_since (v, ts) (v1, ts)"
  using assms by (cases rule: locked_or_new_cases) (auto simp: vault_since_def secrets_steady_def tfind_append)

text \<open>The end that the three services share: the row is saved and the change is logged.\<close>

lemma saved_edited:
  assumes "vault_inv e (v1, ts)" and "c \<in> set (v_connections v1)" and "v2 = v1\<lparr>v_secrets := S\<rparr>"
    and "ic_pk c' = ic_pk c" and "ic_provider c' = ic_provider c" and "ic_version c' = ic_version c + 1"
    and "save_connection (ident e) c' v2 = Inr v3" and "audit e now dr a r actor p n cat cid v3 = Inr v4"
    and "keys_ok sc_pk S" and "first_kept sc_pk secret_since (v_secrets v1) S" and "in_step S c'" and "ic_state c' = HEALTHY \<longrightarrow> ic_state c = HEALTHY"
    and "\<forall>j. ic_secret c' \<noteq> Some j \<longrightarrow> tfind sc_pk j S = tfind sc_pk j (v_secrets v1)"
    and "\<forall>i x. ic_secret c' = Some i \<longrightarrow> tfind sc_pk i (v_secrets v1) = Some x \<longrightarrow> ic_secret c = Some i"
  shows "edited (ident e) v1 c c' v4" and "v_secrets v4 = S" and "find_connection (ic_provider c') v4 = Some c'"
proof -
  have c: "c \<in> set (v_connections v2)" using assms(2,3) by simp
  obtain w where w: "v4 = v3\<lparr>v_idw := w\<rparr>" using audit_effect [OF assms(8)] by blast
  have v3: "connection_clean (ident e) S c'" "v3 = v2\<lparr>v_connections := tput ic_pk c' (v_connections v1)\<rparr>"
    using save_existing [OF assms(7) c assms(4)] assms(3) by simp_all
  then show "edited (ident e) v1 c c' v4" "v_secrets v4 = S" using assms w by (simp_all add: edited_def)
  have "c' \<in> set (tput ic_pk c' (v_connections v1))" using assms(2,4) by (intro in_tput_self) (metis image_eqI)
  moreover have "keys_ok ic_provider (tput ic_pk c' (v_connections v1))"
    using assms(1) keys_provider_tput [OF _ _ assms(2,4,5)] by (simp add: vault_inv_def vault_tables_def keys_ok_def)
  ultimately show "find_connection (ic_provider c') v4 = Some c'"
    using v3 w assms(3) by (simp add: find_connection_def tfind_unique)
qed

lemma connection_secret:
  assumes "vault_inv e (v, ts)" and "c \<in> set (v_connections v)" and "ic_secret c = Some i"
  obtains x where "tfind sc_pk i (v_secrets v) = Some x" and "sc_provider x = ic_provider c" and "ic_state c = CONN_DISABLED \<longleftrightarrow> sc_status x = SECRET_DISABLED"
proof -
  have "in_step (v_secrets v) c" using assms(1,2) by (simp add: vault_inv_def connection_good_def)
  with assms(3) that show thesis by (auto simp: in_step_def)
qed

lemma tput_since:
  assumes "tfind sc_pk i s = Some x" and "sc_pk y = i" and "secret_since x y"
  shows "first_kept sc_pk secret_since s (tput sc_pk y s)"
  using assms by (auto simp: first_kept_def tfind_tput)

lemma replace_credential_effect:
  assumes "replace_credential e now dr provider credential expected actor v = Inr (c', v')" and "vault_inv e (v, ts)"
  obtains v1 c x where "locked_or_new e now dr provider v = Inr (c, v1)" and "edited (ident e) v1 c c' v'" and "int (ic_version c) = expected"
    and "ic_state c' = CONFIGURED" and "ic_secret c' = Some (sc_pk x)" and "tfind sc_pk (sc_pk x) (v_secrets v') = Some x"
    and "sealed e dr credential x" and "find_connection provider v' = Some c'"
proof -
  obtain c v1 i v2 v3 where r: "locked_or_new e now dr provider v = Inr (c, v1)" "expect_version c expected = Inr ()"
    "new_credential e now dr provider credential actor c v1 = Inr (i, v2)"
    "c' = c\<lparr>ic_secret := Some i, ic_state := CONFIGURED,
                      ic_capabilities := (case map_of CAPABILITIES_BY_PROVIDER provider of None \<Rightarrow> [] | Some l \<Rightarrow> l),
                      ic_version := ic_version c + 1, ic_updated := now\<rparr>"
    "save_connection (ident e) c' v2 = Inr v3"
    "audit e now dr ''integration.credential_replaced'' ''success'' actor provider (ic_version c') [] (vd_correlation dr) v3 = Inr v'"
    using assms(1) by (auto simp: replace_credential_def Let_def result_simps split: if_splits)
  have inv: "vault_inv e (v1, ts)" and c: "c \<in> set (v_connections v1)" "ic_provider c = provider" using locked_inv [OF r(1) assms(2)] by simp_all
  have n: "int (ic_version c) = expected" using r(2) by (auto simp: expect_version_def split: if_splits)
  have keys: "keys_ok sc_pk (v_secrets v1)" using inv by (simp add: vault_inv_def vault_tables_def)
  have c': "ic_pk c' = ic_pk c" "ic_provider c' = ic_provider c" "ic_version c' = ic_version c + 1" "ic_state c' = CONFIGURED" "ic_secret c' = Some i"
    by (simp_all add: r(4))
  from r(3) obtain S x where S: "v2 = v1\<lparr>v_secrets := S\<rparr>" "keys_ok sc_pk S" "first_kept sc_pk secret_since (v_secrets v1) S" "in_step S c'"
    "\<forall>j. ic_secret c' \<noteq> Some j \<longrightarrow> tfind sc_pk j S = tfind sc_pk j (v_secrets v1)"
    "\<forall>i x. ic_secret c' = Some i \<longrightarrow> tfind sc_pk i (v_secrets v1) = Some x \<longrightarrow> ic_secret c = Some i"
    "sc_pk x = i" "tfind sc_pk i S = Some x" "sealed e dr credential x"
  proof (cases rule: new_credential_cases)
    case (1 x)
    then have none: "tfind sc_pk i (v_secrets v1) = None" by (simp add: tfind_None)
    show thesis using 1 none keys c(2) c' by (intro that [of "v_secrets v1 @ [x]" x])
      (auto simp: keys_ok_def tfind_append in_step_def sealed_def split: option.splits)
  next
    case (2 x y)
    have "secret_since x y" using 2 by (simp add: secret_since_def)
    moreover obtain x' where "tfind sc_pk i (v_secrets v1) = Some x'" "sc_provider x' = ic_provider c"
      using connection_secret [OF inv c(1) 2(1)] by metis
    ultimately show thesis using 2 keys c' tput_since [OF 2(3) 2(5)] by (intro that [of "tput sc_pk y (v_secrets v1)" y])
      (auto simp: tfind_tput in_step_def sealed_def)
  qed
  note ed = saved_edited [OF inv c(1) S(1) c'(1-3) r(5,6) S(2-4) _ S(5,6)]
  show thesis using r(1) n c' S(7-9) c(2) ed by (intro that [of c v1 x]) simp_all
qed

lemma update_configuration_effect:
  assumes "update_configuration e now dr provider configuration expected actor v = Inr (c', v')" and "vault_inv e (v, ts)"
  obtains v1 c where "locked_or_new e now dr provider v = Inr (c, v1)" and "edited (ident e) v1 c c' v'" and "int (ic_version c) = expected"
    and "ic_state c' = ic_state c" and "ic_configuration c' = configuration" and "find_connection provider v' = Some c'"
proof -
  obtain c v1 v2 where r: "locked_or_new e now dr provider v = Inr (c, v1)" "expect_version c expected = Inr ()"
    "c' = c\<lparr>ic_configuration := configuration, ic_version := ic_version c + 1, ic_updated := now\<rparr>" "save_connection (ident e) c' v1 = Inr v2"
    "audit e now dr ''integration.configuration_changed'' ''success'' actor provider (ic_version c') [] (vd_correlation dr) v2 = Inr v'"
    using assms(1) by (auto simp: update_configuration_def Let_def result_simps split: if_splits)
  have inv: "vault_inv e (v1, ts)" and c: "c \<in> set (v_connections v1)" "ic_provider c = provider" using locked_inv [OF r(1) assms(2)] by simp_all
  have n: "int (ic_version c) = expected" using r(2) by (auto simp: expect_version_def split: if_splits)
  have c': "ic_pk c' = ic_pk c" "ic_provider c' = ic_provider c" "ic_version c' = ic_version c + 1" "ic_state c' = ic_state c" "ic_secret c' = ic_secret c"
    "ic_configuration c' = configuration"
    by (simp_all add: r(3))
  have s: "v1 = v1\<lparr>v_secrets := v_secrets v1\<rparr>" "keys_ok sc_pk (v_secrets v1)" "in_step (v_secrets v1) c'"
    using inv c(1) c' by (auto simp: vault_inv_def vault_tables_def connection_good_def in_step_def)
  have ed: "edited (ident e) v1 c c' v'" "find_connection (ic_provider c') v' = Some c'"
    by (rule saved_edited [OF inv c(1) s(1) c'(1-3) r(4,5) s(2) _ s(3)]; simp add: first_kept_def c')+
  show thesis by (rule that [OF r(1) ed(1) n c'(4,6)]) (use ed(2) c'(2) c(2) in simp)
qed

lemma disable_connection_effect:
  assumes "disable_connection e now dr provider expected actor v = Inr (c', v')" and "vault_inv e (v, ts)"
  obtains c i x where "find_connection provider v = Some c" and "edited (ident e) v c c' v'" and "int (ic_version c) = expected"
    and "ic_state c' = CONN_DISABLED" and "ic_secret c' = Some i" and "tfind sc_pk i (v_secrets v') = Some x" and "sc_status x = SECRET_DISABLED"
    and "find_connection provider v' = Some c'"
proof -
  obtain c v1 v2 where r: "find_connection provider v = Some c" "expect_version c expected = Inr ()"
    "(case ic_secret c of None \<Rightarrow> Inr v
      | Some i \<Rightarrow> try_bind (of_option VaultMissing (tfind sc_pk i (v_secrets v))) (\<lambda>x. disable_secret now (reference_to x) v)) = Inr v1"
    "c' = c\<lparr>ic_state := CONN_DISABLED, ic_version := ic_version c + 1, ic_updated := now\<rparr>" "save_connection (ident e) c' v1 = Inr v2"
    "audit e now dr ''integration.connection_disabled'' ''success'' actor provider (ic_version c') [] (vd_correlation dr) v2 = Inr v'"
    using assms(1) by (auto simp: disable_connection_def Let_def result_simps split: if_splits)
  have c: "c \<in> set (v_connections v)" "ic_provider c = provider" using r(1) by (auto simp: find_connection_def dest: tfind_in tfind_key)
  have n: "int (ic_version c) = expected" using r(2) by (auto simp: expect_version_def split: if_splits)
  have c': "ic_pk c' = ic_pk c" "ic_provider c' = ic_provider c" "ic_version c' = ic_version c + 1" "ic_state c' = CONN_DISABLED" "ic_secret c' = ic_secret c"
    by (simp_all add: r(4))
  have keys: "keys_ok sc_pk (v_secrets v)" using assms(2) by (simp add: vault_inv_def vault_tables_def)
  have "ic_secret c' \<noteq> None" using r(5) c'(4) by (auto simp: save_connection_def connection_clean_def lifecycle_ok_def split: if_splits)
  then obtain i where i: "ic_secret c = Some i" using c'(5) by auto
  obtain x where x: "tfind sc_pk i (v_secrets v) = Some x" "sc_provider x = ic_provider c" using connection_secret [OF assms(2) c(1) i] by metis
  define y where "y = (if sc_status x = SECRET_DISABLED then x
    else x\<lparr>sc_status := SECRET_DISABLED, sc_version := sc_version x + 1, sc_disabled := Some now\<rparr>)"
  have y: "sc_pk y = i" "sc_status y = SECRET_DISABLED" "sc_provider y = ic_provider c" "secret_since x y"
    using x tfind_key [OF x(1)] by (auto simp: y_def secret_since_def)
  have v1: "v1 = v\<lparr>v_secrets := tput sc_pk y (v_secrets v)\<rparr>"
    using r(3) i x tfind_key [OF x(1)] tput_id [OF keys tfind_in [OF x(1)]]
    by (auto simp: disable_secret_def secret_for_reference_def reference_to_def store_secret_def y_def result_simps split: if_splits)
  have s: "keys_ok sc_pk (tput sc_pk y (v_secrets v))" "in_step (tput sc_pk y (v_secrets v)) c'" "tfind sc_pk i (tput sc_pk y (v_secrets v)) = Some y"
    using keys x y c' i by (auto simp: in_step_def tfind_tput)
  note ed = saved_edited [OF assms(2) c(1) v1 c'(1-3) r(5,6) s(1) tput_since [OF x(1) y(1,4)] s(2)]
  show thesis using r(1) n c' c(2) s(3) y i ed by (intro that [of c i y]) (auto simp: tfind_tput)
qed

end
