(* ===== verification/Vault_Machine.thy ===== *)
theory Vault_Machine
  imports Vault_Inv
begin

text \<open>
  Every step keeps the invariant of \<open>Vault_Inv\<close> and only moves forward.  The locale \<open>state_machine\<close> is
  interpreted twice: for the invariant, and for the invariant together with what has not been taken back
  since a given state.
\<close>

section \<open>The end of a test\<close>

lemma finish_test_effect:
  assumes "finish_test e now dr ms actor t r v = Inr (h, v')" and "vault_inv e (v, ts)" and "t \<in> set ts"
  obtains c c' w where "tfind ic_pk (ic_pk (tr_connection t)) (v_connections v) = Some c" and "int (ic_version c) = tr_expected t"
    and "c' = c\<lparr>ic_state := (if pr_ok r then HEALTHY else DEGRADED), ic_failure := hc_category h,
                ic_success := (if pr_ok r then Some now else ic_success c), ic_updated := now\<rparr>"
    and "check_ok h" and "hc_pk h \<notin> hc_pk ` set (v_checks v)" and "hc_connection h = ic_pk c" and "hc_outcome h = (if pr_ok r then ''healthy'' else ''degraded'')"
    and "connection_clean (ident e) (v_secrets v) c'"
    and "v' = v\<lparr>v_checks := v_checks v @ [h], v_connections := tput ic_pk c' (v_connections v), v_idw := w\<rparr>"
proof -
  let ?cat = "if pr_ok r then [] else if pr_category r = [] then ''network'' else pr_category r"
  obtain c v1 v2 where s: "tfind ic_pk (ic_pk (tr_connection t)) (v_connections v) = Some c" "expect_version c (tr_expected t) = Inr ()"
    "h = \<lparr>hc_pk = vd_check dr, hc_connection = ic_pk c, hc_outcome = (if pr_ok r then ''healthy'' else ''degraded''), hc_category = ?cat,
          hc_duration = min ms 30000, hc_correlation = vd_correlation dr, hc_tested = now\<rparr>"
    "create_check h v = Inr v1"
    "save_connection (ident e) (c\<lparr>ic_state := (if pr_ok r then HEALTHY else DEGRADED), ic_failure := ?cat,
        ic_success := (if pr_ok r then Some now else ic_success c), ic_updated := now\<rparr>) v1 = Inr v2"
    "audit e now dr ''integration.connection_tested'' (if pr_ok r then ''success'' else ''failure'') actor (ic_provider c) (ic_version c) ?cat
        (vd_correlation dr) v2 = Inr v'"
    using assms(1) unfolding finish_test_def by (auto simp: Let_def result_simps)
  let ?c = "c\<lparr>ic_state := (if pr_ok r then HEALTHY else DEGRADED), ic_failure := ?cat,
        ic_success := (if pr_ok r then Some now else ic_success c), ic_updated := now\<rparr>"
  have v1: "check_ok h" "hc_pk h \<notin> hc_pk ` set (v_checks v)" "v1 = v\<lparr>v_checks := v_checks v @ [h]\<rparr>"
    using s(4) by (auto simp: create_check_def split: if_splits)
  have c: "c \<in> set (v_connections v1)" using tfind_in [OF s(1)] v1(3) by simp
  have v2: "connection_clean (ident e) (v_secrets v) ?c" "v2 = v1\<lparr>v_connections := tput ic_pk ?c (v_connections v)\<rparr>"
    using save_existing [OF s(5) c] v1(3) by simp_all
  obtain w where "v' = v2\<lparr>v_idw := w\<rparr>" using audit_effect [OF s(6)] by blast
  moreover have "int (ic_version c) = tr_expected t" using s(2) by (auto simp: expect_version_def split: if_splits)
  moreover have "hc_category h = ?cat" "hc_connection h = ic_pk c" "hc_outcome h = (if pr_ok r then ''healthy'' else ''degraded'')" by (simp_all add: s(3))
  ultimately show thesis using s(1) v1 v2 by (intro that [of c ?c w]) simp_all
qed

lemma current_test:
  assumes "test_good v t" and "tfind ic_pk (ic_pk (tr_connection t)) (v_connections v) = Some c" and "int (ic_version c) = tr_expected t"
  shows "ic_secret c = Some (sr_id (tr_reference t))" and "ic_configuration c = ic_configuration (tr_connection t)"
    and "ic_provider c = ic_provider (tr_connection t)" and "ic_state c \<noteq> CONN_DISABLED"
    and "\<exists>x. tfind sc_pk (sr_id (tr_reference t)) (v_secrets v) = Some x \<and> reference_to x = tr_reference t"
  using assms by (auto simp: test_good_def)

lemma finish_test_keeps:
  assumes "finish_test e now dr ms actor t r v = Inr (h, v')" and "vault_inv e (v, ts)" and "t \<in> set ts"
  shows "vault_inv e (v', ts) \<and> vault_since (v, ts) (v', ts)"
  using assms
proof (rule finish_test_effect)
  fix c c' w
  assume c: "tfind ic_pk (ic_pk (tr_connection t)) (v_connections v) = Some c" "int (ic_version c) = tr_expected t"
    and c': "c' = c\<lparr>ic_state := (if pr_ok r then HEALTHY else DEGRADED), ic_failure := hc_category h,
                ic_success := (if pr_ok r then Some now else ic_success c), ic_updated := now\<rparr>"
    and h: "check_ok h" "hc_pk h \<notin> hc_pk ` set (v_checks v)" "hc_connection h = ic_pk c" "hc_outcome h = (if pr_ok r then ''healthy'' else ''degraded'')"
    and clean: "connection_clean (ident e) (v_secrets v) c'"
    and v': "v' = v\<lparr>v_checks := v_checks v @ [h], v_connections := tput ic_pk c' (v_connections v), v_idw := w\<rparr>"
  have m: "c \<in> set (v_connections v)" using c(1) by (rule tfind_in)
  have tables: "vault_tables v" and good: "\<And>d. d \<in> set (v_connections v) \<Longrightarrow> connection_good (ident e) v d" and tg: "test_good v t"
    using assms(2,3) by (auto simp: vault_inv_def)
  have f: "ic_pk c' = ic_pk c" "ic_provider c' = ic_provider c" "ic_version c' = ic_version c" "ic_secret c' = ic_secret c" "ic_configuration c' = ic_configuration c"
    "ic_state c' = (if pr_ok r then HEALTHY else DEGRADED)"
    by (simp_all add: c')
  have enabled: "ic_state c \<noteq> CONN_DISABLED" using current_test(4) [OF tg c] .
  have "keys_ok ic_provider (v_connections v')"
    using keys_provider_tput [of "v_connections v" c c'] tables m f by (simp add: v' vault_tables_def keys_ok_def)
  then have "vault_tables v'" using tables h(2) by (auto simp: v' vault_tables_def intro: keys_ok_append_new simp: tfind_None)
  moreover have "connection_good (ident e) v' d" if "d \<in> set (v_connections v')" for d
  proof (cases "d = c'")
    case True
    have "in_step (v_secrets v) c" "1 \<le> ic_version c" using good [OF m] by (auto simp: connection_good_def)
    then have "in_step (v_secrets v) c'" using f enabled by (auto simp: in_step_def)
    moreover have "ic_state c' = HEALTHY \<Longrightarrow> has_healthy_check (v_checks v') c'" using f h(3,4) by (auto simp: v' has_healthy_check_def split: if_splits)
    ultimately show ?thesis using True clean f \<open>1 \<le> ic_version c\<close> by (simp add: connection_good_def v')
  next
    case False
    with that have "d \<in> set (v_connections v)" by (auto simp: v' dest: in_tput)
    with good [OF this] show ?thesis by (auto simp: connection_good_def has_healthy_check_def v')
  qed
  moreover have "test_good v' u" if "u \<in> set ts" for u
  proof -
    have "test_good v u" using assms(2) that by (simp add: vault_inv_def)
    moreover have "tfind ic_pk k (v_connections v') = (if k = ic_pk c \<and> tfind ic_pk k (v_connections v) \<noteq> None then Some c' else tfind ic_pk k (v_connections v))" for k
      by (auto simp: v' tfind_tput f split: option.splits)
    moreover have "tfind ic_pk (ic_pk c) (v_connections v) = Some c" using c(1) tfind_key by metis
    ultimately show ?thesis using f enabled by (auto simp: test_good_def v' split: if_splits)
  qed
  moreover have "\<forall>g \<in> set (v_checks v'). check_ok g" using assms(2) h(1) by (auto simp: vault_inv_def v')
  moreover have "first_kept ic_pk connection_since (v_connections v) (v_connections v')"
    using tfind_unique [of ic_pk, OF _ m] tables f by (auto simp: first_kept_def v' tfind_tput connection_since_def vault_tables_def)
  then have "vault_since (v, ts) (v', ts)" by (auto simp: vault_since_def secrets_steady_def v')
  ultimately show ?thesis by (auto simp: vault_inv_def)
qed

section \<open>Every step\<close>

lemma begun_good:
  assumes "begin_test provider expected v = Inr t" and "vault_inv e (v, ts)"
  shows "test_good v t"
proof -
  obtain c i x where b: "find_connection provider v = Some c" "expect_version c expected = Inr ()" "ic_state c \<noteq> CONN_DISABLED" "ic_secret c = Some i"
    "tfind sc_pk i (v_secrets v) = Some x" "t = \<lparr>tr_connection = c, tr_reference = reference_to x, tr_expected = expected\<rparr>"
    using assms(1) by (auto simp: begin_test_def result_simps split: if_splits option.splits)
  have "tfind ic_pk (ic_pk c) (v_connections v) = Some c"
    using b(1) assms(2) by (auto simp: find_connection_def vault_inv_def vault_tables_def intro: tfind_unique dest: tfind_in)
  moreover have "sr_id (reference_to x) = i" using tfind_key [OF b(5)] by (simp add: reference_to_def)
  moreover have "expected = int (ic_version c)" using b(2) by (auto simp: expect_version_def split: if_splits)
  ultimately show ?thesis using b by (auto simp: test_good_def)
qed

lemma edited_keeps:
  assumes "vault_inv e (v, ts)" and "locked_or_new e now dr provider v = Inr (c, v1)" and "edited (ident e) v1 c c' v'"
  shows "vault_inv e (v', ts) \<and> vault_since (v, ts) (v', ts)"
proof -
  have "vault_inv e (v1, ts)" using locked_inv [OF assms(2,1)] by simp
  then show ?thesis using edited_inv [OF assms(3)] edited_since [OF assms(3)] locked_since [OF assms(2)] vault_since_trans by blast
qed

lemma step_keeps:
  assumes "vault_inv e s" and "vault_step e s s'"
  shows "vault_inv e s' \<and> vault_since s s'"
  using assms(2,1)
proof (cases rule: vault_step.cases)
  case (vs_replace now dr provider credential expected actor v c v' ts)
  then have inv: "vault_inv e (v, ts)" using assms(1) by simp
  obtain v1 c0 where "locked_or_new e now dr provider v = Inr (c0, v1)" "edited (ident e) v1 c0 c v'"
    using vs_replace(3) inv by (rule replace_credential_effect)
  from edited_keeps [OF inv this] show ?thesis using vs_replace(1,2) by simp
next
  case (vs_update now dr provider configuration expected actor v c v' ts)
  then have inv: "vault_inv e (v, ts)" using assms(1) by simp
  obtain v1 c0 where "locked_or_new e now dr provider v = Inr (c0, v1)" "edited (ident e) v1 c0 c v'"
    using vs_update(3) inv by (rule update_configuration_effect)
  from edited_keeps [OF inv this] show ?thesis using vs_update(1,2) by simp
next
  case (vs_disable now dr provider expected actor v c v' ts)
  then have inv: "vault_inv e (v, ts)" using assms(1) by simp
  obtain c0 where ed: "edited (ident e) v c0 c v'" using vs_disable(3) inv by (rule disable_connection_effect)
  show ?thesis using edited_inv [OF ed inv] edited_since [OF ed inv] vs_disable(1,2) by simp
next
  case (vs_begin provider expected v t ts)
  then have "vault_inv e (v, ts)" using assms(1) by simp
  with begun_good [OF vs_begin(3) this] vs_begin(1,2) show ?thesis by (auto simp: vault_inv_def vault_since_def secrets_steady_def)
next
  case (vs_finish t ts now dr ms actor v r h v')
  with finish_test_keeps [OF vs_finish(4) _ vs_finish(3)] assms(1) show ?thesis by simp
next
  case (vs_other v ts s w)
  have "vault_inv e (v\<lparr>v_idw := w, v_app := s\<rparr>, ts) = vault_inv e (v, ts)"
    by (simp add: vault_inv_def vault_tables_def connection_good_def test_good_def)
  moreover have "vault_since (v, ts) (v\<lparr>v_idw := w, v_app := s\<rparr>, ts)" by (simp add: vault_since_def secrets_steady_def)
  ultimately show ?thesis using vs_other assms(1) by simp
qed

interpretation vault_states: state_machine vault_init "vault_step e" "vault_inv e" for e
  by unfold_locales (use vault_init_inv step_keeps in blast)+

interpretation vault_hist: state_machine "\<lambda>s. s = s0 \<and> vault_inv e s" "vault_step e" "\<lambda>s. vault_inv e s \<and> vault_since s0 s" for e s0
proof
  show "vault_inv e s \<and> vault_since s0 s" if "s = s0 \<and> vault_inv e s" for s using that since_refl(3) by metis
  show "vault_inv e s' \<and> vault_since s0 s'" if "vault_inv e s \<and> vault_since s0 s" "vault_step e s s'" for s s'
    using that step_keeps vault_since_trans by metis
qed

lemma run_since: "vault_inv e s \<Longrightarrow> (vault_step e)\<^sup>*\<^sup>* s s' \<Longrightarrow> vault_inv e s' \<and> vault_since s s'"
  using vault_hist.reachable_inv [of s s e s'] by blast

end
