(* ===== verification/Vault_Props.thy ===== *)
theory Vault_Props
  imports Vault_Machine
begin

text \<open>
  What the stored credentials and the connections promise: a healthy connection rests on its own secret and
  on a check of it, a verdict is about the credential and the configuration that are still stored, an edit
  with an old version is refused, and what was stored is what a lease exposes.
\<close>

section \<open>Connections\<close>

text \<open>
  C36: in every reachable state a connection that is configured has its own secret, of its provider and shared
  with no other connection; the secret is disabled exactly when the connection is; and a healthy connection
  has a health check that was good.
\<close>

theorem connection_rests_on_its_secret:
  assumes "vault_init s0" and "(vault_step e)\<^sup>*\<^sup>* s0 (v, ts)" and "find_connection provider v = Some c" and "ic_state c \<noteq> NOT_CONFIGURED"
  shows "(\<exists>i x. ic_secret c = Some i \<and> tfind sc_pk i (v_secrets v) = Some x \<and> sc_provider x = provider
           \<and> (ic_state c = CONN_DISABLED \<longleftrightarrow> sc_status x = SECRET_DISABLED)
           \<and> (\<forall>d \<in> set (v_connections v). ic_secret d = Some i \<longrightarrow> d = c))
       \<and> (ic_state c = HEALTHY \<longrightarrow> (\<exists>h \<in> set (v_checks v). hc_connection h = ic_pk c \<and> hc_outcome h = ''healthy'' \<and> check_ok h))"
proof -
  have inv: "vault_inv e (v, ts)" using assms(1,2) by (rule vault_states.reachable_inv)
  have c: "c \<in> set (v_connections v)" "ic_provider c = provider" using assms(3) by (auto simp: find_connection_def dest: tfind_in tfind_key)
  have good: "connection_good (ident e) v c" using inv c(1) by (simp add: vault_inv_def)
  then have "lifecycle_ok c" by (simp add: connection_good_def connection_clean_def)
  then obtain i where i: "ic_secret c = Some i" using assms(4) by (auto simp: lifecycle_ok_def split: connection_state.splits)
  obtain x where x: "tfind sc_pk i (v_secrets v) = Some x" "sc_provider x = ic_provider c" "ic_state c = CONN_DISABLED \<longleftrightarrow> sc_status x = SECRET_DISABLED"
    using inv c(1) i by (rule connection_secret)
  have "d = c" if d: "d \<in> set (v_connections v)" "ic_secret d = Some i" for d
  proof -
    have "ic_provider d = ic_provider c" using connection_secret [OF inv d] x(1,2) by (metis option.inject)
    moreover have "keys_ok ic_provider (v_connections v)" using inv by (simp add: vault_inv_def vault_tables_def)
    ultimately show ?thesis using d(1) c(1) by (auto simp: keys_ok_def distinct_map dest: inj_onD)
  qed
  moreover have "ic_state c = HEALTHY \<longrightarrow> (\<exists>h \<in> set (v_checks v). hc_connection h = ic_pk c \<and> hc_outcome h = ''healthy'' \<and> check_ok h)"
    using good inv by (auto simp: connection_good_def has_healthy_check_def vault_inv_def)
  ultimately show ?thesis using i x c(2) by metis
qed

text \<open>The secret a lease opens, at the state in which it is opened.\<close>

lemma open_leaseE:
  assumes "open_lease e now q expires v = Inr l"
  obtains x p where "secret_for_reference (lq_reference q) True v = Inr x" and "sc_status x = SECRET_ACTIVE" and "envelope_plaintext e x = Some p"
    and "now < expires" and "lq_purpose q \<in> {EVENTBRITE_WRITE_PURPOSE, ITERABLE_WRITE_PURPOSE} \<longrightarrow> lease_request_ok e now (q\<lparr>lq_ttl := seconds 1\<rparr>) v"
    and "l = \<lparr>sl_reference = reference_to x, sl_caller = lq_caller q, sl_workflow = lq_workflow q, sl_purpose = lq_purpose q,
              sl_expires = expires, sl_plaintext = Some p, sl_used = False\<rparr>"
proof -
  obtain x where x: "secret_for_reference (lq_reference q) True v = Inr x" "now < expires" "sc_status x = SECRET_ACTIVE"
    "lq_purpose q \<in> {EVENTBRITE_WRITE_PURPOSE, ITERABLE_WRITE_PURPOSE} \<longrightarrow> lease_request_ok e now (q\<lparr>lq_ttl := seconds 1\<rparr>) v"
    "(case envelope_plaintext e x of None \<Rightarrow> Inl SecretUnavailable
      | Some p \<Rightarrow> Inr \<lparr>sl_reference = reference_to x, sl_caller = lq_caller q, sl_workflow = lq_workflow q, sl_purpose = lq_purpose q,
                      sl_expires = expires, sl_plaintext = Some p, sl_used = False\<rparr>) = Inr l"
    using assms unfolding open_lease_def by (simp add: result_simps not_le split: if_splits) blast+
  then obtain p where "envelope_plaintext e x = Some p" by (cases "envelope_plaintext e x") auto
  with x that show thesis by simp
qed

lemma secret_for_referenceE:
  assumes "secret_for_reference r True v = Inr x"
  shows "tfind sc_pk (sr_id r) (v_secrets v) = Some x" and "reference_to x = r"
  using assms by (auto simp: secret_for_reference_def reference_to_def split: option.splits if_splits dest: tfind_key)

lemma probe_test_okE:
  assumes "probe_test e t1 t2 t3 caller t v v' = Inr r" and "pr_ok r"
  obtains x p url pol where "secret_for_reference (tr_reference t) True v' = Inr x" and "sc_status x = SECRET_ACTIVE" and "envelope_plaintext e x = Some p"
    and "probe_url (ic_provider (tr_connection t)) (ic_configuration (tr_connection t)) = Some url" and "map_of PROBE_POLICIES url = Some pol"
    and "transport_call e url pol p = Inr (200, Some (probe_shape (ic_provider (tr_connection t))))"
proof -
  obtain c c' l where l: "lease e t1 (test_request t caller) v = Inr c" "ctx_enter e t2 v' c = (c', Inr l)"
    "snd (probe e t3 (ic_provider (tr_connection t)) (ic_configuration (tr_connection t)) l) = Inr r"
  proof -
    obtain c where c: "lease e t1 (test_request t caller) v = Inr c"
      "(case ctx_enter e t2 v' c of (c', Inl x) \<Rightarrow> Inl x
        | (c', Inr l) \<Rightarrow> snd (probe e t3 (ic_provider (tr_connection t)) (ic_configuration (tr_connection t)) l)) = Inr r"
      using assms(1) by (auto simp: probe_test_def try_bind_eq_Inr)
    then show thesis using that [of c] by (cases "ctx_enter e t2 v' c") (auto split: sum.splits)
  qed
  have "lc_request c = test_request t caller" using l(1) by (auto simp: lease_def split: if_splits)
  with l(2) have "open_lease e t2 (test_request t caller) (lc_expires c) v' = Inr l" by (auto simp: ctx_enter_def split: if_splits sum.splits)
  then obtain x p where x: "secret_for_reference (tr_reference t) True v' = Inr x" "sc_status x = SECRET_ACTIVE" "envelope_plaintext e x = Some p"
    "sl_plaintext l = Some p"
    by (rule open_leaseE) (auto simp: test_request_def)
  obtain l' where "probe e t3 (ic_provider (tr_connection t)) (ic_configuration (tr_connection t)) l = (l', Inr r)" using l(3) by (metis prod.collapse)
  then show thesis using assms(2) by (rule probe_okE) (use x that in auto)
qed

lemma same_version_same_secret:
  assumes "secret_since x y" and "reference_to x = reference_to y"
  shows "sc_status y = sc_status x \<and> envelope_plaintext e y = envelope_plaintext e x"
  using assms by (simp add: secret_since_def reference_to_def envelope_plaintext_def)

text \<open>
  C3: a verdict is about what is stored.  A test begins in one state, is probed in later ones, and is finished in a
  later one still, whatever other requests of the owner ran in between.  When it is finished at all, and the
  probe was good, then the secret that the connection has now, active and at its present version, holds the
  credential that the provider accepted, at the address of the configuration that the connection has now.
\<close>

theorem verdict_is_current:
  assumes "vault_init s0" and "(vault_step e)\<^sup>*\<^sup>* s0 (v0, ts0)" and "begin_test provider expected v0 = Inr t"
    and "(vault_step e)\<^sup>*\<^sup>* (v0, t # ts0) (v1, ts1)" and "probe_test e t_lease t_enter t_use caller t v v1 = Inr r" and "pr_ok r"
    and "(vault_step e)\<^sup>*\<^sup>* (v1, ts1) (v2, ts2)" and "finish_test e now dr ms actor t r v2 = Inr (h, v3)"
  shows "\<exists>c x p url pol. find_connection provider v3 = Some c \<and> ic_state c = HEALTHY \<and> ic_success c = Some now
    \<and> ic_secret c = Some (sc_pk x) \<and> tfind sc_pk (sc_pk x) (v_secrets v3) = Some x \<and> sc_status x = SECRET_ACTIVE
    \<and> envelope_plaintext e x = Some p \<and> probe_url provider (ic_configuration c) = Some url \<and> map_of PROBE_POLICIES url = Some pol
    \<and> transport_call e url pol p = Inr (200, Some (probe_shape provider))"
proof -
  have inv0: "vault_inv e (v0, ts0)" using assms(1,2) by (rule vault_states.reachable_inv)
  have step: "vault_step e (v0, ts0) (v0, t # ts0)" using assms(3) by (rule vs_begin)
  have inv1: "vault_inv e (v1, ts1)" and t1: "t \<in> set ts1"
    using run_since [OF _ assms(4)] step_keeps [OF inv0 step] by (auto simp: vault_since_def)
  have inv2: "vault_inv e (v2, ts2)" and t2: "t \<in> set ts2" and since: "first_kept sc_pk secret_since (v_secrets v1) (v_secrets v2)"
    using run_since [OF inv1 assms(7)] t1 by (auto simp: vault_since_def)
  have provider: "ic_provider (tr_connection t) = provider"
    using assms(3) by (auto simp: begin_test_def find_connection_def result_simps dest!: tfind_key [of ic_provider] split: if_splits option.splits)
  obtain x p url pol where p: "secret_for_reference (tr_reference t) True v1 = Inr x" "sc_status x = SECRET_ACTIVE" "envelope_plaintext e x = Some p"
    "probe_url provider (ic_configuration (tr_connection t)) = Some url" "map_of PROBE_POLICIES url = Some pol"
    "transport_call e url pol p = Inr (200, Some (probe_shape provider))"
    using assms(5,6) unfolding provider [symmetric] by (rule probe_test_okE)
  obtain c c' w where c: "tfind ic_pk (ic_pk (tr_connection t)) (v_connections v2) = Some c" "int (ic_version c) = tr_expected t"
    "c' = c\<lparr>ic_state := (if pr_ok r then HEALTHY else DEGRADED), ic_failure := hc_category h, ic_success := (if pr_ok r then Some now else ic_success c), ic_updated := now\<rparr>"
    "v3 = v2\<lparr>v_checks := v_checks v2 @ [h], v_connections := tput ic_pk c' (v_connections v2), v_idw := w\<rparr>"
    using assms(8) inv2 t2 by (rule finish_test_effect)
  have "test_good v2 t" using inv2 t2 by (simp add: vault_inv_def)
  note cur = current_test [OF this c(1,2)]
  obtain y where y: "tfind sc_pk (sr_id (tr_reference t)) (v_secrets v2) = Some y" "reference_to y = tr_reference t" using cur(5) by blast
  obtain y' where "tfind sc_pk (sr_id (tr_reference t)) (v_secrets v2) = Some y'" "secret_since x y'"
    using since secret_for_referenceE(1) [OF p(1)] unfolding first_kept_def by blast
  then have same: "sc_status y = SECRET_ACTIVE" "envelope_plaintext e y = Some p"
    using y p(2,3) same_version_same_secret [of x y] secret_for_referenceE(2) [OF p(1)] by auto
  have "find_connection provider v3 = Some c'"
  proof -
    have "c \<in> set (v_connections v2)" using c(1) by (rule tfind_in)
    moreover have "keys_ok ic_provider (v_connections v2)" "keys_ok ic_pk (v_connections v2)" using inv2 by (simp_all add: vault_inv_def vault_tables_def)
    ultimately have "keys_ok ic_provider (v_connections v3)" "c' \<in> set (v_connections v3)"
      using keys_provider_tput [of "v_connections v2" c c'] by (auto simp: c(3,4) keys_ok_def intro: in_tput_self)
    then show ?thesis using tfind_unique [of ic_provider] cur(3) provider by (fastforce simp: find_connection_def c(3))
  qed
  then show ?thesis using same y p(4-6) cur tfind_key [OF y(1)] provider assms(6) by (intro exI [of _ c'] exI [of _ y]) (auto simp: c(3,4))
qed

section \<open>Optimistic concurrency\<close>

text \<open>One of the three edits of a connection succeeded with this expected version.\<close>

definition edited_by :: "vault_env \<Rightarrow> string \<Rightarrow> int \<Rightarrow> vault \<Rightarrow> integration_connection \<Rightarrow> vault \<Rightarrow> bool" where
  "edited_by e provider expected v c v' \<longleftrightarrow> (\<exists>now dr actor.
     (\<exists>credential. replace_credential e now dr provider credential expected actor v = Inr (c, v'))
     \<or> (\<exists>configuration. update_configuration e now dr provider configuration expected actor v = Inr (c, v'))
     \<or> disable_connection e now dr provider expected actor v = Inr (c, v'))"

lemma edited_by_step: "edited_by e provider expected v c v' \<Longrightarrow> vault_step e (v, ts) (v', ts)"
  by (auto simp: edited_by_def intro: vault_step.intros)

lemma edited_by_version:
  assumes "edited_by e provider expected v c v'" and "vault_inv e (v, ts)"
  shows "find_connection provider v' = Some c \<and> int (ic_version c) = expected + 1 \<and> provider \<in> set PROVIDERS"
proof -
  have p: "provider \<in> set PROVIDERS"
    using assms(1) by (auto simp: edited_by_def replace_credential_def update_configuration_def disable_connection_def validate_provider_def split: if_splits)
  consider (r) now dr actor credential where "replace_credential e now dr provider credential expected actor v = Inr (c, v')"
    | (u) now dr actor configuration where "update_configuration e now dr provider configuration expected actor v = Inr (c, v')"
    | (d) now dr actor where "disable_connection e now dr provider expected actor v = Inr (c, v')"
    using assms(1) unfolding edited_by_def by blast
  then have "find_connection provider v' = Some c \<and> int (ic_version c) = expected + 1"
  proof cases
    case r
    then show ?thesis using assms(2) by (rule replace_credential_effect) (simp add: edited_def)
  next
    case u
    then show ?thesis using assms(2) by (rule update_configuration_effect) (simp add: edited_def)
  next
    case d
    then show ?thesis using assms(2) by (rule disable_connection_effect) (simp add: edited_def)
  qed
  with p show ?thesis by simp
qed

lemma version_conflicts:
  assumes "find_connection provider v = Some c" and "provider \<in> set PROVIDERS" and "1 \<le> expected" and "expected < int (ic_version c)"
  shows "credential \<noteq> [] \<Longrightarrow> length credential \<le> 16384 \<Longrightarrow> replace_credential e now dr provider credential expected actor v = Inl (ServiceError ''version_conflict'')"
    and "update_configuration e now dr provider configuration expected actor v = Inl (ServiceError ''version_conflict'')"
    and "disable_connection e now dr provider expected actor v = Inl (ServiceError ''version_conflict'')"
    and "begin_test provider expected v = Inl (ServiceError ''version_conflict'')"
  using assms
  by (simp_all add: replace_credential_def update_configuration_def disable_connection_def begin_test_def validate_provider_def locked_or_new_def expect_version_def)

lemma find_connection_since:
  assumes "vault_since s s'" and "vault_inv e s" and "vault_inv e s'" and "find_connection provider (fst s) = Some c"
  shows "\<exists>d. find_connection provider (fst s') = Some d \<and> ic_pk d = ic_pk c \<and> connection_since c d"
proof -
  have c: "c \<in> set (v_connections (fst s))" "ic_provider c = provider"
    using assms(4) by (auto simp: find_connection_def dest: tfind_in tfind_key [of ic_provider])
  have "tfind ic_pk (ic_pk c) (v_connections (fst s)) = Some c"
    using c(1) assms(2) by (auto simp: vault_inv_def vault_tables_def intro: tfind_unique)
  then obtain d where d: "tfind ic_pk (ic_pk c) (v_connections (fst s')) = Some d" "connection_since c d"
    using assms(1) unfolding vault_since_def first_kept_def by blast
  have "d \<in> set (v_connections (fst s'))" "ic_pk d = ic_pk c" using d(1) by (auto dest: tfind_in tfind_key [of ic_pk])
  moreover have "ic_provider d = provider" using d(2) c(2) by (simp add: connection_since_def)
  ultimately show ?thesis
    using d(2) assms(3) tfind_unique [of ic_provider _ d] by (auto simp: find_connection_def vault_inv_def vault_tables_def)
qed

text \<open>
  C37: two edits of a connection cannot both be based on the same version.  Once a replacement of the credential, a
  change of the configuration or a disabling has succeeded with an expected version, every later edit and
  every later test of that provider that expects this version is refused as a version conflict, whatever
  happened in between.
\<close>

theorem stale_version_refused:
  assumes "vault_init s0" and "(vault_step e)\<^sup>*\<^sup>* s0 (v, ts)" and "edited_by e provider expected v c v1"
    and "(vault_step e)\<^sup>*\<^sup>* (v1, ts) (v2, ts2)" and "credential \<noteq> []" and "length credential \<le> 16384" and "1 \<le> expected"
  shows "replace_credential e now dr provider credential expected actor v2 = Inl (ServiceError ''version_conflict'')
    \<and> update_configuration e now dr provider configuration expected actor v2 = Inl (ServiceError ''version_conflict'')
    \<and> disable_connection e now dr provider expected actor v2 = Inl (ServiceError ''version_conflict'')
    \<and> begin_test provider expected v2 = Inl (ServiceError ''version_conflict'')"
proof -
  have inv: "vault_inv e (v, ts)" using assms(1,2) by (rule vault_states.reachable_inv)
  have inv1: "vault_inv e (v1, ts)" using step_keeps [OF inv edited_by_step [OF assms(3)]] by simp
  have c: "find_connection provider v1 = Some c" "int (ic_version c) = expected + 1" "provider \<in> set PROVIDERS"
    using edited_by_version [OF assms(3) inv] by simp_all
  have "vault_inv e (v2, ts2)" "vault_since (v1, ts) (v2, ts2)" using run_since [OF inv1 assms(4)] by simp_all
  then obtain d where "find_connection provider v2 = Some d" "connection_since c d"
    using find_connection_since [of "(v1, ts)" "(v2, ts2)" e provider c] inv1 c(1) by auto
  with c(2,3) assms(5-7) show ?thesis by (simp add: version_conflicts connection_since_def)
qed

section \<open>The stored credential\<close>

text \<open>
  C38: what the owner stored is what a lease exposes.  After a credential was stored, and as long as the connection
  has not been edited since, an open session gets a lease for testing the connection, and using the lease
  gives exactly the stored bytes: for every key ring that still has the key, and any AEAD whose decryption
  inverts its encryption.
\<close>

theorem stored_credential_leased:
  assumes "aead_inverts (cipher (ident e))" and "vault_init s0" and "(vault_step e)\<^sup>*\<^sup>* s0 (v, ts)" and "length (vd_nonce dr) = 12"
    and "replace_credential e now dr provider credential expected actor v = Inr (c, v1)"
    and "(vault_step e)\<^sup>*\<^sup>* (v1, ts) (v2, ts2)" and "find_connection provider v2 = Some c2" and "ic_version c2 = ic_version c"
    and "session_open v2 t_lease caller" and "t_lease \<le> t_use" and "t_use < t_lease + ttl" and "ttl \<le> seconds 300"
    and "ring_path e = Some f" and "load_integration_key_ring f = Some r" and "load_integration_key_ring f2 = Some r2"
    and "map_of (ring_keys r2) (active_key_id r) = map_of (ring_keys r) (active_key_id r)" and "e2 = e\<lparr>ring_path := Some f2\<rparr>"
  shows "\<exists>x ctx ctx' l. ic_secret c2 = Some (sc_pk x) \<and> tfind sc_pk (sc_pk x) (v_secrets v2) = Some x
    \<and> lease e2 t_lease \<lparr>lq_reference = reference_to x, lq_caller = caller, lq_workflow = None, lq_purpose = CONNECTION_TEST_PURPOSE,
                        lq_ttl = ttl, lq_execution = None, lq_kind = None\<rparr> v2 = Inr ctx
    \<and> ctx_enter e2 t_use v2 ctx = (ctx', Inr l) \<and> lease_use t_use l = (l\<lparr>sl_used := True, sl_plaintext := None\<rparr>, Some credential)"
proof -
  have inv: "vault_inv e (v, ts)" using assms(2,3) by (rule vault_states.reachable_inv)
  have inv1: "vault_inv e (v1, ts)" using step_keeps [OF inv vs_replace [OF assms(5)]] by simp
  obtain x where x: "ic_secret c = Some (sc_pk x)" "tfind sc_pk (sc_pk x) (v_secrets v1) = Some x" "sealed e dr credential x"
    "find_connection provider v1 = Some c"
    using assms(5) inv by (rule replace_credential_effect)
  have inv2: "vault_inv e (v2, ts2)" and since: "vault_since (v1, ts) (v2, ts2)" using run_since [OF inv1 assms(6)] by simp_all
  obtain d where d: "find_connection provider v2 = Some d" "ic_pk d = ic_pk c" "connection_since c d"
    using find_connection_since [OF since inv1 inv2] x(4) by auto
  then have c2: "ic_secret c2 = Some (sc_pk x)" "ic_pk c2 = ic_pk c" using x(1) assms(7,8) by (auto simp: connection_since_def)
  have "tfind ic_pk (ic_pk c) (v_connections v1) = Some c" "tfind ic_pk (ic_pk c) (v_connections v2) = Some c2"
    using x(4) assms(7) inv1 inv2 tfind_unique [of ic_pk _ c] tfind_unique [of ic_pk _ c2] c2(2)
    by (auto simp: find_connection_def vault_inv_def vault_tables_def dest: tfind_in)
  then have y: "tfind sc_pk (sc_pk x) (v_secrets v2) = Some x"
    using since x(1,2) assms(8) by (auto simp: vault_since_def secrets_steady_def)
  let ?q = "\<lparr>lq_reference = reference_to x, lq_caller = caller, lq_workflow = None, lq_purpose = CONNECTION_TEST_PURPOSE,
             lq_ttl = ttl, lq_execution = None, lq_kind = None\<rparr>"
  let ?ctx = "\<lparr>lc_request = ?q, lc_expires = t_lease + ttl, lc_object = None, lc_held = False, lc_entered = False, lc_closed = False\<rparr>"
  let ?l = "\<lparr>sl_reference = reference_to x, sl_caller = caller, sl_workflow = None, sl_purpose = CONNECTION_TEST_PURPOSE,
             sl_expires = t_lease + ttl, sl_plaintext = Some credential, sl_used = False\<rparr>"
  have "lease e2 t_lease ?q v2 = Inr ?ctx"
    using assms(9-12) by (simp add: lease_def lease_request_ok_def valid_purpose_def purposes MAX_LEASE_SECONDS_def)
  moreover have "envelope_plaintext e2 x = Some credential"
    using x(3) open_sealed [OF assms(1) _ assms(4,14-16)] by (simp add: envelope_plaintext_def sealed_def assms(13,17))
  then have "open_lease e2 t_use ?q (t_lease + ttl) v2 = Inr ?l"
    using y x(3) assms(11) by (simp add: open_lease_def purposes secret_for_reference_def reference_to_def sealed_def)
  then have "ctx_enter e2 t_use v2 ?ctx = (?ctx\<lparr>lc_object := Some ?l, lc_held := True, lc_entered := True\<rparr>, Inr ?l)"
    by (simp add: ctx_enter_def)
  moreover have "lease_use t_use ?l = (?l\<lparr>sl_used := True, sl_plaintext := None\<rparr>, Some credential)"
    using assms(11) by (simp add: lease_use_def)
  ultimately show ?thesis using c2(1) y by blast
qed

end
