(* ===== verification/Vault_Session.thy ===== *)
theory Vault_Session
  imports Vault_Props
begin

text \<open>
  The life of one lease as a state machine.  The world is the lease context, the vault and the clock, the log
  of what was exposed and when, and the instant and the vault at which the lease was opened.  The holder may
  enter the context, use the lease object and leave, in any order and as often as it likes; in between
  the vault changes in any way and time passes.
\<close>

record lease_world =
  lw_context :: lease_context
  lw_vault :: vault
  lw_now :: int
  lw_log :: "(int \<times> string) list"
  lw_opened :: "(int \<times> vault) option"

inductive lease_step :: "vault_env \<Rightarrow> lease_world \<Rightarrow> lease_world \<Rightarrow> bool" for e :: vault_env where
  ls_enter: "ctx_enter e (lw_now s) (lw_vault s) (lw_context s) = (c, Inr l) \<Longrightarrow>
     lease_step e s (s\<lparr>lw_context := c, lw_opened := Some (lw_now s, lw_vault s)\<rparr>)"
| ls_refused: "ctx_enter e (lw_now s) (lw_vault s) (lw_context s) = (c, Inl x) \<Longrightarrow> lease_step e s (s\<lparr>lw_context := c\<rparr>)"
| ls_use: "ctx_use (lw_now s) (lw_context s) = (c, Some t) \<Longrightarrow> lease_step e s (s\<lparr>lw_context := c, lw_log := lw_log s @ [(lw_now s, t)]\<rparr>)"
| ls_useless: "ctx_use (lw_now s) (lw_context s) = (c, None) \<Longrightarrow> lease_step e s (s\<lparr>lw_context := c\<rparr>)"
| ls_exit: "lease_step e s (s\<lparr>lw_context := ctx_exit (lw_context s)\<rparr>)"
| ls_world: "lw_now s \<le> now \<Longrightarrow> lease_step e s (s\<lparr>lw_vault := v, lw_now := now\<rparr>)"

text \<open>A lease that was just granted for \<open>q\<close>.\<close>

definition granted :: "vault_env \<Rightarrow> lease_request \<Rightarrow> int \<Rightarrow> lease_world \<Rightarrow> bool" where
  "granted e q issued s \<longleftrightarrow> lease e issued q (lw_vault s) = Inr (lw_context s) \<and> lw_now s = issued \<and> lw_log s = [] \<and> lw_opened s = None"

text \<open>What must have held at the instant and in the vault in which the lease was opened.\<close>

definition opened_well :: "vault_env \<Rightarrow> lease_request \<Rightarrow> int \<Rightarrow> vault \<Rightarrow> string \<Rightarrow> bool" where
  "opened_well e q t v p \<longleftrightarrow> (\<exists>x. secret_for_reference (lq_reference q) True v = Inr x \<and> sc_status x = SECRET_ACTIVE \<and> envelope_plaintext e x = Some p)
     \<and> (lq_purpose q \<in> {EVENTBRITE_WRITE_PURPOSE, ITERABLE_WRITE_PURPOSE} \<longrightarrow> lease_request_ok e t (q\<lparr>lq_ttl := seconds 1\<rparr>) v)"

definition lease_inv :: "vault_env \<Rightarrow> lease_request \<Rightarrow> int \<Rightarrow> lease_world \<Rightarrow> bool" where
  "lease_inv e q issued s \<longleftrightarrow>
     (let c = lw_context s in
       lc_request c = q \<and> lc_expires c = issued + lq_ttl q \<and> issued \<le> lw_now s
       \<and> (lc_held c \<longleftrightarrow> lc_entered c \<and> \<not> lc_closed c)
       \<and> (case lw_opened s of
            None \<Rightarrow> \<not> lc_entered c \<and> lc_object c = None \<and> lw_log s = []
          | Some (t0, v0) \<Rightarrow> lc_entered c \<and> issued \<le> t0 \<and> t0 \<le> lw_now s
              \<and> (\<exists>l p. lc_object c = Some l \<and> sl_expires l = issued + lq_ttl q \<and> opened_well e q t0 v0 p
                   \<and> (lc_closed c \<longrightarrow> sl_plaintext l = None)
                   \<and> (sl_plaintext l \<noteq> None \<longrightarrow> sl_plaintext l = Some p \<and> \<not> sl_used l \<and> lw_log s = [])
                   \<and> (lw_log s = [] \<or> (\<exists>t. lw_log s = [(t, p)] \<and> t0 \<le> t \<and> t < issued + lq_ttl q)))))"

lemma lease_granted:
  "lease e now q v = Inr c \<longleftrightarrow> lease_request_ok e now q v
     \<and> c = \<lparr>lc_request = q, lc_expires = now + lq_ttl q, lc_object = None, lc_held = False, lc_entered = False, lc_closed = False\<rparr>"
  by (auto simp: lease_def)

lemma granted_inv: "granted e q issued s \<Longrightarrow> lease_inv e q issued s"
  by (simp add: granted_def lease_inv_def lease_granted Let_def)

lemma enter_cases:
  assumes "ctx_enter e now v c = (c', r)"
  obtains "lc_entered c \<or> lc_closed c" and "c' = invalidate c" and "r = Inl SecretUnavailable"
  | x where "c' = c" and "r = Inl x"
  | l where "\<not> lc_entered c" and "\<not> lc_closed c" and "open_lease e now (lc_request c) (lc_expires c) v = Inr l" and "r = Inr l"
    and "c' = c\<lparr>lc_object := Some l, lc_held := True, lc_entered := True\<rparr>"
proof (cases "lc_entered c \<or> lc_closed c")
  case True
  with assms have "c' = invalidate c" "r = Inl SecretUnavailable" by (simp_all add: ctx_enter_def)
  with True show thesis by (rule that(1))
next
  case False
  show thesis
  proof (cases "open_lease e now (lc_request c) (lc_expires c) v")
    case (Inl x)
    with False assms have "c' = c" "r = Inl x" by (simp_all add: ctx_enter_def)
    then show thesis by (rule that(2))
  next
    case (Inr l)
    with False assms have "c' = c\<lparr>lc_object := Some l, lc_held := True, lc_entered := True\<rparr>" "r = Inr l" by (simp_all add: ctx_enter_def)
    with False Inr show thesis by (intro that(3)) simp_all
  qed
qed

lemma lease_inv_invalidate: "lease_inv e q issued s \<Longrightarrow> lease_inv e q issued (s\<lparr>lw_context := invalidate (lw_context s)\<rparr>)"
  by (auto simp: lease_inv_def invalidate_def lease_close_def Let_def split: option.splits)

lemma lease_inv_use:
  assumes "lease_inv e q issued s" and "ctx_use (lw_now s) (lw_context s) = (c, r)"
  shows "lease_inv e q issued (s\<lparr>lw_context := c, lw_log := lw_log s @ (case r of None \<Rightarrow> [] | Some t \<Rightarrow> [(lw_now s, t)])\<rparr>)"
proof (cases "lw_opened s")
  case None
  with assms show ?thesis by (auto simp: lease_inv_def ctx_use_def Let_def)
next
  case (Some o')
  obtain t0 v0 where o: "o' = (t0, v0)" by (cases o')
  obtain l p where l: "lc_object (lw_context s) = Some l" "opened_well e q t0 v0 p" "sl_expires l = issued + lq_ttl q"
    "sl_plaintext l \<noteq> None \<longrightarrow> sl_plaintext l = Some p \<and> \<not> sl_used l \<and> lw_log s = []" "t0 \<le> lw_now s"
    using assms(1) Some o by (auto simp: lease_inv_def Let_def)
  show ?thesis
  proof (cases "sl_used l \<or> sl_plaintext l = None \<or> lw_now s \<ge> sl_expires l")
    case True
    then have "c = lw_context s\<lparr>lc_object := Some (lease_close l)\<rparr>" "r = None"
      using assms(2) l(1) by (auto simp: ctx_use_def lease_use_def)
    then show ?thesis using assms(1) Some o l(1) by (auto simp: lease_inv_def Let_def lease_close_def)
  next
    case False
    then have "c = lw_context s\<lparr>lc_object := Some (l\<lparr>sl_used := True, sl_plaintext := None\<rparr>)\<rparr>" "r = Some p"
      using assms(2) l by (auto simp: ctx_use_def lease_use_def)
    then show ?thesis using assms(1) Some o l False by (auto simp: lease_inv_def Let_def)
  qed
qed

lemma lease_inv_step:
  assumes "lease_inv e q issued s" and "lease_step e s s'"
  shows "lease_inv e q issued s'"
  using assms(2,1)
proof (cases rule: lease_step.cases)
  case (ls_enter c l)
  from ls_enter(2) show ?thesis
  proof (cases rule: enter_cases)
    case (3 l')
    from 3(3) obtain x p where x: "secret_for_reference (lq_reference (lc_request (lw_context s))) True (lw_vault s) = Inr x" "sc_status x = SECRET_ACTIVE" "envelope_plaintext e x = Some p"
      "lq_purpose (lc_request (lw_context s)) \<in> {EVENTBRITE_WRITE_PURPOSE, ITERABLE_WRITE_PURPOSE}
         \<longrightarrow> lease_request_ok e (lw_now s) (lc_request (lw_context s)\<lparr>lq_ttl := seconds 1\<rparr>) (lw_vault s)"
      "sl_expires l' = lc_expires (lw_context s)" "sl_plaintext l' = Some p" "\<not> sl_used l'"
      by (rule open_leaseE) auto
    have c: "lc_request (lw_context s) = q" "lc_expires (lw_context s) = issued + lq_ttl q" "issued \<le> lw_now s" "lw_log s = []"
      using assms(1) 3(1) by (auto simp: lease_inv_def Let_def split: option.splits)
    have "opened_well e q (lw_now s) (lw_vault s) p" using x(1-4) c(1) by (auto simp: opened_well_def)
    then show ?thesis using 3(1,2,5) x(5-7) c by (auto simp: lease_inv_def ls_enter(1) Let_def)
  qed auto
next
  case (ls_refused c x)
  from ls_refused(2) show ?thesis
    using assms(1) lease_inv_invalidate by (cases rule: enter_cases) (auto simp: ls_refused(1))
next
  case (ls_use c t)
  with lease_inv_use [OF assms(1) ls_use(2)] show ?thesis by simp
next
  case (ls_useless c)
  with lease_inv_use [OF assms(1) ls_useless(2)] show ?thesis by simp
next
  case ls_exit
  with lease_inv_invalidate [OF assms(1)] show ?thesis by (simp add: ctx_exit_def)
next
  case (ls_world now v)
  then show ?thesis using assms(1) by (auto simp: lease_inv_def Let_def split: option.splits)
qed

interpretation lease_life: state_machine "granted e q issued" "lease_step e" "lease_inv e q issued" for e q issued
  by unfold_locales (use granted_inv lease_inv_step in blast)+

text \<open>
  C4: a lease exposes a credential at most once, and only within its time: less than its time to live, which is at
  most five minutes, after it was granted, and not before it was opened.  What it exposes is the secret that the
  reference named at the instant of opening: at that version, active then, decrypted from its envelope; and
  for the purpose of a provider write, every condition of the write held again at that instant.  Once the
  context is closed no plaintext is left in the lease object.
\<close>

theorem lease_exposes_once:
  assumes "granted e q issued s0" and "(lease_step e)\<^sup>*\<^sup>* s0 s"
  shows "length (lw_log s) \<le> 1 \<and> lq_ttl q \<le> seconds 300
    \<and> (\<forall>(t, p) \<in> set (lw_log s). issued \<le> t \<and> t < issued + lq_ttl q
         \<and> (\<exists>t0 v0 x. lw_opened s = Some (t0, v0) \<and> t0 \<le> t \<and> tfind sc_pk (sr_id (lq_reference q)) (v_secrets v0) = Some x
              \<and> reference_to x = lq_reference q \<and> sc_status x = SECRET_ACTIVE \<and> envelope_plaintext e x = Some p
              \<and> (lq_purpose q = EVENTBRITE_WRITE_PURPOSE \<longrightarrow> eventbrite_write_ok e v0 t0 q)
              \<and> (lq_purpose q = ITERABLE_WRITE_PURPOSE \<longrightarrow> iterable_write_ok e v0 t0 q)))
    \<and> (lc_closed (lw_context s) \<longrightarrow> (\<forall>l. lc_object (lw_context s) = Some l \<longrightarrow> sl_plaintext l = None))"
proof -
  have inv: "lease_inv e q issued s" using assms by (rule lease_life.reachable_inv)
  have ttl: "lq_ttl q \<le> seconds 300"
    using assms(1) by (auto simp: granted_def lease_def lease_request_ok_def MAX_LEASE_SECONDS_def split: if_splits)
  have writes: "eventbrite_write_ok e v t (q\<lparr>lq_ttl := n\<rparr>) = eventbrite_write_ok e v t q" "iterable_write_ok e v t (q\<lparr>lq_ttl := n\<rparr>) = iterable_write_ok e v t q"
    for v t n by (simp_all add: eventbrite_write_ok_def iterable_write_ok_def split: option.split)
  show ?thesis
  proof (cases "lw_opened s")
    case None
    with inv ttl show ?thesis by (auto simp: lease_inv_def Let_def)
  next
    case (Some o')
    obtain t0 v0 where o: "o' = (t0, v0)" by (cases o')
    obtain l p where l: "issued \<le> t0" "lc_object (lw_context s) = Some l" "opened_well e q t0 v0 p" "lc_closed (lw_context s) \<longrightarrow> sl_plaintext l = None"
      "lw_log s = [] \<or> (\<exists>t. lw_log s = [(t, p)] \<and> t0 \<le> t \<and> t < issued + lq_ttl q)"
      using inv Some o by (auto simp: lease_inv_def Let_def)
    obtain x where x: "secret_for_reference (lq_reference q) True v0 = Inr x" "sc_status x = SECRET_ACTIVE" "envelope_plaintext e x = Some p"
      using l(3) by (auto simp: opened_well_def)
    have "(lq_purpose q = EVENTBRITE_WRITE_PURPOSE \<longrightarrow> eventbrite_write_ok e v0 t0 q) \<and> (lq_purpose q = ITERABLE_WRITE_PURPOSE \<longrightarrow> iterable_write_ok e v0 t0 q)"
      using l(3) by (auto simp: opened_well_def lease_request_ok_def writes)
    with secret_for_referenceE [OF x(1)] x(2,3) l ttl Some o show ?thesis by auto
  qed
qed

end
