(* ===== verification/Vault_Drafts.thy ===== *)
theory Vault_Drafts
  imports Vault_Session
begin

text \<open>
  The credential store and its neighbours.  A draft operation that has been claimed on the tables that
  \<open>app_view\<close> shows gets its lease; an owner session that the identity application revoked gets none.
\<close>

section \<open>The tables of the draft operations\<close>

lemma app_view_back:
  assumes "sessions s = sessions (app_view v)" and "profiles s = profiles (app_view v)" and "active_users s = active_users (app_view v)"
    and "connections s = connections (app_view v)"
  shows "app_view (v\<lparr>v_app := s\<rparr>) = s"
  using assms by (simp add: app_view_def connection_row_def secret_of_def)

text \<open>The validation does not look at the table of the drafts, nor at the columns that a claim writes.\<close>

lemma lookups_drafts [simp]:
  "intent_of (s\<lparr>drafts := t\<rparr>) k = intent_of s k" "run_of (s\<lparr>drafts := t\<rparr>) k = run_of s k" "workflow_of (s\<lparr>drafts := t\<rparr>) i = workflow_of s i"
  "actor_of (s\<lparr>drafts := t\<rparr>) u ro = actor_of s u ro" "session_of (s\<lparr>drafts := t\<rparr>) now u sid = session_of s now u sid"
  "proof_ok (s\<lparr>drafts := t\<rparr>) n a se = proof_ok s n a se"
  by (simp_all add: intent_of_def run_of_def workflow_of_def actor_of_def session_of_def session_live_def proof_ok_def split: option.split)

lemma validate_intent_drafts [simp]: "validate_intent e (s\<lparr>drafts := t\<rparr>) i run = validate_intent e s i run"
  by (simp add: validate_intent_def)

definition claim_of :: "int \<Rightarrow> draft_execution \<Rightarrow> draft_execution" where
  "claim_of now x = x\<lparr>dx_status := DX_EXECUTING, dx_claimed_at := Some now, dx_provider := (if dx_action x = ''update'' then dx_event x else dx_provider x)\<rparr>"

lemma claim_columns [simp]:
  "dx_pk (claim_of now x) = dx_pk x" "dx_intent (claim_of now x) = dx_intent x" "dx_run (claim_of now x) = dx_run x"
  "dx_submitter (claim_of now x) = dx_submitter x" "dx_approver (claim_of now x) = dx_approver x" "dx_action (claim_of now x) = dx_action x"
  "dx_organization (claim_of now x) = dx_organization x" "dx_event (claim_of now x) = dx_event x" "dx_expected (claim_of now x) = dx_expected x"
  "dx_configuration (claim_of now x) = dx_configuration x" "dx_payload (claim_of now x) = dx_payload x" "dx_request (claim_of now x) = dx_request x"
  "dx_review (claim_of now x) = dx_review x" "dx_session (claim_of now x) = dx_session x" "dx_approved_at (claim_of now x) = dx_approved_at x"
  "dx_status (claim_of now x) = DX_EXECUTING" "dx_claimed_at (claim_of now x) = Some now"
  by (simp_all add: claim_of_def)

lemma eventbrite_review_claim [simp]: "eventbrite_review e z (s\<lparr>drafts := t\<rparr>) i run (claim_of now x) = eventbrite_review e z s i run x"
  by (simp add: eventbrite_review_def review_def)

text \<open>A live session whose second factor precedes the approval is also the recorded proof of it.\<close>

lemma live_is_proof:
  assumes "session_of s now (Some u) sid = Inr se" and "keys_ok se_pk (sessions s)" and "se_mfa se = Some m" and "m \<le> a" and "a \<le> now"
  shows "tfind se_pk sid (sessions s) = Some se \<and> proof_ok s u (Some a) se = Inr ()"
proof -
  have f: "find (\<lambda>se. se_pk se = sid \<and> session_live s now u se) (sessions s) = Some se" and u: "u \<in> set (active_users s)"
    using assms(1) by (auto simp: session_of_def result_simps split: if_splits)
  then have se: "se \<in> set (sessions s)" "se_pk se = sid" "session_live s now u se" by (auto simp: find_Some_iff)
  from se(3) u assms(3-5) have "proof_ok s u (Some a) se = Inr ()"
    by (auto simp: session_live_def proof_ok_def demand_def split: option.splits)
  with tfind_unique [OF assms(2) se(1)] se(2) show ?thesis by simp
qed

lemma approval_ok_claim:
  assumes "approval_ok s now True x = Inr ()" and "keys_ok se_pk (sessions s)" and "dx_approved_at x = Some a" and "a \<le> now"
    and "\<And>se m. dx_session x = Some (se_pk se) \<Longrightarrow> se \<in> set (sessions s) \<Longrightarrow> se_mfa se = Some m \<Longrightarrow> m \<le> a"
  shows "approval_ok (s\<lparr>drafts := t\<rparr>) now live (claim_of n x) = Inr ()"
proof (cases "dx_approver x")
  case None
  then show ?thesis by (simp add: approval_ok_def)
next
  case (Some u)
  then obtain sid se where se: "dx_session x = Some sid" "session_of s now (Some u) sid = Inr se"
    using assms(1) by (auto simp: approval_ok_def result_simps split: option.splits)
  then have m: "se \<in> set (sessions s)" "se_pk se = sid" "se_mfa se \<noteq> None"
    by (auto simp: session_of_def session_live_def find_Some_iff result_simps split: if_splits)
  then obtain mf where mf: "se_mfa se = Some mf" "mf \<le> a" using assms(5) se(1) by auto
  from live_is_proof [OF se(2) assms(2) mf assms(4)] Some se assms(3) show ?thesis by (simp add: approval_ok_def)
qed

lemma claimed_validates:
  assumes "validate_execution e z s now True DraftKind x = Inr ()" and "intent_of s (dx_intent x) = Inr i" and "in_provider i = ''eventbrite''"
    and "keys_ok se_pk (sessions s)" and "dx_approved_at x = Some a" and "a \<le> now"
    and "\<And>se m. dx_session x = Some (se_pk se) \<Longrightarrow> se \<in> set (sessions s) \<Longrightarrow> se_mfa se = Some m \<Longrightarrow> m \<le> a"
  shows "validate_execution e z (s\<lparr>drafts := t\<rparr>) now live DraftKind (claim_of n x) = Inr ()"
proof -
  have ok: "approval_ok s now True x = Inr ()"
    using assms(1-3) by (auto simp: validate_execution_def validate_draft_def validated_def result_simps)
  from approval_ok_claim [OF this assms(4-7)] assms(1-3) show ?thesis
    by (auto simp: validate_execution_def validate_draft_def validated_def result_simps)
qed

lemma claim_draftE:
  assumes "claim_draft e z now atomic (Some u) sid pk s = Inr (y, s')"
  obtains x where "find_row DraftKind pk s = Inr x" and "validate_execution e z s now True DraftKind x = Inr ()" and "dx_approver x = Some u"
    and "y = claim_of now x" and "constraints_ok y" and "s' = s\<lparr>drafts := drafts s'\<rparr>" and "tfind dx_pk pk (drafts s') = Some y"
    and "eventbrite_enabled s" and "\<exists>se. session_of s now (Some u) sid = Inr se" and "\<exists>c. reference_of s ''eventbrite'' = Inr c"
proof -
  obtain x where x: "find_row DraftKind pk s = Inr x" "validate_execution e z s now True DraftKind x = Inr ()" "Some u = dx_approver x"
    "eventbrite_enabled s" "\<exists>se. session_of s now (Some u) sid = Inr se" "\<exists>c. reference_of s ''eventbrite'' = Inr c"
    "save_row DraftKind (claim_of now x) s = Inr s'" "y = claim_of now x"
    using assms by (auto simp: claim_draft_def claim_of_def Let_def demand_def result_simps split: if_splits)
  obtain t where t: "save_execution (claim_of now x) (drafts s) = Inr t" "s' = s\<lparr>drafts := t\<rparr>"
    using x(7) by (auto simp: save_row_def table_of_def with_table_def result_simps elim!: lift_table.elims)
  have pk: "dx_pk x = pk" using x(1) by (auto simp: find_row_def result_simps dest: tfind_key)
  have "constraints_ok (claim_of now x)" using t(1) by (auto simp: save_execution_def split: option.splits if_splits)
  moreover have "tfind dx_pk pk (drafts s') = Some y" using execution_table.stored [OF t(1)] pk x(8) t(2) by simp
  ultimately show thesis using x t(2) by (intro that [of x]) simp_all
qed

section \<open>The lease of a claimed draft\<close>

text \<open>What \<open>draft_operations\<close> asks for after the claim.\<close>

definition write_request :: "secret_reference \<Rightarrow> uuid \<Rightarrow> uuid \<Rightarrow> uuid \<Rightarrow> lease_request" where
  "write_request r sid wk pk = \<lparr>lq_reference = r, lq_caller = sid, lq_workflow = Some wk, lq_purpose = EVENTBRITE_WRITE_PURPOSE,
     lq_ttl = seconds 60, lq_execution = Some pk, lq_kind = Some ''draft''\<rparr>"

lemma writer_of_session:
  assumes "session_of (app_view v) now (Some u) sid = Inr se" and "keys_ok se_pk (sessions (app_view v))"
  shows "writer_of v now sid = Some u" and "session_open v now sid"
proof -
  have se: "se \<in> set (sessions (app_view v))" "se_pk se = sid" "session_live (app_view v) now u se"
    using assms(1) by (auto simp: session_of_def find_Some_iff result_simps split: if_splits)
  have f: "tfind se_pk sid (sessions (app_view v)) = Some se" using tfind_unique [OF assms(2) se(1)] se(2) by simp
  then show "writer_of v now sid = Some u" using se(3) by (auto simp: writer_of_def session_live_def split: option.splits)
  obtain o' where o: "tfind se_pk sid (i_sessions (v_idw v)) = Some o'" "se = admin_session.truncate o'"
  proof -
    have "tfind se_pk k (map admin_session.truncate t) = map_option admin_session.truncate (tfind se_pk k t)" for k and t :: "owner_session list"
      by (induction t) (auto simp: admin_session.truncate_def)
    with f that show thesis by (auto simp: app_view_def)
  qed
  show "session_open v now sid" using se(3) o by (auto simp: session_open_def session_live_def app_view_def admin_session.truncate_def split: option.splits)
qed

lemma healthy_reference:
  assumes "vault_inv e (v, ts)" and "reference_of (app_view v) ''eventbrite'' = Inr r"
  obtains c x where "find_connection ''eventbrite'' v = Some c" and "ic_secret c = Some (sc_pk x)" and "tfind sc_pk (sc_pk x) (v_secrets v) = Some x"
    and "sc_status x = SECRET_ACTIVE" and "sc_provider x = ''eventbrite''" and "healthy_connection v ''eventbrite'' (reference_to x) \<noteq> None"
proof -
  have f: "tfind cn_provider p (map (connection_row v) t) = map_option (connection_row v) (tfind ic_provider p t)" for p t
    by (induction t) (auto simp: connection_row_def)
  obtain c where c: "find_connection ''eventbrite'' v = Some c" "cn_state (connection_row v c) = ''healthy''" "cn_secret_active (connection_row v c) = Some True"
    using assms(2) by (auto simp: reference_of_def app_view_def f find_connection_def demand_def result_simps split: if_splits)
  have h: "ic_state c = HEALTHY" using c(2) by (cases "ic_state c") (auto simp: connection_row_def)
  obtain x where x: "secret_of v c = Some x" "sc_status x = SECRET_ACTIVE" using c(3) by (auto simp: connection_row_def)
  then obtain i where i: "ic_secret c = Some i" "tfind sc_pk i (v_secrets v) = Some x" by (auto simp: secret_of_def bind_eq_Some_conv)
  have m: "c \<in> set (v_connections v)" "ic_provider c = ''eventbrite''" using c(1) by (auto simp: find_connection_def dest: tfind_in tfind_key [of ic_provider])
  have "sc_provider x = ''eventbrite''" using connection_secret [OF assms(1) m(1) i(1)] i(2) m(2) by auto
  moreover have "healthy_connection v ''eventbrite'' (reference_to x) \<noteq> None"
    using m h i x tfind_key [OF i(2)] by (auto simp: healthy_connection_def find_None_iff reference_to_def intro!: bexI [of _ c])
  ultimately show thesis using c(1) i x tfind_key [OF i(2)] by (intro that [of c x]) simp_all
qed


section \<open>A revoked session\<close>

text \<open>
  C40: the composition with the identity application.  Once a session is revoked there, whatever requests run
  afterwards, the store grants it no lease for any purpose, and a lease for a provider write that was granted
  before can no longer be opened.
\<close>

theorem revoked_session_no_lease:
  assumes "tfind se_pk pk (i_sessions w) = Some se" and "se_revoked se \<noteq> None" and "(id_step ie)\<^sup>*\<^sup>* w (v_idw v)" and "lq_caller q = pk"
  shows "lease e now q v = Inl SecretUnavailable
    \<and> (lq_purpose q \<in> {EVENTBRITE_WRITE_PURPOSE, ITERABLE_WRITE_PURPOSE} \<longrightarrow> open_lease e now q expires v = Inl SecretUnavailable)"
proof -
  have "first_kept se_pk session_kept (i_sessions w) (i_sessions (v_idw v))" using run_advances [OF assms(3)] by (simp add: advances_def)
  from kept_row [OF this assms(1)] obtain se' where "tfind se_pk pk (i_sessions (v_idw v)) = Some se'" "se_revoked se' \<noteq> None"
    using assms(2) by (auto simp: session_kept_def)
  then have "\<not> session_open v now pk" by (simp add: session_open_def)
  then have "\<not> lease_request_ok e now (q\<lparr>lq_ttl := n\<rparr>) v" "\<not> lease_request_ok e now q v" for n
    using assms(4) by (auto simp: lease_request_ok_def)
  then show ?thesis by (simp add: lease_def open_lease_def)
qed

end
