(* ===== verification/Draft_Inv.thy ===== *)
theory Draft_Inv
  imports Draft_Ops
begin

text \<open>
  The draft operations as a state machine: requests in flight are part of the state, so that every
  interleaving of claims, dispatches, reconciliations, crashes and changes by other applications is a
  sequence of steps.  The invariant and the properties of every reachable state follow.
\<close>

section \<open>What a step keeps of a row\<close>

definition dispatched :: "draft_execution \<Rightarrow> bool" where
  "dispatched x \<longleftrightarrow> dx_status x \<notin> {DX_PENDING, DX_APPROVED}"

definition kept :: "draft_execution \<Rightarrow> draft_execution \<Rightarrow> bool" where
  "kept old x \<longleftrightarrow> review_fields x = review_fields old
     \<and> (dx_approver old \<noteq> None \<longrightarrow> approval_fields x = approval_fields old)
     \<and> (dispatched old \<longrightarrow> dispatched x)
     \<and> (dx_claimed_at old \<noteq> None \<longrightarrow> dx_claimed_at x = dx_claimed_at old)"

lemma kept_refl [simp]: "kept x x"
  by (simp add: kept_def)

lemma kept_trans: "kept x y \<Longrightarrow> kept y z \<Longrightarrow> kept x z"
  by (auto simp: kept_def approval_fields_def)

lemma later_kept: "later old x \<Longrightarrow> kept old x"
  by (cases "dx_status old") (auto simp: later_def kept_def dispatched_def)

lemma dispatched_iff: "constraints_ok x \<Longrightarrow> dispatched x \<longleftrightarrow> dx_claimed_at x \<noteq> None"
  by (cases "dx_status x") (auto simp: constraints_ok_def execution_lifecycle_def dispatched_def)

lemma dispatched_approved: "constraints_ok x \<Longrightarrow> dispatched x \<Longrightarrow> dx_approver x \<noteq> None"
  by (auto simp: constraints_ok_def approval_required_def dispatched_def split: if_splits)

lemma mark_constraints:
  assumes "constraints_ok x" and "dispatched x" and "st \<in> {DX_UNKNOWN, DX_FAILED}"
  shows "constraints_ok (mark st c now x)" and "kept x (mark st c now x)"
  using assms dispatched_iff [OF assms(1)]
  by (auto simp: mark_def constraints_ok_def approval_required_def execution_lifecycle_def kept_def dispatched_def
      review_fields_def approval_fields_def split: if_splits)

section \<open>Tables\<close>

lemma table_with [simp]: "table_of k (with_table k t s) = t" "k \<noteq> j \<Longrightarrow> table_of k (with_table j t s) = table_of k s"
  by (cases k; cases j; simp add: table_of_def with_table_def)+

definition rows_ok :: "draft_execution list \<Rightarrow> bool" where
  "rows_ok t \<longleftrightarrow> keys_ok dx_pk t \<and> keys_ok dx_intent t \<and> (\<forall>x \<in> set t. constraints_ok x)"

definition rows_kept :: "draft_execution list \<Rightarrow> draft_execution list \<Rightarrow> bool" where
  "rows_kept t t' \<longleftrightarrow> (\<forall>pk old. tfind dx_pk pk t = Some old \<longrightarrow> (\<exists>x. tfind dx_pk pk t' = Some x \<and> kept old x))"

lemma rows_kept_refl [simp]: "rows_kept t t"
  by (simp add: rows_kept_def)

lemma rows_kept_trans: "rows_kept t u \<Longrightarrow> rows_kept u v \<Longrightarrow> rows_kept t v"
  unfolding rows_kept_def by (meson kept_trans)

text \<open>A write that keeps a stored row, by \<open>save\<close> or by \<open>update\<close>.\<close>

lemma rows_put:
  assumes t: "rows_ok t" and old: "tfind dx_pk (dx_pk x) t = Some old" and x: "constraints_ok x" "kept old x"
  shows "rows_ok (tput dx_pk x t)" and "rows_kept t (tput dx_pk x t)"
proof -
  have "dx_intent x = dx_intent old" "dx_pk x = dx_pk old" "old \<in> set t"
    using x(2) tfind_key [OF old] tfind_in [OF old] by (auto simp: kept_def review_fields_def)
  then have "keys_ok dx_intent (tput dx_pk x t)"
    using t keys_ok_tput_second [of dx_pk t old x dx_intent] by (simp add: rows_ok_def)
  then show "rows_ok (tput dx_pk x t)" using t x(1) by (auto simp: rows_ok_def dest: in_tput)
  show "rows_kept t (tput dx_pk x t)" using old x(2) by (auto simp: rows_kept_def tfind_tput)
qed

lemma save_execution_rows:
  assumes "rows_ok t" and "save_execution x t = Inr t'"
  shows "rows_ok t' \<and> rows_kept t t' \<and> tfind dx_pk (dx_pk x) t' = Some x"
proof (cases "tfind dx_pk (dx_pk x) t")
  case None
  then have t': "t' = t @ [x]" "constraints_ok x" "dx_intent x \<notin> set (map dx_intent t)"
    using assms(2) by (auto simp: save_execution_def split: if_splits)
  then have "rows_ok t'" using assms(1) None
    by (auto simp: rows_ok_def keys_ok_def tfind_None)
  moreover have "rows_kept t t'" using t'(1) by (auto simp: rows_kept_def tfind_append)
  ultimately show ?thesis using execution_table.stored [OF assms(2)] by simp
next
  case (Some old)
  then have t': "t' = tput dx_pk x t" "constraints_ok x" "kept old x"
    using assms(2) later_may later_kept by (auto simp: save_execution_def split: if_splits)
  then show ?thesis using rows_put [OF assms(1) Some t'(2,3)] execution_table.stored [OF assms(2)] by simp
qed

definition tables_ok :: "draft_db \<Rightarrow> bool" where
  "tables_ok s \<longleftrightarrow> (\<forall>k. rows_ok (table_of k s))"

definition tables_kept :: "draft_db \<Rightarrow> draft_db \<Rightarrow> bool" where
  "tables_kept s s' \<longleftrightarrow> (\<forall>k. rows_kept (table_of k s) (table_of k s'))"

lemma tables_kept_refl [simp]: "tables_kept s s"
  by (simp add: tables_kept_def)

lemma tables_kept_trans: "tables_kept s t \<Longrightarrow> tables_kept t u \<Longrightarrow> tables_kept s u"
  unfolding tables_kept_def by (meson rows_kept_trans)

lemma with_table_ok:
  assumes "tables_ok s" and "rows_ok t" and "rows_kept (table_of k s) t"
  shows "tables_ok (with_table k t s) \<and> tables_kept s (with_table k t s)"
proof -
  have "table_of j (with_table k t s) = (if j = k then t else table_of j s)" for j by simp
  with assms show ?thesis by (simp add: tables_ok_def tables_kept_def)
qed

lemma save_row_ok:
  assumes "tables_ok s" and "save_row k x s = Inr s'"
  shows "tables_ok s' \<and> tables_kept s s' \<and> tfind dx_pk (dx_pk x) (table_of k s') = Some x"
proof -
  obtain t where t: "save_execution x (table_of k s) = Inr t" and s': "s' = with_table k t s"
    using assms(2) by (cases "save_execution x (table_of k s)") (auto simp: save_row_def)
  have "rows_ok (table_of k s)" using assms(1) by (simp add: tables_ok_def)
  from save_execution_rows [OF this t] with_table_ok [OF assms(1)] s' show ?thesis by auto
qed

lemma update_row_ok:
  assumes "tables_ok s" and x: "tfind dx_pk pk (table_of k s) = Some x" and "dispatched x" and "st \<in> {DX_UNKNOWN, DX_FAILED}"
  shows "\<exists>s'. update_row k pk (mark st c now) s = Some s' \<and> tables_ok s' \<and> tables_kept s s'
    \<and> tfind dx_pk pk (table_of k s') = Some (mark st c now x)"
proof -
  have ok: "rows_ok (table_of k s)" "constraints_ok x" using assms(1) tfind_in [OF x] by (auto simp: tables_ok_def rows_ok_def)
  note m = mark_constraints [OF ok(2) assms(3,4), of c now]
  have pk: "dx_pk (mark st c now x) = pk" using tfind_key [OF x] by (simp add: mark_def)
  from rows_put [OF ok(1) _ m] pk x with_table_ok [OF assms(1)] m(1) show ?thesis
    by (simp add: update_row_def tfind_tput)
qed


section \<open>Claims\<close>

text \<open>The operations whose row says that they were handed to the provider.\<close>

definition claimed_rows :: "draft_db \<Rightarrow> (dx_kind \<times> uuid) set" where
  "claimed_rows s = {(k, pk). \<exists>x. tfind dx_pk pk (table_of k s) = Some x \<and> dispatched x}"

lemma claimed_rows_mono: "tables_kept s s' \<Longrightarrow> claimed_rows s \<subseteq> claimed_rows s'"
  by (fastforce simp: claimed_rows_def tables_kept_def rows_kept_def kept_def)

lemma save_row_other:
  assumes "save_row k x s = Inr s'" and "(j, pk) \<noteq> (k, dx_pk x)"
  shows "tfind dx_pk pk (table_of j s') = tfind dx_pk pk (table_of j s)"
proof -
  obtain t where t: "save_execution x (table_of k s) = Inr t" and s': "s' = with_table k t s"
    using assms(1) by (cases "save_execution x (table_of k s)") (auto simp: save_row_def)
  show ?thesis
  proof (cases "j = k")
    case True
    with assms(2) execution_table.store_other [OF t] s' show ?thesis by simp
  qed (use s' in simp)
qed

lemma save_row_claimed:
  assumes "tables_ok s" and "save_row k x s = Inr s'"
  shows "claimed_rows s' = claimed_rows s \<union> (if dispatched x then {(k, dx_pk x)} else {})"
proof -
  note ok = save_row_ok [OF assms]
  have "(j, pk) \<in> claimed_rows s' \<longleftrightarrow> (j, pk) \<in> claimed_rows s \<union> (if dispatched x then {(k, dx_pk x)} else {})" for j pk
  proof (cases "(j, pk) = (k, dx_pk x)")
    case True
    have "(k, dx_pk x) \<in> claimed_rows s' \<longleftrightarrow> dispatched x" using ok by (simp add: claimed_rows_def)
    moreover have "(k, dx_pk x) \<in> claimed_rows s \<Longrightarrow> (k, dx_pk x) \<in> claimed_rows s'" using claimed_rows_mono ok by blast
    ultimately show ?thesis using True by auto
  next
    case False
    then show ?thesis using save_row_other [OF assms(2), of j pk] by (auto simp: claimed_rows_def)
  qed
  then show ?thesis by auto
qed

lemma update_row_claimed:
  assumes "tables_ok s" and x: "tfind dx_pk pk (table_of k s) = Some x" and "dispatched x" and st: "st \<in> {DX_UNKNOWN, DX_FAILED}"
    and s': "update_row k pk (mark st c now) s = Some s'"
  shows "claimed_rows s' = claimed_rows s"
proof -
  note u = update_row_ok [OF assms(1-4), of c now]
  have "constraints_ok (mark st c now x)" using s' x by (simp add: update_row_def split: if_splits)
  then have t: "s' = with_table k (tput dx_pk (mark st c now x) (table_of k s)) s" using s' x by (simp add: update_row_def)
  have "(j, i) \<in> claimed_rows s'" if "(j, i) \<in> claimed_rows s" for j i
    using that claimed_rows_mono u s' by fastforce
  moreover have "(j, i) \<in> claimed_rows s" if "(j, i) \<in> claimed_rows s'" for j i
  proof (cases "(j, i) = (k, pk)")
    case True
    then show ?thesis using x assms(3) by (simp add: claimed_rows_def)
  next
    case False
    have "dx_pk (mark st c now x) = pk" using tfind_key [OF x] by (simp add: mark_def)
    then have "tfind dx_pk i (table_of j s') = tfind dx_pk i (table_of j s)"
      using False t by (cases "j = k") (auto simp: tfind_tput)
    with that show ?thesis by (simp add: claimed_rows_def)
  qed
  ultimately show ?thesis by auto
qed

section \<open>The operations\<close>

lemma demand_Inr [simp]: "demand b = Inr u \<longleftrightarrow> b"
  by (auto simp: demand_def)

lemma submit_row_result:
  assumes "submit_row k u x s = Inr (y, s')"
  shows "s' = s \<or> save_row k x s = Inr s'"
  using assms by (auto simp: submit_row_def try_bind_eq_Inr split: option.splits if_splits)

lemma new_row_not_dispatched: "\<not> dispatched ((new_row pk i r u a o' ev ex cfg p)\<lparr>dx_request := q, dx_review := v\<rparr>)"
  by (simp add: dispatched_def new_row_def)

lemma submit_new_row:
  assumes "submit_row k u ((new_row pk i r v a org ev ex cfg p)\<lparr>dx_request := q, dx_review := w\<rparr>) s = Inr (y, s')"
  shows "s' = s \<or> (\<exists>x. save_row k x s = Inr s' \<and> \<not> dispatched x)"
  using submit_row_result [OF assms] new_row_not_dispatched by blast

lemma new_iterable_result:
  assumes "new_iterable_operation e zone now pk k user i r p cfg s = Inr (y, s')"
  shows "s' = s \<or> (\<exists>x. save_row k x s = Inr s' \<and> \<not> dispatched x)"
  using assms unfolding new_iterable_operation_def Let_def
  by (auto simp: try_bind_eq_Inr simp del: demand_Inr dest!: submit_new_row)

lemma submit_draft_result:
  assumes "submit_draft e zone now pk user i r a org ev ex p cfg s = Inr (y, s')"
  shows "s' = s \<or> (\<exists>x. save_row DraftKind x s = Inr s' \<and> \<not> dispatched x)"
  using assms unfolding submit_draft_def submit_iterable_campaign_def submit_eventbrite_def
  by (auto simp: try_bind_eq_Inr split: if_splits dest!: submit_new_row new_iterable_result)

lemma submit_template_result:
  assumes "submit_template e zone now pk user i r sender region s = Inr (y, s')"
  shows "s' = s \<or> (\<exists>x. save_row TemplateKind x s = Inr s' \<and> \<not> dispatched x)"
  using assms unfolding submit_template_def
  by (auto simp: try_bind_eq_Inr dest!: new_iterable_result)

lemma approve_operation_result:
  assumes "approve_operation e zone now k user sid pk rv revision s = Inr (y, s')"
  shows "save_row k y s = Inr s' \<and> \<not> dispatched y"
  using assms by (auto simp: approve_operation_def Let_def try_bind_eq_Inr dispatched_def)

text \<open>What both claims have checked, and what they write.\<close>

definition claim_facts :: "py_env \<Rightarrow> (string \<Rightarrow> bool) \<Rightarrow> int \<Rightarrow> dx_kind \<Rightarrow> nat option \<Rightarrow> uuid \<Rightarrow> draft_db \<Rightarrow> draft_execution \<Rightarrow> draft_execution \<Rightarrow> draft_db \<Rightarrow> bool" where
  "claim_facts e zone now k user pk s x y s' \<longleftrightarrow>
     tfind dx_pk pk (table_of k s) = Some x \<and> validate_execution e zone s now True k x = Inr ()
     \<and> user = dx_approver x \<and> user \<noteq> None \<and> dx_status x = DX_APPROVED
     \<and> save_row k y s = Inr s' \<and> dx_status y = DX_EXECUTING \<and> dx_pk y = pk \<and> dx_claimed_at y = Some now
     \<and> review_fields y = review_fields x \<and> approval_fields y = approval_fields x"

lemma claim_draft_facts:
  assumes "claim_draft e zone now atomic user sid pk s = Inr (y, s')"
  shows "\<exists>x. claim_facts e zone now DraftKind user pk s x y s'"
  using assms unfolding claim_draft_def Let_def claim_facts_def
  by (auto simp: try_bind_eq_Inr find_row_def of_option_eq_Inr review_fields_def approval_fields_def dest: tfind_key)

lemma claim_iterable_facts:
  assumes "claim_iterable e zone now atomic k False user sid pk s = Inr (y, s')"
  shows "\<exists>x. claim_facts e zone now k user pk s x y s'"
  using assms unfolding claim_iterable_def Let_def claim_facts_def
  by (auto simp: try_bind_eq_Inr find_row_def of_option_eq_Inr review_fields_def approval_fields_def dest: tfind_key)

lemma claim_again_facts:
  assumes "claim_iterable e zone now atomic k True user sid pk s = Inr (y, s')"
  shows "s' = s \<and> tfind dx_pk (dx_pk y) (table_of k s) = Some y \<and> dispatched y"
  using assms unfolding claim_iterable_def Let_def
  by (auto simp: try_bind_eq_Inr find_row_def of_option_eq_Inr dispatched_def dest: tfind_key)

lemma reconcile_begin_facts:
  assumes "reconcile_begin e zone now atomic user sid pk s = Inr y"
  shows "tfind dx_pk (dx_pk y) (table_of DraftKind s) = Some y \<and> dispatched y"
  using assms unfolding reconcile_begin_def
  by (auto simp: try_bind_eq_Inr find_row_def of_option_eq_Inr dispatched_def dest: tfind_key)


lemma with_receipt_dispatched [simp]: "dispatched (with_receipt now rc x)" "dx_pk (with_receipt now rc x) = dx_pk x"
  by (simp_all add: with_receipt_def dispatched_def)

text \<open>What every write about a row that was already claimed does to the tables.\<close>

definition settled_write :: "draft_db \<Rightarrow> draft_db \<Rightarrow> bool" where
  "settled_write s s' \<longleftrightarrow> tables_ok s' \<and> tables_kept s s' \<and> claimed_rows s' = claimed_rows s"

lemma receipt_settles:
  assumes "tables_ok s" and "tfind dx_pk (dx_pk x) (table_of k s) = Some y" and "dispatched y"
    and "save_row k (with_receipt now rc x) s = Inr s'"
  shows "settled_write s s'"
proof -
  have "(k, dx_pk x) \<in> claimed_rows s" using assms(2,3) by (simp add: claimed_rows_def)
  then show ?thesis using save_row_ok [OF assms(1,4)] save_row_claimed [OF assms(1,4)] by (auto simp: settled_write_def)
qed

lemma mark_settles:
  assumes "tables_ok s" and "tfind dx_pk pk (table_of k s) = Some y" and "dispatched y" and "st \<in> {DX_UNKNOWN, DX_FAILED}"
  shows "\<exists>s'. update_row k pk (mark st c now) s = Some s' \<and> settled_write s s'"
  using update_row_ok [OF assms, of c now] update_row_claimed [OF assms, of c now] by (auto simp: settled_write_def)

lemma finish_iterable_ok:
  assumes "tables_ok s" and "tfind dx_pk (dx_pk x) (table_of k s) = Some y" and "dispatched y"
  shows "\<exists>s'. finish_iterable now k x r s = Some s' \<and> settled_write s s'"
proof -
  note m = mark_settles [OF assms, of DX_UNKNOWN "''dispatch_unconfirmed''" now]
  show ?thesis
  proof (cases "\<exists>rc s'. r = Got rc \<and> iterable_store_receipt now k x rc s = Inr s'")
    case True
    then obtain rc s' where r: "r = Got rc" "iterable_store_receipt now k x rc s = Inr s'" by blast
    then have "save_row k (with_receipt now rc x) s = Inr s'" by (simp add: iterable_store_receipt_def split: if_splits)
    from receipt_settles [OF assms this] r show ?thesis by (simp add: finish_iterable_def)
  qed (use m in \<open>auto simp: finish_iterable_def Let_def split: outcome.splits sum.splits\<close>)
qed

lemma finish_draft_ok:
  assumes "tables_ok s" and "tfind dx_pk (dx_pk x) (table_of DraftKind s) = Some y" and "dispatched y"
  shows "\<exists>s'. finish_draft now x r s = Some s' \<and> settled_write s s'"
proof -
  note m = mark_settles [OF assms, of DX_UNKNOWN "''dispatch_unconfirmed''" now]
    mark_settles [OF assms, of DX_FAILED _ now]
  show ?thesis
  proof (cases "\<exists>rc s'. r = Got rc \<and> store_receipt now x rc s = Inr s'")
    case True
    then obtain rc s' where r: "r = Got rc" "store_receipt now x rc s = Inr s'" by blast
    then have "save_row DraftKind (with_receipt now rc x) s = Inr s'" by (simp add: store_receipt_def split: if_splits)
    from receipt_settles [OF assms this] r show ?thesis by (simp add: finish_draft_def)
  qed (use m in \<open>auto simp: finish_draft_def Let_def split: outcome.splits sum.splits\<close>)
qed

section \<open>The state machine\<close>

datatype flight = F_draft | F_iterable | F_reconcile

record machine =
  here :: draft_db
  flying :: "(flight \<times> dx_kind \<times> draft_execution) list"
  claims :: "(dx_kind \<times> uuid) list"

text \<open>
  A dispatch in flight holds the row as it was claimed, and may come back with any outcome at any later
  time, or never (a crash).  Every table but the two execution tables may change between the steps.
\<close>

inductive ops_step :: "py_env \<Rightarrow> (string \<Rightarrow> bool) \<Rightarrow> machine \<Rightarrow> machine \<Rightarrow> bool" for e zone where
  submit: "submit_draft e zone now pk user i r a org ev ex p cfg (here m) = Inr (y, s') \<Longrightarrow> ops_step e zone m (m\<lparr>here := s'\<rparr>)"
| submit_t: "submit_template e zone now pk user i r sender region (here m) = Inr (y, s') \<Longrightarrow> ops_step e zone m (m\<lparr>here := s'\<rparr>)"
| approve: "approve_draft e zone now user sid pk rv revision (here m) = Inr (y, s') \<Longrightarrow> ops_step e zone m (m\<lparr>here := s'\<rparr>)"
| approve_t: "approve_template e zone now user sid pk rv revision (here m) = Inr (y, s') \<Longrightarrow> ops_step e zone m (m\<lparr>here := s'\<rparr>)"
| claim: "claim_draft e zone now atomic user sid pk (here m) = Inr (y, s') \<Longrightarrow>
    ops_step e zone m (m\<lparr>here := s', flying := (F_draft, DraftKind, y) # flying m, claims := claims m @ [(DraftKind, pk)]\<rparr>)"
| claim_i: "claim_iterable e zone now atomic k False user sid pk (here m) = Inr (y, s') \<Longrightarrow>
    ops_step e zone m (m\<lparr>here := s', flying := (F_iterable, k, y) # flying m, claims := claims m @ [(k, pk)]\<rparr>)"
| again_i: "claim_iterable e zone now atomic k True user sid pk (here m) = Inr (y, s') \<Longrightarrow>
    ops_step e zone m (m\<lparr>here := s', flying := (F_iterable, k, y) # flying m\<rparr>)"
| again: "reconcile_begin e zone now atomic user sid pk (here m) = Inr y \<Longrightarrow>
    ops_step e zone m (m\<lparr>flying := (F_reconcile, DraftKind, y) # flying m\<rparr>)"
| finish: "(F_draft, DraftKind, x) \<in> set (flying m) \<Longrightarrow> finish_draft now x r (here m) = Some s' \<Longrightarrow>
    ops_step e zone m (m\<lparr>here := s', flying := remove1 (F_draft, DraftKind, x) (flying m)\<rparr>)"
| finish_i: "(F_iterable, k, x) \<in> set (flying m) \<Longrightarrow> finish_iterable now k x r (here m) = Some s' \<Longrightarrow>
    ops_step e zone m (m\<lparr>here := s', flying := remove1 (F_iterable, k, x) (flying m)\<rparr>)"
| reconcile: "(F_reconcile, DraftKind, x) \<in> set (flying m) \<Longrightarrow> store_receipt now x rc (here m) = Inr s' \<Longrightarrow>
    ops_step e zone m (m\<lparr>here := s', flying := remove1 (F_reconcile, DraftKind, x) (flying m)\<rparr>)"
| crash: "ops_step e zone m (m\<lparr>flying := remove1 f (flying m)\<rparr>)"
| other: "\<forall>k. table_of k s' = table_of k (here m) \<Longrightarrow> ops_step e zone m (m\<lparr>here := s'\<rparr>)"

definition ops_init :: "machine \<Rightarrow> bool" where
  "ops_init m \<longleftrightarrow> drafts (here m) = [] \<and> templates (here m) = [] \<and> flying m = [] \<and> claims m = []"

definition in_flight :: "draft_db \<Rightarrow> flight \<times> dx_kind \<times> draft_execution \<Rightarrow> bool" where
  "in_flight s f = (case f of (_, k, x) \<Rightarrow> dispatched x \<and> (\<exists>y. tfind dx_pk (dx_pk x) (table_of k s) = Some y \<and> kept x y))"

definition ops_inv :: "machine \<Rightarrow> bool" where
  "ops_inv m \<longleftrightarrow> tables_ok (here m) \<and> distinct (claims m) \<and> set (claims m) = claimed_rows (here m)
     \<and> (\<forall>f \<in> set (flying m). in_flight (here m) f)"

lemma in_flight_kept: "in_flight s f \<Longrightarrow> tables_kept s s' \<Longrightarrow> in_flight s' f"
  unfolding in_flight_def tables_kept_def rows_kept_def
  by (auto split: prod.splits intro: kept_trans) (meson kept_trans)

lemma in_flight_row:
  assumes "in_flight s (f, k, x)"
  obtains y where "tfind dx_pk (dx_pk x) (table_of k s) = Some y" and "dispatched y" and "kept x y"
  using assms by (auto simp: in_flight_def kept_def)

lemma ops_inv_settled:
  assumes "ops_inv m" and "settled_write (here m) s'" and "set fs \<subseteq> set (flying m)"
  shows "ops_inv (m\<lparr>here := s', flying := fs\<rparr>)"
  using assms in_flight_kept by (fastforce simp: ops_inv_def settled_write_def)

lemma settled_self [simp]: "tables_ok s \<Longrightarrow> settled_write s s"
  by (simp add: settled_write_def)

lemma save_unclaimed_settles:
  assumes "tables_ok s" and "save_row k x s = Inr s'" and "\<not> dispatched x"
  shows "settled_write s s'"
  using save_row_ok [OF assms(1,2)] save_row_claimed [OF assms(1,2)] assms(3) by (simp add: settled_write_def)

lemma ops_inv_claim:
  assumes "ops_inv m" and "claim_facts e zone now k user pk (here m) x y s'"
  shows "ops_inv (m\<lparr>here := s', flying := (f, k, y) # flying m, claims := claims m @ [(k, pk)]\<rparr>)"
proof -
  have ok: "tables_ok (here m)" and cl: "set (claims m) = claimed_rows (here m)" "distinct (claims m)"
    using assms(1) by (auto simp: ops_inv_def)
  have y: "save_row k y (here m) = Inr s'" "dispatched y" "dx_pk y = pk" and
    x: "tfind dx_pk pk (table_of k (here m)) = Some x" "\<not> dispatched x"
    using assms(2) by (auto simp: claim_facts_def dispatched_def)
  note w = save_row_ok [OF ok y(1)] save_row_claimed [OF ok y(1)]
  have "(k, pk) \<notin> claimed_rows (here m)" using x by (simp add: claimed_rows_def)
  moreover have "in_flight s' (f, k, y)" using w y by (simp add: in_flight_def)
  moreover have "\<forall>g \<in> set (flying m). in_flight s' g" using assms(1) w in_flight_kept by (auto simp: ops_inv_def)
  ultimately show ?thesis using w y cl by (auto simp: ops_inv_def)
qed

lemma here_update_same: "m\<lparr>here := s'\<rparr> = m\<lparr>here := s', flying := flying m\<rparr>"
  by simp

lemma ops_step_inv:
  assumes "ops_inv m" and "ops_step e zone m m'"
  shows "ops_inv m'"
  using assms(2)
proof cases
  have ok: "tables_ok (here m)" using assms(1) by (simp add: ops_inv_def)
  note settle = ops_inv_settled [OF assms(1)]
  note landed = settle [OF _ set_remove1_subset]
  note same = settle [OF _ subset_refl, folded here_update_same]
  {
    case (submit now pk user i r a org ev ex p cfg y s')
    with submit_draft_result ok save_unclaimed_settles show ?thesis by (fastforce intro!: same)
  next
    case (submit_t now pk user i r sender region y s')
    with submit_template_result ok save_unclaimed_settles show ?thesis by (fastforce intro!: same)
  next
    case (approve now user sid pk rv revision y s')
    with approve_operation_result ok save_unclaimed_settles show ?thesis by (fastforce simp: approve_draft_def intro!: same)
  next
    case (approve_t now user sid pk rv revision y s')
    with approve_operation_result ok save_unclaimed_settles show ?thesis by (fastforce simp: approve_template_def intro!: same)
  next
    case (claim now atomic user sid pk y s')
    from claim_draft_facts [OF claim(2)] obtain x where "claim_facts e zone now DraftKind user pk (here m) x y s'" ..
    from ops_inv_claim [OF assms(1) this, of F_draft] claim(1) show ?thesis by simp
  next
    case (claim_i now atomic k user sid pk y s')
    from claim_iterable_facts [OF claim_i(2)] obtain x where "claim_facts e zone now k user pk (here m) x y s'" ..
    from ops_inv_claim [OF assms(1) this, of F_iterable] claim_i(1) show ?thesis by simp
  next
    case (again_i now atomic k user sid pk y s')
    with claim_again_facts [OF again_i(2)] assms(1) show ?thesis by (auto simp: ops_inv_def in_flight_def)
  next
    case (again now atomic user sid pk y)
    with reconcile_begin_facts [OF again(2)] assms(1) show ?thesis by (auto simp: ops_inv_def in_flight_def)
  next
    case (finish x now r s')
    then obtain y where "tfind dx_pk (dx_pk x) (table_of DraftKind (here m)) = Some y" "dispatched y"
      using assms(1) in_flight_row unfolding ops_inv_def by metis
    from finish_draft_ok [OF ok this, of now r] finish show ?thesis
      by (auto intro!: landed)
  next
    case (finish_i k x now r s')
    then obtain y where "tfind dx_pk (dx_pk x) (table_of k (here m)) = Some y" "dispatched y"
      using assms(1) in_flight_row unfolding ops_inv_def by metis
    from finish_iterable_ok [OF ok this, of now r] finish_i show ?thesis
      by (auto intro!: landed)
  next
    case (reconcile x now rc s')
    then obtain y where "tfind dx_pk (dx_pk x) (table_of DraftKind (here m)) = Some y" "dispatched y"
      using assms(1) in_flight_row unfolding ops_inv_def by metis
    moreover have "save_row DraftKind (with_receipt now rc x) (here m) = Inr s'"
      using reconcile by (simp add: store_receipt_def split: if_splits)
    ultimately have "settled_write (here m) s'" using receipt_settles [OF ok] by blast
    then show ?thesis using reconcile by (auto intro!: landed)
  next
    case (crash f)
    then show ?thesis using assms(1) set_remove1_subset [of f "flying m"] by (auto simp: ops_inv_def)
  next
    case (other s')
    then have "settled_write (here m) s'" using ok
      by (simp add: settled_write_def tables_ok_def tables_kept_def claimed_rows_def)
    then show ?thesis using other by (auto intro!: same)
  }
qed


lemma step_kept:
  assumes "ops_inv m" and "ops_step e zone m m'"
  shows "tables_kept (here m) (here m')"
proof -
  have ok: "tables_ok (here m)" using assms(1) by (simp add: ops_inv_def)
  have saved: "save_row k x (here m) = Inr s' \<Longrightarrow> tables_kept (here m) s'" for k x s' using save_row_ok [OF ok] by blast
  have flown: "\<exists>y. tfind dx_pk (dx_pk x) (table_of k (here m)) = Some y \<and> dispatched y" if "(f, k, x) \<in> set (flying m)" for f k x
    using assms(1) that in_flight_row unfolding ops_inv_def by metis
  from assms(2) show ?thesis
  proof cases
    case (submit now pk user i r a org ev ex p cfg y s')
    with submit_draft_result [OF submit(2)] saved show ?thesis by auto
  next
    case (submit_t now pk user i r sender region y s')
    with submit_template_result [OF submit_t(2)] saved show ?thesis by auto
  next
    case (approve now user sid pk rv revision y s')
    then show ?thesis by (auto simp: approve_draft_def dest!: approve_operation_result intro: saved)
  next
    case (approve_t now user sid pk rv revision y s')
    then show ?thesis by (auto simp: approve_template_def dest!: approve_operation_result intro: saved)
  next
    case (claim now atomic user sid pk y s')
    with claim_draft_facts [OF claim(2)] saved show ?thesis by (auto simp: claim_facts_def)
  next
    case (claim_i now atomic k user sid pk y s')
    with claim_iterable_facts [OF claim_i(2)] saved show ?thesis by (auto simp: claim_facts_def)
  next
    case (again_i now atomic k user sid pk y s')
    with claim_again_facts [OF again_i(2)] show ?thesis by simp
  next
    case (finish x now r s')
    with flown finish_draft_ok [OF ok, of x _ now r] show ?thesis by (fastforce simp: settled_write_def)
  next
    case (finish_i k x now r s')
    with flown finish_iterable_ok [OF ok, of x k _ now r] show ?thesis by (fastforce simp: settled_write_def)
  next
    case (reconcile x now rc s')
    then have "save_row DraftKind (with_receipt now rc x) (here m) = Inr s'" by (simp add: store_receipt_def split: if_splits)
    with saved reconcile show ?thesis by simp
  next
    case (other s')
    then show ?thesis by (simp add: tables_kept_def)
  qed simp_all
qed

lemma ops_init_inv: "ops_init m \<Longrightarrow> ops_inv m"
  by (auto simp: ops_init_def ops_inv_def tables_ok_def rows_ok_def table_of_def claimed_rows_def split: dx_kind.splits)

interpretation ops: state_machine ops_init "ops_step e zone" ops_inv for e zone
  by unfold_locales (blast intro: ops_init_inv ops_step_inv)+

lemma run_kept: "(ops_step e zone)\<^sup>*\<^sup>* m m' \<Longrightarrow> ops_inv m \<Longrightarrow> tables_kept (here m) (here m')"
proof (induction rule: rtranclp_induct)
  case (step y z)
  then show ?case using ops.run_inv [OF step(1)] step_kept tables_kept_trans by blast
qed simp

section \<open>Properties\<close>

text \<open>
  C2: A reviewed operation is handed to its provider at most once.  In every reachable state, whatever
  interleaving of requests, crashes and failures led to it, no operation was claimed for dispatch twice,
  the claimed operations are exactly those whose row is past the status \<open>approved\<close>, each of them has an
  approver, and every row satisfies the check constraints of its table.
\<close>

theorem dispatched_at_most_once:
  assumes "ops_init m0" and "(ops_step e zone)\<^sup>*\<^sup>* m0 m"
  shows "distinct (claims m)
    \<and> (\<forall>k pk. (k, pk) \<in> set (claims m) \<longleftrightarrow>
         (\<exists>x. tfind dx_pk pk (table_of k (here m)) = Some x \<and> dx_status x \<notin> {DX_PENDING, DX_APPROVED}))
    \<and> (\<forall>k. \<forall>x \<in> set (table_of k (here m)). constraints_ok x
         \<and> (dx_status x \<notin> {DX_PENDING, DX_APPROVED} \<longrightarrow> dx_approver x \<noteq> None \<and> dx_claimed_at x \<noteq> None))"
proof -
  have inv: "ops_inv m" using ops.reachable_inv [OF assms] .
  then have "constraints_ok x \<and> (dispatched x \<longrightarrow> dx_approver x \<noteq> None \<and> dx_claimed_at x \<noteq> None)"
    if "x \<in> set (table_of k (here m))" for k x
    using that dispatched_iff dispatched_approved by (auto simp: ops_inv_def tables_ok_def rows_ok_def)
  then show ?thesis using inv by (auto simp: ops_inv_def claimed_rows_def dispatched_def)
qed

text \<open>
  C16: What the owner approved is what is stored for ever: once a row has an approver, every later state
  has that row with the same intent, run, submitter, action, target, payload, configuration and digests,
  and with the same approver, approval time and session.
\<close>

theorem approved_review_immutable:
  assumes "ops_init m0" and "(ops_step e zone)\<^sup>*\<^sup>* m0 m" and "(ops_step e zone)\<^sup>*\<^sup>* m m'"
    and "tfind dx_pk pk (table_of k (here m)) = Some x" and "dx_approver x \<noteq> None"
  shows "\<exists>y. tfind dx_pk pk (table_of k (here m')) = Some y
    \<and> review_fields y = review_fields x \<and> approval_fields y = approval_fields x"
proof -
  have "tables_kept (here m) (here m')" by (rule run_kept [OF assms(3) ops.reachable_inv [OF assms(1,2)]])
  with assms(4,5) show ?thesis by (fastforce simp: tables_kept_def rows_kept_def kept_def)
qed

end
