(* ===== verification/Draft_Props.thy ===== *)
theory Draft_Props
  imports Draft_Inv
begin

text \<open>
  What a dispatch of a draft rests on, what its late failure can overwrite, and a concrete run of the
  draft operations from submission to a stored receipt.
\<close>

section \<open>The checks behind a claim\<close>

lemma deny_Inr [simp]: "deny r = Inr v \<longleftrightarrow> r = Inr v"
  by (cases r) auto

lemma validate_intent_Inr:
  assumes "validate_intent e s i run = Inr rd"
  shows "\<exists>w. workflow_of s i = Inr w \<and> run_current w run \<and> in_revision i = wf_revision w"
  using assms unfolding validate_intent_def by (auto simp: try_bind_eq_Inr)

lemma iterable_common_Inr: "iterable_common e s i run x = Inr (rd, cfg) \<Longrightarrow> validate_intent e s i run = Inr rd"
  by (cases "dx_configuration x") (auto simp: iterable_common_def try_bind_eq_Inr)

lemma template_branch_Inr:
  "try_bind (template_review e s i run x) f = Inr v \<Longrightarrow> \<exists>rd. validate_intent e s i run = Inr rd"
  unfolding template_review_def by (auto simp: try_bind_eq_Inr dest!: iterable_common_Inr)

lemma reviews_validate_intent:
  "template_review e s i run x = Inr v \<Longrightarrow> \<exists>rd. validate_intent e s i run = Inr rd"
  "campaign_review e zone s now i run x = Inr v \<Longrightarrow> \<exists>rd. validate_intent e s i run = Inr rd"
  "eventbrite_review e zone s i run x = Inr v \<Longrightarrow> \<exists>rd. validate_intent e s i run = Inr rd"
  by (auto simp: template_review_def campaign_review_def eventbrite_review_def review_def try_bind_eq_Inr
      split: if_splits dest!: iterable_common_Inr)

lemma validated_Inr:
  assumes "validated s now True i x reviewed = Inr ()" and "dx_approver x = Some u"
  shows "(\<exists>v. reviewed = Inr v) \<and> (\<exists>a. actor_of s (Some (dx_submitter x)) OPERATOR = Inr a \<and> slug a = in_actor i)
    \<and> (\<exists>se \<in> set (sessions s). dx_session x = Some (se_pk se) \<and> session_live s now u se)"
proof -
  obtain v a where "reviewed = Inr v" "actor_of s (Some (dx_submitter x)) OPERATOR = Inr a" "slug a = in_actor i"
    and ap: "approval_ok s now True x = Inr ()"
    using assms(1) by (auto simp: validated_def try_bind_eq_Inr)
  moreover obtain sid se where "dx_session x = Some sid" "session_of s now (Some u) sid = Inr se"
    using ap assms(2) by (auto simp: approval_ok_def try_bind_eq_Inr split: option.splits)
  moreover from this have "se \<in> set (sessions s) \<and> se_pk se = sid \<and> session_live s now u se"
    by (auto simp: session_of_def of_option_eq_Inr find_Some_iff split: if_splits)
  ultimately show ?thesis by blast
qed

lemma validate_execution_Inr:
  assumes "validate_execution e zone s now True k x = Inr ()" and "dx_approver x = Some u"
  shows "\<exists>i run w a. tfind in_pk (dx_intent x) (intents s) = Some i \<and> tfind run_pk (dx_run x) (agent_runs s) = Some run
    \<and> tfind wf_pk (in_workflow i) (workflows (base s)) = Some w \<and> in_revision i = wf_revision w \<and> run_current w run
    \<and> actor_of s (Some (dx_submitter x)) OPERATOR = Inr a \<and> slug a = in_actor i
    \<and> (\<exists>se \<in> set (sessions s). dx_session x = Some (se_pk se) \<and> session_live s now u se)"
proof -
  obtain i run reviewed where ir: "tfind in_pk (dx_intent x) (intents s) = Some i" "tfind run_pk (dx_run x) (agent_runs s) = Some run"
    and v: "validated s now True i x reviewed = Inr ()"
    and r: "\<And>v. reviewed = Inr v \<Longrightarrow> \<exists>rd. validate_intent e s i run = Inr rd"
  proof (cases k)
    case DraftKind
    with assms(1) show ?thesis
      by (auto simp: validate_execution_def validate_draft_def try_bind_eq_Inr intent_of_def run_of_def of_option_eq_Inr
          split: if_splits intro: that reviews_validate_intent)
  next
    case TemplateKind
    with assms(1) show ?thesis
      by (auto simp: validate_execution_def validate_template_def try_bind_eq_Inr intent_of_def run_of_def of_option_eq_Inr
          split: if_splits intro: that reviews_validate_intent template_branch_Inr)
  qed
  note val = validated_Inr [OF v assms(2)]
  then obtain rd where "validate_intent e s i run = Inr rd" using r by blast
  from validate_intent_Inr [OF this] obtain w where "tfind wf_pk (in_workflow i) (workflows (base s)) = Some w"
    "run_current w run" "in_revision i = wf_revision w" by (auto simp: workflow_of_def of_option_eq_Inr)
  with ir val show ?thesis by blast
qed

text \<open>
  C8: A dispatch is always of an approved, current operation, by its approver.  When a claim succeeds, for
  Eventbrite or Iterable, the stored row was approved by exactly the user that dispatches it, in an owner
  session that is still live at that moment; its submitter is the active operator that the broker's intent
  names; the intent's revision is still the workflow's current revision; and the agent run it came from
  succeeded for that revision and the workflow's current package.
\<close>

theorem claim_is_current:
  assumes "claim_draft e zone now atomic user sid pk s = Inr (y, s') \<and> k = DraftKind
    \<or> claim_iterable e zone now atomic k False user sid pk s = Inr (y, s')"
  shows "\<exists>x u i run w a se. tfind dx_pk pk (table_of k s) = Some x \<and> dx_status x = DX_APPROVED
    \<and> user = Some u \<and> dx_approver x = Some u
    \<and> se \<in> set (sessions s) \<and> dx_session x = Some (se_pk se) \<and> session_live s now u se
    \<and> tfind in_pk (dx_intent x) (intents s) = Some i \<and> actor_of s (Some (dx_submitter x)) OPERATOR = Inr a \<and> slug a = in_actor i
    \<and> tfind wf_pk (in_workflow i) (workflows (base s)) = Some w \<and> in_revision i = wf_revision w
    \<and> tfind run_pk (dx_run x) (agent_runs s) = Some run \<and> run_status run = RUN_SUCCEEDED
    \<and> run_revision run = wf_revision w \<and> run_hash run = wf_hash w"
proof -
  obtain x where c: "claim_facts e zone now k user pk s x y s'"
    using assms by (auto dest: claim_draft_facts claim_iterable_facts)
  then obtain u where u: "user = Some u" "dx_approver x = Some u" "validate_execution e zone s now True k x = Inr ()"
    by (auto simp: claim_facts_def)
  from validate_execution_Inr [OF u(3,2)] c u show ?thesis
    unfolding claim_facts_def run_current_def by blast
qed

section \<open>Late failures\<close>

text \<open>
  C35: An ambiguous failure overwrites a confirmed success.  When the row of a claimed operation has
  meanwhile been confirmed (a reconciliation stored its receipt), the failing dispatch still writes the
  status \<open>unknown\<close> over \<open>succeeded\<close>, a change that the guard of \<open>save\<close> forbids: the handler writes with
  \<open>update\<close>, past the guard.
\<close>

theorem late_failure_overwrites_success:
  assumes "tables_ok s" and "tfind dx_pk (dx_pk x) (table_of k s) = Some y" and "dx_status y = DX_SUCCEEDED"
  shows "\<exists>s' z. finish_iterable now k x Broke s = Some s' \<and> tfind dx_pk (dx_pk x) (table_of k s') = Some z
    \<and> dx_status z = DX_UNKNOWN \<and> \<not> may_become y z"
proof -
  have d: "dispatched y" using assms(3) by (simp add: dispatched_def)
  from update_row_ok [OF assms(1,2) d, of DX_UNKNOWN "''dispatch_unconfirmed''" now] assms(3) show ?thesis
    by (auto simp: finish_iterable_def mark_def may_become_def)
qed


section \<open>A concrete run\<close>

definition run_base :: db where
  "run_base = \<lparr>users = [], actors = [\<lparr>slug = ''maya'', display_name = ''Maya'', actor_role = OPERATOR, actor_user = Some 3\<rparr>],
     events = [], revisions = [\<lparr>rev_pk = 1, rev_event = 1, rev_version = 1, snapshot = [], rev_author = ''maya'', source_snapshot = None\<rparr>],
     workflows = [\<lparr>wf_pk = ''w'', wf_event = 1, wf_revision = 1, status = READY_FOR_REVIEW, package = None, wf_hash = ''h'', traceparent = []\<rparr>],
     transitions = [], approvals = [], executions = [], audits = [], next_user = 3, next_event = 2, next_revision = 2,
     refs = \<lparr>ext_workflows = [], ext_revisions = [], ext_events = []\<rparr>\<rparr>"

definition run_intent :: draft_operation where
  "run_intent = \<lparr>in_pk = ''i'', in_workflow = ''w'', in_revision = 1, in_actor = ''maya'', in_proposal = ''p'', in_provider = ''eventbrite'',
     in_kind = ''create_eventbrite_draft'', in_action_digest = a_digest, in_idempotency = a_digest, in_status = ''pending'',
     in_approval = None, in_receipt = None\<rparr>"

definition run_run :: agent_run where
  "run_run = \<lparr>run_pk = ''r'', run_workflow = ''w'', run_revision = 1, run_hash = ''h'', hermes_lane = True, run_policy = 1, run_profile = 1,
     fixture_id = None, fixture_revision = None, fixture_digest = None, run_privacy = PILOT_MINIMIZED, run_status = RUN_SUCCEEDED,
     run_attempt = 1, started_at = Some 0, finished_at = Some 1, run_failure = None, trace_id = replicate 32 (CHR ''0''),
     span_count = 0, run_input = 0, run_output = 0, run_cost = 0\<rparr>"

definition run_db :: draft_db where
  "run_db = \<lparr>base = run_base, active_users = [3, 2],
     submissions = [\<lparr>sub_pk = ''p'', sub_capability = ''c'', sub_kind = ''proposal'', sub_content = JNull, sub_digest = a_digest\<rparr>],
     capabilities = [\<lparr>cap_pk = ''c'', cap_revision_digest = a_digest, cap_workflow = ''w'', cap_revision = 1, cap_actor = ''maya'',
        cap_tools = [''request_eventbrite_draft''], cap_audience = ''civicloop-hermes'', cap_correlation = Some ''q'',
        cap_token = a_digest, cap_issued = 0, cap_expires = 60, cap_revoked = None\<rparr>], invocations = [],
     intents = [run_intent], agent_runs = [run_run],
     bindings = [\<lparr>bd_run = ''r'', bd_actor = ''maya'', bd_session = Some ''z'', bd_correlation = ''q'', bd_revision_digest = a_digest\<rparr>],
     controls = [\<lparr>ct_run = ''r'', ct_cancel = None, ct_capability = Some ''c'', ct_lease = Some 100, ct_disabled = False, ct_traceparent = []\<rparr>],
     profiles = [\<lparr>pf_pk = ''o'', pf_user = 2, pf_status = ''active''\<rparr>],
     sessions = [\<lparr>se_pk = ''z'', se_profile = ''o'', se_mfa = Some 0, se_absolute_expires = Some 100, se_expires = Some 100,
        se_revoked = None, se_restricted = False\<rparr>],
     connections = [\<lparr>cn_provider = ''eventbrite'', cn_state = ''healthy'', cn_secret_active = Some True, cn_configuration = []\<rparr>],
     drafts = [], templates = [], eventbrite_enabled = True, iterable_enabled = False\<rparr>"

definition run_row :: draft_execution where
  "run_row = (new_row ''x'' ''i'' ''r'' 3 ''create'' ''1'' [] [] (JObj []) (as_payload private_event))\<lparr>dx_request := a_digest, dx_review := a_digest\<rparr>"

definition approved_row :: draft_execution where
  "approved_row = run_row\<lparr>dx_approver := Some 2, dx_session := Some ''z'', dx_approved_at := Some 5, dx_status := DX_APPROVED\<rparr>"

definition claimed_row :: draft_execution where
  "claimed_row = approved_row\<lparr>dx_status := DX_EXECUTING, dx_claimed_at := Some 6\<rparr>"

lemma small_digest:
  assumes "walk v 0 0 \<noteq> None" and "printable v" and "length (json_dumps fixed_env v) \<le> 1000"
  shows "digest fixed_env v = Inr a_digest"
  using assms by (auto simp: digest_def bounded_json_def Let_def MAX_PAYLOAD_BYTES_def fixed_env_def a_digest_def)

definition run_review_value :: json where
  "run_review_value = JObj [(''intent'', JStr ''i''), (''run'', JStr ''r''), (''revision'', JInt 1),
     (''revision_digest'', JStr a_digest), (''action_digest'', JStr a_digest), (''idempotency_key'', JStr a_digest),
     (''request_digest'', JStr a_digest), (''expected_readback_digest'', JStr [])]"

definition run_action_value :: json where
  "run_action_value = JObj [(''workflow_id'', JStr ''w''), (''revision_id'', JInt 1), (''revision_digest'', JStr a_digest),
      (''provider'', JStr ''eventbrite''), (''operation_kind'', JStr ''create_eventbrite_draft''), (''proposal_digest'', JStr a_digest)]"

definition run_idempotency_value :: json where
  "run_idempotency_value = JList [JStr ''w'', JInt 1, JStr ''maya'', JStr ''create_eventbrite_draft'', JStr a_digest]"

lemma run_digests:
  "digest fixed_env (JObj []) = Inr a_digest" "digest fixed_env JNull = Inr a_digest"
  "digest fixed_env run_action_value = Inr a_digest" "digest fixed_env run_idempotency_value = Inr a_digest"
  "digest fixed_env run_review_value = Inr a_digest"
proof -
  have small: "length (json_dumps fixed_env (JObj [])) \<le> 1000" "length (json_dumps fixed_env JNull) \<le> 1000"
    "length (json_dumps fixed_env run_action_value) \<le> 1000" "length (json_dumps fixed_env run_idempotency_value) \<le> 1000"
    "length (json_dumps fixed_env run_review_value) \<le> 1000" by code_simp+
  have len: "length a_digest = 64" by (simp add: a_digest_def)
  have p: "printable run_action_value" "printable run_idempotency_value" "printable run_review_value" by code_simp+
  show "digest fixed_env (JObj []) = Inr a_digest" "digest fixed_env JNull = Inr a_digest"
    "digest fixed_env run_action_value = Inr a_digest" "digest fixed_env run_idempotency_value = Inr a_digest"
    "digest fixed_env run_review_value = Inr a_digest"
    by (rule small_digest; use small p len in \<open>simp add: over_def MAX_DEPTH_def MAX_PAYLOAD_BYTES_def run_action_value_def
        run_idempotency_value_def run_review_value_def\<close>)+
qed


lemma run_values:
  "action_value w a_digest run_intent sub = run_action_value" if "wf_pk w = ''w''" "sub_digest sub = a_digest" for w sub
  using that by (simp add: action_value_def run_intent_def run_action_value_def)

lemma run_idempotency: "wf_pk w = ''w'' \<Longrightarrow> idempotency_value w run_intent a_digest = run_idempotency_value"
  by (simp add: idempotency_value_def run_intent_def run_idempotency_value_def)

lemma run_validate_intent: "validate_intent fixed_env (run_db\<lparr>drafts := t\<rparr>) run_intent run_run = Inr a_digest"
  by (simp add: validate_intent_def run_db_def run_base_def workflow_of_def run_values run_idempotency run_digests)
     (simp add: run_intent_def run_run_def run_current_def binding_current_def capability_current_def intent_pending_def
      PROVIDER_KINDS_def proposal_schema_ok_def demand_def run_digests)

lemma run_review:
  "review fixed_env any_zone (run_db\<lparr>drafts := t\<rparr>) run_intent run_run ''create'' ''1'' [] (as_payload private_event) [] =
     Inr (a_digest, a_digest)"
proof -
  have "compute_request_digest fixed_env any_zone ''create'' ''1'' None (as_payload private_event) = Inr a_digest"
    by (simp add: compute_request_digest_def valid_payloads steady_reads a_digests)
  moreover have "JObj [(''intent'', JStr (in_pk run_intent)), (''run'', JStr (run_pk run_run)), (''revision'', JInt (int (in_revision run_intent))),
         (''revision_digest'', JStr a_digest), (''action_digest'', JStr (in_action_digest run_intent)),
         (''idempotency_key'', JStr (in_idempotency run_intent)), (''request_digest'', JStr a_digest),
         (''expected_readback_digest'', JStr [])] = run_review_value"
    by (simp add: run_intent_def run_run_def run_review_value_def)
  ultimately show ?thesis by (simp add: review_def run_validate_intent run_digests)
qed

lemma run_lookups:
  "intent_of (run_db\<lparr>drafts := t\<rparr>) ''i'' = Inr run_intent" "run_of (run_db\<lparr>drafts := t\<rparr>) ''r'' = Inr run_run"
  "\<exists>w. workflow_of (run_db\<lparr>drafts := t\<rparr>) run_intent = Inr w"
  "actor_of (run_db\<lparr>drafts := t\<rparr>) (Some 3) OPERATOR =
     Inr \<lparr>slug = ''maya'', display_name = ''Maya'', actor_role = OPERATOR, actor_user = Some 3\<rparr>"
  "in_actor run_intent = ''maya''" "in_revision run_intent = 1" "in_provider run_intent = ''eventbrite''"
  by (simp_all add: intent_of_def run_of_def workflow_of_def actor_of_def run_db_def run_base_def run_intent_def run_run_def)

lemma run_session:
  "now < 100 \<Longrightarrow> session_of (run_db\<lparr>drafts := t\<rparr>) now (Some 2) ''z'' = Inr (hd (sessions run_db))"
  "se_pk (hd (sessions run_db)) = ''z''"
  by (simp_all add: session_of_def session_live_def run_db_def)

lemma run_submit:
  "submit_draft fixed_env any_zone 4 ''x'' (Some 3) ''i'' ''r'' ''create'' ''1'' [] [] (as_payload new_event) (JObj []) run_db =
     Inr (run_row, run_db\<lparr>drafts := [run_row]\<rparr>)"
proof -
  have same: "run_db = run_db\<lparr>drafts := []\<rparr>" by (simp add: run_db_def)
  obtain w where w: "workflow_of (run_db\<lparr>drafts := []\<rparr>) run_intent = Inr w" using run_lookups(3) by blast
  have ok: "constraints_ok run_row"
    by (simp add: run_row_def new_row_def constraints_ok_def approval_required_def execution_lifecycle_def)
  have "submit_row DraftKind 3 run_row (run_db\<lparr>drafts := []\<rparr>) = Inr (run_row, run_db\<lparr>drafts := [run_row]\<rparr>)"
    using ok by (simp add: submit_row_def save_row_def save_execution_def table_of_def with_table_def)
  then have "submit_draft fixed_env any_zone 4 ''x'' (Some 3) ''i'' ''r'' ''create'' ''1'' [] [] (as_payload new_event) (JObj [])
      (run_db\<lparr>drafts := []\<rparr>) = Inr (run_row, run_db\<lparr>drafts := [run_row]\<rparr>)"
    by (simp add: submit_draft_def submit_eventbrite_def run_lookups w run_review valid_payloads demand_def flip: run_row_def)
  then show ?thesis using same by simp
qed

lemma run_validates:
  assumes "x = run_row \<or> x = approved_row \<or> x = claimed_row" and "now < 100"
  shows "validate_execution fixed_env any_zone (run_db\<lparr>drafts := t\<rparr>) now True DraftKind x = Inr ()"
proof -
  have f: "dx_intent x = ''i''" "dx_run x = ''r''" "dx_configuration x = JObj []" "dx_action x = ''create''" "dx_organization x = ''1''"
    "dx_event x = []" "dx_payload x = as_payload private_event" "dx_expected x = []" "dx_request x = a_digest" "dx_review x = a_digest"
    "dx_submitter x = 3"
    using assms(1) by (auto simp: run_row_def approved_row_def claimed_row_def new_row_def)
  have "approval_ok (run_db\<lparr>drafts := t\<rparr>) now True x = Inr ()"
    using assms by (auto simp: approval_ok_def run_session run_row_def approved_row_def claimed_row_def new_row_def)
  then show ?thesis
    by (simp add: validate_execution_def validate_draft_def run_lookups f eventbrite_review_def run_review validated_def demand_def)
qed

lemma run_rows_ok: "constraints_ok run_row" "constraints_ok approved_row" "constraints_ok claimed_row"
  "may_become run_row approved_row" "may_become approved_row claimed_row" "dx_pk run_row = ''x''" "dx_pk approved_row = ''x''"
  "dx_pk claimed_row = ''x''"
  by (simp_all add: run_row_def approved_row_def claimed_row_def new_row_def constraints_ok_def approval_required_def
      execution_lifecycle_def may_become_def review_fields_def approval_fields_def)

lemma run_save:
  assumes "dx_pk x = ''x''" "dx_pk y = ''x''" "may_become x y" "constraints_ok y"
  shows "save_row DraftKind y (run_db\<lparr>drafts := [x]\<rparr>) = Inr (run_db\<lparr>drafts := [y]\<rparr>)"
  using assms by (simp add: save_row_def save_execution_def table_of_def with_table_def)

lemma run_approve:
  "approve_draft fixed_env any_zone 5 (Some 2) ''z'' ''x'' a_digest 1 (run_db\<lparr>drafts := [run_row]\<rparr>) =
     Inr (approved_row, run_db\<lparr>drafts := [approved_row]\<rparr>)"
proof -
  obtain w where w: "workflow_of (run_db\<lparr>drafts := [run_row]\<rparr>) run_intent = Inr w" using run_lookups(3) by blast
  have f: "find_row DraftKind ''x'' (run_db\<lparr>drafts := [run_row]\<rparr>) = Inr run_row" "dx_intent run_row = ''i''"
    "dx_status run_row = DX_PENDING" "dx_review run_row = a_digest"
    by (simp_all add: find_row_def table_of_def run_rows_ok) (simp_all add: run_row_def new_row_def)
  show ?thesis
    by (simp add: approve_draft_def approve_operation_def run_session run_lookups w f run_validates demand_def
        run_save run_rows_ok approved_row_def [symmetric])
qed

lemma run_claim:
  "claim_draft fixed_env any_zone 6 False (Some 2) ''z'' ''x'' (run_db\<lparr>drafts := [approved_row]\<rparr>) =
     Inr (claimed_row, run_db\<lparr>drafts := [claimed_row]\<rparr>)"
proof -
  obtain w where w: "workflow_of (run_db\<lparr>drafts := [approved_row]\<rparr>) run_intent = Inr w" using run_lookups(3) by blast
  have f: "find_row DraftKind ''x'' (run_db\<lparr>drafts := [approved_row]\<rparr>) = Inr approved_row" "dx_intent approved_row = ''i''"
    "dx_status approved_row = DX_APPROVED" "dx_approver approved_row = Some 2" "dx_action approved_row = ''create''"
    by (simp_all add: find_row_def table_of_def run_rows_ok) (simp_all add: run_row_def approved_row_def new_row_def)
  have g: "approved_row\<lparr>dx_status := DX_EXECUTING, dx_claimed_at := Some 6, dx_provider := dx_provider approved_row\<rparr> = claimed_row"
    by (simp add: claimed_row_def)
  have "reference_of (run_db\<lparr>drafts := [approved_row]\<rparr>) ''eventbrite'' = Inr (hd (connections run_db))"
    "eventbrite_enabled run_db"
    by (simp_all add: reference_of_def run_db_def demand_def)
  then show ?thesis
    by (simp add: claim_draft_def run_session run_lookups w f g run_validates demand_def run_save run_rows_ok)
qed


definition machine_at :: "draft_execution list \<Rightarrow> (flight \<times> dx_kind \<times> draft_execution) list \<Rightarrow> (dx_kind \<times> uuid) list \<Rightarrow> machine" where
  "machine_at t fs cs = \<lparr>here = run_db\<lparr>drafts := t\<rparr>, flying = fs, claims = cs\<rparr>"

lemma run_steps:
  "ops_step fixed_env any_zone (machine_at [] [] []) (machine_at [run_row] [] [])"
  "ops_step fixed_env any_zone (machine_at [run_row] [] []) (machine_at [approved_row] [] [])"
  "ops_step fixed_env any_zone (machine_at [approved_row] [] [])
     (machine_at [claimed_row] [(F_draft, DraftKind, claimed_row)] [(DraftKind, ''x'')])"
proof -
  have "run_db\<lparr>drafts := []\<rparr> = run_db" by (simp add: run_db_def)
  then show "ops_step fixed_env any_zone (machine_at [] [] []) (machine_at [run_row] [] [])"
    using ops_step.submit [where m = "machine_at [] [] []"] run_submit by (fastforce simp: machine_at_def)
  show "ops_step fixed_env any_zone (machine_at [run_row] [] []) (machine_at [approved_row] [] [])"
    using ops_step.approve [where m = "machine_at [run_row] [] []"] run_approve by (fastforce simp: machine_at_def)
  show "ops_step fixed_env any_zone (machine_at [approved_row] [] [])
     (machine_at [claimed_row] [(F_draft, DraftKind, claimed_row)] [(DraftKind, ''x'')])"
    using ops_step.claim [where m = "machine_at [approved_row] [] []"] run_claim by (fastforce simp: machine_at_def)
qed

lemma run_init: "ops_init (machine_at [] [] [])"
  by (simp add: ops_init_def machine_at_def run_db_def)

lemma run_to_approved: "(ops_step fixed_env any_zone)\<^sup>*\<^sup>* (machine_at [] [] []) (machine_at [approved_row] [] [])"
  using run_steps(1,2) by (meson rtranclp.rtrancl_into_rtrancl rtranclp.rtrancl_refl)

lemma run_to_claimed:
  "(ops_step fixed_env any_zone)\<^sup>*\<^sup>* (machine_at [] [] [])
     (machine_at [claimed_row] [(F_draft, DraftKind, claimed_row)] [(DraftKind, ''x'')])"
  using run_to_approved run_steps(3) by (rule rtranclp.rtrancl_into_rtrancl)

theorem dispatched_at_most_once_witness:
  "\<exists>m. (ops_step fixed_env any_zone)\<^sup>*\<^sup>* (machine_at [] [] []) m \<and> claims m = [(DraftKind, ''x'')] \<and> distinct (claims m)
     \<and> (\<exists>x. tfind dx_pk ''x'' (table_of DraftKind (here m)) = Some x \<and> dx_status x \<notin> {DX_PENDING, DX_APPROVED})"
proof -
  let ?m = "machine_at [claimed_row] [(F_draft, DraftKind, claimed_row)] [(DraftKind, ''x'')]"
  have "claims ?m = [(DraftKind, ''x'')]" by (simp add: machine_at_def)
  with dispatched_at_most_once [OF run_init run_to_claimed] run_to_claimed show ?thesis
    by (intro exI [of _ ?m]) (metis list.set_intros(1))
qed

theorem approved_review_immutable_witness:
  "\<exists>m y. (ops_step fixed_env any_zone)\<^sup>*\<^sup>* (machine_at [approved_row] [] []) m
     \<and> tfind dx_pk ''x'' (table_of DraftKind (here m)) = Some y
     \<and> review_fields y = review_fields approved_row \<and> approval_fields y = approval_fields approved_row"
proof -
  let ?m = "machine_at [claimed_row] [(F_draft, DraftKind, claimed_row)] [(DraftKind, ''x'')]"
  have r: "(ops_step fixed_env any_zone)\<^sup>*\<^sup>* (machine_at [approved_row] [] []) ?m" using run_steps(3) by blast
  have a: "tfind dx_pk ''x'' (table_of DraftKind (here (machine_at [approved_row] [] []))) = Some approved_row"
    by (simp add: machine_at_def table_of_def run_rows_ok)
  have "dx_approver approved_row \<noteq> None" by (simp add: approved_row_def)
  from approved_review_immutable [OF run_init run_to_approved r a this] r show ?thesis by blast
qed

theorem claim_is_current_witness:
  "\<exists>x i w. tfind dx_pk ''x'' (table_of DraftKind (run_db\<lparr>drafts := [approved_row]\<rparr>)) = Some x \<and> dx_approver x = Some 2
     \<and> tfind in_pk (dx_intent x) (intents run_db) = Some i
     \<and> tfind wf_pk (in_workflow i) (workflows (base run_db)) = Some w \<and> in_revision i = wf_revision w"
  using claim_is_current [OF disjI1 [OF conjI [OF run_claim refl]]] by fastforce

definition succeeded_row :: draft_execution where
  "succeeded_row = claimed_row\<lparr>dx_status := DX_SUCCEEDED, dx_completed_at := Some 7, dx_receipt := Some steady_receipt, dx_provider := ''7''\<rparr>"

theorem late_failure_overwrites_success_witness:
  "\<exists>s' z. finish_iterable 8 DraftKind claimed_row Broke (run_db\<lparr>drafts := [succeeded_row]\<rparr>) = Some s'
     \<and> tfind dx_pk ''x'' (table_of DraftKind s') = Some z \<and> dx_status z = DX_UNKNOWN"
proof -
  have "constraints_ok succeeded_row"
    by (simp add: succeeded_row_def claimed_row_def approved_row_def run_row_def new_row_def constraints_ok_def
        approval_required_def execution_lifecycle_def)
  then have t: "tables_ok (run_db\<lparr>drafts := [succeeded_row]\<rparr>)"
    by (simp add: tables_ok_def rows_ok_def keys_ok_def table_of_def run_db_def split: dx_kind.splits)
  have "dx_pk succeeded_row = ''x''" by (simp add: succeeded_row_def run_rows_ok)
  then have "tfind dx_pk (dx_pk claimed_row) (table_of DraftKind (run_db\<lparr>drafts := [succeeded_row]\<rparr>)) = Some succeeded_row"
    by (simp add: table_of_def run_rows_ok)
  from late_failure_overwrites_success [OF t this, of 8] show ?thesis by (auto simp: succeeded_row_def run_rows_ok)
qed

end
