(* ===== verification/Vault_Demo.thy ===== *)
theory Vault_Demo
  imports Vault_Drafts Draft_Props
begin

text \<open>
  One run of the credential store with a concrete environment: the owner stores an Eventbrite token, tests
  the connection, and an approved draft is claimed.  The theorems are applied to its states.
\<close>

definition demo_ring_file :: ring_file where
  "demo_ring_file = \<lparr>rf_readable = True, rf_windows = False, rf_environment = ''production'', rf_mode = 384, rf_bytes = 100,
     rf_parsed = Some (JObj [(''active_key_id'', JStr ''k''), (''keys'', JObj [(''k'', JStr (encode_base64url (replicate 32 CHR ''a'')))])])\<rparr>"

definition vault_ident :: id_env where
  "vault_ident = \<lparr>make_password = (\<lambda>s. s), check_password = (\<lambda>s h. h = s), password_ok = (\<lambda>u s. True), password_messages = (\<lambda>u s. []),
     normalize_username = (\<lambda>s. s), normalize_email = (\<lambda>s. s), user_clean = (\<lambda>u. True), totp_verify = (\<lambda>seed drift now otp min_t. None),
     cipher = plain_aead, ring = None, hmac_hex = (\<lambda>s. s), ip_compressed = Some, cache_up = True, identity_enabled = True,
     trusted_proxies = [], py = fixed_env\<rparr>"

definition vault_demo_env :: vault_env where
  "vault_demo_env = \<lparr>ident = vault_ident, zones = any_zone, ring_path = Some demo_ring_file,
     network = (\<lambda>url h. PR_Response 200 10 (Some (JObj [(''id'', JStr ''7'')]))), integrations_enabled = True\<rparr>"

lemma demo_ring_loads: "load_integration_key_ring demo_ring_file = Some sample_ring"
proof -
  have "replicate 32 CHR ''a'' \<noteq> []" by simp
  note d = decode_encode_base64url [OF this]
  have "key_id_ok ''k''" by code_simp
  with d show ?thesis
    by (simp add: load_integration_key_ring_def demo_ring_file_def key_file_has_owner_only_permissions_def MAX_KEY_RING_BYTES_def
        KEY_RING_FIELDS_def MAX_KEYS_def dget_def sample_ring_def)
qed

definition demo_actor :: owner_session where
  "demo_actor = \<lparr>se_pk = ''z'', se_profile = ''o'', se_mfa = Some 0, se_absolute_expires = Some 100, se_expires = Some 100, se_revoked = None,
     se_restricted = False, os_key = ''k2'', os_authenticated = Some 0, os_activity = Some 0, os_fresh = Some 0, os_label = [], os_agent = [],
     os_ip = None, os_created = 0\<rparr>"

definition demo_owner :: "security_event list \<Rightarrow> idw" where
  "demo_owner es = \<lparr>i_users = map (\<lambda>u. \<lparr>u_pk = u, u_name = [], u_email = [], u_password = [], u_active = True\<rparr>) (active_users run_db),
     i_profiles = [\<lparr>pf_pk = ''o'', pf_user = 2, pf_status = ''active''\<rparr>], i_devices = [], i_codes = [], i_sessions = [demo_actor],
     i_events = es, i_web = [], i_limits = [], i_rq = \<lparr>rq_key = None, rq_user = None, rq_preauth = None, rq_admin = None, rq_agent = [], rq_peer = None, rq_forwarded = None, rq_meta = None\<rparr>\<rparr>"

definition demo_vault_draws :: "string \<Rightarrow> vault_draws" where
  "demo_vault_draws k = \<lparr>vd_secret = ''s'' @ k, vd_nonce = ''nonce-nonce-'', vd_connection = ''c'' @ k, vd_event = ''e'' @ k, vd_check = ''h'' @ k,
     vd_correlation = ''q'' @ k\<rparr>"

definition demo_secret :: encrypted_secret where
  "demo_secret = \<lparr>sc_pk = ''s1'', sc_provider = ''eventbrite'', sc_scope = ''private_token'',
     sc_envelope = \<lparr>en_version = 1, en_algorithm = ''AES-256-GCM'', en_key_id = ''k'', en_nonce = ''nonce-nonce-'', en_ciphertext = replicate 16 CHR ''t'' @ ''token''\<rparr>,
     sc_status = SECRET_ACTIVE, sc_version = 1, sc_created = 1, sc_replaced = None, sc_disabled = None, sc_created_by = Some 2, sc_replaced_by = None\<rparr>"

definition demo_connection :: integration_connection where
  "demo_connection = \<lparr>ic_pk = ''c1'', ic_provider = ''eventbrite'', ic_state = CONFIGURED, ic_capabilities = [''connection_test'', ''metadata_read''],
     ic_configuration = [], ic_secret = Some ''s1'', ic_version = 2, ic_created = 1, ic_updated = 1, ic_success = None, ic_failure = []\<rparr>"

definition demo_change :: "string \<Rightarrow> string \<Rightarrow> int \<Rightarrow> security_event" where
  "demo_change k action t = \<lparr>ev_pk = ''e'' @ k, ev_profile = Some ''o'', ev_user = Some 2, ev_action = action, ev_outcome = ''success'',
     ev_target_type = ''integration_connection'', ev_target_id = ''eventbrite'',
     ev_details = [(''version'', JInt 2), (''failure_category'', JNull), (''correlation_id'', JStr (''q'' @ k))], ev_ip = None, ev_session = Some ''z'',
     ev_created = t\<rparr>"

definition demo_events :: "security_event list" where
  "demo_events = [demo_change ''1'' ''integration.credential_replaced'' 1]"

definition empty_vault :: "draft_db \<Rightarrow> vault" where
  "empty_vault s = \<lparr>v_idw = demo_owner [], v_app = s, v_secrets = [], v_connections = [], v_checks = []\<rparr>"

definition stored_vault :: "draft_db \<Rightarrow> vault" where
  "stored_vault s = \<lparr>v_idw = demo_owner demo_events, v_app = s, v_secrets = [demo_secret], v_connections = [demo_connection], v_checks = []\<rparr>"

lemma demo_init_vault: "vault_init (empty_vault s, [])"
  by (simp add: vault_init_def empty_vault_def)

lemma demo_encrypts:
  "encrypt_secret plain_aead (Some demo_ring_file) n ''token'' ''s1'' ''eventbrite'' ''private_token'' =
     Some \<lparr>en_version = 1, en_algorithm = ''AES-256-GCM'', en_key_id = ''k'', en_nonce = n, en_ciphertext = replicate 16 CHR ''t'' @ ''token''\<rparr>"
proof -
  have "secret_aad ''s1'' ''eventbrite'' ''private_token'' ''k'' \<noteq> None" by code_simp
  then show ?thesis
    by (auto simp: encrypt_secret_def configured_key_ring_def demo_ring_loads MAX_SECRET_BYTES_def sample_ring_def plain_aead_def ENVELOPE_VERSION_def ALGORITHM_def)
qed

lemma demo_configuration: "configuration_ok vault_ident ''eventbrite'' []"
  by code_simp

lemma demo_purpose: "purpose_ok ''private_token''"
  by code_simp

definition demo_details :: "string \<Rightarrow> dict" where
  "demo_details k = [(''version'', JInt 2), (''failure_category'', JNull), (''correlation_id'', JStr (''q'' @ k))]"

lemma demo_details_safe: "safe_details vault_ident (demo_details ''1'') = Some (demo_details ''1'')" "safe_details vault_ident (demo_details ''2'') = Some (demo_details ''2'')"
  by code_simp+

lemma demo_actions: "action_ok ''integration.credential_replaced''" "action_ok ''integration.connection_tested''"
  by code_simp+

lemma demo_fields [simp]:
  "ident vault_demo_env = vault_ident" "ring_path vault_demo_env = Some demo_ring_file" "cipher vault_ident = plain_aead"
  "vd_secret (demo_vault_draws k) = ''s'' @ k" "vd_nonce (demo_vault_draws k) = ''nonce-nonce-''" "vd_connection (demo_vault_draws k) = ''c'' @ k"
  "vd_event (demo_vault_draws k) = ''e'' @ k" "vd_check (demo_vault_draws k) = ''h'' @ k" "vd_correlation (demo_vault_draws k) = ''q'' @ k"
  "zones vault_demo_env = any_zone" "py vault_ident = fixed_env"
  by (simp_all add: vault_demo_env_def demo_vault_draws_def vault_ident_def)

lemma demo_audit:
  assumes "k = ''1'' \<or> k = ''2''" and "a = ''integration.credential_replaced'' \<or> a = ''integration.connection_tested''" and "v_idw v = demo_owner es"
  shows "audit vault_demo_env t (demo_vault_draws k) a ''success'' demo_actor ''eventbrite'' 2 [] (''q'' @ k) v = Inr (v\<lparr>v_idw := demo_owner (es @ [demo_change k a t])\<rparr>)"
proof -
  have ip: "source_ip vault_ident (i_rq (demo_owner es)) = None" by (simp add: source_ip_def demo_owner_def normalized_ip_def)
  have d: "safe_details vault_ident (demo_details k) = Some (demo_details k)" "action_ok a" using assms(1,2) demo_details_safe demo_actions by auto
  have "record_security_event vault_ident t (''e'' @ k) a ''success'' (Some \<lparr>pf_pk = ''o'', pf_user = 2, pf_status = ''active''\<rparr>) None (Some ''z'')
      ''integration_connection'' ''eventbrite'' (demo_details k) (demo_owner es) = (demo_owner (es @ [demo_change k a t]), Inr ())"
    using d by (simp add: record_security_event_def OUTCOMES_def) (simp add: demo_owner_def demo_change_def demo_details_def)
  then show ?thesis
    using assms(3) ip by (simp add: audit_def demo_details_def) (simp add: demo_owner_def demo_actor_def)
qed

lemma demo_new_connection: "new_connection 1 ''c1'' ''eventbrite'' =
  demo_connection\<lparr>ic_state := NOT_CONFIGURED, ic_capabilities := [], ic_secret := None, ic_version := 1\<rparr>"
  by (simp add: new_connection_def DEFAULT_CONFIGURATION_def demo_connection_def)

lemma replace_credential_run:
  assumes "provider \<in> set PROVIDERS" and "credential \<noteq> []" and "length credential \<le> 16384" and "locked_or_new e now dr provider v = Inr (c, v1)"
    and "1 \<le> expected" and "int (ic_version c) = expected" and "new_credential e now dr provider credential actor c v1 = Inr (i, v2)"
    and "c' = c\<lparr>ic_secret := Some i, ic_state := CONFIGURED,
             ic_capabilities := (case map_of CAPABILITIES_BY_PROVIDER provider of None \<Rightarrow> [] | Some l \<Rightarrow> l),
             ic_version := ic_version c + 1, ic_updated := now\<rparr>"
    and "save_connection (ident e) c' v2 = Inr v3"
    and "audit e now dr ''integration.credential_replaced'' ''success'' actor provider (ic_version c') [] (vd_correlation dr) v3 = Inr v4"
  shows "replace_credential e now dr provider credential expected actor v = Inr (c', v4)"
  unfolding replace_credential_def
  using assms by (simp add: validate_provider_def expect_version_def Let_def assms(8) [symmetric])

lemma demo_stored:
  "replace_credential vault_demo_env 1 (demo_vault_draws ''1'') ''eventbrite'' ''token'' 1 demo_actor (empty_vault s) = Inr (demo_connection, stored_vault s)"
proof -
  let ?c = "demo_connection\<lparr>ic_state := NOT_CONFIGURED, ic_capabilities := [], ic_secret := None, ic_version := 1\<rparr>"
  let ?v1 = "(empty_vault s)\<lparr>v_connections := [?c]\<rparr>"
  have p: "''eventbrite'' \<in> set PROVIDERS" by (simp add: PROVIDERS_def)
  have l: "locked_or_new vault_demo_env 1 (demo_vault_draws ''1'') ''eventbrite'' (empty_vault s) = Inr (?c, ?v1)"
  proof -
    have "find_connection ''eventbrite'' (empty_vault s) = None" "v_connections (empty_vault s) = []" by (simp_all add: find_connection_def empty_vault_def)
    moreover have "save_connection vault_ident ?c (empty_vault s) = Inr ?v1"
      using p demo_configuration
      by (simp add: save_connection_def connection_clean_def lifecycle_ok_def) (simp add: empty_vault_def demo_connection_def)
    ultimately show ?thesis by (simp add: locked_or_new_def demo_new_connection Let_def)
  qed
  let ?v2 = "?v1\<lparr>v_secrets := [demo_secret]\<rparr>"
  have u: "actor_user_of demo_actor ?v1 = Some 2" by (simp add: actor_user_of_def empty_vault_def demo_owner_def demo_actor_def)
  have n: "new_credential vault_demo_env 1 (demo_vault_draws ''1'') ''eventbrite'' ''token'' demo_actor ?c ?v1 = Inr (''s1'', ?v2)"
  proof -
    let ?x = "demo_secret\<lparr>sc_created_by := None\<rparr>"
    have "new_secret 1 ''s1'' ''eventbrite'' ''private_token''
        \<lparr>en_version = 1, en_algorithm = ''AES-256-GCM'', en_key_id = ''k'', en_nonce = ''nonce-nonce-'', en_ciphertext = replicate 16 CHR ''t'' @ ''token''\<rparr> = ?x"
      by (simp add: new_secret_def demo_secret_def)
    then have "put vault_demo_env 1 (demo_vault_draws ''1'') ''eventbrite'' ''private_token'' ''token'' ?v1 = Inr (reference_to ?x, ?v1\<lparr>v_secrets := [?x]\<rparr>)"
      using p demo_purpose by (simp add: put_def demo_encrypts Let_def) (simp add: empty_vault_def)
    moreover have "sr_id (reference_to ?x) = ''s1''" "sc_pk ?x = ''s1''" "?x\<lparr>sc_created_by := Some 2\<rparr> = demo_secret" "sc_pk demo_secret = ''s1''"
      by (simp_all add: reference_to_def demo_secret_def)
    ultimately show ?thesis
      using u by (simp add: new_credential_def SCOPE_BY_PROVIDER_def update_secret_def store_secret_def)
  qed
  have s: "save_connection vault_ident demo_connection ?v2 = Inr (?v2\<lparr>v_connections := [demo_connection]\<rparr>)"
    using p demo_configuration by (simp add: save_connection_def connection_clean_def lifecycle_ok_def)
       (simp add: demo_connection_def demo_secret_def CAPABILITIES_BY_PROVIDER_def)
  then have s': "save_connection (ident vault_demo_env) demo_connection ?v2 = Inr (?v2\<lparr>v_connections := [demo_connection]\<rparr>)" by simp
  let ?v3 = "?v2\<lparr>v_connections := [demo_connection]\<rparr>"
  have "audit vault_demo_env 1 (demo_vault_draws ''1'') ''integration.credential_replaced'' ''success'' demo_actor ''eventbrite'' 2 [] (''q'' @ ''1'') ?v3
      = Inr (?v3\<lparr>v_idw := demo_owner ([] @ [demo_change ''1'' ''integration.credential_replaced'' 1])\<rparr>)"
    by (rule demo_audit) (simp_all add: empty_vault_def)
  moreover have "?v3\<lparr>v_idw := demo_owner ([] @ [demo_change ''1'' ''integration.credential_replaced'' 1])\<rparr> = stored_vault s"
    by (simp add: stored_vault_def empty_vault_def demo_events_def)
  ultimately have a: "audit vault_demo_env 1 (demo_vault_draws ''1'') ''integration.credential_replaced'' ''success'' demo_actor ''eventbrite''
      (ic_version demo_connection) [] (vd_correlation (demo_vault_draws ''1'')) ?v3 = Inr (stored_vault s)"
    by (simp add: demo_connection_def)
  show ?thesis
    by (rule replace_credential_run [OF p _ _ l _ _ n _ s' a]) (simp_all add: demo_connection_def CAPABILITIES_BY_PROVIDER_def)
qed

definition demo_test :: test_run where
  "demo_test = \<lparr>tr_connection = demo_connection, tr_reference = reference_to demo_secret, tr_expected = 2\<rparr>"

definition demo_check :: health_check where
  "demo_check = \<lparr>hc_pk = ''h2'', hc_connection = ''c1'', hc_outcome = ''healthy'', hc_category = [], hc_duration = 40, hc_correlation = ''q2'', hc_tested = 3\<rparr>"

definition demo_healthy :: integration_connection where
  "demo_healthy = demo_connection\<lparr>ic_state := HEALTHY, ic_updated := 3, ic_success := Some 3\<rparr>"

definition tested_vault :: "draft_db \<Rightarrow> vault" where
  "tested_vault s = \<lparr>v_idw = demo_owner (demo_events @ [demo_change ''2'' ''integration.connection_tested'' 3]), v_app = s, v_secrets = [demo_secret],
     v_connections = [demo_healthy], v_checks = [demo_check]\<rparr>"

lemma demo_begins: "begin_test ''eventbrite'' 2 (stored_vault s) = Inr demo_test"
proof -
  have "find_connection ''eventbrite'' (stored_vault s) = Some demo_connection" by (simp add: find_connection_def stored_vault_def demo_connection_def)
  moreover have "tfind sc_pk ''s1'' (v_secrets (stored_vault s)) = Some demo_secret" by (simp add: stored_vault_def demo_secret_def)
  moreover have "ic_version demo_connection = 2" "ic_state demo_connection = CONFIGURED" "ic_secret demo_connection = Some ''s1''" by (simp_all add: demo_connection_def)
  ultimately show ?thesis by (simp add: begin_test_def validate_provider_def PROVIDERS_def expect_version_def demo_test_def)
qed

lemma plain_inverts: "aead_inverts plain_aead"
  by (simp add: aead_inverts_def plain_aead_def)

lemma demo_plaintext: "envelope_plaintext vault_demo_env demo_secret = Some ''token''"
proof -
  have "decrypt_secret plain_aead (Some demo_ring_file)
      \<lparr>en_version = 1, en_algorithm = ''AES-256-GCM'', en_key_id = ''k'', en_nonce = ''nonce-nonce-'', en_ciphertext = replicate 16 CHR ''t'' @ ''token''\<rparr>
      ''s1'' ''eventbrite'' ''private_token'' = Some ''token''"
    by (rule open_sealed [OF plain_inverts demo_encrypts _ demo_ring_loads demo_ring_loads]) simp_all
  then show ?thesis by (simp add: envelope_plaintext_def) (simp add: demo_secret_def)
qed

lemma demo_session_open: "t < 100 \<Longrightarrow> i_sessions (v_idw v) = [demo_actor] \<Longrightarrow> i_profiles (v_idw v) = [\<lparr>pf_pk = ''o'', pf_user = 2, pf_status = ''active''\<rparr>] \<Longrightarrow> session_open v t ''z''"
  by (simp add: session_open_def demo_actor_def)

definition demo_context :: lease_context where
  "demo_context = \<lparr>lc_request = test_request demo_test ''z'', lc_expires = 15000002, lc_object = None, lc_held = False, lc_entered = False, lc_closed = False\<rparr>"

lemma demo_lease: "lease vault_demo_env 2 (test_request demo_test ''z'') (stored_vault s) = Inr demo_context"
proof -
  have "session_open (stored_vault s) 2 ''z''" by (rule demo_session_open) (simp_all add: stored_vault_def demo_owner_def)
  then show ?thesis
    by (simp add: lease_granted lease_request_ok_def valid_purpose_def test_request_def purposes MAX_LEASE_SECONDS_def seconds_def demo_context_def)
qed

definition demo_lease_object :: secret_lease where
  "demo_lease_object = \<lparr>sl_reference = reference_to demo_secret, sl_caller = ''z'', sl_workflow = None, sl_purpose = ''connection_test'',
     sl_expires = 15000002, sl_plaintext = Some ''token'', sl_used = False\<rparr>"

lemma demo_opens: "open_lease vault_demo_env 2 (test_request demo_test ''z'') 15000002 (stored_vault s) = Inr demo_lease_object"
proof -
  have "secret_for_reference (reference_to demo_secret) True (stored_vault s) = Inr demo_secret"
    by (simp add: secret_for_reference_def reference_to_def stored_vault_def)
  moreover have "sc_status demo_secret = SECRET_ACTIVE" by (simp add: demo_secret_def)
  ultimately show ?thesis
    by (simp add: open_lease_def test_request_def purposes demo_test_def demo_plaintext demo_lease_object_def)
qed

lemma demo_enters: "ctx_enter vault_demo_env 2 (stored_vault s) demo_context =
  (demo_context\<lparr>lc_object := Some demo_lease_object, lc_held := True, lc_entered := True\<rparr>, Inr demo_lease_object)"
proof -
  have "lc_request demo_context = test_request demo_test ''z''" "lc_expires demo_context = 15000002" "\<not> lc_entered demo_context" "\<not> lc_closed demo_context"
    by (simp_all add: demo_context_def)
  then show ?thesis by (simp add: ctx_enter_def demo_opens)
qed

lemma demo_probes: "probe_test vault_demo_env 2 2 2 ''z'' demo_test (stored_vault s) (stored_vault s) = Inr \<lparr>pr_ok = True, pr_category = []\<rparr>"
proof -
  have "snd (probe vault_demo_env 2 ''eventbrite'' [] demo_lease_object) = Inr \<lparr>pr_ok = True, pr_category = []\<rparr>"
  proof -
    have t: "latin1 ''token'' = Some ''token''" "CR \<notin> set ''token''" "LF \<notin> set ''token''" by code_simp+
    have n: "network vault_demo_env u h = PR_Response 200 10 (Some (JObj [(''id'', JStr ''7'')]))" for u h by (simp add: vault_demo_env_def)
    have sh: "shape_of EVENTBRITE_IDENTITY (Some (JObj [(''id'', JStr ''7'')])) = Some EVENTBRITE_IDENTITY" by (simp add: shape_of_def dget_def)
    have "transport_call vault_demo_env u \<lparr>header_name = n, header_prefix = p, response_shape = EVENTBRITE_IDENTITY\<rparr> ''token'' = Inr (200, Some EVENTBRITE_IDENTITY)" for u n p
      unfolding transport_call_def t(1) n by (simp add: t(2,3) parse_response_def MAX_RESPONSE_BYTES_def sh del: set_simps list.set)
    moreover have "lease_use 2 demo_lease_object = (demo_lease_object\<lparr>sl_used := True, sl_plaintext := None\<rparr>, Some ''token'')"
      by (simp add: lease_use_def demo_lease_object_def)
    ultimately show ?thesis
      by (simp add: probe_def probe_url_def transport_get_def PROBE_POLICIES_def probe_outcome_def status_category_def probe_shape_def)
  qed
  then show ?thesis by (simp add: probe_test_def demo_lease demo_enters) (simp add: demo_test_def demo_connection_def)
qed

lemma finish_test_run:
  assumes "tfind ic_pk (ic_pk (tr_connection t)) (v_connections v) = Some c" and "1 \<le> tr_expected t" and "int (ic_version c) = tr_expected t" and "pr_ok r"
    and "h = \<lparr>hc_pk = vd_check dr, hc_connection = ic_pk c, hc_outcome = ''healthy'', hc_category = [], hc_duration = min ms 30000,
              hc_correlation = vd_correlation dr, hc_tested = now\<rparr>"
    and "c' = c\<lparr>ic_state := HEALTHY, ic_failure := [], ic_success := Some now, ic_updated := now\<rparr>"
    and "create_check h v = Inr v1" and "save_connection (ident e) c' v1 = Inr v2"
    and "audit e now dr ''integration.connection_tested'' ''success'' actor (ic_provider c) (ic_version c) [] (vd_correlation dr) v2 = Inr v3"
  shows "finish_test e now dr ms actor t r v = Inr (h, v3)"
  unfolding finish_test_def
  using assms by (simp add: expect_version_def Let_def assms(5,6) [symmetric])

lemma demo_finishes:
  "finish_test vault_demo_env 3 (demo_vault_draws ''2'') 40 demo_actor demo_test \<lparr>pr_ok = True, pr_category = []\<rparr> (stored_vault s) = Inr (demo_check, tested_vault s)"
proof -
  let ?v1 = "(stored_vault s)\<lparr>v_checks := [demo_check]\<rparr>"
  let ?v2 = "?v1\<lparr>v_connections := [demo_healthy]\<rparr>"
  have c: "create_check demo_check (stored_vault s) = Inr ?v1" by (simp add: create_check_def check_ok_def demo_check_def stored_vault_def)
  have p: "''eventbrite'' \<in> set PROVIDERS" by (simp add: PROVIDERS_def)
  have "save_connection vault_ident demo_healthy ?v1 = Inr ?v2"
    using p demo_configuration by (simp add: save_connection_def connection_clean_def lifecycle_ok_def)
       (simp add: demo_healthy_def demo_connection_def demo_secret_def CAPABILITIES_BY_PROVIDER_def stored_vault_def)
  then have s: "save_connection (ident vault_demo_env) demo_healthy ?v1 = Inr ?v2" by simp
  have "audit vault_demo_env 3 (demo_vault_draws ''2'') ''integration.connection_tested'' ''success'' demo_actor ''eventbrite'' 2 [] (''q'' @ ''2'') ?v2
      = Inr (?v2\<lparr>v_idw := demo_owner (demo_events @ [demo_change ''2'' ''integration.connection_tested'' 3])\<rparr>)"
    by (rule demo_audit) (simp_all add: stored_vault_def)
  moreover have "?v2\<lparr>v_idw := demo_owner (demo_events @ [demo_change ''2'' ''integration.connection_tested'' 3])\<rparr> = tested_vault s"
    by (simp add: stored_vault_def tested_vault_def)
  ultimately have a: "audit vault_demo_env 3 (demo_vault_draws ''2'') ''integration.connection_tested'' ''success'' demo_actor (ic_provider demo_connection)
      (ic_version demo_connection) [] (vd_correlation (demo_vault_draws ''2'')) ?v2 = Inr (tested_vault s)"
    by (simp add: demo_healthy_def demo_connection_def)
  show ?thesis
    by (rule finish_test_run [OF _ _ _ _ _ _ c s a]) (simp_all add: demo_test_def stored_vault_def demo_connection_def demo_check_def demo_healthy_def)
qed

lemma demo_run_stored: "(vault_step vault_demo_env)\<^sup>*\<^sup>* (empty_vault s, []) (stored_vault s, [])"
  using vs_replace [OF demo_stored] by (rule r_into_rtranclp)

lemma demo_run_begun: "(vault_step vault_demo_env)\<^sup>*\<^sup>* (empty_vault s, []) (stored_vault s, [demo_test])"
  using demo_run_stored vs_begin [OF demo_begins] by (rule rtranclp.rtrancl_into_rtrancl)

lemma demo_run_tested: "(vault_step vault_demo_env)\<^sup>*\<^sup>* (empty_vault s, []) (tested_vault s, [demo_test])"
  using demo_run_begun vs_finish [OF _ demo_finishes] by (rule rtranclp.rtrancl_into_rtrancl) simp

section \<open>The theorems on this run\<close>

lemma demo_finds: "find_connection ''eventbrite'' (tested_vault s) = Some demo_healthy" "find_connection ''eventbrite'' (stored_vault s) = Some demo_connection"
  by (simp_all add: find_connection_def tested_vault_def stored_vault_def demo_healthy_def demo_connection_def)

theorem connection_rests_on_its_secret_witness:
  "(\<exists>i x. ic_secret demo_healthy = Some i \<and> tfind sc_pk i (v_secrets (tested_vault run_db)) = Some x \<and> sc_provider x = ''eventbrite''
      \<and> (ic_state demo_healthy = CONN_DISABLED \<longleftrightarrow> sc_status x = SECRET_DISABLED))
   \<and> (\<exists>h \<in> set (v_checks (tested_vault run_db)). hc_connection h = ic_pk demo_healthy \<and> hc_outcome h = ''healthy'' \<and> check_ok h)"
proof -
  have st: "ic_state demo_healthy = HEALTHY" "ic_state demo_healthy \<noteq> NOT_CONFIGURED" by (simp_all add: demo_healthy_def)
  show ?thesis using connection_rests_on_its_secret [OF demo_init_vault demo_run_tested demo_finds(1) st(2)] st(1) by blast
qed

theorem verdict_is_current_witness:
  "\<exists>c x p url pol. find_connection ''eventbrite'' (tested_vault run_db) = Some c \<and> ic_state c = HEALTHY \<and> ic_success c = Some 3
    \<and> ic_secret c = Some (sc_pk x) \<and> tfind sc_pk (sc_pk x) (v_secrets (tested_vault run_db)) = Some x \<and> sc_status x = SECRET_ACTIVE
    \<and> envelope_plaintext vault_demo_env x = Some p \<and> probe_url ''eventbrite'' (ic_configuration c) = Some url \<and> map_of PROBE_POLICIES url = Some pol
    \<and> transport_call vault_demo_env url pol p = Inr (200, Some (probe_shape ''eventbrite''))"
  by (rule verdict_is_current [OF demo_init_vault demo_run_stored demo_begins rtranclp.rtrancl_refl demo_probes _ rtranclp.rtrancl_refl demo_finishes]) simp

theorem stale_version_refused_witness:
  "replace_credential vault_demo_env 4 (demo_vault_draws ''4'') ''eventbrite'' ''other'' 1 demo_actor (stored_vault run_db) = Inl (ServiceError ''version_conflict'')
    \<and> update_configuration vault_demo_env 4 (demo_vault_draws ''4'') ''eventbrite'' [] 1 demo_actor (stored_vault run_db) = Inl (ServiceError ''version_conflict'')
    \<and> disable_connection vault_demo_env 4 (demo_vault_draws ''4'') ''eventbrite'' 1 demo_actor (stored_vault run_db) = Inl (ServiceError ''version_conflict'')
    \<and> begin_test ''eventbrite'' 1 (stored_vault run_db) = Inl (ServiceError ''version_conflict'')"
proof -
  have "edited_by vault_demo_env ''eventbrite'' 1 (empty_vault run_db) demo_connection (stored_vault run_db)"
    unfolding edited_by_def using demo_stored by blast
  then show ?thesis
    by (rule stale_version_refused [OF demo_init_vault rtranclp.rtrancl_refl _ rtranclp.rtrancl_refl]) simp_all
qed

theorem stored_credential_leased_witness:
  "\<exists>x ctx ctx' l. ic_secret demo_healthy = Some (sc_pk x) \<and> tfind sc_pk (sc_pk x) (v_secrets (tested_vault run_db)) = Some x
    \<and> lease vault_demo_env 4 \<lparr>lq_reference = reference_to x, lq_caller = ''z'', lq_workflow = None, lq_purpose = CONNECTION_TEST_PURPOSE,
                        lq_ttl = 10, lq_execution = None, lq_kind = None\<rparr> (tested_vault run_db) = Inr ctx
    \<and> ctx_enter vault_demo_env 5 (tested_vault run_db) ctx = (ctx', Inr l)
    \<and> lease_use 5 l = (l\<lparr>sl_used := True, sl_plaintext := None\<rparr>, Some ''token'')"
proof -
  have run: "(vault_step vault_demo_env)\<^sup>*\<^sup>* (stored_vault run_db, []) (tested_vault run_db, [demo_test])"
    using r_into_rtranclp [of "vault_step vault_demo_env", OF vs_begin [OF demo_begins]] vs_finish [OF _ demo_finishes]
    by (rule rtranclp.rtrancl_into_rtrancl) simp
  have so: "session_open (tested_vault run_db) 4 ''z''" by (rule demo_session_open) (simp_all add: tested_vault_def demo_owner_def)
  show ?thesis
    by (rule stored_credential_leased [OF _ demo_init_vault rtranclp.rtrancl_refl _ demo_stored run demo_finds(1) _ so _ _ _ _ demo_ring_loads demo_ring_loads refl])
       (simp_all add: plain_inverts seconds_def, simp_all add: demo_healthy_def vault_demo_env_def)
qed

definition demo_world :: lease_world where
  "demo_world = \<lparr>lw_context = demo_context, lw_vault = stored_vault run_db, lw_now = 2, lw_log = [], lw_opened = None\<rparr>"

definition demo_world_used :: lease_world where
  "demo_world_used = \<lparr>lw_context = demo_context\<lparr>lc_object := Some (demo_lease_object\<lparr>sl_used := True, sl_plaintext := None\<rparr>), lc_held := True, lc_entered := True\<rparr>,
     lw_vault = stored_vault run_db, lw_now = 2, lw_log = [(2, ''token'')], lw_opened = Some (2, stored_vault run_db)\<rparr>"

lemma demo_lease_run: "(lease_step vault_demo_env)\<^sup>*\<^sup>* demo_world demo_world_used"
proof -
  let ?c = "demo_context\<lparr>lc_object := Some demo_lease_object, lc_held := True, lc_entered := True\<rparr>"
  let ?s = "demo_world\<lparr>lw_context := ?c, lw_opened := Some (lw_now demo_world, lw_vault demo_world)\<rparr>"
  have "lease_step vault_demo_env demo_world ?s"
    by (rule ls_enter) (simp add: demo_world_def demo_enters)
  moreover have "lease_step vault_demo_env ?s (?s\<lparr>lw_context := ?c\<lparr>lc_object := Some (demo_lease_object\<lparr>sl_used := True, sl_plaintext := None\<rparr>)\<rparr>,
      lw_log := lw_log ?s @ [(lw_now ?s, ''token'')]\<rparr>)"
    by (rule ls_use) (simp add: ctx_use_def demo_world_def lease_use_def demo_lease_object_def)
  moreover have "?s\<lparr>lw_context := ?c\<lparr>lc_object := Some (demo_lease_object\<lparr>sl_used := True, sl_plaintext := None\<rparr>)\<rparr>,
      lw_log := lw_log ?s @ [(lw_now ?s, ''token'')]\<rparr> = demo_world_used"
    by (simp add: demo_world_def demo_world_used_def)
  ultimately show ?thesis by (metis rtranclp.intros)
qed

theorem lease_exposes_once_witness:
  "lw_log demo_world_used = [(2, ''token'')] \<and> lq_ttl (test_request demo_test ''z'') \<le> seconds 300
    \<and> (\<exists>t0 v0 x. lw_opened demo_world_used = Some (t0, v0) \<and> t0 \<le> 2
         \<and> tfind sc_pk (sr_id (lq_reference (test_request demo_test ''z''))) (v_secrets v0) = Some x
         \<and> reference_to x = lq_reference (test_request demo_test ''z'') \<and> sc_status x = SECRET_ACTIVE
         \<and> envelope_plaintext vault_demo_env x = Some ''token'')"
proof -
  have "granted vault_demo_env (test_request demo_test ''z'') 2 demo_world" by (simp add: granted_def demo_world_def demo_lease)
  note once = lease_exposes_once [OF this demo_lease_run]
  have log: "lw_log demo_world_used = [(2, ''token'')]" by (simp add: demo_world_used_def)
  then have "(2, ''token'') \<in> set (lw_log demo_world_used)" by simp
  with once have "\<exists>t0 v0 x. lw_opened demo_world_used = Some (t0, v0) \<and> t0 \<le> 2
      \<and> tfind sc_pk (sr_id (lq_reference (test_request demo_test ''z''))) (v_secrets v0) = Some x
      \<and> reference_to x = lq_reference (test_request demo_test ''z'') \<and> sc_status x = SECRET_ACTIVE
      \<and> envelope_plaintext vault_demo_env x = Some ''token''" by fast
  with once log show ?thesis by blast
qed

definition demo_tables :: draft_db where
  "demo_tables = run_db\<lparr>drafts := [approved_row]\<rparr>"

lemma demo_app_view: "app_view (tested_vault demo_tables) = demo_tables"
  by (simp add: app_view_def demo_tables_def run_db_def tested_vault_def demo_owner_def demo_actor_def admin_session.truncate_def
      connection_row_def secret_of_def demo_healthy_def demo_connection_def demo_secret_def comp_def)


definition demo_revoked :: idw where
  "demo_revoked = demo_owner []\<lparr>i_sessions := [demo_actor\<lparr>se_revoked := Some 5\<rparr>]\<rparr>"

theorem revoked_session_no_lease_witness:
  "lease vault_demo_env 6 (write_request (reference_to demo_secret) ''z'' ''w'' ''x'') (tested_vault run_db\<lparr>v_idw := demo_revoked\<rparr>) = Inl SecretUnavailable
    \<and> open_lease vault_demo_env 6 (write_request (reference_to demo_secret) ''z'' ''w'' ''x'') 9 (tested_vault run_db\<lparr>v_idw := demo_revoked\<rparr>) =
        Inl SecretUnavailable"
proof -
  let ?q = "write_request (reference_to demo_secret) ''z'' ''w'' ''x''"
  have se: "tfind se_pk ''z'' (i_sessions demo_revoked) = Some (demo_actor\<lparr>se_revoked := Some 5\<rparr>)" by (simp add: demo_revoked_def demo_actor_def)
  have run: "(id_step vault_ident)\<^sup>*\<^sup>* demo_revoked (v_idw (tested_vault run_db\<lparr>v_idw := demo_revoked\<rparr>))" by simp
  have rv: "se_revoked (demo_actor\<lparr>se_revoked := Some 5\<rparr>) \<noteq> None" and q: "lq_caller ?q = ''z''" "lq_purpose ?q = EVENTBRITE_WRITE_PURPOSE"
    by (simp_all add: write_request_def)
  show ?thesis using revoked_session_no_lease [OF se rv run q(1)] q(2) by simp
qed

end
