(* ===== verification/Budget.thy ===== *)
theory Budget
  imports CL_Prelude
begin

text \<open>
  The model budget of \<open>backend/agents/budgets.py\<close> and its tables in \<open>backend/agents/models.py\<close>:
  versioned model profiles and routing policies, one budget period per month, one reservation per
  run and the append-only ledger.  Amounts are micro-dollars, as \<open>int\<close>; the database's check and
  uniqueness constraints are explicit branches that give \<open>BudgetIntegrityError\<close>.

  \<open>active\<close> is the list of run ids that the expiry query excludes: Hermes runs that are queued or
  running or whose control row has admission disabled.
\<close>

section \<open>Tables\<close>

type_synonym run_id = string
type_synonym month = "int \<times> nat \<times> nat"

record model_profile =
  mp_pk :: nat
  profile_id :: string
  mp_revision :: nat
  provider :: string
  model_name :: string
  purpose :: string
  max_input_tokens :: int
  max_output_tokens :: int
  temperature :: rat
  input_price :: "int option"
  output_price :: "int option"

record routing_policy =
  rp_pk :: nat
  policy_id :: string
  rp_revision :: nat
  rp_purpose :: string
  rp_profile :: nat
  per_run_limit :: int
  monthly_limit :: int

record period =
  pd_pk :: nat
  month :: month
  limit :: int
  reserved :: int
  settled :: int

datatype res_status = RESERVED | SETTLED | RELEASED

record reservation =
  res_pk :: string
  res_run :: run_id
  res_profile :: model_profile
  res_policy :: routing_policy
  res_period :: nat
  estimated_input :: int
  estimated_output :: int
  reserved_cost :: int
  settled_input :: "int option"
  settled_output :: "int option"
  settled_cost :: "int option"
  res_status :: res_status
  expires_at :: int

datatype entry_type = E_RESERVED | E_SETTLED | E_RELEASED | E_ADJUSTMENT

record ledger_record =
  lg_run :: run_id
  lg_reservation :: string
  lg_profile :: string
  lg_revision :: nat
  entry_type :: entry_type
  lg_input :: int
  lg_output :: int
  lg_cost :: int

record budget_db =
  profiles :: "model_profile list"
  policies :: "routing_policy list"
  periods :: "period list"
  reservations :: "reservation list"
  ledger :: "ledger_record list"
  next_period :: nat

record clock =
  today :: month
  instant :: int

datatype budget_error =
    UnknownModelPrice
  | BudgetExhausted
  | BudgetRequestConflict
  | BudgetIntegrityError
  | ImmutableRecord

section \<open>Versioned records\<close>

text \<open>
  \<open>ImmutableVersionedModel.save\<close>: a stored record may be saved again only with the same immutable
  fields, which are all its columns here; a new record must respect the constraints.
\<close>

definition save_profile :: "model_profile \<Rightarrow> budget_db \<Rightarrow> budget_error + budget_db" where
  "save_profile p s =
     (case tfind mp_pk (mp_pk p) (profiles s) of
        Some q \<Rightarrow> if q \<noteq> p then Inl ImmutableRecord else Inr s
      | None \<Rightarrow>
          if list_ex (\<lambda>q. profile_id q = profile_id p \<and> mp_revision q = mp_revision p) (profiles s)
             \<or> max_input_tokens p \<le> 0 \<or> max_output_tokens p \<le> 0
             \<or> (\<exists>x \<in> set_option (input_price p) \<union> set_option (output_price p). x < 0)
          then Inl BudgetIntegrityError
          else Inr (s\<lparr>profiles := profiles s @ [p]\<rparr>))"

definition save_policy :: "routing_policy \<Rightarrow> budget_db \<Rightarrow> budget_error + budget_db" where
  "save_policy p s =
     (case tfind rp_pk (rp_pk p) (policies s) of
        Some q \<Rightarrow> if q \<noteq> p then Inl ImmutableRecord else Inr s
      | None \<Rightarrow>
          if list_ex (\<lambda>q. policy_id q = policy_id p \<and> rp_revision q = rp_revision p) (policies s)
             \<or> list_ex (\<lambda>q. rp_profile q = rp_profile p) (policies s)
             \<or> tfind mp_pk (rp_profile p) (profiles s) = None
             \<or> per_run_limit p \<le> 0 \<or> monthly_limit p \<le> 0
          then Inl BudgetIntegrityError
          else Inr (s\<lparr>policies := policies s @ [p]\<rparr>))"

section \<open>Cost\<close>

definition month_start :: "clock \<Rightarrow> month" where
  "month_start now = (case today now of (y, m, d) \<Rightarrow> (y, m, 1))"

definition cost_of :: "model_profile \<Rightarrow> int \<Rightarrow> int \<Rightarrow> budget_error + int" where
  "cost_of p input_tokens output_tokens =
     (case (input_price p, output_price p) of
        (Some pin, Some pout) \<Rightarrow>
          if input_tokens < 0 \<or> output_tokens < 0 then Inl BudgetRequestConflict
          else Inr ((input_tokens * pin + output_tokens * pout + 999999) div 1000000)
      | _ \<Rightarrow> Inl UnknownModelPrice)"

definition profile_and_policy :: "string \<Rightarrow> nat \<Rightarrow> budget_db \<Rightarrow> budget_error + model_profile \<times> routing_policy" where
  "profile_and_policy pid rv s =
     (case find (\<lambda>p. profile_id p = pid \<and> mp_revision p = rv) (profiles s) of
        None \<Rightarrow> Inl UnknownModelPrice
      | Some p \<Rightarrow>
        (case find (\<lambda>q. rp_profile q = mp_pk p \<and> rp_purpose q = purpose p) (policies s) of
           None \<Rightarrow> Inl UnknownModelPrice
         | Some q \<Rightarrow> if input_price p = None \<or> output_price p = None then Inl UnknownModelPrice
                     else Inr (p, q)))"

section \<open>Writes with their constraints\<close>

definition save_period :: "period \<Rightarrow> budget_db \<Rightarrow> budget_error + budget_db" where
  "save_period p s =
     (if reserved p < 0 \<or> settled p < 0 then Inl BudgetIntegrityError
      else Inr (s\<lparr>periods := tput pd_pk p (periods s)\<rparr>))"

definition save_reservation :: "reservation \<Rightarrow> budget_db \<Rightarrow> budget_db" where
  "save_reservation r s = s\<lparr>reservations := tput res_pk r (reservations s)\<rparr>"

definition create_ledger :: "ledger_record \<Rightarrow> budget_db \<Rightarrow> budget_error + budget_db" where
  "create_ledger l s =
     (if list_ex (\<lambda>k. lg_run k = lg_run l \<and> entry_type k = entry_type l) (ledger s) \<or> lg_cost l < 0
      then Inl BudgetIntegrityError
      else Inr (s\<lparr>ledger := ledger s @ [l]\<rparr>))"

definition create_reservation :: "reservation \<Rightarrow> budget_db \<Rightarrow> budget_error + budget_db" where
  "create_reservation r s =
     (if tfind res_pk (res_pk r) (reservations s) \<noteq> None \<or> tfind res_run (res_run r) (reservations s) \<noteq> None
         \<or> reserved_cost r < 0 \<or> estimated_input r < 0 \<or> estimated_output r < 0
      then Inl BudgetIntegrityError
      else Inr (s\<lparr>reservations := reservations s @ [r]\<rparr>))"

definition entry :: "reservation \<Rightarrow> entry_type \<Rightarrow> int \<Rightarrow> int \<Rightarrow> int \<Rightarrow> ledger_record" where
  "entry r t input_tokens output_tokens c =
     \<lparr>lg_run = res_run r, lg_reservation = res_pk r, lg_profile = profile_id (res_profile r),
      lg_revision = mp_revision (res_profile r), entry_type = t, lg_input = input_tokens,
      lg_output = output_tokens, lg_cost = c\<rparr>"

text \<open>\<open>get_or_create\<close> of the month's period, then the locked read and the policy check.\<close>

definition period_for_update :: "routing_policy \<Rightarrow> clock \<Rightarrow> budget_db \<Rightarrow> budget_error + period \<times> budget_db" where
  "period_for_update policy now s =
     (let (p, s1) = (case tfind month (month_start now) (periods s) of
            Some p \<Rightarrow> (p, s)
          | None \<Rightarrow> let p = \<lparr>pd_pk = next_period s, month = month_start now, limit = monthly_limit policy,
                           reserved = 0, settled = 0\<rparr>
                    in (p, s\<lparr>periods := periods s @ [p], next_period := Suc (next_period s)\<rparr>))
      in if limit p \<noteq> monthly_limit policy then Inl BudgetRequestConflict else Inr (p, s1))"

section \<open>Expiry\<close>

definition expirable :: "run_id list \<Rightarrow> int \<Rightarrow> nat \<Rightarrow> reservation \<Rightarrow> bool" where
  "expirable active now k r \<longleftrightarrow>
     res_period r = k \<and> res_status r = RESERVED \<and> expires_at r \<le> now \<and> res_run r \<notin> set active"

text \<open>The loop over the expired reservations; the period is the object the caller holds.\<close>

fun expire_each :: "reservation list \<Rightarrow> period \<Rightarrow> budget_db \<Rightarrow> budget_error + period \<times> budget_db" where
  "expire_each [] p s = Inr (p, s)"
| "expire_each (r # rs) p s =
     try_bind (create_ledger (entry r E_RELEASED 0 0 (reserved_cost r))
                 (save_reservation (r\<lparr>res_status := RELEASED\<rparr>) s)) (\<lambda>s1.
       expire_each rs (p\<lparr>reserved := reserved p - reserved_cost r\<rparr>) s1)"

definition expire_period_reservations :: "run_id list \<Rightarrow> period \<Rightarrow> int \<Rightarrow> budget_db \<Rightarrow> budget_error + nat \<times> budget_db" where
  "expire_period_reservations active p now s =
     (let expired = filter (expirable active now (pd_pk p)) (reservations s)
      in try_bind (expire_each expired p s) (\<lambda>(p', s').
           if expired = [] then Inr (0, s')
           else try_bind (save_period p' s') (\<lambda>s''. Inr (length expired, s''))))"

fun expire_periods :: "run_id list \<Rightarrow> int \<Rightarrow> period list \<Rightarrow> budget_db \<Rightarrow> budget_error + nat \<times> budget_db" where
  "expire_periods active now [] s = Inr (0, s)"
| "expire_periods active now (p # ps) s =
     try_bind (expire_period_reservations active p now s) (\<lambda>(n, s1).
     try_bind (expire_periods active now ps s1) (\<lambda>(m, s2). Inr (n + m, s2)))"

definition expire_reservations :: "run_id list \<Rightarrow> int \<Rightarrow> budget_db \<Rightarrow> budget_error + nat \<times> budget_db" where
  "expire_reservations active now s =
     (let period_ids = map res_period (filter (\<lambda>r. res_status r = RESERVED \<and> expires_at r \<le> now) (reservations s))
      in expire_periods active now (filter (\<lambda>p. pd_pk p \<in> set period_ids) (periods s)) s)"

section \<open>Reserve, settle, release, charge\<close>

definition new_reservation ::
  "string \<Rightarrow> run_id \<Rightarrow> model_profile \<Rightarrow> routing_policy \<Rightarrow> nat \<Rightarrow> int \<Rightarrow> int \<Rightarrow> int \<Rightarrow> int \<Rightarrow> reservation" where
  "new_reservation rid run p q k i out c expiry =
     \<lparr>res_pk = rid, res_run = run, res_profile = p, res_policy = q, res_period = k, estimated_input = i,
      estimated_output = out, reserved_cost = c, settled_input = None, settled_output = None,
      settled_cost = None, res_status = RESERVED, expires_at = expiry\<rparr>"

definition get_period :: "nat \<Rightarrow> budget_db \<Rightarrow> budget_error + period" where
  "get_period k s = of_option BudgetIntegrityError (tfind pd_pk k (periods s))"

text \<open>The writes of a reservation that fits: the row, the period and the ledger entry.\<close>

definition reserve_commit :: "reservation \<Rightarrow> period \<Rightarrow> budget_db \<Rightarrow> budget_error + budget_db" where
  "reserve_commit r p s =
     try_bind (create_reservation r s) (\<lambda>s1.
     try_bind (save_period (p\<lparr>reserved := reserved p + reserved_cost r\<rparr>) s1) (\<lambda>s2.
       create_ledger (entry r E_RESERVED (estimated_input r) (estimated_output r) (reserved_cost r)) s2))"

text \<open>The monthly part of a new reservation: the period, its expiries, the limit, the writes.\<close>

definition reserve_new ::
  "run_id list \<Rightarrow> clock \<Rightarrow> string \<Rightarrow> run_id \<Rightarrow> model_profile \<Rightarrow> routing_policy \<Rightarrow> int \<Rightarrow> int \<Rightarrow> int \<Rightarrow> int option
    \<Rightarrow> budget_db \<Rightarrow> budget_error + reservation \<times> budget_db" where
  "reserve_new active now rid run p q i out c expiry s =
     try_bind (period_for_update q now s) (\<lambda>(pd0, s1).
     try_bind (expire_period_reservations active pd0 (instant now) s1) (\<lambda>(n, s2).
     try_bind (get_period (pd_pk pd0) s2) (\<lambda>pd.
     if reserved pd + settled pd + c > limit pd then Inl BudgetExhausted
     else
       let r = new_reservation rid run p q (pd_pk pd) i out c
                 (case expiry of None \<Rightarrow> instant now + 15 * 60 * 1000000 | Some x \<Rightarrow> x)
       in try_bind (reserve_commit r pd s2) (\<lambda>s3. Inr (r, s3)))))"

definition reserve_budget ::
  "run_id list \<Rightarrow> clock \<Rightarrow> string \<Rightarrow> run_id \<Rightarrow> string \<Rightarrow> nat \<Rightarrow> int \<Rightarrow> int \<Rightarrow> int option \<Rightarrow> budget_db
    \<Rightarrow> budget_error + reservation \<times> budget_db" where
  "reserve_budget active now rid run pid rv i out expiry s =
     (case tfind res_run run (reservations s) of
        Some r \<Rightarrow>
          if (profile_id (res_profile r), mp_revision (res_profile r), estimated_input r, estimated_output r)
             \<noteq> (pid, rv, i, out)
          then Inl BudgetRequestConflict else Inr (r, s)
      | None \<Rightarrow>
          try_bind (profile_and_policy pid rv s) (\<lambda>(p, q).
          if i > max_input_tokens p \<or> out > max_output_tokens p then Inl BudgetRequestConflict
          else try_bind (cost_of p i out) (\<lambda>c.
            if c > per_run_limit q then Inl BudgetExhausted
            else reserve_new active now rid run p q i out c expiry s)))"

definition settle_commit :: "reservation \<Rightarrow> period \<Rightarrow> int \<Rightarrow> int \<Rightarrow> int \<Rightarrow> budget_db \<Rightarrow> budget_error + reservation \<times> budget_db" where
  "settle_commit r p i out c s =
     (let r' = r\<lparr>res_status := SETTLED, settled_input := Some i, settled_output := Some out,
                settled_cost := Some c\<rparr>
      in try_bind (save_period (p\<lparr>reserved := reserved p - reserved_cost r, settled := settled p + c\<rparr>) s) (\<lambda>s1.
         try_bind (create_ledger (entry r' E_SETTLED i out c) (save_reservation r' s1)) (\<lambda>s2. Inr (r', s2))))"

definition settle_budget :: "run_id \<Rightarrow> int \<Rightarrow> int \<Rightarrow> budget_db \<Rightarrow> budget_error + reservation \<times> budget_db" where
  "settle_budget run i out s =
     try_bind (of_option BudgetRequestConflict (tfind res_run run (reservations s))) (\<lambda>r.
     if res_status r = RELEASED then Inl BudgetRequestConflict
     else if res_status r = SETTLED then
       (if settled_input r \<noteq> Some i \<or> settled_output r \<noteq> Some out then Inl BudgetRequestConflict else Inr (r, s))
     else try_bind (cost_of (res_profile r) i out) (\<lambda>c.
       if i > max_input_tokens (res_profile r) \<or> out > max_output_tokens (res_profile r)
       then Inl BudgetRequestConflict
       else if c > per_run_limit (res_policy r) then Inl BudgetExhausted
       else try_bind (get_period (res_period r) s) (\<lambda>p.
         if settled p + reserved p + (c - reserved_cost r) > limit p then Inl BudgetExhausted
         else settle_commit r p i out c s)))"

definition release_commit :: "reservation \<Rightarrow> period \<Rightarrow> budget_db \<Rightarrow> budget_error + reservation \<times> budget_db" where
  "release_commit r p s =
     (let r' = r\<lparr>res_status := RELEASED\<rparr>
      in try_bind (save_period (p\<lparr>reserved := reserved p - reserved_cost r\<rparr>) s) (\<lambda>s1.
         try_bind (create_ledger (entry r' E_RELEASED 0 0 (reserved_cost r)) (save_reservation r' s1)) (\<lambda>s2.
           Inr (r', s2))))"

definition release_budget :: "run_id \<Rightarrow> budget_db \<Rightarrow> budget_error + reservation option \<times> budget_db" where
  "release_budget run s =
     (case tfind res_run run (reservations s) of
        None \<Rightarrow> Inr (None, s)
      | Some r \<Rightarrow>
          if res_status r \<noteq> RESERVED then Inr (Some r, s)
          else try_bind (get_period (res_period r) s) (\<lambda>p.
               try_bind (release_commit r p s) (\<lambda>(r', s'). Inr (Some r', s'))))"

definition charge_reserved_budget :: "run_id \<Rightarrow> budget_db \<Rightarrow> budget_error + reservation option \<times> budget_db" where
  "charge_reserved_budget run s =
     (case tfind res_run run (reservations s) of
        None \<Rightarrow> Inr (None, s)
      | Some r \<Rightarrow>
          if res_status r \<noteq> RESERVED then Inr (Some r, s)
          else try_bind (get_period (res_period r) s) (\<lambda>p.
               try_bind (settle_commit r p (estimated_input r) (estimated_output r) (reserved_cost r) s) (\<lambda>(r', s').
                 Inr (Some r', s'))))"

end
