(* ===== verification/Broker.thy ===== *)
theory Broker
  imports Draft_Ops Capability_Token
begin

text \<open>
  The tool broker: \<open>backend/agents/capabilities.py\<close> (issue and revoke the capability of a workflow) and
  \<open>backend/agents/mcp.py\<close> (dispatch of a tool call under a capability).  What Django's signer
  signs and accepts is an argument (\<open>signed\<close> and \<open>unsign\<close>, see \<open>Capability_Token\<close>), and so is the service
  token file: \<open>service_token\<close> is its stripped content, \<open>None\<close> when it cannot be read.  Times are in
  microseconds.  Tracing spans are not modelled.
\<close>

section \<open>Capabilities\<close>

definition AUDIENCE :: string where
  "AUDIENCE = ''civicloop-hermes''"

definition TOOLS :: "string list" where
  "TOOLS = [''get_event_revision'', ''get_policy_context'', ''request_clarification'', ''propose_campaign_drafts'',
     ''validate_proposal'', ''request_eventbrite_draft'', ''request_iterable_drafts'', ''get_operation_status'']"

text \<open>\<open>AuthorizationDenied\<close> with the stage of a \<open>_BrokerDenial\<close>, the argument error, and what the database raises.\<close>

datatype broker_error = Denied string | InvalidArguments | BrokerMissing | BrokerIntegrity

definition denied_auth :: broker_error where
  "denied_auth = Denied ''authorization_failed''"

definition refuse :: "broker_error \<Rightarrow> bool \<Rightarrow> broker_error + unit" where
  "refuse x bad = (if bad then Inl x else Inr ())"

fun lift_args :: "tool_error + 'a \<Rightarrow> broker_error + 'a" where
  "lift_args (Inl _) = Inl InvalidArguments" | "lift_args (Inr v) = Inr v"

definition token_digest :: "py_env \<Rightarrow> string \<Rightarrow> string" where
  "token_digest e t = sha256_hex e t"

definition SECOND :: int where
  "SECOND = 1000000"

definition record_audit :: "string option \<Rightarrow> string \<Rightarrow> string \<Rightarrow> string \<Rightarrow> dict \<Rightarrow> draft_db \<Rightarrow> draft_db" where
  "record_audit a action ttype tid details s = s\<lparr>base := add_audit a action ttype tid details (base s)\<rparr>"

definition operator_active :: "draft_db \<Rightarrow> actor \<Rightarrow> bool" where
  "operator_active s a \<longleftrightarrow> actor_role a = OPERATOR \<and> (case actor_user a of None \<Rightarrow> False | Some u \<Rightarrow> u \<in> set (active_users s))"

definition issue_workflow_capability ::
  "py_env \<Rightarrow> int \<Rightarrow> string \<Rightarrow> uuid \<Rightarrow> uuid \<Rightarrow> nat \<Rightarrow> string \<Rightarrow> string list \<Rightarrow> int \<Rightarrow> draft_db \<Rightarrow> broker_error + string \<times> draft_db" where
  "issue_workflow_capability e now signed cid wid revision_id actor_id tools lifetime s =
     try_bind (refuse denied_auth (\<not> (1 \<le> lifetime \<and> lifetime \<le> 300) \<or> tools = [] \<or> \<not> set tools \<subseteq> set TOOLS)) (\<lambda>_.
     try_bind (of_option denied_auth (tfind wf_pk wid (workflows (base s)))) (\<lambda>w.
     try_bind (refuse denied_auth (wf_revision w \<noteq> revision_id)) (\<lambda>_.
     try_bind (of_option BrokerMissing (tfind rev_pk (wf_revision w) (revisions (base s)))) (\<lambda>r.
     try_bind (refuse denied_auth (rev_event r \<noteq> wf_event w)) (\<lambda>_.
     try_bind (of_option denied_auth (tfind slug actor_id (actors (base s)))) (\<lambda>a.
     try_bind (refuse denied_auth (\<not> operator_active s a)) (\<lambda>_.
     try_bind (lift_args (digest e (JObj (snapshot r)))) (\<lambda>rd.
     let tok = new_token signed in
     try_bind (refuse BrokerIntegrity (token_digest e tok \<in> set (map cap_token (capabilities s)) \<or> cid \<in> set (map cap_pk (capabilities s)))) (\<lambda>_.
       Inr (tok, record_audit (Some actor_id) ''mcp.capability_issued'' ''workflow'' wid [(''capability_id'', JStr cid)]
         (s\<lparr>capabilities := capabilities s @ [\<lparr>cap_pk = cid, cap_revision_digest = rd, cap_workflow = wid, cap_revision = revision_id,
            cap_actor = actor_id, cap_tools = sort tools, cap_audience = AUDIENCE, cap_correlation = None,
            cap_token = token_digest e tok, cap_issued = now, cap_expires = now + lifetime * SECOND, cap_revoked = None\<rparr>]\<rparr>)))))))))))"

definition revoke_workflow_capability :: "py_env \<Rightarrow> int \<Rightarrow> string \<Rightarrow> draft_db \<Rightarrow> broker_error + draft_db" where
  "revoke_workflow_capability e now tok s =
     try_bind (of_option denied_auth (tfind cap_token (token_digest e tok) (capabilities s))) (\<lambda>c.
       Inr (record_audit (Some (cap_actor c)) ''mcp.capability_revoked'' ''workflow'' (cap_workflow c) [(''capability_id'', JStr (cap_pk c))]
         (s\<lparr>capabilities := tput cap_pk (c\<lparr>cap_revoked := Some now\<rparr>) (capabilities s)\<rparr>)))"

section \<open>The scope of a call\<close>

definition arg :: "dict \<Rightarrow> string \<Rightarrow> string" where
  "arg d k = text_of (dget d k)"

definition capability_live :: "int \<Rightarrow> capability \<Rightarrow> bool" where
  "capability_live now c \<longleftrightarrow> cap_audience c = AUDIENCE \<and> cap_revoked c = None \<and> cap_issued c \<le> now \<and> now < cap_expires c
     \<and> 0 < cap_expires c - cap_issued c \<and> cap_expires c - cap_issued c \<le> 300 * SECOND"

definition in_scope :: "draft_db \<Rightarrow> int \<Rightarrow> string \<Rightarrow> dict \<Rightarrow> capability \<Rightarrow> bool" where
  "in_scope s now tool d c \<longleftrightarrow> capability_live now c \<and> tool \<in> set (cap_tools c)
     \<and> cap_workflow c = arg d ''workflow_id'' \<and> dget d ''revision_id'' = JInt (int (cap_revision c)) \<and> cap_actor c = arg d ''actor_id''
     \<and> (case tfind slug (cap_actor c) (actors (base s)) of None \<Rightarrow> False | Some a \<Rightarrow> operator_active s a)"

definition at_revision :: "py_env \<Rightarrow> draft_db \<Rightarrow> capability \<Rightarrow> workflow \<Rightarrow> broker_error + revision" where
  "at_revision e s c w =
     try_bind (refuse (Denied ''revision_scope'') (wf_revision w \<noteq> cap_revision c)) (\<lambda>_.
     try_bind (of_option BrokerMissing (tfind rev_pk (wf_revision w) (revisions (base s)))) (\<lambda>r.
     try_bind (lift_args (digest e (JObj (snapshot r)))) (\<lambda>rd.
     try_bind (refuse (Denied ''revision_scope'') (rd \<noteq> cap_revision_digest c \<or> wf_event w \<noteq> rev_event r)) (\<lambda>_. Inr r))))"

text \<open>What a worker resolves before it calls: the fixed arguments of its capability, once bound, and its tools.\<close>

definition bound_tool_context :: "py_env \<Rightarrow> (string \<Rightarrow> bool) \<Rightarrow> int \<Rightarrow> string \<Rightarrow> draft_db \<Rightarrow> broker_error + dict option \<times> string list" where
  "bound_tool_context e unsign now tok s =
     try_bind (refuse denied_auth (length tok > 160 \<or> \<not> verify_token unsign tok)) (\<lambda>_.
     try_bind (of_option denied_auth (tfind cap_token (token_digest e tok) (capabilities s))) (\<lambda>c.
     try_bind (refuse denied_auth (\<not> capability_live now c \<or> cap_tools c = [] \<or> \<not> set (cap_tools c) \<subseteq> set TOOLS
        \<or> \<not> (case tfind slug (cap_actor c) (actors (base s)) of None \<Rightarrow> False | Some a \<Rightarrow> operator_active s a))) (\<lambda>_.
     try_bind (of_option BrokerMissing (tfind wf_pk (cap_workflow c) (workflows (base s)))) (\<lambda>w.
     try_bind (refuse denied_auth (wf_revision w \<noteq> cap_revision c)) (\<lambda>_.
     try_bind (of_option BrokerMissing (tfind rev_pk (wf_revision w) (revisions (base s)))) (\<lambda>r.
     try_bind (lift_args (digest e (JObj (snapshot r)))) (\<lambda>rd.
     try_bind (refuse denied_auth (rd \<noteq> cap_revision_digest c \<or> wf_event w \<noteq> rev_event r)) (\<lambda>_.
       Inr (case cap_correlation c of
              None \<Rightarrow> None
            | Some q \<Rightarrow> Some [(''workflow_id'', JStr (cap_workflow c)), (''revision_id'', JInt (int (cap_revision c))),
                (''actor_id'', JStr (cap_actor c)), (''correlation_id'', JStr q)],
            cap_tools c)))))))))"

text \<open>The retry identifiers of a bound call; \<open>uuid5_url\<close> is the library's \<open>uuid5\<close> in the URL namespace.\<close>

definition bind_call_metadata :: "py_env \<Rightarrow> (string \<Rightarrow> uuid) \<Rightarrow> string \<Rightarrow> string \<Rightarrow> dict \<Rightarrow> broker_error + dict" where
  "bind_call_metadata e uuid5_url tok tool d =
     (if ''request_id'' \<in> set (map fst d) \<or> ''idempotency_key'' \<in> set (map fst d) then Inr d
      else try_bind (lift_args (digest e (JList [JStr (token_digest e tok), JStr tool, JObj d]))) (\<lambda>key.
        Inr (d @ [(''request_id'', JStr (uuid5_url (''urn:civicloop:mcp-call:'' @ key))), (''idempotency_key'', JStr key)])))"

section \<open>The tools\<close>

definition EVENT_FACTS :: "string list" where
  "EVENT_FACTS = [''title'', ''date'', ''start_time'', ''end_time'', ''timezone'', ''venue_name'', ''venue_address'',
     ''access_instructions'', ''signup_url'', ''city'', ''region'', ''country'']"

definition exported :: "string \<times> json \<Rightarrow> bool" where
  "exported kv = (case kv of (k, v) \<Rightarrow> k \<in> set EVENT_FACTS \<and> (case v of JStr t \<Rightarrow> length t \<le> 4000 | _ \<Rightarrow> False))"

definition event_revision_result :: "py_env \<Rightarrow> revision \<Rightarrow> broker_error + dict" where
  "event_revision_result e r = try_bind (lift_args (bounded_json e (JObj (snapshot r)))) (\<lambda>_.
     Inr [(''revision_id'', JInt (int (rev_pk r))), (''event'', JObj (filter exported (snapshot r))), (''content_trust'', JStr ''untrusted'')])"

definition policy_context_result :: "revision \<Rightarrow> dict" where
  "policy_context_result r =
     [(''policy_version'', JStr ''mcp-drafts-v1''), (''provider_execution_allowed'', JBool False),
      (''approval_required'', JStr (if kind_of r = Synthetic then ''four_eyes_exact_revision_and_action_digest''
         else ''owner_exact_revision_and_action_digest_audience_policy_review'')),
      (''prohibited_actions'', JList (map JStr [''publish'', ''schedule'', ''send'', ''ticket_economics'', ''create_segment'', ''export_constituents'']))]"

text \<open>\<open>request_clarification\<close> and \<open>propose_campaign_drafts\<close>: the content is stored as an untrusted submission.\<close>

definition submit_content :: "py_env \<Rightarrow> uuid \<Rightarrow> string \<Rightarrow> json \<Rightarrow> capability \<Rightarrow> draft_db \<Rightarrow> broker_error + dict \<times> draft_db" where
  "submit_content e sid kind content c s =
     try_bind (lift_args (digest e content)) (\<lambda>h.
     try_bind (refuse BrokerIntegrity (sid \<in> set (map sub_pk (submissions s)))) (\<lambda>_.
       Inr ([(kind @ ''_id'', JStr sid), (kind @ ''_digest'', JStr h), (''status'', JStr ''pending''), (''content_trust'', JStr ''untrusted'')],
         s\<lparr>submissions := submissions s @ [\<lparr>sub_pk = sid, sub_capability = cap_pk c, sub_kind = kind, sub_content = content, sub_digest = h\<rparr>]\<rparr>)))"

definition operation_payload :: "draft_operation \<Rightarrow> json" where
  "operation_payload i = JObj
     [(''operation_id'', JStr (in_pk i)), (''workflow_id'', JStr (in_workflow i)), (''revision_id'', JInt (int (in_revision i))),
      (''provider'', JStr (in_provider i)), (''operation_kind'', JStr (in_kind i)), (''action_digest'', JStr (in_action_digest i)),
      (''idempotency_key'', JStr (in_idempotency i)), (''status'', JStr (in_status i)), (''approval'', JNull), (''receipt'', JNull),
      (''schema_version'', JStr ''1.0'')]"

definition payload_dict :: "json \<Rightarrow> dict" where
  "payload_dict v = (case v of JObj d \<Rightarrow> d | _ \<Rightarrow> [])"

definition capability_of :: "draft_db \<Rightarrow> submission \<Rightarrow> capability option" where
  "capability_of s sub = tfind cap_pk (sub_capability sub) (capabilities s)"

definition same_authority :: "capability \<Rightarrow> capability \<Rightarrow> bool" where
  "same_authority c b \<longleftrightarrow> cap_workflow b = cap_workflow c \<and> cap_revision b = cap_revision c
     \<and> cap_revision_digest b = cap_revision_digest c \<and> cap_actor b = cap_actor c"

definition find_operation :: "draft_db \<Rightarrow> capability \<Rightarrow> string \<Rightarrow> broker_error + dict" where
  "find_operation s c oid =
     try_bind (of_option (Denied ''operation_unavailable'') (find (\<lambda>i. in_pk i = oid \<and> in_workflow i = cap_workflow c
        \<and> in_revision i = cap_revision c \<and> in_actor i = cap_actor c
        \<and> (case tfind sub_pk (in_proposal i) (submissions s) of None \<Rightarrow> False
           | Some sub \<Rightarrow> (case capability_of s sub of None \<Rightarrow> False | Some b \<Rightarrow> cap_revision_digest b = cap_revision_digest c)))
        (intents s))) (\<lambda>i. Inr (payload_dict (operation_payload i)))"

definition find_proposal :: "py_env \<Rightarrow> draft_db \<Rightarrow> capability \<Rightarrow> string \<Rightarrow> broker_error + submission" where
  "find_proposal e s c pid =
     try_bind (of_option (Denied ''proposal_unavailable'') (find (\<lambda>sub. sub_pk sub = pid \<and> sub_kind sub = ''proposal''
        \<and> (case capability_of s sub of None \<Rightarrow> False | Some b \<Rightarrow> same_authority c b)) (submissions s))) (\<lambda>sub.
     try_bind (lift_args (digest e (sub_content sub))) (\<lambda>h.
     try_bind (refuse (Denied ''proposal_integrity'') (sub_digest sub \<noteq> h)) (\<lambda>_. Inr sub)))"

definition validate_proposal :: "revision \<Rightarrow> submission \<Rightarrow> broker_error + dict" where
  "validate_proposal r sub =
     (if validate (sub_content sub) PROPOSAL
      then Inr [(''proposal_id'', JStr (sub_pk sub)), (''schema_valid'', JBool True), (''execution_authorized'', JBool False),
        (''required_review'', JStr (if kind_of r = Synthetic then ''deterministic_policy_and_four_eyes''
           else ''owner_exact_draft_approval_and_deferred_audience_policy''))]
      else Inl InvalidArguments)"

definition broker_action :: "capability \<Rightarrow> string \<Rightarrow> string \<Rightarrow> submission \<Rightarrow> json" where
  "broker_action c provider kind sub = JObj
     [(''workflow_id'', JStr (cap_workflow c)), (''revision_id'', JInt (int (cap_revision c))),
      (''revision_digest'', JStr (cap_revision_digest c)), (''provider'', JStr provider), (''operation_kind'', JStr kind),
      (''proposal_digest'', JStr (sub_digest sub))]"

definition broker_idempotency :: "capability \<Rightarrow> string \<Rightarrow> string \<Rightarrow> json" where
  "broker_idempotency c kind action = JList
     [JStr (cap_workflow c), JInt (int (cap_revision c)), JStr (cap_actor c), JStr kind, JStr action]"

definition new_intent :: "uuid \<Rightarrow> capability \<Rightarrow> string \<Rightarrow> string \<Rightarrow> submission \<Rightarrow> string \<Rightarrow> string \<Rightarrow> draft_operation" where
  "new_intent iid c provider kind sub action idem =
     \<lparr>in_pk = iid, in_workflow = cap_workflow c, in_revision = cap_revision c, in_actor = cap_actor c, in_proposal = sub_pk sub,
      in_provider = provider, in_kind = kind, in_action_digest = action, in_idempotency = idem, in_status = ''pending'',
      in_approval = None, in_receipt = None\<rparr>"

text \<open>One pass of the loop: \<open>get_or_create\<close> of the intent by its idempotency key.\<close>

definition request_intent :: "py_env \<Rightarrow> uuid \<Rightarrow> capability \<Rightarrow> string \<Rightarrow> submission \<Rightarrow> string \<Rightarrow> draft_db
    \<Rightarrow> broker_error + draft_operation \<times> draft_db" where
  "request_intent e iid c provider sub kind s =
     try_bind (lift_args (digest e (broker_action c provider kind sub))) (\<lambda>action.
     try_bind (lift_args (digest e (broker_idempotency c kind action))) (\<lambda>idem.
       case tfind in_idempotency idem (intents s) of
         Some i \<Rightarrow> Inr (i, s)
       | None \<Rightarrow>
           let i = new_intent iid c provider kind sub action idem
           in try_bind (refuse BrokerIntegrity (iid \<in> set (map in_pk (intents s)))) (\<lambda>_. Inr (i, s\<lparr>intents := intents s @ [i]\<rparr>))))"

fun request_intents :: "py_env \<Rightarrow> capability \<Rightarrow> string \<Rightarrow> submission \<Rightarrow> (string \<times> uuid) list \<Rightarrow> draft_db
    \<Rightarrow> broker_error + json list \<times> draft_db" where
  "request_intents e c provider sub [] s = Inr ([], s)"
| "request_intents e c provider sub ((kind, iid) # ks) s =
     try_bind (request_intent e iid c provider sub kind s) (\<lambda>(i, s1).
     try_bind (request_intents e c provider sub ks s1) (\<lambda>(ps, s2). Inr (operation_payload i # ps, s2)))"

text \<open>Ids that the call generates, when it needs them.\<close>

record fresh =
  submission_id :: uuid
  intent_ids :: "uuid \<times> uuid"

text \<open>The provider and the operation kinds of a request, with the id for a new intent of each.\<close>

definition tool_kinds :: "string \<Rightarrow> fresh \<Rightarrow> string \<times> (string \<times> uuid) list" where
  "tool_kinds tool fr =
     (if tool = ''request_eventbrite_draft'' then (''eventbrite'', [(''create_eventbrite_draft'', fst (intent_ids fr))])
      else (''iterable'', [(''create_iterable_email_draft'', fst (intent_ids fr)), (''create_iterable_reminder_draft'', snd (intent_ids fr))]))"

definition execute_tool :: "py_env \<Rightarrow> fresh \<Rightarrow> string \<Rightarrow> dict \<Rightarrow> capability \<Rightarrow> revision \<Rightarrow> draft_db \<Rightarrow> broker_error + dict \<times> draft_db" where
  "execute_tool e fr tool d c r s =
     (if tool = ''get_event_revision'' then try_bind (event_revision_result e r) (\<lambda>v. Inr (v, s))
      else if tool = ''get_policy_context'' then Inr (policy_context_result r, s)
      else if tool = ''request_clarification'' then submit_content e (submission_id fr) ''clarification'' (dget d ''questions'') c s
      else if tool = ''propose_campaign_drafts'' then submit_content e (submission_id fr) ''proposal'' (dget d ''proposal'') c s
      else if tool = ''get_operation_status'' then try_bind (find_operation s c (arg d ''operation_id'')) (\<lambda>v. Inr (v, s))
      else try_bind (find_proposal e s c (arg d ''proposal_id'')) (\<lambda>sub.
        if tool = ''validate_proposal'' then try_bind (validate_proposal r sub) (\<lambda>v. Inr (v, s))
        else
          try_bind (request_intents e c (fst (tool_kinds tool fr)) sub (snd (tool_kinds tool fr)) s) (\<lambda>(ps, s').
            Inr ([(''operations'', JList ps)], s'))))"

section \<open>Dispatch\<close>

definition tool_audit :: "capability \<Rightarrow> string \<Rightarrow> string \<Rightarrow> dict \<Rightarrow> draft_db \<Rightarrow> draft_db" where
  "tool_audit c action tool d s = record_audit (Some (cap_actor c)) action ''workflow'' (cap_workflow c)
     [(''capability_id'', JStr (cap_pk c)), (''tool'', JStr tool), (''correlation_id'', JStr (arg d ''correlation_id'')),
      (''request_id'', JStr (arg d ''request_id''))] s"

definition invoke :: "py_env \<Rightarrow> fresh \<Rightarrow> string \<Rightarrow> dict \<Rightarrow> capability \<Rightarrow> revision \<Rightarrow> string \<Rightarrow> draft_db \<Rightarrow> broker_error + json \<times> draft_db" where
  "invoke e fr tool d c r encoded s =
     (let ad = sha256_hex e encoded
      in try_bind (lift_args (digest e (JList [JStr (cap_pk c), JStr (arg d ''idempotency_key'')]))) (\<lambda>idem.
         case find (\<lambda>v. iv_request v = arg d ''request_id'' \<or> iv_idempotency v = idem) (invocations s) of
           Some v \<Rightarrow>
             if iv_capability v \<noteq> cap_pk c \<or> iv_tool v \<noteq> tool \<or> iv_arguments v \<noteq> ad \<or> iv_idempotency v \<noteq> idem
             then Inl (Denied ''invocation_replay_conflict'')
             else Inr (iv_result v, tool_audit c ''mcp.tool_replayed'' tool d s)
         | None \<Rightarrow>
             try_bind (execute_tool e fr tool d c r s) (\<lambda>(v, s1).
               let result = JObj (AList.update ''correlation_id'' (JStr (arg d ''correlation_id'')) v)
               in try_bind (lift_args (bounded_json e result)) (\<lambda>_.
                    Inr (result, tool_audit c ''mcp.tool_succeeded'' tool d
                      (s1\<lparr>invocations := invocations s1 @ [\<lparr>iv_capability = cap_pk c, iv_request = arg d ''request_id'',
                         iv_idempotency = idem, iv_arguments = ad, iv_tool = tool, iv_result = result\<rparr>]\<rparr>))))))"

text \<open>The checks of \<open>_dispatch\<close> under the lock, in their order: the record, its scope, the current revision, the correlation.\<close>

definition admit :: "py_env \<Rightarrow> int \<Rightarrow> string \<Rightarrow> dict \<Rightarrow> string \<Rightarrow> draft_db \<Rightarrow> broker_error + capability \<times> revision" where
  "admit e now tool d tok s =
     try_bind (of_option (Denied ''capability_scope'') (tfind cap_token (token_digest e tok) (capabilities s))) (\<lambda>c.
     try_bind (refuse (Denied ''capability_scope'') (\<not> in_scope s now tool d c)) (\<lambda>_.
     try_bind (of_option BrokerMissing (tfind wf_pk (cap_workflow c) (workflows (base s)))) (\<lambda>w.
     try_bind (at_revision e s c w) (\<lambda>r.
     try_bind (refuse (Denied ''revision_scope'') (case cap_correlation c of None \<Rightarrow> False | Some q \<Rightarrow> q \<noteq> arg d ''correlation_id'')) (\<lambda>_.
       Inr (c, r))))))"

definition bind_correlation :: "capability \<Rightarrow> string \<Rightarrow> draft_db \<Rightarrow> draft_db" where
  "bind_correlation c q s =
     (if cap_correlation c = None then s\<lparr>capabilities := tput cap_pk (c\<lparr>cap_correlation := Some q\<rparr>) (capabilities s)\<rparr> else s)"

definition dispatch :: "py_env \<Rightarrow> int \<Rightarrow> fresh \<Rightarrow> string \<Rightarrow> dict \<Rightarrow> string \<Rightarrow> string \<Rightarrow> draft_db \<Rightarrow> broker_error + json \<times> draft_db" where
  "dispatch e now fr tool d tok encoded s =
     try_bind (admit e now tool d tok s) (\<lambda>(c, r).
       let q = arg d ''correlation_id''
       in invoke e fr tool d (c\<lparr>cap_correlation := Some q\<rparr>) r encoded (bind_correlation c q s))"

definition service_ok :: "string option \<Rightarrow> string \<Rightarrow> bool" where
  "service_ok service_token identity = (case service_token of None \<Rightarrow> False | Some t \<Rightarrow> 32 \<le> length t \<and> length t \<le> 256 \<and> t = identity)"

text \<open>What the handlers of \<open>dispatch_mcp_tool\<close> persist outside the failed transaction.\<close>

definition after_error :: "json \<Rightarrow> broker_error \<Rightarrow> draft_db \<Rightarrow> draft_db" where
  "after_error tool x s = (case x of
     Denied stage \<Rightarrow> record_audit None ''mcp.tool_denied'' ''mcp'' ''broker''
       [(''reason'', JStr ''authorization_failed''), (''stage'', JStr stage),
        (''tool'', JStr (case tool of JStr t \<Rightarrow> if t \<in> set TOOLS then t else ''unknown'' | _ \<Rightarrow> ''unknown''))] s
   | InvalidArguments \<Rightarrow> record_audit None ''mcp.tool_invalid'' ''mcp'' ''broker'' [(''reason'', JStr ''invalid_arguments'')] s
   | _ \<Rightarrow> s)"

definition checked_call :: "py_env \<Rightarrow> (string \<Rightarrow> bool) \<Rightarrow> string option \<Rightarrow> int \<Rightarrow> fresh \<Rightarrow> json \<Rightarrow> json \<Rightarrow> string \<Rightarrow> string \<Rightarrow> draft_db
    \<Rightarrow> broker_error + json \<times> draft_db" where
  "checked_call e unsign service_token now fr tool arguments identity tok s =
     try_bind (refuse (Denied ''service_identity'') (\<not> service_ok service_token identity)) (\<lambda>_.
     try_bind (refuse denied_auth (length tok > 160 \<or> \<not> verify_token unsign tok)) (\<lambda>_.
     try_bind (lift_args (validate_tool_arguments e tool arguments)) (\<lambda>encoded.
       dispatch e now fr (text_of tool) (payload_dict arguments) tok encoded s)))"

definition dispatch_mcp_tool :: "py_env \<Rightarrow> (string \<Rightarrow> bool) \<Rightarrow> string option \<Rightarrow> int \<Rightarrow> fresh \<Rightarrow> json \<Rightarrow> json \<Rightarrow> string \<Rightarrow> string \<Rightarrow> draft_db
    \<Rightarrow> (broker_error + json) \<times> draft_db" where
  "dispatch_mcp_tool e unsign service_token now fr tool arguments identity tok s =
     (case checked_call e unsign service_token now fr tool arguments identity tok s of
        Inl x \<Rightarrow> (Inl x, after_error tool x s)
      | Inr (v, s') \<Rightarrow> (Inr v, s'))"

end
