(* ===== verification/Hermes_Models.thy ===== *)
theory Hermes_Models
  imports Budget Broker
begin

text \<open>
  The tables of the Hermes lane, \<open>backend/agents/models.py\<close>, and their guarded writes: the life cycle of
  an agent run (\<open>AgentRun.save\<close> with \<open>clean\<close> and the constraints), its binding, its control row, its
  append-only events, the start receipts, and the singleton admission lane.

  The state joins the application's tables (\<open>core\<close>, with the runs, bindings and controls) and the
  budget's (\<open>money\<close>).  The admission row is created when it is first read, so a missing row is the
  fresh one.  The upper ends of the integer columns depend on the database and are not modelled.
\<close>

section \<open>Tables\<close>

record admission_lane =
  ln_active :: "uuid option"
  ln_disabled :: bool

record run_event =
  ev_run :: uuid
  ev_sequence :: nat
  ev_type :: string
  ev_outcome :: string
  ev_digest :: string

record start_receipt =
  sr_pk :: uuid
  sr_owner :: nat
  sr_actor :: string
  sr_workflow :: uuid
  sr_revision :: nat
  sr_run :: uuid

record hermes_db =
  core :: draft_db
  money :: budget_db
  admission :: admission_lane
  run_events :: "run_event list"
  start_receipts :: "start_receipt list"

text \<open>
  What a task raises: \<open>HermesAdmissionDenied\<close>, \<open>HermesStartConflict\<close>, a missing row, the database, the
  budget, \<open>InvalidToolArguments\<close>, the broker, \<open>ValidationError\<close>, \<open>ValueError\<close>, \<open>OverflowError\<close>.
\<close>

datatype task_error =
    AdmissionRefused | StartConflict | TaskMissing | TaskDatabase | TaskBudget budget_error
  | TaskArguments | TaskBroker broker_error | TaskInvalid | TaskValue | TaskOverflow

fun task_arguments :: "tool_error + 'a \<Rightarrow> task_error + 'a" where
  "task_arguments (Inl _) = Inl TaskArguments" | "task_arguments (Inr v) = Inr v"

fun task_budget :: "budget_error + 'a \<Rightarrow> task_error + 'a" where
  "task_budget (Inl x) = Inl (TaskBudget x)" | "task_budget (Inr v) = Inr v"

fun task_broker :: "broker_error + 'a \<Rightarrow> task_error + 'a" where
  "task_broker (Inl x) = Inl (TaskBroker x)" | "task_broker (Inr v) = Inr v"

definition ensure :: "task_error \<Rightarrow> bool \<Rightarrow> task_error + unit" where
  "ensure x ok = (if ok then Inr () else Inl x)"

section \<open>Reads\<close>

abbreviation hermes_runs :: "hermes_db \<Rightarrow> agent_run list" where
  "hermes_runs s \<equiv> agent_runs (core s)"

definition run_row :: "hermes_db \<Rightarrow> uuid \<Rightarrow> agent_run option" where
  "run_row s rid = tfind run_pk rid (agent_runs (core s))"

definition binding_row :: "hermes_db \<Rightarrow> uuid \<Rightarrow> run_binding option" where
  "binding_row s rid = tfind bd_run rid (bindings (core s))"

definition control_row :: "hermes_db \<Rightarrow> uuid \<Rightarrow> run_control option" where
  "control_row s rid = tfind ct_run rid (controls (core s))"

definition run_active :: "agent_run \<Rightarrow> bool" where
  "run_active r \<longleftrightarrow> run_status r = RUN_QUEUED \<or> run_status r = RUN_RUNNING"

text \<open>The runs that the budget's expiry query leaves alone.\<close>

definition protected_runs :: "hermes_db \<Rightarrow> uuid list" where
  "protected_runs s = map run_pk (filter (\<lambda>r. hermes_lane r
     \<and> (run_active r \<or> (case control_row s (run_pk r) of None \<Rightarrow> False | Some ct \<Rightarrow> ct_disabled ct))) (agent_runs (core s)))"

section \<open>AgentRun.save\<close>

type_synonym binding_columns =
  "bool \<times> uuid \<times> nat \<times> string \<times> nat \<times> nat \<times> string option \<times> nat option \<times> string option \<times> privacy_mode"

definition immutable_binding :: "agent_run \<Rightarrow> binding_columns" where
  "immutable_binding r = (hermes_lane r, run_workflow r, run_revision r, run_hash r, run_policy r, run_profile r,
     fixture_id r, fixture_revision r, fixture_digest r, run_privacy r)"

definition fixture_of :: "agent_run \<Rightarrow> string option \<times> nat option \<times> string option" where
  "fixture_of r = (fixture_id r, fixture_revision r, fixture_digest r)"

definition fixture_clean :: "agent_run \<Rightarrow> bool" where
  "fixture_clean r \<longleftrightarrow> (hermes_lane r \<longrightarrow>
     (case run_privacy r of
        PILOT_MINIMIZED \<Rightarrow> fixture_of r = (None, None, None)
      | SYNTHETIC_FULL \<Rightarrow> (case fixture_of r of (Some i, Some v, Some h) \<Rightarrow> i \<noteq> [] \<and> v \<noteq> 0 \<and> h \<noteq> [] | _ \<Rightarrow> False)
      | PRIVACY_DISABLED \<Rightarrow> False))"

definition references_clean :: "hermes_db \<Rightarrow> agent_run \<Rightarrow> bool" where
  "references_clean s r \<longleftrightarrow>
     (case (tfind rev_pk (run_revision r) (revisions (base (core s))), tfind wf_pk (run_workflow r) (workflows (base (core s)))) of
        (Some v, Some w) \<Rightarrow> rev_event v = wf_event w | _ \<Rightarrow> False)
   \<and> (case tfind rp_pk (run_policy r) (policies (money s)) of Some q \<Rightarrow> rp_profile q = run_profile r | None \<Rightarrow> False)
   \<and> tfind mp_pk (run_profile r) (Budget.profiles (money s)) \<noteq> None"

definition lifecycle_clean :: "agent_run \<Rightarrow> bool" where
  "lifecycle_clean r \<longleftrightarrow>
     (case run_status r of
        RUN_QUEUED \<Rightarrow> started_at r = None \<and> finished_at r = None
      | RUN_RUNNING \<Rightarrow> started_at r \<noteq> None \<and> finished_at r = None
      | RUN_SUCCEEDED \<Rightarrow> started_at r \<noteq> None \<and> finished_at r \<noteq> None
      | RUN_FAILED \<Rightarrow> started_at r \<noteq> None \<and> finished_at r \<noteq> None
      | RUN_CANCELLED \<Rightarrow> finished_at r \<noteq> None)
   \<and> (run_status r = RUN_FAILED \<longrightarrow> run_failure r \<noteq> None)
   \<and> (run_status r = RUN_CANCELLED \<longrightarrow> run_failure r = Some F_CANCELLED)
   \<and> (run_status r \<notin> {RUN_FAILED, RUN_CANCELLED} \<longrightarrow> run_failure r = None)"

text \<open>The column validators of \<open>full_clean\<close>: lengths, required texts, the slug, non-negative counts.\<close>

definition slug_text :: "string \<Rightarrow> bool" where
  "slug_text t \<longleftrightarrow> length t \<le> 64 \<and> list_all (\<lambda>c. is_alnum c \<or> c \<in> set ''_-'') t"

definition columns_clean :: "agent_run \<Rightarrow> bool" where
  "columns_clean r \<longleftrightarrow> run_hash r \<noteq> [] \<and> length (run_hash r) \<le> 64
     \<and> (case fixture_id r of None \<Rightarrow> True | Some t \<Rightarrow> slug_text t)
     \<and> (case fixture_digest r of None \<Rightarrow> True | Some t \<Rightarrow> length t \<le> 64)
     \<and> trace_id r \<noteq> [] \<and> length (trace_id r) \<le> 32
     \<and> 1 \<le> run_attempt r \<and> run_attempt r \<le> 10 \<and> span_count r \<le> 1000
     \<and> 0 \<le> run_input r \<and> 0 \<le> run_output r \<and> 0 \<le> run_cost r"

text \<open>The constraint \<open>agents_one_active_hermes_run\<close>.\<close>

definition one_active_hermes_run :: "hermes_db \<Rightarrow> agent_run \<Rightarrow> bool" where
  "one_active_hermes_run s r \<longleftrightarrow> (hermes_lane r \<and> run_active r \<longrightarrow>
     list_all (\<lambda>x. run_pk x = run_pk r \<or> \<not> hermes_lane x \<or> \<not> run_active x) (agent_runs (core s)))"

definition run_clean :: "hermes_db \<Rightarrow> agent_run \<Rightarrow> bool" where
  "run_clean s r \<longleftrightarrow> columns_clean r \<and> fixture_clean r \<and> references_clean s r \<and> lifecycle_clean r \<and> one_active_hermes_run s r"

definition set_runs :: "agent_run list \<Rightarrow> hermes_db \<Rightarrow> hermes_db" where
  "set_runs rs s = s\<lparr>core := (core s)\<lparr>agent_runs := rs\<rparr>\<rparr>"

text \<open>A new row also holds its workflow, revision and event against deletion (\<open>on_delete=PROTECT\<close>).\<close>

definition protect_rows :: "agent_run \<Rightarrow> db \<Rightarrow> db" where
  "protect_rows r b = b\<lparr>refs := (refs b)\<lparr>ext_workflows := run_workflow r # ext_workflows (refs b),
     ext_revisions := run_revision r # ext_revisions (refs b)\<rparr>\<rparr>"

definition save_run :: "agent_run \<Rightarrow> hermes_db \<Rightarrow> task_error + hermes_db" where
  "save_run r s =
     (case run_row s (run_pk r) of
        Some old \<Rightarrow>
          if immutable_binding old \<noteq> immutable_binding r then Inl TaskValue
          else if \<not> run_clean s r then Inl TaskInvalid
          else Inr (set_runs (tput run_pk r (agent_runs (core s))) s)
      | None \<Rightarrow>
          if \<not> run_clean s r then Inl TaskInvalid
          else Inr (s\<lparr>core := (core s)\<lparr>agent_runs := agent_runs (core s) @ [r], base := protect_rows r (base (core s))\<rparr>\<rparr>))"

section \<open>Bindings, controls, events and receipts\<close>

text \<open>\<open>HermesRunBinding.save\<close> digests the revision's snapshot; the run and the correlation id are unique.\<close>

definition create_binding :: "py_env \<Rightarrow> run_binding \<Rightarrow> nat \<Rightarrow> hermes_db \<Rightarrow> task_error + hermes_db" where
  "create_binding e b revision_id s =
     try_bind (of_option TaskMissing (tfind rev_pk revision_id (revisions (base (core s))))) (\<lambda>r.
     try_bind (task_arguments (digest e (JObj (snapshot r)))) (\<lambda>h.
     try_bind (ensure TaskDatabase (bd_run b \<notin> set (map bd_run (bindings (core s)))
        \<and> bd_correlation b \<notin> set (map bd_correlation (bindings (core s))))) (\<lambda>_.
       Inr (s\<lparr>core := (core s)\<lparr>bindings := bindings (core s) @ [b\<lparr>bd_revision_digest := h\<rparr>]\<rparr>\<rparr>))))"

definition create_control :: "run_control \<Rightarrow> hermes_db \<Rightarrow> task_error + hermes_db" where
  "create_control ct s =
     try_bind (ensure TaskDatabase (ct_run ct \<notin> set (map ct_run (controls (core s))))) (\<lambda>_.
       Inr (s\<lparr>core := (core s)\<lparr>controls := controls (core s) @ [ct]\<rparr>\<rparr>))"

definition save_control :: "run_control \<Rightarrow> hermes_db \<Rightarrow> hermes_db" where
  "save_control ct s = s\<lparr>core := (core s)\<lparr>controls := tput ct_run ct (controls (core s))\<rparr>\<rparr>"

definition set_lane :: "admission_lane \<Rightarrow> hermes_db \<Rightarrow> hermes_db" where
  "set_lane l s = s\<lparr>admission := l\<rparr>"

text \<open>\<open>AgentRunEvent.save\<close> only appends; the pair of run and sequence is unique and positive.\<close>

definition create_event :: "run_event \<Rightarrow> hermes_db \<Rightarrow> task_error + hermes_db" where
  "create_event v s =
     try_bind (ensure TaskDatabase (1 \<le> ev_sequence v
        \<and> \<not> list_ex (\<lambda>x. ev_run x = ev_run v \<and> ev_sequence x = ev_sequence v) (run_events s))) (\<lambda>_.
       Inr (s\<lparr>run_events := run_events s @ [v]\<rparr>))"

definition create_receipt :: "start_receipt \<Rightarrow> hermes_db \<Rightarrow> task_error + hermes_db" where
  "create_receipt r s =
     try_bind (ensure TaskValue (sr_pk r \<notin> set (map sr_pk (start_receipts s)))) (\<lambda>_.
     try_bind (ensure TaskDatabase (sr_run r \<notin> set (map sr_run (start_receipts s)))) (\<lambda>_.
       Inr (s\<lparr>start_receipts := start_receipts s @ [r]\<rparr>)))"

end
