(* ===== verification/Hermes_Run.thy ===== *)
theory Hermes_Run
  imports Hermes_Models
begin

text \<open>
  The worker orchestration of \<open>backend/agents/tasks.py\<close>.  \<open>execute_hermes_run\<close> is three steps, because
  other requests run between them: the transaction that starts the run and issues its capability, the
  transaction that accepts the client's result, and the handler of a failure.  What the Hermes client
  answers (a result, a failure, whether a cancellation was acknowledged) is an argument, as are the
  clock, the generated ids and what the tracing runtime reports as the current span.

  A \<open>run_fault\<close> is what leaves a worker transaction: a failure with its category (\<open>WorkerFailure\<close>, or
  the client's own failure) and quarantine flag, the missing run, or any other exception.
\<close>

section \<open>Settings and faults\<close>

record hermes_settings =
  hs_enabled :: bool
  hs_timeout :: json
  hs_inferences :: json
  hs_profile :: string
  hs_profile_revision :: nat

datatype run_fault = Fault failure_category bool | RunGone | OtherFault task_error

fun fault :: "task_error + 'a \<Rightarrow> run_fault + 'a" where
  "fault (Inl x) = Inl (OtherFault x)" | "fault (Inr v) = Inr v"

definition deny :: "failure_category \<Rightarrow> bool \<Rightarrow> run_fault + unit" where
  "deny k bad = (if bad then Inl (Fault k False) else Inr ())"

fun category_text :: "failure_category \<Rightarrow> string" where
  "category_text F_BUDGET = ''budget_exhausted''"
| "category_text F_CANCELLED = ''cancelled''"
| "category_text F_DEPENDENCY = ''dependency_unavailable''"
| "category_text F_INVALID = ''invalid_output''"
| "category_text F_PROVIDER = ''provider_unavailable''"
| "category_text F_TIMEOUT = ''timeout''"

definition CATEGORIES :: "failure_category list" where
  "CATEGORIES = [F_BUDGET, F_CANCELLED, F_DEPENDENCY, F_INVALID, F_PROVIDER, F_TIMEOUT]"

definition category_of :: "json \<Rightarrow> failure_category option" where
  "category_of v = (case v of JStr t \<Rightarrow> find (\<lambda>k. category_text k = t) CATEGORIES | _ \<Rightarrow> None)"

text \<open>\<open>getattr(error, "category", "dependency_unavailable")\<close> and the quarantine flag.\<close>

fun fault_category :: "run_fault \<Rightarrow> failure_category" where
  "fault_category (Fault k _) = k" | "fault_category _ = F_DEPENDENCY"

fun quarantined :: "run_fault \<Rightarrow> bool" where
  "quarantined (Fault _ q) = q" | "quarantined _ = False"

definition PROPOSAL_SCHEMA_ID :: string where
  "PROPOSAL_SCHEMA_ID = ''urn:civicloop:schema:campaign-proposal:v1.0''"

definition FIXTURE :: "string option \<times> nat option \<times> string option" where
  "FIXTURE = (Some ''launchloop_synthetic_v1'', Some 3, Some ''815d14762306d96bdc6449eb58a3e5739fb0ad95e08dc70b9025bd2cc8099d5f'')"

section \<open>Readiness\<close>

text \<open>\<open>_lane\<close> is the admission row; \<open>_owns_run\<close> closes it when the run's authority or control is missing.\<close>

definition owns_run :: "agent_run \<Rightarrow> hermes_db \<Rightarrow> bool \<times> hermes_db" where
  "owns_run r s =
     (if \<not> hermes_lane r then (False, s)
      else if binding_row s (run_pk r) \<noteq> None \<and> control_row s (run_pk r) \<noteq> None then (True, s)
      else (False, set_lane ((admission s)\<lparr>ln_disabled := True\<rparr>) s))"

text \<open>
  The tail that \<open>_ready\<close> and \<open>_owner_ready\<close> share.  The errors they catch make them false; an
  \<open>OverflowError\<close> of the package builder is not among them.
\<close>

definition package_current :: "config \<Rightarrow> workflow \<Rightarrow> py_error + json \<Rightarrow> string option \<Rightarrow> task_error + bool" where
  "package_current c w prepared expected =
     (case package w of
        None \<Rightarrow> Inr False
      | Some p \<Rightarrow>
          if status w \<notin> {READY_FOR_REVIEW, IN_REVIEW} \<or> jfield p ''status'' \<noteq> JStr ''ready_for_review'' then Inr False
          else (case prepared of
                  Inl OverflowError \<Rightarrow> Inl TaskOverflow
                | Inl _ \<Rightarrow> Inr False
                | Inr q \<Rightarrow> Inr (py_eq q p \<and> package_hash c p = wf_hash w
                    \<and> (case expected of None \<Rightarrow> True | Some h \<Rightarrow> h = wf_hash w))))"

definition ready :: "config \<Rightarrow> workflow \<Rightarrow> revision \<Rightarrow> nat \<Rightarrow> string option \<Rightarrow> task_error + bool" where
  "ready c w r revision_id expected =
     (if wf_revision w \<noteq> revision_id \<or> rev_event r \<noteq> wf_event w \<or> dget (snapshot r) ''synthetic'' \<noteq> JBool True then Inr False
      else package_current c w (prepare_package (env c) (snapshot r)) expected)"

definition owner_ready :: "config \<Rightarrow> workflow \<Rightarrow> revision \<Rightarrow> nat \<Rightarrow> string \<Rightarrow> admin_session option \<Rightarrow> string option \<Rightarrow> task_error + bool" where
  "owner_ready c w r revision_id actor_id session expected =
     (if session = None \<or> kind_of r \<notin> {Manual, Eventbrite} \<or> rev_author r \<noteq> actor_id \<or> wf_revision w \<noteq> revision_id
         \<or> rev_event r \<noteq> wf_event w then Inr False
      else package_current c w (prepare_owner_package (env c) (lib c) (snapshot r)) expected)"

text \<open>\<open>owner_session\<close> of \<open>launchloop/owner_events.py\<close>.\<close>

definition owner_session :: "draft_db \<Rightarrow> int \<Rightarrow> actor \<Rightarrow> uuid option \<Rightarrow> admin_session option" where
  "owner_session s now a sid =
     (case (sid, actor_user a) of
        (Some k, Some u) \<Rightarrow> find (\<lambda>se. se_pk se = k \<and> session_live s now u se) (sessions s)
      | _ \<Rightarrow> None)"

definition run_ready :: "config \<Rightarrow> draft_db \<Rightarrow> int \<Rightarrow> agent_run \<Rightarrow> run_binding \<Rightarrow> actor \<Rightarrow> workflow \<Rightarrow> revision \<Rightarrow> task_error + bool" where
  "run_ready c s now run b a w r =
     (if run_privacy run = PILOT_MINIMIZED then
        (if fixture_of run \<noteq> (None, None, None) then Inr False
         else owner_ready c w r (run_revision run) (slug a) (owner_session s now a (bd_session b)) (Some (run_hash run)))
      else if run_privacy run = SYNTHETIC_FULL \<and> bd_session b = None \<and> fixture_of run = FIXTURE
        then ready c w r (run_revision run) (Some (run_hash run))
      else Inr False)"

section \<open>Events\<close>

definition last_sequence :: "hermes_db \<Rightarrow> uuid \<Rightarrow> nat" where
  "last_sequence s rid = foldr max (map ev_sequence (filter (\<lambda>v. ev_run v = rid) (run_events s))) 0"

definition add_event :: "py_env \<Rightarrow> uuid \<Rightarrow> string \<Rightarrow> string \<Rightarrow> hermes_db \<Rightarrow> task_error + hermes_db" where
  "add_event e rid event_type how s =
     try_bind (task_arguments (digest e (JObj [(''event_type'', JStr event_type), (''outcome'', JStr how)]))) (\<lambda>h.
     try_bind (create_event \<lparr>ev_run = rid, ev_sequence = Suc (last_sequence s rid), ev_type = event_type,
        ev_outcome = how, ev_digest = h\<rparr> s) (\<lambda>s1.
     try_bind (of_option TaskMissing (binding_row s rid)) (\<lambda>b.
       Inr (s1\<lparr>core := record_audit (Some (bd_actor b)) (''hermes.'' @ event_type) ''agent_run'' rid
              [(''outcome'', JStr how), (''sequence'', JInt (int (Suc (last_sequence s rid))))] (core s1)\<rparr>))))"

section \<open>Admission\<close>

definition hermes_timeout :: "hermes_settings \<Rightarrow> task_error + int" where
  "hermes_timeout hs =
     (case (hs_timeout hs, hs_inferences hs) of
        (JInt t, JInt n) \<Rightarrow> if 1 \<le> t \<and> t \<le> 300 \<and> 1 \<le> n \<and> n \<le> 8 then Inr t else Inl AdmissionRefused
      | _ \<Rightarrow> Inl AdmissionRefused)"

definition lane_open :: "hermes_settings \<Rightarrow> hermes_db \<Rightarrow> bool" where
  "lane_open hs s \<longleftrightarrow> hs_enabled hs \<and> \<not> ln_disabled (admission s) \<and> \<not> list_ex ct_disabled (controls (core s))
     \<and> ln_active (admission s) = None
     \<and> \<not> list_ex (\<lambda>b. case run_row s (bd_run b) of None \<Rightarrow> False | Some r \<Rightarrow> run_active r) (bindings (core s))"

text \<open>Ids that an admission generates; \<open>uuid5_url\<close> is the library's \<open>uuid5\<close> in the URL namespace.\<close>

record queue_ids =
  q_correlation :: uuid
  q_reservation :: string

definition run_id_of :: "(string \<Rightarrow> uuid) \<Rightarrow> uuid \<Rightarrow> uuid" where
  "run_id_of uuid5_url correlation = uuid5_url (''urn:civicloop:run:'' @ correlation)"

definition queued_run :: "uuid \<Rightarrow> workflow \<Rightarrow> nat \<Rightarrow> nat \<Rightarrow> bool \<Rightarrow> agent_run" where
  "queued_run rid w profile policy live =
     \<lparr>run_pk = rid, run_workflow = wf_pk w, run_revision = wf_revision w, run_hash = wf_hash w, hermes_lane = True,
      run_policy = policy, run_profile = profile,
      fixture_id = (if live then None else fst FIXTURE), fixture_revision = (if live then None else fst (snd FIXTURE)),
      fixture_digest = (if live then None else snd (snd FIXTURE)),
      run_privacy = (if live then PILOT_MINIMIZED else SYNTHETIC_FULL), run_status = RUN_QUEUED, run_attempt = 1,
      started_at = None, finished_at = None, run_failure = None, trace_id = replicate 32 (CHR ''0''), span_count = 0,
      run_input = 0, run_output = 0, run_cost = 0\<rparr>"

text \<open>Who may start: the workflow and its revision, the actor, and the owner's session of a real event.\<close>

definition admitted :: "config \<Rightarrow> int \<Rightarrow> uuid \<Rightarrow> nat \<Rightarrow> string \<Rightarrow> uuid option \<Rightarrow> draft_db
    \<Rightarrow> task_error + workflow \<times> bool \<times> uuid option" where
  "admitted c now wid revision_id actor_id sid s =
     try_bind (of_option TaskMissing (tfind wf_pk wid (workflows (base s)))) (\<lambda>w.
     try_bind (of_option TaskMissing (tfind rev_pk (wf_revision w) (revisions (base s)))) (\<lambda>r.
     try_bind (of_option TaskMissing (tfind slug actor_id (actors (base s)))) (\<lambda>a.
     let live = kind_of r \<noteq> Synthetic; session = (if live then owner_session s now a sid else None) in
     try_bind (if live then owner_ready c w r revision_id (slug a) session None else ready c w r revision_id None) (\<lambda>ok.
     try_bind (ensure AdmissionRefused (operator_active s a \<and> ok)) (\<lambda>_.
       Inr (w, live, map_option se_pk session))))))"

definition workflow_profile :: "hermes_settings \<Rightarrow> budget_db \<Rightarrow> task_error + model_profile \<times> routing_policy" where
  "workflow_profile hs m =
     try_bind (of_option TaskMissing (find (\<lambda>p. profile_id p = hs_profile hs \<and> mp_revision p = hs_profile_revision hs
        \<and> purpose p = ''workflow'') (Budget.profiles m))) (\<lambda>p.
     try_bind (of_option TaskMissing (find (\<lambda>q. rp_profile q = mp_pk p \<and> rp_purpose q = ''workflow'') (policies m))) (\<lambda>q.
       Inr (p, q)))"

text \<open>The rows of an admitted run: the run, its binding, its control, the lane and the first event.\<close>

definition queue_rows :: "py_env \<Rightarrow> agent_run \<Rightarrow> string \<Rightarrow> uuid option \<Rightarrow> uuid \<Rightarrow> int \<Rightarrow> hermes_db \<Rightarrow> task_error + hermes_db" where
  "queue_rows e run actor_id session correlation lease s =
     try_bind (save_run run s) (\<lambda>s1.
     try_bind (create_binding e \<lparr>bd_run = run_pk run, bd_actor = actor_id, bd_session = session,
        bd_correlation = correlation, bd_revision_digest = []\<rparr> (run_revision run) s1) (\<lambda>s2.
     try_bind (create_control \<lparr>ct_run = run_pk run, ct_cancel = None, ct_capability = None, ct_lease = Some lease,
        ct_disabled = False, ct_traceparent = []\<rparr> s2) (\<lambda>s3.
       add_event e (run_pk run) ''queued'' ''accepted'' (set_lane ((admission s3)\<lparr>ln_active := Some (run_pk run)\<rparr>) s3))))"

definition queue_body :: "config \<Rightarrow> (string \<Rightarrow> uuid) \<Rightarrow> hermes_settings \<Rightarrow> clock \<Rightarrow> queue_ids \<Rightarrow> uuid \<Rightarrow> nat \<Rightarrow> string
    \<Rightarrow> uuid option \<Rightarrow> hermes_db \<Rightarrow> task_error + agent_run \<times> hermes_db" where
  "queue_body c uuid5_url hs clk ids wid revision_id actor_id sid s =
     try_bind (ensure AdmissionRefused (lane_open hs s)) (\<lambda>_.
     try_bind (hermes_timeout hs) (\<lambda>timeout.
     try_bind (admitted c (instant clk) wid revision_id actor_id sid (core s)) (\<lambda>(w, live, session).
     try_bind (workflow_profile hs (money s)) (\<lambda>(p, q).
     let rid = run_id_of uuid5_url (q_correlation ids); lease = instant clk + timeout * SECOND;
         run = queued_run rid w (mp_pk p) (rp_pk q) live in
     try_bind (task_budget (reserve_budget (protected_runs s) clk (q_reservation ids) rid (profile_id p) (mp_revision p)
        (max_input_tokens p) (max_output_tokens p) (Some lease) (money s))) (\<lambda>(_, m).
     try_bind (queue_rows (env c) run actor_id session (q_correlation ids) lease (s\<lparr>money := m\<rparr>)) (\<lambda>s1.
       Inr (run, s1)))))))"

text \<open>The \<open>except\<close> clause: \<open>ValidationError\<close>, \<open>InvalidToolArguments\<close> and \<open>OverflowError\<close> are not in its list.\<close>

definition translate :: "task_error + 'a \<Rightarrow> task_error + 'a" where
  "translate m = (case m of Inl x \<Rightarrow> Inl (if x \<in> {TaskArguments, TaskInvalid, TaskOverflow} then x else AdmissionRefused) | Inr v \<Rightarrow> Inr v)"

definition queue_hermes_run :: "config \<Rightarrow> (string \<Rightarrow> uuid) \<Rightarrow> hermes_settings \<Rightarrow> clock \<Rightarrow> queue_ids \<Rightarrow> uuid \<Rightarrow> nat \<Rightarrow> string
    \<Rightarrow> uuid option \<Rightarrow> hermes_db \<Rightarrow> task_error + agent_run \<times> hermes_db" where
  "queue_hermes_run c uuid5_url hs clk ids wid revision_id actor_id sid s =
     translate (queue_body c uuid5_url hs clk ids wid revision_id actor_id sid s)"

text \<open>A replayed key returns the run of its receipt; a new one queues a run and stores the receipt.\<close>

definition receipt_matches :: "start_receipt \<Rightarrow> actor \<Rightarrow> uuid \<Rightarrow> nat \<Rightarrow> bool" where
  "receipt_matches rc a wid revision_id \<longleftrightarrow> actor_user a = Some (sr_owner rc) \<and> sr_actor rc = slug a
     \<and> sr_workflow rc = wid \<and> sr_revision rc = revision_id"

text \<open>The outer \<open>except DatabaseError\<close>.\<close>

definition database_refused :: "task_error + 'a \<Rightarrow> task_error + 'a" where
  "database_refused m = (case m of Inl x \<Rightarrow> Inl (if x = TaskDatabase then AdmissionRefused else x) | Inr v \<Rightarrow> Inr v)"

definition start_hermes_run :: "config \<Rightarrow> (string \<Rightarrow> uuid) \<Rightarrow> hermes_settings \<Rightarrow> clock \<Rightarrow> queue_ids \<Rightarrow> uuid \<Rightarrow> uuid \<Rightarrow> nat
    \<Rightarrow> string \<Rightarrow> uuid option \<Rightarrow> hermes_db \<Rightarrow> task_error + agent_run \<times> hermes_db" where
  "start_hermes_run c uuid5_url hs clk ids key wid revision_id actor_id sid s = database_refused (
     try_bind (ensure AdmissionRefused (1 \<le> revision_id)) (\<lambda>_.
     try_bind (of_option AdmissionRefused (tfind slug actor_id (actors (base (core s))))) (\<lambda>a.
     try_bind (ensure AdmissionRefused (operator_active (core s) a)) (\<lambda>_.
       case tfind sr_pk key (start_receipts s) of
         Some rc \<Rightarrow>
           if \<not> receipt_matches rc a wid revision_id then Inl StartConflict
           else try_bind (of_option TaskMissing (run_row s (sr_run rc))) (\<lambda>run. Inr (run, s))
       | None \<Rightarrow>
           try_bind (queue_hermes_run c uuid5_url hs clk ids wid revision_id actor_id sid s) (\<lambda>(run, s1).
           try_bind (create_receipt \<lparr>sr_pk = key, sr_owner = the (actor_user a), sr_actor = slug a, sr_workflow = wid,
              sr_revision = revision_id, sr_run = run_pk run\<rparr> s1) (\<lambda>s2. Inr (run, s2)))))))"

section \<open>The checks of a worker\<close>

definition capability_usable :: "int \<Rightarrow> agent_run \<Rightarrow> run_binding \<Rightarrow> capability \<Rightarrow> bool" where
  "capability_usable now run b cap \<longleftrightarrow> cap_revoked cap = None \<and> now < cap_expires cap
     \<and> cap_correlation cap = Some (bd_correlation b) \<and> cap_revision_digest cap = bd_revision_digest b
     \<and> cap_workflow cap = run_workflow run \<and> cap_revision cap = run_revision run \<and> cap_actor cap = bd_actor b"

definition check_run :: "config \<Rightarrow> hermes_settings \<Rightarrow> int \<Rightarrow> agent_run \<Rightarrow> run_binding \<Rightarrow> run_control \<Rightarrow> workflow \<Rightarrow> capability option
    \<Rightarrow> draft_db \<Rightarrow> run_fault + unit" where
  "check_run c hs now run b ct w capability s =
     try_bind (deny F_CANCELLED (ct_cancel ct \<noteq> None \<or> \<not> hs_enabled hs)) (\<lambda>_.
     try_bind (deny F_TIMEOUT (case ct_lease ct of None \<Rightarrow> True | Some t \<Rightarrow> t \<le> now)) (\<lambda>_.
     try_bind (fault (of_option TaskMissing (tfind slug (bd_actor b) (actors (base s))))) (\<lambda>a.
     try_bind (deny F_INVALID (\<not> operator_active s a)) (\<lambda>_.
     try_bind (fault (of_option TaskMissing (tfind rev_pk (wf_revision w) (revisions (base s))))) (\<lambda>r.
     try_bind (fault (run_ready c s now run b a w r)) (\<lambda>ok.
     try_bind (deny F_INVALID (\<not> ok)) (\<lambda>_.
     try_bind (fault (task_arguments (digest (env c) (JObj (snapshot r))))) (\<lambda>rd.
     try_bind (deny F_INVALID (rd \<noteq> bd_revision_digest b)) (\<lambda>_.
       deny F_INVALID (case capability of None \<Rightarrow> False | Some cap \<Rightarrow> \<not> capability_usable now run b cap))))))))))"

definition should_cancel_hermes_run :: "config \<Rightarrow> hermes_settings \<Rightarrow> int \<Rightarrow> uuid \<Rightarrow> hermes_db \<Rightarrow> run_fault + bool" where
  "should_cancel_hermes_run c hs now rid s =
     try_bind (of_option RunGone (run_row s rid)) (\<lambda>run.
     try_bind (fault (of_option TaskMissing (control_row s rid))) (\<lambda>ct.
     try_bind (fault (of_option TaskMissing (tfind wf_pk (run_workflow run) (workflows (base (core s)))))) (\<lambda>w.
     try_bind (fault (of_option TaskMissing (binding_row s rid))) (\<lambda>b.
       let capability = Option.bind (ct_capability ct) (\<lambda>k. tfind cap_pk k (capabilities (core s))) in
       (case check_run c hs now run b ct w capability (core s) of
          Inl (Fault _ _) \<Rightarrow> Inr True
        | Inl x \<Rightarrow> Inl x
        | Inr _ \<Rightarrow> Inr (run_status run \<noteq> RUN_RUNNING))))))"

section \<open>The end of a run\<close>

text \<open>\<open>_revoke_record\<close>; \<open>None\<close> when it raises.\<close>

definition revoke_record :: "int \<Rightarrow> run_control \<Rightarrow> hermes_db \<Rightarrow> hermes_db option" where
  "revoke_record now ct s =
     (case ct_capability ct of
        None \<Rightarrow> Some s
      | Some k \<Rightarrow>
          (case tfind cap_pk k (capabilities (core s)) of
             None \<Rightarrow> None
           | Some cap \<Rightarrow>
               if cap_revoked cap \<noteq> None then Some s
               else Some (s\<lparr>core := record_audit (Some (cap_actor cap)) ''mcp.capability_revoked'' ''workflow'' (cap_workflow cap)
                      [(''capability_id'', JStr (cap_pk cap))]
                      ((core s)\<lparr>capabilities := tput cap_pk (cap\<lparr>cap_revoked := Some now\<rparr>) (capabilities (core s))\<rparr>)\<rparr>)))"

text \<open>Closing the admissions: on the lane, and on the control row of the run.\<close>

definition close_lane :: "hermes_db \<Rightarrow> hermes_db" where
  "close_lane s = set_lane ((admission s)\<lparr>ln_disabled := True\<rparr>) s"

definition close_control :: "uuid \<Rightarrow> hermes_db \<Rightarrow> hermes_db" where
  "close_control rid s = (case control_row s rid of None \<Rightarrow> s | Some ct \<Rightarrow> save_control (ct\<lparr>ct_disabled := True\<rparr>) s)"

text \<open>The first part of \<open>_terminal\<close>: the reservation is charged or released, or the admissions are closed.\<close>

definition close_reservation :: "bool \<Rightarrow> uuid \<Rightarrow> hermes_db \<Rightarrow> reservation option \<times> hermes_db" where
  "close_reservation billable rid s =
     (case (if billable then charge_reserved_budget rid (money s) else release_budget rid (money s)) of
        Inr (ro, m) \<Rightarrow> (ro, s\<lparr>money := m\<rparr>)
      | Inl _ \<Rightarrow> (None, close_control rid (close_lane s)))"

definition with_usage :: "reservation option \<Rightarrow> agent_run \<Rightarrow> agent_run" where
  "with_usage ro r =
     (case ro of
        None \<Rightarrow> r
      | Some x \<Rightarrow>
          (case (settled_cost x, settled_input x, settled_output x) of
             (Some k, Some i, Some out) \<Rightarrow> r\<lparr>run_input := i, run_output := out, run_cost := k\<rparr>
           | _ \<Rightarrow> r))"

fun ended_status :: "failure_category \<Rightarrow> run_status" where
  "ended_status F_CANCELLED = RUN_CANCELLED" | "ended_status _ = RUN_FAILED"

fun status_text :: "run_status \<Rightarrow> string" where
  "status_text RUN_QUEUED = ''queued''" | "status_text RUN_RUNNING = ''running''" | "status_text RUN_SUCCEEDED = ''succeeded''"
| "status_text RUN_FAILED = ''failed''" | "status_text RUN_CANCELLED = ''cancelled''"

definition ended_run :: "int \<Rightarrow> failure_category \<Rightarrow> agent_run \<Rightarrow> agent_run" where
  "ended_run now k r = r\<lparr>run_status := ended_status k, run_failure := Some k,
     started_at := Some (case started_at r of None \<Rightarrow> now | Some t \<Rightarrow> t), finished_at := Some now\<rparr>"

definition leave_lane :: "uuid \<Rightarrow> hermes_db \<Rightarrow> hermes_db" where
  "leave_lane rid s = (if ln_active (admission s) = Some rid then set_lane ((admission s)\<lparr>ln_active := None\<rparr>) s else s)"

definition terminal :: "py_env \<Rightarrow> int \<Rightarrow> bool \<Rightarrow> failure_category \<Rightarrow> agent_run \<Rightarrow> hermes_db \<Rightarrow> task_error + hermes_db" where
  "terminal e now billable k r s =
     (let (ro, s1) = close_reservation billable (run_pk r) s; r' = ended_run now k (with_usage ro r) in
      try_bind (save_run r' s1) (\<lambda>s2.
      try_bind (add_event e (run_pk r) (status_text (run_status r')) (category_text k) s2) (\<lambda>s3.
        Inr (leave_lane (run_pk r) s3))))"

definition cancel_hermes_run :: "py_env \<Rightarrow> int \<Rightarrow> uuid \<Rightarrow> hermes_db \<Rightarrow> task_error + hermes_db" where
  "cancel_hermes_run e now rid s =
     try_bind (of_option TaskMissing (run_row s rid)) (\<lambda>r.
     let (own, s1) = owns_run r s in
     if \<not> own \<or> \<not> run_active r then Inr s1
     else try_bind (of_option TaskMissing (control_row s1 rid)) (\<lambda>ct.
       if ct_cancel ct \<noteq> None then Inr s1
       else
         let ct' = ct\<lparr>ct_cancel := Some now\<rparr>; s2 = save_control ct' s1;
             s3 = (case revoke_record now ct' s2 of Some s' \<Rightarrow> s' | None \<Rightarrow> close_control rid (close_lane s2)) in
         try_bind (add_event e rid ''cancel_requested'' ''accepted'' s3) (\<lambda>s4.
           if run_status r = RUN_QUEUED then terminal e now False F_CANCELLED r s4 else Inr s4)))"

text \<open>A running run that the caller takes for unbilled; the category, where a clean end of a cancelled run is a cancellation.\<close>

definition unbilled :: "agent_run \<Rightarrow> bool \<Rightarrow> bool" where
  "unbilled r billable \<longleftrightarrow> run_status r = RUN_RUNNING \<and> \<not> billable"

definition finished_as :: "run_control \<Rightarrow> bool \<Rightarrow> failure_category \<Rightarrow> failure_category" where
  "finished_as ct clean k = (if clean \<and> ct_cancel ct \<noteq> None then F_CANCELLED else k)"

text \<open>\<open>_finish\<close> gives the category that it recorded, or \<open>None\<close> when there was nothing to finish.\<close>

definition finish_run :: "py_env \<Rightarrow> int \<Rightarrow> uuid \<Rightarrow> failure_category \<Rightarrow> bool \<Rightarrow> bool \<Rightarrow> hermes_db
    \<Rightarrow> task_error + failure_category option \<times> hermes_db" where
  "finish_run e now rid k billable cleanup s =
     try_bind (of_option TaskMissing (run_row s rid)) (\<lambda>r.
     let (own, s1) = owns_run r s in
     if \<not> own \<or> \<not> run_active r then Inr (None, s1)
     else try_bind (of_option TaskMissing (control_row s1 rid)) (\<lambda>ct.
       let revoked = revoke_record now ct s1;
           clean = (cleanup \<and> \<not> unbilled r billable \<and> revoked \<noteq> None);
           s2 = (case revoked of Some s' \<Rightarrow> s' | None \<Rightarrow> s1);
           s3 = (if clean then s2 else close_control rid (close_lane s2));
           k' = finished_as ct clean k in
       try_bind (terminal e now (billable \<or> unbilled r billable) k' r s3) (\<lambda>s4. Inr (Some k', s4))))"

text \<open>\<open>_dispatch\<close>, when the queue refuses the message.\<close>

definition dispatch_failed :: "py_env \<Rightarrow> int \<Rightarrow> uuid \<Rightarrow> hermes_db \<Rightarrow> task_error + failure_category option \<times> hermes_db" where
  "dispatch_failed e now rid s = finish_run e now rid F_DEPENDENCY False True s"

section \<open>The start of a run\<close>

datatype begin_result = Returned | Redelivered | Refused run_fault | Begun string agent_run

definition lifetime_of :: "int \<Rightarrow> run_control \<Rightarrow> int" where
  "lifetime_of now ct = min 300 (max 1 ((case ct_lease ct of None \<Rightarrow> 0 | Some t \<Rightarrow> t - now) div SECOND))"

text \<open>The worker's span: its trace id and trace parent, when its context is valid.\<close>

type_synonym span_context = "(string \<times> string) option"

definition span_trace :: "span_context \<Rightarrow> string" where
  "span_trace sp = (case sp of None \<Rightarrow> replicate 32 (CHR ''0'') | Some (t, _) \<Rightarrow> t)"

definition span_parent :: "span_context \<Rightarrow> string" where
  "span_parent sp = (case sp of None \<Rightarrow> [] | Some (_, p) \<Rightarrow> p)"

definition started_run :: "int \<Rightarrow> span_context \<Rightarrow> agent_run \<Rightarrow> agent_run" where
  "started_run now sp r = r\<lparr>trace_id := span_trace sp, run_status := RUN_RUNNING, started_at := Some now\<rparr>"

definition begin_body :: "config \<Rightarrow> hermes_settings \<Rightarrow> int \<Rightarrow> string \<Rightarrow> uuid \<Rightarrow> span_context \<Rightarrow> bool \<Rightarrow> agent_run \<Rightarrow> hermes_db
    \<Rightarrow> run_fault + string \<times> agent_run \<times> hermes_db" where
  "begin_body c hs now signed cid sp client_ok r s =
     try_bind (fault (of_option TaskMissing (binding_row s (run_pk r)))) (\<lambda>b.
     try_bind (fault (of_option TaskMissing (control_row s (run_pk r)))) (\<lambda>ct.
     try_bind (fault (of_option TaskMissing (tfind wf_pk (run_workflow r) (workflows (base (core s)))))) (\<lambda>w.
     try_bind (deny F_DEPENDENCY (ln_active (admission s) \<noteq> Some (run_pk r) \<or> ln_disabled (admission s) \<or> ct_disabled ct)) (\<lambda>_.
     try_bind (check_run c hs now r b ct w None (core s)) (\<lambda>_.
     try_bind (deny F_DEPENDENCY (\<not> client_ok)) (\<lambda>_.
     try_bind (fault (task_broker (issue_workflow_capability (env c) now signed cid (run_workflow r) (run_revision r) (bd_actor b)
        TOOLS (lifetime_of now ct) (core s)))) (\<lambda>(tok, d).
     try_bind (fault (of_option TaskMissing (tfind cap_token (token_digest (env c) tok) (capabilities d)))) (\<lambda>cap.
     let d' = d\<lparr>capabilities := tput cap_pk (cap\<lparr>cap_correlation := Some (bd_correlation b)\<rparr>) (capabilities d)\<rparr>;
         s1 = save_control (ct\<lparr>ct_capability := Some (cap_pk cap), ct_traceparent := span_parent sp\<rparr>) (s\<lparr>core := d'\<rparr>);
         r' = started_run now sp r in
     try_bind (fault (save_run r' s1)) (\<lambda>s2.
     try_bind (fault (add_event (env c) (run_pk r) ''running'' ''started'' s2)) (\<lambda>s3.
       Inr (tok, r', s3)))))))))))"

definition begin_run :: "config \<Rightarrow> hermes_settings \<Rightarrow> int \<Rightarrow> string \<Rightarrow> uuid \<Rightarrow> span_context \<Rightarrow> bool \<Rightarrow> uuid \<Rightarrow> hermes_db
    \<Rightarrow> begin_result \<times> hermes_db" where
  "begin_run c hs now signed cid sp client_ok rid s =
     (case run_row s rid of
        None \<Rightarrow> (Returned, s)
      | Some r \<Rightarrow>
          let (own, s1) = owns_run r s in
          if \<not> own \<or> \<not> run_active r then (Returned, s1)
          else if run_status r = RUN_RUNNING then (Redelivered, s)
          else (case begin_body c hs now signed cid sp client_ok r s of
                  Inl x \<Rightarrow> (Refused x, s)
                | Inr (tok, r', s') \<Rightarrow> (Begun tok r', s')))"

text \<open>
  The failure handler.  \<open>cancelled\<close> is whether \<open>client.cancel(run)\<close> returned \<open>True\<close>; it is only asked when
  the run may have cost something.
\<close>

definition fail_run :: "py_env \<Rightarrow> int \<Rightarrow> uuid \<Rightarrow> run_fault \<Rightarrow> bool \<Rightarrow> bool \<Rightarrow> bool \<Rightarrow> hermes_db \<Rightarrow> task_error + hermes_db" where
  "fail_run e now rid x billable redelivery cancelled s =
     (if x = RunGone then Inr s
      else try_bind (finish_run e now rid (fault_category x) billable
             (\<not> billable \<or> (cancelled \<and> \<not> redelivery \<and> \<not> quarantined x)) s) (\<lambda>(_, s'). Inr s'))"

end
