(* ===== verification/Hermes_Result.thy ===== *)
theory Hermes_Result
  imports Hermes_Run
begin

text \<open>
  The acceptance of a result: \<open>_validate_result\<close> of \<open>backend/agents/tasks.py\<close> and the second transaction
  of \<open>_execute_hermes_run\<close>.  A result is the dictionary that the Hermes client returned, whose
  proposal references are canonical UUID texts; every exception of the validation is the failure
  \<open>invalid_output\<close>.
\<close>

section \<open>The validation of a result\<close>

definition reject :: "bool \<Rightarrow> failure_category + unit" where
  "reject bad = (if bad then Inl F_INVALID else Inr ())"

fun or_invalid :: "'e + 'a \<Rightarrow> failure_category + 'a" where
  "or_invalid (Inl _) = Inl F_INVALID" | "or_invalid (Inr v) = Inr v"

definition reported_failure :: "dict \<Rightarrow> failure_category" where
  "reported_failure d = (case category_of (dget d ''failure_category'') of None \<Rightarrow> F_INVALID | Some k \<Rightarrow> k)"

text \<open>One reference: the proposal it names under the run's capability, with its digests.\<close>

definition ref_id :: "json \<Rightarrow> failure_category + uuid" where
  "ref_id v = (case v of JObj d \<Rightarrow> (case map_of d ''proposal_id'' of Some (JStr p) \<Rightarrow> Inr p | _ \<Rightarrow> Inl F_INVALID) | _ \<Rightarrow> Inl F_INVALID)"

fun ref_ids :: "json list \<Rightarrow> failure_category + uuid list" where
  "ref_ids [] = Inr []"
| "ref_ids (v # vs) = try_bind (ref_id v) (\<lambda>p. try_bind (ref_ids vs) (\<lambda>ps. Inr (p # ps)))"

definition referenced_proposal :: "py_env \<Rightarrow> draft_db \<Rightarrow> uuid option \<Rightarrow> json \<Rightarrow> failure_category + uuid" where
  "referenced_proposal e s k v =
     try_bind (ref_id v) (\<lambda>pid.
     try_bind (or_invalid (of_option () (find (\<lambda>sub. sub_pk sub = pid \<and> Some (sub_capability sub) = k \<and> sub_kind sub = ''proposal'')
        (submissions s)))) (\<lambda>sub.
     try_bind (reject (jfield v ''schema_id'' \<noteq> JStr PROPOSAL_SCHEMA_ID \<or> jfield v ''proposal_digest'' \<noteq> JStr (sub_digest sub))) (\<lambda>_.
     try_bind (or_invalid (digest e (sub_content sub))) (\<lambda>h.
     try_bind (reject (h \<noteq> sub_digest sub \<or> \<not> validate (sub_content sub) PROPOSAL)) (\<lambda>_. Inr (sub_pk sub))))))"

fun referenced_proposals :: "py_env \<Rightarrow> draft_db \<Rightarrow> uuid option \<Rightarrow> json list \<Rightarrow> failure_category + uuid list" where
  "referenced_proposals e s k [] = Inr []"
| "referenced_proposals e s k (v # vs) =
     try_bind (referenced_proposal e s k v) (\<lambda>p. try_bind (referenced_proposals e s k vs) (\<lambda>ps. Inr (p # ps)))"

text \<open>\<open>DraftOperation.objects.filter(proposal__capability_id=..)\<close>.\<close>

definition run_operations :: "draft_db \<Rightarrow> uuid option \<Rightarrow> draft_operation list" where
  "run_operations s k = filter (\<lambda>i. case tfind sub_pk (in_proposal i) (submissions s) of
     None \<Rightarrow> False | Some sub \<Rightarrow> Some (sub_capability sub) = k) (intents s)"

definition operation_action :: "agent_run \<Rightarrow> run_binding \<Rightarrow> draft_operation \<Rightarrow> submission \<Rightarrow> json" where
  "operation_action run b i sub = JObj
     [(''workflow_id'', JStr (run_workflow run)), (''revision_id'', JInt (int (run_revision run))),
      (''revision_digest'', JStr (bd_revision_digest b)), (''provider'', JStr (in_provider i)), (''operation_kind'', JStr (in_kind i)),
      (''proposal_digest'', JStr (sub_digest sub))]"

definition operation_key :: "agent_run \<Rightarrow> run_binding \<Rightarrow> draft_operation \<Rightarrow> string \<Rightarrow> json" where
  "operation_key run b i action = JList
     [JStr (run_workflow run), JInt (int (run_revision run)), JStr (bd_actor b), JStr (in_kind i), JStr action]"

definition operation_ok :: "agent_run \<Rightarrow> run_binding \<Rightarrow> uuid list \<Rightarrow> draft_operation \<Rightarrow> bool" where
  "operation_ok run b proposals i \<longleftrightarrow> in_proposal i \<in> set proposals \<and> in_workflow i = run_workflow run
     \<and> in_revision i = run_revision run \<and> in_actor i = bd_actor b \<and> in_status i = ''pending'' \<and> in_approval i = None
     \<and> in_receipt i = None \<and> (in_provider i, in_kind i) \<in> set PROVIDER_KINDS"

definition validate_operation :: "py_env \<Rightarrow> draft_db \<Rightarrow> agent_run \<Rightarrow> run_binding \<Rightarrow> uuid list \<Rightarrow> draft_operation \<Rightarrow> failure_category + unit" where
  "validate_operation e s run b proposals i =
     try_bind (reject (\<not> operation_ok run b proposals i)) (\<lambda>_.
     try_bind (or_invalid (of_option () (tfind sub_pk (in_proposal i) (submissions s)))) (\<lambda>sub.
     try_bind (or_invalid (digest e (operation_action run b i sub))) (\<lambda>action.
     try_bind (or_invalid (digest e (operation_key run b i action))) (\<lambda>key.
       reject (in_action_digest i \<noteq> action \<or> in_idempotency i \<noteq> key)))))"

fun validate_operations :: "py_env \<Rightarrow> draft_db \<Rightarrow> agent_run \<Rightarrow> run_binding \<Rightarrow> uuid list \<Rightarrow> draft_operation list \<Rightarrow> failure_category + unit" where
  "validate_operations e s run b proposals [] = Inr ()"
| "validate_operations e s run b proposals (i # is) =
     try_bind (validate_operation e s run b proposals i) (\<lambda>_. validate_operations e s run b proposals is)"

definition operation_kinds :: "draft_operation list \<Rightarrow> (string \<times> string) set" where
  "operation_kinds is = (\<lambda>i. (in_provider i, in_kind i)) ` set is"

text \<open>A real event's run has exactly one proposal and all three operations.\<close>

definition owner_outputs_ok :: "uuid list \<Rightarrow> draft_operation list \<Rightarrow> bool" where
  "owner_outputs_ok proposals is \<longleftrightarrow> length proposals = 1 \<and> length is = length PROVIDER_KINDS
     \<and> operation_kinds is = set PROVIDER_KINDS"

definition usage_of :: "dict \<Rightarrow> failure_category + int \<times> int \<times> int" where
  "usage_of d =
     (let u = dget d ''usage'' in
      case (jfield u ''input_tokens'', jfield u ''output_tokens'', jfield u ''cost_microusd'') of
        (JInt i, JInt out, JInt k) \<Rightarrow> Inr (i, out, k) | _ \<Rightarrow> Inl F_INVALID)"

definition result_identity_ok :: "agent_run \<Rightarrow> dict \<Rightarrow> bool" where
  "result_identity_ok run d \<longleftrightarrow> dget d ''run_id'' = JStr (run_pk run) \<and> dget d ''workflow_id'' = JStr (run_workflow run)
     \<and> eq_int (dget d ''revision_id'') (int (run_revision run)) \<and> map_of d ''status'' \<noteq> None"

definition references_of :: "dict \<Rightarrow> failure_category + json list" where
  "references_of d = (case dget d ''proposal_references'' of JList (v # vs) \<Rightarrow> Inr (v # vs) | _ \<Rightarrow> Inl F_INVALID)"

definition validate_usage :: "model_profile list \<Rightarrow> agent_run \<Rightarrow> dict \<Rightarrow> failure_category + int \<times> int" where
  "validate_usage ps run d =
     try_bind (usage_of d) (\<lambda>(i, out, k).
     try_bind (or_invalid (of_option () (tfind mp_pk (run_profile run) ps))) (\<lambda>p.
     try_bind (or_invalid (cost_of p i out)) (\<lambda>cost.
     try_bind (reject (k \<noteq> cost)) (\<lambda>_. Inr (i, out)))))"

definition validate_outputs :: "py_env \<Rightarrow> draft_db \<Rightarrow> agent_run \<Rightarrow> run_binding \<Rightarrow> run_control \<Rightarrow> revision \<Rightarrow> dict \<Rightarrow> failure_category + unit" where
  "validate_outputs e s run b ct r d =
     try_bind (references_of d) (\<lambda>refs.
     try_bind (ref_ids refs) (\<lambda>ids.
     try_bind (reject (\<not> distinct ids)) (\<lambda>_.
     try_bind (referenced_proposals e s (ct_capability ct) refs) (\<lambda>proposals.
     let is = run_operations s (ct_capability ct) in
     try_bind (validate_operations e s run b proposals is) (\<lambda>_.
       reject (kind_of r \<in> {Manual, Eventbrite} \<and> \<not> owner_outputs_ok proposals is))))))"

definition validate_result :: "py_env \<Rightarrow> hermes_db \<Rightarrow> agent_run \<Rightarrow> run_binding \<Rightarrow> run_control \<Rightarrow> revision \<Rightarrow> dict
    \<Rightarrow> failure_category + int \<times> int" where
  "validate_result e s run b ct r d =
     try_bind (reject (\<not> result_identity_ok run d)) (\<lambda>_.
     if dget d ''status'' \<noteq> JStr ''succeeded'' then Inl (reported_failure d)
     else try_bind (validate_outputs e (core s) run b ct r d) (\<lambda>_. validate_usage (Budget.profiles (money s)) run d))"

section \<open>The acceptance\<close>

fun worker_fault :: "failure_category + 'a \<Rightarrow> run_fault + 'a" where
  "worker_fault (Inl k) = Inl (Fault k False)" | "worker_fault (Inr v) = Inr v"

definition quarantine :: "broker_error + 'a \<Rightarrow> run_fault + 'a" where
  "quarantine m = (case m of Inl _ \<Rightarrow> Inl (Fault F_DEPENDENCY True) | Inr v \<Rightarrow> Inr v)"

definition succeeded_run :: "int \<Rightarrow> reservation \<Rightarrow> agent_run \<Rightarrow> agent_run" where
  "succeeded_run now x r = (with_usage (Some x) r)\<lparr>run_status := RUN_SUCCEEDED, finished_at := Some now\<rparr>"

definition settle_success :: "py_env \<Rightarrow> int \<Rightarrow> string \<Rightarrow> agent_run \<Rightarrow> int \<Rightarrow> int \<Rightarrow> hermes_db \<Rightarrow> run_fault + hermes_db" where
  "settle_success e now tok r i out s =
     try_bind (quarantine (revoke_workflow_capability e now tok (core s))) (\<lambda>d.
     try_bind (fault (task_budget (settle_budget (run_pk r) i out (money s)))) (\<lambda>(x, m).
     try_bind (fault (save_run (succeeded_run now x r) (s\<lparr>core := d, money := m\<rparr>))) (\<lambda>s1.
     try_bind (fault (add_event e (run_pk r) ''succeeded'' ''accepted'' s1)) (\<lambda>s2.
       Inr (set_lane ((admission s2)\<lparr>ln_active := None\<rparr>) s2)))))"

definition complete_run :: "config \<Rightarrow> hermes_settings \<Rightarrow> int \<Rightarrow> string \<Rightarrow> uuid \<Rightarrow> dict \<Rightarrow> hermes_db \<Rightarrow> run_fault + hermes_db" where
  "complete_run c hs now tok rid d s =
     try_bind (of_option RunGone (run_row s rid)) (\<lambda>r.
     try_bind (deny F_INVALID (run_status r \<noteq> RUN_RUNNING)) (\<lambda>_.
     try_bind (fault (of_option TaskMissing (control_row s rid))) (\<lambda>ct.
     try_bind (fault (of_option TaskMissing (Option.bind (ct_capability ct) (\<lambda>k. tfind cap_pk k (capabilities (core s)))))) (\<lambda>cap.
     try_bind (fault (of_option TaskMissing (tfind wf_pk (run_workflow r) (workflows (base (core s)))))) (\<lambda>w.
     try_bind (deny F_DEPENDENCY (ln_disabled (admission s) \<or> ln_active (admission s) \<noteq> Some rid)) (\<lambda>_.
     try_bind (fault (of_option TaskMissing (binding_row s rid))) (\<lambda>b.
     try_bind (check_run c hs now r b ct w (Some cap) (core s)) (\<lambda>_.
     try_bind (fault (of_option TaskMissing (tfind rev_pk (run_revision r) (revisions (base (core s)))))) (\<lambda>v.
     try_bind (worker_fault (validate_result (env c) s r b ct v d)) (\<lambda>(i, out).
       settle_success (env c) now tok r i out s))))))))))"

end
