(* ===== verification/Broker_Inv.thy ===== *)
theory Broker_Inv
  imports Broker
begin

text \<open>
  The broker as a machine: capabilities are issued and revoked, tools are called, and the rest of the
  application changes everything but the broker's four tables in between.  The invariant relates the
  four tables; capabilities only ever get a correlation or are revoked, and the other three tables only grow.
\<close>

section \<open>The machine\<close>

inductive broker_step :: "py_env \<Rightarrow> (string \<Rightarrow> bool) \<Rightarrow> string option \<Rightarrow> draft_db \<Rightarrow> draft_db \<Rightarrow> bool"
  for e unsign service_token where
  issue: "issue_workflow_capability e now signed cid wid rid aid tools lifetime s = Inr (tok, s') \<Longrightarrow> broker_step e unsign service_token s s'"
| revoke: "revoke_workflow_capability e now tok s = Inr s' \<Longrightarrow> broker_step e unsign service_token s s'"
| call: "dispatch_mcp_tool e unsign service_token now fr tool arguments identity tok s = (v, s') \<Longrightarrow> broker_step e unsign service_token s s'"
| outside: "submissions s' = submissions s \<Longrightarrow> capabilities s' = capabilities s \<Longrightarrow> invocations s' = invocations s
    \<Longrightarrow> intents s' = intents s \<Longrightarrow> broker_step e unsign service_token s s'"

definition broker_init :: "draft_db \<Rightarrow> bool" where
  "broker_init s \<longleftrightarrow> submissions s = [] \<and> capabilities s = [] \<and> invocations s = [] \<and> intents s = []"

section \<open>The invariant\<close>

definition cap_ok :: "capability \<Rightarrow> bool" where
  "cap_ok c \<longleftrightarrow> set (cap_tools c) \<subseteq> set TOOLS \<and> cap_audience c = AUDIENCE
     \<and> 0 < cap_expires c - cap_issued c \<and> cap_expires c - cap_issued c \<le> 300 * SECOND"

definition sub_from :: "py_env \<Rightarrow> submission \<Rightarrow> capability \<Rightarrow> bool" where
  "sub_from e sub c \<longleftrightarrow> sub_capability sub = cap_pk c \<and> digest e (sub_content sub) = Inr (sub_digest sub)
     \<and> (sub_kind sub = ''proposal'' \<longrightarrow> validate (sub_content sub) PROPOSAL)"

definition intent_from :: "py_env \<Rightarrow> draft_operation \<Rightarrow> submission \<Rightarrow> capability \<Rightarrow> bool" where
  "intent_from e i sub c \<longleftrightarrow> in_proposal i = sub_pk sub \<and> sub_kind sub = ''proposal'' \<and> sub_capability sub = cap_pk c
     \<and> in_workflow i = cap_workflow c \<and> in_revision i = cap_revision c \<and> in_actor i = cap_actor c
     \<and> digest e (broker_action c (in_provider i) (in_kind i) sub) = Inr (in_action_digest i)
     \<and> digest e (broker_idempotency c (in_kind i) (in_action_digest i)) = Inr (in_idempotency i)
     \<and> intent_pending i (in_action_digest i) (in_idempotency i)"

definition inv_from :: "py_env \<Rightarrow> invocation \<Rightarrow> capability \<Rightarrow> bool" where
  "inv_from e v c \<longleftrightarrow> iv_capability v = cap_pk c \<and> iv_tool v \<in> set (cap_tools c) \<and> cap_correlation c \<noteq> None"

definition broker_keys :: "draft_db \<Rightarrow> bool" where
  "broker_keys s \<longleftrightarrow> keys_ok cap_pk (capabilities s) \<and> keys_ok cap_token (capabilities s) \<and> keys_ok sub_pk (submissions s)
     \<and> keys_ok in_pk (intents s) \<and> keys_ok in_idempotency (intents s)
     \<and> keys_ok iv_request (invocations s) \<and> keys_ok iv_idempotency (invocations s)"

definition broker_inv :: "py_env \<Rightarrow> draft_db \<Rightarrow> bool" where
  "broker_inv e s \<longleftrightarrow> broker_keys s
     \<and> (\<forall>c \<in> set (capabilities s). cap_ok c)
     \<and> (\<forall>sub \<in> set (submissions s). \<exists>c \<in> set (capabilities s). sub_from e sub c)
     \<and> (\<forall>i \<in> set (intents s). \<exists>sub \<in> set (submissions s). \<exists>c \<in> set (capabilities s). intent_from e i sub c)
     \<and> (\<forall>v \<in> set (invocations s). \<exists>c \<in> set (capabilities s). inv_from e v c)"

section \<open>How the tables change\<close>

definition cap_later :: "capability \<Rightarrow> capability \<Rightarrow> bool" where
  "cap_later c c' \<longleftrightarrow> c' = c\<lparr>cap_correlation := cap_correlation c', cap_revoked := cap_revoked c'\<rparr>
     \<and> (cap_correlation c \<noteq> None \<longrightarrow> cap_correlation c' = cap_correlation c) \<and> (cap_revoked c \<noteq> None \<longrightarrow> cap_revoked c' \<noteq> None)"

definition caps_kept :: "capability list \<Rightarrow> capability list \<Rightarrow> bool" where
  "caps_kept cs cs' \<longleftrightarrow> (\<forall>c \<in> set cs. \<exists>c' \<in> set cs'. cap_later c c')"

definition grows :: "draft_db \<Rightarrow> draft_db \<Rightarrow> bool" where
  "grows s s' \<longleftrightarrow> caps_kept (capabilities s) (capabilities s') \<and> (\<exists>x. submissions s' = submissions s @ x)
     \<and> (\<exists>x. intents s' = intents s @ x) \<and> (\<exists>x. invocations s' = invocations s @ x)"

lemma cap_later_refl: "cap_later c c"
  by (simp add: cap_later_def)

lemma cap_later_fields:
  assumes "cap_later c c'"
  shows "cap_pk c' = cap_pk c" "cap_workflow c' = cap_workflow c" "cap_revision c' = cap_revision c"
    "cap_revision_digest c' = cap_revision_digest c" "cap_actor c' = cap_actor c" "cap_tools c' = cap_tools c"
    "cap_token c' = cap_token c" "cap_audience c' = cap_audience c" "cap_issued c' = cap_issued c" "cap_expires c' = cap_expires c"
  using assms by (cases c; cases c'; simp add: cap_later_def)+

lemma cap_later_trans: "cap_later a b \<Longrightarrow> cap_later b c \<Longrightarrow> cap_later a c"
  by (cases a; cases b; cases c) (auto simp: cap_later_def)

lemma caps_kept_refl: "caps_kept cs cs"
  by (auto simp: caps_kept_def intro: cap_later_refl)

lemma caps_kept_trans: "caps_kept a b \<Longrightarrow> caps_kept b c \<Longrightarrow> caps_kept a c"
  unfolding caps_kept_def by (blast intro: cap_later_trans)

lemma caps_kept_append: "caps_kept cs (cs @ x)"
  by (auto simp: caps_kept_def intro: cap_later_refl)

lemma caps_kept_tput:
  assumes "keys_ok cap_pk cs" and "c \<in> set cs" and "cap_later c c'"
  shows "caps_kept cs (tput cap_pk c' cs)"
  unfolding caps_kept_def
proof
  fix x assume x: "x \<in> set cs"
  show "\<exists>y \<in> set (tput cap_pk c' cs). cap_later x y"
  proof (cases "cap_pk x = cap_pk c'")
    case True
    then have "x = c" using assms x cap_later_fields(1) [OF assms(3)] by (metis keys_ok_inj)
    with True x assms(3) show ?thesis by (metis in_tput_self imageI)
  next
    case False
    with x show ?thesis by (blast intro: in_tput_other cap_later_refl)
  qed
qed

lemma grows_refl: "grows s s"
  by (simp add: grows_def caps_kept_refl)

lemma grows_trans: "grows a b \<Longrightarrow> grows b c \<Longrightarrow> grows a c"
  unfolding grows_def by (auto intro: caps_kept_trans)

lemma from_later:
  assumes "cap_later c c'"
  shows "cap_ok c \<Longrightarrow> cap_ok c'" "sub_from e sub c \<Longrightarrow> sub_from e sub c'" "intent_from e i sub c \<Longrightarrow> intent_from e i sub c'"
    "inv_from e v c \<Longrightarrow> inv_from e v c'"
  using cap_later_fields [OF assms] assms
  by (simp_all add: cap_ok_def sub_from_def intent_from_def inv_from_def broker_action_def broker_idempotency_def) (auto simp: cap_later_def)

section \<open>Every operation keeps the invariant\<close>

definition keeps :: "py_env \<Rightarrow> draft_db \<Rightarrow> draft_db \<Rightarrow> bool" where
  "keeps e s s' \<longleftrightarrow> broker_inv e s' \<and> grows s s'"

lemma keeps_trans: "keeps e a b \<Longrightarrow> keeps e b c \<Longrightarrow> keeps e a c"
  unfolding keeps_def by (blast intro: grows_trans)

lemma keepsI:
  assumes inv: "broker_inv e s" and gr: "grows s s'" and keys: "broker_keys s'"
    and caps: "\<And>c. c \<in> set (capabilities s') \<Longrightarrow> cap_ok c"
    and subs: "\<And>sub. sub \<in> set (submissions s') \<Longrightarrow> sub \<notin> set (submissions s) \<Longrightarrow> \<exists>c \<in> set (capabilities s'). sub_from e sub c"
    and ints: "\<And>i. i \<in> set (intents s') \<Longrightarrow> i \<notin> set (intents s)
      \<Longrightarrow> \<exists>sub \<in> set (submissions s'). \<exists>c \<in> set (capabilities s'). intent_from e i sub c"
    and invs: "\<And>v. v \<in> set (invocations s') \<Longrightarrow> v \<notin> set (invocations s) \<Longrightarrow> \<exists>c \<in> set (capabilities s'). inv_from e v c"
  shows "keeps e s s'"
proof -
  have later: "\<exists>c' \<in> set (capabilities s'). cap_later c c'" if "c \<in> set (capabilities s)" for c
    using gr that by (auto simp: grows_def caps_kept_def)
  have sub: "set (submissions s) \<subseteq> set (submissions s')" using gr by (auto simp: grows_def)
  have 1: "\<exists>c \<in> set (capabilities s'). sub_from e x c" if "x \<in> set (submissions s')" for x
  proof (cases "x \<in> set (submissions s)")
    case True
    then obtain c where "c \<in> set (capabilities s)" "sub_from e x c" using inv unfolding broker_inv_def by blast
    with later [of c] from_later(2) show ?thesis by blast
  qed (rule subs [OF that])
  have 2: "\<exists>sub \<in> set (submissions s'). \<exists>c \<in> set (capabilities s'). intent_from e x sub c" if "x \<in> set (intents s')" for x
  proof (cases "x \<in> set (intents s)")
    case True
    then obtain y c where "y \<in> set (submissions s)" "c \<in> set (capabilities s)" "intent_from e x y c"
      using inv unfolding broker_inv_def by blast
    with sub later [of c] from_later(3) show ?thesis by blast
  qed (rule ints [OF that])
  have 3: "\<exists>c \<in> set (capabilities s'). inv_from e x c" if "x \<in> set (invocations s')" for x
  proof (cases "x \<in> set (invocations s)")
    case True
    then obtain c where "c \<in> set (capabilities s)" "inv_from e x c" using inv unfolding broker_inv_def by blast
    with later [of c] from_later(4) show ?thesis by blast
  qed (rule invs [OF that])
  show ?thesis using 1 2 3 keys caps gr by (simp add: keeps_def broker_inv_def)
qed

definition same_tables :: "draft_db \<Rightarrow> draft_db \<Rightarrow> bool" where
  "same_tables s s' \<longleftrightarrow> submissions s' = submissions s \<and> capabilities s' = capabilities s \<and> invocations s' = invocations s
     \<and> intents s' = intents s"

lemma keeps_same: "broker_inv e s \<Longrightarrow> same_tables s s' \<Longrightarrow> keeps e s s'"
  by (simp add: keeps_def broker_inv_def broker_keys_def grows_def same_tables_def caps_kept_refl)

lemma same_tables_audit [simp]: "same_tables s (record_audit a x ty ti ds s)"
  by (simp add: same_tables_def record_audit_def)

lemma keeps_audit: "keeps e s s' \<Longrightarrow> keeps e s (record_audit a x ty ti ds s')"
  using keeps_same [OF _ same_tables_audit] keeps_trans by (metis keeps_def)

lemma keeps_capability:
  assumes "broker_inv e s" and "c \<in> set (capabilities s)" and "cap_later c c'"
  shows "keeps e s (s\<lparr>capabilities := tput cap_pk c' (capabilities s)\<rparr>)"
proof -
  have k: "keys_ok cap_pk (capabilities s)" "keys_ok cap_token (capabilities s)"
    using assms(1) by (auto simp: broker_inv_def broker_keys_def)
  have "keys_ok cap_token (tput cap_pk c' (capabilities s))"
    using keys_ok_tput_second [OF k(1) assms(2), of c' cap_token] cap_later_fields [OF assms(3)] k(2) by simp
  then show ?thesis
    using assms(1) from_later(1) [OF assms(3)] assms(2)
    by (intro keepsI [OF assms(1)]) (auto simp: grows_def broker_inv_def broker_keys_def caps_kept_tput [OF k(1) assms(2,3)] dest!: in_tput)
qed

lemma keeps_bind:
  assumes "broker_inv e s" and "c \<in> set (capabilities s)"
  shows "keeps e s (bind_correlation c q s)"
proof (cases "cap_correlation c")
  case None
  have "cap_later c (c\<lparr>cap_correlation := Some q\<rparr>)" using None by (simp add: cap_later_def)
  from keeps_capability [OF assms this] None show ?thesis by (simp add: bind_correlation_def)
next
  case Some
  then show ?thesis using assms(1) by (simp add: bind_correlation_def keeps_same same_tables_def)
qed

lemma keeps_revoke:
  assumes "broker_inv e s" and "revoke_workflow_capability e now tok s = Inr s'"
  shows "keeps e s s'"
proof -
  obtain c where c: "tfind cap_token (token_digest e tok) (capabilities s) = Some c"
    and s': "s' = record_audit (Some (cap_actor c)) ''mcp.capability_revoked'' ''workflow'' (cap_workflow c) [(''capability_id'', JStr (cap_pk c))]
         (s\<lparr>capabilities := tput cap_pk (c\<lparr>cap_revoked := Some now\<rparr>) (capabilities s)\<rparr>)"
    using assms(2) by (auto simp: revoke_workflow_capability_def try_bind_eq_Inr of_option_eq_Inr)
  have "cap_later c (c\<lparr>cap_revoked := Some now\<rparr>)" by (simp add: cap_later_def)
  from keeps_capability [OF assms(1) tfind_in [OF c] this] show ?thesis by (simp add: s' keeps_audit)
qed

lemma refuse_Inr [simp]: "refuse x b = Inr u \<longleftrightarrow> \<not> b"
  by (simp add: refuse_def)

lemma refuse_Inl [simp]: "refuse x b = Inl y \<longleftrightarrow> b \<and> y = x"
  by (auto simp: refuse_def)

lemma lift_args_Inr [simp]: "lift_args m = Inr v \<longleftrightarrow> m = Inr v"
  by (cases m) auto

lemma keeps_issue:
  assumes "broker_inv e s" and "issue_workflow_capability e now signed cid wid rid aid tools lifetime s = Inr (tok, s')"
  shows "keeps e s s'"
proof -
  define c where "c rd = \<lparr>cap_pk = cid, cap_revision_digest = rd, cap_workflow = wid, cap_revision = rid, cap_actor = aid,
    cap_tools = sort tools, cap_audience = AUDIENCE, cap_correlation = None, cap_token = token_digest e (new_token signed),
    cap_issued = now, cap_expires = now + lifetime * SECOND, cap_revoked = None\<rparr>" for rd
  obtain rd where s': "s' = record_audit (Some aid) ''mcp.capability_issued'' ''workflow'' wid [(''capability_id'', JStr cid)]
      (s\<lparr>capabilities := capabilities s @ [c rd]\<rparr>)"
    and new: "token_digest e (new_token signed) \<notin> cap_token ` set (capabilities s)" "cid \<notin> cap_pk ` set (capabilities s)"
    and t: "1 \<le> lifetime" "lifetime \<le> 300" "set tools \<subseteq> set TOOLS"
    using assms(2) unfolding issue_workflow_capability_def c_def by (auto simp: try_bind_eq_Inr Let_def)
  have ok: "cap_ok (c rd)" using t by (auto simp: cap_ok_def c_def SECOND_def)
  have "broker_keys (s\<lparr>capabilities := capabilities s @ [c rd]\<rparr>)"
    using assms(1) new by (auto simp: broker_inv_def broker_keys_def c_def tfind_None intro!: keys_ok_append_new)
  then have "keeps e s (s\<lparr>capabilities := capabilities s @ [c rd]\<rparr>)"
    using assms(1) ok by (intro keepsI [OF assms(1)]) (auto simp: grows_def caps_kept_append broker_inv_def)
  then show ?thesis by (simp add: s' keeps_audit)
qed

subsection \<open>The tools\<close>

lemma keeps_submit:
  assumes "broker_inv e s" and "c \<in> set (capabilities s)" and "kind = ''proposal'' \<Longrightarrow> validate content PROPOSAL"
    and "submit_content e sid kind content c s = Inr (v, s')"
  shows "keeps e s s' \<and> capabilities s' = capabilities s \<and> invocations s' = invocations s"
proof -
  obtain h where h: "digest e content = Inr h" and sid: "sid \<notin> sub_pk ` set (submissions s)"
    and s': "s' = s\<lparr>submissions := submissions s @ [\<lparr>sub_pk = sid, sub_capability = cap_pk c, sub_kind = kind, sub_content = content, sub_digest = h\<rparr>]\<rparr>"
    using assms(4) by (auto simp: submit_content_def try_bind_eq_Inr)
  have "broker_keys s'" using assms(1) sid by (auto simp: s' broker_inv_def broker_keys_def tfind_None intro!: keys_ok_append_new)
  then show ?thesis
    using assms(1-3) h by (intro conjI keepsI [OF assms(1)]) (auto simp: s' grows_def caps_kept_refl broker_inv_def sub_from_def)
qed

lemma find_proposal_facts:
  assumes "broker_inv e s" and "find_proposal e s c pid = Inr sub"
  shows "\<exists>b \<in> set (capabilities s). sub \<in> set (submissions s) \<and> sub_kind sub = ''proposal'' \<and> sub_capability sub = cap_pk b \<and> same_authority c b"
proof -
  obtain b where "sub \<in> set (submissions s)" "sub_kind sub = ''proposal''" "capability_of s sub = Some b" "same_authority c b"
    using assms(2) by (auto simp: find_proposal_def try_bind_eq_Inr of_option_eq_Inr find_Some_iff split: option.splits)
  then show ?thesis unfolding capability_of_def by (metis tfind_in tfind_key)
qed

lemma keeps_request_intent:
  assumes "broker_inv e s" and "b \<in> set (capabilities s)" and "sub \<in> set (submissions s)" and "sub_kind sub = ''proposal''"
    and "sub_capability sub = cap_pk b" and "same_authority c b" and "(provider, kind) \<in> set PROVIDER_KINDS"
    and "request_intent e iid c provider sub kind s = Inr (i, s')"
  shows "keeps e s s' \<and> submissions s' = submissions s \<and> capabilities s' = capabilities s \<and> invocations s' = invocations s"
proof -
  obtain action idem where act: "digest e (broker_action c provider kind sub) = Inr action"
    and idm: "digest e (broker_idempotency c kind action) = Inr idem"
    and cs: "(case tfind in_idempotency idem (intents s) of Some i \<Rightarrow> Inr (i, s)
       | None \<Rightarrow> try_bind (refuse BrokerIntegrity (iid \<in> set (map in_pk (intents s)))) (\<lambda>_.
           Inr (new_intent iid c provider kind sub action idem, s\<lparr>intents := intents s @ [new_intent iid c provider kind sub action idem]\<rparr>)))
       = (Inr (i, s') :: broker_error + draft_operation \<times> draft_db)"
    using assms(8) unfolding request_intent_def Let_def by (auto simp: try_bind_eq_Inr)
  show ?thesis
  proof (cases "tfind in_idempotency idem (intents s)")
    case None
    define n where "n = new_intent iid c provider kind sub action idem"
    have iid: "iid \<notin> in_pk ` set (intents s)" and s': "s' = s\<lparr>intents := intents s @ [n]\<rparr>"
      using cs None by (auto simp: n_def try_bind_eq_Inr)
    have auth: "cap_workflow b = cap_workflow c" "cap_revision b = cap_revision c" "cap_actor b = cap_actor c"
      "cap_revision_digest b = cap_revision_digest c" using assms(6) by (auto simp: same_authority_def)
    have "intent_from e n sub b" using assms(4,5,7) act idm auth
      by (simp add: intent_from_def n_def new_intent_def intent_pending_def broker_action_def broker_idempotency_def)
    moreover have "broker_keys s'" using assms(1) iid None
      by (auto simp: s' broker_inv_def broker_keys_def n_def new_intent_def tfind_None intro!: keys_ok_append_new)
    ultimately show ?thesis
      using assms(1-3) by (intro conjI keepsI [OF assms(1)]) (auto simp: s' grows_def caps_kept_refl broker_inv_def)
  next
    case Some
    then show ?thesis using cs keeps_same [OF assms(1)] by (simp add: same_tables_def)
  qed
qed

lemma keeps_request_intents:
  assumes "broker_inv e s" and "b \<in> set (capabilities s)" and "sub \<in> set (submissions s)" and "sub_kind sub = ''proposal''"
    and "sub_capability sub = cap_pk b" and "same_authority c b" and "\<forall>k \<in> set ks. (provider, fst k) \<in> set PROVIDER_KINDS"
    and "request_intents e c provider sub ks s = Inr (ps, s')"
  shows "keeps e s s' \<and> submissions s' = submissions s \<and> capabilities s' = capabilities s \<and> invocations s' = invocations s"
  using assms
proof (induction ks arbitrary: s ps)
  case Nil
  then show ?case by (simp add: keeps_same same_tables_def)
next
  case (Cons k ks)
  obtain kind iid where k: "k = (kind, iid)" by (cases k)
  obtain i s1 qs where 1: "request_intent e iid c provider sub kind s = Inr (i, s1)"
    and 2: "request_intents e c provider sub ks s1 = Inr (qs, s')"
    using Cons.prems(8) by (auto simp: k try_bind_eq_Inr)
  have "(provider, kind) \<in> set PROVIDER_KINDS" using Cons.prems(7) by (simp add: k)
  from keeps_request_intent [OF Cons.prems(1-6) this 1]
  have s1: "keeps e s s1" "submissions s1 = submissions s" "capabilities s1 = capabilities s" "invocations s1 = invocations s" by auto
  then have "broker_inv e s1" "b \<in> set (capabilities s1)" "sub \<in> set (submissions s1)"
    using Cons.prems(2,3) by (auto simp: keeps_def)
  from Cons.IH [OF this Cons.prems(4-6) _ 2] Cons.prems(7) s1 show ?case by (auto intro: keeps_trans)
qed

lemma provider_kinds:
  "(''eventbrite'', ''create_eventbrite_draft'') \<in> set PROVIDER_KINDS" "(''iterable'', ''create_iterable_email_draft'') \<in> set PROVIDER_KINDS"
  "(''iterable'', ''create_iterable_reminder_draft'') \<in> set PROVIDER_KINDS"
  by (simp_all add: PROVIDER_KINDS_def)

lemma tool_kinds_ok: "\<forall>k \<in> set (snd (tool_kinds tool fr)). (fst (tool_kinds tool fr), fst k) \<in> set PROVIDER_KINDS"
  by (simp add: tool_kinds_def provider_kinds)

lemma execute_cases:
  assumes "execute_tool e fr tool d c r s = Inr (v, s')"
  obtains "s' = s"
  | kind content where "submit_content e (submission_id fr) kind content c s = Inr (v, s')" "kind = ''proposal'' \<Longrightarrow> content = dget d ''proposal'' \<and> tool = ''propose_campaign_drafts''"
  | sub ps where "find_proposal e s c (arg d ''proposal_id'') = Inr sub"
      "request_intents e c (fst (tool_kinds tool fr)) sub (snd (tool_kinds tool fr)) s = Inr (ps, s')"
proof -
  note unf = assms [unfolded execute_tool_def]
  show thesis
  proof (cases "tool = ''get_event_revision'' \<or> tool = ''get_policy_context'' \<or> tool = ''get_operation_status'' \<or> tool = ''validate_proposal''")
    case True
    then show thesis by (elim disjE) (use unf in \<open>auto simp: try_bind_eq_Inr intro: that(1)\<close>)
  next
    case other: False
    show thesis
    proof (cases "tool = ''request_clarification'' \<or> tool = ''propose_campaign_drafts''")
      case True
      then show thesis
        by (elim disjE) (use unf that(2) [of "''clarification''"] that(2) [of "''proposal''"] in auto)
    next
      case False
      with other unf show thesis by (auto simp: try_bind_eq_Inr intro: that(3))
    qed
  qed
qed

lemma keeps_execute:
  assumes "broker_inv e s" and "c \<in> set (capabilities s)" and "tool = ''propose_campaign_drafts'' \<Longrightarrow> validate (dget d ''proposal'') PROPOSAL"
    and "execute_tool e fr tool d c r s = Inr (v, s')"
  shows "keeps e s s' \<and> capabilities s' = capabilities s \<and> invocations s' = invocations s"
  using assms(4)
proof (rule execute_cases)
  assume "s' = s"
  then show ?thesis using assms(1) by (simp add: keeps_same same_tables_def)
next
  fix kind content
  assume sc: "submit_content e (submission_id fr) kind content c s = Inr (v, s')"
    and k: "kind = ''proposal'' \<Longrightarrow> content = dget d ''proposal'' \<and> tool = ''propose_campaign_drafts''"
  have "kind = ''proposal'' \<Longrightarrow> validate content PROPOSAL" using k assms(3) by simp
  from keeps_submit [OF assms(1,2) this sc] show ?thesis .
next
  fix sub ps
  assume fp: "find_proposal e s c (arg d ''proposal_id'') = Inr sub"
    and ri: "request_intents e c (fst (tool_kinds tool fr)) sub (snd (tool_kinds tool fr)) s = Inr (ps, s')"
  obtain b where b: "b \<in> set (capabilities s)" "sub \<in> set (submissions s)" "sub_kind sub = ''proposal''" "sub_capability sub = cap_pk b"
    "same_authority c b" using find_proposal_facts [OF assms(1) fp] by blast
  from keeps_request_intents [OF assms(1) b tool_kinds_ok ri] show ?thesis by simp
qed

subsection \<open>Calls\<close>

text \<open>
  The row that answers a repetition of a call: the first that has its request id or its idempotency digest
  belongs to the same capability, tool, arguments and idempotency digest, and holds the result.
\<close>

definition answered_by :: "py_env \<Rightarrow> string \<Rightarrow> dict \<Rightarrow> capability \<Rightarrow> string \<Rightarrow> json \<Rightarrow> draft_db \<Rightarrow> bool" where
  "answered_by e tool d c encoded v s \<longleftrightarrow>
     (\<exists>idem x. digest e (JList [JStr (cap_pk c), JStr (arg d ''idempotency_key'')]) = Inr idem
        \<and> find (\<lambda>y. iv_request y = arg d ''request_id'' \<or> iv_idempotency y = idem) (invocations s) = Some x
        \<and> iv_capability x = cap_pk c \<and> iv_tool x = tool \<and> iv_arguments x = sha256_hex e encoded \<and> iv_idempotency x = idem
        \<and> iv_result x = v)"

lemma find_append: "find P (xs @ ys) = (case find P xs of None \<Rightarrow> find P ys | Some x \<Rightarrow> Some x)"
  by (induction xs) auto

lemma answered_by_grows:
  assumes "answered_by e tool d c encoded v s" and "grows s s'" and "cap_pk c' = cap_pk c"
  shows "answered_by e tool d c' encoded v s'"
proof -
  obtain ys where "invocations s' = invocations s @ ys" using assms(2) by (auto simp: grows_def)
  with assms(1,3) show ?thesis by (auto simp: answered_by_def find_append)
qed

lemma invoke_answered:
  assumes "answered_by e tool d c encoded v s"
  shows "invoke e fr tool d c r encoded s = Inr (v, tool_audit c ''mcp.tool_replayed'' tool d s)"
  using assms unfolding answered_by_def invoke_def Let_def by auto

lemma invoke_facts:
  assumes "broker_inv e s" and "c \<in> set (capabilities s)" and "cap_correlation c \<noteq> None" and "tool \<in> set (cap_tools c)"
    and "tool = ''propose_campaign_drafts'' \<Longrightarrow> validate (dget d ''proposal'') PROPOSAL"
    and "invoke e fr tool d c r encoded s = Inr (v, s')"
  shows "keeps e s s' \<and> answered_by e tool d c encoded v s'"
proof -
  obtain idem where idem: "digest e (JList [JStr (cap_pk c), JStr (arg d ''idempotency_key'')]) = Inr idem"
    using assms(6) unfolding invoke_def Let_def by (auto simp: try_bind_eq_Inr)
  note inv = assms(6) [unfolded invoke_def Let_def idem lift_args.simps try_bind_Inr]
  show ?thesis
  proof (cases "find (\<lambda>v. iv_request v = arg d ''request_id'' \<or> iv_idempotency v = idem) (invocations s)")
    case (Some x)
    with inv have s': "s' = tool_audit c ''mcp.tool_replayed'' tool d s" and x: "iv_capability x = cap_pk c" "iv_tool x = tool"
      "iv_arguments x = sha256_hex e encoded" "iv_idempotency x = idem" "iv_result x = v" by (auto split: if_splits)
    have "answered_by e tool d c encoded v s'"
      using idem Some x by (auto simp: answered_by_def s' tool_audit_def record_audit_def)
    moreover have "keeps e s s'" using keeps_same [OF assms(1)] by (simp add: s' tool_audit_def)
    ultimately show ?thesis by simp
  next
    case None
    then have new: "arg d ''request_id'' \<notin> iv_request ` set (invocations s)" "idem \<notin> iv_idempotency ` set (invocations s)"
      by (auto simp: find_None_iff)
    define x where "x = \<lparr>iv_capability = cap_pk c, iv_request = arg d ''request_id'', iv_idempotency = idem,
      iv_arguments = sha256_hex e encoded, iv_tool = tool, iv_result = v\<rparr>"
    obtain u s1 where ex: "execute_tool e fr tool d c r s = Inr (u, s1)"
      and s': "s' = tool_audit c ''mcp.tool_succeeded'' tool d (s1\<lparr>invocations := invocations s1 @ [x]\<rparr>)"
      using inv None by (auto simp: x_def try_bind_eq_Inr)
    have k: "keeps e s s1" "capabilities s1 = capabilities s" "invocations s1 = invocations s"
      using keeps_execute [OF assms(1,2,5) ex] by auto
    have "broker_inv e s1" using k by (simp add: keeps_def)
    moreover have "broker_keys (s1\<lparr>invocations := invocations s1 @ [x]\<rparr>)"
      using calculation new k by (auto simp: broker_inv_def broker_keys_def x_def tfind_None intro!: keys_ok_append_new)
    moreover have "inv_from e x c" using assms(3,4) by (simp add: inv_from_def x_def)
    ultimately have "keeps e s1 (s1\<lparr>invocations := invocations s1 @ [x]\<rparr>)"
      using assms(2) k by (intro keepsI) (auto simp: grows_def caps_kept_refl broker_inv_def)
    then have "keeps e s s'" using keeps_trans [OF k(1)] by (simp add: s' tool_audit_def keeps_audit)
    moreover have "answered_by e tool d c encoded v s'"
      using idem None k(3) by (auto simp: answered_by_def s' x_def tool_audit_def record_audit_def find_append)
    ultimately show ?thesis by blast
  qed
qed

lemma admit_facts:
  assumes "admit e now tool d tok s = Inr (c, r)"
  shows "tfind cap_token (token_digest e tok) (capabilities s) = Some c \<and> in_scope s now tool d c
    \<and> (\<exists>w. tfind wf_pk (cap_workflow c) (workflows (base s)) = Some w \<and> at_revision e s c w = Inr r)
    \<and> (cap_correlation c = None \<or> cap_correlation c = Some (arg d ''correlation_id''))"
  using assms unfolding admit_def by (cases "cap_correlation c") (auto simp: try_bind_eq_Inr of_option_eq_Inr)

lemma bound_member:
  assumes "c \<in> set (capabilities s)" and "cap_correlation c = None \<or> cap_correlation c = Some q"
  shows "c\<lparr>cap_correlation := Some q\<rparr> \<in> set (capabilities (bind_correlation c q s))"
proof (cases "cap_correlation c")
  case None
  have "cap_pk (c\<lparr>cap_correlation := Some q\<rparr>) \<in> cap_pk ` set (capabilities s)" using assms(1) by auto
  from in_tput_self [OF this] show ?thesis by (simp add: bind_correlation_def None)
next
  case Some
  then have "c\<lparr>cap_correlation := Some q\<rparr> = c" using assms(2) by (cases c) auto
  with assms(1) Some show ?thesis by (simp add: bind_correlation_def)
qed

lemma dispatch_facts:
  assumes "broker_inv e s" and "tool = ''propose_campaign_drafts'' \<Longrightarrow> validate (dget d ''proposal'') PROPOSAL"
    and "dispatch e now fr tool d tok encoded s = Inr (v, s')"
  shows "keeps e s s' \<and> (\<exists>c r. admit e now tool d tok s = Inr (c, r)
    \<and> c\<lparr>cap_correlation := Some (arg d ''correlation_id'')\<rparr> \<in> set (capabilities (bind_correlation c (arg d ''correlation_id'') s))
    \<and> keeps e (bind_correlation c (arg d ''correlation_id'') s) s' \<and> answered_by e tool d c encoded v s')"
proof -
  let ?q = "arg d ''correlation_id''"
  obtain c r where a: "admit e now tool d tok s = Inr (c, r)"
    and i: "invoke e fr tool d (c\<lparr>cap_correlation := Some ?q\<rparr>) r encoded (bind_correlation c ?q s) = Inr (v, s')"
    using assms(3) by (auto simp: dispatch_def try_bind_eq_Inr Let_def)
  note f = admit_facts [OF a]
  then have c: "c \<in> set (capabilities s)" and t: "tool \<in> set (cap_tools c)" by (auto simp: in_scope_def dest: tfind_in)
  have k: "keeps e s (bind_correlation c ?q s)" by (rule keeps_bind [OF assms(1) c])
  have m: "c\<lparr>cap_correlation := Some ?q\<rparr> \<in> set (capabilities (bind_correlation c ?q s))"
    using f by (intro bound_member [OF c]) auto
  have "keeps e (bind_correlation c ?q s) s' \<and> answered_by e tool d (c\<lparr>cap_correlation := Some ?q\<rparr>) encoded v s'"
    by (rule invoke_facts [OF _ m _ _ assms(2) i]) (use k t in \<open>simp_all add: keeps_def\<close>)
  with a m k show ?thesis by (auto intro: keeps_trans simp: answered_by_def)
qed

lemma accepted_proposal:
  assumes "validate_tool_arguments e tool arguments = Inr encoded"
  shows "\<exists>name d. tool = JStr name \<and> name \<in> set TOOLS \<and> arguments = JObj d
    \<and> (name = ''propose_campaign_drafts'' \<longrightarrow> validate (dget d ''proposal'') PROPOSAL)"
proof -
  obtain name sch where n: "tool = JStr name" "map_of TOOL_SCHEMAS name = Some sch" "validate arguments sch"
    using assms by (cases tool) (auto simp: validate_tool_arguments_def try_bind_eq_Inr split: option.splits if_splits)
  then obtain extra where x: "(name, extra) \<in> set EXTRAS" "sch = S_obj (COMMON @ extra)"
    by (auto simp: TOOL_SCHEMAS_def dest!: map_of_SomeD)
  with n obtain d where d: "arguments = JObj d" "validate_props d (COMMON @ extra)" by (auto split: json.splits)
  have "name \<in> set TOOLS" using imageI [OF x(1), of fst] by (simp add: EXTRAS_def TOOLS_def)
  moreover have "validate (dget d ''proposal'') PROPOSAL" if "name = ''propose_campaign_drafts''"
  proof -
    have "extra = [(''proposal'', PROPOSAL)]" using x(1) that by (simp add: EXTRAS_def)
    with d(2) show ?thesis by (simp add: COMMON_def)
  qed
  ultimately show ?thesis using n d by blast
qed

lemma checked_callE:
  assumes "checked_call e unsign st now fr tool arguments identity tok s = Inr (v, s')"
  obtains name d encoded where "service_ok st identity" and "verify_token unsign tok" and "length tok \<le> 160"
    and "validate_tool_arguments e tool arguments = Inr encoded" and "tool = JStr name" and "arguments = JObj d"
    and "name = ''propose_campaign_drafts'' \<longrightarrow> validate (dget d ''proposal'') PROPOSAL"
    and "dispatch e now fr name d tok encoded s = Inr (v, s')"
proof -
  obtain encoded where c: "service_ok st identity" "verify_token unsign tok" "length tok \<le> 160" "validate_tool_arguments e tool arguments = Inr encoded"
    "dispatch e now fr (text_of tool) (payload_dict arguments) tok encoded s = Inr (v, s')"
    using assms by (auto simp: checked_call_def try_bind_eq_Inr)
  from accepted_proposal [OF c(4)] obtain name d where n: "tool = JStr name" "arguments = JObj d"
    "name = ''propose_campaign_drafts'' \<longrightarrow> validate (dget d ''proposal'') PROPOSAL" by metis
  show thesis by (rule that [OF c(1-4) n(1,2)]) (use c(5) n in \<open>simp_all add: payload_dict_def\<close>)
qed

lemma same_tables_after_error: "same_tables s (after_error tool x s)"
  by (cases x) (simp_all add: after_error_def same_tables_def record_audit_def)

lemma keeps_call:
  assumes "broker_inv e s" and "dispatch_mcp_tool e unsign st now fr tool arguments identity tok s = (v, s')"
  shows "keeps e s s'"
proof (cases "checked_call e unsign st now fr tool arguments identity tok s")
  case (Inl x)
  with assms show ?thesis by (auto simp: dispatch_mcp_tool_def intro: keeps_same same_tables_after_error)
next
  case (Inr p)
  then obtain u where u: "checked_call e unsign st now fr tool arguments identity tok s = Inr (u, s')"
    using assms(2) by (cases p) (auto simp: dispatch_mcp_tool_def)
  then show ?thesis by (rule checked_callE) (use dispatch_facts [OF assms(1)] in blast)
qed

lemma keeps_step: "broker_step e unsign st s s' \<Longrightarrow> broker_inv e s \<Longrightarrow> keeps e s s'"
  by (induction rule: broker_step.induct) (auto intro: keeps_issue keeps_revoke keeps_call keeps_same simp: same_tables_def)

interpretation broker: state_machine broker_init "broker_step e unsign service_token" "broker_inv e"
  for e unsign service_token
proof
  show "broker_inv e s" if "broker_init s" for s
    using that by (simp add: broker_init_def broker_inv_def broker_keys_def)
  show "broker_inv e s'" if "broker_inv e s" "broker_step e unsign service_token s s'" for s s'
    using keeps_step [OF that(2,1)] by (simp add: keeps_def)
qed

lemma run_grows: "(broker_step e unsign st)\<^sup>*\<^sup>* s s' \<Longrightarrow> broker_inv e s \<Longrightarrow> keeps e s s'"
proof (induction rule: rtranclp_induct)
  case base
  then show ?case by (simp add: keeps_same same_tables_def)
next
  case (step y z)
  then show ?case using keeps_step keeps_trans by (metis keeps_def)
qed

text \<open>A capability seen again, by its token, after more steps.\<close>

lemma same_capability:
  assumes "keeps e s s'" and "c \<in> set (capabilities s)"
    and "tfind cap_token (cap_token c) (capabilities s') = Some c'"
  shows "cap_later c c'"
proof -
  obtain x where x: "x \<in> set (capabilities s')" "cap_later c x" using assms(1,2) by (auto simp: keeps_def grows_def caps_kept_def)
  moreover have "c' \<in> set (capabilities s')" "cap_token c' = cap_token c" using assms(3) by (auto dest: tfind_in tfind_key)
  moreover have "keys_ok cap_token (capabilities s')" using assms(1) by (simp add: keeps_def broker_inv_def broker_keys_def)
  ultimately show ?thesis using cap_later_fields(7) keys_ok_inj by metis
qed

end
