(* ===== verification/Budget_Inv.thy ===== *)
theory Budget_Inv
  imports Budget
begin

text \<open>
  The budget invariant: each period's counters are the sums over its reservations, they never exceed
  the month's limit, and the ledger holds exactly the entries of the reservations' lives.  Under it
  no check or uniqueness constraint of the database can fail, so every operation either returns or
  raises one of the three documented budget errors.
\<close>

section \<open>The invariant\<close>

definition paid :: "reservation \<Rightarrow> int" where
  "paid r = (case settled_cost r of None \<Rightarrow> 0 | Some c \<Rightarrow> c)"

definition open_cost :: "nat \<Rightarrow> reservation \<Rightarrow> int" where
  "open_cost k r = (if res_period r = k \<and> res_status r = RESERVED then reserved_cost r else 0)"

definition paid_cost :: "nat \<Rightarrow> reservation \<Rightarrow> int" where
  "paid_cost k r = (if res_period r = k \<and> res_status r = SETTLED then paid r else 0)"

definition period_ok :: "budget_db \<Rightarrow> period \<Rightarrow> bool" where
  "period_ok s p \<longleftrightarrow> reserved p = tsum (open_cost (pd_pk p)) (reservations s)
     \<and> settled p = tsum (paid_cost (pd_pk p)) (reservations s) \<and> reserved p + settled p \<le> limit p"

definition prices_ok :: "model_profile \<Rightarrow> bool" where
  "prices_ok p \<longleftrightarrow> (\<forall>x \<in> set_option (input_price p) \<union> set_option (output_price p). 0 \<le> x)"

definition res_ok :: "budget_db \<Rightarrow> reservation \<Rightarrow> bool" where
  "res_ok s r \<longleftrightarrow> 0 \<le> reserved_cost r \<and> prices_ok (res_profile r) \<and> res_period r \<in> pd_pk ` set (periods s)
     \<and> (res_status r = SETTLED \<longrightarrow> settled_cost r \<noteq> None \<and> 0 \<le> paid r)"

fun life :: "reservation \<Rightarrow> (entry_type \<times> int) set" where
  "life r = insert (E_RESERVED, reserved_cost r)
     (case res_status r of RESERVED \<Rightarrow> {} | SETTLED \<Rightarrow> {(E_SETTLED, paid r)} | RELEASED \<Rightarrow> {(E_RELEASED, reserved_cost r)})"

definition entries :: "budget_db \<Rightarrow> run_id \<Rightarrow> (entry_type \<times> int) set" where
  "entries s run = (\<lambda>l. (entry_type l, lg_cost l)) ` {l \<in> set (ledger s). lg_run l = run}"

definition ledger_ok :: "budget_db \<Rightarrow> bool" where
  "ledger_ok s \<longleftrightarrow> distinct (map (\<lambda>l. (lg_run l, entry_type l)) (ledger s))
     \<and> (\<forall>run. entries s run = (case tfind res_run run (reservations s) of None \<Rightarrow> {} | Some r \<Rightarrow> life r))"

definition budget_inv :: "budget_db \<Rightarrow> bool" where
  "budget_inv s \<longleftrightarrow> keys_ok pd_pk (periods s) \<and> keys_ok month (periods s)
     \<and> (\<forall>p \<in> set (periods s). pd_pk p < next_period s)
     \<and> keys_ok res_pk (reservations s) \<and> keys_ok res_run (reservations s)
     \<and> (\<forall>p \<in> set (periods s). period_ok s p) \<and> (\<forall>r \<in> set (reservations s). res_ok s r) \<and> ledger_ok s
     \<and> (\<forall>p \<in> set (profiles s). prices_ok p) \<and> (\<forall>q \<in> set (policies s). 0 < monthly_limit q)"

text \<open>The state with a pending period object written back.\<close>

definition with_period :: "period \<Rightarrow> budget_db \<Rightarrow> budget_db" where
  "with_period p s = s\<lparr>periods := tput pd_pk p (periods s)\<rparr>"

lemma with_period_simps [simp]:
  "reservations (with_period p s) = reservations s" "ledger (with_period p s) = ledger s"
  "next_period (with_period p s) = next_period s" "profiles (with_period p s) = profiles s"
  "policies (with_period p s) = policies s"
  "periods (with_period p s) = tput pd_pk p (periods s)"
  by (simp_all add: with_period_def)

lemma entries_snoc:
  "entries (s\<lparr>ledger := ledger s @ [l]\<rparr>) run =
     (if lg_run l = run then insert (entry_type l, lg_cost l) (entries s run) else entries s run)"
  by (auto simp: entries_def)

lemma entries_cong: "ledger s' = ledger s \<Longrightarrow> entries s' run = entries s run"
  by (simp add: entries_def)

lemma open_cost_nonneg: "budget_inv s \<Longrightarrow> r \<in> set (reservations s) \<Longrightarrow> 0 \<le> open_cost k r"
  by (auto simp: budget_inv_def res_ok_def open_cost_def)

lemma paid_cost_nonneg: "budget_inv s \<Longrightarrow> r \<in> set (reservations s) \<Longrightarrow> 0 \<le> paid_cost k r"
  by (auto simp: budget_inv_def res_ok_def paid_cost_def)

lemma counters_nonneg:
  assumes "budget_inv s" and "p \<in> set (periods s)"
  shows "0 \<le> reserved p" and "0 \<le> settled p"
  using assms open_cost_nonneg paid_cost_nonneg
  by (auto simp: budget_inv_def period_ok_def intro!: tsum_nonneg)

section \<open>Closing one reservation\<close>

definition closes :: "reservation \<Rightarrow> reservation \<Rightarrow> entry_type \<Rightarrow> int \<Rightarrow> bool" where
  "closes r r' t c \<longleftrightarrow> res_profile r' = res_profile r \<and> res_pk r' = res_pk r \<and> res_run r' = res_run r \<and> res_period r' = res_period r
     \<and> reserved_cost r' = reserved_cost r
     \<and> (res_status r' = SETTLED \<and> t = E_SETTLED \<and> settled_cost r' = Some c \<and> 0 \<le> c
        \<or> res_status r' = RELEASED \<and> t = E_RELEASED \<and> c = reserved_cost r)"

definition closed_period :: "period \<Rightarrow> reservation \<Rightarrow> reservation \<Rightarrow> period" where
  "closed_period p r r' = p\<lparr>reserved := reserved p - reserved_cost r,
     settled := settled p + (if res_status r' = SETTLED then paid r' else 0)\<rparr>"

lemma closing_sums:
  assumes "keys_ok res_pk (reservations s)" and "r \<in> set (reservations s)" and "res_status r = RESERVED"
    and "closes r r' t c"
  shows "tsum (open_cost k) (tput res_pk r' (reservations s)) =
      tsum (open_cost k) (reservations s) - (if res_period r = k then reserved_cost r else 0)"
    and "tsum (paid_cost k) (tput res_pk r' (reservations s)) =
      tsum (paid_cost k) (reservations s) + (if res_period r = k \<and> res_status r' = SETTLED then paid r' else 0)"
proof -
  have f: "tfind res_pk (res_pk r') (reservations s) = Some r"
    using assms tfind_unique [of res_pk "reservations s" r] by (simp add: closes_def)
  show "tsum (open_cost k) (tput res_pk r' (reservations s)) =
      tsum (open_cost k) (reservations s) - (if res_period r = k then reserved_cost r else 0)"
    using tsum_tput [OF assms(1) f, of "open_cost k"] assms(3,4) by (auto simp: open_cost_def closes_def)
  show "tsum (paid_cost k) (tput res_pk r' (reservations s)) =
      tsum (paid_cost k) (reservations s) + (if res_period r = k \<and> res_status r' = SETTLED then paid r' else 0)"
    using tsum_tput [OF assms(1) f, of "paid_cost k"] assms(3,4) by (auto simp: paid_cost_def closes_def)
qed

lemma closing_ledger:
  assumes inv: "ledger_ok s" and keys: "keys_ok res_pk (reservations s)" "keys_ok res_run (reservations s)"
    and r: "r \<in> set (reservations s)" "res_status r = RESERVED"
    and cl: "closes r r' t c"
    and e: "lg_run e = res_run r" "entry_type e = t" "lg_cost e = c"
    and s': "reservations s' = tput res_pk r' (reservations s)" "ledger s' = ledger s @ [e]"
  shows "ledger_ok s'" and "\<not> list_ex (\<lambda>k. lg_run k = lg_run e \<and> entry_type k = entry_type e) (ledger s)"
proof -
  have "tfind res_run (res_run r) (reservations s) = Some r" using tfind_unique [OF keys(2) r(1)] .
  then have life: "entries s (res_run r) = {(E_RESERVED, reserved_cost r)}"
    using inv r(2) by (simp add: ledger_ok_def)
  have no: "entry_type k \<noteq> t" if "k \<in> set (ledger s)" "lg_run k = res_run r" for k
  proof -
    have "(entry_type k, lg_cost k) \<in> entries s (res_run r)" using that by (auto simp: entries_def)
    with life cl show ?thesis by (auto simp: closes_def)
  qed
  then show "\<not> list_ex (\<lambda>k. lg_run k = lg_run e \<and> entry_type k = entry_type e) (ledger s)"
    using e by (auto simp: list_ex_iff)
  have "distinct (map (\<lambda>l. (lg_run l, entry_type l)) (ledger s @ [e]))"
    using inv no e by (force simp: ledger_ok_def)
  moreover have "entries s' run = (case tfind res_run run (reservations s') of None \<Rightarrow> {} | Some q \<Rightarrow> life q)" for run
  proof -
    have "entries s' run = entries (s\<lparr>ledger := ledger s @ [e]\<rparr>) run" by (rule entries_cong) (simp add: s')
    moreover have "tfind res_run run (reservations s') = (if run = res_run r then Some r' else tfind res_run run (reservations s))"
      using tfind_tput_second [of res_pk "reservations s" res_run r r' run] keys r cl by (simp add: s' closes_def)
    ultimately show ?thesis
      using inv life cl e by (auto simp: entries_snoc ledger_ok_def closes_def paid_def)
  qed
  ultimately show "ledger_ok s'" by (simp add: ledger_ok_def s')
qed

lemma close_step:
  assumes inv: "budget_inv (with_period p s)" and p: "pd_pk p \<in> pd_pk ` set (periods s)"
    and r: "r \<in> set (reservations s)" "res_status r = RESERVED" "res_period r = pd_pk p"
    and cl: "closes r r' t c"
    and lim: "reserved p - reserved_cost r + settled p + (if res_status r' = SETTLED then paid r' else 0) \<le> limit p"
    and e: "lg_run e = res_run r" "entry_type e = t" "lg_cost e = c"
  shows "\<exists>s1. create_ledger e (save_reservation r' s) = Inr s1 \<and> periods s1 = periods s
     \<and> reservations s1 = tput res_pk r' (reservations s) \<and> budget_inv (with_period (closed_period p r r') s1)"
proof -
  let ?s1 = "s\<lparr>reservations := tput res_pk r' (reservations s), ledger := ledger s @ [e]\<rparr>"
  let ?p' = "closed_period p r r'" and ?S = "with_period p s"
  let ?S' = "with_period ?p' ?s1"
  have pk: "pd_pk ?p' = pd_pk p" "month ?p' = month p" "limit ?p' = limit p" by (simp_all add: closed_period_def)
  have keys: "keys_ok pd_pk (periods s)" "keys_ok res_pk (reservations s)" "keys_ok res_run (reservations s)"
    using inv by (auto simp: budget_inv_def)
  have pin: "p \<in> set (periods ?S)" using p by (auto intro: in_tput_self)
  have rin: "0 \<le> reserved_cost r" using inv r by (auto simp: budget_inv_def res_ok_def)
  then have c0: "0 \<le> c" using cl by (auto simp: closes_def)
  have "ledger_ok ?S" using inv by (simp add: budget_inv_def)
  note led = closing_ledger [OF this _ _ _ r(2) cl e, of ?S', simplified, OF keys(2,3) r(1)]
  have eq: "create_ledger e (save_reservation r' s) = Inr ?s1"
    using led(2) c0 e by (simp add: create_ledger_def save_reservation_def list_ex_iff)
  have ps: "periods ?S' = tput pd_pk ?p' (periods s)" by simp
  have "period_ok ?S' q" if q: "q \<in> set (periods ?S')" for q
  proof (cases "q = ?p'")
    case True
    have "period_ok ?S p" using inv pin by (simp add: budget_inv_def)
    then show ?thesis
      using closing_sums [OF keys(2) r(1,2) cl, of "pd_pk p"] lim r(3)
      by (simp add: period_ok_def True pk) (auto simp: closed_period_def split: if_splits)
  next
    case False
    then have q': "q \<in> set (periods s)" "pd_pk q \<noteq> pd_pk p" using in_tput [OF q [unfolded ps]] pk by auto
    then have "q \<in> set (periods ?S)" by (simp add: in_tput_other)
    then have "period_ok ?S q" using inv by (simp add: budget_inv_def)
    then show ?thesis using closing_sums [OF keys(2) r(1,2) cl, of "pd_pk q"] r(3) q' by (simp add: period_ok_def)
  qed
  moreover have "res_ok ?S' q" if "q \<in> set (reservations ?S')" for q
    using in_tput [of q res_pk r' "reservations s"] that inv r cl rin p
    by (auto simp: budget_inv_def res_ok_def closes_def paid_def image_pk_tput)
  moreover have "keys_ok res_run (tput res_pk r' (reservations s))"
    using keys_ok_tput_second [of res_pk "reservations s" r r' res_run] keys r cl by (simp add: closes_def)
  moreover have "keys_ok month (periods ?S')"
  proof -
    have "map month (tput pd_pk ?p' (periods s)) = map month (tput pd_pk p (periods s))"
      by (simp add: tput_def pk)
    then show ?thesis using inv by (simp add: budget_inv_def keys_ok_def)
  qed
  moreover have "pd_pk q < next_period s" if "q \<in> set (periods ?S')" for q
  proof -
    have "pd_pk q \<in> pd_pk ` set (periods ?S)" using that by (metis image_eqI image_pk_tput ps with_period_simps(6))
    then show ?thesis using inv by (auto simp: budget_inv_def)
  qed
  moreover have "\<forall>q \<in> set (profiles s). prices_ok q" "\<forall>q \<in> set (policies s). 0 < monthly_limit q"
    using inv by (simp_all add: budget_inv_def)
  ultimately have "budget_inv ?S'" using keys led(1) by (simp add: budget_inv_def)
  with eq show ?thesis by (intro exI [of _ ?s1]) simp
qed


lemma with_period_id:
  "budget_inv s \<Longrightarrow> tfind pd_pk k (periods s) = Some p \<Longrightarrow> with_period p s = s"
  by (simp add: with_period_def budget_inv_def tput_id tfind_in)

lemma period_of:
  assumes "budget_inv s" and "r \<in> set (reservations s)"
  obtains p where "tfind pd_pk (res_period r) (periods s) = Some p" and "p \<in> set (periods s)"
    and "pd_pk p = res_period r" and "period_ok s p"
proof (cases "tfind pd_pk (res_period r) (periods s)")
  case None
  with assms show ?thesis by (auto simp: budget_inv_def res_ok_def tfind_None)
next
  case (Some p)
  with assms that show ?thesis by (auto simp: budget_inv_def dest: tfind_in tfind_key)
qed

text \<open>An open reservation is part of its period's counter.\<close>

lemma open_reservation_le:
  assumes "budget_inv s" and "r \<in> set (reservations s)" and "res_status r = RESERVED"
    and "period_ok s p" and "pd_pk p = res_period r"
  shows "reserved_cost r \<le> reserved p"
  using tsum_member_le [of "reservations s" "open_cost (pd_pk p)" r] assms open_cost_nonneg
  by (auto simp: period_ok_def open_cost_def)

text \<open>Writing the period first or last gives the same state.\<close>

lemma save_period_commutes:
  assumes "create_ledger e (save_reservation r' s) = Inr s1"
  shows "create_ledger e (save_reservation r' (with_period p s)) = Inr (with_period p s1)"
  using assms by (auto simp: create_ledger_def save_reservation_def with_period_def split: if_splits)

lemma close_commit:
  assumes inv: "budget_inv s" and r: "r \<in> set (reservations s)" "res_status r = RESERVED"
    and p: "tfind pd_pk (res_period r) (periods s) = Some p"
    and cl: "closes r r' t c"
    and lim: "reserved p - reserved_cost r + settled p + (if res_status r' = SETTLED then paid r' else 0) \<le> limit p"
    and e: "lg_run e = res_run r" "entry_type e = t" "lg_cost e = c"
  shows "\<exists>s1. try_bind (save_period (closed_period p r r') s) (\<lambda>s1. create_ledger e (save_reservation r' s1)) = Inr s1
     \<and> budget_inv s1 \<and> tfind res_run (res_run r) (reservations s1) = Some r'"
proof -
  have pin: "p \<in> set (periods s)" "pd_pk p = res_period r" using p by (auto dest: tfind_in tfind_key)
  have inv': "budget_inv (with_period p s)" and img: "pd_pk p \<in> pd_pk ` set (periods s)"
    using with_period_id [OF inv p] inv pin(1) by simp_all
  obtain s1 where s1: "create_ledger e (save_reservation r' s) = Inr s1" "periods s1 = periods s"
      "reservations s1 = tput res_pk r' (reservations s)"
      "budget_inv (with_period (closed_period p r r') s1)"
    using close_step [OF inv' img r pin(2) [symmetric] cl lim e] by blast
  have ok: "period_ok s p" using inv pin by (simp add: budget_inv_def)
  have "0 \<le> reserved (closed_period p r r')" "0 \<le> settled (closed_period p r r')"
    using open_reservation_le [OF inv r ok pin(2)] counters_nonneg(2) [OF inv pin(1)] cl
    by (auto simp: closed_period_def closes_def paid_def)
  then have "save_period (closed_period p r r') s = Inr (with_period (closed_period p r r') s)"
    by (simp add: save_period_def with_period_def)
  moreover have "tfind res_run (res_run r) (tput res_pk r' (reservations s)) = Some r'"
    using tfind_tput_second [of res_pk "reservations s" res_run r r' "res_run r"] inv r cl
    by (simp add: closes_def budget_inv_def)
  ultimately show ?thesis using save_period_commutes [OF s1(1)] s1(3,4) by simp
qed

lemma settle_commit_ok:
  assumes inv: "budget_inv s" and r: "r \<in> set (reservations s)" "res_status r = RESERVED"
    and p: "tfind pd_pk (res_period r) (periods s) = Some p" and c: "0 \<le> c"
    and lim: "settled p + reserved p + (c - reserved_cost r) \<le> limit p"
  shows "\<exists>s'. settle_commit r p i out c s = Inr (r\<lparr>res_status := SETTLED, settled_input := Some i,
      settled_output := Some out, settled_cost := Some c\<rparr>, s') \<and> budget_inv s'
      \<and> tfind res_run (res_run r) (reservations s') = Some (r\<lparr>res_status := SETTLED, settled_input := Some i,
      settled_output := Some out, settled_cost := Some c\<rparr>)"
proof -
  let ?r' = "r\<lparr>res_status := SETTLED, settled_input := Some i, settled_output := Some out, settled_cost := Some c\<rparr>"
  have cl: "closes r ?r' E_SETTLED c" using c by (simp add: closes_def)
  have per: "closed_period p r ?r' = p\<lparr>reserved := reserved p - reserved_cost r, settled := settled p + c\<rparr>"
    by (simp add: closed_period_def paid_def)
  show ?thesis
    using close_commit [OF inv r p cl _, of "entry ?r' E_SETTLED i out c"] lim
    by (auto simp: settle_commit_def Let_def per entry_def paid_def try_bind_eq_Inr)
qed

lemma release_commit_ok:
  assumes inv: "budget_inv s" and r: "r \<in> set (reservations s)" "res_status r = RESERVED"
    and p: "tfind pd_pk (res_period r) (periods s) = Some p"
  shows "\<exists>s'. release_commit r p s = Inr (r\<lparr>res_status := RELEASED\<rparr>, s') \<and> budget_inv s'
     \<and> tfind res_run (res_run r) (reservations s') = Some (r\<lparr>res_status := RELEASED\<rparr>)"
proof -
  let ?r' = "r\<lparr>res_status := RELEASED\<rparr>"
  have cl: "closes r ?r' E_RELEASED (reserved_cost r)" by (simp add: closes_def)
  have per: "closed_period p r ?r' = p\<lparr>reserved := reserved p - reserved_cost r\<rparr>"
    by (simp add: closed_period_def)
  have "period_ok s p" "0 \<le> reserved_cost r"
    using inv p r by (auto simp: budget_inv_def res_ok_def dest: tfind_in)
  then show ?thesis
    using close_commit [OF inv r p cl _, of "entry ?r' E_RELEASED 0 0 (reserved_cost r)"]
    by (auto simp: release_commit_def Let_def per entry_def period_ok_def try_bind_eq_Inr)
qed

lemma cost_of_nonneg:
  assumes "cost_of p i out = Inr c" and "prices_ok p"
  shows "0 \<le> c"
  using assms by (auto simp: cost_of_def prices_ok_def split: option.splits if_splits intro!: pos_imp_zdiv_nonneg_iff [THEN iffD2])


section \<open>Expiry\<close>

text \<open>Each iteration releases one reservation of the pending period; the others stay as they are.\<close>

lemma expire_each_ok:
  assumes "budget_inv (with_period p s)" and "pd_pk p \<in> pd_pk ` set (periods s)"
    and "distinct (map res_pk rs)" and "reserved p + settled p \<le> limit p"
    and "\<And>r. r \<in> set rs \<Longrightarrow> r \<in> set (reservations s) \<and> res_status r = RESERVED \<and> res_period r = pd_pk p"
  shows "\<exists>p' s'. expire_each rs p s = Inr (p', s') \<and> budget_inv (with_period p' s') \<and> pd_pk p' = pd_pk p
     \<and> periods s' = periods s \<and> limit p' = limit p \<and> reserved p' + settled p' \<le> reserved p + settled p
     \<and> map res_pk (reservations s') = map res_pk (reservations s)
     \<and> map res_run (reservations s') = map res_run (reservations s)
     \<and> (\<forall>q \<in> set (reservations s). res_pk q \<notin> res_pk ` set rs \<longrightarrow> q \<in> set (reservations s'))"
  using assms
proof (induction rs arbitrary: p s)
  case (Cons r rs)
  let ?r' = "r\<lparr>res_status := RELEASED\<rparr>"
  let ?p1 = "p\<lparr>reserved := reserved p - reserved_cost r\<rparr>"
  have r: "r \<in> set (reservations s)" "res_status r = RESERVED" "res_period r = pd_pk p" using Cons.prems(5) by auto
  have cost: "0 \<le> reserved_cost r" using Cons.prems(1) r(1) by (auto simp: budget_inv_def res_ok_def)
  have per: "closed_period p r ?r' = ?p1" by (simp add: closed_period_def)
  have cl: "closes r ?r' E_RELEASED (reserved_cost r)" by (simp add: closes_def)
  obtain s1 where s1: "create_ledger (entry r E_RELEASED 0 0 (reserved_cost r)) (save_reservation ?r' s) = Inr s1"
      "periods s1 = periods s" "reservations s1 = tput res_pk ?r' (reservations s)" "budget_inv (with_period ?p1 s1)"
    using close_step [OF Cons.prems(1,2) r cl, of "entry r E_RELEASED 0 0 (reserved_cost r)"] cost Cons.prems(4)
    unfolding per by (auto simp: entry_def)
  have other: "q \<in> set (reservations s1)" if "q \<in> set (reservations s)" "res_pk q \<noteq> res_pk r" for q
    using that by (auto simp: s1(3) intro: in_tput_other)
  have rest: "q \<in> set (reservations s1) \<and> res_status q = RESERVED \<and> res_period q = pd_pk ?p1" if "q \<in> set rs" for q
  proof -
    have "res_pk q \<noteq> res_pk r" using Cons.prems(3) that by (metis distinct.simps(2) image_eqI list.set_map list.simps(9))
    then show ?thesis using other Cons.prems(5) that by auto
  qed
  obtain p' s' where ih: "expire_each rs ?p1 s1 = Inr (p', s')" "budget_inv (with_period p' s')" "pd_pk p' = pd_pk p"
     "periods s' = periods s1" "limit p' = limit p" "reserved p' + settled p' \<le> reserved ?p1 + settled p"
     "map res_pk (reservations s') = map res_pk (reservations s1)"
     "map res_run (reservations s') = map res_run (reservations s1)"
     "\<forall>q \<in> set (reservations s1). res_pk q \<notin> res_pk ` set rs \<longrightarrow> q \<in> set (reservations s')"
    using Cons.IH [of ?p1 s1] s1 Cons.prems(2-4) rest cost by auto
  have "map res_pk (reservations s1) = map res_pk (reservations s)"
    using map_key_tput [of res_pk ?r' "reservations s"] s1(3) by simp
  moreover have "map res_run (reservations s1) = map res_run (reservations s)"
    unfolding s1(3) using Cons.prems(1) r(1) by (intro map_tput_second [where old = r]) (auto simp: budget_inv_def)
  ultimately show ?case using ih s1(1,2) cost other by auto
qed simp

lemma expire_period_ok:
  assumes inv: "budget_inv s" and p: "tfind pd_pk k (periods s) = Some p"
  shows "\<exists>n s'. expire_period_reservations active p now s = Inr (n, s') \<and> budget_inv s'
     \<and> map pd_pk (periods s') = map pd_pk (periods s)
     \<and> (\<forall>q \<in> set (periods s). pd_pk q \<noteq> k \<longrightarrow> q \<in> set (periods s'))
     \<and> map res_pk (reservations s') = map res_pk (reservations s)
     \<and> map res_run (reservations s') = map res_run (reservations s)
     \<and> (\<forall>q \<in> set (reservations s). \<not> expirable active now k q \<longrightarrow> q \<in> set (reservations s'))"
proof -
  let ?rs = "filter (expirable active now (pd_pk p)) (reservations s)"
  have pin: "p \<in> set (periods s)" "pd_pk p = k" using p by (auto dest: tfind_in tfind_key)
  have dist: "distinct (map res_pk ?rs)" using inv by (simp add: budget_inv_def keys_ok_def distinct_map_filter)
  have "period_ok s p" using inv pin(1) by (simp add: budget_inv_def)
  then have lim: "reserved p + settled p \<le> limit p" by (auto simp: period_ok_def)
  have pend: "budget_inv (with_period p s)" and img: "pd_pk p \<in> pd_pk ` set (periods s)"
    using with_period_id [OF inv p] inv pin(1) by simp_all
  have rs: "r \<in> set (reservations s) \<and> res_status r = RESERVED \<and> res_period r = pd_pk p" if "r \<in> set ?rs" for r
    using that by (auto simp: expirable_def)
  obtain p' s' where e: "expire_each ?rs p s = Inr (p', s')" "budget_inv (with_period p' s')"
      "pd_pk p' = pd_pk p" "periods s' = periods s" "map res_pk (reservations s') = map res_pk (reservations s)"
      "map res_run (reservations s') = map res_run (reservations s)"
      "\<forall>q \<in> set (reservations s). res_pk q \<notin> res_pk ` set ?rs \<longrightarrow> q \<in> set (reservations s')"
    using expire_each_ok [OF pend img dist lim rs] by blast
  have kept: "\<forall>q \<in> set (reservations s). \<not> expirable active now k q \<longrightarrow> q \<in> set (reservations s')"
    using e(7) inv pin(2) keys_ok_inj [of res_pk "reservations s"] by (fastforce simp: budget_inv_def)
  show ?thesis
  proof (cases "?rs = []")
    case True
    with e(1) have "s' = s" by simp
    with True e inv kept show ?thesis by (simp add: expire_period_reservations_def)
  next
    case False
    have "p' \<in> set (periods (with_period p' s'))"
      using img e(3,4) by (auto intro!: in_tput_self)
    then have "save_period p' s' = Inr (with_period p' s')"
      using counters_nonneg [OF e(2)] by (fastforce simp: save_period_def with_period_def)
    moreover have "map pd_pk (periods (with_period p' s')) = map pd_pk (periods s)"
      using map_key_tput [of pd_pk p' "periods s"] e(4) by simp
    moreover have "\<forall>q \<in> set (periods s). pd_pk q \<noteq> k \<longrightarrow> q \<in> set (periods (with_period p' s'))"
      using e(3,4) pin(2) by (auto intro: in_tput_other)
    ultimately show ?thesis using False e kept
      by (intro exI [of _ "length ?rs"] exI [of _ "with_period p' s'"]) (simp add: expire_period_reservations_def)
  qed
qed

lemma expire_periods_ok:
  assumes "budget_inv s" and "distinct (map pd_pk ps)" and "set ps \<subseteq> set (periods s)"
  shows "\<exists>n s'. expire_periods active now ps s = Inr (n, s') \<and> budget_inv s'
     \<and> (\<forall>q \<in> set (reservations s). (\<forall>k. \<not> expirable active now k q) \<longrightarrow> q \<in> set (reservations s'))"
  using assms
proof (induction ps arbitrary: s)
  case (Cons p ps)
  have p: "tfind pd_pk (pd_pk p) (periods s) = Some p"
    using Cons.prems by (intro tfind_unique) (auto simp: budget_inv_def)
  obtain n s1 where s1: "expire_period_reservations active p now s = Inr (n, s1)" "budget_inv s1"
      "\<forall>q \<in> set (periods s). pd_pk q \<noteq> pd_pk p \<longrightarrow> q \<in> set (periods s1)"
      "\<forall>q \<in> set (reservations s). \<not> expirable active now (pd_pk p) q \<longrightarrow> q \<in> set (reservations s1)"
    using expire_period_ok [OF Cons.prems(1) p] by blast
  have "pd_pk q \<noteq> pd_pk p" if "q \<in> set ps" for q
    using Cons.prems(2) that by (auto simp: rev_image_eqI)
  then have "set ps \<subseteq> set (periods s1)" using Cons.prems(3) s1(3) by auto
  then obtain m s2 where "expire_periods active now ps s1 = Inr (m, s2)" "budget_inv s2"
     "\<forall>q \<in> set (reservations s1). (\<forall>k. \<not> expirable active now k q) \<longrightarrow> q \<in> set (reservations s2)"
    using Cons.IH [OF s1(2)] Cons.prems(2) by auto
  then show ?case using s1 by auto
qed simp

lemma expire_reservations_ok:
  assumes "budget_inv s"
  shows "\<exists>n s'. expire_reservations active now s = Inr (n, s') \<and> budget_inv s'
     \<and> (\<forall>q \<in> set (reservations s). (\<forall>k. \<not> expirable active now k q) \<longrightarrow> q \<in> set (reservations s'))"
  unfolding expire_reservations_def Let_def
  using assms by (intro expire_periods_ok) (auto simp: budget_inv_def keys_ok_def distinct_map_filter)


section \<open>Reserve\<close>

lemma tsum_fresh_period:
  assumes "budget_inv s" and "next_period s \<le> k"
  shows "tsum (open_cost k) (reservations s) = 0" and "tsum (paid_cost k) (reservations s) = 0"
proof -
  have "res_period r \<noteq> k" if "r \<in> set (reservations s)" for r
    using assms that by (fastforce simp: budget_inv_def res_ok_def)
  then have "open_cost k r = 0" "paid_cost k r = 0" if "r \<in> set (reservations s)" for r
    using that by (auto simp: open_cost_def paid_cost_def)
  then have "tsum (open_cost k) (reservations s) = tsum (\<lambda>_. 0) (reservations s)"
    "tsum (paid_cost k) (reservations s) = tsum (\<lambda>_. 0) (reservations s)" by (auto intro!: tsum_cong)
  moreover have "tsum (\<lambda>_. 0) rs = 0" for rs :: "reservation list" by (induction rs) auto
  ultimately show "tsum (open_cost k) (reservations s) = 0" "tsum (paid_cost k) (reservations s) = 0" by auto
qed

lemma new_period_inv:
  assumes inv: "budget_inv s" and new: "tfind month m (periods s) = None" and "0 \<le> l"
    and p: "p = \<lparr>pd_pk = next_period s, month = m, limit = l, reserved = 0, settled = 0\<rparr>"
  shows "budget_inv (s\<lparr>periods := periods s @ [p], next_period := Suc (next_period s)\<rparr>)"
proof -
  let ?s1 = "s\<lparr>periods := periods s @ [p], next_period := Suc (next_period s)\<rparr>"
  have "tfind pd_pk (pd_pk p) (periods s) = None" using inv by (auto simp: budget_inv_def tfind_None p)
  then have "keys_ok pd_pk (periods s @ [p])" "keys_ok month (periods s @ [p])"
    using inv new by (auto simp: budget_inv_def p intro!: keys_ok_append_new)
  moreover have "period_ok ?s1 p" using tsum_fresh_period [OF inv] assms(3) by (simp add: period_ok_def p)
  moreover have "period_ok ?s1 q" if "q \<in> set (periods s)" for q
  proof -
    have "period_ok s q" using inv that by (simp add: budget_inv_def)
    then show ?thesis by (auto simp: period_ok_def)
  qed
  moreover have "res_ok ?s1 r" if "r \<in> set (reservations s)" for r
    using inv that by (auto simp: budget_inv_def res_ok_def)
  moreover have "ledger_ok ?s1" using inv by (simp add: budget_inv_def ledger_ok_def entries_def)
  ultimately show ?thesis using inv by (auto simp: budget_inv_def less_Suc_eq p)
qed

lemma period_for_update_ok:
  assumes inv: "budget_inv s" and "0 < monthly_limit q"
  shows "period_for_update q now s = Inl BudgetRequestConflict \<or>
    (\<exists>p s1. period_for_update q now s = Inr (p, s1) \<and> budget_inv s1 \<and> tfind pd_pk (pd_pk p) (periods s1) = Some p
       \<and> limit p = monthly_limit q \<and> reservations s1 = reservations s)"
proof (cases "tfind month (month_start now) (periods s)")
  case None
  let ?p = "\<lparr>pd_pk = next_period s, month = month_start now, limit = monthly_limit q, reserved = 0, settled = 0\<rparr>"
  have i: "budget_inv (s\<lparr>periods := periods s @ [?p], next_period := Suc (next_period s)\<rparr>)"
    using assms(2) by (intro new_period_inv [OF inv None]) auto
  moreover have "tfind pd_pk (next_period s) (periods s @ [?p]) = Some ?p"
    using tfind_unique [of pd_pk "periods s @ [?p]" ?p] i by (simp add: budget_inv_def)
  ultimately show ?thesis using None by (auto simp: period_for_update_def Let_def)
next
  case (Some p)
  then have "tfind pd_pk (pd_pk p) (periods s) = Some p"
    using inv by (intro tfind_unique) (auto simp: budget_inv_def dest: tfind_in)
  with Some inv show ?thesis by (auto simp: period_for_update_def)
qed

lemma reserve_ledger:
  assumes inv: "ledger_ok s" and new: "tfind res_run (res_run r) (reservations s) = None"
    and st: "res_status r = RESERVED"
    and e: "e = entry r E_RESERVED i out (reserved_cost r)"
    and s': "reservations s' = reservations s @ [r]" "ledger s' = ledger s @ [e]"
  shows "ledger_ok s'" and "\<not> list_ex (\<lambda>k. lg_run k = lg_run e \<and> entry_type k = entry_type e) (ledger s)"
proof -
  have run: "lg_run e = res_run r" "entry_type e = E_RESERVED" "lg_cost e = reserved_cost r" by (simp_all add: e entry_def)
  have "entries s (res_run r) = {}" using inv new by (simp add: ledger_ok_def)
  then have none: "lg_run l \<noteq> res_run r" if "l \<in> set (ledger s)" for l using that by (auto simp: entries_def)
  then show "\<not> list_ex (\<lambda>k. lg_run k = lg_run e \<and> entry_type k = entry_type e) (ledger s)"
    by (auto simp: list_ex_iff run)
  have "distinct (map (\<lambda>l. (lg_run l, entry_type l)) (ledger s @ [e]))"
    using inv none run by (force simp: ledger_ok_def)
  moreover have "entries s' run = (case tfind res_run run (reservations s') of None \<Rightarrow> {} | Some q \<Rightarrow> life q)" for run
  proof -
    have "entries s' run = entries (s\<lparr>ledger := ledger s @ [e]\<rparr>) run" by (rule entries_cong) (simp add: s')
    then show ?thesis
      using inv new st run tfind_snoc_fresh [of res_run r "reservations s" run]
      by (auto simp: entries_snoc ledger_ok_def s')
  qed
  ultimately show "ledger_ok s'" by (simp add: ledger_ok_def s')
qed

lemma reserve_commit_ok:
  assumes inv: "budget_inv s" and p: "tfind pd_pk (pd_pk p) (periods s) = Some p"
    and r: "res_status r = RESERVED" "res_period r = pd_pk p" "0 \<le> reserved_cost r" "0 \<le> estimated_input r"
      "0 \<le> estimated_output r" "prices_ok (res_profile r)"
    and new: "tfind res_pk (res_pk r) (reservations s) = None" "tfind res_run (res_run r) (reservations s) = None"
    and lim: "reserved p + settled p + reserved_cost r \<le> limit p"
  shows "\<exists>s'. reserve_commit r p s = Inr s' \<and> budget_inv s' \<and> tfind res_run (res_run r) (reservations s') = Some r"
proof -
  let ?p' = "p\<lparr>reserved := reserved p + reserved_cost r\<rparr>"
  let ?e = "entry r E_RESERVED (estimated_input r) (estimated_output r) (reserved_cost r)"
  let ?s' = "s\<lparr>reservations := reservations s @ [r], periods := tput pd_pk ?p' (periods s), ledger := ledger s @ [?e]\<rparr>"
  have pin: "p \<in> set (periods s)" using p by (rule tfind_in)
  have led: "ledger_ok s" using inv by (simp add: budget_inv_def)
  note l = reserve_ledger [OF led new(2) r(1) refl, of ?s', simplified]
  have "reserve_commit r p s = Inr ?s'"
    using counters_nonneg [OF inv pin] r new l(2)
    by (simp add: reserve_commit_def create_reservation_def save_period_def create_ledger_def list_ex_iff)
       (simp add: entry_def)
  moreover have "budget_inv ?s'"
  proof -
    have "period_ok ?s' q" if q: "q \<in> set (periods ?s')" for q
    proof (cases "q = ?p'")
      case True
      have "period_ok s p" using inv pin by (simp add: budget_inv_def)
      with True lim r(1,2) show ?thesis by (auto simp: period_ok_def open_cost_def paid_cost_def)
    next
      case False
      then have "q \<in> set (periods s)" "pd_pk q \<noteq> pd_pk p" using in_tput [of q pd_pk ?p' "periods s"] q by auto
      with inv r(1,2) show ?thesis by (auto simp: budget_inv_def period_ok_def open_cost_def paid_cost_def)
    qed
    moreover have "res_ok ?s' q" if "q \<in> set (reservations ?s')" for q
      using that inv r pin by (auto simp: budget_inv_def res_ok_def image_pk_tput)
    moreover have "keys_ok month (tput pd_pk ?p' (periods s))"
      using keys_ok_tput_second [of pd_pk "periods s" p ?p' month] inv pin by (simp add: budget_inv_def)
    moreover have "keys_ok res_pk (reservations s @ [r])" "keys_ok res_run (reservations s @ [r])"
      using inv new by (auto simp: budget_inv_def intro!: keys_ok_append_new)
    moreover have "pd_pk q < next_period s" if "q \<in> set (tput pd_pk ?p' (periods s))" for q
      using in_tput [OF that] inv pin by (auto simp: budget_inv_def)
    ultimately show ?thesis using inv l(1) by (simp add: budget_inv_def)
  qed
  moreover have "tfind res_run (res_run r) (reservations ?s') = Some r"
    using tfind_snoc_fresh [OF new(2)] by simp
  ultimately show ?thesis by blast
qed


section \<open>Every operation returns or raises a documented error\<close>

definition documented :: "budget_error \<Rightarrow> bool" where
  "documented x \<longleftrightarrow> x \<in> {UnknownModelPrice, BudgetExhausted, BudgetRequestConflict}"

lemma tfind_None_map: "map key t = map key u \<Longrightarrow> tfind key k t = None \<longleftrightarrow> tfind key k u = None"
  by (metis image_set tfind_None)

lemma cost_of_error: "cost_of p i out = Inl x \<Longrightarrow> documented x"
  by (auto simp: cost_of_def documented_def split: option.splits if_splits)

lemma cost_of_tokens: "cost_of p i out = Inr c \<Longrightarrow> 0 \<le> i \<and> 0 \<le> out"
  by (auto simp: cost_of_def split: option.splits if_splits)

lemma profile_and_policy_Inr:
  assumes "profile_and_policy pid rv s = Inr (p, q)"
  shows "p \<in> set (profiles s)" and "q \<in> set (policies s)" and "profile_id p = pid" and "mp_revision p = rv"
  using assms
  by (auto simp: profile_and_policy_def find_Some_iff split: option.splits if_splits)

lemma profile_and_policy_error: "profile_and_policy pid rv s = Inl x \<Longrightarrow> documented x"
  by (auto simp: profile_and_policy_def documented_def split: option.splits if_splits)

definition same_request :: "string \<Rightarrow> nat \<Rightarrow> int \<Rightarrow> int \<Rightarrow> reservation \<Rightarrow> bool" where
  "same_request pid rv i out r \<longleftrightarrow>
     (profile_id (res_profile r), mp_revision (res_profile r), estimated_input r, estimated_output r) = (pid, rv, i, out)"

text \<open>The part of \<open>reserve_budget\<close> after the lookups and the price.\<close>

lemma reserve_new_ok:
  assumes inv: "budget_inv s" and q: "0 < monthly_limit q" and p: "prices_ok p" and c: "cost_of p i out = Inr c"
    and new: "tfind res_pk rid (reservations s) = None" "tfind res_run run (reservations s) = None"
  shows "reserve_new active now rid run p q i out c expiry s = Inl BudgetRequestConflict
    \<or> reserve_new active now rid run p q i out c expiry s = Inl BudgetExhausted
    \<or> (\<exists>r s'. reserve_new active now rid run p q i out c expiry s = Inr (r, s') \<and> budget_inv s'
         \<and> tfind res_run run (reservations s') = Some r
         \<and> res_profile r = p \<and> estimated_input r = i \<and> estimated_output r = out)"
proof (cases "period_for_update q now s = Inl BudgetRequestConflict")
  case False
  then obtain pd0 s1 where s1: "period_for_update q now s = Inr (pd0, s1)" "budget_inv s1"
      "tfind pd_pk (pd_pk pd0) (periods s1) = Some pd0" "reservations s1 = reservations s"
    using period_for_update_ok [OF inv q] by blast
  obtain n s2 where s2: "expire_period_reservations active pd0 (instant now) s1 = Inr (n, s2)" "budget_inv s2"
      "map pd_pk (periods s2) = map pd_pk (periods s1)" "map res_pk (reservations s2) = map res_pk (reservations s1)"
      "map res_run (reservations s2) = map res_run (reservations s1)"
    using expire_period_ok [OF s1(2,3)] by blast
  obtain pd where pd: "tfind pd_pk (pd_pk pd0) (periods s2) = Some pd"
    using s1(3) tfind_None_map [OF s2(3)] by (cases "tfind pd_pk (pd_pk pd0) (periods s2)") auto
  then have pd': "pd_pk pd = pd_pk pd0" by (rule tfind_key)
  let ?r = "new_reservation rid run p q (pd_pk pd) i out c
     (case expiry of None \<Rightarrow> instant now + 15 * 60 * 1000000 | Some x \<Rightarrow> x)"
  have body: "reserve_new active now rid run p q i out c expiry s = (if reserved pd + settled pd + c > limit pd then Inl BudgetExhausted
      else try_bind (reserve_commit ?r pd s2) (\<lambda>s3. Inr (?r, s3)))"
    by (simp add: reserve_new_def s1(1) s2(1) get_period_def pd Let_def)
  have "\<exists>s'. reserve_commit ?r pd s2 = Inr s' \<and> budget_inv s' \<and> tfind res_run (res_run ?r) (reservations s') = Some ?r"
    if "\<not> reserved pd + settled pd + c > limit pd"
    using that pd pd' p new s1(4) tfind_None_map [OF s2(4)] tfind_None_map [OF s2(5)]
      cost_of_nonneg [OF c p] cost_of_tokens [OF c]
    by (intro reserve_commit_ok [OF s2(2)]) (auto simp: new_reservation_def)
  then show ?thesis unfolding body by (auto simp: new_reservation_def)
qed (simp add: reserve_new_def)

lemma reserve_budget_ok:
  assumes inv: "budget_inv s" and new: "tfind res_pk rid (reservations s) = None"
  shows "(\<exists>x. documented x \<and> reserve_budget active now rid run pid rv i out expiry s = Inl x) \<or>
    (\<exists>r s'. reserve_budget active now rid run pid rv i out expiry s = Inr (r, s') \<and> budget_inv s'
       \<and> tfind res_run run (reservations s') = Some r \<and> same_request pid rv i out r)"
proof (cases "tfind res_run run (reservations s)")
  case (Some r)
  with inv show ?thesis by (auto simp: reserve_budget_def documented_def same_request_def)
next
  case None
  show ?thesis
  proof (cases "profile_and_policy pid rv s")
    case (Inl x)
    with None show ?thesis using profile_and_policy_error [OF Inl] by (simp add: reserve_budget_def)
  next
    case (Inr pq)
    then obtain p q where pq: "profile_and_policy pid rv s = Inr (p, q)" by (cases pq) auto
    note in_tabs = profile_and_policy_Inr [OF pq]
    have ok: "prices_ok p" "0 < monthly_limit q" using inv in_tabs by (auto simp: budget_inv_def)
    show ?thesis
    proof (cases "cost_of p i out")
      case (Inl x)
      with None pq show ?thesis using cost_of_error [OF Inl] by (auto simp: reserve_budget_def documented_def)
    next
      case (Inr c)
      show ?thesis
        using None pq Inr in_tabs(3,4)
          reserve_new_ok [OF inv ok(2,1) Inr new None, of active now expiry]
        by (auto simp: reserve_budget_def documented_def same_request_def)
    qed
  qed
qed


lemma settle_budget_ok:
  assumes inv: "budget_inv s"
  shows "(\<exists>x. documented x \<and> settle_budget run i out s = Inl x) \<or>
    (\<exists>r s'. settle_budget run i out s = Inr (r, s') \<and> budget_inv s' \<and> tfind res_run run (reservations s') = Some r
       \<and> res_status r = SETTLED \<and> settled_input r = Some i \<and> settled_output r = Some out)"
proof (cases "tfind res_run run (reservations s)")
  case (Some r)
  then have rin: "r \<in> set (reservations s)" "res_run r = run" by (auto dest: tfind_in tfind_key)
  show ?thesis
  proof (cases "res_status r")
    case RESERVED
    have prices: "prices_ok (res_profile r)" using inv rin by (auto simp: budget_inv_def res_ok_def)
    obtain p where p: "tfind pd_pk (res_period r) (periods s) = Some p" using period_of [OF inv rin(1)] by blast
    show ?thesis
    proof (cases "cost_of (res_profile r) i out")
      case (Inl x)
      with Some RESERVED show ?thesis using cost_of_error [OF Inl] by (simp add: settle_budget_def)
    next
      case (Inr c)
      note ok = settle_commit_ok [OF inv rin(1) RESERVED p cost_of_nonneg [OF Inr prices], of i out]
      show ?thesis using Some RESERVED Inr p ok rin(2)
        by (auto simp: settle_budget_def get_period_def documented_def)
    qed
  qed (use Some inv in \<open>auto simp: settle_budget_def documented_def\<close>)
qed (simp add: settle_budget_def documented_def)

lemma release_budget_ok:
  assumes inv: "budget_inv s"
  shows "\<exists>ro s'. release_budget run s = Inr (ro, s') \<and> budget_inv s'
     \<and> tfind res_run run (reservations s') = ro \<and> (\<forall>r. ro = Some r \<longrightarrow> res_status r \<noteq> RESERVED)"
proof (cases "tfind res_run run (reservations s)")
  case (Some r)
  then have rin: "r \<in> set (reservations s)" "res_run r = run" by (auto dest: tfind_in tfind_key)
  obtain p where p: "tfind pd_pk (res_period r) (periods s) = Some p" using period_of [OF inv rin(1)] by blast
  show ?thesis
  proof (cases "res_status r = RESERVED")
    case True
    then show ?thesis using Some p release_commit_ok [OF inv rin(1) True p] rin(2)
      by (auto simp: release_budget_def get_period_def)
  qed (use Some inv in \<open>simp add: release_budget_def\<close>)
qed (use inv in \<open>simp add: release_budget_def\<close>)

lemma charge_reserved_budget_ok:
  assumes inv: "budget_inv s"
  shows "\<exists>ro s'. charge_reserved_budget run s = Inr (ro, s') \<and> budget_inv s'
     \<and> tfind res_run run (reservations s') = ro \<and> (\<forall>r. ro = Some r \<longrightarrow> res_status r \<noteq> RESERVED)"
proof (cases "tfind res_run run (reservations s)")
  case (Some r)
  then have rin: "r \<in> set (reservations s)" "res_run r = run" by (auto dest: tfind_in tfind_key)
  obtain p where p: "tfind pd_pk (res_period r) (periods s) = Some p" "period_ok s p"
    using period_of [OF inv rin(1)] by blast
  have "0 \<le> reserved_cost r" using inv rin by (auto simp: budget_inv_def res_ok_def)
  moreover have "settled p + reserved p + (reserved_cost r - reserved_cost r) \<le> limit p"
    using p(2) by (auto simp: period_ok_def)
  ultimately show ?thesis
  proof (cases "res_status r = RESERVED")
    case True
    then show ?thesis
      using Some p(1) settle_commit_ok [OF inv rin(1) True p(1) \<open>0 \<le> reserved_cost r\<close>
          \<open>settled p + reserved p + (reserved_cost r - reserved_cost r) \<le> limit p\<close>,
          of "estimated_input r" "estimated_output r"] rin(2)
      by (auto simp: charge_reserved_budget_def get_period_def)
  qed (use Some inv in \<open>simp add: charge_reserved_budget_def\<close>)
qed (use inv in \<open>simp add: charge_reserved_budget_def\<close>)

lemma save_profile_inv:
  assumes "budget_inv s" and "save_profile p s = Inr s'"
  shows "budget_inv s'"
proof -
  have same: "s' = s \<or> prices_ok p \<and> s' = s\<lparr>profiles := profiles s @ [p]\<rparr>"
    using assms(2) by (auto simp: save_profile_def prices_ok_def not_less split: option.splits if_splits)
  moreover have "budget_inv (s\<lparr>profiles := profiles s @ [p]\<rparr>)" if "prices_ok p"
    using assms(1) that by (auto simp: budget_inv_def period_ok_def res_ok_def ledger_ok_def entries_def)
  ultimately show ?thesis using assms(1) by auto
qed

lemma save_policy_inv:
  assumes "budget_inv s" and "save_policy q s = Inr s'"
  shows "budget_inv s'"
proof -
  have same: "s' = s \<or> 0 < monthly_limit q \<and> s' = s\<lparr>policies := policies s @ [q]\<rparr>"
    using assms(2) by (auto simp: save_policy_def not_le split: option.splits if_splits)
  moreover have "budget_inv (s\<lparr>policies := policies s @ [q]\<rparr>)" if "0 < monthly_limit q"
    using assms(1) that by (auto simp: budget_inv_def period_ok_def res_ok_def ledger_ok_def entries_def)
  ultimately show ?thesis using assms(1) by auto
qed

section \<open>The step relation\<close>

inductive budget_step :: "budget_db \<Rightarrow> budget_db \<Rightarrow> bool" where
  profile: "save_profile p s = Inr s' \<Longrightarrow> budget_step s s'"
| policy: "save_policy q s = Inr s' \<Longrightarrow> budget_step s s'"
| reserve: "tfind res_pk rid (reservations s) = None \<Longrightarrow>
    reserve_budget active now rid run pid rv i out expiry s = Inr (r, s') \<Longrightarrow> budget_step s s'"
| settle: "settle_budget run i out s = Inr (r, s') \<Longrightarrow> budget_step s s'"
| release: "release_budget run s = Inr (ro, s') \<Longrightarrow> budget_step s s'"
| expire: "expire_reservations active t s = Inr (n, s') \<Longrightarrow> budget_step s s'"
| charge: "charge_reserved_budget run s = Inr (ro, s') \<Longrightarrow> budget_step s s'"

definition budget_init :: "budget_db \<Rightarrow> bool" where
  "budget_init s \<longleftrightarrow> s = \<lparr>profiles = [], policies = [], periods = [], reservations = [], ledger = [], next_period = 1\<rparr>"

lemma budget_step_inv:
  assumes "budget_step s s'" and inv: "budget_inv s"
  shows "budget_inv s'"
  using assms(1)
proof cases
  case (reserve rid active now run pid rv i out expiry r)
  then show ?thesis
    using reserve_budget_ok [OF inv reserve(1), of active now run pid rv i out expiry] by auto
next
  case (settle run i out r)
  then show ?thesis using settle_budget_ok [OF inv, of run i out] by auto
next
  case (release run ro)
  then show ?thesis using release_budget_ok [OF inv, of run] by auto
next
  case (expire active t n)
  then show ?thesis using expire_reservations_ok [OF inv, of active t] by auto
next
  case (charge run ro)
  then show ?thesis using charge_reserved_budget_ok [OF inv, of run] by auto
qed (use inv save_profile_inv save_policy_inv in blast)+

lemma budget_init_inv: "budget_init s \<Longrightarrow> budget_inv s"
  by (simp add: budget_init_def budget_inv_def ledger_ok_def entries_def)

interpretation budget: state_machine budget_init budget_step budget_inv
  by unfold_locales (auto intro: budget_init_inv budget_step_inv)


section \<open>Properties\<close>

text \<open>
  C6: In every state that the budget operations reach, the reservations and settlements of a month
  never exceed the month's limit, and the period's two counters are exactly the sum of the costs of
  its open reservations and the sum of the costs of its settled ones.
\<close>

theorem budget_never_exceeded:
  assumes "budget_init s0" and "budget_step\<^sup>*\<^sup>* s0 s" and "p \<in> set (periods s)"
  shows "reserved p + settled p \<le> limit p
    \<and> reserved p = (\<Sum>r\<leftarrow>filter (\<lambda>r. res_period r = pd_pk p \<and> res_status r = RESERVED) (reservations s). reserved_cost r)
    \<and> settled p = (\<Sum>r\<leftarrow>filter (\<lambda>r. res_period r = pd_pk p \<and> res_status r = SETTLED) (reservations s). paid r)"
proof -
  have ok: "period_ok s p" using budget.reachable_inv [OF assms(1,2)] assms(3) by (simp add: budget_inv_def)
  have "tsum (open_cost k) rs = (\<Sum>r\<leftarrow>filter (\<lambda>r. res_period r = k \<and> res_status r = RESERVED) rs. reserved_cost r)"
    "tsum (paid_cost k) rs = (\<Sum>r\<leftarrow>filter (\<lambda>r. res_period r = k \<and> res_status r = SETTLED) rs. paid r)" for k rs
    by (induction rs) (auto simp: open_cost_def paid_cost_def)
  with ok show ?thesis by (auto simp: period_ok_def)
qed

text \<open>
  The ledger mirrors the reservations: in every reachable state it has at most one entry per run
  and entry type, a run without a reservation has no entry, and the entries of a run with one are
  the reserved amount and, once it is closed, either the settled or the released amount, never both.
\<close>

theorem ledger_mirrors_reservations:
  assumes "budget_init s0" and "budget_step\<^sup>*\<^sup>* s0 s"
  shows "distinct (map (\<lambda>l. (lg_run l, entry_type l)) (ledger s))
    \<and> (\<lambda>l. (entry_type l, lg_cost l)) ` {l \<in> set (ledger s). lg_run l = run} =
       (case tfind res_run run (reservations s) of
          None \<Rightarrow> {}
        | Some r \<Rightarrow> insert (E_RESERVED, reserved_cost r)
            (case res_status r of RESERVED \<Rightarrow> {} | SETTLED \<Rightarrow> {(E_SETTLED, paid r)}
             | RELEASED \<Rightarrow> {(E_RELEASED, reserved_cost r)}))"
  using budget.reachable_inv [OF assms]
  by (simp add: budget_inv_def ledger_ok_def entries_def split: option.splits)

text \<open>
  C28: In a reachable state no constraint of the database can fail: a reservation (with an unused
  id) and a settlement return or raise one of the three budget errors, and releasing, charging and
  expiring always return.
\<close>

theorem budget_operations_safe:
  assumes "budget_init s0" and "budget_step\<^sup>*\<^sup>* s0 s" and "tfind res_pk rid (reservations s) = None"
  shows "reserve_budget active now rid run pid rv i out expiry s \<notin> {Inl BudgetIntegrityError, Inl ImmutableRecord}
    \<and> settle_budget run i out s \<notin> {Inl BudgetIntegrityError, Inl ImmutableRecord}
    \<and> (\<exists>x. release_budget run s = Inr x) \<and> (\<exists>x. charge_reserved_budget run s = Inr x)
    \<and> (\<exists>x. expire_reservations active t s = Inr x)"
proof -
  have inv: "budget_inv s" using budget.reachable_inv [OF assms(1,2)] .
  show ?thesis
    using reserve_budget_ok [OF inv assms(3), of active now run pid rv i out expiry]
      settle_budget_ok [OF inv, of run i out] release_budget_ok [OF inv, of run]
      charge_reserved_budget_ok [OF inv, of run] expire_reservations_ok [OF inv, of active t]
    by (auto simp: documented_def)
qed

text \<open>
  Reserving is idempotent: a repeated request for the same run and the same estimate, at any later
  time and with any other generated id, returns the same reservation and changes nothing.
\<close>

theorem reserve_idempotent:
  assumes "budget_init s0" and "budget_step\<^sup>*\<^sup>* s0 s" and "tfind res_pk rid (reservations s) = None"
    and "reserve_budget active now rid run pid rv i out expiry s = Inr (r, s')"
  shows "reserve_budget active' now' rid' run pid rv i out expiry' s' = Inr (r, s')"
proof -
  have "tfind res_run run (reservations s') = Some r" "same_request pid rv i out r"
    using reserve_budget_ok [OF budget.reachable_inv [OF assms(1,2)] assms(3), of active now run pid rv i out expiry]
      assms(4) by auto
  then show ?thesis by (simp add: reserve_budget_def same_request_def)
qed

text \<open>
  Settling is idempotent, and final: the same usage again returns the settled reservation
  unchanged, any other usage is refused with \<open>BudgetRequestConflict\<close>.
\<close>

theorem settle_idempotent:
  assumes "budget_init s0" and "budget_step\<^sup>*\<^sup>* s0 s" and "settle_budget run i out s = Inr (r, s')"
  shows "settle_budget run i' out' s' =
    (if i' = i \<and> out' = out then Inr (r, s') else Inl BudgetRequestConflict)"
proof -
  have "tfind res_run run (reservations s') = Some r" "res_status r = SETTLED" "settled_input r = Some i"
    "settled_output r = Some out"
    using settle_budget_ok [OF budget.reachable_inv [OF assms(1,2)], of run i out] assms(3) by auto
  then show ?thesis by (auto simp: settle_budget_def)
qed

text \<open>
  Costs are rounded up to a whole micro-dollar: a computed cost covers the exact price and
  exceeds it by less than one micro-dollar.
\<close>

lemma cost_rounds_up:
  assumes "cost_of p i out = Inr c" and "input_price p = Some pin" and "output_price p = Some pout"
  shows "i * pin + out * pout \<le> c * 1000000 \<and> (c - 1) * 1000000 < i * pin + out * pout"
  using assms by (auto simp: cost_of_def split: if_splits)

text \<open>
  Expiry spares active Hermes runs: whatever the time is, the reservation of a run that is in the
  active list is still there, unchanged.
\<close>

theorem active_runs_not_expired:
  assumes "budget_init s0" and "budget_step\<^sup>*\<^sup>* s0 s" and "expire_reservations active t s = Inr (n, s')"
    and "r \<in> set (reservations s)" and "res_run r \<in> set active"
  shows "r \<in> set (reservations s')"
proof -
  have "\<forall>k. \<not> expirable active t k r" using assms(5) by (simp add: expirable_def)
  then show ?thesis
    using expire_reservations_ok [OF budget.reachable_inv [OF assms(1,2)], of active t] assms(3,4) by auto
qed

section \<open>A concrete run\<close>

definition sample_profile :: model_profile where
  "sample_profile = \<lparr>mp_pk = 1, profile_id = ''hermes-default'', mp_revision = 1, provider = ''hermes'',
     model_name = ''m'', purpose = ''workflow'', max_input_tokens = 8000, max_output_tokens = 2000,
     temperature = 0, input_price = Some 150000, output_price = Some 600000\<rparr>"

definition sample_policy :: routing_policy where
  "sample_policy = \<lparr>rp_pk = 1, policy_id = ''default'', rp_revision = 1, rp_purpose = ''workflow'', rp_profile = 1,
     per_run_limit = 500000, monthly_limit = 25000000\<rparr>"

definition sample_clock :: clock where
  "sample_clock = \<lparr>today = (2026, 8, 12), instant = 0\<rparr>"

definition priced :: budget_db where
  "priced = \<lparr>profiles = [sample_profile], policies = [sample_policy], periods = [], reservations = [], ledger = [], next_period = 1\<rparr>"

definition sample_reservation :: reservation where
  "sample_reservation = new_reservation ''r'' ''run'' sample_profile sample_policy 1 1001 10 157 900000000"

definition sample_period :: period where
  "sample_period = \<lparr>pd_pk = 1, month = (2026, 8, 1), limit = 25000000, reserved = 157, settled = 0\<rparr>"

definition one_reserved :: budget_db where
  "one_reserved = priced\<lparr>periods := [sample_period], reservations := [sample_reservation],
     ledger := [entry sample_reservation E_RESERVED 1001 10 157], next_period := 2\<rparr>"

lemma priced_reachable:
  "\<exists>s0. budget_init s0 \<and> budget_step\<^sup>*\<^sup>* s0 priced"
proof -
  let ?s0 = "\<lparr>profiles = [], policies = [], periods = [], reservations = [], ledger = [], next_period = 1\<rparr>"
  let ?s1 = "?s0\<lparr>profiles := [sample_profile]\<rparr>"
  have "save_profile sample_profile ?s0 = Inr ?s1" by (simp add: save_profile_def sample_profile_def)
  then have "budget_step ?s0 ?s1" by (rule budget_step.profile)
  moreover have "save_policy sample_policy ?s1 = Inr priced"
    by (simp add: save_policy_def sample_policy_def sample_profile_def priced_def)
  then have "budget_step ?s1 priced" by (rule budget_step.policy)
  ultimately show ?thesis by (intro exI [of _ ?s0]) (auto simp: budget_init_def)
qed

lemma sample_reserve:
  "reserve_budget [] sample_clock ''r'' ''run'' ''hermes-default'' 1 1001 10 None priced =
     Inr (sample_reservation, one_reserved)"
  by code_simp

lemma one_reserved_reachable:
  "\<exists>s0. budget_init s0 \<and> budget_step\<^sup>*\<^sup>* s0 one_reserved"
proof -
  have "budget_step priced one_reserved"
    by (rule budget_step.reserve [OF _ sample_reserve]) (simp add: priced_def)
  with priced_reachable show ?thesis by (meson rtranclp.rtrancl_into_rtrancl)
qed


theorem budget_never_exceeded_witness:
  "sample_period \<in> set (periods one_reserved) \<and> reserved sample_period = 157
   \<and> reserved sample_period + settled sample_period \<le> limit sample_period"
proof -
  obtain s0 where s0: "budget_init s0" "budget_step\<^sup>*\<^sup>* s0 one_reserved" using one_reserved_reachable by blast
  have "sample_period \<in> set (periods one_reserved)" by (simp add: one_reserved_def)
  with budget_never_exceeded [OF s0 this] show ?thesis by (simp add: sample_period_def)
qed

theorem budget_operations_safe_witness:
  "settle_budget ''run'' 1000 10 one_reserved \<noteq> Inl BudgetIntegrityError
   \<and> (\<exists>x. release_budget ''run'' one_reserved = Inr x)"
proof -
  obtain s0 where s0: "budget_init s0" "budget_step\<^sup>*\<^sup>* s0 one_reserved" using one_reserved_reachable by blast
  have "tfind res_pk ''new'' (reservations one_reserved) = None"
    by (simp add: one_reserved_def sample_reservation_def new_reservation_def)
  from budget_operations_safe [OF s0 this, where run = "''run''" and i = 1000 and out = 10] show ?thesis by auto
qed

end
