(* ===== verification/Budget_Frame.thy ===== *)
theory Budget_Frame
  imports Budget_Inv
begin

text \<open>
  What a budget operation leaves alone: the reservations of the other runs, when they are in the active
  list or already closed, and every profile and policy.  The clients of the budget rest on this frame.
\<close>

section \<open>The frame\<close>

definition same_prices :: "budget_db \<Rightarrow> budget_db \<Rightarrow> bool" where
  "same_prices s s' \<longleftrightarrow> profiles s' = profiles s \<and> policies s' = policies s"

definition spares :: "run_id list \<Rightarrow> run_id set \<Rightarrow> budget_db \<Rightarrow> budget_db \<Rightarrow> bool" where
  "spares active own s s' \<longleftrightarrow> (\<forall>k q. tfind res_run k (reservations s) = Some q \<longrightarrow> k \<notin> own
     \<longrightarrow> k \<in> set active \<or> res_status q \<noteq> RESERVED \<longrightarrow> tfind res_run k (reservations s') = Some q)"

lemma sparesD:
  "spares active own s s' \<Longrightarrow> tfind res_run k (reservations s) = Some q \<Longrightarrow> k \<notin> own
    \<Longrightarrow> k \<in> set active \<or> res_status q \<noteq> RESERVED \<Longrightarrow> tfind res_run k (reservations s') = Some q"
  by (auto simp: spares_def)

lemma same_prices_refl [simp]: "same_prices s s"
  by (simp add: same_prices_def)

lemma same_prices_trans: "same_prices a b \<Longrightarrow> same_prices b c \<Longrightarrow> same_prices a c"
  by (simp add: same_prices_def)

lemma spares_same: "reservations s' = reservations s \<Longrightarrow> spares active own s s'"
  by (simp add: spares_def)

lemma save_period_frame: "save_period p s = Inr s' \<Longrightarrow> same_prices s s' \<and> reservations s' = reservations s"
  by (auto simp: save_period_def same_prices_def split: if_splits)

lemma create_ledger_frame: "create_ledger l s = Inr s' \<Longrightarrow> same_prices s s' \<and> reservations s' = reservations s"
  by (auto simp: create_ledger_def same_prices_def split: if_splits)

lemma save_reservation_frame [simp]: "same_prices s (save_reservation r s)" "reservations (save_reservation r s) = tput res_pk r (reservations s)"
  by (simp_all add: save_reservation_def same_prices_def)

lemma expire_each_prices: "expire_each rs p s = Inr (p', s') \<Longrightarrow> same_prices s s'"
proof (induction rs arbitrary: p s)
  case (Cons r rs)
  then obtain s1 where s1: "create_ledger (entry r E_RELEASED 0 0 (reserved_cost r)) (save_reservation (r\<lparr>res_status := RELEASED\<rparr>) s) = Inr s1"
    and "expire_each rs (p\<lparr>reserved := reserved p - reserved_cost r\<rparr>) s1 = Inr (p', s')"
    by (auto simp: try_bind_eq_Inr)
  with Cons.IH create_ledger_frame [OF s1] show ?case by (meson same_prices_trans save_reservation_frame(1))
qed simp

lemma expire_period_prices: "expire_period_reservations active p now s = Inr (n, s') \<Longrightarrow> same_prices s s'"
  unfolding expire_period_reservations_def Let_def
  by (auto simp: try_bind_eq_Inr split: if_splits dest!: expire_each_prices save_period_frame intro: same_prices_trans)

lemma expire_periods_prices: "expire_periods active now ps s = Inr (n, s') \<Longrightarrow> same_prices s s'"
  by (induction ps arbitrary: s n) (auto simp: try_bind_eq_Inr dest!: expire_period_prices intro: same_prices_trans)

lemma expire_reservations_frame:
  assumes inv: "budget_inv s" and "expire_reservations active now s = Inr (n, s')"
  shows "same_prices s s' \<and> spares active own s s'"
proof
  show "same_prices s s'" using assms(2) by (auto simp: expire_reservations_def Let_def dest: expire_periods_prices)
  obtain "budget_inv s'" and kept: "\<forall>q \<in> set (reservations s). (\<forall>k. \<not> expirable active now k q) \<longrightarrow> q \<in> set (reservations s')"
    using expire_reservations_ok [OF inv, of active now] assms(2) by auto
  then have keys: "keys_ok res_run (reservations s')" by (simp add: budget_inv_def)
  show "spares active own s s'"
    unfolding spares_def
  proof (intro allI impI)
    fix k q assume q: "tfind res_run k (reservations s) = Some q" "k \<in> set active \<or> res_status q \<noteq> RESERVED"
    then have "q \<in> set (reservations s')" and "res_run q = k"
      using kept by (auto simp: expirable_def dest: tfind_in tfind_key)
    then show "tfind res_run k (reservations s') = Some q" using tfind_unique [OF keys] by blast
  qed
qed

section \<open>Closing and reserving\<close>

lemma other_run:
  assumes "budget_inv s" and "r \<in> set (reservations s)" and "res_pk r' = res_pk r" and "res_run r' = res_run r" and "k \<noteq> res_run r"
  shows "tfind res_run k (tput res_pk r' (reservations s)) = tfind res_run k (reservations s)"
  using tfind_tput_second [of res_pk "reservations s" res_run r r' k] assms by (simp add: budget_inv_def)

lemma close_frame:
  assumes "budget_inv s" and "r \<in> set (reservations s)" and "res_pk r' = res_pk r" and "res_run r' = res_run r"
    and "same_prices s s'" and "reservations s' = tput res_pk r' (reservations s)"
  shows "same_prices s s' \<and> spares active {res_run r} s s'"
  using assms other_run [OF assms(1-4)] by (simp add: spares_def)

lemma settle_commit_frame:
  assumes "budget_inv s" and "r \<in> set (reservations s)" and "settle_commit r p i out c s = Inr (x, s')"
  shows "same_prices s s' \<and> spares active {res_run r} s s'"
proof -
  let ?r' = "r\<lparr>res_status := SETTLED, settled_input := Some i, settled_output := Some out, settled_cost := Some c\<rparr>"
  from assms(3) obtain s1 where s1: "save_period (p\<lparr>reserved := reserved p - reserved_cost r, settled := settled p + c\<rparr>) s = Inr s1"
    and l: "create_ledger (entry ?r' E_SETTLED i out c) (save_reservation ?r' s1) = Inr s'"
    by (auto simp: settle_commit_def Let_def try_bind_eq_Inr)
  from save_period_frame [OF s1] create_ledger_frame [OF l] show ?thesis
    by (intro close_frame [OF assms(1,2), of ?r']) (auto simp: same_prices_def save_reservation_def)
qed

lemma release_commit_frame:
  assumes "budget_inv s" and "r \<in> set (reservations s)" and "release_commit r p s = Inr (x, s')"
  shows "same_prices s s' \<and> spares active {res_run r} s s'"
proof -
  let ?r' = "r\<lparr>res_status := RELEASED\<rparr>"
  from assms(3) obtain s1 where s1: "save_period (p\<lparr>reserved := reserved p - reserved_cost r\<rparr>) s = Inr s1"
    and l: "create_ledger (entry ?r' E_RELEASED 0 0 (reserved_cost r)) (save_reservation ?r' s1) = Inr s'"
    by (auto simp: release_commit_def Let_def try_bind_eq_Inr)
  from save_period_frame [OF s1] create_ledger_frame [OF l] show ?thesis
    by (intro close_frame [OF assms(1,2), of ?r']) (auto simp: same_prices_def save_reservation_def)
qed

text \<open>The three operations that close a reservation.\<close>

lemma settle_budget_frame:
  assumes "budget_inv s" and "settle_budget run i out s = Inr (x, s')"
  shows "same_prices s s' \<and> spares active {run} s s'"
proof -
  from assms(2) obtain r where r: "tfind res_run run (reservations s) = Some r"
    by (auto simp: settle_budget_def try_bind_eq_Inr of_option_eq_Inr)
  then have rin: "r \<in> set (reservations s)" "res_run r = run" by (auto dest: tfind_in tfind_key)
  from assms(2) r consider "s' = s" | p c where "settle_commit r p i out c s = Inr (x, s')"
    by (auto simp: settle_budget_def try_bind_eq_Inr split: if_splits)
  then show ?thesis using settle_commit_frame [OF assms(1) rin(1)] rin(2) by cases (auto simp: spares_def)
qed

lemma release_budget_frame:
  assumes "budget_inv s" and "release_budget run s = Inr (x, s')"
  shows "same_prices s s' \<and> spares active {run} s s'"
proof (cases "tfind res_run run (reservations s)")
  case (Some r)
  then have rin: "r \<in> set (reservations s)" "res_run r = run" by (auto dest: tfind_in tfind_key)
  from assms(2) Some consider "s' = s" | p y where "release_commit r p s = Inr (y, s')"
    by (auto simp: release_budget_def try_bind_eq_Inr split: if_splits)
  then show ?thesis using release_commit_frame [OF assms(1) rin(1)] rin(2) by cases (auto simp: spares_def)
qed (use assms(2) in \<open>simp add: release_budget_def spares_def\<close>)

lemma charge_reserved_budget_frame:
  assumes "budget_inv s" and "charge_reserved_budget run s = Inr (x, s')"
  shows "same_prices s s' \<and> spares active {run} s s'"
proof (cases "tfind res_run run (reservations s)")
  case (Some r)
  then have rin: "r \<in> set (reservations s)" "res_run r = run" by (auto dest: tfind_in tfind_key)
  from assms(2) Some consider "s' = s" | p y where "settle_commit r p (estimated_input r) (estimated_output r) (reserved_cost r) s = Inr (y, s')"
    by (auto simp: charge_reserved_budget_def try_bind_eq_Inr split: if_splits)
  then show ?thesis using settle_commit_frame [OF assms(1) rin(1)] rin(2) by cases (auto simp: spares_def)
qed (use assms(2) in \<open>simp add: charge_reserved_budget_def spares_def\<close>)

lemma period_for_update_prices: "period_for_update q now s = Inr (p, s1) \<Longrightarrow> same_prices s s1 \<and> reservations s1 = reservations s"
  by (auto simp: period_for_update_def Let_def same_prices_def split: option.splits if_splits)

lemma reserve_commit_frame: "reserve_commit r p s = Inr s' \<Longrightarrow> same_prices s s' \<and> reservations s' = reservations s @ [r]"
  by (auto simp: reserve_commit_def create_reservation_def try_bind_eq_Inr same_prices_def split: if_splits
      dest!: save_period_frame create_ledger_frame)

lemma reserve_new_frame:
  assumes inv: "budget_inv s" and q: "0 < monthly_limit q" and r: "reserve_new active now rid run p q i out c expiry s = Inr (x, s')"
  shows "same_prices s s' \<and> spares active {run} s s' \<and> res_status x = RESERVED"
proof -
  from r obtain pd0 s1 n s2 pd where s1: "period_for_update q now s = Inr (pd0, s1)"
    and s2: "expire_period_reservations active pd0 (instant now) s1 = Inr (n, s2)"
    and x: "x = new_reservation rid run p q (pd_pk pd) i out c (case expiry of None \<Rightarrow> instant now + 15 * 60 * 1000000 | Some x \<Rightarrow> x)"
    and s3: "reserve_commit x pd s2 = Inr s'"
    by (auto simp: reserve_new_def try_bind_eq_Inr Let_def split: if_splits)
  obtain inv1: "budget_inv s1" and pd0: "tfind pd_pk (pd_pk pd0) (periods s1) = Some pd0"
    using period_for_update_ok [OF inv q, of now] s1 by auto
  obtain inv2: "budget_inv s2" and kept: "\<forall>z \<in> set (reservations s1). \<not> expirable active (instant now) (pd_pk pd0) z \<longrightarrow> z \<in> set (reservations s2)"
    using expire_period_ok [OF inv1 pd0, of active "instant now"] s2 by auto
  have keys: "keys_ok res_run (reservations s2)" using inv2 by (simp add: budget_inv_def)
  have "spares active {run} s s'"
    unfolding spares_def
  proof (intro allI impI)
    fix k z assume z: "tfind res_run k (reservations s) = Some z" "k \<in> set active \<or> res_status z \<noteq> RESERVED"
    then have "z \<in> set (reservations s2)" and "res_run z = k"
      using kept period_for_update_prices [OF s1] by (auto simp: expirable_def dest: tfind_in tfind_key)
    then have "tfind res_run k (reservations s2) = Some z" using tfind_unique [OF keys] by blast
    then show "tfind res_run k (reservations s') = Some z" using reserve_commit_frame [OF s3] by (simp add: tfind_append)
  qed
  moreover have "same_prices s s'"
    using period_for_update_prices [OF s1] expire_period_prices [OF s2] reserve_commit_frame [OF s3] by (simp add: same_prices_def)
  ultimately show ?thesis by (simp add: x new_reservation_def)
qed

lemma reserve_budget_frame:
  assumes inv: "budget_inv s" and r: "reserve_budget active now rid run pid rv i out expiry s = Inr (x, s')"
  shows "same_prices s s' \<and> spares active {run} s s' \<and> (tfind res_run run (reservations s) = None \<longrightarrow> res_status x = RESERVED)"
proof (cases "tfind res_run run (reservations s)")
  case None
  with r obtain p q c where "profile_and_policy pid rv s = Inr (p, q)" and n: "reserve_new active now rid run p q i out c expiry s = Inr (x, s')"
    by (auto simp: reserve_budget_def try_bind_eq_Inr split: if_splits)
  then have "0 < monthly_limit q" using inv profile_and_policy_Inr by (auto simp: budget_inv_def)
  from reserve_new_frame [OF inv this n] show ?thesis by simp
qed (use r in \<open>auto simp: reserve_budget_def spares_def split: if_splits\<close>)

section \<open>What a closed reservation looks like\<close>

definition charged :: "reservation \<Rightarrow> reservation" where
  "charged x = x\<lparr>res_status := SETTLED, settled_input := Some (estimated_input x), settled_output := Some (estimated_output x),
     settled_cost := Some (reserved_cost x)\<rparr>"

definition released :: "reservation \<Rightarrow> reservation" where
  "released x = x\<lparr>res_status := RELEASED\<rparr>"

lemma charge_shape:
  "charge_reserved_budget run s = Inr (ro, s') \<Longrightarrow> tfind res_run run (reservations s) = Some x \<Longrightarrow> res_status x = RESERVED
    \<Longrightarrow> ro = Some (charged x)"
  by (auto simp: charge_reserved_budget_def settle_commit_def Let_def try_bind_eq_Inr charged_def)

lemma release_shape:
  "release_budget run s = Inr (ro, s') \<Longrightarrow> tfind res_run run (reservations s) = Some x \<Longrightarrow> res_status x = RESERVED
    \<Longrightarrow> ro = Some (released x)"
  by (auto simp: release_budget_def release_commit_def Let_def try_bind_eq_Inr released_def)

text \<open>Charging or releasing an open reservation succeeds, whatever else the budget holds.\<close>

lemma close_reservation_ok:
  assumes inv: "budget_inv s" and x: "tfind res_run run (reservations s) = Some x" "res_status x = RESERVED"
  shows "\<exists>s'. (if billable then charge_reserved_budget run s else release_budget run s) = Inr (Some (if billable then charged x else released x), s')
     \<and> budget_inv s' \<and> tfind res_run run (reservations s') = Some (if billable then charged x else released x)
     \<and> same_prices s s' \<and> spares active {run} s s'"
proof (cases billable)
  case True
  obtain ro s' where c: "charge_reserved_budget run s = Inr (ro, s')" "budget_inv s'" "tfind res_run run (reservations s') = ro"
    using charge_reserved_budget_ok [OF inv] by blast
  with charge_shape [OF c(1) x] charge_reserved_budget_frame [OF inv c(1)] True show ?thesis by auto
next
  case False
  obtain ro s' where c: "release_budget run s = Inr (ro, s')" "budget_inv s'" "tfind res_run run (reservations s') = ro"
    using release_budget_ok [OF inv] by blast
  with release_shape [OF c(1) x] release_budget_frame [OF inv c(1)] False show ?thesis by auto
qed

text \<open>A new reservation, and a settled one.\<close>

lemma reserve_shape:
  assumes inv: "budget_inv s" and r: "reserve_budget active now rid run pid rv i out expiry s = Inr (x, s')"
    and new: "tfind res_run run (reservations s) = None" "tfind res_pk rid (reservations s) = None"
  shows "budget_inv s' \<and> tfind res_run run (reservations s') = Some x \<and> res_status x = RESERVED \<and> settled_cost x = None
    \<and> estimated_input x = i \<and> estimated_output x = out \<and> 0 \<le> i \<and> 0 \<le> out"
proof -
  from r new obtain p q c where c: "cost_of p i out = Inr c" and n: "reserve_new active now rid run p q i out c expiry s = Inr (x, s')"
    by (auto simp: reserve_budget_def try_bind_eq_Inr split: if_splits)
  then have "res_status x = RESERVED \<and> settled_cost x = None \<and> estimated_input x = i \<and> estimated_output x = out"
    by (auto simp: reserve_new_def try_bind_eq_Inr Let_def new_reservation_def split: if_splits)
  moreover have "0 \<le> i \<and> 0 \<le> out" using cost_of_tokens [OF c] .
  ultimately show ?thesis using reserve_budget_ok [OF inv new(2), of active now run pid rv i out expiry] r by auto
qed

lemma settle_shape:
  assumes inv: "budget_inv s" and r: "settle_budget run i out s = Inr (x, s')" and x: "tfind res_run run (reservations s) = Some x0" "res_status x0 = RESERVED"
  shows "budget_inv s' \<and> tfind res_run run (reservations s') = Some x
    \<and> (\<exists>c. cost_of (res_profile x0) i out = Inr c \<and> c \<le> per_run_limit (res_policy x0)
        \<and> x = x0\<lparr>res_status := SETTLED, settled_input := Some i, settled_output := Some out, settled_cost := Some c\<rparr>)"
  using settle_budget_ok [OF inv, of run i out] r x
  by (auto simp: settle_budget_def settle_commit_def Let_def try_bind_eq_Inr split: if_splits)

end
