(* ===== verification/Hermes_Inv.thy ===== *)
theory Hermes_Inv
  imports Hermes_Result Broker_Inv Budget_Frame
begin

text \<open>
  The invariant of the Hermes lane.  Every Hermes run has its binding, its control row, its budget
  reservation and its event log, and they agree with its status; the lane's active run is the only
  active one; a run that ended has a closed reservation and a revoked capability.

  The state of one run is read through five tables, so a transaction is described by what it does to the
  rows of its run and by the frame that keeps the rows of the others (\<open>context_kept\<close>, \<open>inv_update\<close>).
\<close>

section \<open>Reads after writes\<close>

named_theorems hermes_simps \<open>reads of the Hermes tables after their writes\<close>

lemma audit_reads [hermes_simps]:
  "agent_runs (record_audit a x ty ti ds d) = agent_runs d" "bindings (record_audit a x ty ti ds d) = bindings d"
  "controls (record_audit a x ty ti ds d) = controls d" "capabilities (record_audit a x ty ti ds d) = capabilities d"
  "submissions (record_audit a x ty ti ds d) = submissions d" "intents (record_audit a x ty ti ds d) = intents d"
  "invocations (record_audit a x ty ti ds d) = invocations d" "active_users (record_audit a x ty ti ds d) = active_users d"
  "sessions (record_audit a x ty ti ds d) = sessions d" "Draft_Models.profiles (record_audit a x ty ti ds d) = Draft_Models.profiles d"
  "revisions (base (record_audit a x ty ti ds d)) = revisions (base d)" "workflows (base (record_audit a x ty ti ds d)) = workflows (base d)"
  "actors (base (record_audit a x ty ti ds d)) = actors (base d)"
  by (simp_all add: record_audit_def add_audit_def)

lemma protect_reads [hermes_simps]:
  "revisions (protect_rows r b) = revisions b" "workflows (protect_rows r b) = workflows b" "actors (protect_rows r b) = actors b"
  by (simp_all add: protect_rows_def)

definition run_log :: "hermes_db \<Rightarrow> uuid \<Rightarrow> (nat \<times> string) list" where
  "run_log s rid = map (\<lambda>v. (ev_sequence v, ev_type v)) (filter (\<lambda>v. ev_run v = rid) (run_events s))"

definition reservation_row :: "hermes_db \<Rightarrow> uuid \<Rightarrow> reservation option" where
  "reservation_row s rid = tfind res_run rid (reservations (money s))"

definition cap_row :: "hermes_db \<Rightarrow> uuid \<Rightarrow> capability option" where
  "cap_row s k = tfind cap_pk k (capabilities (core s))"

lemmas row_defs = run_row_def binding_row_def control_row_def reservation_row_def cap_row_def

lemma set_lane_reads [hermes_simps]:
  "core (set_lane l s) = core s" "money (set_lane l s) = money s" "admission (set_lane l s) = l"
  "run_events (set_lane l s) = run_events s" "start_receipts (set_lane l s) = start_receipts s"
  by (simp_all add: set_lane_def)

lemma save_control_reads [hermes_simps]:
  "agent_runs (core (save_control ct s)) = agent_runs (core s)" "bindings (core (save_control ct s)) = bindings (core s)"
  "controls (core (save_control ct s)) = tput ct_run ct (controls (core s))"
  "capabilities (core (save_control ct s)) = capabilities (core s)" "base (core (save_control ct s)) = base (core s)"
  "submissions (core (save_control ct s)) = submissions (core s)" "intents (core (save_control ct s)) = intents (core s)"
  "invocations (core (save_control ct s)) = invocations (core s)"
  "money (save_control ct s) = money s" "admission (save_control ct s) = admission s"
  "run_events (save_control ct s) = run_events s" "start_receipts (save_control ct s) = start_receipts s"
  by (simp_all add: save_control_def)

definition with_event :: "py_env \<Rightarrow> uuid \<Rightarrow> string \<Rightarrow> string \<Rightarrow> string \<Rightarrow> string \<Rightarrow> hermes_db \<Rightarrow> hermes_db" where
  "with_event e rid a t how h s =
     s\<lparr>run_events := run_events s @ [\<lparr>ev_run = rid, ev_sequence = Suc (last_sequence s rid), ev_type = t, ev_outcome = how, ev_digest = h\<rparr>],
       core := record_audit (Some a) (''hermes.'' @ t) ''agent_run'' rid
         [(''outcome'', JStr how), (''sequence'', JInt (int (Suc (last_sequence s rid))))] (core s)\<rparr>"

lemma with_event_reads [hermes_simps]:
  "money (with_event e rid a t how h s) = money s" "admission (with_event e rid a t how h s) = admission s"
  "start_receipts (with_event e rid a t how h s) = start_receipts s"
  "agent_runs (core (with_event e rid a t how h s)) = agent_runs (core s)" "bindings (core (with_event e rid a t how h s)) = bindings (core s)"
  "controls (core (with_event e rid a t how h s)) = controls (core s)" "capabilities (core (with_event e rid a t how h s)) = capabilities (core s)"
  "submissions (core (with_event e rid a t how h s)) = submissions (core s)" "intents (core (with_event e rid a t how h s)) = intents (core s)"
  "invocations (core (with_event e rid a t how h s)) = invocations (core s)"
  "revisions (base (core (with_event e rid a t how h s))) = revisions (base (core s))"
  "workflows (base (core (with_event e rid a t how h s))) = workflows (base (core s))"
  "actors (base (core (with_event e rid a t how h s))) = actors (base (core s))"
  by (simp_all add: with_event_def hermes_simps)

section \<open>The event log\<close>

text \<open>The events of a run are numbered from one without a gap; the last status in the log is the run's.\<close>

definition numbered :: "hermes_db \<Rightarrow> uuid \<Rightarrow> bool" where
  "numbered s rid \<longleftrightarrow> map fst (run_log s rid) = [1..<Suc (length (run_log s rid))]"

definition logged_status :: "hermes_db \<Rightarrow> uuid \<Rightarrow> string" where
  "logged_status s rid = (case rev (filter (\<lambda>t. t \<noteq> ''cancel_requested'') (map snd (run_log s rid))) of [] \<Rightarrow> [] | t # _ \<Rightarrow> t)"

lemma foldr_max_upt: "foldr max [1..<Suc n] m = max n (m::nat)"
  by (induction n arbitrary: m) (auto simp: max_def)

lemma numbered_last: "numbered s rid \<Longrightarrow> last_sequence s rid = length (run_log s rid)"
  using foldr_max_upt [of "length (run_log s rid)" 0]
  by (simp add: numbered_def last_sequence_def run_log_def comp_def)

lemma run_log_event [hermes_simps]:
  "run_log (with_event e rid a t how h s) k = (if k = rid then run_log s rid @ [(Suc (last_sequence s rid), t)] else run_log s k)"
  by (auto simp: run_log_def with_event_def)

lemma numbered_event: "numbered s rid \<Longrightarrow> numbered (with_event e rid a t how h s) rid"
  using numbered_last [of s rid] by (simp add: numbered_def hermes_simps)

lemma logged_event:
  "logged_status (with_event e rid a t how h s) rid = (if t = ''cancel_requested'' then logged_status s rid else t)"
  by (simp add: logged_status_def hermes_simps)

lemma event_digest_total:
  assumes "length t \<le> 100" and "length how \<le> 100"
  shows "\<exists>h. digest e (JObj [(''event_type'', JStr t), (''outcome'', JStr how)]) = Inr h"
proof -
  have "length (json_dumps e (JObj [(''event_type'', JStr t), (''outcome'', JStr how)])) \<le> MAX_PAYLOAD_BYTES"
    using length_dump_str [of t] length_dump_str [of how] length_dump_str [of "''event_type''"] length_dump_str [of "''outcome''"] assms
    by (simp add: sort_keys_def MAX_PAYLOAD_BYTES_def)
  with assms show ?thesis
    by (simp add: digest_def bounded_json_def Let_def over_def MAX_DEPTH_def MAX_PAYLOAD_BYTES_def)
qed

lemma add_event_ok:
  assumes "numbered s rid" and "binding_row s rid = Some b" and "length t \<le> 100" and "length how \<le> 100"
  shows "\<exists>h. add_event e rid t how s = Inr (with_event e rid (bd_actor b) t how h s)"
proof -
  obtain h where h: "digest e (JObj [(''event_type'', JStr t), (''outcome'', JStr how)]) = Inr h"
    using event_digest_total assms(3,4) by blast
  have "\<not> (ev_run v = rid \<and> ev_sequence v = Suc (last_sequence s rid))" if v: "v \<in> set (run_events s)" for v
  proof
    assume *: "ev_run v = rid \<and> ev_sequence v = Suc (last_sequence s rid)"
    then have "ev_sequence v \<in> set (map fst (run_log s rid))" using v by (auto simp: run_log_def image_iff)
    then have "ev_sequence v < Suc (length (run_log s rid))" using assms(1) unfolding numbered_def by (metis atLeastLessThan_iff set_upt)
    with * numbered_last [OF assms(1)] show False by simp
  qed
  then have "\<not> list_ex (\<lambda>x. ev_run x = rid \<and> ev_sequence x = Suc (last_sequence s rid)) (run_events s)"
    by (auto simp: list_ex_iff)
  with h assms(2) show ?thesis
    by (auto simp: add_event_def create_event_def ensure_def with_event_def)
qed

lemma add_event_Inr:
  assumes "add_event e rid t how s = Inr s'"
  shows "\<exists>b h. binding_row s rid = Some b \<and> s' = with_event e rid (bd_actor b) t how h s"
proof -
  obtain h b where "create_event \<lparr>ev_run = rid, ev_sequence = Suc (last_sequence s rid), ev_type = t, ev_outcome = how, ev_digest = h\<rparr> s
       = Inr (s\<lparr>run_events := run_events s @ [\<lparr>ev_run = rid, ev_sequence = Suc (last_sequence s rid), ev_type = t, ev_outcome = how, ev_digest = h\<rparr>]\<rparr>)"
    and "binding_row s rid = Some b"
    and "s' = with_event e rid (bd_actor b) t how h s"
    using assms by (auto simp: add_event_def try_bind_eq_Inr of_option_eq_Inr create_event_def ensure_def with_event_def split: if_splits)
  then show ?thesis by blast
qed

section \<open>The invariant\<close>

definition billed :: "reservation \<Rightarrow> int \<times> int \<times> int" where
  "billed x = (case (settled_input x, settled_output x, settled_cost x) of (Some i, Some out, Some k) \<Rightarrow> (i, out, k) | _ \<Rightarrow> (0, 0, 0))"

definition usage_of_run :: "agent_run \<Rightarrow> int \<times> int \<times> int" where
  "usage_of_run r = (run_input r, run_output r, run_cost r)"

definition reservation_fits :: "reservation \<Rightarrow> agent_run \<Rightarrow> bool" where
  "reservation_fits x r \<longleftrightarrow> (run_active r \<longleftrightarrow> res_status x = RESERVED) \<and> usage_of_run r = billed x
     \<and> (res_status x = RESERVED \<longrightarrow> settled_cost x = None \<and> 0 \<le> estimated_input x \<and> 0 \<le> estimated_output x)
     \<and> (run_status r = RUN_SUCCEEDED \<longrightarrow> res_status x = SETTLED)"

definition bound_to :: "agent_run \<Rightarrow> run_binding \<Rightarrow> capability \<Rightarrow> bool" where
  "bound_to r b cap \<longleftrightarrow> cap_correlation cap = Some (bd_correlation b) \<and> cap_revision_digest cap = bd_revision_digest b
     \<and> cap_workflow cap = run_workflow r \<and> cap_revision cap = run_revision r \<and> cap_actor cap = bd_actor b
     \<and> set (cap_tools cap) = set TOOLS"

definition authority_fits :: "hermes_db \<Rightarrow> agent_run \<Rightarrow> run_binding \<Rightarrow> run_control \<Rightarrow> bool" where
  "authority_fits s r b ct \<longleftrightarrow>
     (case ct_capability ct of
        None \<Rightarrow> run_status r \<noteq> RUN_RUNNING \<and> run_status r \<noteq> RUN_SUCCEEDED
      | Some k \<Rightarrow> run_status r \<noteq> RUN_QUEUED
          \<and> (case cap_row s k of None \<Rightarrow> False
             | Some cap \<Rightarrow> bound_to r b cap \<and> (\<not> run_active r \<longrightarrow> cap_revoked cap \<noteq> None)))"

definition row_clean :: "hermes_db \<Rightarrow> agent_run \<Rightarrow> bool" where
  "row_clean s r \<longleftrightarrow> columns_clean r \<and> fixture_clean r \<and> references_clean s r \<and> lifecycle_clean r"

definition log_fits :: "hermes_db \<Rightarrow> agent_run \<Rightarrow> bool" where
  "log_fits s r \<longleftrightarrow> numbered s (run_pk r) \<and> logged_status s (run_pk r) = status_text (run_status r)"

definition run_ok :: "hermes_db \<Rightarrow> agent_run \<Rightarrow> bool" where
  "run_ok s r \<longleftrightarrow> row_clean s r \<and> log_fits s r
     \<and> (\<exists>b ct x. binding_row s (run_pk r) = Some b \<and> control_row s (run_pk r) = Some ct \<and> reservation_row s (run_pk r) = Some x
          \<and> reservation_fits x r \<and> authority_fits s r b ct)"

definition lane_fits :: "hermes_db \<Rightarrow> bool" where
  "lane_fits s \<longleftrightarrow> (\<forall>k r. run_row s k = Some r \<longrightarrow> hermes_lane r \<longrightarrow> (run_active r \<longleftrightarrow> ln_active (admission s) = Some k))
     \<and> (\<forall>k. ln_active (admission s) = Some k \<longrightarrow> (\<exists>r. run_row s k = Some r \<and> hermes_lane r))"

definition receipt_fits :: "hermes_db \<Rightarrow> start_receipt \<Rightarrow> bool" where
  "receipt_fits s rc \<longleftrightarrow> (\<exists>r b. run_row s (sr_run rc) = Some r \<and> hermes_lane r \<and> run_workflow r = sr_workflow rc
     \<and> run_revision r = sr_revision rc \<and> binding_row s (sr_run rc) = Some b \<and> bd_actor b = sr_actor rc)"

definition hermes_keys :: "hermes_db \<Rightarrow> bool" where
  "hermes_keys s \<longleftrightarrow> keys_ok run_pk (agent_runs (core s)) \<and> keys_ok bd_run (bindings (core s)) \<and> keys_ok ct_run (controls (core s))
     \<and> keys_ok sr_pk (start_receipts s)"

definition hermes_inv :: "py_env \<Rightarrow> hermes_db \<Rightarrow> bool" where
  "hermes_inv e s \<longleftrightarrow> broker_inv e (core s) \<and> budget_inv (money s) \<and> hermes_keys s \<and> lane_fits s
     \<and> (\<forall>k r. run_row s k = Some r \<longrightarrow> hermes_lane r \<longrightarrow> run_ok s r)
     \<and> (\<forall>v \<in> set (run_events s). \<exists>r. run_row s (ev_run v) = Some r \<and> hermes_lane r)
     \<and> (\<forall>rc \<in> set (start_receipts s). receipt_fits s rc)"

text \<open>How a run may change, and how the whole state may.\<close>

fun run_le :: "run_status \<Rightarrow> run_status \<Rightarrow> bool" where
  "run_le RUN_QUEUED t = True"
| "run_le RUN_RUNNING t = (t \<noteq> RUN_QUEUED)"
| "run_le u t = (t = u)"

definition evolves :: "agent_run \<Rightarrow> agent_run \<Rightarrow> bool" where
  "evolves r r' \<longleftrightarrow> immutable_binding r' = immutable_binding r \<and> run_le (run_status r) (run_status r') \<and> (\<not> run_active r \<longrightarrow> r' = r)"

definition caps_stay :: "hermes_db \<Rightarrow> hermes_db \<Rightarrow> bool" where
  "caps_stay s s' \<longleftrightarrow> (\<forall>k cap. cap_row s k = Some cap \<longrightarrow> (\<exists>cap'. cap_row s' k = Some cap' \<and> cap_later cap cap'))"

text \<open>A control row keeps its lease and its capability; a cancellation and a closed admission are for good.\<close>

definition ct_later :: "run_control \<Rightarrow> run_control \<Rightarrow> bool" where
  "ct_later ct ct' \<longleftrightarrow> ct_lease ct' = ct_lease ct \<and> (ct_capability ct \<noteq> None \<longrightarrow> ct_capability ct' = ct_capability ct)
     \<and> (ct_cancel ct \<noteq> None \<longrightarrow> ct_cancel ct' = ct_cancel ct) \<and> (ct_disabled ct \<longrightarrow> ct_disabled ct')"

definition controls_stay :: "hermes_db \<Rightarrow> hermes_db \<Rightarrow> bool" where
  "controls_stay s s' \<longleftrightarrow> (\<forall>k r ct. run_row s k = Some r \<longrightarrow> hermes_lane r \<longrightarrow> control_row s k = Some ct
     \<longrightarrow> (\<exists>ct'. control_row s' k = Some ct' \<and> ct_later ct ct'))"

definition hermes_keeps :: "py_env \<Rightarrow> hermes_db \<Rightarrow> hermes_db \<Rightarrow> bool" where
  "hermes_keeps e s s' \<longleftrightarrow> hermes_inv e s'
     \<and> (\<forall>k r. run_row s k = Some r \<longrightarrow> hermes_lane r \<longrightarrow> (\<exists>r'. run_row s' k = Some r' \<and> evolves r r'))
     \<and> (ln_disabled (admission s) \<longrightarrow> ln_disabled (admission s')
          \<and> (\<forall>k r'. run_row s' k = Some r' \<longrightarrow> hermes_lane r' \<longrightarrow> (\<exists>r. run_row s k = Some r \<and> hermes_lane r)))
     \<and> (\<exists>x. start_receipts s' = start_receipts s @ x) \<and> controls_stay s s' \<and> caps_stay s s'"

lemma ct_later_refl [simp]: "ct_later ct ct"
  by (simp add: ct_later_def)

lemma ct_later_trans: "ct_later a b \<Longrightarrow> ct_later b c \<Longrightarrow> ct_later a c"
  by (auto simp: ct_later_def)

lemma caps_stay_self: "caps_stay s s"
  by (auto simp: caps_stay_def intro: cap_later_refl)

lemma caps_stay_trans: "caps_stay a b \<Longrightarrow> caps_stay b c \<Longrightarrow> caps_stay a c"
  unfolding caps_stay_def by (meson cap_later_trans)

lemma evolves_refl: "evolves r r"
  by (cases "run_status r") (simp_all add: evolves_def)

lemma evolves_trans: "evolves a b \<Longrightarrow> evolves b c \<Longrightarrow> evolves a c"
  by (cases "run_status a"; cases "run_status b") (auto simp: evolves_def run_active_def)

lemma evolves_lane: "evolves r r' \<Longrightarrow> hermes_lane r' = hermes_lane r"
  by (simp add: evolves_def immutable_binding_def)

section \<open>The frame of a transaction\<close>

definition context_kept :: "hermes_db \<Rightarrow> hermes_db \<Rightarrow> uuid \<Rightarrow> bool" where
  "context_kept s s' k \<longleftrightarrow> binding_row s' k = binding_row s k \<and> control_row s' k = control_row s k \<and> run_log s' k = run_log s k
     \<and> reservation_row s' k = reservation_row s k"

lemma caps_stay_refl: "capabilities (core s') = capabilities (core s) \<Longrightarrow> caps_stay s s'"
  by (auto simp: caps_stay_def cap_row_def intro: cap_later_refl)

lemma caps_stay_kept:
  assumes "caps_kept (capabilities (core s)) (capabilities (core s'))" and "keys_ok cap_pk (capabilities (core s'))"
  shows "caps_stay s s'"
  unfolding caps_stay_def cap_row_def
proof (intro allI impI)
  fix k cap assume "tfind cap_pk k (capabilities (core s)) = Some cap"
  then have "cap \<in> set (capabilities (core s))" "cap_pk cap = k" by (auto dest: tfind_in tfind_key)
  then obtain cap' where "cap' \<in> set (capabilities (core s'))" "cap_later cap cap'" using assms(1) by (auto simp: caps_kept_def)
  moreover have "cap_pk cap' = k" using cap_later_fields(1) [OF calculation(2)] \<open>cap_pk cap = k\<close> by simp
  ultimately show "\<exists>cap'. tfind cap_pk k (capabilities (core s')) = Some cap' \<and> cap_later cap cap'"
    using tfind_unique [OF assms(2)] by blast
qed

lemma cap_later_correlation: "cap_later cap cap' \<Longrightarrow> cap_correlation cap = Some q \<Longrightarrow> cap_correlation cap' = Some q"
  by (simp add: cap_later_def)

lemma bound_later: "cap_later cap cap' \<Longrightarrow> bound_to r b cap \<Longrightarrow> bound_to r b cap'"
  using cap_later_fields [of cap cap'] cap_later_correlation [of cap cap'] by (simp add: bound_to_def)

lemma authority_kept:
  assumes "authority_fits s r b ct" and "caps_stay s s'"
  shows "authority_fits s' r b ct"
proof (cases "ct_capability ct")
  case (Some k)
  with assms(1) obtain cap where cap: "cap_row s k = Some cap" "bound_to r b cap" "\<not> run_active r \<longrightarrow> cap_revoked cap \<noteq> None"
    by (auto simp: authority_fits_def split: option.splits)
  then obtain cap' where "cap_row s' k = Some cap'" and l: "cap_later cap cap'" using assms(2) by (auto simp: caps_stay_def)
  moreover from l cap(3) have "\<not> run_active r \<longrightarrow> cap_revoked cap' \<noteq> None" by (auto simp: cap_later_def)
  ultimately show ?thesis using Some assms(1) bound_later [OF l cap(2)] by (auto simp: authority_fits_def)
qed (use assms in \<open>simp add: authority_fits_def\<close>)

lemma run_ok_kept:
  assumes "run_ok s r" and "context_kept s s' (run_pk r)" and "caps_stay s s'" and "references_clean s' r"
  shows "run_ok s' r"
proof -
  obtain b ct x where *: "binding_row s (run_pk r) = Some b" "control_row s (run_pk r) = Some ct" "reservation_row s (run_pk r) = Some x"
    "reservation_fits x r" "authority_fits s r b ct"
    using assms(1) by (auto simp: run_ok_def)
  have "row_clean s' r" using assms(1,4) by (simp add: run_ok_def row_clean_def)
  moreover have "log_fits s' r" using assms(1,2) by (simp add: run_ok_def log_fits_def context_kept_def numbered_def logged_status_def)
  moreover have "authority_fits s' r b ct" using authority_kept [OF *(5) assms(3)] .
  ultimately show ?thesis using * assms(2) unfolding run_ok_def context_kept_def by auto
qed

text \<open>A transaction on one run: what it may do to the others, and what is left to show of its own run.\<close>

definition touches :: "uuid \<Rightarrow> hermes_db \<Rightarrow> hermes_db \<Rightarrow> bool" where
  "touches rid s s' \<longleftrightarrow> (\<forall>k r. k \<noteq> rid \<longrightarrow> run_row s k = Some r \<longrightarrow> hermes_lane r \<longrightarrow> context_kept s s' k)
     \<and> caps_stay s s' \<and> (\<forall>r. references_clean s r \<longrightarrow> references_clean s' r) \<and> bindings (core s') = bindings (core s)
     \<and> keys_ok ct_run (controls (core s')) \<and> (\<exists>x. run_events s' = run_events s @ x \<and> (\<forall>v \<in> set x. ev_run v = rid))
     \<and> start_receipts s' = start_receipts s \<and> (ln_disabled (admission s) \<longrightarrow> ln_disabled (admission s'))"

lemma inv_update:
  assumes inv: "hermes_inv e s" and r: "run_row s rid = Some r" "hermes_lane r"
    and parts: "broker_inv e (core s')" "budget_inv (money s')"
    and t: "touches rid s s'" and runs: "agent_runs (core s') = tput run_pk r' (agent_runs (core s))" and pk: "run_pk r' = rid"
    and ev: "evolves r r'" and ok: "run_ok s' r'"
    and own: "control_row s rid = Some ct" "control_row s' rid = Some ct'" "ct_later ct ct'"
    and lane: "run_active r' \<longrightarrow> run_active r"
      "ln_active (admission s') = (if run_active r' \<or> ln_active (admission s) \<noteq> Some rid then ln_active (admission s) else None)"
  shows "hermes_keeps e s s'"
proof -
  have pk': "run_pk r = rid" using r by (auto simp: run_row_def dest: tfind_key)
  have row: "run_row s' k = (if k = rid then Some r' else run_row s k)" for k
    using r by (auto simp: run_row_def runs tfind_tput pk split: option.splits)
  have lane': "hermes_lane r'" using r(2) evolves_lane [OF ev] by simp
  have oks: "run_ok s' q" if q: "run_row s' k = Some q" "hermes_lane q" for k q
  proof (cases "k = rid")
    case False
    then have qs: "run_row s k = Some q" using q row by simp
    then have "run_pk q = k" by (auto simp: run_row_def dest: tfind_key)
    moreover have "run_ok s q" using inv qs q(2) by (auto simp: hermes_inv_def)
    moreover have "context_kept s s' k" "caps_stay s s'" "references_clean s q \<longrightarrow> references_clean s' q"
      using t False qs q(2) by (simp_all add: touches_def)
    moreover have "references_clean s q" using calculation(2) by (simp add: run_ok_def row_clean_def)
    ultimately show ?thesis using run_ok_kept by simp
  qed (use q row ok in simp)
  have events: "\<exists>q. run_row s' (ev_run v) = Some q \<and> hermes_lane q" if "v \<in> set (run_events s')" for v
    using that t inv lane' row by (auto simp: touches_def hermes_inv_def)
  have receipts: "receipt_fits s' rc" if "rc \<in> set (start_receipts s')" for rc
  proof -
    have "receipt_fits s rc" using that t inv by (auto simp: touches_def hermes_inv_def)
    then obtain q b where q: "run_row s (sr_run rc) = Some q" "hermes_lane q" "run_workflow q = sr_workflow rc" "run_revision q = sr_revision rc"
      and b: "binding_row s (sr_run rc) = Some b" "bd_actor b = sr_actor rc"
      by (auto simp: receipt_fits_def)
    have "binding_row s' (sr_run rc) = Some b" using t b(1) by (simp add: binding_row_def touches_def)
    moreover have "run_row s' (sr_run rc) = Some (if sr_run rc = rid then r' else q)" using q(1) row by simp
    moreover have "run_workflow (if sr_run rc = rid then r' else q) = sr_workflow rc" "run_revision (if sr_run rc = rid then r' else q) = sr_revision rc"
      "hermes_lane (if sr_run rc = rid then r' else q)"
      using q r ev lane' by (auto simp: evolves_def immutable_binding_def)
    ultimately show ?thesis using b(2) unfolding receipt_fits_def by blast
  qed
  have la: "\<forall>k q. run_row s k = Some q \<longrightarrow> hermes_lane q \<longrightarrow> (run_active q \<longleftrightarrow> ln_active (admission s) = Some k)"
    and lb: "\<forall>k. ln_active (admission s) = Some k \<longrightarrow> (\<exists>q. run_row s k = Some q \<and> hermes_lane q)"
    using inv by (auto simp: hermes_inv_def lane_fits_def)
  have "lane_fits s'"
    unfolding lane_fits_def row
  proof (intro conjI allI impI)
    fix k q assume q: "(if k = rid then Some r' else run_row s k) = Some q" "hermes_lane q"
    show "run_active q \<longleftrightarrow> ln_active (admission s') = Some k"
    proof (cases "k = rid")
      case True
      then have "q = r'" using q by simp
      with True la r lane show ?thesis by auto
    next
      case False
      then have "run_active q \<longleftrightarrow> ln_active (admission s) = Some k" using q la by simp
      with False lane(2) show ?thesis by auto
    qed
  next
    fix k assume "ln_active (admission s') = Some k"
    then have "ln_active (admission s) = Some k" using lane(2) by (simp split: if_splits)
    with lb lane' show "\<exists>q. (if k = rid then Some r' else run_row s k) = Some q \<and> hermes_lane q" by auto
  qed
  moreover have "hermes_keys s'"
    using inv t by (simp add: hermes_inv_def hermes_keys_def touches_def runs)
  ultimately have "hermes_inv e s'" using parts oks events receipts by (simp add: hermes_inv_def)
  moreover have "\<exists>q'. run_row s' k = Some q' \<and> evolves q q'" if "run_row s k = Some q" for k q
    using that row r ev evolves_refl by (cases "k = rid") auto
  moreover have "\<exists>q. run_row s k = Some q \<and> hermes_lane q" if "run_row s' k = Some q'" "hermes_lane q'" for k q'
    using that row r by (cases "k = rid") auto
  moreover have "ln_disabled (admission s) \<longrightarrow> ln_disabled (admission s')" "\<exists>x. start_receipts s' = start_receipts s @ x" "caps_stay s s'"
    using t by (simp_all add: touches_def)
  moreover have "controls_stay s s'"
    using t own unfolding controls_stay_def touches_def context_kept_def by (metis ct_later_refl option.inject)
  ultimately show ?thesis unfolding hermes_keeps_def by blast
qed

lemma keeps_refl: "hermes_inv e s \<Longrightarrow> hermes_keeps e s s"
  using evolves_refl caps_stay_self by (auto simp: hermes_keeps_def controls_stay_def)

lemma keeps_inv: "hermes_keeps e s s' \<Longrightarrow> hermes_inv e s'"
  by (simp add: hermes_keeps_def)

lemma hermes_keeps_trans:
  assumes "hermes_keeps e a b" and "hermes_keeps e b c"
  shows "hermes_keeps e a c"
proof -
  have "\<exists>r''. run_row c k = Some r'' \<and> evolves r r''" if a: "run_row a k = Some r" "hermes_lane r" for k r
  proof -
    obtain r' where r': "run_row b k = Some r'" "evolves r r'" using assms(1) a unfolding hermes_keeps_def by blast
    then have "hermes_lane r'" using a(2) evolves_lane by simp
    with r' assms(2) show ?thesis unfolding hermes_keeps_def by (metis evolves_trans)
  qed
  moreover have "\<exists>x. start_receipts c = start_receipts a @ x" using assms by (auto simp: hermes_keeps_def)
  moreover have "caps_stay a c" using assms caps_stay_trans by (auto simp: hermes_keeps_def)
  moreover have "controls_stay a c"
    unfolding controls_stay_def
  proof (intro allI impI)
    fix k r ct assume k: "run_row a k = Some r" "hermes_lane r" "control_row a k = Some ct"
    obtain r' where r': "run_row b k = Some r'" "evolves r r'" using assms(1) k(1,2) unfolding hermes_keeps_def by blast
    obtain ct' where ct': "control_row b k = Some ct'" "ct_later ct ct'"
      using assms(1) k unfolding hermes_keeps_def controls_stay_def by blast
    obtain ct'' where "control_row c k = Some ct''" "ct_later ct' ct''"
      using assms(2) r' ct' k(2) evolves_lane unfolding hermes_keeps_def controls_stay_def by blast
    then show "\<exists>ct''. control_row c k = Some ct'' \<and> ct_later ct ct''" using ct'(2) ct_later_trans by blast
  qed
  moreover have "hermes_inv e c" using assms(2) by (simp add: hermes_keeps_def)
  moreover have "ln_disabled (admission c) \<and> (\<forall>k r'. run_row c k = Some r' \<longrightarrow> hermes_lane r' \<longrightarrow> (\<exists>r. run_row a k = Some r \<and> hermes_lane r))"
    if d: "ln_disabled (admission a)"
  proof -
    have "ln_disabled (admission b)" using assms(1) d unfolding hermes_keeps_def by blast
    then show ?thesis using assms d unfolding hermes_keeps_def by meson
  qed
  ultimately show ?thesis unfolding hermes_keeps_def by blast
qed

lemma invD:
  assumes "hermes_inv e s"
  shows "broker_inv e (core s)" "budget_inv (money s)" "hermes_keys s" "lane_fits s"
  using assms by (simp_all add: hermes_inv_def)

lemma run_okD:
  assumes "hermes_inv e s" and "run_row s rid = Some r" and "hermes_lane r"
  shows "run_ok s r" "run_pk r = rid" "run_active r \<longleftrightarrow> ln_active (admission s) = Some rid"
  using assms by (auto simp: hermes_inv_def lane_fits_def run_row_def dest: tfind_key)

text \<open>The five rows of a run.\<close>

lemma run_rowsE:
  assumes "hermes_inv e s" and "run_row s rid = Some r" and "hermes_lane r"
  obtains b ct x where "binding_row s rid = Some b" and "control_row s rid = Some ct" and "reservation_row s rid = Some x"
    and "reservation_fits x r" and "authority_fits s r b ct" and "ct_run ct = rid" and "res_run x = rid"
    and "x \<in> set (reservations (money s))"
  using run_okD [OF assms] by (auto simp: run_ok_def control_row_def reservation_row_def dest: tfind_key tfind_in)

lemma owns_own:
  assumes "hermes_inv e s" and "run_row s rid = Some r"
  shows "owns_run r s = (hermes_lane r, s)"
proof (cases "hermes_lane r")
  case True
  obtain b ct where "binding_row s rid = Some b" "control_row s rid = Some ct" using run_rowsE [OF assms True] by metis
  then show ?thesis using True run_okD(2) [OF assms True] by (simp add: owns_run_def)
qed (simp add: owns_run_def)

text \<open>Other runs keep their reservations: they are protected or closed.\<close>

lemma other_reservations:
  assumes inv: "hermes_inv e s" and sp: "spares (protected_runs s) {rid} (money s) m"
    and k: "k \<noteq> rid" "run_row s k = Some r" "hermes_lane r"
  shows "tfind res_run k (reservations m) = reservation_row s k"
proof -
  obtain x where x: "reservation_row s k = Some x" "reservation_fits x r" using run_rowsE [OF inv k(2,3)] by metis
  have "k \<in> set (protected_runs s)" if "run_active r"
  proof -
    have "r \<in> set (agent_runs (core s))" "run_pk r = k" using k(2) by (auto simp: run_row_def dest: tfind_in tfind_key)
    with that k(3) show ?thesis unfolding protected_runs_def by (auto simp: image_iff intro!: bexI [of _ r])
  qed
  then have "k \<in> set (protected_runs s) \<or> res_status x \<noteq> RESERVED" using x(2) by (auto simp: reservation_fits_def)
  then show ?thesis using x(1) sparesD [OF sp, of k x] k(1) by (auto simp: reservation_row_def)
qed

end
