(* ===== verification/Hermes_Keeps.thy ===== *)
theory Hermes_Keeps
  imports Hermes_Inv
begin

text \<open>
  Every operation of the lane keeps the invariant: first the small writes (closing the admissions, a
  control row, a revocation, an event), then the end of a run, its start, its acceptance, its admission.
\<close>

section \<open>Small writes\<close>

lemma row_of_run:
  assumes "run_row s rid = Some r" and "hermes_inv e s"
  shows "tput run_pk r (agent_runs (core s)) = agent_runs (core s)"
  using assms by (intro tput_id) (auto simp: run_row_def hermes_inv_def hermes_keys_def dest: tfind_in)

lemma references_same:
  assumes "revisions (base (core s')) = revisions (base (core s))" and "workflows (base (core s')) = workflows (base (core s))"
    and "policies (money s') = policies (money s)" and "Budget.profiles (money s') = Budget.profiles (money s)"
  shows "references_clean s' r = references_clean s r"
  using assms by (simp add: references_clean_def)

lemma authority_cong: "cap_row s' = cap_row s \<Longrightarrow> ct_capability ct' = ct_capability ct \<Longrightarrow> authority_fits s' r b ct' = authority_fits s r b ct"
  unfolding authority_fits_def by (elim ssubst) (rule refl)

lemma log_cong: "run_log s' (run_pk r) = run_log s (run_pk r) \<Longrightarrow> log_fits s' r = log_fits s r"
  by (simp add: log_fits_def numbered_def logged_status_def)

lemma close_lane_reads [hermes_simps]:
  "core (close_lane s) = core s" "money (close_lane s) = money s" "run_events (close_lane s) = run_events s"
  "start_receipts (close_lane s) = start_receipts s" "ln_active (admission (close_lane s)) = ln_active (admission s)"
  "ln_disabled (admission (close_lane s))"
  by (simp_all add: close_lane_def hermes_simps)

lemma keeps_close_lane:
  assumes "hermes_inv e s"
  shows "hermes_keeps e s (close_lane s)"
proof -
  have rows: "run_row (close_lane s) = run_row s" "binding_row (close_lane s) = binding_row s" "control_row (close_lane s) = control_row s"
    "reservation_row (close_lane s) = reservation_row s" "cap_row (close_lane s) = cap_row s" "run_log (close_lane s) = run_log s"
    by (simp_all add: row_defs run_log_def hermes_simps fun_eq_iff)
  have "references_clean (close_lane s) r = references_clean s r" for r by (rule references_same) (simp_all add: hermes_simps)
  then have "run_ok (close_lane s) r = run_ok s r" for r
    by (simp add: run_ok_def row_clean_def log_cong [of "close_lane s" r s] authority_cong [OF rows(5) refl] rows)
  then have "hermes_inv e (close_lane s)"
    using assms by (simp add: hermes_inv_def lane_fits_def hermes_keys_def receipt_fits_def rows hermes_simps)
  then show ?thesis using evolves_refl caps_stay_refl [of "close_lane s" s]
    by (auto simp: hermes_keeps_def controls_stay_def rows hermes_simps)
qed

lemma same_tables_inv: "broker_inv e d \<Longrightarrow> same_tables d d' \<Longrightarrow> broker_inv e d'"
  using keeps_same by (auto simp: keeps_def)

lemma keeps_control:
  assumes inv: "hermes_inv e s" and r: "run_row s rid = Some r" "hermes_lane r" and ct: "control_row s rid = Some ct"
    and ct': "ct_run ct' = rid" "ct_capability ct' = ct_capability ct" and later: "ct_later ct ct'"
  shows "hermes_keeps e s (save_control ct' s)"
proof (rule inv_update [OF inv r])
  obtain b x where rows: "binding_row s rid = Some b" "reservation_row s rid = Some x" "reservation_fits x r" "authority_fits s r b ct"
    using run_rowsE [OF inv r] ct by (metis option.inject)
  have c: "control_row (save_control ct' s) k = (if k = rid then Some ct' else control_row s k)" for k
    using ct by (simp add: control_row_def hermes_simps tfind_tput ct' split: option.splits)
  have same: "binding_row (save_control ct' s) = binding_row s" "reservation_row (save_control ct' s) = reservation_row s"
    "cap_row (save_control ct' s) = cap_row s" "run_log (save_control ct' s) = run_log s"
    by (simp_all add: row_defs run_log_def hermes_simps fun_eq_iff)
  have refs: "references_clean (save_control ct' s) q = references_clean s q" for q by (rule references_same) (simp_all add: hermes_simps)
  show "broker_inv e (core (save_control ct' s))"
    using invD(1) [OF inv] by (rule same_tables_inv) (simp add: same_tables_def hermes_simps)
  show "budget_inv (money (save_control ct' s))" using invD(2) [OF inv] by (simp add: hermes_simps)
  show "touches rid s (save_control ct' s)"
    using invD(3) [OF inv] by (simp add: touches_def context_kept_def c same refs caps_stay_refl hermes_keys_def hermes_simps)
  show "agent_runs (core (save_control ct' s)) = tput run_pk r (agent_runs (core s))"
    using row_of_run [OF r(1) inv] by (simp add: hermes_simps)
  have "authority_fits (save_control ct' s) r b ct'" using rows(4) authority_cong [OF same(3) ct'(2)] by simp
  then show "run_ok (save_control ct' s) r"
    using run_okD [OF inv r] rows c log_cong [of "save_control ct' s" r s] unfolding run_ok_def row_clean_def same refs by simp
  show "control_row (save_control ct' s) rid = Some ct'" using c by simp
qed (use evolves_refl run_okD [OF inv r] ct later in \<open>simp_all add: hermes_simps\<close>)

lemma close_control_ok:
  assumes inv: "hermes_inv e s" and r: "run_row s rid = Some r" "hermes_lane r"
  shows "hermes_keeps e s (close_control rid s)"
proof -
  obtain ct where "control_row s rid = Some ct" "ct_run ct = rid" using run_rowsE [OF inv r] by metis
  then show ?thesis using keeps_control [OF inv r, of ct "ct\<lparr>ct_disabled := True\<rparr>"] by (simp add: close_control_def ct_later_def)
qed

section \<open>Changes of the other tables\<close>

text \<open>
  What every other transaction leaves of the lane's tables: the Hermes runs, their bindings and controls,
  and the event that a run's workflow and revision share (foreign keys protect both rows).
\<close>

definition others_kept :: "hermes_db \<Rightarrow> draft_db \<Rightarrow> bool" where
  "others_kept s d \<longleftrightarrow> filter hermes_lane (agent_runs d) = filter hermes_lane (agent_runs (core s))
     \<and> keys_ok run_pk (agent_runs d) \<and> bindings d = bindings (core s) \<and> controls d = controls (core s)
     \<and> list_all (\<lambda>r. references_clean s r \<longrightarrow> references_clean (s\<lparr>core := d\<rparr>) r) (filter hermes_lane (agent_runs d))"

lemma hermes_row_iff:
  "keys_ok run_pk t \<Longrightarrow> (tfind run_pk k t = Some r \<and> hermes_lane r) \<longleftrightarrow> (r \<in> set (filter hermes_lane t) \<and> run_pk r = k)"
  using tfind_unique [of run_pk t r] by (auto dest: tfind_in tfind_key)

lemma keeps_core:
  assumes inv: "hermes_inv e s" and k: "keeps e (core s) d" and o: "others_kept s d"
  shows "hermes_keeps e s (s\<lparr>core := d\<rparr>)"
proof -
  let ?s = "s\<lparr>core := d\<rparr>"
  have keys: "keys_ok run_pk (agent_runs (core s))" "keys_ok run_pk (agent_runs d)"
    using inv o by (simp_all add: hermes_inv_def hermes_keys_def others_kept_def)
  have row: "run_row ?s k = Some r \<and> hermes_lane r \<longleftrightarrow> run_row s k = Some r \<and> hermes_lane r" for k r
  proof -
    have "set (filter hermes_lane (agent_runs d)) = set (filter hermes_lane (agent_runs (core s)))" using o by (simp only: others_kept_def)
    moreover have "core ?s = d" by simp
    ultimately show ?thesis using hermes_row_iff [OF keys(1), of k r] hermes_row_iff [OF keys(2), of k r] by (simp only: run_row_def)
  qed
  have same: "binding_row ?s = binding_row s" "control_row ?s = control_row s" "reservation_row ?s = reservation_row s" "run_log ?s = run_log s"
    using o by (simp_all add: row_defs run_log_def others_kept_def fun_eq_iff)
  have caps: "caps_stay s ?s"
    using k by (intro caps_stay_kept) (simp_all add: keeps_def grows_def broker_inv_def broker_keys_def)
  have oks: "run_ok ?s r" if "run_row ?s k = Some r" "hermes_lane r" for k r
  proof -
    have r: "run_row s k = Some r" using that row by blast
    have in_d: "r \<in> set (filter hermes_lane (agent_runs d))" using that by (auto simp: run_row_def dest: tfind_in)
    have ok: "run_ok s r" "run_pk r = k" using run_okD [OF inv r that(2)] by simp_all
    have "references_clean s r" using ok(1) by (simp add: run_ok_def row_clean_def)
    moreover have "list_all (\<lambda>r. references_clean s r \<longrightarrow> references_clean ?s r) (filter hermes_lane (agent_runs d))"
      using o unfolding others_kept_def by blast
    ultimately have "references_clean ?s r" using in_d unfolding list_all_iff by blast
    moreover have "context_kept s ?s k" by (simp add: context_kept_def same)
    ultimately show ?thesis using caps ok run_ok_kept by metis
  qed
  have "receipt_fits ?s rc" if "receipt_fits s rc" for rc
    using that row same(1) unfolding receipt_fits_def by metis
  moreover have "lane_fits ?s" using inv row unfolding hermes_inv_def lane_fits_def by simp metis
  moreover have "\<exists>r. run_row ?s k = Some r \<and> hermes_lane r" if "\<exists>r. run_row s k = Some r \<and> hermes_lane r" for k
    using that row by blast
  ultimately have "hermes_inv e ?s"
    using inv keys o k oks by (simp add: hermes_inv_def hermes_keys_def others_kept_def keeps_def)
  moreover have "\<exists>r'. run_row ?s k = Some r' \<and> evolves r r'" if "run_row s k = Some r" "hermes_lane r" for k r
    using that row evolves_refl by blast
  moreover have "\<exists>r. run_row s k = Some r \<and> hermes_lane r" if "run_row ?s k = Some r'" "hermes_lane r'" for k r'
    using that row by blast
  moreover have "admission ?s = admission s" "start_receipts ?s = start_receipts s @ []" by simp_all
  moreover have "controls_stay s ?s" by (simp add: controls_stay_def same)
  ultimately show ?thesis using caps unfolding hermes_keeps_def by metis
qed

lemma others_same:
  assumes "hermes_inv e s" and "agent_runs d = agent_runs (core s)" and "bindings d = bindings (core s)" and "controls d = controls (core s)"
    and "revisions (base d) = revisions (base (core s))" and "workflows (base d) = workflows (base (core s))"
  shows "others_kept s d"
  using assms references_same [of "s\<lparr>core := d\<rparr>" s] by (simp add: others_kept_def hermes_inv_def hermes_keys_def list_all_iff)

section \<open>Revocation\<close>

definition authority_ended :: "hermes_db \<Rightarrow> run_control \<Rightarrow> bool" where
  "authority_ended s ct \<longleftrightarrow>
     (case ct_capability ct of
        None \<Rightarrow> True
      | Some k \<Rightarrow> (case cap_row s k of None \<Rightarrow> False | Some cap \<Rightarrow> cap_revoked cap \<noteq> None))"

lemma ended_cong:
  assumes "capabilities (core s') = capabilities (core s)" and "ct_capability ct' = ct_capability ct"
  shows "authority_ended s' ct' = authority_ended s ct"
proof -
  have "cap_row s' = cap_row s" by (simp add: cap_row_def assms(1) fun_eq_iff)
  then show ?thesis unfolding authority_ended_def assms(2) by (elim ssubst) (rule refl)
qed

lemma revoke_record_ok:
  assumes inv: "hermes_inv e s" and r: "run_row s rid = Some r" "hermes_lane r" and ct: "control_row s rid = Some ct0"
    and same: "ct_capability ct = ct_capability ct0"
  shows "\<exists>d. revoke_record now ct s = Some (s\<lparr>core := d\<rparr>) \<and> hermes_keeps e s (s\<lparr>core := d\<rparr>) \<and> agent_runs d = agent_runs (core s)
     \<and> bindings d = bindings (core s) \<and> controls d = controls (core s) \<and> authority_ended (s\<lparr>core := d\<rparr>) ct0"
proof (cases "ct_capability ct0")
  case None
  then show ?thesis using same keeps_refl [OF inv] by (intro exI [of _ "core s"]) (simp add: revoke_record_def authority_ended_def)
next
  case (Some k)
  obtain b where "authority_fits s r b ct0" using run_rowsE [OF inv r] ct by (metis option.inject)
  then obtain cap where cap: "cap_row s k = Some cap" using Some by (auto simp: authority_fits_def split: option.splits)
  then have ck: "cap \<in> set (capabilities (core s))" "cap_pk cap = k" by (auto simp: cap_row_def dest: tfind_in tfind_key)
  show ?thesis
  proof (cases "cap_revoked cap")
    case None
    let ?d = "record_audit (Some (cap_actor cap)) ''mcp.capability_revoked'' ''workflow'' (cap_workflow cap) [(''capability_id'', JStr (cap_pk cap))]
       ((core s)\<lparr>capabilities := tput cap_pk (cap\<lparr>cap_revoked := Some now\<rparr>) (capabilities (core s))\<rparr>)"
    have "cap_later cap (cap\<lparr>cap_revoked := Some now\<rparr>)" using None by (simp add: cap_later_def)
    then have "keeps e (core s) ?d" using keeps_capability [OF invD(1) [OF inv] ck(1)] keeps_audit by blast
    moreover have "others_kept s ?d" by (rule others_same [OF inv]) (simp_all add: hermes_simps)
    ultimately have "hermes_keeps e s (s\<lparr>core := ?d\<rparr>)" by (rule keeps_core [OF inv])
    moreover have "revoke_record now ct s = Some (s\<lparr>core := ?d\<rparr>)"
      using Some same cap None by (simp add: revoke_record_def cap_row_def)
    moreover have "authority_ended (s\<lparr>core := ?d\<rparr>) ct0"
      using Some cap ck by (simp add: authority_ended_def cap_row_def hermes_simps tfind_tput)
    ultimately show ?thesis by (intro exI [of _ ?d]) (simp add: hermes_simps)
  next
    case (Some t)
    then show ?thesis using \<open>ct_capability ct0 = Some k\<close> same cap keeps_refl [OF inv]
      by (intro exI [of _ "core s"]) (simp add: revoke_record_def cap_row_def authority_ended_def)
  qed
qed

section \<open>Events\<close>

lemma with_event_tables [simp]: "same_tables (core s) (core (with_event e rid a t how h s))"
  by (simp add: same_tables_def hermes_simps)

lemma with_event_events: "\<exists>x. run_events (with_event e rid a t how h s) = run_events s @ x \<and> (\<forall>v \<in> set x. ev_run v = rid)"
  by (simp add: with_event_def)

lemma keeps_cancel_event:
  assumes inv: "hermes_inv e s" and r: "run_row s rid = Some r" "hermes_lane r"
  shows "hermes_keeps e s (with_event e rid a ''cancel_requested'' how h s)"
proof -
  let ?s = "with_event e rid a ''cancel_requested'' how h s"
  obtain b ct x where rows: "binding_row s rid = Some b" "control_row s rid = Some ct" "reservation_row s rid = Some x"
    "reservation_fits x r" "authority_fits s r b ct"
    using run_rowsE [OF inv r] by metis
  show ?thesis
  proof (rule inv_update [OF inv r])
    have same: "binding_row ?s = binding_row s" "reservation_row ?s = reservation_row s" "cap_row ?s = cap_row s" "control_row ?s = control_row s"
      by (simp_all add: row_defs hermes_simps fun_eq_iff)
    have refs: "references_clean ?s q = references_clean s q" for q by (rule references_same) (simp_all add: hermes_simps)
    show "broker_inv e (core ?s)" using invD(1) [OF inv] by (rule same_tables_inv) simp
    show "touches rid s ?s"
      using invD(3) [OF inv] with_event_events
      by (simp add: touches_def context_kept_def same refs caps_stay_refl hermes_keys_def hermes_simps)
    show "agent_runs (core ?s) = tput run_pk r (agent_runs (core s))" using row_of_run [OF r(1) inv] by (simp add: hermes_simps)
    have "authority_fits ?s r b ct" using rows(5) authority_cong [OF same(3) refl] by simp
    moreover have "log_fits ?s r"
      using run_okD(1,2) [OF inv r] numbered_event [of s rid] by (simp add: run_ok_def log_fits_def logged_event)
    ultimately show "run_ok ?s r"
      using run_okD [OF inv r] rows unfolding run_ok_def row_clean_def same refs by simp
    show "control_row s rid = Some ct" "control_row ?s rid = Some ct" using rows(2) same(4) by simp_all
  qed (use evolves_refl run_okD [OF inv r] invD(2) [OF inv] in \<open>simp_all add: hermes_simps\<close>)
qed

section \<open>The end of a run\<close>

lemma set_runs_reads [hermes_simps]:
  "agent_runs (core (set_runs rs s)) = rs" "bindings (core (set_runs rs s)) = bindings (core s)" "controls (core (set_runs rs s)) = controls (core s)"
  "capabilities (core (set_runs rs s)) = capabilities (core s)" "submissions (core (set_runs rs s)) = submissions (core s)"
  "intents (core (set_runs rs s)) = intents (core s)" "invocations (core (set_runs rs s)) = invocations (core s)"
  "base (core (set_runs rs s)) = base (core s)" "money (set_runs rs s) = money s" "admission (set_runs rs s) = admission s"
  "run_events (set_runs rs s) = run_events s" "start_receipts (set_runs rs s) = start_receipts s"
  by (simp_all add: set_runs_def)

lemma leave_lane_reads [hermes_simps]:
  "core (leave_lane rid s) = core s" "money (leave_lane rid s) = money s" "run_events (leave_lane rid s) = run_events s"
  "start_receipts (leave_lane rid s) = start_receipts s"
  "ln_active (admission (leave_lane rid s)) = (if ln_active (admission s) = Some rid then None else ln_active (admission s))"
  "ln_disabled (admission (leave_lane rid s)) = ln_disabled (admission s)"
  by (simp_all add: leave_lane_def hermes_simps)

text \<open>The shared shape of the transactions that write the run and log the new status.\<close>

definition logged_write :: "py_env \<Rightarrow> string \<Rightarrow> string \<Rightarrow> string \<Rightarrow> agent_run \<Rightarrow> hermes_db \<Rightarrow> hermes_db" where
  "logged_write e a how h r s = with_event e (run_pk r) a (status_text (run_status r)) how h (set_runs (tput run_pk r (agent_runs (core s))) s)"

lemma status_text_simps [simp]: "length (status_text u) \<le> 100" "status_text u \<noteq> ''cancel_requested''"
  by (cases u; simp)+

lemma category_text_length [simp]: "length (category_text k) \<le> 100"
  by (cases k) simp_all

lemma logged_write_reads [hermes_simps]:
  "agent_runs (core (logged_write e a how h r s)) = tput run_pk r (agent_runs (core s))"
  "bindings (core (logged_write e a how h r s)) = bindings (core s)" "controls (core (logged_write e a how h r s)) = controls (core s)"
  "capabilities (core (logged_write e a how h r s)) = capabilities (core s)" "submissions (core (logged_write e a how h r s)) = submissions (core s)"
  "intents (core (logged_write e a how h r s)) = intents (core s)" "invocations (core (logged_write e a how h r s)) = invocations (core s)"
  "revisions (base (core (logged_write e a how h r s))) = revisions (base (core s))"
  "workflows (base (core (logged_write e a how h r s))) = workflows (base (core s))"
  "money (logged_write e a how h r s) = money s" "admission (logged_write e a how h r s) = admission s"
  "start_receipts (logged_write e a how h r s) = start_receipts s"
  by (simp_all add: logged_write_def hermes_simps)

lemma logged_write_log:
  assumes "numbered s (run_pk r)"
  shows "log_fits (logged_write e a how h r s) r"
proof -
  have "run_log (set_runs rs s) = run_log s" for rs by (simp add: run_log_def hermes_simps fun_eq_iff)
  then have "numbered (set_runs rs s) (run_pk r)" for rs using assms by (simp add: numbered_def)
  from numbered_event [OF this] show ?thesis by (simp add: log_fits_def logged_write_def logged_event)
qed

lemma logged_write_events:
  "\<exists>x. run_events (logged_write e a how h r s) = run_events s @ x \<and> (\<forall>v \<in> set x. ev_run v = run_pk r)"
  by (simp add: logged_write_def with_event_def hermes_simps)

lemma logged_write_other: "k \<noteq> run_pk r \<Longrightarrow> run_log (logged_write e a how h r s) k = run_log s k"
  by (simp add: logged_write_def hermes_simps) (simp add: run_log_def hermes_simps)

lemma save_then_log:
  assumes "run_row s (run_pk r') = Some r" and "immutable_binding r = immutable_binding r'" and "run_clean s r'"
    and "numbered s (run_pk r')" and "binding_row s (run_pk r') = Some b" and "length how \<le> 100"
  shows "\<exists>h. try_bind (save_run r' s) (\<lambda>s2. add_event e (run_pk r') (status_text (run_status r')) how s2)
     = Inr (logged_write e (bd_actor b) how h r' s)"
proof -
  let ?s = "set_runs (tput run_pk r' (agent_runs (core s))) s"
  have "save_run r' s = Inr ?s" using assms by (simp add: save_run_def)
  moreover have "numbered ?s (run_pk r')" "binding_row ?s (run_pk r') = Some b"
    using assms(4,5) by (simp_all add: numbered_def run_log_def binding_row_def hermes_simps)
  ultimately show ?thesis
    using add_event_ok [of ?s "run_pk r'" b "status_text (run_status r')" how e] assms(6) by (auto simp: logged_write_def)
qed

lemma with_usage_simps [simp]:
  "run_pk (with_usage ro r) = run_pk r" "run_status (with_usage ro r) = run_status r" "started_at (with_usage ro r) = started_at r"
  "immutable_binding (with_usage ro r) = immutable_binding r" "hermes_lane (with_usage ro r) = hermes_lane r"
  "run_hash (with_usage ro r) = run_hash r" "fixture_of (with_usage ro r) = fixture_of r" "run_privacy (with_usage ro r) = run_privacy r"
  "trace_id (with_usage ro r) = trace_id r" "run_attempt (with_usage ro r) = run_attempt r" "span_count (with_usage ro r) = span_count r"
  "fixture_id (with_usage ro r) = fixture_id r" "fixture_digest (with_usage ro r) = fixture_digest r" "run_failure (with_usage ro r) = run_failure r"
  by (auto simp: with_usage_def immutable_binding_def fixture_of_def split: option.splits)

lemma with_usage_billed:
  assumes "usage_of_run r = (0, 0, 0) \<or> settled_cost x \<noteq> None \<and> settled_input x \<noteq> None \<and> settled_output x \<noteq> None"
  shows "usage_of_run (with_usage (Some x) r) = billed x"
  using assms by (auto simp: usage_of_run_def with_usage_def billed_def split: option.splits)

lemma columns_usage:
  assumes "columns_clean r" and "usage_of_run r' = (i, out, k)" and "0 \<le> i" and "0 \<le> out" and "0 \<le> k"
    and "run_hash r' = run_hash r" "fixture_id r' = fixture_id r" "fixture_digest r' = fixture_digest r" "trace_id r' = trace_id r"
      "run_attempt r' = run_attempt r" "span_count r' = span_count r"
  shows "columns_clean r'"
  using assms by (simp add: columns_clean_def usage_of_run_def)

lemma ended_simps [simp]:
  "run_pk (ended_run now k r) = run_pk r" "immutable_binding (ended_run now k r) = immutable_binding r"
  "run_status (ended_run now k r) = ended_status k" "\<not> run_active (ended_run now k r)" "hermes_lane (ended_run now k r) = hermes_lane r"
  "lifecycle_clean (ended_run now k r)" "usage_of_run (ended_run now k r) = usage_of_run r" "run_hash (ended_run now k r) = run_hash r"
  "fixture_id (ended_run now k r) = fixture_id r" "fixture_digest (ended_run now k r) = fixture_digest r" "trace_id (ended_run now k r) = trace_id r"
  "run_attempt (ended_run now k r) = run_attempt r" "span_count (ended_run now k r) = span_count r"
  by (cases k; simp add: ended_run_def immutable_binding_def run_active_def lifecycle_clean_def usage_of_run_def)+

lemma immutable_clean:
  assumes "immutable_binding r' = immutable_binding r"
  shows "fixture_clean r' = fixture_clean r" "references_clean s r' = references_clean s r" "bound_to r' b cap = bound_to r b cap"
proof -
  have f: "fixture_of r' = fixture_of r" "hermes_lane r' = hermes_lane r" "run_privacy r' = run_privacy r" "run_workflow r' = run_workflow r"
    "run_revision r' = run_revision r" "run_policy r' = run_policy r" "run_profile r' = run_profile r"
    using assms by (simp_all add: immutable_binding_def fixture_of_def)
  show "fixture_clean r' = fixture_clean r" unfolding fixture_clean_def f by (rule refl)
  show "references_clean s r' = references_clean s r" unfolding references_clean_def f by (rule refl)
  show "bound_to r' b cap = bound_to r b cap" by (simp add: bound_to_def f)
qed

text \<open>The run of an ended transaction: its reservation is closed, its authority is over.\<close>

lemma terminal_ok:
  assumes inv: "hermes_inv e s" and r: "run_row s rid = Some r" "hermes_lane r" and act: "run_active r"
    and ct: "control_row s rid = Some ct" and over: "authority_ended s ct"
  shows "\<exists>s' x. terminal e now billable k r s = Inr s' \<and> hermes_keeps e s s' \<and> reservation_row s rid = Some x
    \<and> run_row s' rid = Some (ended_run now k (with_usage (Some (if billable then charged x else released x)) r))
    \<and> reservation_row s' rid = Some (if billable then charged x else released x)
    \<and> ln_active (admission s') = None \<and> ln_disabled (admission s') = ln_disabled (admission s) \<and> controls (core s') = controls (core s)
    \<and> capabilities (core s') = capabilities (core s)"
proof -
  obtain b x where rows: "binding_row s rid = Some b" "reservation_row s rid = Some x" "reservation_fits x r" "authority_fits s r b ct"
    "res_run x = rid" "x \<in> set (reservations (money s))"
    using run_rowsE [OF inv r] ct by (metis option.inject)
  note ok = run_okD [OF inv r]
  let ?x = "if billable then charged x else released x"
  let ?r = "ended_run now k (with_usage (Some ?x) r)"
  have open_x: "res_status x = RESERVED" "settled_cost x = None" "0 \<le> estimated_input x" "0 \<le> estimated_output x" "0 \<le> reserved_cost x"
    using rows act invD(2) [OF inv] by (auto simp: reservation_fits_def budget_inv_def res_ok_def)
  obtain m where m: "(if billable then charge_reserved_budget rid (money s) else release_budget rid (money s)) = Inr (Some ?x, m)"
    "budget_inv m" "tfind res_run rid (reservations m) = Some ?x" "same_prices (money s) m" "spares (protected_runs s) {rid} (money s) m"
    using close_reservation_ok [OF invD(2) [OF inv], of rid x billable] rows(2) open_x(1) unfolding reservation_row_def by metis
  let ?s1 = "s\<lparr>money := m\<rparr>"
  have zero: "usage_of_run r = (0, 0, 0)" using rows(3) open_x(2) by (simp add: reservation_fits_def billed_def split: option.splits)
  have usage: "usage_of_run ?r = billed ?x"
    using with_usage_billed [of r ?x] zero by simp
  have nonneg: "\<exists>i out k. billed ?x = (i, out, k) \<and> 0 \<le> i \<and> 0 \<le> out \<and> 0 \<le> k"
    using open_x by (simp add: billed_def charged_def released_def split: option.splits)
  have imm: "immutable_binding ?r = immutable_binding r" by simp
  have clean: "columns_clean r" "fixture_clean r" "references_clean s r" using ok(1) by (simp_all add: run_ok_def row_clean_def)
  have refs: "references_clean ?s1 r' = references_clean s r'" for r'
    using m(4) by (intro references_same) (simp_all add: same_prices_def)
  obtain i out c where ioc: "usage_of_run ?r = (i, out, c)" "0 \<le> i" "0 \<le> out" "0 \<le> c" using nonneg usage by auto
  have "columns_clean ?r" by (rule columns_usage [OF clean(1) ioc]) simp_all
  moreover have "one_active_hermes_run ?s1 ?r" by (simp add: one_active_hermes_run_def)
  ultimately have rc: "run_clean ?s1 ?r" using clean immutable_clean [OF imm] refs by (simp add: run_clean_def)
  have num: "numbered s rid" using ok(1,2) by (simp add: run_ok_def log_fits_def)
  obtain h where h: "try_bind (save_run ?r ?s1) (\<lambda>s2. add_event e (run_pk ?r) (status_text (run_status ?r)) (category_text k) s2)
     = Inr (logged_write e (bd_actor b) (category_text k) h ?r ?s1)"
    using save_then_log [of ?s1 ?r r b "category_text k" e] r(1) rows(1) num rc ok(2)
    by (auto simp: row_defs numbered_def run_log_def)
  let ?s' = "leave_lane rid (logged_write e (bd_actor b) (category_text k) h ?r ?s1)"
  have tm: "terminal e now billable k r s = Inr ?s'"
    using h m(1) ok(2) by (simp add: terminal_def close_reservation_def Let_def try_bind_eq_Inr) (auto simp: try_bind_eq_Inr)
  have lane: "ln_active (admission s) = Some rid" using ok(3) act by simp
  have "hermes_keeps e s ?s'"
  proof (rule inv_update [OF inv r])
    have same: "binding_row ?s' = binding_row s" "control_row ?s' = control_row s" "cap_row ?s' = cap_row s"
      by (simp_all add: row_defs hermes_simps fun_eq_iff)
    have res: "reservation_row ?s' q = (if q = rid then Some ?x else tfind res_run q (reservations m))" for q
      using m(3) by (simp add: reservation_row_def hermes_simps)
    have log: "run_log ?s' q = run_log s q" if "q \<noteq> rid" for q
      using logged_write_other [of q ?r e "bd_actor b" "category_text k" h ?s1] that ok(2) by (simp add: run_log_def hermes_simps)
    have refs': "references_clean ?s' r' = references_clean s r'" for r'
      using m(4) by (intro references_same) (simp_all add: same_prices_def hermes_simps)
    show "broker_inv e (core ?s')"
      using invD(1) [OF inv] by (rule same_tables_inv) (simp add: same_tables_def hermes_simps)
    show "touches rid s ?s'"
      using invD(3) [OF inv] logged_write_events [of e "bd_actor b" "category_text k" h ?r ?s1] ok(2) other_reservations [OF inv m(5)]
      by (simp add: touches_def context_kept_def same res log refs' caps_stay_refl hermes_keys_def hermes_simps reservation_row_def)
    have "authority_fits ?s' ?r b ct"
      using rows(4) over immutable_clean(3) [OF imm] act unfolding authority_fits_def authority_ended_def same
      by (cases k) (auto split: option.splits simp: run_active_def)
    moreover have "log_fits ?s' ?r"
      using logged_write_log [of ?s1 ?r e "bd_actor b" "category_text k" h] num ok(2)
      by (simp add: log_fits_def numbered_def logged_status_def run_log_def hermes_simps)
    moreover have "reservation_fits ?x ?r"
      using usage by (cases k) (simp_all add: reservation_fits_def charged_def released_def)
    ultimately show "run_ok ?s' ?r"
      using rc refs' refs rows(1) ct ok(2) res unfolding run_ok_def row_clean_def run_clean_def same by simp
    show "evolves r ?r"
      using imm act by (cases k) (auto simp: evolves_def run_active_def)
    show "control_row s rid = Some ct" "control_row ?s' rid = Some ct" using ct same(2) by simp_all
  qed (use m(2) act lane ok(2) in \<open>simp_all add: hermes_simps\<close>)
  moreover have "run_row ?s' rid = Some ?r"
    using r(1) ok(2) by (simp add: run_row_def hermes_simps tfind_tput)
  moreover have "reservation_row ?s' rid = Some ?x" using m(3) by (simp add: reservation_row_def hermes_simps)
  ultimately show ?thesis using tm rows(2) lane by (intro exI [of _ ?s'] exI [of _ x]) (simp add: hermes_simps)
qed

text \<open>\<open>_finish\<close> always ends an active run, with the bill, the category and the quarantine it computes.\<close>

lemma finish_ok:
  assumes inv: "hermes_inv e s" and r: "run_row s rid = Some r" "hermes_lane r" and act: "run_active r"
    and ct: "control_row s rid = Some ct" and x: "reservation_row s rid = Some x"
  shows "\<exists>s'. finish_run e now rid k billable cleanup s = Inr (Some (finished_as ct (cleanup \<and> \<not> unbilled r billable) k), s') \<and> hermes_keeps e s s'
    \<and> run_row s' rid = Some (ended_run now (finished_as ct (cleanup \<and> \<not> unbilled r billable) k)
         (with_usage (Some (if billable \<or> unbilled r billable then charged x else released x)) r))
    \<and> reservation_row s' rid = Some (if billable \<or> unbilled r billable then charged x else released x)
    \<and> ln_active (admission s') = None
    \<and> (if cleanup \<and> \<not> unbilled r billable then ln_disabled (admission s') = ln_disabled (admission s) \<and> controls (core s') = controls (core s)
       else ln_disabled (admission s') \<and> control_row s' rid = Some (ct\<lparr>ct_disabled := True\<rparr>))"
proof -
  let ?clean = "cleanup \<and> \<not> unbilled r billable"
  obtain d where d: "revoke_record now ct s = Some (s\<lparr>core := d\<rparr>)" "hermes_keeps e s (s\<lparr>core := d\<rparr>)" "agent_runs d = agent_runs (core s)"
    "bindings d = bindings (core s)" "controls d = controls (core s)" "authority_ended (s\<lparr>core := d\<rparr>) ct"
    using revoke_record_ok [OF inv r ct refl] by blast
  let ?s2 = "s\<lparr>core := d\<rparr>"
  define s3 where "s3 = (if ?clean then ?s2 else close_control rid (close_lane ?s2))"
  have r2: "run_row ?s2 rid = Some r" and c2: "control_row ?s2 rid = Some ct" and ck: "ct_run ct = rid"
    using r(1) ct d(3,5) by (auto simp: run_row_def control_row_def dest: tfind_key)
  have k1: "hermes_keeps e ?s2 (close_lane ?s2)" using keeps_close_lane keeps_inv [OF d(2)] by blast
  have rl: "run_row (close_lane ?s2) rid = Some r" using r2 by (simp add: run_row_def hermes_simps)
  have c3: "close_control rid (close_lane ?s2) = save_control (ct\<lparr>ct_disabled := True\<rparr>) (close_lane ?s2)"
    using c2 by (simp add: close_control_def control_row_def hermes_simps)
  have k3: "hermes_keeps e s s3"
    using d(2) hermes_keeps_trans [OF d(2) hermes_keeps_trans [OF k1 close_control_ok [OF keeps_inv [OF k1] rl r(2)]]] by (simp add: s3_def)
  obtain ct' where c': "control_row s3 rid = Some ct'" "ct_capability ct' = ct_capability ct"
      "if ?clean then ct' = ct else ct' = ct\<lparr>ct_disabled := True\<rparr>"
    using c2 ck c3 by (cases ?clean) (auto simp: s3_def control_row_def hermes_simps tfind_tput)
  have r3: "run_row s3 rid = Some r" using r2 c3 by (simp add: s3_def run_row_def hermes_simps)
  have "capabilities (core s3) = capabilities (core ?s2)" using c3 by (simp add: s3_def hermes_simps)
  then have over: "authority_ended s3 ct'" using d(6) c'(2) ended_cong by metis
  have x3: "reservation_row s3 rid = Some x" using x c3 by (simp add: s3_def reservation_row_def hermes_simps)
  let ?k = "finished_as ct ?clean k" and ?b = "billable \<or> unbilled r billable"
  obtain s' where t: "terminal e now ?b ?k r s3 = Inr s'" "hermes_keeps e s3 s'"
      "run_row s' rid = Some (ended_run now ?k (with_usage (Some (if ?b then charged x else released x)) r))"
      "reservation_row s' rid = Some (if ?b then charged x else released x)" "ln_active (admission s') = None"
      "ln_disabled (admission s') = ln_disabled (admission s3)" "controls (core s') = controls (core s3)"
    using terminal_ok [OF keeps_inv [OF k3] r3 r(2) act c'(1) over, of now ?b ?k] x3 by auto
  have "finish_run e now rid k billable cleanup s = Inr (Some ?k, s')"
    using r act ct d(1) t(1) owns_own [OF inv r(1)] unfolding s3_def
    by (cases cleanup; cases "unbilled r billable") (simp_all add: finish_run_def Let_def)
  moreover have "if ?clean then ln_disabled (admission s') = ln_disabled (admission s) \<and> controls (core s') = controls (core s)
       else ln_disabled (admission s') \<and> control_row s' rid = Some (ct\<lparr>ct_disabled := True\<rparr>)"
    using t(6,7) c'(1,3) c3 d(5) by (auto simp: s3_def control_row_def hermes_simps)
  ultimately show ?thesis using hermes_keeps_trans [OF k3 t(2)] t(3-5) by blast
qed

lemma finish_idle:
  assumes "hermes_inv e s" and "run_row s rid = Some r" and "\<not> (hermes_lane r \<and> run_active r)"
  shows "finish_run e now rid k billable cleanup s = Inr (None, s)"
  using assms owns_own [OF assms(1,2)] by (auto simp: finish_run_def)

lemma finish_keeps:
  assumes inv: "hermes_inv e s" and "finish_run e now rid k billable cleanup s = Inr (ko, s')"
  shows "hermes_keeps e s s'"
proof -
  obtain r where r: "run_row s rid = Some r" using assms(2) by (auto simp: finish_run_def try_bind_eq_Inr of_option_eq_Inr)
  show ?thesis
  proof (cases "hermes_lane r \<and> run_active r")
    case True
    then obtain ct x where "control_row s rid = Some ct" "reservation_row s rid = Some x" using run_rowsE [OF inv r] by metis
    from finish_ok [OF inv r _ _ this, of now k billable cleanup] True assms(2) show ?thesis by auto
  next
    case False
    with finish_idle [OF inv r] assms(2) keeps_refl [OF inv] show ?thesis by auto
  qed
qed

lemma fail_keeps:
  assumes "hermes_inv e s" and "fail_run e now rid x billable redelivery cancelled s = Inr s'"
  shows "hermes_keeps e s s'"
  using assms finish_keeps keeps_refl by (auto simp: fail_run_def try_bind_eq_Inr split: if_splits)

section \<open>Cancellation\<close>

lemma cancel_ok:
  assumes inv: "hermes_inv e s" and r: "run_row s rid = Some r" "hermes_lane r" and act: "run_active r"
    and ct: "control_row s rid = Some ct" "ct_cancel ct = None" and x: "reservation_row s rid = Some x"
  shows "\<exists>s'. cancel_hermes_run e now rid s = Inr s' \<and> hermes_keeps e s s' \<and> control_row s' rid = Some (ct\<lparr>ct_cancel := Some now\<rparr>)
    \<and> ln_disabled (admission s') = ln_disabled (admission s) \<and> authority_ended s' ct
    \<and> (if run_status r = RUN_QUEUED then run_row s' rid = Some (ended_run now F_CANCELLED (with_usage (Some (released x)) r))
         \<and> reservation_row s' rid = Some (released x) \<and> ln_active (admission s') = None
       else run_row s' rid = Some r \<and> ln_active (admission s') = ln_active (admission s))"
proof -
  let ?ct = "ct\<lparr>ct_cancel := Some now\<rparr>" and ?s2 = "save_control (ct\<lparr>ct_cancel := Some now\<rparr>) s"
  have ck: "ct_run ct = rid" using ct(1) by (auto simp: control_row_def dest: tfind_key)
  have k2: "hermes_keeps e s ?s2" using keeps_control [OF inv r ct(1), of ?ct] ck ct(2) by (simp add: ct_later_def)
  have r2: "run_row ?s2 rid = Some r" and c2: "control_row ?s2 rid = Some ?ct"
    using r(1) ct(1) ck by (simp_all add: run_row_def control_row_def hermes_simps tfind_tput)
  obtain d where d: "revoke_record now ?ct ?s2 = Some (?s2\<lparr>core := d\<rparr>)" "hermes_keeps e ?s2 (?s2\<lparr>core := d\<rparr>)" "agent_runs d = agent_runs (core ?s2)"
    "bindings d = bindings (core ?s2)" "controls d = controls (core ?s2)" "authority_ended (?s2\<lparr>core := d\<rparr>) ?ct"
    using revoke_record_ok [OF keeps_inv [OF k2] r2 r(2) c2 refl] by blast
  let ?s3 = "?s2\<lparr>core := d\<rparr>"
  have inv3: "hermes_inv e ?s3" using keeps_inv [OF d(2)] .
  have r3: "run_row ?s3 rid = Some r" using r2 d(3) by (simp add: run_row_def)
  obtain b where b: "binding_row ?s3 rid = Some b" using run_rowsE [OF inv3 r3 r(2)] by metis
  have num: "numbered ?s3 rid" using run_okD [OF inv3 r3 r(2)] by (simp add: run_ok_def log_fits_def)
  obtain h where h: "add_event e rid ''cancel_requested'' ''accepted'' ?s3 = Inr (with_event e rid (bd_actor b) ''cancel_requested'' ''accepted'' h ?s3)"
    using add_event_ok [OF num b, of "''cancel_requested''" "''accepted''" e] by auto
  let ?s4 = "with_event e rid (bd_actor b) ''cancel_requested'' ''accepted'' h ?s3"
  have k4: "hermes_keeps e s ?s4"
    using hermes_keeps_trans [OF k2 hermes_keeps_trans [OF d(2) keeps_cancel_event [OF inv3 r3 r(2)]]] .
  have r4: "run_row ?s4 rid = Some r" and c4: "control_row ?s4 rid = Some ?ct" and x4: "reservation_row ?s4 rid = Some x"
    using r3 c2 d(5) x by (simp_all add: run_row_def control_row_def reservation_row_def hermes_simps)
  have over: "authority_ended ?s4 ?ct" using d(6) ended_cong [of ?s4 ?s3 ?ct ?ct] by (simp add: hermes_simps)
  have body: "cancel_hermes_run e now rid s = (if run_status r = RUN_QUEUED then terminal e now False F_CANCELLED r ?s4 else Inr ?s4)"
    using r act ct d(1) h owns_own [OF inv r(1)] by (simp add: cancel_hermes_run_def Let_def)
  show ?thesis
  proof (cases "run_status r = RUN_QUEUED")
    case True
    obtain s' where t: "terminal e now False F_CANCELLED r ?s4 = Inr s'" "hermes_keeps e ?s4 s'"
        "run_row s' rid = Some (ended_run now F_CANCELLED (with_usage (Some (released x)) r))" "reservation_row s' rid = Some (released x)"
        "ln_active (admission s') = None" "ln_disabled (admission s') = ln_disabled (admission ?s4)" "controls (core s') = controls (core ?s4)"
        "capabilities (core s') = capabilities (core ?s4)"
      using terminal_ok [OF keeps_inv [OF k4] r4 r(2) act c4 over, of now False F_CANCELLED] x4 by auto
    have "authority_ended s' ct" using over ended_cong [OF t(8), of ct ?ct] by simp
    then show ?thesis using True body t c4 hermes_keeps_trans [OF k4 t(2)]
      by (intro exI [of _ s']) (simp add: control_row_def hermes_simps)
  next
    case False
    have "authority_ended ?s4 ct" using over by (simp add: authority_ended_def)
    then show ?thesis using False body k4 c4 r4 by (intro exI [of _ ?s4]) (simp add: hermes_simps)
  qed
qed

lemma cancel_idle:
  assumes "hermes_inv e s" and "run_row s rid = Some r"
    and "hermes_lane r \<and> run_active r \<Longrightarrow> \<exists>ct. control_row s rid = Some ct \<and> ct_cancel ct \<noteq> None"
  shows "cancel_hermes_run e now rid s = Inr s"
  using assms owns_own [OF assms(1,2)] by (auto simp: cancel_hermes_run_def)

lemma cancel_keeps:
  assumes inv: "hermes_inv e s" and c: "cancel_hermes_run e now rid s = Inr s'"
  shows "hermes_keeps e s s'"
proof -
  obtain r where r: "run_row s rid = Some r" using c by (auto simp: cancel_hermes_run_def try_bind_eq_Inr of_option_eq_Inr)
  show ?thesis
  proof (cases "hermes_lane r \<and> run_active r \<longrightarrow> (\<exists>ct. control_row s rid = Some ct \<and> ct_cancel ct \<noteq> None)")
    case True
    with cancel_idle [OF inv r] c keeps_refl [OF inv] show ?thesis by auto
  next
    case False
    then obtain ct x where "control_row s rid = Some ct" "reservation_row s rid = Some x" "ct_cancel ct = None"
      using run_rowsE [OF inv r] by metis
    with cancel_ok [OF inv r _ _ this(1,3,2), of now] False c show ?thesis by auto
  qed
qed

end
