(* ===== verification/Hermes_Admit.thy ===== *)
theory Hermes_Admit
  imports Hermes_Keeps
begin

text \<open>
  The three transactions that give authority or accept its results keep the invariant: the start of a
  run, which issues its capability, the acceptance of a result, which settles it, and the admission of
  a new run with its receipt.
\<close>

section \<open>The checks\<close>

lemma ensure_Inr [simp]: "ensure x b = Inr u \<longleftrightarrow> b"
  by (simp add: ensure_def)

lemma task_deny_Inr [simp]: "deny k b = Inr u \<longleftrightarrow> \<not> b"
  by (simp add: deny_def)

lemma fault_Inr [simp]: "fault m = Inr v \<longleftrightarrow> m = Inr v"
  by (cases m) auto

lemma task_arguments_Inr [simp]: "task_arguments m = Inr v \<longleftrightarrow> m = Inr v"
  by (cases m) auto

lemma task_budget_Inr [simp]: "task_budget m = Inr v \<longleftrightarrow> m = Inr v"
  by (cases m) auto

lemma task_broker_Inr [simp]: "task_broker m = Inr v \<longleftrightarrow> m = Inr v"
  by (cases m) auto

lemma worker_fault_Inr [simp]: "worker_fault m = Inr v \<longleftrightarrow> m = Inr v"
  by (cases m) auto

lemma quarantine_Inr [simp]: "quarantine m = Inr v \<longleftrightarrow> m = Inr v"
  by (cases m) (auto simp: quarantine_def)

lemma database_refused_Inr [simp]: "database_refused m = Inr v \<longleftrightarrow> m = Inr v"
  by (cases m) (auto simp: database_refused_def)

lemma check_run_Inr:
  assumes "check_run c hs now run b ct w capability s = Inr ()"
  shows "ct_cancel ct = None \<and> hs_enabled hs \<and> (\<exists>t. ct_lease ct = Some t \<and> now < t)
    \<and> (\<exists>a v. tfind slug (bd_actor b) (actors (base s)) = Some a \<and> operator_active s a
         \<and> tfind rev_pk (wf_revision w) (revisions (base s)) = Some v \<and> run_ready c s now run b a w v = Inr True
         \<and> digest (env c) (JObj (snapshot v)) = Inr (bd_revision_digest b))
    \<and> (\<forall>cap. capability = Some cap \<longrightarrow> capability_usable now run b cap)"
  using assms by (auto simp: check_run_def try_bind_eq_Inr of_option_eq_Inr not_le split: option.splits)

lemma issue_facts:
  assumes "issue_workflow_capability e now signed cid wid rid aid tools lifetime s = Inr (tok, s')"
  shows "\<exists>w v rd cap. tfind wf_pk wid (workflows (base s)) = Some w \<and> wf_revision w = rid
    \<and> tfind rev_pk (wf_revision w) (revisions (base s)) = Some v \<and> digest e (JObj (snapshot v)) = Inr rd
    \<and> cap = \<lparr>cap_pk = cid, cap_revision_digest = rd, cap_workflow = wid, cap_revision = rid, cap_actor = aid,
         cap_tools = sort tools, cap_audience = AUDIENCE, cap_correlation = None, cap_token = token_digest e tok,
         cap_issued = now, cap_expires = now + lifetime * SECOND, cap_revoked = None\<rparr>
    \<and> cap_token cap \<notin> cap_token ` set (capabilities s)
    \<and> s' = record_audit (Some aid) ''mcp.capability_issued'' ''workflow'' wid [(''capability_id'', JStr cid)]
        (s\<lparr>capabilities := capabilities s @ [cap]\<rparr>)"
  using assms unfolding issue_workflow_capability_def by (auto simp: try_bind_eq_Inr of_option_eq_Inr Let_def)

section \<open>The start of a run\<close>

text \<open>The token of the worker is the token of the run's capability.\<close>

definition holds_token :: "py_env \<Rightarrow> hermes_db \<Rightarrow> uuid \<Rightarrow> string \<Rightarrow> bool" where
  "holds_token e s rid tok \<longleftrightarrow> (\<exists>ct cap. control_row s rid = Some ct \<and> ct_capability ct = Some (cap_pk cap)
     \<and> cap_row s (cap_pk cap) = Some cap \<and> cap_token cap = token_digest e tok)"

lemma save_run_existing:
  "save_run r' s = Inr s' \<Longrightarrow> run_row s (run_pk r') = Some r \<Longrightarrow>
     s' = set_runs (tput run_pk r' (agent_runs (core s))) s \<and> run_clean s r' \<and> immutable_binding r' = immutable_binding r"
  by (auto simp: save_run_def split: if_splits)

lemma bound_keeps:
  assumes inv: "broker_inv e d" and cap: "cap \<in> set (capabilities d)" "cap_correlation cap = None"
  shows "keeps e d (d\<lparr>capabilities := tput cap_pk (cap\<lparr>cap_correlation := Some q\<rparr>) (capabilities d)\<rparr>)"
  using cap(2) by (intro keeps_capability [OF inv cap(1)]) (simp add: cap_later_def)

lemma begin_body_keeps:
  assumes inv: "hermes_inv (env c) s" and r: "run_row s rid = Some r" "hermes_lane r" and q: "run_status r = RUN_QUEUED"
    and g: "begin_body c hs now signed cid sp client_ok r s = Inr (tok, r', s')"
  shows "hermes_keeps (env c) s s' \<and> r' = started_run now sp r \<and> run_row s' rid = Some r' \<and> holds_token (env c) s' rid tok
    \<and> admission s' = admission s"
proof -
  let ?e = "env c"
  note ok = run_okD [OF inv r]
  obtain b ct x where rows: "binding_row s rid = Some b" "control_row s rid = Some ct" "reservation_row s rid = Some x"
    "reservation_fits x r" "authority_fits s r b ct" "ct_run ct = rid"
    using run_rowsE [OF inv r] by metis
  from g ok(2) rows(1,2) obtain w d cap s2 where w: "tfind wf_pk (run_workflow r) (workflows (base (core s))) = Some w"
    and ch: "check_run c hs now r b ct w None (core s) = Inr ()"
    and iss: "issue_workflow_capability ?e now signed cid (run_workflow r) (run_revision r) (bd_actor b) TOOLS (lifetime_of now ct) (core s) = Inr (tok, d)"
    and cap: "tfind cap_token (token_digest ?e tok) (capabilities d) = Some cap"
    and r': "r' = started_run now sp r"
    and s2: "save_run r' (save_control (ct\<lparr>ct_capability := Some (cap_pk cap), ct_traceparent := span_parent sp\<rparr>)
        (s\<lparr>core := d\<lparr>capabilities := tput cap_pk (cap\<lparr>cap_correlation := Some (bd_correlation b)\<rparr>) (capabilities d)\<rparr>\<rparr>)) = Inr s2"
    and s3: "add_event ?e rid ''running'' ''started'' s2 = Inr s'"
    by (auto simp: begin_body_def try_bind_eq_Inr of_option_eq_Inr Let_def)
  obtain w' v rd c0 where i: "tfind wf_pk (run_workflow r) (workflows (base (core s))) = Some w'" "wf_revision w' = run_revision r"
    "tfind rev_pk (wf_revision w') (revisions (base (core s))) = Some v" "digest ?e (JObj (snapshot v)) = Inr rd"
    and c0: "c0 = \<lparr>cap_pk = cid, cap_revision_digest = rd, cap_workflow = run_workflow r, cap_revision = run_revision r, cap_actor = bd_actor b,
         cap_tools = sort TOOLS, cap_audience = AUDIENCE, cap_correlation = None, cap_token = token_digest ?e tok,
         cap_issued = now, cap_expires = now + lifetime_of now ct * SECOND, cap_revoked = None\<rparr>"
    and fresh: "cap_token c0 \<notin> cap_token ` set (capabilities (core s))"
    and d: "d = record_audit (Some (bd_actor b)) ''mcp.capability_issued'' ''workflow'' (run_workflow r) [(''capability_id'', JStr cid)]
        ((core s)\<lparr>capabilities := capabilities (core s) @ [c0]\<rparr>)"
    using issue_facts [OF iss] by blast
  have "tfind cap_token (cap_token c0) (capabilities (core s)) = None" using fresh by (simp add: tfind_None)
  then have capeq: "cap = c0" using cap by (simp add: d hermes_simps tfind_append c0)
  let ?c = "c0\<lparr>cap_correlation := Some (bd_correlation b)\<rparr>"
  let ?d = "d\<lparr>capabilities := tput cap_pk ?c (capabilities d)\<rparr>"
  let ?ct = "ct\<lparr>ct_capability := Some (cap_pk c0), ct_traceparent := span_parent sp\<rparr>"
  let ?s1 = "save_control ?ct (s\<lparr>core := ?d\<rparr>)"
  have kd: "keeps ?e (core s) d" using keeps_issue [OF invD(1) [OF inv] iss] .
  have c0d: "c0 \<in> set (capabilities d)" by (simp add: d hermes_simps)
  have k: "keeps ?e (core s) ?d"
    using keeps_trans [OF kd bound_keeps [of ?e d c0]] kd c0d by (simp add: keeps_def c0)
  have caps: "keys_ok cap_pk (capabilities ?d)" and kept: "caps_kept (capabilities (core s)) (capabilities ?d)"
    using k unfolding keeps_def broker_inv_def broker_keys_def grows_def by blast+
  have "run_row ?s1 (run_pk r') = Some r" using r(1) ok(2) by (simp add: run_row_def hermes_simps d r' started_run_def)
  from save_run_existing [OF s2 [unfolded capeq] this] have s2': "s2 = set_runs (tput run_pk r' (agent_runs (core ?s1))) ?s1"
    and rc: "run_clean ?s1 r'" and imm: "immutable_binding r' = immutable_binding r" by simp_all
  from add_event_Inr [OF s3] obtain h where s': "s' = logged_write ?e (bd_actor b) ''started'' h r' ?s1"
    using rows(1) ok(2) by (auto simp: s2' logged_write_def r' started_run_def binding_row_def hermes_simps d)
  have reads: "agent_runs (core s') = tput run_pk r' (agent_runs (core s))" "bindings (core s') = bindings (core s)"
    "controls (core s') = tput ct_run ?ct (controls (core s))" "capabilities (core s') = capabilities ?d" "money s' = money s"
    "admission s' = admission s" "start_receipts s' = start_receipts s" "revisions (base (core s')) = revisions (base (core s))"
    "workflows (base (core s')) = workflows (base (core s))"
    by (simp_all add: s' hermes_simps d)
  have pk: "run_pk r' = rid" using ok(2) by (simp add: r' started_run_def)
  have control: "control_row s' k = (if k = rid then Some ?ct else control_row s k)" for k
    using rows(2,6) by (simp add: control_row_def reads tfind_tput split: option.splits)
  have crow: "cap_row s' (cap_pk c0) = Some ?c"
    using c0d caps tfind_unique [of cap_pk "capabilities ?d" ?c] in_tput_self [of cap_pk ?c "capabilities d"]
    unfolding cap_row_def reads(4) by (force simp: image_iff)
  have stay: "caps_stay s s'" using caps_stay_kept [of s s'] kept caps by (simp add: reads)
  have refs: "references_clean s' p = references_clean s p" for p by (rule references_same) (simp_all add: reads)
  have bound: "bound_to r' b ?c"
  proof -
    have "rd = bd_revision_digest b" using check_run_Inr [OF ch] i w by auto
    then have "bound_to r b ?c" by (simp add: bound_to_def c0)
    then show ?thesis using immutable_clean(3) [OF imm] by simp
  qed
  have act: "run_active r" "run_active r'" by (simp_all add: run_active_def q r' started_run_def)
  have "hermes_keeps ?e s s'"
  proof (rule inv_update [OF inv r])
    have "same_tables ?d (core s')" by (simp add: s' same_tables_def hermes_simps)
    then show "broker_inv ?e (core s')" using k same_tables_inv unfolding keeps_def by blast
    have log: "run_log s' k = run_log s k" if "k \<noteq> rid" for k
      using that pk logged_write_other [of k r' ?e "bd_actor b" "''started''" h ?s1] by (simp add: s') (simp add: run_log_def hermes_simps)
    have ev: "\<exists>x. run_events s' = run_events s @ x \<and> (\<forall>v \<in> set x. ev_run v = rid)"
      using logged_write_events [of ?e "bd_actor b" "''started''" h r' ?s1] pk by (simp add: s' hermes_simps)
    have "binding_row s' = binding_row s" "reservation_row s' = reservation_row s" by (simp_all add: row_defs reads fun_eq_iff)
    then show "touches rid s s'"
      using invD(3) [OF inv] stay control log ev by (simp add: touches_def context_kept_def reads refs hermes_keys_def)
    have "authority_fits s' r' b ?ct"
      using bound act crow by (simp add: authority_fits_def r' started_run_def)
    moreover have "log_fits s' r'"
      using logged_write_log [of ?s1 r' ?e "bd_actor b" "''started''" h] ok(1,2) pk
      by (simp add: s' run_ok_def log_fits_def numbered_def run_log_def hermes_simps)
    moreover have "references_clean s' r'" using ok(1) immutable_clean(2) [OF imm] refs by (simp add: run_ok_def row_clean_def)
    moreover have "reservation_fits x r'"
      using rows(4) act by (simp add: reservation_fits_def usage_of_run_def) (simp add: r' started_run_def)
    ultimately show "run_ok s' r'"
      using rc rows pk control unfolding run_ok_def row_clean_def run_clean_def by (simp add: row_defs reads)
    show "evolves r r'" using imm act q by (simp add: evolves_def)
    show "control_row s rid = Some ct" "control_row s' rid = Some ?ct" using rows(2) control by simp_all
    show "ct_later ct ?ct" using rows(5) q by (auto simp: ct_later_def authority_fits_def split: option.splits)
  qed (use reads pk act invD(2) [OF inv] in simp_all)
  moreover have "run_row s' rid = Some r'" using r(1) pk by (simp add: run_row_def reads tfind_tput)
  moreover have "holds_token ?e s' rid tok"
    unfolding holds_token_def using control crow by (intro exI [of _ ?ct] exI [of _ ?c]) (simp add: c0)
  ultimately show ?thesis using r' reads(6) by simp
qed

section \<open>The acceptance of a result\<close>

lemma holds_tokenE:
  assumes "hermes_inv e s" and "holds_token e s rid tok" and "control_row s rid = Some ct"
  obtains cap where "ct_capability ct = Some (cap_pk cap)" and "cap_row s (cap_pk cap) = Some cap"
    and "tfind cap_token (token_digest e tok) (capabilities (core s)) = Some cap"
proof -
  obtain cap where c: "ct_capability ct = Some (cap_pk cap)" "cap_row s (cap_pk cap) = Some cap" "cap_token cap = token_digest e tok"
    using assms(2,3) by (auto simp: holds_token_def)
  have "keys_ok cap_token (capabilities (core s))" using invD(1) [OF assms(1)] by (simp add: broker_inv_def broker_keys_def)
  then have "tfind cap_token (token_digest e tok) (capabilities (core s)) = Some cap"
    using tfind_unique [of cap_token "capabilities (core s)" cap] c(2,3) by (auto simp: cap_row_def dest: tfind_in)
  with c that show ?thesis by blast
qed

lemma settle_success_keeps:
  assumes inv: "hermes_inv e s" and r: "run_row s rid = Some r" "hermes_lane r" and run: "run_status r = RUN_RUNNING"
    and t: "holds_token e s rid tok" and ct: "control_row s rid = Some ct" and lane: "ln_active (admission s) = Some rid"
    and g: "settle_success e now tok r i out s = Inr s'"
  shows "hermes_keeps e s s' \<and> (\<exists>x. reservation_row s' rid = Some x \<and> billed x = (i, out, run_cost (succeeded_run now x r))
      \<and> res_status x = SETTLED \<and> cost_of (res_profile x) i out = Inr (run_cost (succeeded_run now x r))
      \<and> run_row s' rid = Some (succeeded_run now x r))
    \<and> authority_ended s' ct \<and> control_row s' = control_row s \<and> ln_active (admission s') = None
    \<and> ln_disabled (admission s') = ln_disabled (admission s) \<and> submissions (core s') = submissions (core s) \<and> intents (core s') = intents (core s)
    \<and> bindings (core s') = bindings (core s) \<and> workflows (base (core s')) = workflows (base (core s))
    \<and> revisions (base (core s')) = revisions (base (core s))"
proof -
  note ok = run_okD [OF inv r]
  obtain b x0 where rows: "binding_row s rid = Some b" "reservation_row s rid = Some x0" "reservation_fits x0 r" "authority_fits s r b ct"
    using run_rowsE [OF inv r] ct by (metis option.inject)
  obtain cap where cap: "ct_capability ct = Some (cap_pk cap)" "cap_row s (cap_pk cap) = Some cap"
    "tfind cap_token (token_digest e tok) (capabilities (core s)) = Some cap"
    using holds_tokenE [OF inv t ct] .
  from g obtain d x m s1 where d: "revoke_workflow_capability e now tok (core s) = Inr d"
    and m: "settle_budget rid i out (money s) = Inr (x, m)"
    and s1: "save_run (succeeded_run now x r) (s\<lparr>core := d, money := m\<rparr>) = Inr s1"
    and s2: "\<exists>s2. add_event e rid ''succeeded'' ''accepted'' s1 = Inr s2 \<and> s' = set_lane ((admission s2)\<lparr>ln_active := None\<rparr>) s2"
    using ok(2) by (auto simp: settle_success_def try_bind_eq_Inr)
  have d': "d = record_audit (Some (cap_actor cap)) ''mcp.capability_revoked'' ''workflow'' (cap_workflow cap) [(''capability_id'', JStr (cap_pk cap))]
         ((core s)\<lparr>capabilities := tput cap_pk (cap\<lparr>cap_revoked := Some now\<rparr>) (capabilities (core s))\<rparr>)"
    using d cap(3) by (simp add: revoke_workflow_capability_def)
  have k: "keeps e (core s) d" using keeps_revoke [OF invD(1) [OF inv] d] .
  have act: "run_active r" using run by (simp add: run_active_def)
  then have x0: "res_status x0 = RESERVED" "tfind res_run rid (reservations (money s)) = Some x0"
    using rows by (auto simp: reservation_fits_def reservation_row_def)
  obtain cost where mm: "budget_inv m" "tfind res_run rid (reservations m) = Some x" "cost_of (res_profile x0) i out = Inr cost"
      "x = x0\<lparr>res_status := SETTLED, settled_input := Some i, settled_output := Some out, settled_cost := Some cost\<rparr>"
    using settle_shape [OF invD(2) [OF inv] m x0(2,1)] by blast
  have sp: "same_prices (money s) m" "spares (protected_runs s) {rid} (money s) m"
    using settle_budget_frame [OF invD(2) [OF inv] m] by auto
  let ?r = "succeeded_run now x r" and ?s0 = "s\<lparr>core := d, money := m\<rparr>"
  have pk: "run_pk ?r = rid" using ok(2) by (simp add: succeeded_run_def)
  have "run_row ?s0 (run_pk ?r) = Some r" using r(1) pk by (simp add: run_row_def d' hermes_simps)
  from save_run_existing [OF s1 this] have s1': "s1 = set_runs (tput run_pk ?r (agent_runs (core ?s0))) ?s0"
    and rc: "run_clean ?s0 ?r" and imm: "immutable_binding ?r = immutable_binding r" by simp_all
  have st: "status_text (run_status ?r) = ''succeeded''" by (simp add: succeeded_run_def)
  from s2 obtain s2 where s2: "add_event e rid ''succeeded'' ''accepted'' s1 = Inr s2" "s' = set_lane ((admission s2)\<lparr>ln_active := None\<rparr>) s2"
    by blast
  from add_event_Inr [OF s2(1)] obtain h where "s2 = logged_write e (bd_actor b) ''accepted'' h ?r ?s0"
    using rows(1) pk st by (auto simp: s1' logged_write_def binding_row_def hermes_simps d')
  then have s': "s' = set_lane ((admission s)\<lparr>ln_active := None\<rparr>) (logged_write e (bd_actor b) ''accepted'' h ?r ?s0)"
    using s2(2) by (simp add: hermes_simps)
  have reads: "agent_runs (core s') = tput run_pk ?r (agent_runs (core s))" "bindings (core s') = bindings (core s)"
    "controls (core s') = controls (core s)" "capabilities (core s') = capabilities d" "money s' = m"
    "start_receipts s' = start_receipts s" "revisions (base (core s')) = revisions (base (core s))"
    "workflows (base (core s')) = workflows (base (core s))" "submissions (core s') = submissions (core s)" "intents (core s') = intents (core s)"
    "admission s' = (admission s)\<lparr>ln_active := None\<rparr>"
    by (simp_all add: s' hermes_simps d')
  have usage: "usage_of_run ?r = billed x"
    using with_usage_billed [of r x] mm(4) by (simp add: succeeded_run_def usage_of_run_def)
  have billed: "billed x = (i, out, run_cost ?r)" using usage mm(4) by (simp add: usage_of_run_def billed_def)
  have crow: "cap_row s' (cap_pk cap) = Some (cap\<lparr>cap_revoked := Some now\<rparr>)"
    using cap(2) by (simp add: cap_row_def reads d' hermes_simps tfind_tput)
  have over: "authority_ended s' ct" using cap(1) crow by (simp add: authority_ended_def)
  have stay: "caps_stay s s'"
    using k by (intro caps_stay_kept) (simp_all add: reads keeps_def grows_def broker_inv_def broker_keys_def)
  have refs: "references_clean s' p = references_clean s p" for p
    using sp(1) by (intro references_same) (simp_all add: reads same_prices_def)
  have res: "reservation_row s' q = tfind res_run q (reservations m)" for q by (simp add: reservation_row_def reads)
  have "hermes_keeps e s s'"
  proof (rule inv_update [OF inv r])
    have "same_tables d (core s')" by (simp add: s' same_tables_def hermes_simps)
    then show "broker_inv e (core s')" using k same_tables_inv unfolding keeps_def by blast
    have log: "run_log s' q = run_log s q" if "q \<noteq> rid" for q
      using that pk logged_write_other [of q ?r e "bd_actor b" "''accepted''" h ?s0] by (simp add: s' run_log_def hermes_simps)
    have ev: "\<exists>x. run_events s' = run_events s @ x \<and> (\<forall>v \<in> set x. ev_run v = rid)"
      using logged_write_events [of e "bd_actor b" "''accepted''" h ?r ?s0] pk by (simp add: s' hermes_simps)
    have same: "binding_row s' = binding_row s" "control_row s' = control_row s" by (simp_all add: row_defs reads fun_eq_iff)
    show "touches rid s s'"
      using invD(3) [OF inv] stay log ev other_reservations [OF inv sp(2)]
      by (simp add: touches_def context_kept_def same reads refs res hermes_keys_def)
    have "bound_to r b (cap\<lparr>cap_revoked := Some now\<rparr>)"
      using rows(4) cap(1,2) by (auto simp: authority_fits_def bound_to_def)
    then have "bound_to ?r b (cap\<lparr>cap_revoked := Some now\<rparr>)" using immutable_clean(3) [OF imm] by simp
    then have "authority_fits s' ?r b ct"
      using cap(1) crow by (simp add: authority_fits_def succeeded_run_def)
    moreover have "log_fits s' ?r"
      using logged_write_log [of ?s0 ?r e "bd_actor b" "''accepted''" h] ok(1,2) pk
      by (simp add: s' run_ok_def log_fits_def numbered_def logged_status_def run_log_def hermes_simps)
    moreover have "references_clean s' ?r" using ok(1) immutable_clean(2) [OF imm] refs by (simp add: run_ok_def row_clean_def)
    moreover have "reservation_fits x ?r"
      using usage mm(4) by (simp add: reservation_fits_def run_active_def succeeded_run_def)
    ultimately show "run_ok s' ?r"
      using rc rows(1) ct pk res mm(2) unfolding run_ok_def row_clean_def run_clean_def same by simp
    show "evolves r ?r" using imm act run by (simp add: evolves_def succeeded_run_def)
    show "control_row s rid = Some ct" "control_row s' rid = Some ct" using ct same(2) by simp_all
  qed (use reads pk act mm(1) lane in \<open>simp_all add: succeeded_run_def run_active_def\<close>)
  moreover have "run_row s' rid = Some ?r" using r(1) pk by (simp add: run_row_def reads tfind_tput)
  moreover have "reservation_row s' rid = Some x" "res_status x = SETTLED" "cost_of (res_profile x) i out = Inr (run_cost ?r)"
    using res mm(2-4) billed by (simp_all add: billed_def)
  moreover have "control_row s' = control_row s" by (simp add: row_defs reads fun_eq_iff)
  ultimately show ?thesis using billed over reads by auto
qed

lemma complete_run_Inr:
  assumes "complete_run c hs now tok rid d s = Inr s'"
  shows "\<exists>r ct cap w b v i out. run_row s rid = Some r \<and> run_status r = RUN_RUNNING \<and> control_row s rid = Some ct
    \<and> Option.bind (ct_capability ct) (cap_row s) = Some cap \<and> tfind wf_pk (run_workflow r) (workflows (base (core s))) = Some w
    \<and> \<not> ln_disabled (admission s) \<and> ln_active (admission s) = Some rid \<and> binding_row s rid = Some b
    \<and> check_run c hs now r b ct w (Some cap) (core s) = Inr ()
    \<and> tfind rev_pk (run_revision r) (revisions (base (core s))) = Some v
    \<and> validate_result (env c) s r b ct v d = Inr (i, out) \<and> settle_success (env c) now tok r i out s = Inr s'"
  using assms unfolding complete_run_def cap_row_def
  by (auto simp: try_bind_eq_Inr of_option_eq_Inr)

lemma active_is_hermes: "hermes_inv e s \<Longrightarrow> ln_active (admission s) = Some rid \<Longrightarrow> run_row s rid = Some r \<Longrightarrow> hermes_lane r"
  by (auto simp: hermes_inv_def lane_fits_def)

lemma complete_keeps:
  assumes inv: "hermes_inv (env c) s" and t: "holds_token (env c) s rid tok" and g: "complete_run c hs now tok rid d s = Inr s'"
  shows "hermes_keeps (env c) s s'"
proof -
  from complete_run_Inr [OF g] obtain r ct i out where *: "run_row s rid = Some r" "run_status r = RUN_RUNNING" "control_row s rid = Some ct"
    "ln_active (admission s) = Some rid" "settle_success (env c) now tok r i out s = Inr s'"
    by blast
  from settle_success_keeps [OF inv *(1) active_is_hermes [OF inv *(4,1)] *(2) t *(3-5)] show ?thesis by blast
qed

section \<open>The admission of a run\<close>

text \<open>A transaction that adds a run to an idle lane.\<close>

lemma inv_insert:
  assumes inv: "hermes_inv e s" and new: "run_row s rid = None" and parts: "broker_inv e (core s')" "budget_inv (money s')" "hermes_keys s'"
    and frame: "\<And>k r. run_row s k = Some r \<Longrightarrow> hermes_lane r \<Longrightarrow> context_kept s s' k" "caps_stay s s'"
      "\<And>r. references_clean s r \<Longrightarrow> references_clean s' r"
    and runs: "agent_runs (core s') = agent_runs (core s) @ [r']" and pk: "run_pk r' = rid" and r': "hermes_lane r'" "run_active r'" "run_ok s' r'"
    and ev: "\<exists>x. run_events s' = run_events s @ x \<and> (\<forall>v \<in> set x. ev_run v = rid)" and rc: "start_receipts s' = start_receipts s"
    and lane: "ln_active (admission s) = None" "ln_active (admission s') = Some rid" "\<not> ln_disabled (admission s)"
  shows "hermes_keeps e s s'"
proof -
  have row: "run_row s' k = (if k = rid then Some r' else run_row s k)" for k
    using new by (simp add: run_row_def runs tfind_append pk split: option.splits) 
  have other: "k \<noteq> rid" if "run_row s k = Some q" for k q using that new by auto
  have oks: "run_ok s' q" if q: "run_row s' k = Some q" "hermes_lane q" for k q
  proof (cases "k = rid")
    case False
    then have qs: "run_row s k = Some q" using q row by simp
    have ok: "run_ok s q" "run_pk q = k" using run_okD [OF inv qs q(2)] by simp_all
    have "references_clean s q" using ok(1) by (simp add: run_ok_def row_clean_def)
    then show ?thesis using run_ok_kept [OF ok(1) _ frame(2)] frame(1) [OF qs q(2)] frame(3) ok(2) by simp
  qed (use q row r' in simp)
  have events: "\<exists>q. run_row s' (ev_run v) = Some q \<and> hermes_lane q" if "v \<in> set (run_events s')" for v
    using that ev inv r'(1) row by (auto simp: hermes_inv_def)
  have receipts: "receipt_fits s' z" if "z \<in> set (start_receipts s')" for z
  proof -
    have "receipt_fits s z" using that rc inv by (auto simp: hermes_inv_def)
    then obtain q b where q: "run_row s (sr_run z) = Some q" "hermes_lane q" "run_workflow q = sr_workflow z" "run_revision q = sr_revision z"
      "binding_row s (sr_run z) = Some b" "bd_actor b = sr_actor z"
      by (auto simp: receipt_fits_def)
    have "binding_row s' (sr_run z) = Some b" using frame(1) [OF q(1,2)] q(5) by (simp add: context_kept_def)
    moreover have "run_row s' (sr_run z) = Some q" using q(1) row other by simp
    ultimately show ?thesis using q unfolding receipt_fits_def by blast
  qed
  have none: "\<not> run_active q" if "run_row s k = Some q" "hermes_lane q" for k q
    using run_okD(3) [OF inv that] lane(1) by simp
  have "lane_fits s'"
    using none r' lane(2) by (auto simp: lane_fits_def row)
  then have "hermes_inv e s'" using parts oks events receipts by (simp add: hermes_inv_def)
  moreover have "\<exists>q'. run_row s' k = Some q' \<and> evolves q q'" if "run_row s k = Some q" for k q
    using that row other evolves_refl by auto
  moreover have "controls_stay s s'"
    using frame(1) unfolding controls_stay_def context_kept_def by (metis ct_later_refl)
  ultimately show ?thesis using lane(3) rc frame(2) unfolding hermes_keeps_def by auto
qed

lemma fresh_log: "hermes_inv e s \<Longrightarrow> run_row s rid = None \<Longrightarrow> run_log s rid = []"
  by (auto simp: hermes_inv_def run_log_def filter_empty_conv)

lemma create_binding_Inr:
  "create_binding e b revision_id s = Inr s' \<Longrightarrow> \<exists>v h. tfind rev_pk revision_id (revisions (base (core s))) = Some v
     \<and> digest e (JObj (snapshot v)) = Inr h \<and> bd_run b \<notin> bd_run ` set (bindings (core s))
     \<and> s' = s\<lparr>core := (core s)\<lparr>bindings := bindings (core s) @ [b\<lparr>bd_revision_digest := h\<rparr>]\<rparr>\<rparr>"
  by (auto simp: create_binding_def try_bind_eq_Inr of_option_eq_Inr)

lemma create_control_Inr:
  "create_control ct s = Inr s' \<Longrightarrow> ct_run ct \<notin> ct_run ` set (controls (core s))
     \<and> s' = s\<lparr>core := (core s)\<lparr>controls := controls (core s) @ [ct]\<rparr>\<rparr>"
  by (auto simp: create_control_def try_bind_eq_Inr)

text \<open>The rows of an admitted run, after a reservation for it.\<close>

lemma queue_rows_keeps:
  assumes inv: "hermes_inv e s" and new: "run_row s rid = None"
    and m: "budget_inv m" "same_prices (money s) m" "spares (protected_runs s) {rid} (money s) m"
    and x: "tfind res_run rid (reservations m) = Some x" "res_status x = RESERVED" "settled_cost x = None" "0 \<le> estimated_input x" "0 \<le> estimated_output x"
    and run: "run_pk run = rid" "hermes_lane run" "run_status run = RUN_QUEUED" "usage_of_run run = (0, 0, 0)"
    and lane: "ln_active (admission s) = None" "\<not> ln_disabled (admission s)"
    and g: "queue_rows e run actor_id session correlation lease (s\<lparr>money := m\<rparr>) = Inr s'"
  shows "hermes_keeps e s s' \<and> run_row s' rid = Some run \<and> start_receipts s' = start_receipts s \<and> ln_active (admission s') = Some rid
    \<and> (\<exists>b. binding_row s' rid = Some b \<and> bd_actor b = actor_id)"
proof -
  let ?m = "s\<lparr>money := m\<rparr>"
  let ?ct = "\<lparr>ct_run = rid, ct_cancel = None, ct_capability = None, ct_lease = Some lease, ct_disabled = False, ct_traceparent = []\<rparr>"
  from g obtain s1 s2 s3 where s1: "save_run run ?m = Inr s1"
    and s2: "create_binding e \<lparr>bd_run = rid, bd_actor = actor_id, bd_session = session, bd_correlation = correlation, bd_revision_digest = []\<rparr> (run_revision run) s1 = Inr s2"
    and s3: "create_control ?ct s2 = Inr s3"
    and s4: "add_event e rid ''queued'' ''accepted'' (set_lane ((admission s3)\<lparr>ln_active := Some rid\<rparr>) s3) = Inr s'"
    by (auto simp: queue_rows_def try_bind_eq_Inr run(1))
  have clean: "run_clean ?m run" and s1': "s1 = ?m\<lparr>core := (core s)\<lparr>agent_runs := agent_runs (core s) @ [run], base := protect_rows run (base (core s))\<rparr>\<rparr>"
    using s1 new run(1) by (auto simp: save_run_def run_row_def split: if_splits)
  from create_binding_Inr [OF s2] obtain h where hb: "rid \<notin> bd_run ` set (bindings (core s))"
    and s2': "s2 = s1\<lparr>core := (core s1)\<lparr>bindings := bindings (core s1) @
       [\<lparr>bd_run = rid, bd_actor = actor_id, bd_session = session, bd_correlation = correlation, bd_revision_digest = h\<rparr>]\<rparr>\<rparr>"
    by (auto simp: s1')
  let ?b = "\<lparr>bd_run = rid, bd_actor = actor_id, bd_session = session, bd_correlation = correlation, bd_revision_digest = h\<rparr>"
  from create_control_Inr [OF s3] have hc: "rid \<notin> ct_run ` set (controls (core s))"
    and s3': "s3 = s2\<lparr>core := (core s2)\<lparr>controls := controls (core s2) @ [?ct]\<rparr>\<rparr>"
    by (auto simp: s2' s1')
  from add_event_Inr [OF s4] obtain a hh where s': "s' = with_event e rid a ''queued'' ''accepted'' hh (set_lane ((admission s3)\<lparr>ln_active := Some rid\<rparr>) s3)"
    by blast
  have reads: "agent_runs (core s') = agent_runs (core s) @ [run]" "bindings (core s') = bindings (core s) @ [?b]"
    "controls (core s') = controls (core s) @ [?ct]" "capabilities (core s') = capabilities (core s)" "money s' = m"
    "start_receipts s' = start_receipts s" "revisions (base (core s')) = revisions (base (core s))" "workflows (base (core s')) = workflows (base (core s))"
    "ln_active (admission s') = Some rid" "ln_disabled (admission s') = ln_disabled (admission s)"
    by (simp_all add: s' s3' s2' s1' hermes_simps)
  have control: "control_row s' k = (if k = rid then Some ?ct else control_row s k)" for k
    using hc tfind_snoc_fresh [of ct_run ?ct "controls (core s)" k] by (simp add: control_row_def reads tfind_None)
  have binding: "binding_row s' k = (if k = rid then Some ?b else binding_row s k)" for k
    using hb tfind_snoc_fresh [of bd_run ?b "bindings (core s)" k] by (simp add: binding_row_def reads tfind_None)
  have log0: "run_log s3 k = run_log s k" for k by (simp add: run_log_def s3' s2' s1')
  have log: "run_log s' k = (if k = rid then run_log s rid @ [(Suc (last_sequence s rid), ''queued'')] else run_log s k)" for k
    by (simp add: s' hermes_simps) (simp add: run_log_def last_sequence_def hermes_simps s3' s2' s1')
  have num: "numbered s rid" using fresh_log [OF inv new] by (simp add: numbered_def)
  have lg: "run_log s' rid = [(1, ''queued'')]" using log fresh_log [OF inv new] numbered_last [OF num] by simp
  have refs: "references_clean s' p = references_clean s p" for p
    using m(2) by (intro references_same) (simp_all add: reads same_prices_def)
  have res: "reservation_row s' k = tfind res_run k (reservations m)" for k by (simp add: reservation_row_def reads)
  have other: "k \<noteq> rid" if "run_row s k = Some q" for k q using that new by auto
  have stay: "caps_stay s s'" by (rule caps_stay_refl) (simp add: reads)
  have "hermes_keeps e s s'"
  proof (rule inv_insert [OF inv new])
    show "broker_inv e (core s')"
      using invD(1) [OF inv] by (rule same_tables_inv) (simp add: same_tables_def s' s3' s2' s1' hermes_simps)
    show "hermes_keys s'"
      using invD(3) [OF inv] new hb hc run(1)
      by (auto simp: hermes_keys_def reads run_row_def tfind_None intro!: keys_ok_append_new)
    show "context_kept s s' k" if "run_row s k = Some q" "hermes_lane q" for k q
      using other [OF that(1)] control binding log other_reservations [OF inv m(3) _ that] res by (simp add: context_kept_def)
    have "authority_fits s' run ?b ?ct" using run(3) by (simp add: authority_fits_def)
    moreover have "log_fits s' run" using lg run(1,3) by (simp add: log_fits_def numbered_def logged_status_def)
    moreover have "references_clean ?m run = references_clean s run" using m(2) by (intro references_same) (simp_all add: same_prices_def)
    moreover have "reservation_fits x run"
      using x(2-5) run(3,4) by (simp add: reservation_fits_def run_active_def billed_def split: option.splits)
    ultimately show "run_ok s' run"
      using clean refs control binding res x(1) run(1) unfolding run_ok_def row_clean_def run_clean_def by simp
    show "\<exists>x. run_events s' = run_events s @ x \<and> (\<forall>v \<in> set x. ev_run v = rid)"
      by (simp add: s' with_event_def hermes_simps s3' s2' s1')
  qed (use reads lane m(1) run stay refs in \<open>simp_all add: run_active_def\<close>)
  moreover have "run_row s' rid = Some run" using new run(1) by (simp add: run_row_def reads tfind_append)
  ultimately show ?thesis using reads binding by auto
qed

text \<open>What readiness means, for a demonstration event and for the owner's own.\<close>

lemma package_current_True:
  "package_current c w prepared expected = Inr True \<Longrightarrow> status w \<in> {READY_FOR_REVIEW, IN_REVIEW}
     \<and> (\<exists>p q. package w = Some p \<and> prepared = Inr q \<and> py_eq q p \<and> jfield p ''status'' = JStr ''ready_for_review'' \<and> package_hash c p = wf_hash w)
     \<and> (\<forall>h. expected = Some h \<longrightarrow> h = wf_hash w)"
  by (auto simp: package_current_def split: option.splits if_splits sum.splits py_error.splits)

lemma ready_True:
  "ready c w r rv expected = Inr True \<Longrightarrow> wf_revision w = rv \<and> rev_event r = wf_event w
     \<and> dget (snapshot r) ''synthetic'' = JBool True \<and> package_current c w (prepare_package (env c) (snapshot r)) expected = Inr True"
  by (auto simp: ready_def split: if_splits)

lemma owner_ready_True:
  "owner_ready c w r rv actor_id session expected = Inr True \<Longrightarrow> wf_revision w = rv \<and> rev_event r = wf_event w
     \<and> session \<noteq> None \<and> kind_of r \<in> {Manual, Eventbrite} \<and> rev_author r = actor_id
     \<and> package_current c w (prepare_owner_package (env c) (lib c) (snapshot r)) expected = Inr True"
  by (auto simp: owner_ready_def split: if_splits)

lemma admitted_Inr:
  assumes "admitted c now wid rv actor_id sid s = Inr (w, live, session)"
  shows "\<exists>a v. tfind wf_pk wid (workflows (base s)) = Some w \<and> wf_revision w = rv \<and> tfind slug actor_id (actors (base s)) = Some a
    \<and> operator_active s a \<and> tfind rev_pk rv (revisions (base s)) = Some v \<and> rev_event v = wf_event w
    \<and> (live \<longleftrightarrow> kind_of v \<noteq> Synthetic) \<and> (live \<longrightarrow> kind_of v \<in> {Manual, Eventbrite} \<and> rev_author v = actor_id
         \<and> (\<exists>se. owner_session s now a sid = Some se \<and> session = Some (se_pk se)))
    \<and> (\<exists>p. package w = Some p \<and> package_hash c p = wf_hash w \<and> jfield p ''status'' = JStr ''ready_for_review'')"
proof -
  from assms obtain v a where w: "tfind wf_pk wid (workflows (base s)) = Some w" and v: "tfind rev_pk (wf_revision w) (revisions (base s)) = Some v"
    and a: "tfind slug actor_id (actors (base s)) = Some a" "operator_active s a" and live: "live \<longleftrightarrow> kind_of v \<noteq> Synthetic"
    and ok: "(if live then owner_ready c w v rv (slug a) (owner_session s now a sid) None else ready c w v rv None) = Inr True"
    and se: "session = map_option se_pk (if live then owner_session s now a sid else None)"
    by (auto simp: admitted_def try_bind_eq_Inr of_option_eq_Inr Let_def split: if_splits)
  have sl: "slug a = actor_id" using a(1) by (rule tfind_key)
  show ?thesis
  proof (cases live)
    case True
    with ok have o: "owner_ready c w v rv (slug a) (owner_session s now a sid) None = Inr True" by simp
    note r = owner_ready_True [OF o]
    then have "package_current c w (prepare_owner_package (env c) (lib c) (snapshot v)) None = Inr True" by blast
    from package_current_True [OF this] r w v a live se True sl show ?thesis by auto
  next
    case False
    with ok have o: "ready c w v rv None = Inr True" by simp
    note r = ready_True [OF o]
    then have "package_current c w (prepare_package (env c) (snapshot v)) None = Inr True" by blast
    from package_current_True [OF this] r w v a live se False sl show ?thesis by auto
  qed
qed

lemma queued_run_simps [simp]:
  "run_pk (queued_run rid w p q live) = rid" "hermes_lane (queued_run rid w p q live)" "run_status (queued_run rid w p q live) = RUN_QUEUED"
  "usage_of_run (queued_run rid w p q live) = (0, 0, 0)" "run_workflow (queued_run rid w p q live) = wf_pk w"
  "run_revision (queued_run rid w p q live) = wf_revision w" "run_hash (queued_run rid w p q live) = wf_hash w"
  by (simp_all add: queued_run_def usage_of_run_def)

lemma lane_open_simps: "lane_open hs s \<Longrightarrow> ln_active (admission s) = None \<and> \<not> ln_disabled (admission s) \<and> hs_enabled hs
   \<and> (\<forall>ct \<in> set (controls (core s)). \<not> ct_disabled ct)"
  by (auto simp: lane_open_def list_ex_iff)

definition fresh_ids_for :: "(string \<Rightarrow> uuid) \<Rightarrow> queue_ids \<Rightarrow> hermes_db \<Rightarrow> bool" where
  "fresh_ids_for uuid5_url ids s \<longleftrightarrow> reservation_row s (run_id_of uuid5_url (q_correlation ids)) = None
     \<and> tfind res_pk (q_reservation ids) (reservations (money s)) = None"

lemma queue_body_Inr:
  assumes "queue_body c u5 hs clk ids wid rv actor_id sid s = Inr (run, s')"
  shows "\<exists>t w live session p q x m. lane_open hs s \<and> hermes_timeout hs = Inr t \<and> admitted c (instant clk) wid rv actor_id sid (core s) = Inr (w, live, session)
    \<and> workflow_profile hs (money s) = Inr (p, q) \<and> run = queued_run (run_id_of u5 (q_correlation ids)) w (mp_pk p) (rp_pk q) live
    \<and> reserve_budget (protected_runs s) clk (q_reservation ids) (run_id_of u5 (q_correlation ids)) (profile_id p) (mp_revision p)
        (max_input_tokens p) (max_output_tokens p) (Some (instant clk + t * SECOND)) (money s) = Inr (x, m)
    \<and> queue_rows (env c) run actor_id session (q_correlation ids) (instant clk + t * SECOND) (s\<lparr>money := m\<rparr>) = Inr s'"
  using assms by (auto simp: queue_body_def try_bind_eq_Inr Let_def)

lemma queue_hermes_Inr: "queue_hermes_run c u5 hs clk ids wid rv actor_id sid s = Inr y \<longleftrightarrow> queue_body c u5 hs clk ids wid rv actor_id sid s = Inr y"
  by (auto simp: queue_hermes_run_def translate_def split: sum.splits)

lemma queue_keeps:
  assumes inv: "hermes_inv (env c) s" and fresh: "fresh_ids_for u5 ids s"
    and g: "queue_body c u5 hs clk ids wid rv actor_id sid s = Inr (run, s')"
  shows "hermes_keeps (env c) s s' \<and> run_row s (run_pk run) = None \<and> run_row s' (run_pk run) = Some run \<and> hermes_lane run \<and> run_status run = RUN_QUEUED
    \<and> run_workflow run = wid \<and> run_revision run = rv \<and> start_receipts s' = start_receipts s \<and> ln_active (admission s') = Some (run_pk run)
    \<and> (\<exists>b. binding_row s' (run_pk run) = Some b \<and> bd_actor b = actor_id) \<and> lane_open hs s"
proof -
  let ?rid = "run_id_of u5 (q_correlation ids)"
  from queue_body_Inr [OF g] obtain t w live session p q x m where o: "lane_open hs s" and ad: "admitted c (instant clk) wid rv actor_id sid (core s) = Inr (w, live, session)"
    and pq: "workflow_profile hs (money s) = Inr (p, q)" and run: "run = queued_run ?rid w (mp_pk p) (rp_pk q) live"
    and res: "reserve_budget (protected_runs s) clk (q_reservation ids) ?rid (profile_id p) (mp_revision p)
        (max_input_tokens p) (max_output_tokens p) (Some (instant clk + t * SECOND)) (money s) = Inr (x, m)"
    and rows: "queue_rows (env c) run actor_id session (q_correlation ids) (instant clk + t * SECOND) (s\<lparr>money := m\<rparr>) = Inr s'"
    by blast
  have none: "tfind res_run ?rid (reservations (money s)) = None" "tfind res_pk (q_reservation ids) (reservations (money s)) = None"
    using fresh by (simp_all add: fresh_ids_for_def reservation_row_def)
  note x = reserve_shape [OF invD(2) [OF inv] res none]
  note fr = reserve_budget_frame [OF invD(2) [OF inv] res]
  have new: "run_row s ?rid = None"
  proof (cases "run_row s ?rid")
    case (Some old)
    have "\<not> hermes_lane old"
    proof
      assume "hermes_lane old"
      from run_rowsE [OF inv Some this] none(1) show False by (metis option.distinct(1) reservation_row_def)
    qed
    then have "immutable_binding old \<noteq> immutable_binding run" by (simp add: immutable_binding_def run)
    moreover have "run_row (s\<lparr>money := m\<rparr>) (run_pk run) = Some old" using Some by (simp add: run_row_def run)
    ultimately have "save_run run (s\<lparr>money := m\<rparr>) = Inl TaskValue" by (simp add: save_run_def)
    with rows show ?thesis by (simp add: queue_rows_def)
  qed simp
  have w: "tfind wf_pk wid (workflows (base (core s))) = Some w" "wf_revision w = rv" using admitted_Inr [OF ad] by blast+
  have wf: "wf_pk w = wid" using w(1) by (rule tfind_key)
  note ln = lane_open_simps [OF o]
  from queue_rows_keeps [OF inv new _ _ _ _ _ _ _ _ _ _ _ _ _ _ rows, of x] x fr ln
  show ?thesis using o w(2) wf new by (simp add: run)
qed

section \<open>Receipts\<close>

lemma keeps_receipt:
  assumes inv: "hermes_inv e s" and fits: "receipt_fits s rc" and new: "sr_pk rc \<notin> sr_pk ` set (start_receipts s)"
  shows "hermes_keeps e s (s\<lparr>start_receipts := start_receipts s @ [rc]\<rparr>)"
proof -
  let ?s = "s\<lparr>start_receipts := start_receipts s @ [rc]\<rparr>"
  have rows: "run_row ?s = run_row s" "binding_row ?s = binding_row s" "control_row ?s = control_row s" "reservation_row ?s = reservation_row s"
    "cap_row ?s = cap_row s" "run_log ?s = run_log s"
    by (simp_all add: row_defs run_log_def fun_eq_iff)
  have "references_clean ?s r = references_clean s r" for r by (rule references_same) simp_all
  then have "run_ok ?s r = run_ok s r" for r
    by (simp add: run_ok_def row_clean_def log_cong [of ?s r s] authority_cong [OF rows(5) refl] rows)
  moreover have "keys_ok sr_pk (start_receipts s @ [rc])"
    using invD(3) [OF inv] new by (auto simp: hermes_keys_def tfind_None intro!: keys_ok_append_new)
  ultimately have "hermes_inv e ?s"
    using inv fits by (simp add: hermes_inv_def lane_fits_def hermes_keys_def receipt_fits_def rows)
  then show ?thesis using evolves_refl caps_stay_refl [of ?s s] by (auto simp: hermes_keeps_def controls_stay_def rows)
qed

lemma start_cases:
  assumes "start_hermes_run c u5 hs clk ids key wid rv actor_id sid s = Inr (run, s')"
  obtains a rc where "tfind slug actor_id (actors (base (core s))) = Some a" and "operator_active (core s) a"
      and "tfind sr_pk key (start_receipts s) = Some rc" and "receipt_matches rc a wid rv" and "run_row s (sr_run rc) = Some run" and "s' = s"
  | a s1 where "tfind slug actor_id (actors (base (core s))) = Some a" and "operator_active (core s) a"
      and "tfind sr_pk key (start_receipts s) = None" and "queue_body c u5 hs clk ids wid rv actor_id sid s = Inr (run, s1)"
      and "create_receipt \<lparr>sr_pk = key, sr_owner = the (actor_user a), sr_actor = slug a, sr_workflow = wid, sr_revision = rv,
             sr_run = run_pk run\<rparr> s1 = Inr s'"
proof -
  from assms obtain a where a: "tfind slug actor_id (actors (base (core s))) = Some a" "operator_active (core s) a"
    by (auto simp: start_hermes_run_def try_bind_eq_Inr of_option_eq_Inr)
  show ?thesis
  proof (cases "tfind sr_pk key (start_receipts s)")
    case None
    with assms a obtain s1 where "queue_body c u5 hs clk ids wid rv actor_id sid s = Inr (run, s1)"
      and "create_receipt \<lparr>sr_pk = key, sr_owner = the (actor_user a), sr_actor = slug a, sr_workflow = wid, sr_revision = rv,
             sr_run = run_pk run\<rparr> s1 = Inr s'"
      by (auto simp: start_hermes_run_def try_bind_eq_Inr of_option_eq_Inr queue_hermes_Inr)
    with that(2) [OF a None] show ?thesis by blast
  next
    case (Some rc)
    with assms a have "receipt_matches rc a wid rv" "run_row s (sr_run rc) = Some run" "s' = s"
      by (auto simp: start_hermes_run_def try_bind_eq_Inr of_option_eq_Inr split: if_splits)
    with that(1) [OF a Some] show ?thesis by blast
  qed
qed

lemma start_keeps:
  assumes inv: "hermes_inv (env c) s" and fresh: "fresh_ids_for u5 ids s"
    and g: "start_hermes_run c u5 hs clk ids key wid rv actor_id sid s = Inr (run, s')"
  shows "hermes_keeps (env c) s s'"
  using g
proof (cases rule: start_cases)
  case (1 a rc)
  then show ?thesis using keeps_refl [OF inv] by simp
next
  case (2 a s1)
  let ?rc = "\<lparr>sr_pk = key, sr_owner = the (actor_user a), sr_actor = slug a, sr_workflow = wid, sr_revision = rv, sr_run = run_pk run\<rparr>"
  from 2(5) have s': "s' = s1\<lparr>start_receipts := start_receipts s1 @ [?rc]\<rparr>" and key: "key \<notin> sr_pk ` set (start_receipts s1)"
    by (auto simp: create_receipt_def try_bind_eq_Inr)
  note q = queue_keeps [OF inv fresh 2(4)]
  have "slug a = actor_id" using 2(1) by (rule tfind_key)
  then have "receipt_fits s1 ?rc" using q by (auto simp: receipt_fits_def)
  moreover have "hermes_inv (env c) s1" using q by (simp add: hermes_keeps_def)
  ultimately have "hermes_keeps (env c) s1 s'" using keeps_receipt key s' by simp
  then show ?thesis using q hermes_keeps_trans by blast
qed

end
