(* ===== verification/Hermes_Machine.thy ===== *)
theory Hermes_Machine
  imports Hermes_Admit
begin

text \<open>
  The lane as a machine.  Requests start and cancel runs, workers begin, complete and fail them, and the
  rest of the application runs in between.  What a worker holds while its client call runs (the run and
  its token) is part of the state: only such a worker can complete the run.

  The rest of the application is a rely condition: it keeps the broker's invariant and the lane's rows
  (\<open>others_kept\<close>), and it keeps the budget's invariant and the reservations of the Hermes runs
  (\<open>money_kept\<close>).  The broker's calls and the budget's operations for other runs satisfy it.
\<close>

section \<open>The rely condition\<close>

definition money_kept :: "hermes_db \<Rightarrow> budget_db \<Rightarrow> bool" where
  "money_kept s m \<longleftrightarrow> budget_inv m
     \<and> (\<forall>k r. run_row s k = Some r \<longrightarrow> hermes_lane r \<longrightarrow> tfind res_run k (reservations m) = reservation_row s k)
     \<and> (\<forall>k p. tfind mp_pk k (Budget.profiles (money s)) = Some p \<longrightarrow> tfind mp_pk k (Budget.profiles m) = Some p)
     \<and> (\<forall>k q. tfind rp_pk k (policies (money s)) = Some q \<longrightarrow> tfind rp_pk k (policies m) = Some q)"

lemma keeps_money:
  assumes inv: "hermes_inv e s" and m: "money_kept s m"
  shows "hermes_keeps e s (s\<lparr>money := m\<rparr>)"
proof -
  let ?s = "s\<lparr>money := m\<rparr>"
  have rows: "run_row ?s = run_row s" "binding_row ?s = binding_row s" "control_row ?s = control_row s" "cap_row ?s = cap_row s"
    "run_log ?s = run_log s"
    by (simp_all add: row_defs run_log_def fun_eq_iff)
  have caps: "caps_stay s ?s" by (rule caps_stay_refl) simp
  have refs: "references_clean ?s r" if "references_clean s r" for r
    using that m by (auto simp: references_clean_def money_kept_def split: option.splits)
  have oks: "run_ok ?s r" if "run_row s k = Some r" "hermes_lane r" for k r
  proof (rule run_ok_kept [OF run_okD(1) [OF inv that] _ caps])
    show "context_kept s ?s (run_pk r)"
      using m that run_okD(2) [OF inv that] by (simp add: context_kept_def rows money_kept_def) (simp add: reservation_row_def)
    show "references_clean ?s r" using run_okD(1) [OF inv that] refs by (simp add: run_ok_def row_clean_def)
  qed
  have "hermes_inv e ?s"
    using inv m oks by (simp add: hermes_inv_def lane_fits_def hermes_keys_def receipt_fits_def rows money_kept_def)
  then show ?thesis using evolves_refl caps by (auto simp: hermes_keeps_def controls_stay_def rows)
qed

text \<open>The budget's own operations satisfy it, for a run that is not on the lane.\<close>

lemma other_run_money:
  assumes inv: "hermes_inv e s" and m: "budget_inv m" "same_prices (money s) m" "spares (protected_runs s) {k} (money s) m"
    and k: "\<And>r. run_row s k = Some r \<Longrightarrow> \<not> hermes_lane r"
  shows "money_kept s m"
proof -
  have "tfind res_run q (reservations m) = reservation_row s q" if "run_row s q = Some r" "hermes_lane r" for q r
    using other_reservations [OF inv m(3) _ that] that k by blast
  with m(1,2) show ?thesis by (simp add: money_kept_def same_prices_def)
qed

lemma expiry_money:
  assumes inv: "hermes_inv e s" and x: "expire_reservations (protected_runs s) t (money s) = Inr (n, m)"
  shows "money_kept s m"
proof -
  have fr: "same_prices (money s) m \<and> spares (protected_runs s) {} (money s) m"
    using expire_reservations_frame [OF invD(2) [OF inv] x] .
  moreover have bi: "budget_inv m" using expire_reservations_ok [OF invD(2) [OF inv], of "protected_runs s" t] x by auto
  moreover have "tfind res_run k (reservations m) = reservation_row s k" if "run_row s k = Some r" "hermes_lane r" for k r
  proof -
    have "spares (protected_runs s) {CHR ''x'' # k} (money s) m" using fr by (simp add: spares_def)
    from other_reservations [OF inv this _ that] show ?thesis by simp
  qed
  ultimately show ?thesis by (simp add: money_kept_def same_prices_def)
qed

section \<open>The machine\<close>

record hermes_machine =
  lane_db :: hermes_db
  working :: "(uuid \<times> string) list"

definition now_working :: "begin_result \<Rightarrow> uuid \<Rightarrow> (uuid \<times> string) list \<Rightarrow> (uuid \<times> string) list" where
  "now_working res rid ws = (case res of Begun tok _ \<Rightarrow> (rid, tok) # ws | _ \<Rightarrow> ws)"

inductive hermes_step :: "config \<Rightarrow> (string \<Rightarrow> uuid) \<Rightarrow> hermes_machine \<Rightarrow> hermes_machine \<Rightarrow> bool" for c u5 where
  start: "fresh_ids_for u5 ids (lane_db m) \<Longrightarrow> start_hermes_run c u5 hs clk ids key wid rv actor_id sid (lane_db m) = Inr (run, s')
    \<Longrightarrow> hermes_step c u5 m (m\<lparr>lane_db := s'\<rparr>)"
| cancel: "cancel_hermes_run (env c) now rid (lane_db m) = Inr s' \<Longrightarrow> hermes_step c u5 m (m\<lparr>lane_db := s'\<rparr>)"
| undispatched: "dispatch_failed (env c) now rid (lane_db m) = Inr (ko, s') \<Longrightarrow> hermes_step c u5 m (m\<lparr>lane_db := s'\<rparr>)"
| begin_: "begin_run c hs now signed cid sp client_ok rid (lane_db m) = (res, s')
    \<Longrightarrow> hermes_step c u5 m (m\<lparr>lane_db := s', working := now_working res rid (working m)\<rparr>)"
| fail: "fail_run (env c) now rid x billable redelivery cancelled (lane_db m) = Inr s' \<Longrightarrow> hermes_step c u5 m (m\<lparr>lane_db := s'\<rparr>)"
| complete: "(rid, tok) \<in> set (working m) \<Longrightarrow> complete_run c hs now tok rid d (lane_db m) = Inr s'
    \<Longrightarrow> hermes_step c u5 m (m\<lparr>lane_db := s'\<rparr>)"
| elsewhere: "keeps (env c) (core (lane_db m)) d \<Longrightarrow> others_kept (lane_db m) d
    \<Longrightarrow> hermes_step c u5 m (m\<lparr>lane_db := (lane_db m)\<lparr>core := d\<rparr>\<rparr>)"
| spending: "money_kept (lane_db m) b \<Longrightarrow> hermes_step c u5 m (m\<lparr>lane_db := (lane_db m)\<lparr>money := b\<rparr>\<rparr>)"

definition hermes_init :: "hermes_machine \<Rightarrow> bool" where
  "hermes_init m \<longleftrightarrow> broker_init (core (lane_db m)) \<and> budget_init (money (lane_db m)) \<and> agent_runs (core (lane_db m)) = []
     \<and> bindings (core (lane_db m)) = [] \<and> controls (core (lane_db m)) = [] \<and> run_events (lane_db m) = []
     \<and> start_receipts (lane_db m) = [] \<and> admission (lane_db m) = \<lparr>ln_active = None, ln_disabled = False\<rparr> \<and> working m = []"

definition machine_inv :: "py_env \<Rightarrow> hermes_machine \<Rightarrow> bool" where
  "machine_inv e m \<longleftrightarrow> hermes_inv e (lane_db m)
     \<and> (\<forall>(rid, tok) \<in> set (working m). \<exists>r. run_row (lane_db m) rid = Some r \<and> hermes_lane r \<and> holds_token e (lane_db m) rid tok)"

lemma token_kept:
  assumes k: "hermes_keeps e s s'" and r: "run_row s rid = Some r" "hermes_lane r" and t: "holds_token e s rid tok"
  shows "\<exists>r'. run_row s' rid = Some r' \<and> hermes_lane r' \<and> holds_token e s' rid tok"
proof -
  obtain ct cap where ct: "control_row s rid = Some ct" "ct_capability ct = Some (cap_pk cap)" "cap_row s (cap_pk cap) = Some cap"
    "cap_token cap = token_digest e tok"
    using t by (auto simp: holds_token_def)
  obtain ct' where ct': "control_row s' rid = Some ct'" "ct_later ct ct'"
    using k r ct(1) unfolding hermes_keeps_def controls_stay_def by blast
  obtain cap' where cap': "cap_row s' (cap_pk cap) = Some cap'" "cap_later cap cap'"
    using k ct(3) unfolding hermes_keeps_def caps_stay_def by blast
  have "cap_pk cap' = cap_pk cap" "cap_token cap' = cap_token cap" using cap_later_fields [OF cap'(2)] by simp_all
  then have "holds_token e s' rid tok"
    unfolding holds_token_def using ct(2,4) ct' cap'(1) by (intro exI [of _ ct'] exI [of _ cap']) (auto simp: ct_later_def)
  moreover obtain r' where "run_row s' rid = Some r'" "evolves r r'" using k r unfolding hermes_keeps_def by blast
  ultimately show ?thesis using evolves_lane r(2) by blast
qed

lemma begin_cases:
  assumes inv: "hermes_inv (env c) s" and b: "begin_run c hs now signed cid sp client_ok rid s = (res, s')"
  obtains "s' = s" and "\<And>ws. now_working res rid ws = ws"
  | r tok where "run_row s rid = Some r" and "hermes_lane r" and "run_status r = RUN_QUEUED" and "res = Begun tok (started_run now sp r)"
      and "begin_body c hs now signed cid sp client_ok r s = Inr (tok, started_run now sp r, s')"
proof -
  consider r where "run_row s rid = Some r" "hermes_lane r" "run_status r = RUN_QUEUED"
    | "s' = s" "\<And>ws. now_working res rid ws = ws"
    using b owns_own [OF inv, of rid]
    by (auto simp: begin_run_def now_working_def run_active_def split: option.splits if_splits sum.splits)
  then show ?thesis
  proof cases
    case (1 r)
    with b owns_own [OF inv 1(1)] consider x where "res = Refused x" "s' = s"
      | tok r' where "res = Begun tok r'" "begin_body c hs now signed cid sp client_ok r s = Inr (tok, r', s')"
      by (auto simp: begin_run_def run_active_def split: sum.splits)
    then show ?thesis
    proof cases
      case 1
      then show ?thesis using that(1) by (simp add: now_working_def)
    next
      case (2 tok r')
      then show ?thesis using that(2) [of r tok] 1 begin_body_keeps [OF inv 1 2(2)] by simp
    qed
  qed (use that in blast)
qed

lemma machine_step:
  assumes inv: "machine_inv (env c) m" and st: "hermes_step c u5 m m'"
  shows "machine_inv (env c) m' \<and> hermes_keeps (env c) (lane_db m) (lane_db m')"
proof -
  have h: "hermes_inv (env c) (lane_db m)" using inv by (simp add: machine_inv_def)
  have k: "hermes_keeps (env c) (lane_db m) (lane_db m') \<and> (\<forall>p \<in> set (working m'). p \<in> set (working m)
      \<or> (\<exists>r. run_row (lane_db m') (fst p) = Some r \<and> hermes_lane r \<and> holds_token (env c) (lane_db m') (fst p) (snd p)))"
    using st
  proof cases
    case (begin_ hs now signed cid sp client_ok rid res s')
    from begin_cases [OF h begin_(2)] show ?thesis
    proof cases
      case 1
      then show ?thesis using keeps_refl [OF h] begin_(1) by simp
    next
      case (2 r tok)
      have "hermes_lane (started_run now sp r)" using 2(2) by (simp add: started_run_def)
      with begin_body_keeps [OF h 2(1,2,3,5)] 2(4) begin_(1) show ?thesis by (simp add: now_working_def)
    qed
  next
    case (complete rid tok hs now d s')
    then have "holds_token (env c) (lane_db m) rid tok" using inv by (auto simp: machine_inv_def)
    from complete_keeps [OF h this complete(3)] complete(1) show ?thesis by simp
  next
    case (undispatched now rid ko s')
    then show ?thesis using finish_keeps [OF h] by (simp add: dispatch_failed_def)
  qed (use h start_keeps cancel_keeps fail_keeps keeps_core keeps_money in auto)
  have "\<exists>r. run_row (lane_db m') rid = Some r \<and> hermes_lane r \<and> holds_token (env c) (lane_db m') rid tok" if "(rid, tok) \<in> set (working m')" for rid tok
    using that k inv token_kept unfolding machine_inv_def by fastforce
  then show ?thesis using k keeps_inv by (auto simp: machine_inv_def)
qed

lemma machine_init: "hermes_init m \<Longrightarrow> machine_inv e m"
  by (auto simp: hermes_init_def machine_inv_def hermes_inv_def hermes_keys_def lane_fits_def run_row_def broker_init_def
      broker_inv_def broker_keys_def intro: budget_init_inv)

interpretation hermes: state_machine hermes_init "hermes_step c u5" "machine_inv (env c)" for c u5
  by unfold_locales (blast intro: machine_init dest: machine_step)+

lemma machine_run:
  assumes "(hermes_step c u5)\<^sup>*\<^sup>* m m'" and "machine_inv (env c) m"
  shows "hermes_keeps (env c) (lane_db m) (lane_db m')"
  using assms
proof (induction rule: rtranclp_induct)
  case base
  then show ?case using keeps_refl by (simp add: machine_inv_def)
next
  case (step y z)
  then show ?case using hermes_keeps_trans machine_step hermes.run_inv by blast
qed

lemma reachable_hermes:
  assumes "hermes_init m0" and "(hermes_step c u5)\<^sup>*\<^sup>* m0 m"
  shows "hermes_inv (env c) (lane_db m)"
  using hermes.reachable_inv [OF assms] by (simp add: machine_inv_def)

end
