(* ===== verification/Hermes_Props.thy ===== *)
theory Hermes_Props
  imports Hermes_Machine
begin

text \<open>
  What the Hermes lane promises: one active run at a time, ended runs closed for good, idempotent
  starts, a failure handler that always ends the run, results accepted only with live authority and
  traceable outputs, and a closed lane that admits nothing more.
\<close>

section \<open>What a validated result contains\<close>

text \<open>A reference names a proposal that the run's own capability submitted, with its digest and schema.\<close>

definition backed_reference :: "py_env \<Rightarrow> draft_db \<Rightarrow> uuid \<Rightarrow> json \<Rightarrow> bool" where
  "backed_reference e s k v \<longleftrightarrow> (\<exists>sub \<in> set (submissions s). ref_id v = Inr (sub_pk sub) \<and> sub_capability sub = k
     \<and> sub_kind sub = ''proposal'' \<and> jfield v ''proposal_digest'' = JStr (sub_digest sub)
     \<and> digest e (sub_content sub) = Inr (sub_digest sub) \<and> validate (sub_content sub) PROPOSAL)"

lemma reject_Inr [simp]: "reject b = Inr u \<longleftrightarrow> \<not> b"
  by (simp add: reject_def)

lemma or_invalid_Inr [simp]: "or_invalid m = Inr v \<longleftrightarrow> m = Inr v"
  by (cases m) auto

lemma referenced_proposal_Inr:
  assumes "referenced_proposal e s k v = Inr p"
  shows "\<exists>sub c. k = Some c \<and> sub \<in> set (submissions s) \<and> sub_pk sub = p \<and> sub_capability sub = c \<and> sub_kind sub = ''proposal''
    \<and> ref_id v = Inr p \<and> jfield v ''proposal_digest'' = JStr (sub_digest sub)
    \<and> digest e (sub_content sub) = Inr (sub_digest sub) \<and> validate (sub_content sub) PROPOSAL"
proof -
  from assms obtain sub where f: "find (\<lambda>sub. sub_pk sub = p \<and> Some (sub_capability sub) = k \<and> sub_kind sub = ''proposal'') (submissions s) = Some sub"
    and r: "ref_id v = Inr p" "jfield v ''proposal_digest'' = JStr (sub_digest sub)" "digest e (sub_content sub) = Inr (sub_digest sub)"
      "validate (sub_content sub) PROPOSAL" "sub_pk sub = p"
    by (auto simp: referenced_proposal_def try_bind_eq_Inr of_option_eq_Inr find_Some_iff)
  from f have "sub \<in> set (submissions s)" "Some (sub_capability sub) = k" "sub_kind sub = ''proposal''"
    by (auto simp: find_Some_iff)
  with r show ?thesis by blast
qed

lemma referenced_proposals_Inr:
  "referenced_proposals e s k vs = Inr ps \<Longrightarrow>
     (\<forall>p \<in> set ps. \<exists>v \<in> set vs. referenced_proposal e s k v = Inr p) \<and> (\<forall>v \<in> set vs. \<exists>p. referenced_proposal e s k v = Inr p)"
proof (induction vs arbitrary: ps)
  case (Cons v vs)
  then obtain p qs where "referenced_proposal e s k v = Inr p" "referenced_proposals e s k vs = Inr qs" "ps = p # qs"
    by (auto simp: try_bind_eq_Inr)
  with Cons.IH [of qs] show ?case by auto
qed simp

lemma validate_operations_Inr:
  "validate_operations e s run b ps is = Inr () \<Longrightarrow> i \<in> set is \<Longrightarrow> validate_operation e s run b ps i = Inr ()"
  by (induction "is") (auto simp: try_bind_eq_Inr)

lemma validate_outputs_Inr:
  assumes "validate_outputs e s run b ct r d = Inr ()"
  shows "\<exists>vs ps. references_of d = Inr vs \<and> vs \<noteq> [] \<and> referenced_proposals e s (ct_capability ct) vs = Inr ps
    \<and> validate_operations e s run b ps (run_operations s (ct_capability ct)) = Inr ()
    \<and> (kind_of r \<in> {Manual, Eventbrite} \<longrightarrow> owner_outputs_ok ps (run_operations s (ct_capability ct)))"
  using assms by (auto simp: validate_outputs_def references_of_def try_bind_eq_Inr Let_def split: json.splits list.splits)

lemma validate_result_Inr:
  assumes "validate_result e s r b ct v d = Inr (i, out)"
  shows "dget d ''status'' = JStr ''succeeded'' \<and> validate_outputs e (core s) r b ct v d = Inr ()
    \<and> (\<exists>k p. usage_of d = Inr (i, out, k) \<and> tfind mp_pk (run_profile r) (Budget.profiles (money s)) = Some p \<and> cost_of p i out = Inr k)"
  using assms by (auto simp: validate_result_def validate_usage_def try_bind_eq_Inr of_option_eq_Inr split: if_splits)

lemma run_ready_True:
  assumes "run_ready c s now run b a w r = Inr True"
  shows "wf_revision w = run_revision run \<and> wf_hash w = run_hash run
    \<and> (\<exists>p. package w = Some p \<and> package_hash c p = run_hash run \<and> jfield p ''status'' = JStr ''ready_for_review'')"
proof -
  obtain q where q: "package_current c w q (Some (run_hash run)) = Inr True" and "wf_revision w = run_revision run"
    using assms by (auto simp: run_ready_def dest!: owner_ready_True ready_True split: if_splits)
  with package_current_True [OF q] show ?thesis by auto
qed

text \<open>An accepted operation is one that the draft operations accept as the run's.\<close>

lemma accepted_operation:
  assumes inv: "broker_inv e s" and op: "validate_operation e s run b ps i = Inr ()"
    and ps: "\<forall>p \<in> set ps. \<exists>v \<in> set vs. referenced_proposal e s k v = Inr p"
    and i: "i \<in> set (run_operations s k)" and k: "k = ct_capability ct" "ct_capability ct = Some (cap_pk cap)"
    and cap: "tfind cap_pk (cap_pk cap) (capabilities s) = Some cap" "bound_to run b cap"
    and w: "tfind wf_pk (run_workflow run) (workflows (base s)) = Some w" "wf_revision w = run_revision run" "wf_hash w = run_hash run"
    and r: "tfind rev_pk (wf_revision w) (revisions (base s)) = Some r" "digest e (JObj (snapshot r)) = Inr (bd_revision_digest b)"
    and rows: "tfind bd_run (run_pk run') (bindings s) = Some b" "tfind ct_run (run_pk run') (controls s) = Some ct"
    and run': "run_status run' = RUN_SUCCEEDED" "hermes_lane run'" "run_workflow run' = run_workflow run" "run_revision run' = run_revision run"
      "run_hash run' = run_hash run"
  shows "validate_intent e s i run' = Inr (bd_revision_digest b)"
proof -
  from op obtain sub action key where o: "operation_ok run b ps i" and sub: "tfind sub_pk (in_proposal i) (submissions s) = Some sub"
    and dg: "digest e (operation_action run b i sub) = Inr action" "digest e (operation_key run b i action) = Inr key"
      "in_action_digest i = action" "in_idempotency i = key"
    by (auto simp: validate_operation_def try_bind_eq_Inr of_option_eq_Inr)
  have capk: "sub_capability sub = cap_pk cap" using i sub k by (auto simp: run_operations_def)
  from o ps obtain v where "referenced_proposal e s k v = Inr (in_proposal i)" by (auto simp: operation_ok_def)
  from referenced_proposal_Inr [OF this] obtain sub' where s': "sub' \<in> set (submissions s)" "sub_pk sub' = in_proposal i"
    "sub_kind sub' = ''proposal''" "digest e (sub_content sub') = Inr (sub_digest sub')" "validate (sub_content sub') PROPOSAL"
    by blast
  have "keys_ok sub_pk (submissions s)" using inv by (simp add: broker_inv_def broker_keys_def)
  then have same: "sub' = sub" using tfind_unique [of sub_pk "submissions s" sub'] s' sub by simp
  have wk: "wf_pk w = run_workflow run" using tfind_key [OF w(1)] .
  have av: "action_value w (bd_revision_digest b) i sub = operation_action run b i sub" "idempotency_value w i action = operation_key run b i action"
    using o wk by (simp_all add: action_value_def operation_action_def idempotency_value_def operation_key_def operation_ok_def)
  have aud: "cap_audience cap = ''civicloop-hermes''"
    using inv tfind_in [OF cap(1)] by (auto simp: broker_inv_def cap_ok_def AUDIENCE_def)
  have tools: "''request_eventbrite_draft'' \<in> set (cap_tools cap)" "''request_iterable_drafts'' \<in> set (cap_tools cap)"
    using cap(2) by (simp_all add: bound_to_def TOOLS_def)
  have "run_current w run'" using run' w wk by (simp add: run_current_def)
  moreover have "binding_current i (bd_revision_digest b) b" using o by (simp add: binding_current_def operation_ok_def)
  moreover have "capability_current w i (bd_revision_digest b) b ct cap"
    using o k cap(2) w wk aud tools by (simp add: capability_current_def operation_ok_def bound_to_def)
  moreover have "in_revision i = wf_revision w" "in_workflow i = run_workflow run" using o w by (simp_all add: operation_ok_def)
  moreover have "intent_pending i action key" using o dg by (simp add: intent_pending_def operation_ok_def)
  moreover have "proposal_schema_ok i sub" using s' same by (simp add: proposal_schema_ok_def)
  ultimately show ?thesis
    using sub capk cap(1) w(1) r rows s' same dg av
    by (simp add: validate_intent_def workflow_of_def demand_def)
qed


section \<open>The lane\<close>

text \<open>
  C10: A Hermes run is queued or running exactly when it is the lane's active run, so at most one Hermes
  run is active at any time.
\<close>
theorem lane_exclusive:
  assumes "hermes_init m0" and "(hermes_step c u5)\<^sup>*\<^sup>* m0 m" and "run_row (lane_db m) k = Some r" and "hermes_lane r"
  shows "(run_active r \<longleftrightarrow> ln_active (admission (lane_db m)) = Some k)
    \<and> (\<forall>q r'. run_active r \<and> run_row (lane_db m) q = Some r' \<and> hermes_lane r' \<and> run_active r' \<longrightarrow> q = k)"
proof -
  have inv: "hermes_inv (env c) (lane_db m)" using reachable_hermes [OF assms(1,2)] .
  show ?thesis using run_okD(3) [OF inv assms(3,4)] run_okD(3) [OF inv] by auto
qed

lemma closed_capability:
  assumes "authority_fits s r b ct" and "\<not> run_active r" and "ct_capability ct = Some k"
  shows "\<exists>cap. cap_row s k = Some cap \<and> cap_revoked cap \<noteq> None"
  using assms by (auto simp: authority_fits_def split: option.splits)

text \<open>
  C13: A Hermes run that ended holds nothing: its reservation is settled or released, its recorded usage
  is what the budget was charged, its capability is revoked, and it has an end time.  A run that
  succeeded was settled.
\<close>
theorem ended_run_closed:
  assumes "hermes_init m0" and "(hermes_step c u5)\<^sup>*\<^sup>* m0 m" and "run_row (lane_db m) k = Some r" and "hermes_lane r" and "\<not> run_active r"
  shows "\<exists>ct x. control_row (lane_db m) k = Some ct \<and> reservation_row (lane_db m) k = Some x \<and> res_status x \<noteq> RESERVED
    \<and> (run_input r, run_output r, run_cost r) = billed x \<and> (run_status r = RUN_SUCCEEDED \<longrightarrow> res_status x = SETTLED)
    \<and> finished_at r \<noteq> None
    \<and> (\<forall>q. ct_capability ct = Some q \<longrightarrow> (\<exists>cap. cap_row (lane_db m) q = Some cap \<and> cap_revoked cap \<noteq> None))"
proof -
  have inv: "hermes_inv (env c) (lane_db m)" using reachable_hermes [OF assms(1,2)] .
  obtain b ct x where *: "control_row (lane_db m) k = Some ct" "reservation_row (lane_db m) k = Some x" "reservation_fits x r"
    "authority_fits (lane_db m) r b ct"
    using run_rowsE [OF inv assms(3,4)] by metis
  have "lifecycle_clean r" using run_okD(1) [OF inv assms(3,4)] by (simp add: run_ok_def row_clean_def)
  then have "finished_at r \<noteq> None" using assms(5) by (auto simp: lifecycle_clean_def run_active_def split: run_status.splits)
  with * assms(5) closed_capability [OF *(4) assms(5)] show ?thesis
    by (intro exI [of _ ct] exI [of _ x]) (simp add: reservation_fits_def usage_of_run_def)
qed


text \<open>
  The event log of a Hermes run is numbered from one without a gap, and the last status in it is
  the run's status.
\<close>
theorem event_log_mirrors_status:
  assumes "hermes_init m0" and "(hermes_step c u5)\<^sup>*\<^sup>* m0 m" and "run_row (lane_db m) k = Some r" and "hermes_lane r"
  shows "map fst (run_log (lane_db m) k) = [1..<Suc (length (run_log (lane_db m) k))]
    \<and> last (filter (\<lambda>t. t \<noteq> ''cancel_requested'') (map snd (run_log (lane_db m) k))) = status_text (run_status r)"
proof -
  have inv: "hermes_inv (env c) (lane_db m)" using reachable_hermes [OF assms(1,2)] .
  have "log_fits (lane_db m) r" "run_pk r = k" using run_okD(1,2) [OF inv assms(3,4)] by (simp_all add: run_ok_def)
  then have n: "numbered (lane_db m) k" and t: "logged_status (lane_db m) k = status_text (run_status r)"
    by (auto simp: log_fits_def)
  have "status_text (run_status r) \<noteq> []" by (cases "run_status r") simp_all
  with n t show ?thesis
    unfolding numbered_def logged_status_def by (auto simp: last_rev split: list.splits)
qed

text \<open>
  Once the admissions are closed they stay closed and no new Hermes run appears, whatever happens
  afterwards.
\<close>
theorem closed_lane_admits_nothing:
  assumes "hermes_init m0" and "(hermes_step c u5)\<^sup>*\<^sup>* m0 m" and "ln_disabled (admission (lane_db m))"
    and "(hermes_step c u5)\<^sup>*\<^sup>* m m'"
  shows "ln_disabled (admission (lane_db m'))
    \<and> (\<forall>k r'. run_row (lane_db m') k = Some r' \<and> hermes_lane r' \<longrightarrow> run_row (lane_db m) k \<noteq> None)"
proof -
  have "machine_inv (env c) m" using hermes.reachable_inv [OF assms(1,2)] .
  from machine_run [OF assms(4) this] assms(3) show ?thesis unfolding hermes_keeps_def by fastforce
qed

section \<open>Starts\<close>

lemma receipt_of_start:
  assumes "start_hermes_run c u5 hs clk ids key wid rv actor_id sid s = Inr (run, s')"
    and inv: "hermes_inv (env c) s" and fresh: "fresh_ids_for u5 ids s"
  shows "\<exists>rc. tfind sr_pk key (start_receipts s') = Some rc \<and> sr_actor rc = actor_id \<and> sr_workflow rc = wid \<and> sr_revision rc = rv
    \<and> sr_run rc = run_pk run"
  using assms(1)
proof (cases rule: start_cases)
  case (1 a rc)
  have "run_pk run = sr_run rc" using 1(5) by (auto simp: run_row_def dest: tfind_key)
  moreover have "slug a = actor_id" using 1(1) by (rule tfind_key)
  ultimately show ?thesis using 1(3,4,6) by (auto simp: receipt_matches_def)
next
  case (2 a s1)
  have "start_receipts s1 = start_receipts s" using queue_keeps [OF inv fresh 2(4)] by blast
  moreover have "slug a = actor_id" using 2(1) by (rule tfind_key)
  ultimately show ?thesis using 2(3,5) by (auto simp: create_receipt_def try_bind_eq_Inr tfind_append)
qed

text \<open>
  C15: A start is idempotent: after a start with a key has returned a run, any later start with that key
  either fails or is for the same actor, workflow and revision, returns the same run as it is now, and
  changes nothing.
\<close>
theorem start_idempotent:
  assumes "hermes_init m0" and "(hermes_step c u5)\<^sup>*\<^sup>* m0 m" and "fresh_ids_for u5 ids (lane_db m)"
    and "start_hermes_run c u5 hs clk ids key wid rv actor_id sid (lane_db m) = Inr (run, s')"
    and "(hermes_step c u5)\<^sup>*\<^sup>* (m\<lparr>lane_db := s'\<rparr>) m'"
    and "start_hermes_run c u5 hs' clk' ids' key wid' rv' actor_id' sid' (lane_db m') = Inr (run', s'')"
  shows "run_pk run' = run_pk run \<and> run_row (lane_db m') (run_pk run) = Some run' \<and> s'' = lane_db m'
    \<and> wid' = wid \<and> rv' = rv \<and> actor_id' = actor_id"
proof -
  have mi: "machine_inv (env c) m" using hermes.reachable_inv [OF assms(1,2)] .
  have st: "hermes_step c u5 m (m\<lparr>lane_db := s'\<rparr>)" using assms(3,4) by (rule hermes_step.start)
  have inv: "hermes_inv (env c) (lane_db m)" using mi by (simp add: machine_inv_def)
  obtain rc where rc: "tfind sr_pk key (start_receipts s') = Some rc" "sr_actor rc = actor_id" "sr_workflow rc = wid" "sr_revision rc = rv"
    "sr_run rc = run_pk run"
    using receipt_of_start [OF assms(4) inv assms(3)] by blast
  have "hermes_keeps (env c) s' (lane_db m')"
    using machine_run [OF assms(5)] machine_step [OF mi st] by simp
  then have later: "tfind sr_pk key (start_receipts (lane_db m')) = Some rc"
    using rc(1) by (auto simp: hermes_keeps_def tfind_append)
  from assms(6) show ?thesis
  proof (cases rule: start_cases)
    case (1 a rc')
    have "run_pk run' = sr_run rc'" using 1(5) by (auto simp: run_row_def dest: tfind_key)
    moreover have "slug a = actor_id'" using 1(1) by (rule tfind_key)
    ultimately show ?thesis using 1 later rc by (auto simp: receipt_matches_def)
  next
    case (2 a s1)
    with later show ?thesis by simp
  qed
qed

section \<open>Ends\<close>


text \<open>
  Cancelling a queued run ends it as cancelled, releases its whole reservation, revokes what
  authority it had, frees the lane and leaves the admissions as they were.
\<close>
theorem cancel_queued_run:
  assumes "hermes_init m0" and "(hermes_step c u5)\<^sup>*\<^sup>* m0 m" and "run_row (lane_db m) rid = Some r" and "hermes_lane r"
    and "run_status r = RUN_QUEUED" and "control_row (lane_db m) rid = Some ct" and "ct_cancel ct = None"
  shows "\<exists>s' r' q. cancel_hermes_run (env c) now rid (lane_db m) = Inr s' \<and> run_row s' rid = Some r'
    \<and> run_status r' = RUN_CANCELLED \<and> run_failure r' = Some F_CANCELLED \<and> (run_input r', run_output r', run_cost r') = (0, 0, 0)
    \<and> reservation_row s' rid = Some q \<and> res_status q = RELEASED \<and> ln_active (admission s') = None
    \<and> ln_disabled (admission s') = ln_disabled (admission (lane_db m))"
proof -
  have inv: "hermes_inv (env c) (lane_db m)" using reachable_hermes [OF assms(1,2)] .
  have act: "run_active r" using assms(5) by (simp add: run_active_def)
  obtain p where p: "reservation_row (lane_db m) rid = Some p" "reservation_fits p r"
    using run_rowsE [OF inv assms(3,4)] by metis
  obtain s' where s': "cancel_hermes_run (env c) now rid (lane_db m) = Inr s'" "hermes_keeps (env c) (lane_db m) s'"
    "run_row s' rid = Some (ended_run now F_CANCELLED (with_usage (Some (released p)) r))" "reservation_row s' rid = Some (released p)"
    "ln_active (admission s') = None" "ln_disabled (admission s') = ln_disabled (admission (lane_db m))"
    using cancel_ok [OF inv assms(3,4) act assms(6,7) p(1), of now] assms(5) by auto
  have "usage_of_run (with_usage (Some (released p)) r) = (0, 0, 0)"
    using p(2) act by (simp add: reservation_fits_def usage_of_run_def with_usage_def released_def billed_def split: option.splits)
  then show ?thesis using s' by (auto simp: ended_run_def released_def usage_of_run_def)
qed

section \<open>Results\<close>

lemma working_token:
  assumes "machine_inv e m" and "(rid, tok) \<in> set (working m)"
  shows "\<exists>r. run_row (lane_db m) rid = Some r \<and> hermes_lane r \<and> holds_token e (lane_db m) rid tok"
  using assms by (auto simp: machine_inv_def)

text \<open>
  C5: A worker's result is accepted only while its run is running, not cancelled and within its lease,
  for an active operator, against the workflow's current revision and package, with a live capability;
  every reference names a proposal that this capability submitted.  The run then succeeds with the
  usage it reported, at the price of its reservation, and the capability is revoked.
\<close>
theorem accepted_result_sound:
  assumes "hermes_init m0" and "(hermes_step c u5)\<^sup>*\<^sup>* m0 m" and "(rid, tok) \<in> set (working m)"
    and "complete_run c hs now tok rid d (lane_db m) = Inr s'"
  shows "\<exists>r r' ct cap b w a x vs k. run_row (lane_db m) rid = Some r \<and> run_status r = RUN_RUNNING
    \<and> control_row (lane_db m) rid = Some ct \<and> ct_cancel ct = None \<and> (\<exists>t. ct_lease ct = Some t \<and> now < t)
    \<and> binding_row (lane_db m) rid = Some b \<and> tfind slug (bd_actor b) (actors (base (core (lane_db m)))) = Some a
    \<and> operator_active (core (lane_db m)) a
    \<and> tfind wf_pk (run_workflow r) (workflows (base (core (lane_db m)))) = Some w \<and> wf_revision w = run_revision r \<and> wf_hash w = run_hash r
    \<and> ct_capability ct = Some (cap_pk cap) \<and> cap_row (lane_db m) (cap_pk cap) = Some cap \<and> cap_token cap = token_digest (env c) tok
    \<and> cap_revoked cap = None \<and> now < cap_expires cap
    \<and> references_of d = Inr vs \<and> vs \<noteq> [] \<and> (\<forall>v \<in> set vs. backed_reference (env c) (core (lane_db m)) (cap_pk cap) v)
    \<and> run_row s' rid = Some r' \<and> run_status r' = RUN_SUCCEEDED \<and> usage_of d = Inr (run_input r', run_output r', k)
    \<and> reservation_row s' rid = Some x \<and> res_status x = SETTLED
    \<and> cost_of (res_profile x) (run_input r') (run_output r') = Inr (run_cost r')
    \<and> (\<exists>cap'. cap_row s' (cap_pk cap) = Some cap' \<and> cap_revoked cap' \<noteq> None) \<and> ln_active (admission s') = None"
proof -
  let ?s = "lane_db m"
  have mi: "machine_inv (env c) m" using hermes.reachable_inv [OF assms(1,2)] .
  then have inv: "hermes_inv (env c) ?s" by (simp add: machine_inv_def)
  have t: "holds_token (env c) ?s rid tok" using working_token [OF mi assms(3)] by blast
  from complete_run_Inr [OF assms(4)] obtain r ct cap w b v i out where f: "run_row ?s rid = Some r" "run_status r = RUN_RUNNING"
    "control_row ?s rid = Some ct" "Option.bind (ct_capability ct) (cap_row ?s) = Some cap"
    "tfind wf_pk (run_workflow r) (workflows (base (core ?s))) = Some w" "ln_active (admission ?s) = Some rid" "binding_row ?s rid = Some b"
    "check_run c hs now r b ct w (Some cap) (core ?s) = Inr ()" "validate_result (env c) ?s r b ct v d = Inr (i, out)"
    "settle_success (env c) now tok r i out ?s = Inr s'"
    by blast
  note ch = check_run_Inr [OF f(8)]
  obtain cap' where "ct_capability ct = Some (cap_pk cap')" "cap_row ?s (cap_pk cap') = Some cap'"
    "tfind cap_token (token_digest (env c) tok) (capabilities (core ?s)) = Some cap'"
    using holds_tokenE [OF inv t f(3)] .
  then have cap: "ct_capability ct = Some (cap_pk cap)" "cap_row ?s (cap_pk cap) = Some cap" "cap_token cap = token_digest (env c) tok"
    using f(4) by (auto dest: tfind_key)
  obtain a q where a: "tfind slug (bd_actor b) (actors (base (core ?s))) = Some a" "operator_active (core ?s) a"
    and q: "run_ready c (core ?s) now r b a w q = Inr True" using ch by blast
  from validate_result_Inr [OF f(9)] obtain k where us: "usage_of d = Inr (i, out, k)"
    and vo: "validate_outputs (env c) (core ?s) r b ct v d = Inr ()" by blast
  from validate_outputs_Inr [OF vo] obtain vs ps where vs: "references_of d = Inr vs" "vs \<noteq> []"
    "referenced_proposals (env c) (core ?s) (ct_capability ct) vs = Inr ps" by blast
  have backed: "backed_reference (env c) (core ?s) (cap_pk cap) v" if v: "v \<in> set vs" for v
  proof -
    obtain p where "referenced_proposal (env c) (core ?s) (ct_capability ct) v = Inr p" using referenced_proposals_Inr [OF vs(3)] v by blast
    from referenced_proposal_Inr [OF this] show ?thesis using cap(1) unfolding backed_reference_def by auto
  qed
  from settle_success_keeps [OF inv f(1) active_is_hermes [OF inv f(6,1)] f(2) t f(3,6,10)] obtain x where
    x: "reservation_row s' rid = Some x" "billed x = (i, out, run_cost (succeeded_run now x r))" "res_status x = SETTLED"
      "cost_of (res_profile x) i out = Inr (run_cost (succeeded_run now x r))" "run_row s' rid = Some (succeeded_run now x r)"
    and over: "authority_ended s' ct" "ln_active (admission s') = None" and kp: "hermes_keeps (env c) ?s s'"
    by blast
  let ?r = "succeeded_run now x r"
  have "hermes_lane ?r" using active_is_hermes [OF inv f(6,1)] by (simp add: succeeded_run_def)
  from run_rowsE [OF keeps_inv [OF kp] x(5) this] have "usage_of_run ?r = billed x"
    using x(1) by (metis option.inject reservation_fits_def)
  then have io: "run_input ?r = i" "run_output ?r = out" using x(2) by (simp_all add: usage_of_run_def)
  have rev: "\<exists>cap'. cap_row s' (cap_pk cap) = Some cap' \<and> cap_revoked cap' \<noteq> None"
    using over(1) cap(1) by (auto simp: authority_ended_def split: option.splits)
  have ok: "run_status ?r = RUN_SUCCEEDED" by (simp add: succeeded_run_def)
  have live: "cap_revoked cap = None" "now < cap_expires cap" "ct_cancel ct = None" "\<exists>t. ct_lease ct = Some t \<and> now < t"
    using ch by (simp_all add: capability_usable_def)
  show ?thesis
    by (intro exI [of _ r] exI [of _ ?r] exI [of _ ct] exI [of _ cap] exI [of _ b] exI [of _ w] exI [of _ a] exI [of _ x] exI [of _ vs] exI [of _ k])
      (use f cap a run_ready_True [OF q] vs backed x over rev io us ok live in simp)
qed

text \<open>
  C9: The operations of an accepted run are ready for the draft operations: in the state that the
  acceptance leaves, \<open>_validate_intent\<close> accepts every operation that came from the run's proposals.
\<close>
theorem accepted_operations_valid:
  assumes "hermes_init m0" and "(hermes_step c u5)\<^sup>*\<^sup>* m0 m" and "(rid, tok) \<in> set (working m)"
    and "complete_run c hs now tok rid d (lane_db m) = Inr s'"
  shows "\<exists>r ct b. run_row s' rid = Some r \<and> control_row s' rid = Some ct \<and> binding_row s' rid = Some b
    \<and> (\<forall>i \<in> set (run_operations (core s') (ct_capability ct)). validate_intent (env c) (core s') i r = Inr (bd_revision_digest b))"
proof -
  let ?s = "lane_db m"
  have mi: "machine_inv (env c) m" using hermes.reachable_inv [OF assms(1,2)] .
  then have inv: "hermes_inv (env c) ?s" by (simp add: machine_inv_def)
  have t: "holds_token (env c) ?s rid tok" using working_token [OF mi assms(3)] by blast
  from complete_run_Inr [OF assms(4)] obtain r ct cap w b v i out where f: "run_row ?s rid = Some r" "run_status r = RUN_RUNNING"
    "control_row ?s rid = Some ct" "Option.bind (ct_capability ct) (cap_row ?s) = Some cap"
    "tfind wf_pk (run_workflow r) (workflows (base (core ?s))) = Some w" "ln_active (admission ?s) = Some rid" "binding_row ?s rid = Some b"
    "check_run c hs now r b ct w (Some cap) (core ?s) = Inr ()" "validate_result (env c) ?s r b ct v d = Inr (i, out)"
    "settle_success (env c) now tok r i out ?s = Inr s'"
    by blast
  have hl: "hermes_lane r" using active_is_hermes [OF inv f(6,1)] .
  obtain a q where q: "run_ready c (core ?s) now r b a w q = Inr True" "tfind rev_pk (wf_revision w) (revisions (base (core ?s))) = Some q"
    "digest (env c) (JObj (snapshot q)) = Inr (bd_revision_digest b)" using check_run_Inr [OF f(8)] by blast
  from validate_result_Inr [OF f(9)] have vo: "validate_outputs (env c) (core ?s) r b ct v d = Inr ()" by blast
  from validate_outputs_Inr [OF vo] obtain vs ps where vs: "referenced_proposals (env c) (core ?s) (ct_capability ct) vs = Inr ps"
    "validate_operations (env c) (core ?s) r b ps (run_operations (core ?s) (ct_capability ct)) = Inr ()" by blast
  from settle_success_keeps [OF inv f(1) hl f(2) t f(3,6,10)] obtain x where x: "run_row s' rid = Some (succeeded_run now x r)"
    and st: "control_row s' = control_row ?s" "submissions (core s') = submissions (core ?s)" "intents (core s') = intents (core ?s)"
      "bindings (core s') = bindings (core ?s)" "workflows (base (core s')) = workflows (base (core ?s))"
      "revisions (base (core s')) = revisions (base (core ?s))" and kp: "hermes_keeps (env c) ?s s'"
    by blast
  let ?r = "succeeded_run now x r"
  have r': "run_pk ?r = rid" "run_status ?r = RUN_SUCCEEDED" "hermes_lane ?r" "run_workflow ?r = run_workflow r" "run_revision ?r = run_revision r"
    "run_hash ?r = run_hash r"
    using hl run_okD(2) [OF inv f(1) hl] with_usage_simps(4) [of "Some x" r]
    by (simp_all add: succeeded_run_def immutable_binding_def)
  have inv': "hermes_inv (env c) s'" using keeps_inv [OF kp] .
  have ctr: "control_row s' rid = Some ct" "binding_row s' rid = Some b" using f(3,7) st by (simp_all add: binding_row_def)
  have au: "authority_fits s' ?r b ct" using run_rowsE [OF inv' x r'(3)] ctr by (metis option.inject)
  then obtain cap' where cap': "ct_capability ct = Some (cap_pk cap')" "cap_row s' (cap_pk cap') = Some cap'" "bound_to ?r b cap'"
    using r'(2) by (auto simp: authority_fits_def cap_row_def split: option.splits dest: tfind_key)
  have bound: "bound_to r b cap'" using cap'(3) r' by (simp add: bound_to_def)
  have ops: "run_operations (core s') k = run_operations (core ?s) k" for k by (simp add: run_operations_def st)
  have refs: "referenced_proposal (env c) (core s') k v = referenced_proposal (env c) (core ?s) k v" for k v
    by (simp add: referenced_proposal_def st)
  have ready: "wf_revision w = run_revision r" "wf_hash w = run_hash r" using run_ready_True [OF q(1)] by blast+
  have "validate_intent (env c) (core s') i ?r = Inr (bd_revision_digest b)" if i: "i \<in> set (run_operations (core s') (ct_capability ct))" for i
  proof (rule accepted_operation [where w = w and r = q, OF invD(1) [OF inv'] _ _ i refl cap'(1) _ bound])
    show "validate_operation (env c) (core s') r b ps i = Inr ()"
      using validate_operations_Inr [OF vs(2)] i by (simp add: ops validate_operation_def st)
    show "\<forall>p \<in> set ps. \<exists>v \<in> set vs. referenced_proposal (env c) (core s') (ct_capability ct) v = Inr p"
      using referenced_proposals_Inr [OF vs(1)] by (simp add: refs)
    show "tfind cap_pk (cap_pk cap') (capabilities (core s')) = Some cap'" using cap'(2) by (simp add: cap_row_def)
    show "tfind bd_run (run_pk ?r) (bindings (core s')) = Some b" "tfind ct_run (run_pk ?r) (controls (core s')) = Some ct"
      using ctr r'(1) by (simp_all add: binding_row_def control_row_def)
  qed (use f(5) st ready q r' in simp_all)
  with x ctr show ?thesis by blast
qed

end
