(* ===== verification/Workflow_Inv.thy ===== *)
theory Workflow_Inv
  imports Workflow
begin

text \<open>
  The invariant of the workflow database and the proof that every operation keeps it.

  \<open>coherent\<close> says, per status, how a workflow row, its current revision, its approval request and its
  connector execution fit together; \<open>wf_inv\<close> adds the keys and the references.  Each operation has
  one preservation lemma; the step relation \<open>wf_step\<close> collects the operations, and the theorems read
  the invariant in the states that a sequence of committed operations reaches.
\<close>

section \<open>The invariant\<close>

definition approval_of :: "db \<Rightarrow> workflow \<Rightarrow> approval option" where
  "approval_of s w = tfind ap_workflow (wf_pk w) (approvals s)"

definition execution_of :: "db \<Rightarrow> workflow \<Rightarrow> execution option" where
  "execution_of s w =
     (case approval_of s w of None \<Rightarrow> None | Some ap \<Rightarrow> tfind ex_approval (ap_pk ap) (executions s))"

text \<open>The stored package is the engine's review-ready package of the revision, with its digest.\<close>

definition built :: "config \<Rightarrow> revision \<Rightarrow> workflow \<Rightarrow> bool" where
  "built c r w \<longleftrightarrow>
     (\<exists>p. build_package c r = Inr p \<and> package w = Some p \<and> wf_hash w = package_hash c p
        \<and> jfield p ''status'' = JStr ''ready_for_review'')"

text \<open>A decided request names an approver other than its submitter.\<close>

definition decided :: "approval \<Rightarrow> bool" where
  "decided ap \<longleftrightarrow> (\<exists>b. approver ap = Some b \<and> b \<noteq> submitter ap)"

definition delivered :: "approval \<Rightarrow> execution \<Rightarrow> bool" where
  "delivered ap x \<longleftrightarrow>
     idempotency_key x = ''launchloop:'' @ ap_hash ap \<and> (\<exists>n. receipt x = sandbox_receipt n)"

definition coherent ::
  "config \<Rightarrow> revision \<Rightarrow> workflow \<Rightarrow> approval option \<Rightarrow> execution option \<Rightarrow> bool" where
  "coherent c r w apo exo =
     (case status w of
        DRAFT \<Rightarrow> apo = None \<and> exo = None \<and> package w = None \<and> wf_hash w = []
      | NEEDS_INPUT \<Rightarrow> exo = None \<and> (case apo of None \<Rightarrow> True
          | Some ap \<Rightarrow> ap_status ap = AP_REJECTED \<and> decided ap \<and> kind_of r = Synthetic)
      | READY_FOR_REVIEW \<Rightarrow> apo = None \<and> exo = None \<and> built c r w
      | IN_REVIEW \<Rightarrow> exo = None \<and> built c r w \<and> kind_of r = Synthetic
          \<and> (\<exists>ap. apo = Some ap \<and> ap_status ap = AP_PENDING \<and> approver ap = None \<and> ap_hash ap = wf_hash w)
      | APPROVED \<Rightarrow> False
      | COMPLETED \<Rightarrow> built c r w \<and> kind_of r = Synthetic
          \<and> (\<exists>ap x. apo = Some ap \<and> ap_status ap = AP_APPROVED \<and> decided ap \<and> ap_hash ap = wf_hash w
               \<and> exo = Some x \<and> delivered ap x))"

definition row_ok :: "config \<Rightarrow> db \<Rightarrow> workflow \<Rightarrow> bool" where
  "row_ok c s w \<longleftrightarrow>
     (\<exists>r. tfind rev_pk (wf_revision w) (revisions s) = Some r \<and> rev_event r = wf_event w
        \<and> (\<forall>q \<in> set (revisions s). rev_event q = wf_event w \<longrightarrow> rev_version q \<le> rev_version r)
        \<and> coherent c r w (approval_of s w) (execution_of s w))"

definition tables_ok :: "db \<Rightarrow> bool" where
  "tables_ok s \<longleftrightarrow>
     keys_ok wf_pk (workflows s) \<and> keys_ok wf_event (workflows s)
     \<and> keys_ok ap_pk (approvals s) \<and> keys_ok ap_workflow (approvals s)
     \<and> keys_ok ex_approval (executions s) \<and> keys_ok rev_pk (revisions s)
     \<and> (\<forall>r \<in> set (revisions s). rev_pk r < next_revision s \<and> rev_event r < next_event s)
     \<and> (\<forall>ap \<in> set (approvals s). ap_workflow ap \<in> wf_pk ` set (workflows s))
     \<and> (\<forall>x \<in> set (executions s). ex_approval x \<in> ap_pk ` set (approvals s))"

definition wf_inv :: "config \<Rightarrow> db \<Rightarrow> bool" where
  "wf_inv c s \<longleftrightarrow> tables_ok s \<and> (\<forall>w \<in> set (workflows s). row_ok c s w)"

section \<open>Tables after the helpers\<close>

lemma audit_simps [simp]:
  "workflows (add_audit x a t i d s) = workflows s" "revisions (add_audit x a t i d s) = revisions s"
  "approvals (add_audit x a t i d s) = approvals s" "executions (add_audit x a t i d s) = executions s"
  "next_revision (add_audit x a t i d s) = next_revision s" "next_event (add_audit x a t i d s) = next_event s"
  "events (add_audit x a t i d s) = events s" "refs (add_audit x a t i d s) = refs s"
  by (simp_all add: add_audit_def)

lemma add_transition_simps [simp]:
  "workflows (add_transition i a f t x d s) = workflows s" "revisions (add_transition i a f t x d s) = revisions s"
  "approvals (add_transition i a f t x d s) = approvals s" "executions (add_transition i a f t x d s) = executions s"
  "next_revision (add_transition i a f t x d s) = next_revision s"
  "next_event (add_transition i a f t x d s) = next_event s" "events (add_transition i a f t x d s) = events s"
  by (simp_all add: add_transition_def)

lemma save_workflow_simps [simp]:
  "workflows (save_workflow w s) = tput wf_pk w (workflows s)" "revisions (save_workflow w s) = revisions s"
  "approvals (save_workflow w s) = approvals s" "executions (save_workflow w s) = executions s"
  "next_revision (save_workflow w s) = next_revision s" "next_event (save_workflow w s) = next_event s"
  "events (save_workflow w s) = events s"
  by (simp_all add: save_workflow_def)

lemma transition_simps [simp]:
  "workflows (transition w a t x d s) = tput wf_pk (w\<lparr>status := t\<rparr>) (workflows s)"
  "revisions (transition w a t x d s) = revisions s" "approvals (transition w a t x d s) = approvals s"
  "executions (transition w a t x d s) = executions s"
  "next_revision (transition w a t x d s) = next_revision s"
  "next_event (transition w a t x d s) = next_event s" "events (transition w a t x d s) = events s"
  by (simp_all add: transition_def)

lemma workflow_operation_simps [simp]:
  "wf_pk (workflow_operation tp w) = wf_pk w" "wf_event (workflow_operation tp w) = wf_event w"
  "wf_revision (workflow_operation tp w) = wf_revision w" "status (workflow_operation tp w) = status w"
  "package (workflow_operation tp w) = package w" "wf_hash (workflow_operation tp w) = wf_hash w"
  by (simp_all add: workflow_operation_def)

lemma save_approval_simps [simp]:
  "workflows (save_approval ap s) = workflows s" "revisions (save_approval ap s) = revisions s"
  "approvals (save_approval ap s) = tput ap_pk ap (approvals s)" "executions (save_approval ap s) = executions s"
  "next_revision (save_approval ap s) = next_revision s" "next_event (save_approval ap s) = next_event s"
  by (simp_all add: save_approval_def)

lemma get_workflow_Inr: "get_workflow wid s = Inr w \<longleftrightarrow> tfind wf_pk wid (workflows s) = Some w"
  by (simp add: get_workflow_def of_option_eq_Inr)

lemma revision_of_Inr: "revision_of s w = Inr r \<longleftrightarrow> tfind rev_pk (wf_revision w) (revisions s) = Some r"
  by (simp add: revision_of_def of_option_eq_Inr)

lemma lift_py_Inr: "lift_py m = Inr v \<longleftrightarrow> m = Inr v"
  by (simp add: lift_py_def split: sum.splits)

lemmas op_results = result_simps get_workflow_Inr revision_of_Inr lift_py_Inr

section \<open>Proof scheme for an operation on one workflow\<close>

text \<open>
  Changing one workflow row: the other rows keep their revision, approval and execution, the changed
  row is shown coherent.
\<close>

lemma wf_inv_row:
  assumes inv: "wf_inv c s" and w: "tfind wf_pk wid (workflows s) = Some w"
    and ws: "workflows s' = tput wf_pk w' (workflows s)"
    and key: "wf_pk w' = wid" "wf_event w' = wf_event w"
    and tabs: "tables_ok s'"
    and row: "row_ok c s' w'"
    and revs: "\<And>v. v \<in> set (workflows s) \<Longrightarrow> wf_pk v \<noteq> wid \<Longrightarrow> wf_event v \<noteq> wf_event w \<Longrightarrow>
       row_ok c s v \<Longrightarrow> row_ok c s' v"
  shows "wf_inv c s'"
proof -
  have win: "w \<in> set (workflows s)" "wf_pk w = wid" using w by (auto dest: tfind_in tfind_key)
  have "row_ok c s' v" if v: "v \<in> set (workflows s')" for v
  proof (cases "v = w'")
    case False
    with v ws key have v': "v \<in> set (workflows s)" "wf_pk v \<noteq> wid" by (auto dest: in_tput)
    moreover have "keys_ok wf_event (workflows s)" using inv by (simp add: wf_inv_def tables_ok_def)
    ultimately have "wf_event v \<noteq> wf_event w" using win keys_ok_inj by metis
    with v' revs inv show ?thesis by (simp add: wf_inv_def)
  qed (simp add: row)
  with tabs show ?thesis by (simp add: wf_inv_def)
qed

lemma tables_ok_tput_workflow:
  assumes "tables_ok s" and "tfind wf_pk wid (workflows s) = Some w"
    and "wf_pk w' = wid" "wf_event w' = wf_event w"
  shows "tables_ok (s\<lparr>workflows := tput wf_pk w' (workflows s)\<rparr>)"
proof -
  have w: "w \<in> set (workflows s)" "wf_pk w = wid" using assms(2) by (auto dest: tfind_in tfind_key)
  have i: "wf_pk ` set (tput wf_pk w' (workflows s)) = wf_pk ` set (workflows s)"
    by (rule image_pk_tput)
  have "keys_ok wf_event (tput wf_pk w' (workflows s))"
    using assms w by (subst keys_ok_tput_second [of _ _ w]) (auto simp: tables_ok_def)
  then show ?thesis using assms(1) i by (simp add: tables_ok_def)
qed

lemma wf_inv_row_ok: "wf_inv c s \<Longrightarrow> tfind wf_pk wid (workflows s) = Some w \<Longrightarrow> row_ok c s w"
  by (auto simp: wf_inv_def dest: tfind_in)

lemma row_ok_cong:
  assumes "row_ok c s v" and "revisions s' = revisions s"
    and "approval_of s' v = approval_of s v" and "execution_of s' v = execution_of s v"
  shows "row_ok c s' v"
  using assms by (simp add: row_ok_def)

lemma tables_ok_cong:
  assumes "tables_ok s" and "workflows s' = workflows s" and "revisions s' = revisions s"
    and "approvals s' = approvals s" and "executions s' = executions s"
    and "next_revision s' = next_revision s" and "next_event s' = next_event s"
  shows "tables_ok s'"
  using assms by (simp add: tables_ok_def)

section \<open>Preservation, operation by operation\<close>

text \<open>An operation that rewrites the workflow row only.\<close>

lemma wf_inv_workflow_only:
  assumes inv: "wf_inv c s" and w: "tfind wf_pk wid (workflows s) = Some w"
    and ws: "workflows s' = tput wf_pk w' (workflows s)"
    and key: "wf_pk w' = wid" "wf_event w' = wf_event w" "wf_revision w' = wf_revision w"
    and same: "revisions s' = revisions s" "approvals s' = approvals s" "executions s' = executions s"
      "next_revision s' = next_revision s" "next_event s' = next_event s"
    and coh: "\<And>r. tfind rev_pk (wf_revision w) (revisions s) = Some r \<Longrightarrow>
       coherent c r w (approval_of s w) (execution_of s w) \<Longrightarrow>
       coherent c r w' (approval_of s w) (execution_of s w)"
  shows "wf_inv c s'"
proof (rule wf_inv_row [OF inv w ws key(1,2)])
  have "tables_ok (s\<lparr>workflows := tput wf_pk w' (workflows s)\<rparr>)"
    using inv w key by (intro tables_ok_tput_workflow) (auto simp: wf_inv_def)
  then show "tables_ok s'" by (rule tables_ok_cong) (simp_all add: ws same)
  have pk: "wf_pk w = wid" using w by (rule tfind_key)
  have ap: "approval_of s' w' = approval_of s w" "execution_of s' w' = execution_of s w"
    using key pk by (simp_all add: approval_of_def execution_of_def same cong: option.case_cong)
  from inv w have "row_ok c s w" by (rule wf_inv_row_ok)
  then show "row_ok c s' w'" using coh ap key same by (auto simp: row_ok_def)
next
  fix v assume "row_ok c s v"
  then show "row_ok c s' v"
    by (rule row_ok_cong) (simp_all add: same approval_of_def execution_of_def cong: option.case_cong)
qed

lemma run_workflow_Inr:
  "run_workflow c tp wid a s = Inr s' \<longleftrightarrow>
     (\<exists>w r p. tfind wf_pk wid (workflows s) = Some w \<and> actor_role a = OPERATOR \<and> status w = DRAFT
        \<and> tfind rev_pk (wf_revision w) (revisions s) = Some r \<and> build_package c r = Inr p
        \<and> s' = run_commit c tp a w r p s)"
  by (auto simp: run_workflow_def op_results)

lemma run_workflow_inv:
  assumes inv: "wf_inv c s" and ok: "run_workflow c tp wid a s = Inr s'"
  shows "wf_inv c s'"
proof -
  from ok obtain w r p where w: "tfind wf_pk wid (workflows s) = Some w" and st: "status w = DRAFT"
    and r: "tfind rev_pk (wf_revision w) (revisions s) = Some r" and p: "build_package c r = Inr p"
    and s': "s' = run_commit c tp a w r p s"
    by (auto simp: run_workflow_Inr)
  have pk: "wf_pk w = wid" using w by (rule tfind_key)
  let ?d = "if jfield p ''status'' = JStr ''ready_for_review'' then READY_FOR_REVIEW else NEEDS_INPUT"
  let ?w' = "(workflow_operation tp w)\<lparr>package := Some p, wf_hash := package_hash c p, status := ?d\<rparr>"
  show ?thesis
  proof (rule wf_inv_workflow_only [OF inv w])
    show "workflows s' = tput wf_pk ?w' (workflows s)"
      by (simp add: s' run_commit_def Let_def tput_tput)
  next
    fix q assume "tfind rev_pk (wf_revision w) (revisions s) = Some q"
    with r have q: "q = r" by simp
    assume "coherent c q w (approval_of s w) (execution_of s w)"
    with st p q show "coherent c q ?w' (approval_of s w) (execution_of s w)"
      by (auto simp: coherent_def built_def)
  qed (simp_all add: s' run_commit_def Let_def pk)
qed

text \<open>The other rows keep what they refer to.\<close>

lemma row_ok_frame:
  assumes "row_ok c s v"
    and "\<And>r. tfind rev_pk (wf_revision v) (revisions s) = Some r \<Longrightarrow> tfind rev_pk (wf_revision v) (revisions s') = Some r"
    and "\<And>q. q \<in> set (revisions s') \<Longrightarrow> rev_event q = wf_event v \<Longrightarrow> q \<in> set (revisions s)"
    and "approval_of s' v = approval_of s v" and "execution_of s' v = execution_of s v"
  shows "row_ok c s' v"
  using assms unfolding row_ok_def by metis

lemma tfind_fresh_revision:
  "tables_ok s \<Longrightarrow> rev_pk r = next_revision s \<Longrightarrow>
     tfind rev_pk k (revisions s @ [r]) = (if k = next_revision s then Some r else tfind rev_pk k (revisions s))"
  using tfind_snoc_fresh [of rev_pk r "revisions s" k] by (force simp: tables_ok_def tfind_None)

text \<open>Replacing the current revision of a workflow (\<open>answer_questions\<close>, \<open>update_event_facts\<close>).\<close>

lemma tables_ok_new_revision:
  assumes "tables_ok s" and "create_revision r s = Inr s1" and "rev_pk r = next_revision s"
    and "rev_event r < next_event s"
  shows "tables_ok s1"
proof -
  have s1: "s1 = s\<lparr>revisions := revisions s @ [r], next_revision := Suc (next_revision s)\<rparr>"
    and new: "tfind rev_pk (rev_pk r) (revisions s) = None"
    using assms(2) by (auto simp: create_revision_def split: if_splits)
  have "keys_ok rev_pk (revisions s @ [r])"
    using assms(1) new by (intro keys_ok_append_new) (auto simp: tables_ok_def)
  with assms show ?thesis by (auto simp: s1 tables_ok_def)
qed

lemma tables_ok_delete_approvals:
  assumes "tables_ok s"
  shows "tables_ok (delete_approvals_of wid s)"
proof -
  have "ex_approval x \<in> ap_pk ` {a \<in> set (approvals s). ap_workflow a \<noteq> wid}"
    if "x \<in> set (executions s)" "ex_approval x \<notin> ap_pk ` {a \<in> set (approvals s). ap_workflow a = wid}" for x
    using that assms by (force simp: tables_ok_def)
  with assms show ?thesis by (auto simp: tables_ok_def delete_approvals_of_def Let_def)
qed

lemma delete_approvals_simps [simp]:
  "workflows (delete_approvals_of wid s) = workflows s" "revisions (delete_approvals_of wid s) = revisions s"
  "next_revision (delete_approvals_of wid s) = next_revision s" "next_event (delete_approvals_of wid s) = next_event s"
  "approvals (delete_approvals_of wid s) = tdel (\<lambda>a. ap_workflow a = wid) (approvals s)"
  by (simp_all add: delete_approvals_of_def Let_def)

lemma delete_approvals_views:
  assumes "tables_ok s"
  shows "wf_pk v = wid \<Longrightarrow> approval_of (delete_approvals_of wid s) v = None"
    and "wf_pk v = wid \<Longrightarrow> execution_of (delete_approvals_of wid s) v = None"
    and "wf_pk v \<noteq> wid \<Longrightarrow> approval_of (delete_approvals_of wid s) v = approval_of s v"
    and "wf_pk v \<noteq> wid \<Longrightarrow> execution_of (delete_approvals_of wid s) v = execution_of s v"
proof -
  show n: "approval_of (delete_approvals_of wid s) v = None" if "wf_pk v = wid"
    using that by (simp add: approval_of_def tfind_tdel_all)
  show "execution_of (delete_approvals_of wid s) v = None" if "wf_pk v = wid"
    using n [OF that] by (simp add: execution_of_def)
  show a: "approval_of (delete_approvals_of wid s) v = approval_of s v" if "wf_pk v \<noteq> wid"
    using that by (auto simp: approval_of_def intro!: tfind_tdel)
  show "execution_of (delete_approvals_of wid s) v = execution_of s v" if ne: "wf_pk v \<noteq> wid"
  proof (cases "approval_of s v")
    case (Some ap)
    then have ap: "ap \<in> set (approvals s)" "ap_workflow ap = wf_pk v"
      by (auto simp: approval_of_def dest: tfind_in tfind_key)
    have "ap_pk ap \<noteq> ap_pk b" if "b \<in> set (approvals s)" "ap_workflow b = wid" for b
      using that ap ne assms keys_ok_inj by (metis tables_ok_def)
    then have "tfind ex_approval (ap_pk ap) (executions (delete_approvals_of wid s)) =
        tfind ex_approval (ap_pk ap) (executions s)"
      by (force simp: delete_approvals_of_def Let_def intro!: tfind_tdel)
    with Some a [OF ne] show ?thesis by (simp add: execution_of_def)
  qed (use a ne in \<open>simp add: execution_of_def\<close>)
qed

lemma views_cong:
  assumes "approvals s' = approvals s" and "executions s' = executions s" and "wf_pk v' = wf_pk v"
  shows "approval_of s' v' = approval_of s v" and "execution_of s' v' = execution_of s v"
  using assms by (simp_all add: approval_of_def execution_of_def cong: option.case_cong)

lemma wf_inv_new_revision:
  assumes inv: "wf_inv c s" and w: "tfind wf_pk wid (workflows s) = Some w"
    and r: "tfind rev_pk (wf_revision w) (revisions s) = Some r"
    and r': "rev_pk r' = next_revision s" "rev_event r' = wf_event w" "rev_version r' = rev_version r + 1"
    and w': "wf_pk w' = wid" "wf_event w' = wf_event w" "wf_revision w' = next_revision s"
      "status w' = NEEDS_INPUT \<or> status w' = DRAFT" "package w' = None" "wf_hash w' = []"
    and s': "workflows s' = tput wf_pk w' (workflows s)" "revisions s' = revisions s @ [r']"
      "next_revision s' = Suc (next_revision s)" "next_event s' = next_event s"
      "approvals s' = approvals (delete_approvals_of wid s)" "executions s' = executions (delete_approvals_of wid s)"
  shows "wf_inv c s'"
proof (rule wf_inv_row [OF inv w s'(1) w'(1,2)])
  have tabs: "tables_ok s" using inv by (simp add: wf_inv_def)
  have views: "approval_of s' v = approval_of (delete_approvals_of wid s) v"
    "execution_of s' v = execution_of (delete_approvals_of wid s) v" for v
    using views_cong [of s' "delete_approvals_of wid s" v v] s' by simp_all
  have fresh: "tfind rev_pk k (revisions s') =
      (if k = next_revision s then Some r' else tfind rev_pk k (revisions s))" for k
    using tfind_fresh_revision [OF tabs r'(1)] by (simp add: s')
  have rin: "r \<in> set (revisions s)" "rev_event r = wf_event w"
    "\<forall>q \<in> set (revisions s). rev_event q = wf_event w \<longrightarrow> rev_version q \<le> rev_version r"
    using wf_inv_row_ok [OF inv w] r by (auto simp: row_ok_def dest: tfind_in)
  have "keys_ok rev_pk (revisions s @ [r'])"
    using tabs r' by (intro keys_ok_append_new) (auto simp: tables_ok_def tfind_None)
  moreover have "tables_ok (delete_approvals_of wid s)" using tabs by (rule tables_ok_delete_approvals)
  moreover have "tables_ok (s\<lparr>workflows := tput wf_pk w' (workflows s)\<rparr>)"
    using tabs w w' by (intro tables_ok_tput_workflow)
  ultimately show "tables_ok s'"
    using rin(1,2) r' unfolding tables_ok_def by (auto simp: s' less_Suc_eq)
  have "\<forall>q \<in> set (revisions s'). rev_event q = wf_event w' \<longrightarrow> rev_version q \<le> rev_version r'"
    using rin(3) r' w' by (auto simp: s' le_SucI)
  then show "row_ok c s' w'"
    unfolding row_ok_def
    using delete_approvals_views(1,2) [OF tabs w'(1)] r' w'
    by (intro exI [of _ r']) (auto simp: fresh views coherent_def)
  fix v assume v: "v \<in> set (workflows s)" "wf_pk v \<noteq> wid" "wf_event v \<noteq> wf_event w" "row_ok c s v"
  show "row_ok c s' v"
  proof (rule row_ok_frame [OF v(4)])
    fix q assume q: "tfind rev_pk (wf_revision v) (revisions s) = Some q"
    then have "rev_pk q = wf_revision v" "q \<in> set (revisions s)" by (auto dest: tfind_in tfind_key)
    then have "wf_revision v \<noteq> next_revision s" using tabs by (auto simp: tables_ok_def)
    with q show "tfind rev_pk (wf_revision v) (revisions s') = Some q" by (simp add: fresh)
  qed (use v r' delete_approvals_views(3,4) [OF tabs] in \<open>auto simp: views s'\<close>)
qed

lemma create_revision_Inr:
  "create_revision r s = Inr s1 \<Longrightarrow>
     s1 = s\<lparr>revisions := revisions s @ [r], next_revision := Suc (next_revision s)\<rparr>"
  by (auto simp: create_revision_def split: if_splits)

lemma delete_approvals_executions:
  "approvals s1 = approvals s \<Longrightarrow> executions s1 = executions s \<Longrightarrow>
     executions (delete_approvals_of wid s1) = executions (delete_approvals_of wid s)"
  by (simp add: delete_approvals_of_def Let_def)

lemma answer_questions_Inr:
  "answer_questions c tp wid a answers s = Inr s' \<longleftrightarrow>
     (\<exists>w r s1. tfind wf_pk wid (workflows s) = Some w
        \<and> tfind rev_pk (wf_revision w) (revisions s) = Some r \<and> kind_of r = Synthetic
        \<and> actor_role a = OPERATOR \<and> status w = NEEDS_INPUT \<and> answered_fields (env c) answers \<noteq> []
        \<and> create_revision (answer_revision c a answers w r s) s = Inr s1
        \<and> s' = answer_commit c tp a answers w (answer_revision c a answers w r s) s1)"
  by (auto simp: answer_questions_def op_results)

lemma answer_questions_inv:
  assumes inv: "wf_inv c s" and ok: "answer_questions c tp wid a answers s = Inr s'"
  shows "wf_inv c s'"
proof -
  from ok obtain w r s1 where w: "tfind wf_pk wid (workflows s) = Some w"
    and r: "tfind rev_pk (wf_revision w) (revisions s) = Some r"
    and s1: "create_revision (answer_revision c a answers w r s) s = Inr s1"
    and s': "s' = answer_commit c tp a answers w (answer_revision c a answers w r s) s1"
    by (auto simp: answer_questions_Inr)
  have pk: "wf_pk w = wid" using w by (rule tfind_key)
  let ?r' = "answer_revision c a answers w r s"
  let ?d = "if missing_answers (env c) (snapshot ?r') \<noteq> [] then NEEDS_INPUT else DRAFT"
  let ?w' = "(workflow_operation tp w)\<lparr>wf_revision := rev_pk ?r', package := None, wf_hash := [], status := ?d\<rparr>"
  show ?thesis
  proof (rule wf_inv_new_revision [OF inv w r, where r' = ?r' and w' = ?w'])
    show "workflows s' = tput wf_pk ?w' (workflows s)"
      by (simp add: s' create_revision_Inr [OF s1] answer_commit_def Let_def tput_tput)
    show "executions s' = executions (delete_approvals_of wid s)"
      by (simp add: s' create_revision_Inr [OF s1] answer_commit_def Let_def pk)
         (rule delete_approvals_executions; simp)
  qed (simp_all add: s' create_revision_Inr [OF s1] answer_commit_def Let_def pk, simp_all add: answer_revision_def)
qed

text \<open>An operation that rewrites one workflow row and the approval rows of that workflow.\<close>

lemma wf_inv_approval:
  assumes inv: "wf_inv c s" and w: "tfind wf_pk wid (workflows s) = Some w"
    and r: "tfind rev_pk (wf_revision w) (revisions s) = Some r"
    and ws: "workflows s' = tput wf_pk w' (workflows s)"
    and key: "wf_pk w' = wid" "wf_event w' = wf_event w" "wf_revision w' = wf_revision w"
    and same: "revisions s' = revisions s" and tabs: "tables_ok s'"
    and views: "\<And>v. wf_pk v \<noteq> wid \<Longrightarrow> approval_of s' v = approval_of s v \<and> execution_of s' v = execution_of s v"
    and coh: "coherent c r w' (approval_of s' w') (execution_of s' w')"
  shows "wf_inv c s'"
proof (rule wf_inv_row [OF inv w ws key(1,2) tabs])
  show "row_ok c s' w'"
    using wf_inv_row_ok [OF inv w] r coh key same by (auto simp: row_ok_def)
next
  fix v assume ne: "wf_pk v \<noteq> wid" and v: "row_ok c s v"
  show "row_ok c s' v" by (rule row_ok_cong [OF v same]) (simp_all add: views [OF ne])
qed

lemma inv_row:
  assumes "wf_inv c s" and "tfind wf_pk wid (workflows s) = Some w"
    and "tfind rev_pk (wf_revision w) (revisions s) = Some r"
  shows "coherent c r w (approval_of s w) (execution_of s w)"
  using wf_inv_row_ok [OF assms(1,2)] assms(3) by (auto simp: row_ok_def)

lemma no_execution_of_fresh:
  "tables_ok s \<Longrightarrow> tfind ap_pk k (approvals s) = None \<Longrightarrow> tfind ex_approval k (executions s) = None"
  by (auto simp: tables_ok_def tfind_None)

lemma submit_workflow_Inr:
  "submit_workflow tp apid wid a s = Inr s' \<longleftrightarrow>
     (\<exists>w r s1. tfind wf_pk wid (workflows s) = Some w \<and> actor_role a = OPERATOR
        \<and> tfind rev_pk (wf_revision w) (revisions s) = Some r \<and> kind_of r = Synthetic
        \<and> status w = READY_FOR_REVIEW \<and> wf_hash w \<noteq> []
        \<and> create_approval (new_request apid a w) (save_workflow (workflow_operation tp w) s) = Inr s1
        \<and> s' = transition (workflow_operation tp w) a IN_REVIEW ''package_submitted''
               [(''package_hash'', JStr (wf_hash w))] s1)"
  by (auto simp: submit_workflow_def op_results)

lemma submit_workflow_inv:
  assumes inv: "wf_inv c s" and ok: "submit_workflow tp apid wid a s = Inr s'"
  shows "wf_inv c s'"
proof -
  from ok obtain w r s1 where w: "tfind wf_pk wid (workflows s) = Some w"
    and r: "tfind rev_pk (wf_revision w) (revisions s) = Some r" and k: "kind_of r = Synthetic"
    and st: "status w = READY_FOR_REVIEW"
    and s1: "create_approval (new_request apid a w) (save_workflow (workflow_operation tp w) s) = Inr s1"
    and s': "s' = transition (workflow_operation tp w) a IN_REVIEW ''package_submitted''
               [(''package_hash'', JStr (wf_hash w))] s1"
    by (auto simp: submit_workflow_Inr)
  have pk: "wf_pk w = wid" using w by (rule tfind_key)
  let ?ap = "new_request apid a w"
  let ?w' = "(workflow_operation tp w)\<lparr>status := IN_REVIEW\<rparr>"
  have new: "tfind ap_pk apid (approvals s) = None" "tfind ap_workflow wid (approvals s) = None"
    and aps: "approvals s' = approvals s @ [?ap]" and ws: "workflows s' = tput wf_pk ?w' (workflows s)"
    and rest: "revisions s' = revisions s" "executions s' = executions s"
      "next_revision s' = next_revision s" "next_event s' = next_event s"
    using s1 pk by (auto simp: create_approval_def s' new_request_def tput_tput split: if_splits)
  have tabs: "tables_ok s" using inv by (simp add: wf_inv_def)
  have find: "tfind ap_workflow j (approvals s') = (if j = wid then Some ?ap else tfind ap_workflow j (approvals s))" for j
    using tfind_snoc_fresh [of ap_workflow ?ap "approvals s" j] new pk by (simp add: aps new_request_def)
  have kx: "keys_ok ap_pk (approvals s')" "keys_ok ap_workflow (approvals s')"
    using tabs new pk by (auto simp: aps tables_ok_def new_request_def intro!: keys_ok_append_new)
  have "tables_ok (s\<lparr>workflows := tput wf_pk ?w' (workflows s)\<rparr>)"
    using tabs w pk by (intro tables_ok_tput_workflow) auto
  moreover have "wid \<in> wf_pk ` set (tput wf_pk ?w' (workflows s))"
    using image_pk_tput [of wf_pk ?w' "workflows s"] tfind_in [OF w] pk by auto
  ultimately have t': "tables_ok s'"
    using kx pk by (auto simp: tables_ok_def rest ws aps new_request_def)
  show ?thesis
  proof (rule wf_inv_approval [OF inv w r ws _ _ _ rest(1) t'])
    fix v :: workflow assume "wf_pk v \<noteq> wid"
    then show "approval_of s' v = approval_of s v \<and> execution_of s' v = execution_of s v"
      by (simp add: approval_of_def execution_of_def find rest cong: option.case_cong)
  next
    have "approval_of s' ?w' = Some ?ap" by (simp add: approval_of_def find pk)
    moreover from this have "execution_of s' ?w' = None"
      using no_execution_of_fresh [OF tabs new(1)] by (simp add: execution_of_def rest new_request_def)
    ultimately show "coherent c r ?w' (approval_of s' ?w') (execution_of s' ?w')"
      using inv_row [OF inv w r] st k by (simp add: coherent_def built_def new_request_def)
  qed (simp_all add: pk)
qed

lemma decide_approval_Inr:
  "decide_approval tp now exid apid a dec h why s = Inr s' \<longleftrightarrow>
     (\<exists>ap w r. tfind ap_pk apid (approvals s) = Some ap
        \<and> tfind wf_pk (ap_workflow ap) (workflows s) = Some w
        \<and> tfind rev_pk (wf_revision w) (revisions s) = Some r \<and> kind_of r = Synthetic
        \<and> slug a \<noteq> submitter ap \<and> actor_role a = APPROVER \<and> ap_status ap = AP_PENDING
        \<and> h = ap_hash ap
        \<and> (dec = Reject \<and> s' = reject_commit tp now a why ap w s
           \<or> dec = Approve \<and> approve_commit tp now exid a why ap w s = Inr s'))"
proof (cases "tfind ap_pk apid (approvals s)")
  case (Some ap)
  then show ?thesis
    by (cases dec) (auto simp: decide_approval_def op_results)
qed (simp add: decide_approval_def)

text \<open>A pending request belongs to a workflow in review and is that workflow's only request.\<close>

lemma pending_in_review:
  assumes inv: "wf_inv c s" and ap: "tfind ap_pk apid (approvals s) = Some ap" "ap_status ap = AP_PENDING"
    and w: "tfind wf_pk (ap_workflow ap) (workflows s) = Some w"
    and r: "tfind rev_pk (wf_revision w) (revisions s) = Some r"
  shows "approval_of s w = Some ap" and "status w = IN_REVIEW" and "execution_of s w = None"
    and "ap_hash ap = wf_hash w" and "built c r w"
proof -
  have pk: "wf_pk w = ap_workflow ap" using w by (rule tfind_key)
  have "keys_ok ap_workflow (approvals s)" "ap \<in> set (approvals s)"
    using inv ap by (auto simp: wf_inv_def tables_ok_def dest: tfind_in)
  then show a: "approval_of s w = Some ap" by (simp add: approval_of_def pk tfind_unique)
  have c: "coherent c r w (Some ap) (execution_of s w)" using inv_row [OF inv w r] a by simp
  then show "status w = IN_REVIEW" using ap(2) by (auto simp: coherent_def split: wf_status.splits)
  with c show "execution_of s w = None" and "ap_hash ap = wf_hash w" and "built c r w"
    by (auto simp: coherent_def)
qed


text \<open>The tables after a decision: one approval row and one workflow row rewritten, executions appended.\<close>

lemma approval_of_decision:
  assumes tabs: "tables_ok s" and ap: "ap \<in> set (approvals s)"
    and same: "ap_pk ap' = ap_pk ap" "ap_workflow ap' = ap_workflow ap"
    and s': "approvals s' = tput ap_pk ap' (approvals s)"
  shows "approval_of s' v = (if wf_pk v = ap_workflow ap then Some ap' else approval_of s v)"
  using tfind_tput_second [of ap_pk "approvals s" ap_workflow ap ap' "wf_pk v"] assms
  by (simp add: approval_of_def tables_ok_def)

lemma tables_ok_decision:
  assumes tabs: "tables_ok s" and ap: "ap \<in> set (approvals s)"
    and same: "ap_pk ap' = ap_pk ap" "ap_workflow ap' = ap_workflow ap"
    and w: "tfind wf_pk wid (workflows s) = Some w" "wf_pk w' = wid" "wf_event w' = wf_event w"
    and s': "workflows s' = tput wf_pk w' (workflows s)" "approvals s' = tput ap_pk ap' (approvals s)"
      "executions s' = executions s @ xs" "revisions s' = revisions s"
      "next_revision s' = next_revision s" "next_event s' = next_event s"
    and xs: "keys_ok ex_approval (executions s @ xs)" "\<forall>x \<in> set xs. ex_approval x = ap_pk ap"
  shows "tables_ok s'"
proof -
  have "keys_ok ap_workflow (tput ap_pk ap' (approvals s))"
    using keys_ok_tput_second [of ap_pk "approvals s" ap ap' ap_workflow] tabs ap same
    by (simp add: tables_ok_def)
  moreover have "tables_ok (s\<lparr>workflows := tput wf_pk w' (workflows s)\<rparr>)"
    using tabs w by (intro tables_ok_tput_workflow)
  moreover have "ap_workflow b \<in> wf_pk ` set (workflows s)" if "b \<in> set (tput ap_pk ap' (approvals s))" for b
    using in_tput [OF that] tabs ap same by (auto simp: tables_ok_def)
  ultimately show ?thesis
    using xs ap by (auto simp: tables_ok_def s' image_pk_tput)
qed

lemma decision_execution_frame:
  assumes tabs: "tables_ok s" and ap: "ap \<in> set (approvals s)" and ne: "wf_pk v \<noteq> ap_workflow ap"
    and same: "approval_of s' v = approval_of s v"
    and xs: "executions s' = executions s @ xs" "\<forall>x \<in> set xs. ex_approval x = ap_pk ap"
  shows "execution_of s' v = execution_of s v"
proof (cases "approval_of s v")
  case (Some b)
  then have b: "b \<in> set (approvals s)" "ap_workflow b = wf_pk v"
    by (auto simp: approval_of_def dest: tfind_in tfind_key)
  then have "ap_pk b \<noteq> ap_pk ap" using tabs ap ne keys_ok_inj by (metis tables_ok_def)
  then have "tfind ex_approval (ap_pk b) xs = None" using xs(2) by (auto simp: tfind_None)
  then show ?thesis
    by (simp add: execution_of_def same Some xs(1) tfind_append split: option.split)
qed (simp add: execution_of_def same)

lemma reject_commit_inv:
  assumes inv: "wf_inv c s" and ap: "tfind ap_pk apid (approvals s) = Some ap" "ap_status ap = AP_PENDING"
    and w: "tfind wf_pk (ap_workflow ap) (workflows s) = Some w"
    and r: "tfind rev_pk (wf_revision w) (revisions s) = Some r" and k: "kind_of r = Synthetic"
    and other: "slug a \<noteq> submitter ap"
  shows "wf_inv c (reject_commit tp now a why ap w s)" (is "wf_inv c ?s'")
proof -
  let ?ap' = "decided_request now a why AP_REJECTED ap"
  let ?w' = "(workflow_operation tp w)\<lparr>package := None, wf_hash := [], status := NEEDS_INPUT\<rparr>"
  have tabs: "tables_ok s" using inv by (simp add: wf_inv_def)
  have pk: "wf_pk w = ap_workflow ap" using w by (rule tfind_key)
  have apin: "ap \<in> set (approvals s)" using ap(1) by (rule tfind_in)
  have same: "ap_pk ?ap' = ap_pk ap" "ap_workflow ?ap' = ap_workflow ap" by (simp_all add: decided_request_def)
  have s': "workflows ?s' = tput wf_pk ?w' (workflows s)" "approvals ?s' = tput ap_pk ?ap' (approvals s)"
    "executions ?s' = executions s @ []" "revisions ?s' = revisions s"
    "next_revision ?s' = next_revision s" "next_event ?s' = next_event s"
    by (simp_all add: reject_commit_def Let_def tput_tput)
  note view = approval_of_decision [OF tabs apin same s'(2)]
  show ?thesis
  proof (rule wf_inv_approval [OF inv w r s'(1) _ _ _ s'(4)])
    show "tables_ok ?s'"
      using tabs by (intro tables_ok_decision [OF tabs apin same w _ _ s']) (auto simp: pk tables_ok_def)
    fix v :: workflow assume ne: "wf_pk v \<noteq> ap_workflow ap"
    show "approval_of ?s' v = approval_of s v \<and> execution_of ?s' v = execution_of s v"
      using decision_execution_frame [OF tabs apin ne _ s'(3)] ne by (simp add: view)
  next
    have "execution_of ?s' ?w' = execution_of s w"
      using pending_in_review(1) [OF inv ap w r] by (simp add: execution_of_def view pk same s'(3))
    then show "coherent c r ?w' (approval_of ?s' ?w') (execution_of ?s' ?w')"
      using pending_in_review(3) [OF inv ap w r] k other
      by (auto simp: view pk coherent_def decided_request_def decided_def)
  qed (simp_all add: pk)
qed

lemma approve_commit_Inr:
  assumes "approve_commit tp now exid a why ap w s = Inr s'"
  obtains n where "audience_count (package w) = Inr n"
    and "tfind ex_approval (ap_pk ap) (executions s) = None"
    and "workflows s' = tput wf_pk ((workflow_operation tp w)\<lparr>status := COMPLETED\<rparr>) (workflows s)"
    and "approvals s' = tput ap_pk (decided_request now a why AP_APPROVED ap) (approvals s)"
    and "executions s' = executions s @ [\<lparr>ex_pk = exid, ex_approval = ap_pk ap,
           idempotency_key = ''launchloop:'' @ ap_hash ap, receipt = sandbox_receipt n\<rparr>]"
    and "revisions s' = revisions s" and "next_revision s' = next_revision s" and "next_event s' = next_event s"
  using assms
  by (auto simp: approve_commit_def Let_def op_results create_execution_def tput_tput split: if_splits)

lemma approve_commit_inv:
  assumes inv: "wf_inv c s" and ap: "tfind ap_pk apid (approvals s) = Some ap" "ap_status ap = AP_PENDING"
    and w: "tfind wf_pk (ap_workflow ap) (workflows s) = Some w"
    and r: "tfind rev_pk (wf_revision w) (revisions s) = Some r" and k: "kind_of r = Synthetic"
    and other: "slug a \<noteq> submitter ap" and ok: "approve_commit tp now exid a why ap w s = Inr s'"
  shows "wf_inv c s'"
proof -
  let ?ap' = "decided_request now a why AP_APPROVED ap"
  let ?w' = "(workflow_operation tp w)\<lparr>status := COMPLETED\<rparr>"
  have tabs: "tables_ok s" using inv by (simp add: wf_inv_def)
  have pk: "wf_pk w = ap_workflow ap" using w by (rule tfind_key)
  have apin: "ap \<in> set (approvals s)" using ap(1) by (rule tfind_in)
  have same: "ap_pk ?ap' = ap_pk ap" "ap_workflow ?ap' = ap_workflow ap" by (simp_all add: decided_request_def)
  obtain n x where new: "tfind ex_approval (ap_pk ap) (executions s) = None"
    and x: "x = \<lparr>ex_pk = exid, ex_approval = ap_pk ap,
           idempotency_key = ''launchloop:'' @ ap_hash ap, receipt = sandbox_receipt n\<rparr>"
    and s': "workflows s' = tput wf_pk ?w' (workflows s)" "approvals s' = tput ap_pk ?ap' (approvals s)"
      "executions s' = executions s @ [x]" "revisions s' = revisions s"
      "next_revision s' = next_revision s" "next_event s' = next_event s"
    using ok by (rule approve_commit_Inr) blast
  note view = approval_of_decision [OF tabs apin same s'(2)]
  show ?thesis
  proof (rule wf_inv_approval [OF inv w r s'(1) _ _ _ s'(4)])
    have "keys_ok ex_approval (executions s @ [x])"
      using tabs new by (intro keys_ok_append_new) (auto simp: tables_ok_def x)
    then show "tables_ok s'"
      by (intro tables_ok_decision [OF tabs apin same w _ _ s']) (auto simp: pk x)
    fix v :: workflow assume ne: "wf_pk v \<noteq> ap_workflow ap"
    show "approval_of s' v = approval_of s v \<and> execution_of s' v = execution_of s v"
      using decision_execution_frame [OF tabs apin ne _ s'(3)] ne by (simp add: view x)
  next
    have "execution_of s' ?w' = Some x"
      using new by (simp add: execution_of_def view pk same s'(3) tfind_append x)
    then show "coherent c r ?w' (approval_of s' ?w') (execution_of s' ?w')"
      using pending_in_review(4,5) [OF inv ap w r] k other
      by (auto simp: view pk coherent_def decided_request_def decided_def delivered_def x built_def)
  qed (simp_all add: pk)
qed

lemma decide_approval_inv:
  assumes inv: "wf_inv c s" and ok: "decide_approval tp now exid apid a dec h why s = Inr s'"
  shows "wf_inv c s'"
  using ok unfolding decide_approval_Inr
  by (auto intro: reject_commit_inv [OF inv] approve_commit_inv [OF inv])


lemma delete_approvals_none:
  assumes "tfind ap_workflow wid (approvals s) = None"
  shows "approvals (delete_approvals_of wid s) = approvals s"
    and "executions (delete_approvals_of wid s) = executions s"
proof -
  have no: "\<forall>a \<in> set (approvals s). ap_workflow a \<noteq> wid" using assms by (auto simp: tfind_None)
  then show "approvals (delete_approvals_of wid s) = approvals s"
    by (simp add: delete_approvals_of_def Let_def tdel_def)
  from no have "filter (\<lambda>a. ap_workflow a = wid) (approvals s) = []" by (simp add: filter_empty_conv)
  then show "executions (delete_approvals_of wid s) = executions s"
    by (simp add: delete_approvals_of_def Let_def tdel_def)
qed

lemma owner_event_no_approval:
  assumes "coherent c r w apo exo" and "kind_of r \<noteq> Synthetic"
    and "status w \<in> {DRAFT, NEEDS_INPUT, READY_FOR_REVIEW}"
  shows "apo = None"
  using assms by (auto simp: coherent_def split: option.splits)

lemma update_event_facts_Inr:
  "update_event_facts c busy wid body a s = Inr s' \<longleftrightarrow>
     (\<exists>w r changes s1 title. tfind wf_pk wid (workflows s) = Some w
        \<and> tfind rev_pk (wf_revision w) (revisions s) = Some r \<and> (kind_of r = Manual \<or> kind_of r = Eventbrite)
        \<and> rev_author r = slug a \<and> actor_role a = OPERATOR \<and> \<not> busy
        \<and> status w \<in> {DRAFT, NEEDS_INPUT, READY_FOR_REVIEW}
        \<and> validate_facts (lib c) body = Inr changes \<and> changes \<noteq> []
        \<and> create_revision (facts_revision a changes w r s) s = Inr s1
        \<and> dindex (snapshot (facts_revision a changes w r s)) ''title'' = Inr title
        \<and> s' = facts_commit c a w (facts_revision a changes w r s) title s1)"
  unfolding update_event_facts_def op_results by (rule iffI; elim exE conjE; (intro exI conjI)?; auto)

lemma update_event_facts_inv:
  assumes inv: "wf_inv c s" and ok: "update_event_facts c busy wid body a s = Inr s'"
  shows "wf_inv c s'"
proof -
  from ok obtain w r changes s1 title where w: "tfind wf_pk wid (workflows s) = Some w"
    and r: "tfind rev_pk (wf_revision w) (revisions s) = Some r" and k: "kind_of r \<noteq> Synthetic"
    and st: "status w \<in> {DRAFT, NEEDS_INPUT, READY_FOR_REVIEW}"
    and s1: "create_revision (facts_revision a changes w r s) s = Inr s1"
    and s': "s' = facts_commit c a w (facts_revision a changes w r s) title s1"
    unfolding update_event_facts_Inr by fastforce
  have pk: "wf_pk w = wid" using w by (rule tfind_key)
  let ?r' = "facts_revision a changes w r s"
  let ?w' = "w\<lparr>wf_revision := rev_pk ?r', status := DRAFT, package := None, wf_hash := []\<rparr>"
  have "approval_of s w = None"
    using inv_row [OF inv w r] k st by (rule owner_event_no_approval)
  then have none: "tfind ap_workflow wid (approvals s) = None" by (simp add: approval_of_def pk)
  show ?thesis
  proof (rule wf_inv_new_revision [OF inv w r, where r' = ?r' and w' = ?w'])
    show "workflows s' = tput wf_pk ?w' (workflows s)"
      by (simp add: s' create_revision_Inr [OF s1] facts_commit_def Let_def)
  qed (simp_all add: s' create_revision_Inr [OF s1] facts_commit_def Let_def pk
         delete_approvals_none [OF none] del: delete_approvals_simps(5), simp_all add: facts_revision_def)
qed

text \<open>A new event brings its own event, revision and workflow rows.\<close>

lemma wf_inv_new_workflow:
  assumes inv: "wf_inv c s"
    and new: "tfind wf_pk (wf_pk w) (workflows s) = None"
    and r: "rev_pk r = next_revision s" "rev_event r = next_event s"
    and w: "wf_event w = next_event s" "wf_revision w = next_revision s" "status w = DRAFT" "package w = None"
      "wf_hash w = []"
    and s': "workflows s' = workflows s @ [w]" "revisions s' = revisions s @ [r]"
      "approvals s' = approvals s" "executions s' = executions s"
      "next_revision s' = Suc (next_revision s)" "next_event s' = Suc (next_event s)"
  shows "wf_inv c s'"
proof -
  have tabs: "tables_ok s" using inv by (simp add: wf_inv_def)
  have fresh: "tfind rev_pk k (revisions s') =
      (if k = next_revision s then Some r else tfind rev_pk k (revisions s))" for k
    using tfind_fresh_revision [OF tabs r(1)] by (simp add: s')
  have lt: "wf_revision v \<noteq> next_revision s \<and> wf_event v \<noteq> next_event s" if v: "v \<in> set (workflows s)" for v
  proof -
    obtain q where q: "tfind rev_pk (wf_revision v) (revisions s) = Some q" "rev_event q = wf_event v"
      using inv v by (auto simp: wf_inv_def row_ok_def)
    then have "q \<in> set (revisions s)" "rev_pk q = wf_revision v" by (auto dest: tfind_in tfind_key)
    with q tabs show ?thesis by (auto simp: tables_ok_def)
  qed
  then have "tfind wf_event (wf_event w) (workflows s) = None" by (fastforce simp: tfind_None w)
  moreover have "tfind rev_pk (rev_pk r) (revisions s) = None"
    using tabs by (auto simp: tfind_None r tables_ok_def)
  ultimately have "keys_ok wf_pk (workflows s @ [w])" "keys_ok wf_event (workflows s @ [w])"
    "keys_ok rev_pk (revisions s @ [r])"
    using tabs new by (auto simp: tables_ok_def intro!: keys_ok_append_new)
  then have t': "tables_ok s'"
    using tabs by (auto simp: tables_ok_def s' less_Suc_eq r)
  have views: "approval_of s' v = approval_of s v" "execution_of s' v = execution_of s v" for v
    using views_cong [of s' s v v] s' by simp_all
  have old: "row_ok c s' v" if v: "v \<in> set (workflows s)" for v
  proof (rule row_ok_frame)
    show "row_ok c s v" using inv v by (simp add: wf_inv_def)
  next
    fix q assume "q \<in> set (revisions s')" "rev_event q = wf_event v"
    with lt [OF v] r show "q \<in> set (revisions s)" by (auto simp: s'(2))
  qed (use lt [OF v] in \<open>simp_all add: fresh views\<close>)
  have "tfind ap_workflow (wf_pk w) (approvals s) = None"
    using tabs new by (auto simp: tables_ok_def tfind_None)
  then have none: "approval_of s' w = None" "execution_of s' w = None"
    by (simp_all add: s'(3) approval_of_def execution_of_def)
  have "\<forall>q \<in> set (revisions s'). rev_event q = wf_event w \<longrightarrow> rev_version q \<le> rev_version r"
    using tabs by (auto simp: s'(2) tables_ok_def w)
  then have "row_ok c s' w"
    unfolding row_ok_def by (intro exI [of _ r]) (simp add: none coherent_def w r fresh)
  with old t' show ?thesis by (auto simp: wf_inv_def s')
qed

lemma create_event_workflow_Inr:
  assumes "create_event_workflow wid es title facts author s = Inr s'"
  obtains r w where "tfind wf_pk (wf_pk w) (workflows s) = None"
    and "rev_pk r = next_revision s" "rev_event r = next_event s"
    and "wf_event w = next_event s" "wf_revision w = next_revision s" "status w = DRAFT" "package w = None"
      "wf_hash w = []"
    and "workflows s' = workflows s @ [w]" "revisions s' = revisions s @ [r]"
      "approvals s' = approvals s" "executions s' = executions s"
      "next_revision s' = Suc (next_revision s)" "next_event s' = Suc (next_event s)"
proof (rule that)
  let ?r = "\<lparr>rev_pk = next_revision s, rev_event = next_event s, rev_version = 1,
      snapshot = facts, rev_author = author, source_snapshot = None\<rparr>"
  let ?w = "\<lparr>wf_pk = wid, wf_event = next_event s, wf_revision = next_revision s,
      status = DRAFT, package = None, wf_hash = [], traceparent = []\<rparr>"
  show "workflows s' = workflows s @ [?w]" "revisions s' = revisions s @ [?r]"
    "tfind wf_pk (wf_pk ?w) (workflows s) = None"
    using assms by (auto simp: create_event_workflow_def split: if_splits)
qed (use assms in \<open>auto simp: create_event_workflow_def split: if_splits\<close>)

lemma create_event_workflow_inv:
  assumes inv: "wf_inv c s" and ok: "create_event_workflow wid es title facts author s = Inr s'"
  shows "wf_inv c s'"
  using ok by (rule create_event_workflow_Inr) (rule wf_inv_new_workflow [OF inv])

lemma wf_inv_cong:
  assumes "wf_inv c s" and "workflows s' = workflows s" and "revisions s' = revisions s"
    and "approvals s' = approvals s" and "executions s' = executions s"
    and "next_revision s' = next_revision s" and "next_event s' = next_event s"
  shows "wf_inv c s'"
proof -
  have "row_ok c s' v" if "row_ok c s v" for v
    using that assms views_cong [of s' s v v] by (intro row_ok_cong [OF that]) simp_all
  moreover have "tables_ok s'" using assms tables_ok_cong [of s s'] by (simp add: wf_inv_def)
  ultimately show ?thesis using assms by (simp add: wf_inv_def)
qed

lemma start_manual_event_inv:
  assumes inv: "wf_inv c s" and ok: "start_manual_event c hex wid body a s = Inr s'"
  shows "wf_inv c s'"
proof -
  from ok obtain es title facts s1 where
    "create_event_workflow wid es title facts (slug a) s = Inr s1"
    and s': "s' = add_transition wid (slug a) None DRAFT ''manual_event_started'' (revision_detail 1) s1"
    unfolding start_manual_event_def Let_def op_results by blast
  then have "wf_inv c s1" using create_event_workflow_inv [OF inv] by blast
  then show ?thesis by (rule wf_inv_cong) (simp_all add: s')
qed

text \<open>Deleting the synthetic events with all that hangs off them.\<close>

lemma delete_demo_Inr:
  assumes "delete_demo s = Inr s'"
  shows "workflows s' = tdel (demo_workflow s) (workflows s)"
    and "approvals s' = tdel (\<lambda>a. ap_workflow a \<in> wf_pk ` {w \<in> set (workflows s). demo_workflow s w}) (approvals s)"
    and "executions s' = tdel (\<lambda>x. ex_approval x \<in> ap_pk ` {a \<in> set (approvals s).
           ap_workflow a \<in> wf_pk ` {w \<in> set (workflows s). demo_workflow s w}}) (executions s)"
    and "revisions s' = tdel (\<lambda>r. rev_event r \<in> set (demo_event_ids s)) (revisions s)"
    and "next_revision s' = next_revision s" and "next_event s' = next_event s"
  using assms by (auto simp: delete_demo_def Let_def split: if_splits)

lemma delete_demo_inv:
  assumes inv: "wf_inv c s" and ok: "delete_demo s = Inr s'"
  shows "wf_inv c s'"
proof -
  have tabs: "tables_ok s" using inv by (simp add: wf_inv_def)
  note s' = delete_demo_Inr [OF ok]
  have "ap_workflow a \<in> wf_pk ` {w \<in> set (workflows s). \<not> demo_workflow s w}"
    if "a \<in> set (approvals s)" "ap_workflow a \<notin> wf_pk ` {w \<in> set (workflows s). demo_workflow s w}" for a
    using that tabs by (force simp: tables_ok_def)
  moreover have "ex_approval x \<in> ap_pk ` {a \<in> set (approvals s). \<not> P a}"
    if "x \<in> set (executions s)" "ex_approval x \<notin> ap_pk ` {a \<in> set (approvals s). P a}" for x P
    using that tabs by (force simp: tables_ok_def)
  ultimately have t': "tables_ok s'" using tabs unfolding tables_ok_def s' by simp
  have "row_ok c s' v" if v: "v \<in> set (workflows s)" "\<not> demo_workflow s v" for v
  proof (rule row_ok_frame)
    show "row_ok c s v" using inv v by (simp add: wf_inv_def)
    then have rv: "rev_event r = wf_event v" if "tfind rev_pk (wf_revision v) (revisions s) = Some r" for r
      using that by (auto simp: row_ok_def)
    fix r assume r: "tfind rev_pk (wf_revision v) (revisions s) = Some r"
    then have "q = r" if "q \<in> set (revisions s)" "rev_pk q = wf_revision v" for q
      using that tabs tfind_unique by (fastforce simp: tables_ok_def)
    with rv [OF r] v(2) have "tfind rev_pk (wf_revision v) (revisions s') = tfind rev_pk (wf_revision v) (revisions s)"
      by (force simp: s' demo_workflow_def intro!: tfind_tdel)
    with r show "tfind rev_pk (wf_revision v) (revisions s') = Some r" by simp
  next
    have "wf_pk v \<notin> wf_pk ` {w \<in> set (workflows s). demo_workflow s w}"
      using v tabs keys_ok_inj by (force simp: tables_ok_def)
    then have ne: "ap_workflow a \<noteq> wf_pk v"
      if "ap_workflow a \<in> wf_pk ` {w \<in> set (workflows s). demo_workflow s w}" for a using that by metis
    then show ap: "approval_of s' v = approval_of s v"
      by (auto simp: approval_of_def s'(2) intro!: tfind_tdel)
    show "execution_of s' v = execution_of s v"
    proof (cases "approval_of s v")
      case (Some b)
      then have b: "b \<in> set (approvals s)" "ap_workflow b = wf_pk v"
        by (auto simp: approval_of_def dest: tfind_in tfind_key)
      moreover have "keys_ok ap_pk (approvals s)" using tabs by (simp add: tables_ok_def)
      ultimately have "ap_pk b \<noteq> ap_pk a" if "a \<in> set (approvals s)"
          "ap_workflow a \<in> wf_pk ` {w \<in> set (workflows s). demo_workflow s w}" for a
        using ne [OF that(2)] that(1) keys_ok_inj by metis
      then have "ap_pk b \<notin> ap_pk ` {a \<in> set (approvals s).
          ap_workflow a \<in> wf_pk ` {w \<in> set (workflows s). demo_workflow s w}}" by blast
      then have "tfind ex_approval (ap_pk b) (executions s') = tfind ex_approval (ap_pk b) (executions s)"
        unfolding s'(3) by (intro tfind_tdel) metis
      then show ?thesis by (simp add: execution_of_def ap Some)
    qed (simp add: execution_of_def ap)
  qed (simp add: s')
  with t' show ?thesis by (simp add: wf_inv_def s')
qed

lemma get_or_create_user_simps [simp]:
  "workflows (get_or_create_user c d s) = workflows s" "revisions (get_or_create_user c d s) = revisions s"
  "approvals (get_or_create_user c d s) = approvals s" "executions (get_or_create_user c d s) = executions s"
  "next_revision (get_or_create_user c d s) = next_revision s" "next_event (get_or_create_user c d s) = next_event s"
  by (simp_all add: get_or_create_user_def split: prod.splits option.splits)

lemma upsert_actor_Inr:
  assumes "upsert_actor a s = Inr s'"
  shows "workflows s' = workflows s" "revisions s' = revisions s" "approvals s' = approvals s"
    "executions s' = executions s" "next_revision s' = next_revision s" "next_event s' = next_event s"
  using assms by (auto simp: upsert_actor_def split: if_splits option.splits)

lemma reset_demo_inv:
  assumes inv: "wf_inv c s" and ok: "reset_demo c wid s = Inr s'"
  shows "wf_inv c s'"
proof -
  from ok obtain s1 a b s3 s4 es title facts author s5 where
    s1: "delete_demo s = Inr s1" and s3: "upsert_actor a (seed_demo_users c s1) = Inr s3"
    and s4: "upsert_actor b s3 = Inr s4"
    and s5: "create_event_workflow wid es title facts author s4 = Inr s5"
    and s': "s' = add_audit (Some ''maya'') ''demo_reset'' ''workflow'' wid (revision_detail 1)
             (add_transition wid ''maya'' None DRAFT ''demo_reset'' (revision_detail 1) s5)"
    unfolding reset_demo_def Let_def op_results by blast
  from inv s1 have "wf_inv c s1" by (rule delete_demo_inv)
  then have "wf_inv c (seed_demo_users c s1)"
    by (rule wf_inv_cong) (simp_all add: seed_demo_users_def DEMO_USERS_def)
  then have "wf_inv c s3" by (rule wf_inv_cong) (rule upsert_actor_Inr [OF s3])+
  then have "wf_inv c s4" by (rule wf_inv_cong) (rule upsert_actor_Inr [OF s4])+
  then have "wf_inv c s5" using s5 by (rule create_event_workflow_inv)
  then show ?thesis by (rule wf_inv_cong) (simp_all add: s')
qed

end
