(* ===== verification/Pilot.thy ===== *)
theory Pilot
  imports Workflow_Inv
begin

text \<open>
  The Eventbrite side of \<open>backend/launchloop/pilot.py\<close>: the catalogue of provider events
  (\<open>refresh_eventbrite_events\<close>) and the selection of one of them as a workflow's event
  (\<open>select_eventbrite_event\<close>).  The state is the workflow database with the two provider tables.
  The theory then collects every operation that writes workflow rows into the step relation
  \<open>site_step\<close> and reads the invariant in its reachable states.

  A \<open>datetime\<close> is Python's aware datetime by its fields and its offset in minutes; the database
  stores the instant and gives it back in UTC (\<open>USE_TZ\<close>), which is \<open>to_utc\<close>.
\<close>

section \<open>Datetimes\<close>

record datetime =
  yr :: int
  mon :: nat
  dy :: nat
  hr :: nat
  mi :: nat
  sec :: nat
  usec :: nat
  off :: int

definition pad :: "nat \<Rightarrow> nat \<Rightarrow> string" where
  "pad k n = (let s = nat_digits n in replicate (k - length s) (CHR ''0'') @ s)"

definition date_iso :: "datetime \<Rightarrow> string" where
  "date_iso d = pad 4 (nat (yr d)) @ ''-'' @ pad 2 (mon d) @ ''-'' @ pad 2 (dy d)"

definition time_iso_minutes :: "datetime \<Rightarrow> string" where
  "time_iso_minutes d = pad 2 (hr d) @ '':'' @ pad 2 (mi d)"

definition offset_iso :: "int \<Rightarrow> string" where
  "offset_iso z = (if z < 0 then ''-'' else ''+'') @ pad 2 (nat (\<bar>z\<bar> div 60)) @ '':'' @ pad 2 (nat (\<bar>z\<bar> mod 60))"

definition datetime_iso :: "datetime \<Rightarrow> string" where
  "datetime_iso d = date_iso d @ ''T'' @ time_iso_minutes d @ '':'' @ pad 2 (sec d)
     @ (if usec d = 0 then [] else ''.'' @ pad 6 (usec d)) @ offset_iso (off d)"

text \<open>The date with a given day count, counted as \<open>local_minutes\<close> counts.\<close>

definition year_of_days :: "int \<Rightarrow> int" where
  "year_of_days n = (let y = (400 * (n - 1)) div 146097 + 1
     in if days_before_year (y + 1) < n then y + 1 else if n \<le> days_before_year y then y - 1 else y)"

definition month_of_days :: "int \<Rightarrow> nat \<Rightarrow> nat" where
  "month_of_days y n = length (filter (\<lambda>m. days_before_month y m < n) [1..<13])"

definition to_utc :: "datetime \<Rightarrow> datetime" where
  "to_utc d =
     (let t = local_minutes (yr d, mon d, dy d) (hr d, mi d) - off d;
          days = t div 1440; rest = nat (t mod 1440);
          y = year_of_days days; n = nat (days - days_before_year y); m = month_of_days y n
      in \<lparr>yr = y, mon = m, dy = n - days_before_month y m, hr = rest div 60, mi = rest mod 60,
          sec = sec d, usec = usec d, off = 0\<rparr>)"

section \<open>The provider tables\<close>

record provider_event =
  pe_id :: uuid
  provider_event_id :: string
  current_snapshot :: "uuid option"
  local_event :: "nat option"
  available :: bool

record provider_snapshot =
  sn_id :: uuid
  sn_source :: uuid
  fingerprint :: string
  sn_title :: string
  sn_status :: string
  provider_changed_at :: datetime
  start_at :: "datetime option"
  end_at :: "datetime option"
  sn_timezone :: string

record event_metadata =
  md_id :: string
  md_title :: string
  md_status :: string
  md_changed_at :: datetime
  md_start_at :: "datetime option"
  md_end_at :: "datetime option"
  md_timezone :: string

record site =
  ll :: db
  sources :: "provider_event list"
  snapshots :: "provider_snapshot list"

definition SELECTABLE_STATUSES :: "string list" where
  "SELECTABLE_STATUSES = [''draft'', ''live'']"

definition fingerprint_of :: "config \<Rightarrow> event_metadata \<Rightarrow> string" where
  "fingerprint_of c ev = sha256_hex (env c) (json_dumps (env c) (JObj
     [(''provider_event_id'', JStr (md_id ev)), (''title'', JStr (md_title ev)),
      (''status'', JStr (md_status ev)), (''changed_at'', JStr (datetime_iso (md_changed_at ev))),
      (''start_at'', case md_start_at ev of None \<Rightarrow> JNull | Some d \<Rightarrow> JStr (datetime_iso d)),
      (''end_at'', case md_end_at ev of None \<Rightarrow> JNull | Some d \<Rightarrow> JStr (datetime_iso d)),
      (''timezone'', JStr (md_timezone ev))]))"

section \<open>refresh_eventbrite_events\<close>

text \<open>\<open>get_or_create\<close> of the source and of the snapshot; the ids are those of rows it may create.\<close>

definition source_for :: "uuid \<Rightarrow> event_metadata \<Rightarrow> site \<Rightarrow> ll_error + provider_event \<times> site" where
  "source_for new_id ev st =
     (case tfind provider_event_id (md_id ev) (sources st) of
        Some p \<Rightarrow> Inr (p, st)
      | None \<Rightarrow>
          if tfind pe_id new_id (sources st) \<noteq> None then Inl IntegrityError
          else let p = \<lparr>pe_id = new_id, provider_event_id = md_id ev, current_snapshot = None,
                        local_event = None, available = True\<rparr>
               in Inr (p, st\<lparr>sources := sources st @ [p]\<rparr>))"

definition snapshot_for ::
  "config \<Rightarrow> uuid \<Rightarrow> provider_event \<Rightarrow> event_metadata \<Rightarrow> site \<Rightarrow> ll_error + provider_snapshot \<times> site" where
  "snapshot_for c new_id p ev st =
     (case find (\<lambda>n. sn_source n = pe_id p \<and> fingerprint n = fingerprint_of c ev) (snapshots st) of
        Some n \<Rightarrow> Inr (n, st)
      | None \<Rightarrow>
          if tfind sn_id new_id (snapshots st) \<noteq> None then Inl IntegrityError
          else let n = \<lparr>sn_id = new_id, sn_source = pe_id p, fingerprint = fingerprint_of c ev,
                        sn_title = md_title ev, sn_status = md_status ev,
                        provider_changed_at = to_utc (md_changed_at ev),
                        start_at = map_option to_utc (md_start_at ev),
                        end_at = map_option to_utc (md_end_at ev), sn_timezone = md_timezone ev\<rparr>
               in Inr (n, st\<lparr>snapshots := snapshots st @ [n]\<rparr>))"

definition refresh_event :: "config \<Rightarrow> uuid \<times> uuid \<Rightarrow> event_metadata \<Rightarrow> site \<Rightarrow> ll_error + site" where
  "refresh_event c ids ev st =
     try_bind (source_for (fst ids) ev st) (\<lambda>(p, st1).
     try_bind (snapshot_for c (snd ids) p ev st1) (\<lambda>(n, st2).
       Inr (st2\<lparr>sources := tput pe_id (p\<lparr>current_snapshot := Some (sn_id n), available := True\<rparr>) (sources st2)\<rparr>)))"

fun refresh_events :: "config \<Rightarrow> ((uuid \<times> uuid) \<times> event_metadata) list \<Rightarrow> site \<Rightarrow> ll_error + site" where
  "refresh_events c [] st = Inr st"
| "refresh_events c ((ids, ev) # evs) st = try_bind (refresh_event c ids ev st) (refresh_events c evs)"

definition withdraw_missing :: "string list \<Rightarrow> site \<Rightarrow> site" where
  "withdraw_missing seen st =
     st\<lparr>sources := map (\<lambda>p. if provider_event_id p \<notin> set seen then p\<lparr>available := False\<rparr> else p) (sources st)\<rparr>"

definition refresh_eventbrite_events ::
  "config \<Rightarrow> bool \<Rightarrow> ((uuid \<times> uuid) \<times> event_metadata) list \<Rightarrow> site \<Rightarrow> ll_error + site" where
  "refresh_eventbrite_events c reconcile_missing evs st =
     try_bind (refresh_events c evs st) (\<lambda>st'.
       Inr (if reconcile_missing then withdraw_missing (map (md_id \<circ> snd) evs) st' else st'))"

section \<open>select_eventbrite_event\<close>

definition import_facts :: "provider_snapshot \<Rightarrow> dict" where
  "import_facts n =
     [(''title'', JStr (sn_title n)), (''city'', JStr []), (''region'', JStr []), (''country'', JStr []),
      (''date'', JStr (case start_at n of None \<Rightarrow> [] | Some d \<Rightarrow> date_iso d)),
      (''start_time'', JStr (case start_at n of None \<Rightarrow> [] | Some d \<Rightarrow> time_iso_minutes d)),
      (''end_time'', JStr (case end_at n of None \<Rightarrow> [] | Some d \<Rightarrow> time_iso_minutes d)),
      (''timezone'', JStr (sn_timezone n)), (''venue_name'', JStr []), (''venue_address'', JStr []),
      (''access_instructions'', JStr []),
      (''description'', JStr ''Imported from Eventbrite for local review. Provider text is not copied.''),
      (''general_ticket_price'', JInt 0), (''signup_url'', JStr []), (''sponsor_tier'', JStr []),
      (''sponsor_discount_percent'', JInt 0)]"

text \<open>The local event of the source: created with the source's first selection, retitled later.\<close>

definition local_event_for :: "provider_event \<Rightarrow> provider_snapshot \<Rightarrow> site \<Rightarrow> ll_error + nat \<times> site" where
  "local_event_for p n st =
     (case local_event p of
        Some e \<Rightarrow> Inr (e, st\<lparr>ll := (ll st)\<lparr>events := map (\<lambda>ev. if event_pk ev = e
            then ev\<lparr>event_title := sn_title n\<rparr> else ev) (events (ll st))\<rparr>\<rparr>)
      | None \<Rightarrow>
          let e = next_event (ll st); es = ''eventbrite-'' @ provider_event_id p in
          if tfind event_slug es (events (ll st)) \<noteq> None \<or> tfind event_pk e (events (ll st)) \<noteq> None
          then Inl IntegrityError
          else Inr (e, st\<lparr>ll := (ll st)\<lparr>events := events (ll st) @
                       [\<lparr>event_pk = e, event_slug = es, event_title = sn_title n\<rparr>], next_event := Suc e\<rparr>,
                     sources := tput pe_id (p\<lparr>local_event := Some e\<rparr>) (sources st)\<rparr>))"

definition max_version :: "nat \<Rightarrow> db \<Rightarrow> nat" where
  "max_version e s = foldr max (map rev_version (filter (\<lambda>r. rev_event r = e) (revisions s))) 0"

definition import_revision :: "actor \<Rightarrow> nat \<Rightarrow> provider_snapshot \<Rightarrow> db \<Rightarrow> revision" where
  "import_revision a e n s =
     \<lparr>rev_pk = next_revision s, rev_event = e, rev_version = max_version e s + 1,
      snapshot = import_facts n, rev_author = slug a, source_snapshot = Some (sn_id n)\<rparr>"

text \<open>\<open>Workflow.objects.create\<close>.\<close>

definition create_workflow :: "uuid \<Rightarrow> nat \<Rightarrow> nat \<Rightarrow> db \<Rightarrow> ll_error + db" where
  "create_workflow wid e r s =
     (if tfind wf_pk wid (workflows s) \<noteq> None \<or> tfind wf_event e (workflows s) \<noteq> None then Inl IntegrityError
      else Inr (s\<lparr>workflows := workflows s @ [\<lparr>wf_pk = wid, wf_event = e, wf_revision = r, status = DRAFT,
             package = None, wf_hash = [], traceparent = []\<rparr>]\<rparr>))"

definition selected_details :: "provider_snapshot \<Rightarrow> dict" where
  "selected_details n = [(''source_snapshot_id'', JStr (sn_id n))]"

definition import_first :: "uuid \<Rightarrow> actor \<Rightarrow> provider_snapshot \<Rightarrow> nat \<Rightarrow> db \<Rightarrow> ll_error + db" where
  "import_first wid a n e s =
     try_bind (create_revision (import_revision a e n s) s) (\<lambda>s1.
     try_bind (create_workflow wid e (rev_pk (import_revision a e n s)) s1) (\<lambda>s2.
       Inr (add_transition wid (slug a) None DRAFT ''eventbrite_event_selected'' (selected_details n) s2)))"

definition reimported :: "workflow \<Rightarrow> revision \<Rightarrow> workflow" where
  "reimported w r' = w\<lparr>wf_revision := rev_pk r', status := DRAFT, package := None, wf_hash := []\<rparr>"

definition import_again :: "workflow \<Rightarrow> actor \<Rightarrow> provider_snapshot \<Rightarrow> nat \<Rightarrow> db \<Rightarrow> ll_error + db" where
  "import_again w a n e s =
     try_bind (create_revision (import_revision a e n s) s) (\<lambda>s1.
       Inr (add_transition (wf_pk w) (slug a) (Some (status w)) DRAFT ''eventbrite_event_selected''
              (selected_details n) (save_workflow (reimported w (import_revision a e n s)) s1)))"

definition import_event :: "uuid \<Rightarrow> actor \<Rightarrow> provider_snapshot \<Rightarrow> nat \<Rightarrow> db \<Rightarrow> ll_error + db" where
  "import_event wid a n e s =
     (case tfind wf_event e (workflows s) of
        None \<Rightarrow> import_first wid a n e s
      | Some w \<Rightarrow>
          try_bind (revision_of s w) (\<lambda>r.
          if source_snapshot r = Some (sn_id n) then Inr s
          else if status w \<notin> {DRAFT, NEEDS_INPUT} then Inl (PyError (ValueError ''review_in_progress''))
          else import_again w a n e s))"

definition select_eventbrite_event :: "uuid \<Rightarrow> uuid \<Rightarrow> actor \<Rightarrow> site \<Rightarrow> ll_error + site" where
  "select_eventbrite_event wid source_id a st =
     (case tfind pe_id source_id (sources st) of
        None \<Rightarrow> Inl (PyError (ValueError ''event_not_found''))
      | Some p \<Rightarrow>
        (case Option.bind (current_snapshot p) (\<lambda>k. tfind sn_id k (snapshots st)) of
           None \<Rightarrow> Inl (PyError (ValueError ''event_unavailable''))
         | Some n \<Rightarrow>
             if \<not> available p \<or> sn_status n \<notin> set SELECTABLE_STATUSES
             then Inl (PyError (ValueError ''event_unavailable''))
             else try_bind (local_event_for p n st) (\<lambda>(e, st1).
                  try_bind (import_event wid a n e (ll st1)) (\<lambda>s2. Inr (st1\<lparr>ll := s2\<rparr>)))))"


section \<open>Events that belong to a provider source\<close>

definition owner_event :: "db \<Rightarrow> nat \<Rightarrow> bool" where
  "owner_event s e \<longleftrightarrow> e < next_event s \<and> e \<in> wf_event ` set (workflows s)
     \<and> (\<forall>r \<in> set (revisions s). rev_event r = e \<longrightarrow> kind_of r = Eventbrite)"

lemma owner_eventI:
  assumes "owner_event s e" and "next_event s \<le> next_event s'"
    and "wf_event ` set (workflows s) \<subseteq> wf_event ` set (workflows s')"
    and "\<And>r. r \<in> set (revisions s') \<Longrightarrow> rev_event r = e \<Longrightarrow> r \<notin> set (revisions s) \<Longrightarrow> kind_of r = Eventbrite"
  shows "owner_event s' e"
  using assms by (fastforce simp: owner_event_def)

lemma events_tput_workflow:
  assumes "tables_ok s" and "tfind wf_pk (wf_pk w') (workflows s) = Some w" and "wf_event w' = wf_event w"
  shows "wf_event ` set (tput wf_pk w' (workflows s)) = wf_event ` set (workflows s)"
proof -
  have "wf_pk w' = wf_pk w" "w \<in> set (workflows s)"
    using assms(2) by (auto dest: tfind_key tfind_in)
  then have "map wf_event (tput wf_pk w' (workflows s)) = map wf_event (workflows s)"
    using assms by (intro map_tput_second) (auto simp: tables_ok_def)
  then show ?thesis by (metis image_set)
qed

text \<open>An operation that rewrites one workflow row and adds no revision.\<close>

lemma owner_event_row:
  assumes "wf_inv c s" and "owner_event s e" and "tfind wf_pk (wf_pk w') (workflows s) = Some w"
    and "wf_event w' = wf_event w" and "workflows s' = tput wf_pk w' (workflows s)"
    and "revisions s' = revisions s" and "next_event s' = next_event s"
  shows "owner_event s' e"
  using assms events_tput_workflow [of s w' w]
  by (intro owner_eventI [OF assms(2)]) (auto simp: wf_inv_def)

lemma run_workflow_owner:
  assumes "wf_inv c s" and "owner_event s e" and "run_workflow c tp wid a s = Inr s'"
  shows "owner_event s' e"
proof -
  obtain w r p where w: "tfind wf_pk wid (workflows s) = Some w" and s': "s' = run_commit c tp a w r p s"
    using assms(3) by (auto simp: run_workflow_Inr)
  let ?w' = "(workflow_operation tp w)\<lparr>package := Some p, wf_hash := package_hash c p, status :=
    if jfield p ''status'' = JStr ''ready_for_review'' then READY_FOR_REVIEW else NEEDS_INPUT\<rparr>"
  have "wf_pk w = wid" using w by (rule tfind_key)
  with w show ?thesis
    by (intro owner_event_row [OF assms(1,2), where w' = ?w' and w = w])
       (simp_all add: s' run_commit_def Let_def tput_tput)
qed

lemma submit_workflow_owner:
  assumes "wf_inv c s" and "owner_event s e" and "submit_workflow tp apid wid a s = Inr s'"
  shows "owner_event s' e"
proof -
  obtain w s1 where w: "tfind wf_pk wid (workflows s) = Some w"
    and s1: "create_approval (new_request apid a w) (save_workflow (workflow_operation tp w) s) = Inr s1"
    and s': "s' = transition (workflow_operation tp w) a IN_REVIEW ''package_submitted''
               [(''package_hash'', JStr (wf_hash w))] s1"
    using assms(3) by (auto simp: submit_workflow_Inr)
  have "wf_pk w = wid" using w by (rule tfind_key)
  with w s1 show ?thesis
    by (intro owner_event_row [OF assms(1,2), where w' = "(workflow_operation tp w)\<lparr>status := IN_REVIEW\<rparr>" and w = w])
       (auto simp: s' create_approval_def tput_tput split: if_splits)
qed

lemma decide_approval_owner:
  assumes "wf_inv c s" and "owner_event s e" and ok: "decide_approval tp now exid apid a dec h why s = Inr s'"
  shows "owner_event s' e"
proof -
  obtain ap w where w: "tfind wf_pk (ap_workflow ap) (workflows s) = Some w"
    and cs: "s' = reject_commit tp now a why ap w s \<or> approve_commit tp now exid a why ap w s = Inr s'"
    using ok unfolding decide_approval_Inr by blast
  have pk: "wf_pk w = ap_workflow ap" using w by (rule tfind_key)
  from cs show ?thesis
  proof
    assume s': "s' = reject_commit tp now a why ap w s"
    show ?thesis
      by (rule owner_event_row [OF assms(1,2), where w = w and
            w' = "(workflow_operation tp w)\<lparr>package := None, wf_hash := [], status := NEEDS_INPUT\<rparr>"])
         (simp_all add: s' reject_commit_def Let_def tput_tput pk w)
  next
    assume "approve_commit tp now exid a why ap w s = Inr s'"
    then show ?thesis
      by (rule approve_commit_Inr)
         (rule owner_event_row [OF assms(1,2), where w = w and
            w' = "(workflow_operation tp w)\<lparr>status := COMPLETED\<rparr>"], simp_all add: pk w)
  qed
qed

text \<open>Only the synthetic revisions take the questions' answers; the owner's edits keep the kind.\<close>

lemma answer_questions_owner:
  assumes inv: "wf_inv c s" and own: "owner_event s e" and ok: "answer_questions c tp wid a answers s = Inr s'"
  shows "owner_event s' e"
proof -
  obtain w r s1 where w: "tfind wf_pk wid (workflows s) = Some w"
    and r: "tfind rev_pk (wf_revision w) (revisions s) = Some r" and k: "kind_of r = Synthetic"
    and s1: "create_revision (answer_revision c a answers w r s) s = Inr s1"
    and s': "s' = answer_commit c tp a answers w (answer_revision c a answers w r s) s1"
    using ok by (auto simp: answer_questions_Inr)
  have pk: "wf_pk w = wid" using w by (rule tfind_key)
  have "rev_event r = wf_event w" using wf_inv_row_ok [OF inv w] r by (auto simp: row_ok_def)
  then have ne: "wf_event w \<noteq> e" using own k tfind_in [OF r] by (auto simp: owner_event_def)
  let ?r' = "answer_revision c a answers w r s"
  let ?d = "if missing_answers (env c) (snapshot ?r') \<noteq> [] then NEEDS_INPUT else DRAFT"
  let ?w' = "(workflow_operation tp w)\<lparr>wf_revision := rev_pk ?r', package := None, wf_hash := [], status := ?d\<rparr>"
  have ws: "workflows s' = tput wf_pk ?w' (workflows s)" and rs: "revisions s' = revisions s @ [?r']"
    and ne': "next_event s' = next_event s"
    by (simp_all add: s' create_revision_Inr [OF s1] answer_commit_def Let_def tput_tput)
  have "wf_event ` set (workflows s') = wf_event ` set (workflows s)"
    unfolding ws using inv w pk by (intro events_tput_workflow [where w = w]) (auto simp: wf_inv_def)
  then show ?thesis
    using ne by (intro owner_eventI [OF own]) (auto simp: rs ne' answer_revision_def)
qed

lemma facts_dict_keys: "fst ` set (facts_dict facts) = fst ` set facts"
  by (force simp: facts_dict_def)

lemma validate_facts_keys:
  assumes "validate_facts L body = Inr facts"
  shows "fst ` set facts \<subseteq> set FACT_FIELDS"
proof (cases body)
  case (JObj d)
  with assms have "strip_facts d = Inr facts" and "\<forall>kv \<in> set d. fst kv \<in> set FACT_FIELDS"
    by (auto simp: validate_facts_def result_simps list_all_iff split: if_splits option.splits)
  then show ?thesis using strip_facts_keys [of d facts] by (metis image_set image_subsetI list.set_map)
qed (use assms in \<open>simp_all add: validate_facts_def\<close>)


lemma facts_revision_kind:
  assumes v: "validate_facts L body = Inr changes" and k: "kind_of r = Eventbrite"
  shows "kind_of (facts_revision a changes w r s) = Eventbrite"
proof -
  have "''synthetic'' \<notin> fst ` set (facts_dict changes)"
    using validate_facts_keys [OF v] by (auto simp: facts_dict_keys FACT_FIELDS_def)
  then have "dget (dict_update (snapshot r) (facts_dict changes)) ''synthetic'' = dget (snapshot r) ''synthetic''"
    by (simp add: dget_def map_of_dict_update_other)
  with k show ?thesis
    by (auto simp: kind_of_def source_kind_of_def facts_revision_def split: if_splits)
qed

lemma update_event_facts_owner:
  assumes inv: "wf_inv c s" and own: "owner_event s e" and ok: "update_event_facts c busy wid body a s = Inr s'"
  shows "owner_event s' e"
proof -
  obtain w r changes s1 title where w: "tfind wf_pk wid (workflows s) = Some w"
    and r: "tfind rev_pk (wf_revision w) (revisions s) = Some r"
    and v: "validate_facts (lib c) body = Inr changes"
    and s1: "create_revision (facts_revision a changes w r s) s = Inr s1"
    and s': "s' = facts_commit c a w (facts_revision a changes w r s) title s1"
    using ok unfolding update_event_facts_Inr by blast
  have pk: "wf_pk w = wid" using w by (rule tfind_key)
  let ?r' = "facts_revision a changes w r s"
  let ?w' = "w\<lparr>wf_revision := rev_pk ?r', status := DRAFT, package := None, wf_hash := []\<rparr>"
  have ws: "workflows s' = tput wf_pk ?w' (workflows s)" and rs: "revisions s' = revisions s @ [?r']"
    and ne': "next_event s' = next_event s"
    by (simp_all add: s' create_revision_Inr [OF s1] facts_commit_def Let_def)
  have evs: "wf_event ` set (workflows s') = wf_event ` set (workflows s)"
    unfolding ws using inv w pk by (intro events_tput_workflow [where w = w]) (auto simp: wf_inv_def)
  have "rev_event r = wf_event w" using wf_inv_row_ok [OF inv w] r by (auto simp: row_ok_def)
  then have "kind_of r = Eventbrite" if "wf_event w = e"
    using own tfind_in [OF r] that by (auto simp: owner_event_def)
  moreover have "rev_event ?r' = wf_event w" by (simp add: facts_revision_def)
  ultimately have "kind_of ?r' = Eventbrite" if "rev_event ?r' = e"
    using facts_revision_kind [OF v] that by metis
  then show ?thesis by (intro owner_eventI [OF own]) (auto simp: rs ne' evs)
qed

lemma create_event_workflow_owner:
  assumes "owner_event s e" and "create_event_workflow wid es title facts author s = Inr s'"
  shows "owner_event s' e"
  using assms(2)
  by (rule create_event_workflow_Inr)
     (rule owner_eventI [OF assms(1)], use assms(1) in \<open>auto simp: owner_event_def\<close>)

lemma owner_event_cong:
  assumes "owner_event s e" and "workflows s' = workflows s" and "revisions s' = revisions s"
    and "next_event s' = next_event s"
  shows "owner_event s' e"
  using assms by (simp add: owner_event_def)

lemma start_manual_event_owner:
  assumes own: "owner_event s e" and ok: "start_manual_event c hex wid body a s = Inr s'"
  shows "owner_event s' e"
proof -
  from ok obtain es title facts s1 where s1: "create_event_workflow wid es title facts (slug a) s = Inr s1"
    and s': "s' = add_transition wid (slug a) None DRAFT ''manual_event_started'' (revision_detail 1) s1"
    unfolding start_manual_event_def Let_def op_results by blast
  show ?thesis using create_event_workflow_owner [OF own s1] by (rule owner_event_cong) (simp_all add: s')
qed

text \<open>A reset spares the events of provider sources.\<close>

lemma delete_demo_owner:
  assumes own: "owner_event s e" and ok: "delete_demo s = Inr s'"
  shows "owner_event s' e"
proof -
  have "e \<notin> set (demo_event_ids s)"
    using own by (auto simp: owner_event_def demo_event_ids_def kind_of_def source_kind_of_def split: if_splits)
  with own show ?thesis
    by (auto simp: owner_event_def delete_demo_Inr [OF ok] demo_workflow_def)
qed

lemma reset_demo_owner:
  assumes own: "owner_event s e" and ok: "reset_demo c wid s = Inr s'"
  shows "owner_event s' e"
proof -
  from ok obtain s1 a b s3 s4 es title facts author s5 where
    s1: "delete_demo s = Inr s1" and s3: "upsert_actor a (seed_demo_users c s1) = Inr s3"
    and s4: "upsert_actor b s3 = Inr s4"
    and s5: "create_event_workflow wid es title facts author s4 = Inr s5"
    and s': "s' = add_audit (Some ''maya'') ''demo_reset'' ''workflow'' wid (revision_detail 1)
             (add_transition wid ''maya'' None DRAFT ''demo_reset'' (revision_detail 1) s5)"
    unfolding reset_demo_def Let_def op_results by blast
  from own s1 have "owner_event s1 e" by (rule delete_demo_owner)
  then have "owner_event (seed_demo_users c s1) e"
    by (rule owner_event_cong) (simp_all add: seed_demo_users_def DEMO_USERS_def)
  then have "owner_event s3 e" by (rule owner_event_cong) (rule upsert_actor_Inr [OF s3])+
  then have "owner_event s4 e" by (rule owner_event_cong) (rule upsert_actor_Inr [OF s4])+
  then have "owner_event s5 e" using s5 by (rule create_event_workflow_owner)
  then show ?thesis by (rule owner_event_cong) (simp_all add: s')
qed


section \<open>The invariant of the provider tables\<close>

definition site_inv :: "config \<Rightarrow> site \<Rightarrow> bool" where
  "site_inv c st \<longleftrightarrow> wf_inv c (ll st) \<and> keys_ok pe_id (sources st) \<and> keys_ok provider_event_id (sources st)
     \<and> (\<forall>p \<in> set (sources st). \<forall>e. local_event p = Some e \<longrightarrow> owner_event (ll st) e)"

lemma site_inv_ll:
  assumes "site_inv c st" and "wf_inv c s'" and "\<And>e. owner_event (ll st) e \<Longrightarrow> owner_event s' e"
  shows "site_inv c (st\<lparr>ll := s'\<rparr>)"
  using assms by (auto simp: site_inv_def)

lemma import_revision_kind: "kind_of (import_revision a e n s) = Eventbrite"
  by (simp add: kind_of_def source_kind_of_def import_revision_def import_facts_def dget_def)

lemma create_workflow_Inr:
  "create_workflow wid e r s = Inr s' \<Longrightarrow>
     tfind wf_pk wid (workflows s) = None \<and>
     s' = s\<lparr>workflows := workflows s @ [\<lparr>wf_pk = wid, wf_event = e, wf_revision = r, status = DRAFT,
             package = None, wf_hash = [], traceparent = []\<rparr>]\<rparr>"
  by (auto simp: create_workflow_def split: if_splits)

text \<open>The first selection of a source: its event is new.\<close>

lemma import_event_new:
  assumes inv: "wf_inv c s0" and ok: "import_event wid a n (next_event s0)
      (s0\<lparr>events := evs, next_event := Suc (next_event s0)\<rparr>) = Inr s'" (is "import_event wid a n ?e ?s = _")
  shows "wf_inv c s'" and "owner_event s' (next_event s0)"
    and "owner_event s0 d \<Longrightarrow> owner_event s' d"
proof -
  have tabs: "tables_ok s0" using inv by (simp add: wf_inv_def)
  have "wf_event v < next_event s0" if v: "v \<in> set (workflows s0)" for v
    using inv v by (fastforce simp: wf_inv_def row_ok_def tables_ok_def dest: tfind_in)
  then have none: "tfind wf_event ?e (workflows s0) = None" by (fastforce simp: tfind_None)
  let ?r = "import_revision a ?e n ?s"
  define w where "w = \<lparr>wf_pk = wid, wf_event = ?e, wf_revision = rev_pk ?r, status = DRAFT,
             package = None, wf_hash = [], traceparent = []\<rparr>"
  from ok none obtain s1 s2 where s1: "create_revision ?r ?s = Inr s1"
    and s2: "create_workflow wid ?e (rev_pk ?r) s1 = Inr s2"
    and s': "s' = add_transition wid (slug a) None DRAFT ''eventbrite_event_selected''
        (selected_details n) s2"
    by (auto simp: import_event_def import_first_def op_results)
  have rows: "workflows s' = workflows s0 @ [w]" "revisions s' = revisions s0 @ [?r]"
    "approvals s' = approvals s0" "executions s' = executions s0"
    "next_revision s' = Suc (next_revision s0)" "next_event s' = Suc (next_event s0)"
    and fresh: "tfind wf_pk (wf_pk w) (workflows s0) = None"
    using create_workflow_Inr [OF s2] by (simp_all add: s' create_revision_Inr [OF s1] w_def)
  have r: "rev_pk ?r = next_revision s0" "rev_event ?r = ?e" by (simp_all add: import_revision_def)
  show "wf_inv c s'"
    by (rule wf_inv_new_workflow [OF inv fresh r _ _ _ _ _ rows]) (simp_all add: w_def r)
  show "owner_event s' ?e"
    using tabs by (auto simp: owner_event_def rows import_revision_kind tables_ok_def) (simp add: w_def)
  show "owner_event s' d" if "owner_event s0 d"
    using that by (rule owner_eventI) (auto simp: rows import_revision_kind)
qed

lemma foldr_max_eq:
  "m \<in> set xs \<Longrightarrow> (\<And>x. x \<in> set xs \<Longrightarrow> x \<le> m) \<Longrightarrow> foldr max xs (0::nat) = m"
proof -
  have le: "\<forall>x \<in> set xs. x \<le> foldr max xs 0" by (induction xs) auto
  have lb: "\<forall>x \<in> set xs. x \<le> m \<Longrightarrow> foldr max xs 0 \<le> m" for m by (induction xs) auto
  assume "m \<in> set xs" "\<And>x. x \<in> set xs \<Longrightarrow> x \<le> m"
  with le lb show ?thesis by (meson le_antisym)
qed

lemma max_version_current:
  assumes "row_ok c s w" and "tfind rev_pk (wf_revision w) (revisions s) = Some r"
  shows "max_version (wf_event w) s = rev_version r"
proof -
  have "r \<in> set (revisions s)" "rev_event r = wf_event w"
    "\<forall>q \<in> set (revisions s). rev_event q = wf_event w \<longrightarrow> rev_version q \<le> rev_version r"
    using assms by (auto simp: row_ok_def dest: tfind_in)
  then show ?thesis unfolding max_version_def by (intro foldr_max_eq) auto
qed

lemma import_event_Some:
  assumes "tfind wf_event e (workflows s) = Some w"
  shows "import_event wid a n e s = Inr s' \<longleftrightarrow>
     (\<exists>r. tfind rev_pk (wf_revision w) (revisions s) = Some r \<and>
        (if source_snapshot r = Some (sn_id n) then s' = s
         else status w \<in> {DRAFT, NEEDS_INPUT} \<and> import_again w a n e s = Inr s'))"
  unfolding import_event_def assms option.case try_bind_eq_Inr revision_of_Inr if_Inl_eq_Inr
  by (intro arg_cong [where f = Ex] ext) auto

text \<open>A later selection: the workflow of the source's event takes a new revision, or nothing changes.\<close>

lemma import_event_old:
  assumes inv: "wf_inv c s" and own: "owner_event s e" and ok: "import_event wid a n e s = Inr s'"
  shows "wf_inv c s'" and "owner_event s d \<Longrightarrow> owner_event s' d"
proof -
  have tabs: "tables_ok s" using inv by (simp add: wf_inv_def)
  obtain w where w0: "tfind wf_event e (workflows s) = Some w"
    using own by (cases "tfind wf_event e (workflows s)") (auto simp: owner_event_def tfind_None)
  then have win: "w \<in> set (workflows s)" "wf_event w = e" by (auto dest: tfind_in tfind_key)
  then have w: "tfind wf_pk (wf_pk w) (workflows s) = Some w"
    using tabs by (intro tfind_unique) (auto simp: tables_ok_def)
  have row: "row_ok c s w" using inv win by (simp add: wf_inv_def)
  obtain r where r: "tfind rev_pk (wf_revision w) (revisions s) = Some r"
    and cases: "s' = s \<or> status w \<in> {DRAFT, NEEDS_INPUT} \<and> import_again w a n e s = Inr s'"
    using ok unfolding import_event_Some [OF w0] by metis
  have rk: "kind_of r = Eventbrite"
    using own row r win by (auto simp: owner_event_def row_ok_def dest: tfind_in)
  have "approval_of s w = None" if "status w \<in> {DRAFT, NEEDS_INPUT}"
    using inv_row [OF inv w r] rk that by (intro owner_event_no_approval) auto
  then have no_ap: "tfind ap_workflow (wf_pk w) (approvals s) = None" if "status w \<in> {DRAFT, NEEDS_INPUT}"
    using that by (simp add: approval_of_def)
  let ?r' = "import_revision a e n s"
  let ?w' = "reimported w ?r'"
  have r': "rev_pk ?r' = next_revision s" "rev_event ?r' = wf_event w" "rev_version ?r' = rev_version r + 1"
    using max_version_current [OF row r] win by (simp_all add: import_revision_def)
  have rows: "workflows s' = tput wf_pk ?w' (workflows s)" "revisions s' = revisions s @ [?r']"
      "next_revision s' = Suc (next_revision s)" "next_event s' = next_event s"
      "approvals s' = approvals s" "executions s' = executions s" if ne: "s' \<noteq> s"
  proof -
    obtain s1 where s1: "create_revision ?r' s = Inr s1"
      and s': "s' = add_transition (wf_pk w) (slug a) (Some (status w)) DRAFT ''eventbrite_event_selected''
                (selected_details n) (save_workflow ?w' s1)"
      using cases ne by (auto simp: import_again_def op_results)
    show "workflows s' = tput wf_pk ?w' (workflows s)" "revisions s' = revisions s @ [?r']"
      "next_revision s' = Suc (next_revision s)" "next_event s' = next_event s"
      "approvals s' = approvals s" "executions s' = executions s"
      by (simp_all add: s' create_revision_Inr [OF s1])
  qed
  have new: "wf_inv c s'" if "s' \<noteq> s"
  proof (rule wf_inv_new_revision [OF inv w r r', where w' = ?w'])
    have "tfind ap_workflow (wf_pk w) (approvals s) = None" using cases that no_ap by blast
    from delete_approvals_none [OF this]
    show "approvals s' = approvals (delete_approvals_of (wf_pk w) s)"
      "executions s' = executions (delete_approvals_of (wf_pk w) s)" by (simp_all only: rows [OF that])
  qed (simp_all add: rows [OF that] r' reimported_def)
  then show "wf_inv c s'" using inv by (cases "s' = s") auto
  have "owner_event s' d" if "owner_event s d" "s' \<noteq> s"
    using that(1) events_tput_workflow [of s ?w' w] tabs w
    by (intro owner_eventI [OF that(1)]) (auto simp: rows [OF that(2)] import_revision_kind reimported_def)
  then show "owner_event s' d" if "owner_event s d" using that by (cases "s' = s") auto
qed


lemma local_event_for_Some:
  assumes "local_event p = Some e"
  shows "local_event_for p n st = Inr (e, st\<lparr>ll := (ll st)\<lparr>events := map (\<lambda>ev. if event_pk ev = e
            then ev\<lparr>event_title := sn_title n\<rparr> else ev) (events (ll st))\<rparr>\<rparr>)"
  by (simp add: local_event_for_def assms)

lemma local_event_for_None:
  assumes "local_event p = None" and "local_event_for p n st = Inr (e, st1)"
  obtains evs where "e = next_event (ll st)"
    and "ll st1 = (ll st)\<lparr>events := evs, next_event := Suc (next_event (ll st))\<rparr>"
    and "sources st1 = tput pe_id (p\<lparr>local_event := Some e\<rparr>) (sources st)"
    and "snapshots st1 = snapshots st"
  using assms by (auto simp: local_event_for_def Let_def split: if_splits)

lemma keys_ok_tput_source:
  "keys_ok pe_id ps \<Longrightarrow> keys_ok provider_event_id ps \<Longrightarrow> tfind pe_id (pe_id q) ps = Some p \<Longrightarrow>
     provider_event_id q = provider_event_id p \<Longrightarrow> keys_ok provider_event_id (tput pe_id q ps)"
  using keys_ok_tput_second [of pe_id ps p q provider_event_id] tfind_in [of pe_id "pe_id q" ps p]
    tfind_key [of pe_id "pe_id q" ps p] by simp

lemma select_eventbrite_event_inv:
  assumes inv: "site_inv c st" and ok: "select_eventbrite_event wid sid a st = Inr st'"
  shows "site_inv c st'"
proof -
  from ok obtain p n e st1 s2 where p: "tfind pe_id sid (sources st) = Some p"
    and e: "local_event_for p n st = Inr (e, st1)" and s2: "import_event wid a n e (ll st1) = Inr s2"
    and st': "st' = st1\<lparr>ll := s2\<rparr>"
    by (auto simp: select_eventbrite_event_def try_bind_eq_Inr split: option.splits if_splits)
  have wf: "wf_inv c (ll st)" and pin: "p \<in> set (sources st)" "pe_id p = sid"
    and keys: "keys_ok pe_id (sources st)" "keys_ok provider_event_id (sources st)"
    using inv p by (auto simp: site_inv_def dest: tfind_in tfind_key)
  show ?thesis
  proof (cases "local_event p")
    case None
    obtain evs where ev: "e = next_event (ll st)"
      and ll1: "ll st1 = (ll st)\<lparr>events := evs, next_event := Suc (next_event (ll st))\<rparr>"
      and src: "sources st1 = tput pe_id (p\<lparr>local_event := Some e\<rparr>) (sources st)"
      using local_event_for_None [OF None e] by blast
    note new = import_event_new [OF wf, of wid a n evs s2, folded ev, folded ll1 [unfolded ev [symmetric]], OF s2]
    have "keys_ok provider_event_id (sources st1)"
      unfolding src using keys p pin by (intro keys_ok_tput_source [where p = p]) auto
    moreover have "owner_event s2 d" if "q \<in> set (sources st1)" "local_event q = Some d" for q d
      using in_tput [OF that(1) [unfolded src]] that(2) new(2,3) inv by (auto simp: site_inv_def)
    ultimately show ?thesis using new(1) keys by (auto simp: site_inv_def st' src)
  next
    case (Some e')
    then have own: "owner_event (ll st) e'" using inv pin by (auto simp: site_inv_def)
    from e [unfolded local_event_for_Some [OF Some]] obtain evs
      where st1: "e = e'" "st1 = st\<lparr>ll := (ll st)\<lparr>events := evs\<rparr>\<rparr>" by auto
    have "wf_inv c (ll st1)" using wf by (rule wf_inv_cong) (simp_all add: st1)
    moreover have own1: "owner_event (ll st) d \<Longrightarrow> owner_event (ll st1) d" for d
      by (erule owner_event_cong) (simp_all add: st1)
    ultimately have "wf_inv c s2" "\<And>d. owner_event (ll st) d \<Longrightarrow> owner_event s2 d"
      using import_event_old [OF _ _ s2] own st1(1) by blast+
    then have "site_inv c (st\<lparr>ll := s2\<rparr>)" by (intro site_inv_ll [OF inv])
    then show ?thesis by (simp add: st' st1)
  qed
qed

text \<open>Refreshing the catalogue touches neither the workflow tables nor the sources' local events.\<close>

lemma source_for_Inr:
  assumes ok: "source_for i ev st = Inr (p, st1)" and inv: "site_inv c st"
  shows "site_inv c st1" and "p \<in> set (sources st1)" and "provider_event_id p = md_id ev"
    and "set (sources st1) \<subseteq> insert p (set (sources st))"
proof -
  have "site_inv c st1 \<and> p \<in> set (sources st1) \<and> provider_event_id p = md_id ev
      \<and> set (sources st1) \<subseteq> insert p (set (sources st))"
  proof (cases "tfind provider_event_id (md_id ev) (sources st)")
    case None
    let ?p = "\<lparr>pe_id = i, provider_event_id = md_id ev, current_snapshot = None, local_event = None, available = True\<rparr>"
    have p: "p = ?p" and st1: "st1 = st\<lparr>sources := sources st @ [?p]\<rparr>" and new: "tfind pe_id i (sources st) = None"
      using ok None by (auto simp: source_for_def Let_def split: if_splits)
    have "keys_ok pe_id (sources st @ [?p])" "keys_ok provider_event_id (sources st @ [?p])"
      using None new inv by (auto simp: site_inv_def intro!: keys_ok_append_new)
    with inv show ?thesis by (auto simp: p st1 site_inv_def)
  next
    case (Some q)
    with ok have "p = q" "st1 = st" by (auto simp: source_for_def)
    with inv Some show ?thesis by (auto dest: tfind_in tfind_key)
  qed
  then show "site_inv c st1" and "p \<in> set (sources st1)" and "provider_event_id p = md_id ev"
    and "set (sources st1) \<subseteq> insert p (set (sources st))" by auto
qed

lemma snapshot_for_Inr:
  "snapshot_for c i p ev st = Inr (n, st2) \<Longrightarrow> sources st2 = sources st \<and> ll st2 = ll st"
  by (auto simp: snapshot_for_def Let_def split: option.splits if_splits)

lemma refresh_event_Inr:
  assumes inv: "site_inv c st" and ok: "refresh_event c ids ev st = Inr st'"
  shows "site_inv c st'"
    and "\<exists>q \<in> set (sources st'). provider_event_id q = md_id ev \<and> available q"
    and "q \<in> set (sources st') \<Longrightarrow> provider_event_id q \<noteq> md_id ev \<Longrightarrow> q \<in> set (sources st)"
proof -
  obtain p st1 n st2 where p: "source_for (fst ids) ev st = Inr (p, st1)"
    and n: "snapshot_for c (snd ids) p ev st1 = Inr (n, st2)"
    and st': "st' = st2\<lparr>sources := tput pe_id (p\<lparr>current_snapshot := Some (sn_id n), available := True\<rparr>) (sources st2)\<rparr>"
    using ok by (auto simp: refresh_event_def try_bind_eq_Inr)
  let ?q = "p\<lparr>current_snapshot := Some (sn_id n), available := True\<rparr>"
  note src = source_for_Inr [OF p inv] and same = snapshot_for_Inr [OF n]
  have s': "sources st' = tput pe_id ?q (sources st1)" "ll st' = ll st1" using same by (simp_all add: st')
  have keys: "keys_ok pe_id (sources st1)" "keys_ok provider_event_id (sources st1)"
    using src(1) by (auto simp: site_inv_def)
  have pf: "tfind pe_id (pe_id ?q) (sources st1) = Some p" using tfind_unique [OF keys(1) src(2)] by simp
  have "keys_ok provider_event_id (sources st')"
    unfolding s' by (rule keys_ok_tput_source [OF keys pf]) simp
  moreover have "owner_event (ll st') e" if "q \<in> set (sources st')" "local_event q = Some e" for q e
    using in_tput [OF that(1) [unfolded s']] that(2) src(1,2) by (auto simp: site_inv_def s')
  ultimately show "site_inv c st'" using src(1) keys by (auto simp: site_inv_def s')
  have "?q \<in> set (sources st')" using src(2) unfolding s' by (intro in_tput_self) auto
  then show "\<exists>q \<in> set (sources st'). provider_event_id q = md_id ev \<and> available q"
    using src(3) by (intro bexI [of _ ?q]) simp_all
  show "q \<in> set (sources st)" if "q \<in> set (sources st')" "provider_event_id q \<noteq> md_id ev"
    using in_tput [OF that(1) [unfolded s'(1)]] that(2) src(3,4) by auto
qed

lemma refresh_events_Inr:
  assumes "site_inv c st" and "refresh_events c evs st = Inr st'"
  shows "site_inv c st' \<and> (\<forall>q \<in> set (sources st'). provider_event_id q \<in> md_id ` snd ` set evs \<longrightarrow> available q)"
  using assms
proof (induction evs arbitrary: st st' rule: rev_induct)
  case (snoc x evs)
  obtain ids ev where x: "x = (ids, ev)" by (cases x)
  have app: "refresh_events c (us @ [(ids, ev)]) t = try_bind (refresh_events c us t) (refresh_event c ids ev)"
    for us t by (induction c us t rule: refresh_events.induct) (auto simp: try_bind_def split: sum.splits)
  obtain st1 where st1: "refresh_events c evs st = Inr st1" and st': "refresh_event c ids ev st1 = Inr st'"
    using snoc.prems(2) by (auto simp: x app try_bind_eq_Inr)
  note ih = snoc.IH [OF snoc.prems(1) st1] and r = refresh_event_Inr [OF _ st']
  have keys: "keys_ok provider_event_id (sources st')" using r(1) ih by (auto simp: site_inv_def)
  have "available q" if q: "q \<in> set (sources st')" "provider_event_id q = md_id ev" for q
    using r(2) ih keys_ok_inj [OF keys q(1)] q(2) by metis
  moreover have "available q" if "q \<in> set (sources st')" "provider_event_id q \<noteq> md_id ev"
      "provider_event_id q \<in> md_id ` snd ` set evs" for q
    using r(3) [OF _ that(1,2)] ih that(3) by blast
  ultimately show ?case using ih r(1) by (auto simp: x)
qed simp


lemma withdraw_missing_simps [simp]:
  "ll (withdraw_missing seen t) = ll t"
  "map pe_id (sources (withdraw_missing seen t)) = map pe_id (sources t)"
  "map provider_event_id (sources (withdraw_missing seen t)) = map provider_event_id (sources t)"
  "map local_event (sources (withdraw_missing seen t)) = map local_event (sources t)"
  by (simp_all add: withdraw_missing_def)

lemma withdraw_missing_inv:
  assumes "site_inv c t"
  shows "site_inv c (withdraw_missing seen t)"
proof -
  have "local_event ` set (sources (withdraw_missing seen t)) = local_event ` set (sources t)"
    using withdraw_missing_simps(4) [of seen t] by (metis image_set)
  then have "\<exists>p \<in> set (sources t). local_event p = Some e"
    if "q \<in> set (sources (withdraw_missing seen t))" "local_event q = Some e" for q e
    using that by (metis image_iff)
  with assms show ?thesis by (fastforce simp: site_inv_def keys_ok_def)
qed

lemma refresh_eventbrite_events_inv:
  assumes inv: "site_inv c st" and ok: "refresh_eventbrite_events c rec evs st = Inr st'"
  shows "site_inv c st'"
proof -
  obtain st1 where st1: "refresh_events c evs st = Inr st1"
    and st': "st' = (if rec then withdraw_missing (map (md_id \<circ> snd) evs) st1 else st1)"
    using ok by (auto simp: refresh_eventbrite_events_def try_bind_eq_Inr)
  have "site_inv c st1" using refresh_events_Inr [OF inv st1] by simp
  then show ?thesis by (simp add: st' withdraw_missing_inv)
qed

section \<open>The step relation\<close>

text \<open>
  One rule per operation that commits; an operation that raises changes nothing.  \<open>other_apps\<close> lets
  the other applications add and remove their references to workflow rows at any time.
\<close>

inductive site_step :: "config \<Rightarrow> site \<Rightarrow> site \<Rightarrow> bool" for c :: config where
  reset: "reset_demo c wid (ll st) = Inr s' \<Longrightarrow> site_step c st (st\<lparr>ll := s'\<rparr>)"
| run: "run_workflow c tp wid a (ll st) = Inr s' \<Longrightarrow> site_step c st (st\<lparr>ll := s'\<rparr>)"
| answer: "answer_questions c tp wid a answers (ll st) = Inr s' \<Longrightarrow> site_step c st (st\<lparr>ll := s'\<rparr>)"
| submit: "submit_workflow tp apid wid a (ll st) = Inr s' \<Longrightarrow> site_step c st (st\<lparr>ll := s'\<rparr>)"
| decide: "decide_approval tp now exid apid a dec h why (ll st) = Inr s' \<Longrightarrow> site_step c st (st\<lparr>ll := s'\<rparr>)"
| facts: "update_event_facts c busy wid body a (ll st) = Inr s' \<Longrightarrow> site_step c st (st\<lparr>ll := s'\<rparr>)"
| manual: "start_manual_event c hex wid body a (ll st) = Inr s' \<Longrightarrow> site_step c st (st\<lparr>ll := s'\<rparr>)"
| refresh: "refresh_eventbrite_events c rec evs st = Inr st' \<Longrightarrow> site_step c st st'"
| select: "select_eventbrite_event wid sid a st = Inr st' \<Longrightarrow> site_step c st st'"
| other_apps: "site_step c st (st\<lparr>ll := (ll st)\<lparr>refs := x\<rparr>\<rparr>)"

definition site_init :: "site \<Rightarrow> bool" where
  "site_init st \<longleftrightarrow> workflows (ll st) = [] \<and> revisions (ll st) = [] \<and> approvals (ll st) = []
     \<and> executions (ll st) = [] \<and> sources st = []"

lemmas workflow_op_inv =
  reset_demo_inv run_workflow_inv answer_questions_inv submit_workflow_inv decide_approval_inv
  update_event_facts_inv start_manual_event_inv

lemmas workflow_op_owner =
  reset_demo_owner run_workflow_owner answer_questions_owner submit_workflow_owner decide_approval_owner
  update_event_facts_owner start_manual_event_owner

lemma site_step_inv:
  assumes "site_step c st st'" and inv: "site_inv c st"
  shows "site_inv c st'"
proof -
  have wf: "wf_inv c (ll st)" using inv by (simp add: site_inv_def)
  note keep = site_inv_ll [OF inv]
  from assms(1) show ?thesis
  proof cases
    case (other_apps x)
    have "site_inv c (st\<lparr>ll := (ll st)\<lparr>refs := x\<rparr>\<rparr>)"
      by (rule keep) (rule wf_inv_cong [OF wf], simp_all, erule owner_event_cong, simp_all)
    then show ?thesis by (simp add: other_apps)
  qed (auto intro!: keep intro: wf workflow_op_inv workflow_op_owner refresh_eventbrite_events_inv [OF inv]
         select_eventbrite_event_inv [OF inv])
qed

lemma site_init_inv: "site_init st \<Longrightarrow> site_inv c st"
  by (simp add: site_init_def site_inv_def wf_inv_def tables_ok_def)

interpretation site: state_machine site_init "site_step c" "site_inv c" for c
  by unfold_locales (auto intro: site_init_inv site_step_inv)

lemma reachable_row:
  assumes "site_init st0" and "(site_step c)\<^sup>*\<^sup>* st0 st" and "w \<in> set (workflows (ll st))"
  obtains r where "tfind rev_pk (wf_revision w) (revisions (ll st)) = Some r" and "rev_event r = wf_event w"
    and "coherent c r w (approval_of (ll st) w) (execution_of (ll st) w)"
  using site.reachable_inv [OF assms(1,2)] assms(3) by (auto simp: site_inv_def wf_inv_def row_ok_def)

end
