(* ===== verification/Demo_Path.thy ===== *)
theory Demo_Path
  imports Pilot
begin

text \<open>
  The life of the seeded demo workflow, from the empty database to the sandbox receipt: each
  operation of the path returns, whatever the digest function, the ids and the clock are.  The
  theory gives the reachable states in which the properties of the workflow are not vacuous.
\<close>

definition empty_db :: db where
  "empty_db = \<lparr>users = [], actors = [], events = [], revisions = [], workflows = [], transitions = [],
     approvals = [], executions = [], audits = [], next_user = 1, next_event = 1, next_revision = 1,
     refs = \<lparr>ext_workflows = [], ext_revisions = [], ext_events = []\<rparr>\<rparr>"

definition empty_site :: site where
  "empty_site = \<lparr>ll = empty_db, sources = [], snapshots = []\<rparr>"

definition full_answers :: "string \<Rightarrow> string \<Rightarrow> string \<Rightarrow> dict" where
  "full_answers v a i = [(''venue_name'', JStr v), (''venue_address'', JStr a), (''access_instructions'', JStr i)]"

text \<open>The tables that the workflow operations read, as the demo path leaves them.\<close>

definition demo_rows :: "db \<Rightarrow> workflow \<Rightarrow> revision list \<Rightarrow> approval list \<Rightarrow> execution list \<Rightarrow> bool" where
  "demo_rows s w rs aps xs \<longleftrightarrow> workflows s = [w] \<and> revisions s = rs \<and> approvals s = aps \<and> executions s = xs
     \<and> next_revision s = Suc (length rs)"

definition revision_a :: revision where
  "revision_a = \<lparr>rev_pk = 1, rev_event = 1, rev_version = 1, snapshot = NEW_YORK_EVENT,
     rev_author = ''maya'', source_snapshot = None\<rparr>"

definition revision_b :: "config \<Rightarrow> actor \<Rightarrow> dict \<Rightarrow> revision" where
  "revision_b c op answers = \<lparr>rev_pk = 2, rev_event = 1, rev_version = 2,
     snapshot = dict_update NEW_YORK_EVENT (answered_fields (env c) answers),
     rev_author = slug op, source_snapshot = None\<rparr>"

lemma reset_demo_empty:
  "\<exists>s. reset_demo c wid empty_db = Inr s \<and> demo_rows s \<lparr>wf_pk = wid, wf_event = 1, wf_revision = 1,
     status = DRAFT, package = None, wf_hash = [], traceparent = []\<rparr> [revision_a] [] []"
  by (simp add: reset_demo_def delete_demo_def demo_event_ids_def empty_db_def Let_def tdel_def
      seed_demo_users_def DEMO_USERS_def get_or_create_user_def upsert_actor_def user_id_of_def
      create_event_workflow_def demo_rows_def add_audit_def add_transition_def revision_a_def)

lemma run_workflow_demo:
  assumes "demo_rows s w rs [] []" and "status w = DRAFT" and "actor_role op = OPERATOR"
    and "tfind rev_pk (wf_revision w) rs = Some r" and "build_package c r = Inr p"
  shows "\<exists>s' w'. run_workflow c tp (wf_pk w) op s = Inr s' \<and> demo_rows s' w' rs [] []
     \<and> wf_pk w' = wf_pk w \<and> wf_event w' = wf_event w \<and> wf_revision w' = wf_revision w
     \<and> package w' = Some p \<and> wf_hash w' = package_hash c p
     \<and> status w' = (if jfield p ''status'' = JStr ''ready_for_review'' then READY_FOR_REVIEW else NEEDS_INPUT)"
  using assms
  by (simp add: demo_rows_def run_workflow_def get_workflow_def revision_of_def run_commit_def Let_def)

lemma answered_full:
  assumes "strip v \<noteq> []" and "strip a \<noteq> []" and "strip i \<noteq> []"
  shows "answered_fields e (full_answers v a i) = [(''venue_name'', JStr (strip v)),
     (''venue_address'', JStr (strip a)), (''access_instructions'', JStr (strip i))]"
  using assms
  by (simp add: answered_fields_def REQUIRED_ANSWERS_def answer_text_def full_answers_def dget_default_def)

lemma answer_questions_demo:
  assumes "demo_rows s w [revision_a] [] []" and "status w = NEEDS_INPUT" and "wf_revision w = 1" "wf_event w = 1"
    and "actor_role op = OPERATOR" and ne: "strip v \<noteq> []" "strip a \<noteq> []" "strip i \<noteq> []"
  shows "\<exists>s' w'. answer_questions c tp (wf_pk w) op (full_answers v a i) s = Inr s'
     \<and> demo_rows s' w' [revision_a, revision_b c op (full_answers v a i)] [] []
     \<and> wf_pk w' = wf_pk w \<and> wf_event w' = 1 \<and> wf_revision w' = 2 \<and> status w' = DRAFT"
proof -
  have "kind_of revision_a = Synthetic"
    by (simp add: kind_of_def source_kind_of_def revision_a_def NEW_YORK_EVENT_def dget_def)
  moreover have "missing_answers (env c) (dict_update NEW_YORK_EVENT (answered_fields (env c) (full_answers v a i))) = []"
    unfolding answered_full [OF ne] using ne
    by (simp add: missing_answers_def REQUIRED_ANSWERS_def answer_text_def dget_default_def NEW_YORK_EVENT_def)
  moreover have "answered_fields (env c) (full_answers v a i) \<noteq> []" by (simp add: answered_full [OF ne])
  ultimately show ?thesis using assms(1-5)
    by (simp add: demo_rows_def answer_questions_def get_workflow_def revision_of_def create_revision_def
        answer_revision_def answer_commit_def Let_def revision_a_def revision_b_def
        delete_approvals_of_def tdel_def)
qed


lemma submit_workflow_demo:
  assumes "demo_rows s w rs [] []" and "status w = READY_FOR_REVIEW" and "wf_hash w \<noteq> []"
    and "tfind rev_pk (wf_revision w) rs = Some r" and "kind_of r = Synthetic" and "actor_role op = OPERATOR"
  shows "\<exists>s' w'. submit_workflow tp apid (wf_pk w) op s = Inr s' \<and> demo_rows s' w' rs [new_request apid op w] []
     \<and> wf_pk w' = wf_pk w \<and> wf_event w' = wf_event w \<and> wf_revision w' = wf_revision w
     \<and> package w' = package w \<and> wf_hash w' = wf_hash w \<and> status w' = IN_REVIEW"
  using assms
  by (simp add: demo_rows_def submit_workflow_def get_workflow_def revision_of_def create_approval_def)

lemma approve_demo:
  assumes "demo_rows s w rs [new_request apid op w0] []" and "wf_pk w0 = wf_pk w"
    and "tfind rev_pk (wf_revision w) rs = Some r" and "kind_of r = Synthetic"
    and "actor_role apr = APPROVER" and "slug apr \<noteq> slug op" and "audience_count (package w) = Inr n"
  shows "\<exists>s' w' x. decide_approval tp now exid apid apr Approve (wf_hash w0) why s = Inr s'
     \<and> workflows s' = [w'] \<and> executions s' = [x] \<and> status w' = COMPLETED \<and> receipt x = sandbox_receipt n"
proof -
  have st: "workflow_operation tp w\<lparr>status := APPROVED\<rparr> \<lparr>status := COMPLETED\<rparr> =
      workflow_operation tp w\<lparr>status := COMPLETED\<rparr>" by simp
  show ?thesis using assms
    by (simp add: demo_rows_def decide_approval_def get_workflow_def revision_of_def new_request_def
        approve_commit_def Let_def lift_py_def create_execution_def)
qed

lemma seeded_package:
  "\<exists>p. prepare_package e NEW_YORK_EVENT = Inr p \<and> jfield p ''status'' \<noteq> JStr ''ready_for_review''"
proof -
  obtain p where p: "prepare_package e NEW_YORK_EVENT = Inr p" using seeded_returns(1) by blast
  have "blank (dget NEW_YORK_EVENT ''venue_name'')" by (simp add: NEW_YORK_EVENT_def dget_def blank_def)
  with prepare_package_ready [OF p] p show ?thesis by (auto simp: REQUIRED_FIELDS_def)
qed

lemma answered_package:
  assumes "v \<noteq> []" and "a \<noteq> []" and "i \<noteq> []"
  defines "ev \<equiv> dict_update NEW_YORK_EVENT [(''venue_name'', JStr v), (''venue_address'', JStr a),
     (''access_instructions'', JStr i)]"
  shows "\<exists>p. prepare_package e ev = Inr p \<and> jfield p ''status'' = JStr ''ready_for_review''
     \<and> audience_count (Some p) = Inr 418"
proof -
  have tier: "sponsor_tier e ev = ''gold''"
    by (simp add: sponsor_tier_def ev_def NEW_YORK_EVENT_def dget_default_def lower_gold)
  have aud: "audiences_get (dget ev ''region'') (dget ev ''country'') = Inr (Some new_york_audience)"
    by (simp add: audiences_get_def ev_def NEW_YORK_EVENT_def dget_def)
  have "\<exists>p. prepare_package e ev = Inr p"
    unfolding prepare_package_returns tier by (simp add: ev_def seeded_simps)
  then obtain p where p: "prepare_package e ev = Inr p" by blast
  then have "jfield p ''audience'' = new_york_audience"
    by (rule prepare_package_elim) (auto simp: aud)
  then have "audience_count (Some p) = Inr 418"
    by (cases p) (auto simp: jfield_def audience_count_def get_of_def py_or_def dget_def dget_default_def
        new_york_audience_def Let_def split: option.splits if_splits)
  moreover have "jfield p ''status'' = JStr ''ready_for_review''"
    unfolding prepare_package_ready [OF p] tier using assms(1-3)
    by (simp add: REQUIRED_FIELDS_def seeded_simps eq_int_def blank_def ev_def)
  ultimately show ?thesis using p by blast
qed

lemma kind_of_b: "strip v \<noteq> [] \<Longrightarrow> strip a \<noteq> [] \<Longrightarrow> strip i \<noteq> [] \<Longrightarrow>
   kind_of (revision_b c op (full_answers v a i)) = Synthetic"
  by (simp add: kind_of_def source_kind_of_def revision_b_def answered_full NEW_YORK_EVENT_def dget_def)

lemma demo_path:
  assumes digest: "\<And>t. sha256_hex (env c) t \<noteq> []"
    and op: "actor_role op = OPERATOR" and apr: "actor_role apr = APPROVER" "slug apr \<noteq> slug op"
    and ne: "strip v \<noteq> []" "strip a \<noteq> []" "strip i \<noteq> []"
  shows "\<exists>s1 s2 s3 s4 s5 s6 p w x.
     reset_demo c wid empty_db = Inr s1
     \<and> run_workflow c tp wid op s1 = Inr s2
     \<and> answer_questions c tp wid op (full_answers v a i) s2 = Inr s3
     \<and> run_workflow c tp wid op s3 = Inr s4
     \<and> submit_workflow tp apid wid op s4 = Inr s5
     \<and> decide_approval tp now exid apid apr Approve (package_hash c p) why s5 = Inr s6
     \<and> workflows s6 = [w] \<and> status w = COMPLETED \<and> executions s6 = [x] \<and> receipt x = sandbox_receipt 418"
proof -
  let ?w1 = "\<lparr>wf_pk = wid, wf_event = 1, wf_revision = 1, status = DRAFT, package = None, wf_hash = [], traceparent = []\<rparr>"
  let ?b = "revision_b c op (full_answers v a i)"
  obtain s1 where s1: "reset_demo c wid empty_db = Inr s1" "demo_rows s1 ?w1 [revision_a] [] []"
    using reset_demo_empty by blast
  obtain p1 where p1: "build_package c revision_a = Inr p1" "jfield p1 ''status'' \<noteq> JStr ''ready_for_review''"
    using seeded_package [of "env c"]
    by (auto simp: build_package_def lift_py_def kind_of_def source_kind_of_def revision_a_def NEW_YORK_EVENT_def dget_def)
  obtain s2 w2 where s2: "run_workflow c tp wid op s1 = Inr s2" "demo_rows s2 w2 [revision_a] [] []"
    and w2: "wf_pk w2 = wid" "wf_event w2 = 1" "wf_revision w2 = 1" "status w2 = NEEDS_INPUT"
    using run_workflow_demo [OF s1(2) _ op _ p1(1), of tp] p1(2) by (auto simp: revision_a_def)
  obtain s3 w3 where s3: "answer_questions c tp wid op (full_answers v a i) s2 = Inr s3"
      "demo_rows s3 w3 [revision_a, ?b] [] []"
    and w3: "wf_pk w3 = wid" "wf_event w3 = 1" "wf_revision w3 = 2" "status w3 = DRAFT"
    using answer_questions_demo [OF s2(2) w2(4,3,2) op ne] w2(1) by blast
  have k: "kind_of ?b = Synthetic" by (rule kind_of_b [OF ne])
  have b: "tfind rev_pk 2 [revision_a, ?b] = Some ?b" by (simp add: revision_a_def revision_b_def)
  obtain p where p: "build_package c ?b = Inr p" "jfield p ''status'' = JStr ''ready_for_review''"
      "audience_count (Some p) = Inr 418"
    using answered_package [OF ne, of "env c"] k
    by (auto simp: build_package_def lift_py_def) (auto simp: revision_b_def answered_full [OF ne])
  obtain s4 w4 where s4: "run_workflow c tp wid op s3 = Inr s4" "demo_rows s4 w4 [revision_a, ?b] [] []"
    and w4: "wf_pk w4 = wid" "wf_revision w4 = 2" "package w4 = Some p" "wf_hash w4 = package_hash c p"
      "status w4 = READY_FOR_REVIEW"
    using run_workflow_demo [OF s3(2) w3(4) op _ p(1), of tp] w3 p(2) b by auto
  have "wf_hash w4 \<noteq> []" by (simp add: w4 package_hash_def digest)
  then obtain s5 w5 where s5: "submit_workflow tp apid wid op s4 = Inr s5"
      "demo_rows s5 w5 [revision_a, ?b] [new_request apid op w4] []"
    and w5: "wf_pk w5 = wid" "wf_revision w5 = 2" "package w5 = Some p"
    using submit_workflow_demo [where tp = tp and apid = apid, OF s4(2) w4(5) _ _ k op] w4 b by auto
  have "\<exists>s6 w x. decide_approval tp now exid apid apr Approve (package_hash c p) why s5 = Inr s6
     \<and> workflows s6 = [w] \<and> executions s6 = [x] \<and> status w = COMPLETED \<and> receipt x = sandbox_receipt 418"
    using approve_demo [OF s5(2) _ _ k apr] w4 w5 b p(3) by auto
  with s1 s2 s3 s4 s5 show ?thesis by blast
qed

text \<open>
  C26: The demo path ends in delivery.  From the empty database, for every digest function that gives
  a non-empty digest, every operator and every approver with another slug, the reset, the first run,
  the three answers (not blank), the second run, the submission and the approval with the digest of
  the stored package all succeed, and the workflow is completed with a sandbox receipt for the 418
  members of the audience.
\<close>

theorem demo_path_completes:
  assumes digest: "\<And>t. sha256_hex (env c) t \<noteq> []"
    and op: "actor_role op = OPERATOR" and apr: "actor_role apr = APPROVER" "slug apr \<noteq> slug op"
    and ne: "strip v \<noteq> []" "strip a \<noteq> []" "strip i \<noteq> []"
  shows "\<exists>s1 s2 s3 s4 s5 s6 p w x.
     reset_demo c wid empty_db = Inr s1
     \<and> run_workflow c tp wid op s1 = Inr s2
     \<and> answer_questions c tp wid op (full_answers v a i) s2 = Inr s3
     \<and> run_workflow c tp wid op s3 = Inr s4
     \<and> submit_workflow tp apid wid op s4 = Inr s5
     \<and> decide_approval tp now exid apid apr Approve (package_hash c p) why s5 = Inr s6
     \<and> workflows s6 = [w] \<and> status w = COMPLETED \<and> executions s6 = [x] \<and> receipt x = sandbox_receipt 418"
  using assms by (rule demo_path)


definition demo_config :: config where
  "demo_config = \<lparr>env = sample_env, lib = utc_lib, make_password = (\<lambda>s. s), demo_password = ''pw''\<rparr>"

definition maya :: actor where
  "maya = \<lparr>slug = ''maya'', display_name = ''Maya Chen'', actor_role = OPERATOR, actor_user = Some 1\<rparr>"

definition jordan :: actor where
  "jordan = \<lparr>slug = ''jordan'', display_name = ''Jordan Brooks'', actor_role = APPROVER, actor_user = Some 2\<rparr>"

lemma demo_hypotheses:
  "sha256_hex (env demo_config) t \<noteq> []" "actor_role maya = OPERATOR" "actor_role jordan = APPROVER"
  "slug jordan \<noteq> slug maya" "strip ''Hall'' \<noteq> []" "strip ''1 Main St'' \<noteq> []" "strip ''Ramp'' \<noteq> []"
  by (simp_all add: demo_config_def sample_env_def maya_def jordan_def, code_simp+)

theorem demo_path_completes_witness:
  "\<exists>s1 s2 s3 s4 s5 s6 p w x.
     reset_demo demo_config ''w'' empty_db = Inr s1
     \<and> run_workflow demo_config [] ''w'' maya s1 = Inr s2
     \<and> answer_questions demo_config [] ''w'' maya (full_answers ''Hall'' ''1 Main St'' ''Ramp'') s2 = Inr s3
     \<and> run_workflow demo_config [] ''w'' maya s3 = Inr s4
     \<and> submit_workflow [] ''a'' ''w'' maya s4 = Inr s5
     \<and> decide_approval [] 0 ''x'' ''a'' jordan Approve (package_hash demo_config p) [] s5 = Inr s6
     \<and> workflows s6 = [w] \<and> status w = COMPLETED \<and> executions s6 = [x] \<and> receipt x = sandbox_receipt 418"
  by (rule demo_path_completes) (rule demo_hypotheses)+


section \<open>Reachable states\<close>

lemma empty_site_init: "site_init empty_site"
  by (simp add: site_init_def empty_site_def empty_db_def)

lemma demo_reachable:
  "\<exists>st w. (site_step demo_config)\<^sup>*\<^sup>* empty_site st \<and> workflows (ll st) = [w] \<and> status w = COMPLETED"
proof -
  obtain s1 s2 s3 s4 s5 s6 p w where
    run: "reset_demo demo_config ''w'' empty_db = Inr s1"
      "run_workflow demo_config [] ''w'' maya s1 = Inr s2"
      "answer_questions demo_config [] ''w'' maya (full_answers ''Hall'' ''1 Main St'' ''Ramp'') s2 = Inr s3"
      "run_workflow demo_config [] ''w'' maya s3 = Inr s4" "submit_workflow [] ''a'' ''w'' maya s4 = Inr s5"
      "decide_approval [] 0 ''x'' ''a'' jordan Approve (package_hash demo_config p) [] s5 = Inr s6"
    and w: "workflows s6 = [w]" "status w = COMPLETED"
    using demo_path [OF demo_hypotheses(1-7), of "''w''" "[]" "''a''" 0 "''x''" "[]"] by blast
  let ?at = "\<lambda>s. empty_site\<lparr>ll := s\<rparr>"
  note step = rtranclp.rtrancl_into_rtrancl [where r = "site_step demo_config"]
  have "(site_step demo_config)\<^sup>*\<^sup>* empty_site (?at s1)"
    using site_step.reset [of demo_config "''w''" empty_site s1] run(1) by (auto simp: empty_site_def)
  from step [OF this site_step.run] run(2) have "(site_step demo_config)\<^sup>*\<^sup>* empty_site (?at s2)" by fastforce
  from step [OF this site_step.answer] run(3) have "(site_step demo_config)\<^sup>*\<^sup>* empty_site (?at s3)" by fastforce
  from step [OF this site_step.run] run(4) have "(site_step demo_config)\<^sup>*\<^sup>* empty_site (?at s4)" by fastforce
  from step [OF this site_step.submit] run(5) have "(site_step demo_config)\<^sup>*\<^sup>* empty_site (?at s5)" by fastforce
  from step [OF this site_step.decide] run(6) have "(site_step demo_config)\<^sup>*\<^sup>* empty_site (?at s6)" by fastforce
  moreover have "workflows (ll (?at s6)) = [w]" by (simp add: w)
  ultimately show ?thesis using w(2) by blast
qed

text \<open>
  C1: Nothing is delivered without an exact approval.  In every state that the operations reach from
  an empty database, a completed workflow stores the engine's review-ready package of its current
  (synthetic) revision, its one approval request is approved, by an actor other than the submitter,
  for exactly the digest of that package, and its one execution is the sandbox receipt keyed by that
  digest, with no external action.
\<close>

theorem completed_was_approved:
  assumes "site_init st0" and "(site_step c)\<^sup>*\<^sup>* st0 st" and "w \<in> set (workflows (ll st))"
    and "status w = COMPLETED"
  shows "\<exists>r p ap b x n. tfind rev_pk (wf_revision w) (revisions (ll st)) = Some r \<and> kind_of r = Synthetic
     \<and> build_package c r = Inr p \<and> jfield p ''status'' = JStr ''ready_for_review'' \<and> package w = Some p
     \<and> tfind ap_workflow (wf_pk w) (approvals (ll st)) = Some ap \<and> ap_status ap = AP_APPROVED
     \<and> ap_hash ap = package_hash c p \<and> approver ap = Some b \<and> b \<noteq> submitter ap
     \<and> tfind ex_approval (ap_pk ap) (executions (ll st)) = Some x
     \<and> idempotency_key x = ''launchloop:'' @ package_hash c p
     \<and> receipt x = sandbox_receipt n \<and> jfield (receipt x) ''external_actions'' = JInt 0"
proof -
  obtain r where r: "tfind rev_pk (wf_revision w) (revisions (ll st)) = Some r"
    and coh: "coherent c r w (approval_of (ll st) w) (execution_of (ll st) w)"
    using reachable_row [OF assms(1-3)] by blast
  from coh assms(4) obtain p ap x n b where "build_package c r = Inr p" "package w = Some p"
      "wf_hash w = package_hash c p" "jfield p ''status'' = JStr ''ready_for_review''" "kind_of r = Synthetic"
      "approval_of (ll st) w = Some ap" "execution_of (ll st) w = Some x" "ap_status ap = AP_APPROVED"
      "ap_hash ap = wf_hash w" "approver ap = Some b" "b \<noteq> submitter ap"
      "idempotency_key x = ''launchloop:'' @ ap_hash ap" "receipt x = sandbox_receipt n"
    by (auto simp: coherent_def built_def decided_def delivered_def)
  then show ?thesis using r
    by (auto simp: approval_of_def execution_of_def sandbox_receipt_def jfield_def dget_def)
qed

theorem completed_was_approved_witness:
  "\<exists>(st :: site) w p ap. workflows (ll st) = [w] \<and> status w = COMPLETED \<and> package w = Some p
     \<and> approvals (ll st) \<noteq> [] \<and> tfind ap_workflow (wf_pk w) (approvals (ll st)) = Some ap
     \<and> ap_hash ap = package_hash demo_config p"
proof -
  obtain st w where st: "(site_step demo_config)\<^sup>*\<^sup>* empty_site st" "workflows (ll st) = [w]" "status w = COMPLETED"
    using demo_reachable by blast
  from completed_was_approved [OF empty_site_init st(1) _ st(3)] st(2) obtain p ap
    where "package w = Some p" "tfind ap_workflow (wf_pk w) (approvals (ll st)) = Some ap"
      "ap_hash ap = package_hash demo_config p" by auto
  moreover from this(2) have "approvals (ll st) \<noteq> []" by auto
  ultimately show ?thesis using st by blast
qed


text \<open>
  In every reachable state no workflow is left in the transient status \<open>approved\<close>, and a workflow
  is in review exactly when its approval request is pending.
\<close>

theorem in_review_iff_pending:
  assumes "site_init st0" and "(site_step c)\<^sup>*\<^sup>* st0 st" and "w \<in> set (workflows (ll st))"
  shows "status w \<noteq> APPROVED \<and>
    (status w = IN_REVIEW \<longleftrightarrow>
      (\<exists>ap. tfind ap_workflow (wf_pk w) (approvals (ll st)) = Some ap \<and> ap_status ap = AP_PENDING))"
proof -
  obtain r where "coherent c r w (approval_of (ll st) w) (execution_of (ll st) w)"
    using reachable_row [OF assms] by blast
  then show ?thesis
    unfolding approval_of_def by (cases "status w") (auto simp: coherent_def split: option.splits)
qed

text \<open>
  An event of an owner never enters the approval lane.  In every reachable state the workflow of
  a revision that is not synthetic is a draft, needs input or is ready for review, and has neither
  an approval request nor an execution.
\<close>

theorem owner_events_not_submitted:
  assumes "site_init st0" and "(site_step c)\<^sup>*\<^sup>* st0 st" and "w \<in> set (workflows (ll st))"
    and "tfind rev_pk (wf_revision w) (revisions (ll st)) = Some r" and "kind_of r \<noteq> Synthetic"
  shows "status w \<in> {DRAFT, NEEDS_INPUT, READY_FOR_REVIEW}
     \<and> tfind ap_workflow (wf_pk w) (approvals (ll st)) = None"
proof -
  obtain q where "tfind rev_pk (wf_revision w) (revisions (ll st)) = Some q"
    "coherent c q w (approval_of (ll st) w) (execution_of (ll st) w)"
    using reachable_row [OF assms(1-3)] by blast
  with assms(4,5) show ?thesis
    unfolding approval_of_def by (cases "status w") (auto simp: coherent_def split: option.splits)
qed

definition brief :: json where
  "brief = JObj [(''title'', JStr ''Breakfast''), (''date'', JStr ''2026-08-12''), (''timezone'', JStr ''UTC'')]"

definition brief_list :: "(string \<times> string) list" where
  "brief_list = [(''title'', ''Breakfast''), (''date'', ''2026-08-12''), (''timezone'', ''UTC'')]"

lemma brief_valid: "validate_facts utc_lib brief = Inr brief_list"
proof -
  have s: "strip ''Breakfast'' = ''Breakfast''" "strip ''2026-08-12'' = ''2026-08-12''" "strip ''UTC'' = ''UTC''"
    by code_simp+
  have d: "parse_date ''2026-08-12'' = Some (2026, 8, 12)" by code_simp
  have "facts_error utc_lib brief_list = None"
    by (simp add: facts_error_def brief_list_def fact_def d utc_lib_def schedule_ok_def
        del: parse_date.simps parse_time.simps)
  then show ?thesis
    using s by (simp add: validate_facts_def brief_def brief_list_def max_length_def FACT_FIELDS_def)
qed

lemma manual_facts:
  "list_all (\<lambda>k. truthy (dget (dict_update (map (\<lambda>k. (k, JStr [])) FACT_FIELDS) (facts_dict brief_list)) k))
     [''title'', ''date'', ''timezone'']"
  by (simp add: FACT_FIELDS_def facts_dict_def brief_list_def dget_def)

lemma manual_reachable:
  "\<exists>st w r. (site_step demo_config)\<^sup>*\<^sup>* empty_site st \<and> workflows (ll st) = [w]
     \<and> tfind rev_pk (wf_revision w) (revisions (ll st)) = Some r \<and> kind_of r = Manual"
proof -
  let ?f = "dict_update (map (\<lambda>k. (k, JStr [])) FACT_FIELDS) (facts_dict brief_list) @ [(''owner_event'', JBool True)]"
  have "\<exists>s w r. start_manual_event demo_config ''h'' ''w'' brief maya empty_db = Inr s
     \<and> workflows s = [w] \<and> revisions s = [r] \<and> wf_revision w = rev_pk r
     \<and> snapshot r = ?f \<and> source_snapshot r = None"
    using manual_facts brief_valid
    by (simp add: start_manual_event_def demo_config_def lift_py_def create_event_workflow_def empty_db_def
        add_transition_def Let_def)
  then obtain s w r where s: "start_manual_event demo_config ''h'' ''w'' brief maya empty_db = Inr s"
    "workflows s = [w]" "revisions s = [r]" "wf_revision w = rev_pk r" and f: "snapshot r = ?f" "source_snapshot r = None"
    by blast
  have "kind_of r = Manual"
    by (simp add: kind_of_def source_kind_of_def f) (simp add: FACT_FIELDS_def facts_dict_def brief_list_def dget_def)
  moreover have "(site_step demo_config)\<^sup>*\<^sup>* empty_site (empty_site\<lparr>ll := s\<rparr>)"
    using site_step.manual [of demo_config "''h''" "''w''" brief maya empty_site s] s(1)
    by (auto simp: empty_site_def)
  ultimately show ?thesis using s by (intro exI [of _ "empty_site\<lparr>ll := s\<rparr>"] exI [of _ w] exI [of _ r]) simp
qed

text \<open>
  A review-ready synthetic workflow can always be submitted: in every reachable state, for an
  operator, a digest function with non-empty digests and an id no request has, the submission
  returns (no uniqueness constraint of the approval table can fail).
\<close>

theorem submit_never_stuck:
  assumes "site_init st0" and "(site_step c)\<^sup>*\<^sup>* st0 st" and w: "tfind wf_pk wid (workflows (ll st)) = Some w"
    and "status w = READY_FOR_REVIEW" and r: "tfind rev_pk (wf_revision w) (revisions (ll st)) = Some r"
    and "kind_of r = Synthetic" and "actor_role a = OPERATOR" and "\<And>t. sha256_hex (env c) t \<noteq> []"
    and "tfind ap_pk apid (approvals (ll st)) = None"
  shows "\<exists>s'. submit_workflow tp apid wid a (ll st) = Inr s'"
proof -
  have "wf_inv c (ll st)" using site.reachable_inv [OF assms(1,2)] by (simp add: site_inv_def)
  then have coh: "coherent c r w (approval_of (ll st) w) (execution_of (ll st) w)" using w r by (rule inv_row)
  have pk: "wf_pk w = wid" using w by (rule tfind_key)
  obtain p where "wf_hash w = package_hash c p" and "tfind ap_workflow wid (approvals (ll st)) = None"
    using coh assms(4) pk by (auto simp: coherent_def built_def approval_of_def)
  moreover from this(1) have "wf_hash w \<noteq> []" by (simp add: package_hash_def assms(8))
  ultimately show ?thesis using assms pk
    by (simp add: submit_workflow_def get_workflow_def revision_of_def create_approval_def new_request_def)
qed


text \<open>The demo workflow just before its submission.\<close>

lemma ready_reachable:
  "\<exists>st w r. (site_step demo_config)\<^sup>*\<^sup>* empty_site st \<and> tfind wf_pk ''w'' (workflows (ll st)) = Some w
     \<and> status w = READY_FOR_REVIEW \<and> tfind rev_pk (wf_revision w) (revisions (ll st)) = Some r
     \<and> kind_of r = Synthetic \<and> approvals (ll st) = []"
proof -
  obtain s1 s2 s3 s4 s5 where
    run: "reset_demo demo_config ''w'' empty_db = Inr s1"
      "run_workflow demo_config [] ''w'' maya s1 = Inr s2"
      "answer_questions demo_config [] ''w'' maya (full_answers ''Hall'' ''1 Main St'' ''Ramp'') s2 = Inr s3"
      "run_workflow demo_config [] ''w'' maya s3 = Inr s4" "submit_workflow [] ''a'' ''w'' maya s4 = Inr s5"
    using demo_path [OF demo_hypotheses(1-7), of "''w''" "[]" "''a''" 0 "''x''" "[]"] by blast
  let ?at = "\<lambda>s. empty_site\<lparr>ll := s\<rparr>"
  note step = rtranclp.rtrancl_into_rtrancl [where r = "site_step demo_config"]
  have "(site_step demo_config)\<^sup>*\<^sup>* empty_site (?at s1)"
    using site_step.reset [of demo_config "''w''" empty_site s1] run(1) by (auto simp: empty_site_def)
  from step [OF this site_step.run] run(2) have "(site_step demo_config)\<^sup>*\<^sup>* empty_site (?at s2)" by fastforce
  from step [OF this site_step.answer] run(3) have "(site_step demo_config)\<^sup>*\<^sup>* empty_site (?at s3)" by fastforce
  from step [OF this site_step.run] run(4) have at4: "(site_step demo_config)\<^sup>*\<^sup>* empty_site (?at s4)" by fastforce
  obtain w r where w: "tfind wf_pk ''w'' (workflows s4) = Some w" "status w = READY_FOR_REVIEW"
      "tfind rev_pk (wf_revision w) (revisions s4) = Some r" "kind_of r = Synthetic"
    using run(5) by (auto simp: submit_workflow_Inr)
  have "approvals s4 = []"
  proof -
    have "approvals s1 = []" using run(1) reset_demo_empty [of demo_config "''w''"] by (auto simp: demo_rows_def)
    then have "approvals s2 = []" using run(2) by (auto simp: run_workflow_Inr run_commit_def Let_def)
    then have "approvals s3 = []"
      using run(3) by (auto simp: answer_questions_Inr answer_commit_def Let_def tdel_def dest!: create_revision_Inr)
    then show ?thesis using run(4) by (auto simp: run_workflow_Inr run_commit_def Let_def)
  qed
  with at4 w show ?thesis by (intro exI [of _ "?at s4"] exI [of _ w] exI [of _ r]) simp
qed

section \<open>Decisions, answers, reset\<close>

text \<open>
  A decision is final: once a request has been decided, every further decision on it, by any
  actor, with any digest and any verdict, raises and commits nothing.
\<close>

theorem decision_final:
  assumes "decide_approval tp now exid apid a dec h why s = Inr s'"
  shows "\<exists>x. decide_approval tp' now' exid' apid a' dec' h' why' s' = Inl x"
proof -
  obtain ap w where ap: "tfind ap_pk apid (approvals s) = Some ap" and
    cs: "s' = reject_commit tp now a why ap w s \<or> approve_commit tp now exid a why ap w s = Inr s'"
    using assms unfolding decide_approval_Inr by blast
  have pk: "ap_pk ap = apid" using ap by (rule tfind_key)
  have "\<exists>st. st \<noteq> AP_PENDING \<and> approvals s' = tput ap_pk (decided_request now a why st ap) (approvals s)"
    using cs
  proof
    assume "s' = reject_commit tp now a why ap w s"
    then show ?thesis by (intro exI [of _ AP_REJECTED]) (simp add: reject_commit_def Let_def)
  next
    assume "approve_commit tp now exid a why ap w s = Inr s'"
    then show ?thesis by (rule approve_commit_Inr) (intro exI [of _ AP_APPROVED], simp)
  qed
  then obtain st where st: "st \<noteq> AP_PENDING" "approvals s' = tput ap_pk (decided_request now a why st ap) (approvals s)"
    by blast
  then have "tfind ap_pk apid (approvals s') = Some (decided_request now a why st ap)"
    using ap pk by (simp add: tfind_tput decided_request_def)
  with st(1) have "decide_approval tp' now' exid' apid a' dec' h' why' s' \<noteq> Inr s2" for s2
    by (auto simp: decide_approval_Inr decided_request_def)
  then show ?thesis by (meson sumE)
qed

text \<open>
  An answer of \<open>null\<close> is not a missing answer: \<open>str(None)\<close> is stored as the text \<open>None\<close>, and the
  field then no longer counts as missing.
\<close>

theorem null_answer_is_stored:
  assumes "f \<in> set REQUIRED_ANSWERS"
  shows "answered_fields e [(f, JNull)] = [(f, JStr ''None'')]
    \<and> f \<notin> set (missing_answers e (dict_update snap (answered_fields e [(f, JNull)])))"
proof -
  have s: "strip ''None'' = ''None''" "strip [] = []" by code_simp+
  have "answered_fields e [(f, JNull)] = [(f, JStr ''None'')]"
    using assms by (auto simp: answered_fields_def REQUIRED_ANSWERS_def answer_text_def dget_default_def s)
  moreover have "answer_text e (AList.update f (JStr ''None'') snap) f = ''None''"
    by (simp add: answer_text_def dget_default_def update_conv' s)
  ultimately show ?thesis by (simp add: missing_answers_def)
qed

text \<open>
  The demo cannot be reset while another application keeps a protected reference to a demo
  workflow (an agent run, a capability, a draft operation): \<open>reset_demo\<close> raises \<open>ProtectedError\<close>.
\<close>

theorem reset_blocked_by_reference:
  assumes "w \<in> set (workflows s)" and "demo_workflow s w" and "wf_pk w \<in> set (ext_workflows (refs s))"
  shows "reset_demo c wid s = Inl ProtectedError"
proof -
  have "delete_demo s = Inl ProtectedError"
    using assms by (auto simp: delete_demo_def Let_def list_ex_iff)
  then show ?thesis by (simp add: reset_demo_def)
qed

section \<open>The catalogue\<close>

text \<open>
  A reconciling refresh makes the catalogue agree with the provider: afterwards a source is
  available exactly when the provider listed its event.
\<close>

theorem refresh_reconciles:
  assumes "site_inv c st" and "refresh_eventbrite_events c True evs st = Inr st'" and "q \<in> set (sources st')"
  shows "available q \<longleftrightarrow> provider_event_id q \<in> md_id ` snd ` set evs"
proof -
  obtain st1 where st1: "refresh_events c evs st = Inr st1"
    and st': "st' = withdraw_missing (map (md_id \<circ> snd) evs) st1"
    using assms(2) by (auto simp: refresh_eventbrite_events_def try_bind_eq_Inr)
  let ?f = "\<lambda>p. if provider_event_id p \<notin> md_id ` snd ` set evs then p\<lparr>available := False\<rparr> else p"
  have "set (map (md_id \<circ> snd) evs) = md_id ` snd ` set evs" by (simp add: image_comp)
  then have "sources st' = map ?f (sources st1)" by (simp add: st' withdraw_missing_def image_comp)
  with assms(3) have "q \<in> ?f ` set (sources st1)" by (simp only: set_map)
  then obtain x where x: "x \<in> set (sources st1)"
    and q: "q = (if provider_event_id x \<notin> md_id ` snd ` set evs then x\<lparr>available := False\<rparr> else x)"
    by (rule imageE)
  from refresh_events_Inr [OF assms(1) st1] x show ?thesis
    by (cases "provider_event_id x \<in> md_id ` snd ` set evs") (simp_all add: q)
qed

definition new_york_start :: datetime where
  "new_york_start = \<lparr>yr = 2026, mon = 8, dy = 12, hr = 20, mi = 30, sec = 0, usec = 0, off = - 240\<rparr>"

definition listed :: event_metadata where
  "listed = \<lparr>md_id = ''77'', md_title = ''Breakfast'', md_status = ''draft'', md_changed_at = new_york_start,
     md_start_at = Some new_york_start, md_end_at = None, md_timezone = ''America/New_York''\<rparr>"

definition source77 :: provider_event where
  "source77 = \<lparr>pe_id = ''p'', provider_event_id = ''77'', current_snapshot = None, local_event = None, available = True\<rparr>"

lemma empty_site_inv: "site_inv c empty_site"
  by (rule site_init_inv [OF empty_site_init])

lemma listed_refresh:
  "\<exists>st. refresh_eventbrite_events c True [((''p'', ''n''), listed)] empty_site = Inr st
     \<and> sources st = [\<lparr>pe_id = ''p'', provider_event_id = ''77'', current_snapshot = Some ''n'',
          local_event = None, available = True\<rparr>]"
  by (simp add: refresh_eventbrite_events_def refresh_event_def source_for_def snapshot_for_def empty_site_def
      withdraw_missing_def listed_def Let_def)

text \<open>
  The facts that an import writes give the start of the event as its UTC date and clock time,
  whatever the event's time zone is, next to the time zone of the provider.  For an event in New York
  at 20:30 on 12 August the imported facts say 00:30 on 13 August, \<open>America/New_York\<close>.
\<close>

theorem import_uses_utc_clock:
  assumes "md_start_at ev = Some d"
    and "find (\<lambda>n. sn_source n = pe_id p \<and> fingerprint n = fingerprint_of c ev) (snapshots st) = None"
    and "snapshot_for c i p ev st = Inr (n, st')"
  shows "dget (import_facts n) ''date'' = JStr (date_iso (to_utc d))
    \<and> dget (import_facts n) ''start_time'' = JStr (time_iso_minutes (to_utc d))
    \<and> dget (import_facts n) ''timezone'' = JStr (md_timezone ev)"
  using assms by (auto simp: snapshot_for_def Let_def import_facts_def dget_def split: if_splits)

end
