(* ===== verification/Broker_Props.thy ===== *)
theory Broker_Props
  imports Broker_Inv Draft_Props
begin

text \<open>
  What the broker promises: the scope of a successful call, at most one effect per call, the end of a
  revoked capability, where intents come from, and which of them the draft operations accept.
\<close>

section \<open>What a call leaves alone\<close>

definition rest :: "draft_db \<Rightarrow> draft_db" where
  "rest s = s\<lparr>base := (base s)\<lparr>audits := []\<rparr>, submissions := [], capabilities := [], invocations := [], intents := []\<rparr>"

definition untouched :: "draft_db \<Rightarrow> draft_db \<Rightarrow> bool" where
  "untouched s s' \<longleftrightarrow> rest s' = rest s"

lemma untouched_refl: "untouched s s"
  by (simp add: untouched_def)

lemma untouched_trans: "untouched a b \<Longrightarrow> untouched b c \<Longrightarrow> untouched a c"
  by (simp add: untouched_def)

lemma untouched_upd:
  "untouched s (s\<lparr>submissions := x\<rparr>)" "untouched s (s\<lparr>capabilities := y\<rparr>)" "untouched s (s\<lparr>invocations := z\<rparr>)" "untouched s (s\<lparr>intents := w\<rparr>)"
  "untouched s (record_audit a b ty ti ds s)"
  by (simp_all add: untouched_def rest_def record_audit_def add_audit_def)

lemma untouched_audit: "untouched s s' \<Longrightarrow> untouched s (record_audit a b ty ti ds s')"
  by (rule untouched_trans [OF _ untouched_upd(5)])

lemma untouched_intents: "request_intents e c provider sub ks s = Inr (ps, s') \<Longrightarrow> untouched s s'"
proof (induction ks arbitrary: s ps)
  case Nil
  then show ?case by (simp add: untouched_refl)
next
  case (Cons k ks)
  obtain kind iid where k: "k = (kind, iid)" by (cases k)
  obtain i s1 qs where 1: "request_intent e iid c provider sub kind s = Inr (i, s1)"
    and 2: "request_intents e c provider sub ks s1 = Inr (qs, s')"
    using Cons.prems by (auto simp: k try_bind_eq_Inr)
  have "untouched s s1" using 1 unfolding request_intent_def Let_def
    by (auto simp: try_bind_eq_Inr untouched_refl untouched_upd split: option.splits)
  with Cons.IH [OF 2] show ?case by (rule untouched_trans [rotated])
qed

lemma untouched_execute: "execute_tool e fr tool d c r s = Inr (v, s') \<Longrightarrow> untouched s s'"
  by (erule execute_cases) (auto simp: submit_content_def try_bind_eq_Inr untouched_refl untouched_upd dest: untouched_intents)

lemma untouched_invoke:
  assumes "invoke e fr tool d c r encoded s = Inr (v, s')"
  shows "untouched s s'"
proof -
  obtain idem where "digest e (JList [JStr (cap_pk c), JStr (arg d ''idempotency_key'')]) = Inr idem"
    using assms unfolding invoke_def Let_def by (auto simp: try_bind_eq_Inr)
  note inv = assms [unfolded invoke_def Let_def this lift_args.simps try_bind_Inr]
  show ?thesis
  proof (cases "find (\<lambda>v. iv_request v = arg d ''request_id'' \<or> iv_idempotency v = idem) (invocations s)")
    case (Some x)
    with inv show ?thesis by (auto simp: tool_audit_def untouched_upd split: if_splits)
  next
    case None
    with inv show ?thesis
      by (auto simp: try_bind_eq_Inr tool_audit_def intro!: untouched_audit intro: untouched_trans [OF _ untouched_upd(3)] dest: untouched_execute)
  qed
qed

lemma untouched_dispatch:
  assumes "dispatch e now fr tool d tok encoded s = Inr (v, s')"
  shows "untouched s s'"
proof -
  let ?q = "arg d ''correlation_id''"
  obtain c r where "invoke e fr tool d (c\<lparr>cap_correlation := Some ?q\<rparr>) r encoded (bind_correlation c ?q s) = Inr (v, s')"
    using assms by (auto simp: dispatch_def try_bind_eq_Inr Let_def)
  from untouched_invoke [OF this] show ?thesis
    by (rule untouched_trans [rotated]) (simp add: bind_correlation_def untouched_refl untouched_upd)
qed

section \<open>Properties\<close>

text \<open>
  C22: A tool call succeeds only within its capability.  When the broker returns a result, the caller
  presented the service token and a signed capability token whose record is not revoked and not expired
  and lives at most five minutes; the record lists the tool; the arguments name its workflow, revision and
  actor, an active operator; the workflow is still at that revision, whose facts still have the digest the
  capability was issued for; and the call changes nothing but the broker's four tables and the audit log:
  no workflow, approval or draft execution.
\<close>

theorem call_in_scope:
  assumes "dispatch_mcp_tool e unsign service_token now fr tool arguments identity tok s = (Inr v, s')"
  shows "\<exists>name d c w r. service_ok service_token identity \<and> verify_token unsign tok \<and> tool = JStr name \<and> arguments = JObj d
    \<and> c \<in> set (capabilities s) \<and> cap_token c = token_digest e tok \<and> name \<in> set (cap_tools c)
    \<and> cap_revoked c = None \<and> cap_issued c \<le> now \<and> now < cap_expires c \<and> cap_expires c - cap_issued c \<le> 300 * SECOND
    \<and> dget d ''revision_id'' = JInt (int (cap_revision c)) \<and> arg d ''workflow_id'' = cap_workflow c \<and> arg d ''actor_id'' = cap_actor c
    \<and> (\<exists>a \<in> set (actors (base s)). slug a = cap_actor c \<and> operator_active s a)
    \<and> tfind wf_pk (cap_workflow c) (workflows (base s)) = Some w \<and> wf_revision w = cap_revision c
    \<and> tfind rev_pk (wf_revision w) (revisions (base s)) = Some r \<and> rev_event r = wf_event w
    \<and> digest e (JObj (snapshot r)) = Inr (cap_revision_digest c) \<and> untouched s s'"
proof -
  obtain p where "checked_call e unsign service_token now fr tool arguments identity tok s = Inr p" "p = (v, s')"
    using assms unfolding dispatch_mcp_tool_def by (auto split: sum.splits)
  then obtain name d encoded where c: "service_ok service_token identity" "verify_token unsign tok" "tool = JStr name" "arguments = JObj d"
    and di: "dispatch e now fr name d tok encoded s = Inr (v, s')" by (blast elim: checked_callE)
  from di obtain c r where a: "admit e now name d tok s = Inr (c, r)" by (auto simp: dispatch_def try_bind_eq_Inr)
  from admit_facts [OF this] obtain w where f: "tfind cap_token (token_digest e tok) (capabilities s) = Some c" "in_scope s now name d c"
    "tfind wf_pk (cap_workflow c) (workflows (base s)) = Some w" "at_revision e s c w = Inr r" by blast
  have "wf_revision w = cap_revision c" "tfind rev_pk (wf_revision w) (revisions (base s)) = Some r"
    "digest e (JObj (snapshot r)) = Inr (cap_revision_digest c)" "rev_event r = wf_event w"
    using f(4) by (auto simp: at_revision_def try_bind_eq_Inr of_option_eq_Inr)
  moreover have "\<exists>a \<in> set (actors (base s)). slug a = cap_actor c \<and> operator_active s a"
    using f(2) by (auto simp: in_scope_def dest: tfind_in tfind_key split: option.splits)
  moreover have "c \<in> set (capabilities s)" "cap_token c = token_digest e tok" using f(1) by (auto dest: tfind_in tfind_key)
  ultimately show ?thesis using c f untouched_dispatch [OF di] unfolding in_scope_def capability_live_def by metis
qed

text \<open>
  C23: A call takes effect once.  When a call has returned a result in a reachable state, then in every
  later state in which the same call (same tool, arguments, service identity and token) is still in the
  scope of its capability, it returns exactly that result again, and all it writes is one audit row.
\<close>

theorem replay_returns_same:
  assumes "broker_init s0" and "(broker_step e unsign st)\<^sup>*\<^sup>* s0 s"
    and "dispatch_mcp_tool e unsign st now fr tool arguments identity tok s = (Inr v, s1)"
    and "(broker_step e unsign st)\<^sup>*\<^sup>* s1 s2"
    and "admit e now2 (text_of tool) (payload_dict arguments) tok s2 = Inr (c2, r2)"
  shows "dispatch_mcp_tool e unsign st now2 fr2 tool arguments identity tok s2
    = (Inr v, tool_audit c2 ''mcp.tool_replayed'' (text_of tool) (payload_dict arguments) s2)"
proof -
  have inv: "broker_inv e s" using broker.reachable_inv [OF assms(1,2)] .
  have ck: "checked_call e unsign st now fr tool arguments identity tok s = Inr (v, s1)"
    using assms(3) unfolding dispatch_mcp_tool_def by (auto split: sum.splits)
  from ck obtain encoded name d where c: "service_ok st identity" "verify_token unsign tok" "length tok \<le> 160"
    "validate_tool_arguments e tool arguments = Inr encoded" "tool = JStr name" "arguments = JObj d"
    and pr: "name = ''propose_campaign_drafts'' \<longrightarrow> validate (dget d ''proposal'') PROPOSAL"
    and di: "dispatch e now fr name d tok encoded s = Inr (v, s1)" by (rule checked_callE)
  let ?q = "arg d ''correlation_id''"
  obtain c r where k1: "keeps e (bind_correlation c ?q s) s1" and an: "answered_by e name d c encoded v s1"
    and m: "c\<lparr>cap_correlation := Some ?q\<rparr> \<in> set (capabilities (bind_correlation c ?q s))" and ad: "admit e now name d tok s = Inr (c, r)"
    using dispatch_facts [OF inv pr [THEN mp] di] by blast
  have k2: "keeps e s1 s2" using run_grows [OF assms(4)] k1 by (simp add: keeps_def)
  have ad2: "admit e now2 name d tok s2 = Inr (c2, r2)" using assms(5) c(5,6) by (simp add: payload_dict_def)
  have "cap_token c = token_digest e tok" using admit_facts [OF ad] by (auto dest: tfind_key)
  then have l: "cap_later (c\<lparr>cap_correlation := Some ?q\<rparr>) c2"
    using same_capability [OF keeps_trans [OF k1 k2] m] admit_facts [OF ad2] by simp
  then have q: "cap_correlation c2 = Some ?q" and pk: "cap_pk c2 = cap_pk c" using cap_later_fields(1) [OF l] by (auto simp: cap_later_def)
  have id: "c2\<lparr>cap_correlation := Some ?q\<rparr> = c2" "bind_correlation c2 ?q s2 = s2"
    using q by (cases c2; simp) (simp add: bind_correlation_def q)
  have "answered_by e name d c2 encoded v s2" using answered_by_grows [OF an _ pk] k2 by (simp add: keeps_def)
  note r = invoke_answered [OF this]
  have "dispatch e now2 fr2 name d tok encoded s2 = Inr (v, tool_audit c2 ''mcp.tool_replayed'' name d s2)"
    by (simp add: dispatch_def ad2 Let_def id r)
  with c show ?thesis by (simp add: dispatch_mcp_tool_def checked_call_def refuse_def payload_dict_def)
qed

text \<open>
  Revocation is final.  After a capability was revoked in a reachable state, every later call with its
  token, for any tool and arguments, fails, and all that it writes is at most one audit row.
\<close>

theorem revoked_capability_denied:
  assumes "broker_init s0" and "(broker_step e unsign st)\<^sup>*\<^sup>* s0 s"
    and "revoke_workflow_capability e now tok s = Inr s1" and "(broker_step e unsign st)\<^sup>*\<^sup>* s1 s2"
  shows "\<exists>x. dispatch_mcp_tool e unsign st now2 fr tool arguments identity tok s2 = (Inl x, after_error tool x s2)
    \<and> same_tables s2 (after_error tool x s2)"
proof -
  have inv: "broker_inv e s" using broker.reachable_inv [OF assms(1,2)] .
  obtain c where c: "tfind cap_token (token_digest e tok) (capabilities s) = Some c"
    and s1: "capabilities s1 = tput cap_pk (c\<lparr>cap_revoked := Some now\<rparr>) (capabilities s)"
    using assms(3) by (auto simp: revoke_workflow_capability_def try_bind_eq_Inr of_option_eq_Inr record_audit_def)
  have m: "c\<lparr>cap_revoked := Some now\<rparr> \<in> set (capabilities s1)"
    unfolding s1 by (rule in_tput_self) (use tfind_in [OF c] in auto)
  have k: "keeps e s1 s2" using run_grows [OF assms(4)] keeps_revoke [OF inv assms(3)] by (simp add: keeps_def)
  have "\<not> (\<exists>p. checked_call e unsign st now2 fr tool arguments identity tok s2 = Inr p)"
  proof
    assume "\<exists>p. checked_call e unsign st now2 fr tool arguments identity tok s2 = Inr p"
    then obtain v s3 where "checked_call e unsign st now2 fr tool arguments identity tok s2 = Inr (v, s3)" by auto
    then obtain name d encoded where "dispatch e now2 fr name d tok encoded s2 = Inr (v, s3)" by (rule checked_callE)
    then obtain c2 r where "admit e now2 name d tok s2 = Inr (c2, r)" by (auto simp: dispatch_def try_bind_eq_Inr)
    from admit_facts [OF this] have c2: "tfind cap_token (token_digest e tok) (capabilities s2) = Some c2" "cap_revoked c2 = None"
      by (auto simp: in_scope_def capability_live_def)
    have "cap_later (c\<lparr>cap_revoked := Some now\<rparr>) c2" using same_capability [OF k m] c2(1) tfind_key [OF c] by simp
    with c2(2) show False by (simp add: cap_later_def)
  qed
  then obtain x where "checked_call e unsign st now2 fr tool arguments identity tok s2 = Inl x"
    by (cases "checked_call e unsign st now2 fr tool arguments identity tok s2") auto
  then show ?thesis by (auto simp: dispatch_mcp_tool_def same_tables_after_error)
qed

text \<open>
  C24: Every intent comes from a proposal under the same authority.  In every reachable state an intent is
  pending, without approval or receipt, of a known provider and kind; it names a stored proposal that
  conforms to the proposal schema and whose capability was issued for exactly the intent's workflow,
  revision and actor; and its two digests are those of its action.  No two intents share an idempotency
  key, and every recorded invocation is of a tool its capability lists.
\<close>

theorem intents_trace_to_proposals:
  assumes "broker_init s0" and "(broker_step e unsign st)\<^sup>*\<^sup>* s0 s"
  shows "(\<forall>i \<in> set (intents s). \<exists>sub \<in> set (submissions s). \<exists>c \<in> set (capabilities s). intent_from e i sub c
      \<and> digest e (sub_content sub) = Inr (sub_digest sub) \<and> validate (sub_content sub) PROPOSAL)
    \<and> distinct (map in_idempotency (intents s))
    \<and> (\<forall>v \<in> set (invocations s). \<exists>c \<in> set (capabilities s). iv_capability v = cap_pk c \<and> iv_tool v \<in> set (cap_tools c)
         \<and> set (cap_tools c) \<subseteq> set TOOLS)"
proof -
  have inv: "broker_inv e s" using broker.reachable_inv [OF assms] .
  have sub: "digest e (sub_content sub) = Inr (sub_digest sub) \<and> (sub_kind sub = ''proposal'' \<longrightarrow> validate (sub_content sub) PROPOSAL)"
    if "sub \<in> set (submissions s)" for sub using inv that unfolding broker_inv_def sub_from_def by blast
  have "\<exists>sub \<in> set (submissions s). \<exists>c \<in> set (capabilities s). intent_from e i sub c
      \<and> digest e (sub_content sub) = Inr (sub_digest sub) \<and> validate (sub_content sub) PROPOSAL" if i: "i \<in> set (intents s)" for i
  proof -
    obtain x c where x: "x \<in> set (submissions s)" "c \<in> set (capabilities s)" "intent_from e i x c"
      using inv i unfolding broker_inv_def by blast
    moreover have "sub_kind x = ''proposal''" using x(3) by (simp add: intent_from_def)
    ultimately show ?thesis using sub [OF x(1)] by blast
  qed
  moreover have "distinct (map in_idempotency (intents s))" using inv by (simp add: broker_inv_def broker_keys_def keys_ok_def)
  moreover have "\<exists>c \<in> set (capabilities s). iv_capability v = cap_pk c \<and> iv_tool v \<in> set (cap_tools c) \<and> set (cap_tools c) \<subseteq> set TOOLS"
    if "v \<in> set (invocations s)" for v
    using inv that unfolding broker_inv_def inv_from_def cap_ok_def by blast
  ultimately show ?thesis by blast
qed

lemma action_of_intent:
  assumes "intent_from e i sub c" and "wf_pk w = in_workflow i" and "cap_revision_digest c = rd"
  shows "action_value w rd i sub = broker_action c (in_provider i) (in_kind i) sub"
    "idempotency_value w i action = broker_idempotency c (in_kind i) action"
  using assms by (simp_all add: intent_from_def action_value_def idempotency_value_def broker_action_def broker_idempotency_def)

text \<open>
  C25: The draft operations accept exactly what the broker recorded.  For an intent of a reachable state
  whose workflow is still at the intent's revision, the validation in front of every provider draft succeeds
  if and only if the run succeeded for the current revision and package, its binding names the intent's
  actor and the current facts, its control names the capability of the proposal, with the run's
  correlation, and that capability was issued for these facts and lists the request tool: everything else
  that is checked there, schema, digests, status and identity, the broker has established.
\<close>

theorem broker_intent_accepted_iff:
  assumes "broker_init s0" and "(broker_step e unsign st)\<^sup>*\<^sup>* s0 s" and "i \<in> set (intents s)"
    and "tfind wf_pk (in_workflow i) (workflows (base s)) = Some w" and "wf_revision w = in_revision i"
    and "tfind rev_pk (wf_revision w) (revisions (base s)) = Some r" and "digest e (JObj (snapshot r)) = Inr rd"
  shows "\<exists>sub c. tfind sub_pk (in_proposal i) (submissions s) = Some sub \<and> tfind cap_pk (sub_capability sub) (capabilities s) = Some c
    \<and> (validate_intent e s i run = Inr rd \<longleftrightarrow>
         run_current w run \<and> cap_revision_digest c = rd
         \<and> (if in_provider i = ''eventbrite'' then ''request_eventbrite_draft'' else ''request_iterable_drafts'') \<in> set (cap_tools c)
         \<and> (\<exists>b ct. tfind bd_run (run_pk run) (bindings s) = Some b \<and> binding_current i rd b
              \<and> tfind ct_run (run_pk run) (controls s) = Some ct \<and> ct_capability ct = Some (cap_pk c)
              \<and> cap_correlation c = Some (bd_correlation b)))"
proof -
  have inv: "broker_inv e s" using broker.reachable_inv [OF assms(1,2)] .
  obtain sub c where m: "sub \<in> set (submissions s)" "c \<in> set (capabilities s)" and f: "intent_from e i sub c"
    using inv assms(3) unfolding broker_inv_def by blast
  have keys: "keys_ok sub_pk (submissions s)" "keys_ok cap_pk (capabilities s)" using inv by (simp_all add: broker_inv_def broker_keys_def)
  have fs: "tfind sub_pk (in_proposal i) (submissions s) = Some sub" "tfind cap_pk (sub_capability sub) (capabilities s) = Some c"
    using f tfind_unique [OF keys(1) m(1)] tfind_unique [OF keys(2) m(2)] by (simp_all add: intent_from_def)
  obtain b where "sub_from e sub b" using inv m(1) unfolding broker_inv_def by blast
  then have sub: "digest e (sub_content sub) = Inr (sub_digest sub)" "validate (sub_content sub) PROPOSAL"
    using f by (auto simp: sub_from_def intent_from_def)
  have aud: "cap_audience c = ''civicloop-hermes''" using inv m(2) by (auto simp: broker_inv_def cap_ok_def AUDIENCE_def)
  have wk: "wf_pk w = in_workflow i" using tfind_key [OF assms(4)] .
  have kind: "sub_kind sub = ''proposal''" and pend: "intent_pending i (in_action_digest i) (in_idempotency i)"
    using f by (simp_all add: intent_from_def)
  let ?tool = "if in_provider i = ''eventbrite'' then ''request_eventbrite_draft'' else ''request_iterable_drafts''"
  have cc: "capability_current w i rd b ct c \<longleftrightarrow> ct_capability ct = Some (cap_pk c) \<and> cap_correlation c = Some (bd_correlation b)
      \<and> ?tool \<in> set (cap_tools c) \<and> cap_revision_digest c = rd" for b ct
    using f aud wk assms(5) by (auto simp: capability_current_def intent_from_def)
  show ?thesis
  proof (cases "cap_revision_digest c = rd")
    case True
    have d: "digest e (action_value w rd i sub) = Inr (in_action_digest i)"
      "digest e (idempotency_value w i (in_action_digest i)) = Inr (in_idempotency i)"
      using f by (simp_all add: action_of_intent [OF f wk True] intent_from_def)
    have "validate_intent e s i run = Inr rd \<longleftrightarrow> run_current w run \<and> (\<exists>b ct. tfind bd_run (run_pk run) (bindings s) = Some b
        \<and> binding_current i rd b \<and> tfind ct_run (run_pk run) (controls s) = Some ct \<and> capability_current w i rd b ct c)"
      by (simp add: validate_intent_def workflow_of_def fs assms(4,6,7) d sub kind pend proposal_schema_ok_def)
         (auto simp: assms(5) try_bind_eq_Inr of_option_eq_Inr demand_def)
    with True fs show ?thesis by (auto simp: cc)
  next
    case False
    have "validate_intent e s i run \<noteq> Inr rd"
      by (simp add: validate_intent_def workflow_of_def fs assms(4,6,7) try_bind_eq_Inr demand_def cc False)
    with False fs show ?thesis by blast
  qed
qed

end
