(* ===== verification/Broker_Run.thy ===== *)
theory Broker_Run
  imports Broker_Props
begin

text \<open>
  A concrete run of the broker: a capability is issued, a proposal submitted and an Eventbrite draft
  requested, which the draft operations accept.  The digest of the run is a fixed short function.
\<close>

definition tiny_env :: py_env where
  "tiny_env = \<lparr>sha256_hex = (\<lambda>t. take 1 (drop 6 t)), repr_float = (\<lambda>_. ''0.0''), repr_other = (\<lambda>_. ''...'')\<rparr>"

definition sample_id :: uuid where
  "sample_id = ''0f8fad5b-d9cb-469f-a165-70867728950e''"

definition other_id :: uuid where
  "other_id = ''1f8fad5b-d9cb-469f-a165-70867728950e''"

definition sample_proposal :: json where
  "sample_proposal = JObj [(''event_copy'', JStr ''x''), (''invitation'', JObj [(''subject'', JStr ''x''), (''body'', JStr ''x'')]),
     (''reminder'', JObj [(''subject'', JStr ''x''), (''body'', JStr ''x'')]), (''social'', JObj [(''body'', JStr ''x'')])]"

definition call_arguments :: "string \<Rightarrow> string \<Rightarrow> (string \<times> json) \<Rightarrow> dict" where
  "call_arguments q key extra = [(''workflow_id'', JStr sample_id), (''revision_id'', JInt 7),
      (''actor_id'', JStr ''maya''), (''correlation_id'', JStr sample_id), (''request_id'', JStr q), (''idempotency_key'', JStr key), extra]"

definition propose_arguments :: dict where
  "propose_arguments = call_arguments sample_id ''abcdefgh12345678'' (''proposal'', sample_proposal)"

definition request_arguments :: dict where
  "request_arguments = call_arguments other_id ''bbcdefgh12345678'' (''proposal_id'', JStr other_id)"

lemma tiny_bounded:
  assumes "walk v 0 0 \<noteq> None" and "printable v" and "length (json_dumps tiny_env v) \<le> 1000"
  shows "bounded_json tiny_env v = Inr (json_dumps tiny_env v)"
  using assms by (auto simp: bounded_json_def Let_def MAX_PAYLOAD_BYTES_def)

lemma tiny_digest:
  assumes "walk v 0 0 \<noteq> None" and "printable v" and "length (json_dumps tiny_env v) \<le> 1000" and "take 1 (drop 6 (json_dumps tiny_env v)) = h"
  shows "digest tiny_env v = Inr h"
  using assms by (simp add: digest_def tiny_bounded) (simp add: tiny_env_def)

definition sample_action :: json where
  "sample_action = JObj [(''workflow_id'', JStr sample_id), (''revision_id'', JInt 7), (''revision_digest'', JStr []),
     (''provider'', JStr ''eventbrite''), (''operation_kind'', JStr ''create_eventbrite_draft''), (''proposal_digest'', JStr ''t'')]"

definition sample_key :: json where
  "sample_key = JList [JStr sample_id, JInt 7, JStr ''maya'', JStr ''create_eventbrite_draft'', JStr ''a'']"

lemmas sample_values = sample_id_def other_id_def sample_proposal_def call_arguments_def propose_arguments_def request_arguments_def
  sample_action_def sample_key_def

lemma small_walks:
  "walk (JObj propose_arguments) 0 0 \<noteq> None" "walk (JObj request_arguments) 0 0 \<noteq> None" "walk sample_proposal 0 0 \<noteq> None"
  "walk sample_action 0 0 \<noteq> None" "walk sample_key 0 0 \<noteq> None"
  by (simp_all add: sample_values over_def MAX_DEPTH_def MAX_PAYLOAD_BYTES_def)

lemma small_texts:
  "length (json_dumps tiny_env (JObj propose_arguments)) \<le> 1000" "length (json_dumps tiny_env (JObj request_arguments)) \<le> 1000"
  "length (json_dumps tiny_env sample_proposal) \<le> 1000" "length (json_dumps tiny_env sample_action) \<le> 1000"
  "length (json_dumps tiny_env sample_key) \<le> 1000"
  by code_simp+

lemma small_printable:
  "printable (JObj propose_arguments)" "printable (JObj request_arguments)" "printable sample_proposal" "printable sample_action" "printable sample_key"
  by code_simp+

lemma sample_digests:
  "digest tiny_env (JObj []) = Inr []" "digest tiny_env sample_proposal = Inr ''t''" "digest tiny_env sample_action = Inr ''a''"
  "digest tiny_env sample_key = Inr ''a''" "digest tiny_env (JList [JStr ''c'', JStr ''abcdefgh12345678'']) = Inr ''a''"
  "digest tiny_env (JList [JStr ''c'', JStr ''bbcdefgh12345678'']) = Inr ''b''"
  by (rule tiny_digest; (rule small_walks small_texts small_printable)?; (simp add: over_def MAX_DEPTH_def MAX_PAYLOAD_BYTES_def; fail)?; code_simp)+

lemma sample_uuids: "canonical_uuid sample_id" "canonical_uuid other_id"
  by code_simp+

lemma sample_patterns: "fullmatch P_actor ''maya''" "fullmatch P_idempotency ''abcdefgh12345678''" "fullmatch P_idempotency ''bbcdefgh12345678''"
  by code_simp+

lemma sample_proposal_valid: "validate sample_proposal PROPOSAL"
  by (simp add: sample_proposal_def PROPOSAL_def EMAIL_def string_schema_def dget_def, blast?)

lemma sample_length: "length sample_id = 36" "length other_id = 36"
  by (simp_all add: sample_id_def other_id_def)

lemma sample_accepted_calls:
  "validate_tool_arguments tiny_env (JStr ''propose_campaign_drafts'') (JObj propose_arguments) = Inr (json_dumps tiny_env (JObj propose_arguments))"
  "validate_tool_arguments tiny_env (JStr ''request_eventbrite_draft'') (JObj request_arguments) = Inr (json_dumps tiny_env (JObj request_arguments))"
proof -
  have "map_of TOOL_SCHEMAS ''propose_campaign_drafts'' = Some (S_obj (COMMON @ [(''proposal'', PROPOSAL)]))"
    "map_of TOOL_SCHEMAS ''request_eventbrite_draft'' = Some (S_obj (COMMON @ [(''proposal_id'', UUID_SCHEMA)]))"
    by (simp_all add: TOOL_SCHEMAS_def EXTRAS_def)
  moreover have "validate (JObj propose_arguments) (S_obj (COMMON @ [(''proposal'', PROPOSAL)]))"
    by (simp add: propose_arguments_def call_arguments_def COMMON_def UUID_SCHEMA_def sample_uuids sample_patterns sample_length dget_def
        sample_proposal_valid del: fullmatch.simps, blast?)
  moreover have "validate (JObj request_arguments) (S_obj (COMMON @ [(''proposal_id'', UUID_SCHEMA)]))"
    by (simp add: request_arguments_def call_arguments_def COMMON_def UUID_SCHEMA_def sample_uuids sample_patterns sample_length dget_def
        del: fullmatch.simps, blast?)
  ultimately show
    "validate_tool_arguments tiny_env (JStr ''propose_campaign_drafts'') (JObj propose_arguments) = Inr (json_dumps tiny_env (JObj propose_arguments))"
    "validate_tool_arguments tiny_env (JStr ''request_eventbrite_draft'') (JObj request_arguments) = Inr (json_dumps tiny_env (JObj request_arguments))"
    by (simp_all add: validate_tool_arguments_def tiny_bounded [OF small_walks(1) small_printable(1) small_texts(1)]
        tiny_bounded [OF small_walks(2) small_printable(2) small_texts(2)] del: validate.simps json_dumps.simps)
qed

subsection \<open>The states of the run\<close>

definition sample_run :: agent_run where
  "sample_run = run_run\<lparr>run_workflow := sample_id, run_revision := 7\<rparr>"

definition sample_workflow :: workflow where
  "sample_workflow = \<lparr>wf_pk = sample_id, wf_event = 2, wf_revision = 7, status = READY_FOR_REVIEW, package = None, wf_hash = ''h'', traceparent = []\<rparr>"

definition sample_revision :: revision where
  "sample_revision = \<lparr>rev_pk = 7, rev_event = 2, rev_version = 2, snapshot = [], rev_author = ''maya'', source_snapshot = None\<rparr>"

definition broker_start :: draft_db where
  "broker_start = run_db\<lparr>base := run_base\<lparr>revisions := [sample_revision], workflows := [sample_workflow]\<rparr>,
     submissions := [], capabilities := [], invocations := [], intents := [], agent_runs := [sample_run],
     bindings := [\<lparr>bd_run = ''r'', bd_actor = ''maya'', bd_session = Some ''z'', bd_correlation = sample_id, bd_revision_digest = []\<rparr>]\<rparr>"

definition sample_tools :: "string list" where
  "sample_tools = [''propose_campaign_drafts'', ''request_eventbrite_draft'']"

definition sample_cap :: capability where
  "sample_cap = \<lparr>cap_pk = ''c'', cap_revision_digest = [], cap_workflow = sample_id, cap_revision = 7, cap_actor = ''maya'',
     cap_tools = sample_tools, cap_audience = AUDIENCE, cap_correlation = None, cap_token = [],
     cap_issued = 0, cap_expires = 60 * SECOND, cap_revoked = None\<rparr>"

definition bound_cap :: capability where
  "bound_cap = sample_cap\<lparr>cap_correlation := Some sample_id\<rparr>"

definition issued :: draft_db where
  "issued = record_audit (Some ''maya'') ''mcp.capability_issued'' ''workflow'' sample_id [(''capability_id'', JStr ''c'')]
     (broker_start\<lparr>capabilities := [sample_cap]\<rparr>)"

definition sample_submission :: submission where
  "sample_submission = \<lparr>sub_pk = other_id, sub_capability = ''c'', sub_kind = ''proposal'', sub_content = sample_proposal, sub_digest = ''t''\<rparr>"

definition proposed_result :: json where
  "proposed_result = JObj [(''proposal_id'', JStr other_id), (''proposal_digest'', JStr ''t''), (''status'', JStr ''pending''),
     (''content_trust'', JStr ''untrusted''), (''correlation_id'', JStr sample_id)]"

definition proposed_row :: invocation where
  "proposed_row = \<lparr>iv_capability = ''c'', iv_request = sample_id, iv_idempotency = ''a'',
     iv_arguments = sha256_hex tiny_env (json_dumps tiny_env (JObj propose_arguments)), iv_tool = ''propose_campaign_drafts'', iv_result = proposed_result\<rparr>"

definition proposed :: draft_db where
  "proposed = tool_audit bound_cap ''mcp.tool_succeeded'' ''propose_campaign_drafts'' propose_arguments
     (issued\<lparr>capabilities := [bound_cap], submissions := [sample_submission], invocations := [proposed_row]\<rparr>)"

definition sample_intent :: draft_operation where
  "sample_intent = new_intent ''i'' bound_cap ''eventbrite'' ''create_eventbrite_draft'' sample_submission ''a'' ''a''"

definition requested_result :: json where
  "requested_result = JObj [(''operations'', JList [operation_payload sample_intent]), (''correlation_id'', JStr sample_id)]"

definition requested_row :: invocation where
  "requested_row = \<lparr>iv_capability = ''c'', iv_request = other_id, iv_idempotency = ''b'',
     iv_arguments = sha256_hex tiny_env (json_dumps tiny_env (JObj request_arguments)), iv_tool = ''request_eventbrite_draft'', iv_result = requested_result\<rparr>"

definition requested :: draft_db where
  "requested = tool_audit bound_cap ''mcp.tool_succeeded'' ''request_eventbrite_draft'' request_arguments
     (proposed\<lparr>intents := [sample_intent], invocations := [proposed_row, requested_row]\<rparr>)"

definition service_secret :: string where
  "service_secret = ''abcdefghijklmnopqrstuvwxyz123456''"

definition signed_ok :: "string \<Rightarrow> bool" where
  "signed_ok t \<longleftrightarrow> t = ''s''"

definition fresh_ids :: fresh where
  "fresh_ids = \<lparr>submission_id = other_id, intent_ids = (''i'', ''j'')\<rparr>"

lemmas broker_states = broker_start_def issued_def proposed_def requested_def record_audit_def tool_audit_def add_audit_def run_base_def run_db_def

lemma sample_token: "new_token ''s'' = ''cap_cw''" "token_digest tiny_env ''cap_cw'' = []"
  by code_simp (simp add: token_digest_def tiny_env_def)

lemma sorted_tools: "sort sample_tools = sample_tools"
  by code_simp

lemma sample_actor: "operator_active issued \<lparr>slug = ''maya'', display_name = ''Maya'', actor_role = OPERATOR, actor_user = Some 3\<rparr>"
  "operator_active broker_start \<lparr>slug = ''maya'', display_name = ''Maya'', actor_role = OPERATOR, actor_user = Some 3\<rparr>"
  "operator_active proposed \<lparr>slug = ''maya'', display_name = ''Maya'', actor_role = OPERATOR, actor_user = Some 3\<rparr>"
  by (simp_all add: operator_active_def broker_states)

lemma run_issue:
  "issue_workflow_capability tiny_env 0 ''s'' ''c'' sample_id 7 ''maya'' sample_tools 60 broker_start = Inr (''cap_cw'', issued)"
proof -
  have "set sample_tools \<subseteq> set TOOLS" "sample_tools \<noteq> []" by (simp_all add: sample_tools_def TOOLS_def)
  moreover have "tfind wf_pk sample_id (workflows (base broker_start)) = Some sample_workflow"
    "tfind rev_pk 7 (revisions (base broker_start)) = Some sample_revision"
    "tfind slug ''maya'' (actors (base broker_start)) = Some \<lparr>slug = ''maya'', display_name = ''Maya'', actor_role = OPERATOR, actor_user = Some 3\<rparr>"
    "capabilities broker_start = []"
    by (simp_all add: broker_start_def run_base_def run_db_def sample_workflow_def sample_revision_def)
  ultimately show ?thesis
    by (simp add: issue_workflow_capability_def refuse_def sample_actor sample_workflow_def sample_revision_def sample_digests sample_token
        sorted_tools issued_def sample_cap_def)
qed

lemma sample_args:
  "arg propose_arguments ''workflow_id'' = sample_id" "arg propose_arguments ''actor_id'' = ''maya''" "dget propose_arguments ''revision_id'' = JInt 7"
  "arg propose_arguments ''correlation_id'' = sample_id" "arg propose_arguments ''request_id'' = sample_id"
  "arg propose_arguments ''idempotency_key'' = ''abcdefgh12345678''" "dget propose_arguments ''proposal'' = sample_proposal"
  "arg request_arguments ''workflow_id'' = sample_id" "arg request_arguments ''actor_id'' = ''maya''" "dget request_arguments ''revision_id'' = JInt 7"
  "arg request_arguments ''correlation_id'' = sample_id" "arg request_arguments ''request_id'' = other_id"
  "arg request_arguments ''idempotency_key'' = ''bbcdefgh12345678''" "arg request_arguments ''proposal_id'' = other_id"
  by (simp_all add: arg_def dget_def propose_arguments_def request_arguments_def call_arguments_def)

lemma sample_tables:
  assumes "s \<in> {issued, proposed, requested}"
  shows "tfind wf_pk sample_id (workflows (base s)) = Some sample_workflow" "tfind rev_pk 7 (revisions (base s)) = Some sample_revision"
    "tfind slug ''maya'' (actors (base s)) = Some \<lparr>slug = ''maya'', display_name = ''Maya'', actor_role = OPERATOR, actor_user = Some 3\<rparr>"
    "active_users s = [3, 2]"
  using assms by (auto simp: broker_states sample_workflow_def sample_revision_def)

lemma sample_admit:
  assumes "s \<in> {issued, proposed, requested}" and "tool \<in> set sample_tools" and "d \<in> {propose_arguments, request_arguments}"
    and "tfind cap_token [] (capabilities s) = Some c" and "c \<in> {sample_cap, bound_cap}" and "0 \<le> now" and "now < 60"
  shows "admit tiny_env now tool d ''cap_cw'' s = Inr (c, sample_revision)"
proof -
  have "in_scope s now tool d c"
    using assms sample_tables [OF assms(1)]
    by (auto simp: in_scope_def capability_live_def sample_cap_def bound_cap_def sample_args SECOND_def operator_active_def)
  moreover have "at_revision tiny_env s c sample_workflow = Inr sample_revision"
    using assms(5) sample_tables [OF assms(1)]
    by (auto simp: at_revision_def refuse_def sample_cap_def bound_cap_def sample_workflow_def sample_revision_def sample_digests)
  moreover have "cap_workflow c = sample_id" "cap_correlation c = None \<or> cap_correlation c = Some sample_id"
    "arg d ''correlation_id'' = sample_id" using assms(3,5) by (auto simp: sample_cap_def bound_cap_def sample_args)
  ultimately show ?thesis
    using assms(4) sample_tables [OF assms(1)]
    by (auto simp: admit_def sample_token refuse_def)
qed

lemma capability_tables:
  "capabilities issued = [sample_cap]" "capabilities proposed = [bound_cap]" "capabilities requested = [bound_cap]"
  "cap_token sample_cap = []" "cap_token bound_cap = []"
  by (simp_all add: broker_states sample_cap_def bound_cap_def)

lemma small_results:
  "bounded_json tiny_env proposed_result = Inr (json_dumps tiny_env proposed_result)"
  "bounded_json tiny_env requested_result = Inr (json_dumps tiny_env requested_result)"
proof -
  have w: "walk proposed_result 0 0 \<noteq> None" "walk requested_result 0 0 \<noteq> None"
    by (simp_all add: proposed_result_def requested_result_def operation_payload_def sample_intent_def new_intent_def bound_cap_def sample_cap_def
        sample_values over_def MAX_DEPTH_def MAX_PAYLOAD_BYTES_def)
  have p: "printable proposed_result" "printable requested_result" by code_simp+
  have l: "length (json_dumps tiny_env proposed_result) \<le> 1000" "length (json_dumps tiny_env requested_result) \<le> 1000" by code_simp+
  show "bounded_json tiny_env proposed_result = Inr (json_dumps tiny_env proposed_result)"
    "bounded_json tiny_env requested_result = Inr (json_dumps tiny_env requested_result)"
    using w p l by (blast intro: tiny_bounded)+
qed

lemma verified_token: "verify_token signed_ok ''cap_cw''"
  using verify_new_token [of signed_ok "''s''"] by (simp add: signed_ok_def sample_token)

lemma service_sample: "service_ok (Some service_secret) service_secret"
  by (simp add: service_ok_def service_secret_def)

lemma run_propose:
  "dispatch_mcp_tool tiny_env signed_ok (Some service_secret) 6 fresh_ids (JStr ''propose_campaign_drafts'') (JObj propose_arguments)
     service_secret ''cap_cw'' issued = (Inr proposed_result, proposed)"
proof -
  have a: "admit tiny_env 6 ''propose_campaign_drafts'' propose_arguments ''cap_cw'' issued = Inr (sample_cap, sample_revision)"
    by (rule sample_admit) (simp_all add: capability_tables sample_tools_def)
  have pk: "cap_pk sample_cap = ''c''" "cap_correlation sample_cap = None" "sample_cap\<lparr>cap_correlation := Some sample_id\<rparr> = bound_cap"
    "cap_pk bound_cap = ''c''" by (simp_all add: sample_cap_def bound_cap_def)
  have e: "submissions issued = []" "invocations issued = []" by (simp_all add: broker_states)
  have "invoke tiny_env fresh_ids ''propose_campaign_drafts'' propose_arguments bound_cap sample_revision
      (json_dumps tiny_env (JObj propose_arguments)) (issued\<lparr>capabilities := [bound_cap]\<rparr>) = Inr (proposed_result, proposed)"
    unfolding invoke_def Let_def
    by (simp add: pk e sample_args sample_digests execute_tool_def submit_content_def refuse_def fresh_ids_def
        small_results(1) [unfolded proposed_result_def] proposed_def proposed_result_def proposed_row_def sample_submission_def del: json_dumps.simps)
  then show ?thesis
    by (simp add: dispatch_mcp_tool_def checked_call_def refuse_def service_sample verified_token sample_accepted_calls payload_dict_def
        dispatch_def a Let_def sample_args bind_correlation_def pk capability_tables del: json_dumps.simps)
qed

lemma sample_action_value: "broker_action bound_cap ''eventbrite'' ''create_eventbrite_draft'' sample_submission = sample_action"
  "broker_idempotency bound_cap ''create_eventbrite_draft'' ''a'' = sample_key"
  by (simp_all add: broker_action_def broker_idempotency_def bound_cap_def sample_cap_def sample_submission_def sample_action_def sample_key_def)

lemma run_request:
  "dispatch_mcp_tool tiny_env signed_ok (Some service_secret) 9 fresh_ids (JStr ''request_eventbrite_draft'') (JObj request_arguments)
     service_secret ''cap_cw'' proposed = (Inr requested_result, requested)"
proof -
  have a: "admit tiny_env 9 ''request_eventbrite_draft'' request_arguments ''cap_cw'' proposed = Inr (bound_cap, sample_revision)"
    by (rule sample_admit) (simp_all add: capability_tables sample_tools_def)
  have pk: "cap_pk bound_cap = ''c''" "cap_correlation bound_cap = Some sample_id" "bound_cap\<lparr>cap_correlation := Some sample_id\<rparr> = bound_cap"
    by (simp_all add: sample_cap_def bound_cap_def)
  have e: "submissions proposed = [sample_submission]" "invocations proposed = [proposed_row]" "intents proposed = []"
    "iv_request proposed_row \<noteq> other_id" "iv_idempotency proposed_row \<noteq> ''b''"
    by (simp_all add: broker_states proposed_row_def sample_id_def other_id_def)
  have sub: "sub_pk sample_submission = other_id" "sub_kind sample_submission = ''proposal''" "sub_content sample_submission = sample_proposal"
    "sub_digest sample_submission = ''t''" "capability_of proposed sample_submission = Some bound_cap"
    by (simp_all add: sample_submission_def capability_of_def capability_tables pk)
  have "find_proposal tiny_env proposed bound_cap other_id = Inr sample_submission"
    by (simp add: find_proposal_def e sub sample_digests same_authority_def refuse_def)
  then have "execute_tool tiny_env fresh_ids ''request_eventbrite_draft'' request_arguments bound_cap sample_revision proposed
      = Inr ([(''operations'', JList [operation_payload sample_intent])], proposed\<lparr>intents := [sample_intent]\<rparr>)"
    by (simp add: execute_tool_def sample_args tool_kinds_def fresh_ids_def request_intent_def sample_action_value sample_digests e refuse_def
        sample_intent_def Let_def)
  then have "invoke tiny_env fresh_ids ''request_eventbrite_draft'' request_arguments bound_cap sample_revision
      (json_dumps tiny_env (JObj request_arguments)) proposed = Inr (requested_result, requested)"
    unfolding invoke_def Let_def
    by (simp add: pk e sample_args sample_digests small_results(2) [unfolded requested_result_def] requested_def requested_result_def
        requested_row_def del: json_dumps.simps)
  then show ?thesis
    by (simp add: dispatch_mcp_tool_def checked_call_def refuse_def service_sample verified_token sample_accepted_calls payload_dict_def
        dispatch_def a Let_def sample_args bind_correlation_def pk del: json_dumps.simps)
qed

abbreviation sample_step :: "draft_db \<Rightarrow> draft_db \<Rightarrow> bool" where
  "sample_step \<equiv> broker_step tiny_env signed_ok (Some service_secret)"

lemma sample_reachable: "broker_init broker_start" "sample_step\<^sup>*\<^sup>* broker_start issued" "sample_step\<^sup>*\<^sup>* broker_start requested"
proof -
  show "broker_init broker_start" by (simp add: broker_init_def broker_start_def)
  have 1: "sample_step broker_start issued" by (rule broker_step.issue [OF run_issue])
  then show "sample_step\<^sup>*\<^sup>* broker_start issued" by (rule r_into_rtranclp)
  have "sample_step issued proposed" by (rule broker_step.call [OF run_propose])
  moreover have "sample_step proposed requested" by (rule broker_step.call [OF run_request])
  ultimately show "sample_step\<^sup>*\<^sup>* broker_start requested"
    using 1 by (meson r_into_rtranclp rtranclp.rtrancl_into_rtrancl)
qed

lemma proposed_to_requested: "sample_step\<^sup>*\<^sup>* proposed requested"
  by (rule r_into_rtranclp, rule broker_step.call [OF run_request])

theorem call_in_scope_witness:
  "\<exists>c. c \<in> set (capabilities issued) \<and> ''propose_campaign_drafts'' \<in> set (cap_tools c) \<and> untouched issued proposed"
  using call_in_scope [OF run_propose] by auto

theorem replay_returns_same_witness:
  "dispatch_mcp_tool tiny_env signed_ok (Some service_secret) 12 fresh_ids (JStr ''propose_campaign_drafts'') (JObj propose_arguments)
     service_secret ''cap_cw'' requested
   = (Inr proposed_result, tool_audit bound_cap ''mcp.tool_replayed'' ''propose_campaign_drafts'' propose_arguments requested)"
proof -
  have "admit tiny_env 12 ''propose_campaign_drafts'' propose_arguments ''cap_cw'' requested = Inr (bound_cap, sample_revision)"
    by (rule sample_admit) (simp_all add: capability_tables sample_tools_def)
  then have "admit tiny_env 12 (text_of (JStr ''propose_campaign_drafts'')) (payload_dict (JObj propose_arguments)) ''cap_cw'' requested
      = Inr (bound_cap, sample_revision)" by (simp add: payload_dict_def)
  from replay_returns_same [OF sample_reachable(1,2) run_propose proposed_to_requested this] show ?thesis
    by (simp add: payload_dict_def)
qed

theorem intents_trace_to_proposals_witness:
  "sample_intent \<in> set (intents requested) \<and> (\<exists>sub \<in> set (submissions requested). \<exists>c \<in> set (capabilities requested). intent_from tiny_env sample_intent sub c)"
proof -
  have "sample_intent \<in> set (intents requested)" by (simp add: requested_def tool_audit_def record_audit_def)
  with intents_trace_to_proposals [OF sample_reachable(1,3)] show ?thesis by blast
qed

theorem broker_intent_accepted_iff_witness:
  "validate_intent tiny_env requested sample_intent sample_run = Inr []"
proof -
  have i: "sample_intent \<in> set (intents requested)" by (simp add: requested_def tool_audit_def record_audit_def)
  have w: "tfind wf_pk (in_workflow sample_intent) (workflows (base requested)) = Some sample_workflow" "wf_revision sample_workflow = in_revision sample_intent"
    "tfind rev_pk (wf_revision sample_workflow) (revisions (base requested)) = Some sample_revision"
    "digest tiny_env (JObj (snapshot sample_revision)) = Inr []"
    using sample_tables [of requested]
    by (simp_all add: sample_intent_def new_intent_def bound_cap_def sample_cap_def sample_workflow_def sample_revision_def sample_digests)
  have "tfind sub_pk (in_proposal sample_intent) (submissions requested) = Some sample_submission"
    "tfind cap_pk (sub_capability sample_submission) (capabilities requested) = Some bound_cap"
    "run_current sample_workflow sample_run" "cap_revision_digest bound_cap = []" "in_provider sample_intent = ''eventbrite''"
    "''request_eventbrite_draft'' \<in> set (cap_tools bound_cap)"
    "tfind bd_run (run_pk sample_run) (bindings requested) = Some \<lparr>bd_run = ''r'', bd_actor = ''maya'', bd_session = Some ''z'', bd_correlation = sample_id, bd_revision_digest = []\<rparr>"
    "tfind ct_run (run_pk sample_run) (controls requested) = Some \<lparr>ct_run = ''r'', ct_cancel = None, ct_capability = Some ''c'', ct_lease = Some 100, ct_disabled = False, ct_traceparent = []\<rparr>"
    by (simp_all add: broker_states sample_intent_def new_intent_def sample_submission_def bound_cap_def sample_cap_def run_current_def
        sample_workflow_def sample_run_def run_run_def sample_tools_def)
  moreover have "binding_current sample_intent [] \<lparr>bd_run = ''r'', bd_actor = ''maya'', bd_session = Some ''z'', bd_correlation = sample_id, bd_revision_digest = []\<rparr>"
    "cap_pk bound_cap = ''c''" "cap_correlation bound_cap = Some sample_id"
    by (simp_all add: binding_current_def sample_intent_def new_intent_def bound_cap_def sample_cap_def)
  ultimately show ?thesis using broker_intent_accepted_iff [OF sample_reachable(1,3) i w, of sample_run] by simp
qed

end
