(* ===== verification/Hermes_Sample.thy ===== *)
theory Hermes_Sample
  imports Hermes_Props Demo_Path Broker_Run
begin

text \<open>
  The values of a concrete life of the lane: a small synthetic event, the package that the engine
  prepares for it, and the digests of the run, by a fixed short digest function.
\<close>

section \<open>The package\<close>

text \<open>Dictionaries whose keys are distinct at every level are equal to themselves.\<close>

fun distinct_keys :: "json \<Rightarrow> bool" where
  "distinct_keys (JList vs) = list_all distinct_keys vs"
| "distinct_keys (JObj d) = (distinct (map fst d) \<and> list_all (\<lambda>(_, v). distinct_keys v) d)"
| "distinct_keys _ = True"

lemma py_eq_same: "distinct_keys v \<Longrightarrow> py_eq v v"
proof (induction v rule: distinct_keys.induct)
  case (1 vs)
  then have "list_all (\<lambda>(a, b). py_eq a b) (zip vs vs)" by (auto simp: list_all_iff in_set_zip)
  then show ?case by (simp add: py_eq.simps [of "JList vs"])
next
  case (2 d)
  have "case map_of d k of None \<Rightarrow> False | Some w \<Rightarrow> py_eq v w" if "(k, v) \<in> set d" for k v
  proof -
    have "map_of d k = Some v" using 2(2) that by (simp add: map_of_is_SomeI)
    moreover have "py_eq v v" using 2 that by (auto simp: list_all_iff)
    ultimately show ?thesis by simp
  qed
  then show ?case by (auto simp: py_eq.simps [of "JObj d"] list_all_iff)
qed (simp_all add: py_eq.simps)

lemma draft_keys: "draft e event kind = Inr v \<Longrightarrow> distinct_keys v"
  by (auto simp: draft_def Let_def engine_results)

lemma social_keys: "social e event = Inr v \<Longrightarrow> distinct_keys v"
  by (auto simp: social_def engine_results)

lemma prepare_package_keys:
  assumes "prepare_package e event = Inr p" and "distinct_keys (dget event ''sponsor_discount_percent'')"
    and "distinct_keys (dget event ''general_ticket_price'')"
  shows "distinct_keys p"
proof -
  have "distinct_keys (question f)" for f by (simp add: question_def)
  then have q: "list_all distinct_keys (map question fs)" "list_all distinct_keys (map JStr fs)" for fs
    by (simp_all add: list_all_iff)
  have "distinct_keys (lane l u t)" "distinct_keys (opt_int i)" for l u t i by (simp_all add: lane_def opt_int_def split: option.split)
  then have "distinct_keys (lanes ms a ok st)" for ms a ok st by (simp add: lanes_def Let_def)
  moreover have "audiences_get r c = Inr (Some a) \<Longrightarrow> distinct_keys a" for r c a
    by (auto simp: audiences_get_def new_york_audience_def split: if_splits)
  moreover have "sponsor_ticket_price event x = Inr v \<Longrightarrow> distinct_keys v" for x v
    by (auto simp: sponsor_ticket_price_def engine_results split: option.splits)
  ultimately show ?thesis
    using assms q draft_keys social_keys \<open>\<And>i. distinct_keys (opt_int i)\<close>
    by (auto simp: prepare_package_def Let_def engine_results evidence_def no_audience_def split: option.splits)
qed

definition lane_env :: py_env where
  "lane_env = \<lparr>sha256_hex = (\<lambda>t. CHR ''a'' # take 1 (drop 6 t)), repr_float = (\<lambda>_. ''0.0''), repr_other = (\<lambda>_. ''...'')\<rparr>"

definition lane_config :: config where
  "lane_config = demo_config\<lparr>env := lane_env\<rparr>"

definition lane_event :: dict where
  "lane_event = [(''synthetic'', JBool True), (''title'', JStr ''x''), (''city'', JStr ''x''), (''region'', JStr ''NY''), (''country'', JStr ''US''),
      (''date'', JStr ''x''), (''start_time'', JStr ''x''), (''end_time'', JStr ''x''), (''timezone'', JStr ''x''), (''venue_name'', JStr ''x''),
      (''venue_address'', JStr ''x''), (''access_instructions'', JStr ''x''), (''general_ticket_price'', JInt 40), (''signup_url'', JStr ''x''),
      (''sponsor_tier'', JStr ''gold''), (''sponsor_discount_percent'', JInt 25)]"

definition lane_package :: json where
  "lane_package = projr (prepare_package lane_env lane_event)"

lemma lane_tier: "sponsor_tier e lane_event = ''gold''"
  by (simp add: sponsor_tier_def lane_event_def dget_default_def lower_gold)

lemma lane_prepared:
  "prepare_package lane_env lane_event = Inr lane_package" "jfield lane_package ''status'' = JStr ''ready_for_review''"
  "py_eq lane_package lane_package"
proof -
  have "\<exists>p. prepare_package lane_env lane_event = Inr p"
    unfolding prepare_package_returns lane_tier by (simp add: lane_event_def seeded_simps)
  then show p: "prepare_package lane_env lane_event = Inr lane_package" by (auto simp: lane_package_def)
  show "jfield lane_package ''status'' = JStr ''ready_for_review''"
    unfolding prepare_package_ready [OF p] lane_tier
    by (simp add: REQUIRED_FIELDS_def seeded_simps eq_int_def blank_def lane_event_def)
  have "distinct_keys (dget lane_event ''sponsor_discount_percent'')" "distinct_keys (dget lane_event ''general_ticket_price'')"
    by (simp_all add: lane_event_def dget_def)
  from py_eq_same [OF prepare_package_keys [OF p this]] show "py_eq lane_package lane_package" .
qed

section \<open>Digests\<close>

lemma lane_bounded:
  assumes "walk v 0 0 \<noteq> None" and "printable v" and "length (json_dumps lane_env v) \<le> 1000"
  shows "bounded_json lane_env v = Inr (json_dumps lane_env v)"
  using assms by (auto simp: bounded_json_def Let_def MAX_PAYLOAD_BYTES_def)

lemma lane_digest:
  assumes "walk v 0 0 \<noteq> None" and "printable v" and "length (json_dumps lane_env v) \<le> 1000" and "take 1 (drop 6 (json_dumps lane_env v)) = h"
  shows "digest lane_env v = Inr (CHR ''a'' # h)"
  using assms by (simp add: digest_def lane_bounded) (simp add: lane_env_def)

definition event_value :: "string \<Rightarrow> string \<Rightarrow> json" where
  "event_value t how = JObj [(''event_type'', JStr t), (''outcome'', JStr how)]"

definition lane_action :: json where
  "lane_action = JObj [(''workflow_id'', JStr sample_id), (''revision_id'', JInt 7), (''revision_digest'', JStr ''as''),
     (''provider'', JStr ''eventbrite''), (''operation_kind'', JStr ''create_eventbrite_draft''), (''proposal_digest'', JStr ''at'')]"

definition lane_key :: json where
  "lane_key = JList [JStr sample_id, JInt 7, JStr ''maya'', JStr ''create_eventbrite_draft'', JStr ''aa'']"

lemmas lane_values = sample_id_def other_id_def sample_proposal_def lane_action_def lane_key_def event_value_def lane_event_def

lemma lane_walks:
  "walk sample_proposal 0 0 \<noteq> None" "walk lane_action 0 0 \<noteq> None" "walk lane_key 0 0 \<noteq> None" "walk (JObj lane_event) 0 0 \<noteq> None"
  "walk (event_value ''queued'' ''accepted'') 0 0 \<noteq> None" "walk (event_value ''running'' ''started'') 0 0 \<noteq> None"
  "walk (event_value ''succeeded'' ''accepted'') 0 0 \<noteq> None"
  by (simp_all add: lane_values over_def MAX_DEPTH_def MAX_PAYLOAD_BYTES_def)

lemma lane_printable:
  "printable sample_proposal" "printable lane_action" "printable lane_key" "printable (JObj lane_event)"
  "printable (event_value ''queued'' ''accepted'')" "printable (event_value ''running'' ''started'')"
  "printable (event_value ''succeeded'' ''accepted'')"
  by code_simp+

lemma lane_lengths:
  "length (json_dumps lane_env sample_proposal) \<le> 1000" "length (json_dumps lane_env lane_action) \<le> 1000"
  "length (json_dumps lane_env lane_key) \<le> 1000" "length (json_dumps lane_env (JObj lane_event)) \<le> 1000"
  "length (json_dumps lane_env (event_value ''queued'' ''accepted'')) \<le> 1000"
  "length (json_dumps lane_env (event_value ''running'' ''started'')) \<le> 1000"
  "length (json_dumps lane_env (event_value ''succeeded'' ''accepted'')) \<le> 1000"
  by code_simp+

lemma lane_digests:
  "digest lane_env sample_proposal = Inr ''at''" "digest lane_env lane_action = Inr ''aa''" "digest lane_env lane_key = Inr ''aa''"
  "digest lane_env (JObj lane_event) = Inr ''as''" "digest lane_env (event_value ''queued'' ''accepted'') = Inr ''at''"
  "digest lane_env (event_value ''running'' ''started'') = Inr ''at''" "digest lane_env (event_value ''succeeded'' ''accepted'') = Inr ''at''"
  by (rule lane_digest; (rule lane_walks lane_printable lane_lengths)?; code_simp?)+

end
