(* ===== verification/Hermes_Demo.thy ===== *)
theory Hermes_Demo
  imports Hermes_Sample
begin

text \<open>
  A concrete life of the lane: a ready workflow, a started run, a worker with its capability, a proposal
  with an operation, and the accepted result; and the witnesses that the properties of the lane are not
  vacuous.
\<close>

section \<open>The idle lane\<close>

definition lane_workflow :: workflow where
  "lane_workflow = \<lparr>wf_pk = sample_id, wf_event = 2, wf_revision = 7, status = READY_FOR_REVIEW, package = Some lane_package,
     wf_hash = package_hash lane_config lane_package, traceparent = []\<rparr>"

definition lane_revision :: revision where
  "lane_revision = \<lparr>rev_pk = 7, rev_event = 2, rev_version = 2, snapshot = lane_event, rev_author = ''maya'', source_snapshot = None\<rparr>"

definition idle_core :: draft_db where
  "idle_core = run_db\<lparr>base := run_base\<lparr>revisions := [lane_revision], workflows := [lane_workflow]\<rparr>,
     submissions := [], capabilities := [], invocations := [], intents := [], agent_runs := [], bindings := [], controls := []\<rparr>"

definition empty_money :: budget_db where
  "empty_money = \<lparr>Budget.budget_db.profiles = [], policies = [], periods = [], reservations = [], ledger = [], next_period = 1\<rparr>"

definition idle_db :: hermes_db where
  "idle_db = \<lparr>core = idle_core, money = priced, admission = \<lparr>ln_active = None, ln_disabled = False\<rparr>, run_events = [], start_receipts = []\<rparr>"

definition at_rest :: "hermes_db \<Rightarrow> hermes_machine" where
  "at_rest s = \<lparr>lane_db = s, working = []\<rparr>"

definition lane_u5 :: "string \<Rightarrow> uuid" where
  "lane_u5 t = ''r''"

abbreviation lane_step :: "hermes_machine \<Rightarrow> hermes_machine \<Rightarrow> bool" where
  "lane_step \<equiv> hermes_step lane_config lane_u5"

definition first_machine :: hermes_machine where
  "first_machine = at_rest (idle_db\<lparr>money := empty_money\<rparr>)"

lemma first_init: "hermes_init first_machine"
  by (simp add: hermes_init_def first_machine_def at_rest_def idle_db_def idle_core_def broker_init_def budget_init_def empty_money_def)

lemma idle_reachable: "lane_step\<^sup>*\<^sup>* first_machine (at_rest idle_db)"
proof -
  have "money_kept (lane_db first_machine) priced"
  proof -
    obtain s0 where "budget_init s0" "budget_step\<^sup>*\<^sup>* s0 priced" using priced_reachable by blast
    then have "budget_inv priced" by (rule budget.reachable_inv)
    then show ?thesis
      by (simp add: money_kept_def first_machine_def at_rest_def idle_db_def idle_core_def Hermes_Models.run_row_def empty_money_def)
  qed
  from hermes_step.spending [OF this] have "lane_step first_machine (at_rest idle_db)"
    by (simp add: first_machine_def at_rest_def idle_db_def)
  then show ?thesis by (rule r_into_rtranclp)
qed

section \<open>The start\<close>

definition lane_settings :: hermes_settings where
  "lane_settings = \<lparr>hs_enabled = True, hs_timeout = JInt 60, hs_inferences = JInt 4, hs_profile = ''hermes-default'', hs_profile_revision = 1\<rparr>"

definition lane_ids :: queue_ids where
  "lane_ids = \<lparr>q_correlation = sample_id, q_reservation = ''v''\<rparr>"

definition lane_reservation :: reservation where
  "lane_reservation = new_reservation ''v'' ''r'' sample_profile sample_policy 1 8000 2000 2400 60000000"

definition reserved_money :: budget_db where
  "reserved_money = priced\<lparr>periods := [sample_period\<lparr>reserved := 2400\<rparr>], reservations := [lane_reservation],
     ledger := [entry lane_reservation E_RESERVED 8000 2000 2400], next_period := 2\<rparr>"

lemma lane_reserve:
  "reserve_budget [] sample_clock ''v'' ''r'' ''hermes-default'' 1 8000 2000 (Some 60000000) priced = Inr (lane_reservation, reserved_money)"
  by code_simp

definition lane_run :: agent_run where
  "lane_run = queued_run ''r'' lane_workflow 1 1 False"

definition lane_binding :: run_binding where
  "lane_binding = \<lparr>bd_run = ''r'', bd_actor = ''maya'', bd_session = None, bd_correlation = sample_id, bd_revision_digest = ''as''\<rparr>"

definition lane_control :: run_control where
  "lane_control = \<lparr>ct_run = ''r'', ct_cancel = None, ct_capability = None, ct_lease = Some 60000000, ct_disabled = False, ct_traceparent = []\<rparr>"

definition lane_receipt :: start_receipt where
  "lane_receipt = \<lparr>sr_pk = ''k'', sr_owner = 3, sr_actor = ''maya'', sr_workflow = sample_id, sr_revision = 7, sr_run = ''r''\<rparr>"

definition logged :: "nat \<Rightarrow> string \<Rightarrow> string \<Rightarrow> draft_db \<Rightarrow> draft_db" where
  "logged n t how d = record_audit (Some ''maya'') (''hermes.'' @ t) ''agent_run'' ''r''
     [(''outcome'', JStr how), (''sequence'', JInt (int n))] d"

definition queued_core :: draft_db where
  "queued_core = logged 1 ''queued'' ''accepted''
     (idle_core\<lparr>agent_runs := [lane_run], base := protect_rows lane_run (base idle_core), bindings := [lane_binding], controls := [lane_control]\<rparr>)"

definition queued_event :: run_event where
  "queued_event = \<lparr>ev_run = ''r'', ev_sequence = 1, ev_type = ''queued'', ev_outcome = ''accepted'', ev_digest = ''at''\<rparr>"

definition queued_db :: hermes_db where
  "queued_db = \<lparr>core = queued_core, money = reserved_money, admission = \<lparr>ln_active = Some ''r'', ln_disabled = False\<rparr>,
     run_events = [queued_event], start_receipts = [lane_receipt]\<rparr>"

lemma lane_hash: "package_hash lane_config lane_package \<noteq> []" "length (package_hash lane_config lane_package) \<le> 64"
  by (simp_all add: package_hash_def lane_config_def lane_env_def)

lemma lane_actor: "tfind slug ''maya'' (actors (base idle_core)) =
    Some \<lparr>slug = ''maya'', display_name = ''Maya'', actor_role = OPERATOR, actor_user = Some 3\<rparr>"
  by (simp add: idle_core_def run_db_def run_base_def)

lemma lane_kind: "kind_of lane_revision = Synthetic"
  by (simp add: kind_of_def source_kind_of_def lane_revision_def lane_event_def dget_def)

lemma lane_ready: "ready lane_config lane_workflow lane_revision 7 h = Inr (h = None \<or> h = Some (wf_hash lane_workflow))"
  using lane_prepared
  by (auto simp: ready_def package_current_def lane_workflow_def lane_revision_def lane_event_def dget_def lane_config_def split: option.split)

lemma lane_admitted: "admitted lane_config 0 sample_id 7 ''maya'' sid idle_core = Inr (lane_workflow, False, None)"
proof -
  have "tfind wf_pk sample_id (workflows (base idle_core)) = Some lane_workflow" "tfind rev_pk (wf_revision lane_workflow) (revisions (base idle_core)) = Some lane_revision"
    "operator_active idle_core \<lparr>slug = ''maya'', display_name = ''Maya'', actor_role = OPERATOR, actor_user = Some 3\<rparr>"
    by (simp_all add: idle_core_def lane_workflow_def lane_revision_def operator_active_def run_db_def)
  then show ?thesis by (simp add: admitted_def lane_actor lane_kind lane_ready ensure_def)
qed

lemma lane_profile: "workflow_profile lane_settings priced = Inr (sample_profile, sample_policy)"
  by (simp add: workflow_profile_def lane_settings_def priced_def sample_profile_def sample_policy_def)

lemma lane_config_env [simp]: "env lane_config = lane_env"
  by (simp add: lane_config_def)

lemma lane_event_logged:
  assumes "digest lane_env (event_value t how) = Inr h"
    and "list_all (\<lambda>v. ev_run v = ''r'') (run_events s)" and "map ev_sequence (run_events s) = [1..<Suc n]"
    and "tfind bd_run ''r'' (bindings (core s)) = Some lane_binding"
  shows "add_event lane_env ''r'' t how s = Inr (s\<lparr>run_events := run_events s @ [\<lparr>ev_run = ''r'', ev_sequence = Suc n, ev_type = t, ev_outcome = how, ev_digest = h\<rparr>],
     core := logged (Suc n) t how (core s)\<rparr>)"
proof -
  have "filter (\<lambda>v. ev_run v = ''r'') (run_events s) = run_events s" using assms(2) by (simp add: list_all_iff filter_id_conv)
  then have l: "last_sequence s ''r'' = n" using assms(3) foldr_max_upt [of n 0] by (simp add: last_sequence_def)
  have "\<not> list_ex (\<lambda>x. ev_run x = ''r'' \<and> ev_sequence x = Suc n) (run_events s)"
  proof
    assume "list_ex (\<lambda>x. ev_run x = ''r'' \<and> ev_sequence x = Suc n) (run_events s)"
    then have "Suc n \<in> set (map ev_sequence (run_events s))" by (auto simp: list_ex_iff image_iff intro: bexI [rotated] sym)
    then show False using assms(3) by simp
  qed
  with l assms show ?thesis
    by (simp add: add_event_def event_value_def create_event_def ensure_def binding_row_def logged_def lane_binding_def)
qed

lemma lane_slug: "slug_text ''launchloop_synthetic_v1''"
  by code_simp

lemma lane_run_columns:
  assumes "Hermes_Models.references_clean s lane_run" and "one_active_hermes_run s lane_run"
  shows "run_clean s lane_run"
  using assms lane_hash lane_slug
  by (simp add: run_clean_def columns_clean_def fixture_clean_def fixture_of_def lifecycle_clean_def lane_run_def queued_run_def FIXTURE_def
      lane_workflow_def)

lemma idle_reads:
  "core idle_db = idle_core" "money idle_db = priced" "admission idle_db = \<lparr>ln_active = None, ln_disabled = False\<rparr>" "run_events idle_db = []"
  "start_receipts idle_db = []" "agent_runs idle_core = []" "bindings idle_core = []" "controls idle_core = []"
  "tfind wf_pk sample_id (workflows (base idle_core)) = Some lane_workflow" "tfind rev_pk 7 (revisions (base idle_core)) = Some lane_revision"
  by (simp_all add: idle_db_def idle_core_def lane_workflow_def lane_revision_def)

lemma lane_rows:
  "queue_rows lane_env lane_run ''maya'' None sample_id 60000000 (idle_db\<lparr>money := reserved_money\<rparr>) = Inr (queued_db\<lparr>start_receipts := []\<rparr>)"
proof -
  let ?m = "idle_db\<lparr>money := reserved_money\<rparr>"
  let ?d1 = "idle_core\<lparr>agent_runs := [lane_run], base := protect_rows lane_run (base idle_core)\<rparr>"
  have run: "run_pk lane_run = ''r''" "run_revision lane_run = 7" "run_workflow lane_run = sample_id"
    by (simp_all add: lane_run_def lane_workflow_def)
  have "references_clean ?m lane_run"
    by (simp add: references_clean_def idle_reads run) (simp add: lane_revision_def lane_workflow_def reserved_money_def priced_def
        lane_run_def queued_run_def sample_policy_def sample_profile_def)
  moreover have "one_active_hermes_run ?m lane_run" by (simp add: one_active_hermes_run_def idle_reads)
  ultimately have s1: "save_run lane_run ?m = Inr (?m\<lparr>core := ?d1\<rparr>)"
    using lane_run_columns by (simp add: save_run_def Hermes_Models.run_row_def idle_reads)
  have s2: "create_binding lane_env \<lparr>bd_run = ''r'', bd_actor = ''maya'', bd_session = None, bd_correlation = sample_id, bd_revision_digest = []\<rparr> 7 (?m\<lparr>core := ?d1\<rparr>)
      = Inr (?m\<lparr>core := ?d1\<lparr>bindings := [lane_binding]\<rparr>\<rparr>)"
    by (simp add: create_binding_def hermes_simps idle_reads ensure_def) (simp add: lane_revision_def lane_digests lane_binding_def)
  have s3: "create_control lane_control (?m\<lparr>core := ?d1\<lparr>bindings := [lane_binding]\<rparr>\<rparr>)
      = Inr (?m\<lparr>core := ?d1\<lparr>bindings := [lane_binding], controls := [lane_control]\<rparr>\<rparr>)"
    by (simp add: create_control_def idle_reads ensure_def)
  let ?s3 = "set_lane \<lparr>ln_active = Some ''r'', ln_disabled = False\<rparr> (?m\<lparr>core := ?d1\<lparr>bindings := [lane_binding], controls := [lane_control]\<rparr>\<rparr>)"
  have "add_event lane_env ''r'' ''queued'' ''accepted'' ?s3 = Inr (queued_db\<lparr>start_receipts := []\<rparr>)"
    by (subst lane_event_logged [OF lane_digests(5), where n = 0])
      (simp_all add: hermes_simps idle_reads lane_binding_def, simp add: queued_db_def queued_core_def queued_event_def idle_db_def set_lane_def lane_binding_def)
  then show ?thesis using s1 s2 s3
    by (simp add: queue_rows_def run hermes_simps idle_reads lane_control_def)
qed

lemma lane_start:
  "start_hermes_run lane_config lane_u5 lane_settings sample_clock lane_ids ''k'' sample_id 7 ''maya'' None idle_db = Inr (lane_run, queued_db)"
proof -
  have o: "lane_open lane_settings idle_db" by (simp add: lane_open_def lane_settings_def idle_reads)
  have t: "hermes_timeout lane_settings = Inr 60" by (simp add: hermes_timeout_def lane_settings_def)
  have pr: "protected_runs idle_db = []" by (simp add: protected_runs_def idle_reads)
  have "queue_body lane_config lane_u5 lane_settings sample_clock lane_ids sample_id 7 ''maya'' None idle_db
      = Inr (lane_run, queued_db\<lparr>start_receipts := []\<rparr>)"
    using lane_admitted lane_profile lane_reserve lane_rows
    by (simp add: queue_body_def o t pr idle_reads ensure_def run_id_of_def lane_u5_def lane_ids_def sample_clock_def SECOND_def
        sample_profile_def sample_policy_def lane_run_def)
  moreover have "operator_active idle_core \<lparr>slug = ''maya'', display_name = ''Maya'', actor_role = OPERATOR, actor_user = Some 3\<rparr>"
    by (simp add: operator_active_def idle_core_def run_db_def)
  ultimately show ?thesis
    by (simp add: start_hermes_run_def ensure_def idle_reads lane_actor queue_hermes_run_def translate_def create_receipt_def)
      (simp add: queued_db_def lane_receipt_def lane_run_def)
qed


section \<open>The worker\<close>

definition lane_cap :: "uuid option \<Rightarrow> capability" where
  "lane_cap q = \<lparr>cap_pk = ''c'', cap_revision_digest = ''as'', cap_workflow = sample_id, cap_revision = 7, cap_actor = ''maya'',
     cap_tools = sort TOOLS, cap_audience = AUDIENCE, cap_correlation = q, cap_token = ''a'',
     cap_issued = 0, cap_expires = 60000000, cap_revoked = None\<rparr>"

definition begun_control :: run_control where
  "begun_control = lane_control\<lparr>ct_capability := Some ''c'', ct_traceparent := []\<rparr>"

definition begun_run :: agent_run where
  "begun_run = started_run 0 None lane_run"

definition begun_core :: draft_db where
  "begun_core = logged 2 ''running'' ''started''
     ((record_audit (Some ''maya'') ''mcp.capability_issued'' ''workflow'' sample_id [(''capability_id'', JStr ''c'')]
        (queued_core\<lparr>capabilities := [lane_cap None]\<rparr>))\<lparr>capabilities := [lane_cap (Some sample_id)], controls := [begun_control], agent_runs := [begun_run]\<rparr>)"

definition running_event :: run_event where
  "running_event = \<lparr>ev_run = ''r'', ev_sequence = 2, ev_type = ''running'', ev_outcome = ''started'', ev_digest = ''at''\<rparr>"

definition begun_db :: hermes_db where
  "begun_db = queued_db\<lparr>run_events := [queued_event, running_event], core := begun_core\<rparr>"

lemma queued_reads:
  "core queued_db = queued_core" "money queued_db = reserved_money" "admission queued_db = \<lparr>ln_active = Some ''r'', ln_disabled = False\<rparr>"
  "run_events queued_db = [queued_event]" "start_receipts queued_db = [lane_receipt]"
  "agent_runs queued_core = [lane_run]" "bindings queued_core = [lane_binding]" "controls queued_core = [lane_control]" "capabilities queued_core = []"
  "submissions queued_core = []" "intents queued_core = []" "invocations queued_core = []"
  "workflows (base queued_core) = workflows (base idle_core)" "revisions (base queued_core) = revisions (base idle_core)"
  "actors (base queued_core) = actors (base idle_core)" "active_users queued_core = active_users idle_core"
  by (simp_all add: queued_db_def queued_core_def logged_def hermes_simps, simp_all add: idle_core_def)

lemma lane_token: "token_digest lane_env ''cap_cw'' = ''a''"
  by (simp add: token_digest_def lane_env_def)

lemma lane_rows_pk [simp]: "run_pk lane_run = ''r''" "hermes_lane lane_run" "run_status lane_run = RUN_QUEUED" "run_workflow lane_run = sample_id"
  "run_revision lane_run = 7" "bd_run lane_binding = ''r''" "ct_run lane_control = ''r''" "ct_run begun_control = ''r''" "run_pk begun_run = ''r''"
  "hermes_lane begun_run" "run_status begun_run = RUN_RUNNING" "run_workflow begun_run = sample_id" "run_revision begun_run = 7"
  "run_hash lane_run = wf_hash lane_workflow" "run_hash begun_run = wf_hash lane_workflow"
  by (simp_all add: lane_run_def lane_workflow_def lane_binding_def lane_control_def begun_control_def begun_run_def started_run_def)

lemma lane_check:
  assumes "run = lane_run \<or> run = begun_run" and "ct = lane_control \<or> ct = begun_control" and "now < 60000000"
    and "actors (base d) = actors (base idle_core)" and "active_users d = active_users idle_core" and "revisions (base d) = revisions (base idle_core)"
    and "case cap of None \<Rightarrow> True | Some k \<Rightarrow> capability_usable now run lane_binding k"
  shows "check_run lane_config lane_settings now run lane_binding ct lane_workflow cap d = Inr ()"
proof -
  have priv: "run_privacy run = SYNTHETIC_FULL" "fixture_of run = FIXTURE" "run_revision run = 7" "run_hash run = wf_hash lane_workflow"
    using assms(1) by (auto simp: lane_run_def begun_run_def started_run_def queued_run_def fixture_of_def FIXTURE_def lane_workflow_def)
  have "bd_session lane_binding = None" "bd_actor lane_binding = ''maya''" "bd_revision_digest lane_binding = ''as''"
    "wf_revision lane_workflow = 7" "snapshot lane_revision = lane_event"
    by (simp_all add: lane_binding_def lane_workflow_def lane_revision_def)
  moreover have "operator_active d \<lparr>slug = ''maya'', display_name = ''Maya'', actor_role = OPERATOR, actor_user = Some 3\<rparr>"
    using assms(5) by (simp add: operator_active_def idle_core_def run_db_def)
  moreover have "ct_cancel ct = None" "ct_lease ct = Some 60000000" using assms(2) by (auto simp: lane_control_def begun_control_def)
  moreover have "hs_enabled lane_settings" by (simp add: lane_settings_def)
  ultimately show ?thesis
    using assms(3,7) by (auto simp: check_run_def deny_def assms(4,6) lane_actor idle_reads run_ready_def priv lane_ready lane_digests split: option.splits)
qed

lemma lane_begin:
  "begin_run lane_config lane_settings 0 ''s'' ''c'' None True ''r'' queued_db = (Begun ''cap_cw'' begun_run, begun_db)"
proof -
  have row: "Hermes_Models.run_row queued_db ''r'' = Some lane_run" "owns_run lane_run queued_db = (True, queued_db)"
    by (simp_all add: Hermes_Models.run_row_def owns_run_def binding_row_def control_row_def queued_reads)
  have ch: "check_run lane_config lane_settings 0 lane_run lane_binding lane_control lane_workflow None queued_core = Inr ()"
    by (rule lane_check) (simp_all add: queued_reads)
  let ?d = "record_audit (Some ''maya'') ''mcp.capability_issued'' ''workflow'' sample_id [(''capability_id'', JStr ''c'')]
      (queued_core\<lparr>capabilities := [lane_cap None]\<rparr>)"
  have tools: "TOOLS \<noteq> []" by (simp add: TOOLS_def)
  have life: "lifetime_of 0 lane_control = 60" by (simp add: lifetime_of_def lane_control_def SECOND_def)
  have act: "operator_active queued_core \<lparr>slug = ''maya'', display_name = ''Maya'', actor_role = OPERATOR, actor_user = Some 3\<rparr>"
    by (simp add: operator_active_def queued_reads) (simp add: idle_core_def run_db_def)
  have iss: "issue_workflow_capability lane_env 0 ''s'' ''c'' sample_id 7 ''maya'' TOOLS 60 queued_core = Inr (''cap_cw'', ?d)"
    by (simp add: issue_workflow_capability_def refuse_def tools queued_reads idle_reads lane_actor act sample_token lane_token)
      (simp add: lane_workflow_def lane_revision_def lane_digests lane_cap_def SECOND_def)
  let ?s1 = "queued_db\<lparr>core := ?d\<lparr>capabilities := [lane_cap (Some sample_id)], controls := [begun_control]\<rparr>\<rparr>"
  have "references_clean ?s1 lane_run"
    by (simp add: references_clean_def hermes_simps queued_reads idle_reads) (simp add: lane_revision_def lane_workflow_def reserved_money_def priced_def
        lane_run_def queued_run_def sample_policy_def sample_profile_def)
  then have "references_clean ?s1 begun_run" using immutable_clean(2) [of begun_run lane_run] by (simp add: begun_run_def started_run_def immutable_binding_def)
  moreover have "columns_clean begun_run \<and> fixture_clean begun_run" using lane_hash lane_slug
    by (simp add: columns_clean_def fixture_clean_def fixture_of_def begun_run_def started_run_def span_trace_def lane_run_def queued_run_def
        FIXTURE_def lane_workflow_def)
  moreover have "lifecycle_clean begun_run" by (simp add: lifecycle_clean_def begun_run_def started_run_def) (simp add: lane_run_def queued_run_def)
  moreover have "one_active_hermes_run ?s1 begun_run" by (simp add: one_active_hermes_run_def hermes_simps queued_reads)
  moreover have "immutable_binding begun_run = immutable_binding lane_run" by (simp add: begun_run_def started_run_def immutable_binding_def)
  ultimately have sv: "save_run begun_run ?s1 = Inr (set_runs [begun_run] ?s1)"
    by (simp add: save_run_def Hermes_Models.run_row_def run_clean_def hermes_simps queued_reads)
  have ev: "add_event lane_env ''r'' ''running'' ''started'' (set_runs [begun_run] ?s1) = Inr begun_db"
    by (subst lane_event_logged [OF lane_digests(6), where n = 1])
      (simp_all add: hermes_simps queued_reads, simp_all add: begun_db_def begun_core_def queued_event_def running_event_def set_runs_def numeral_2_eq_2)
  have fields: "bd_actor lane_binding = ''maya''" "bd_correlation lane_binding = sample_id" "cap_token (lane_cap q) = ''a''" "cap_pk (lane_cap q) = ''c''"
    "ct_disabled lane_control = False" "(lane_cap None)\<lparr>cap_correlation := Some sample_id\<rparr> = lane_cap (Some sample_id)"
    "lane_control\<lparr>ct_capability := Some ''c'', ct_traceparent := []\<rparr> = begun_control" "started_run 0 None lane_run = begun_run" for q
    by (simp_all add: lane_binding_def lane_cap_def lane_control_def begun_control_def begun_run_def)
  have "begin_body lane_config lane_settings 0 ''s'' ''c'' None True lane_run queued_db = Inr (''cap_cw'', begun_run, begun_db)"
    using ch iss sv ev
    by (simp add: begin_body_def binding_row_def control_row_def queued_reads idle_reads deny_def life lane_token hermes_simps Let_def
        save_control_def span_parent_def fields)
  then show ?thesis using row by (simp add: begin_run_def run_active_def)
qed


section \<open>The result\<close>

definition lane_submission :: submission where
  "lane_submission = \<lparr>sub_pk = other_id, sub_capability = ''c'', sub_kind = ''proposal'', sub_content = sample_proposal, sub_digest = ''at''\<rparr>"

definition lane_intent :: draft_operation where
  "lane_intent = new_intent ''i'' (lane_cap (Some sample_id)) ''eventbrite'' ''create_eventbrite_draft'' lane_submission ''aa'' ''aa''"

definition proposed_core :: draft_db where
  "proposed_core = begun_core\<lparr>submissions := [lane_submission], intents := [lane_intent]\<rparr>"

definition proposed_machine :: hermes_machine where
  "proposed_machine = \<lparr>lane_db = begun_db\<lparr>core := proposed_core\<rparr>, working = [(''r'', ''cap_cw'')]\<rparr>"

lemma begun_reads:
  "core begun_db = begun_core" "money begun_db = reserved_money" "admission begun_db = \<lparr>ln_active = Some ''r'', ln_disabled = False\<rparr>"
  "run_events begun_db = [queued_event, running_event]"
  "agent_runs begun_core = [begun_run]" "bindings begun_core = [lane_binding]" "controls begun_core = [begun_control]"
  "capabilities begun_core = [lane_cap (Some sample_id)]" "submissions begun_core = []" "intents begun_core = []" "invocations begun_core = []"
  "workflows (base begun_core) = workflows (base idle_core)" "revisions (base begun_core) = revisions (base idle_core)"
  "actors (base begun_core) = actors (base idle_core)" "active_users begun_core = active_users idle_core"
  by (simp_all add: begun_db_def queued_reads) (simp_all add: begun_core_def logged_def hermes_simps queued_reads)

lemma proposed_reads:
  "agent_runs proposed_core = [begun_run]" "bindings proposed_core = [lane_binding]" "controls proposed_core = [begun_control]"
  "capabilities proposed_core = [lane_cap (Some sample_id)]" "submissions proposed_core = [lane_submission]" "intents proposed_core = [lane_intent]"
  "workflows (base proposed_core) = workflows (base idle_core)" "revisions (base proposed_core) = revisions (base idle_core)"
  "actors (base proposed_core) = actors (base idle_core)" "active_users proposed_core = active_users idle_core"
  by (simp_all add: proposed_core_def begun_reads)

lemma lane_reachable:
  "lane_step\<^sup>*\<^sup>* first_machine (at_rest idle_db)" "lane_step\<^sup>*\<^sup>* first_machine (at_rest queued_db)"
  "lane_step\<^sup>*\<^sup>* first_machine \<lparr>lane_db = begun_db, working = [(''r'', ''cap_cw'')]\<rparr>" "fresh_ids_for lane_u5 lane_ids idle_db"
proof -
  show fresh: "fresh_ids_for lane_u5 lane_ids idle_db"
    by (simp add: fresh_ids_for_def reservation_row_def idle_reads) (simp add: priced_def)
  show 1: "lane_step\<^sup>*\<^sup>* first_machine (at_rest idle_db)" by (rule idle_reachable)
  have "lane_step (at_rest idle_db) (at_rest queued_db)"
    using hermes_step.start [of lane_u5 lane_ids "at_rest idle_db" lane_config lane_settings sample_clock "''k''" sample_id 7 "''maya''" None lane_run queued_db]
      lane_start fresh by (simp add: at_rest_def)
  with 1 show 2: "lane_step\<^sup>*\<^sup>* first_machine (at_rest queued_db)" by (rule rtranclp.rtrancl_into_rtrancl)
  have "lane_step (at_rest queued_db) \<lparr>lane_db = begun_db, working = [(''r'', ''cap_cw'')]\<rparr>"
    using hermes_step.begin_ [of lane_config lane_settings 0 "''s''" "''c''" None True "''r''" "at_rest queued_db" "Begun ''cap_cw'' begun_run" begun_db lane_u5]
      lane_begin by (simp add: at_rest_def now_working_def)
  with 2 show "lane_step\<^sup>*\<^sup>* first_machine \<lparr>lane_db = begun_db, working = [(''r'', ''cap_cw'')]\<rparr>" by (rule rtranclp.rtrancl_into_rtrancl)
qed

lemma lane_operation_values:
  "broker_action (lane_cap (Some sample_id)) ''eventbrite'' ''create_eventbrite_draft'' lane_submission = lane_action"
  "broker_idempotency (lane_cap (Some sample_id)) ''create_eventbrite_draft'' ''aa'' = lane_key"
  by (simp_all add: broker_action_def broker_idempotency_def lane_cap_def lane_submission_def lane_action_def lane_key_def)

lemma proposed_reachable: "lane_step\<^sup>*\<^sup>* first_machine proposed_machine"
proof -
  let ?m = "\<lparr>lane_db = begun_db, working = [(''r'', ''cap_cw'')]\<rparr>" and ?c = "lane_cap (Some sample_id)"
  have inv: "hermes_inv lane_env begun_db" using reachable_hermes [OF first_init lane_reachable(3)] by simp
  then have b: "broker_inv lane_env begun_core" using invD(1) begun_reads(1) by metis
  have sub: "sub_from lane_env lane_submission ?c"
    by (simp add: sub_from_def lane_submission_def lane_digests sample_proposal_valid) (simp add: lane_cap_def)
  have op: "intent_from lane_env lane_intent lane_submission ?c"
    by (simp add: intent_from_def lane_operation_values lane_intent_def new_intent_def lane_digests)
      (simp add: lane_submission_def lane_cap_def intent_pending_def PROVIDER_KINDS_def lane_operation_values lane_digests)
  have "broker_inv lane_env proposed_core"
    using b sub op unfolding broker_inv_def broker_keys_def by (simp add: proposed_core_def begun_reads keys_ok_def)
  then have "keeps lane_env begun_core proposed_core"
    by (simp add: keeps_def grows_def proposed_core_def caps_kept_refl begun_reads)
  moreover have "others_kept begun_db proposed_core"
    by (rule others_same [OF inv]) (simp_all add: proposed_reads begun_reads)
  ultimately have "lane_step ?m proposed_machine"
    using hermes_step.elsewhere [of lane_config ?m proposed_core lane_u5] by (simp add: proposed_machine_def begun_reads)
  with lane_reachable(3) show ?thesis by (rule rtranclp.rtrancl_into_rtrancl)
qed

definition lane_result :: dict where
  "lane_result = [(''run_id'', JStr ''r''), (''workflow_id'', JStr sample_id), (''revision_id'', JInt 7), (''status'', JStr ''succeeded''),
     (''proposal_references'', JList [JObj [(''proposal_id'', JStr other_id), (''schema_id'', JStr PROPOSAL_SCHEMA_ID), (''proposal_digest'', JStr ''at'')]]),
     (''usage'', JObj [(''input_tokens'', JInt 1000), (''output_tokens'', JInt 10), (''cost_microusd'', JInt 156)])]"

lemma lane_operations: "run_operations proposed_core (Some ''c'') = [lane_intent]"
  by (simp add: run_operations_def proposed_reads) (simp add: lane_intent_def new_intent_def lane_submission_def)

lemma lane_validated:
  "validate_result lane_env (begun_db\<lparr>core := proposed_core\<rparr>) begun_run lane_binding begun_control lane_revision lane_result = Inr (1000, 10)"
proof -
  let ?ref = "JObj [(''proposal_id'', JStr other_id), (''schema_id'', JStr PROPOSAL_SCHEMA_ID), (''proposal_digest'', JStr ''at'')]"
  have cap: "ct_capability begun_control = Some ''c''" by (simp add: begun_control_def)
  have refs: "references_of lane_result = Inr [?ref]" "ref_ids [?ref] = Inr [other_id]"
    by (simp_all add: references_of_def lane_result_def dget_def ref_id_def)
  have p: "referenced_proposals lane_env proposed_core (Some ''c'') [?ref] = Inr [other_id]"
    by (simp add: referenced_proposal_def ref_id_def proposed_reads reject_def jfield_def dget_def)
      (simp add: lane_submission_def lane_digests sample_proposal_valid reject_def)
  have act: "operation_action begun_run lane_binding lane_intent lane_submission = lane_action"
    "operation_key begun_run lane_binding lane_intent ''aa'' = lane_key"
    by (simp_all add: operation_action_def operation_key_def) (simp_all add: lane_intent_def new_intent_def lane_binding_def lane_submission_def
        lane_action_def lane_key_def)
  have op: "operation_ok begun_run lane_binding [other_id] lane_intent" "in_proposal lane_intent = other_id" "in_action_digest lane_intent = ''aa''"
    "in_idempotency lane_intent = ''aa''"
    by (simp_all add: operation_ok_def lane_intent_def new_intent_def lane_submission_def lane_cap_def lane_binding_def PROVIDER_KINDS_def)
  have sub: "tfind sub_pk other_id (submissions proposed_core) = Some lane_submission" by (simp add: proposed_reads lane_submission_def)
  have "validate_outputs lane_env proposed_core begun_run lane_binding begun_control lane_revision lane_result = Inr ()"
    using refs p op by (simp add: validate_outputs_def cap reject_def lane_operations lane_kind validate_operation_def sub act lane_digests)
  moreover have "result_identity_ok begun_run lane_result"
    by (simp add: result_identity_ok_def) (simp add: lane_result_def dget_def eq_int_def)
  moreover have "dget lane_result ''status'' = JStr ''succeeded''" by (simp add: lane_result_def dget_def)
  moreover have "validate_usage [sample_profile] begun_run lane_result = Inr (1000, 10)"
    by (simp add: validate_usage_def usage_of_def lane_result_def dget_def jfield_def reject_def begun_run_def started_run_def lane_run_def queued_run_def)
      (simp add: sample_profile_def cost_of_def reject_def)
  moreover have "Budget.profiles reserved_money = [sample_profile]" by (simp add: reserved_money_def priced_def)
  ultimately show ?thesis by (simp add: validate_result_def reject_def begun_reads)
qed

lemma lane_settled:
  "\<exists>s'. settle_success lane_env 9 ''cap_cw'' begun_run 1000 10 (begun_db\<lparr>core := proposed_core\<rparr>) = Inr s'"
proof -
  let ?s = "begun_db\<lparr>core := proposed_core\<rparr>"
  obtain d where d: "revoke_workflow_capability lane_env 9 ''cap_cw'' proposed_core = Inr d" "agent_runs d = [begun_run]" "bindings d = [lane_binding]"
    "workflows (base d) = workflows (base idle_core)" "revisions (base d) = revisions (base idle_core)"
    by (simp add: revoke_workflow_capability_def lane_token proposed_reads lane_cap_def hermes_simps)
  obtain x m where m: "settle_budget ''r'' 1000 10 reserved_money = Inr (x, m)"
    "x = lane_reservation\<lparr>res_status := SETTLED, settled_input := Some 1000, settled_output := Some 10, settled_cost := Some 156\<rparr>"
  proof -
    have "case settle_budget ''r'' 1000 10 reserved_money of Inr (x, _) \<Rightarrow>
        x = lane_reservation\<lparr>res_status := SETTLED, settled_input := Some 1000, settled_output := Some 10, settled_cost := Some 156\<rparr> | _ \<Rightarrow> False"
      by code_simp
    then show thesis using that by (auto split: sum.splits)
  qed
  have bi: "budget_inv reserved_money" using invD(2) [OF reachable_hermes [OF first_init lane_reachable(3)]] by (simp add: begun_reads)
  have pr: "same_prices reserved_money m" using settle_budget_frame [OF bi m(1)] by blast
  let ?r = "succeeded_run 9 x begun_run" and ?s1 = "?s\<lparr>core := d, money := m\<rparr>"
  have use: "with_usage (Some x) begun_run = begun_run\<lparr>run_input := 1000, run_output := 10, run_cost := 156\<rparr>" by (simp add: with_usage_def m(2))
  have r: "?r = begun_run\<lparr>run_input := 1000, run_output := 10, run_cost := 156, run_status := RUN_SUCCEEDED, finished_at := Some 9\<rparr>"
    by (simp add: succeeded_run_def use)
  have imm: "immutable_binding ?r = immutable_binding begun_run" "immutable_binding ?r = immutable_binding lane_run"
    by (simp_all add: r immutable_binding_def) (simp_all add: begun_run_def started_run_def)
  have "references_clean ?s1 lane_run"
    using pr by (simp add: references_clean_def d idle_reads same_prices_def) (simp add: lane_revision_def lane_workflow_def reserved_money_def priced_def
        lane_run_def queued_run_def sample_policy_def sample_profile_def)
  then have "references_clean ?s1 ?r" using immutable_clean(2) [OF imm(2)] by simp
  moreover have "columns_clean ?r \<and> fixture_clean ?r \<and> lifecycle_clean ?r \<and> one_active_hermes_run ?s1 ?r"
    unfolding r using lane_hash lane_slug
    by (simp add: columns_clean_def fixture_clean_def fixture_of_def begun_run_def started_run_def span_trace_def lane_run_def
        queued_run_def FIXTURE_def lane_workflow_def lifecycle_clean_def one_active_hermes_run_def run_active_def)
  ultimately have "run_clean ?s1 ?r" by (simp add: run_clean_def)
  moreover have pk: "run_pk ?r = ''r''" by (simp add: succeeded_run_def)
  ultimately have sv: "save_run ?r ?s1 = Inr (set_runs [?r] ?s1)"
    using imm(1) by (simp add: save_run_def Hermes_Models.run_row_def d)
  have "\<exists>s2. add_event lane_env ''r'' ''succeeded'' ''accepted'' (set_runs [?r] ?s1) = Inr s2"
    by (subst lane_event_logged [OF lane_digests(7), where n = "Suc (Suc 0)"])
      (simp_all add: hermes_simps begun_reads d, simp_all add: queued_event_def running_event_def numeral_2_eq_2)
  then show ?thesis using d(1) m(1) sv by (auto simp: settle_success_def begun_reads quarantine_def)
qed

lemma lane_completes:
  "\<exists>s'. complete_run lane_config lane_settings 9 ''cap_cw'' ''r'' lane_result (begun_db\<lparr>core := proposed_core\<rparr>) = Inr s'"
proof -
  let ?s = "begun_db\<lparr>core := proposed_core\<rparr>" and ?c = "lane_cap (Some sample_id)"
  have rows: "Hermes_Models.run_row ?s ''r'' = Some begun_run" "control_row ?s ''r'' = Some begun_control" "binding_row ?s ''r'' = Some lane_binding"
    by (simp_all add: Hermes_Models.run_row_def control_row_def binding_row_def proposed_reads)
  have cap: "ct_capability begun_control = Some ''c''" "cap_pk ?c = ''c''" by (simp_all add: begun_control_def lane_cap_def)
  have ch: "check_run lane_config lane_settings 9 begun_run lane_binding begun_control lane_workflow (Some ?c) proposed_core = Inr ()"
    by (rule lane_check) (simp_all add: proposed_reads, simp add: capability_usable_def, simp add: lane_cap_def lane_binding_def)
  show ?thesis using lane_settled
    by (simp add: complete_run_def rows cap deny_def proposed_reads idle_reads begun_reads ch lane_validated)
qed


section \<open>Witnesses\<close>

abbreviation begun_machine :: hermes_machine where
  "begun_machine \<equiv> \<lparr>lane_db = begun_db, working = [(''r'', ''cap_cw'')]\<rparr>"

lemma lane_rows_at:
  "Hermes_Models.run_row (lane_db (at_rest queued_db)) ''r'' = Some lane_run" "control_row (lane_db (at_rest queued_db)) ''r'' = Some lane_control"
  "Hermes_Models.run_row (lane_db begun_machine) ''r'' = Some begun_run" "control_row (lane_db begun_machine) ''r'' = Some begun_control"
  "ct_cancel lane_control = None" "run_active lane_run" "run_active begun_run"
  by (simp_all add: row_defs at_rest_def queued_reads begun_reads run_active_def) (simp add: lane_control_def)

lemma cancelled_reachable:
  "\<exists>m r. lane_step\<^sup>*\<^sup>* first_machine m \<and> Hermes_Models.run_row (lane_db m) ''r'' = Some r \<and> hermes_lane r \<and> run_status r = RUN_CANCELLED"
proof -
  have inv: "hermes_inv lane_env (lane_db (at_rest queued_db))" using reachable_hermes [OF first_init lane_reachable(2)] by simp
  obtain x where x: "reservation_row (lane_db (at_rest queued_db)) ''r'' = Some x" using run_rowsE [OF inv lane_rows_at(1)] by auto
  obtain s' where s': "cancel_hermes_run lane_env 5 ''r'' (lane_db (at_rest queued_db)) = Inr s'"
    "Hermes_Models.run_row s' ''r'' = Some (ended_run 5 F_CANCELLED (with_usage (Some (released x)) lane_run))"
    using cancel_ok [OF inv lane_rows_at(1) _ lane_rows_at(6,2,5) x, of 5] by auto
  have "lane_step (at_rest queued_db) ((at_rest queued_db)\<lparr>lane_db := s'\<rparr>)"
    using hermes_step.cancel [of lane_config 5 "''r''" "at_rest queued_db" s' lane_u5] s'(1) by simp
  with lane_reachable(2) have "lane_step\<^sup>*\<^sup>* first_machine ((at_rest queued_db)\<lparr>lane_db := s'\<rparr>)" by (rule rtranclp.rtrancl_into_rtrancl)
  then show ?thesis using s'(2)
    by (intro exI [of _ "(at_rest queued_db)\<lparr>lane_db := s'\<rparr>"] exI [of _ "ended_run 5 F_CANCELLED (with_usage (Some (released x)) lane_run)"]) simp
qed

lemma closed_reachable: "\<exists>m. lane_step\<^sup>*\<^sup>* first_machine m \<and> ln_disabled (admission (lane_db m))"
proof -
  have inv: "hermes_inv lane_env (lane_db begun_machine)" using reachable_hermes [OF first_init lane_reachable(3)] by simp
  obtain x where x: "reservation_row (lane_db begun_machine) ''r'' = Some x" using run_rowsE [OF inv lane_rows_at(3)] by auto
  obtain s' where s': "finish_run lane_env 5 ''r'' F_TIMEOUT True False (lane_db begun_machine) = Inr (Some (finished_as begun_control False F_TIMEOUT), s')"
    "ln_disabled (admission s')"
    using finish_ok [OF inv lane_rows_at(3) _ lane_rows_at(7,4) x, of 5 F_TIMEOUT True False] by auto
  then have "fail_run lane_env 5 ''r'' (Fault F_TIMEOUT False) True False False (lane_db begun_machine) = Inr s'" by (simp add: fail_run_def)
  then have "lane_step begun_machine (begun_machine\<lparr>lane_db := s'\<rparr>)"
    using hermes_step.fail [of lane_config 5 "''r''" "Fault F_TIMEOUT False" True False False begun_machine s' lane_u5] by simp
  with lane_reachable(3) have "lane_step\<^sup>*\<^sup>* first_machine (begun_machine\<lparr>lane_db := s'\<rparr>)" by (rule rtranclp.rtrancl_into_rtrancl)
  with s'(2) show ?thesis by (intro exI [of _ "begun_machine\<lparr>lane_db := s'\<rparr>"]) simp
qed

lemma lane_completed:
  "\<exists>s'. complete_run lane_config lane_settings 9 ''cap_cw'' ''r'' lane_result (lane_db proposed_machine) = Inr s'
    \<and> submissions (core s') = [lane_submission] \<and> intents (core s') = [lane_intent] \<and> bindings (core s') = [lane_binding]
    \<and> control_row s' ''r'' = Some begun_control"
proof -
  let ?s = "lane_db proposed_machine"
  obtain s' where s': "complete_run lane_config lane_settings 9 ''cap_cw'' ''r'' lane_result ?s = Inr s'"
    using lane_completes by (auto simp: proposed_machine_def)
  have mi: "machine_inv lane_env proposed_machine" using hermes.reachable_inv [OF first_init proposed_reachable] by simp
  then have inv: "hermes_inv lane_env ?s" by (simp add: machine_inv_def)
  have t: "holds_token lane_env ?s ''r'' ''cap_cw''" using working_token [OF mi, of "''r''" "''cap_cw''"] by (auto simp: proposed_machine_def)
  from complete_run_Inr [OF s'] obtain r ct i out where f: "Hermes_Models.run_row ?s ''r'' = Some r" "run_status r = RUN_RUNNING"
    "control_row ?s ''r'' = Some ct" "ln_active (admission ?s) = Some ''r''" "settle_success lane_env 9 ''cap_cw'' r i out ?s = Inr s'"
    by auto
  have rows: "submissions (core ?s) = [lane_submission]" "intents (core ?s) = [lane_intent]" "bindings (core ?s) = [lane_binding]"
    "control_row ?s ''r'' = Some begun_control"
    by (simp_all add: proposed_machine_def control_row_def proposed_reads)
  from settle_success_keeps [OF inv f(1) active_is_hermes [OF inv f(4,1)] f(2) t f(3-5)] s' rows show ?thesis by auto
qed

theorem lane_exclusive_witness: "run_active lane_run \<and> ln_active (admission (lane_db (at_rest queued_db))) = Some ''r''"
  using lane_exclusive [OF first_init lane_reachable(2) lane_rows_at(1)] lane_rows_at(6) by simp

theorem ended_run_closed_witness:
  "\<exists>m r x. lane_step\<^sup>*\<^sup>* first_machine m \<and> Hermes_Models.run_row (lane_db m) ''r'' = Some r \<and> run_status r = RUN_CANCELLED
    \<and> reservation_row (lane_db m) ''r'' = Some x \<and> res_status x \<noteq> RESERVED"
proof -
  obtain m r where m: "lane_step\<^sup>*\<^sup>* first_machine m" "Hermes_Models.run_row (lane_db m) ''r'' = Some r" "hermes_lane r" "run_status r = RUN_CANCELLED"
    using cancelled_reachable by blast
  from ended_run_closed [OF first_init m(1-3)] m show ?thesis by (auto simp: run_active_def)
qed


theorem start_idempotent_witness:
  "start_hermes_run lane_config lane_u5 lane_settings sample_clock lane_ids ''k'' sample_id 7 ''maya'' None queued_db = Inr (lane_run, queued_db)
    \<and> Hermes_Models.run_row queued_db (run_pk lane_run) = Some lane_run"
proof -
  have "operator_active queued_core \<lparr>slug = ''maya'', display_name = ''Maya'', actor_role = OPERATOR, actor_user = Some 3\<rparr>"
    by (simp add: operator_active_def queued_reads) (simp add: idle_core_def run_db_def)
  then have again: "start_hermes_run lane_config lane_u5 lane_settings sample_clock lane_ids ''k'' sample_id 7 ''maya'' None queued_db
      = Inr (lane_run, queued_db)"
    by (simp add: start_hermes_run_def ensure_def queued_reads lane_actor receipt_matches_def lane_receipt_def Hermes_Models.run_row_def)
  have at: "lane_db (at_rest idle_db) = idle_db" "lane_db ((at_rest idle_db)\<lparr>lane_db := queued_db\<rparr>) = queued_db" by (simp_all add: at_rest_def)
  note once = start_idempotent [of first_machine lane_config lane_u5 "at_rest idle_db" lane_ids lane_settings sample_clock "''k''" sample_id 7
      "''maya''" None lane_run queued_db "(at_rest idle_db)\<lparr>lane_db := queued_db\<rparr>" lane_settings sample_clock lane_ids sample_id 7
      "''maya''" None lane_run queued_db, unfolded at]
  from once [OF first_init lane_reachable(1,4) lane_start rtranclp.rtrancl_refl again] again show ?thesis by simp
qed


theorem accepted_result_sound_witness:
  "\<exists>s' r'. complete_run lane_config lane_settings 9 ''cap_cw'' ''r'' lane_result (lane_db proposed_machine) = Inr s'
    \<and> Hermes_Models.run_row s' ''r'' = Some r' \<and> run_status r' = RUN_SUCCEEDED"
proof -
  obtain s' where s': "complete_run lane_config lane_settings 9 ''cap_cw'' ''r'' lane_result (lane_db proposed_machine) = Inr s'"
    using lane_completed by blast
  have "(''r'', ''cap_cw'') \<in> set (working proposed_machine)" by (simp add: proposed_machine_def)
  from accepted_result_sound [OF first_init proposed_reachable this s'] s' show ?thesis by blast
qed

theorem accepted_operations_valid_witness:
  "\<exists>s' r. complete_run lane_config lane_settings 9 ''cap_cw'' ''r'' lane_result (lane_db proposed_machine) = Inr s'
    \<and> Hermes_Models.run_row s' ''r'' = Some r \<and> validate_intent lane_env (core s') lane_intent r = Inr ''as''"
proof -
  obtain s' where s': "complete_run lane_config lane_settings 9 ''cap_cw'' ''r'' lane_result (lane_db proposed_machine) = Inr s'"
    "submissions (core s') = [lane_submission]" "intents (core s') = [lane_intent]" "bindings (core s') = [lane_binding]"
    "control_row s' ''r'' = Some begun_control"
    using lane_completed by blast
  have "(''r'', ''cap_cw'') \<in> set (working proposed_machine)" by (simp add: proposed_machine_def)
  from accepted_operations_valid [OF first_init proposed_reachable this s'(1)] obtain r where r: "Hermes_Models.run_row s' ''r'' = Some r"
    "\<forall>i \<in> set (run_operations (core s') (Some ''c'')). validate_intent lane_env (core s') i r = Inr ''as''"
    using s'(4,5) by (auto simp: binding_row_def begun_control_def lane_binding_def)
  have "lane_intent \<in> set (run_operations (core s') (Some ''c''))"
    using s'(2,3) by (simp add: run_operations_def) (simp add: lane_intent_def new_intent_def lane_submission_def)
  with r s'(1) show ?thesis by blast
qed

end
