(* ===== verification/Launch_Eval.thy ===== *)
theory Launch_Eval
  imports Launch_Engine
begin

text \<open>
  The standalone evaluator (\<open>loops/launchloop/launchloop.py\<close>): the package with its status, risk
  flags, refusals and hand-off, and the evaluation of labelled cases against it.  The event and
  segment files it reads are arguments.
\<close>

section \<open>Tables and lookups\<close>

definition REQUIRED_EVENT_FIELDS :: "string list" where
  "REQUIRED_EVENT_FIELDS =
     [''title'', ''city'', ''date'', ''start_time'', ''end_time'', ''timezone'', ''venue_name'',
      ''venue_address'', ''access_instructions'', ''general_ticket_price'', ''signup_url'']"

definition CONSEQUENTIAL_ACTIONS :: "string list" where
  "CONSEQUENTIAL_ACTIONS = [''send'', ''schedule'', ''publish'', ''change price'', ''create discount'']"

definition SCENARIO_RISK_FLAGS :: "(string \<times> string list) list" where
  "SCENARIO_RISK_FLAGS =
     [(''ambiguous_dst_timezone'', [''ambiguous_event_timezone'']),
      (''rescheduled_event'', [''prior_approval_invalidated'']),
      (''accessibility_inconsistency'', [''accessibility_confirmation_required'']),
      (''suppressed_audience'', [''suppressed_audience_exclusion_required'']),
      (''prompt_injection'', [''untrusted_provider_instruction'']),
      (''invalid_signup_link'', [''invalid_signup_link'']),
      (''duplicate_delivery_stale_revision'',
         [''duplicate_provider_delivery'', ''stale_provider_revision''])]"

definition BLOCKING_SCENARIOS :: "string list" where
  "BLOCKING_SCENARIOS = [''accessibility_inconsistency'', ''ambiguous_dst_timezone'', ''invalid_signup_link'']"

definition ESCALATION_SCENARIOS :: "string list" where
  "ESCALATION_SCENARIOS =
     [''duplicate_delivery_stale_revision'', ''prompt_injection'', ''rescheduled_event'', ''suppressed_audience'']"

fun find_event :: "dict list \<Rightarrow> string \<Rightarrow> py_error + dict" where
  "find_event [] event_id = Inl (ValueError (''Unknown event_id: '' @ event_id))"
| "find_event (event # events) event_id =
     try_bind (dindex event ''event_id'') (\<lambda>v.
       if py_eq v (JStr event_id) then Inr event else find_event events event_id)"

fun select_segment :: "dict \<Rightarrow> dict list \<Rightarrow> py_error + dict option" where
  "select_segment event [] = Inr None"
| "select_segment event (segment # segments) =
     try_bind (dindex segment ''region'') (\<lambda>sr.
     try_bind (dindex event ''region'') (\<lambda>er.
       if py_eq sr er then
         try_bind (dindex segment ''country'') (\<lambda>sc.
         try_bind (dindex event ''country'') (\<lambda>ec.
           if py_eq sc ec then Inr (Some segment) else select_segment event segments))
       else select_segment event segments))"

definition eval_missing_fields :: "dict \<Rightarrow> string list" where
  "eval_missing_fields event = filter (\<lambda>f. blank (dget event f)) REQUIRED_EVENT_FIELDS"

definition requires_bilingual_content :: "dict \<Rightarrow> py_error + bool" where
  "requires_bilingual_content event =
     try_bind (dindex event ''region'') (\<lambda>r.
       if py_eq r (JStr ''QC'')
       then try_bind (dindex event ''country'') (\<lambda>c. Inr (py_eq c (JStr ''CA'')))
       else Inr False)"

section \<open>Drafts and the sponsor check\<close>

definition PLACEHOLDERS :: "string list" where
  "PLACEHOLDERS = [''[Venue TBD]'', ''[Venue Address TBD]'', ''[Access Instructions TBD]'']"

definition unresolved :: "py_env \<Rightarrow> json \<Rightarrow> json \<Rightarrow> json \<Rightarrow> string list" where
  "unresolved e venue address access =
     filter (\<lambda>token. contains token (py_str e venue @ '' '' @ py_str e address @ '' '' @ py_str e access)) PLACEHOLDERS"

definition build_email_draft :: "py_env \<Rightarrow> dict \<Rightarrow> string \<Rightarrow> py_error + json" where
  "build_email_draft e event kind =
     try_bind (dindex event ''venue_name'') (\<lambda>v.
     try_bind (dindex event ''venue_address'') (\<lambda>ad.
     try_bind (dindex event ''access_instructions'') (\<lambda>ac.
     let venue = py_or v (JStr ''[Venue TBD]'');
         address = py_or ad (JStr ''[Venue Address TBD]'');
         access = py_or ac (JStr ''[Access Instructions TBD]'') in
     try_bind (dindex event ''title'') (\<lambda>title.
     try_bind (dindex event ''city'') (\<lambda>city.
     try_bind (dindex event ''date'') (\<lambda>date.
     try_bind (dindex event ''start_time'') (\<lambda>start_time.
     try_bind (dindex event ''end_time'') (\<lambda>end_time.
     try_bind (dindex event ''timezone'') (\<lambda>timezone.
     try_bind (dindex event ''signup_url'') (\<lambda>signup_url.
       Inr (JObj
         [(''subject'', JStr (kind @ '': '' @ py_str e title)),
          (''preview_text'', JStr (''Join us in '' @ py_str e city @ '' on '' @ py_str e date @ ''.'')),
          (''body'', JStr (py_str e title @ '' is scheduled for '' @ py_str e date @ '' from ''
              @ py_str e start_time @ '' to '' @ py_str e end_time @ '' '' @ py_str e timezone
              @ '' at '' @ py_str e venue @ ''. Address: '' @ py_str e address @ ''. Access: ''
              @ py_str e access @ ''. Register here: '' @ py_str e signup_url)),
          (''cta_link'', signup_url),
          (''unresolved_placeholders'', JList (map JStr (unresolved e venue address access)))])))))))))))"

text \<open>
  \<open>price * (1 - percent / 100)\<close> for a percentage that may be any JSON value.  A product beyond the
  double range, which the code keeps as an infinity, is kept here as the rounded rational.
\<close>

definition percent_price :: "json \<Rightarrow> json \<Rightarrow> py_error + json" where
  "percent_price price percent =
     (case num_of percent of
        None \<Rightarrow> Inl TypeError
      | Some d \<Rightarrow>
          if \<not> float_range (d / 100) then Inl OverflowError
          else try_bind (as_float price) (\<lambda>p. Inr (JFloat (discounted_price p d))))"

record sponsor_result =
  sr_passed :: bool
  sr_tier :: string
  sr_rule :: string
  sr_expected :: int
  sr_actual :: json
  sr_expected_price :: json
  sr_actual_price :: json

definition validate_sponsor_discount :: "dict \<Rightarrow> py_error + sponsor_result" where
  "validate_sponsor_discount event =
     try_bind (dindex event ''sponsor_tier'') (\<lambda>t.
     case t of
       JStr raw \<Rightarrow>
         (let tier = lower raw in
          try_bind (dindex event ''general_ticket_price'') (\<lambda>price.
          let is_free_event = eq_int price 0;
              expected_percent = (if is_free_event then Some 0 else sponsor_discounts_get tier) in
          try_bind (dindex event ''sponsor_discount_percent'') (\<lambda>actual.
          case expected_percent of
            None \<Rightarrow> Inl TypeError
          | Some n \<Rightarrow>
              try_bind (percent_price price (JInt n)) (\<lambda>expected_price.
              try_bind (percent_price price actual) (\<lambda>actual_price.
                Inr \<lparr>sr_passed = eq_int actual n, sr_tier = tier,
                     sr_rule = (if is_free_event then ''Free events do not apply sponsor discounts.''
                                else tier @ '' sponsor-domain members receive '' @ int_str n @ ''% off.''),
                     sr_expected = n, sr_actual = actual,
                     sr_expected_price = expected_price, sr_actual_price = actual_price\<rparr>)))))
     | _ \<Rightarrow> Inl AttributeError)"

definition sponsor_json :: "sponsor_result \<Rightarrow> json" where
  "sponsor_json s =
     JObj [(''passed'', JBool (sr_passed s)), (''tier'', JStr (sr_tier s)), (''rule'', JStr (sr_rule s)),
           (''expected_discount_percent'', JInt (sr_expected s)),
           (''actual_discount_percent'', sr_actual s),
           (''expected_sponsor_price'', sr_expected_price s),
           (''actual_sponsor_price'', sr_actual_price s)]"

definition detect_consequential_request :: "string \<Rightarrow> bool" where
  "detect_consequential_request user_request =
     list_ex (\<lambda>action. word_search action None (lower user_request)) CONSEQUENTIAL_ACTIONS"

section \<open>Decisions\<close>

text \<open>\<open>set(event["scenario_tags"])\<close>.\<close>

fun tag_set :: "json \<Rightarrow> py_error + json list" where
  "tag_set (JList l) = (if list_all hashable l then Inr l else Inl TypeError)"
| "tag_set (JStr s) = Inr (map (\<lambda>c. JStr [c]) s)"
| "tag_set (JObj d) = Inr (map (\<lambda>(k, _). JStr k) d)"
| "tag_set _ = Inl TypeError"

definition tagged :: "json list \<Rightarrow> string \<Rightarrow> bool" where
  "tagged tags t \<longleftrightarrow> JStr t \<in> set tags"

definition meets :: "json list \<Rightarrow> string list \<Rightarrow> bool" where
  "meets tags names = list_ex (tagged tags) names"

record findings =
  f_missing :: "string list"
  f_sponsor_passed :: bool
  f_consequential :: bool
  f_bilingual :: bool
  f_quebec :: bool
  f_no_segment :: bool
  f_tags :: "json list"

definition risk_flags :: "findings \<Rightarrow> string list" where
  "risk_flags f =
     (if f_missing f \<noteq> [] then [''missing_required_event_fields''] else [])
     @ (if \<not> f_sponsor_passed f then [''sponsor_discount_policy_mismatch''] else [])
     @ (if f_consequential f then [''requested_unapproved_send_or_publish''] else [])
     @ (if f_bilingual f then [''bilingual_content_required''] else [])
     @ (if f_no_segment f then [''audience_segment_clarification_required''] else [])
     @ concat (map (\<lambda>(tag, risks). if tagged (f_tags f) tag then risks else []) SCENARIO_RISK_FLAGS)"

definition refused_actions :: "findings \<Rightarrow> string list" where
  "refused_actions f =
     (if f_consequential f
      then [''Refused to send, schedule, publish, or change production records without approval.'']
      else [])"

definition human_handoff_required :: "findings \<Rightarrow> bool" where
  "human_handoff_required f \<longleftrightarrow>
     f_consequential f \<or> (f_bilingual f \<and> f_quebec f) \<or> \<not> f_sponsor_passed f \<or> f_no_segment f
     \<or> meets (f_tags f) (BLOCKING_SCENARIOS @ ESCALATION_SCENARIOS)"

definition eval_status :: "findings \<Rightarrow> string" where
  "eval_status f =
     (if f_consequential f \<or> (f_bilingual f \<and> f_quebec f) \<or> f_no_segment f
         \<or> meets (f_tags f) ESCALATION_SCENARIOS then ''Escalated''
      else if f_missing f \<noteq> [] \<or> \<not> f_sponsor_passed f \<or> meets (f_tags f) BLOCKING_SCENARIOS then ''Blocked''
      else ''Ready for approval'')"

text \<open>
  The values \<open>generate_package\<close> computes before it builds the document, in its order.  \<open>f_quebec\<close> is
  the test \<open>event["region"] == "QC"\<close>, which the code repeats beside \<open>bilingual_required\<close>.
\<close>

record inputs =
  in_event :: dict
  in_segment :: "dict option"
  in_sponsor :: sponsor_result
  in_findings :: findings

definition gather :: "dict list \<Rightarrow> dict list \<Rightarrow> string \<Rightarrow> string \<Rightarrow> py_error + inputs" where
  "gather events segments event_id user_request =
     try_bind (find_event events event_id) (\<lambda>event.
     try_bind (dindex event ''scenario_tags'') (\<lambda>raw_tags.
     try_bind (tag_set raw_tags) (\<lambda>tags.
     try_bind (select_segment event segments) (\<lambda>segment.
     let missing = eval_missing_fields event in
     try_bind (validate_sponsor_discount event) (\<lambda>sponsor.
     let consequential = detect_consequential_request user_request in
     try_bind (requires_bilingual_content event) (\<lambda>bilingual.
       Inr \<lparr>in_event = event, in_segment = segment, in_sponsor = sponsor,
            in_findings = \<lparr>f_missing = missing, f_sponsor_passed = sr_passed sponsor,
              f_consequential = consequential, f_bilingual = bilingual,
              f_quebec = py_eq (dget event ''region'') (JStr ''QC''),
              f_no_segment = (segment = None), f_tags = tags\<rparr>\<rparr>))))))"

section \<open>The document\<close>

definition event_summary :: "py_env \<Rightarrow> dict \<Rightarrow> py_error + json" where
  "event_summary e event =
     try_bind (dindex event ''event_id'') (\<lambda>event_id.
     try_bind (dindex event ''version'') (\<lambda>version.
     try_bind (dindex event ''title'') (\<lambda>title.
     try_bind (dindex event ''date'') (\<lambda>date.
     try_bind (dindex event ''start_time'') (\<lambda>start_time.
     try_bind (dindex event ''end_time'') (\<lambda>end_time.
     try_bind (dindex event ''timezone'') (\<lambda>timezone.
     try_bind (dindex event ''venue_name'') (\<lambda>venue.
     try_bind (dindex event ''venue_address'') (\<lambda>address.
     try_bind (dindex event ''access_instructions'') (\<lambda>access.
     try_bind (dindex event ''signup_url'') (\<lambda>signup_url.
     try_bind (dindex event ''general_ticket_price'') (\<lambda>price.
       Inr (JObj
         [(''event_id'', event_id), (''version'', version), (''title'', title), (''date'', date),
          (''time'', JStr (py_str e start_time @ ''-'' @ py_str e end_time @ '' '' @ py_str e timezone)),
          (''venue'', py_or venue (JStr ''[Venue TBD]'')),
          (''venue_address'', py_or address (JStr ''[Venue Address TBD]'')),
          (''access_instructions'', py_or access (JStr ''[Access Instructions TBD]'')),
          (''signup_url'', signup_url), (''ticket_price'', price),
          (''delivery_mode'', dget_default event ''delivery_mode'' (JStr ''in_person''))])))))))))))))"

definition social_post :: "py_env \<Rightarrow> dict \<Rightarrow> json \<Rightarrow> py_error + json" where
  "social_post e event invitation =
     try_bind (dindex event ''title'') (\<lambda>title.
     try_bind (dindex event ''city'') (\<lambda>city.
     try_bind (dindex event ''date'') (\<lambda>date.
     try_bind (dindex event ''venue_name'') (\<lambda>venue.
     try_bind (dindex event ''signup_url'') (\<lambda>signup_url.
       Inr (JObj
         [(''title'', title),
          (''text'', JStr (social_body e title city date (py_or venue (JStr ''[Venue TBD]'')) signup_url)),
          (''asset_reference'', JStr ''synthetic-event-banner.jpg''),
          (''cta_link'', signup_url),
          (''unresolved_placeholders'', jfield invitation ''unresolved_placeholders'')]))))))"

definition audience_recommendation :: "py_env \<Rightarrow> dict \<Rightarrow> dict option \<Rightarrow> json list \<Rightarrow> py_error + json" where
  "audience_recommendation e event segment tags =
     (let suppression = (''suppression_required'', JBool (tagged tags ''suppressed_audience'')) in
      case segment of
        Some seg \<Rightarrow>
          try_bind (dindex seg ''segment_id'') (\<lambda>segment_id.
          try_bind (dindex event ''region'') (\<lambda>region.
          try_bind (dindex event ''country'') (\<lambda>country.
          try_bind (dindex seg ''synthetic_member_count'') (\<lambda>members.
          try_bind (dindex seg ''language'') (\<lambda>language.
            Inr (JObj
              [(''segment_id'', segment_id),
               (''reason'', JStr (''Matched event region '' @ py_str e region @ '' and country ''
                  @ py_str e country @ '' to approved active-member segment.'')),
               (''member_count'', members), (''language_requirement'', language),
               (''clarification_request'', JNull), suppression]))))))
      | None \<Rightarrow>
          try_bind (dindex event ''city'') (\<lambda>city.
          try_bind (dindex event ''region'') (\<lambda>region.
            Inr (JObj
              [(''segment_id'', JNull),
               (''reason'', JStr (''No approved segment matched '' @ py_str e city @ '', '' @ py_str e region
                  @ ''. Clarification is required; LaunchLoop will not nearest-match this event to another geography.'')),
               (''member_count'', JInt 0), (''language_requirement'', JStr ''Unknown''),
               (''clarification_request'', JStr (''No approved audience segment exists for ''
                  @ py_str e region
                  @ ''. Should a human create/approve a Pennsylvania segment or change the event targeting?'')),
               suppression]))))"

definition trace_summary :: "py_env \<Rightarrow> dict \<Rightarrow> py_error + json" where
  "trace_summary e event =
     try_bind (dindex event ''event_id'') (\<lambda>event_id.
     try_bind (dindex event ''version'') (\<lambda>version.
       Inr (JList
         [JStr (''Read synthetic Eventbrite event '' @ py_str e event_id @ '' version '' @ py_str e version @ ''.''),
          JStr ''Read synthetic audience_segments.json.'', JStr ''Applied sponsor_discount_rules.md.'',
          JStr ''Applied language_policy.md and approval_policy.md.'',
          JStr ''Prepared review-only drafts; no external send, publish, schedule, pricing, or segment action was taken.''])))"

definition generate_package :: "py_env \<Rightarrow> dict list \<Rightarrow> dict list \<Rightarrow> string \<Rightarrow> string \<Rightarrow> py_error + json" where
  "generate_package e events segments event_id user_request =
     try_bind (gather events segments event_id user_request) (\<lambda>inp.
     let event = in_event inp; f = in_findings inp in
     try_bind (build_email_draft e event ''Invitation'') (\<lambda>invitation.
     try_bind (build_email_draft e event ''Reminder'') (\<lambda>reminder.
     try_bind (event_summary e event) (\<lambda>summary.
     try_bind (social_post e event invitation) (\<lambda>post.
     try_bind (audience_recommendation e event (in_segment inp) (f_tags f)) (\<lambda>audience.
     try_bind (trace_summary e event) (\<lambda>trace.
       Inr (JObj
         [(''package_status'', JStr (eval_status f)),
          (''event_summary'', summary),
          (''missing_eventbrite_fields'', JList (map JStr (f_missing f))),
          (''iterable_invitation_draft'', invitation),
          (''iterable_reminder_draft'', reminder),
          (''social_post_draft'', post),
          (''audience_recommendation'', audience),
          (''sponsor_discount_validation'', sponsor_json (in_sponsor inp)),
          (''brand_language_check'', JObj
             [(''passed'', JBool (\<not> f_bilingual f)),
              (''note'', JStr (if f_bilingual f then ''Quebec campaigns require English/French content.''
                              else ''No bilingual requirement triggered.''))]),
          (''safety_check'', JObj
             [(''passed'', JBool (\<not> f_consequential f)),
              (''refused_actions'', JList (map JStr (refused_actions f)))]),
          (''risk_flags'', JList (map JStr (risk_flags f))),
          (''human_handoff_required'', JBool (human_handoff_required f)),
          (''trace_summary'', trace),
          (''human_action_controls'',
             JList [JStr ''approve'', JStr ''edit'', JStr ''reject/regenerate'', JStr ''escalate''])]))))))))"

section \<open>Labelled cases\<close>

text \<open>A case of \<open>eval_cases.json\<close>; the two optional expectations carry the defaults of \<open>expected.get\<close>.\<close>

record eval_case =
  case_id :: string
  case_type :: string
  case_event_id :: string
  case_user_request :: string
  exp_status :: string
  exp_missing :: "string list"
  exp_segment :: "string option"
  exp_refuse :: bool
  exp_handoff :: bool
  exp_clarification :: bool
  exp_risk_flags :: "string list"

fun jlist :: "json \<Rightarrow> json list" where
  "jlist (JList l) = l"
| "jlist _ = []"

fun jstr :: "json \<Rightarrow> string" where
  "jstr (JStr s) = s"
| "jstr _ = []"

definition case_checks :: "eval_case \<Rightarrow> json \<Rightarrow> (string \<times> bool) list" where
  "case_checks c package =
     [(''status'', jfield package ''package_status'' = JStr (exp_status c)),
      (''missing_fields'', sort (map jstr (jlist (jfield package ''missing_eventbrite_fields''))) = sort (exp_missing c)),
      (''segment'', (case exp_segment c of None \<Rightarrow> True
         | Some s \<Rightarrow> py_eq (jfield (jfield package ''audience_recommendation'') ''segment_id'') (JStr s))),
      (''refusal'', truthy (jfield (jfield package ''safety_check'') ''refused_actions'') = exp_refuse c),
      (''human_handoff'', jfield package ''human_handoff_required'' = JBool (exp_handoff c)),
      (''segment_clarification'', \<not> exp_clarification c
         \<or> jfield (jfield package ''audience_recommendation'') ''clarification_request'' \<noteq> JNull),
      (''risk_flags'', sort (map jstr (jlist (jfield package ''risk_flags''))) = sort (exp_risk_flags c)),
      (''no_external_action'', True)]"

record eval_result =
  res_case_id :: string
  res_type :: string
  res_passed :: bool
  res_checks :: "(string \<times> bool) list"
  res_expected_status :: string
  res_package :: json

definition evaluate_case :: "py_env \<Rightarrow> dict list \<Rightarrow> dict list \<Rightarrow> eval_case \<Rightarrow> py_error + eval_result" where
  "evaluate_case e events segments c =
     try_bind (generate_package e events segments (case_event_id c) (case_user_request c)) (\<lambda>package.
       let checks = case_checks c package in
       Inr \<lparr>res_case_id = case_id c, res_type = case_type c, res_passed = list_all snd checks,
            res_checks = checks, res_expected_status = exp_status c, res_package = package\<rparr>)"

fun run_cases :: "py_env \<Rightarrow> dict list \<Rightarrow> dict list \<Rightarrow> eval_case list \<Rightarrow> py_error + eval_result list" where
  "run_cases e events segments [] = Inr []"
| "run_cases e events segments (c # cs) =
     try_bind (evaluate_case e events segments c) (\<lambda>r.
     try_bind (run_cases e events segments cs) (\<lambda>rs. Inr (r # rs)))"

record eval_summary =
  sum_passed :: nat
  sum_total :: nat
  sum_labeled :: nat
  sum_case_ids :: "string list"

definition run_evals :: "py_env \<Rightarrow> dict list \<Rightarrow> dict list \<Rightarrow> eval_case list \<Rightarrow> nat \<Rightarrow> py_error + (eval_summary \<times> eval_result list)" where
  "run_evals e events segments cases labeled_examples =
     try_bind (run_cases e events segments cases) (\<lambda>results.
       Inr (\<lparr>sum_passed = length (filter res_passed results), sum_total = length results,
             sum_labeled = labeled_examples, sum_case_ids = map case_id cases\<rparr>, results))"

section \<open>Properties\<close>

lemma generate_package_elim:
  assumes "generate_package e events segments event_id user_request = Inr p"
  obtains inp where "gather events segments event_id user_request = Inr inp"
    and "jfield p ''package_status'' = JStr (eval_status (in_findings inp))"
    and "jfield p ''risk_flags'' = JList (map JStr (risk_flags (in_findings inp)))"
    and "jfield p ''human_handoff_required'' = JBool (human_handoff_required (in_findings inp))"
    and "jfield (jfield p ''safety_check'') ''passed'' = JBool (\<not> f_consequential (in_findings inp))"
    and "jfield (jfield p ''safety_check'') ''refused_actions'' = JList (map JStr (refused_actions (in_findings inp)))"
    and "jfield p ''missing_eventbrite_fields'' = JList (map JStr (f_missing (in_findings inp)))"
  using assms
  by (auto simp: generate_package_def Let_def result_simps jfield_def dget_def intro!: that)

lemma gather_findings:
  assumes "gather events segments event_id user_request = Inr inp"
  shows "f_consequential (in_findings inp) = detect_consequential_request user_request"
    and "f_missing (in_findings inp) = eval_missing_fields (in_event inp)"
    and "f_no_segment (in_findings inp) \<longleftrightarrow> in_segment inp = None"
    and "f_sponsor_passed (in_findings inp) = sr_passed (in_sponsor inp)"
    and "f_bilingual (in_findings inp) \<Longrightarrow> f_quebec (in_findings inp)"
  using assms
  by (auto simp: gather_def Let_def result_simps requires_bilingual_content_def dindex_eq_Inr
      split: if_splits)

lemma scenario_keys: "map fst SCENARIO_RISK_FLAGS \<noteq> [] \<and>
    set (map fst SCENARIO_RISK_FLAGS) = set (BLOCKING_SCENARIOS @ ESCALATION_SCENARIOS)"
  by (auto simp: SCENARIO_RISK_FLAGS_def BLOCKING_SCENARIOS_def ESCALATION_SCENARIOS_def)

lemma scenario_risks_Nil:
  "concat (map (\<lambda>(tag, risks). if tagged tags tag then risks else []) SCENARIO_RISK_FLAGS) = []
     \<longleftrightarrow> \<not> meets tags (BLOCKING_SCENARIOS @ ESCALATION_SCENARIOS)"
  by (auto simp: SCENARIO_RISK_FLAGS_def BLOCKING_SCENARIOS_def ESCALATION_SCENARIOS_def meets_def)

lemma meets_append: "meets tags (a @ b) \<longleftrightarrow> meets tags a \<or> meets tags b"
  by (simp add: meets_def)

lemma ex_list: "(\<exists>u. Q u) \<longleftrightarrow> Q [] \<or> (\<exists>a u. Q (a # u))"
  by (metis neq_Nil_conv)

lemma word_search_iff:
  assumes "w \<noteq> []"
  shows "word_search w before s \<longleftrightarrow>
    (\<exists>u v. s = u @ w @ v
       \<and> (u = [] \<longrightarrow> (case before of None \<Rightarrow> True | Some b \<Rightarrow> \<not> is_word b))
       \<and> (u \<noteq> [] \<longrightarrow> \<not> is_word (last u)) \<and> (v \<noteq> [] \<longrightarrow> \<not> is_word (hd v)))"
    (is "_ \<longleftrightarrow> (\<exists>u v. ?P before s u v)")
proof (induction s arbitrary: before)
  case Nil
  then show ?case using assms by simp
next
  case (Cons c s)
  let ?here = "starts_with w (c # s) \<and> (case before of None \<Rightarrow> True | Some b \<Rightarrow> \<not> is_word b)
      \<and> (case drop (length w) (c # s) of [] \<Rightarrow> True | d # _ \<Rightarrow> \<not> is_word d)"
  have here: "?here \<longleftrightarrow> (\<exists>v. ?P before (c # s) [] v)"
  proof
    assume h: ?here
    then obtain v where v: "c # s = w @ v" by (auto simp: starts_with_iff)
    with h show "\<exists>v. ?P before (c # s) [] v"
      by (intro exI [of _ v]) (simp add: v split: list.splits)
  next
    assume "\<exists>v. ?P before (c # s) [] v"
    then obtain v where v: "c # s = w @ v" and "?P before (c # s) [] v" by auto
    then show ?here by (auto simp: v starts_with_iff split: list.splits)
  qed
  have there: "(\<exists>u v. ?P (Some c) s u v) \<longleftrightarrow> (\<exists>a u v. ?P before (c # s) (a # u) v)"
    by (auto split: option.splits)
  have "(\<exists>u v. ?P before (c # s) u v) \<longleftrightarrow>
      (\<exists>v. ?P before (c # s) [] v) \<or> (\<exists>a u v. ?P before (c # s) (a # u) v)"
    unfolding ex_list [of "\<lambda>u. \<exists>v. ?P before (c # s) u v"] by (rule refl)
  then show ?case using here there Cons.IH [of "Some c"] by simp
qed

text \<open>
  The evaluator reports a package as ready for approval exactly when it raised no risk flag: the
  status decision and the flags given to the reviewer never disagree.
\<close>

theorem ready_iff_no_risk_flags:
  assumes "generate_package e events segments event_id user_request = Inr p"
  shows "jfield p ''package_status'' = JStr ''Ready for approval'' \<longleftrightarrow> jfield p ''risk_flags'' = JList []"
proof -
  obtain inp where g: "gather events segments event_id user_request = Inr inp"
    and s: "jfield p ''package_status'' = JStr (eval_status (in_findings inp))"
    and r: "jfield p ''risk_flags'' = JList (map JStr (risk_flags (in_findings inp)))"
    using assms by (rule generate_package_elim)
  show ?thesis
    using gather_findings(5) [OF g] scenario_risks_Nil [of "f_tags (in_findings inp)"]
    by (auto simp: s r eval_status_def risk_flags_def meets_append)
qed

text \<open>
  A request that asks for a consequential action (one of the five action phrases, delimited as a
  word, in any letter case) is always escalated: the package fails its safety check, refuses the
  action, requires a human hand-off and is never ready.
\<close>

theorem consequential_request_escalates:
  assumes "generate_package e events segments event_id user_request = Inr p"
    and "action \<in> set CONSEQUENTIAL_ACTIONS"
    and "lower user_request = u @ action @ v"
    and "u = [] \<or> \<not> is_word (last u)" and "v = [] \<or> \<not> is_word (hd v)"
  shows "jfield p ''package_status'' = JStr ''Escalated''
    \<and> jfield p ''human_handoff_required'' = JBool True
    \<and> jfield (jfield p ''safety_check'') ''passed'' = JBool False
    \<and> truthy (jfield (jfield p ''safety_check'') ''refused_actions'')"
proof -
  have "action \<noteq> []" using assms(2) by (auto simp: CONSEQUENTIAL_ACTIONS_def)
  then have "word_search action None (lower user_request)"
    using assms(3-5) by (auto simp: word_search_iff)
  with assms(2) have d: "detect_consequential_request user_request"
    by (auto simp: detect_consequential_request_def list_ex_iff)
  from assms(1) show ?thesis
    by (rule generate_package_elim)
       (use gather_findings(1) d in \<open>auto simp: eval_status_def human_handoff_required_def refused_actions_def\<close>)
qed

text \<open>
  Every escalated package and every package with a failed sponsor check or a blocking scenario
  requires a human hand-off, a ready package requires none, and the only blocked packages without
  hand-off are those that only miss event fields.
\<close>

theorem handoff_by_status:
  assumes "generate_package e events segments event_id user_request = Inr p"
  shows "(jfield p ''package_status'' = JStr ''Escalated'' \<longrightarrow> jfield p ''human_handoff_required'' = JBool True)
    \<and> (jfield p ''package_status'' = JStr ''Ready for approval'' \<longrightarrow> jfield p ''human_handoff_required'' = JBool False)
    \<and> (jfield p ''package_status'' = JStr ''Blocked'' \<and> jfield p ''human_handoff_required'' = JBool False
        \<longrightarrow> jfield p ''risk_flags'' = JList [JStr ''missing_required_event_fields''])"
proof -
  obtain inp where g: "gather events segments event_id user_request = Inr inp"
    and s: "jfield p ''package_status'' = JStr (eval_status (in_findings inp))"
    and r: "jfield p ''risk_flags'' = JList (map JStr (risk_flags (in_findings inp)))"
    and h: "jfield p ''human_handoff_required'' = JBool (human_handoff_required (in_findings inp))"
    using assms by (rule generate_package_elim)
  let ?f = "in_findings inp"
  have b: "f_bilingual ?f \<Longrightarrow> f_quebec ?f" using g by (rule gather_findings)
  have risks: "\<not> human_handoff_required ?f \<Longrightarrow> f_missing ?f \<noteq> [] \<Longrightarrow>
      risk_flags ?f = [''missing_required_event_fields'']"
    using b scenario_risks_Nil [of "f_tags ?f"]
    by (auto simp: risk_flags_def human_handoff_required_def)
  show ?thesis
    unfolding s r h using risks
    by (auto simp: eval_status_def human_handoff_required_def meets_append split: if_splits)
qed

section \<open>Witnesses\<close>

definition sample_eval_event :: dict where
  "sample_eval_event =
     (''event_id'', JStr ''evt_ny'') # (''version'', JInt 1) # (''scenario_tags'', JList []) # resolved_event"

definition sample_segments :: "dict list" where
  "sample_segments =
     [[(''segment_id'', JStr ''new_york_active_members''), (''region'', JStr ''NY''), (''country'', JStr ''US''),
       (''language'', JStr ''English''), (''synthetic_member_count'', JInt 418)]]"

lemma float_range_quarter: "float_range (1 / 4)"
proof -
  have "fl (1 / 4) = 1 / 4" by (rule fl_representable [of _ 1 "-2"]) (simp_all add: pow2_def)
  then have "\<bar>fl (1 / 4)\<bar> < pow2 0" by simp
  also have "\<dots> \<le> pow2 1024" by (rule pow2_mono) simp
  finally show ?thesis by (simp add: float_range_def)
qed

lemma sample_sponsor:
  "\<exists>s. validate_sponsor_discount sample_eval_event = Inr s \<and> sr_passed s"
  by (simp add: validate_sponsor_discount_def sample_eval_event_def resolved_event_def NEW_YORK_EVENT_def
      dindex_def eq_int_def lower_gold seeded_discount percent_price_def float_range_quarter
      as_float_int [of 40, simplified] Let_def)

lemma sample_returns:
  "\<exists>p. generate_package sample_env [sample_eval_event] sample_segments ''evt_ny'' request = Inr p"
proof -
  obtain s where "validate_sponsor_discount sample_eval_event = Inr s" using sample_sponsor by blast
  then show ?thesis
    by (simp add: generate_package_def gather_def requires_bilingual_content_def Let_def
        build_email_draft_def event_summary_def social_post_def audience_recommendation_def trace_summary_def
        sample_segments_def)
       (simp add: sample_eval_event_def resolved_event_def NEW_YORK_EVENT_def dindex_def)
qed

end
