(* ===== verification/Identity_Limits.thy ===== *)
theory Identity_Limits
  imports Identity
begin

text \<open>
  The rate limit of the password step, and reading the security log page by page.
\<close>

section \<open>Password attempts\<close>

text \<open>Whether each of a series of attempts on one account from one peer may go on to the password check.\<close>

fun password_checks :: "id_env \<Rightarrow> string \<Rightarrow> string option \<Rightarrow> int list \<Rightarrow> idw \<Rightarrow> bool list" where
  "password_checks e owner ip [] w = []"
| "password_checks e owner ip (t # ts) w =
     (case check_password_limit e t owner ip w of (w', r) \<Rightarrow> (case r of Inl _ \<Rightarrow> False | Inr _ \<Rightarrow> True) # password_checks e owner ip ts w')"

definition password_scope :: "id_env \<Rightarrow> string \<Rightarrow> string option \<Rightarrow> string" where
  "password_scope e owner ip = scope_key e ''password'' [strip (casefold owner), case ip of None \<Rightarrow> ''unknown'' | Some t \<Rightarrow> if t = [] then ''unknown'' else t]"

definition counted :: "string \<Rightarrow> nat \<Rightarrow> int \<Rightarrow> idw \<Rightarrow> bool" where
  "counted k n until w \<longleftrightarrow> (\<exists>l ls. i_limits w = l # ls \<and> lm_key l = k \<and> lm_count l = n \<and> lm_expires l = until)"

lemma check_counted:
  assumes "cache_up e" and "counted (password_scope e owner ip) n until w" and "t < until"
  shows "\<exists>w' r. check_password_limit e t owner ip w = (w', r) \<and> (case r of Inl _ \<Rightarrow> False | Inr _ \<Rightarrow> True) = (n < PASSWORD_LIMIT)
    \<and> counted (password_scope e owner ip) (n + 1) until w'"
proof -
  obtain l ls where l: "i_limits w = l # ls" "lm_key l = password_scope e owner ip" "lm_count l = n" "lm_expires l = until"
    using assms(2) by (auto simp: counted_def)
  then show ?thesis
    using assms(1,3) by (auto simp: check_password_limit_def check_limit_def count_attempt_def live_entry_def counted_def Let_def simp flip: password_scope_def)
qed

lemma checks_counted:
  assumes "cache_up e" and "counted (password_scope e owner ip) n until w" and "\<forall>t \<in> set ts. t < until"
  shows "password_checks e owner ip ts w = replicate (min (PASSWORD_LIMIT - n) (length ts)) True @ replicate (length ts - (PASSWORD_LIMIT - n)) False"
  using assms(2,3)
proof (induction ts arbitrary: n w)
  case (Cons t ts)
  obtain w' r where r: "check_password_limit e t owner ip w = (w', r)" "(case r of Inl _ \<Rightarrow> False | Inr _ \<Rightarrow> True) = (n < PASSWORD_LIMIT)"
    "counted (password_scope e owner ip) (n + 1) until w'"
    using check_counted [OF assms(1) Cons.prems(1), of t] Cons.prems(2) by auto
  have IH: "password_checks e owner ip ts w' = replicate (min (PASSWORD_LIMIT - (n + 1)) (length ts)) True @ replicate (length ts - (PASSWORD_LIMIT - (n + 1))) False"
    using Cons.IH [OF r(3)] Cons.prems(2) by simp
  show ?case
  proof (cases "n < PASSWORD_LIMIT")
    case True
    then obtain m where "PASSWORD_LIMIT - n = Suc m" "PASSWORD_LIMIT - (n + 1) = m" by (metis Suc_diff_Suc Suc_eq_plus1)
    with r IH True show ?thesis by simp
  qed (use r IH in simp)
qed simp


section \<open>Pages of the security log\<close>

fun read_pages :: "nat \<Rightarrow> uuid \<Rightarrow> (int \<times> uuid) option \<Rightarrow> nat \<Rightarrow> idw \<Rightarrow> security_event list" where
  "read_pages 0 owner cur limit w = []"
| "read_pages (Suc n) owner cur limit w =
     (case list_security_events owner cur limit w of
        Inl _ \<Rightarrow> []
      | Inr (page, next_cursor) \<Rightarrow> page @ (case next_cursor of None \<Rightarrow> [] | Some c \<Rightarrow> read_pages n owner (Some c) limit w))"

definition event_key :: "security_event \<Rightarrow> int \<times> uuid" where
  "event_key x = (ev_created x, ev_pk x)"

definition owner_events :: "uuid \<Rightarrow> idw \<Rightarrow> security_event list" where
  "owner_events owner w = newest_first (filter (\<lambda>x. ev_profile x = Some owner) (i_events w))"

lemma before_cursor_key: "before_cursor (Some c) x \<longleftrightarrow> event_key x < c"
  by (cases c) (auto simp: before_cursor_def event_key_def)

lemma newest_first_key: "newest_first es = rev (sort_key event_key es)"
  by (simp add: newest_first_def event_key_def [abs_def])

lemma newest_first_filter: "newest_first (filter P es) = filter P (newest_first es)"
  by (simp add: newest_first_key rev_filter flip: filter_sort)

lemma newest_first_descending:
  assumes "distinct (map ev_pk es)"
  shows "sorted_wrt (\<lambda>x y. event_key y < event_key x) (newest_first es)"
proof -
  have "distinct (map event_key es)" using assms unfolding distinct_map event_key_def inj_on_def by auto
  then have d: "distinct (map event_key (sort_key event_key es))" by (simp add: distinct_map)
  have "sorted_wrt (<) (map event_key (sort_key event_key es))"
    using d strict_sorted_iff by (metis sorted_sort_key)
  then show ?thesis
    by (simp add: newest_first_key sorted_wrt_rev sorted_wrt_map)
qed

lemma filter_before_last:
  assumes "sorted_wrt (\<lambda>x y. event_key y < event_key x) (xs @ ys)" and "xs \<noteq> []"
  shows "filter (\<lambda>x. event_key x < event_key (last xs)) (xs @ ys) = ys"
proof -
  have "\<not> event_key x < event_key (last xs)" if "x \<in> set xs" for x
  proof -
    have s: "sorted_wrt (\<lambda>x y. event_key y < event_key x) xs" using assms(1) by (simp add: sorted_wrt_append)
    have "xs = butlast xs @ [last xs]" using assms(2) by simp
    then have "x = last xs \<or> event_key (last xs) < event_key x"
      using s that by (metis (no_types, lifting) UnE in_set_conv_decomp list.set_intros(1) set_ConsD set_append sorted_wrt_append empty_iff list.set(1))
    then show ?thesis by auto
  qed
  moreover have "event_key y < event_key (last xs)" if "y \<in> set ys" for y
    using assms that by (auto simp: sorted_wrt_append)
  ultimately show ?thesis by (simp add: filter_id_conv)
qed

lemma read_pages_rest:
  assumes "distinct (map ev_pk (i_events w))" and "1 \<le> limit" and "limit \<le> 100"
    and "filter (before_cursor cur) (owner_events owner w) = rest" and "owner_events owner w = seen @ rest" and "length rest < n"
  shows "read_pages n owner cur limit w = rest"
  using assms(4-6)
proof (induction n arbitrary: cur rest seen)
  case (Suc n)
  have "filter (\<lambda>x. ev_profile x = Some owner \<and> before_cursor cur x) (i_events w) = filter (before_cursor cur) (filter (\<lambda>x. ev_profile x = Some owner) (i_events w))"
    by (simp add: conj_commute)
  then have rows: "newest_first (filter (\<lambda>x. ev_profile x = Some owner \<and> before_cursor cur x) (i_events w)) = rest"
    using Suc.prems(1) by (simp add: owner_events_def newest_first_filter del: filter_filter)
  show ?case
  proof (cases "length rest \<le> limit")
    case True
    then show ?thesis using assms(2,3) by (simp add: list_security_events_def rows Let_def)
  next
    case False
    let ?page = "take limit rest" and ?tail = "drop limit rest"
    have ne: "?page \<noteq> []" using False assms(2) by auto
    have eq: "owner_events owner w = (seen @ ?page) @ ?tail" using Suc.prems(2) by simp
    have "distinct (map ev_pk (filter (\<lambda>x. ev_profile x = Some owner) (i_events w)))" using assms(1) by (simp add: distinct_map_filter)
    then have s: "sorted_wrt (\<lambda>x y. event_key y < event_key x) ((seen @ ?page) @ ?tail)"
      using newest_first_descending eq unfolding owner_events_def by metis
    have "last (seen @ ?page) = last ?page" using ne by simp
    then have "filter (before_cursor (Some (event_key (last ?page)))) (owner_events owner w) = ?tail"
      using filter_before_last [OF s] ne unfolding eq by (simp add: before_cursor_key [abs_def])
    then have "read_pages n owner (Some (event_key (last ?page))) limit w = ?tail"
      using Suc.prems(3) False assms(2) by (intro Suc.IH [OF _ eq]) auto
    then show ?thesis using False assms(2,3) by (simp add: list_security_events_def rows Let_def event_key_def min_def)
  qed
qed simp

text \<open>
  following the cursors lists every event of the owner exactly once, newest first, for every page size from 1 to 100.
\<close>

theorem event_pages_complete:
  assumes "distinct (map ev_pk (i_events w))" and "1 \<le> limit" and "limit \<le> 100"
  shows "read_pages (Suc (length (i_events w))) owner None limit w = newest_first (filter (\<lambda>x. ev_profile x = Some owner) (i_events w))"
proof -
  have "length (owner_events owner w) < Suc (length (i_events w))"
    by (simp add: owner_events_def newest_first_def less_Suc_eq_le)
  then show ?thesis
    using read_pages_rest [OF assms, of None owner "owner_events owner w" "[]"] by (simp add: before_cursor_def owner_events_def del: read_pages.simps)
qed

end
