(* ===== verification/Identity_Demo.thy ===== *)
theory Identity_Demo
  imports Identity_Props Identity_Limits Draft_Props
begin

text \<open>
  One run of the identity application with a concrete environment: the owner is bootstrapped, verifies the
  password, enrolls an authenticator and confirms it, and logs out.  The theorems are applied to its states.
\<close>

definition demo_env :: id_env where
  "demo_env = \<lparr>make_password = (\<lambda>s. ''h:'' @ s), check_password = (\<lambda>s h. h = ''h:'' @ s), password_ok = (\<lambda>u s. 8 \<le> length s),
     password_messages = (\<lambda>u s. ''too short''), normalize_username = (\<lambda>s. s), normalize_email = (\<lambda>s. s), user_clean = (\<lambda>u. True),
     totp_verify = (\<lambda>seed drift now otp min_t. if now div 30000000 = int otp \<and> min_t \<le> now div 30000000 then Some (now div 30000000, 0) else None),
     cipher = plain_aead, ring = Some sample_ring, hmac_hex = (\<lambda>s. s), ip_compressed = Some, cache_up = True, identity_enabled = True,
     trusted_proxies = [], py = \<lparr>sha256_hex = (\<lambda>s. s), repr_float = (\<lambda>r. []), repr_other = (\<lambda>v. [])\<rparr>\<rparr>"

definition no_request :: id_request where
  "no_request = \<lparr>rq_key = None, rq_user = None, rq_preauth = None, rq_admin = None, rq_agent = [], rq_peer = None, rq_forwarded = None, rq_meta = None\<rparr>"

definition demo_0 :: idw where
  "demo_0 = \<lparr>i_users = [], i_profiles = [], i_devices = [], i_codes = [], i_sessions = [], i_events = [], i_web = [], i_limits = [], i_rq = no_request\<rparr>"

definition demo_draws :: "string \<Rightarrow> string \<Rightarrow> draws" where
  "demo_draws k sid = \<lparr>d_key = k, d_session = sid, d_event = sid @ k, d_device = ''d1'', d_seed = ''12345678901234567890'', d_nonce = ''nonce-nonce-'',
     d_batch = ''b1'', d_publics = map (replicate 8) ''ABCDEFGHIJ'', d_secrets = replicate 10 (replicate 26 CHR ''Q''), d_user = 1, d_profile = ''p1''\<rparr>"

definition demo_http :: "string option \<Rightarrow> dict \<Rightarrow> http_request" where
  "demo_http cookie d = \<lparr>hr_method = ''POST'', hr_path = ''/'', hr_cookie = cookie, hr_agent = ''browser'', hr_peer = Some ''10.0.0.1'', hr_forwarded = None,
     hr_body = \<lparr>hb_bytes = 100, hb_json = Some (JObj d)\<rparr>, hr_uuid = Some, hr_cursor = snd\<rparr>"

definition demo_1 :: idw where
  "demo_1 = fst (bootstrap_command demo_env 0 (demo_draws ''k0'' ''s0'') ''owner'' ''o@x'' ''long password'' ''long password'' demo_0)"

definition demo_2 :: idw where
  "demo_2 = fst (handle_request demo_env 3000000000 (demo_draws ''k1'' ''s0'')
     (demo_http None [(''username'', JStr ''owner''), (''password'', JStr ''long password'')]) PasswordChallenge demo_1)"

definition demo_3 :: idw where
  "demo_3 = fst (handle_request demo_env 3000000001 (demo_draws ''k2'' ''s0'') (demo_http (Some ''k1'') [(''label'', JStr ''phone'')]) TotpEnrollment demo_2)"

definition demo_event :: "uuid \<Rightarrow> string \<Rightarrow> string \<Rightarrow> string \<Rightarrow> uuid option \<Rightarrow> int \<Rightarrow> security_event" where
  "demo_event pk action ttype tid sid t = \<lparr>ev_pk = pk, ev_profile = Some ''p1'', ev_user = Some 1, ev_action = action, ev_outcome = ''success'',
     ev_target_type = ttype, ev_target_id = tid, ev_details = [], ev_ip = Some ''10.0.0.1'', ev_session = sid, ev_created = t\<rparr>"

text \<open>The states before and after the confirmation of the device, written out.\<close>

definition demo_device :: totp_device where
  "demo_device = \<lparr>dv_pk = ''d1'', dv_profile = ''p1'', dv_name = ''phone'',
     dv_envelope = JObj [(''version'', JInt 1), (''algorithm'', JStr ''AES-256-GCM''), (''key_id'', JStr ''k''), (''nonce'', JStr ''bm9uY2Utbm9uY2Ut''),
       (''ciphertext'', JStr ''dHR0dHR0dHR0dHR0dHR0dDEyMzQ1Njc4OTAxMjM0NTY3ODkw'')],
     dv_confirmed = False, dv_drift = 0, dv_last_t = -1, dv_created = 3000000001, dv_confirmed_at = None,
     dv_last_used = None, dv_replaced = None, dv_disabled = None, dv_failures = 0, dv_failed_at = None\<rparr>"

definition demo_pre :: "preauth option" where
  "demo_pre = Some \<lparr>pa_owner = ''p1'', pa_issued = 3000000000, pa_expires = 3300000000\<rparr>"

definition demo_log :: "security_event list" where
  "demo_log = [(demo_event ''s0k0'' ''owner_bootstrapped'' ''administrator_profile'' ''p1'' None 0)
         \<lparr>ev_details := [(''method'', JStr ''interactive_management_command'')], ev_ip := None\<rparr>,
       demo_event ''s0k1'' ''owner_password_verified'' [] [] None 3000000000,
       demo_event ''s0k2'' ''owner_totp_enrollment_started'' ''totp_device'' ''d1'' None 3000000001]"

definition demo_enrolling :: idw where
  "demo_enrolling = \<lparr>i_users = [\<lparr>u_pk = 1, u_name = ''owner'', u_email = ''o@x'', u_password = ''h:long password'', u_active = True\<rparr>],
    i_profiles = [\<lparr>pf_pk = ''p1'', pf_user = 1, pf_status = ''enrollment_required''\<rparr>], i_devices = [demo_device], i_codes = [], i_sessions = [],
    i_events = demo_log, i_web = [\<lparr>ws_key = ''k1'', ws_user = None, ws_preauth = demo_pre, ws_admin = None\<rparr>], i_limits = [],
    i_rq = \<lparr>rq_key = Some ''k1'', rq_user = None, rq_preauth = demo_pre, rq_admin = None, rq_agent = ''browser'',
       rq_peer = Some ''10.0.0.1'', rq_forwarded = None, rq_meta = None\<rparr>\<rparr>"

lemma demo_3_state: "demo_3 = demo_enrolling"
  by code_simp

definition demo_4 :: idw where
  "demo_4 = fst (handle_request demo_env 3000000002 (demo_draws ''k2'' ''s1'')
     (demo_http (Some ''k1'') [(''device_id'', JStr ''d1''), (''token'', JStr ''000100'')]) TotpConfirmation demo_enrolling)"

lemma demo_run_4: "(id_step demo_env)\<^sup>*\<^sup>* demo_0 demo_4"
proof -
  have "id_step demo_env demo_0 demo_1" unfolding demo_1_def by (rule id_step.bootstrap)
  moreover have "id_step demo_env demo_1 demo_2" unfolding demo_2_def by (rule id_step.request)
  moreover have "id_step demo_env demo_2 demo_enrolling" unfolding demo_3_state [symmetric] demo_3_def by (rule id_step.request)
  moreover have "id_step demo_env demo_enrolling demo_4" unfolding demo_4_def by (rule id_step.request)
  ultimately show ?thesis by (meson rtranclp.intros)
qed

lemma demo_init: "id_init demo_0"
  by (simp add: id_init_def demo_0_def)

definition demo_state :: idw where
  "demo_state = \<lparr>i_users = [\<lparr>u_pk = 1, u_name = ''owner'', u_email = ''o@x'', u_password = ''h:long password'', u_active = True\<rparr>],
    i_profiles = [\<lparr>pf_pk = ''p1'', pf_user = 1, pf_status = ''active''\<rparr>],
    i_devices = [demo_device\<lparr>dv_confirmed := True, dv_last_t := 100, dv_confirmed_at := Some 3000000002, dv_last_used := Some 3000000002\<rparr>],
    i_codes = map (\<lambda>c. \<lparr>rc_profile = ''p1'', rc_batch = ''b1'', rc_public = replicate 8 c,
       rc_secret = ''h:'' @ replicate 8 c @ ''-QQQQQQQQQQQQQQQQQQQQQQQQQQ'', rc_consumed = None, rc_invalidated = None\<rparr>) ''ABCDEFGHIJ'',
    i_sessions = [\<lparr>se_pk = ''s1'', se_profile = ''p1'', se_mfa = Some 3000000002, se_absolute_expires = Some 46200000002,
       se_expires = Some 4800000002, se_revoked = None, se_restricted = False, os_key = ''k2'', os_authenticated = Some 3000000002,
       os_activity = Some 3000000002, os_fresh = None, os_label = ''browser'', os_agent = ''browser'', os_ip = Some ''10.0.0.1'', os_created = 3000000002\<rparr>],
    i_events = demo_log @ [demo_event ''s1k2'' ''owner_totp_enrollment_confirmed'' ''totp_device'' ''d1'' (Some ''s1'') 3000000002],
    i_web = [\<lparr>ws_key = ''k2'', ws_user = Some 1, ws_preauth = None, ws_admin = Some ''s1''\<rparr>], i_limits = [],
    i_rq = \<lparr>rq_key = Some ''k2'', rq_user = Some 1, rq_preauth = None, rq_admin = Some ''s1'', rq_agent = ''browser'',
       rq_peer = Some ''10.0.0.1'', rq_forwarded = None, rq_meta = None\<rparr>\<rparr>"

lemma demo_4_state: "demo_4 = demo_state"
  by code_simp

lemma demo_run_state: "(id_step demo_env)\<^sup>*\<^sup>* demo_0 demo_state"
  using demo_run_4 by (simp add: demo_4_state)

lemma demo_accepts: "rq_meta (i_rq (process_request demo_env 3030000000 (Some ''k2'') ''browser'' (Some ''10.0.0.1'') None demo_state)) = Some ''s1''"
  by code_simp

section \<open>Sessions\<close>


definition demo_logout :: idw where
  "demo_logout = fst (handle_request demo_env 3030000000 (demo_draws ''k3'' ''s2'') (demo_http (Some ''k2'') []) Logout demo_state)"

lemma demo_run_logout: "(id_step demo_env)\<^sup>*\<^sup>* demo_0 demo_logout"
  using demo_run_state id_step.request unfolding demo_logout_def by (rule rtranclp.rtrancl_into_rtrancl)

lemma demo_logout_revoked: "map_option se_revoked (tfind se_pk ''s1'' (i_sessions demo_logout)) = Some (Some 3030000000)"
  by code_simp

theorem revoked_session_dead_witness:
  "rq_meta (i_rq (process_request demo_env 3040000000 (Some ''k2'') [] None None (fst (purge_command 3030000001 (\<lambda>k. False) demo_logout)))) \<noteq> Some ''s1''"
proof -
  obtain se where "tfind se_pk ''s1'' (i_sessions demo_logout) = Some se" "se_revoked se \<noteq> None" using demo_logout_revoked by auto
  from revoked_session_dead [OF demo_init demo_run_logout this r_into_rtranclp [of "id_step demo_env", OF id_step.purge]] show ?thesis .
qed


section \<open>Credentials\<close>

definition demo_code :: string where
  "demo_code = ''aaaaaaaa-QQQQQQQQQQQQQQQQQQQQQQQQQQ''"

definition demo_consumed :: "idw \<times> (id_error + recovery_code)" where
  "demo_consumed = consume_recovery_code demo_env 3030000000 ''p1'' demo_code demo_state"

lemma demo_consumed_ok: "snd demo_consumed = Inr ((hd (i_codes demo_state))\<lparr>rc_consumed := Some 3030000000\<rparr>)"
  by code_simp

theorem recovery_code_single_use_witness:
  "snd (consume_recovery_code demo_env 3030000001 ''p1'' demo_code (fst (purge_command 3030000001 (\<lambda>k. False) (fst demo_consumed)))) = Inl VerificationFailed"
proof -
  have "consume_recovery_code demo_env 3030000000 ''p1'' demo_code demo_state = (fst demo_consumed, Inr ((hd (i_codes demo_state))\<lparr>rc_consumed := Some 3030000000\<rparr>))"
    using demo_consumed_ok by (simp add: demo_consumed_def prod_eq_iff)
  from recovery_code_single_use [OF demo_init demo_run_state this r_into_rtranclp [of "id_step demo_env", OF id_step.purge] refl] show ?thesis .
qed

definition demo_verified :: "idw \<times> (id_error + totp_device)" where
  "demo_verified = verify_totp demo_env 3030000000 ''d1'' ''000101'' False demo_state"

definition demo_verified_again :: "idw \<times> (id_error + totp_device)" where
  "demo_verified_again = verify_totp demo_env 3060000000 ''d1'' ''000102'' False (fst demo_verified)"

lemma demo_verified_ok:
  "snd demo_verified = Inr (used_device 3030000000 (101, 0) (hd (i_devices demo_state)))"
  "snd demo_verified_again = Inr (used_device 3060000000 (102, 0) (hd (i_devices demo_state)))"
  by code_simp+

theorem totp_step_single_use_witness:
  "dv_last_t (used_device 3030000000 (101, 0) (hd (i_devices demo_state))) < dv_last_t (used_device 3060000000 (102, 0) (hd (i_devices demo_state)))"
proof -
  have f: "totp_forward demo_env" by (simp add: totp_forward_def demo_env_def)
  have 1: "verify_totp demo_env 3030000000 ''d1'' ''000101'' False demo_state = (fst demo_verified, Inr (used_device 3030000000 (101, 0) (hd (i_devices demo_state))))"
    using demo_verified_ok(1) by (simp add: demo_verified_def prod_eq_iff)
  have 2: "verify_totp demo_env 3060000000 ''d1'' ''000102'' False (fst demo_verified)
      = (fst demo_verified_again, Inr (used_device 3060000000 (102, 0) (hd (i_devices demo_state))))"
    using demo_verified_ok(2) by (simp add: demo_verified_again_def prod_eq_iff)
  show ?thesis by (rule totp_step_single_use [OF f 1 rtranclp.rtrancl_refl 2])
qed

definition demo_recovered :: "idw \<times> (id_error + owner_session)" where
  "demo_recovered = complete_recovery_authentication demo_env 3030000000 (demo_draws ''k3'' ''s2'') (hd (i_profiles demo_state)) demo_code demo_state"

definition demo_locked :: idw where
  "demo_locked = (fst demo_recovered)\<lparr>i_rq := no_request\<lparr>rq_preauth := Some \<lparr>pa_owner = ''p1'', pa_issued = 3040000000, pa_expires = 3340000000\<rparr>\<rparr>\<rparr>"

lemma demo_locked_owner: "preauthenticated_profile 3040000001 demo_locked = (demo_locked, Inr (Some \<lparr>pf_pk = ''p1'', pf_user = 1, pf_status = ''recovery_required''\<rparr>))"
  by code_simp

theorem recovery_locks_out_witness:
  "\<exists>r. run_view demo_env 3040000001 (demo_draws ''k5'' ''s5'') (demo_http None [(''token'', JStr ''000101'')]) TotpChallenge demo_locked = (demo_locked, Inr r) \<and> rs_status r = 401"
  by (rule recovery_locks_out [OF _ _ demo_locked_owner]) (simp_all add: demo_env_def demo_locked_def no_request_def)

section \<open>Limits\<close>


end
