(* ===== verification/Spec2Isabelle.thy ===== *)
theory Spec2Isabelle
  imports Vault_Demo Hermes_Demo Launch_Eval Demo_Path Budget_Inv Tool_Schemas Broker_Run Identity_Demo
begin

text \<open>
  CivicLoop: a verification library of the backend's core.

  CivicLoop prepares the launch of an event: a deterministic engine builds a campaign package from the
  facts of an event, a workflow takes the package through questions, review and approval, a Hermes agent
  run proposes drafts within a monthly budget through a broker with exact tool contracts, and provider
  drafts (Eventbrite events, Iterable templates and campaigns) are written only after the owner approved
  the exact request.  The code is under \<open>src/backend\<close>, the offline evaluator under \<open>src/loops/launchloop\<close>.

  \<^bold>\<open>Conventions.\<close>  Python values are the datatype \<open>json\<close>, exceptions the left side of a sum, tables lists of
  records with a primary key.  An operation is the whole transaction: it returns the exception or the
  new database.  What the code does not contain is an argument: the SHA-256 digest and float formatting
  (\<open>py_env\<close>), the time zone database, the providers (functions from the requests sent so far to what comes
  back), leases, generated ids and secrets, password hashing, the TOTP generator and the clock.  Strings are texts over U+0000 to U+00FF.  There is no fuel:
  every loop is structural or over a finite list.

  \<^bold>\<open>The theories.\<close>
  \<^item> \<open>CL_Prelude\<close>: results, tables, sums of a column, and the locale \<open>state_machine\<close> (invariants of reachable
    states), interpreted on the workflow site, the budget, the draft operations, the broker, the lane, identity and the vault.
  \<^item> \<open>Py_Values\<close>, \<open>Float64\<close>: Python's values, text functions, JSON printing and binary64 arithmetic.
  \<^item> \<open>Launch_Engine\<close> (\<open>launchloop/engine.py\<close>): \<open>prepare_package\<close>; when a package is ready, which questions it
    asks, when the code raises, and that the sponsor price is the correctly rounded one.
  \<^item> \<open>Launch_Eval\<close> (\<open>loops/launchloop/launchloop.py\<close>): the evaluator; readiness is the absence of risk flags,
    and a consequential request is always escalated.
  \<^item> \<open>Owner_Events\<close> (\<open>launchloop/owner_events.py\<close>): fact validation and the owner package.
  \<^item> \<open>Workflow\<close>, \<open>Workflow_Inv\<close>, \<open>Pilot\<close>, \<open>Demo_Path\<close> (\<open>launchloop/models.py\<close>, \<open>services.py\<close>, \<open>pilot.py\<close>): the
    workflow state machine, the Eventbrite catalogue and the owner's editor, the invariant that ties
    status, package, approval and execution together, and the properties of every reachable state.
  \<^item> \<open>Budget\<close>, \<open>Budget_Inv\<close> (\<open>agents/budgets.py\<close>, the budget tables of \<open>agents/models.py\<close>): reservations,
    settlement and expiry; the limit is never exceeded and the ledger mirrors the reservations.
  \<^item> \<open>Tool_Schemas\<close> (\<open>agents/tool_schemas.py\<close>): bounded encoding and exact validation of tool arguments.
  \<^item> \<open>Request_Log\<close>: the contract of a provider client, the locale \<open>request_log\<close>, interpreted on the Eventbrite
    client (here) and on both Iterable clients.
  \<^item> \<open>Eventbrite_Draft\<close> (\<open>integrations/eventbrite_drafts.py\<close>) and \<open>Iterable_Drafts\<close> (\<open>iterable_drafts.py\<close>,
    \<open>iterable_templates.py\<close>): payload contracts, digests, rendering and the adapters; at most one write per
    call, and a confirmed receipt means a matching readback.
  \<^item> \<open>Draft_Models\<close> (\<open>integrations/models.py\<close>): the execution tables, their check constraints and guarded
    \<open>save\<close> (locale \<open>guarded_save\<close>); \<open>Draft_Ops\<close> (\<open>integrations/draft_operations.py\<close>): submission, approval,
    dispatch and reconciliation; \<open>Draft_Inv\<close>, \<open>Draft_Props\<close>: the operations as a state machine with requests
    in flight, at-most-once dispatch, immutability of what was approved, and what a claim rests on.
  \<^item> \<open>Capability_Token\<close>, \<open>Broker\<close> (\<open>agents/capabilities.py\<close>, \<open>agents/mcp.py\<close>): the bearer token with its base64
    text, capabilities and every tool of the broker; \<open>Broker_Inv\<close>, \<open>Broker_Props\<close>, \<open>Broker_Run\<close>: the broker as a
    state machine, the scope and the single effect of a call, revocation, the origin of intents, exactly
    which of them the draft operations accept, and a concrete run.
  \<^item> \<open>Hermes_Models\<close>, \<open>Hermes_Run\<close>, \<open>Hermes_Result\<close> (\<open>agents/tasks.py\<close>, the run tables of \<open>agents/models.py\<close>): the lane of
    agent runs, from the idempotent start over the worker's transactions to cancellation, failure and the
    acceptance of a result; \<open>Budget_Frame\<close>: what a budget operation leaves alone; \<open>Hermes_Inv\<close>, \<open>Hermes_Keeps\<close>,
    \<open>Hermes_Admit\<close>: the invariant over the run, its binding, control, reservation, capability and log, and how
    each operation keeps it; \<open>Hermes_Machine\<close>, \<open>Hermes_Props\<close>: the lane as a state machine with workers in
    flight and the rest of the application as a rely condition, one active run, ended runs closed for good,
    failures that always end, and accepted operations that the draft operations accept; \<open>Hermes_Sample\<close>,
    \<open>Hermes_Demo\<close>: a concrete run from the start to the accepted result.
  \<^item> \<open>Identity_Crypto\<close>, \<open>Identity\<close>, \<open>Identity_Auth\<close>, \<open>Identity_Views\<close> (\<open>identity/crypto.py\<close>, \<open>models.py\<close>, \<open>rate_limits.py\<close>,
    \<open>services/*.py\<close>, \<open>views.py\<close>, \<open>middleware.py\<close> and the commands): the owner's login with password, authenticator
    and recovery codes, its sessions, security actions and log, as programs that return or raise with
    transactions that roll back; \<open>Identity_Inv\<close>, \<open>Identity_Run\<close>: a weakest-precondition calculus and the
    invariant of every request and command; \<open>Identity_Hist\<close>: what is never taken back (locale \<open>history\<close>);
    \<open>Identity_Props\<close>, \<open>Identity_Limits\<close>, \<open>Identity_Demo\<close>: which sessions are accepted, single use of codes and
    time steps, the security log, rate limits, pagination, and a concrete run.
  \<^item> \<open>Secret_Crypto\<close> (\<open>integrations/crypto.py\<close>), \<open>Vault\<close> (the secret, connection and health tables of
    \<open>integrations/models.py\<close>, \<open>secret_store.py\<close>), \<open>Vault_Lease\<close> (the leases of \<open>secret_store.py\<close>, \<open>types.py\<close>),
    \<open>Vault_Probe\<close> (\<open>providers.py\<close>, \<open>transport.py\<close>), \<open>Vault_Services\<close> (\<open>services.py\<close>): the provider credentials, from the
    envelope over the connection an owner configures, tests and disables, to the lease that exposes a
    credential; \<open>Vault_Inv\<close>, \<open>Vault_Machine\<close>: the invariant, and the step relation \<open>vault_step\<close>, whose state
    holds the tests under way beside the tables; \<open>Vault_Props\<close>: version conflicts, verdicts that stay true of what
    is stored, and the stored credential coming back; \<open>Vault_Session\<close>: the life of one lease (\<open>lease_step\<close>);
    \<open>Vault_Drafts\<close>: the store against the draft operations and the identity application; \<open>Vault_Demo\<close>: a
    concrete run.

  This theory composes the layers: the dispatch of a draft with the adapter and the stored row.

  \<^bold>\<open>Not modelled.\<close>  The HTTP views of the other applications; the HTTP exchange of the adapters with the
  providers (an adapter takes the opened lease as an argument); the HTTP transport of the broker's MCP server; the Hermes client and
  runtime and the model gateway; the model-based judge; telemetry export; migrations, scripts and the
  front end.
\<close>

section \<open>From an approved row to a confirmed draft\<close>

interpretation eventbrite_log: request_log allowed is_post send
  using send_cases by unfold_locales blast

lemma create_exchange:
  assumes "create e zone pr l org payload sent = (sent', Inr rc)"
  shows "\<exists>v. validate_payload e zone True payload = Inr v
    \<and> exchange_ok e pr org v (\<lambda>r. r = Post (OrganizationEvents org) v) sent (sent', Inr rc)"
proof -
  obtain v dg where "validate_payload e zone True payload = Inr v" "create_execute e pr org v dg sent = (sent', Inr rc)"
    using assms by (auto simp: create_def with_token_def try_bind_def split: sum.splits if_splits)
  then show ?thesis using create_execute_ok [of e pr org v sent dg] by auto
qed

lemma update_exchange:
  assumes "update e zone pr l org i payload expected sent = (sent', Inr rc)"
  shows "\<exists>v. validate_payload e zone False payload = Inr v
    \<and> exchange_ok e pr org v (\<lambda>r. r = Post (EventPath i) v) sent (sent', Inr rc)"
proof -
  obtain v dg where "validate_payload e zone False payload = Inr v" "update_execute e pr org i v dg expected sent = (sent', Inr rc)"
    using assms by (auto simp: update_def with_token_def try_bind_def split: sum.splits if_splits)
  then show ?thesis using update_execute_ok [of e pr org v i sent dg expected] by auto
qed

lemma dispatch_exchange:
  assumes "dispatch_draft e zone now pr l x s sent = (sent', Got rc)"
  shows "\<exists>v. validate_payload e zone (dx_action x = ''create'') (dx_payload x) = Inr v
    \<and> exchange_ok e pr (dx_organization x) v
        (\<lambda>r. r = Post (if dx_action x = ''create'' then OrganizationEvents (dx_organization x) else EventPath (dx_event x)) v)
        sent (sent', Inr rc)"
proof (cases "dx_action x = ''create''")
  case True
  then have "\<exists>cred. create e zone pr cred (dx_organization x) (dx_payload x) sent = (sent', Inr rc)"
    using assms by (auto simp: dispatch_draft_def split: option.splits sum.splits prod.splits draft_error.splits)
  with True create_exchange show ?thesis by fastforce
next
  case False
  then have "\<exists>cred. update e zone pr cred (dx_organization x) (dx_event x) (dx_payload x) (dx_expected x) sent = (sent', Inr rc)"
    using assms by (auto simp: dispatch_draft_def split: option.splits sum.splits prod.splits draft_error.splits)
  with False update_exchange show ?thesis by fastforce
qed

lemma finish_succeeded:
  assumes "Draft_Inv.tables_ok s" and "tfind dx_pk (dx_pk x) (table_of DraftKind s) = Some y" and "dispatched y"
    and "finish_draft now x r s = Some s'" and "tfind dx_pk (dx_pk x) (table_of DraftKind s') = Some z" and "dx_status z = DX_SUCCEEDED"
  shows "\<exists>rc. r = Got rc \<and> outcome rc = ''CONFIRMED'' \<and> z = with_receipt now rc x"
proof -
  have marked: "dx_status z \<noteq> DX_SUCCEEDED" if "update_row DraftKind (dx_pk x) (mark st c now) s = Some s'" "st \<in> {DX_UNKNOWN, DX_FAILED}" for st c
    using update_row_ok [OF assms(1-3) that(2), of c now] that assms(5) by (auto simp: mark_def)
  obtain rc where rc: "r = Got rc" "store_receipt now x rc s = Inr s'"
    using assms(4,6) marked by (auto simp: finish_draft_def Let_def split: outcome.splits sum.splits if_splits)
  then have w: "save_row DraftKind (with_receipt now rc x) s = Inr s'" by (simp add: store_receipt_def split: if_splits)
  have "z = with_receipt now rc x" using save_row_ok [OF assms(1) w] assms(5) by simp
  with assms(6) rc show ?thesis by (auto simp: with_receipt_def split: if_splits)
qed

text \<open>
  C17: A draft that ends as succeeded really is there as reviewed.  When the dispatch of an Eventbrite draft
  ends with its row succeeded, that row was approved before the call; the call sent at most one write, of the
  stored and validated payload to the stored target; and the stored receipt is the one of a readback in
  which the provider returned an unpublished draft of the stored organization that agrees with the payload.
\<close>

theorem succeeded_draft_was_read_back:
  assumes "Draft_Inv.tables_ok s" and "execute_eventbrite e zone now atomic pr l user sid pk s sent = (sent', Inr (Some s'))"
    and "tfind dx_pk pk (table_of DraftKind s') = Some z" and "dx_status z = DX_SUCCEEDED"
  shows "\<exists>x v rc news. tfind dx_pk pk (table_of DraftKind s) = Some x \<and> dx_status x = DX_APPROVED
    \<and> validate_payload e zone (dx_action x = ''create'') (dx_payload x) = Inr v
    \<and> sent' = sent @ news \<and> length (filter is_post news) \<le> 1
    \<and> (\<forall>r \<in> set news. is_post r \<longrightarrow>
         r = Post (if dx_action x = ''create'' then OrganizationEvents (dx_organization x) else EventPath (dx_event x)) v)
    \<and> dx_receipt z = Some rc \<and> read_back e pr (dx_organization x) v sent' rc"
proof -
  obtain y s1 r where c: "claim_draft e zone now atomic user sid pk s = Inr (y, s1)"
    and d: "dispatch_draft e zone now pr l y s1 sent = (sent', r)" and f: "finish_draft now y r s1 = Some s'"
    using assms(2) by (auto simp: execute_eventbrite_def split: sum.splits prod.splits)
  obtain x where x: "claim_facts e zone now DraftKind user pk s x y s1" using claim_draft_facts [OF c] ..
  then have y: "save_row DraftKind y s = Inr s1" "dispatched y" "dx_pk y = pk" "dx_action y = dx_action x" "dx_payload y = dx_payload x"
    "dx_organization y = dx_organization x" "dx_event y = dx_event x"
    by (auto simp: claim_facts_def dispatched_def review_fields_def)
  note s1 = save_row_ok [OF assms(1) y(1)]
  obtain rc where rc: "r = Got rc" "outcome rc = ''CONFIRMED''" "z = with_receipt now rc y"
    using finish_succeeded [of s1 y y now r s' z] s1 y f assms(3,4) by auto
  obtain v where v: "validate_payload e zone (dx_action x = ''create'') (dx_payload x) = Inr v"
    "exchange_ok e pr (dx_organization x) v
       (\<lambda>q. q = Post (if dx_action x = ''create'' then OrganizationEvents (dx_organization x) else EventPath (dx_event x)) v) sent (sent', Inr rc)"
    using dispatch_exchange [of e zone now pr l y s1 sent sent' rc, unfolded y(4-7)] d rc(1) by blast
  have "dx_receipt z = Some rc" using rc by (simp add: with_receipt_def)
  with v rc(2) x show ?thesis unfolding exchange_ok_def claim_facts_def by auto
qed


section \<open>The concrete run, to its receipt\<close>

definition run_log :: "request list" where
  "run_log = [Post (OrganizationEvents ''1'') (as_payload private_event), Get (EventPath ''7'')]"

lemma run_create:
  "create fixed_env any_zone steady write_lease ''1'' (as_payload private_event) [] = (run_log, Inr steady_receipt)"
  by (simp add: create_def valid_payloads try_bind_def compute_request_digest_def steady_reads with_token_def run_log_def
      create_execute_def send_def steady_def confirm_def steady_digest readback_digest_def steady_receipt_def)

lemma run_dispatch:
  "dispatch_draft fixed_env any_zone 6 steady (Some write_lease) claimed_row (run_db\<lparr>drafts := [claimed_row]\<rparr>) [] =
     (run_log, Got steady_receipt)"
proof -
  have "dx_action claimed_row = ''create''" "dx_organization claimed_row = ''1''" "dx_payload claimed_row = as_payload private_event"
    "eventbrite_enabled run_db"
    by (simp_all add: claimed_row_def approved_row_def Draft_Props.run_row_def new_row_def run_db_def)
  then show ?thesis by (simp add: dispatch_draft_def run_validates run_create demand_def)
qed

lemma run_finish:
  "finish_draft 6 claimed_row (Got steady_receipt) (run_db\<lparr>drafts := [claimed_row]\<rparr>) =
     Some (run_db\<lparr>drafts := [with_receipt 6 steady_receipt claimed_row]\<rparr>)"
proof -
  let ?z = "with_receipt 6 steady_receipt claimed_row"
  have f: "outcome steady_receipt = ''CONFIRMED''" "receipt_id steady_receipt = ''7''" "r_request_digest steady_receipt = a_digest"
    "r_readback_digest steady_receipt = Some a_digest" "r_provider_status steady_receipt = Some ''draft''" "a_digest \<noteq> []"
    "r_error_category steady_receipt = None"
    by (simp_all add: steady_receipt_def receipt_confirmed_def receipt_id_def a_digest_def)
  have "dx_request claimed_row = a_digest" "dx_provider claimed_row = []" "dx_action claimed_row = ''create''"
    by (simp_all add: claimed_row_def approved_row_def Draft_Props.run_row_def new_row_def)
  moreover have "may_become claimed_row ?z" "constraints_ok ?z"
    by (simp_all add: with_receipt_def f may_become_def review_fields_def approval_fields_def constraints_ok_def
        approval_required_def execution_lifecycle_def claimed_row_def approved_row_def Draft_Props.run_row_def new_row_def)
  ultimately show ?thesis
    using run_save [of claimed_row ?z] run_rows_ok by (simp add: finish_draft_def store_receipt_def receipt_ok_def f)
qed

lemma run_execute:
  "execute_eventbrite fixed_env any_zone 6 False steady (Some write_lease) (Some 2) ''z'' ''x'' (run_db\<lparr>drafts := [approved_row]\<rparr>) [] =
     (run_log, Inr (Some (run_db\<lparr>drafts := [with_receipt 6 steady_receipt claimed_row]\<rparr>)))"
  by (simp add: execute_eventbrite_def run_claim run_dispatch run_finish)

theorem succeeded_draft_was_read_back_witness:
  "\<exists>v rc. validate_payload fixed_env any_zone True (as_payload private_event) = Inr v
     \<and> read_back fixed_env steady ''1'' v run_log rc"
proof -
  have t: "Draft_Inv.tables_ok (run_db\<lparr>drafts := [approved_row]\<rparr>)"
    using run_rows_ok by (simp add: Draft_Inv.tables_ok_def rows_ok_def keys_ok_def table_of_def run_db_def split: dx_kind.splits)
  have z: "tfind dx_pk ''x'' (table_of DraftKind (run_db\<lparr>drafts := [with_receipt 6 steady_receipt claimed_row]\<rparr>)) =
      Some (with_receipt 6 steady_receipt claimed_row)"
    by (simp add: table_of_def run_rows_ok)
  have st: "dx_status (with_receipt 6 steady_receipt claimed_row) = DX_SUCCEEDED"
    by (simp add: with_receipt_def steady_receipt_def receipt_confirmed_def)
  have "dx_action approved_row = ''create''" "dx_organization approved_row = ''1''" "dx_payload approved_row = as_payload private_event"
    by (simp_all add: approved_row_def Draft_Props.run_row_def new_row_def)
  then show ?thesis
    using succeeded_draft_was_read_back [OF t run_execute z st] by (auto simp: table_of_def run_rows_ok)
qed

end
